(* ===== verification/Prelude.thy ===== *)
theory Prelude
  imports Main "HOL-Library.State_Monad"
begin

section \<open>Shared vocabulary of the development\<close>

text \<open>
  What every component uses: JavaScript strings and the string methods the sources call,
  the shape of asynchronous store actions as state monads, and the lemma collections.

  A JavaScript string is a \<^typ>\<open>string\<close>: a list of code units, here those of the range
  U+0000 to U+00FF (one \<^typ>\<open>char\<close> each). \<open>undefined\<close> and absent properties are
  \<^const>\<open>None\<close>; a string is falsy exactly when it is empty. A rejected promise or a thrown
  \<open>Error\<close> is the left side of a sum and carries the error's message.

  An asynchronous action is a state monad over the whole application context. A backend call
  is an argument of the action and may change the \<^emph>\<open>whole\<close> context: while the action
  waits for it, other actions may run. So a theorem that says nothing about the calls holds
  under every interleaving at the \<open>await\<close> points; where a theorem needs a call to leave
  a store alone, it says so as a hypothesis.
\<close>

named_theorems run_simps \<open>how the monadic building blocks run\<close>
named_theorems frame_simps \<open>what an operation leaves unchanged\<close>
named_theorems str_simps \<open>string helpers of the sources, unfolded on demand\<close>

subsection \<open>Characters and strings\<close>

definition code :: "char \<Rightarrow> nat" where
  "code c = of_char c"

text \<open>The white space that \<open>String.prototype.trim\<close> and \<open>\s\<close> recognise in this range.\<close>

definition is_space :: "char \<Rightarrow> bool" where
  "is_space c \<longleftrightarrow> code c \<in> {9, 10, 11, 12, 13, 32, 160}"

definition is_digit :: "char \<Rightarrow> bool" where
  "is_digit c \<longleftrightarrow> 48 \<le> code c \<and> code c \<le> 57"

definition is_lower :: "char \<Rightarrow> bool" where
  "is_lower c \<longleftrightarrow> 97 \<le> code c \<and> code c \<le> 122"

definition is_upper :: "char \<Rightarrow> bool" where
  "is_upper c \<longleftrightarrow> 65 \<le> code c \<and> code c \<le> 90"

text \<open>\<open>toLowerCase\<close> on one code unit: ASCII and the Latin-1 capitals.\<close>

definition lower_char :: "char \<Rightarrow> char" where
  "lower_char c =
     (if is_upper c \<or> (192 \<le> code c \<and> code c \<le> 222 \<and> code c \<noteq> 215)
      then char_of (code c + 32) else c)"

definition toLowerCase :: "string \<Rightarrow> string" where
  "toLowerCase s = map lower_char s"

definition trimStart :: "string \<Rightarrow> string" where
  "trimStart s = dropWhile is_space s"

definition trim :: "string \<Rightarrow> string" where
  "trim s = rev (trimStart (rev (trimStart s)))"

text \<open>\<open>s.split(c)\<close> for a separator of one code unit; \<open>''.split(c)\<close> is \<open>['']\<close>.\<close>

fun split_on :: "char \<Rightarrow> string \<Rightarrow> string list" where
  "split_on c [] = [[]]"
| "split_on c (x # xs) =
     (if x = c then [] # split_on c xs
      else (case split_on c xs of [] \<Rightarrow> [[x]] | y # ys \<Rightarrow> (x # y) # ys))"

text \<open>\<open>xs.join(sep)\<close>.\<close>

fun join :: "string \<Rightarrow> string list \<Rightarrow> string" where
  "join sep [] = []"
| "join sep [x] = x"
| "join sep (x # y # ys) = x @ sep @ join sep (y # ys)"

definition newline :: char where
  "newline = CHR 0x0A"

abbreviation join_lines :: "string list \<Rightarrow> string" where
  "join_lines \<equiv> join [newline]"

abbreviation split_lines :: "string \<Rightarrow> string list" where
  "split_lines \<equiv> split_on newline"

fun startsWith :: "string \<Rightarrow> string \<Rightarrow> bool" where
  "startsWith s [] = True"
| "startsWith [] (p # ps) = False"
| "startsWith (x # xs) (p # ps) = (x = p \<and> startsWith xs ps)"

definition endsWith :: "string \<Rightarrow> string \<Rightarrow> bool" where
  "endsWith s p = startsWith (rev s) (rev p)"

text \<open>\<open>s.indexOf(p)\<close>: the least index at which \<open>p\<close> starts, if any.\<close>

fun indexOf :: "string \<Rightarrow> string \<Rightarrow> nat option" where
  "indexOf [] p = (if p = [] then Some 0 else None)"
| "indexOf (x # xs) p =
     (if startsWith (x # xs) p then Some 0 else map_option Suc (indexOf xs p))"

definition includes_str :: "string \<Rightarrow> string \<Rightarrow> bool" where
  "includes_str s p = (indexOf s p \<noteq> None)"

text \<open>\<open>a || b\<close> on strings and optional strings, and \<open>a ?? b\<close>.\<close>

definition or_str :: "string \<Rightarrow> string \<Rightarrow> string" where
  "or_str a b = (if a = [] then b else a)"

fun opt_or_str :: "string option \<Rightarrow> string \<Rightarrow> string" where
  "opt_or_str None b = b"
| "opt_or_str (Some a) b = or_str a b"

fun nullish :: "'a option \<Rightarrow> 'a \<Rightarrow> 'a" where
  "nullish None b = b"
| "nullish (Some a) b = a"

text \<open>Decimal rendering of a natural number, as template literals print integers.\<close>

fun show_nat :: "nat \<Rightarrow> string" where
  "show_nat n =
     (if n < 10 then [char_of (48 + n)] else show_nat (n div 10) @ [char_of (48 + n mod 10)])"

declare show_nat.simps [simp del]

definition show_int :: "int \<Rightarrow> string" where
  "show_int i = (if i < 0 then ''-'' @ show_nat (nat (- i)) else show_nat (nat i))"

subsection \<open>Splitting and joining\<close>

lemma split_on_neq_Nil [simp]: "split_on c s \<noteq> []"
  by (induction s) (auto split: list.splits)

lemma split_on_cons_other:
  "x \<noteq> c \<Longrightarrow> split_on c (x # s) = (x # hd (split_on c s)) # tl (split_on c s)"
  by (cases "split_on c s") auto

lemma split_on_no_sep: "c \<notin> set s \<Longrightarrow> split_on c s = [s]"
  by (induction s) auto

lemma split_on_sep: "c \<notin> set s \<Longrightarrow> split_on c (s @ c # t) = s # split_on c t"
  by (induction s) auto

lemma split_on_parts: "p \<in> set (split_on c s) \<Longrightarrow> c \<notin> set p"
proof (induction s arbitrary: p)
  case Nil
  then show ?case by simp
next
  case (Cons x s)
  then show ?case
    by (cases "split_on c s") (auto split: if_splits)
qed

lemma join_Cons: "xs \<noteq> [] \<Longrightarrow> join sep (x # xs) = x @ sep @ join sep xs"
  by (cases xs) auto

lemma join_split_on: "join [c] (split_on c s) = s"
proof (induction s)
  case Nil
  show ?case by simp
next
  case (Cons x s)
  then show ?case
    by (cases "split_on c s"; cases "tl (split_on c s)") (auto simp: join_Cons)
qed

text \<open>Joining loses nothing when no part contains the separator and there is a part.\<close>

lemma split_on_join:
  "xs \<noteq> [] \<Longrightarrow> (\<And>x. x \<in> set xs \<Longrightarrow> c \<notin> set x) \<Longrightarrow> split_on c (join [c] xs) = xs"
  by (induction "[c]" xs rule: join.induct) (auto simp: split_on_no_sep split_on_sep)

lemma set_join: "set (join sep xs) \<subseteq> (\<Union>x\<in>set xs. set x) \<union> set sep"
  by (induction sep xs rule: join.induct) auto

lemma join_snoc: "xs \<noteq> [] \<Longrightarrow> join sep (xs @ [x]) = join sep xs @ sep @ x"
  by (induction sep xs rule: join.induct) auto

lemma join_eq_Nil_iff: "join [c] xs = [] \<longleftrightarrow> xs = [] \<or> xs = [[]]"
  by (induction "[c]" xs rule: join.induct) auto

subsection \<open>Prefixes, suffixes, substrings\<close>

lemma startsWith_iff: "startsWith s p \<longleftrightarrow> (\<exists>t. s = p @ t)"
  by (induction s p rule: startsWith.induct) auto

lemma endsWith_iff: "endsWith s p \<longleftrightarrow> (\<exists>t. s = t @ p)"
  unfolding endsWith_def startsWith_iff
  by (metis rev_append rev_rev_ident)

lemma indexOf_SomeD: "indexOf s p = Some i \<Longrightarrow> startsWith (drop i s) p \<and> i \<le> length s"
  by (induction s p arbitrary: i rule: indexOf.induct) (auto split: if_splits)

lemma indexOf_NoneD: "indexOf s p = None \<Longrightarrow> \<not> startsWith (drop i s) p"
proof (induction s p arbitrary: i rule: indexOf.induct)
  case (1 p)
  then show ?case by (cases p) (auto split: if_splits)
next
  case (2 x xs p)
  then show ?case by (cases i) (auto split: if_splits)
qed

lemma includes_str_iff: "includes_str s p \<longleftrightarrow> (\<exists>a b. s = a @ p @ b)"
proof
  assume "includes_str s p"
  then obtain i where "indexOf s p = Some i" by (auto simp: includes_str_def)
  then have "startsWith (drop i s) p" by (simp add: indexOf_SomeD)
  then obtain b where "drop i s = p @ b" by (auto simp: startsWith_iff)
  then show "\<exists>a b. s = a @ p @ b" by (metis append_take_drop_id)
next
  assume "\<exists>a b. s = a @ p @ b"
  then obtain a b where s: "s = a @ p @ b" by blast
  show "includes_str s p"
  proof (rule ccontr)
    assume "\<not> includes_str s p"
    then have "indexOf s p = None" by (simp add: includes_str_def)
    then have "\<not> startsWith (drop (length a) s) p" by (rule indexOf_NoneD)
    with s show False by (simp add: startsWith_iff)
  qed
qed

lemma includes_char_iff [simp]: "includes_str s [c] \<longleftrightarrow> c \<in> set s"
proof
  show "includes_str s [c] \<Longrightarrow> c \<in> set s" by (auto simp: includes_str_iff)
next
  assume "c \<in> set s"
  then obtain a b where "s = a @ c # b" by (auto simp: in_set_conv_decomp)
  then have "s = a @ [c] @ b" by simp
  then show "includes_str s [c]" unfolding includes_str_iff by blast
qed

subsection \<open>Splitting at a string\<close>

text \<open>\<open>s.split(sep)\<close> for a separator of any length.\<close>

lemma startsWith_length: "startsWith s p \<Longrightarrow> length p \<le> length s"
  by (induction s p rule: startsWith.induct) auto

lemma indexOf_room: "indexOf s p = Some i \<Longrightarrow> i + length p \<le> length s"
proof -
  assume "indexOf s p = Some i"
  then have "startsWith (drop i s) p" "i \<le> length s" by (simp_all add: indexOf_SomeD)
  with startsWith_length [of "drop i s" p] show ?thesis by simp
qed

function splitStr :: "string \<Rightarrow> string \<Rightarrow> string list" where
  "splitStr sep s =
     (if sep = [] then map (\<lambda>c. [c]) s
      else case indexOf s sep of
             None \<Rightarrow> [s]
           | Some i \<Rightarrow> take i s # splitStr sep (drop (i + length sep) s))"
  by pat_completeness auto
termination
proof (relation "measure (\<lambda>(sep, s). length s)")
  fix sep s i
  assume "sep \<noteq> ([]::string)" "indexOf s sep = Some i"
  then have "0 < length sep" "i + length sep \<le> length s" using indexOf_room by auto
  then show "((sep, drop (i + length sep) s), sep, s) \<in> measure (\<lambda>(sep, s). length s)"
    by (simp add: less_eq_Suc_le)
qed simp

declare splitStr.simps [simp del]

lemma splitStr_neq_Nil [simp]: "sep \<noteq> [] \<Longrightarrow> splitStr sep s \<noteq> []"
  by (subst splitStr.simps) (simp split: option.splits)

lemma join_splitStr: "sep \<noteq> [] \<Longrightarrow> join sep (splitStr sep s) = s"
proof (induction sep s rule: splitStr.induct)
  case (1 sep s)
  show ?case
  proof (cases "indexOf s sep")
    case None
    with "1.prems" show ?thesis by (subst splitStr.simps) simp
  next
    case (Some i)
    then obtain t where t: "drop i s = sep @ t" using indexOf_SomeD startsWith_iff by blast
    then have "drop (i + length sep) s = t" by (metis append_eq_conv_conj drop_drop add.commute)
    with 1 Some t show ?thesis
      by (subst splitStr.simps) (simp add: join_Cons, metis append_take_drop_id)
  qed
qed

text \<open>A part that meets the separator only at its own end.\<close>

definition separated :: "string \<Rightarrow> string \<Rightarrow> bool" where
  "separated sep a \<longleftrightarrow> indexOf (a @ sep) sep = Some (length a)"

lemma startsWith_append: "length p \<le> length s \<Longrightarrow> startsWith (s @ t) p = startsWith s p"
  by (induction s p rule: startsWith.induct) auto

lemma indexOf_append: "indexOf u p = Some j \<Longrightarrow> indexOf (u @ v) p = Some j"
proof (induction u arbitrary: j)
  case Nil
  then show ?case by (cases v) (auto split: if_splits)
next
  case (Cons x u)
  have "length p \<le> length (x # u)" using Cons.prems indexOf_room [of "x # u" p j] by simp
  then have "startsWith (x # u @ v) p = startsWith (x # u) p"
    using startsWith_append [of p "x # u" v] by simp
  with Cons show ?case by (auto split: if_splits)
qed

lemma indexOf_separated: "separated sep a \<Longrightarrow> indexOf (a @ sep @ b) sep = Some (length a)"
  unfolding separated_def using indexOf_append [of "a @ sep" sep "length a" b] by simp

lemma splitStr_separated:
  assumes "sep \<noteq> []" "separated sep a"
  shows "splitStr sep (a @ sep @ b) = a # splitStr sep b"
  using assms by (subst splitStr.simps) (simp add: indexOf_separated)

lemma splitStr_last:
  assumes "sep \<noteq> []" "indexOf z sep = None"
  shows "separated sep (last (splitStr sep s)) \<Longrightarrow> splitStr sep (s @ sep @ z) = splitStr sep s @ [z]"
  using assms
proof (induction sep s rule: splitStr.induct)
  case (1 sep s)
  have z: "splitStr sep z = [z]" using "1.prems" by (subst splitStr.simps) simp
  show ?case
  proof (cases "indexOf s sep")
    case None
    then have "splitStr sep s = [s]" using "1.prems" by (subst splitStr.simps) simp
    with "1.prems" z show ?thesis by (simp add: splitStr_separated)
  next
    case (Some i)
    define a t where "a = take i s" and "t = drop (i + length sep) s"
    have st: "startsWith (drop i s) sep" using Some indexOf_SomeD by blast
    then have s: "s = a @ sep @ t" unfolding a_def t_def startsWith_iff
      by (metis add.commute append_eq_conv_conj append_take_drop_id drop_drop)
    have len: "length a = i" using Some indexOf_room [of s sep i] by (simp add: a_def)
    have parts: "splitStr sep s = a # splitStr sep t"
      using "1.prems"(2) Some by (subst splitStr.simps) (simp add: a_def t_def)
    have "indexOf (s @ sep @ z) sep = Some i" using Some by (rule indexOf_append)
    then have "splitStr sep (s @ sep @ z) = a # splitStr sep (t @ sep @ z)"
      using "1.prems"(2) by (subst splitStr.simps) (simp add: s len)
    moreover have "splitStr sep (t @ sep @ z) = splitStr sep t @ [z]"
      using "1.IH" [OF "1.prems"(2) Some] "1.prems" parts t_def by simp
    ultimately show ?thesis by (simp add: parts)
  qed
qed

lemma splitStr_last_part:
  "sep \<noteq> [] \<Longrightarrow> indexOf (last (splitStr sep s)) sep = None \<and> (\<exists>a. s = a @ last (splitStr sep s))"
proof (induction sep s rule: splitStr.induct)
  case (1 sep s)
  show ?case
  proof (cases "indexOf s sep")
    case None
    then have "splitStr sep s = [s]" using "1.prems" by (subst splitStr.simps) simp
    with None show ?thesis by simp
  next
    case (Some i)
    let ?t = "drop (i + length sep) s"
    have "splitStr sep s = take i s # splitStr sep ?t" using Some "1.prems" by (subst splitStr.simps) simp
    then have l: "last (splitStr sep s) = last (splitStr sep ?t)" using "1.prems" by simp
    obtain a where "?t = a @ last (splitStr sep ?t)" and n: "indexOf (last (splitStr sep ?t)) sep = None"
      using "1.IH" [OF "1.prems" Some "1.prems"] by blast
    then have "s = (take (i + length sep) s @ a) @ last (splitStr sep ?t)"
      by (metis append.assoc append_take_drop_id)
    with n l show ?thesis by metis
  qed
qed

subsection \<open>Trimming\<close>

lemma trimStart_Nil_iff: "trimStart s = [] \<longleftrightarrow> (\<forall>c\<in>set s. is_space c)"
  by (simp add: trimStart_def)

lemma trim_Nil_iff: "trim s = [] \<longleftrightarrow> (\<forall>c\<in>set s. is_space c)"
proof (cases "trimStart s")
  case Nil
  then have "trim s = []" by (simp add: trim_def) (simp add: trimStart_def)
  moreover from Nil have "\<forall>c\<in>set s. is_space c" by (simp add: trimStart_Nil_iff)
  ultimately show ?thesis by simp
next
  case (Cons x xs)
  then have ne: "dropWhile is_space s \<noteq> []" by (simp add: trimStart_def)
  then have "\<not> is_space (hd (dropWhile is_space s))" by (rule hd_dropWhile)
  moreover have "hd (dropWhile is_space s) \<in> set (dropWhile is_space s)"
    using ne by (rule hd_in_set)
  ultimately have "trim s \<noteq> []" by (auto simp: trim_def trimStart_def)
  moreover have "\<not> (\<forall>c\<in>set s. is_space c)"
    using Cons trimStart_Nil_iff [of s] by auto
  ultimately show ?thesis by simp
qed

lemma set_trim: "set (trim s) \<subseteq> set s"
  by (auto simp: trim_def trimStart_def dest!: set_dropWhileD)

lemma trim_hd: "trim s \<noteq> [] \<Longrightarrow> \<not> is_space (hd (trim s))"
proof -
  assume ne: "trim s \<noteq> []"
  let ?t = "dropWhile is_space s"
  from ne have tn: "?t \<noteq> []" by (cases ?t) (simp_all add: trim_def trimStart_def)
  then have h: "\<not> is_space (hd ?t)" by (rule hd_dropWhile)
  obtain r where r: "?t = trim s @ r"
    unfolding trim_def trimStart_def
    by (metis rev_append rev_rev_ident takeWhile_dropWhile_id)
  with ne have "hd ?t = hd (trim s)" by simp
  with h show ?thesis by simp
qed

lemma trim_last: "trim s \<noteq> [] \<Longrightarrow> \<not> is_space (last (trim s))"
  by (metis hd_dropWhile hd_rev rev_is_Nil_conv rev_rev_ident trimStart_def trim_def)

lemma trim_id: "s = [] \<or> (\<not> is_space (hd s) \<and> \<not> is_space (last s)) \<Longrightarrow> trim s = s"
proof (cases "s = []")
  case True
  then show ?thesis by (simp add: trim_def trimStart_def)
next
  case False
  assume "s = [] \<or> (\<not> is_space (hd s) \<and> \<not> is_space (last s))"
  with False have h: "\<not> is_space (hd s)" and l: "\<not> is_space (last s)" by auto
  from False h have "trimStart s = s" by (cases s) (auto simp: trimStart_def)
  moreover from False l have "trimStart (rev s) = rev s"
    by (cases "rev s") (auto simp: trimStart_def hd_rev [symmetric])
  ultimately show ?thesis by (simp add: trim_def)
qed

lemma trim_idem [simp]: "trim (trim s) = trim s"
  by (rule trim_id) (auto simp: trim_hd trim_last)

subsection \<open>Searching lists\<close>

lemma find_SomeD: "find P xs = Some y \<Longrightarrow> y \<in> set xs \<and> P y"
  by (induction xs) (auto split: if_splits)

subsection \<open>Decimal numerals\<close>

lemma show_nat_digits: "c \<in> set (show_nat n) \<Longrightarrow> is_digit c"
proof (induction n rule: show_nat.induct)
  case (1 n)
  have d: "is_digit (char_of (48 + m))" if "m < 10" for m :: nat
    using that by (simp add: is_digit_def code_def)
  show ?case
    using "1" d [of n] d [of "n mod 10"]
    by (subst (asm) show_nat.simps) (auto split: if_splits)
qed

lemma show_nat_neq_Nil [simp]: "show_nat n \<noteq> []"
  by (subst show_nat.simps) simp

subsection \<open>Asynchronous actions\<close>

type_synonym ('c, 'r) call = "('c, string + 'r) state"

definition modify :: "('c \<Rightarrow> 'c) \<Rightarrow> ('c, unit) state" where
  "modify f = State (\<lambda>c. ((), f c))"

definition gets :: "('c \<Rightarrow> 'a) \<Rightarrow> ('c, 'a) state" where
  "gets f = State (\<lambda>c. (f c, c))"

definition pass :: "'a \<Rightarrow> ('c, 'a) state" where
  "pass x = State_Monad.return x"

text \<open>
  \<open>try { const x = await call; k(x) } catch (e) { h(e) }\<close>: the call settles, then either the
  rest of the block or the handler runs.
\<close>

definition try_call :: "('c, 'r) call \<Rightarrow> ('r \<Rightarrow> ('c, 'a) state) \<Rightarrow> (string \<Rightarrow> ('c, 'a) state) \<Rightarrow> ('c, 'a) state" where
  "try_call m k h = do { r \<leftarrow> m; (case r of Inl e \<Rightarrow> h e | Inr x \<Rightarrow> k x) }"

text \<open>The context an action leaves, and the value it returns.\<close>

abbreviation exec :: "('c, 'a) state \<Rightarrow> 'c \<Rightarrow> 'c" where
  "exec m c \<equiv> snd (run_state m c)"

abbreviation result :: "('c, 'a) state \<Rightarrow> 'c \<Rightarrow> 'a" where
  "result m c \<equiv> fst (run_state m c)"

lemma run_modify [simp, run_simps]: "run_state (modify f) c = ((), f c)"
  by (simp add: modify_def)

lemma run_gets [simp, run_simps]: "run_state (gets f) c = (f c, c)"
  by (simp add: gets_def)

lemma run_pass [simp, run_simps]: "run_state (pass x) c = (x, c)"
  by (simp add: pass_def)

lemma run_try_call [run_simps]:
  "run_state (try_call m k h) c =
     (case result m c of
        Inl e \<Rightarrow> run_state (h e) (exec m c)
      | Inr x \<Rightarrow> run_state (k x) (exec m c))"
  by (simp add: try_call_def run_state_bind split: prod.splits sum.splits)

declare run_state_bind [simp del]

lemma run_bind_exec [simp, run_simps]:
  "run_state (State_Monad.bind m f) c = run_state (f (result m c)) (exec m c)"
  by (simp add: run_state_bind split: prod.splits)

text \<open>
  A predicate that both exits of a \<open>try\<close> establish holds after it, whatever the call did;
  the shape of every \<^emph>\<open>settles\<close> theorem of the stores.
\<close>

lemma exec_try_call:
  "(\<And>e c. P (exec (h e) c)) \<Longrightarrow> (\<And>x c. P (exec (k x) c)) \<Longrightarrow> P (exec (try_call m k h) c)"
  by (simp add: run_try_call split: sum.splits)

lemma result_try_call:
  "(\<And>e c. Q (result (h e) c)) \<Longrightarrow> (\<And>x c. Q (result (k x) c)) \<Longrightarrow> Q (result (try_call m k h) c)"
  by (simp add: run_try_call split: sum.splits)

text \<open>A call keeps \<open>f\<close> when it leaves that part of every context as it was.\<close>

definition keeps :: "('c \<Rightarrow> 'b) \<Rightarrow> ('c, 'a) state \<Rightarrow> bool" where
  "keeps f m \<longleftrightarrow> (\<forall>c. f (exec m c) = f c)"

lemma keepsD: "keeps f m \<Longrightarrow> f (exec m c) = f c"
  by (simp add: keeps_def)

lemma keepsI: "(\<And>c. f (exec m c) = f c) \<Longrightarrow> keeps f m"
  by (simp add: keeps_def)

end
