(* ===== verification/Toasts.thy ===== *)
theory Toasts
  imports Prelude
begin

section \<open>Toast notifications\<close>

text \<open>
  \<^verbatim>\<open>client_v2/src/stores/toasts.ts\<close> and the two click handlers of
  \<^verbatim>\<open>client_v2/src/components/Toasts/Toast.tsx\<close>. Every store reports through these
  operations, so the context they work on is an extensible record: each store extends it with
  its own state.

  Code outside the sources: \<open>nanoid()\<close> (the \<open>n\<close>-th call returns \<open>nanoid env n\<close>) and the
  translations behind \<open>intl.getMessage\<close>. Closures that toasts carry are kept as data: the
  callback of an action is one of the two closures \<^verbatim>\<open>stores/dhcp.ts\<close> builds, and an undo
  callback is a value of the type \<open>'u\<close> that the store which registered it interprets.
\<close>

datatype msg_arg = SArg string | NArg int

record env =
  nanoid :: "nat \<Rightarrow> string"
  getMessage :: "string \<Rightarrow> (string \<times> msg_arg) list \<Rightarrow> string"
  getPlural :: "string \<Rightarrow> int \<Rightarrow> string"

abbreviation msg :: "env \<Rightarrow> string \<Rightarrow> string" where
  "msg env k \<equiv> getMessage env k []"

datatype toast_type = ErrorToast | SuccessToast | NoticeToast | WarningToast

datatype toast_callback = NavigateTo string | RetryFindActiveDhcp string

record toast_action =
  action_text :: string
  actionType :: "string option"
  actionPayload :: "string option"
  callback :: "toast_callback option"

record toast =
  toast_id :: string
  message :: string
  toast_type :: toast_type
  actionLabel :: "string option"
  undoId :: "string option"
  action :: "toast_action option"
  toast_options :: "(string \<times> string) list option"
  toast_code :: "string option"
  noIcon :: "bool option"

record error_payload =
  error :: string
  error_options :: "(string \<times> string) list option"
  error_action :: "toast_action option"
  error_noIcon :: "bool option"

record success_object =
  success_message :: string
  success_code :: "string option"
  success_actionLabel :: "string option"
  success_undoId :: "string option"

datatype success_payload = SuccessString string | SuccessObject success_object

record ('u, 'w) ctx =
  notices :: "toast list"
  undoRegistry :: "string \<rightharpoonup> 'u"
  nonce :: nat
  console_error :: "string list"
  world :: 'w

subsection \<open>Operations\<close>

definition getUndoCallback :: "string \<Rightarrow> ('u, 'w, 'm) ctx_scheme \<Rightarrow> 'u option" where
  "getUndoCallback i c = undoRegistry c i"

definition clearUndoCallback :: "string \<Rightarrow> ('u, 'w, 'm) ctx_scheme \<Rightarrow> ('u, 'w, 'm) ctx_scheme" where
  "clearUndoCallback i c = c\<lparr>undoRegistry := (undoRegistry c)(i := None)\<rparr>"

definition createUndoToast ::
  "env \<Rightarrow> string \<Rightarrow> string \<Rightarrow> 'u \<Rightarrow> ('u, 'w, 'm) ctx_scheme \<Rightarrow> success_payload \<times> ('u, 'w, 'm) ctx_scheme" where
  "createUndoToast env m label onUndo c =
     (let uid = nanoid env (nonce c)
      in (SuccessObject \<lparr>success_message = m, success_code = None,
            success_actionLabel = Some label, success_undoId = Some uid\<rparr>,
          c\<lparr>nonce := Suc (nonce c), undoRegistry := (undoRegistry c)(uid \<mapsto> onUndo)\<rparr>))"

text \<open>\<open>!n.undoId\<close> and \<open>!n.action\<close>: absent, or for the id also the empty string.\<close>

definition no_undoId :: "toast \<Rightarrow> bool" where
  "no_undoId n \<longleftrightarrow> undoId n = None \<or> undoId n = Some []"

definition isDuplicate :: "toast_type \<Rightarrow> string \<Rightarrow> toast_action option \<Rightarrow> toast \<Rightarrow> bool" where
  "isDuplicate ty m act n \<longleftrightarrow>
     act = None \<and> toast_type n = ty \<and> message n = m \<and> action n = None \<and> no_undoId n"

definition problem_notice :: "string \<Rightarrow> toast_type \<Rightarrow> error_payload \<Rightarrow> toast" where
  "problem_notice i ty p =
     \<lparr>toast_id = i, message = error p, toast_type = ty, actionLabel = None, undoId = None,
      action = error_action p, toast_options = error_options p, toast_code = None,
      noIcon = error_noIcon p\<rparr>"

definition push_notice :: "toast_type \<Rightarrow> toast \<Rightarrow> toast list \<Rightarrow> toast list" where
  "push_notice ty notice prev =
     (if \<exists>n\<in>set prev. isDuplicate ty (message notice) (action notice) n
      then map (\<lambda>n. if isDuplicate ty (message notice) (action notice) n then notice else n) prev
      else prev @ [notice])"

definition pushProblemToast ::
  "env \<Rightarrow> toast_type \<Rightarrow> error_payload \<Rightarrow> ('u, 'w, 'm) ctx_scheme \<Rightarrow> ('u, 'w, 'm) ctx_scheme" where
  "pushProblemToast env ty p c =
     (let c1 = (if ty = ErrorToast then c\<lparr>console_error := console_error c @ [error p]\<rparr> else c);
          notice = problem_notice (nanoid env (nonce c1)) ty p
      in c1\<lparr>nonce := Suc (nonce c1), notices := push_notice ty notice (notices c1)\<rparr>)"

definition addErrorToast :: "env \<Rightarrow> error_payload \<Rightarrow> ('u, 'w, 'm) ctx_scheme \<Rightarrow> ('u, 'w, 'm) ctx_scheme" where
  "addErrorToast env p = pushProblemToast env ErrorToast p"

definition addWarningToast :: "env \<Rightarrow> error_payload \<Rightarrow> ('u, 'w, 'm) ctx_scheme \<Rightarrow> ('u, 'w, 'm) ctx_scheme" where
  "addWarningToast env p = pushProblemToast env WarningToast p"

definition success_notice :: "string \<Rightarrow> success_payload \<Rightarrow> toast" where
  "success_notice i p =
     (let base = \<lparr>toast_id = i,
            message = (case p of SuccessString m \<Rightarrow> m | SuccessObject ob \<Rightarrow> success_message ob),
            toast_type = SuccessToast, actionLabel = None, undoId = None, action = None,
            toast_options = None, toast_code = None, noIcon = None\<rparr>
      in case p of
           SuccessString m \<Rightarrow> base
         | SuccessObject ob \<Rightarrow> base\<lparr>actionLabel := success_actionLabel ob,
             undoId := success_undoId ob, toast_code := success_code ob\<rparr>)"

definition addSuccessToast :: "env \<Rightarrow> success_payload \<Rightarrow> ('u, 'w, 'm) ctx_scheme \<Rightarrow> ('u, 'w, 'm) ctx_scheme" where
  "addSuccessToast env p c =
     c\<lparr>nonce := Suc (nonce c), notices := notices c @ [success_notice (nanoid env (nonce c)) p]\<rparr>"

definition addNoticeToast :: "env \<Rightarrow> string \<Rightarrow> ('u, 'w, 'm) ctx_scheme \<Rightarrow> ('u, 'w, 'm) ctx_scheme" where
  "addNoticeToast env m c =
     c\<lparr>nonce := Suc (nonce c), notices := notices c @
        [\<lparr>toast_id = nanoid env (nonce c), message = m, toast_type = NoticeToast,
          actionLabel = None, undoId = None, action = None, toast_options = None,
          toast_code = None, noIcon = None\<rparr>]\<rparr>"

definition removeToast :: "string \<Rightarrow> ('u, 'w, 'm) ctx_scheme \<Rightarrow> ('u, 'w, 'm) ctx_scheme" where
  "removeToast i c = c\<lparr>notices := filter (\<lambda>n. toast_id n \<noteq> i) (notices c)\<rparr>"

text \<open>\<open>addErrorToast({ error })\<close>, and a success toast with an undo button.\<close>

definition plain_error :: "string \<Rightarrow> error_payload" where
  "plain_error e = \<lparr>error = e, error_options = None, error_action = None, error_noIcon = None\<rparr>"

abbreviation errorToast :: "env \<Rightarrow> string \<Rightarrow> ('u, 'w, 'm) ctx_scheme \<Rightarrow> ('u, 'w, 'm) ctx_scheme" where
  "errorToast env e \<equiv> addErrorToast env (plain_error e)"

abbreviation successToast :: "env \<Rightarrow> string \<Rightarrow> ('u, 'w, 'm) ctx_scheme \<Rightarrow> ('u, 'w, 'm) ctx_scheme" where
  "successToast env m \<equiv> addSuccessToast env (SuccessString m)"

definition undoToast :: "env \<Rightarrow> string \<Rightarrow> 'u \<Rightarrow> ('u, 'w, 'm) ctx_scheme \<Rightarrow> ('u, 'w, 'm) ctx_scheme" where
  "undoToast env m onUndo c =
     (case createUndoToast env m (msg env ''notify_undo'') onUndo c of
        (p, c') \<Rightarrow> addSuccessToast env p c')"

subsection \<open>The click handlers of a rendered toast\<close>

text \<open>
  \<open>handleAction\<close> runs the registered undo callback, if there is one, then forgets it and
  removes the toast. \<open>run\<close> interprets the callbacks of the store that registered them. A
  callback that rejects ends the handler there: the toast and its callback stay.
\<close>

definition handleAction ::
  "('u \<Rightarrow> (('u, 'w, 'm) ctx_scheme, unit) call) \<Rightarrow> toast \<Rightarrow> (('u, 'w, 'm) ctx_scheme, unit) call" where
  "handleAction run t =
     (let removeCurrentToast = do { modify (removeToast (toast_id t)); pass (Inr ()) }
      in case undoId t of
           None \<Rightarrow> removeCurrentToast
         | Some uid \<Rightarrow>
             if uid = [] then removeCurrentToast
             else do {
               cb \<leftarrow> gets (getUndoCallback uid);
               (case cb of
                  None \<Rightarrow> removeCurrentToast
                | Some onUndo \<Rightarrow>
                    try_call (run onUndo)
                      (\<lambda>_. do { modify (clearUndoCallback uid); removeCurrentToast })
                      (\<lambda>e. pass (Inl e))) })"

definition handleActionClick ::
  "(toast_callback \<Rightarrow> (('u, 'w, 'm) ctx_scheme, unit) state) \<Rightarrow> toast \<Rightarrow> (('u, 'w, 'm) ctx_scheme, unit) state" where
  "handleActionClick run t = do {
     (case Option.bind (action t) callback of
        None \<Rightarrow> pass ()
      | Some cb \<Rightarrow> run cb);
     modify (removeToast (toast_id t)) }"

subsection \<open>What the toast operations leave alone\<close>

text \<open>
  The contract between the toasts and every store: an observation of the context that does not
  read the four toast fields is the same after any toast operation. Each store interprets this
  with its own state.
\<close>

locale toast_frame =
  fixes obs :: "('u, 'w, 'm) ctx_scheme \<Rightarrow> 'b"
  assumes obs_notices: "obs (c\<lparr>notices := n\<rparr>) = obs c"
    and obs_registry: "obs (c\<lparr>undoRegistry := r\<rparr>) = obs c"
    and obs_nonce: "obs (c\<lparr>nonce := k\<rparr>) = obs c"
    and obs_console: "obs (c\<lparr>console_error := l\<rparr>) = obs c"
begin

lemmas obs_simps = obs_notices obs_registry obs_nonce obs_console

lemma obs_addErrorToast [simp]: "obs (addErrorToast env p c) = obs c"
  by (simp add: addErrorToast_def pushProblemToast_def Let_def obs_simps)

lemma obs_addWarningToast [simp]: "obs (addWarningToast env p c) = obs c"
  by (simp add: addWarningToast_def pushProblemToast_def Let_def obs_simps)

lemma obs_addSuccessToast [simp]: "obs (addSuccessToast env q c) = obs c"
  by (simp add: addSuccessToast_def obs_simps)

lemma obs_addNoticeToast [simp]: "obs (addNoticeToast env m c) = obs c"
  by (simp add: addNoticeToast_def obs_simps)

lemma obs_removeToast [simp]: "obs (removeToast i c) = obs c"
  by (simp add: removeToast_def obs_simps)

lemma obs_clearUndoCallback [simp]: "obs (clearUndoCallback i c) = obs c"
  by (simp add: clearUndoCallback_def obs_simps)

lemma obs_undoToast [simp]: "obs (undoToast env m u c) = obs c"
  by (simp add: undoToast_def createUndoToast_def Let_def obs_simps)

end

interpretation world_frame: toast_frame world
  by unfold_locales simp_all

interpretation more_frame: toast_frame ctx.more
  by unfold_locales simp_all

subsection \<open>Invariant: unique ids, no repeated problem\<close>

definition plain_problem :: "toast \<Rightarrow> bool" where
  "plain_problem n \<longleftrightarrow>
     (toast_type n = ErrorToast \<or> toast_type n = WarningToast) \<and> action n = None \<and> no_undoId n"

definition problem_key :: "toast \<Rightarrow> toast_type \<times> string" where
  "problem_key n = (toast_type n, message n)"

definition problem_keys :: "toast list \<Rightarrow> (toast_type \<times> string) list" where
  "problem_keys ns = map problem_key (filter plain_problem ns)"

definition issued :: "env \<Rightarrow> nat \<Rightarrow> string set" where
  "issued env k = nanoid env ` {..<k}"

definition toasts_inv :: "env \<Rightarrow> ('u, 'w, 'm) ctx_scheme \<Rightarrow> bool" where
  "toasts_inv env c \<longleftrightarrow>
     distinct (map toast_id (notices c)) \<and>
     distinct (problem_keys (notices c)) \<and>
     toast_id ` set (notices c) \<subseteq> issued env (nonce c) \<and>
     dom (undoRegistry c) \<subseteq> issued env (nonce c)"

text \<open>Every state the toast operations can reach from an empty store.\<close>

inductive toasts_reach :: "env \<Rightarrow> ('u, 'w, 'm) ctx_scheme \<Rightarrow> bool" for env where
  init: "notices c = [] \<Longrightarrow> undoRegistry c = Map.empty \<Longrightarrow> toasts_reach env c"
| error: "toasts_reach env c \<Longrightarrow> toasts_reach env (addErrorToast env p c)"
| warning: "toasts_reach env c \<Longrightarrow> toasts_reach env (addWarningToast env p c)"
| success: "toasts_reach env c \<Longrightarrow> toasts_reach env (addSuccessToast env q c)"
| notice: "toasts_reach env c \<Longrightarrow> toasts_reach env (addNoticeToast env m c)"
| undo: "toasts_reach env c \<Longrightarrow> toasts_reach env (snd (createUndoToast env m l u c))"
| clear: "toasts_reach env c \<Longrightarrow> toasts_reach env (clearUndoCallback i c)"
| remove: "toasts_reach env c \<Longrightarrow> toasts_reach env (removeToast i c)"

lemma issued_Suc: "issued env (Suc k) = insert (nanoid env k) (issued env k)"
  by (simp add: issued_def lessThan_Suc)

lemma issued_fresh: "inj (nanoid env) \<Longrightarrow> nanoid env k \<notin> issued env k"
  by (auto simp: issued_def inj_eq)

lemma problem_keys_append [simp]: "problem_keys (xs @ ys) = problem_keys xs @ problem_keys ys"
  by (simp add: problem_keys_def)

lemma problem_notice_sel [simp]:
  "toast_id (problem_notice i ty p) = i" "message (problem_notice i ty p) = error p"
  "toast_type (problem_notice i ty p) = ty" "action (problem_notice i ty p) = error_action p"
  "undoId (problem_notice i ty p) = None"
  by (simp_all add: problem_notice_def)

lemma isDuplicate_plain:
  assumes "ty = ErrorToast \<or> ty = WarningToast"
  shows "isDuplicate ty m None n \<longleftrightarrow> plain_problem n \<and> problem_key n = (ty, m)"
  using assms by (auto simp: isDuplicate_def plain_problem_def problem_key_def)

lemma isDuplicate_action [simp]: "\<not> isDuplicate ty m (Some a) n"
  by (simp add: isDuplicate_def)

lemma problem_keys_replace:
  assumes "ty = ErrorToast \<or> ty = WarningToast" "plain_problem x" "problem_key x = (ty, m)"
  shows "problem_keys (map (\<lambda>n. if isDuplicate ty m None n then x else n) ns) = problem_keys ns"
  using assms by (induction ns) (auto simp: problem_keys_def isDuplicate_plain)

lemma replaced_ids_distinct:
  assumes ty: "ty = ErrorToast \<or> ty = WarningToast"
    and "distinct (problem_keys ns)" "distinct (map toast_id ns)" "toast_id x \<notin> toast_id ` set ns"
  shows "distinct (map toast_id (map (\<lambda>n. if isDuplicate ty m None n then x else n) ns))"
  using assms(2-)
proof (induction ns)
  case Nil
  then show ?case by simp
next
  case (Cons n ns)
  let ?r = "\<lambda>n. if isDuplicate ty m None n then x else n"
  show ?case
  proof (cases "isDuplicate ty m None n")
    case True
    with ty have "\<not> isDuplicate ty m None k" if "k \<in> set ns" for k
      using that Cons.prems(1) by (force simp: problem_keys_def isDuplicate_plain)
    then have "map ?r ns = ns" by (intro map_idI) simp
    with True Cons.prems show ?thesis by (auto simp: image_iff)
  next
    case False
    have "distinct (map toast_id (map ?r ns))"
      using Cons by (auto simp: problem_keys_def split: if_splits)
    moreover have "toast_id n \<notin> set (map toast_id (map ?r ns))"
      using Cons.prems(2,3) by (auto split: if_splits)
    ultimately show ?thesis using False by simp
  qed
qed

lemma ids_push_notice:
  "toast_id ` set (push_notice ty x ns) \<subseteq> insert (toast_id x) (toast_id ` set ns)"
  by (auto simp: push_notice_def)

lemma push_problem_inv:
  assumes ty: "ty = ErrorToast \<or> ty = WarningToast"
    and inv: "distinct (problem_keys ns)" "distinct (map toast_id ns)"
    and fresh: "i \<notin> toast_id ` set ns"
  shows "distinct (problem_keys (push_notice ty (problem_notice i ty p) ns))"
    and "distinct (map toast_id (push_notice ty (problem_notice i ty p) ns))"
proof -
  let ?x = "problem_notice i ty p"
  have key: "problem_key ?x = (ty, error p)" by (simp add: problem_key_def)
  have plain: "plain_problem ?x \<longleftrightarrow> error_action p = None"
    using ty by (auto simp: plain_problem_def no_undoId_def)
  show "distinct (problem_keys (push_notice ty ?x ns))"
  proof (cases "error_action p")
    case None
    then show ?thesis
      using inv(1) problem_keys_replace [OF ty _ key, of ns] plain key
      by (auto simp: push_notice_def isDuplicate_plain [OF ty]) (auto simp: problem_keys_def)
  next
    case (Some a)
    then show ?thesis using inv(1) plain by (simp add: push_notice_def problem_keys_def)
  qed
  show "distinct (map toast_id (push_notice ty ?x ns))"
  proof (cases "error_action p")
    case None
    then show ?thesis
      using inv fresh replaced_ids_distinct [OF ty inv, of ?x "error p"]
      by (auto simp: push_notice_def)
  next
    case (Some a)
    then show ?thesis using inv fresh by (simp add: push_notice_def image_iff)
  qed
qed

lemma pushProblemToast_inv:
  assumes "inj (nanoid env)" "toasts_inv env c" "ty = ErrorToast \<or> ty = WarningToast"
  shows "toasts_inv env (pushProblemToast env ty p c)"
proof -
  from assms have fresh: "nanoid env (nonce c) \<notin> toast_id ` set (notices c)"
    by (auto simp: toasts_inv_def dest: issued_fresh)
  show ?thesis
    using assms push_problem_inv [OF assms(3) _ _ fresh, of p]
      ids_push_notice [of ty "problem_notice (nanoid env (nonce c)) ty p" "notices c"]
    by (auto simp: toasts_inv_def pushProblemToast_def Let_def issued_Suc)
qed

lemma append_other_inv:
  assumes "inj (nanoid env)" "toasts_inv env c" "toast_id x = nanoid env (nonce c)" "\<not> plain_problem x"
  shows "toasts_inv env (c\<lparr>nonce := Suc (nonce c), notices := notices c @ [x]\<rparr>)"
  using assms issued_fresh [OF assms(1), of "nonce c"]
  by (auto simp: toasts_inv_def issued_Suc problem_keys_def)

lemma problem_keys_filter: "distinct (problem_keys ns) \<Longrightarrow> distinct (problem_keys (filter P ns))"
  by (induction ns) (auto simp: problem_keys_def)

lemma toasts_reach_inv: "toasts_reach env c \<Longrightarrow> inj (nanoid env) \<Longrightarrow> toasts_inv env c"
proof (induction rule: toasts_reach.induct)
  case (init c)
  then show ?case by (simp add: toasts_inv_def problem_keys_def)
next
  case (error c p)
  then show ?case by (simp add: addErrorToast_def pushProblemToast_inv)
next
  case (warning c p)
  then show ?case by (simp add: addWarningToast_def pushProblemToast_inv)
next
  case (success c q)
  then show ?case unfolding addSuccessToast_def
    by (intro append_other_inv)
      (auto simp: success_notice_def Let_def plain_problem_def split: success_payload.splits)
next
  case (notice c m)
  then show ?case unfolding addNoticeToast_def
    by (intro append_other_inv) (auto simp: plain_problem_def)
next
  case (undo c m l u)
  then show ?case by (auto simp: toasts_inv_def createUndoToast_def Let_def issued_Suc)
next
  case (clear c i)
  then show ?case by (auto simp: toasts_inv_def clearUndoCallback_def)
next
  case (remove c i)
  then show ?case
    by (auto simp: toasts_inv_def removeToast_def distinct_map_filter problem_keys_filter)
qed

subsection \<open>Theorems\<close>

text \<open>
  C3. Whatever sequence of toast operations has run, the notices on screen have pairwise
  different ids and no two of them are the same plain problem (same type and message, without an
  action or an undo), provided \<open>nanoid\<close> never repeats an id. Replacing a repeated problem in
  place keeps ids unique only because the second part holds, so the two are proved together.
\<close>

theorem toasts_unique:
  assumes "toasts_reach env c" and "inj (nanoid env)"
  shows "distinct (map toast_id (notices c)) \<and> distinct (problem_keys (notices c))"
  using toasts_reach_inv [OF assms] by (simp add: toasts_inv_def)

text \<open>A sample environment for the witnesses: ids are strings of growing length.\<close>

definition sample_env :: env where
  "sample_env = \<lparr>nanoid = (\<lambda>n. replicate n (CHR ''x'')),
     getMessage = (\<lambda>k ps. k), getPlural = (\<lambda>k n. k)\<rparr>"

definition sample_ctx :: "(string, nat) ctx" where
  "sample_ctx = \<lparr>notices = [], undoRegistry = Map.empty, nonce = 0, console_error = [], world = 0\<rparr>"

lemma sample_env_inj: "inj (nanoid sample_env)"
  by (rule injI) (simp add: sample_env_def)

theorem toasts_unique_witness:
  "let c = addWarningToast sample_env (plain_error ''down'')
         (addErrorToast sample_env (plain_error ''down'') sample_ctx)
   in length (notices c) = 2 \<and> distinct (map toast_id (notices c)) \<and> distinct (problem_keys (notices c))"
proof -
  have "toasts_reach sample_env (addWarningToast sample_env (plain_error ''down'')
         (addErrorToast sample_env (plain_error ''down'') sample_ctx))"
    by (intro toasts_reach.warning toasts_reach.error toasts_reach.init) (simp_all add: sample_ctx_def)
  from toasts_unique [OF this sample_env_inj] show ?thesis
    by (simp add: Let_def addWarningToast_def addErrorToast_def pushProblemToast_def push_notice_def
        sample_ctx_def plain_error_def isDuplicate_def)
qed

lemma push_notice_mem: "x \<in> set (push_notice ty x ns)"
  by (auto simp: push_notice_def)

lemma push_notice_absorbed:
  "n \<in> set ns \<Longrightarrow> isDuplicate ty (message y) (action y) n \<Longrightarrow> length (push_notice ty y ns) = length ns"
  by (auto simp: push_notice_def)

lemma notices_errorToast:
  "notices (errorToast env e c) =
     push_notice ErrorToast (problem_notice (nanoid env (nonce c)) ErrorToast (plain_error e)) (notices c)"
  by (simp add: addErrorToast_def pushProblemToast_def Let_def)

lemma errorToast_shown: "\<exists>n \<in> set (notices (errorToast env e c)). toast_type n = ErrorToast \<and> message n = e"
  unfolding notices_errorToast
  by (rule bexI [OF _ push_notice_mem]) (simp add: problem_notice_def plain_error_def)

lemma error_shown: "e \<in> message ` set (notices (errorToast env e c))"
  using errorToast_shown [of env e c] by (auto simp: image_iff)

text \<open>
  A request that keeps failing with the same message never stacks toasts: after any number
  of further repeats there are as many notices as after the first failure.
\<close>

theorem repeated_error_no_flood:
  "length (notices ((errorToast env e ^^ Suc k) c)) = length (notices (errorToast env e c))"
proof (induction k)
  case 0
  show ?case by simp
next
  case (Suc k)
  have "length (notices (errorToast env e (errorToast env e d))) = length (notices (errorToast env e d))" for d
    unfolding notices_errorToast
    by (rule push_notice_absorbed [OF push_notice_mem])
      (simp add: isDuplicate_def plain_error_def no_undoId_def)
  from this [of "(errorToast env e ^^ k) c"] Suc.IH show ?case by simp
qed

text \<open>
  Clicking the undo button of a toast, if the handler completes, takes the toast off the
  screen and forgets its callback, whatever the callback itself does to the application; if the
  callback rejects, the context is what the callback left, so the undo can be tried again.
\<close>

theorem handleAction_consumes:
  "let c' = exec (handleAction run t) c in
   (case result (handleAction run t) c of
      Inr _ \<Rightarrow>
        toast_id t \<notin> toast_id ` set (notices c') \<and>
        (\<forall>uid cb. undoId t = Some uid \<and> uid \<noteq> [] \<and> undoRegistry c uid = Some cb \<longrightarrow>
           undoRegistry c' uid = None)
    | Inl e \<Rightarrow> (\<exists>uid cb. undoId t = Some uid \<and> undoRegistry c uid = Some cb \<and>
           c' = exec (run cb) c \<and> result (run cb) c = Inl e))"
  by (auto simp: handleAction_def getUndoCallback_def clearUndoCallback_def removeToast_def
      run_try_call Let_def split: option.splits sum.splits)

theorem handleAction_consumes_witness:
  "let t = success_notice ''a'' (SuccessObject \<lparr>success_message = ''m'', success_code = None,
             success_actionLabel = Some ''undo'', success_undoId = Some ''u''\<rparr>);
       c = sample_ctx\<lparr>undoRegistry := [''u'' \<mapsto> ''cb'']\<rparr>
   in undoRegistry (exec (handleAction (\<lambda>_. pass (Inr ())) t) c) ''u'' = None"
  using handleAction_consumes [of "\<lambda>_. pass (Inr ())"
      "success_notice ''a'' (SuccessObject \<lparr>success_message = ''m'', success_code = None,
             success_actionLabel = Some ''undo'', success_undoId = Some ''u''\<rparr>)"
      "sample_ctx\<lparr>undoRegistry := [''u'' \<mapsto> ''cb'']\<rparr>"]
  by (simp add: Let_def success_notice_def handleAction_def run_try_call getUndoCallback_def)

end
