(* ===== verification/Services.thy ===== *)
theory Services
  imports Toasts
begin

section \<open>Blocked services store\<close>

text \<open>
  \<^verbatim>\<open>client_v2/src/stores/services.ts\<close>: the list of blocked web services with its pause
  schedule, and the one-click \<open>allowBlockedService\<close> with its undo.
\<close>

record DayRange =
  range_from :: "int option"
  range_to :: "int option"

record Schedule =
  time_zone :: "string option"
  sun :: "DayRange option"
  mon :: "DayRange option"
  tue :: "DayRange option"
  wed :: "DayRange option"
  thu :: "DayRange option"
  fri :: "DayRange option"
  sat :: "DayRange option"

record BlockedServicesSchedule =
  schedule :: "Schedule option"
  ids :: "string list option"

record BlockedService =
  icon_svg :: string
  service_id :: string
  service_name :: string
  service_rules :: "string list"
  group_id :: "string option"

record ServiceGroup =
  sg_id :: string

record BlockedServicesAll =
  blocked_services :: "BlockedService list option"
  groups :: "ServiceGroup list option"

record ServicesState =
  processing :: bool
  initialized :: bool
  processingAll :: bool
  allInitialized :: bool
  processingSet :: bool
  services_list :: BlockedServicesSchedule
  allServices :: "BlockedService list"
  allGroups :: "ServiceGroup list"

definition initialState :: ServicesState where
  "initialState = \<lparr>processing = True, initialized = False, processingAll = True,
     allInitialized = False, processingSet = False,
     services_list = \<lparr>schedule = None, ids = None\<rparr>, allServices = [], allGroups = []\<rparr>"

text \<open>The closure that undoes \<open>allowBlockedService\<close>, as the request it will send.\<close>

datatype services_undo = UndoAllow BlockedServicesSchedule

record 'w services_ctx = "(services_undo, 'w) ctx" +
  services :: ServicesState

interpretation services_frame: toast_frame services
  by unfold_locales simp_all

record 'c services_api =
  blockedServicesSchedule :: "('c, BlockedServicesSchedule) call"
  blockedServicesAll :: "('c, BlockedServicesAll) call"
  blockedServicesScheduleUpdate :: "BlockedServicesSchedule \<Rightarrow> ('c, unit) call"

abbreviation setState ::
  "(ServicesState \<Rightarrow> ServicesState) \<Rightarrow> ('w, 'm) services_ctx_scheme \<Rightarrow> ('w, 'm) services_ctx_scheme" where
  "setState f c \<equiv> c\<lparr>services := f (services c)\<rparr>"

definition getBlockedServices ::
  "env \<Rightarrow> ('w, 'm) services_ctx_scheme services_api \<Rightarrow> (('w, 'm) services_ctx_scheme, unit) state" where
  "getBlockedServices env api = do {
     modify (setState (\<lambda>s. s\<lparr>processing := True\<rparr>));
     try_call (blockedServicesSchedule api)
       (\<lambda>data. modify (setState (\<lambda>s. s\<lparr>services_list := data, processing := False, initialized := True\<rparr>)))
       (\<lambda>e. do {
          modify (errorToast env e);
          modify (setState (\<lambda>s. s\<lparr>processing := False, initialized := True\<rparr>)) }) }"

definition getAllBlockedServices ::
  "env \<Rightarrow> ('w, 'm) services_ctx_scheme services_api \<Rightarrow> (('w, 'm) services_ctx_scheme, unit) state" where
  "getAllBlockedServices env api = do {
     modify (setState (\<lambda>s. s\<lparr>processingAll := True\<rparr>));
     try_call (blockedServicesAll api)
       (\<lambda>data. modify (setState (\<lambda>s. s\<lparr>
          allServices := nullish (blocked_services data) [],
          allGroups := nullish (groups data) [],
          processingAll := False, allInitialized := True\<rparr>)))
       (\<lambda>e. do {
          modify (errorToast env e);
          modify (setState (\<lambda>s. s\<lparr>processingAll := False, allInitialized := True\<rparr>)) }) }"

definition updateBlockedServices ::
  "env \<Rightarrow> ('w, 'm) services_ctx_scheme services_api \<Rightarrow> BlockedServicesSchedule
     \<Rightarrow> (('w, 'm) services_ctx_scheme, bool) state" where
  "updateBlockedServices env api values = do {
     modify (setState (\<lambda>s. s\<lparr>processingSet := True\<rparr>));
     try_call (blockedServicesScheduleUpdate api values)
       (\<lambda>_. do {
          modify (setState (\<lambda>s. s\<lparr>processingSet := False\<rparr>));
          getBlockedServices env api;
          pass True })
       (\<lambda>e. do {
          modify (errorToast env e);
          modify (setState (\<lambda>s. s\<lparr>processingSet := False\<rparr>));
          pass False }) }"

definition serviceName :: "BlockedService list \<Rightarrow> string \<Rightarrow> string" where
  "serviceName svcs i =
     opt_or_str (map_option service_name (find (\<lambda>s. service_id s = i) svcs)) i"

definition allowBlockedService ::
  "env \<Rightarrow> ('w, 'm) services_ctx_scheme services_api \<Rightarrow> string
     \<Rightarrow> (('w, 'm) services_ctx_scheme, bool) state" where
  "allowBlockedService env api serviceId = do {
     cur \<leftarrow> gets (\<lambda>c. services_list (services c));
     lst \<leftarrow> (if ids cur = None
             then do { getBlockedServices env api; gets (\<lambda>c. services_list (services c)) }
             else pass cur);
     (let currentIds = nullish (ids lst) []
      in if serviceId \<notin> set currentIds then pass True
         else do {
           sname \<leftarrow> gets (\<lambda>c. serviceName (allServices (services c)) serviceId);
           didUpdate \<leftarrow> updateBlockedServices env api
             \<lparr>schedule = schedule lst, ids = Some (filter (\<lambda>i. i \<noteq> serviceId) currentIds)\<rparr>;
           (if \<not> didUpdate then pass False
            else do {
              modify (undoToast env
                (getMessage env ''user_rules_service_allowed'' [(''value'', SArg sname)])
                (UndoAllow \<lparr>schedule = schedule lst, ids = Some (currentIds @ [serviceId])\<rparr>));
              pass True }) }) }"

text \<open>What the undo closure does when the toast's button is clicked.\<close>

definition runUndo ::
  "env \<Rightarrow> ('w, 'm) services_ctx_scheme services_api \<Rightarrow> services_undo
     \<Rightarrow> (('w, 'm) services_ctx_scheme, unit) call" where
  "runUndo env api u =
     (case u of UndoAllow req \<Rightarrow> do { updateBlockedServices env api req; pass (Inr ()) })"

subsection \<open>Theorems\<close>

lemma getBlockedServices_settles:
  "\<not> processing (services (exec (getBlockedServices env api) c)) \<and>
   initialized (services (exec (getBlockedServices env api) c))"
  by (simp add: getBlockedServices_def run_try_call split: sum.splits)

lemma getAllBlockedServices_settles:
  "\<not> processingAll (services (exec (getAllBlockedServices env api) c)) \<and>
   allInitialized (services (exec (getAllBlockedServices env api) c))"
  by (simp add: getAllBlockedServices_def run_try_call split: sum.splits)

text \<open>
  Allowing a service against a backend that keeps what it is given leaves a blocklist
  without the service and with every other entry in place, keeps the pause schedule, and offers
  an undo; the stored request of that undo names every service that was blocked before.
\<close>

theorem allowBlockedService_effect:
  assumes list_answers: "\<And>d. result (blockedServicesSchedule api) d = Inr (stored (world d))"
    and list_quiet: "\<And>d. exec (blockedServicesSchedule api) d = d"
    and upd_ok: "\<And>v d. result (blockedServicesScheduleUpdate api v) d = Inr ()"
    and upd_stores: "\<And>v d. stored (world (exec (blockedServicesScheduleUpdate api v) d)) = v"
    and known: "ids (services_list (services c)) = Some xs"
    and blocked: "s \<in> set xs"
  shows "let c' = exec (allowBlockedService env api s) c in
     result (allowBlockedService env api s) c \<and>
     ids (stored (world c')) = Some (filter (\<lambda>i. i \<noteq> s) xs) \<and>
     schedule (stored (world c')) = schedule (services_list (services c)) \<and>
     services_list (services c') = stored (world c') \<and>
     (\<exists>t uid req. last (notices c') = t \<and> undoId t = Some uid \<and>
        undoRegistry c' uid = Some (UndoAllow req) \<and>
        set (nullish (ids req) []) = set xs \<and> schedule req = schedule (services_list (services c)))"
  using known blocked
  by (auto simp: allowBlockedService_def updateBlockedServices_def getBlockedServices_def run_try_call
      list_answers list_quiet upd_ok upd_stores undoToast_def createUndoToast_def addSuccessToast_def
      success_notice_def Let_def)

definition stored_api :: "('w \<Rightarrow> BlockedServicesSchedule) \<Rightarrow> (BlockedServicesSchedule \<Rightarrow> 'w \<Rightarrow> 'w)
    \<Rightarrow> ('w, 'm) services_ctx_scheme services_api" where
  "stored_api rd wr = \<lparr>blockedServicesSchedule = gets (\<lambda>c. Inr (rd (world c))),
     blockedServicesAll = pass (Inr \<lparr>blocked_services = None, groups = None\<rparr>),
     blockedServicesScheduleUpdate = (\<lambda>v. do { modify (\<lambda>c. c\<lparr>world := wr v (world c)\<rparr>); pass (Inr ()) })\<rparr>"

definition sample_services :: "BlockedServicesSchedule services_ctx" where
  "sample_services = \<lparr>notices = [], undoRegistry = Map.empty, nonce = 0, console_error = [],
     world = \<lparr>schedule = None, ids = Some [''youtube'', ''tiktok'']\<rparr>,
     services = initialState\<lparr>services_list := \<lparr>schedule = None, ids = Some [''youtube'', ''tiktok'']\<rparr>\<rparr>\<rparr>"

theorem allowBlockedService_effect_witness:
  "ids (world (exec (allowBlockedService sample_env (stored_api id (\<lambda>v _. v)) ''youtube'') sample_services))
     = Some [''tiktok'']"
  using allowBlockedService_effect [of "stored_api id (\<lambda>v _. v)" id sample_services
      "[''youtube'', ''tiktok'']" "''youtube''" sample_env]
  by (simp add: stored_api_def sample_services_def Let_def)

text \<open>
  The request the undo of \<open>allowBlockedService\<close> will send names the service twice: the
  saved list still holds it and the closure appends it again.
\<close>

theorem allow_undo_duplicates_service:
  assumes upd_ok: "\<And>v d. result (blockedServicesScheduleUpdate api v) d = Inr ()"
    and known: "ids (services_list (services c)) = Some xs"
    and blocked: "s \<in> set xs"
  shows "\<exists>uid req. undoRegistry (exec (allowBlockedService env api s) c) uid = Some (UndoAllow req) \<and>
       count_list (nullish (ids req) []) s \<ge> 2"
proof -
  have "count_list xs s \<noteq> 0" using blocked by (simp add: count_list_0_iff)
  then show ?thesis
    using known blocked
    by (auto simp: allowBlockedService_def updateBlockedServices_def run_try_call upd_ok
        undoToast_def createUndoToast_def addSuccessToast_def Let_def intro!: exI)
qed

theorem allow_undo_duplicates_service_witness:
  "\<exists>uid req. undoRegistry (exec (allowBlockedService sample_env (stored_api id (\<lambda>v _. v)) ''youtube'')
      sample_services) uid = Some (UndoAllow req) \<and> count_list (nullish (ids req) []) ''youtube'' \<ge> 2"
  by (rule allow_undo_duplicates_service [where xs = "[''youtube'', ''tiktok'']"])
    (simp_all add: stored_api_def sample_services_def)

end
