(* ===== verification/Sorting.thy ===== *)
theory Sorting
  imports Prelude "HOL-Library.Multiset"
begin

section \<open>Sorting with a comparator\<close>

text \<open>
  \<open>Array.prototype.sort\<close> with a compare function, which is stable, and the contract a compare
  function has to satisfy. The contract is relative to a set of values, since the sources compare
  addresses with a function that is an order only on well-formed ones.
\<close>

fun insert_by :: "('a \<Rightarrow> 'a \<Rightarrow> int) \<Rightarrow> 'a \<Rightarrow> 'a list \<Rightarrow> 'a list" where
  "insert_by cmp x [] = [x]"
| "insert_by cmp x (y # ys) = (if cmp x y \<le> 0 then x # y # ys else y # insert_by cmp x ys)"

definition sort_by :: "('a \<Rightarrow> 'a \<Rightarrow> int) \<Rightarrow> 'a list \<Rightarrow> 'a list" where
  "sort_by cmp xs = foldr (insert_by cmp) xs []"

lemma mset_insert_by [simp]: "mset (insert_by cmp x xs) = add_mset x (mset xs)"
  by (induction xs) auto

lemma mset_sort_by [simp]: "mset (sort_by cmp xs) = mset xs"
  by (induction xs) (simp_all add: sort_by_def)

lemma set_insert_by [simp]: "set (insert_by cmp x xs) = insert x (set xs)"
  by (induction xs) auto

lemma set_sort_by [simp]: "set (sort_by cmp xs) = set xs"
  by (induction xs) (simp_all add: sort_by_def)

locale comparator =
  fixes S :: "'a set" and cmp :: "'a \<Rightarrow> 'a \<Rightarrow> int"
  assumes total: "x \<in> S \<Longrightarrow> y \<in> S \<Longrightarrow> cmp x y \<le> 0 \<or> cmp y x \<le> 0"
    and trans: "x \<in> S \<Longrightarrow> y \<in> S \<Longrightarrow> z \<in> S \<Longrightarrow> cmp x y \<le> 0 \<Longrightarrow> cmp y z \<le> 0 \<Longrightarrow> cmp x z \<le> 0"
begin

lemma sorted_insert_by:
  "x \<in> S \<Longrightarrow> set xs \<subseteq> S \<Longrightarrow> sorted_wrt (\<lambda>a b. cmp a b \<le> 0) xs \<Longrightarrow>
     sorted_wrt (\<lambda>a b. cmp a b \<le> 0) (insert_by cmp x xs)"
proof (induction xs)
  case (Cons y ys)
  show ?case
  proof (cases "cmp x y \<le> 0")
    case True
    then have "cmp x z \<le> 0" if "z \<in> set ys" for z
      using Cons.prems that trans [of x y z] by auto
    with True Cons.prems show ?thesis by simp
  next
    case False
    then have "cmp y x \<le> 0" using total [of x y] Cons.prems by auto
    with False Cons show ?thesis by simp
  qed
qed simp

lemma sorted_sort_by: "set xs \<subseteq> S \<Longrightarrow> sorted_wrt (\<lambda>a b. cmp a b \<le> 0) (sort_by cmp xs)"
proof (induction xs)
  case (Cons x xs)
  then show ?case using sorted_insert_by [of x "sort_by cmp xs"] by (simp add: sort_by_def [symmetric]) (simp add: sort_by_def)
qed (simp add: sort_by_def)

end

text \<open>Comparing through a key keeps the contract.\<close>

lemma comparator_key: "comparator S cmp \<Longrightarrow> comparator {a. key a \<in> S} (\<lambda>a b. cmp (key a) (key b))"
  unfolding comparator_def by blast

end
