(* ===== verification/Dashboard.thy ===== *)
theory Dashboard
  imports Complex_Main Services Sorting
begin

section \<open>Dashboard store\<close>

text \<open>
  \<^verbatim>\<open>client_v2/src/stores/dashboard.ts\<close> without its polling (theory \<open>StatusPolling\<close>), and
  \<^verbatim>\<open>client_v2/src/helpers/version.ts\<close>: protection, versions, profile and the client lists.
  \<open>String.prototype.localeCompare\<close> depends on the browser's locale and is a parameter.
\<close>

subsection \<open>Data\<close>

record ServerStatus =
  dns_addresses :: "string list option"
  dns_port :: int
  http_port :: int
  protection_enabled :: bool
  protection_disabled_duration :: "int option"
  running :: "bool option"
  version :: string
  status_language :: string

record VersionInfo =
  disabled :: bool
  new_version :: "string option"
  announcement_url :: "string option"
  can_autoupdate :: "bool option"

record ProfileInfo =
  profile_name :: string
  profile_language :: string
  profile_theme :: string

record SafeSearchConfig =
  ss_enabled :: "bool option"
  ss_bing :: "bool option"
  ss_duckduckgo :: "bool option"
  ss_ecosia :: "bool option"
  ss_google :: "bool option"
  ss_pixabay :: "bool option"
  ss_yandex :: "bool option"
  ss_youtube :: "bool option"

record Client =
  client_name :: "string option"
  client_ids :: "string list option"
  use_global_settings :: "bool option"
  filtering_enabled :: "bool option"
  parental_enabled :: "bool option"
  safebrowsing_enabled :: "bool option"
  safesearch_enabled :: "bool option"
  safe_search :: "SafeSearchConfig option"
  use_global_blocked_services :: "bool option"
  blocked_services_schedule :: "Schedule option"
  client_blocked_services :: "string list option"
  client_upstreams :: "string list option"
  client_tags :: "string list option"
  ignore_querylog :: "bool option"
  ignore_statistics :: "bool option"
  upstreams_cache_enabled :: "bool option"
  upstreams_cache_size :: "rat option"

record ClientAuto =
  auto_ip :: "string option"
  auto_name :: "string option"
  auto_source :: "string option"
  whois_info :: "(string \<times> string) list option"

record Clients =
  clients_list :: "Client list option"
  auto_clients :: "ClientAuto list option"
  supported_tags :: "string list option"

record DashboardState =
  processing :: bool
  isCoreRunning :: "bool option"
  processingVersion :: bool
  processingClients :: bool
  clientsInitialized :: bool
  processingUpdate :: bool
  processingProfile :: bool
  protectionEnabled :: bool
  protectionDisabledDuration :: "int option"
  protectionCountdownActive :: bool
  processingProtection :: bool
  httpPort :: int
  dnsPort :: int
  dnsAddresses :: "string list"
  dnsVersion :: string
  clients :: "Client list"
  autoClients :: "ClientAuto list"
  supportedTags :: "string list"
  user_name :: string
  theme :: "string option"
  checkUpdateFlag :: bool
  announcementUrl :: "string option"
  newVersion :: "string option"
  canAutoUpdate :: "bool option"
  language :: string
  isUpdateAvailable :: bool

definition STANDARD_DNS_PORT :: int where "STANDARD_DNS_PORT = 53"

definition STANDARD_WEB_PORT :: int where "STANDARD_WEB_PORT = 80"

definition initialState :: DashboardState where
  "initialState = \<lparr>processing = True, isCoreRunning = Some True, processingVersion = True,
     processingClients = True, clientsInitialized = False, processingUpdate = False,
     processingProfile = True, protectionEnabled = False, protectionDisabledDuration = None,
     protectionCountdownActive = False, processingProtection = False,
     httpPort = STANDARD_WEB_PORT, dnsPort = STANDARD_DNS_PORT, dnsAddresses = [], dnsVersion = [],
     clients = [], autoClients = [], supportedTags = [], user_name = [], theme = None,
     checkUpdateFlag = False, announcementUrl = Some [], newVersion = Some [],
     canAutoUpdate = Some False, language = [], isUpdateAvailable = False\<rparr>"

record 'w dash_ctx = "(unit, 'w) ctx" +
  dashboard :: DashboardState

interpretation dash_frame: toast_frame dashboard
  by unfold_locales simp_all

text \<open>\<open>fetchStatus\<close> is the \<open>customFetch\<close> of the status URL; \<open>getVersionJson\<close> may answer with an
  empty body, which is falsy.\<close>

record 'c dash_api =
  fetchStatus :: "('c, ServerStatus) call"
  getVersionJson :: "bool \<Rightarrow> ('c, VersionInfo option) call"
  beginUpdate :: "('c, unit) call"
  setProtection :: "bool \<Rightarrow> int option \<Rightarrow> ('c, unit) call"
  clientsStatus :: "('c, Clients) call"
  getProfile :: "('c, ProfileInfo) call"
  updateProfile :: "ProfileInfo \<Rightarrow> ('c, unit) call"

abbreviation setState ::
  "(DashboardState \<Rightarrow> DashboardState) \<Rightarrow> ('w, 'm) dash_ctx_scheme \<Rightarrow> ('w, 'm) dash_ctx_scheme" where
  "setState f c \<equiv> c\<lparr>dashboard := f (dashboard c)\<rparr>"

subsection \<open>Versions\<close>

definition strip_v :: "string \<Rightarrow> string" where
  "strip_v s = (case s of [] \<Rightarrow> [] | x # xs \<Rightarrow> if x = CHR ''v'' then xs else s)"

definition areEqualVersions :: "string \<Rightarrow> string option \<Rightarrow> bool" where
  "areEqualVersions left right =
     (case right of
        None \<Rightarrow> False
      | Some r \<Rightarrow> left \<noteq> [] \<and> r \<noteq> [] \<and> strip_v left = strip_v r)"

definition getVersion ::
  "env \<Rightarrow> ('w, 'm) dash_ctx_scheme dash_api \<Rightarrow> bool \<Rightarrow> (('w, 'm) dash_ctx_scheme, unit) state" where
  "getVersion env api recheck = do {
     modify (setState (\<lambda>s. s\<lparr>processingVersion := True\<rparr>));
     try_call (getVersionJson api recheck)
       (\<lambda>data. do {
          v \<leftarrow> gets (\<lambda>c. dnsVersion (dashboard c));
          (let currentVersion = (if v = ''undefined'' then [] else v)
           in do {
             (case data of
                Some d \<Rightarrow>
                  if \<not> disabled d \<and> \<not> areEqualVersions currentVersion (new_version d)
                  then modify (setState (\<lambda>s. s\<lparr>announcementUrl := announcement_url d,
                         newVersion := new_version d, canAutoUpdate := can_autoupdate d,
                         isUpdateAvailable := True, processingVersion := False,
                         checkUpdateFlag := \<not> disabled d\<rparr>))
                  else modify (setState (\<lambda>s. s\<lparr>processingVersion := False, checkUpdateFlag := \<not> disabled d\<rparr>))
              | None \<Rightarrow> modify (setState (\<lambda>s. s\<lparr>processingVersion := False, checkUpdateFlag := False\<rparr>)));
             (if recheck
              then (case data of
                      Some d \<Rightarrow>
                        if \<not> areEqualVersions currentVersion (new_version d)
                        then modify (successToast env (msg env ''updates_checked''))
                        else modify (successToast env (msg env ''updates_version_equal''))
                    | None \<Rightarrow> modify (successToast env (msg env ''updates_version_equal'')))
              else pass ()) }) })
       (\<lambda>_. do {
          modify (errorToast env ''version_request_error'');
          modify (setState (\<lambda>s. s\<lparr>processingVersion := False\<rparr>)) }) }"

subsection \<open>Status, protection, profile\<close>

definition refreshDnsStatus ::
  "('w, 'm) dash_ctx_scheme dash_api \<Rightarrow> (('w, 'm) dash_ctx_scheme, unit) state" where
  "refreshDnsStatus api =
     try_call (fetchStatus api)
       (\<lambda>st. if running st \<noteq> Some True then pass ()
             else modify (setState (\<lambda>s. s\<lparr>dnsPort := dns_port st,
                    dnsAddresses := nullish (dns_addresses st) [], httpPort := http_port st\<rparr>)))
       (\<lambda>_. pass ())"

definition toggleProtection ::
  "env \<Rightarrow> ('w, 'm) dash_ctx_scheme dash_api \<Rightarrow> int option \<Rightarrow> (('w, 'm) dash_ctx_scheme, unit) state" where
  "toggleProtection env api time = do {
     modify (setState (\<lambda>s. s\<lparr>processingProtection := True\<rparr>));
     en \<leftarrow> gets (\<lambda>c. protectionEnabled (dashboard c));
     try_call (setProtection api (\<not> en) time)
       (\<lambda>_. modify (setState (\<lambda>s. s\<lparr>protectionEnabled := \<not> protectionEnabled s,
          processingProtection := False, protectionDisabledDuration := time\<rparr>)))
       (\<lambda>e. do {
          modify (errorToast env e);
          modify (setState (\<lambda>s. s\<lparr>processingProtection := False\<rparr>)) }) }"

definition setDisableDurationTime :: "int \<Rightarrow> ('w, 'm) dash_ctx_scheme \<Rightarrow> ('w, 'm) dash_ctx_scheme" where
  "setDisableDurationTime t = setState (\<lambda>s. s\<lparr>protectionDisabledDuration := Some t\<rparr>)"

definition getProfileData ::
  "env \<Rightarrow> ('w, 'm) dash_ctx_scheme dash_api \<Rightarrow> (('w, 'm) dash_ctx_scheme, unit) state" where
  "getProfileData env api = do {
     modify (setState (\<lambda>s. s\<lparr>processingProfile := True\<rparr>));
     try_call (getProfile api)
       (\<lambda>p. modify (setState (\<lambda>s. s\<lparr>user_name := profile_name p, theme := Some (profile_theme p),
          processingProfile := False\<rparr>)))
       (\<lambda>e. do {
          modify (errorToast env e);
          modify (setState (\<lambda>s. s\<lparr>processingProfile := False\<rparr>)) }) }"

definition changeLanguage ::
  "env \<Rightarrow> ('w, 'm) dash_ctx_scheme dash_api \<Rightarrow> string \<Rightarrow> (('w, 'm) dash_ctx_scheme, unit) state" where
  "changeLanguage env api lang =
     try_call (getProfile api)
       (\<lambda>p. try_call (updateProfile api (p\<lparr>profile_language := lang\<rparr>))
          (\<lambda>_. modify (setState (\<lambda>s. s\<lparr>language := lang\<rparr>)))
          (\<lambda>e. modify (errorToast env e)))
       (\<lambda>e. modify (errorToast env e))"

definition changeTheme ::
  "env \<Rightarrow> ('w, 'm) dash_ctx_scheme dash_api \<Rightarrow> string \<Rightarrow> (('w, 'm) dash_ctx_scheme, unit) state" where
  "changeTheme env api th =
     try_call (getProfile api)
       (\<lambda>p. try_call (updateProfile api (p\<lparr>profile_theme := th\<rparr>))
          (\<lambda>_. modify (setState (\<lambda>s. s\<lparr>theme := Some th\<rparr>)))
          (\<lambda>e. modify (errorToast env e)))
       (\<lambda>e. modify (errorToast env e))"

subsection \<open>Client lists\<close>

text \<open>The sort keys: the name, else the address, in lower case.\<close>

definition client_key :: "Client \<Rightarrow> string" where
  "client_key a = toLowerCase (opt_or_str (client_name a) [])"

definition auto_key :: "ClientAuto \<Rightarrow> string" where
  "auto_key a = toLowerCase (opt_or_str (auto_name a) (opt_or_str (auto_ip a) []))"

definition sortClients :: "(string \<Rightarrow> string \<Rightarrow> int) \<Rightarrow> ('a \<Rightarrow> string) \<Rightarrow> 'a list \<Rightarrow> 'a list" where
  "sortClients localeCompare key xs = sort_by (\<lambda>a b. localeCompare (key a) (key b)) xs"

definition getClients ::
  "env \<Rightarrow> (string \<Rightarrow> string \<Rightarrow> int) \<Rightarrow> ('w, 'm) dash_ctx_scheme dash_api
     \<Rightarrow> (('w, 'm) dash_ctx_scheme, unit) state" where
  "getClients env localeCompare api = do {
     modify (setState (\<lambda>s. s\<lparr>processingClients := True\<rparr>));
     try_call (clientsStatus api)
       (\<lambda>data. modify (setState (\<lambda>s. s\<lparr>
          clients := sortClients localeCompare client_key (nullish (clients_list data) []),
          autoClients := sortClients localeCompare auto_key (nullish (auto_clients data) []),
          supportedTags := nullish (supported_tags data) [],
          processingClients := False, clientsInitialized := True\<rparr>)))
       (\<lambda>e. do {
          modify (errorToast env e);
          modify (setState (\<lambda>s. s\<lparr>processingClients := False, clientsInitialized := True\<rparr>)) }) }"

subsection \<open>Theorems\<close>

text \<open>Comparing code unit by code unit, the order of plain ASCII names.\<close>

fun codeCompare :: "string \<Rightarrow> string \<Rightarrow> int" where
  "codeCompare [] [] = 0"
| "codeCompare [] (y # ys) = - 1"
| "codeCompare (x # xs) [] = 1"
| "codeCompare (x # xs) (y # ys) =
     (if code x < code y then - 1 else if code y < code x then 1 else codeCompare xs ys)"

lemma codeCompare_total: "codeCompare x y \<le> 0 \<or> codeCompare y x \<le> 0"
  by (induction x y rule: codeCompare.induct) auto

lemma codeCompare_trans: "codeCompare x y \<le> 0 \<Longrightarrow> codeCompare y z \<le> 0 \<Longrightarrow> codeCompare x z \<le> 0"
proof (induction x y arbitrary: z rule: codeCompare.induct)
  case (2 y ys)
  then show ?case by (cases z) auto
next
  case (4 x xs y ys)
  show ?case
  proof (cases z)
    case (Cons w ws)
    have "codeCompare xs ys \<le> 0 \<Longrightarrow> codeCompare ys ws \<le> 0 \<Longrightarrow> codeCompare xs ws \<le> 0"
      if "code x = code y" using "4.IH" that by simp
    with "4.prems" Cons show ?thesis
      by (cases "code x" "code y" rule: linorder_cases; cases "code y" "code w" rule: linorder_cases) simp_all
  qed (use "4.prems" in simp)
qed simp_all

interpretation code_order: comparator UNIV codeCompare
  by unfold_locales (rule codeCompare_total, rule codeCompare_trans)

text \<open>
  The client lists shown are the backend's, rearranged: no client is lost or repeated, and
  they are in order of the lower-cased name (or address), for every total and transitive
  \<open>localeCompare\<close>.
\<close>

theorem getClients_sorted:
  assumes "comparator UNIV localeCompare"
    and "run_state (clientsStatus api) (setState (\<lambda>s. s\<lparr>processingClients := True\<rparr>) c) = (Inr data, c1)"
  shows "let s = dashboard (exec (getClients env localeCompare api) c)
    in mset (clients s) = mset (nullish (clients_list data) []) \<and>
       mset (autoClients s) = mset (nullish (auto_clients data) []) \<and>
       sorted_wrt (\<lambda>a b. localeCompare (client_key a) (client_key b) \<le> 0) (clients s) \<and>
       sorted_wrt (\<lambda>a b. localeCompare (auto_key a) (auto_key b) \<le> 0) (autoClients s)"
  using assms
  by (simp add: getClients_def run_try_call sortClients_def Let_def
      comparator.sorted_sort_by [OF comparator_key])

definition auto_client :: "string \<Rightarrow> ClientAuto" where
  "auto_client n = \<lparr>auto_ip = Some ''10.0.0.1'', auto_name = Some n, auto_source = None, whois_info = None\<rparr>"

definition sample_ctx :: "ProfileInfo dash_ctx" where
  "sample_ctx = \<lparr>notices = [], undoRegistry = Map.empty, nonce = 1, console_error = [],
     world = \<lparr>profile_name = ''u'', profile_language = ''en'', profile_theme = ''auto''\<rparr>,
     dashboard = initialState\<rparr>"

definition sample_status :: ServerStatus where
  "sample_status = \<lparr>dns_addresses = None, dns_port = 53, http_port = 80, protection_enabled = True,
     protection_disabled_duration = Some 0, running = Some True, version = ''v1'', status_language = ''en''\<rparr>"

text \<open>A backend that stores the profile and accepts everything else.\<close>

definition stored_api :: "(ProfileInfo, 'm) dash_ctx_scheme dash_api" where
  "stored_api = \<lparr>fetchStatus = pass (Inr sample_status),
     getVersionJson = (\<lambda>_. pass (Inr (Some \<lparr>disabled = True, new_version = None,
       announcement_url = None, can_autoupdate = None\<rparr>))),
     beginUpdate = pass (Inr ()), setProtection = (\<lambda>_ _. pass (Inr ())),
     clientsStatus = pass (Inr \<lparr>clients_list = None,
       auto_clients = Some [auto_client ''b'', auto_client ''A''], supported_tags = None\<rparr>),
     getProfile = gets (\<lambda>c. Inr (world c)),
     updateProfile = (\<lambda>p. do { modify (\<lambda>c. c\<lparr>world := p\<rparr>); pass (Inr ()) })\<rparr>"

theorem getClients_sorted_witness:
  "mset (autoClients (dashboard (exec (getClients sample_env codeCompare stored_api) sample_ctx))) =
     {#auto_client ''A'', auto_client ''b''#}"
proof -
  from getClients_sorted [OF code_order.comparator_axioms, of stored_api sample_ctx "\<lparr>clients_list = None,
       auto_clients = Some [auto_client ''b'', auto_client ''A''], supported_tags = None\<rparr>" _ sample_env]
  show ?thesis by (simp add: stored_api_def Let_def add_mset_commute)
qed

text \<open>
  The protection switch stores what it asked the server for exactly when no one else changed
  the stored value while the request was pending: the new value is computed from the store again
  after the answer. If a status refresh has already stored the requested value, the switch shows
  the opposite of what the server does.
\<close>

theorem toggleProtection_agrees_iff:
  assumes "run_state (setProtection api (\<not> protectionEnabled (dashboard c)) t)
      (setState (\<lambda>s. s\<lparr>processingProtection := True\<rparr>) c) = (Inr (), c1)"
  shows "protectionEnabled (dashboard (exec (toggleProtection env api t) c)) = (\<not> protectionEnabled (dashboard c)) \<longleftrightarrow>
     protectionEnabled (dashboard c1) = protectionEnabled (dashboard c)"
  using assms by (simp add: toggleProtection_def run_try_call)

theorem toggleProtection_agrees_iff_witness:
  "protectionEnabled (dashboard (exec (toggleProtection sample_env stored_api None) sample_ctx))"
  using toggleProtection_agrees_iff [of stored_api sample_ctx None "setState (\<lambda>s. s\<lparr>processingProtection := True\<rparr>) sample_ctx" sample_env]
  by (simp add: stored_api_def sample_ctx_def initialState_def)

text \<open>
  A manual check for updates on a server that has update checks disabled announces that a new
  version is available: the missing version never equals the current one.
\<close>

theorem recheck_disabled_announces_update:
  assumes "run_state (getVersionJson api True) (setState (\<lambda>s. s\<lparr>processingVersion := True\<rparr>) c) = (Inr (Some d), c1)"
    and "disabled d" and "new_version d = None"
  shows "message (last (notices (exec (getVersion env api True) c))) = msg env ''updates_checked'' \<and>
     isUpdateAvailable (dashboard (exec (getVersion env api True) c)) = isUpdateAvailable (dashboard c1)"
  using assms
  by (simp add: getVersion_def run_try_call areEqualVersions_def addSuccessToast_def success_notice_def Let_def)

theorem recheck_disabled_announces_update_witness:
  "message (last (notices (exec (getVersion sample_env stored_api True) sample_ctx))) = ''updates_checked''"
  using recheck_disabled_announces_update [of stored_api sample_ctx
      "\<lparr>disabled = True, new_version = None, announcement_url = None, can_autoupdate = None\<rparr>"
      "setState (\<lambda>s. s\<lparr>processingVersion := True\<rparr>) sample_ctx" sample_env]
  by (simp add: stored_api_def sample_env_def)

text \<open>
  Changing the language and then the theme changes just those two fields of the profile the
  server keeps, and the store shows both.
\<close>

theorem profile_changes_kept:
  assumes "\<And>d. run_state (getProfile api) d = (Inr (stored (world d)), d)"
    and "\<And>p d. run_state (updateProfile api p) d = (Inr (), d\<lparr>world := put p\<rparr>)"
    and "\<And>p. stored (put p) = p"
  shows "let c1 = exec (changeTheme env api th) (exec (changeLanguage env api l) c)
    in stored (world c1) = (stored (world c))\<lparr>profile_language := l, profile_theme := th\<rparr> \<and>
       language (dashboard c1) = l \<and> theme (dashboard c1) = Some th"
  using assms by (simp add: changeTheme_def changeLanguage_def run_try_call Let_def)

theorem profile_changes_kept_witness:
  "world (exec (changeTheme sample_env stored_api ''dark'') (exec (changeLanguage sample_env stored_api ''de'') sample_ctx))
     = \<lparr>profile_name = ''u'', profile_language = ''de'', profile_theme = ''dark''\<rparr>"
  using profile_changes_kept [of stored_api id id sample_env "''dark''" "''de''" sample_ctx]
  by (simp add: stored_api_def sample_ctx_def Let_def)

end
