(* ===== verification/Base64.thy ===== *)
theory Base64
  imports Prelude
begin

section \<open>Base64 as the browser does it\<close>

text \<open>
  \<open>btoa\<close> and \<open>atob\<close>, the two functions of the platform that
  \<^verbatim>\<open>client_v2/src/stores/encryption.ts\<close> encodes certificates and keys with. \<open>atob\<close> is the
  forgiving decoder of the web platform: white space is ignored, padding is optional, and what
  is not Base64 is an exception, here \<^const>\<open>None\<close>.
\<close>

definition b64_char :: "nat \<Rightarrow> char" where
  "b64_char n = char_of (if n < 26 then n + 65 else if n < 52 then n + 71
     else if n < 62 then n - 4 else if n = 62 then 43 else 47)"

definition b64_val :: "char \<Rightarrow> nat option" where
  "b64_val c =
     (let n = code c
      in if 65 \<le> n \<and> n \<le> 90 then Some (n - 65)
         else if 97 \<le> n \<and> n \<le> 122 then Some (n - 71)
         else if 48 \<le> n \<and> n \<le> 57 then Some (n + 4)
         else if n = 43 then Some 62
         else if n = 47 then Some 63
         else None)"

fun btoa :: "string \<Rightarrow> string" where
  "btoa [] = []"
| "btoa [a] = [b64_char (code a div 4), b64_char (code a mod 4 * 16), CHR ''='', CHR ''='']"
| "btoa [a, b] = [b64_char (code a div 4), b64_char (code a mod 4 * 16 + code b div 16),
     b64_char (code b mod 16 * 4), CHR ''='']"
| "btoa (a # b # c # r) =
     [b64_char (code a div 4), b64_char (code a mod 4 * 16 + code b div 16),
      b64_char (code b mod 16 * 4 + code c div 64), b64_char (code c mod 64)] @ btoa r"

text \<open>The sextets of the input, and the bytes they make.\<close>

fun sextets :: "string \<Rightarrow> nat list option" where
  "sextets [] = Some []"
| "sextets (c # cs) =
     (case b64_val c of None \<Rightarrow> None | Some v \<Rightarrow> map_option (Cons v) (sextets cs))"

fun bytes_of :: "nat list \<Rightarrow> string" where
  "bytes_of (a # b # c # d # r) =
     [char_of (a * 4 + b div 16), char_of (b mod 16 * 16 + c div 4), char_of (c mod 4 * 64 + d)] @ bytes_of r"
| "bytes_of [a, b, c] = [char_of (a * 4 + b div 16), char_of (b mod 16 * 16 + c div 4)]"
| "bytes_of [a, b] = [char_of (a * 4 + b div 16)]"
| "bytes_of _ = []"

definition is_ascii_space :: "char \<Rightarrow> bool" where
  "is_ascii_space c \<longleftrightarrow> code c \<in> {9, 10, 12, 13, 32}"

definition strip_padding :: "string \<Rightarrow> string" where
  "strip_padding s =
     (if length s mod 4 \<noteq> 0 then s
      else if endsWith s ''=='' then take (length s - 2) s
      else if endsWith s ''='' then take (length s - 1) s
      else s)"

definition atob :: "string \<Rightarrow> string option" where
  "atob s =
     (let t = strip_padding (filter (\<lambda>c. \<not> is_ascii_space c) s)
      in if length t mod 4 = 1 then None else map_option bytes_of (sextets t))"

subsection \<open>Decoding what was encoded\<close>

lemma code_lt [simp]: "code c < 256"
  by (simp add: code_def)

lemma char_of_code [simp]: "char_of (code c) = c"
  by (simp add: code_def)

lemma b64_val_char [simp]: "n < 64 \<Longrightarrow> b64_val (b64_char n) = Some n"
  by (auto simp: b64_val_def b64_char_def code_def Let_def)

lemma b64_char_plain:
  assumes "n < 64"
  shows "\<not> is_ascii_space (b64_char n)" "b64_char n \<noteq> CHR ''=''"
proof -
  have "b64_val (CHR ''='') = None" by (simp add: b64_val_def code_def)
  then show "b64_char n \<noteq> CHR ''=''" using b64_val_char [OF assms] by auto
  have "code c \<in> {9, 10, 12, 13, 32} \<Longrightarrow> b64_val c = None" for c by (auto simp: b64_val_def)
  then show "\<not> is_ascii_space (b64_char n)" using b64_val_char [OF assms] by (auto simp: is_ascii_space_def)
qed

text \<open>The encoding without its padding.\<close>

fun raw :: "string \<Rightarrow> nat list" where
  "raw [] = []"
| "raw [a] = [code a div 4, code a mod 4 * 16]"
| "raw [a, b] = [code a div 4, code a mod 4 * 16 + code b div 16, code b mod 16 * 4]"
| "raw (a # b # c # r) =
     [code a div 4, code a mod 4 * 16 + code b div 16, code b mod 16 * 4 + code c div 64, code c mod 64] @ raw r"

definition padding :: "string \<Rightarrow> string" where
  "padding s = (if length s mod 3 = 1 then ''=='' else if length s mod 3 = 2 then ''='' else [])"

lemma sextet_bounds:
  "code a div 4 < 64" "code a mod 4 * 16 + code b div 16 < 64"
  "code b mod 16 * 4 + code c div 64 < 64" "code c mod 64 < 64" "code a mod 4 * 16 < 64" "code b mod 16 * 4 < 64"
proof -
  have "code b div 16 < 16" "code c div 64 < 4" "code a div 4 < 64"
    using code_lt [of b] code_lt [of c] code_lt [of a] by (simp_all add: div_less_iff_less_mult del: code_lt)
  moreover have "code a mod 4 < 4" "code b mod 16 < 16" by simp_all
  ultimately show "code a div 4 < 64" "code a mod 4 * 16 + code b div 16 < 64"
    "code b mod 16 * 4 + code c div 64 < 64" "code c mod 64 < 64" "code a mod 4 * 16 < 64" "code b mod 16 * 4 < 64"
    by simp_all
qed

lemma raw_bound: "x \<in> set (raw s) \<Longrightarrow> x < 64"
  by (induction s rule: raw.induct) (auto simp: sextet_bounds)

lemma btoa_raw: "btoa s = map b64_char (raw s) @ padding s"
  by (induction s rule: raw.induct) (simp_all add: padding_def)

lemma bytes_of_raw: "bytes_of (raw s) = s"
proof -
  have byte: "n div 4 * 4 + (n mod 4 * 16 + m div 16) div 16 = n" if "m < 256" for n m :: nat
    using that by (simp add: div_less_iff_less_mult)
  have byte2: "(n mod 4 * 16 + m div 16) mod 16 * 16 + (m mod 16 * 4 + k div 64) div 4 = m" if "m < 256" "k < 256" for n m k :: nat
    using that by (simp add: div_less_iff_less_mult mod_mult_self3)
  have byte3: "(m mod 16 * 4 + k div 64) mod 4 * 64 + k mod 64 = k" if "k < 256" for m k :: nat
    using that by (simp add: div_less_iff_less_mult)
  show ?thesis
    using byte [OF code_lt] byte [of 0] byte2 [OF code_lt code_lt] byte2 [OF code_lt, of 0] byte3 [OF code_lt]
    by (induction s rule: raw.induct) simp_all
qed

lemma sextets_map: "(\<And>x. x \<in> set xs \<Longrightarrow> x < 64) \<Longrightarrow> sextets (map b64_char xs) = Some xs"
  by (induction xs) auto

lemma length_raw: "length (raw s) = (length s * 4 + 2) div 3"
  by (induction s rule: raw.induct) auto

lemma length_btoa: "length (btoa s) mod 4 = 0"
  by (induction s rule: btoa.induct) auto

lemma length_raw_mod: "length (raw s) mod 4 \<noteq> 1"
  by (induction s rule: raw.induct) auto

lemma no_equals_in_raw: "CHR ''='' \<notin> set (map b64_char (raw s))"
  using b64_char_plain(2) raw_bound by fastforce

lemma not_ends_equals: "CHR ''='' \<notin> set t \<Longrightarrow> \<not> endsWith t (x @ ''='')"
  by (auto simp: endsWith_iff)

lemma strip_padding_btoa: "strip_padding (btoa s) = map b64_char (raw s)"
proof -
  let ?t = "map b64_char (raw s)"
  have one: "\<not> endsWith (?t @ ''='') ''==''"
  proof
    assume "endsWith (?t @ ''='') ''==''"
    then obtain u where "?t @ ''='' = u @ ''==''" by (auto simp: endsWith_iff)
    then have "?t = u @ ''=''" by simp
    then show False using no_equals_in_raw [of s] by simp
  qed
  have "endsWith (?t @ x) x" for x by (auto simp: endsWith_iff)
  then show ?thesis
    using one no_equals_in_raw [of s] not_ends_equals [of ?t "[]"] not_ends_equals [of ?t "''=''"] length_btoa [of s]
    unfolding strip_padding_def btoa_raw padding_def by simp
qed

lemma filter_btoa: "filter (\<lambda>c. \<not> is_ascii_space c) (btoa s) = btoa s"
proof -
  have "\<not> is_ascii_space c" if "c \<in> set (btoa s)" for c
    using that raw_bound [of _ s] b64_char_plain(1)
    by (auto simp: btoa_raw padding_def is_ascii_space_def code_def split: if_splits)
  then show ?thesis by (simp add: filter_id_conv)
qed

lemma atob_btoa: "atob (btoa s) = Some s"
  using length_raw_mod [of s] raw_bound [of _ s]
  by (simp add: atob_def filter_btoa strip_padding_btoa sextets_map bytes_of_raw Let_def)

end
