(* ===== verification/Fetch.thy ===== *)
theory Fetch
  imports Prelude
begin

section \<open>The request wrapper\<close>

text \<open>
  \<^verbatim>\<open>client_v2/src/api/customFetch.ts\<close>, which every generated endpoint calls, and the function of
  \<^verbatim>\<open>client_v2/src/stores/encryption.ts\<close> that takes its error messages apart again.
  The browser's \<open>fetch\<close> and \<open>JSON\<close> are parameters: \<open>parse\<close> gives \<open>None\<close> where \<open>JSON.parse\<close>
  throws, a left value for a JSON string and a right value for any other JSON value.
\<close>

record http_response =
  ok :: bool
  http_status :: nat
  body_text :: string

record 'w net_ctx =
  pathname :: string
  href :: string
  replaced :: "string list"
  net_world :: 'w

record request =
  req_url :: string
  req_method :: string
  req_headers :: "(string \<times> string) list"
  req_body :: "string option"

record ('c, 'j) platform =
  fetch :: "request \<Rightarrow> ('c, http_response) call"
  parse :: "string \<Rightarrow> (string + 'j) option"
  stringify :: "'j \<Rightarrow> string"

datatype 'j fetched = Fetched "string + 'j" | FalseValue

definition LOGIN :: string where "LOGIN = ''/login.html''"

definition INSTALL :: string where "INSTALL = ''/install.html''"

text \<open>\<open>href.replace(R_PATH_LAST_PART, page)\<close>: the last slash and all after it.\<close>

definition replaceLastPart :: "string \<Rightarrow> string \<Rightarrow> string" where
  "replaceLastPart s page =
     (if CHR ''/'' \<in> set s then rev (tl (dropWhile (\<lambda>c. c \<noteq> CHR ''/'') (rev s))) @ page else s)"

definition bodyData :: "('c, 'j) platform \<Rightarrow> string \<Rightarrow> string + 'j" where
  "bodyData pf text = (if text = [] then Inl [] else nullish (parse pf text) (Inl text))"

definition bodyString :: "('c, 'j) platform \<Rightarrow> string + 'j \<Rightarrow> string" where
  "bodyString pf d = (case d of Inl s \<Rightarrow> s | Inr j \<Rightarrow> stringify pf j)"

definition sep :: string where "sep = '' | ''"

definition httpError :: "string \<Rightarrow> string \<Rightarrow> nat \<Rightarrow> string" where
  "httpError url body st = url @ sep @ body @ sep @ show_nat st"

text \<open>The outer \<open>catch\<close>: an error that already has a bar in it is passed on as it is.\<close>

definition rethrow :: "string \<Rightarrow> string \<Rightarrow> string" where
  "rethrow url e = (if includes_str e ''|'' then e else url @ sep @ e)"

definition customFetch ::
  "(('w, 'm) net_ctx_scheme, 'j) platform \<Rightarrow> request \<Rightarrow> bool \<Rightarrow> (('w, 'm) net_ctx_scheme, 'j fetched) call" where
  "customFetch pf req skipAuthRedirect =
     try_call (fetch pf req)
       (\<lambda>r. let data = bodyData pf (body_text r)
            in if ok r then pass (Inr (Fetched data))
               else do {
                 path \<leftarrow> gets pathname;
                 (if http_status r = 403 \<and> path \<noteq> LOGIN \<and> path \<noteq> INSTALL \<and> \<not> skipAuthRedirect
                  then do {
                    modify (\<lambda>c. c\<lparr>replaced := replaced c @ [replaceLastPart (href c) LOGIN]\<rparr>);
                    pass (Inr FalseValue) }
                  else pass (Inl (rethrow (req_url req)
                         (httpError (req_url req) (bodyString pf data) (http_status r))))) })
       (\<lambda>e. pass (Inl (rethrow (req_url req) e)))"

definition extractBodyText :: "string \<Rightarrow> string" where
  "extractBodyText m =
     (let segments = splitStr sep m
      in if 2 < length segments then join sep (butlast (tl segments))
         else if length segments = 2 then segments ! 1
         else m)"

subsection \<open>Splitting error messages\<close>

lemma sep_neq_Nil [simp]: "sep \<noteq> []"
  by (simp add: sep_def)

lemma no_space_no_sep: "CHR '' '' \<notin> set s \<Longrightarrow> indexOf s sep = None"
  by (induction s) (auto simp: sep_def)

lemma separated_no_space: "CHR '' '' \<notin> set s \<Longrightarrow> separated sep s"
  unfolding separated_def by (induction s) (auto simp: sep_def)

lemma separated_no_sep:
  "indexOf s sep = None \<Longrightarrow> \<not> endsWith s '' |'' \<Longrightarrow> separated sep s"
  unfolding separated_def
proof (induction s)
  case Nil
  show ?case by (simp add: sep_def)
next
  case (Cons x s)
  have ends: "\<not> endsWith s '' |''" using Cons.prems(2) unfolding endsWith_iff by (metis append_Cons)
  have idx: "indexOf s sep = None" "\<not> startsWith (x # s) sep" using Cons.prems(1) by (auto split: if_splits)
  have "\<not> startsWith (x # s @ sep) sep"
  proof (cases s)
    case Nil
    then show ?thesis by (simp add: sep_def)
  next
    case (Cons y t)
    show ?thesis
    proof (cases t)
      case Nil
      with Cons Cons.prems(2) show ?thesis by (auto simp: sep_def endsWith_def)
    next
      case (Cons z u)
      then show ?thesis using idx(2) \<open>s = y # t\<close> by (auto simp: sep_def)
    qed
  qed
  then show ?case using Cons.IH [OF idx(1) ends] by simp
qed

lemma splitStr_httpError:
  assumes "CHR '' '' \<notin> set url" and "\<not> endsWith body '' |''"
  shows "splitStr sep (httpError url body st) = url # splitStr sep body @ [show_nat st]"
proof -
  have "CHR '' '' \<notin> set (show_nat st)"
    using show_nat_digits [of "CHR '' ''" st] by (auto simp: is_digit_def code_def)
  then have st: "indexOf (show_nat st) sep = None" by (rule no_space_no_sep)
  obtain a where a: "body = a @ last (splitStr sep body)" "indexOf (last (splitStr sep body)) sep = None"
    using splitStr_last_part [of sep body] by auto
  then have "\<not> endsWith (last (splitStr sep body)) '' |''"
    using assms(2) unfolding endsWith_iff by (metis append.assoc)
  then have "splitStr sep (body @ sep @ show_nat st) = splitStr sep body @ [show_nat st]"
    by (intro splitStr_last [OF sep_neq_Nil st] separated_no_sep a(2))
  then show ?thesis
    unfolding httpError_def using splitStr_separated [OF sep_neq_Nil separated_no_space [OF assms(1)]] by simp
qed

lemma extractBodyText_httpError:
  assumes "CHR '' '' \<notin> set url" and "\<not> endsWith body '' |''"
  shows "extractBodyText (httpError url body st) = body"
  by (simp add: extractBodyText_def splitStr_httpError [OF assms] butlast_append join_splitStr Let_def)

lemma rethrow_httpError: "rethrow url (httpError u body st) = httpError u body st"
proof -
  have "CHR ''|'' \<in> set (httpError u body st)" by (simp add: httpError_def sep_def)
  then show ?thesis by (simp add: rethrow_def)
qed

subsection \<open>Theorems\<close>

text \<open>
  The text of an error response survives the trip through the thrown message: for a URL
  without spaces, \<open>extractBodyText\<close> gives back exactly the body that \<open>customFetch\<close> put into the
  error, also when the body itself contains the separator; the only exception is a body that
  ends in a blank and a bar.
\<close>

theorem error_body_roundtrip:
  assumes "run_state (fetch pf req) c = (Inr r, c1)" and "\<not> ok r"
    and "http_status r \<noteq> 403 \<or> skip \<or> pathname c1 \<in> {LOGIN, INSTALL}"
    and "CHR '' '' \<notin> set (req_url req)"
    and "\<not> endsWith (bodyString pf (bodyData pf (body_text r))) '' |''"
  shows "\<exists>e. result (customFetch pf req skip) c = Inl e \<and>
    extractBodyText e = bodyString pf (bodyData pf (body_text r)) \<and>
    replaced (exec (customFetch pf req skip) c) = replaced c1"
  using assms
  by (auto simp: customFetch_def run_try_call rethrow_httpError extractBodyText_httpError Let_def)

definition sample_platform :: "(('w, 'm) net_ctx_scheme, unit) platform" where
  "sample_platform = \<lparr>fetch = (\<lambda>_. pass (Inr \<lparr>ok = False, http_status = 400, body_text = ''port 53 | port 853''\<rparr>)),
     parse = (\<lambda>_. None), stringify = (\<lambda>_. [])\<rparr>"

definition sample_request :: request where
  "sample_request = \<lparr>req_url = ''control/tls/configure'', req_method = ''POST'', req_headers = [], req_body = None\<rparr>"

definition sample_net :: "unit net_ctx" where
  "sample_net = \<lparr>pathname = ''/'', href = ''http://agh.local/#settings'', replaced = [], net_world = ()\<rparr>"

theorem error_body_roundtrip_witness:
  "\<exists>e. result (customFetch sample_platform sample_request False) sample_net = Inl e \<and>
     extractBodyText e = ''port 53 | port 853''"
  using error_body_roundtrip [of sample_platform sample_request sample_net
      "\<lparr>ok = False, http_status = 400, body_text = ''port 53 | port 853''\<rparr>" sample_net False]
  by (simp add: sample_platform_def sample_request_def bodyString_def bodyData_def endsWith_def) blast

text \<open>
  An expired session sends the browser to the login page and nothing else: a 403 answer on any
  other page replaces the location once by the login page beside the current one and does not
  throw, and on the login and setup pages it throws and never redirects, so there is no loop.
\<close>

theorem expired_session_redirects:
  assumes "run_state (fetch pf req) c = (Inr r, c1)" and "\<not> ok r" and "http_status r = 403"
  shows "if pathname c1 \<in> {LOGIN, INSTALL}
    then isl (result (customFetch pf req False) c) \<and> exec (customFetch pf req False) c = c1
    else result (customFetch pf req False) c = Inr FalseValue \<and>
         exec (customFetch pf req False) c = c1\<lparr>replaced := replaced c1 @ [replaceLastPart (href c1) LOGIN]\<rparr>"
  using assms by (auto simp: customFetch_def run_try_call Let_def)

theorem expired_session_redirects_witness:
  "replaced (exec (customFetch (sample_platform\<lparr>fetch := (\<lambda>_. pass (Inr \<lparr>ok = False, http_status = 403, body_text = []\<rparr>))\<rparr>)
     sample_request False) sample_net) = [''http://agh.local/login.html'']"
  using expired_session_redirects [of "sample_platform\<lparr>fetch := (\<lambda>_. pass (Inr \<lparr>ok = False, http_status = 403, body_text = []\<rparr>))\<rparr>"
      sample_request sample_net "\<lparr>ok = False, http_status = 403, body_text = []\<rparr>" sample_net]
  by (simp add: sample_net_def LOGIN_def INSTALL_def replaceLastPart_def)

end
