(* ===== verification/Encryption.thy ===== *)
theory Encryption
  imports Dashboard Base64 Fetch
begin

section \<open>Encryption store\<close>

text \<open>
  \<^verbatim>\<open>client_v2/src/stores/encryption.ts\<close>, with \<open>checkRedirect\<close> and \<open>redirectToCurrentProtocol\<close>
  of \<^verbatim>\<open>helpers/helpers.tsx\<close> and the payload builders of
  \<^verbatim>\<open>components/Encryption/blocks/helpers.ts\<close>: the TLS settings, how they are merged, encoded and
  sent, and where the browser goes when the protocol changes.

  A TLS configuration is a record of optional values, \<^const>\<open>None\<close> being an absent key, because
  the store merges: a key that is absent leaves the old value. A port is a number from the
  backend or a string from a form; \<open>toNumber\<close> is \<open>Number(s) || 0\<close> on such strings.
\<close>

subsection \<open>Data\<close>

datatype port_value = PNum int | PStr string

record TlsConfig =
  tls_enabled :: "bool option"
  server_name :: "string option"
  force_https :: "bool option"
  port_https :: "port_value option"
  port_dns_over_tls :: "port_value option"
  port_dns_over_quic :: "port_value option"
  certificate_chain :: "string option"
  private_key :: "string option"
  private_key_saved :: "bool option"
  certificate_path :: "string option"
  private_key_path :: "string option"
  valid_cert :: "bool option"
  valid_chain :: "bool option"
  subject :: "string option"
  issuer :: "string option"
  not_before :: "string option"
  not_after :: "string option"
  dns_names :: "string list option option"
  valid_key :: "bool option"
  key_type :: "string option"
  warning_validation :: "string option"
  valid_pair :: "bool option"
  serve_plain_dns :: "bool option"
  port_dnscrypt :: "port_value option"
  dnscrypt_config_file :: "string option"

definition empty_tls :: TlsConfig where
  "empty_tls = \<lparr>tls_enabled = None, server_name = None, force_https = None, port_https = None,
     port_dns_over_tls = None, port_dns_over_quic = None, certificate_chain = None,
     private_key = None, private_key_saved = None, certificate_path = None,
     private_key_path = None, valid_cert = None, valid_chain = None, subject = None,
     issuer = None, not_before = None, not_after = None, dns_names = None, valid_key = None,
     key_type = None, warning_validation = None, valid_pair = None, serve_plain_dns = None,
     port_dnscrypt = None, dnscrypt_config_file = None\<rparr>"

text \<open>\<open>{ ...base, ...upd }\<close>.\<close>

fun or_else :: "'a option \<Rightarrow> 'a option \<Rightarrow> 'a option" where
  "or_else (Some v) _ = Some v"
| "or_else None b = b"

definition merge :: "TlsConfig \<Rightarrow> TlsConfig \<Rightarrow> TlsConfig" where
  "merge base upd = \<lparr>
     tls_enabled = or_else (tls_enabled upd) (tls_enabled base),
     server_name = or_else (server_name upd) (server_name base),
     force_https = or_else (force_https upd) (force_https base),
     port_https = or_else (port_https upd) (port_https base),
     port_dns_over_tls = or_else (port_dns_over_tls upd) (port_dns_over_tls base),
     port_dns_over_quic = or_else (port_dns_over_quic upd) (port_dns_over_quic base),
     certificate_chain = or_else (certificate_chain upd) (certificate_chain base),
     private_key = or_else (private_key upd) (private_key base),
     private_key_saved = or_else (private_key_saved upd) (private_key_saved base),
     certificate_path = or_else (certificate_path upd) (certificate_path base),
     private_key_path = or_else (private_key_path upd) (private_key_path base),
     valid_cert = or_else (valid_cert upd) (valid_cert base),
     valid_chain = or_else (valid_chain upd) (valid_chain base),
     subject = or_else (subject upd) (subject base),
     issuer = or_else (issuer upd) (issuer base),
     not_before = or_else (not_before upd) (not_before base),
     not_after = or_else (not_after upd) (not_after base),
     dns_names = or_else (dns_names upd) (dns_names base),
     valid_key = or_else (valid_key upd) (valid_key base),
     key_type = or_else (key_type upd) (key_type base),
     warning_validation = or_else (warning_validation upd) (warning_validation base),
     valid_pair = or_else (valid_pair upd) (valid_pair base),
     serve_plain_dns = or_else (serve_plain_dns upd) (serve_plain_dns base),
     port_dnscrypt = or_else (port_dnscrypt upd) (port_dnscrypt base),
     dnscrypt_config_file = or_else (dnscrypt_config_file upd) (dnscrypt_config_file base)\<rparr>"

record EncryptionState =
  processing :: bool
  initialized :: bool
  processingConfig :: bool
  processingValidate :: bool
  status_cert :: string
  status_key :: string
  allow_unencrypted_doh :: bool
  tls :: TlsConfig

definition initialState :: EncryptionState where
  "initialState = \<lparr>processing = True, initialized = False, processingConfig = False,
     processingValidate = False, status_cert = [], status_key = [], allow_unencrypted_doh = False,
     tls = empty_tls\<lparr>
       tls_enabled := Some False, serve_plain_dns := Some False, dns_names := Some None,
       force_https := Some False, issuer := Some [], key_type := Some ''RSA'',
       not_after := Some [], not_before := Some [], port_dns_over_tls := Some (PStr []),
       port_dns_over_quic := Some (PStr []), port_https := Some (PStr []),
       port_dnscrypt := Some (PStr []), subject := Some [], valid_chain := Some False,
       valid_key := Some False, valid_cert := Some False, valid_pair := Some False,
       certificate_chain := Some [], private_key := Some [], server_name := Some [],
       warning_validation := Some [], certificate_path := Some [], private_key_path := Some [],
       private_key_saved := Some False\<rparr>\<rparr>"

record location =
  protocol :: string
  hostname :: string
  hash :: string
  loc_port :: string

datatype redirect = CheckRedirect string | ReplaceLocation string

record 'w enc_ctx = "'w dash_ctx" +
  encryption :: EncryptionState
  window_location :: location
  redirects :: "redirect list"

interpretation enc_frame: toast_frame encryption
  by unfold_locales simp_all

interpretation redirects_frame: toast_frame redirects
  by unfold_locales simp_all

record 'c tls_api =
  tlsStatus :: "('c, TlsConfig) call"
  tlsConfigure :: "TlsConfig \<Rightarrow> ('c, TlsConfig) call"
  tlsValidate :: "TlsConfig \<Rightarrow> ('c, TlsConfig) call"

abbreviation setState ::
  "(EncryptionState \<Rightarrow> EncryptionState) \<Rightarrow> ('w, 'm) enc_ctx_scheme \<Rightarrow> ('w, 'm) enc_ctx_scheme" where
  "setState f c \<equiv> c\<lparr>encryption := f (encryption c)\<rparr>"

subsection \<open>Encoding and decoding\<close>

definition OMITTED_WHEN_EMPTY :: TlsConfig where
  "OMITTED_WHEN_EMPTY = empty_tls\<lparr>server_name := Some [], port_https := Some (PNum 0),
     port_dns_over_tls := Some (PNum 0), port_dns_over_quic := Some (PNum 0),
     warning_validation := Some [], subject := Some [], issuer := Some [], key_type := None\<rparr>"

definition decode_field :: "string option \<Rightarrow> string option" where
  "decode_field = map_option (\<lambda>v. nullish (atob v) v)"

definition decodeResponse :: "TlsConfig \<Rightarrow> TlsConfig" where
  "decodeResponse data =
     (let decoded = merge OMITTED_WHEN_EMPTY data
      in decoded\<lparr>certificate_chain := decode_field (certificate_chain decoded),
           private_key := decode_field (private_key decoded)\<rparr>)"

definition encodeRequest :: "TlsConfig \<Rightarrow> TlsConfig" where
  "encodeRequest v = v\<lparr>certificate_chain := map_option btoa (certificate_chain v),
     private_key := map_option btoa (private_key v)\<rparr>"

text \<open>\<open>port || 0\<close> and \<open>Number(port) || 0\<close>.\<close>

definition port_or_0 :: "port_value option \<Rightarrow> port_value" where
  "port_or_0 p = (case p of None \<Rightarrow> PNum 0 | Some (PStr []) \<Rightarrow> PNum 0 | Some v \<Rightarrow> v)"

definition number_or_0 :: "(string \<Rightarrow> int) \<Rightarrow> port_value option \<Rightarrow> int" where
  "number_or_0 toNumber p =
     (case p of None \<Rightarrow> 0 | Some (PNum n) \<Rightarrow> n | Some (PStr s) \<Rightarrow> if s = [] then 0 else toNumber s)"

definition normalizePorts :: "TlsConfig \<Rightarrow> TlsConfig" where
  "normalizePorts v = v\<lparr>port_https := Some (port_or_0 (port_https v)),
     port_dns_over_tls := Some (port_or_0 (port_dns_over_tls v)),
     port_dns_over_quic := Some (port_or_0 (port_dns_over_quic v))\<rparr>"

text \<open>Merging a decoded response into the store. Its \<open>key_type\<close> is always an own key, if only
  with the value \<open>undefined\<close>.\<close>

definition storeTls :: "TlsConfig \<Rightarrow> TlsConfig \<Rightarrow> TlsConfig" where
  "storeTls decoded s = (merge s decoded)\<lparr>key_type := key_type decoded\<rparr>"

definition fullValues :: "(string \<Rightarrow> int) \<Rightarrow> TlsConfig \<Rightarrow> TlsConfig \<Rightarrow> TlsConfig" where
  "fullValues toNumber s values = merge (empty_tls\<lparr>
     tls_enabled := tls_enabled s, serve_plain_dns := serve_plain_dns s,
     server_name := server_name s, force_https := force_https s,
     port_https := Some (PNum (number_or_0 toNumber (port_https s))),
     port_dns_over_tls := Some (PNum (number_or_0 toNumber (port_dns_over_tls s))),
     port_dns_over_quic := Some (PNum (number_or_0 toNumber (port_dns_over_quic s))),
     certificate_chain := certificate_chain s, private_key := private_key s,
     certificate_path := certificate_path s, private_key_path := private_key_path s,
     private_key_saved := private_key_saved s\<rparr>) values"

subsection \<open>Redirects\<close>

definition STANDARD_HTTPS_PORT :: int where "STANDARD_HTTPS_PORT = 443"

definition show_port :: "port_value \<Rightarrow> string" where
  "show_port p = (case p of PNum n \<Rightarrow> show_int n | PStr s \<Rightarrow> s)"

definition truthy_port :: "port_value option \<Rightarrow> bool" where
  "truthy_port p = (case p of None \<Rightarrow> False | Some (PNum n) \<Rightarrow> n \<noteq> 0 | Some (PStr s) \<Rightarrow> s \<noteq> [])"

text \<open>\<open>parseInt(port, 10)\<close> on \<open>window.location.port\<close>, which is empty or a decimal number.\<close>

definition parse_port :: "string \<Rightarrow> int option" where
  "parse_port s = (if s = [] then None else Some (foldl (\<lambda>n c. n * 10 + (int (code c) - 48)) 0 s))"

definition redirect_target :: "TlsConfig \<Rightarrow> int \<Rightarrow> location \<Rightarrow> redirect option" where
  "redirect_target v hport loc =
     (let en = (tls_enabled v = Some True);
          port = nullish (port_https v) (PStr ''undefined'');
          httpsPort = (if port \<noteq> PNum STANDARD_HTTPS_PORT then '':'' @ show_port port else []);
          https = ''https://'' @ hostname loc @ httpsPort @ ''/'' @ hash loc
      in if protocol loc \<noteq> ''https:'' \<and> en \<and> force_https v = Some True \<and> truthy_port (port_https v)
         then Some (CheckRedirect https)
         else if protocol loc = ''https:'' \<and> en \<and> truthy_port (port_https v) \<and>
           Some port \<noteq> map_option PNum (parse_port (loc_port loc))
         then Some (CheckRedirect https)
         else if protocol loc = ''https:'' \<and> (\<not> en \<or> \<not> truthy_port (port_https v))
         then Some (ReplaceLocation (''http://'' @ hostname loc @ '':'' @ show_int hport @ ''/'' @ hash loc))
         else None)"

definition redirectToCurrentProtocol ::
  "TlsConfig \<Rightarrow> int \<Rightarrow> ('w, 'm) enc_ctx_scheme \<Rightarrow> ('w, 'm) enc_ctx_scheme" where
  "redirectToCurrentProtocol v hport c =
     (case redirect_target v hport (window_location c) of
        None \<Rightarrow> c
      | Some r \<Rightarrow> c\<lparr>redirects := redirects c @ [r]\<rparr>)"

text \<open>The polling behind \<open>CheckRedirect\<close>: \<open>responds n\<close> says whether the \<open>n\<close>-th request is answered
  with success. The result is the number of requests made before the location is replaced.\<close>

function checkRedirect :: "(nat \<Rightarrow> bool) \<Rightarrow> nat \<Rightarrow> nat" where
  "checkRedirect responds attempts =
     (let count = (if attempts = 0 then 1 else attempts)
      in if 10 < count then 0
         else if responds count then 1
         else Suc (checkRedirect responds (count + 1)))"
  by pat_completeness auto
termination by (relation "measure (\<lambda>(_, n). 11 - n)") auto

declare checkRedirect.simps [simp del]

subsection \<open>Actions\<close>

definition getTlsStatus ::
  "env \<Rightarrow> ('w, 'm) enc_ctx_scheme tls_api \<Rightarrow> (('w, 'm) enc_ctx_scheme, unit) state" where
  "getTlsStatus env api = do {
     modify (setState (\<lambda>s. s\<lparr>processing := True\<rparr>));
     try_call (tlsStatus api)
       (\<lambda>data. modify (setState (\<lambda>s. s\<lparr>tls := storeTls (decodeResponse data) (tls s),
          processing := False, initialized := True\<rparr>)))
       (\<lambda>e. do {
          modify (errorToast env e);
          modify (setState (\<lambda>s. s\<lparr>processing := False, initialized := True\<rparr>)) }) }"

definition setTlsConfig ::
  "env \<Rightarrow> (string \<Rightarrow> int) \<Rightarrow> ('w, 'm) enc_ctx_scheme tls_api \<Rightarrow> ('w, 'm) enc_ctx_scheme dash_api
     \<Rightarrow> TlsConfig \<Rightarrow> bool \<Rightarrow> bool \<Rightarrow> (('w, 'm) enc_ctx_scheme, string + unit) state" where
  "setTlsConfig env toNumber api dash values silent suppressErrorToast = do {
     modify (setState (\<lambda>s. s\<lparr>processingConfig := True\<rparr>));
     s \<leftarrow> gets (\<lambda>c. tls (encryption c));
     (let full = fullValues toNumber s values;
          justEnabled = (tls_enabled s \<noteq> Some True \<and> tls_enabled full = Some True)
      in try_call (tlsConfigure api (normalizePorts (encodeRequest full)))
           (\<lambda>data. do {
              modify (\<lambda>c. redirectToCurrentProtocol full (httpPort (dashboard c)) c);
              modify (setState (\<lambda>s. s\<lparr>tls := storeTls (decodeResponse data) (tls s), processingConfig := False\<rparr>));
              (if silent then pass ()
               else modify (successToast env (msg env
                 (if justEnabled then ''encryption_enabled_toast'' else ''settings_notify_changes_saved''))));
              refreshDnsStatus dash;
              pass (Inr ()) })
           (\<lambda>e. do {
              (if suppressErrorToast then pass () else modify (errorToast env e));
              modify (setState (\<lambda>s. s\<lparr>processingConfig := False\<rparr>));
              pass (Inl (extractBodyText e)) })) }"

definition validateTlsConfig ::
  "env \<Rightarrow> ('w, 'm) enc_ctx_scheme tls_api \<Rightarrow> TlsConfig \<Rightarrow> bool
     \<Rightarrow> (('w, 'm) enc_ctx_scheme, string + TlsConfig) state" where
  "validateTlsConfig env api values persist = do {
     (if persist then modify (setState (\<lambda>s. s\<lparr>processingValidate := True\<rparr>)) else pass ());
     try_call (tlsValidate api (normalizePorts (encodeRequest values)))
       (\<lambda>data. do {
          (if persist
           then modify (setState (\<lambda>s. s\<lparr>tls := storeTls (decodeResponse data) (tls s), processingValidate := False\<rparr>))
           else pass ());
          pass (Inr (decodeResponse data)) })
       (\<lambda>e. do {
          (if persist
           then do {
             modify (errorToast env e);
             modify (setState (\<lambda>s. s\<lparr>processingValidate := False\<rparr>)) }
           else pass ());
          pass (Inl (extractBodyText e)) }) }"

definition resetValidationStatus :: "('w, 'm) enc_ctx_scheme \<Rightarrow> ('w, 'm) enc_ctx_scheme" where
  "resetValidationStatus = setState (\<lambda>s. s\<lparr>tls := (tls s)\<lparr>warning_validation := Some [],
     valid_chain := Some False, valid_cert := Some False, valid_key := Some False,
     valid_pair := Some False, subject := Some [], issuer := Some [], key_type := None,
     not_after := Some [], not_before := Some [], dns_names := Some None\<rparr>\<rparr>)"

definition applyTlsOptimistically :: "TlsConfig \<Rightarrow> ('w, 'm) enc_ctx_scheme \<Rightarrow> ('w, 'm) enc_ctx_scheme" where
  "applyTlsOptimistically values = setState (\<lambda>s. s\<lparr>tls := merge (tls s) values\<rparr>)"

subsection \<open>Form payloads\<close>

definition ENCRYPTION_SOURCE_PATH :: string where "ENCRYPTION_SOURCE_PATH = ''path''"

definition ENCRYPTION_SOURCE_CONTENT :: string where "ENCRYPTION_SOURCE_CONTENT = ''content''"

text \<open>\<open>EncryptionFormValues\<close>: the settings of the form with the two source selectors.\<close>

record EncryptionFormValues =
  form :: TlsConfig
  certificate_source :: "string option"
  key_source :: "string option"

definition defaultTlsValues :: EncryptionFormValues where
  "defaultTlsValues = \<lparr>form = empty_tls\<lparr>tls_enabled := Some False, serve_plain_dns := Some True,
     server_name := Some [], force_https := Some False, port_https := Some (PNum STANDARD_HTTPS_PORT),
     port_dns_over_tls := Some (PNum 853), port_dns_over_quic := Some (PNum 853),
     certificate_chain := Some [], private_key := Some [], certificate_path := Some [],
     private_key_path := Some [], private_key_saved := Some False\<rparr>,
     certificate_source = Some ENCRYPTION_SOURCE_PATH, key_source = Some ENCRYPTION_SOURCE_PATH\<rparr>"

definition submit_cert :: "string option \<Rightarrow> TlsConfig \<Rightarrow> TlsConfig" where
  "submit_cert src v =
     (if src = Some ENCRYPTION_SOURCE_PATH then v\<lparr>certificate_chain := Some []\<rparr>
      else v\<lparr>certificate_path := Some []\<rparr>)"

definition submit_key :: "string option \<Rightarrow> bool \<Rightarrow> TlsConfig \<Rightarrow> TlsConfig" where
  "submit_key src saved v =
     (if src = Some ENCRYPTION_SOURCE_PATH
      then v\<lparr>private_key := Some [], private_key_saved := Some False\<rparr>
      else (if saved then v\<lparr>private_key_path := Some [], private_key := Some []\<rparr>
            else v\<lparr>private_key_path := Some []\<rparr>)\<lparr>private_key_saved := Some saved\<rparr>)"

definition getSubmitValues :: "EncryptionFormValues \<Rightarrow> TlsConfig" where
  "getSubmitValues v =
     submit_key (key_source v) (private_key_saved (form v) = Some True)
       (submit_cert (certificate_source v) (form v))"

definition getStoreFormValues :: "(string \<Rightarrow> int) \<Rightarrow> TlsConfig \<Rightarrow> EncryptionFormValues" where
  "getStoreFormValues toNumber s = \<lparr>form = fullValues toNumber s empty_tls,
     certificate_source = Some (if certificate_chain s \<in> {None, Some []}
        then ENCRYPTION_SOURCE_PATH else ENCRYPTION_SOURCE_CONTENT),
     key_source = Some (if private_key s \<notin> {None, Some []} \<or> private_key_saved s = Some True
        then ENCRYPTION_SOURCE_CONTENT else ENCRYPTION_SOURCE_PATH)\<rparr>"

definition getStepValidationValues :: "nat \<Rightarrow> EncryptionFormValues \<Rightarrow> TlsConfig" where
  "getStepValidationValues step v =
     (let base = (getSubmitValues v)\<lparr>serve_plain_dns := Some True\<rparr>
      in if step = 3 then base\<lparr>tls_enabled := Some True\<rparr>
         else let payload = base\<lparr>tls_enabled := Some False, server_name := Some []\<rparr>
              in if step = 1
                 then payload\<lparr>private_key := Some [], private_key_path := Some [], private_key_saved := Some False\<rparr>
                 else payload)"

subsection \<open>Theorems\<close>

lemma or_else_None_iff [simp]: "or_else a b = None \<longleftrightarrow> a = None \<and> b = None"
  by (cases a) auto

lemma or_else_Some_right [simp]: "or_else a (Some b) = Some (nullish a b)"
  by (cases a) auto

lemma decode_encode [simp]: "decode_field (map_option btoa v) = v"
  by (cases v) (simp_all add: decode_field_def atob_btoa)

text \<open>
  Certificates and keys survive the wire: saving against a server that keeps what it is sent
  leaves in the store exactly the certificate and key text that was given, for every text of
  bytes, through \<open>btoa\<close> on the way out and the forgiving \<open>atob\<close> on the way back.
\<close>

theorem setTlsConfig_secret_roundtrip:
  assumes "\<And>v d. run_state (tlsConfigure api v) d = (Inr v, d)"
    and "\<And>d. \<exists>r. run_state (fetchStatus dash) d = (r, d)"
    and "certificate_chain values = Some cert" and "private_key values = Some key"
  shows "let c1 = exec (setTlsConfig env toNumber api dash values silent quiet) c
    in certificate_chain (tls (encryption c1)) = Some cert \<and> private_key (tls (encryption c1)) = Some key \<and>
       \<not> processingConfig (encryption c1)"
proof -
  have refresh: "encryption (exec (refreshDnsStatus dash) d) = encryption d" for d
  proof -
    obtain r where "run_state (fetchStatus dash) d = (r, d)" using assms(2) by blast
    then show ?thesis by (cases r) (simp_all add: refreshDnsStatus_def run_try_call)
  qed
  show ?thesis
    by (simp add: setTlsConfig_def run_try_call assms(1,3,4) refresh Let_def storeTls_def
        decodeResponse_def merge_def encodeRequest_def normalizePorts_def fullValues_def
        redirectToCurrentProtocol_def OMITTED_WHEN_EMPTY_def empty_tls_def decode_field_def atob_btoa
        split: option.splits)
qed

definition sample_ctx :: "ProfileInfo enc_ctx" where
  "sample_ctx = \<lparr>notices = [], undoRegistry = Map.empty, nonce = 1, console_error = [],
     world = \<lparr>profile_name = ''u'', profile_language = ''en'', profile_theme = ''auto''\<rparr>,
     dashboard = Dashboard.initialState, encryption = initialState,
     window_location = \<lparr>protocol = ''http:'', hostname = ''h'', hash = ''#e'', loc_port = ''3000''\<rparr>,
     redirects = []\<rparr>"

text \<open>A server that answers every save and check with what it was sent.\<close>

definition echo_api :: "('w, 'm) enc_ctx_scheme tls_api" where
  "echo_api = \<lparr>tlsStatus = pass (Inr empty_tls), tlsConfigure = (\<lambda>v. pass (Inr v)),
     tlsValidate = (\<lambda>v. pass (Inr v))\<rparr>"

theorem setTlsConfig_secret_roundtrip_witness:
  "certificate_chain (tls (encryption (exec (setTlsConfig sample_env (\<lambda>_. 0) echo_api stored_api
     (empty_tls\<lparr>certificate_chain := Some ''CERT'', private_key := Some ''KEY''\<rparr>) False False) sample_ctx))) = Some ''CERT''"
proof -
  let ?v = "empty_tls\<lparr>certificate_chain := Some ''CERT'', private_key := Some ''KEY''\<rparr>"
  from setTlsConfig_secret_roundtrip [of echo_api stored_api ?v "''CERT''" "''KEY''" sample_env "\<lambda>_. 0" False False sample_ctx]
  show ?thesis by (simp add: echo_api_def stored_api_def Let_def)
qed

text \<open>
  A setting the backend omits because it is empty never keeps its old value: after loading the
  TLS status, the server name, the three ports, the warning and the certificate metadata are
  those of the response, with the empty value where the response has none.
\<close>

theorem getTlsStatus_forgets_omitted:
  assumes "run_state (tlsStatus api) (setState (\<lambda>s. s\<lparr>processing := True\<rparr>) c) = (Inr data, c1)"
  shows "let t = tls (encryption (exec (getTlsStatus env api) c))
    in server_name t = Some (nullish (server_name data) []) \<and>
       port_https t = Some (nullish (port_https data) (PNum 0)) \<and>
       port_dns_over_tls t = Some (nullish (port_dns_over_tls data) (PNum 0)) \<and>
       port_dns_over_quic t = Some (nullish (port_dns_over_quic data) (PNum 0)) \<and>
       warning_validation t = Some (nullish (warning_validation data) []) \<and>
       subject t = Some (nullish (subject data) []) \<and> issuer t = Some (nullish (issuer data) []) \<and>
       key_type t = key_type data"
  using assms
  by (simp add: getTlsStatus_def run_try_call storeTls_def decodeResponse_def merge_def
      OMITTED_WHEN_EMPTY_def empty_tls_def Let_def) (cases "key_type data"; simp)

theorem getTlsStatus_forgets_omitted_witness:
  "server_name (tls (encryption (exec (getTlsStatus sample_env echo_api)
     (setState (\<lambda>s. s\<lparr>tls := (tls s)\<lparr>server_name := Some ''old.example''\<rparr>\<rparr>) sample_ctx)))) = Some []"
  using getTlsStatus_forgets_omitted [of echo_api "setState (\<lambda>s. s\<lparr>tls := (tls s)\<lparr>server_name := Some ''old.example''\<rparr>\<rparr>) sample_ctx"
      empty_tls "setState (\<lambda>s. s\<lparr>processing := True\<rparr>) (setState (\<lambda>s. s\<lparr>tls := (tls s)\<lparr>server_name := Some ''old.example''\<rparr>\<rparr>) sample_ctx)" sample_env]
  by (simp add: echo_api_def Let_def empty_tls_def)

definition one_source :: "TlsConfig \<Rightarrow> bool" where
  "one_source r \<longleftrightarrow>
     (certificate_chain r = Some [] \<or> certificate_path r = Some []) \<and>
     (private_key r = Some [] \<or> private_key_path r = Some []) \<and>
     (private_key_saved r = Some True \<longrightarrow> private_key r = Some [] \<and> private_key_path r = Some [])"

text \<open>
  What a form submits never carries a certificate and a certificate path, nor a key and a key
  path, nor a stored key together with either: whatever the store holds, the request that is sent
  has at most one of each, which is what the server demands.
\<close>

theorem submitted_request_one_source:
  "one_source (normalizePorts (encodeRequest (fullValues toNumber store (getSubmitValues v)))) \<and>
   one_source (normalizePorts (encodeRequest (getStepValidationValues step v)))"
proof
  show "one_source (normalizePorts (encodeRequest (fullValues toNumber store (getSubmitValues v))))"
    by (simp add: one_source_def normalizePorts_def encodeRequest_def fullValues_def merge_def
        getSubmitValues_def submit_key_def submit_cert_def)
  show "one_source (normalizePorts (encodeRequest (getStepValidationValues step v)))"
    by (simp add: one_source_def normalizePorts_def encodeRequest_def getStepValidationValues_def
        getSubmitValues_def submit_key_def submit_cert_def Let_def)
qed

text \<open>
  A check with \<open>persist: false\<close> is pure: it changes nothing beyond what the request itself
  does, whatever the answer.
\<close>

theorem validateTlsConfig_pure:
  "exec (validateTlsConfig env api values False) c = exec (tlsValidate api (normalizePorts (encodeRequest values))) c"
  by (simp add: validateTlsConfig_def run_try_call split: sum.splits)

text \<open>
  A save that fails does not undo what was applied optimistically: after
  \<open>applyTlsOptimistically\<close> and a rejected \<open>setTlsConfig\<close> with the same values, the store still
  shows the new values although the server kept the old ones.
\<close>

theorem optimistic_values_survive_failure:
  assumes "\<And>v d. run_state (tlsConfigure api v) d = (Inl e, d)"
  shows "tls (encryption (exec (setTlsConfig env toNumber api dash values silent quiet) (applyTlsOptimistically values c)))
     = merge (tls (encryption c)) values"
  using assms by (simp add: setTlsConfig_def run_try_call applyTlsOptimistically_def Let_def)

theorem optimistic_values_survive_failure_witness:
  "certificate_path (tls (encryption (exec (setTlsConfig sample_env (\<lambda>_. 0)
       (echo_api\<lparr>tlsConfigure := (\<lambda>_. pass (Inl ''down''))\<rparr>) stored_api (getSubmitValues defaultTlsValues) False False)
     (applyTlsOptimistically (getSubmitValues defaultTlsValues)
       (setState (\<lambda>s. s\<lparr>tls := (tls s)\<lparr>certificate_path := Some ''/etc/cert''\<rparr>\<rparr>) sample_ctx))))) = Some []"
proof -
  let ?api = "echo_api\<lparr>tlsConfigure := (\<lambda>_. pass (Inl ''down''))\<rparr> :: ProfileInfo enc_ctx tls_api"
  have "\<And>v d. run_state (tlsConfigure ?api v) d = (Inl ''down'', d)" by simp
  from optimistic_values_survive_failure [OF this, of sample_env "\<lambda>_. 0" stored_api "getSubmitValues defaultTlsValues"
      False False "setState (\<lambda>s. s\<lparr>tls := (tls s)\<lparr>certificate_path := Some ''/etc/cert''\<rparr>\<rparr>) sample_ctx"]
  show ?thesis by (simp add: merge_def getSubmitValues_def submit_key_def submit_cert_def defaultTlsValues_def)
qed

lemma checkRedirect_stop: "10 < n \<Longrightarrow> checkRedirect responds n = 0"
  by (subst checkRedirect.simps) simp

lemma checkRedirect_hit: "0 < n \<Longrightarrow> n \<le> 10 \<Longrightarrow> responds n \<Longrightarrow> checkRedirect responds n = 1"
  by (subst checkRedirect.simps) simp

lemma checkRedirect_miss:
  "0 < n \<Longrightarrow> n \<le> 10 \<Longrightarrow> \<not> responds n \<Longrightarrow> checkRedirect responds n = Suc (checkRedirect responds (Suc n))"
  by (subst checkRedirect.simps) simp

lemma checkRedirect_bound: "0 < n \<Longrightarrow> checkRedirect responds n \<le> 11 - n"
proof (induction responds n rule: checkRedirect.induct)
  case (1 responds n)
  consider "10 < n" | "n \<le> 10" "responds n" | "n \<le> 10" "\<not> responds n" by linarith
  then show ?case
  proof cases
    case 3
    with 1 have "checkRedirect responds (Suc n) \<le> 11 - Suc n" by simp
    with 3 "1.prems" show ?thesis by (simp add: checkRedirect_miss)
  qed (use "1.prems" in \<open>simp_all add: checkRedirect_stop checkRedirect_hit\<close>)
qed

lemma checkRedirect_first:
  "0 < n \<Longrightarrow> n \<le> k \<Longrightarrow> k \<le> 10 \<Longrightarrow> responds k \<Longrightarrow> (\<And>j. n \<le> j \<Longrightarrow> j < k \<Longrightarrow> \<not> responds j) \<Longrightarrow>
     checkRedirect responds n = Suc (k - n)"
proof (induction "k - n" arbitrary: n)
  case 0
  then show ?case by (simp add: checkRedirect_hit)
next
  case (Suc m)
  then have "checkRedirect responds (Suc n) = Suc (k - Suc n)" by simp
  moreover have "\<not> responds n" "n < k" using Suc by auto
  ultimately show ?case using Suc.prems Suc.hyps by (simp add: checkRedirect_miss)
qed

text \<open>
  C39. Waiting for the HTTPS server always ends: at most ten requests are made before the location
  is replaced, and it is replaced after the first request that succeeds.
\<close>

theorem checkRedirect_ends:
  "checkRedirect responds 1 \<le> 10 \<and>
   (\<forall>k. 1 \<le> k \<and> k \<le> 10 \<and> responds k \<and> (\<forall>j. 1 \<le> j \<and> j < k \<longrightarrow> \<not> responds j) \<longrightarrow> checkRedirect responds 1 = k)"
  using checkRedirect_bound [of 1 responds] checkRedirect_first [of 1 _ responds] by auto

theorem checkRedirect_ends_witness: "checkRedirect (\<lambda>n. n = 4) 1 = 4"
  using checkRedirect_ends [of "\<lambda>n. n = 4"] by simp

text \<open>
  After a save the browser leaves HTTPS exactly when encryption is now off or has no HTTPS
  port, and it never leaves plain HTTP unless encryption is on, forced, and has a port.
\<close>

theorem redirect_only_when_needed:
  "((\<exists>u. redirect_target v hp loc = Some (ReplaceLocation u)) \<longleftrightarrow>
     protocol loc = ''https:'' \<and> (tls_enabled v \<noteq> Some True \<or> \<not> truthy_port (port_https v))) \<and>
   (protocol loc \<noteq> ''https:'' \<longrightarrow> redirect_target v hp loc \<noteq> None \<longrightarrow>
     tls_enabled v = Some True \<and> force_https v = Some True \<and> truthy_port (port_https v))"
  by (auto simp: redirect_target_def Let_def split: if_splits)

theorem redirect_only_when_needed_witness:
  "\<exists>u. redirect_target (empty_tls\<lparr>tls_enabled := Some False\<rparr>) 80
     \<lparr>protocol = ''https:'', hostname = ''h'', hash = [], loc_port = []\<rparr> = Some (ReplaceLocation u)"
  using redirect_only_when_needed [of "empty_tls\<lparr>tls_enabled := Some False\<rparr>" 80
     "\<lparr>protocol = ''https:'', hostname = ''h'', hash = [], loc_port = []\<rparr>"] by simp

end
