(* ===== verification/Regex.thy ===== *)
theory Regex
  imports Prelude
begin

section \<open>Regular expressions\<close>

text \<open>
  The part of JavaScript's regular expressions that
  \<^verbatim>\<open>client_v2/src/helpers/constants.ts\<close> uses, tested with \<open>RegExp.prototype.test\<close>: character
  classes, sequences, alternatives, repetition. A pattern between \<open>^\<close> and \<open>$\<close> is tested against
  the whole input (\<open>$\<close> without the \<open>m\<close> flag is the end of the input only). Matching is by
  derivatives; \<open>matches_lang\<close> is its correctness against the language of the expression.
\<close>

datatype rx = Zero | One | Cls "char \<Rightarrow> bool" | Seq rx rx | Alt rx rx | Star rx

fun nullable :: "rx \<Rightarrow> bool" where
  "nullable Zero = False"
| "nullable One = True"
| "nullable (Cls P) = False"
| "nullable (Seq r s) = (nullable r \<and> nullable s)"
| "nullable (Alt r s) = (nullable r \<or> nullable s)"
| "nullable (Star r) = True"

text \<open>Smart constructors keep the derivatives small.\<close>

fun seq :: "rx \<Rightarrow> rx \<Rightarrow> rx" where
  "seq Zero s = Zero"
| "seq One s = s"
| "seq r s = Seq r s"

fun alt :: "rx \<Rightarrow> rx \<Rightarrow> rx" where
  "alt Zero s = s"
| "alt r Zero = r"
| "alt r s = Alt r s"

fun deriv :: "char \<Rightarrow> rx \<Rightarrow> rx" where
  "deriv c Zero = Zero"
| "deriv c One = Zero"
| "deriv c (Cls P) = (if P c then One else Zero)"
| "deriv c (Seq r s) =
     (if nullable r then alt (seq (deriv c r) s) (deriv c s) else seq (deriv c r) s)"
| "deriv c (Alt r s) = alt (deriv c r) (deriv c s)"
| "deriv c (Star r) = seq (deriv c r) (Star r)"

fun matches :: "rx \<Rightarrow> string \<Rightarrow> bool" where
  "matches r [] = nullable r"
| "matches r (c # cs) = matches (deriv c r) cs"

subsection \<open>The language of an expression\<close>

inductive_set star :: "string set \<Rightarrow> string set" for A where
  star_Nil: "[] \<in> star A"
| star_step: "u \<in> A \<Longrightarrow> v \<in> star A \<Longrightarrow> u @ v \<in> star A"

fun lang :: "rx \<Rightarrow> string set" where
  "lang Zero = {}"
| "lang One = {[]}"
| "lang (Cls P) = {[c] | c. P c}"
| "lang (Seq r s) = {u @ v | u v. u \<in> lang r \<and> v \<in> lang s}"
| "lang (Alt r s) = lang r \<union> lang s"
| "lang (Star r) = star (lang r)"

lemma lang_SeqI: "u \<in> lang r \<Longrightarrow> v \<in> lang s \<Longrightarrow> u @ v \<in> lang (Seq r s)"
  by auto

lemma nullable_iff: "nullable r \<longleftrightarrow> [] \<in> lang r"
  by (induction r) (auto intro: star_Nil)

lemma lang_seq [simp]: "lang (seq r s) = lang (Seq r s)"
  by (cases r) auto

lemma lang_alt [simp]: "lang (alt r s) = lang (Alt r s)"
  by (cases r; cases s) auto

lemma star_Cons: "c # w \<in> star A \<longleftrightarrow> (\<exists>u v. w = u @ v \<and> c # u \<in> A \<and> v \<in> star A)"
proof
  have "x \<in> star A \<Longrightarrow> x = c # w \<Longrightarrow> \<exists>u v. w = u @ v \<and> c # u \<in> A \<and> v \<in> star A" for x
    by (induction rule: star.induct) (auto simp: append_eq_Cons_conv)
  then show "c # w \<in> star A \<Longrightarrow> \<exists>u v. w = u @ v \<and> c # u \<in> A \<and> v \<in> star A" by blast
next
  assume "\<exists>u v. w = u @ v \<and> c # u \<in> A \<and> v \<in> star A"
  then obtain u v where "w = u @ v" "c # u \<in> A" "v \<in> star A" by blast
  then show "c # w \<in> star A" using star_step [of "c # u" A v] by simp
qed

lemma lang_deriv: "w \<in> lang (deriv c r) \<longleftrightarrow> c # w \<in> lang r"
proof (induction r arbitrary: w)
  case (Seq r s)
  show ?case
    by (auto simp: Seq nullable_iff Cons_eq_append_conv)
next
  case (Star r)
  show ?case by (auto simp: Star star_Cons)
qed auto

lemma matches_lang: "matches r w \<longleftrightarrow> w \<in> lang r"
  by (induction w arbitrary: r) (auto simp: nullable_iff lang_deriv)

subsection \<open>Notations of the sources\<close>

definition ch :: "char \<Rightarrow> rx" where "ch c = Cls (\<lambda>x. x = c)"

text \<open>A literal string, \<open>r?\<close>, \<open>r+\<close>, \<open>r{n}\<close>, \<open>r{0,n}\<close>.\<close>

fun lit :: "string \<Rightarrow> rx" where
  "lit [] = One"
| "lit (c # cs) = seq (ch c) (lit cs)"

definition opt :: "rx \<Rightarrow> rx" where "opt r = Alt One r"

definition plus_rx :: "rx \<Rightarrow> rx" where "plus_rx r = Seq r (Star r)"

fun rep :: "nat \<Rightarrow> rx \<Rightarrow> rx" where
  "rep 0 r = One"
| "rep (Suc n) r = Seq r (rep n r)"

fun upto :: "nat \<Rightarrow> rx \<Rightarrow> rx" where
  "upto 0 r = One"
| "upto (Suc n) r = Alt One (Seq r (upto n r))"

definition anything :: rx where "anything = Star (Cls (\<lambda>_. True))"

text \<open>An unanchored \<open>test\<close>.\<close>

definition search :: "rx \<Rightarrow> string \<Rightarrow> bool" where
  "search r s = matches (Seq anything (Seq r anything)) s"

definition char_range :: "char \<Rightarrow> char \<Rightarrow> char \<Rightarrow> bool" where
  "char_range a b c \<longleftrightarrow> code a \<le> code c \<and> code c \<le> code b"

definition is_hex :: "char \<Rightarrow> bool" where
  "is_hex c \<longleftrightarrow> is_digit c \<or> char_range (CHR ''a'') (CHR ''f'') c \<or> char_range (CHR ''A'') (CHR ''F'') c"

definition is_alpha :: "char \<Rightarrow> bool" where
  "is_alpha c \<longleftrightarrow> is_lower c \<or> is_upper c"

definition is_alnum :: "char \<Rightarrow> bool" where
  "is_alnum c \<longleftrightarrow> is_alpha c \<or> is_digit c"

text \<open>\<open>\w\<close>.\<close>

definition is_word :: "char \<Rightarrow> bool" where
  "is_word c \<longleftrightarrow> is_alnum c \<or> c = CHR ''_''"

lemma lang_ch [simp]: "lang (ch c) = {[c]}"
  by (auto simp: ch_def)

lemma lang_lit [simp]: "lang (lit s) = {s}"
  by (induction s) auto

lemma lang_opt [simp]: "lang (opt r) = insert [] (lang r)"
  by (auto simp: opt_def)

lemma star_Cls: "star {[c] | c. P c} = {s. \<forall>c\<in>set s. P c}"
proof
  show "star {[c] | c. P c} \<subseteq> {s. \<forall>c\<in>set s. P c}"
  proof
    fix x assume "x \<in> star {[c] | c. P c}"
    then show "x \<in> {s. \<forall>c\<in>set s. P c}" by (induction rule: star.induct) auto
  qed
  have "\<forall>c\<in>set s. P c \<Longrightarrow> s \<in> star {[c] | c. P c}" for s
    by (induction s) (auto simp: star_Nil star_Cons)
  then show "{s. \<forall>c\<in>set s. P c} \<subseteq> star {[c] | c. P c}" by blast
qed

lemma lang_star_Cls [simp]: "lang (Star (Cls P)) = {s. \<forall>c\<in>set s. P c}"
  by (simp add: star_Cls)

lemma lang_plus_Cls: "lang (plus_rx (Cls P)) = {s. s \<noteq> [] \<and> (\<forall>c\<in>set s. P c)}"
proof -
  have "s \<in> lang (plus_rx (Cls P)) \<longleftrightarrow> s \<noteq> [] \<and> (\<forall>c\<in>set s. P c)" for s
  proof (cases s)
    case (Cons a t)
    have "a # t \<in> lang (plus_rx (Cls P)) \<longleftrightarrow> (\<exists>u v. a # t = u @ v \<and> (\<exists>c. u = [c] \<and> P c) \<and> (\<forall>x\<in>set v. P x))"
      by (auto simp: plus_rx_def star_Cls)
    also have "\<dots> \<longleftrightarrow> P a \<and> (\<forall>x\<in>set t. P x)"
    proof
      assume "P a \<and> (\<forall>x\<in>set t. P x)"
      moreover have "a # t = [a] @ t" by simp
      ultimately show "\<exists>u v. a # t = u @ v \<and> (\<exists>c. u = [c] \<and> P c) \<and> (\<forall>x\<in>set v. P x)" by blast
    qed auto
    finally show ?thesis using Cons by simp
  qed (simp add: plus_rx_def)
  then show ?thesis by blast
qed

lemma lang_anything [simp]: "lang anything = UNIV"
  using lang_star_Cls [of "\<lambda>_. True"] by (simp add: anything_def del: lang_star_Cls)

lemma search_iff: "search r s \<longleftrightarrow> (\<exists>a b c. s = a @ b @ c \<and> b \<in> lang r)"
  unfolding search_def matches_lang by auto

end
