(* ===== verification/NetHelpers.thy ===== *)
theory NetHelpers
  imports Regex Sorting
begin

section \<open>Addresses, hosts and paths\<close>

text \<open>
  The network helpers of \<^verbatim>\<open>client_v2/src/helpers/helpers.tsx\<close> and \<^verbatim>\<open>helpers/form.tsx\<close> with the
  patterns of \<^verbatim>\<open>helpers/constants.ts\<close>. The package \<open>ipaddr.js\<close> is a parameter: its parsers give
  \<^const>\<open>None\<close> where they throw.
\<close>

subsection \<open>Patterns\<close>

abbreviation cls :: "(char \<Rightarrow> bool) \<Rightarrow> rx" where "cls \<equiv> Cls"

definition octet :: rx where
  "octet = Alt (Seq (ch (CHR ''2'')) (Seq (ch (CHR ''5'')) (cls (char_range (CHR ''0'') (CHR ''5'')))))
     (Alt (Seq (ch (CHR ''2'')) (Seq (cls (char_range (CHR ''0'') (CHR ''4''))) (cls is_digit)))
     (Alt (Seq (ch (CHR ''1'')) (Seq (cls is_digit) (cls is_digit)))
          (Seq (opt (cls (char_range (CHR ''1'') (CHR ''9'')))) (cls is_digit))))"

definition R_IPV4 :: rx where
  "R_IPV4 = Seq octet (rep 3 (Seq (ch (CHR ''.'')) octet))"

definition R_HOST :: rx where
  "R_HOST = Seq (opt (lit ''*.'')) (plus_rx (cls (\<lambda>c. is_word c \<or> c = CHR ''.'' \<or> c = CHR ''-'')))"

text \<open>\<open>fields sep n k\<close> is \<open>(([a-fA-F0-9]{n}sep){k}[a-fA-F0-9]{n})\<close>.\<close>

definition fields :: "char \<Rightarrow> nat \<Rightarrow> nat \<Rightarrow> rx" where
  "fields sp n k = Seq (rep k (Seq (rep n (cls is_hex)) (ch sp))) (rep n (cls is_hex))"

definition R_MAC :: rx where
  "R_MAC = Alt (fields (CHR '':'') 2 5) (Alt (fields (CHR ''-'') 2 5)
     (Alt (fields (CHR '':'') 2 7) (Alt (fields (CHR ''-'') 2 7)
     (Alt (fields (CHR '':'') 2 19) (Alt (fields (CHR ''-'') 2 19)
     (Alt (fields (CHR ''.'') 4 2) (Alt (fields (CHR ''.'') 4 3) (fields (CHR ''.'') 4 9))))))))"

definition R_MAC_WITHOUT_COLON :: rx where
  "R_MAC_WITHOUT_COLON = Alt (rep 12 (cls is_hex)) (rep 16 (cls is_hex))"

text \<open>The last class of \<open>R_DOMAIN\<close> is written \<open>[[a-zA-Z0-9]\<close> and so contains the bracket.\<close>

definition is_label :: "char \<Rightarrow> bool" where
  "is_label c \<longleftrightarrow> is_alnum c \<or> c = CHR ''-'' \<or> c = CHR ''_''"

definition R_DOMAIN :: rx where
  "R_DOMAIN = Seq (Star (Seq (cls is_alnum) (Seq (Star (cls is_label)) (ch (CHR ''.'')))))
     (Seq (Star (cls is_alnum)) (Seq (Star (cls is_label)) (plus_rx (cls (\<lambda>c. is_alnum c \<or> c = CHR ''['')))))"

definition is_client_id :: "char \<Rightarrow> bool" where
  "is_client_id c \<longleftrightarrow> is_lower c \<or> is_digit c"

definition R_CLIENT_ID :: rx where
  "R_CLIENT_ID = Seq (cls is_client_id)
     (opt (Seq (upto 61 (cls (\<lambda>c. is_client_id c \<or> c = CHR ''-''))) (cls is_client_id)))"

definition R_HOSTNAME :: rx where
  "R_HOSTNAME = plus_rx (cls (\<lambda>c. is_client_id c \<or> c = CHR ''-''))"

definition R_PREFIX_LENGTH :: rx where
  "R_PREFIX_LENGTH = Alt (ch (CHR ''0'')) (Seq (cls (char_range (CHR ''1'') (CHR ''9''))) (Star (cls is_digit)))"

definition R_UNIX_ABSOLUTE_PATH :: rx where
  "R_UNIX_ABSOLUTE_PATH =
     plus_rx (Seq (ch (CHR ''/'')) (plus_rx (cls (\<lambda>c. c \<noteq> CHR ''/'' \<and> code c \<noteq> 0))))"

definition win_name :: "char \<Rightarrow> bool" where
  "win_name c \<longleftrightarrow> c \<notin> set [CHR 0x5C, CHR ''/'', CHR '':'', CHR ''*'', CHR ''?'', CHR 0x22, CHR ''<'', CHR ''>'', CHR ''|'']
     \<and> code c \<noteq> 0"

definition R_WIN_ABSOLUTE_PATH :: rx where
  "R_WIN_ABSOLUTE_PATH = Seq (opt (Seq (cls is_alpha) (ch (CHR '':''))))
     (Seq (Alt (ch (CHR 0x5C)) (ch (CHR ''/'')))
     (Seq (Star (Seq (plus_rx (cls win_name)) (ch (CHR 0x5C)))) (Star (cls win_name))))"

text \<open>\<open>/^https?:\/\/[^/\s]+(\/.*)?$/\<close>; a dot does not match a line terminator.\<close>

definition R_URL_REQUIRES_PROTOCOL :: rx where
  "R_URL_REQUIRES_PROTOCOL = Seq (lit ''http'') (Seq (opt (ch (CHR ''s''))) (Seq (lit ''://'')
     (Seq (plus_rx (cls (\<lambda>c. c \<noteq> CHR ''/'' \<and> \<not> is_space c)))
       (opt (Seq (ch (CHR ''/'')) (Star (cls (\<lambda>c. code c \<noteq> 10 \<and> code c \<noteq> 13))))))))"

subsection \<open>The address library\<close>

datatype ip = IPv4 "nat list" | IPv6 "nat list"

record ip_lib =
  ip_isValid :: "string \<Rightarrow> bool"
  ip6_isValid :: "string \<Rightarrow> bool"
  ip_parse :: "string \<Rightarrow> ip option"
  ip_parseCIDR :: "string \<Rightarrow> (ip \<times> nat) option"
  ip_match :: "ip \<Rightarrow> ip \<times> nat \<Rightarrow> bool"
  prefixLengthFromSubnetMask :: "ip \<Rightarrow> nat option"
  mappedParts :: "nat list \<Rightarrow> nat list"
  ip_toString :: "ip \<Rightarrow> string"

fun kind :: "ip \<Rightarrow> string" where
  "kind (IPv4 _) = ''ipv4''"
| "kind (IPv6 _) = ''ipv6''"

definition isIpMatchCidr :: "ip_lib \<Rightarrow> ip \<Rightarrow> ip \<times> nat \<Rightarrow> bool" where
  "isIpMatchCidr lib parsedIp parsedCidr \<longleftrightarrow>
     kind parsedIp = kind (fst parsedCidr) \<and> ip_match lib parsedIp parsedCidr"

definition isIpInCidr :: "ip_lib \<Rightarrow> string \<Rightarrow> string \<Rightarrow> bool" where
  "isIpInCidr lib ip cidr =
     (case (ip_parse lib ip, ip_parseCIDR lib cidr) of
        (Some i, Some c) \<Rightarrow> isIpMatchCidr lib i c
      | _ \<Rightarrow> False)"

text \<open>\<open>s.slice(s.lastIndexOf(c) + 1)\<close>: what follows the last \<open>c\<close>, or all of \<open>s\<close>.\<close>

definition after_last :: "char \<Rightarrow> string \<Rightarrow> string" where
  "after_last c s = rev (takeWhile (\<lambda>x. x \<noteq> c) (rev s))"

text \<open>\<open>s.slice(0, s.lastIndexOf(c))\<close> when there is one.\<close>

definition before_last :: "char \<Rightarrow> string \<Rightarrow> string" where
  "before_last c s = rev (tl (dropWhile (\<lambda>x. x \<noteq> c) (rev s)))"

definition hasCanonicalIpv4Tail :: "string \<Rightarrow> bool" where
  "hasCanonicalIpv4Tail addr =
     (let tail = after_last (CHR '':'') addr in CHR ''.'' \<notin> set tail \<or> matches R_IPV4 tail)"

definition isValidIpv6 :: "ip_lib \<Rightarrow> string \<Rightarrow> bool" where
  "isValidIpv6 lib value =
     (let addr = takeWhile (\<lambda>c. c \<noteq> CHR ''%'') value
      in if CHR ''%'' \<in> set value \<and> length addr = length value - 1 then False
         else ip6_isValid lib addr \<and> hasCanonicalIpv4Tail addr)"

definition isValidCidr :: "ip_lib \<Rightarrow> string \<Rightarrow> bool" where
  "isValidCidr lib value =
     (let addr = before_last (CHR ''/'') value; bits = after_last (CHR ''/'') value
      in if CHR ''/'' \<notin> set value \<or> addr = [] then False
         else if CHR ''%'' \<in> set addr \<or> \<not> matches R_PREFIX_LENGTH bits then False
         else if CHR '':'' \<notin> set addr \<and> \<not> matches R_IPV4 addr then False
         else if CHR '':'' \<in> set addr \<and> \<not> hasCanonicalIpv4Tail addr then False
         else ip_parseCIDR lib value \<noteq> None)"

definition parseSubnetMask :: "ip_lib \<Rightarrow> string \<Rightarrow> nat option" where
  "parseSubnetMask lib m = Option.bind (ip_parse lib m) (prefixLengthFromSubnetMask lib)"

subsection \<open>Kinds of identifiers\<close>

datatype address_type = IP | CIDR | CLIENT_ID | UNKNOWN

definition findAddressType :: "ip_lib \<Rightarrow> string \<Rightarrow> address_type" where
  "findAddressType lib address =
     (let cidrMaybe = (CHR ''/'' \<in> set address)
      in if \<not> cidrMaybe \<and> ip_isValid lib address then IP
         else if cidrMaybe then (if ip_parseCIDR lib address \<noteq> None then CIDR else UNKNOWN)
         else if matches R_CLIENT_ID address then CLIENT_ID
         else UNKNOWN)"

record separated_ids =
  sep_ips :: "string list"
  sep_cidrs :: "string list"
  sep_clientIds :: "string list"

definition separateIpsAndCidrs :: "ip_lib \<Rightarrow> string list \<Rightarrow> separated_ids" where
  "separateIpsAndCidrs lib ids =
     foldl (\<lambda>acc cur. case findAddressType lib cur of
         IP \<Rightarrow> acc\<lparr>sep_ips := sep_ips acc @ [cur]\<rparr>
       | CIDR \<Rightarrow> acc\<lparr>sep_cidrs := sep_cidrs acc @ [cur]\<rparr>
       | CLIENT_ID \<Rightarrow> acc\<lparr>sep_clientIds := sep_clientIds acc @ [cur]\<rparr>
       | UNKNOWN \<Rightarrow> acc)
     \<lparr>sep_ips = [], sep_cidrs = [], sep_clientIds = []\<rparr> ids"

text \<open>\<open>autoClients\<close> is an object used as a map, here its entries in order.\<close>

definition count_of :: "(string \<times> nat) list \<Rightarrow> string \<Rightarrow> nat" where
  "count_of auto i = nullish (map_of auto i) 0"

definition countClientsStatistics :: "ip_lib \<Rightarrow> string list \<Rightarrow> (string \<times> nat) list \<Rightarrow> nat" where
  "countClientsStatistics lib ids auto =
     (let sp = separateIpsAndCidrs lib ids;
          ipsCount = foldl (\<lambda>acc cur. acc + count_of auto cur) 0 (sep_ips sp);
          clientIdsCount = foldl (\<lambda>acc cur. acc + count_of auto cur) 0 (sep_clientIds sp);
          cidrsCount = foldl (\<lambda>acc (i, n).
            if \<not> ip_isValid lib i then acc
            else if \<exists>cidr\<in>set (sep_cidrs sp). isIpInCidr lib i cidr then acc + n else acc) 0 auto
      in ipsCount + cidrsCount + clientIdsCount)"

subsection \<open>Comparing addresses\<close>

definition getParsedIpWithPrefixLength :: "ip_lib \<Rightarrow> string \<Rightarrow> (ip \<times> nat) option" where
  "getParsedIpWithPrefixLength lib s =
     map_option (\<lambda>i. (i, (if kind i = ''ipv4'' then 32 else 128) + 1)) (ip_parse lib s)"

definition getAddressesComparisonBytes :: "ip_lib \<Rightarrow> string \<Rightarrow> nat list option" where
  "getAddressesComparisonBytes lib item =
     map_option (\<lambda>(i, cidr). case i of
         IPv4 octets \<Rightarrow> 0 # mappedParts lib octets @ [cidr]
       | IPv6 parts \<Rightarrow> 1 # parts @ [cidr])
     (if ip_isValid lib item then getParsedIpWithPrefixLength lib item else ip_parseCIDR lib item)"

text \<open>The loop of \<open>sortIp\<close>; a byte the second list lacks is \<open>undefined\<close> and never smaller.\<close>

fun compareBytes :: "nat list \<Rightarrow> nat list \<Rightarrow> int" where
  "compareBytes [] ys = 0"
| "compareBytes (x # xs) [] = - 1"
| "compareBytes (x # xs) (y # ys) = (if x \<noteq> y then (if x > y then 1 else - 1) else compareBytes xs ys)"

definition sortIp :: "ip_lib \<Rightarrow> string \<Rightarrow> string \<Rightarrow> int" where
  "sortIp lib a b =
     (case (getAddressesComparisonBytes lib a, getAddressesComparisonBytes lib b) of
        (Some x, Some y) \<Rightarrow> compareBytes x y
      | _ \<Rightarrow> 0)"

definition isIpOrCidr :: "ip_lib \<Rightarrow> string \<Rightarrow> bool" where
  "isIpOrCidr lib v \<longleftrightarrow> ip_isValid lib v \<or> ip_parseCIDR lib v \<noteq> None"

definition sortIpOrString :: "ip_lib \<Rightarrow> (string \<Rightarrow> string \<Rightarrow> int) \<Rightarrow> string \<Rightarrow> string \<Rightarrow> int" where
  "sortIpOrString lib localeCompare a b =
     (if isIpOrCidr lib a \<and> isIpOrCidr lib b then sortIp lib a b
      else localeCompare (toLowerCase a) (toLowerCase b))"

subsection \<open>Interfaces and hosts\<close>

definition is_ipv6 :: "string \<Rightarrow> bool" where
  "is_ipv6 i \<longleftrightarrow> CHR '':'' \<in> set i"

definition getInterfaceIp :: "string list option \<Rightarrow> string option" where
  "getInterfaceIp ip_addresses =
     (let addresses = nullish ip_addresses [];
          linkLocal = (\<lambda>i. startsWith (toLowerCase i) ''fe80:'');
          zone = (\<lambda>i. CHR ''%'' \<in> set i);
          truthy = (\<lambda>r. r \<noteq> None \<and> r \<noteq> Some []);
          ipv4 = find (\<lambda>i. \<not> is_ipv6 i) addresses;
          ipv6Global = find (\<lambda>i. is_ipv6 i \<and> \<not> linkLocal i \<and> \<not> zone i) addresses;
          ipv6NoZone = find (\<lambda>i. is_ipv6 i \<and> \<not> zone i) addresses
      in if truthy ipv4 then ipv4
         else if truthy ipv6Global then ipv6Global
         else if truthy ipv6NoZone then ipv6NoZone
         else case addresses of [] \<Rightarrow> None | a # _ \<Rightarrow> Some a)"

definition encodeZone :: "string \<Rightarrow> string" where
  "encodeZone s = concat (map (\<lambda>c. if c = CHR ''%'' then ''%25'' else [c]) s)"

definition normalizeHost :: "string \<Rightarrow> string" where
  "normalizeHost host =
     (if \<not> is_ipv6 host then host
      else if startsWith host ''['' \<and> endsWith host '']''
      then ''['' @ encodeZone (butlast (tl host)) @ '']''
      else ''['' @ encodeZone host @ '']'')"

definition getWebAddress :: "string \<Rightarrow> nat \<Rightarrow> string" where
  "getWebAddress ip port =
     ''http://'' @ normalizeHost ip @ (if port \<noteq> 0 \<and> port \<noteq> 80 then '':'' @ show_nat port else [])"

subsection \<open>Forms\<close>

text \<open>\<open>parseInt(s, 10)\<close>: white space, a sign, digits, and anything after them.\<close>

definition digits_value :: "string \<Rightarrow> int" where
  "digits_value ds = foldl (\<lambda>n c. n * 10 + (int (code c) - 48)) 0 ds"

definition parseInt :: "string \<Rightarrow> int option" where
  "parseInt s =
     (let t = trimStart s;
          (neg, u) = (case t of
             [] \<Rightarrow> (False, [])
           | c # r \<Rightarrow> if c = CHR ''-'' then (True, r) else if c = CHR ''+'' then (False, r) else (False, t));
          ds = takeWhile is_digit u
      in if ds = [] then None else Some (if neg then - digits_value ds else digits_value ds))"

text \<open>A part that is not a number makes the whole sum \<open>NaN\<close>.\<close>

definition ip4ToInt :: "string \<Rightarrow> int" where
  "ip4ToInt s =
     nullish (foldl (\<lambda>acc p. case (acc, parseInt p) of (Some n, Some v) \<Rightarrow> Some (n * 256 + v) | _ \<Rightarrow> None)
       (Some 0) (split_on (CHR ''.'') s)) 0"

definition isValidAbsolutePath :: "string \<Rightarrow> bool" where
  "isValidAbsolutePath v \<longleftrightarrow> matches R_WIN_ABSOLUTE_PATH v \<or> matches R_UNIX_ABSOLUTE_PATH v"

text \<open>\<open>toUpperCase\<close>. Sharp s becomes two letters; the micro sign and y with diaeresis have their
  capitals beyond this range and are left alone.\<close>

definition upper_char :: "char \<Rightarrow> string" where
  "upper_char c =
     (if is_lower c \<or> (224 \<le> code c \<and> code c \<le> 254 \<and> code c \<noteq> 247) then [char_of (code c - 32)]
      else if code c = 223 then ''SS'' else [c])"

definition toUpperCase :: "string \<Rightarrow> string" where
  "toUpperCase s = concat (map upper_char s)"

fun pairs :: "string \<Rightarrow> string list" where
  "pairs (a # b # r) = [a, b] # pairs r"
| "pairs _ = []"

definition normalizeMac :: "string \<Rightarrow> string" where
  "normalizeMac value =
     (if value = [] then value
      else if matches R_MAC_WITHOUT_COLON value then toUpperCase (join '':'' (pairs value))
      else if CHR ''-'' \<in> set value then toUpperCase (map (\<lambda>c. if c = CHR ''-'' then CHR '':'' else c) value)
      else toUpperCase value)"

definition strip_protocol :: "string \<Rightarrow> string" where
  "strip_protocol s =
     (if startsWith (toLowerCase s) ''http://'' then drop 7 s
      else if startsWith (toLowerCase s) ''https://'' then drop 8 s else s)"

definition strip_suffix :: "char \<Rightarrow> string \<Rightarrow> string" where
  "strip_suffix c s = (if s \<noteq> [] \<and> last s = c then butlast s else s)"

definition normalizeServerName :: "string \<Rightarrow> string" where
  "normalizeServerName value =
     strip_suffix (CHR ''/'') (strip_suffix (CHR ''.'') (strip_protocol (trim value)))"

record dhcp_placeholders =
  ph_gateway_ip :: string
  ph_subnet_mask :: string
  ph_range_start :: string
  ph_range_end :: string
  ph_lease_duration :: string

text \<open>Throws on an address that does not parse, and on an IPv6 address, which has no octets.\<close>

definition calculateDhcpPlaceholdersIpv4 :: "ip_lib \<Rightarrow> string \<Rightarrow> string \<Rightarrow> dhcp_placeholders option" where
  "calculateDhcpPlaceholdersIpv4 lib i gatewayIp =
     (case ip_parse lib i of
        Some (IPv4 octets) \<Rightarrow> Some \<lparr>ph_gateway_ip = or_str gatewayIp i, ph_subnet_mask = ''255.255.255.0'',
          ph_range_start = ip_toString lib (IPv4 (octets[3 := 100])),
          ph_range_end = ip_toString lib (IPv4 (octets[3 := 200])),
          ph_lease_duration = ''86400''\<rparr>
      | _ \<Rightarrow> None)"

subsection \<open>Dotted decimal addresses\<close>

definition dv :: "char \<Rightarrow> nat" where
  "dv c = code c - 48"

lemma dv_digit: "is_digit c \<Longrightarrow> char_of (48 + dv c) = c \<and> dv c < 10"
  by (auto simp: is_digit_def dv_def code_def)

lemma show_nat1: "is_digit c \<Longrightarrow> show_nat (dv c) = [c]"
  by (subst show_nat.simps) (simp add: dv_digit)

lemma show_nat_step:
  assumes "is_digit c" "0 < n"
  shows "show_nat (n * 10 + dv c) = show_nat n @ [c]"
proof -
  have "dv c < 10" "char_of (48 + dv c) = c" using dv_digit [OF assms(1)] by auto
  then show ?thesis using assms(2) by (subst show_nat.simps) simp
qed

lemma show_nat2: "is_digit b \<Longrightarrow> is_digit c \<Longrightarrow> 0 < dv b \<Longrightarrow> show_nat (dv b * 10 + dv c) = [b, c]"
  by (simp add: show_nat_step show_nat1)

lemma show_nat3:
  "is_digit a \<Longrightarrow> is_digit b \<Longrightarrow> is_digit c \<Longrightarrow> 0 < dv a \<Longrightarrow>
     show_nat ((dv a * 10 + dv b) * 10 + dv c) = [a, b, c]"
  using show_nat_step [of c "dv a * 10 + dv b"] show_nat2 [of a b] by simp

lemma octet_complete: "n \<le> 255 \<Longrightarrow> show_nat n \<in> lang octet"
proof -
  have "list_all (\<lambda>n. matches octet (show_nat n)) [0..<256]" by code_simp
  moreover assume "n \<le> 255"
  ultimately show ?thesis by (simp add: list_all_iff matches_lang)
qed

lemma octet_sound: "s \<in> lang octet \<Longrightarrow> \<exists>n\<le>255. s = show_nat n"
proof -
  assume "s \<in> lang octet"
  then consider
    (a) c where "s = [CHR ''2'', CHR ''5'', c]" "char_range (CHR ''0'') (CHR ''5'') c"
    | (b) b c where "s = [CHR ''2'', b, c]" "char_range (CHR ''0'') (CHR ''4'') b" "is_digit c"
    | (c) b c where "s = [CHR ''1'', b, c]" "is_digit b" "is_digit c"
    | (d) b c where "s = [b, c]" "char_range (CHR ''1'') (CHR ''9'') b" "is_digit c"
    | (e) c where "s = [c]" "is_digit c"
    by (auto simp: octet_def)
  then show ?thesis
  proof cases
    case a
    then have d: "is_digit c" "dv c \<le> 5" by (auto simp: char_range_def is_digit_def dv_def code_def)
    have "show_nat ((2 * 10 + 5) * 10 + dv c) = s"
      using show_nat3 [of "CHR ''2''" "CHR ''5''" c] d a by (simp add: is_digit_def dv_def code_def)
    with d(2) show ?thesis by (intro exI [of _ "(2 * 10 + 5) * 10 + dv c"]) auto
  next
    case b
    then have d: "is_digit b" "dv b \<le> 4" by (auto simp: char_range_def is_digit_def dv_def code_def)
    have "show_nat ((2 * 10 + dv b) * 10 + dv c) = s"
      using show_nat3 [of "CHR ''2''" b c] d b by (simp add: is_digit_def dv_def code_def)
    moreover have "dv c < 10" using b dv_digit by simp
    ultimately show ?thesis using d(2) by (intro exI [of _ "(2 * 10 + dv b) * 10 + dv c"]) auto
  next
    case c
    have "show_nat ((1 * 10 + dv b) * 10 + dv c) = s"
      using show_nat3 [of "CHR ''1''" b c] c by (simp add: is_digit_def dv_def code_def)
    moreover have "dv b < 10" "dv c < 10" using c dv_digit by simp_all
    ultimately show ?thesis by (intro exI [of _ "(1 * 10 + dv b) * 10 + dv c"]) auto
  next
    case d
    then have b: "is_digit b" "0 < dv b" by (auto simp: char_range_def is_digit_def dv_def code_def)
    have "show_nat (dv b * 10 + dv c) = s" using show_nat2 [of b c] d b by simp
    moreover have "dv b < 10" "dv c < 10" using b d dv_digit by simp_all
    ultimately show ?thesis by (intro exI [of _ "dv b * 10 + dv c"]) auto
  next
    case e
    moreover have "dv c < 10" using e dv_digit by simp
    ultimately show ?thesis using show_nat1 [of c] by (intro exI [of _ "dv c"]) auto
  qed
qed

definition dotted :: "nat \<Rightarrow> nat \<Rightarrow> nat \<Rightarrow> nat \<Rightarrow> string" where
  "dotted a b c d = join ''.'' [show_nat a, show_nat b, show_nat c, show_nat d]"

lemma lang_R_IPV4:
  "s \<in> lang R_IPV4 \<longleftrightarrow> (\<exists>a b c d. a \<le> 255 \<and> b \<le> 255 \<and> c \<le> 255 \<and> d \<le> 255 \<and> s = dotted a b c d)"
proof
  assume "s \<in> lang R_IPV4"
  then obtain u v w x where "s = u @ ''.'' @ v @ ''.'' @ w @ ''.'' @ x"
    "u \<in> lang octet" "v \<in> lang octet" "w \<in> lang octet" "x \<in> lang octet"
    by (auto simp: R_IPV4_def numeral_3_eq_3)
  then show "\<exists>a b c d. a \<le> 255 \<and> b \<le> 255 \<and> c \<le> 255 \<and> d \<le> 255 \<and> s = dotted a b c d"
    using octet_sound [of u] octet_sound [of v] octet_sound [of w] octet_sound [of x]
    by (auto simp: dotted_def)
next
  assume "\<exists>a b c d. a \<le> 255 \<and> b \<le> 255 \<and> c \<le> 255 \<and> d \<le> 255 \<and> s = dotted a b c d"
  then obtain a b c d where "a \<le> 255" "b \<le> 255" "c \<le> 255" "d \<le> 255" and s: "s = dotted a b c d" by blast
  then have o: "show_nat a \<in> lang octet" "show_nat b \<in> lang octet" "show_nat c \<in> lang octet" "show_nat d \<in> lang octet"
    by (simp_all add: octet_complete)
  have dot: "CHR ''.'' # t \<in> lang (Seq (ch (CHR ''.'')) octet)" if "t \<in> lang octet" for t
    using that by auto
  have "(CHR ''.'' # show_nat b) @ ((CHR ''.'' # show_nat c) @ ((CHR ''.'' # show_nat d) @ []))
      \<in> lang (rep 3 (Seq (ch (CHR ''.'')) octet))"
    unfolding numeral_3_eq_3 rep.simps by (intro lang_SeqI dot o) simp
  with o(1) show "s \<in> lang R_IPV4" by (auto simp: R_IPV4_def s dotted_def)
qed

subsection \<open>Addresses as numbers\<close>

lemma digits_value_snoc: "digits_value (ds @ [c]) = digits_value ds * 10 + (int (code c) - 48)"
  by (simp add: digits_value_def)

lemma digits_value_show: "digits_value (show_nat n) = int n"
proof (induction n rule: show_nat.induct)
  case (1 n)
  have last: "int (code (char_of (48 + m))) - 48 = int m" if "m < 10" for m :: nat
    using that by (simp add: code_def)
  show ?case
  proof (cases "n < 10")
    case True
    then show ?thesis by (subst show_nat.simps) (simp add: last digits_value_def)
  next
    case False
    then have "show_nat n = show_nat (n div 10) @ [char_of (48 + n mod 10)]"
      by (subst show_nat.simps) simp
    moreover have "int (n div 10) * 10 + int (n mod 10) = int n"
      by (metis div_mult_mod_eq of_nat_add of_nat_mult of_nat_numeral)
    ultimately show ?thesis using "1" [OF False] last [of "n mod 10"] by (simp add: digits_value_snoc)
  qed
qed

lemma digit_not_space: "is_digit c \<Longrightarrow> \<not> is_space c \<and> c \<noteq> CHR ''-'' \<and> c \<noteq> CHR ''+''"
  by (auto simp: is_digit_def is_space_def code_def)

lemma parseInt_show: "parseInt (show_nat n) = Some (int n)"
proof -
  obtain c r where cr: "show_nat n = c # r" using show_nat_neq_Nil [of n] by (cases "show_nat n") auto
  have dig: "\<And>x. x \<in> set (show_nat n) \<Longrightarrow> is_digit x" by (rule show_nat_digits)
  then have "is_digit c" using cr by simp
  then have "trimStart (show_nat n) = show_nat n" by (simp add: trimStart_def cr digit_not_space)
  moreover have tw: "takeWhile is_digit r = r" using dig cr by (simp add: takeWhile_eq_all_conv)
  ultimately show ?thesis
    using \<open>is_digit c\<close> digit_not_space [of c] cr digits_value_show [of n]
    by (simp add: parseInt_def Let_def tw)
qed

lemma dot_notin_show: "CHR ''.'' \<notin> set (show_nat n)"
  using show_nat_digits [of "CHR ''.''" n] by (auto simp: is_digit_def code_def)

lemma ip4ToInt_dotted:
  "ip4ToInt (dotted a b c d) = ((int a * 256 + int b) * 256 + int c) * 256 + int d"
proof -
  have "split_on (CHR ''.'') (dotted a b c d) = [show_nat a, show_nat b, show_nat c, show_nat d]"
    unfolding dotted_def by (rule split_on_join) (auto simp: dot_notin_show)
  then show ?thesis by (simp add: ip4ToInt_def parseInt_show)
qed

lemma base256: "x * 256 + int d = y * 256 + int d' \<Longrightarrow> d \<le> 255 \<Longrightarrow> d' \<le> 255 \<Longrightarrow> x = y \<and> d = d'"
proof -
  assume eq: "x * 256 + int d = y * 256 + int d'" and le: "d \<le> 255" "d' \<le> 255"
  have "x = y"
  proof (rule ccontr)
    assume "x \<noteq> y"
    then consider "x + 1 \<le> y" | "y + 1 \<le> x" by linarith
    then show False using eq le by cases linarith+
  qed
  with eq show ?thesis by simp
qed

lemma prefix_length_show:
  assumes "matches R_PREFIX_LENGTH s" shows "\<exists>n. s = show_nat n"
proof -
  have grow: "\<exists>n>0. c # ds = show_nat n" if "char_range (CHR ''1'') (CHR ''9'') c" "\<forall>x\<in>set ds. is_digit x" for c ds
    using that(2)
  proof (induction ds rule: rev_induct)
    case Nil
    have "is_digit c" "0 < dv c" using that(1) by (auto simp: char_range_def is_digit_def dv_def code_def)
    then show ?case using show_nat1 [of c] by (intro exI [of _ "dv c"]) simp
  next
    case (snoc x ds)
    then obtain n where n: "0 < n" "c # ds = show_nat n" by auto
    then have "show_nat (n * 10 + dv x) = c # ds @ [x]" using snoc.prems show_nat_step [of x n] by simp
    with n show ?case by (intro exI [of _ "n * 10 + dv x"]) simp
  qed
  have "s = ''0'' \<or> (\<exists>c ds. s = c # ds \<and> char_range (CHR ''1'') (CHR ''9'') c \<and> (\<forall>x\<in>set ds. is_digit x))"
    using assms unfolding matches_lang R_PREFIX_LENGTH_def by (auto simp: star_Cls)
  moreover have "''0'' = show_nat 0" by code_simp
  ultimately show ?thesis using grow by metis
qed

lemma split_last: "c \<in> set s \<Longrightarrow> s = before_last c s @ c # after_last c s"
proof -
  assume "c \<in> set s"
  then obtain a b where s: "s = a @ c # b" "c \<notin> set b" using split_list_last by metis
  have rs: "rev s = rev b @ c # rev a" by (simp add: s)
  have "takeWhile (\<lambda>x. x \<noteq> c) (rev s) = rev b" "dropWhile (\<lambda>x. x \<noteq> c) (rev s) = c # rev a"
    unfolding rs using s(2) by (auto simp: takeWhile_append dropWhile_append)
  then show ?thesis by (simp add: s before_last_def after_last_def)
qed

subsection \<open>Theorems\<close>

text \<open>
  The IPv4 pattern accepts exactly the canonical dotted decimal spellings: four numbers from 0
  to 255 without leading zeros. On these, \<open>ip4ToInt\<close> is the 32-bit value of the address, so it
  orders them as numbers and no two spellings share a value.
\<close>

theorem R_IPV4_canonical:
  "(matches R_IPV4 s \<longleftrightarrow>
      (\<exists>a b c d. a \<le> 255 \<and> b \<le> 255 \<and> c \<le> 255 \<and> d \<le> 255 \<and> s = dotted a b c d)) \<and>
   (matches R_IPV4 s \<longrightarrow> 0 \<le> ip4ToInt s \<and> ip4ToInt s < 2 ^ 32) \<and>
   (matches R_IPV4 s \<and> matches R_IPV4 t \<and> ip4ToInt s = ip4ToInt t \<longrightarrow> s = t)"
proof -
  have val: "\<exists>n\<in>{0..<2 ^ 32}. ip4ToInt s = n" if "matches R_IPV4 s"
    using that unfolding matches_lang lang_R_IPV4 by (auto simp: ip4ToInt_dotted)
  have inj: "s = t" if "matches R_IPV4 s" "matches R_IPV4 t" "ip4ToInt s = ip4ToInt t"
  proof -
    obtain a b c d where s: "s = dotted a b c d" "b \<le> 255" "c \<le> 255" "d \<le> 255"
      using \<open>matches R_IPV4 s\<close> [unfolded matches_lang lang_R_IPV4] by blast
    obtain a' b' c' d' where t: "t = dotted a' b' c' d'" "b' \<le> 255" "c' \<le> 255" "d' \<le> 255"
      using \<open>matches R_IPV4 t\<close> [unfolded matches_lang lang_R_IPV4] by blast
    have "((int a * 256 + int b) * 256 + int c) * 256 + int d = ((int a' * 256 + int b') * 256 + int c') * 256 + int d'"
      using \<open>ip4ToInt s = ip4ToInt t\<close> unfolding s(1) t(1) ip4ToInt_dotted .
    then have "(int a * 256 + int b) * 256 + int c = (int a' * 256 + int b') * 256 + int c'" and d: "d = d'"
      using base256 s(4) t(4) by blast+
    then have "int a * 256 + int b = int a' * 256 + int b'" and c: "c = c'" using base256 s(3) t(3) by blast+
    then have "int a = int a'" and "b = b'" using base256 s(2) t(2) by blast+
    with c d have "a = a' \<and> b = b' \<and> c = c' \<and> d = d'" by simp
    then show ?thesis by (simp add: s(1) t(1))
  qed
  show ?thesis using val inj by (auto simp: matches_lang lang_R_IPV4)
qed

theorem R_IPV4_canonical_witness: "0 \<le> ip4ToInt ''192.168.1.1'' \<and> ip4ToInt ''192.168.1.1'' < 2 ^ 32"
proof -
  have "matches R_IPV4 ''192.168.1.1''" by code_simp
  with R_IPV4_canonical [of "''192.168.1.1''" "''192.168.1.1''"] show ?thesis by blast
qed

text \<open>
  Every range the form accepts is spelled the way the server's parser demands: an address
  without a zone, one slash-separated prefix length in plain decimal without leading zeros, and a
  canonical IPv4 address where the address is not IPv6.
\<close>

theorem isValidCidr_canonical:
  assumes "isValidCidr lib v"
  shows "\<exists>addr n. v = addr @ ''/'' @ show_nat n \<and> CHR ''%'' \<notin> set addr \<and> ip_parseCIDR lib v \<noteq> None \<and>
    (CHR '':'' \<notin> set addr \<longrightarrow>
       (\<exists>a b c d. a \<le> 255 \<and> b \<le> 255 \<and> c \<le> 255 \<and> d \<le> 255 \<and> addr = dotted a b c d))"
proof -
  let ?addr = "before_last (CHR ''/'') v"
  have v: "CHR ''/'' \<in> set v" "CHR ''%'' \<notin> set ?addr" "matches R_PREFIX_LENGTH (after_last (CHR ''/'') v)"
    "CHR '':'' \<notin> set ?addr \<Longrightarrow> matches R_IPV4 ?addr" "ip_parseCIDR lib v \<noteq> None"
    using assms by (auto simp: isValidCidr_def Let_def split: if_splits)
  obtain n where "after_last (CHR ''/'') v = show_nat n" using prefix_length_show [OF v(3)] by blast
  moreover have "v = ?addr @ CHR ''/'' # after_last (CHR ''/'') v" by (rule split_last [OF v(1)])
  ultimately show ?thesis using v(2,4,5) unfolding matches_lang lang_R_IPV4 by fastforce
qed

definition sample_lib :: ip_lib where
  "sample_lib = \<lparr>ip_isValid = matches R_IPV4, ip6_isValid = (\<lambda>_. False),
     ip_parse = (\<lambda>s. if matches R_IPV4 s then Some (IPv4 [10, 0, 0, 9]) else None),
     ip_parseCIDR = (\<lambda>s. if endsWith s ''/8'' then Some (IPv4 [10, 0, 0, 0], 8) else None),
     ip_match = (\<lambda>i c. case (i, fst c) of (IPv4 (x # _), IPv4 (y # _)) \<Rightarrow> x = y | _ \<Rightarrow> False),
     prefixLengthFromSubnetMask = (\<lambda>_. None),
     mappedParts = (\<lambda>_. [0, 0, 0, 0, 0, 65535, 2560, 9]), ip_toString = (\<lambda>_. [])\<rparr>"

theorem isValidCidr_canonical_witness:
  "\<exists>addr n. ''10.0.0.0/8'' = addr @ ''/'' @ show_nat n"
proof -
  have "isValidCidr sample_lib ''10.0.0.0/8''" by code_simp
  from isValidCidr_canonical [OF this] show ?thesis by blast
qed

lemma compareBytes_total: "length x = length y \<Longrightarrow> compareBytes x y \<le> 0 \<or> compareBytes y x \<le> 0"
  by (induction x y rule: compareBytes.induct) auto

lemma compareBytes_trans:
  "length x = length y \<Longrightarrow> length y = length z \<Longrightarrow> compareBytes x y \<le> 0 \<Longrightarrow> compareBytes y z \<le> 0 \<Longrightarrow> compareBytes x z \<le> 0"
proof (induction x y arbitrary: z rule: compareBytes.induct)
  case (3 x xs y ys)
  then obtain w ws where z: "z = w # ws" by (cases z) auto
  show ?case
  proof (cases "x = y \<and> y = w")
    case True
    with 3 z show ?thesis by simp
  next
    case False
    with "3.prems" z show ?thesis
      by (cases x y rule: linorder_cases; cases y w rule: linorder_cases) (simp_all split: if_splits)
  qed
qed auto

interpretation bytes_order: comparator "{bs. length bs = n}" compareBytes for n :: nat
proof
  show "compareBytes x y \<le> 0 \<or> compareBytes y x \<le> 0" if "x \<in> {bs. length bs = n}" "y \<in> {bs. length bs = n}" for x y
    using that compareBytes_total by simp
  show "compareBytes x z \<le> 0" if "x \<in> {bs. length bs = n}" "y \<in> {bs. length bs = n}" "z \<in> {bs. length bs = n}"
    "compareBytes x y \<le> 0" "compareBytes y z \<le> 0" for x y z
    using that compareBytes_trans [of x y z] by simp
qed

text \<open>Values the comparison understands, and a library whose addresses have eight parts.\<close>

definition comparable :: "ip_lib \<Rightarrow> string set" where
  "comparable lib = {s. getAddressesComparisonBytes lib s \<noteq> None}"

definition eight_parts :: "ip_lib \<Rightarrow> bool" where
  "eight_parts lib \<longleftrightarrow> (\<forall>s bs. getAddressesComparisonBytes lib s = Some bs \<longrightarrow> length bs = 10)"

lemma sortIp_comparator:
  assumes "eight_parts lib"
  shows "comparator (comparable lib) (sortIp lib)"
proof
  let ?b = "\<lambda>s. the (getAddressesComparisonBytes lib s)"
  have cmp: "sortIp lib x y = compareBytes (?b x) (?b y)" if "x \<in> comparable lib" "y \<in> comparable lib" for x y
    using that by (auto simp: sortIp_def comparable_def)
  have len: "length (?b x) = 10" if "x \<in> comparable lib" for x
    using that assms by (auto simp: comparable_def eight_parts_def)
  show "sortIp lib x y \<le> 0 \<or> sortIp lib y x \<le> 0" if "x \<in> comparable lib" "y \<in> comparable lib" for x y
    using that cmp len bytes_order.total [of "?b x" 10 "?b y"] by simp
  show "sortIp lib x z \<le> 0"
    if "x \<in> comparable lib" "y \<in> comparable lib" "z \<in> comparable lib" "sortIp lib x y \<le> 0" "sortIp lib y z \<le> 0" for x y z
    using that cmp len bytes_order.trans [of "?b x" 10 "?b y" "?b z"] by simp
qed

text \<open>
  Sorting a list of IP addresses and ranges with \<open>sortIp\<close> yields a sorted list: on values the
  library can parse the comparison is total and transitive, so every earlier element compares at
  most equal to every later one and nothing is lost.
\<close>

theorem sortIp_sorts:
  assumes "eight_parts lib" and "set xs \<subseteq> comparable lib"
  shows "sorted_wrt (\<lambda>a b. sortIp lib a b \<le> 0) (sort_by (sortIp lib) xs) \<and> mset (sort_by (sortIp lib) xs) = mset xs"
  using comparator.sorted_sort_by [OF sortIp_comparator [OF assms(1)] assms(2)] by simp

lemma sample_lib_parts: "eight_parts sample_lib"
  by (auto simp: eight_parts_def getAddressesComparisonBytes_def getParsedIpWithPrefixLength_def sample_lib_def
      split: if_splits ip.splits)

theorem sortIp_sorts_witness:
  "mset (sort_by (sortIp (sample_lib)) [''10.0.0.9'', ''10.0.0.0/8''])
     = {#''10.0.0.9'', ''10.0.0.0/8''#}"
proof -
  let ?lib = "sample_lib"
  have "matches R_IPV4 ''10.0.0.9''" "\<not> matches R_IPV4 ''10.0.0.0/8''" by code_simp+
  then have "set [''10.0.0.9'', ''10.0.0.0/8''] \<subseteq> comparable ?lib"
    by (simp add: comparable_def getAddressesComparisonBytes_def getParsedIpWithPrefixLength_def sample_lib_def endsWith_def)
  from sortIp_sorts [OF sample_lib_parts this] show ?thesis by simp
qed

text \<open>
  The number of queries shown for a configured client counts an address twice when the client
  lists both the address and a range that contains it.
\<close>

theorem countClientsStatistics_double:
  assumes "findAddressType lib i = IP" and "findAddressType lib r = CIDR" and "isIpInCidr lib i r"
  shows "countClientsStatistics lib [i, r] [(i, n)] = 2 * n"
proof -
  have "ip_isValid lib i" using assms(1) by (auto simp: findAddressType_def Let_def split: if_splits)
  with assms show ?thesis
    by (simp add: countClientsStatistics_def separateIpsAndCidrs_def count_of_def Let_def)
qed

theorem countClientsStatistics_double_witness:
  "countClientsStatistics sample_lib [''10.0.0.1'', ''10.0.0.0/8''] [(''10.0.0.1'', 21)] = 42"
proof -
  have "matches R_IPV4 ''10.0.0.1''" by code_simp
  then have "findAddressType sample_lib ''10.0.0.1'' = IP \<and> findAddressType sample_lib ''10.0.0.0/8'' = CIDR \<and>
      isIpInCidr sample_lib ''10.0.0.1'' ''10.0.0.0/8''"
    by (simp add: findAddressType_def isIpInCidr_def isIpMatchCidr_def sample_lib_def endsWith_def)
  then show ?thesis using countClientsStatistics_double [of sample_lib "''10.0.0.1''" "''10.0.0.0/8''" 21] by simp
qed

text \<open>
  The address shown for an interface is one of its addresses whenever it has any, and an IPv4
  address whenever it has a non-empty one first among its IPv4 addresses.
\<close>

theorem getInterfaceIp_choice:
  "(getInterfaceIp (Some addrs) = None \<longleftrightarrow> addrs = []) \<and>
   (\<forall>i. getInterfaceIp (Some addrs) = Some i \<longrightarrow> i \<in> set addrs) \<and>
   (\<forall>i. find (\<lambda>a. \<not> is_ipv6 a) addrs = Some i \<and> i \<noteq> [] \<longrightarrow> getInterfaceIp (Some addrs) = Some i)"
  by (auto simp: getInterfaceIp_def Let_def dest: find_SomeD split: if_splits list.splits option.splits)

theorem getInterfaceIp_choice_witness: "getInterfaceIp (Some [''fe80::1%eth0'', ''10.0.0.2'']) = Some ''10.0.0.2''"
  using getInterfaceIp_choice [of "[''fe80::1%eth0'', ''10.0.0.2'']"] by (simp add: is_ipv6_def)

end
