(* ===== verification/Validators.thy ===== *)
theory Validators
  imports Complex_Main NetHelpers Toasts "HOL-Library.Word"
begin

section \<open>Form validators\<close>

text \<open>
  \<^verbatim>\<open>client_v2/src/helpers/validators.ts\<close>: the checks behind every form field. A validator gives
  \<^const>\<open>None\<close> for a valid value and the translated message otherwise. Translations, \<open>ipaddr.js\<close>,
  \<open>Number(s)\<close> on strings and \<open>toLocaleString\<close> are parameters.
\<close>

subsection \<open>Values\<close>

datatype js_number = NaN | PosInf | NegInf | Num rat

fun below :: "js_number \<Rightarrow> rat \<Rightarrow> bool" where
  "below (Num r) n = (r < n)"
| "below NegInf n = True"
| "below _ n = False"

fun above :: "js_number \<Rightarrow> rat \<Rightarrow> bool" where
  "above (Num r) n = (n < r)"
| "above PosInf n = True"
| "above _ n = False"

fun isFinite :: "js_number \<Rightarrow> bool" where
  "isFinite (Num r) = True"
| "isFinite _ = False"

fun isInteger :: "js_number \<Rightarrow> bool" where
  "isInteger (Num r) = (of_int \<lfloor>r\<rfloor> = r)"
| "isInteger _ = False"

datatype form_value = VUndefined | VString string | VNumber js_number | VBool bool

type_synonym validation = "string option"

definition truthy_str :: "string option \<Rightarrow> bool" where
  "truthy_str v \<longleftrightarrow> v \<noteq> None \<and> v \<noteq> Some []"

subsection \<open>Constants\<close>

definition MAX_PORT :: rat where "MAX_PORT = 65535"

definition UINT32_MAX :: int where "UINT32_MAX = 4294967295"

definition MIN_PASSWORD_LENGTH :: nat where "MIN_PASSWORD_LENGTH = 8"

definition MAX_PASSWORD_LENGTH :: nat where "MAX_PASSWORD_LENGTH = 72"

definition MAX_HOSTNAME_LENGTH :: nat where "MAX_HOSTNAME_LENGTH = 253"

definition UNSAFE_PORTS :: "nat list" where
  "UNSAFE_PORTS = [1, 7, 9, 11, 13, 15, 17, 19, 20, 21, 22, 23, 25, 37, 42, 43, 53, 77, 79, 87, 95, 101,
     102, 103, 104, 109, 110, 111, 113, 115, 117, 119, 123, 135, 139, 143, 179, 389, 465, 512, 513, 514,
     515, 526, 530, 531, 532, 540, 556, 563, 587, 601, 636, 993, 995, 2049, 3659, 4045, 6000, 6665, 6666,
     6667, 6668, 6669]"

subsection \<open>Required values and addresses\<close>

definition validateRequiredValue :: "env \<Rightarrow> form_value \<Rightarrow> validation" where
  "validateRequiredValue env v =
     (if (case v of VUndefined \<Rightarrow> False | VString s \<Rightarrow> trim s \<noteq> [] | VNumber n \<Rightarrow> n \<noteq> NaN | VBool b \<Rightarrow> b)
      then None else Some (msg env ''form_error_required''))"

record dhcp_v4_form =
  f_gateway_ip :: "string option"
  f_subnet_mask :: "string option"
  f_range_start :: "string option"
  f_range_end :: "string option"

definition validateIpv4RangeEnd :: "env \<Rightarrow> dhcp_v4_form option \<Rightarrow> validation" where
  "validateIpv4RangeEnd env all =
     (case all of
        None \<Rightarrow> None
      | Some v4 \<Rightarrow>
          (case (f_range_end v4, f_range_start v4) of
             (Some e, Some s) \<Rightarrow>
               if e = [] \<or> s = [] then None
               else if ip4ToInt e \<le> ip4ToInt s then Some (msg env ''greater_range_start_error'') else None
           | _ \<Rightarrow> None))"

definition validateIpv4 :: "env \<Rightarrow> string option \<Rightarrow> validation" where
  "validateIpv4 env v =
     (case v of
        None \<Rightarrow> None
      | Some s \<Rightarrow> if s \<noteq> [] \<and> \<not> matches R_IPV4 s then Some (msg env ''form_error_ip4_format'') else None)"

definition validateNotInRange :: "env \<Rightarrow> string \<Rightarrow> dhcp_v4_form option \<Rightarrow> validation" where
  "validateNotInRange env value all =
     (case all of
        None \<Rightarrow> None
      | Some v4 \<Rightarrow>
          if validateIpv4 env (f_range_start v4) \<noteq> None then None
          else if validateIpv4 env (f_range_end v4) \<noteq> None then None
          else
            let s = opt_or_str (f_range_start v4) []; e = opt_or_str (f_range_end v4) [];
                isAboveMin = (s \<noteq> [] \<and> ip4ToInt s \<le> ip4ToInt value);
                isBelowMax = (e \<noteq> [] \<and> ip4ToInt value \<le> ip4ToInt e)
            in if isAboveMin \<and> isBelowMax
               then Some (getMessage env ''out_of_range_error'' [(''start'', SArg s), (''end'', SArg e)])
               else None)"

definition validateGatewaySubnetMask :: "env \<Rightarrow> ip_lib \<Rightarrow> dhcp_v4_form option \<Rightarrow> validation" where
  "validateGatewaySubnetMask env lib all =
     (let bad = Some (msg env ''gateway_or_subnet_invalid'')
      in case all of
           None \<Rightarrow> bad
         | Some v4 \<Rightarrow>
             (case (f_subnet_mask v4, f_gateway_ip v4) of
                (Some m, Some g) \<Rightarrow>
                  if m = [] \<or> g = [] then bad
                  else if validateIpv4 env (Some g) \<noteq> None \<or> validateIpv4 env (Some m) \<noteq> None then bad
                  else case parseSubnetMask lib m of
                         None \<Rightarrow> bad
                       | Some n \<Rightarrow> if n = 0 then bad else None
              | _ \<Rightarrow> bad))"

definition validateIpForGatewaySubnetMask :: "env \<Rightarrow> ip_lib \<Rightarrow> string \<Rightarrow> dhcp_v4_form option \<Rightarrow> validation" where
  "validateIpForGatewaySubnetMask env lib value all =
     (case all of
        None \<Rightarrow> None
      | Some v4 \<Rightarrow>
          (case (f_gateway_ip v4, f_subnet_mask v4) of
             (Some g, Some m) \<Rightarrow>
               if value = [] \<or> g = [] \<or> m = [] then None
               else if validateIpv4 env (Some g) \<noteq> None \<or> validateIpv4 env (Some m) \<noteq> None then None
               else let prefix = (case parseSubnetMask lib m of None \<Rightarrow> ''null'' | Some n \<Rightarrow> show_nat n)
                    in if isIpInCidr lib value (g @ ''/'' @ prefix) then None else Some (msg env ''subnet_error'')
           | _ \<Rightarrow> None))"

subsection \<open>Names and identifiers\<close>

definition validateConfigClientId :: "env \<Rightarrow> string option \<Rightarrow> validation" where
  "validateConfigClientId env v =
     (case v of
        None \<Rightarrow> None
      | Some s \<Rightarrow> if s = [] then None
                  else if trim s \<noteq> [] \<and> \<not> matches R_CLIENT_ID (trim s)
                  then Some (msg env ''form_error_client_id_format'') else None)"

definition validateServerName :: "env \<Rightarrow> string option \<Rightarrow> validation" where
  "validateServerName env v =
     (case v of
        None \<Rightarrow> None
      | Some s \<Rightarrow> if s = [] then None
                  else if trim s \<noteq> [] \<and> \<not> matches R_DOMAIN (trim s)
                  then Some (msg env ''form_error_server_name'') else None)"

definition validateIpv6 :: "env \<Rightarrow> ip_lib \<Rightarrow> string option \<Rightarrow> validation" where
  "validateIpv6 env lib v =
     (case v of None \<Rightarrow> None
      | Some s \<Rightarrow> if s \<noteq> [] \<and> \<not> isValidIpv6 lib s then Some (msg env ''form_error_ip6_format'') else None)"

definition validateIp :: "env \<Rightarrow> ip_lib \<Rightarrow> string option \<Rightarrow> validation" where
  "validateIp env lib v =
     (case v of None \<Rightarrow> None
      | Some s \<Rightarrow> if s \<noteq> [] \<and> \<not> matches R_IPV4 s \<and> \<not> isValidIpv6 lib s
                  then Some (msg env ''form_error_ip_format'') else None)"

text \<open>The loop of \<open>validatePerLine\<close>: numbers of the invalid lines, and the count of content lines.\<close>

fun scan_lines ::
  "(string \<Rightarrow> bool) \<Rightarrow> (string \<Rightarrow> bool) \<Rightarrow> nat \<Rightarrow> string list \<Rightarrow> nat list \<times> nat \<Rightarrow> nat list \<times> nat" where
  "scan_lines isValid isContent i [] acc = acc"
| "scan_lines isValid isContent i (l # ls) (invalid, content) =
     (let line = trim l
      in if line = [] \<or> \<not> isContent line then scan_lines isValid isContent (Suc i) ls (invalid, content)
         else scan_lines isValid isContent (Suc i) ls
                (if isValid line then invalid else invalid @ [Suc i], Suc content))"

definition validatePerLine :: "env \<Rightarrow> string \<Rightarrow> (string \<Rightarrow> bool) \<Rightarrow> (string \<Rightarrow> bool) \<Rightarrow> validation" where
  "validatePerLine env value isValid isContent =
     (if value = [] then None
      else case scan_lines isValid isContent 0 (split_lines value) ([], 0) of
        (invalid, content) \<Rightarrow>
          if invalid = [] then None
          else if length invalid = 1 \<and> content = 1 then Some (msg env ''form_error_format'')
          else if length invalid = 1
          then Some (getMessage env ''form_error_format_line'' [(''line'', NArg (int (hd invalid)))])
          else Some (getMessage env ''form_error_format_lines'' [(''lines'', SArg (join '', '' (map show_nat invalid)))]))"

definition validateIpPerLine :: "env \<Rightarrow> ip_lib \<Rightarrow> string \<Rightarrow> validation" where
  "validateIpPerLine env lib value =
     validatePerLine env value (\<lambda>l. validateIp env lib (Some l) = None) (\<lambda>_. True)"

definition validateClientsPerLine :: "env \<Rightarrow> ip_lib \<Rightarrow> string \<Rightarrow> validation" where
  "validateClientsPerLine env lib value =
     validatePerLine env value
       (\<lambda>l. matches R_IPV4 l \<or> isValidIpv6 lib l \<or> isValidCidr lib l \<or> matches R_CLIENT_ID l) (\<lambda>_. True)"

definition validateMac :: "env \<Rightarrow> string option \<Rightarrow> validation" where
  "validateMac env v =
     (case v of None \<Rightarrow> None
      | Some s \<Rightarrow> if s \<noteq> [] \<and> \<not> matches R_MAC s then Some (msg env ''form_error_mac_format'') else None)"

definition validateDomain :: "env \<Rightarrow> string option \<Rightarrow> validation" where
  "validateDomain env v =
     (case v of None \<Rightarrow> None
      | Some s \<Rightarrow> if s \<noteq> [] \<and> \<not> matches R_HOST s then Some (msg env ''form_error_domain_format'') else None)"

definition validateAnswer :: "env \<Rightarrow> ip_lib \<Rightarrow> string option \<Rightarrow> validation" where
  "validateAnswer env lib v =
     (case v of None \<Rightarrow> None
      | Some s \<Rightarrow> if s \<noteq> [] \<and> \<not> matches R_IPV4 s \<and> \<not> isValidIpv6 lib s \<and> \<not> matches R_HOST s
                  then Some (msg env ''form_error_answer_format'') else None)"

definition validateHostname :: "env \<Rightarrow> string option \<Rightarrow> validation" where
  "validateHostname env v =
     (case v of
        None \<Rightarrow> None
      | Some s \<Rightarrow>
          if s = [] then None
          else if MAX_HOSTNAME_LENGTH < length s
          then Some (getMessage env ''form_error_hostname_length'' [(''max'', NArg (int MAX_HOSTNAME_LENGTH))])
          else if \<not> matches R_HOSTNAME s \<or> matches (plus_rx (Cls is_digit)) s \<or> startsWith s ''-'' \<or> endsWith s ''-''
          then Some (msg env ''form_error_hostname_format'')
          else None)"

definition validateIdentifier :: "env \<Rightarrow> ip_lib \<Rightarrow> string \<Rightarrow> string list \<Rightarrow> nat \<Rightarrow> string list option \<Rightarrow> validation" where
  "validateIdentifier env lib value allValues currentIndex existingIds =
     (let t = trim value
      in if t = [] then Some (msg env ''form_error_required'')
         else if \<not> (matches R_IPV4 t \<or> isValidIpv6 lib t \<or> matches R_MAC t \<or> isValidCidr lib t \<or> matches R_CLIENT_ID t)
         then Some (msg env ''clients_identifier_format_error'')
         else if \<exists>i<length allValues. i \<noteq> currentIndex \<and> trim (allValues ! i) = t
         then Some (msg env ''clients_identifier_already_used'')
         else if t \<in> set (nullish existingIds []) then Some (msg env ''clients_identifier_already_used'')
         else None)"

subsection \<open>Ports and numbers\<close>

definition validatePort :: "env \<Rightarrow> js_number option \<Rightarrow> validation" where
  "validatePort env v =
     (case v of
        None \<Rightarrow> None
      | Some n \<Rightarrow> if n \<noteq> NaN \<and> (below n 0 \<or> above n MAX_PORT)
                  then Some (getMessage env ''form_error_port_range'' [(''min'', NArg 0), (''max'', NArg 65535)])
                  else None)"

definition validateInstallPort :: "env \<Rightarrow> js_number option \<Rightarrow> validation" where
  "validateInstallPort env v =
     (case v of
        None \<Rightarrow> None
      | Some n \<Rightarrow> if below n 1 \<or> above n MAX_PORT then Some (msg env ''form_error_port'') else None)"

definition validateIsSafePort :: "env \<Rightarrow> js_number option \<Rightarrow> validation" where
  "validateIsSafePort env v =
     (case v of
        Some (Num r) \<Rightarrow> if r \<in> of_nat ` set UNSAFE_PORTS then Some (msg env ''form_error_port_unsafe'') else None
      | _ \<Rightarrow> None)"

definition validateBetween :: "env \<Rightarrow> (int \<Rightarrow> string) \<Rightarrow> js_number \<Rightarrow> int \<Rightarrow> int \<Rightarrow> bool \<Rightarrow> validation" where
  "validateBetween env toLocale v mn mx integer =
     (if \<not> isFinite v \<or> below v (of_int mn) \<or> above v (of_int mx) \<or> (integer \<and> \<not> isInteger v)
      then Some (getMessage env ''form_value_value_from_error''
             [(''min_value'', SArg (toLocale mn)), (''max_value'', SArg (toLocale mx))])
      else None)"

definition validateLeaseTime :: "env \<Rightarrow> (int \<Rightarrow> string) \<Rightarrow> (string \<Rightarrow> js_number) \<Rightarrow> form_value \<Rightarrow> validation" where
  "validateLeaseTime env toLocale toNumber v =
     (let required = Some (msg env ''form_error_required'');
          check = (\<lambda>n. if n = NaN then required
            else if \<not> isInteger n
            then Some (getMessage env ''form_value_value_from_error''
                   [(''min_value'', SArg (toLocale 1)), (''max_value'', SArg (toLocale UINT32_MAX))])
            else validateBetween env toLocale n 1 UINT32_MAX False)
      in case v of
           VUndefined \<Rightarrow> required
         | VString s \<Rightarrow> if s = [] then required else check (toNumber s)
         | VNumber n \<Rightarrow> check n
         | VBool b \<Rightarrow> check (Num (if b then 1 else 0)))"

definition validateMinValue :: "env \<Rightarrow> (int \<Rightarrow> string) \<Rightarrow> js_number \<Rightarrow> int \<Rightarrow> validation" where
  "validateMinValue env toLocale v mn =
     (if below v (of_int mn)
      then Some (getMessage env ''form_value_value_min_error'' [(''min_value'', SArg (toLocale mn))]) else None)"

text \<open>\<open>Number(v)\<close>, with \<open>toNumber\<close> for the non-empty strings.\<close>

definition js_Number :: "(string \<Rightarrow> js_number) \<Rightarrow> form_value \<Rightarrow> js_number" where
  "js_Number toNumber v =
     (case v of
        VUndefined \<Rightarrow> NaN
      | VString s \<Rightarrow> if s = [] then Num 0 else toNumber s
      | VNumber n \<Rightarrow> n
      | VBool b \<Rightarrow> Num (if b then 1 else 0))"

definition validateCacheSize :: "env \<Rightarrow> (int \<Rightarrow> string) \<Rightarrow> (string \<Rightarrow> js_number) \<Rightarrow> form_value \<Rightarrow> bool \<Rightarrow> validation" where
  "validateCacheSize env toLocale toNumber sz en =
     (if \<not> en then None
      else let num = js_Number toNumber sz
           in if num = NaN \<or> num = Num 0 then Some (msg env ''cache_config_size_validation'')
              else validateBetween env toLocale num 1 UINT32_MAX True)"

subsection \<open>Rewrites, paths, passwords\<close>

definition normalizeRewriteValue :: "string option \<Rightarrow> string" where
  "normalizeRewriteValue v = toLowerCase (trim (nullish v []))"

type_synonym rewrite_pair = "string option \<times> string option"

definition same_rewrite :: "rewrite_pair \<Rightarrow> rewrite_pair \<Rightarrow> bool" where
  "same_rewrite a b \<longleftrightarrow> normalizeRewriteValue (fst a) = normalizeRewriteValue (fst b) \<and>
     normalizeRewriteValue (snd a) = normalizeRewriteValue (snd b)"

definition validateRewriteNotExists ::
  "env \<Rightarrow> string \<Rightarrow> string \<Rightarrow> rewrite_pair list \<Rightarrow> rewrite_pair option \<Rightarrow> validation" where
  "validateRewriteNotExists env domain answer existingList currentRewrite =
     (if domain = [] \<or> answer = [] then None
      else if \<exists>item\<in>set existingList. same_rewrite item (Some domain, Some answer) \<and>
           \<not> (case currentRewrite of None \<Rightarrow> False | Some cur \<Rightarrow> same_rewrite item cur)
      then Some (msg env ''dns_rewrite_exists'') else None)"

definition validateRewriteNotSame :: "env \<Rightarrow> string \<Rightarrow> string \<Rightarrow> validation" where
  "validateRewriteNotSame env domain answer =
     (if domain = [] \<or> answer = [] then None
      else if toLowerCase domain = toLowerCase answer then Some (msg env ''dns_rewrite_same'') else None)"

definition validatePath :: "env \<Rightarrow> string option \<Rightarrow> validation" where
  "validatePath env v =
     (case v of None \<Rightarrow> None
      | Some s \<Rightarrow> if s \<noteq> [] \<and> \<not> isValidAbsolutePath s \<and> \<not> matches R_URL_REQUIRES_PROTOCOL s
                  then Some (msg env ''form_error_url_format'') else None)"

definition validateIpv4InCidr :: "env \<Rightarrow> ip_lib \<Rightarrow> string \<Rightarrow> string \<Rightarrow> validation" where
  "validateIpv4InCidr env lib valueIp cidr =
     (if isIpInCidr lib valueIp cidr then None
      else Some (getMessage env ''form_error_subnet'' [(''ip'', SArg valueIp), (''cidr'', SArg cidr)]))"

text \<open>UTF-8 takes two bytes for the upper half of this range.\<close>

definition utf8StringLength :: "string \<Rightarrow> nat" where
  "utf8StringLength s = sum_list (map (\<lambda>c. if code c < 128 then 1 else 2) s)"

definition validatePasswordLength :: "string option \<Rightarrow> bool option" where
  "validatePasswordLength v =
     (case v of
        None \<Rightarrow> None
      | Some s \<Rightarrow> if s \<noteq> [] \<and> (utf8StringLength s < MIN_PASSWORD_LENGTH \<or> MAX_PASSWORD_LENGTH < utf8StringLength s)
                  then Some True else None)"

definition validateIpGateway :: "env \<Rightarrow> string \<Rightarrow> string \<Rightarrow> validation" where
  "validateIpGateway env value gatewayIp =
     (if value = gatewayIp then Some (msg env ''form_error_gateway_ip'') else None)"

definition validatePlainDns :: "env \<Rightarrow> bool \<Rightarrow> bool option \<Rightarrow> validation" where
  "validatePlainDns env value en =
     (if en \<noteq> Some True \<and> \<not> value then Some (msg env ''encryption_plain_dns_error'') else None)"

subsection \<open>Upstreams, blocked hosts, leases\<close>

text \<open>\<open>/^\s*#/\<close> and \<open>/^\s*!/\<close>.\<close>

definition starts_with_mark :: "char \<Rightarrow> string \<Rightarrow> bool" where
  "starts_with_mark m s \<longleftrightarrow> startsWith (trimStart s) [m]"

definition validateUpstreams :: "env \<Rightarrow> string \<Rightarrow> validation" where
  "validateUpstreams env value =
     validatePerLine env value
       (\<lambda>l. (CHR ''.'' \<in> set l \<or> CHR '':'' \<in> set l) \<and> \<not> starts_with_mark (CHR ''!'') l)
       (\<lambda>l. \<not> starts_with_mark (CHR ''#'') l)"

definition validateDomainsPerLine :: "env \<Rightarrow> string \<Rightarrow> validation" where
  "validateDomainsPerLine env value =
     validatePerLine env value
       (\<lambda>l. CHR ''.'' \<in> set l \<and> \<not> starts_with_mark (CHR ''!'') l)
       (\<lambda>l. \<not> starts_with_mark (CHR ''#'') l)"

record LeaseEntry =
  le_ip :: string
  le_mac :: "string option"
  le_hostname :: "string option"

definition validateIpNotDuplicate :: "env \<Rightarrow> LeaseEntry list \<Rightarrow> string option \<Rightarrow> string option \<Rightarrow> validation" where
  "validateIpNotDuplicate env leases editIp value =
     (if truthy_str value \<and> value \<noteq> editIp \<and> (\<exists>l\<in>set leases. Some (le_ip l) = value)
      then Some (msg env ''form_error_ip_already_added'') else None)"

definition validateMacNotDuplicate :: "env \<Rightarrow> LeaseEntry list \<Rightarrow> string option \<Rightarrow> string option \<Rightarrow> validation" where
  "validateMacNotDuplicate env leases editMac value =
     (if truthy_str value \<and> map_option toLowerCase value \<noteq> map_option toLowerCase editMac \<and>
         (\<exists>l\<in>set leases. map_option toLowerCase (le_mac l) = map_option toLowerCase value)
      then Some (msg env ''dhcp_mac_address_already_added'') else None)"

definition validateHostnameNotDuplicate :: "env \<Rightarrow> LeaseEntry list \<Rightarrow> string option \<Rightarrow> string option \<Rightarrow> validation" where
  "validateHostnameNotDuplicate env leases editHostname value =
     (if truthy_str value \<and> value \<noteq> editHostname \<and>
         (\<exists>l\<in>set leases. truthy_str (le_hostname l) \<and> map_option toLowerCase (le_hostname l) = map_option toLowerCase value)
      then Some (msg env ''dhcp_hostname_already_added'') else None)"

subsection \<open>Theorems\<close>

lemma scan_lines_result:
  "scan_lines ok content i ls (bs, n) =
     (bs @ map (\<lambda>j. Suc (i + j)) (filter (\<lambda>j. trim (ls ! j) \<noteq> [] \<and> content (trim (ls ! j)) \<and> \<not> ok (trim (ls ! j))) [0..<length ls]),
      n + length (filter (\<lambda>l. trim l \<noteq> [] \<and> content (trim l)) ls))"
proof (induction ls arbitrary: i bs n)
  case (Cons l ls)
  let ?bad = "\<lambda>j. trim ((l # ls) ! j) \<noteq> [] \<and> content (trim ((l # ls) ! j)) \<and> \<not> ok (trim ((l # ls) ! j))"
  have upt: "[0..<length (l # ls)] = 0 # map Suc [0..<length ls]"
    by (simp add: upt_conv_Cons map_Suc_upt del: upt_Suc)
  have flt: "filter ?bad (map Suc [0..<length ls]) =
      map Suc (filter (\<lambda>j. trim (ls ! j) \<noteq> [] \<and> content (trim (ls ! j)) \<and> \<not> ok (trim (ls ! j))) [0..<length ls])"
    by (simp add: filter_map o_def)
  show ?case
    unfolding upt by (simp add: Cons.IH flt Let_def o_def del: upt_Suc)
qed simp

definition bad_line :: "(string \<Rightarrow> bool) \<Rightarrow> (string \<Rightarrow> bool) \<Rightarrow> string \<Rightarrow> bool" where
  "bad_line ok content l \<longleftrightarrow> trim l \<noteq> [] \<and> content (trim l) \<and> \<not> ok (trim l)"

text \<open>
  A multi-line field is accepted exactly when every non-blank content line passes its check;
  otherwise, when several lines are checked, the message names exactly the numbers, from one, of
  the lines that fail, in order.
\<close>

theorem validatePerLine_reports:
  "(validatePerLine env value ok content = None \<longleftrightarrow>
      value = [] \<or> (\<forall>l\<in>set (split_lines value). \<not> bad_line ok content l)) \<and>
   (\<forall>m. validatePerLine env value ok content = Some m \<longrightarrow>
      (let bad = filter (\<lambda>j. bad_line ok content (split_lines value ! j)) [0..<length (split_lines value)]
       in bad \<noteq> [] \<and>
          m \<in> {msg env ''form_error_format'',
               getMessage env ''form_error_format_line'' [(''line'', NArg (int (Suc (hd bad))))],
               getMessage env ''form_error_format_lines'' [(''lines'', SArg (join '', '' (map (\<lambda>j. show_nat (Suc j)) bad)))]}))"
proof -
  let ?ls = "split_lines value"
  let ?bad = "filter (\<lambda>j. bad_line ok content (?ls ! j)) [0..<length ?ls]"
  have scan: "scan_lines ok content 0 ?ls ([], 0) =
      (map Suc ?bad, length (filter (\<lambda>l. trim l \<noteq> [] \<and> content (trim l)) ?ls))"
    by (simp add: scan_lines_result bad_line_def)
  have none: "?bad = [] \<longleftrightarrow> (\<forall>l\<in>set ?ls. \<not> bad_line ok content l)"
    by (auto simp: filter_empty_conv all_set_conv_all_nth)
  have hd: "?bad \<noteq> [] \<Longrightarrow> hd (map Suc ?bad) = Suc (hd ?bad)" by (cases ?bad) auto
  show ?thesis
    using none hd by (auto simp: validatePerLine_def scan Let_def o_def split: if_splits)
qed

theorem validatePerLine_reports_witness:
  "validateUpstreams sample_env ''1.1.1.1'' = None"
proof -
  have "split_lines ''1.1.1.1'' = [''1.1.1.1'']" by (simp add: newline_def)
  moreover have "trim ''1.1.1.1'' = ''1.1.1.1''" by code_simp
  ultimately show ?thesis
    using validatePerLine_reports [of sample_env "''1.1.1.1''" "\<lambda>l. (CHR ''.'' \<in> set l \<or> CHR '':'' \<in> set l) \<and> \<not> starts_with_mark (CHR ''!'') l"
        "\<lambda>l. \<not> starts_with_mark (CHR ''#'') l"]
    by (simp add: validateUpstreams_def bad_line_def starts_with_mark_def trimStart_def is_space_def code_def)
qed

text \<open>
  A lease duration or an enabled cache size that is accepted is a whole number from 1 to
  2^32 - 1: it fits the 32-bit field of the server without wrapping and is never the zero that
  means ``default'' there.
\<close>

theorem accepted_number_fits_uint32:
  assumes "validateLeaseTime env toLocale toNumber v = None \<or> validateCacheSize env toLocale toNumber v True = None"
  shows "\<exists>n. js_Number toNumber v = Num (of_int n) \<and> 1 \<le> n \<and> uint (word_of_int n :: 32 word) = n"
proof -
  have between: "\<exists>n. x = Num (of_int n) \<and> 1 \<le> n \<and> n \<le> UINT32_MAX"
    if x0: "isInteger x" "\<not> below x 1" "\<not> above x (of_int UINT32_MAX)" for x
  proof -
    obtain r where r: "x = Num r" using x0(1) by (cases x) simp_all
    then have "of_int \<lfloor>r\<rfloor> = r" using x0(1) by simp
    with r have x: "x = Num r" "of_int \<lfloor>r\<rfloor> = r" by simp_all
    have "1 \<le> \<lfloor>r\<rfloor>" using x0(2) x by (simp add: le_floor_iff)
    moreover have "(of_int \<lfloor>r\<rfloor> :: rat) \<le> of_int UINT32_MAX" using x0(3) x by (simp only: above.simps not_less)
    then have "\<lfloor>r\<rfloor> \<le> UINT32_MAX" by (simp only: of_int_le_iff)
    ultimately show ?thesis using x by metis
  qed
  have "isInteger (js_Number toNumber v) \<and> \<not> below (js_Number toNumber v) 1 \<and> \<not> above (js_Number toNumber v) (of_int UINT32_MAX)"
    using assms
    by (auto simp: validateLeaseTime_def validateCacheSize_def validateBetween_def js_Number_def Let_def
        split: form_value.splits if_splits)
  then obtain n where n: "js_Number toNumber v = Num (of_int n)" "1 \<le> n" "n \<le> UINT32_MAX" using between by blast
  then have "uint (word_of_int n :: 32 word) = n" by (simp add: uint_word_of_int UINT32_MAX_def)
  with n show ?thesis by blast
qed

theorem accepted_number_fits_uint32_witness:
  "\<exists>n. js_Number (\<lambda>_. NaN) (VNumber (Num 86400)) = Num (of_int n) \<and> 1 \<le> n \<and> uint (word_of_int n :: 32 word) = n"
proof -
  have "validateLeaseTime sample_env (\<lambda>_. []) (\<lambda>_. NaN) (VNumber (Num 86400)) = None"
    by (simp add: validateLeaseTime_def validateBetween_def UINT32_MAX_def)
  then show ?thesis using accepted_number_fits_uint32 by blast
qed

text \<open>
  For canonical addresses, the range check accepts a DHCP range exactly when its end is above
  its start as 32-bit numbers, and the gateway check rejects a gateway exactly when it lies inside
  the range, ends included.
\<close>

theorem dhcp_range_checks:
  assumes "matches R_IPV4 s" and "matches R_IPV4 e"
    and "f_range_start v4 = Some s" and "f_range_end v4 = Some e"
  shows "(validateIpv4RangeEnd env (Some v4) = None \<longleftrightarrow> ip4ToInt s < ip4ToInt e) \<and>
    (validateNotInRange env g (Some v4) = None \<longleftrightarrow> \<not> (ip4ToInt s \<le> ip4ToInt g \<and> ip4ToInt g \<le> ip4ToInt e))"
proof -
  have "\<not> matches R_IPV4 []" by code_simp
  then have "s \<noteq> []" "e \<noteq> []" using assms(1,2) by auto
  then show ?thesis
    using assms
    by (auto simp: validateIpv4RangeEnd_def validateNotInRange_def validateIpv4_def or_str_def Let_def)
qed

theorem dhcp_range_checks_witness:
  "validateIpv4RangeEnd sample_env (Some \<lparr>f_gateway_ip = None, f_subnet_mask = None,
     f_range_start = Some ''10.0.0.9'', f_range_end = Some ''10.0.0.100''\<rparr>) = None"
proof -
  have "matches R_IPV4 ''10.0.0.9''" "matches R_IPV4 ''10.0.0.100''" by code_simp+
  moreover have "ip4ToInt ''10.0.0.9'' < ip4ToInt ''10.0.0.100''" by code_simp
  ultimately show ?thesis
    using dhcp_range_checks [of "''10.0.0.9''" "''10.0.0.100''" "\<lparr>f_gateway_ip = None, f_subnet_mask = None,
     f_range_start = Some ''10.0.0.9'', f_range_end = Some ''10.0.0.100''\<rparr>" sample_env] by simp
qed

text \<open>
  The server name check accepts a name that ends in an opening bracket: the pattern's last
  character class contains one by mistake.
\<close>

theorem validateServerName_accepts_bracket:
  "validateServerName env (Some ''dns.example['') = None"
proof -
  have "trim ''dns.example['' = ''dns.example[''" "matches R_DOMAIN ''dns.example[''" by code_simp+
  then show ?thesis by (simp add: validateServerName_def)
qed

text \<open>
  The answer check accepts every word as a host name, so the value \<open>bad\<close>, which its
  documentation gives as an invalid answer, is accepted.
\<close>

theorem validateAnswer_accepts_bad: "validateAnswer env lib (Some ''bad'') = None"
proof -
  have "matches R_HOST ''bad''" by code_simp
  then show ?thesis by (simp add: validateAnswer_def)
qed

lemma validateIdentifier_NoneD:
  assumes "validateIdentifier env lib value vs i ex = None"
  shows "trim value \<noteq> [] \<and>
    (matches R_IPV4 (trim value) \<or> isValidIpv6 lib (trim value) \<or> matches R_MAC (trim value) \<or>
       isValidCidr lib (trim value) \<or> matches R_CLIENT_ID (trim value)) \<and>
    (\<forall>j<length vs. j \<noteq> i \<longrightarrow> trim (vs ! j) \<noteq> trim value) \<and> trim value \<notin> set (nullish ex [])"
  using assms by (auto simp: validateIdentifier_def Let_def split: if_splits)

text \<open>
  An identifier that is accepted can be added: trimmed it is non-empty, of one of the five
  formats, and neither repeated in the form nor used by another client.
\<close>

theorem validateIdentifier_accepts:
  assumes "validateIdentifier env lib value vs i ex = None"
  shows "trim value \<noteq> [] \<and>
    (matches R_IPV4 (trim value) \<or> isValidIpv6 lib (trim value) \<or> matches R_MAC (trim value) \<or>
       isValidCidr lib (trim value) \<or> matches R_CLIENT_ID (trim value)) \<and>
    (\<forall>j<length vs. j \<noteq> i \<longrightarrow> trim (vs ! j) \<noteq> trim value) \<and> trim value \<notin> set (nullish ex [])"
  using assms by (rule validateIdentifier_NoneD)

theorem validateIdentifier_accepts_witness:
  "validateIdentifier sample_env sample_lib ''10.0.0.1'' [''10.0.0.1''] 0 None = None \<and> trim ''10.0.0.1'' \<noteq> []"
proof -
  have "trim ''10.0.0.1'' = ''10.0.0.1''" "matches R_IPV4 ''10.0.0.1''" by code_simp+
  then have "validateIdentifier sample_env sample_lib ''10.0.0.1'' [''10.0.0.1''] 0 None = None"
    by (simp add: validateIdentifier_def)
  with validateIdentifier_accepts show ?thesis by blast
qed

text \<open>
  A rewrite is rejected as a duplicate exactly when, up to case and surrounding blanks, the
  list has the same domain and answer in an entry other than the one being edited; in particular
  saving an unchanged entry is always possible.
\<close>

theorem validateRewriteNotExists_iff:
  "(validateRewriteNotExists env d a existing cur = None \<longleftrightarrow>
      d = [] \<or> a = [] \<or>
      (\<forall>item\<in>set existing. same_rewrite item (Some d, Some a) \<longrightarrow> (\<exists>c. cur = Some c \<and> same_rewrite item c))) \<and>
   validateRewriteNotExists env d a existing (Some (Some d, Some a)) = None"
  by (auto simp: validateRewriteNotExists_def split: option.splits)

theorem validateRewriteNotExists_iff_witness:
  "validateRewriteNotExists sample_env ''a'' ''1'' [(Some ''A '', Some ''1'')] (Some (Some ''a'', Some ''1'')) = None"
  using validateRewriteNotExists_iff [of sample_env "''a''" "''1''" "[(Some ''A '', Some ''1'')]"] by blast

end
