(* ===== verification/TlsForm.thy ===== *)
theory TlsForm
  imports Encryption Validators
begin

section \<open>Checks of the encryption form\<close>

text \<open>
  \<^verbatim>\<open>client_v2/src/components/Encryption/validate.ts\<close>: what the TLS wizard and the server settings
  dialog accept. A record of field errors is a map from field names to messages.
\<close>

type_synonym errors = "string \<rightharpoonup> string"

subsection \<open>Certificate and key\<close>

definition validateCertPath :: "env \<Rightarrow> string option \<Rightarrow> validation" where
  "validateCertPath env v =
     (if truthy_str v \<and> truthy_str (validatePath env v) then Some (msg env ''tls_setup_error_read_cert'') else None)"

definition validateKeyPath :: "env \<Rightarrow> string option \<Rightarrow> validation" where
  "validateKeyPath env v =
     (if truthy_str v \<and> truthy_str (validatePath env v) then Some (msg env ''tls_setup_error_read_key'') else None)"

definition pem_name :: rx where
  "pem_name = Star (Cls (\<lambda>c. is_upper c \<or> is_digit c \<or> c = CHR '' ''))"

definition R_PEM_KEY_HEADER :: rx where
  "R_PEM_KEY_HEADER = Seq (lit ''-----BEGIN '') (Seq pem_name (lit ''PRIVATE KEY-----''))"

definition R_PEM_CERT_HEADER :: rx where
  "R_PEM_CERT_HEADER = lit ''-----BEGIN CERTIFICATE-----''"

definition R_PEM_CERT_BLOCK :: rx where
  "R_PEM_CERT_BLOCK = Seq (lit ''-----BEGIN CERTIFICATE-----'') (Seq anything (lit ''-----END CERTIFICATE-----''))"

definition R_PEM_KEY_BLOCK :: rx where
  "R_PEM_KEY_BLOCK = Seq R_PEM_KEY_HEADER (Seq anything
     (Seq (lit ''-----END '') (Seq pem_name (lit ''PRIVATE KEY-----''))))"

definition form_string :: "string option \<Rightarrow> form_value" where
  "form_string v = (case v of None \<Rightarrow> VUndefined | Some s \<Rightarrow> VString s)"

definition validateCertContent :: "env \<Rightarrow> string option \<Rightarrow> validation" where
  "validateCertContent env v =
     (let required = validateRequiredValue env (form_string v);
          text = nullish v ''undefined''
      in if truthy_str required then required
         else if search R_PEM_KEY_HEADER text then Some (msg env ''tls_setup_error_not_a_cert'')
         else if \<not> search R_PEM_CERT_BLOCK text then Some (msg env ''tls_setup_error_cert_incomplete'')
         else None)"

definition validateKeyContent :: "env \<Rightarrow> string option \<Rightarrow> validation" where
  "validateKeyContent env v =
     (let required = validateRequiredValue env (form_string v);
          text = nullish v ''undefined''
      in if truthy_str required then required
         else if search R_PEM_CERT_HEADER text \<and> \<not> search R_PEM_KEY_HEADER text
         then Some (msg env ''tls_setup_error_not_a_key'')
         else if \<not> search R_PEM_KEY_BLOCK text then Some (msg env ''tls_setup_error_key_incomplete'')
         else None)"

definition one_error :: "string \<Rightarrow> validation \<Rightarrow> errors" where
  "one_error field e = (case e of None \<Rightarrow> Map.empty | Some m \<Rightarrow> if m = [] then Map.empty else [field \<mapsto> m])"

text \<open>\<open>a || b\<close> on validation results.\<close>

definition or_validation :: "validation \<Rightarrow> validation \<Rightarrow> validation" where
  "or_validation a b = (if truthy_str a then a else b)"

definition validateCertFields :: "env \<Rightarrow> EncryptionFormValues \<Rightarrow> errors" where
  "validateCertFields env v =
     (if certificate_source v = Some ENCRYPTION_SOURCE_CONTENT
      then one_error ''certificate_chain'' (validateCertContent env (certificate_chain (form v)))
      else one_error ''certificate_path''
        (or_validation (validateRequiredValue env (form_string (certificate_path (form v))))
          (validateCertPath env (certificate_path (form v)))))"

definition validateKeyFields :: "env \<Rightarrow> EncryptionFormValues \<Rightarrow> errors" where
  "validateKeyFields env v =
     (if private_key_saved (form v) = Some True then Map.empty
      else if key_source v = Some ENCRYPTION_SOURCE_CONTENT
      then one_error ''private_key'' (validateKeyContent env (private_key (form v)))
      else if key_source v = Some ENCRYPTION_SOURCE_PATH
      then one_error ''private_key_path''
        (or_validation (validateRequiredValue env (form_string (private_key_path (form v))))
          (validateKeyPath env (private_key_path (form v))))
      else Map.empty)"

definition validateCertKeyFields :: "env \<Rightarrow> EncryptionFormValues \<Rightarrow> errors" where
  "validateCertKeyFields env v = validateCertFields env v ++ validateKeyFields env v"

subsection \<open>Ports\<close>

record ExternalPorts =
  webUi :: "int option"
  plainDns :: "int option"
  dnscrypt :: "int option"

definition validatePortField :: "env \<Rightarrow> string \<Rightarrow> int \<Rightarrow> validation" where
  "validatePortField env field n =
     or_validation (validatePort env (Some (Num (of_int n))))
       (if field = ''port_https'' then validateIsSafePort env (Some (Num (of_int n))) else None)"

definition tcp_family :: "(string \<Rightarrow> int) \<Rightarrow> TlsConfig \<Rightarrow> ExternalPorts option \<Rightarrow> (string \<times> int) list" where
  "tcp_family toNumber v ex =
     [(''port_https'', number_or_0 toNumber (port_https v)),
      (''port_dns_over_tls'', number_or_0 toNumber (port_dns_over_tls v)),
      (''webUi'', nullish (Option.bind ex webUi) 0),
      (''plainDns'', nullish (Option.bind ex plainDns) 0),
      (''dnscrypt'', nullish (Option.bind ex dnscrypt) 0)]"

definition udp_family :: "(string \<Rightarrow> int) \<Rightarrow> TlsConfig \<Rightarrow> ExternalPorts option \<Rightarrow> (string \<times> int) list" where
  "udp_family toNumber v ex =
     [(''port_dns_over_quic'', number_or_0 toNumber (port_dns_over_quic v)),
      (''plainDns'', nullish (Option.bind ex plainDns) 0)]"

text \<open>The map \<open>byPort\<close>: ports in order of first use, each with the fields that have it.\<close>

fun add_field :: "int \<Rightarrow> string \<Rightarrow> (int \<times> string list) list \<Rightarrow> (int \<times> string list) list" where
  "add_field p f [] = [(p, [f])]"
| "add_field p f ((q, fs) # r) = (if p = q then (q, fs @ [f]) # r else (q, fs) # add_field p f r)"

definition byPort :: "(string \<times> int) list \<Rightarrow> (int \<times> string list) list" where
  "byPort family = foldl (\<lambda>m (f, p). if p = 0 then m else add_field p f m) [] family"

definition conflicting :: "(string \<times> int) list \<Rightarrow> string list" where
  "conflicting family =
     concat (map (\<lambda>(p, fs). if length fs < 2 then [] else filter (\<lambda>f. startsWith f ''port_'') fs) (byPort family))"

definition validatePortConflicts :: "env \<Rightarrow> (string \<Rightarrow> int) \<Rightarrow> TlsConfig \<Rightarrow> ExternalPorts option \<Rightarrow> errors" where
  "validatePortConflicts env toNumber v ex =
     (\<lambda>f. if f \<in> set (conflicting (tcp_family toNumber v ex) @ conflicting (udp_family toNumber v ex))
          then Some (msg env ''tls_setup_error_port_in_use'') else None)"

definition validateServerSettings :: "env \<Rightarrow> (string \<Rightarrow> int) \<Rightarrow> TlsConfig \<Rightarrow> ExternalPorts option \<Rightarrow> errors" where
  "validateServerSettings env toNumber v ex =
     (let own = one_error ''server_name'' (validateServerName env (server_name v))
        ++ one_error ''port_https'' (validatePortField env ''port_https'' (number_or_0 toNumber (port_https v)))
        ++ one_error ''port_dns_over_tls'' (validatePortField env ''port_dns_over_tls'' (number_or_0 toNumber (port_dns_over_tls v)))
        ++ one_error ''port_dns_over_quic'' (validatePortField env ''port_dns_over_quic'' (number_or_0 toNumber (port_dns_over_quic v)))
      in validatePortConflicts env toNumber v ex ++ own)"

definition validateEncryptionForm ::
  "env \<Rightarrow> (string \<Rightarrow> int) \<Rightarrow> EncryptionFormValues \<Rightarrow> ExternalPorts option \<Rightarrow> errors" where
  "validateEncryptionForm env toNumber v ex =
     validateCertKeyFields env v ++ validateServerSettings env toNumber (form v) ex
       ++ one_error ''serve_plain_dns''
            (validatePlainDns env (nullish (serve_plain_dns (form v)) False) (tls_enabled (form v)))"

subsection \<open>Grouping by port\<close>

lemma add_field_keys: "fst ` set (add_field p f m) = insert p (fst ` set m)"
  by (induction p f m rule: add_field.induct) (auto simp: insert_commute)

lemma add_field_distinct: "distinct (map fst m) \<Longrightarrow> distinct (map fst (add_field p f m))"
  by (induction p f m rule: add_field.induct)
    (use add_field_keys in \<open>auto simp: list.set_map simp del: set_map\<close>)

lemma add_field_map_of:
  "map_of (add_field p f m) = (map_of m)(p \<mapsto> nullish (map_of m p) [] @ [f])"
  by (induction p f m rule: add_field.induct) (auto simp: fun_eq_iff)

text \<open>The fields of a family with port \<open>p\<close>; port 0 means the field is not set.\<close>

definition users :: "int \<Rightarrow> (string \<times> int) list \<Rightarrow> string list" where
  "users p family = map fst (filter (\<lambda>e. snd e = p \<and> p \<noteq> 0) family)"

lemma byPort_snoc:
  "byPort (family @ [(f, p)]) = (if p = 0 then byPort family else add_field p f (byPort family))"
  by (simp add: byPort_def)

lemma byPort_distinct: "distinct (map fst (byPort family))"
proof (induction family rule: rev_induct)
  case (snoc e family)
  then show ?case by (cases e) (simp add: byPort_snoc add_field_distinct)
qed (simp add: byPort_def)

lemma byPort_map_of:
  "map_of (byPort family) p = (if users p family = [] then None else Some (users p family))"
proof (induction family arbitrary: p rule: rev_induct)
  case (snoc e family)
  then show ?case by (cases e) (auto simp: byPort_snoc add_field_map_of users_def)
qed (simp add: byPort_def users_def)

lemma byPort_entry:
  "(p, fs) \<in> set (byPort family) \<longleftrightarrow> fs = users p family \<and> fs \<noteq> []"
  using byPort_map_of [of family p] byPort_distinct [of family]
  by (metis map_of_SomeD map_of_eq_Some_iff option.distinct(1) option.inject)

lemma conflicting_iff:
  "f \<in> set (conflicting family) \<longleftrightarrow>
     startsWith f ''port_'' \<and> (\<exists>p. f \<in> set (users p family) \<and> 2 \<le> length (users p family))"
proof -
  have "f \<in> set (conflicting family) \<longleftrightarrow>
      (\<exists>p fs. (p, fs) \<in> set (byPort family) \<and> 2 \<le> length fs \<and> f \<in> set fs \<and> startsWith f ''port_'')"
    unfolding conflicting_def set_concat set_map image_image UN_iff
    by (rule iffI; force simp: not_less split: if_splits)
  then show ?thesis unfolding byPort_entry by (metis empty_iff empty_set)
qed

text \<open>
  With distinct field names, a field has company exactly when another entry of the family has its
  port.
\<close>

lemma users_two:
  assumes "distinct (map fst family)" and "(f, p) \<in> set family" and "p \<noteq> 0"
  shows "2 \<le> length (users p family) \<longleftrightarrow> (\<exists>g. g \<noteq> f \<and> (g, p) \<in> set family)"
proof -
  have d: "distinct (users p family)"
    using assms(1) by (simp add: users_def distinct_map_filter)
  have m: "g \<in> set (users p family) \<longleftrightarrow> (g, p) \<in> set family" for g
    using assms(3) by (force simp: users_def)
  have "card (set (users p family)) = length (users p family)"
    using d by (rule distinct_card)
  moreover have "2 \<le> card A \<longleftrightarrow> (\<exists>g. g \<noteq> f \<and> g \<in> A)" if "finite A" "f \<in> A" for A :: "string set"
    using that card_le_Suc0_iff_eq [OF that(1)] by (metis not_less_eq_eq numeral_2_eq_2)
  ultimately show ?thesis
    using m assms(2) by (metis List.finite_set)
qed

lemma conflicting_field:
  assumes d: "distinct (map fst family)"
  shows "f \<in> set (conflicting family) \<longleftrightarrow> startsWith f ''port_'' \<and>
    (\<exists>p g. p \<noteq> 0 \<and> g \<noteq> f \<and> (f, p) \<in> set family \<and> (g, p) \<in> set family)"
proof -
  have "f \<in> set (users p family) \<longleftrightarrow> p \<noteq> 0 \<and> (f, p) \<in> set family" for p
    by (force simp: users_def)
  then show ?thesis using users_two [OF d] unfolding conflicting_iff by metis
qed

subsection \<open>The server's rule\<close>

text \<open>
  \<^verbatim>\<open>validatePorts\<close> of \<^verbatim>\<open>internal/home/web.go\<close>, with the uniqueness checker it uses: the request is
  refused when a nonzero port repeats among the TCP ports or among the UDP ports.
\<close>

definition addPorts :: "int list \<Rightarrow> int list" where
  "addPorts ports = filter (\<lambda>p. p \<noteq> 0) ports"

definition validatePorts :: "int \<Rightarrow> int \<Rightarrow> int \<Rightarrow> int \<Rightarrow> int \<Rightarrow> int \<Rightarrow> bool" where
  "validatePorts bindPort doh dot dnscryptTcp dns doq \<longleftrightarrow>
     distinct (addPorts [bindPort, doh, dot, dnscryptTcp, dns]) \<and> distinct (addPorts [dns, doq])"

definition webPort :: "ExternalPorts option \<Rightarrow> int" where
  "webPort ex = nullish (Option.bind ex webUi) 0"

definition dnsPort :: "ExternalPorts option \<Rightarrow> int" where
  "dnsPort ex = nullish (Option.bind ex plainDns) 0"

definition dnscryptPort :: "ExternalPorts option \<Rightarrow> int" where
  "dnscryptPort ex = nullish (Option.bind ex dnscrypt) 0"

lemma no_conflict:
  assumes "distinct (map fst family)"
  shows "conflicting family = [] \<longleftrightarrow>
    (\<forall>(f, p) \<in> set family. startsWith f ''port_'' \<and> p \<noteq> 0 \<longrightarrow>
      (\<forall>(g, q) \<in> set family. g \<noteq> f \<longrightarrow> q \<noteq> p))"
proof -
  have "conflicting family = [] \<longleftrightarrow> (\<forall>f. f \<notin> set (conflicting family))"
    by (metis all_not_in_conv set_empty)
  then show ?thesis unfolding conflicting_field [OF assms] by blast
qed

lemma tcp_conflicts:
  "conflicting (tcp_family toNumber v ex) = [] \<longleftrightarrow>
     (let https = number_or_0 toNumber (port_https v); dot = number_or_0 toNumber (port_dns_over_tls v);
          others = {webPort ex, dnsPort ex, dnscryptPort ex}
      in (https \<noteq> 0 \<longrightarrow> https \<noteq> dot \<and> https \<notin> others) \<and> (dot \<noteq> 0 \<longrightarrow> dot \<notin> others))"
  by (subst no_conflict)
    (auto simp: tcp_family_def Let_def webPort_def dnsPort_def dnscryptPort_def)

lemma udp_conflicts:
  "conflicting (udp_family toNumber v ex) = [] \<longleftrightarrow>
     (let doq = number_or_0 toNumber (port_dns_over_quic v) in doq \<noteq> 0 \<longrightarrow> doq \<noteq> dnsPort ex)"
  by (subst no_conflict) (auto simp: udp_family_def Let_def dnsPort_def)

lemma validatePortConflicts_empty:
  "validatePortConflicts env toNumber v ex = Map.empty \<longleftrightarrow>
     conflicting (tcp_family toNumber v ex) = [] \<and> conflicting (udp_family toNumber v ex) = []"
proof -
  have "validatePortConflicts env toNumber v ex = Map.empty \<longleftrightarrow>
      (\<forall>f. f \<notin> set (conflicting (tcp_family toNumber v ex)) \<union> set (conflicting (udp_family toNumber v ex)))"
    by (simp add: validatePortConflicts_def fun_eq_iff)
  then show ?thesis by (metis Un_empty all_not_in_conv set_empty)
qed

text \<open>
  C24. The port check of the form mirrors the server's. When the other settings of the server do not
  collide among themselves, the form reports no conflict exactly when \<open>validatePorts\<close> accepts the
  three ports of the form together with the web interface, plain DNS and DNSCrypt ports.
\<close>

theorem port_conflicts_mirror_server:
  assumes "validatePorts (webPort ex) 0 0 (dnscryptPort ex) (dnsPort ex) 0"
  shows "validatePortConflicts env toNumber v ex = Map.empty \<longleftrightarrow>
    validatePorts (webPort ex) (number_or_0 toNumber (port_https v)) (number_or_0 toNumber (port_dns_over_tls v))
      (dnscryptPort ex) (dnsPort ex) (number_or_0 toNumber (port_dns_over_quic v))"
  using assms unfolding validatePortConflicts_empty tcp_conflicts udp_conflicts
  by (simp add: validatePorts_def addPorts_def Let_def split: if_splits) auto

theorem port_conflicts_mirror_server_witness:
  "validatePortConflicts sample_env (\<lambda>_. 0)
     (empty_tls\<lparr>port_https := Some (PNum 443), port_dns_over_tls := Some (PNum 853), port_dns_over_quic := Some (PNum 853)\<rparr>)
     (Some \<lparr>webUi = Some 80, plainDns = Some 53, dnscrypt = Some 0\<rparr>) = Map.empty
   \<and> validatePortConflicts sample_env (\<lambda>_. 0)
     (empty_tls\<lparr>port_https := Some (PNum 80), port_dns_over_tls := Some (PNum 853), port_dns_over_quic := Some (PNum 853)\<rparr>)
     (Some \<lparr>webUi = Some 80, plainDns = Some 53, dnscrypt = Some 0\<rparr>) \<noteq> Map.empty"
proof -
  let ?ex = "Some \<lparr>webUi = Some 80, plainDns = Some 53, dnscrypt = Some 0\<rparr>"
  have hyp: "validatePorts (webPort ?ex) 0 0 (dnscryptPort ?ex) (dnsPort ?ex) 0"
    by (simp add: validatePorts_def addPorts_def webPort_def dnsPort_def dnscryptPort_def)
  show ?thesis
    unfolding port_conflicts_mirror_server [OF hyp]
    by (simp add: validatePorts_def addPorts_def webPort_def dnsPort_def dnscryptPort_def number_or_0_def)
qed

subsection \<open>Pasted certificates\<close>

lemma search_cert_block:
  "search R_PEM_CERT_BLOCK s \<longleftrightarrow>
     (\<exists>a body c. s = a @ ''-----BEGIN CERTIFICATE-----'' @ body @ ''-----END CERTIFICATE-----'' @ c)"
proof
  assume "search R_PEM_CERT_BLOCK s"
  then obtain a b c where s: "s = a @ b @ c" and "b \<in> lang R_PEM_CERT_BLOCK"
    by (auto simp: search_iff)
  then obtain body where "b = ''-----BEGIN CERTIFICATE-----'' @ body @ ''-----END CERTIFICATE-----''"
    unfolding R_PEM_CERT_BLOCK_def by auto
  with s show "\<exists>a body c. s = a @ ''-----BEGIN CERTIFICATE-----'' @ body @ ''-----END CERTIFICATE-----'' @ c"
    by auto
next
  assume "\<exists>a body c. s = a @ ''-----BEGIN CERTIFICATE-----'' @ body @ ''-----END CERTIFICATE-----'' @ c"
  then obtain a body c where
    "s = a @ (''-----BEGIN CERTIFICATE-----'' @ body @ ''-----END CERTIFICATE-----'') @ c" by auto
  moreover have "''-----BEGIN CERTIFICATE-----'' @ body @ ''-----END CERTIFICATE-----'' \<in> lang R_PEM_CERT_BLOCK"
    unfolding R_PEM_CERT_BLOCK_def by (intro lang_SeqI) auto
  ultimately show "search R_PEM_CERT_BLOCK s" unfolding search_iff by blast
qed

lemma search_key_header:
  "search R_PEM_KEY_HEADER s \<longleftrightarrow>
     (\<exists>a name c. s = a @ ''-----BEGIN '' @ name @ ''PRIVATE KEY-----'' @ c \<and>
        (\<forall>x \<in> set name. is_upper x \<or> is_digit x \<or> x = CHR '' ''))"
proof
  assume "search R_PEM_KEY_HEADER s"
  then obtain a b c where s: "s = a @ b @ c" and "b \<in> lang R_PEM_KEY_HEADER"
    by (auto simp: search_iff)
  then obtain name where "b = ''-----BEGIN '' @ name @ ''PRIVATE KEY-----''"
    and "\<forall>x \<in> set name. is_upper x \<or> is_digit x \<or> x = CHR '' ''"
    using lang_star_Cls [of "\<lambda>c. is_upper c \<or> is_digit c \<or> c = CHR '' ''"]
    unfolding R_PEM_KEY_HEADER_def pem_name_def lang.simps(4) by auto
  with s show "\<exists>a name c. s = a @ ''-----BEGIN '' @ name @ ''PRIVATE KEY-----'' @ c \<and>
        (\<forall>x \<in> set name. is_upper x \<or> is_digit x \<or> x = CHR '' '')"
    by (intro exI [of _ a] exI [of _ name] exI [of _ c]) simp
next
  assume "\<exists>a name c. s = a @ ''-----BEGIN '' @ name @ ''PRIVATE KEY-----'' @ c \<and>
        (\<forall>x \<in> set name. is_upper x \<or> is_digit x \<or> x = CHR '' '')"
  then obtain a name c where s: "s = a @ (''-----BEGIN '' @ name @ ''PRIVATE KEY-----'') @ c"
    and "\<forall>x \<in> set name. is_upper x \<or> is_digit x \<or> x = CHR '' ''" by auto
  then have "''-----BEGIN '' @ name @ ''PRIVATE KEY-----'' \<in> lang R_PEM_KEY_HEADER"
    unfolding R_PEM_KEY_HEADER_def pem_name_def
    by (intro lang_SeqI) (simp_all only: lang_lit lang_star_Cls mem_Collect_eq singleton_iff)
  with s show "search R_PEM_KEY_HEADER s" unfolding search_iff by blast
qed

text \<open>
  The certificate step lets pasted text through exactly when it is not blank, contains a
  certificate block with its closing line, and contains no private key header: a key pasted into
  the certificate field is never sent to the server as a certificate.
\<close>

theorem pasted_certificate_accepted_iff:
  assumes "\<forall>k. msg env k \<noteq> []" and "certificate_source v = Some ENCRYPTION_SOURCE_CONTENT"
    and "certificate_chain (form v) = Some s"
  shows "validateCertFields env v = Map.empty \<longleftrightarrow>
    (\<exists>a body c. s = a @ ''-----BEGIN CERTIFICATE-----'' @ body @ ''-----END CERTIFICATE-----'' @ c) \<and>
    \<not> (\<exists>a name c. s = a @ ''-----BEGIN '' @ name @ ''PRIVATE KEY-----'' @ c \<and>
        (\<forall>x \<in> set name. is_upper x \<or> is_digit x \<or> x = CHR '' ''))"
proof -
  have nonblank: "trim s \<noteq> []" if "search R_PEM_CERT_BLOCK s"
  proof -
    have "CHR ''-'' \<in> set s" using that unfolding search_cert_block by auto
    moreover have "\<not> is_space (CHR ''-'')" by (simp add: is_space_def code_def)
    ultimately show ?thesis unfolding trim_Nil_iff by blast
  qed
  have "validateCertFields env v = Map.empty \<longleftrightarrow> validateCertContent env (Some s) \<in> {None, Some []}"
    using assms(2,3) by (auto simp: validateCertFields_def one_error_def split: option.splits)
  also have "\<dots> \<longleftrightarrow> search R_PEM_CERT_BLOCK s \<and> \<not> search R_PEM_KEY_HEADER s"
    using assms(1) nonblank
    by (auto simp: validateCertContent_def validateRequiredValue_def form_string_def truthy_str_def Let_def)
  finally show ?thesis by (simp only: search_cert_block search_key_header)
qed

theorem pasted_certificate_accepted_iff_witness:
  "validateCertFields sample_env (defaultTlsValues\<lparr>certificate_source := Some ENCRYPTION_SOURCE_CONTENT,
     form := empty_tls\<lparr>certificate_chain := Some ''-----BEGIN CERTIFICATE-----''\<rparr>\<rparr>) \<noteq> Map.empty"
proof -
  let ?v = "defaultTlsValues\<lparr>certificate_source := Some ENCRYPTION_SOURCE_CONTENT,
     form := empty_tls\<lparr>certificate_chain := Some ''-----BEGIN CERTIFICATE-----''\<rparr>\<rparr>"
  let ?env = "sample_env\<lparr>getMessage := (\<lambda>_ _. ''m'')\<rparr>"
  have "\<not> (\<exists>a body c. ''-----BEGIN CERTIFICATE-----'' =
      a @ ''-----BEGIN CERTIFICATE-----'' @ body @ ''-----END CERTIFICATE-----'' @ c)"
    by (auto dest: arg_cong [of _ _ length])
  then have "validateCertFields ?env ?v \<noteq> Map.empty"
    by (subst pasted_certificate_accepted_iff [of ?env ?v "''-----BEGIN CERTIFICATE-----''"]) simp_all
  then show ?thesis
    by (auto simp: validateCertFields_def validateCertContent_def validateRequiredValue_def one_error_def
        form_string_def truthy_str_def sample_env_def Let_def split: if_splits)
qed

end
