(* ===== verification/Modals.thy ===== *)
theory Modals
  imports TlsForm
begin

section \<open>The modal store\<close>

text \<open>
  \<^verbatim>\<open>client_v2/src/stores/modals.ts\<close> and \<^verbatim>\<open>common/ui/ModalWrapper\<close>: at most one modal window is open, named
  by its type. Every page puts its windows behind a wrapper that renders them while the store names them. The last part is what
  the forms in these windows share: chains of checks of which the first failing one gives the message.
\<close>

datatype modal_type =
    SELECT_MODAL_TYPE | ADD_FILTERS | EDIT_FILTERS | CHOOSE_FILTERING_LIST
  | ADD_REWRITE | EDIT_REWRITE | DELETE_REWRITE | EDIT_LEASE | ADD_LEASE | ADD_CLIENT | EDIT_CLIENT
  | ADD_BLOCKLIST | EDIT_BLOCKLIST | DELETE_BLOCKLIST | ADD_ALLOWLIST | EDIT_ALLOWLIST | DELETE_ALLOWLIST
  | FILTER_UPDATE

record ModalsState =
  open_modal :: "modal_type option"

definition modals_initial :: ModalsState where
  "modals_initial = \<lparr>open_modal = None\<rparr>"

definition openModal :: "modal_type \<Rightarrow> ModalsState \<Rightarrow> ModalsState" where
  "openModal m s = s\<lparr>open_modal := Some m\<rparr>"

definition closeModal :: "ModalsState \<Rightarrow> ModalsState" where
  "closeModal s = s\<lparr>open_modal := None\<rparr>"

definition ModalWrapper_shows :: "modal_type \<Rightarrow> ModalsState \<Rightarrow> bool" where
  "ModalWrapper_shows i s \<longleftrightarrow> open_modal s = Some i"

lemma open_modal_simps [simp]:
  "open_modal (openModal m s) = Some m" "open_modal (closeModal s) = None"
  by (simp_all add: openModal_def closeModal_def)

lemma one_modal: "ModalWrapper_shows i s \<Longrightarrow> ModalWrapper_shows j s \<Longrightarrow> i = j"
  by (simp add: ModalWrapper_shows_def)

subsection \<open>Chains of checks\<close>

lemma truthy_simps:
  "truthy_str (or_validation a b) \<longleftrightarrow> truthy_str a \<or> truthy_str b" "truthy_str (Some t) \<longleftrightarrow> t \<noteq> []" "\<not> truthy_str None"
  by (simp_all add: or_validation_def truthy_str_def)

lemma trim_Nil [simp]: "trim [] = []"
  by (simp add: trim_Nil_iff)

end
