(* ===== verification/CodeUnits.thy ===== *)
theory CodeUnits
  imports Sorting
begin

section \<open>Comparing strings\<close>

text \<open>The operator \<open><\<close> on strings compares code units from the left; a proper prefix is smaller.\<close>

fun unit_less :: "nat list \<Rightarrow> nat list \<Rightarrow> bool" where
  "unit_less _ [] = False"
| "unit_less [] (_ # _) = True"
| "unit_less (a # as) (b # bs) = (a < b \<or> a = b \<and> unit_less as bs)"

lemma unit_less_irrefl [simp]: "\<not> unit_less xs xs"
  by (induction xs) auto

lemma unit_less_trans: "unit_less xs ys \<Longrightarrow> unit_less ys zs \<Longrightarrow> unit_less xs zs"
  by (induction xs ys arbitrary: zs rule: unit_less.induct) (case_tac zs; auto)+

lemma unit_less_total: "unit_less xs ys \<or> xs = ys \<or> unit_less ys xs"
proof (induction xs arbitrary: ys)
  case (Cons x xs)
  then show ?case by (cases ys) auto
qed (case_tac ys; simp)

text \<open>The three-way comparison that the sources write with \<open><\<close> and \<open>>\<close>.\<close>

definition unit_cmp :: "nat list \<Rightarrow> nat list \<Rightarrow> int" where
  "unit_cmp a b = (if unit_less a b then - 1 else if unit_less b a then 1 else 0)"

lemma unit_less_asym: "unit_less a b \<Longrightarrow> \<not> unit_less b a"
  using unit_less_trans unit_less_irrefl by blast

lemma unit_cmp_le: "unit_cmp a b \<le> 0 \<longleftrightarrow> \<not> unit_less b a"
  using unit_less_asym [of a b] by (simp add: unit_cmp_def)

lemma unit_cmp_minus: "- unit_cmp a b = unit_cmp b a"
  using unit_less_asym [of a b] by (simp add: unit_cmp_def)

interpretation units: comparator UNIV unit_cmp
proof
  fix x y z :: "nat list"
  show "unit_cmp x y \<le> 0 \<or> unit_cmp y x \<le> 0"
    using unit_less_trans unit_less_irrefl unfolding unit_cmp_le by blast
  show "unit_cmp x z \<le> 0" if "unit_cmp x y \<le> 0" "unit_cmp y z \<le> 0"
    using that unit_less_trans unit_less_total unfolding unit_cmp_le by metis
qed

end
