(* ===== verification/DataTable.thy ===== *)
theory DataTable
  imports CodeUnits Complex_Main
begin

section \<open>The table and its pagination\<close>

text \<open>
  \<^verbatim>\<open>client_v2/src/common/ui/Table/Table.tsx\<close> and \<^verbatim>\<open>blocks/Pagination/Pagination.tsx\<close>: the rows a table shows, its
  sorting and pages, and the page numbers of its footer. A cell is a missing value, a text or a number; the accessor of a column
  gives the cell of a row. A number is finite. Page sizes are positive: the select offers only such sizes and the callers take a
  stored size that is 0 for none. Pages count from 0 in the state and from 1 on the buttons.
\<close>

subsection \<open>Sorting\<close>

datatype cell = Missing | Text string | Number rat

datatype direction = Asc | Desc

datatype column_width = Px nat | Css string

text \<open>An accessor that names a field is the function that reads it.\<close>

record 'r column =
  col_key :: string
  accessor :: "('r \<Rightarrow> cell) option"
  col_sortable :: "bool option"
  sortFn :: "(cell \<Rightarrow> cell \<Rightarrow> int) option"
  fitContent :: bool
  col_width :: "column_width option"
  minWidth :: nat
  maxWidth :: nat

definition lowered :: "cell \<Rightarrow> cell \<Rightarrow> cell \<times> cell" where
  "lowered a b = (case (a, b) of (Text s, Text t) \<Rightarrow> (Text (toLowerCase s), Text (toLowerCase t)) | _ \<Rightarrow> (a, b))"

text \<open>The operators \<open><\<close> and \<open>>\<close>: two texts compare by code units; a text that meets a number is read as a number
  (\<open>toNumber\<close>, a parameter), and both comparisons are false when it is none.\<close>

definition compare_cells :: "(string \<Rightarrow> rat option) \<Rightarrow> cell \<Rightarrow> cell \<Rightarrow> int" where
  "compare_cells toNumber a b =
     (case (a, b) of
        (Text s, Text t) \<Rightarrow> unit_cmp (map code s) (map code t)
      | (Number x, Number y) \<Rightarrow> if x < y then - 1 else if y < x then 1 else 0
      | (Text s, Number y) \<Rightarrow> (case toNumber s of None \<Rightarrow> 0 | Some x \<Rightarrow> if x < y then - 1 else if y < x then 1 else 0)
      | (Number x, Text t) \<Rightarrow> (case toNumber t of None \<Rightarrow> 0 | Some y \<Rightarrow> if x < y then - 1 else if y < x then 1 else 0)
      | _ \<Rightarrow> 0)"

definition sort_rows :: "(string \<Rightarrow> rat option) \<Rightarrow> 'r column \<Rightarrow> direction \<Rightarrow> 'r \<Rightarrow> 'r \<Rightarrow> int" where
  "sort_rows toNumber col dir a b =
     (case accessor col of
        None \<Rightarrow> 0
      | Some get \<Rightarrow>
          (case (get a, get b) of
             (Missing, Missing) \<Rightarrow> 0
           | (Missing, _) \<Rightarrow> 1
           | (_, Missing) \<Rightarrow> - 1
           | (x, y) \<Rightarrow>
               let (u, v) = lowered x y; comparison = (case sortFn col of Some f \<Rightarrow> f u v | None \<Rightarrow> compare_cells toNumber u v)
               in if dir = Desc then - comparison else comparison))"

record table_state =
  currentPage :: nat
  pageSize :: nat
  sortKey :: "string option"
  sortDirection :: direction

definition DEFAULT_PAGE_SIZE_OPTIONS :: "nat list" where
  "DEFAULT_PAGE_SIZE_OPTIONS = [10, 20, 30, 40, 50]"

definition DEFAULT_PAGE_SIZE :: nat where "DEFAULT_PAGE_SIZE = hd DEFAULT_PAGE_SIZE_OPTIONS"

definition table_initial :: "nat option \<Rightarrow> (string \<times> direction) option \<Rightarrow> table_state" where
  "table_initial given srt = \<lparr>currentPage = 0, pageSize = nullish given (hd DEFAULT_PAGE_SIZE_OPTIONS), sortKey = map_option fst srt,
     sortDirection = nullish (map_option snd srt) Asc\<rparr>"

definition sortedData :: "(string \<Rightarrow> rat option) \<Rightarrow> bool option \<Rightarrow> 'r column list \<Rightarrow> table_state \<Rightarrow> 'r list \<Rightarrow> 'r list" where
  "sortedData toNumber sortable columns s data =
     (case sortKey s of
        None \<Rightarrow> data
      | Some k \<Rightarrow>
          if k = [] \<or> \<not> nullish sortable True then data
          else case find (\<lambda>col. col_key col = k) columns of
                 None \<Rightarrow> data
               | Some col \<Rightarrow> if col_sortable col = Some False then data else sort_by (sort_rows toNumber col (sortDirection s)) data)"

subsection \<open>Pages\<close>

definition paginatedData :: "bool option \<Rightarrow> table_state \<Rightarrow> 'r list \<Rightarrow> 'r list" where
  "paginatedData pagination s rows =
     (if \<not> nullish pagination True then rows
      else take (pageSize s) (drop (currentPage s * pageSize s) rows))"

text \<open>\<open>Math.ceil(length / pageSize)\<close>.\<close>

definition totalPages :: "table_state \<Rightarrow> 'r list \<Rightarrow> nat" where
  "totalPages s rows = (length rows + pageSize s - 1) div pageSize s"

text \<open>The effect that keeps the page in range.\<close>

definition clamp_page :: "bool \<Rightarrow> 'r list \<Rightarrow> table_state \<Rightarrow> table_state" where
  "clamp_page loading rows s =
     (if loading then s
      else let lastPage = totalPages s rows - 1 in if currentPage s > lastPage then s\<lparr>currentPage := lastPage\<rparr> else s)"

text \<open>The handlers return the new state and the argument of the caller's callback.\<close>

definition handleSort :: "'r column list \<Rightarrow> string \<Rightarrow> table_state \<Rightarrow> table_state \<times> (string \<times> direction) option" where
  "handleSort columns k s =
     (case find (\<lambda>col. col_key col = k) columns of
        None \<Rightarrow> (s, None)
      | Some col \<Rightarrow>
          if col_sortable col = Some False then (s, None)
          else let newDirection = (if sortKey s = Some k \<and> sortDirection s = Asc then Desc else Asc)
               in (s\<lparr>sortKey := Some k, sortDirection := newDirection, currentPage := 0\<rparr>, Some (k, newDirection)))"

definition header_click ::
  "bool option \<Rightarrow> 'r column list \<Rightarrow> 'r column \<Rightarrow> table_state \<Rightarrow> table_state \<times> (string \<times> direction) option" where
  "header_click sortable columns col s =
     (if nullish sortable True \<and> col_sortable col = Some True then handleSort columns (col_key col) s else (s, None))"

definition handlePageChange :: "nat \<Rightarrow> table_state \<Rightarrow> table_state" where
  "handlePageChange page s = s\<lparr>currentPage := page\<rparr>"

definition handlePageSizeChange :: "nat \<Rightarrow> table_state \<Rightarrow> table_state \<times> nat" where
  "handlePageSizeChange newSize s = (s\<lparr>pageSize := newSize, currentPage := 0\<rparr>, newSize)"

definition hasData :: "bool option \<Rightarrow> table_state \<Rightarrow> 'r list \<Rightarrow> bool" where
  "hasData pagination s rows \<longleftrightarrow> paginatedData pagination s rows \<noteq> []"

definition column_track :: "'r column \<Rightarrow> string" where
  "column_track col =
     (case col_width col of
        Some (Px n) \<Rightarrow> show_nat n @ ''px''
      | Some (Css w) \<Rightarrow> w
      | None \<Rightarrow>
          if fitContent col then ''fit-content(100%)''
          else if minWidth col \<noteq> 0 \<and> maxWidth col \<noteq> 0
               then ''minmax('' @ show_nat (minWidth col) @ ''px, '' @ show_nat (maxWidth col) @ ''px)''
          else if minWidth col \<noteq> 0 then ''minmax('' @ show_nat (minWidth col) @ ''px, 1fr)''
          else ''minmax(0, 1fr)'')"

definition tableGridTemplate :: "'r column list \<Rightarrow> string" where
  "tableGridTemplate columns = join '' '' (map column_track columns)"

definition showPagination :: "bool option \<Rightarrow> 'r list \<Rightarrow> bool" where
  "showPagination pagination rows \<longleftrightarrow> nullish pagination True \<and> length rows > DEFAULT_PAGE_SIZE"

subsection \<open>Page numbers\<close>

datatype page_item = Page nat | Ellipsis

text \<open>\<open>[...new Set(range)].sort((a, b) => a - b)\<close>.\<close>

definition page_range :: "nat \<Rightarrow> nat \<Rightarrow> nat list" where
  "page_range current pages =
     (let start = max 2 (int current + 1 - 2); stop = min (int pages - 1) (int current + 1 + 2);
          middle = map (\<lambda>i. nat (start + int i)) [0..<nat (max 0 (stop - start + 1))]
      in 1 # middle @ (if pages > 1 then [pages] else []))"

definition uniqueRange :: "nat list \<Rightarrow> nat list" where
  "uniqueRange pages = sort (remdups pages)"

fun with_dots :: "nat option \<Rightarrow> nat list \<Rightarrow> page_item list" where
  "with_dots prev [] = []"
| "with_dots prev (page # rest) =
     (case prev of
        None \<Rightarrow> []
      | Some p \<Rightarrow> if page - p = 2 then [Page (p + 1)] else if page - p > 2 then [Ellipsis] else [])
     @ Page page # with_dots (Some page) rest"

definition generatePageNumbers :: "nat \<Rightarrow> nat \<Rightarrow> page_item list" where
  "generatePageNumbers current pages = with_dots None (uniqueRange (page_range current pages))"

definition canPreviousPage :: "nat \<Rightarrow> bool" where "canPreviousPage current \<longleftrightarrow> current > 0"

definition canNextPage :: "nat \<Rightarrow> nat \<Rightarrow> bool" where "canNextPage current pages \<longleftrightarrow> int current < int pages - 1"

lemma page_examples:
  "generatePageNumbers 0 1 = [Page 1]"
  "generatePageNumbers 0 10 = [Page 1, Page 2, Page 3, Ellipsis, Page 10]"
  "generatePageNumbers 5 10 = [Page 1, Ellipsis, Page 4, Page 5, Page 6, Page 7, Page 8, Page 9, Page 10]"
  by code_simp+

subsection \<open>Pages hold the rows\<close>

lemma pages_enough: "0 < k \<Longrightarrow> (n::nat) \<le> (n + k - 1) div k * k"
  using div_mult_mod_eq [of "n + k - 1" k] mod_less_divisor [of k "n + k - 1"] by linarith

lemma pages_needed: "0 < k \<Longrightarrow> p < (n + k - 1) div k \<Longrightarrow> p * k < (n::nat)"
proof -
  assume k: "0 < k" and p: "p < (n + k - 1) div k"
  then have "Suc p * k \<le> n + k - 1" by (meson div_le_mono less_eq_div_iff_mult_less_eq Suc_leI)
  with k show "p * k < n" by simp
qed

lemma slices_concat: "concat (map (\<lambda>p. take k (drop (p * k) xs)) [0..<m]) = take (m * k) xs"
  by (induction m) (simp_all add: take_add [symmetric] add.commute)

lemma paginated_page: "nullish pagination True \<Longrightarrow> paginatedData pagination (handlePageChange p s) xs = take (pageSize s) (drop (p * pageSize s) xs)"
  by (simp add: paginatedData_def handlePageChange_def)

text \<open>
  The pages of a table hold its rows: put one after the other they are the sorted rows, and none of them is empty.
\<close>

theorem table_pages_partition:
  assumes "0 < pageSize s" "nullish pagination True"
  shows "concat (map (\<lambda>p. paginatedData pagination (handlePageChange p s) rows) [0..<totalPages s rows]) = rows \<and>
    (\<forall>p<totalPages s rows. hasData pagination (handlePageChange p s) rows)"
  using assms pages_enough [of "pageSize s" "length rows"] pages_needed [of "pageSize s" _ "length rows"]
  by (auto simp: paginated_page slices_concat totalPages_def hasData_def not_le)

theorem table_pages_partition_witness:
  "concat (map (\<lambda>p. paginatedData None (handlePageChange p (table_initial None None)) [0..<25]) [0..<3]) = [0..<25]"
proof -
  have "totalPages (table_initial None None) [0..<25] = 3"
    by (simp add: totalPages_def table_initial_def DEFAULT_PAGE_SIZE_OPTIONS_def)
  then show ?thesis using table_pages_partition [of "table_initial None None" None "[0..<25]"]
    by (simp add: table_initial_def DEFAULT_PAGE_SIZE_OPTIONS_def)
qed

lemma clamp_in_range: "currentPage (clamp_page False rows s) \<le> totalPages s rows - 1"
  by (simp add: clamp_page_def Let_def)

lemma clamp_keeps: "pageSize (clamp_page loading rows s) = pageSize s"
  by (simp add: clamp_page_def Let_def)

lemma total_pages_pos: "0 < pageSize s \<Longrightarrow> rows \<noteq> [] \<Longrightarrow> 0 < totalPages s rows"
  by (cases rows) (simp_all add: totalPages_def div_greater_zero_iff)

text \<open>
  After the effect that keeps the page in range a table shows a row exactly when it has one.
\<close>

theorem table_never_blank:
  assumes "0 < pageSize s"
  shows "hasData pagination (clamp_page False rows s) rows \<longleftrightarrow> rows \<noteq> []"
proof (cases "rows = []")
  case False
  let ?c = "clamp_page False rows s"
  have "currentPage ?c < totalPages s rows" using clamp_in_range [of rows s] total_pages_pos [OF assms False] by linarith
  then have "currentPage ?c * pageSize s < length rows" using assms pages_needed by (simp add: totalPages_def)
  with False assms show ?thesis by (simp add: hasData_def paginatedData_def clamp_keeps)
qed (simp add: hasData_def paginatedData_def)

theorem table_never_blank_witness:
  "hasData None (clamp_page False [1, 2::nat] (handlePageChange 3 (table_initial None None))) [1, 2::nat]"
  using table_never_blank [of "handlePageChange 3 (table_initial None None)" None "[1, 2::nat]"]
  by (simp add: table_initial_def DEFAULT_PAGE_SIZE_OPTIONS_def handlePageChange_def)

text \<open>The footer is hidden only when every row is on the page shown.\<close>

lemma no_footer_all_rows:
  assumes "DEFAULT_PAGE_SIZE \<le> pageSize s" "\<not> showPagination pagination rows"
  shows "paginatedData pagination (clamp_page False rows s) rows = rows"
proof (cases "nullish pagination True")
  case True
  have size: "10 \<le> pageSize s" and few: "length rows \<le> 10"
    using assms True by (simp_all add: DEFAULT_PAGE_SIZE_def DEFAULT_PAGE_SIZE_OPTIONS_def showPagination_def)
  then have "length rows + pageSize s - 1 < 2 * pageSize s" by linarith
  then have "totalPages s rows \<le> 1" unfolding totalPages_def using less_mult_imp_div_less by fastforce
  then have "currentPage (clamp_page False rows s) = 0" using clamp_in_range [of rows s] by simp
  with True size few show ?thesis by (simp add: paginatedData_def clamp_keeps)
qed (simp add: paginatedData_def)

subsection \<open>The page buttons\<close>

text \<open>The list shows all pages from \<open>n\<close> to \<open>m\<close> in order: a number is the next page, and an ellipsis stands
  for at least two pages and is followed by a number.\<close>

fun shows_pages :: "nat \<Rightarrow> page_item list \<Rightarrow> nat \<Rightarrow> bool" where
  "shows_pages n [] m = (n = m + 1)"
| "shows_pages n (Page p # rest) m = (p = n \<and> shows_pages (n + 1) rest m)"
| "shows_pages n (Ellipsis # Page p # rest) m = (n + 2 \<le> p \<and> shows_pages (p + 1) rest m)"
| "shows_pages n (Ellipsis # rest) m = False"

lemma with_dots_shows:
  "sorted_wrt (<) (p # rest) \<Longrightarrow> shows_pages (p + 1) (with_dots (Some p) rest) (last (p # rest))"
proof (induction rest arbitrary: p)
  case (Cons a rest)
  then have step: "shows_pages (a + 1) (with_dots (Some a) rest) (last (a # rest))" and less: "p < a" by simp_all
  consider "a = p + 1" | "a = p + 2" | "p + 2 < a" using less by linarith
  then show ?case
  proof cases
    case 3
    then have "2 < a - p" by simp
    with 3 step show ?thesis by simp
  qed (use step in simp_all)
qed simp

lemma with_dots_keeps: "Page q \<in> set (with_dots prev pages)" if "q \<in> set pages"
  using that by (induction pages arbitrary: prev) auto

lemma uniqueRange_strict: "sorted_wrt (<) (uniqueRange pages)"
  by (simp add: uniqueRange_def strict_sorted_iff)

lemma set_page_range:
  "set (page_range current pages) =
     {1} \<union> {p. 2 \<le> p \<and> p + 1 \<le> pages \<and> current \<le> p + 1 \<and> p \<le> current + 3} \<union> (if pages > 1 then {pages} else {})"
proof -
  let ?start = "max 2 (int current + 1 - 2)" and ?stop = "min (int pages - 1) (int current + 1 + 2)"
  have "(\<lambda>i. nat (?start + int i)) ` {0..<nat (max 0 (?stop - ?start + 1))} =
      {p. 2 \<le> p \<and> p + 1 \<le> pages \<and> current \<le> p + 1 \<and> p \<le> current + 3}" (is "?f ` ?I = ?M")
  proof (intro set_eqI iffI)
    fix p assume "p \<in> ?M"
    then have "p = ?f (nat (int p - ?start))" "nat (int p - ?start) \<in> ?I" by auto
    then show "p \<in> ?f ` ?I" by (rule image_eqI)
  qed auto
  then show ?thesis by (simp add: page_range_def Let_def)
qed

lemma uniqueRange_ends:
  assumes "current < pages"
  shows "\<exists>rest. uniqueRange (page_range current pages) = 1 # rest \<and> last (1 # rest) = pages"
proof -
  let ?u = "uniqueRange (page_range current pages)"
  have elems: "set ?u = set (page_range current pages)" by (simp add: uniqueRange_def)
  have ones: "1 \<in> set ?u" "pages \<in> set ?u" using assms by (auto simp: elems set_page_range)
  have bounds: "\<forall>p\<in>set ?u. 1 \<le> p \<and> p \<le> pages" using assms by (auto simp: elems set_page_range split: if_splits)
  obtain x rest where u: "?u = x # rest" using ones by (cases ?u) auto
  have strict: "sorted_wrt (<) (x # rest)" using uniqueRange_strict [of "page_range current pages"] by (simp add: u)
  have "x = 1" using strict ones(1) bounds unfolding u by fastforce
  moreover have "last (x # rest) = pages"
  proof (rule ccontr)
    assume "last (x # rest) \<noteq> pages"
    moreover have "x # rest = butlast (x # rest) @ [last (x # rest)]" by simp
    ultimately have "pages < last (x # rest)"
      using strict ones(2) unfolding u by (metis Un_iff empty_iff set_ConsD set_append sorted_wrt_append list.set(1) list.set_intros(1))
    moreover have "last (x # rest) \<le> pages" using bounds last_in_set [of "x # rest"] unfolding u by blast
    ultimately show False by simp
  qed
  ultimately show ?thesis using u by simp
qed

text \<open>
  The page buttons show every page from the first to the last, in order: a number is the next page and an ellipsis stands for at least
  two pages. The first, the last, the current page and two pages on each side of it have a button.
\<close>

theorem page_numbers_complete:
  assumes "current < pages"
  shows "shows_pages 1 (generatePageNumbers current pages) pages \<and>
    (\<forall>p. 1 \<le> p \<and> p \<le> pages \<and> (p = 1 \<or> p = pages \<or> \<bar>int p - int (current + 1)\<bar> \<le> 2) \<longrightarrow>
       Page p \<in> set (generatePageNumbers current pages))"
proof (intro conjI allI impI)
  obtain rest where u: "uniqueRange (page_range current pages) = 1 # rest" "last (1 # rest) = pages"
    using uniqueRange_ends [OF assms] by blast
  then have "sorted_wrt (<) (1 # rest)" by (metis uniqueRange_strict)
  from with_dots_shows [OF this] show "shows_pages 1 (generatePageNumbers current pages) pages"
    using u(2) by (simp add: generatePageNumbers_def u(1))
  fix p
  assume "1 \<le> p \<and> p \<le> pages \<and> (p = 1 \<or> p = pages \<or> \<bar>int p - int (current + 1)\<bar> \<le> 2)"
  with assms have "p \<in> set (page_range current pages)" by (auto simp: set_page_range)
  then show "Page p \<in> set (generatePageNumbers current pages)"
    unfolding generatePageNumbers_def by (intro with_dots_keeps) (simp add: uniqueRange_def)
qed

theorem page_numbers_complete_witness:
  "shows_pages 1 (generatePageNumbers 5 10) 10 \<and> Page 4 \<in> set (generatePageNumbers 5 10)"
  using page_numbers_complete [of 5 10] by simp

subsection \<open>Sorted columns\<close>

text \<open>A column whose cells are all texts, or all numbers, apart from missing ones.\<close>

definition uniform :: "('r \<Rightarrow> cell) \<Rightarrow> 'r list \<Rightarrow> bool" where
  "uniform get rows \<longleftrightarrow> (\<forall>r\<in>set rows. \<not> (\<exists>n. get r = Number n)) \<or> (\<forall>r\<in>set rows. \<not> (\<exists>s. get r = Text s))"

text \<open>What a sorted table promises of a row and a later one: missing cells come last in both directions, and cells of the
  same kind are in the chosen direction, texts without regard to case.\<close>

definition in_order :: "('r \<Rightarrow> cell) \<Rightarrow> direction \<Rightarrow> 'r \<Rightarrow> 'r \<Rightarrow> bool" where
  "in_order get dir a b \<longleftrightarrow>
     (case (get a, get b) of
        (Missing, y) \<Rightarrow> y = Missing
      | (Number x, Number y) \<Rightarrow> if dir = Desc then y \<le> x else x \<le> y
      | (Text s, Text t) \<Rightarrow>
          if dir = Desc then \<not> unit_less (map code (toLowerCase s)) (map code (toLowerCase t))
          else \<not> unit_less (map code (toLowerCase t)) (map code (toLowerCase s))
      | _ \<Rightarrow> True)"

lemma unit_cmp_ge: "0 \<le> unit_cmp a b \<longleftrightarrow> \<not> unit_less a b"
  by (metis neg_le_0_iff_le unit_cmp_le unit_cmp_minus)

lemma sort_rows_plain:
  assumes "accessor col = Some get" "sortFn col = None"
  shows "sort_rows toNumber col dir a b \<le> 0 \<longleftrightarrow>
    (case (get a, get b) of
       (_, Missing) \<Rightarrow> True
     | (Missing, _) \<Rightarrow> False
     | (Text s, Text t) \<Rightarrow> (let u = map code (toLowerCase s); v = map code (toLowerCase t) in if dir = Desc then \<not> unit_less u v else \<not> unit_less v u)
     | (Number x, Number y) \<Rightarrow> if dir = Desc then y \<le> x else x \<le> y
     | (x, y) \<Rightarrow> (let c = compare_cells toNumber x y in if dir = Desc then - c \<le> 0 else c \<le> 0))"
  using assms
  by (cases "get a"; cases "get b") (auto simp: sort_rows_def lowered_def compare_cells_def unit_cmp_le unit_cmp_ge Let_def)

lemma comparator_texts:
  assumes "accessor col = Some get" "sortFn col = None"
  shows "comparator {r. \<not> (\<exists>n. get r = Number n)} (sort_rows toNumber col dir)"
proof
  have ord: "unit_less u w \<Longrightarrow> False" if "\<not> unit_less u v" "\<not> unit_less v w" for u v w
    using that unit_less_trans unit_less_total by metis
  fix x y z
  assume S: "x \<in> {r. \<not> (\<exists>n. get r = Number n)}" "y \<in> {r. \<not> (\<exists>n. get r = Number n)}"
  show "sort_rows toNumber col dir x y \<le> 0 \<or> sort_rows toNumber col dir y x \<le> 0"
    using S unit_less_asym by (cases "get x"; cases "get y") (auto simp: sort_rows_plain [OF assms] Let_def)
  assume "z \<in> {r. \<not> (\<exists>n. get r = Number n)}" "sort_rows toNumber col dir x y \<le> 0" "sort_rows toNumber col dir y z \<le> 0"
  with S show "sort_rows toNumber col dir x z \<le> 0"
    by (cases "get x"; cases "get y"; cases "get z") (auto simp: sort_rows_plain [OF assms] Let_def split: if_splits dest: ord)
qed

lemma comparator_numbers:
  assumes "accessor col = Some get" "sortFn col = None"
  shows "comparator {r. \<not> (\<exists>s. get r = Text s)} (sort_rows toNumber col dir)"
proof
  fix x y z
  assume S: "x \<in> {r. \<not> (\<exists>s. get r = Text s)}" "y \<in> {r. \<not> (\<exists>s. get r = Text s)}"
  show "sort_rows toNumber col dir x y \<le> 0 \<or> sort_rows toNumber col dir y x \<le> 0"
    using S by (cases "get x"; cases "get y") (auto simp: sort_rows_plain [OF assms])
  assume "z \<in> {r. \<not> (\<exists>s. get r = Text s)}" "sort_rows toNumber col dir x y \<le> 0" "sort_rows toNumber col dir y z \<le> 0"
  with S show "sort_rows toNumber col dir x z \<le> 0"
    by (cases "get x"; cases "get y"; cases "get z") (auto simp: sort_rows_plain [OF assms] split: if_splits)
qed

lemma sort_rows_sorted:
  assumes "accessor col = Some get" "sortFn col = None" "uniform get rows"
  shows "sorted_wrt (\<lambda>a b. sort_rows toNumber col dir a b \<le> 0) (sort_by (sort_rows toNumber col dir) rows)"
  using assms(3) unfolding uniform_def
proof
  assume "\<forall>r\<in>set rows. \<not> (\<exists>n. get r = Number n)"
  then show ?thesis by (intro comparator.sorted_sort_by [OF comparator_texts [OF assms(1,2)]]) blast
next
  assume "\<forall>r\<in>set rows. \<not> (\<exists>s. get r = Text s)"
  then show ?thesis by (intro comparator.sorted_sort_by [OF comparator_numbers [OF assms(1,2)]]) blast
qed

text \<open>
  C34. A table sorted by a column of texts or of numbers shows all its rows, in the chosen direction, texts without regard to case, and the rows
  without a value last in both directions.
\<close>

theorem table_sorted:
  assumes "sortKey s = Some k" "k \<noteq> []" "nullish sortable True"
    and "find (\<lambda>c. col_key c = k) columns = Some col" "col_sortable col \<noteq> Some False"
    and "accessor col = Some get" "sortFn col = None" "uniform get data"
  shows "mset (sortedData toNumber sortable columns s data) = mset data \<and>
    sorted_wrt (in_order get (sortDirection s)) (sortedData toNumber sortable columns s data)"
proof -
  have shown: "sortedData toNumber sortable columns s data = sort_by (sort_rows toNumber col (sortDirection s)) data"
    using assms(1-5) by (simp add: sortedData_def)
  have "sorted_wrt (in_order get (sortDirection s)) (sort_by (sort_rows toNumber col (sortDirection s)) data)"
    by (rule sorted_wrt_mono_rel [OF _ sort_rows_sorted [OF assms(6-8)]])
      (auto simp: sort_rows_plain [OF assms(6,7)] in_order_def Let_def split: cell.splits)
  with shown show ?thesis by simp
qed

definition sample_columns :: "cell column list" where
  "sample_columns = [\<lparr>col_key = ''name'', accessor = Some id, col_sortable = Some True, sortFn = None, fitContent = False,
     col_width = None, minWidth = 0, maxWidth = 0\<rparr>]"

theorem table_sorted_witness:
  "sorted_wrt (in_order id Desc)
     (sortedData (\<lambda>_. None) None sample_columns (table_initial None (Some (''name'', Desc))) [Missing, Text ''a'', Text ''B''])"
  using table_sorted [of "table_initial None (Some (''name'', Desc))" "''name''" None sample_columns "hd sample_columns" id
      "[Missing, Text ''a'', Text ''B'']" "\<lambda>_. None"]
  by (simp add: table_initial_def sample_columns_def uniform_def)

subsection \<open>Lists that their page sorts\<close>

text \<open>The comparison the pages of filter lists and of rewrites write out: by the lower case of a text, in the chosen direction.\<close>

definition by_text :: "('r \<Rightarrow> string) \<Rightarrow> direction \<Rightarrow> 'r \<Rightarrow> 'r \<Rightarrow> int" where
  "by_text get dir a b =
     (let x = map code (toLowerCase (get a)); y = map code (toLowerCase (get b))
      in if unit_less x y then (if dir = Asc then - 1 else 1)
         else if unit_less y x then (if dir = Asc then 1 else - 1)
         else 0)"

lemma by_text_cmp:
  "by_text get dir a b = (let x = map code (toLowerCase (get a)); y = map code (toLowerCase (get b))
     in if dir = Asc then unit_cmp x y else unit_cmp y x)"
  using unit_less_asym by (auto simp: by_text_def unit_cmp_def Let_def)

lemma by_text_comparator: "comparator UNIV (by_text get dir)"
proof
  fix x y z :: 'a
  show "by_text get dir x y \<le> 0 \<or> by_text get dir y x \<le> 0"
    using units.total by (simp add: by_text_cmp Let_def)
  show "by_text get dir x z \<le> 0" if "by_text get dir x y \<le> 0" "by_text get dir y z \<le> 0"
    using that units.trans by (auto simp: by_text_cmp Let_def split: if_splits)
qed

text \<open>Such a list has every row once, ordered by the lower case of the text, up or down.\<close>

lemma sort_by_text:
  "mset (sort_by (by_text get dir) rows) = mset rows"
  "sorted_wrt (\<lambda>a b. \<not> unit_less (map code (toLowerCase (get (if dir = Asc then b else a))))
     (map code (toLowerCase (get (if dir = Asc then a else b))))) (sort_by (by_text get dir) rows)"
proof -
  show "sorted_wrt (\<lambda>a b. \<not> unit_less (map code (toLowerCase (get (if dir = Asc then b else a))))
     (map code (toLowerCase (get (if dir = Asc then a else b))))) (sort_by (by_text get dir) rows)"
    using comparator.sorted_sort_by [OF by_text_comparator [of get dir], of rows]
    by (cases dir) (simp_all add: by_text_cmp Let_def unit_cmp_le)
qed simp

end
