(* ===== verification/TextHelpers.thy ===== *)
theory TextHelpers
  imports Toasts
begin

section \<open>Text helpers\<close>

text \<open>
  The line-oriented helpers of \<^verbatim>\<open>client_v2/src/helpers/helpers.tsx\<close>: what the settings
  forms do with the text of a multi-line field before it is sent to the backend.
\<close>

definition splitByNewLine :: "string option \<Rightarrow> string list" where
  "splitByNewLine text =
     (case text of
        None \<Rightarrow> []
      | Some t \<Rightarrow> if t = [] then [] else filter (\<lambda>n. trim n \<noteq> []) (split_lines t))"

definition trimLinesAndRemoveEmpty :: "string \<Rightarrow> string" where
  "trimLinesAndRemoveEmpty input =
     join_lines (filter (\<lambda>l. l \<noteq> []) (map trim (split_lines input)))"

definition COMMENT_LINE_DEFAULT_TOKEN :: string where
  "COMMENT_LINE_DEFAULT_TOKEN = ''#''"

definition filterOutComments :: "string list \<Rightarrow> string list" where
  "filterOutComments ls = filter (\<lambda>line. \<not> startsWith line COMMENT_LINE_DEFAULT_TOKEN) ls"

text \<open>
  \<open>replace(/\n\s*\n/g, '\n')\<close>. At a line break the pattern takes the whole run of white space
  that follows and then gives characters back until the match ends with a line break: the match
  ends at the last line break of the run. Where the run holds none there is no match here.
\<close>

definition after_last_newline :: "string \<Rightarrow> string" where
  "after_last_newline w = rev (takeWhile (\<lambda>c. c \<noteq> newline) (rev w))"

lemma length_after_last_newline: "length (after_last_newline w) \<le> length w"
  by (simp add: after_last_newline_def) (metis length_rev length_takeWhile_le)

function collapse_blank :: "string \<Rightarrow> string" where
  "collapse_blank [] = []"
| "collapse_blank (c # cs) =
     (let w = takeWhile is_space cs
      in if c = newline \<and> newline \<in> set w
         then newline # collapse_blank (after_last_newline w @ dropWhile is_space cs)
         else c # collapse_blank cs)"
  by pat_completeness auto
termination
proof (relation "measure length")
  show "wf (measure (length :: string \<Rightarrow> nat))" by simp
next
  fix c :: char and cs w
  assume w: "w = takeWhile is_space cs"
  have "length (after_last_newline w) + length (dropWhile is_space cs) \<le> length cs"
    using length_after_last_newline [of w] w
    by (metis add_le_cancel_right length_append takeWhile_dropWhile_id)
  then show "(after_last_newline w @ dropWhile is_space cs, c # cs) \<in> measure length"
    by simp
next
  fix c :: char and cs :: string
  show "(cs, c # cs) \<in> measure length" by simp
qed

definition drop_leading_newline :: "string \<Rightarrow> string" where
  "drop_leading_newline t = (case t of [] \<Rightarrow> [] | c # cs \<Rightarrow> if c = newline then cs else t)"

definition normalizeRulesTextarea :: "string \<Rightarrow> string" where
  "normalizeRulesTextarea text = collapse_blank (drop_leading_newline text)"

subsection \<open>Blank lines\<close>

definition blank :: "string \<Rightarrow> bool" where
  "blank l \<longleftrightarrow> (\<forall>c\<in>set l. is_space c)"

lemma is_space_newline [simp]: "is_space newline"
  by (simp add: is_space_def newline_def code_def)

lemma trim_neq_Nil_blank: "trim l \<noteq> [] \<longleftrightarrow> \<not> blank l"
  by (simp add: trim_Nil_iff blank_def)

text \<open>
  What collapsing does to the lines of a text: a blank line goes, unless it is the first or the
  last line.
\<close>

fun keep_lines :: "string list \<Rightarrow> string list" where
  "keep_lines [] = []"
| "keep_lines [l] = [l]"
| "keep_lines (l # m # ls) = (if blank l then keep_lines (m # ls) else l # keep_lines (m # ls))"

lemma keep_lines_neq_Nil: "ls \<noteq> [] \<Longrightarrow> keep_lines ls \<noteq> []"
  by (induction ls rule: keep_lines.induct) auto

lemma collapse_prefix: "newline \<notin> set x \<Longrightarrow> collapse_blank (x @ s) = x @ collapse_blank s"
  by (induction x) (auto simp: Let_def)

lemma after_last_newline_append:
  "newline \<notin> set y \<Longrightarrow> after_last_newline (x @ newline # y) = y"
proof -
  assume "newline \<notin> set y"
  then have all: "takeWhile (\<lambda>c. c \<noteq> newline) (rev y) = rev y"
    by (auto simp: takeWhile_eq_all_conv)
  show ?thesis by (simp add: after_last_newline_def takeWhile_tail all)
qed

text \<open>Unfolding at a line break: the following blank lines disappear one by one.\<close>

lemma collapse_newline_blank:
  assumes "blank y"
  shows "collapse_blank (newline # y @ newline # s) = collapse_blank (newline # s)"
proof -
  from assms have w: "takeWhile is_space (y @ newline # s) = y @ newline # takeWhile is_space s"
    by (simp add: blank_def takeWhile_append)
  from assms have d: "dropWhile is_space (y @ newline # s) = dropWhile is_space s"
    by (simp add: blank_def dropWhile_append)
  show ?thesis
  proof (cases "newline \<in> set (takeWhile is_space s)")
    case True
    then obtain a b where ab: "takeWhile is_space s = a @ newline # b" "newline \<notin> set b"
      by (metis split_list_last)
    have "after_last_newline (y @ newline # takeWhile is_space s)
        = after_last_newline ((y @ newline # a) @ newline # b)" using ab by simp
    also have "\<dots> = after_last_newline (takeWhile is_space s)"
      using ab after_last_newline_append by metis
    finally show ?thesis using True by (simp add: w d Let_def)
  next
    case False
    then have "after_last_newline (y @ newline # takeWhile is_space s) = takeWhile is_space s"
      by (rule after_last_newline_append)
    then show ?thesis using False by (simp add: w d Let_def)
  qed
qed

lemma collapse_newline_solid:
  assumes "\<not> blank y" "newline \<notin> set y"
  shows "collapse_blank (newline # y @ s) = newline # y @ collapse_blank s"
proof -
  from assms(1) obtain c where c: "c \<in> set y" "\<not> is_space c" by (auto simp: blank_def)
  then have "takeWhile is_space (y @ s) = takeWhile is_space y"
    by (meson takeWhile_append1)
  then have "newline \<notin> set (takeWhile is_space (y @ s))"
    using assms(2) by (metis set_takeWhileD)
  then show ?thesis using collapse_prefix [OF assms(2)] by (simp add: Let_def)
qed

lemma collapse_newline_last:
  assumes "newline \<notin> set y"
  shows "collapse_blank (newline # y) = newline # y"
proof -
  have "newline \<notin> set (takeWhile is_space y)" using assms by (metis set_takeWhileD)
  then show ?thesis using collapse_prefix [OF assms, of "[]"] by (simp add: Let_def)
qed

lemma collapse_newline_lines:
  assumes "ls \<noteq> []" "\<And>l. l \<in> set ls \<Longrightarrow> newline \<notin> set l"
  shows "collapse_blank (newline # join_lines ls) = newline # join_lines (keep_lines ls)"
  using assms
proof (induction ls rule: keep_lines.induct)
  case 1
  then show ?case by simp
next
  case (2 l)
  then show ?case by (simp del: collapse_blank.simps add: collapse_newline_last)
next
  case (3 l m ls)
  have ih: "collapse_blank (newline # join_lines (m # ls)) = newline # join_lines (keep_lines (m # ls))"
    if "P" for P using "3.IH" "3.prems" by (cases "blank l") auto
  show ?case
  proof (cases "blank l")
    case True
    then show ?thesis using collapse_newline_blank [OF True] ih [OF True] by simp
  next
    case False
    then have "collapse_blank (newline # l @ newline # join_lines (m # ls))
      = newline # l @ collapse_blank (newline # join_lines (m # ls))"
      using "3.prems" by (intro collapse_newline_solid) auto
    then show ?thesis using False ih [OF False] keep_lines_neq_Nil [of "m # ls"]
      by (simp add: join_Cons)
  qed
qed

lemma collapse_lines:
  assumes "\<And>l. l \<in> set (x # ls) \<Longrightarrow> newline \<notin> set l"
  shows "collapse_blank (join_lines (x # ls)) = join_lines (x # keep_lines ls)"
proof (cases ls)
  case Nil
  then show ?thesis using assms collapse_prefix [of x "[]"] by simp
next
  case (Cons l ls')
  then have "collapse_blank (x @ newline # join_lines ls) = x @ newline # join_lines (keep_lines ls)"
    using assms collapse_prefix [of x] collapse_newline_lines [of ls] by simp
  then show ?thesis using Cons keep_lines_neq_Nil [of ls] by (simp add: join_Cons)
qed

lemma keep_lines_clean: "l \<in> set (keep_lines ls) \<Longrightarrow> l \<in> set ls"
  by (induction ls rule: keep_lines.induct) (auto split: if_splits)

lemma split_collapse:
  "split_lines (collapse_blank t) = hd (split_lines t) # keep_lines (tl (split_lines t))"
proof -
  obtain x ls where xs: "split_lines t = x # ls" by (metis list.exhaust split_on_neq_Nil)
  have clean: "newline \<notin> set l" if "l \<in> set (x # ls)" for l
    using that xs split_on_parts [of l newline t] by simp
  have "collapse_blank t = collapse_blank (join_lines (x # ls))"
    using xs join_split_on [of newline t] by simp
  also have "\<dots> = join_lines (x # keep_lines ls)" using clean by (rule collapse_lines)
  finally have "split_lines (collapse_blank t) = x # keep_lines ls"
    using clean keep_lines_clean [of _ ls]
    by (metis (no_types, lifting) list.distinct(1) set_ConsD split_on_join list.set_intros)
  then show ?thesis using xs by simp
qed

subsection \<open>Theorems\<close>

lemma splitByNewLine_lines:
  "splitByNewLine (Some t) = filter (\<lambda>l. \<not> blank l) (split_lines t)"
  by (auto simp: splitByNewLine_def trim_neq_Nil_blank blank_def)

lemma splitByNewLine_clean:
  "l \<in> set (splitByNewLine (Some t)) \<Longrightarrow> newline \<notin> set l \<and> \<not> blank l"
  by (auto simp: splitByNewLine_lines dest: split_on_parts)

lemma splitByNewLine_join:
  assumes "\<forall>l\<in>set ls. newline \<notin> set l \<and> \<not> blank l"
  shows "splitByNewLine (Some (join_lines ls)) = ls"
proof (cases "ls = []")
  case True
  then show ?thesis by (simp add: splitByNewLine_lines blank_def)
next
  case False
  then show ?thesis using assms by (auto simp: splitByNewLine_lines split_on_join)
qed

text \<open>
  Splitting a multi-line field and joining it again loses only blank lines, so doing it a
  second time changes nothing: any list of non-blank single-line entries survives the round trip
  through the text of a form.
\<close>

theorem splitByNewLine_roundtrip:
  "(\<forall>l\<in>set ls. newline \<notin> set l \<and> \<not> blank l) \<longrightarrow> splitByNewLine (Some (join_lines ls)) = ls"
  using splitByNewLine_join by blast

theorem splitByNewLine_roundtrip_witness:
  "splitByNewLine (Some (join_lines [''10.0.0.1'', ''my client'']))
     = [''10.0.0.1'', ''my client'']"
proof -
  have "\<forall>l\<in>set [''10.0.0.1'', ''my client'']. newline \<notin> set l \<and> \<not> blank l"
    by (simp add: blank_def newline_def is_space_def code_def)
  with splitByNewLine_roundtrip [of "[''10.0.0.1'', ''my client'']"] show ?thesis by blast
qed

text \<open>
  The two regular expressions of \<open>normalizeRulesTextarea\<close> amount to a filter on lines: one
  leading line break is dropped, then every blank line goes except the first and the last line
  of the text; all other lines are kept as they are, in order.
\<close>

theorem normalizeRulesTextarea_lines:
  "split_lines (normalizeRulesTextarea text) =
     (let ls = split_lines (drop_leading_newline text) in hd ls # keep_lines (tl ls))"
  by (simp add: normalizeRulesTextarea_def split_collapse Let_def)

end
