(* ===== verification/Filtering.thy ===== *)
theory Filtering
  imports TextHelpers
begin

section \<open>Filtering store\<close>

text \<open>
  \<^verbatim>\<open>client_v2/src/stores/filtering.ts\<close>: filter lists and the user's custom rules, with
  the normalisation of the backend's status in \<^verbatim>\<open>client_v2/src/helpers/helpers.tsx\<close>. The
  last part shows what the one-click block and unblock actions send to the backend and that
  their undo restores the rules.
\<close>

subsection \<open>Data\<close>

record wire_filter =
  wf_enabled :: bool
  wf_id :: int
  wf_last_updated :: "string option"
  wf_name :: "string option"
  wf_rules_count :: "int option"
  wf_url :: string

record FilterStatus =
  fs_enabled :: "bool option"
  fs_interval :: "int option"
  fs_filters :: "wire_filter list option"
  fs_whitelist_filters :: "wire_filter list option"
  fs_user_rules :: "string list option"

record Filter =
  f_enabled :: bool
  f_id :: int
  lastUpdated :: "string option"
  f_name :: string
  rulesCount :: int
  f_url :: string

record ResultRule =
  filter_list_id :: "int option"
  rule_text :: "string option"

record FilterCheckHostResponse =
  fc_reason :: "string option"
  fc_filter_id :: "int option"
  fc_rule :: "string option"
  fc_rules :: "ResultRule list option"
  fc_service_name :: "string option"
  fc_cname :: "string option"
  fc_ip_addrs :: "string list option"

record FilterSetUrlData =
  su_enabled :: bool
  su_name :: string
  su_url :: string

record FilterConfig =
  cfg_enabled :: "bool option"
  cfg_interval :: "int option"

record check_params =
  host_name :: string
  host_client :: "string option"
  host_qtype :: "string option"

record FilteringState =
  isModalOpen :: bool
  processingFilters :: bool
  filtersInitialized :: bool
  processingRules :: bool
  processingAddFilter :: bool
  processingRefreshFilters :: bool
  processingConfigFilter :: bool
  processingRemoveFilter :: bool
  processingSetConfig :: bool
  processingCheck :: bool
  isFilterAdded :: bool
  isFilterRemoved :: bool
  isFilterEdited :: bool
  filters :: "Filter list"
  whitelistFilters :: "Filter list"
  userRules :: string
  interval :: "int option"
  enabled :: "bool option"
  modalType :: string
  modalFilterUrl :: string
  check :: "(string \<times> FilterCheckHostResponse) option"

definition initialState :: FilteringState where
  "initialState = \<lparr>isModalOpen = False, processingFilters = False, filtersInitialized = False,
     processingRules = False, processingAddFilter = False, processingRefreshFilters = False,
     processingConfigFilter = False, processingRemoveFilter = False, processingSetConfig = False,
     processingCheck = False, isFilterAdded = False, isFilterRemoved = False, isFilterEdited = False,
     filters = [], whitelistFilters = [], userRules = [], interval = Some 24, enabled = Some True,
     modalType = [], modalFilterUrl = [], check = None\<rparr>"

text \<open>The undo closures: restore a text of rules, or switch a filter list on again.\<close>

datatype filtering_undo = UndoRules string | UndoDisable string FilterSetUrlData

record 'w filtering_ctx = "(filtering_undo, 'w) ctx" +
  filtering :: FilteringState

interpretation filtering_frame: toast_frame filtering
  by unfold_locales simp_all

record 'c filtering_api =
  filteringStatus :: "('c, FilterStatus) call"
  filteringSetRules :: "string list \<Rightarrow> ('c, unit) call"
  filteringAddURL :: "string \<Rightarrow> string \<Rightarrow> bool \<Rightarrow> ('c, unit) call"
  filteringRemoveURL :: "string \<Rightarrow> bool \<Rightarrow> ('c, unit) call"
  filteringSetURL :: "string \<Rightarrow> FilterSetUrlData \<Rightarrow> bool \<Rightarrow> ('c, unit) call"
  filteringRefresh :: "bool option \<Rightarrow> ('c, int option option) call"
  filteringConfig :: "FilterConfig \<Rightarrow> ('c, unit) call"
  filteringCheckHost :: "check_params \<Rightarrow> ('c, FilterCheckHostResponse) call"

abbreviation setState ::
  "(FilteringState \<Rightarrow> FilteringState) \<Rightarrow> ('w, 'm) filtering_ctx_scheme \<Rightarrow> ('w, 'm) filtering_ctx_scheme" where
  "setState f c \<equiv> c\<lparr>filtering := f (filtering c)\<rparr>"

subsection \<open>Normalising the backend's status\<close>

definition normalizeFilters :: "wire_filter list option \<Rightarrow> Filter list" where
  "normalizeFilters fs =
     (case fs of
        None \<Rightarrow> []
      | Some xs \<Rightarrow> map (\<lambda>w. \<lparr>f_enabled = wf_enabled w, f_id = wf_id w, lastUpdated = wf_last_updated w,
            f_name = nullish (wf_name w) ''Default name'',
            rulesCount = nullish (wf_rules_count w) 0, f_url = wf_url w\<rparr>) xs)"

record normalized_status =
  ns_enabled :: "bool option"
  ns_userRules :: string
  ns_filters :: "Filter list"
  ns_whitelistFilters :: "Filter list"
  ns_interval :: "int option"

definition normalizeFilteringStatus :: "FilterStatus \<Rightarrow> normalized_status" where
  "normalizeFilteringStatus st = \<lparr>ns_enabled = fs_enabled st,
     ns_userRules = (case fs_user_rules st of None \<Rightarrow> [] | Some rs \<Rightarrow> join_lines rs),
     ns_filters = normalizeFilters (fs_filters st),
     ns_whitelistFilters = normalizeFilters (fs_whitelist_filters st),
     ns_interval = fs_interval st\<rparr>"

subsection \<open>Loading and saving rules\<close>

definition getFilteringStatus ::
  "env \<Rightarrow> ('w, 'm) filtering_ctx_scheme filtering_api \<Rightarrow> (('w, 'm) filtering_ctx_scheme, unit) state" where
  "getFilteringStatus env api = do {
     modify (setState (\<lambda>s. s\<lparr>processingFilters := True\<rparr>));
     try_call (filteringStatus api)
       (\<lambda>data. let n = normalizeFilteringStatus data in
          modify (setState (\<lambda>s. s\<lparr>enabled := ns_enabled n, userRules := ns_userRules n,
            filters := ns_filters n, whitelistFilters := ns_whitelistFilters n,
            interval := ns_interval n, processingFilters := False, filtersInitialized := True\<rparr>)))
       (\<lambda>e. do {
          modify (errorToast env e);
          modify (setState (\<lambda>s. s\<lparr>processingFilters := False, filtersInitialized := True\<rparr>)) }) }"

definition rulesPayload :: "string \<Rightarrow> string list" where
  "rulesPayload rules = filter (\<lambda>r. r \<noteq> []) (split_lines (normalizeRulesTextarea rules))"

definition setRules ::
  "env \<Rightarrow> ('w, 'm) filtering_ctx_scheme filtering_api \<Rightarrow> string
     \<Rightarrow> (('w, 'm) filtering_ctx_scheme, bool) state" where
  "setRules env api rules = do {
     modify (setState (\<lambda>s. s\<lparr>processingRules := True\<rparr>));
     try_call (filteringSetRules api (rulesPayload rules))
       (\<lambda>_. do {
          modify (setState (\<lambda>s. s\<lparr>userRules := rules, processingRules := False\<rparr>));
          pass True })
       (\<lambda>e. do {
          modify (errorToast env e);
          modify (setState (\<lambda>s. s\<lparr>processingRules := False\<rparr>));
          pass False }) }"

text \<open>The module's own \<open>splitByNewLine\<close>, which unlike the shared one keeps blank lines.\<close>

definition splitRules :: "string \<Rightarrow> string list" where
  "splitRules str = filter (\<lambda>r. r \<noteq> []) (split_lines str)"

text \<open>
  The common tail of the one-click actions: save the new rules and, if that worked, offer an
  undo that saves the previous text, and reload the status.
\<close>

definition saveWithUndo ::
  "env \<Rightarrow> ('w, 'm) filtering_ctx_scheme filtering_api \<Rightarrow> string \<Rightarrow> string list \<Rightarrow> string
     \<Rightarrow> (('w, 'm) filtering_ctx_scheme, bool) state" where
  "saveWithUndo env api previousRules updatedRules m = do {
     didSave \<leftarrow> setRules env api (join_lines updatedRules @ [newline]);
     (if \<not> didSave then pass False
      else do {
        modify (undoToast env m (UndoRules previousRules));
        getFilteringStatus env api;
        pass True }) }"

definition blockingRule :: "string \<Rightarrow> string" where
  "blockingRule domain = ''||'' @ domain @ ''^$important''"

definition exceptionRule :: "string \<Rightarrow> string" where
  "exceptionRule rule = ''@@'' @ rule"

abbreviation ruleAdded :: "env \<Rightarrow> string \<Rightarrow> string" where
  "ruleAdded env rule \<equiv> getMessage env ''user_rules_rule_added'' [(''rule'', SArg rule)]"

definition blockDomain ::
  "env \<Rightarrow> ('w, 'm) filtering_ctx_scheme filtering_api \<Rightarrow> string
     \<Rightarrow> (('w, 'm) filtering_ctx_scheme, bool) state" where
  "blockDomain env api domain = do {
     previousRules \<leftarrow> gets (\<lambda>c. userRules (filtering c));
     (let rule = blockingRule domain; currentRules = splitRules previousRules
      in if rule \<in> set currentRules then pass True
         else saveWithUndo env api previousRules
                (filter (\<lambda>r. r \<noteq> exceptionRule rule) currentRules @ [rule]) (ruleAdded env rule)) }"

definition unblockDomain ::
  "env \<Rightarrow> ('w, 'm) filtering_ctx_scheme filtering_api \<Rightarrow> string
     \<Rightarrow> (('w, 'm) filtering_ctx_scheme, bool) state" where
  "unblockDomain env api domain = do {
     previousRules \<leftarrow> gets (\<lambda>c. userRules (filtering c));
     (let rule = blockingRule domain; desiredRule = exceptionRule rule;
          currentRules = splitRules previousRules
      in if desiredRule \<in> set currentRules then pass True
         else saveWithUndo env api previousRules
                (filter (\<lambda>r. r \<noteq> rule) currentRules @ [desiredRule]) (ruleAdded env desiredRule)) }"

definition blockDomainForClient ::
  "env \<Rightarrow> ('w, 'm) filtering_ctx_scheme filtering_api \<Rightarrow> string \<Rightarrow> string
     \<Rightarrow> (('w, 'm) filtering_ctx_scheme, bool) state" where
  "blockDomainForClient env api domain client = do {
     previousRules \<leftarrow> gets (\<lambda>c. userRules (filtering c));
     (let rule = ''||'' @ domain @ ''^$client='' @ client; currentRules = splitRules previousRules
      in if rule \<in> set currentRules then pass True
         else saveWithUndo env api previousRules
                (filter (\<lambda>r. r \<noteq> exceptionRule rule) currentRules @ [rule])
                (msg env ''user_rules_rule_added_to_custom_filtering_rules'')) }"

datatype BlockAction = BLOCK | UNBLOCK

definition rulesToReplace :: "string \<Rightarrow> string \<Rightarrow> string option \<Rightarrow> string list" where
  "rulesToReplace oppositeRule desiredRule matched =
     filter (\<lambda>r. r \<noteq> [] \<and> r \<noteq> desiredRule)
       (oppositeRule # (case matched of None \<Rightarrow> [] | Some m \<Rightarrow> [m]))"

definition toggleBlocking ::
  "env \<Rightarrow> ('w, 'm) filtering_ctx_scheme filtering_api \<Rightarrow> BlockAction \<Rightarrow> string \<Rightarrow> string option
     \<Rightarrow> string option \<Rightarrow> string option \<Rightarrow> (('w, 'm) filtering_ctx_scheme, bool) state" where
  "toggleBlocking env api type domain baseRule baseUnblocking matchedRuleToReplace =
     (let baseBlockingRule = opt_or_str baseRule (blockingRule domain);
          baseUnblockingRule = opt_or_str baseUnblocking (exceptionRule baseBlockingRule)
      in do {
        previousRules \<leftarrow> gets (\<lambda>c. userRules (filtering c));
        (let desiredRule = (if type = BLOCK then baseBlockingRule else baseUnblockingRule);
             oppositeRule = (if type = BLOCK then baseUnblockingRule else baseBlockingRule);
             currentRules = splitRules previousRules;
             hasDesiredRule = (desiredRule \<in> set currentRules);
             toReplace = rulesToReplace oppositeRule desiredRule matchedRuleToReplace;
             hasRuleToReplace = (\<exists>r\<in>set toReplace. r \<in> set currentRules)
         in if hasDesiredRule \<and> \<not> hasRuleToReplace then pass True
            else saveWithUndo env api previousRules
                   (filter (\<lambda>r. r \<notin> set (desiredRule # toReplace)) currentRules @ [desiredRule])
                   (ruleAdded env desiredRule)) })"

text \<open>\<open>.replace(/c/g, '\\c')\<close> for one character.\<close>

definition escape_char :: "char \<Rightarrow> string \<Rightarrow> string" where
  "escape_char q s = concat (map (\<lambda>x. if x = q then [CHR 0x5C, x] else [x]) s)"

definition escapeClientName :: "string \<Rightarrow> string" where
  "escapeClientName client =
     escape_char (CHR 0x7C) (escape_char (CHR 0x2C) (escape_char (CHR 0x22) (escape_char (CHR 0x27) client)))"

definition clientRule :: "string \<Rightarrow> string \<Rightarrow> string" where
  "clientRule domain client =
     ''||'' @ domain @ ''^$client='' @ [CHR 0x27] @ escapeClientName client @ [CHR 0x27]"

definition toggleBlockingForClient ::
  "env \<Rightarrow> ('w, 'm) filtering_ctx_scheme filtering_api \<Rightarrow> BlockAction \<Rightarrow> string \<Rightarrow> string
     \<Rightarrow> (('w, 'm) filtering_ctx_scheme, bool) state" where
  "toggleBlockingForClient env api type domain client =
     (let baseRule = clientRule domain client
      in toggleBlocking env api type domain (Some baseRule) (Some (exceptionRule baseRule)) None)"

subsection \<open>Filter lists\<close>

definition addFilter ::
  "env \<Rightarrow> ('w, 'm) filtering_ctx_scheme filtering_api \<Rightarrow> string \<Rightarrow> string \<Rightarrow> bool
     \<Rightarrow> (('w, 'm) filtering_ctx_scheme, unit) state" where
  "addFilter env api url name whitelist = do {
     modify (setState (\<lambda>s. s\<lparr>processingAddFilter := True\<rparr>));
     try_call (filteringAddURL api url name whitelist)
       (\<lambda>_. do {
          modify (setState (\<lambda>s. s\<lparr>processingAddFilter := False\<rparr>));
          modify (setState (\<lambda>s. s\<lparr>isModalOpen := False\<rparr>));
          modify (successToast env (getMessage env
            (if whitelist then ''filter_added_successfully_allowlist'' else ''filter_added_successfully'')
            [(''value'', SArg name)]));
          getFilteringStatus env api })
       (\<lambda>e. do {
          modify (errorToast env e);
          modify (setState (\<lambda>s. s\<lparr>processingAddFilter := False\<rparr>)) }) }"

text \<open>An absent \<open>name\<close> is printed by the translation as it prints \<open>undefined\<close>.\<close>

definition name_arg :: "string option \<Rightarrow> (string \<times> msg_arg) list" where
  "name_arg name = (case name of None \<Rightarrow> [] | Some n \<Rightarrow> [(''value'', SArg n)])"

definition removeFilter ::
  "env \<Rightarrow> ('w, 'm) filtering_ctx_scheme filtering_api \<Rightarrow> string \<Rightarrow> bool \<Rightarrow> string option
     \<Rightarrow> (('w, 'm) filtering_ctx_scheme, unit) state" where
  "removeFilter env api url whitelist name = do {
     modify (setState (\<lambda>s. s\<lparr>processingRemoveFilter := True\<rparr>));
     try_call (filteringRemoveURL api url whitelist)
       (\<lambda>_. do {
          modify (setState (\<lambda>s. s\<lparr>processingRemoveFilter := False\<rparr>));
          modify (setState (\<lambda>s. s\<lparr>isModalOpen := False\<rparr>));
          modify (successToast env (getMessage env
            (if whitelist then ''filter_removed_successfully_allowlist'' else ''filter_removed_successfully'')
            (name_arg name)));
          getFilteringStatus env api })
       (\<lambda>e. do {
          modify (errorToast env e);
          modify (setState (\<lambda>s. s\<lparr>processingRemoveFilter := False\<rparr>)) }) }"

definition toggleFilterStatus ::
  "env \<Rightarrow> ('w, 'm) filtering_ctx_scheme filtering_api \<Rightarrow> string \<Rightarrow> FilterSetUrlData \<Rightarrow> bool
     \<Rightarrow> (('w, 'm) filtering_ctx_scheme, unit) state" where
  "toggleFilterStatus env api url data whitelist = do {
     modify (setState (\<lambda>s. s\<lparr>processingConfigFilter := True\<rparr>));
     try_call (filteringSetURL api url data whitelist)
       (\<lambda>_. do {
          modify (setState (\<lambda>s. s\<lparr>processingConfigFilter := False\<rparr>));
          getFilteringStatus env api })
       (\<lambda>e. do {
          modify (errorToast env e);
          modify (setState (\<lambda>s. s\<lparr>processingConfigFilter := False\<rparr>)) }) }"

definition disableFilter ::
  "env \<Rightarrow> ('w, 'm) filtering_ctx_scheme filtering_api \<Rightarrow> Filter
     \<Rightarrow> (('w, 'm) filtering_ctx_scheme, bool) state" where
  "disableFilter env api f =
     (let data = \<lparr>su_enabled = False, su_name = f_name f, su_url = f_url f\<rparr>
      in try_call (filteringSetURL api (f_url f) data False)
           (\<lambda>_. do {
              modify (undoToast env
                (getMessage env ''user_rules_filter_was_disabled'' [(''value'', SArg (f_name f))])
                (UndoDisable (f_url f) data));
              getFilteringStatus env api;
              pass True })
           (\<lambda>e. do { modify (errorToast env e); pass False }))"

definition editFilter ::
  "env \<Rightarrow> ('w, 'm) filtering_ctx_scheme filtering_api \<Rightarrow> string \<Rightarrow> FilterSetUrlData \<Rightarrow> bool
     \<Rightarrow> (('w, 'm) filtering_ctx_scheme, unit) state" where
  "editFilter env api url data whitelist = do {
     modify (setState (\<lambda>s. s\<lparr>processingConfigFilter := True\<rparr>));
     try_call (filteringSetURL api url data whitelist)
       (\<lambda>_. do {
          modify (setState (\<lambda>s. s\<lparr>processingConfigFilter := False, isModalOpen := False\<rparr>));
          modify (successToast env (msg env ''changes_saved_success''));
          getFilteringStatus env api })
       (\<lambda>e. do {
          modify (errorToast env e);
          modify (setState (\<lambda>s. s\<lparr>processingConfigFilter := False\<rparr>)) }) }"

definition refreshFilters ::
  "env \<Rightarrow> ('w, 'm) filtering_ctx_scheme filtering_api \<Rightarrow> bool option
     \<Rightarrow> (('w, 'm) filtering_ctx_scheme, unit) state" where
  "refreshFilters env api config = do {
     modify (setState (\<lambda>s. s\<lparr>processingRefreshFilters := True\<rparr>));
     try_call (filteringRefresh api config)
       (\<lambda>data. do {
          modify (setState (\<lambda>s. s\<lparr>processingRefreshFilters := False\<rparr>));
          (let updated = nullish (nullish data None) 0
           in modify (successToast env
                (if updated > 0 then getPlural env ''list_updated'' updated
                 else msg env ''all_lists_up_to_date_toast'')));
          getFilteringStatus env api })
       (\<lambda>e. do {
          modify (errorToast env e);
          modify (setState (\<lambda>s. s\<lparr>processingRefreshFilters := False\<rparr>)) }) }"

definition setFiltersConfig ::
  "env \<Rightarrow> ('w, 'm) filtering_ctx_scheme filtering_api \<Rightarrow> FilterConfig
     \<Rightarrow> (('w, 'm) filtering_ctx_scheme, unit) state" where
  "setFiltersConfig env api config = do {
     modify (setState (\<lambda>s. s\<lparr>processingSetConfig := True\<rparr>));
     try_call (filteringConfig api config)
       (\<lambda>_. modify (setState (\<lambda>s. s\<lparr>
          enabled := (if cfg_enabled config = None then enabled s else cfg_enabled config),
          interval := (if cfg_interval config = None then interval s else cfg_interval config),
          processingSetConfig := False\<rparr>)))
       (\<lambda>e. do {
          modify (errorToast env e);
          modify (setState (\<lambda>s. s\<lparr>processingSetConfig := False\<rparr>)) }) }"

definition checkHost ::
  "env \<Rightarrow> ('w, 'm) filtering_ctx_scheme filtering_api \<Rightarrow> check_params
     \<Rightarrow> (('w, 'm) filtering_ctx_scheme, bool) state" where
  "checkHost env api host = do {
     modify (setState (\<lambda>s. s\<lparr>processingCheck := True\<rparr>));
     try_call (filteringCheckHost api host)
       (\<lambda>data. do {
          modify (setState (\<lambda>s. s\<lparr>check := Some (host_name host, data), processingCheck := False\<rparr>));
          pass True })
       (\<lambda>e. do {
          modify (errorToast env e);
          modify (setState (\<lambda>s. s\<lparr>processingCheck := False\<rparr>));
          pass False }) }"

text \<open>\<open>Promise.allSettled\<close> and the sorting of its results into successes and failures.\<close>

definition batch_successes :: "((string \<times> string) \<times> (string + unit)) list \<Rightarrow> (string \<times> string) list" where
  "batch_successes rs = map fst (filter (\<lambda>r. case snd r of Inl _ \<Rightarrow> False | Inr _ \<Rightarrow> True) rs)"

definition batch_failures :: "((string \<times> string) \<times> (string + unit)) list \<Rightarrow> string list" where
  "batch_failures rs = concat (map (\<lambda>r. case snd r of Inl e \<Rightarrow> [e] | Inr _ \<Rightarrow> []) rs)"

definition batch_message :: "env \<Rightarrow> (string \<times> string) list \<Rightarrow> string option" where
  "batch_message env successes =
     (case successes of
        [] \<Rightarrow> None
      | [(url, name)] \<Rightarrow>
          Some (getMessage env ''filter_added_successfully'' [(''value'', SArg (or_str name url))])
      | (url, name) # rest \<Rightarrow>
          Some (getMessage env ''filter_added_successfully_more''
            [(''value'', SArg (or_str name url)), (''more'', SArg (show_nat (length rest)))]))"

definition addFiltersBatch ::
  "env \<Rightarrow> ('w, 'm) filtering_ctx_scheme filtering_api \<Rightarrow> (string \<times> string) list
     \<Rightarrow> (('w, 'm) filtering_ctx_scheme, unit) state" where
  "addFiltersBatch env api fs = do {
     modify (setState (\<lambda>s. s\<lparr>processingAddFilter := True\<rparr>));
     results \<leftarrow> State_Monad.traverse_list (\<lambda>(url, name). filteringAddURL api url name False) fs;
     (let rs = zip fs results; successes = batch_successes rs
      in do {
        (case batch_message env successes of
           None \<Rightarrow> pass ()
         | Some m \<Rightarrow> modify (successToast env m));
        modify (fold (errorToast env) (batch_failures rs));
        (if successes \<noteq> [] then getFilteringStatus env api else pass ());
        modify (setState (\<lambda>s. s\<lparr>processingAddFilter := False\<rparr>)) }) }"

definition toggleFilteringModal ::
  "string option \<Rightarrow> ('w, 'm) filtering_ctx_scheme \<Rightarrow> ('w, 'm) filtering_ctx_scheme" where
  "toggleFilteringModal mt =
     (case mt of
        None \<Rightarrow> setState (\<lambda>s. s\<lparr>isModalOpen := \<not> isModalOpen s\<rparr>)
      | Some t \<Rightarrow> if t = [] then setState (\<lambda>s. s\<lparr>isModalOpen := \<not> isModalOpen s\<rparr>)
                  else setState (\<lambda>s. s\<lparr>isModalOpen := \<not> isModalOpen s, modalType := t\<rparr>))"

definition setFilterModalUrl :: "string \<Rightarrow> ('w, 'm) filtering_ctx_scheme \<Rightarrow> ('w, 'm) filtering_ctx_scheme" where
  "setFilterModalUrl url = setState (\<lambda>s. s\<lparr>modalFilterUrl := url\<rparr>)"

definition handleRulesChange :: "string \<Rightarrow> ('w, 'm) filtering_ctx_scheme \<Rightarrow> ('w, 'm) filtering_ctx_scheme" where
  "handleRulesChange rules = setState (\<lambda>s. s\<lparr>userRules := rules\<rparr>)"

text \<open>What the registered undo closures do.\<close>

definition runUndo ::
  "env \<Rightarrow> ('w, 'm) filtering_ctx_scheme filtering_api \<Rightarrow> filtering_undo
     \<Rightarrow> (('w, 'm) filtering_ctx_scheme, unit) call" where
  "runUndo env api u =
     (case u of
        UndoRules previousRules \<Rightarrow> do {
          didUndo \<leftarrow> setRules env api previousRules;
          (if didUndo then getFilteringStatus env api else pass ());
          pass (Inr ()) }
      | UndoDisable url data \<Rightarrow>
          try_call (filteringSetURL api url (data\<lparr>su_enabled := True\<rparr>) False)
            (\<lambda>_. do { getFilteringStatus env api; pass (Inr ()) })
            (\<lambda>e. pass (Inl e)))"

subsection \<open>Which rules reach the backend\<close>

text \<open>A backend ignores blank lines of a rule list: the rules that count.\<close>

definition effective :: "string list \<Rightarrow> string list" where
  "effective rs = filter (\<lambda>r. \<not> blank r) rs"

lemma effective_append [simp]: "effective (xs @ ys) = effective xs @ effective ys"
  by (simp add: effective_def)

lemma effective_Cons: "effective (x # xs) = (if blank x then effective xs else x # effective xs)"
  by (simp add: effective_def)

lemma effective_filter: "effective (filter P rs) = filter P (effective rs)"
  by (simp add: effective_def conj_commute)

lemma blank_Nil [simp]: "blank []"
  by (simp add: blank_def)

lemma effective_nonempty: "effective (filter (\<lambda>r. r \<noteq> []) rs) = effective rs"
  unfolding effective_def filter_filter by (rule filter_cong) auto

lemma effective_keep_lines: "effective (keep_lines ls) = effective ls"
  by (induction ls rule: keep_lines.induct) (auto simp: effective_Cons)

lemma effective_drop_leading: "effective (split_lines (drop_leading_newline t)) = effective (split_lines t)"
  by (cases t) (auto simp: drop_leading_newline_def effective_Cons)

lemma effective_payload: "effective (rulesPayload t) = effective (split_lines t)"
proof -
  let ?ls = "split_lines (drop_leading_newline t)"
  obtain x xs where x: "?ls = x # xs" by (metis list.exhaust split_on_neq_Nil)
  have "effective (rulesPayload t) = effective (x # keep_lines xs)"
    unfolding rulesPayload_def effective_nonempty normalizeRulesTextarea_def split_collapse x
    by simp
  also have "\<dots> = effective ?ls" by (simp add: x effective_Cons effective_keep_lines)
  finally show ?thesis by (simp add: effective_drop_leading)
qed

lemma splitRules_lines: "r \<in> set (splitRules t) \<Longrightarrow> newline \<notin> set r \<and> r \<noteq> []"
  by (auto simp: splitRules_def dest: split_on_parts)

lemma effective_splitRules: "effective (splitRules t) = effective (split_lines t)"
  by (simp add: splitRules_def effective_nonempty)

lemma effective_join_lines:
  assumes "\<And>r. r \<in> set rs \<Longrightarrow> newline \<notin> set r"
  shows "effective (split_lines (join_lines rs)) = effective rs"
    and "effective (split_lines (join_lines rs @ [newline])) = effective rs"
proof -
  show "effective (split_lines (join_lines rs)) = effective rs"
    using assms by (cases "rs = []") (auto simp: split_on_join effective_def)
  have j: "join_lines (rs @ [[]]) = join_lines rs @ [newline]" if "rs \<noteq> []"
    using that join_snoc [of rs "[newline]" "[]"] by simp
  have "split_lines (join_lines (rs @ [[]])) = rs @ [[]]"
    using assms by (intro split_on_join) auto
  then show "effective (split_lines (join_lines rs @ [newline])) = effective rs"
    using j by (cases "rs = []") (auto simp: effective_def)
qed

text \<open>
  The contract of the rules endpoints: the status request answers the stored rules and changes
  nothing, the set request succeeds and stores its argument.
\<close>

definition rules_backend ::
  "('w, 'm) filtering_ctx_scheme filtering_api \<Rightarrow> ('w \<Rightarrow> string list) \<Rightarrow> (string list \<Rightarrow> 'w \<Rightarrow> 'w) \<Rightarrow> bool" where
  "rules_backend api stored put \<longleftrightarrow>
     (\<forall>c. \<exists>st. run_state (filteringStatus api) c = (Inr st, c) \<and> fs_user_rules st = Some (stored (world c))) \<and>
     (\<forall>rs c. run_state (filteringSetRules api rs) c = (Inr (), c\<lparr>world := put rs (world c)\<rparr>)) \<and>
     (\<forall>rs w. stored (put rs w) = rs)"

text \<open>The text of the rules on the page is in step with the backend.\<close>

definition in_sync :: "('w \<Rightarrow> string list) \<Rightarrow> ('w, 'm) filtering_ctx_scheme \<Rightarrow> bool" where
  "in_sync stored c \<longleftrightarrow> effective (split_lines (userRules (filtering c))) = effective (stored (world c))"

lemma getFilteringStatus_quiet:
  assumes "rules_backend api stored put"
  shows "world (exec (getFilteringStatus env api) c) = world c \<and>
    notices (exec (getFilteringStatus env api) c) = notices c \<and>
    undoRegistry (exec (getFilteringStatus env api) c) = undoRegistry c \<and>
    userRules (filtering (exec (getFilteringStatus env api) c)) = join_lines (stored (world c))"
proof -
  let ?c = "setState (\<lambda>s. s\<lparr>processingFilters := True\<rparr>) c"
  from assms obtain st where "run_state (filteringStatus api) ?c = (Inr st, ?c)"
    "fs_user_rules st = Some (stored (world ?c))"
    unfolding rules_backend_def by blast
  then show ?thesis
    by (simp add: getFilteringStatus_def run_try_call normalizeFilteringStatus_def Let_def)
qed

lemma setRules_quiet:
  assumes "rules_backend api stored put"
  shows "result (setRules env api t) c = True \<and>
    stored (world (exec (setRules env api t) c)) = rulesPayload t \<and>
    notices (exec (setRules env api t) c) = notices c \<and>
    undoRegistry (exec (setRules env api t) c) = undoRegistry c \<and>
    nonce (exec (setRules env api t) c) = nonce c"
  using assms by (simp add: rules_backend_def setRules_def run_try_call)

lemma saveWithUndo_effect:
  assumes be: "rules_backend api stored put"
    and lines: "\<And>r. r \<in> set rs \<Longrightarrow> newline \<notin> set r"
  shows "let c' = exec (saveWithUndo env api prev rs m) c in
    result (saveWithUndo env api prev rs m) c \<and>
    effective (stored (world c')) = effective rs \<and>
    undoId (last (notices c')) = Some (nanoid env (nonce c)) \<and>
    undoRegistry c' (nanoid env (nonce c)) = Some (UndoRules prev)"
proof -
  note s = setRules_quiet [OF be, of env "join_lines rs @ [newline]" c]
  note g = getFilteringStatus_quiet [OF be, of env
      "undoToast env m (UndoRules prev) (exec (setRules env api (join_lines rs @ [newline])) c)"]
  show ?thesis
    using s g effective_join_lines(2) [OF lines]
    by (simp add: saveWithUndo_def Let_def effective_payload)
      (simp add: undoToast_def createUndoToast_def addSuccessToast_def success_notice_def Let_def)
qed

subsection \<open>Theorems\<close>

text \<open>
  The rules a toggle is about: the one it adds and the one it takes away.
\<close>

definition toggle_rules :: "BlockAction \<Rightarrow> string \<Rightarrow> string option \<Rightarrow> string option \<Rightarrow> string \<times> string" where
  "toggle_rules type domain baseRule baseUnblocking =
     (let b = opt_or_str baseRule (blockingRule domain);
          u = opt_or_str baseUnblocking (exceptionRule b)
      in if type = BLOCK then (b, u) else (u, b))"

lemma toggle_rules_neq_Nil:
  "toggle_rules ty host b u = (desired, opposite) \<Longrightarrow> desired \<noteq> [] \<and> opposite \<noteq> []"
  by (cases b; cases u)
    (auto simp: toggle_rules_def Let_def blockingRule_def exceptionRule_def or_str_def split: if_splits)

lemma toggleBlocking_run:
  assumes "toggle_rules ty host b u = (desired, opposite)"
  shows "toggleBlocking env api ty host b u matched = do {
     prev \<leftarrow> gets (\<lambda>c. userRules (filtering c));
     (let cur = splitRules prev; rep = rulesToReplace opposite desired matched
      in if desired \<in> set cur \<and> \<not> (\<exists>r\<in>set rep. r \<in> set cur) then pass True
         else saveWithUndo env api prev
           (filter (\<lambda>r. r \<notin> set (desired # rep)) cur @ [desired]) (ruleAdded env desired)) }"
  using assms unfolding toggleBlocking_def toggle_rules_def Let_def
  by (auto split: if_splits)

lemma set_rulesToReplace:
  "set (rulesToReplace opposite desired matched) = ({opposite} \<union> set_option matched) - {[], desired}"
  by (auto simp: rulesToReplace_def split: option.splits)

text \<open>
  C1. A one-click block or unblock, against a backend that keeps the rules it is given and a
  page in step with it: the action reports success, the rule it wants is in force, the opposite
  rule and the matched rule it was asked to replace are not, and every other rule is there as
  before and in the same order.
\<close>

theorem toggleBlocking_effect:
  assumes be: "rules_backend api stored put"
    and sync: "in_sync stored c"
    and rules: "toggle_rules ty host b u = (desired, opposite)"
    and one_line: "newline \<notin> set desired" "\<not> blank desired"
  shows "let c' = exec (toggleBlocking env api ty host b u matched) c;
             gone = ({opposite} \<union> set_option matched) - {[], desired};
             other = (\<lambda>r. r \<noteq> desired \<and> r \<notin> gone)
         in result (toggleBlocking env api ty host b u matched) c \<and>
            desired \<in> set (effective (stored (world c'))) \<and>
            set (effective (stored (world c'))) \<inter> gone = {} \<and>
            filter other (effective (stored (world c'))) = filter other (effective (stored (world c)))"
proof -
  let ?prev = "userRules (filtering c)" and ?rep = "rulesToReplace opposite desired matched"
  let ?cur = "splitRules ?prev"
  let ?new = "filter (\<lambda>r. r \<notin> set (desired # ?rep)) ?cur @ [desired]"
  have cur: "effective ?cur = effective (stored (world c))"
    using sync by (simp add: in_sync_def effective_splitRules)
  have eff: "set (effective ?cur) = {r \<in> set ?cur. \<not> blank r}"
    by (auto simp: effective_def)
  have new: "effective ?new = filter (\<lambda>r. r \<notin> set (desired # ?rep)) (effective (stored (world c))) @ [desired]"
    using one_line by (simp add: effective_filter cur effective_Cons) (simp add: effective_def)
  show ?thesis
  proof (cases "desired \<in> set ?cur \<and> \<not> (\<exists>r\<in>set ?rep. r \<in> set ?cur)")
    case True
    then have "set (effective ?cur) \<inter> set ?rep = {}" by (auto simp: eff)
    with True one_line eff show ?thesis
      by (simp add: toggleBlocking_run [OF rules] Let_def cur [symmetric] set_rulesToReplace)
  next
    case False
    have lines: "newline \<notin> set r" if "r \<in> set ?new" for r
      using that one_line(1) splitRules_lines [of r ?prev] by auto
    have "result (saveWithUndo env api ?prev ?new (ruleAdded env desired)) c \<and>
        effective (stored (world (exec (saveWithUndo env api ?prev ?new (ruleAdded env desired)) c)))
          = effective ?new"
      using saveWithUndo_effect [OF be lines, where env = env and prev = ?prev
          and m = "ruleAdded env desired" and c = c]
      by (simp only: Let_def)
    with False new show ?thesis
      by (auto simp: toggleBlocking_run [OF rules] Let_def set_rulesToReplace conj_commute
          intro!: filter_cong)
  qed
qed

text \<open>A backend that stores the rules, for the witnesses.\<close>

definition stored_api :: "(string list, 'm) filtering_ctx_scheme filtering_api" where
  "stored_api = \<lparr>
     filteringStatus = gets (\<lambda>c. Inr \<lparr>fs_enabled = Some True, fs_interval = Some 24, fs_filters = None,
        fs_whitelist_filters = None, fs_user_rules = Some (world c)\<rparr>),
     filteringSetRules = (\<lambda>rs. do { modify (\<lambda>c. c\<lparr>world := rs\<rparr>); pass (Inr ()) }),
     filteringAddURL = (\<lambda>_ _ _. pass (Inr ())), filteringRemoveURL = (\<lambda>_ _. pass (Inr ())),
     filteringSetURL = (\<lambda>_ _ _. pass (Inr ())), filteringRefresh = (\<lambda>_. pass (Inr None)),
     filteringConfig = (\<lambda>_. pass (Inr ())),
     filteringCheckHost = (\<lambda>_. pass (Inl ''no host''))\<rparr>"

definition sample_filtering :: "string list filtering_ctx" where
  "sample_filtering = \<lparr>notices = [], undoRegistry = Map.empty, nonce = 1, console_error = [],
     world = [''||a.b^$important'', ''||c.d^''],
     filtering = initialState\<lparr>userRules := ''||a.b^$important'' @ newline # ''||c.d^''\<rparr>\<rparr>"

lemma stored_api_backend: "rules_backend stored_api id (\<lambda>rs _. rs)"
  by (simp add: rules_backend_def stored_api_def)

lemma sample_filtering_sync: "in_sync id sample_filtering"
  by (simp add: in_sync_def sample_filtering_def newline_def)

theorem toggleBlocking_effect_witness:
  "exceptionRule (blockingRule ''a.b'') \<in> set (effective (world
     (exec (toggleBlocking sample_env stored_api UNBLOCK ''a.b'' None None None) sample_filtering))) \<and>
   blockingRule ''a.b'' \<notin> set (effective (world
     (exec (toggleBlocking sample_env stored_api UNBLOCK ''a.b'' None None None) sample_filtering)))"
proof -
  have r: "toggle_rules UNBLOCK ''a.b'' None None
      = (exceptionRule (blockingRule ''a.b''), blockingRule ''a.b'')"
    by (simp add: toggle_rules_def Let_def)
  have n: "newline \<notin> set (exceptionRule (blockingRule ''a.b''))"
    "\<not> blank (exceptionRule (blockingRule ''a.b''))"
    by (simp_all add: exceptionRule_def blockingRule_def newline_def blank_def is_space_def code_def)
  show ?thesis
    using toggleBlocking_effect [OF stored_api_backend sample_filtering_sync r n,
        where env = sample_env and matched = None]
    by (auto simp: Let_def exceptionRule_def blockingRule_def)
qed

lemma saveWithUndo_undo:
  assumes be: "rules_backend api stored put" and sync: "in_sync stored c"
    and lines: "\<And>r. r \<in> set rs \<Longrightarrow> newline \<notin> set r"
    and ids: "\<And>k. nanoid env k \<noteq> []"
  shows "let c1 = exec (saveWithUndo env api (userRules (filtering c)) rs m) c;
             undo = handleAction (runUndo env api) (last (notices c1))
         in result undo c1 = Inr () \<and>
            effective (stored (world (exec undo c1))) = effective (stored (world c))"
proof -
  let ?prev = "userRules (filtering c)"
  let ?c1 = "exec (saveWithUndo env api ?prev rs m) c"
  let ?s = "exec (setRules env api ?prev) ?c1"
  have t: "undoId (last (notices ?c1)) = Some (nanoid env (nonce c))"
    and reg: "undoRegistry ?c1 (nanoid env (nonce c)) = Some (UndoRules ?prev)"
    using saveWithUndo_effect [OF be lines, where env = env and prev = ?prev and m = m and c = c]
    by (simp_all only: Let_def)
  have s: "result (setRules env api ?prev) ?c1" "stored (world ?s) = rulesPayload ?prev"
    using setRules_quiet [OF be] by blast+
  have g: "world (exec (getFilteringStatus env api) ?s) = world ?s"
    using getFilteringStatus_quiet [OF be] by blast
  have "effective (rulesPayload ?prev) = effective (stored (world c))"
    using sync by (simp add: in_sync_def effective_payload)
  with t reg s g ids show ?thesis
    by (simp add: Let_def handleAction_def getUndoCallback_def run_try_call runUndo_def
        clearUndoCallback_def removeToast_def)
qed

text \<open>
  C2. The undo of a one-click block or unblock restores the rules: whenever the action has something to do, that is, the rule it
  wants is missing or one of the rules it replaces is there, clicking the button of the toast that it has just shown
  brings the rules in force back to what they were, for a page in step with a backend that keeps what it is given. When there is
  nothing to do no toast is shown and no rule changes.
\<close>

theorem toggleBlocking_undo:
  assumes be: "rules_backend api stored put" and sync: "in_sync stored c"
    and ids: "\<And>k. nanoid env k \<noteq> []"
    and rules: "toggle_rules ty host b u = (desired, opposite)"
    and one_line: "newline \<notin> set desired"
  shows "let cur = splitRules (userRules (filtering c));
             c1 = exec (toggleBlocking env api ty host b u matched) c;
             undo = handleAction (runUndo env api) (last (notices c1))
         in if desired \<notin> set cur \<or> opposite \<in> set cur \<and> opposite \<noteq> desired \<or> (\<exists>m. matched = Some m \<and> m \<noteq> [] \<and> m \<noteq> desired \<and> m \<in> set cur)
            then result undo c1 = Inr () \<and> effective (stored (world (exec undo c1))) = effective (stored (world c))
            else c1 = c"
proof -
  let ?cur = "splitRules (userRules (filtering c))" and ?rep = "rulesToReplace opposite desired matched"
  let ?new = "filter (\<lambda>r. r \<notin> set (desired # ?rep)) ?cur @ [desired]"
  have lines: "newline \<notin> set r" if "r \<in> set ?new" for r
    using that one_line splitRules_lines [of r "userRules (filtering c)"] by auto
  have acts: "(\<exists>r\<in>set ?rep. r \<in> set ?cur) \<longleftrightarrow>
      opposite \<in> set ?cur \<and> opposite \<noteq> desired \<or> (\<exists>m. matched = Some m \<and> m \<noteq> [] \<and> m \<noteq> desired \<and> m \<in> set ?cur)"
    using toggle_rules_neq_Nil [OF rules] unfolding set_rulesToReplace by (cases matched) auto
  show ?thesis
    using saveWithUndo_undo [where rs = ?new and m = "ruleAdded env desired", OF be sync lines ids]
    unfolding Let_def acts [symmetric] by (simp add: toggleBlocking_run [OF rules] Let_def)
qed

theorem toggleBlocking_undo_witness:
  "let env = sample_env\<lparr>nanoid := (\<lambda>n. ''id'')\<rparr>;
       c1 = exec (toggleBlocking env stored_api UNBLOCK ''a.b'' None None None) sample_filtering;
       undo = handleAction (runUndo env stored_api) (last (notices c1))
   in effective (world (exec undo c1)) = effective [''||a.b^$important'', ''||c.d^'']"
proof -
  have r: "toggle_rules UNBLOCK ''a.b'' None None
      = (exceptionRule (blockingRule ''a.b''), blockingRule ''a.b'')"
    by (simp add: toggle_rules_def Let_def)
  have n: "newline \<notin> set (exceptionRule (blockingRule ''a.b''))"
    by (simp add: exceptionRule_def blockingRule_def newline_def)
  have a: "exceptionRule (blockingRule ''a.b'') \<notin> set (splitRules (userRules (filtering sample_filtering)))"
    by (simp add: exceptionRule_def blockingRule_def splitRules_def sample_filtering_def newline_def)
  have i: "\<And>k. nanoid (sample_env\<lparr>nanoid := (\<lambda>n. ''id'')\<rparr>) k \<noteq> []" by simp
  show ?thesis
    using toggleBlocking_undo [OF stored_api_backend sample_filtering_sync i r n, where matched = None] a
    by (simp add: Let_def) (simp add: sample_filtering_def)
qed

text \<open>Reading an escaped name back: drop the backslash before each escaped character.\<close>

fun unescape :: "char set \<Rightarrow> string \<Rightarrow> string" where
  "unescape Q [] = []"
| "unescape Q [x] = [x]"
| "unescape Q (x # y # ys) =
     (if x = CHR 0x5C \<and> y \<in> Q then y # unescape Q ys else x # unescape Q (y # ys))"

definition escape_all :: "char set \<Rightarrow> string \<Rightarrow> string" where
  "escape_all Q s = concat (map (\<lambda>x. if x \<in> Q then [CHR 0x5C, x] else [x]) s)"

lemma escape_all_Cons:
  "escape_all Q (x # s) = (if x \<in> Q then CHR 0x5C # x # escape_all Q s else x # escape_all Q s)"
  by (simp add: escape_all_def)

lemma escape_all_hd: "escape_all Q s = y # ys \<Longrightarrow> CHR 0x5C \<notin> Q \<Longrightarrow> y \<notin> Q"
  by (cases s) (auto simp: escape_all_def split: if_splits)

lemma unescape_other: "y \<notin> Q \<Longrightarrow> unescape Q (x # y # ys) = x # unescape Q (y # ys)"
  by simp

lemma unescape_escape_all: "CHR 0x5C \<notin> Q \<Longrightarrow> unescape Q (escape_all Q s) = s"
proof (induction s)
  case Nil
  then show ?case by (simp add: escape_all_def)
next
  case (Cons x s)
  show ?case
  proof (cases "escape_all Q s")
    case Nil
    with Cons show ?thesis by (cases s) (auto simp: escape_all_def split: if_splits)
  next
    case (Cons y ys)
    then have "y \<notin> Q" using Cons.prems by (rule escape_all_hd)
    with Cons.IH Cons.prems Cons show ?thesis by (simp add: escape_all_Cons)
  qed
qed

lemma escape_char_all: "q \<notin> Q \<Longrightarrow> q \<noteq> CHR 0x5C \<Longrightarrow> escape_char q (escape_all Q s) = escape_all (insert q Q) s"
  by (induction s) (auto simp: escape_char_def escape_all_def)

lemma escapeClientName_all:
  "escapeClientName s = escape_all {CHR 0x7C, CHR 0x2C, CHR 0x22, CHR 0x27} s"
proof -
  have "escape_char (CHR 0x27) s = escape_all {CHR 0x27} s"
    by (simp add: escape_char_def escape_all_def)
  then show ?thesis by (simp add: escapeClientName_def escape_char_all)
qed

text \<open>
  Escaping a client name loses nothing: the name can be read back from the rule, so the
  rules of two different clients for the same domain are different.
\<close>

theorem clientRule_injective:
  "clientRule domain a = clientRule domain b \<longleftrightarrow> a = b"
proof -
  have "escapeClientName a = escapeClientName b \<longleftrightarrow> a = b"
  proof
    assume eq: "escapeClientName a = escapeClientName b"
    have q: "CHR 0x5C \<notin> {CHR 0x7C, CHR 0x2C, CHR 0x22, CHR 0x27}" by simp
    have "a = unescape {CHR 0x7C, CHR 0x2C, CHR 0x22, CHR 0x27} (escapeClientName a)"
      unfolding escapeClientName_all by (rule unescape_escape_all [OF q, symmetric])
    also have "\<dots> = b"
      unfolding eq unfolding escapeClientName_all by (rule unescape_escape_all [OF q])
    finally show "a = b" .
  qed simp
  then show ?thesis by (simp add: clientRule_def)
qed

text \<open>
  Actions on rules, lists and checks release their busy flag whatever the requests answer and
  whatever runs while they are pending; a failed save or check returns false.
\<close>

theorem filtering_settles:
  "\<not> processingRules (filtering (exec (setRules env api t) c)) \<and>
   \<not> processingCheck (filtering (exec (checkHost env api h) c)) \<and>
   \<not> processingSetConfig (filtering (exec (setFiltersConfig env api cfg) c)) \<and>
   \<not> processingAddFilter (filtering (exec (addFiltersBatch env api fs) c)) \<and>
   \<not> processingFilters (filtering (exec (getFilteringStatus env api) c)) \<and>
   filtersInitialized (filtering (exec (getFilteringStatus env api) c))"
  by (simp add: setRules_def checkHost_def setFiltersConfig_def addFiltersBatch_def
      getFilteringStatus_def run_try_call Let_def split: sum.splits)

end
