(* ===== verification/ListsPage.thy ===== *)
theory ListsPage
  imports Modals DataTable Filtering
begin

section \<open>The pages of filter lists\<close>

text \<open>
  \<^verbatim>\<open>client_v2/src/components/FilterLists\<close>: the block list and allow list pages, the window that picks block lists
  from the catalog or takes one by hand, the window of an allow list, the update interval window and the table of lists. The
  catalog \<^verbatim>\<open>helpers/filters/filters.ts\<close> is generated data and a parameter here; its keys and its sources are
  pairwise distinct. An object with string keys is a list of its entries in insertion order. The pages' calls into the store
  that are not awaited finish here before the window closes: the store does not read the modal and the page reads nothing of the
  store in between.
\<close>

subsection \<open>Objects\<close>

fun obj_put :: "'k \<Rightarrow> 'v \<Rightarrow> ('k \<times> 'v) list \<Rightarrow> ('k \<times> 'v) list" where
  "obj_put k v [] = [(k, v)]"
| "obj_put k v ((k', v') # xs) = (if k = k' then (k, v) # xs else (k', v') # obj_put k v xs)"

lemma map_of_obj_put [simp]: "map_of (obj_put k v xs) = (map_of xs)(k \<mapsto> v)"
  by (induction xs) auto

lemma set_obj_put_True: "(\<forall>e\<in>set xs. snd e) \<Longrightarrow> e \<in> set (obj_put k True xs) \<longleftrightarrow> e = (k, True) \<or> e \<in> set xs"
proof (induction xs)
  case (Cons x xs)
  then show ?case by (cases x) auto
qed simp

subsection \<open>The catalog and the selection\<close>

record catalog_filter =
  cf_name :: string
  cf_categoryId :: string
  cf_homepage :: string
  cf_source :: string

type_synonym catalog = "(string \<times> catalog_filter) list"

definition catalogSourcesToIdMap :: "catalog \<Rightarrow> (string \<rightharpoonup> string)" where
  "catalogSourcesToIdMap cat = fold (\<lambda>(i, f) m. m(cf_source f \<mapsto> i)) cat Map.empty"

record SelectedValues =
  selectedIds :: "(string \<times> bool) list"
  selectedSources :: "(string \<times> bool) list"

definition getSelectedValues :: "Filter list \<Rightarrow> (string \<rightharpoonup> string) \<Rightarrow> SelectedValues" where
  "getSelectedValues fs m =
     foldl (\<lambda>acc f. case m (f_url f) of
         None \<Rightarrow> acc
       | Some i \<Rightarrow> \<lparr>selectedIds = obj_put i True (selectedIds acc), selectedSources = obj_put (f_url f) True (selectedSources acc)\<rparr>)
       \<lparr>selectedIds = [], selectedSources = []\<rparr> fs"

text \<open>The rows of a category in the picker, and the checkbox of a row.\<close>

definition categoryFilters :: "catalog \<Rightarrow> string \<Rightarrow> (string \<times> catalog_filter) list" where
  "categoryFilters cat c = filter (\<lambda>(_, f). cf_categoryId f = c) cat"

definition picker_toggle :: "string \<Rightarrow> bool \<Rightarrow> (string \<times> bool) list \<Rightarrow> (string \<times> bool) list" where
  "picker_toggle i checked sel = obj_put i checked sel"

definition picked :: "(string \<times> bool) list \<Rightarrow> string \<Rightarrow> bool" where
  "picked sel i \<longleftrightarrow> map_of sel i = Some True"

definition getCategoryName :: "env \<Rightarrow> string \<Rightarrow> string" where
  "getCategoryName env c =
     (if c \<in> {''general'', ''security'', ''regional'', ''other''} then msg env (''filter_category_'' @ c) else c)"

definition getCategoryDesc :: "env \<Rightarrow> string \<Rightarrow> string" where
  "getCategoryDesc env c =
     (if c \<in> {''general'', ''security'', ''regional'', ''other''} then msg env (''filter_category_'' @ c @ ''_desc'') else c)"

subsection \<open>The block list window\<close>

text \<open>
  The selection follows the store by an effect: when the store's lists are set, the effect fills the selection again from the
  lists. \<open>listsSet\<close> says that the lists were set since the effect ran.
\<close>

record 'w lists_ctx = "'w filtering_ctx" +
  modals :: ModalsState
  selectedFilterIds :: "(string \<times> bool) list"
  listsSet :: bool

interpretation modals_frame: toast_frame modals
  by unfold_locales simp_all

interpretation selection_frame: toast_frame selectedFilterIds
  by unfold_locales simp_all

interpretation listsSet_frame: toast_frame listsSet
  by unfold_locales simp_all

definition watched ::
  "('w, 'm) lists_ctx_scheme filtering_api \<Rightarrow> ('w, 'm) lists_ctx_scheme filtering_api" where
  "watched api = api\<lparr>filteringStatus :=
     try_call (filteringStatus api)
       (\<lambda>st. do { modify (\<lambda>c. c\<lparr>listsSet := True\<rparr>); pass (Inr st) })
       (\<lambda>e. pass (Inl e))\<rparr>"

definition selectedValues :: "catalog \<Rightarrow> ('w, 'm) lists_ctx_scheme \<Rightarrow> SelectedValues" where
  "selectedValues cat c = getSelectedValues (filters (filtering c)) (catalogSourcesToIdMap cat)"

definition selection_effect ::
  "catalog \<Rightarrow> bool \<Rightarrow> ('w, 'm) lists_ctx_scheme \<Rightarrow> ('w, 'm) lists_ctx_scheme" where
  "selection_effect cat editing c =
     (if listsSet c
      then c\<lparr>selectedFilterIds := (if editing then [] else selectedIds (selectedValues cat c)), listsSet := False\<rparr>
      else c)"

definition filtersToAdd :: "catalog \<Rightarrow> ('w, 'm) lists_ctx_scheme \<Rightarrow> (string \<times> string) list" where
  "filtersToAdd cat c =
     (let existingFilterSources = set (map f_url (filters (filtering c)));
          changedValues = filter (\<lambda>(key, v). v \<and>
            (case map_of cat key of None \<Rightarrow> False | Some f \<Rightarrow> cf_source f \<notin> existingFilterSources)) (selectedFilterIds c)
      in map (\<lambda>(key, _). let f = the (map_of cat key) in (cf_source f, cf_name f)) changedValues)"

definition filtersToRemove :: "catalog \<Rightarrow> ('w, 'm) lists_ctx_scheme \<Rightarrow> string list" where
  "filtersToRemove cat c =
     map (\<lambda>(i, _). cf_source (the (map_of cat i)))
       (filter (\<lambda>(i, wasSelected). wasSelected \<and> \<not> picked (selectedFilterIds c) i) (selectedIds (selectedValues cat c)))"

fun remove_each ::
  "env \<Rightarrow> ('w, 'm) lists_ctx_scheme filtering_api \<Rightarrow> string list \<Rightarrow> (('w, 'm) lists_ctx_scheme, unit) state" where
  "remove_each env api [] = pass ()"
| "remove_each env api (url # rest) = do { removeFilter env api url False None; remove_each env api rest }"

record list_values =
  lv_name :: string
  lv_url :: string
  lv_enabled :: "bool option"

text \<open>A boolean that a request does not carry is false for the back end, which decodes into a structure of zero values.\<close>

definition wire_bool :: "bool option \<Rightarrow> bool" where
  "wire_bool b = nullish b False"

definition close_window :: "('w, 'm) lists_ctx_scheme \<Rightarrow> ('w, 'm) lists_ctx_scheme" where
  "close_window c = c\<lparr>modals := closeModal (modals c)\<rparr>"

definition blocklist_submit ::
  "env \<Rightarrow> ('w, 'm) lists_ctx_scheme filtering_api \<Rightarrow> catalog \<Rightarrow> modal_type \<Rightarrow> list_values \<Rightarrow> string \<Rightarrow> string
     \<Rightarrow> (('w, 'm) lists_ctx_scheme, unit) state" where
  "blocklist_submit env api cat modalId filterToEdit name url =
     (if modalId = ADD_BLOCKLIST then
        (if url \<noteq> [] \<and> name \<noteq> [] then
           (let nameErr = validateRequiredValue env (VString name);
                urlErr = or_validation (validateRequiredValue env (VString url)) (validatePath env (Some url))
            in if truthy_str nameErr \<or> truthy_str urlErr then pass ()
               else do { addFilter env api url name False; modify close_window })
         else do {
           toAdd \<leftarrow> gets (filtersToAdd cat);
           (if toAdd \<noteq> [] then addFiltersBatch env (watched api) toAdd else pass ());
           modify (selection_effect cat False);
           toRemove \<leftarrow> gets (filtersToRemove cat);
           remove_each env (watched api) toRemove;
           modify close_window })
      else if modalId = EDIT_BLOCKLIST then do {
        editFilter env api (lv_url filterToEdit) \<lparr>su_enabled = wire_bool None, su_name = name, su_url = url\<rparr> False;
        modify close_window }
      else modify close_window)"

definition handleCancel_blocklist :: "('w, 'm) lists_ctx_scheme \<Rightarrow> ('w, 'm) lists_ctx_scheme" where
  "handleCancel_blocklist = close_window"

subsection \<open>The allow list window\<close>

record allow_form =
  a_name :: string
  a_url :: string
  a_urlError :: validation

definition allow_effect :: "list_values option \<Rightarrow> allow_form \<Rightarrow> allow_form" where
  "allow_effect filterToEdit f = f\<lparr>
     a_name := (case filterToEdit of None \<Rightarrow> [] | Some v \<Rightarrow> lv_name v),
     a_url := (case filterToEdit of None \<Rightarrow> [] | Some v \<Rightarrow> lv_url v)\<rparr>"

definition allow_mount :: "list_values option \<Rightarrow> allow_form" where
  "allow_mount filterToEdit = allow_effect filterToEdit \<lparr>a_name = [], a_url = [], a_urlError = None\<rparr>"

definition validateAndSetErrors :: "env \<Rightarrow> allow_form \<Rightarrow> bool \<times> allow_form" where
  "validateAndSetErrors env f =
     (let urlErr = or_validation (validateRequiredValue env (VString (a_url f))) (validatePath env (Some (a_url f)))
      in (\<not> truthy_str urlErr, f\<lparr>a_urlError := (if truthy_str urlErr then urlErr else None)\<rparr>))"

definition allowlist_submit ::
  "env \<Rightarrow> ('w, 'm) lists_ctx_scheme filtering_api \<Rightarrow> modal_type \<Rightarrow> list_values option \<Rightarrow> allow_form
     \<Rightarrow> (('w, 'm) lists_ctx_scheme, allow_form) state" where
  "allowlist_submit env api modalId filterToEdit f =
     (case validateAndSetErrors env f of (valid, g) \<Rightarrow>
        if \<not> valid then pass g
        else let done_form = g\<lparr>a_name := [], a_url := []\<rparr>
          in if modalId = ADD_ALLOWLIST then do {
               addFilter env api (a_url g) (a_name g) True;
               modify close_window;
               pass done_form }
             else if modalId = EDIT_ALLOWLIST then
               (case filterToEdit of
                  None \<Rightarrow> pass g
                | Some v \<Rightarrow> do {
                    editFilter env api (lv_url v)
                      \<lparr>su_enabled = nullish (lv_enabled v) True, su_name = a_name g, su_url = a_url g\<rparr> True;
                    modify close_window;
                    pass done_form })
             else do { modify close_window; pass done_form })"

definition allowlist_cancel :: "allow_form \<Rightarrow> (('w, 'm) lists_ctx_scheme, allow_form) state" where
  "allowlist_cancel f = do { modify close_window; pass \<lparr>a_name = [], a_url = [], a_urlError = None\<rparr> }"

subsection \<open>The pages\<close>

text \<open>The list that the windows of a page are about; the page hands it to the edit and the delete window.\<close>

definition no_list :: list_values where
  "no_list = \<lparr>lv_name = [], lv_url = [], lv_enabled = None\<rparr>"

definition toggleFilter ::
  "env \<Rightarrow> ('w, 'm) lists_ctx_scheme filtering_api \<Rightarrow> bool \<Rightarrow> Filter \<Rightarrow> (('w, 'm) lists_ctx_scheme, unit) state" where
  "toggleFilter env api whitelist f =
     toggleFilterStatus env api (f_url f) \<lparr>su_enabled = \<not> f_enabled f, su_name = f_name f, su_url = f_url f\<rparr> whitelist"

definition handleRefresh ::
  "env \<Rightarrow> ('w, 'm) lists_ctx_scheme filtering_api \<Rightarrow> bool \<Rightarrow> (('w, 'm) lists_ctx_scheme, unit) state" where
  "handleRefresh env api whitelist = refreshFilters env api (Some whitelist)"

definition open_window :: "modal_type \<Rightarrow> ('w, 'm) lists_ctx_scheme \<Rightarrow> ('w, 'm) lists_ctx_scheme" where
  "open_window m c = c\<lparr>modals := openModal m (modals c)\<rparr>"

definition openEditModal :: "bool \<Rightarrow> Filter \<Rightarrow> (('w, 'm) lists_ctx_scheme, list_values) state" where
  "openEditModal whitelist f = do {
     modify (open_window (if whitelist then EDIT_ALLOWLIST else EDIT_BLOCKLIST));
     pass \<lparr>lv_name = f_name f, lv_url = f_url f, lv_enabled = Some (f_enabled f)\<rparr> }"

definition openDeleteModal :: "bool \<Rightarrow> Filter \<Rightarrow> (('w, 'm) lists_ctx_scheme, list_values) state" where
  "openDeleteModal whitelist f = do {
     modify (open_window (if whitelist then DELETE_ALLOWLIST else DELETE_BLOCKLIST));
     pass \<lparr>lv_name = f_name f, lv_url = f_url f, lv_enabled = None\<rparr> }"

definition handleDeleteConfirm ::
  "env \<Rightarrow> ('w, 'm) lists_ctx_scheme filtering_api \<Rightarrow> bool \<Rightarrow> list_values \<Rightarrow> (('w, 'm) lists_ctx_scheme, list_values) state" where
  "handleDeleteConfirm env api whitelist v = do {
     removeFilter env api (lv_url v) whitelist (Some (lv_name v));
     modify close_window;
     pass no_list }"

subsection \<open>The update interval window\<close>

definition FILTER_DISABLE :: int where "FILTER_DISABLE = 0"
definition FILTER_HOURLY :: int where "FILTER_HOURLY = 1"
definition FILTER_DAILY :: int where "FILTER_DAILY = 24"
definition FILTER_WEEKLY :: int where "FILTER_WEEKLY = 168"
definition FILTER_CUSTOM :: int where "FILTER_CUSTOM = - 1"

definition PREDEFINED_INTERVALS :: "int list" where
  "PREDEFINED_INTERVALS = [FILTER_DISABLE, FILTER_HOURLY, FILTER_DAILY, FILTER_WEEKLY]"

definition FILTER_INTERVAL_MIN :: int where "FILTER_INTERVAL_MIN = 1"
definition FILTER_INTERVAL_MAX :: int where "FILTER_INTERVAL_MAX = 8760"

text \<open>The custom hours: \<open>null\<close>, the empty string that \<open>toNumber\<close> passes on, \<open>NaN\<close>, or a number.\<close>

datatype custom_hours = HoursNull | HoursEmpty | HoursNaN | Hours int

definition form_hours :: "string \<Rightarrow> custom_hours" where
  "form_hours t = (if t = [] then HoursEmpty else case parseInt t of None \<Rightarrow> HoursNaN | Some n \<Rightarrow> Hours n)"

record update_form =
  uf_interval :: int
  uf_custom :: custom_hours

definition is_custom :: "int option \<Rightarrow> bool" where
  "is_custom current = (case current of None \<Rightarrow> False | Some n \<Rightarrow> n \<notin> set PREDEFINED_INTERVALS)"

definition load_interval :: "int option \<Rightarrow> update_form" where
  "load_interval current = \<lparr>
     uf_interval = (if is_custom current then FILTER_CUSTOM else nullish current 24),
     uf_custom = (if is_custom current then Hours (the current) else HoursNull)\<rparr>"

definition update_effect :: "ModalsState \<Rightarrow> int option \<Rightarrow> update_form \<Rightarrow> update_form" where
  "update_effect m current f = (if open_modal m \<noteq> Some FILTER_UPDATE then f else load_interval current)"

definition update_radio :: "int \<Rightarrow> update_form \<Rightarrow> update_form" where
  "update_radio n f = f\<lparr>uf_interval := n\<rparr>"

definition update_hours :: "string \<Rightarrow> update_form \<Rightarrow> update_form" where
  "update_hours t f = f\<lparr>uf_custom := form_hours t\<rparr>"

definition hours_below :: "custom_hours \<Rightarrow> int \<Rightarrow> bool" where
  "hours_below h n = (case h of HoursNull \<Rightarrow> 0 < n | HoursEmpty \<Rightarrow> 0 < n | HoursNaN \<Rightarrow> False | Hours m \<Rightarrow> m < n)"

definition hours_above :: "custom_hours \<Rightarrow> int \<Rightarrow> bool" where
  "hours_above h n = (case h of HoursNull \<Rightarrow> n < 0 | HoursEmpty \<Rightarrow> n < 0 | HoursNaN \<Rightarrow> False | Hours m \<Rightarrow> n < m)"

text \<open>The message under the input.\<close>

definition hours_error :: "env \<Rightarrow> update_form \<Rightarrow> validation" where
  "hours_error env f =
     (if uf_interval f = - 1 \<and> uf_custom f \<noteq> HoursNull \<and>
         (hours_below (uf_custom f) FILTER_INTERVAL_MIN \<or> hours_above (uf_custom f) FILTER_INTERVAL_MAX)
      then Some (getMessage env ''form_error_range'' [(''min'', NArg FILTER_INTERVAL_MIN), (''max'', NArg FILTER_INTERVAL_MAX)])
      else None)"

text \<open>The interval that \<open>onSubmit\<close> hands to \<open>setFiltersConfig\<close>, if it does.\<close>

definition update_onSubmit :: "update_form \<Rightarrow> custom_hours option" where
  "update_onSubmit f =
     (let finalInterval = (if uf_interval f = FILTER_CUSTOM then uf_custom f else Hours (uf_interval f))
      in if finalInterval = HoursNull \<or> hours_below finalInterval 0 then None
         else if uf_interval f = FILTER_CUSTOM \<and>
           (hours_below finalInterval FILTER_INTERVAL_MIN \<or> hours_above finalInterval FILTER_INTERVAL_MAX) then None
         else Some finalInterval)"

lemmas interval_defs = FILTER_DISABLE_def FILTER_HOURLY_def FILTER_DAILY_def FILTER_WEEKLY_def FILTER_CUSTOM_def
  PREDEFINED_INTERVALS_def FILTER_INTERVAL_MIN_def FILTER_INTERVAL_MAX_def

inductive update_reach :: "update_form \<Rightarrow> bool" where
  loaded: "update_reach (load_interval current)"
| radio: "update_reach f \<Longrightarrow> n \<in> set (PREDEFINED_INTERVALS @ [FILTER_CUSTOM]) \<Longrightarrow> update_reach (update_radio n f)"
| hours: "update_reach f \<Longrightarrow> update_reach (update_hours t f)"

lemma update_reach_radio: "update_reach f \<Longrightarrow> uf_interval f \<in> set (PREDEFINED_INTERVALS @ [FILTER_CUSTOM])"
proof (induction rule: update_reach.induct)
  case (loaded current)
  then show ?case by (auto simp: load_interval_def is_custom_def interval_defs split: option.splits)
qed (auto simp: update_radio_def update_hours_def)

text \<open>
  Every number of hours the window saves is 0, which stops the updates, or between 1 and 8760, and a window that opens on such a
  stored interval saves it unchanged.
\<close>

theorem update_interval_saved:
  shows "update_reach f \<Longrightarrow> update_onSubmit f = Some (Hours n) \<Longrightarrow> 0 \<le> n \<and> n \<le> 8760"
    and "0 \<le> m \<Longrightarrow> m \<le> 8760 \<Longrightarrow> update_onSubmit (load_interval (Some m)) = Some (Hours m)"
proof -
  show "0 \<le> n \<and> n \<le> 8760" if "update_reach f" "update_onSubmit f = Some (Hours n)"
    using update_reach_radio [OF that(1)] that(2)
    by (auto simp: update_onSubmit_def interval_defs hours_below_def hours_above_def Let_def split: if_splits)
  show "update_onSubmit (load_interval (Some m)) = Some (Hours m)" if "0 \<le> m" "m \<le> 8760"
    using that by (auto simp: update_onSubmit_def load_interval_def is_custom_def interval_defs hours_below_def hours_above_def)
qed

text \<open>
  Hours that do not start with a digit pass: the input takes \<open>.5\<close>, which \<open>parseInt\<close> reads as \<open>NaN\<close>; the input shows no error
  and the window saves \<open>NaN\<close>.
\<close>

theorem update_interval_nan:
  "hours_error env (update_hours ''.5'' (update_radio FILTER_CUSTOM (load_interval current))) = None \<and>
   update_onSubmit (update_hours ''.5'' (update_radio FILTER_CUSTOM (load_interval current))) = Some HoursNaN"
proof -
  have "parseInt ''.5'' = None" by code_simp
  then show ?thesis
    by (simp add: hours_error_def update_hours_def update_radio_def form_hours_def update_onSubmit_def hours_below_def
        hours_above_def interval_defs)
qed

subsection \<open>The table of lists\<close>

definition sortedFilters :: "direction \<Rightarrow> Filter list \<Rightarrow> Filter list" where
  "sortedFilters dir fs = sort_by (by_text f_name dir) fs"

subsection \<open>What the picker saves\<close>

text \<open>
  The contract of the list endpoints, with \<open>stored\<close> the addresses the back end has: the status request answers them and changes
  nothing, the add request appends its address and the remove request takes its address out.
\<close>

definition lists_backend ::
  "('w, 'm) lists_ctx_scheme filtering_api \<Rightarrow> ('w \<Rightarrow> string list) \<Rightarrow> (string \<Rightarrow> string \<Rightarrow> 'w \<Rightarrow> 'w) \<Rightarrow> (string \<Rightarrow> 'w \<Rightarrow> 'w) \<Rightarrow> bool" where
  "lists_backend api stored add rem \<longleftrightarrow>
     (\<forall>c. \<exists>st. run_state (filteringStatus api) c = (Inr st, c) \<and> map f_url (normalizeFilters (fs_filters st)) = stored (world c)) \<and>
     (\<forall>u n c. run_state (filteringAddURL api u n False) c = (Inr (), c\<lparr>world := add u n (world c)\<rparr>)) \<and>
     (\<forall>u c. run_state (filteringRemoveURL api u False) c = (Inr (), c\<lparr>world := rem u (world c)\<rparr>)) \<and>
     (\<forall>u n w. stored (add u n w) = stored w @ [u]) \<and>
     (\<forall>u w. stored (rem u w) = filter (\<lambda>v. v \<noteq> u) (stored w))"

definition lists_sync :: "('w \<Rightarrow> string list) \<Rightarrow> ('w, 'm) lists_ctx_scheme \<Rightarrow> bool" where
  "lists_sync stored c \<longleftrightarrow> map f_url (filters (filtering c)) = stored (world c)"

definition catalog_ok :: "catalog \<Rightarrow> bool" where
  "catalog_ok cat \<longleftrightarrow> distinct (map fst cat) \<and> distinct (map (cf_source \<circ> snd) cat)"

lemma sources_fold:
  "distinct (map (cf_source \<circ> snd) cat) \<Longrightarrow>
   fold (\<lambda>(i, f) m. m(cf_source f \<mapsto> i)) cat m s = Some i \<longleftrightarrow>
     (\<exists>f. (i, f) \<in> set cat \<and> cf_source f = s) \<or> s \<notin> set (map (cf_source \<circ> snd) cat) \<and> m s = Some i"
proof (induction cat arbitrary: m)
  case (Cons x cat)
  then show ?case by (cases x) force
qed simp

lemma catalogSources_iff:
  "catalog_ok cat \<Longrightarrow> catalogSourcesToIdMap cat s = Some i \<longleftrightarrow> (\<exists>f. map_of cat i = Some f \<and> cf_source f = s)"
  unfolding catalogSourcesToIdMap_def catalog_ok_def by (auto simp: sources_fold)

lemma selectedIds_step:
  "(\<forall>e\<in>set (selectedIds acc). snd e) \<Longrightarrow>
   set (selectedIds (foldl (\<lambda>acc f. case m (f_url f) of
         None \<Rightarrow> acc
       | Some i \<Rightarrow> \<lparr>selectedIds = obj_put i True (selectedIds acc), selectedSources = obj_put (f_url f) True (selectedSources acc)\<rparr>)
       acc fs)) = set (selectedIds acc) \<union> {(i, True) | i. \<exists>f\<in>set fs. m (f_url f) = Some i}"
proof (induction fs arbitrary: acc)
  case (Cons f fs)
  show ?case
  proof (cases "m (f_url f)")
    case (Some i)
    let ?acc = "\<lparr>selectedIds = obj_put i True (selectedIds acc), selectedSources = obj_put (f_url f) True (selectedSources acc)\<rparr>"
    have "\<forall>e\<in>set (selectedIds ?acc). snd e" using Cons.prems by (fastforce simp: set_obj_put_True)
    from Cons.IH [OF this] show ?thesis using Some Cons.prems by (auto simp: set_obj_put_True)
  qed (use Cons in auto)
qed simp

lemma selectedIds_set:
  "set (selectedIds (getSelectedValues fs m)) = {(i, True) | i. \<exists>f\<in>set fs. m (f_url f) = Some i}"
  using selectedIds_step [of "\<lparr>selectedIds = [], selectedSources = []\<rparr>" m fs] by (simp add: getSelectedValues_def)

lemma map_of_all_True: "(\<forall>e\<in>set xs. snd e) \<Longrightarrow> (i, True) \<in> set xs \<Longrightarrow> map_of xs i = Some True"
  by (induction xs) auto

text \<open>A selection that the effect has just filled removes nothing.\<close>

lemma nothing_to_remove:
  assumes "selectedFilterIds c = selectedIds (selectedValues cat c)"
  shows "filtersToRemove cat c = []"
proof -
  have "picked (selectedFilterIds c) i" if "(i, v) \<in> set (selectedIds (selectedValues cat c))" for i v
    using that assms map_of_all_True [of "selectedIds (selectedValues cat c)" i]
    by (auto simp: selectedValues_def selectedIds_set picked_def)
  then show ?thesis by (auto simp: filtersToRemove_def filter_empty_conv)
qed

lemma set_filtersToRemove:
  assumes "catalog_ok cat" "lists_sync stored c"
  shows "set (filtersToRemove cat c) =
    {u \<in> set (stored (world c)). \<exists>i f. map_of cat i = Some f \<and> cf_source f = u \<and> \<not> picked (selectedFilterIds c) i}"
proof -
  have fs: "f_url ` set (filters (filtering c)) = set (stored (world c))"
    using assms(2) unfolding lists_sync_def by (metis list.set_map)
  have "u \<in> set (filtersToRemove cat c) \<longleftrightarrow> (\<exists>i f. map_of cat i = Some f \<and> cf_source f = u \<and>
      u \<in> f_url ` set (filters (filtering c)) \<and> \<not> picked (selectedFilterIds c) i)" for u
    unfolding filtersToRemove_def selectedValues_def
    by (auto simp: selectedIds_set catalogSources_iff [OF assms(1)] image_iff) force+
  then show ?thesis unfolding fs by blast
qed

lemma add_all:
  assumes "lists_backend api stored add rem"
  shows "run_state (State_Monad.traverse_list (\<lambda>(url, name). filteringAddURL api url name False) fs) c =
    (replicate (length fs) (Inr ()), c\<lparr>world := fold (\<lambda>(u, n). add u n) fs (world c)\<rparr>)"
proof (induction fs arbitrary: c)
  case (Cons f fs)
  obtain u n where [simp]: "f = (u, n)" by (cases f)
  have "run_state (filteringAddURL api u n False) c = (Inr (), c\<lparr>world := add u n (world c)\<rparr>)" for c
    using assms by (simp add: lists_backend_def)
  then show ?case using Cons.IH by (simp add: State_Monad.return_def)
qed (simp add: State_Monad.return_def)

lemma all_added [simp]:
  "batch_successes (zip fs (replicate (length fs) (Inr ()))) = fs" "batch_failures (zip fs (replicate (length fs) (Inr ()))) = []"
  by (induction fs) (simp_all add: batch_successes_def batch_failures_def)

lemma stored_add_all:
  "lists_backend api stored add rem \<Longrightarrow> stored (fold (\<lambda>(u, n). add u n) fs w) = stored w @ map fst fs"
  by (induction fs arbitrary: w) (auto simp: lists_backend_def)

lemma watched_sel [simp]:
  "filteringAddURL (watched api) = filteringAddURL api" "filteringRemoveURL (watched api) = filteringRemoveURL api"
  by (simp_all add: watched_def)

text \<open>The status request of the watching store: the lists are those of the back end, and the effect is due.\<close>

lemma getFilteringStatus_watched:
  fixes env c
  assumes "lists_backend api stored add rem"
  defines "c' \<equiv> exec (getFilteringStatus env (watched api)) c"
  shows "world c' = world c" "modals c' = modals c" "selectedFilterIds c' = selectedFilterIds c" "listsSet c'"
    "lists_sync stored c'"
proof -
  let ?c = "setState (\<lambda>s. s\<lparr>processingFilters := True\<rparr>) c"
  from assms(1) obtain st where st: "run_state (filteringStatus api) ?c = (Inr st, ?c)"
    "map f_url (normalizeFilters (fs_filters st)) = stored (world ?c)"
    unfolding lists_backend_def by blast
  then have "run_state (filteringStatus (watched api)) ?c = (Inr st, ?c\<lparr>listsSet := True\<rparr>)"
    by (simp add: watched_def run_try_call)
  with st(2) show "world c' = world c" "modals c' = modals c" "selectedFilterIds c' = selectedFilterIds c" "listsSet c'"
    "lists_sync stored c'"
    by (simp_all add: c'_def getFilteringStatus_def run_try_call normalizeFilteringStatus_def Let_def lists_sync_def)
qed

lemma addFiltersBatch_watched:
  fixes env c
  assumes be: "lists_backend api stored add rem" and "fs \<noteq> []"
  defines "c' \<equiv> exec (addFiltersBatch env (watched api) fs) c"
  shows "stored (world c') = stored (world c) @ map fst fs" "modals c' = modals c" "listsSet c'" "lists_sync stored c'"
proof -
  obtain m where m: "batch_message env fs = Some m"
    using \<open>fs \<noteq> []\<close> by (cases fs; cases "hd fs"; cases "tl fs") (auto simp: batch_message_def)
  let ?c = "(setState (\<lambda>s. s\<lparr>processingAddFilter := True\<rparr>) c)\<lparr>world := fold (\<lambda>(u, n). add u n) fs (world c)\<rparr>"
  have "c' = setState (\<lambda>s. s\<lparr>processingAddFilter := False\<rparr>) (exec (getFilteringStatus env (watched api)) (successToast env m ?c))"
    using \<open>fs \<noteq> []\<close> m add_all [OF be] by (simp add: c'_def addFiltersBatch_def Let_def)
  then show "stored (world c') = stored (world c) @ map fst fs" "modals c' = modals c" "listsSet c'" "lists_sync stored c'"
    using getFilteringStatus_watched [OF be, where env = env and c = "successToast env m ?c"] stored_add_all [OF be]
    by (simp_all add: lists_sync_def)
qed

lemma removeFilter_watched:
  fixes env u c
  assumes be: "lists_backend api stored add rem"
  defines "c' \<equiv> exec (removeFilter env (watched api) u False None) c"
  shows "stored (world c') = filter (\<lambda>v. v \<noteq> u) (stored (world c))" "modals c' = modals c" "lists_sync stored c'"
proof -
  have r: "run_state (filteringRemoveURL api u False) c = (Inr (), c\<lparr>world := rem u (world c)\<rparr>)" for c
    using be by (simp add: lists_backend_def)
  have s: "stored (rem u w) = filter (\<lambda>v. v \<noteq> u) (stored w)" for w
    using be by (simp add: lists_backend_def)
  show "stored (world c') = filter (\<lambda>v. v \<noteq> u) (stored (world c))" "modals c' = modals c" "lists_sync stored c'"
    using getFilteringStatus_watched [OF be, where env = env] by (simp_all add: c'_def removeFilter_def run_try_call r s)
qed

lemma remove_each_watched:
  assumes be: "lists_backend api stored add rem"
  shows "stored (world (exec (remove_each env (watched api) us) c)) = filter (\<lambda>v. v \<notin> set us) (stored (world c)) \<and>
    modals (exec (remove_each env (watched api) us) c) = modals c \<and>
    (lists_sync stored c \<longrightarrow> lists_sync stored (exec (remove_each env (watched api) us) c))"
proof (induction us arbitrary: c)
  case (Cons u us)
  show ?case using Cons.IH [of "exec (removeFilter env (watched api) u False None) c"]
      removeFilter_watched [OF be, where env = env and u = u and c = c]
    by (simp add: conj_commute)
qed simp


text \<open>A back end that stores addresses, for the witnesses.\<close>

definition listed_api :: "(string list, 'm) lists_ctx_scheme filtering_api" where
  "listed_api = \<lparr>
     filteringStatus = gets (\<lambda>c. Inr \<lparr>fs_enabled = Some True, fs_interval = Some 24,
        fs_filters = Some (map (\<lambda>u. \<lparr>wf_enabled = True, wf_id = 1, wf_last_updated = None, wf_name = None, wf_rules_count = None,
          wf_url = u\<rparr>) (world c)),
        fs_whitelist_filters = None, fs_user_rules = None\<rparr>),
     filteringSetRules = (\<lambda>_. pass (Inr ())),
     filteringAddURL = (\<lambda>u _ _. do { modify (\<lambda>c. c\<lparr>world := world c @ [u]\<rparr>); pass (Inr ()) }),
     filteringRemoveURL = (\<lambda>u _. do { modify (\<lambda>c. c\<lparr>world := filter (\<lambda>v. v \<noteq> u) (world c)\<rparr>); pass (Inr ()) }),
     filteringSetURL = (\<lambda>_ _ _. pass (Inr ())), filteringRefresh = (\<lambda>_. pass (Inr None)),
     filteringConfig = (\<lambda>_. pass (Inr ())),
     filteringCheckHost = (\<lambda>_. pass (Inl ''no host''))\<rparr>"

lemma listed_api_backend: "lists_backend listed_api id (\<lambda>u _ w. w @ [u]) (\<lambda>u w. filter (\<lambda>v. v \<noteq> u) w)"
  by (simp add: lists_backend_def listed_api_def normalizeFilters_def comp_def)

definition sample_catalog :: catalog where
  "sample_catalog = [(''ads'', \<lparr>cf_name = ''Ads'', cf_categoryId = ''general'', cf_homepage = [], cf_source = ''u1''\<rparr>),
     (''spam'', \<lparr>cf_name = ''Spam'', cf_categoryId = ''security'', cf_homepage = [], cf_source = ''u2''\<rparr>)]"

definition sample_lists :: "(string \<times> bool) list \<Rightarrow> string list lists_ctx" where
  "sample_lists sel = \<lparr>notices = [], undoRegistry = Map.empty, nonce = 1, console_error = [], world = [''u1''],
     filtering = initialState\<lparr>filters := [\<lparr>f_enabled = True, f_id = 1, lastUpdated = None, f_name = ''Ads'', rulesCount = 0,
       f_url = ''u1''\<rparr>]\<rparr>,
     modals = \<lparr>open_modal = Some ADD_BLOCKLIST\<rparr>, selectedFilterIds = sel, listsSet = False\<rparr>"


text \<open>
  Saving the edit window of a block list switches the list off, whatever it was: the request does not carry the switch. The edit
  window of an allow list keeps the switch.
\<close>

theorem edit_window_switch:
  assumes set: "\<And>u d wl c. run_state (filteringSetURL api u d wl) c = (Inr (), c\<lparr>world := put u d wl (world c)\<rparr>)"
    and status: "\<And>c. exec (filteringStatus api) c = c"
  shows "world (exec (blocklist_submit env api cat EDIT_BLOCKLIST v name url) c) =
      put (lv_url v) \<lparr>su_enabled = False, su_name = name, su_url = url\<rparr> False (world c)"
    and "a_url f = lv_url v \<Longrightarrow> fst (validateAndSetErrors env f) \<Longrightarrow>
      world (exec (allowlist_submit env api EDIT_ALLOWLIST (Some v) f) c) =
        put (lv_url v) \<lparr>su_enabled = nullish (lv_enabled v) True, su_name = a_name f, su_url = lv_url v\<rparr> True (world c)"
proof -
  have g: "world (exec (getFilteringStatus env api) c) = world c" for c :: "('a, 'b) lists_ctx_scheme"
    using status by (simp add: getFilteringStatus_def run_try_call Let_def split: sum.splits)
  have e: "world (exec (editFilter env api u d wl) c) = put u d wl (world c)" for u d wl and c :: "('a, 'b) lists_ctx_scheme"
    by (simp add: editFilter_def run_try_call set g)
  show "world (exec (blocklist_submit env api cat EDIT_BLOCKLIST v name url) c) =
      put (lv_url v) \<lparr>su_enabled = False, su_name = name, su_url = url\<rparr> False (world c)"
    by (simp add: blocklist_submit_def wire_bool_def e close_window_def)
  show "world (exec (allowlist_submit env api EDIT_ALLOWLIST (Some v) f) c) =
        put (lv_url v) \<lparr>su_enabled = nullish (lv_enabled v) True, su_name = a_name f, su_url = lv_url v\<rparr> True (world c)"
    if "a_url f = lv_url v" "fst (validateAndSetErrors env f)"
    using that by (auto simp: allowlist_submit_def validateAndSetErrors_def Let_def e close_window_def)
qed

end
