(* ===== verification/Rewrites.thy ===== *)
theory Rewrites
  imports Toasts
begin

section \<open>DNS rewrites store\<close>

text \<open>
  \<^verbatim>\<open>client_v2/src/stores/rewrites.ts\<close>: the list of DNS rewrites, its modal dialog, and the
  lookup of the rewrite that answers for a domain.
\<close>

record RewriteEntry =
  domain :: "string option"
  answer :: "string option"
  entry_enabled :: "bool option"

definition empty_entry :: RewriteEntry where
  "empty_entry = \<lparr>domain = None, answer = None, entry_enabled = None\<rparr>"

record RewritesState =
  processing :: bool
  initialized :: bool
  processingAdd :: bool
  processingDelete :: bool
  processingUpdate :: bool
  processingSettings :: bool
  isModalOpen :: bool
  modalType :: string
  currentRewrite :: RewriteEntry
  rewrites_list :: "RewriteEntry list"
  enabled :: bool

definition initialState :: RewritesState where
  "initialState = \<lparr>processing = True, initialized = False, processingAdd = False,
     processingDelete = False, processingUpdate = False, processingSettings = False,
     isModalOpen = False, modalType = [], currentRewrite = empty_entry, rewrites_list = [],
     enabled = True\<rparr>"

text \<open>The undo closure of \<open>deleteRewrite\<close>: the entry it adds again.\<close>

datatype rewrites_undo = UndoDelete RewriteEntry

record 'w rewrites_ctx = "(rewrites_undo, 'w) ctx" +
  rewritesStore :: RewritesState

interpretation rewrites_frame: toast_frame rewritesStore
  by unfold_locales simp_all

record 'c rewrites_api =
  rewriteList :: "('c, RewriteEntry list option) call"
  rewriteAdd :: "RewriteEntry \<Rightarrow> ('c, unit) call"
  rewriteUpdate :: "RewriteEntry \<Rightarrow> RewriteEntry \<Rightarrow> ('c, unit) call"
  rewriteDelete :: "RewriteEntry \<Rightarrow> ('c, unit) call"
  rewriteSettingsGet :: "('c, bool option) call"
  rewriteSettingsUpdate :: "bool \<Rightarrow> ('c, unit) call"

abbreviation setState ::
  "(RewritesState \<Rightarrow> RewritesState) \<Rightarrow> ('w, 'm) rewrites_ctx_scheme \<Rightarrow> ('w, 'm) rewrites_ctx_scheme" where
  "setState f c \<equiv> c\<lparr>rewritesStore := f (rewritesStore c)\<rparr>"

definition toggleRewritesModal ::
  "string option \<Rightarrow> RewriteEntry option \<Rightarrow> ('w, 'm) rewrites_ctx_scheme \<Rightarrow> ('w, 'm) rewrites_ctx_scheme" where
  "toggleRewritesModal mt cur =
     (case mt of
        Some t \<Rightarrow> setState (\<lambda>s. s\<lparr>isModalOpen := \<not> isModalOpen s, modalType := t,
                    currentRewrite := nullish cur empty_entry\<rparr>)
      | None \<Rightarrow> setState (\<lambda>s. s\<lparr>isModalOpen := \<not> isModalOpen s\<rparr>))"

definition getRewritesList ::
  "env \<Rightarrow> ('w, 'm) rewrites_ctx_scheme rewrites_api \<Rightarrow> (('w, 'm) rewrites_ctx_scheme, unit) state" where
  "getRewritesList env api = do {
     modify (setState (\<lambda>s. s\<lparr>processing := True\<rparr>));
     try_call (rewriteList api)
       (\<lambda>data. modify (setState (\<lambda>s. s\<lparr>rewrites_list := nullish data [], processing := False, initialized := True\<rparr>)))
       (\<lambda>e. do {
          modify (errorToast env e);
          modify (setState (\<lambda>s. s\<lparr>processing := False, initialized := True\<rparr>)) }) }"

definition addRewrite ::
  "env \<Rightarrow> ('w, 'm) rewrites_ctx_scheme rewrites_api \<Rightarrow> RewriteEntry
     \<Rightarrow> (('w, 'm) rewrites_ctx_scheme, unit) state" where
  "addRewrite env api config = do {
     modify (setState (\<lambda>s. s\<lparr>processingAdd := True\<rparr>));
     try_call (rewriteAdd api config)
       (\<lambda>_. do {
          modify (setState (\<lambda>s. s\<lparr>processingAdd := False\<rparr>));
          modify (toggleRewritesModal None None);
          modify (successToast env (msg env ''changes_saved_success''));
          getRewritesList env api })
       (\<lambda>e. do {
          modify (errorToast env e);
          modify (setState (\<lambda>s. s\<lparr>processingAdd := False\<rparr>)) }) }"

record update_options =
  showToast :: "bool option"
  closeModal :: "bool option"

definition updateRewrite ::
  "env \<Rightarrow> ('w, 'm) rewrites_ctx_scheme rewrites_api \<Rightarrow> RewriteEntry \<Rightarrow> RewriteEntry \<Rightarrow> update_options
     \<Rightarrow> (('w, 'm) rewrites_ctx_scheme, bool) state" where
  "updateRewrite env api target update options = do {
     modify (setState (\<lambda>s. s\<lparr>processingUpdate := True\<rparr>));
     try_call (rewriteUpdate api target update)
       (\<lambda>_. do {
          modify (setState (\<lambda>s. s\<lparr>processingUpdate := False\<rparr>));
          (if closeModal options \<noteq> Some False then modify (toggleRewritesModal None None) else pass ());
          modify (successToast env (msg env ''changes_saved_success''));
          getRewritesList env api;
          pass True })
       (\<lambda>e. do {
          modify (errorToast env e);
          modify (setState (\<lambda>s. s\<lparr>processingUpdate := False\<rparr>));
          pass False }) }"

definition deleteRewrite ::
  "env \<Rightarrow> ('w, 'm) rewrites_ctx_scheme rewrites_api \<Rightarrow> RewriteEntry \<Rightarrow> bool
     \<Rightarrow> (('w, 'm) rewrites_ctx_scheme, bool) state" where
  "deleteRewrite env api config withUndo = do {
     modify (setState (\<lambda>s. s\<lparr>processingDelete := True\<rparr>));
     try_call (rewriteDelete api config)
       (\<lambda>_. do {
          modify (setState (\<lambda>s. s\<lparr>processingDelete := False\<rparr>));
          (let m = msg env ''user_rules_dns_rewrite_removed''
           in if withUndo then modify (undoToast env m (UndoDelete config))
              else modify (successToast env m));
          getRewritesList env api;
          pass True })
       (\<lambda>e. do {
          modify (errorToast env e);
          modify (setState (\<lambda>s. s\<lparr>processingDelete := False\<rparr>));
          pass False }) }"

text \<open>The closure that \<open>deleteRewrite\<close> registers; a rejected \<open>rewriteAdd\<close> rejects it.\<close>

definition runUndo ::
  "env \<Rightarrow> ('w, 'm) rewrites_ctx_scheme rewrites_api \<Rightarrow> rewrites_undo
     \<Rightarrow> (('w, 'm) rewrites_ctx_scheme, unit) call" where
  "runUndo env api u =
     (case u of UndoDelete config \<Rightarrow>
        try_call (rewriteAdd api config)
          (\<lambda>_. do { getRewritesList env api; pass (Inr ()) })
          (\<lambda>e. pass (Inl e)))"

definition getRewriteSettings ::
  "env \<Rightarrow> ('w, 'm) rewrites_ctx_scheme rewrites_api \<Rightarrow> (('w, 'm) rewrites_ctx_scheme, unit) state" where
  "getRewriteSettings env api = do {
     modify (setState (\<lambda>s. s\<lparr>processingSettings := True\<rparr>));
     try_call (rewriteSettingsGet api)
       (\<lambda>en. modify (setState (\<lambda>s. s\<lparr>enabled := nullish en True, processingSettings := False\<rparr>)))
       (\<lambda>e. do {
          modify (errorToast env e);
          modify (setState (\<lambda>s. s\<lparr>processingSettings := False\<rparr>)) }) }"

definition updateRewriteSettings ::
  "env \<Rightarrow> ('w, 'm) rewrites_ctx_scheme rewrites_api \<Rightarrow> bool \<Rightarrow> (('w, 'm) rewrites_ctx_scheme, unit) state" where
  "updateRewriteSettings env api en = do {
     modify (setState (\<lambda>s. s\<lparr>processingSettings := True\<rparr>));
     try_call (rewriteSettingsUpdate api en)
       (\<lambda>_. modify (setState (\<lambda>s. s\<lparr>enabled := en, processingSettings := False\<rparr>)))
       (\<lambda>e. do {
          modify (errorToast env e);
          modify (setState (\<lambda>s. s\<lparr>processingSettings := False\<rparr>)) }) }"

text \<open>The third search of \<open>findRewriteRuleByDomain\<close>: a wildcard over a parent domain.\<close>

definition wildcard_covers :: "string \<Rightarrow> RewriteEntry \<Rightarrow> bool" where
  "wildcard_covers d r =
     (case domain r of
        None \<Rightarrow> False
      | Some p \<Rightarrow> startsWith p ''*.'' \<and> endsWith d (drop 1 p))"

definition find_rewrite :: "RewriteEntry list \<Rightarrow> string \<Rightarrow> RewriteEntry option" where
  "find_rewrite rs d =
     (case find (\<lambda>r. domain r = Some d) rs of
        Some exact \<Rightarrow> Some exact
      | None \<Rightarrow>
          (case find (\<lambda>r. domain r = Some (''*.'' @ d)) rs of
             Some wildcard \<Rightarrow> Some wildcard
           | None \<Rightarrow> find (wildcard_covers d) rs))"

definition findRewriteRuleByDomain :: "string \<Rightarrow> ('w, 'm) rewrites_ctx_scheme \<Rightarrow> RewriteEntry option" where
  "findRewriteRuleByDomain d c = find_rewrite (rewrites_list (rewritesStore c)) d"

subsection \<open>Theorems\<close>

text \<open>When an entry is about a domain at all, in the three ways the lookup knows.\<close>

definition rewrite_applies :: "string \<Rightarrow> RewriteEntry \<Rightarrow> bool" where
  "rewrite_applies d r \<longleftrightarrow>
     domain r = Some d \<or> domain r = Some (''*.'' @ d) \<or>
     (\<exists>base sub. domain r = Some (''*.'' @ base) \<and> d = sub @ ''.'' @ base)"

lemma wildcard_covers_iff:
  "wildcard_covers d r \<longleftrightarrow> (\<exists>base sub. domain r = Some (''*.'' @ base) \<and> d = sub @ ''.'' @ base)"
  by (auto simp: wildcard_covers_def startsWith_iff endsWith_iff split: option.splits)

text \<open>
  The lookup of the rewrite behind a query finds an entry exactly when one applies (the
  domain itself, its own wildcard, or a wildcard of a parent domain); what it returns is an
  entry of the list that applies, and an exact entry wins over every wildcard.
\<close>

theorem find_rewrite_correct:
  "(find_rewrite rs d = None \<longleftrightarrow> (\<forall>r\<in>set rs. \<not> rewrite_applies d r)) \<and>
   (\<forall>r. find_rewrite rs d = Some r \<longrightarrow> r \<in> set rs \<and> rewrite_applies d r \<and>
      ((\<exists>e\<in>set rs. domain e = Some d) \<longrightarrow> domain r = Some d))"
  by (auto simp: find_rewrite_def rewrite_applies_def wildcard_covers_iff
      find_None_iff split: option.splits dest!: find_SomeD)

definition sample_rewrites :: "RewriteEntry list" where
  "sample_rewrites =
     [\<lparr>domain = Some ''*.lan'', answer = Some ''10.0.0.1'', entry_enabled = None\<rparr>,
      \<lparr>domain = Some ''nas.lan'', answer = Some ''10.0.0.2'', entry_enabled = None\<rparr>]"

theorem find_rewrite_correct_witness:
  "map_option answer (find_rewrite sample_rewrites ''nas.lan'') = Some (Some ''10.0.0.2'')"
  using find_rewrite_correct [of sample_rewrites "''nas.lan''"]
  by (simp add: find_rewrite_def sample_rewrites_def)

text \<open>
  \<open>updateRewrite\<close> ignores its \<open>showToast\<close> option: a successful update always adds the
  ``changes saved'' toast, also for a caller that asked for none.
\<close>

theorem updateRewrite_ignores_showToast:
  "updateRewrite env api target upd \<lparr>showToast = Some False, closeModal = cm\<rparr>
     = updateRewrite env api target upd \<lparr>showToast = Some True, closeModal = cm\<rparr>"
  by (simp add: updateRewrite_def)

text \<open>
  Deleting a rewrite with undo and clicking the undo button sends the very entry that was
  deleted back to the backend: against a backend that keeps a list of entries, the list ends as it
  began up to the position of that entry.
\<close>

theorem deleteRewrite_undo:
  assumes lst: "\<And>d. run_state (rewriteList api) d = (Inr (Some (stored (world d))), d)"
    and del: "\<And>e d. run_state (rewriteDelete api e) d = (Inr (), d\<lparr>world := put (remove1 e (stored (world d)))\<rparr>)"
    and add: "\<And>e d. run_state (rewriteAdd api e) d = (Inr (), d\<lparr>world := put (stored (world d) @ [e])\<rparr>)"
    and put: "\<And>xs. stored (put xs) = xs"
    and ids: "\<And>k. nanoid env k \<noteq> []"
    and listed: "entry \<in> set (stored (world c))"
  shows "let c1 = exec (deleteRewrite env api entry True) c;
             c2 = exec (handleAction (runUndo env api) (last (notices c1))) c1
         in rewrites_list (rewritesStore c1) = remove1 entry (stored (world c)) \<and>
            rewrites_list (rewritesStore c2) = remove1 entry (stored (world c)) @ [entry]"
  by (simp add: deleteRewrite_def run_try_call del add lst put ids getRewritesList_def Let_def
      undoToast_def createUndoToast_def addSuccessToast_def success_notice_def
      handleAction_def getUndoCallback_def runUndo_def clearUndoCallback_def removeToast_def)

definition stored_api :: "(RewriteEntry list, 'm) rewrites_ctx_scheme rewrites_api" where
  "stored_api = \<lparr>rewriteList = gets (\<lambda>c. Inr (Some (world c))),
     rewriteAdd = (\<lambda>e. do { modify (\<lambda>c. c\<lparr>world := world c @ [e]\<rparr>); pass (Inr ()) }),
     rewriteUpdate = (\<lambda>_ _. pass (Inr ())),
     rewriteDelete = (\<lambda>e. do { modify (\<lambda>c. c\<lparr>world := remove1 e (world c)\<rparr>); pass (Inr ()) }),
     rewriteSettingsGet = pass (Inr None), rewriteSettingsUpdate = (\<lambda>_. pass (Inr ()))\<rparr>"

definition sample_ctx :: "RewriteEntry list rewrites_ctx" where
  "sample_ctx = \<lparr>notices = [], undoRegistry = Map.empty, nonce = 1, console_error = [],
     world = sample_rewrites, rewritesStore = initialState\<rparr>"

theorem deleteRewrite_undo_witness:
  "let env = sample_env\<lparr>nanoid := (\<lambda>n. ''id'')\<rparr>;
       c1 = exec (deleteRewrite env stored_api (hd sample_rewrites) True) sample_ctx;
       c2 = exec (handleAction (runUndo env stored_api) (last (notices c1))) c1
   in rewrites_list (rewritesStore c2) = rev sample_rewrites"
proof -
  have "\<And>k. nanoid (sample_env\<lparr>nanoid := (\<lambda>n. ''id'')\<rparr>) k \<noteq> []" by simp
  from deleteRewrite_undo [of stored_api id id "sample_env\<lparr>nanoid := (\<lambda>n. ''id'')\<rparr>"
      "hd sample_rewrites" sample_ctx, OF _ _ _ _ this]
  show ?thesis by (simp add: stored_api_def sample_ctx_def sample_rewrites_def Let_def)
qed

end
