(* ===== verification/RewritesPage.thy ===== *)
theory RewritesPage
  imports Modals DataTable Rewrites
begin

section \<open>The page of DNS rewrites\<close>

text \<open>
  \<^verbatim>\<open>client_v2/src/components/FilterLists/DNSRewrites.tsx\<close> and its windows
  \<^verbatim>\<open>ConfigureRewritesModal.tsx\<close> and \<^verbatim>\<open>DeleteRewriteModal.tsx\<close>, with the table
  \<^verbatim>\<open>RewritesTable.tsx\<close>. The theorems show that the form sends valid rewrites only and keeps the list free of
  duplicates.
\<close>

subsection \<open>The form\<close>

record rewrite_form =
  rf_domain :: string
  rf_answer :: string
  rf_domainError :: validation
  rf_answerError :: validation

definition empty_form :: rewrite_form where
  "empty_form = \<lparr>rf_domain = [], rf_answer = [], rf_domainError = None, rf_answerError = None\<rparr>"

definition form_effect :: "RewriteEntry option \<Rightarrow> rewrite_form \<Rightarrow> rewrite_form" where
  "form_effect rewriteToEdit f = f\<lparr>
     rf_domain := nullish (Option.bind rewriteToEdit domain) [],
     rf_answer := nullish (Option.bind rewriteToEdit answer) []\<rparr>"

definition type_domain :: "string \<Rightarrow> rewrite_form \<Rightarrow> rewrite_form" where
  "type_domain t f = f\<lparr>rf_domain := t, rf_domainError := None, rf_answerError := None\<rparr>"

definition type_answer :: "string \<Rightarrow> rewrite_form \<Rightarrow> rewrite_form" where
  "type_answer t f = f\<lparr>rf_answer := t, rf_answerError := None\<rparr>"

definition error_or_none :: "validation \<Rightarrow> validation" where
  "error_or_none e = (if truthy_str e then e else None)"

definition validateDomainField :: "env \<Rightarrow> rewrite_form \<Rightarrow> bool \<times> rewrite_form" where
  "validateDomainField env f =
     (let err = or_validation (validateRequiredValue env (VString (rf_domain f))) (validateDomain env (Some (rf_domain f)))
      in (\<not> truthy_str err, f\<lparr>rf_domainError := error_or_none err\<rparr>))"

abbreviation pair_of :: "RewriteEntry \<Rightarrow> rewrite_pair" where
  "pair_of r \<equiv> (domain r, answer r)"

definition validateAnswerField ::
  "env \<Rightarrow> ip_lib \<Rightarrow> RewriteEntry list \<Rightarrow> RewriteEntry option \<Rightarrow> rewrite_form \<Rightarrow> bool \<times> rewrite_form" where
  "validateAnswerField env lib entries rewriteToEdit f =
     (let err =
        or_validation (validateRequiredValue env (VString (rf_answer f)))
        (or_validation (validateAnswer env lib (Some (rf_answer f)))
        (or_validation (validateRewriteNotSame env (rf_domain f) (rf_answer f))
        (validateRewriteNotExists env (rf_domain f) (rf_answer f) (map pair_of entries) (map_option pair_of rewriteToEdit))))
      in (\<not> truthy_str err, f\<lparr>rf_answerError := error_or_none err\<rparr>))"

definition hasErrors :: "rewrite_form \<Rightarrow> bool" where
  "hasErrors f \<longleftrightarrow> truthy_str (rf_domainError f) \<or> truthy_str (rf_answerError f)"

definition save_disabled :: "RewritesState \<Rightarrow> rewrite_form \<Rightarrow> bool" where
  "save_disabled s f \<longleftrightarrow> processingAdd s \<or> processingUpdate s \<or> processing s \<or> hasErrors f"

subsection \<open>Saving\<close>

record 'w rewrites_page = "'w rewrites_ctx" +
  page_modals :: ModalsState

interpretation page_modals_frame: toast_frame page_modals
  by unfold_locales simp_all

definition page_close :: "('w, 'm) rewrites_page_scheme \<Rightarrow> ('w, 'm) rewrites_page_scheme" where
  "page_close c = c\<lparr>page_modals := Modals.closeModal (page_modals c)\<rparr>"

definition page_open :: "modal_type \<Rightarrow> ('w, 'm) rewrites_page_scheme \<Rightarrow> ('w, 'm) rewrites_page_scheme" where
  "page_open m c = c\<lparr>page_modals := openModal m (page_modals c)\<rparr>"

text \<open>The optional callbacks of the window: \<open>onSubmit\<close> answers \<open>Some False\<close> to keep the window open.\<close>

record 'c window_props =
  wp_modalId :: modal_type
  rewriteToEdit :: "RewriteEntry option"
  onSubmit :: "(RewriteEntry \<Rightarrow> ('c, bool option) state) option"
  onClose :: "('c \<Rightarrow> 'c) option"

definition closeDialog ::
  "('w, 'm) rewrites_page_scheme window_props \<Rightarrow> (('w, 'm) rewrites_page_scheme, rewrite_form) state" where
  "closeDialog props = do {
     modify (nullish (onClose props) id);
     modify page_close;
     pass empty_form }"

definition handleCancel ::
  "('w, 'm) rewrites_page_scheme window_props \<Rightarrow> (('w, 'm) rewrites_page_scheme, rewrite_form) state" where
  "handleCancel props = do {
     modify (nullish (onClose props) id);
     modify page_close;
     pass (form_effect (rewriteToEdit props) empty_form) }"

definition default_options :: update_options where
  "default_options = \<lparr>showToast = None, closeModal = None\<rparr>"

definition handleFormSubmit ::
  "env \<Rightarrow> ip_lib \<Rightarrow> ('w, 'm) rewrites_page_scheme rewrites_api \<Rightarrow> ('w, 'm) rewrites_page_scheme window_props \<Rightarrow> rewrite_form
     \<Rightarrow> (('w, 'm) rewrites_page_scheme, rewrite_form) state" where
  "handleFormSubmit env lib api props f0 = do {
     entries \<leftarrow> gets (\<lambda>c. rewrites_list (rewritesStore c));
     (let (domainValid, f1) = validateDomainField env f0;
          (answerValid, f) = validateAnswerField env lib entries (rewriteToEdit props) f1
      in if \<not> domainValid \<or> \<not> answerValid then pass f
         else
           (case onSubmit props of
              Some submit \<Rightarrow> do {
                shouldClose \<leftarrow> submit \<lparr>domain = Some (rf_domain f), answer = Some (rf_answer f),
                  entry_enabled = Some (nullish (Option.bind (rewriteToEdit props) entry_enabled) False)\<rparr>;
                (if shouldClose \<noteq> Some False then closeDialog props else pass f) }
            | None \<Rightarrow>
                if wp_modalId props = ADD_REWRITE then do {
                  addRewrite env api \<lparr>domain = Some (rf_domain f), answer = Some (rf_answer f), entry_enabled = Some True\<rparr>;
                  closeDialog props }
                else if wp_modalId props = EDIT_REWRITE then do {
                  updateRewrite env api (nullish (rewriteToEdit props) empty_entry)
                    \<lparr>domain = Some (rf_domain f), answer = Some (rf_answer f),
                     entry_enabled = Some (nullish (Option.bind (rewriteToEdit props) entry_enabled) False)\<rparr> default_options;
                  closeDialog props }
                else pass f)) }"

subsection \<open>The page\<close>

record page_signals =
  current :: RewriteEntry
  isConfirmOpen :: bool
  targetEnabled :: "bool option"
  settingsLoaded :: bool

definition blank_rewrite :: RewriteEntry where
  "blank_rewrite = \<lparr>domain = Some [], answer = Some [], entry_enabled = Some False\<rparr>"

definition settings_effect :: "RewritesState \<Rightarrow> page_signals \<Rightarrow> page_signals" where
  "settings_effect s p = (if \<not> processingSettings s \<and> \<not> settingsLoaded p then p\<lparr>settingsLoaded := True\<rparr> else p)"

definition isInitialSettingsLoad :: "RewritesState \<Rightarrow> page_signals \<Rightarrow> bool" where
  "isInitialSettingsLoad s p \<longleftrightarrow> processingSettings s \<and> \<not> settingsLoaded p"

definition page_mount ::
  "env \<Rightarrow> ('w, 'm) rewrites_page_scheme rewrites_api \<Rightarrow> (('w, 'm) rewrites_page_scheme, unit) state" where
  "page_mount env api = do { getRewritesList env api; getRewriteSettings env api }"

definition openEditRewriteModal :: "RewriteEntry \<Rightarrow> page_signals \<Rightarrow> (('w, 'm) rewrites_page_scheme, page_signals) state" where
  "openEditRewriteModal r p = do { modify (page_open EDIT_REWRITE); pass (p\<lparr>current := r\<rparr>) }"

definition openDeleteRewriteModal :: "RewriteEntry \<Rightarrow> page_signals \<Rightarrow> (('w, 'm) rewrites_page_scheme, page_signals) state" where
  "openDeleteRewriteModal r p = do { modify (page_open DELETE_REWRITE); pass (p\<lparr>current := r\<rparr>) }"

definition toggleRewrite ::
  "env \<Rightarrow> ('w, 'm) rewrites_page_scheme rewrites_api \<Rightarrow> RewriteEntry \<Rightarrow> (('w, 'm) rewrites_page_scheme, bool) state" where
  "toggleRewrite env api r = updateRewrite env api r (r\<lparr>entry_enabled := Some (\<not> nullish (entry_enabled r) False)\<rparr>) default_options"

definition openGlobalToggleConfirm :: "bool \<Rightarrow> page_signals \<Rightarrow> page_signals" where
  "openGlobalToggleConfirm v p = p\<lparr>targetEnabled := Some v, isConfirmOpen := True\<rparr>"

definition closeGlobalToggleConfirm :: "page_signals \<Rightarrow> page_signals" where
  "closeGlobalToggleConfirm p = p\<lparr>isConfirmOpen := False, targetEnabled := None\<rparr>"

definition confirmGlobalToggle ::
  "env \<Rightarrow> ('w, 'm) rewrites_page_scheme rewrites_api \<Rightarrow> page_signals \<Rightarrow> (('w, 'm) rewrites_page_scheme, page_signals) state" where
  "confirmGlobalToggle env api p =
     (case targetEnabled p of
        None \<Rightarrow> pass p
      | Some v \<Rightarrow> do { updateRewriteSettings env api v; pass (closeGlobalToggleConfirm p) })"

definition handleDeleteClose ::
  "('c \<Rightarrow> 'c) option \<Rightarrow> page_signals \<Rightarrow> ('c \<Rightarrow> 'c) \<Rightarrow> ('c, page_signals) state" where
  "handleDeleteClose onclose p close = do {
     modify (nullish onclose id);
     modify close;
     pass (p\<lparr>current := blank_rewrite\<rparr>) }"

definition handleDeleteConfirm ::
  "env \<Rightarrow> ('w, 'm) rewrites_page_scheme rewrites_api \<Rightarrow> (('w, 'm) rewrites_page_scheme, bool option) state option
     \<Rightarrow> (('w, 'm) rewrites_page_scheme \<Rightarrow> ('w, 'm) rewrites_page_scheme) option \<Rightarrow> page_signals
     \<Rightarrow> (('w, 'm) rewrites_page_scheme, page_signals) state" where
  "handleDeleteConfirm env api onConfirm onclose p =
     (case onConfirm of
        Some confirm \<Rightarrow> do {
          shouldClose \<leftarrow> confirm;
          (if shouldClose \<noteq> Some False then handleDeleteClose onclose p page_close else pass p) }
      | None \<Rightarrow> do {
          deleteRewrite env api (current p) False;
          handleDeleteClose onclose p page_close })"

definition sortedList :: "direction \<Rightarrow> RewriteEntry list \<Rightarrow> RewriteEntry list" where
  "sortedList dir rs = sort_by (by_text (\<lambda>r. nullish (domain r) []) dir) rs"

subsection \<open>Valid rewrites only, and no duplicates\<close>

definition rewrite_key :: "RewriteEntry \<Rightarrow> string \<times> string" where
  "rewrite_key r = (normalizeRewriteValue (domain r), normalizeRewriteValue (answer r))"

definition no_duplicates :: "RewriteEntry list \<Rightarrow> bool" where
  "no_duplicates rs \<longleftrightarrow> distinct (map rewrite_key rs)"

text \<open>What the form accepts.\<close>

definition acceptable :: "ip_lib \<Rightarrow> RewriteEntry list \<Rightarrow> RewriteEntry option \<Rightarrow> rewrite_form \<Rightarrow> bool" where
  "acceptable lib entries toEdit f \<longleftrightarrow>
     matches R_HOST (rf_domain f) \<and> (matches R_IPV4 (rf_answer f) \<or> isValidIpv6 lib (rf_answer f) \<or> matches R_HOST (rf_answer f)) \<and>
     trim (rf_domain f) \<noteq> [] \<and> trim (rf_answer f) \<noteq> [] \<and> toLowerCase (rf_domain f) \<noteq> toLowerCase (rf_answer f) \<and>
     (let k = rewrite_key \<lparr>domain = Some (rf_domain f), answer = Some (rf_answer f), entry_enabled = None\<rparr>
      in k \<in> rewrite_key ` set entries \<longrightarrow> k \<in> rewrite_key ` set_option toEdit)"

lemma validateRewriteNotExists_key:
  assumes "\<forall>k. msg env k \<noteq> []" "d \<noteq> []" "a \<noteq> []"
  shows "\<not> truthy_str (validateRewriteNotExists env d a (map pair_of entries) (map_option pair_of toEdit)) \<longleftrightarrow>
    (let k = rewrite_key \<lparr>domain = Some d, answer = Some a, entry_enabled = None\<rparr>
     in k \<in> rewrite_key ` set entries \<longrightarrow> k \<in> rewrite_key ` set_option toEdit)"
  unfolding validateRewriteNotExists_def using assms
  by (cases toEdit) (auto simp: same_rewrite_def rewrite_key_def Let_def truthy_str_def intro: rev_image_eqI)

lemma fields_valid:
  assumes "\<forall>k. msg env k \<noteq> []"
  shows "fst (validateDomainField env f) \<and> fst (validateAnswerField env lib entries toEdit f) \<longleftrightarrow> acceptable lib entries toEdit f"
proof (cases "trim (rf_domain f) = [] \<or> trim (rf_answer f) = []")
  case True
  then show ?thesis using assms
    by (auto simp: validateDomainField_def validateAnswerField_def acceptable_def Let_def truthy_simps validateRequiredValue_def)
next
  case False
  then have ne: "rf_domain f \<noteq> []" "rf_answer f \<noteq> []" by auto
  show ?thesis using False assms ne validateRewriteNotExists_key [OF assms ne, of entries toEdit]
    by (auto simp: validateDomainField_def validateAnswerField_def acceptable_def Let_def truthy_simps validateRequiredValue_def
        validateDomain_def validateAnswer_def validateRewriteNotSame_def)
qed

text \<open>
  The server's handlers (\<^verbatim>\<open>internal/filtering/rewrites.go\<close>, \<^verbatim>\<open>rewritehttp.go\<close>): an entry is normalised before it is stored, its
  domain in lower case, and may be refused; \<open>badAnswer\<close> is the error for an answer that is neither an address nor a domain name. A
  change looks for the entry with the domain and the answer of its target and puts the new entry in its place.
\<close>

definition normalize_rewrite :: "(string \<Rightarrow> string option) \<Rightarrow> RewriteEntry \<Rightarrow> string + RewriteEntry" where
  "normalize_rewrite badAnswer e =
     (let a = nullish (answer e) []; n = e\<lparr>domain := Some (toLowerCase (nullish (domain e) [])), answer := Some a\<rparr>
      in if a = ''AAAA'' \<or> a = ''A'' then Inr n else case badAnswer a of Some err \<Rightarrow> Inl err | None \<Rightarrow> Inr n)"

definition handleRewriteAdd :: "(string \<Rightarrow> string option) \<Rightarrow> RewriteEntry \<Rightarrow> RewriteEntry list \<Rightarrow> string + RewriteEntry list" where
  "handleRewriteAdd badAnswer e rs =
     (case normalize_rewrite badAnswer (e\<lparr>entry_enabled := Some (nullish (entry_enabled e) True)\<rparr>) of
        Inl err \<Rightarrow> Inl err
      | Inr n \<Rightarrow> Inr (rs @ [n]))"

definition index_of_rewrite :: "RewriteEntry \<Rightarrow> RewriteEntry list \<Rightarrow> nat" where
  "index_of_rewrite t rs = length (takeWhile (\<lambda>r. \<not> (domain r = domain t \<and> answer r = answer t)) rs)"

definition handleRewriteUpdate ::
  "(string \<Rightarrow> string option) \<Rightarrow> RewriteEntry \<Rightarrow> RewriteEntry \<Rightarrow> RewriteEntry list \<Rightarrow> string + RewriteEntry list" where
  "handleRewriteUpdate badAnswer t u rs =
     (case normalize_rewrite badAnswer u of
        Inl err \<Rightarrow> Inl err
      | Inr n \<Rightarrow>
          let i = index_of_rewrite t rs
          in if i = length rs then Inl ''target rule not found''
             else Inr (rs[i := n\<lparr>entry_enabled := (if entry_enabled u = None then entry_enabled (rs ! i) else entry_enabled u)\<rparr>]))"

text \<open>The endpoints carry out the handlers on the entries \<open>stored\<close> in the server; a refusal changes nothing.\<close>

definition answers ::
  "('w, 'm) rewrites_page_scheme \<Rightarrow> ('w \<Rightarrow> RewriteEntry list) \<Rightarrow> string + RewriteEntry list
     \<Rightarrow> (string + unit) \<times> ('w, 'm) rewrites_page_scheme \<Rightarrow> bool" where
  "answers c stored r run =
     (case r of
        Inl err \<Rightarrow> run = (Inl err, c)
      | Inr rs \<Rightarrow> \<exists>w. run = (Inr (), c\<lparr>world := w\<rparr>) \<and> stored w = rs)"

definition rewrites_backend ::
  "('w, 'm) rewrites_page_scheme rewrites_api \<Rightarrow> (string \<Rightarrow> string option) \<Rightarrow> ('w \<Rightarrow> RewriteEntry list) \<Rightarrow> bool" where
  "rewrites_backend api badAnswer stored \<longleftrightarrow>
     (\<forall>c. run_state (rewriteList api) c = (Inr (Some (stored (world c))), c)) \<and>
     (\<forall>e c. answers c stored (handleRewriteAdd badAnswer e (stored (world c))) (run_state (rewriteAdd api e) c)) \<and>
     (\<forall>t u c. answers c stored (handleRewriteUpdate badAnswer t u (stored (world c))) (run_state (rewriteUpdate api t u) c))"

definition page_sync :: "('w \<Rightarrow> RewriteEntry list) \<Rightarrow> ('w, 'm) rewrites_page_scheme \<Rightarrow> bool" where
  "page_sync stored c \<longleftrightarrow> rewrites_list (rewritesStore c) = stored (world c)"

lemma getRewritesList_sync:
  assumes "rewrites_backend api badAnswer stored"
  shows "world (exec (getRewritesList env api) c) = world c" "page_sync stored (exec (getRewritesList env api) c)"
  using assms by (simp_all add: getRewritesList_def run_try_call rewrites_backend_def page_sync_def)

lemma toggleRewritesModal_world [simp]: "world (toggleRewritesModal a b c) = world c"
  by (simp add: toggleRewritesModal_def split: option.splits)

text \<open>What the page and the server are after a request with the answer \<open>r\<close>.\<close>

definition settled ::
  "('w \<Rightarrow> RewriteEntry list) \<Rightarrow> string + RewriteEntry list \<Rightarrow> ('w, 'm) rewrites_page_scheme \<Rightarrow> ('w, 'm) rewrites_page_scheme \<Rightarrow> bool" where
  "settled stored r c c' \<longleftrightarrow> page_sync stored c' \<and>
     (case r of
        Inl err \<Rightarrow> world c' = world c \<and> err \<in> message ` set (notices c')
      | Inr rs \<Rightarrow> stored (world c') = rs)"

lemma addRewrite_settled:
  assumes be: "rewrites_backend api badAnswer stored" and sync: "page_sync stored c"
  shows "settled stored (handleRewriteAdd badAnswer e (stored (world c))) c (exec (addRewrite env api e) c)"
proof -
  let ?c = "setState (\<lambda>s. s\<lparr>processingAdd := True\<rparr>) c"
  have "answers ?c stored (handleRewriteAdd badAnswer e (stored (world ?c))) (run_state (rewriteAdd api e) ?c)"
    using be unfolding rewrites_backend_def by blast
  then show ?thesis using sync getRewritesList_sync [OF be] error_shown
    by (cases "handleRewriteAdd badAnswer e (stored (world c))")
      (auto simp: answers_def settled_def addRewrite_def run_try_call page_sync_def)
qed

lemma updateRewrite_settled:
  assumes be: "rewrites_backend api badAnswer stored" and sync: "page_sync stored c"
  shows "settled stored (handleRewriteUpdate badAnswer t u (stored (world c))) c (exec (updateRewrite env api t u opts) c)"
proof -
  let ?c = "setState (\<lambda>s. s\<lparr>processingUpdate := True\<rparr>) c"
  have "answers ?c stored (handleRewriteUpdate badAnswer t u (stored (world ?c))) (run_state (rewriteUpdate api t u) ?c)"
    using be unfolding rewrites_backend_def by blast
  then show ?thesis using sync getRewritesList_sync [OF be] error_shown
    by (cases "handleRewriteUpdate badAnswer t u (stored (world c))")
      (auto simp: answers_def settled_def updateRewrite_def run_try_call page_sync_def)
qed

lemma lower_lower [simp]: "lower_char (lower_char c) = lower_char c"
  by (auto simp: lower_char_def is_upper_def code_def)

lemma is_space_lower [simp]: "is_space (lower_char c) = is_space c"
  by (auto simp: lower_char_def is_upper_def is_space_def code_def)

lemma normalize_lower: "normalizeRewriteValue (Some (toLowerCase d)) = normalizeRewriteValue (Some d)"
  by (simp add: normalizeRewriteValue_def toLowerCase_def trim_def trimStart_def dropWhile_map rev_map comp_def)

lemma normalize_rewrite_key:
  "normalize_rewrite badAnswer e = Inr n \<Longrightarrow> rewrite_key n = rewrite_key e \<and> entry_enabled n = entry_enabled e"
  using normalize_lower [of "nullish (domain e) []"]
  by (auto simp: normalize_rewrite_def rewrite_key_def Let_def normalizeRewriteValue_def split: if_splits option.splits)

lemma handleRewriteAdd_distinct:
  assumes "no_duplicates rs" "rewrite_key e \<notin> rewrite_key ` set rs" "handleRewriteAdd badAnswer e rs = Inr rs'"
  shows "no_duplicates rs'"
proof -
  obtain n where "normalize_rewrite badAnswer (e\<lparr>entry_enabled := Some (nullish (entry_enabled e) True)\<rparr>) = Inr n" "rs' = rs @ [n]"
    using assms(3) by (auto simp: handleRewriteAdd_def split: sum.splits)
  then show ?thesis using assms(1,2) normalize_rewrite_key by (fastforce simp: no_duplicates_def rewrite_key_def)
qed

lemma index_of_rewrite_found:
  assumes "t \<in> set rs"
  shows "index_of_rewrite t rs < length rs" "rewrite_key (rs ! index_of_rewrite t rs) = rewrite_key t"
proof -
  show l: "index_of_rewrite t rs < length rs"
  proof (rule ccontr)
    assume "\<not> ?thesis"
    then have "takeWhile (\<lambda>r. \<not> (domain r = domain t \<and> answer r = answer t)) rs = rs"
      unfolding index_of_rewrite_def by (metis length_takeWhile_le linorder_not_less take_all takeWhile_eq_take)
    then show False using assms by (metis (mono_tags, lifting) takeWhile_eq_all_conv)
  qed
  show "rewrite_key (rs ! index_of_rewrite t rs) = rewrite_key t"
    using nth_length_takeWhile [OF l [unfolded index_of_rewrite_def]] by (simp add: index_of_rewrite_def rewrite_key_def)
qed

lemma handleRewriteUpdate_distinct:
  assumes "no_duplicates rs" "t \<in> set rs" "rewrite_key u \<in> rewrite_key ` set rs \<Longrightarrow> rewrite_key u = rewrite_key t"
    and "handleRewriteUpdate badAnswer t u rs = Inr rs'"
  shows "no_duplicates rs'"
proof -
  let ?i = "index_of_rewrite t rs"
  obtain n where n: "normalize_rewrite badAnswer u = Inr n"
    "rs' = rs[?i := n\<lparr>entry_enabled := (if entry_enabled u = None then entry_enabled (rs ! ?i) else entry_enabled u)\<rparr>]"
    using assms(4) by (auto simp: handleRewriteUpdate_def Let_def split: sum.splits if_splits)
  have "map rewrite_key rs' = (map rewrite_key rs)[?i := rewrite_key u]"
    using n normalize_rewrite_key [OF n(1)] by (simp add: map_update rewrite_key_def)
  then show ?thesis using assms(1,3) index_of_rewrite_found [OF assms(2)]
    unfolding no_duplicates_def by (auto intro!: distinct_list_update)
qed

lemma closeDialog_world: "onClose props = None \<Longrightarrow> exec (closeDialog props) c = page_close c \<and> result (closeDialog props) c = empty_form"
  by (simp add: closeDialog_def)

lemma page_close_simps [simp]:
  "world (page_close c) = world c" "notices (page_close c) = notices c" "rewritesStore (page_close c) = rewritesStore c" "open_modal (page_modals (page_close c)) = None"
  by (simp_all add: page_close_def)

text \<open>The new entry that the window sends.\<close>

definition sent_entry :: "'c window_props \<Rightarrow> rewrite_form \<Rightarrow> RewriteEntry" where
  "sent_entry props f = \<lparr>domain = Some (rf_domain f), answer = Some (rf_answer f), entry_enabled =
     Some (wp_modalId props = ADD_REWRITE \<or> nullish (Option.bind (rewriteToEdit props) entry_enabled) False)\<rparr>"

definition page_window :: "RewriteEntry list \<Rightarrow> 'c window_props \<Rightarrow> bool" where
  "page_window rs props \<longleftrightarrow> onSubmit props = None \<and> onClose props = None \<and>
     (wp_modalId props = ADD_REWRITE \<and> rewriteToEdit props = None \<or>
      wp_modalId props = EDIT_REWRITE \<and> (\<exists>t \<in> set rs. rewriteToEdit props = Some t))"

lemma rewrite_key_sent:
  "rewrite_key (sent_entry props f) = rewrite_key \<lparr>domain = Some (rf_domain f), answer = Some (rf_answer f), entry_enabled = None\<rparr>"
  by (simp add: rewrite_key_def sent_entry_def)

lemma handleFormSubmit_run:
  assumes "\<forall>k. msg env k \<noteq> []" "page_window rs props" "page_sync stored c"
  shows "exec (handleFormSubmit env lib api props f) c =
     (if acceptable lib (stored (world c)) (rewriteToEdit props) f
      then page_close (if wp_modalId props = ADD_REWRITE then exec (addRewrite env api (sent_entry props f)) c
        else exec (updateRewrite env api (the (rewriteToEdit props)) (sent_entry props f) default_options) c)
      else c)"
    and "result (handleFormSubmit env lib api props f) c =
     (if acceptable lib (stored (world c)) (rewriteToEdit props) f then empty_form
      else snd (validateAnswerField env lib (stored (world c)) (rewriteToEdit props) (snd (validateDomainField env f))))"
proof -
  let ?a = "validateAnswerField env lib (stored (world c)) (rewriteToEdit props)"
  have a: "fst (?a (snd (validateDomainField env f))) = fst (?a f)"
    "rf_domain (snd (?a (snd (validateDomainField env f)))) = rf_domain f"
    "rf_answer (snd (?a (snd (validateDomainField env f)))) = rf_answer f"
    by (simp_all add: validateAnswerField_def validateDomainField_def Let_def)
  have l: "rewrites_list (rewritesStore c) = stored (world c)" using assms(3) by (simp add: page_sync_def)
  show "exec (handleFormSubmit env lib api props f) c =
     (if acceptable lib (stored (world c)) (rewriteToEdit props) f
      then page_close (if wp_modalId props = ADD_REWRITE then exec (addRewrite env api (sent_entry props f)) c
        else exec (updateRewrite env api (the (rewriteToEdit props)) (sent_entry props f) default_options) c)
      else c)"
    and "result (handleFormSubmit env lib api props f) c =
     (if acceptable lib (stored (world c)) (rewriteToEdit props) f then empty_form
      else snd (?a (snd (validateDomainField env f))))"
    unfolding fields_valid [OF assms(1), symmetric] using assms(2)
    by (auto simp: handleFormSubmit_def l case_prod_beta Let_def a page_window_def sent_entry_def closeDialog_def)
qed

text \<open>
  C12. The window sends a rewrite exactly when its domain is a host name, its answer an address or a host name other than the domain,
  and no other entry has the same domain and answer up to case and blanks; then the form is empty, the window is closed, and the
  server has what it makes of the request: the entries with the new one, normalised, or, when it refuses the request, the old
  entries, with the error shown. Otherwise nothing is sent and the form shows an error. In every case the list on the page is that of the
  server, and a list without duplicates stays without duplicates.
\<close>

theorem rewrites_stay_distinct:
  fixes env lib f
  assumes msgs: "\<forall>k. msg env k \<noteq> []" and be: "rewrites_backend api badAnswer stored" and sync: "page_sync stored c"
    and dist: "no_duplicates (stored (world c))" and win: "page_window (stored (world c)) props"
  defines "c' \<equiv> exec (handleFormSubmit env lib api props f) c" and "f' \<equiv> result (handleFormSubmit env lib api props f) c"
    and "r \<equiv> (case rewriteToEdit props of
        None \<Rightarrow> handleRewriteAdd badAnswer (sent_entry props f) (stored (world c))
      | Some t \<Rightarrow> handleRewriteUpdate badAnswer t (sent_entry props f) (stored (world c)))"
  shows "no_duplicates (stored (world c')) \<and> page_sync stored c' \<and>
    (if acceptable lib (stored (world c)) (rewriteToEdit props) f
     then f' = empty_form \<and> open_modal (page_modals c') = None \<and>
       (case r of
          Inl err \<Rightarrow> world c' = world c \<and> err \<in> message ` set (notices c')
        | Inr rs \<Rightarrow> stored (world c') = rs)
     else c' = c \<and> hasErrors f')"
proof (cases "acceptable lib (stored (world c)) (rewriteToEdit props) f")
  case True
  note run = handleFormSubmit_run [OF msgs win sync, of lib api f]
  have key: "rewrite_key (sent_entry props f) \<in> rewrite_key ` set (stored (world c)) \<Longrightarrow>
      rewrite_key (sent_entry props f) \<in> rewrite_key ` set_option (rewriteToEdit props)"
    using True by (simp add: acceptable_def rewrite_key_sent Let_def)
  obtain d where d: "c' = page_close d" "settled stored r c d"
    and rs: "\<And>rs. r = Inr rs \<Longrightarrow> no_duplicates rs"
  proof (cases "rewriteToEdit props")
    case None
    then have "wp_modalId props = ADD_REWRITE" using win by (auto simp: page_window_def)
    then show ?thesis
      using that [of "exec (addRewrite env api (sent_entry props f)) c"] True run None key dist
        addRewrite_settled [OF be sync, of "sent_entry props f" env] handleRewriteAdd_distinct [OF dist]
      by (auto simp: c'_def r_def)
  next
    case (Some t)
    then have t: "t \<in> set (stored (world c))" "wp_modalId props \<noteq> ADD_REWRITE" using win by (auto simp: page_window_def)
    then show ?thesis
      using that [of "exec (updateRewrite env api t (sent_entry props f) default_options) c"] True run Some key
        updateRewrite_settled [OF be sync, of t "sent_entry props f" env default_options] handleRewriteUpdate_distinct [OF dist t(1)]
      by (auto simp: c'_def r_def)
  qed
  then show ?thesis using True run dist by (auto simp: settled_def f'_def page_sync_def split: sum.splits)
next
  case False
  then have "\<not> (fst (validateDomainField env f) \<and> fst (validateAnswerField env lib (stored (world c)) (rewriteToEdit props) f))"
    using fields_valid [OF msgs] by blast
  then show ?thesis using False dist sync handleFormSubmit_run [OF msgs win sync, of lib api f]
    by (auto simp: c'_def f'_def hasErrors_def validateDomainField_def validateAnswerField_def Let_def error_or_none_def)
qed

text \<open>A server for the witness, whose answers are all fine.\<close>

definition kept_rewrites :: "(RewriteEntry list, 'm) rewrites_page_scheme rewrites_api" where
  "kept_rewrites =
     (let serve = (\<lambda>handler. do {
          rs \<leftarrow> gets world;
          (case handler rs of Inl err \<Rightarrow> pass (Inl err) | Inr rs' \<Rightarrow> do { modify (\<lambda>c. c\<lparr>world := rs'\<rparr>); pass (Inr ()) }) })
      in \<lparr>rewriteList = gets (\<lambda>c. Inr (Some (world c))),
          rewriteAdd = (\<lambda>e. serve (handleRewriteAdd (\<lambda>_. None) e)),
          rewriteUpdate = (\<lambda>t u. serve (handleRewriteUpdate (\<lambda>_. None) t u)),
          rewriteDelete = (\<lambda>e. serve (\<lambda>rs. Inr (filter (\<lambda>r. \<not> (domain r = domain e \<and> answer r = answer e)) rs))),
          rewriteSettingsGet = pass (Inr None), rewriteSettingsUpdate = (\<lambda>_. pass (Inr ()))\<rparr>)"

lemma kept_rewrites_backend: "rewrites_backend kept_rewrites (\<lambda>_. None) id"
  by (auto simp: rewrites_backend_def kept_rewrites_def answers_def Let_def split: sum.splits)

definition sample_page :: "RewriteEntry list rewrites_page" where
  "sample_page = \<lparr>notices = [], undoRegistry = Map.empty, nonce = 1, console_error = [], world = [],
     rewritesStore = initialState, page_modals = \<lparr>open_modal = Some ADD_REWRITE\<rparr>\<rparr>"

definition add_window :: "RewriteEntry list rewrites_page window_props" where
  "add_window = \<lparr>wp_modalId = ADD_REWRITE, rewriteToEdit = None, onSubmit = None, onClose = None\<rparr>"

theorem rewrites_stay_distinct_witness:
  "let f = \<lparr>rf_domain = ''A.b'', rf_answer = ''1.2.3.4'', rf_domainError = None, rf_answerError = None\<rparr>
   in world (exec (handleFormSubmit (sample_env\<lparr>getMessage := \<lambda>_ _. ''m''\<rparr>) sample_lib kept_rewrites add_window f) sample_page)
     = [\<lparr>domain = Some ''a.b'', answer = Some ''1.2.3.4'', entry_enabled = Some True\<rparr>]"
proof -
  let ?f = "\<lparr>rf_domain = ''A.b'', rf_answer = ''1.2.3.4'', rf_domainError = None, rf_answerError = None\<rparr>"
  have env: "\<forall>k. msg (sample_env\<lparr>getMessage := \<lambda>_ _. ''m''\<rparr>) k \<noteq> []" by simp
  have sync: "page_sync id sample_page" "no_duplicates (id (world sample_page))" "page_window (id (world sample_page)) add_window"
    by (simp_all add: page_sync_def sample_page_def no_duplicates_def initialState_def page_window_def add_window_def)
  have "matches R_HOST ''A.b''" "matches R_IPV4 ''1.2.3.4''" "trim ''A.b'' \<noteq> []" "trim ''1.2.3.4'' \<noteq> []"
    "toLowerCase ''A.b'' \<noteq> toLowerCase ''1.2.3.4''"
    by code_simp+
  then have acc: "acceptable sample_lib (id (world sample_page)) (rewriteToEdit add_window) ?f"
    by (simp add: acceptable_def sample_page_def)
  have low: "toLowerCase ''A.b'' = ''a.b''" by code_simp
  have r: "handleRewriteAdd (\<lambda>_. None) (sent_entry add_window ?f) (id (world sample_page)) =
      Inr [\<lparr>domain = Some ''a.b'', answer = Some ''1.2.3.4'', entry_enabled = Some True\<rparr>]"
    by (simp add: handleRewriteAdd_def normalize_rewrite_def sent_entry_def add_window_def sample_page_def low Let_def)
  show ?thesis
    using rewrites_stay_distinct [OF env kept_rewrites_backend sync, of sample_lib ?f, unfolded if_P [OF acc]] r
    by (simp add: add_window_def)
qed

end
