(* ===== verification/Routes.thy ===== *)
theory Routes
  imports Validators
begin

section \<open>Addresses, links and the menu\<close>

text \<open>
  \<^verbatim>\<open>client_v2/src/components/Routes/Paths.ts\<close>, the route table of \<^verbatim>\<open>components/App/index.tsx\<close>,
  \<^verbatim>\<open>common/ui/Link\<close>, the breadcrumbs of the client pages and the active entry of \<^verbatim>\<open>common/ui/Menu\<close>.
  A character is a code unit below 256, so that the language's UTF-8 has one or two bytes for it. The serialisation of query
  parameters is the package \<open>qs\<close>, a parameter.
\<close>

subsection \<open>Routes\<close>

datatype route =
    RDashboard | RLogs | RGuide | REncryption | RDhcp
  | RDns | RDnsPrivateReverse | RSettingsPage | RClients | RDnsBlocklists
  | RDnsAllowlists | RDnsRewrites | RBlockedServices | RInactivitySchedule | RCustomRules
  | RDhcpLeases | RQueryLog | RClientsAdd | RClientsProtection | RClientsBlockedServices
  | RClientsSchedule | RClientsEdit | RClientsEditProtection | RClientsEditBlockedServices | RClientsEditSchedule
  | RTopClients | RTopQueriedDomains | RTopBlockedDomains | RTopUpstreams | RUpstreamAvgTime

primrec route_name :: "route \<Rightarrow> string" where
  "route_name RDashboard = ''Dashboard''"
| "route_name RLogs = ''Logs''"
| "route_name RGuide = ''Guide''"
| "route_name REncryption = ''Encryption''"
| "route_name RDhcp = ''Dhcp''"
| "route_name RDns = ''Dns''"
| "route_name RDnsPrivateReverse = ''DnsPrivateReverse''"
| "route_name RSettingsPage = ''SettingsPage''"
| "route_name RClients = ''Clients''"
| "route_name RDnsBlocklists = ''DnsBlocklists''"
| "route_name RDnsAllowlists = ''DnsAllowlists''"
| "route_name RDnsRewrites = ''DnsRewrites''"
| "route_name RBlockedServices = ''BlockedServices''"
| "route_name RInactivitySchedule = ''InactivitySchedule''"
| "route_name RCustomRules = ''CustomRules''"
| "route_name RDhcpLeases = ''DhcpLeases''"
| "route_name RQueryLog = ''QueryLog''"
| "route_name RClientsAdd = ''ClientsAdd''"
| "route_name RClientsProtection = ''ClientsProtection''"
| "route_name RClientsBlockedServices = ''ClientsBlockedServices''"
| "route_name RClientsSchedule = ''ClientsSchedule''"
| "route_name RClientsEdit = ''ClientsEdit''"
| "route_name RClientsEditProtection = ''ClientsEditProtection''"
| "route_name RClientsEditBlockedServices = ''ClientsEditBlockedServices''"
| "route_name RClientsEditSchedule = ''ClientsEditSchedule''"
| "route_name RTopClients = ''TopClients''"
| "route_name RTopQueriedDomains = ''TopQueriedDomains''"
| "route_name RTopBlockedDomains = ''TopBlockedDomains''"
| "route_name RTopUpstreams = ''TopUpstreams''"
| "route_name RUpstreamAvgTime = ''UpstreamAvgTime''"

definition pathBuilder :: "string \<Rightarrow> string" where
  "pathBuilder path = ''/'' @ path"

primrec Paths :: "route \<Rightarrow> string" where
  "Paths RDashboard = pathBuilder ''dashboard''"
| "Paths RLogs = pathBuilder ''logs''"
| "Paths RGuide = pathBuilder ''guide''"
| "Paths REncryption = pathBuilder ''encryption''"
| "Paths RDhcp = pathBuilder ''dhcp''"
| "Paths RDns = pathBuilder ''dns''"
| "Paths RDnsPrivateReverse = pathBuilder ''dns/private-reverse''"
| "Paths RSettingsPage = pathBuilder ''settings''"
| "Paths RClients = pathBuilder ''clients''"
| "Paths RDnsBlocklists = pathBuilder ''blocklists''"
| "Paths RDnsAllowlists = pathBuilder ''allowlists''"
| "Paths RDnsRewrites = pathBuilder ''dns_rewrites''"
| "Paths RBlockedServices = pathBuilder ''blocked_services''"
| "Paths RInactivitySchedule = pathBuilder ''blocked_services/schedule''"
| "Paths RCustomRules = pathBuilder ''custom_rules''"
| "Paths RDhcpLeases = pathBuilder ''dhcp/leases''"
| "Paths RQueryLog = pathBuilder ''logs''"
| "Paths RClientsAdd = pathBuilder ''clients/add''"
| "Paths RClientsProtection = pathBuilder ''clients/add/protection''"
| "Paths RClientsBlockedServices = pathBuilder ''clients/add/blocked_services''"
| "Paths RClientsSchedule = pathBuilder ''clients/add/blocked_services/schedule''"
| "Paths RClientsEdit = pathBuilder ''clients/edit/:clientName''"
| "Paths RClientsEditProtection = pathBuilder ''clients/edit/:clientName/protection''"
| "Paths RClientsEditBlockedServices = pathBuilder ''clients/edit/:clientName/blocked_services''"
| "Paths RClientsEditSchedule = pathBuilder ''clients/edit/:clientName/blocked_services/schedule''"
| "Paths RTopClients = pathBuilder ''top_clients''"
| "Paths RTopQueriedDomains = pathBuilder ''top_queried_domains''"
| "Paths RTopBlockedDomains = pathBuilder ''top_blocked_domains''"
| "Paths RTopUpstreams = pathBuilder ''top_upstreams''"
| "Paths RUpstreamAvgTime = pathBuilder ''upstream_avg_time''"

definition app_routes :: "string list" where
  "app_routes = map Paths [RDashboard, RTopClients, RTopQueriedDomains, RTopBlockedDomains, RTopUpstreams, RUpstreamAvgTime, RSettingsPage, REncryption, RDns, RDnsPrivateReverse, RDnsBlocklists, RDnsAllowlists, RCustomRules, RDnsRewrites, RDhcp, RDhcpLeases, RGuide, RLogs, RInactivitySchedule, RBlockedServices, RClientsSchedule, RClientsBlockedServices, RClientsProtection, RClientsAdd, RClientsEditSchedule, RClientsEditBlockedServices, RClientsEditProtection, RClientsEdit, RClients] @ [''/'']"

subsection \<open>Replacing a parameter\<close>

text \<open>\<open>s.replace(p, r)\<close> with a string \<open>p\<close>: the first occurrence only, and \<open>$\<close> is special in \<open>r\<close>.\<close>

fun split_first :: "string \<Rightarrow> string \<Rightarrow> (string \<times> string) option" where
  "split_first p s =
     (if startsWith s p then Some ([], drop (length p) s)
      else case s of [] \<Rightarrow> None | c # cs \<Rightarrow> map_option (\<lambda>(b, a). (c # b, a)) (split_first p cs))"

declare split_first.simps [simp del]

fun get_substitution :: "string \<Rightarrow> string \<Rightarrow> string \<Rightarrow> string \<Rightarrow> string" where
  "get_substitution m before after [] = []"
| "get_substitution m before after [c] = [c]"
| "get_substitution m before after (c # d # r) =
     (if c \<noteq> CHR ''$'' then c # get_substitution m before after (d # r)
      else if d = CHR ''$'' then CHR ''$'' # get_substitution m before after r
      else if d = CHR ''&'' then m @ get_substitution m before after r
      else if d = CHR 0x60 then before @ get_substitution m before after r
      else if d = CHR 0x27 then after @ get_substitution m before after r
      else c # get_substitution m before after (d # r))"

definition js_replace :: "string \<Rightarrow> string \<Rightarrow> string \<Rightarrow> string" where
  "js_replace s p r =
     (case split_first p s of None \<Rightarrow> s | Some (b, a) \<Rightarrow> b @ get_substitution p b a r @ a)"

text \<open>\<open>params\<close> in key order, each value as \<open>String\<close> prints it.\<close>

definition linkPathBuilder ::
  "('q \<Rightarrow> string) \<Rightarrow> route \<Rightarrow> (string \<times> string) list \<Rightarrow> 'q option \<Rightarrow> string \<Rightarrow> string" where
  "linkPathBuilder stringify r params query fragment =
     (let path = foldl (\<lambda>path (key, v). js_replace path ('':'' @ key) v) (Paths r) params;
          path = (case query of None \<Rightarrow> path | Some q \<Rightarrow> path @ ''?'' @ stringify q)
      in if fragment \<noteq> [] then path @ ''#'' @ fragment else path)"

subsection \<open>Percent encoding\<close>

definition uri_unreserved :: "char \<Rightarrow> bool" where
  "uri_unreserved c \<longleftrightarrow> (let n = code c in 65 \<le> n \<and> n \<le> 90 \<or> 97 \<le> n \<and> n \<le> 122 \<or> 48 \<le> n \<and> n \<le> 57) \<or>
     c \<in> set ''-_.!~*()'' \<or> c = CHR 0x27"

definition utf8 :: "char \<Rightarrow> nat list" where
  "utf8 c = (if code c < 128 then [code c] else [192 + code c div 64, 128 + code c mod 64])"

definition hex_digit :: "nat \<Rightarrow> char" where
  "hex_digit n = ''0123456789ABCDEF'' ! n"

definition pct :: "nat \<Rightarrow> string" where
  "pct b = [CHR ''%'', hex_digit (b div 16), hex_digit (b mod 16)]"

definition encode_char :: "char \<Rightarrow> string" where
  "encode_char c = (if uri_unreserved c then [c] else concat (map pct (utf8 c)))"

definition encodeURIComponent :: "string \<Rightarrow> string" where
  "encodeURIComponent s = concat (map encode_char s)"

text \<open>The decoder, for the characters of the model; it fails on text that no encoder makes.\<close>

definition hex_value :: "char \<Rightarrow> nat option" where
  "hex_value c = map_option fst (find (\<lambda>(n, d). d = c \<or> 9 < n \<and> char_of (code d + 32) = c) (enumerate 0 ''0123456789ABCDEF''))"

definition byte_at :: "string \<Rightarrow> nat option" where
  "byte_at s =
     (case s of
        a # b # _ \<Rightarrow> (case (hex_value a, hex_value b) of (Some x, Some y) \<Rightarrow> Some (16 * x + y) | _ \<Rightarrow> None)
      | _ \<Rightarrow> None)"

fun decodeURIComponent :: "string \<Rightarrow> string option" where
  "decodeURIComponent [] = Some []"
| "decodeURIComponent (c # s) =
     (if c \<noteq> CHR ''%'' then map_option ((#) c) (decodeURIComponent s)
      else case byte_at s of
        None \<Rightarrow> None
      | Some x \<Rightarrow>
          if x < 128 then map_option ((#) (char_of x)) (decodeURIComponent (drop 2 s))
          else if 194 \<le> x \<and> x < 196 \<and> take 1 (drop 2 s) = ''%'' then
            (case byte_at (drop 3 s) of
               None \<Rightarrow> None
             | Some y \<Rightarrow> if 128 \<le> y \<and> y < 192
                 then map_option ((#) (char_of ((x - 192) * 64 + (y - 128)))) (decodeURIComponent (drop 5 s)) else None)
          else None)"

subsection \<open>Links and breadcrumbs\<close>

text \<open>A link throws when a parameter is empty.\<close>

definition link_href ::
  "('q \<Rightarrow> string) \<Rightarrow> route \<Rightarrow> (string \<times> string) list \<Rightarrow> 'q option \<Rightarrow> string \<Rightarrow> string + string" where
  "link_href stringify r params query fragment =
     (case find (\<lambda>(_, v). v = []) params of
        Some (key, _) \<Rightarrow> Inl (''Wrong key value: '' @ key @ '' for route: '' @ route_name r)
      | None \<Rightarrow> Inr (linkPathBuilder stringify r params query fragment))"

record breadcrumb =
  bc_path :: route
  bc_title :: string
  bc_props :: "(string \<times> string) list"

definition buildClientBreadcrumbs :: "env \<Rightarrow> (bool \<times> string) option \<Rightarrow> breadcrumb list \<Rightarrow> breadcrumb list" where
  "buildClientBreadcrumbs env clientForm extraLinks =
     (case clientForm of
        None \<Rightarrow> []
      | Some (isEdit, originalName) \<Rightarrow>
          \<lparr>bc_path = RClients, bc_title = msg env ''client_settings'', bc_props = []\<rparr> #
          (if isEdit
           then \<lparr>bc_path = RClientsEdit, bc_title = msg env ''clients_edit'', bc_props = [(''clientName'', encodeURIComponent originalName)]\<rparr>
           else \<lparr>bc_path = RClientsAdd, bc_title = msg env ''clients_add'', bc_props = []\<rparr>) # extraLinks)"

subsection \<open>The menu\<close>

definition isActive :: "string \<Rightarrow> string list \<Rightarrow> bool \<Rightarrow> bool" where
  "isActive currentPath paths full \<longleftrightarrow>
     (\<exists>p\<in>set paths. currentPath = p \<or> \<not> full \<and> startsWith currentPath (if endsWith p ''/'' then p else p @ ''/''))"

definition settings_items :: "route list" where
  "settings_items = [RSettingsPage, RDns, REncryption, RClients, RDhcp]"

definition filters_items :: "route list" where
  "filters_items = [RDnsBlocklists, RDnsAllowlists, RDnsRewrites, RBlockedServices, RCustomRules]"

definition menu_active :: "string \<Rightarrow> route list" where
  "menu_active currentPath =
     filter (\<lambda>r. isActive currentPath [Paths r] True) [RDashboard] @
     filter (\<lambda>r. isActive currentPath [Paths r] False) (settings_items @ filters_items @ [RLogs, RGuide])"

record accordion =
  ac_open :: bool
  ac_interacted :: bool

definition accordion_effect :: "string \<Rightarrow> route list \<Rightarrow> accordion \<Rightarrow> accordion" where
  "accordion_effect currentPath items a =
     (if \<not> ac_open a \<and> (\<exists>r\<in>set items. isActive currentPath [Paths r] False) \<and> \<not> ac_interacted a
      then a\<lparr>ac_open := True\<rparr> else a)"

definition toggleAccordion :: "accordion \<Rightarrow> accordion" where
  "toggleAccordion a = a\<lparr>ac_interacted := True, ac_open := \<not> ac_open a\<rparr>"

subsection \<open>Encoding and decoding\<close>

lemma hex_value_digit: "n < 16 \<Longrightarrow> hex_value (hex_digit n) = Some n"
proof -
  have "\<forall>n\<in>set [0..<16]. hex_value (hex_digit n) = Some n" by code_simp
  then show "n < 16 \<Longrightarrow> hex_value (hex_digit n) = Some n" by simp
qed

lemma byte_at_pct: "b < 256 \<Longrightarrow> byte_at (hex_digit (b div 16) # hex_digit (b mod 16) # s) = Some b"
proof -
  assume "b < 256"
  then have "b div 16 < 16" "b mod 16 < 16" by simp_all
  then show ?thesis by (simp add: byte_at_def hex_value_digit)
qed

lemma code_less: "code c < 256"
  by (simp add: code_def)

lemma char_of_codepoint [simp]: "char_of (code c) = c"
  by (simp add: code_def)

lemma decode_encode_char: "decodeURIComponent (encode_char c @ s) = map_option ((#) c) (decodeURIComponent s)"
proof (cases "uri_unreserved c")
  case True
  then have "c \<noteq> CHR ''%''" by (auto simp: uri_unreserved_def code_def)
  with True show ?thesis by (simp add: encode_char_def)
next
  case False
  show ?thesis
  proof (cases "code c < 128")
    case True
    with False show ?thesis by (simp add: encode_char_def utf8_def pct_def byte_at_pct)
  next
    case two: False
    have "code c div 64 < 4" "2 \<le> code c div 64" "code c mod 64 < 64" using code_less [of c] two by simp_all
    moreover have "(192 + code c div 64 - 192) * 64 + (128 + code c mod 64 - 128) = code c" by simp
    ultimately show ?thesis using False two
      by (simp add: encode_char_def utf8_def pct_def byte_at_pct)
  qed
qed

lemma decode_encode_component: "decodeURIComponent (encodeURIComponent s) = Some s"
  by (induction s) (simp_all add: encodeURIComponent_def decode_encode_char)

lemma encoded_chars:
  "x \<in> set (encodeURIComponent s) \<Longrightarrow> uri_unreserved x \<or> x = CHR ''%''"
proof -
  have hex: "uri_unreserved (hex_digit n)" if "n < 16" for n
  proof -
    have "\<forall>n\<in>set [0..<16]. uri_unreserved (hex_digit n)" by code_simp
    with that show ?thesis by simp
  qed
  have b: "n \<in> set (utf8 c) \<Longrightarrow> n < 256" for n c using code_less [of c] by (auto simp: utf8_def split: if_splits)
  have "uri_unreserved y \<or> y = CHR ''%''" if "y \<in> set (pct n)" "n < 256" for y n
    using that hex [of "n div 16"] hex [of "n mod 16"] by (auto simp: pct_def)
  then show "x \<in> set (encodeURIComponent s) \<Longrightarrow> uri_unreserved x \<or> x = CHR ''%''"
    using b by (fastforce simp: encodeURIComponent_def encode_char_def split: if_splits)
qed

lemma encoded_no:
  "CHR ''/'' \<notin> set (encodeURIComponent s)" "CHR ''$'' \<notin> set (encodeURIComponent s)" "CHR '':'' \<notin> set (encodeURIComponent s)"
  "CHR ''?'' \<notin> set (encodeURIComponent s)" "CHR ''#'' \<notin> set (encodeURIComponent s)"
  using encoded_chars [of _ s] by (fastforce simp: uri_unreserved_def code_def)+

lemma get_substitution_plain: "CHR ''$'' \<notin> set r \<Longrightarrow> get_substitution m b a r = r"
  by (induction m b a r rule: get_substitution.induct) auto

subsection \<open>The address of a client\<close>

definition edit_routes :: "route list" where
  "edit_routes = [RClientsEdit, RClientsEditProtection, RClientsEditBlockedServices, RClientsEditSchedule]"

lemma split_edit_route:
  "r \<in> set edit_routes \<Longrightarrow> \<exists>t. split_first '':clientName'' (Paths r) = Some (''/clients/edit/'', t) \<and> (t = [] \<or> hd t = CHR ''/'')"
proof -
  have "\<forall>r\<in>set edit_routes. case split_first '':clientName'' (Paths r) of
      Some (b, t) \<Rightarrow> b = ''/clients/edit/'' \<and> (t = [] \<or> hd t = CHR ''/'') | None \<Rightarrow> False" by code_simp
  then show "r \<in> set edit_routes \<Longrightarrow> \<exists>t. split_first '':clientName'' (Paths r) = Some (''/clients/edit/'', t) \<and> (t = [] \<or> hd t = CHR ''/'')"
    by (fastforce split: option.splits)
qed

lemma edit_link_split:
  "split_first '':clientName'' (Paths r) = Some (pre, post) \<Longrightarrow>
     linkPathBuilder stringify r [(''clientName'', encodeURIComponent name)] None [] = pre @ encodeURIComponent name @ post"
  by (simp add: linkPathBuilder_def js_replace_def get_substitution_plain encoded_no)

lemma edit_link_segment:
  assumes "r \<in> set edit_routes"
  shows "\<exists>t. linkPathBuilder stringify r [(''clientName'', encodeURIComponent name)] None [] = ''/clients/edit/'' @ encodeURIComponent name @ t
    \<and> takeWhile (\<lambda>c. c \<noteq> CHR ''/'') (encodeURIComponent name @ t) = encodeURIComponent name"
proof -
  obtain t where t: "split_first '':clientName'' (Paths r) = Some (''/clients/edit/'', t)" "t = [] \<or> hd t = CHR ''/''"
    using split_edit_route [OF assms] by blast
  have "takeWhile (\<lambda>c. c \<noteq> CHR ''/'') t = []" using t(2) by (cases t) auto
  moreover have "\<forall>c\<in>set (encodeURIComponent name). c \<noteq> CHR ''/''" using encoded_no(1) [of name] by auto
  ultimately have "takeWhile (\<lambda>c. c \<noteq> CHR ''/'') (encodeURIComponent name @ t) = encodeURIComponent name" by (simp add: takeWhile_append2)
  then show ?thesis using edit_link_split [OF t(1)] by auto
qed

text \<open>
  The address of a client's page carries the client's name: the part between the fixed prefix and the next slash decodes to it,
  whatever the name, so that two clients never share a page.
\<close>

theorem edit_link_names_client:
  assumes "r \<in> set edit_routes"
  shows "let href = linkPathBuilder stringify r [(''clientName'', encodeURIComponent name)] None [];
             rest = drop (length ''/clients/edit/'') href
         in startsWith href ''/clients/edit/'' \<and> decodeURIComponent (takeWhile (\<lambda>c. c \<noteq> CHR ''/'') rest) = Some name"
  using edit_link_segment [OF assms, of stringify name] by (auto simp: decode_encode_component)

theorem edit_link_names_client_witness:
  "decodeURIComponent (takeWhile (\<lambda>c. c \<noteq> CHR ''/'') (drop (length ''/clients/edit/'')
     (linkPathBuilder (\<lambda>_. []) RClientsEditProtection [(''clientName'', encodeURIComponent ''a/b $& c'')] (None :: nat option) []))) = Some ''a/b $& c''"
  using edit_link_names_client [of RClientsEditProtection "\<lambda>_ :: nat. []" "''a/b $& c''"]
  by (simp add: edit_routes_def Let_def)

text \<open>Every route leads to a page of the application.\<close>

theorem every_route_has_page: "Paths r \<in> set app_routes"
  by (cases r) (simp_all add: app_routes_def)

text \<open>The breadcrumbs of a client's pages never throw, for a client that has a name.\<close>

lemma encodeURIComponent_Nil: "encodeURIComponent s = [] \<longleftrightarrow> s = []"
proof
  show "s = []" if "encodeURIComponent s = []"
    using decode_encode_component [of s] that by simp
qed (simp add: encodeURIComponent_def)

lemma encoded_dots: "encodeURIComponent s \<in> {''.'', ''..''} \<Longrightarrow> s \<in> {''.'', ''..''}"
proof -
  have "decodeURIComponent ''.'' = Some ''.''" "decodeURIComponent ''..'' = Some ''..''" by code_simp+
  then show "encodeURIComponent s \<in> {''.'', ''..''} \<Longrightarrow> s \<in> {''.'', ''..''}"
    using decode_encode_component [of s] by auto
qed

theorem breadcrumbs_ok:
  assumes "isEdit \<Longrightarrow> name \<noteq> []" "b \<in> set (buildClientBreadcrumbs env (Some (isEdit, name)) [])"
  shows "\<exists>href. link_href stringify (bc_path b) (bc_props b) None [] = Inr href"
  using assms by (auto simp: buildClientBreadcrumbs_def link_href_def encodeURIComponent_Nil split: if_splits)

subsection \<open>One active entry\<close>

lemma active_segment:
  assumes "isActive cur [CHR ''/'' # w] full" "CHR ''/'' \<notin> set w" "w \<noteq> []"
  shows "\<exists>t. cur = CHR ''/'' # w @ t \<and> (t = [] \<or> hd t = CHR ''/'')"
proof -
  have "\<not> endsWith (CHR ''/'' # w) ''/''"
    using assms(2,3) by (auto simp: endsWith_iff) (metis append_butlast_last_id last.simps last_in_set last_snoc)
  then show ?thesis using assms(1) by (auto simp: isActive_def startsWith_iff)
qed

text \<open>
  At every address at most one entry of the menu is marked, the one whose page or part of the application the address is.
\<close>

definition menu_routes :: "route list" where
  "menu_routes = RDashboard # settings_items @ filters_items @ [RLogs, RGuide]"

lemma menu_segments: "r \<in> set menu_routes \<Longrightarrow> \<exists>w. Paths r = CHR ''/'' # w \<and> CHR ''/'' \<notin> set w \<and> w \<noteq> []"
  by (auto simp: menu_routes_def settings_items_def filters_items_def pathBuilder_def)

lemma menu_paths_distinct: "distinct (map Paths menu_routes)"
  by (simp add: menu_routes_def settings_items_def filters_items_def pathBuilder_def)

lemma menu_active_route: "r \<in> set (menu_active cur) \<Longrightarrow> r \<in> set menu_routes \<and> (\<exists>full. isActive cur [Paths r] full)"
  by (auto simp: menu_active_def menu_routes_def split: if_splits)

lemma menu_active_same:
  assumes "r \<in> set (menu_active cur)" "q \<in> set (menu_active cur)"
  shows "r = q"
proof -
  have seg: "x \<in> set (menu_active cur) \<Longrightarrow> Paths x = CHR ''/'' # takeWhile (\<lambda>c. c \<noteq> CHR ''/'') (tl cur)" for x
  proof -
    assume x: "x \<in> set (menu_active cur)"
    then obtain w where w: "Paths x = CHR ''/'' # w" "CHR ''/'' \<notin> set w" "w \<noteq> []" using menu_segments menu_active_route by blast
    then obtain t where t: "cur = CHR ''/'' # w @ t" "t = [] \<or> hd t = CHR ''/''"
      using active_segment menu_active_route [OF x] by metis
    have "takeWhile (\<lambda>c. c \<noteq> CHR ''/'') (w @ t) = w"
      using w(2) t(2) by (cases t) (auto simp: takeWhile_append)
    with w t show ?thesis by simp
  qed
  then have "Paths r = Paths q" using assms by metis
  then show ?thesis using menu_paths_distinct menu_active_route assms by (metis distinct_map inj_onD)
qed

theorem menu_one_active: "length (menu_active cur) \<le> 1"
proof -
  have "distinct (settings_items @ filters_items @ [RLogs, RGuide])" "RDashboard \<notin> set (settings_items @ filters_items @ [RLogs, RGuide])"
    by (simp_all add: settings_items_def filters_items_def)
  then have "distinct (menu_active cur)" unfolding menu_active_def by auto
  moreover have "menu_active cur = x # y # zs \<Longrightarrow> x = y" for x y zs using menu_active_same [of x cur y] by simp
  ultimately show ?thesis by (cases "menu_active cur" rule: remdups_adj.cases) auto
qed

text \<open>A section of the menu opens by itself on its pages until the user touches it, and then stays as the user left it.\<close>

theorem accordion_follows_user:
  "ac_open (accordion_effect cur items (toggleAccordion a)) = (\<not> ac_open a) \<and>
   (\<not> ac_interacted a \<and> (\<exists>r\<in>set items. isActive cur [Paths r] False) \<longrightarrow> ac_open (accordion_effect cur items a))"
  by (auto simp: accordion_effect_def toggleAccordion_def)

end
