(* ===== verification/Dhcp.thy ===== *)
theory Dhcp
  imports Toasts
begin

section \<open>DHCP store\<close>

text \<open>
  \<^verbatim>\<open>client_v2/src/stores/dhcp.ts\<close>: the DHCP server's settings and leases, and the search for
  another DHCP server on the network with its verdict.
\<close>

subsection \<open>Data\<close>

record Lease =
  lease_hostname :: string
  lease_ip :: string
  lease_mac :: string

record DhcpLease = Lease +
  lease_expires :: string

datatype LeaseModalType = ADD_LEASE | EDIT_LEASE | MAKE_STATIC

record DhcpConfigV4 =
  gateway_ip :: string
  subnet_mask :: string
  v4_range_start :: string
  v4_range_end :: string
  v4_lease_duration :: int

record DhcpConfigV6 =
  v6_range_start :: "string option"
  v6_lease_duration :: "int option"

record DhcpConfig =
  cfg_enabled :: "bool option"
  cfg_interface_name :: "string option"
  cfg_v4 :: "DhcpConfigV4 option"
  cfg_v6 :: "DhcpConfigV6 option"

record DhcpStatus =
  st_enabled :: "bool option"
  st_interface_name :: "string option"
  st_v4 :: "DhcpConfigV4 option"
  st_v6 :: "DhcpConfigV6 option"
  st_leases :: "DhcpLease list"
  st_static_leases :: "Lease list option"

text \<open>\<open>STATUS_RESPONSE\<close>: the three answers of the search.\<close>

datatype status_response = YES | NO | ERROR

record DhcpSearchResultOtherServer =
  found :: "status_response option"
  server_error :: "string option"

record DhcpSearchResultStaticIP =
  static :: "status_response option"
  static_addr :: "string option"

record DhcpSearchV4 =
  other_server4 :: "DhcpSearchResultOtherServer option"
  static_ip :: "DhcpSearchResultStaticIP option"

record DhcpSearchV6 =
  other_server6 :: "DhcpSearchResultOtherServer option"

record DhcpSearchResult =
  check_v4 :: "DhcpSearchV4 option"
  check_v6 :: "DhcpSearchV6 option"

record DHCPNetInterface =
  if_flags :: string
  if_gateway_ip :: string
  if_hardware_address :: string
  ipv4_addresses :: "string list option"
  ipv6_addresses :: "string list option"
  if_name :: string

record V6State =
  s6_range_start :: string
  s6_lease_duration :: int

record DhcpState =
  processing :: bool
  processingStatus :: bool
  statusInitialized :: bool
  processingInterfaces :: bool
  interfacesInitialized :: bool
  processingDhcp :: bool
  processingConfig :: bool
  processingAdding :: bool
  processingDeleting :: bool
  processingUpdating :: bool
  processingReset :: bool
  enabled :: bool
  interface_name :: string
  check :: "DhcpSearchResult option"
  v4 :: DhcpConfigV4
  v6 :: V6State
  leases :: "Lease list"
  staticLeases :: "Lease list"
  isModalOpen :: bool
  leaseModalConfig :: "Lease option"
  modalType :: "LeaseModalType option"
  dhcp_available :: bool
  staticIpError :: bool
  interfaces :: "(string \<rightharpoonup> DHCPNetInterface) option"

definition empty_v4 :: DhcpConfigV4 where
  "empty_v4 = \<lparr>gateway_ip = [], subnet_mask = [], v4_range_start = [], v4_range_end = [], v4_lease_duration = 0\<rparr>"

definition initialState :: DhcpState where
  "initialState = \<lparr>processing = True, processingStatus = False, statusInitialized = False,
     processingInterfaces = False, interfacesInitialized = False, processingDhcp = False,
     processingConfig = False, processingAdding = False, processingDeleting = False,
     processingUpdating = False, processingReset = False, enabled = False, interface_name = [],
     check = None, v4 = empty_v4, v6 = \<lparr>s6_range_start = [], s6_lease_duration = 0\<rparr>, leases = [],
     staticLeases = [], isModalOpen = False, leaseModalConfig = None, modalType = None,
     dhcp_available = False, staticIpError = False, interfaces = Some Map.empty\<rparr>"

record 'w dhcp_ctx = "(unit, 'w) ctx" +
  dhcp :: DhcpState

interpretation dhcp_frame: toast_frame dhcp
  by unfold_locales simp_all

record 'c dhcp_api =
  api_status :: "('c, bool) call"
  dhcpStatus :: "('c, DhcpStatus) call"
  dhcpInterfaces :: "('c, string \<rightharpoonup> DHCPNetInterface) call"
  checkActiveDhcp :: "string \<Rightarrow> ('c, DhcpSearchResult) call"
  dhcpSetConfig :: "DhcpConfig \<Rightarrow> ('c, unit) call"
  dhcpReset :: "('c, unit) call"
  dhcpResetLeases :: "('c, unit) call"
  dhcpAddStaticLease :: "Lease \<Rightarrow> ('c, unit) call"
  dhcpRemoveStaticLease :: "Lease \<Rightarrow> ('c, unit) call"
  dhcpUpdateStaticLease :: "Lease \<Rightarrow> ('c, unit) call"

abbreviation setState ::
  "(DhcpState \<Rightarrow> DhcpState) \<Rightarrow> ('w, 'm) dhcp_ctx_scheme \<Rightarrow> ('w, 'm) dhcp_ctx_scheme" where
  "setState f c \<equiv> c\<lparr>dhcp := f (dhcp c)\<rparr>"

subsection \<open>Status and settings\<close>

text \<open>What \<open>getDhcpStatus\<close> stores of a status response.\<close>

definition storeStatus :: "DhcpStatus \<Rightarrow> DhcpState \<Rightarrow> DhcpState" where
  "storeStatus d s = s\<lparr>
     enabled := nullish (st_enabled d) False,
     interface_name := nullish (st_interface_name d) [],
     v4 := nullish (st_v4 d) empty_v4,
     v6 := \<lparr>s6_range_start = nullish (Option.bind (st_v6 d) v6_range_start) [],
            s6_lease_duration = nullish (Option.bind (st_v6 d) v6_lease_duration) 0\<rparr>,
     leases := map (\<lambda>l. \<lparr>lease_hostname = lease_hostname l, lease_ip = lease_ip l, lease_mac = lease_mac l\<rparr>) (st_leases d),
     staticLeases := nullish (st_static_leases d) [],
     dhcp_available := True, processingStatus := False, processing := False, statusInitialized := True\<rparr>"

definition getDhcpStatus ::
  "env \<Rightarrow> ('w, 'm) dhcp_ctx_scheme dhcp_api \<Rightarrow> (('w, 'm) dhcp_ctx_scheme, unit) state" where
  "getDhcpStatus env api = do {
     modify (setState (\<lambda>s. s\<lparr>processingStatus := True\<rparr>));
     (let fail = (\<lambda>e. do {
            modify (errorToast env e);
            modify (setState (\<lambda>s. s\<lparr>processingStatus := False, processing := False, statusInitialized := True\<rparr>)) })
      in try_call (api_status api)
           (\<lambda>available.
              if available
              then try_call (dhcpStatus api) (\<lambda>d. modify (setState (storeStatus d))) fail
              else modify (setState (\<lambda>s. s\<lparr>dhcp_available := False, processingStatus := False,
                     processing := False, statusInitialized := True\<rparr>)))
           fail) }"

definition getDhcpInterfaces ::
  "env \<Rightarrow> ('w, 'm) dhcp_ctx_scheme dhcp_api \<Rightarrow> (('w, 'm) dhcp_ctx_scheme, unit) state" where
  "getDhcpInterfaces env api = do {
     modify (setState (\<lambda>s. s\<lparr>processingInterfaces := True\<rparr>));
     try_call (dhcpInterfaces api)
       (\<lambda>d. modify (setState (\<lambda>s. s\<lparr>interfaces := Some d, processingInterfaces := False, interfacesInitialized := True\<rparr>)))
       (\<lambda>e. do {
          modify (errorToast env e);
          modify (setState (\<lambda>s. s\<lparr>processingInterfaces := False, interfacesInitialized := True\<rparr>)) }) }"

definition mergeV6 :: "V6State \<Rightarrow> DhcpConfigV6 option \<Rightarrow> V6State" where
  "mergeV6 cur upd = \<lparr>s6_range_start = nullish (Option.bind upd v6_range_start) (s6_range_start cur),
     s6_lease_duration = nullish (Option.bind upd v6_lease_duration) (s6_lease_duration cur)\<rparr>"

definition setDhcpConfig ::
  "env \<Rightarrow> ('w, 'm) dhcp_ctx_scheme dhcp_api \<Rightarrow> DhcpConfig \<Rightarrow> (('w, 'm) dhcp_ctx_scheme, unit) state" where
  "setDhcpConfig env api values = do {
     modify (setState (\<lambda>s. s\<lparr>processingConfig := True\<rparr>));
     try_call (dhcpSetConfig api values)
       (\<lambda>_. do {
          modify (setState (\<lambda>cur. cur\<lparr>v4 := nullish (cfg_v4 values) (v4 cur),
            v6 := mergeV6 (v6 cur) (cfg_v6 values),
            interface_name := nullish (cfg_interface_name values) (interface_name cur),
            processingConfig := False\<rparr>));
          modify (successToast env (msg env ''dhcp_config_saved'')) })
       (\<lambda>e. do {
          modify (errorToast env e);
          modify (setState (\<lambda>s. s\<lparr>processingConfig := False\<rparr>)) }) }"

definition empty_config :: DhcpConfig where
  "empty_config = \<lparr>cfg_enabled = None, cfg_interface_name = None, cfg_v4 = None, cfg_v6 = None\<rparr>"

definition toggleDhcp ::
  "env \<Rightarrow> ('w, 'm) dhcp_ctx_scheme dhcp_api \<Rightarrow> DhcpConfig option \<Rightarrow> (('w, 'm) dhcp_ctx_scheme, unit) state" where
  "toggleDhcp env api config = do {
     modify (setState (\<lambda>s. s\<lparr>processingConfig := True\<rparr>));
     (let values = nullish config empty_config;
          en = (cfg_enabled values \<noteq> Some True)
      in try_call (dhcpSetConfig api (values\<lparr>cfg_enabled := Some en\<rparr>))
           (\<lambda>_. modify (setState (\<lambda>s. s\<lparr>enabled := en, check := None, processingConfig := False\<rparr>)))
           (\<lambda>e. do {
              modify (errorToast env e);
              modify (setState (\<lambda>s. s\<lparr>processingConfig := False\<rparr>)) })) }"

definition resetWith ::
  "env \<Rightarrow> ('w, 'm) dhcp_ctx_scheme dhcp_api \<Rightarrow> (('w, 'm) dhcp_ctx_scheme, unit) call \<Rightarrow> string
     \<Rightarrow> (('w, 'm) dhcp_ctx_scheme, unit) state" where
  "resetWith env api request key = do {
     modify (setState (\<lambda>s. s\<lparr>processingReset := True\<rparr>));
     try_call request
       (\<lambda>_. do {
          getDhcpStatus env api;
          modify (setState (\<lambda>s. s\<lparr>processingReset := False\<rparr>));
          modify (successToast env (msg env key)) })
       (\<lambda>e. do {
          modify (errorToast env e);
          modify (setState (\<lambda>s. s\<lparr>processingReset := False\<rparr>)) }) }"

definition resetDhcp ::
  "env \<Rightarrow> ('w, 'm) dhcp_ctx_scheme dhcp_api \<Rightarrow> (('w, 'm) dhcp_ctx_scheme, unit) state" where
  "resetDhcp env api = resetWith env api (dhcpReset api) ''dhcp_config_saved''"

definition resetDhcpLeases ::
  "env \<Rightarrow> ('w, 'm) dhcp_ctx_scheme dhcp_api \<Rightarrow> (('w, 'm) dhcp_ctx_scheme, unit) state" where
  "resetDhcpLeases env api = resetWith env api (dhcpResetLeases api) ''dhcp_reset_leases_success''"

subsection \<open>Static leases\<close>

definition toggleLeaseModal ::
  "LeaseModalType option \<Rightarrow> Lease option \<Rightarrow> ('w, 'm) dhcp_ctx_scheme \<Rightarrow> ('w, 'm) dhcp_ctx_scheme" where
  "toggleLeaseModal mt cfg =
     setState (\<lambda>s. s\<lparr>isModalOpen := \<not> isModalOpen s, modalType := mt, leaseModalConfig := cfg\<rparr>)"

definition lease_key :: "Lease \<Rightarrow> (string \<times> msg_arg) list" where
  "lease_key l = [(''key'', SArg (or_str (lease_hostname l) (lease_ip l)))]"

definition addStaticLease ::
  "env \<Rightarrow> ('w, 'm) dhcp_ctx_scheme dhcp_api \<Rightarrow> Lease \<Rightarrow> (('w, 'm) dhcp_ctx_scheme, unit) state" where
  "addStaticLease env api lease = do {
     modify (setState (\<lambda>s. s\<lparr>processingAdding := True\<rparr>));
     try_call (dhcpAddStaticLease api lease)
       (\<lambda>_. do {
          modify (setState (\<lambda>s. s\<lparr>processingAdding := False\<rparr>));
          modify (toggleLeaseModal None None);
          modify (successToast env (getMessage env ''dhcp_lease_added'' (lease_key lease)));
          getDhcpStatus env api })
       (\<lambda>e. do {
          modify (errorToast env e);
          modify (setState (\<lambda>s. s\<lparr>processingAdding := False\<rparr>)) }) }"

definition removeStaticLease ::
  "env \<Rightarrow> ('w, 'm) dhcp_ctx_scheme dhcp_api \<Rightarrow> Lease \<Rightarrow> (('w, 'm) dhcp_ctx_scheme, unit) state" where
  "removeStaticLease env api lease = do {
     modify (setState (\<lambda>s. s\<lparr>processingDeleting := True\<rparr>));
     try_call (dhcpRemoveStaticLease api lease)
       (\<lambda>_. do {
          modify (setState (\<lambda>s. s\<lparr>processingDeleting := False\<rparr>));
          modify (successToast env (getMessage env ''dhcp_lease_deleted'' (lease_key lease)));
          getDhcpStatus env api })
       (\<lambda>e. do {
          modify (errorToast env e);
          modify (setState (\<lambda>s. s\<lparr>processingDeleting := False\<rparr>)) }) }"

definition updateStaticLease ::
  "env \<Rightarrow> ('w, 'm) dhcp_ctx_scheme dhcp_api \<Rightarrow> Lease \<Rightarrow> (('w, 'm) dhcp_ctx_scheme, unit) state" where
  "updateStaticLease env api lease = do {
     modify (setState (\<lambda>s. s\<lparr>processingUpdating := True\<rparr>));
     try_call (dhcpUpdateStaticLease api lease)
       (\<lambda>_. do {
          modify (setState (\<lambda>s. s\<lparr>processingUpdating := False\<rparr>));
          modify (toggleLeaseModal None None);
          modify (successToast env (getMessage env ''dhcp_lease_updated'' (lease_key lease)));
          getDhcpStatus env api })
       (\<lambda>e. do {
          modify (errorToast env e);
          modify (setState (\<lambda>s. s\<lparr>processingUpdating := False\<rparr>)) }) }"

subsection \<open>Search for another DHCP server\<close>

definition no_server :: DhcpSearchResultOtherServer where
  "no_server = \<lparr>found = None, server_error = None\<rparr>"

definition no_static :: DhcpSearchResultStaticIP where
  "no_static = \<lparr>static = None, static_addr = None\<rparr>"

definition checkV4 :: "DhcpState \<Rightarrow> DhcpSearchV4" where
  "checkV4 s = nullish (Option.bind (check s) check_v4)
     \<lparr>other_server4 = Some no_server, static_ip = Some no_static\<rparr>"

definition checkV6 :: "DhcpState \<Rightarrow> DhcpSearchV6" where
  "checkV6 s = nullish (Option.bind (check s) check_v6) \<lparr>other_server6 = Some no_server\<rparr>"

definition iface_of :: "DhcpState \<Rightarrow> string \<Rightarrow> DHCPNetInterface option" where
  "iface_of s i = nullish (interfaces s) Map.empty i"

definition hasV4 :: "DhcpState \<Rightarrow> string \<Rightarrow> bool" where
  "hasV4 s i \<longleftrightarrow> Option.bind (iface_of s i) ipv4_addresses \<noteq> None"

definition hasV6 :: "DhcpState \<Rightarrow> string \<Rightarrow> bool" where
  "hasV6 s i \<longleftrightarrow> Option.bind (iface_of s i) ipv6_addresses \<noteq> None"

text \<open>Reading a member of an absent object throws; the sum carries that.\<close>

definition serverFailed ::
  "env \<Rightarrow> bool \<Rightarrow> DhcpSearchResultOtherServer option \<Rightarrow> (('w, 'm) dhcp_ctx_scheme, bool) call" where
  "serverFailed env has srv =
     (if \<not> has then pass (Inr False)
      else case srv of
             None \<Rightarrow> pass (Inl ''TypeError'')
           | Some sv \<Rightarrow>
               if found sv \<noteq> Some ERROR then pass (Inr False)
               else do {
                 (case server_error sv of
                    None \<Rightarrow> pass ()
                  | Some e \<Rightarrow> if e = [] then pass () else modify (errorToast env e));
                 pass (Inr True) })"

definition action_toast :: "env \<Rightarrow> string \<Rightarrow> bool option \<Rightarrow> string \<Rightarrow> toast_callback \<Rightarrow> error_payload" where
  "action_toast env m icon label cb = \<lparr>error = m, error_options = None,
     error_action = Some \<lparr>action_text = msg env label, actionType = None, actionPayload = None,
        callback = Some cb\<rparr>, error_noIcon = icon\<rparr>"

definition staticFailed ::
  "env \<Rightarrow> bool \<Rightarrow> DhcpSearchResultStaticIP option \<Rightarrow> (('w, 'm) dhcp_ctx_scheme, bool) call" where
  "staticFailed env has st =
     (if \<not> has then pass (Inr False)
      else case st of
             None \<Rightarrow> pass (Inl ''TypeError'')
           | Some t \<Rightarrow>
               if static t \<noteq> Some ERROR then pass (Inr False)
               else do {
                 modify (addErrorToast env (action_toast env (msg env ''dhcp_static_ip_error'') None
                   ''set_static_ip_manually'' (NavigateTo ''/dhcp/leases'')));
                 pass (Inr True) })"

definition dynamicAddress :: "DhcpState \<Rightarrow> string \<Rightarrow> string option" where
  "dynamicAddress s i =
     (case static_ip (checkV4 s) of
        Some st \<Rightarrow>
          (case static_addr st of
             Some a \<Rightarrow> if hasV4 s i \<and> static st = Some NO \<and> a \<noteq> [] \<and> interface_name s \<noteq> [] then Some a else None
           | None \<Rightarrow> None)
      | None \<Rightarrow> None)"

definition serverFound :: "DhcpState \<Rightarrow> string \<Rightarrow> bool" where
  "serverFound s i \<longleftrightarrow>
     (hasV4 s i \<and> Option.bind (other_server4 (checkV4 s)) found = Some YES) \<or>
     (hasV6 s i \<and> Option.bind (other_server6 (checkV6 s)) found = Some YES)"

definition reportActiveDhcp ::
  "env \<Rightarrow> string \<Rightarrow> (('w, 'm) dhcp_ctx_scheme, unit) call" where
  "reportActiveDhcp env i = do {
     cur \<leftarrow> gets dhcp;
     try_call (serverFailed env (hasV4 cur i) (other_server4 (checkV4 cur))) (\<lambda>err4.
       try_call (serverFailed env (hasV6 cur i) (other_server6 (checkV6 cur))) (\<lambda>err6.
         try_call (staticFailed env (hasV4 cur i) (static_ip (checkV4 cur))) (\<lambda>isStaticIPError. do {
           (if err4 \<or> err6
            then modify (addErrorToast env (action_toast env (msg env ''dhcp_error'') None ''try_again'' (RetryFindActiveDhcp i)))
            else pass ());
           (if isStaticIPError \<or> err4 \<or> err6 then pass ()
            else if serverFound cur i
            then modify (addErrorToast env (action_toast env (msg env ''dhcp_found'') (Some True) ''try_again'' (RetryFindActiveDhcp i)))
            else case dynamicAddress cur i of
                   Some a \<Rightarrow> modify (addErrorToast env (action_toast env
                     (getMessage env ''dhcp_dynamic_ip_found'' [(''interface_name'', SArg i), (''ip'', SArg a)])
                     None ''try_again'' (RetryFindActiveDhcp i)))
                 | None \<Rightarrow> modify (successToast env (msg env ''dhcp_not_found'')));
           pass (Inr ()) })
           (\<lambda>e. pass (Inl e)))
         (\<lambda>e. pass (Inl e)))
       (\<lambda>e. pass (Inl e)) }"

definition findActiveDhcp ::
  "env \<Rightarrow> ('w, 'm) dhcp_ctx_scheme dhcp_api \<Rightarrow> string \<Rightarrow> (('w, 'm) dhcp_ctx_scheme, unit) state" where
  "findActiveDhcp env api i = do {
     modify (setState (\<lambda>s. s\<lparr>processingDhcp := True\<rparr>));
     (let fail = (\<lambda>e. do {
            modify (errorToast env e);
            modify (setState (\<lambda>s. s\<lparr>processingDhcp := False\<rparr>)) })
      in try_call (checkActiveDhcp api i)
           (\<lambda>d. do {
              modify (setState (\<lambda>s. s\<lparr>check := Some d, processingDhcp := False\<rparr>));
              try_call (reportActiveDhcp env i) pass fail })
           fail) }"

subsection \<open>Theorems\<close>

text \<open>
  What the store reads of an answer before it reports that nothing was found, with its defaults: a section that is missing counts as
  searched, and a dynamic address matters only once an interface is configured.
\<close>

definition family_clear :: "DhcpSearchResultOtherServer option \<Rightarrow> bool" where
  "family_clear srv \<longleftrightarrow> (\<exists>sv. srv = Some sv \<and> found sv \<noteq> Some ERROR \<and> found sv \<noteq> Some YES)"

definition static_clear :: "DhcpState \<Rightarrow> DhcpSearchResultStaticIP option \<Rightarrow> bool" where
  "static_clear s st \<longleftrightarrow> (\<exists>t. st = Some t \<and> static t \<noteq> Some ERROR \<and>
     (static t = Some NO \<longrightarrow> static_addr t \<in> {None, Some []} \<or> interface_name s = []))"

definition cleared :: "DhcpState \<Rightarrow> string \<Rightarrow> bool" where
  "cleared s i \<longleftrightarrow>
     (hasV4 s i \<longrightarrow> family_clear (other_server4 (checkV4 s)) \<and> static_clear s (static_ip (checkV4 s))) \<and>
     (hasV6 s i \<longrightarrow> family_clear (other_server6 (checkV6 s)))"

definition successes :: "toast list \<Rightarrow> string list" where
  "successes ns = map message (filter (\<lambda>n. toast_type n = SuccessToast) ns)"

lemma successes_push_error [simp]:
  assumes "toast_type x = ErrorToast"
  shows "successes (push_notice ErrorToast x ns) = successes ns"
proof -
  have "filter (\<lambda>n. toast_type n = SuccessToast)
      (map (\<lambda>n. if isDuplicate ErrorToast m a n then x else n) ms) = filter (\<lambda>n. toast_type n = SuccessToast) ms"
    for m a ms
    using assms by (induction ms) (auto simp: isDuplicate_def)
  then show ?thesis using assms by (simp add: successes_def push_notice_def)
qed

lemma successes_addErrorToast [simp]: "successes (notices (addErrorToast env p c)) = successes (notices c)"
  by (simp add: addErrorToast_def pushProblemToast_def Let_def problem_notice_def)

lemma successes_successToast [simp]: "successes (notices (successToast env m c)) = successes (notices c) @ [m]"
  by (simp add: addSuccessToast_def success_notice_def successes_def)

lemma serverFailed_run:
  "successes (notices (exec (serverFailed env has srv) c)) = successes (notices c)"
  "dhcp (exec (serverFailed env has srv) c) = dhcp c"
  "result (serverFailed env has srv) c =
     (if \<not> has then Inr False else if srv = None then Inl ''TypeError'' else Inr (found (the srv) = Some ERROR))"
  by (auto simp: serverFailed_def split: option.splits)

lemma staticFailed_run:
  "successes (notices (exec (staticFailed env has st) c)) = successes (notices c)"
  "dhcp (exec (staticFailed env has st) c) = dhcp c"
  "result (staticFailed env has st) c =
     (if \<not> has then Inr False else if st = None then Inl ''TypeError'' else Inr (static (the st) = Some ERROR))"
  by (auto simp: staticFailed_def split: option.splits)

lemma cleared_iff:
  "cleared s i \<longleftrightarrow>
     (hasV4 s i \<longrightarrow> other_server4 (checkV4 s) \<noteq> None \<and> static_ip (checkV4 s) \<noteq> None \<and>
        found (the (other_server4 (checkV4 s))) \<noteq> Some ERROR \<and> static (the (static_ip (checkV4 s))) \<noteq> Some ERROR) \<and>
     (hasV6 s i \<longrightarrow> other_server6 (checkV6 s) \<noteq> None \<and> found (the (other_server6 (checkV6 s))) \<noteq> Some ERROR) \<and>
     \<not> serverFound s i \<and> dynamicAddress s i = None"
  by (cases "other_server4 (checkV4 s)"; cases "static_ip (checkV4 s)"; cases "other_server6 (checkV6 s)")
    (auto simp: cleared_def family_clear_def static_clear_def serverFound_def dynamicAddress_def
      split: option.splits if_splits)

lemma reportActiveDhcp_successes:
  "successes (notices (exec (reportActiveDhcp env i) c)) =
     successes (notices c) @ (if cleared (dhcp c) i then [msg env ''dhcp_not_found''] else [])"
  unfolding cleared_iff
  by (auto simp: reportActiveDhcp_def run_try_call serverFailed_run staticFailed_run
      split: option.splits sum.splits)

text \<open>
  The server's answer, \<open>handleDHCPFindActiveServer\<close> and \<open>setOtherDHCPResult\<close> of \<^verbatim>\<open>internal/dhcpd/http_unix.go\<close>, from what its system
  calls found: whether the interface has a static address, its subnet, and whether another server answered in
  each family, or the error of the call.
\<close>

record search_facts =
  hasStaticIP :: "string + bool"
  subnet :: string
  found4 :: "string + bool"
  found6 :: "string + bool"

definition other_result :: "string + bool \<Rightarrow> DhcpSearchResultOtherServer" where
  "other_result f = (case f of
     Inl e \<Rightarrow> \<lparr>found = Some ERROR, server_error = Some e\<rparr>
   | Inr b \<Rightarrow> \<lparr>found = Some (if b then YES else NO), server_error = None\<rparr>)"

definition handleDHCPFindActiveServer :: "search_facts \<Rightarrow> DhcpSearchResult" where
  "handleDHCPFindActiveServer F = \<lparr>
     check_v4 = Some \<lparr>other_server4 = Some (other_result (found4 F)),
       static_ip = Some (case hasStaticIP F of
         Inl _ \<Rightarrow> \<lparr>static = Some ERROR, static_addr = None\<rparr>
       | Inr True \<Rightarrow> \<lparr>static = Some YES, static_addr = None\<rparr>
       | Inr False \<Rightarrow> \<lparr>static = Some NO, static_addr = Some (subnet F)\<rparr>)\<rparr>,
     check_v6 = Some \<lparr>other_server6 = Some (other_result (found6 F))\<rparr>\<rparr>"

text \<open>When the interface is safe, for the families it has addresses of.\<close>

definition all_clear :: "search_facts \<Rightarrow> bool \<Rightarrow> bool \<Rightarrow> bool \<Rightarrow> bool" where
  "all_clear F has4 has6 configured \<longleftrightarrow>
     (has4 \<longrightarrow> found4 F = Inr False \<and> (hasStaticIP F = Inr True \<or> hasStaticIP F = Inr False \<and> \<not> configured)) \<and>
     (has6 \<longrightarrow> found6 F = Inr False)"

lemma cleared_answer:
  assumes "check s = Some (handleDHCPFindActiveServer F)" "subnet F \<noteq> []"
  shows "cleared s i \<longleftrightarrow> all_clear F (hasV4 s i) (hasV6 s i) (interface_name s \<noteq> [])"
proof -
  have fam: "family_clear (Some (other_result f)) \<longleftrightarrow> f = Inr False" for f
    by (cases f) (auto simp: family_clear_def other_result_def)
  have "static_clear s (static_ip (checkV4 s)) \<longleftrightarrow>
      hasStaticIP F = Inr True \<or> hasStaticIP F = Inr False \<and> \<not> interface_name s \<noteq> []"
    using assms by (auto simp: static_clear_def checkV4_def handleDHCPFindActiveServer_def split: sum.splits bool.splits)
  then show ?thesis
    using assms(1) fam by (simp add: cleared_def all_clear_def checkV4_def checkV6_def handleDHCPFindActiveServer_def)
qed

definition has_error :: "('u, 'w, 'm) ctx_scheme \<Rightarrow> bool" where
  "has_error c \<longleftrightarrow> (\<exists>n \<in> set (notices c). toast_type n = ErrorToast)"

lemma has_error_added [simp]: "has_error (addErrorToast env p c)"
proof -
  let ?n = "problem_notice (nanoid env (nonce c)) ErrorToast p"
  have "?n \<in> set (notices (addErrorToast env p c))"
    by (simp add: addErrorToast_def pushProblemToast_def Let_def push_notice_mem)
  then show ?thesis unfolding has_error_def by (rule bexI [rotated]) (simp add: problem_notice_def)
qed

lemma has_error_setState [simp]: "has_error (c\<lparr>dhcp := x\<rparr>) \<longleftrightarrow> has_error c"
  by (simp add: has_error_def)

lemma staticFailed_error: "result (staticFailed env has st) c = Inr True \<Longrightarrow> has_error (exec (staticFailed env has st) c)"
  by (auto simp: staticFailed_def split: option.splits if_splits)

lemma reportActiveDhcp_error:
  assumes "\<not> cleared (dhcp c) i" "result (reportActiveDhcp env i) c = Inr ()"
  shows "has_error (exec (reportActiveDhcp env i) c)"
  using assms unfolding cleared_iff
  by (auto simp: reportActiveDhcp_def run_try_call serverFailed_run staticFailed_run staticFailed_error
      split: option.splits sum.splits if_splits)

text \<open>
  C40. The search for other DHCP servers, with the server's handler behind it, ends in the ``not found'' message
  exactly when, for the address families the interface has, no other server answered, no call failed, and its
  IPv4 address is static, or dynamic while no interface is configured yet; an interface
  without addresses is always passed. In every other outcome, a failed request included, no
  success is reported and an error is shown.
\<close>

theorem findActiveDhcp_verdict:
  assumes run: "run_state (checkActiveDhcp api i) (setState (\<lambda>s. s\<lparr>processingDhcp := True\<rparr>) c) = (r, c1)"
    and srv: "\<And>d. r = Inr d \<Longrightarrow> d = handleDHCPFindActiveServer F" and sub: "subnet F \<noteq> []"
  shows "let c2 = exec (findActiveDhcp env api i) c; s = dhcp c1;
      clear = ((\<exists>d. r = Inr d) \<and> all_clear F (hasV4 s i) (hasV6 s i) (interface_name s \<noteq> []))
    in successes (notices c2) = successes (notices c1) @ (if clear then [msg env ''dhcp_not_found''] else []) \<and>
       (\<not> clear \<longrightarrow> has_error c2)"
proof (cases r)
  case (Inl e)
  with run show ?thesis by (simp add: findActiveDhcp_def run_try_call Let_def)
next
  case (Inr d)
  let ?c = "setState (\<lambda>s. s\<lparr>check := Some d, processingDhcp := False\<rparr>) c1"
  have ok: "cleared (dhcp ?c) i \<longleftrightarrow> all_clear F (hasV4 (dhcp c1) i) (hasV6 (dhcp c1) i) (interface_name (dhcp c1) \<noteq> [])"
    using cleared_answer [of "dhcp ?c" F i] srv [OF Inr] sub by (simp add: hasV4_def hasV6_def iface_of_def)
  have find: "exec (findActiveDhcp env api i) c =
      (case result (reportActiveDhcp env i) ?c of
         Inl e \<Rightarrow> setState (\<lambda>s. s\<lparr>processingDhcp := False\<rparr>) (errorToast env e (exec (reportActiveDhcp env i) ?c))
       | Inr _ \<Rightarrow> exec (reportActiveDhcp env i) ?c)"
    using run Inr by (simp add: findActiveDhcp_def run_try_call Let_def split: sum.splits)
  have suc: "successes (notices (exec (findActiveDhcp env api i) c)) =
      successes (notices c1) @ (if cleared (dhcp ?c) i then [msg env ''dhcp_not_found''] else [])"
    using reportActiveDhcp_successes [of env i ?c] by (simp add: find split: sum.split)
  have err: "has_error (exec (findActiveDhcp env api i) c)" if "\<not> cleared (dhcp ?c) i"
    using reportActiveDhcp_error [OF that] by (simp add: find split: sum.split)
  show ?thesis using suc err unfolding ok by (auto simp: Let_def Inr)
qed

definition sample_iface :: DHCPNetInterface where
  "sample_iface = \<lparr>if_flags = ''up'', if_gateway_ip = ''10.0.0.1'', if_hardware_address = ''aa'',
     ipv4_addresses = Some [''10.0.0.2''], ipv6_addresses = None, if_name = ''eth0''\<rparr>"

definition sample_ctx :: "Lease list dhcp_ctx" where
  "sample_ctx = \<lparr>notices = [], undoRegistry = Map.empty, nonce = 1, console_error = [], world = [],
     dhcp = initialState\<lparr>interfaces := Some [''eth0'' \<mapsto> sample_iface], interface_name := ''eth0''\<rparr>\<rparr>"

text \<open>A backend that keeps the static leases as a list and finds no other server.\<close>

definition stored_api :: "(Lease list, 'm) dhcp_ctx_scheme dhcp_api" where
  "stored_api = \<lparr>api_status = pass (Inr True),
     dhcpStatus = gets (\<lambda>c. Inr \<lparr>st_enabled = None, st_interface_name = None, st_v4 = None,
       st_v6 = None, st_leases = [], st_static_leases = Some (world c)\<rparr>),
     dhcpInterfaces = pass (Inr Map.empty),
     checkActiveDhcp = (\<lambda>_. pass (Inr \<lparr>check_v4 = Some \<lparr>
       other_server4 = Some \<lparr>found = Some NO, server_error = None\<rparr>,
       static_ip = Some \<lparr>static = Some YES, static_addr = None\<rparr>\<rparr>, check_v6 = None\<rparr>)),
     dhcpSetConfig = (\<lambda>_. pass (Inr ())), dhcpReset = pass (Inr ()), dhcpResetLeases = pass (Inr ()),
     dhcpAddStaticLease = (\<lambda>l. do { modify (\<lambda>c. c\<lparr>world := world c @ [l]\<rparr>); pass (Inr ()) }),
     dhcpRemoveStaticLease = (\<lambda>l. do { modify (\<lambda>c. c\<lparr>world := remove1 l (world c)\<rparr>); pass (Inr ()) }),
     dhcpUpdateStaticLease = (\<lambda>_. pass (Inr ()))\<rparr>"

text \<open>With an interface configured, a static address is passed and a dynamic one is reported.\<close>

definition sample_facts :: "bool \<Rightarrow> search_facts" where
  "sample_facts st = \<lparr>hasStaticIP = Inr st, subnet = ''10.0.0.2/24'', found4 = Inr False, found6 = Inr False\<rparr>"

definition search_api :: "search_facts \<Rightarrow> (Lease list, 'm) dhcp_ctx_scheme dhcp_api" where
  "search_api F = stored_api\<lparr>checkActiveDhcp := (\<lambda>_. pass (Inr (handleDHCPFindActiveServer F)))\<rparr>"

theorem findActiveDhcp_verdict_witness:
  "successes (notices (exec (findActiveDhcp sample_env (search_api (sample_facts True)) ''eth0'') sample_ctx)) = [''dhcp_not_found''] \<and>
   successes (notices (exec (findActiveDhcp sample_env (search_api (sample_facts False)) ''eth0'') sample_ctx)) = [] \<and>
   has_error (exec (findActiveDhcp sample_env (search_api (sample_facts False)) ''eth0'') sample_ctx)"
proof -
  let ?c = "setState (\<lambda>s. s\<lparr>processingDhcp := True\<rparr>) sample_ctx"
  have run: "run_state (checkActiveDhcp (search_api F) ''eth0'') ?c = (Inr (handleDHCPFindActiveServer F), ?c)" for F
    by (simp add: search_api_def)
  have st: "hasV4 (dhcp ?c) ''eth0''" "\<not> hasV6 (dhcp ?c) ''eth0''" "interface_name (dhcp ?c) \<noteq> []" "notices ?c = []"
    by (simp_all add: hasV4_def hasV6_def iface_of_def sample_ctx_def sample_iface_def initialState_def)
  have sub: "subnet (sample_facts b) \<noteq> []" for b by (simp add: sample_facts_def)
  have "all_clear (sample_facts b) True False True \<longleftrightarrow> b" for b by (auto simp: all_clear_def sample_facts_def)
  then show ?thesis
    using findActiveDhcp_verdict [OF run [of "sample_facts True"] _ sub, where env = sample_env]
      findActiveDhcp_verdict [OF run [of "sample_facts False"] _ sub, where env = sample_env] st
    by (simp add: Let_def successes_def sample_env_def)
qed

text \<open>
  Against a backend that keeps the static leases as a list, adding a lease shows it in the
  store's list and closes the dialog, and removing it again leaves the list as it was.
\<close>

theorem staticLease_roundtrip:
  assumes avail: "\<And>d. run_state (api_status api) d = (Inr True, d)"
    and st: "\<And>d. \<exists>v. run_state (dhcpStatus api) d = (Inr v, d) \<and> st_static_leases v = Some (stored (world d))"
    and add: "\<And>l d. run_state (dhcpAddStaticLease api l) d = (Inr (), d\<lparr>world := put (stored (world d) @ [l])\<rparr>)"
    and rm: "\<And>l d. run_state (dhcpRemoveStaticLease api l) d = (Inr (), d\<lparr>world := put (remove1 l (stored (world d)))\<rparr>)"
    and put: "\<And>xs. stored (put xs) = xs"
    and new: "lease \<notin> set (stored (world c))" and opened: "isModalOpen (dhcp c)"
  shows "let c1 = exec (addStaticLease env api lease) c; c2 = exec (removeStaticLease env api lease) c1
         in staticLeases (dhcp c1) = stored (world c) @ [lease] \<and> \<not> isModalOpen (dhcp c1) \<and>
            staticLeases (dhcp c2) = stored (world c)"
proof -
  have status: "staticLeases (dhcp (exec (getDhcpStatus env api) d)) = stored (world d) \<and>
      isModalOpen (dhcp (exec (getDhcpStatus env api) d)) = isModalOpen (dhcp d) \<and>
      world (exec (getDhcpStatus env api) d) = world d" for d
  proof -
    obtain v where "run_state (dhcpStatus api) (setState (\<lambda>s. s\<lparr>processingStatus := True\<rparr>) d) =
        (Inr v, setState (\<lambda>s. s\<lparr>processingStatus := True\<rparr>) d)"
      "st_static_leases v = Some (stored (world d))"
      using st [of "setState (\<lambda>s. s\<lparr>processingStatus := True\<rparr>) d"] by auto
    then show ?thesis by (simp add: getDhcpStatus_def run_try_call avail storeStatus_def Let_def)
  qed
  show ?thesis
    using new opened
    by (simp add: addStaticLease_def removeStaticLease_def run_try_call add rm put status
        toggleLeaseModal_def Let_def remove1_append)
qed

theorem staticLease_roundtrip_witness:
  "let l = \<lparr>lease_hostname = ''nas'', lease_ip = ''10.0.0.9'', lease_mac = ''aa:bb''\<rparr>;
       c = setState (\<lambda>s. s\<lparr>isModalOpen := True\<rparr>) sample_ctx;
       c1 = exec (addStaticLease sample_env stored_api l) c
   in staticLeases (dhcp c1) = [l] \<and> \<not> isModalOpen (dhcp c1)"
  using staticLease_roundtrip [of stored_api id id "\<lparr>lease_hostname = ''nas'', lease_ip = ''10.0.0.9'', lease_mac = ''aa:bb''\<rparr>"
      "setState (\<lambda>s. s\<lparr>isModalOpen := True\<rparr>) sample_ctx" sample_env]
  by (simp add: stored_api_def sample_ctx_def Let_def)

text \<open>
  Whatever the backend answers, no DHCP action leaves its own progress flag set.
\<close>

theorem dhcp_settles:
  "\<not> processingStatus (dhcp (exec (getDhcpStatus env api) c)) \<and>
   \<not> processingConfig (dhcp (exec (setDhcpConfig env api v) c)) \<and>
   \<not> processingConfig (dhcp (exec (toggleDhcp env api cfg) c)) \<and>
   \<not> processingReset (dhcp (exec (resetDhcp env api) c))"
  by (simp add: getDhcpStatus_def setDhcpConfig_def toggleDhcp_def resetDhcp_def resetWith_def
      run_try_call Let_def storeStatus_def split: sum.splits)

end
