(* ===== verification/DhcpPage.thy ===== *)
theory DhcpPage
  imports Modals Dhcp
begin

section \<open>The DHCP pages\<close>

text \<open>
  \<^verbatim>\<open>client_v2/src/components/Dhcp\<close>: the forms of the IPv4 and IPv6 settings, the switch of the server, the
  interface selector, and the page of leases with the form of a static lease. The forms read numbers by \<open>Number\<close>, a parameter
  \<open>toNumber\<close>. A signal that holds an error message is empty for no error.
\<close>

definition err_text :: "validation \<Rightarrow> string" where
  "err_text v = (if truthy_str v then the v else [])"

subsection \<open>IPv4 settings\<close>

record v4_form =
  gatewayIp :: string
  subnetMask :: string
  rangeStart :: string
  rangeEnd :: string
  leaseDuration :: string
  gatewayIpError :: string
  subnetMaskError :: string
  rangeStartError :: string
  rangeEndError :: string
  leaseDurationError :: string

definition nat_text :: "int \<Rightarrow> string" where
  "nat_text n = (if n = 0 then [] else show_int n)"

definition v4_open :: "DhcpState \<Rightarrow> v4_form" where
  "v4_open s = \<lparr>gatewayIp = gateway_ip (v4 s), subnetMask = subnet_mask (v4 s), rangeStart = v4_range_start (v4 s),
     rangeEnd = v4_range_end (v4 s), leaseDuration = nat_text (v4_lease_duration (v4 s)), gatewayIpError = [], subnetMaskError = [],
     rangeStartError = [], rangeEndError = [], leaseDurationError = []\<rparr>"

definition allValues :: "v4_form \<Rightarrow> dhcp_v4_form option" where
  "allValues f = Some \<lparr>f_gateway_ip = Some (gatewayIp f), f_subnet_mask = Some (subnetMask f),
     f_range_start = Some (rangeStart f), f_range_end = Some (rangeEnd f)\<rparr>"

definition isEmptyConfig_v4 :: "v4_form \<Rightarrow> bool" where
  "isEmptyConfig_v4 f \<longleftrightarrow> gatewayIp f = [] \<and> subnetMask f = [] \<and> rangeStart f = [] \<and> rangeEnd f = [] \<and> leaseDuration f = []"

definition validateGatewayIp :: "env \<Rightarrow> v4_form \<Rightarrow> v4_form" where
  "validateGatewayIp env f = f\<lparr>gatewayIpError := err_text
     (or_validation (validateRequiredValue env (VString (gatewayIp f)))
     (or_validation (validateIpv4 env (Some (gatewayIp f)))
     (validateNotInRange env (gatewayIp f) (allValues f))))\<rparr>"

definition validateSubnetMask :: "env \<Rightarrow> ip_lib \<Rightarrow> v4_form \<Rightarrow> v4_form" where
  "validateSubnetMask env lib f = f\<lparr>subnetMaskError := err_text
     (or_validation (validateRequiredValue env (VString (subnetMask f)))
     (validateGatewaySubnetMask env lib (allValues f)))\<rparr>"

definition validateRangeStart :: "env \<Rightarrow> ip_lib \<Rightarrow> v4_form \<Rightarrow> v4_form" where
  "validateRangeStart env lib f = f\<lparr>rangeStartError := err_text
     (or_validation (validateRequiredValue env (VString (rangeStart f)))
     (or_validation (validateIpv4 env (Some (rangeStart f)))
     (validateIpForGatewaySubnetMask env lib (rangeStart f) (allValues f))))\<rparr>"

definition validateRangeEnd :: "env \<Rightarrow> ip_lib \<Rightarrow> v4_form \<Rightarrow> v4_form" where
  "validateRangeEnd env lib f = f\<lparr>rangeEndError := err_text
     (or_validation (validateRequiredValue env (VString (rangeEnd f)))
     (or_validation (validateIpv4 env (Some (rangeEnd f)))
     (or_validation (validateIpv4RangeEnd env (allValues f))
     (validateIpForGatewaySubnetMask env lib (rangeEnd f) (allValues f)))))\<rparr>"

definition onGatewayBlur :: "env \<Rightarrow> ip_lib \<Rightarrow> v4_form \<Rightarrow> v4_form" where
  "onGatewayBlur env lib f = validateRangeEnd env lib (validateRangeStart env lib (validateGatewayIp env f))"

definition onRangeStartBlur :: "env \<Rightarrow> ip_lib \<Rightarrow> v4_form \<Rightarrow> v4_form" where
  "onRangeStartBlur env lib f = validateRangeEnd env lib (validateGatewayIp env (validateRangeStart env lib f))"

definition onRangeEndBlur :: "env \<Rightarrow> ip_lib \<Rightarrow> v4_form \<Rightarrow> v4_form" where
  "onRangeEndBlur env lib f = validateGatewayIp env (validateRangeEnd env lib f)"

definition onSubnetBlur :: "env \<Rightarrow> ip_lib \<Rightarrow> v4_form \<Rightarrow> v4_form" where
  "onSubnetBlur env lib f = validateRangeEnd env lib (validateRangeStart env lib (validateSubnetMask env lib f))"

definition lease_error :: "env \<Rightarrow> (int \<Rightarrow> string) \<Rightarrow> (string \<Rightarrow> js_number) \<Rightarrow> string \<Rightarrow> string" where
  "lease_error env toLocale toNumber t = (if t = [] then [] else err_text (validateLeaseTime env toLocale toNumber (VString t)))"

definition validateLeaseDuration :: "env \<Rightarrow> (int \<Rightarrow> string) \<Rightarrow> (string \<Rightarrow> js_number) \<Rightarrow> v4_form \<Rightarrow> v4_form" where
  "validateLeaseDuration env toLocale toNumber f = f\<lparr>leaseDurationError := lease_error env toLocale toNumber (leaseDuration f)\<rparr>"

record V4Config =
  c_gateway_ip :: string
  c_subnet_mask :: string
  c_range_start :: string
  c_range_end :: string
  c_lease_duration :: js_number

definition handleSave_v4 ::
  "env \<Rightarrow> ip_lib \<Rightarrow> (int \<Rightarrow> string) \<Rightarrow> (string \<Rightarrow> js_number) \<Rightarrow> v4_form \<Rightarrow> v4_form \<times> V4Config option" where
  "handleSave_v4 env lib toLocale toNumber f0 =
     (let f = validateLeaseDuration env toLocale toNumber (validateRangeEnd env lib (validateRangeStart env lib
                (validateSubnetMask env lib (validateGatewayIp env f0))))
      in (f, if gatewayIpError f \<noteq> [] \<or> subnetMaskError f \<noteq> [] \<or> rangeStartError f \<noteq> [] \<or> rangeEndError f \<noteq> [] \<or>
               leaseDurationError f \<noteq> [] then None
             else Some \<lparr>c_gateway_ip = trim (gatewayIp f), c_subnet_mask = trim (subnetMask f), c_range_start = trim (rangeStart f),
               c_range_end = trim (rangeEnd f),
               c_lease_duration = (if leaseDuration f \<noteq> [] then toNumber (trim (leaseDuration f)) else Num 0)\<rparr>))"

subsection \<open>IPv6 settings\<close>

record v6_form =
  rangeStart6 :: string
  leaseDuration6 :: string
  rangeStartError6 :: string
  leaseDurationError6 :: string

definition v6_open :: "DhcpState \<Rightarrow> v6_form" where
  "v6_open s = \<lparr>rangeStart6 = s6_range_start (v6 s), leaseDuration6 = nat_text (s6_lease_duration (v6 s)),
     rangeStartError6 = [], leaseDurationError6 = []\<rparr>"

definition isEmptyConfig_v6 :: "v6_form \<Rightarrow> bool" where
  "isEmptyConfig_v6 f \<longleftrightarrow> rangeStart6 f = [] \<and> leaseDuration6 f = []"

definition handleSave_v6 ::
  "env \<Rightarrow> ip_lib \<Rightarrow> (int \<Rightarrow> string) \<Rightarrow> (string \<Rightarrow> js_number) \<Rightarrow> v6_form \<Rightarrow> v6_form \<times> (string \<times> js_number) option" where
  "handleSave_v6 env lib toLocale toNumber f0 =
     (let f = f0\<lparr>rangeStartError6 := err_text (validateIpv6 env lib (Some (rangeStart6 f0))),
                leaseDurationError6 := lease_error env toLocale toNumber (leaseDuration6 f0)\<rparr>
      in (f, if rangeStartError6 f \<noteq> [] \<or> leaseDurationError6 f \<noteq> [] then None
             else Some (trim (rangeStart6 f), if leaseDuration6 f \<noteq> [] then toNumber (leaseDuration6 f) else Num 0)))"

subsection \<open>The switch and the interface\<close>

definition v4_filled :: "DhcpConfigV4 \<Rightarrow> bool" where
  "v4_filled c \<longleftrightarrow> gateway_ip c \<noteq> [] \<or> subnet_mask c \<noteq> [] \<or> v4_range_start c \<noteq> [] \<or> v4_range_end c \<noteq> [] \<or> v4_lease_duration c \<noteq> 0"

definition v6_filled :: "V6State \<Rightarrow> bool" where
  "v6_filled c \<longleftrightarrow> s6_range_start c \<noteq> [] \<or> s6_lease_duration c \<noteq> 0"

text \<open>\<open>onChange\<close> of the switch: the result says whether the IPv4 window is to be opened.\<close>

definition toggle_disabled :: "DhcpState \<Rightarrow> string \<Rightarrow> bool" where
  "toggle_disabled s iface \<longleftrightarrow> processingDhcp s \<or> processingConfig s \<or> \<not> enabled s \<and> iface = []"

definition dhcp_switch ::
  "env \<Rightarrow> ('w, 'm) dhcp_ctx_scheme dhcp_api \<Rightarrow> string \<Rightarrow> bool \<Rightarrow> (('w, 'm) dhcp_ctx_scheme, bool) state" where
  "dhcp_switch env api iface checked =
     (if \<not> checked then do { toggleDhcp env api (Some (empty_config\<lparr>cfg_enabled := Some True\<rparr>)); pass False }
      else do {
        s \<leftarrow> gets dhcp;
        (if v4_filled (v4 s) then do {
           toggleDhcp env api (Some \<lparr>cfg_enabled = Some False, cfg_interface_name = Some (or_str iface (interface_name s)),
             cfg_v4 = Some (v4 s),
             cfg_v6 = (if v6_filled (v6 s)
               then Some \<lparr>v6_range_start = Some (s6_range_start (v6 s)), v6_lease_duration = Some (s6_lease_duration (v6 s))\<rparr>
               else None)\<rparr>);
           pass False }
         else pass True) })"

definition MAX_VISIBLE_IPS :: nat where "MAX_VISIBLE_IPS = 2"

definition iface_ips :: "DHCPNetInterface option \<Rightarrow> string list" where
  "iface_ips i = (case i of None \<Rightarrow> [] | Some x \<Rightarrow> nullish (ipv4_addresses x) [] @ nullish (ipv6_addresses x) [])"

definition displayIps :: "bool \<Rightarrow> string list \<Rightarrow> string list" where
  "displayIps showAll ips = (if length ips \<le> MAX_VISIBLE_IPS \<or> showAll then ips else take MAX_VISIBLE_IPS ips)"

definition remainingCount :: "bool \<Rightarrow> string list \<Rightarrow> nat" where
  "remainingCount showAll ips = (if length ips \<le> MAX_VISIBLE_IPS \<or> showAll then 0 else length ips - MAX_VISIBLE_IPS)"

definition iface_label :: "string \<Rightarrow> DHCPNetInterface option \<Rightarrow> string" where
  "iface_label name i =
     (let ips4 = join '', '' (nullish (Option.bind i ipv4_addresses) []); ips6 = join '', '' (nullish (Option.bind i ipv6_addresses) [])
      in name @ (if ips4 \<noteq> [] then '' - '' @ ips4 else []) @ (if ips6 \<noteq> [] then '' - '' @ ips6 else []))"

definition isLoaded :: "DhcpState \<Rightarrow> bool" where
  "isLoaded s \<longleftrightarrow> statusInitialized s \<and> (\<not> dhcp_available s \<or> interfacesInitialized s)"

subsection \<open>Static leases\<close>

record lease_form =
  lf_mac :: string
  lf_ip :: string
  lf_hostname :: string
  lf_macError :: string
  lf_ipError :: string
  lf_hostnameError :: string

definition lease_form_of :: "Lease option \<Rightarrow> lease_form" where
  "lease_form_of d = (case d of
      None \<Rightarrow> \<lparr>lf_mac = [], lf_ip = [], lf_hostname = [], lf_macError = [], lf_ipError = [], lf_hostnameError = []\<rparr>
    | Some l \<Rightarrow> \<lparr>lf_mac = lease_mac l, lf_ip = lease_ip l, lf_hostname = lease_hostname l, lf_macError = [], lf_ipError = [],
        lf_hostnameError = []\<rparr>)"

definition lease_entry :: "Lease \<Rightarrow> LeaseEntry" where
  "lease_entry l = \<lparr>le_ip = lease_ip l, le_mac = Some (lease_mac l), le_hostname = Some (lease_hostname l)\<rparr>"

definition lease_cidr :: "ip_lib \<Rightarrow> DhcpConfigV4 \<Rightarrow> string option" where
  "lease_cidr lib c =
     (if gateway_ip c = [] \<or> subnet_mask c = [] then None
      else map_option (\<lambda>prefix. gateway_ip c @ ''/'' @ show_nat prefix) (parseSubnetMask lib (subnet_mask c)))"

definition mac_blur :: "string \<Rightarrow> string" where
  "mac_blur m = normalizeMac (trim m)"

definition validate_mac :: "env \<Rightarrow> Lease list \<Rightarrow> string option \<Rightarrow> lease_form \<Rightarrow> lease_form" where
  "validate_mac env static_leases editMac f = f\<lparr>lf_macError := err_text
     (or_validation (validateRequiredValue env (VString (lf_mac f)))
     (or_validation (validateMac env (Some (lf_mac f)))
     (validateMacNotDuplicate env (map lease_entry static_leases) editMac (Some (normalizeMac (trim (lf_mac f)))))))\<rparr>"

definition validate_hostname :: "env \<Rightarrow> Lease list \<Rightarrow> string option \<Rightarrow> lease_form \<Rightarrow> lease_form" where
  "validate_hostname env static_leases editHostname f = f\<lparr>lf_hostnameError := err_text
     (or_validation (validateHostname env (Some (lf_hostname f)))
     (validateHostnameNotDuplicate env (map lease_entry static_leases) editHostname (Some (lf_hostname f))))\<rparr>"

definition validate_ip :: "env \<Rightarrow> ip_lib \<Rightarrow> Lease list \<Rightarrow> string option \<Rightarrow> DhcpConfigV4 \<Rightarrow> lease_form \<Rightarrow> lease_form" where
  "validate_ip env lib static_leases editIp cfg f = f\<lparr>lf_ipError := err_text
     (or_validation (validateRequiredValue env (VString (lf_ip f)))
     (or_validation (validateIp env lib (Some (lf_ip f)))
     (or_validation (validateIpNotDuplicate env (map lease_entry static_leases) editIp (Some (lf_ip f)))
     (or_validation (case lease_cidr lib cfg of None \<Rightarrow> None | Some cidr \<Rightarrow> validateIpv4InCidr env lib (lf_ip f) cidr)
     (if gateway_ip cfg = [] then None else validateIpGateway env (lf_ip f) (gateway_ip cfg))))))\<rparr>"

definition lease_submit ::
  "env \<Rightarrow> ip_lib \<Rightarrow> DhcpState \<Rightarrow> lease_form \<Rightarrow> lease_form \<times> Lease option" where
  "lease_submit env lib s f0 =
     (let edit = (\<lambda>get. if modalType s = Some EDIT_LEASE then map_option get (leaseModalConfig s) else None);
          f = validate_ip env lib (staticLeases s) (edit lease_ip) (v4 s)
                (validate_hostname env (staticLeases s) (edit lease_hostname)
                  (validate_mac env (staticLeases s) (edit lease_mac) f0))
      in (f, if lf_macError f = [] \<and> lf_ipError f = [] \<and> lf_hostnameError f = [] \<and> lf_mac f \<noteq> [] \<and> lf_ip f \<noteq> []
             then Some \<lparr>lease_hostname = trim (lf_hostname f), lease_ip = trim (lf_ip f), lease_mac = normalizeMac (trim (lf_mac f))\<rparr>
             else None))"

definition handleLeaseModalSubmit ::
  "env \<Rightarrow> ('w, 'm) dhcp_ctx_scheme dhcp_api \<Rightarrow> Lease \<Rightarrow> (('w, 'm) dhcp_ctx_scheme, unit) state" where
  "handleLeaseModalSubmit env api data = do {
     s \<leftarrow> gets dhcp;
     (if modalType s = Some EDIT_LEASE then updateStaticLease env api data else addStaticLease env api data) }"

definition lease_window_submit ::
  "env \<Rightarrow> ip_lib \<Rightarrow> ('w, 'm) dhcp_ctx_scheme dhcp_api \<Rightarrow> lease_form \<Rightarrow> (('w, 'm) dhcp_ctx_scheme, lease_form) state" where
  "lease_window_submit env lib api f0 = do {
     s \<leftarrow> gets dhcp;
     (case lease_submit env lib s f0 of
        (f, None) \<Rightarrow> pass f
      | (f, Some data) \<Rightarrow> do { handleLeaseModalSubmit env api data; pass f }) }"

definition isAddDisabled :: "DhcpState \<Rightarrow> bool" where
  "isAddDisabled s \<longleftrightarrow> \<not> enabled s \<or> v4_range_start (v4 s) = []"

definition handleConfirmDeleteLease ::
  "env \<Rightarrow> ('w, 'm) dhcp_ctx_scheme dhcp_api \<Rightarrow> Lease option \<Rightarrow> (('w, 'm) dhcp_ctx_scheme, Lease option) state" where
  "handleConfirmDeleteLease env api confirm =
     (case confirm of None \<Rightarrow> pass None | Some lease \<Rightarrow> do { removeStaticLease env api lease; pass None })"

subsection \<open>What the IPv4 form saves\<close>

lemma err_text_Nil: "err_text v = [] \<longleftrightarrow> \<not> truthy_str v"
  by (auto simp: err_text_def truthy_str_def)

lemma ipv4_trim: "matches R_IPV4 t \<Longrightarrow> trim t = t"
proof -
  assume "matches R_IPV4 t"
  then obtain a b c d where t: "t = dotted a b c d" unfolding matches_lang lang_R_IPV4 by blast
  have digit: "\<not> is_space x" if "x \<in> set (show_nat n)" for x n
    using show_nat_digits [OF that] by (auto simp: is_digit_def is_space_def)
  have "x \<in> set t \<Longrightarrow> \<not> is_space x" for x
    using digit unfolding t dotted_def by (auto simp: is_space_def code_def)
  moreover have "t \<noteq> []" unfolding t dotted_def by simp
  ultimately show "trim t = t" by (intro trim_id) simp
qed

lemma ipv4_Nil: "\<not> matches R_IPV4 []"
  by code_simp

lemma ipv4_accepted: "\<forall>k ps. getMessage env k ps \<noteq> [] \<Longrightarrow> t \<noteq> [] \<Longrightarrow> \<not> truthy_str (validateIpv4 env (Some t)) \<longleftrightarrow> matches R_IPV4 t"
  by (simp add: validateIpv4_def truthy_simps)

lemma v4_saved:
  assumes "snd (handleSave_v4 env lib toLocale toNumber f) = Some c"
  shows "\<not> truthy_str (validateRequiredValue env (VString (gatewayIp f)))" "\<not> truthy_str (validateIpv4 env (Some (gatewayIp f)))"
    "\<not> truthy_str (validateNotInRange env (gatewayIp f) (allValues f))"
    "\<not> truthy_str (validateGatewaySubnetMask env lib (allValues f))"
    "\<not> truthy_str (validateRequiredValue env (VString (rangeStart f)))" "\<not> truthy_str (validateIpv4 env (Some (rangeStart f)))"
    "\<not> truthy_str (validateIpForGatewaySubnetMask env lib (rangeStart f) (allValues f))"
    "\<not> truthy_str (validateRequiredValue env (VString (rangeEnd f)))" "\<not> truthy_str (validateIpv4 env (Some (rangeEnd f)))"
    "\<not> truthy_str (validateIpv4RangeEnd env (allValues f))"
    "\<not> truthy_str (validateIpForGatewaySubnetMask env lib (rangeEnd f) (allValues f))"
    "leaseDuration f \<noteq> [] \<Longrightarrow> \<not> truthy_str (validateLeaseTime env toLocale toNumber (VString (leaseDuration f)))"
    "c = \<lparr>c_gateway_ip = trim (gatewayIp f), c_subnet_mask = trim (subnetMask f), c_range_start = trim (rangeStart f),
       c_range_end = trim (rangeEnd f),
       c_lease_duration = (if leaseDuration f \<noteq> [] then toNumber (trim (leaseDuration f)) else Num 0)\<rparr>"
  using assms
  by (simp_all add: handleSave_v4_def validateGatewayIp_def validateSubnetMask_def validateRangeStart_def validateRangeEnd_def
      validateLeaseDuration_def lease_error_def allValues_def Let_def err_text_Nil truthy_simps split: if_splits)

lemma lease_time_accepted:
  assumes "\<forall>k ps. getMessage env k ps \<noteq> []" "t \<noteq> []" "\<not> truthy_str (validateLeaseTime env toLocale toNumber (VString t))"
  shows "\<exists>n. toNumber t = Num (of_int n) \<and> 1 \<le> n \<and> n \<le> UINT32_MAX"
proof -
  have i: "isInteger (toNumber t)" "\<not> below (toNumber t) 1" "\<not> above (toNumber t) (of_int UINT32_MAX)"
    using assms by (auto simp: validateLeaseTime_def validateBetween_def truthy_simps Let_def split: if_splits)
  obtain r where r: "toNumber t = Num r" using i(1) by (cases "toNumber t") simp_all
  then have fl: "of_int \<lfloor>r\<rfloor> = r" using i(1) by simp
  have "1 \<le> \<lfloor>r\<rfloor>" using i(2) r by (simp add: le_floor_iff)
  moreover have "(of_int \<lfloor>r\<rfloor> :: rat) \<le> of_int UINT32_MAX" using i(3) r fl by (simp only: above.simps not_less)
  ultimately show ?thesis using r fl by (metis of_int_le_iff)
qed

text \<open>
  C13. The IPv4 settings that the form saves are the texts in it: four IPv4 addresses, a range whose end is above its start, a gateway
  outside the range, a mask with a prefix length above 0 for which both ends of the range are in the gateway's subnet, and a lease
  time that is the default 0 or fits an unsigned 32-bit number.
\<close>

theorem v4_settings_sane:
  assumes msgs: "\<forall>k ps. getMessage env k ps \<noteq> []" and num: "\<forall>t. toNumber (trim t) = toNumber t"
    and "snd (handleSave_v4 env lib toLocale toNumber f) = Some c"
  shows "c_gateway_ip c = gatewayIp f \<and> c_subnet_mask c = subnetMask f \<and> c_range_start c = rangeStart f \<and> c_range_end c = rangeEnd f \<and>
    (\<forall>t \<in> {c_gateway_ip c, c_subnet_mask c, c_range_start c, c_range_end c}. matches R_IPV4 t) \<and>
    ip4ToInt (c_range_start c) < ip4ToInt (c_range_end c) \<and>
    \<not> (ip4ToInt (c_range_start c) \<le> ip4ToInt (c_gateway_ip c) \<and> ip4ToInt (c_gateway_ip c) \<le> ip4ToInt (c_range_end c)) \<and>
    (\<exists>n>0. parseSubnetMask lib (c_subnet_mask c) = Some n \<and>
       (\<forall>t \<in> {c_range_start c, c_range_end c}. isIpInCidr lib t (c_gateway_ip c @ ''/'' @ show_nat n))) \<and>
    (c_lease_duration c = Num 0 \<or> (\<exists>n. c_lease_duration c = Num (of_int n) \<and> 1 \<le> n \<and> n \<le> UINT32_MAX))"
proof -
  note v = v4_saved [OF assms(3)]
  have ne: "gatewayIp f \<noteq> []" "rangeStart f \<noteq> []" "rangeEnd f \<noteq> []"
    using v(1,5,8) msgs by (auto simp: validateRequiredValue_def truthy_simps)
  have ip: "matches R_IPV4 (gatewayIp f)" "matches R_IPV4 (rangeStart f)" "matches R_IPV4 (rangeEnd f)"
    using v(2,6,9) ipv4_accepted [OF msgs] ne by blast+
  have mask: "matches R_IPV4 (subnetMask f)" "subnetMask f \<noteq> []" "\<exists>n>0. parseSubnetMask lib (subnetMask f) = Some n"
    using v(4) msgs by (auto simp: validateGatewaySubnetMask_def allValues_def truthy_simps validateIpv4_def Let_def
        split: if_splits option.splits)
  obtain n where n: "0 < n" "parseSubnetMask lib (subnetMask f) = Some n" using mask(3) by blast
  have cidr: "isIpInCidr lib (rangeStart f) (gatewayIp f @ ''/'' @ show_nat n)" "isIpInCidr lib (rangeEnd f) (gatewayIp f @ ''/'' @ show_nat n)"
    using v(7,11) msgs ne mask ip n
    by (auto simp: validateIpForGatewaySubnetMask_def allValues_def truthy_simps validateIpv4_def Let_def split: if_splits)
  have range: "ip4ToInt (rangeStart f) < ip4ToInt (rangeEnd f)"
    using v(10) msgs ne by (auto simp: validateIpv4RangeEnd_def allValues_def truthy_simps split: if_splits)
  have gw: "\<not> (ip4ToInt (rangeStart f) \<le> ip4ToInt (gatewayIp f) \<and> ip4ToInt (gatewayIp f) \<le> ip4ToInt (rangeEnd f))"
    using v(3) msgs ne ip by (auto simp: validateNotInRange_def allValues_def truthy_simps validateIpv4_def or_str_def Let_def split: if_splits)
  have lease: "c_lease_duration c = Num 0 \<or> (\<exists>n. c_lease_duration c = Num (of_int n) \<and> 1 \<le> n \<and> n \<le> UINT32_MAX)"
    using lease_time_accepted [OF msgs _ v(12)] num by (auto simp: v(13))
  show ?thesis using ip mask n cidr range gw lease by (auto simp: v(13) ipv4_trim)
qed

definition sample_v4_form :: v4_form where
  "sample_v4_form = \<lparr>gatewayIp = ''10.0.0.1'', subnetMask = ''255.0.0.0'', rangeStart = ''10.0.0.2'', rangeEnd = ''10.0.0.9'',
     leaseDuration = [], gatewayIpError = [], subnetMaskError = [], rangeStartError = [], rangeEndError = [], leaseDurationError = []\<rparr>"

theorem v4_settings_sane_witness:
  "\<exists>c. snd (handleSave_v4 (sample_env\<lparr>getMessage := \<lambda>_ _. ''m''\<rparr>) (sample_lib\<lparr>prefixLengthFromSubnetMask := \<lambda>_. Some 8\<rparr>)
      (\<lambda>_. []) (\<lambda>_. NaN) sample_v4_form) = Some c \<and> ip4ToInt (c_range_start c) < ip4ToInt (c_range_end c)"
proof -
  let ?save = "snd (handleSave_v4 (sample_env\<lparr>getMessage := \<lambda>_ _. ''m''\<rparr>) (sample_lib\<lparr>prefixLengthFromSubnetMask := \<lambda>_. Some 8\<rparr>)
      (\<lambda>_. []) (\<lambda>_. NaN) sample_v4_form)"
  let ?lib = "sample_lib\<lparr>prefixLengthFromSubnetMask := \<lambda>_. Some 8\<rparr>"
  have ip: "matches R_IPV4 ''10.0.0.1''" "matches R_IPV4 ''255.0.0.0''" "matches R_IPV4 ''10.0.0.2''" "matches R_IPV4 ''10.0.0.9''"
    by code_simp+
  have ord: "ip4ToInt ''10.0.0.2'' < ip4ToInt ''10.0.0.9''" "ip4ToInt ''10.0.0.1'' < ip4ToInt ''10.0.0.2''" by code_simp+
  have cidr: "isIpInCidr ?lib ''10.0.0.2'' ''10.0.0.1/8''" "isIpInCidr ?lib ''10.0.0.9'' ''10.0.0.1/8''"
    using ip by (simp_all add: isIpInCidr_def isIpMatchCidr_def sample_lib_def endsWith_def)
  have mask: "parseSubnetMask ?lib ''255.0.0.0'' = Some 8" using ip(2) by (simp add: parseSubnetMask_def sample_lib_def)
  have num: "show_nat 8 = ''8''" by code_simp
  have "\<exists>c. ?save = Some c"
    using ip ord cidr mask num ipv4_trim [OF ip(1)] ipv4_trim [OF ip(2)] ipv4_trim [OF ip(3)] ipv4_trim [OF ip(4)]
    by (simp add: handleSave_v4_def sample_v4_form_def validateGatewayIp_def validateSubnetMask_def validateRangeStart_def
        validateRangeEnd_def validateLeaseDuration_def lease_error_def allValues_def Let_def err_text_Nil truthy_simps
        validateRequiredValue_def validateIpv4_def validateNotInRange_def validateGatewaySubnetMask_def
        validateIpForGatewaySubnetMask_def validateIpv4RangeEnd_def or_str_def)
  then obtain c where c: "?save = Some c" by blast
  have "\<forall>k ps. getMessage (sample_env\<lparr>getMessage := \<lambda>_ _. ''m''\<rparr>) k ps \<noteq> []" by simp
  from v4_settings_sane [OF this _ c] have "ip4ToInt (c_range_start c) < ip4ToInt (c_range_end c)" by blast
  with c show ?thesis by blast
qed

subsection \<open>What the lease window sends\<close>

lemma hex_run_length: "t \<in> lang (rep n (cls P)) \<Longrightarrow> length t = n"
  by (induction n arbitrary: t) auto

lemma toUpperCase_Nil: "toUpperCase v = [] \<longleftrightarrow> v = []"
  by (cases v) (auto simp: toUpperCase_def upper_char_def)

lemma normalizeMac_Nil: "v \<noteq> [] \<Longrightarrow> normalizeMac v \<noteq> []"
proof -
  assume v: "v \<noteq> []"
  have "toUpperCase (join '':'' (pairs v)) \<noteq> []" if "matches R_MAC_WITHOUT_COLON v"
  proof -
    have "length v = 12 \<or> length v = 16"
      using that hex_run_length [of v 12 is_hex] hex_run_length [of v 16 is_hex] unfolding matches_lang R_MAC_WITHOUT_COLON_def by auto
    then obtain a b r where "v = a # b # r" by (cases v rule: pairs.cases) auto
    then show ?thesis by (cases "pairs r") (simp_all add: toUpperCase_Nil)
  qed
  then show "normalizeMac v \<noteq> []" using v by (simp add: normalizeMac_def toUpperCase_Nil)
qed

text \<open>
  C14. A static lease that the window sends is well formed and new, by what the page knows: the hardware address is one of the accepted spellings and
  its normal form, compared as text without case, is on no static lease, except that an edited lease may keep its own. An IPv4 address is
  sent as typed; it is on no static lease, except that an edited lease may keep its own, it is in the subnet of the
  gateway when gateway and mask are configured, and it is not the gateway.
\<close>

theorem static_lease_sent_fresh:
  assumes msgs: "\<forall>k ps. getMessage env k ps \<noteq> []" and sub: "snd (lease_submit env lib s f) = Some l"
  defines "own \<equiv> \<lambda>k. modalType s = Some EDIT_LEASE \<and> leaseModalConfig s = Some k"
  shows "matches R_MAC (lf_mac f) \<and> lease_mac l = normalizeMac (trim (lf_mac f)) \<and>
    (toLowerCase (lease_mac l) \<in> (toLowerCase \<circ> lease_mac) ` set (staticLeases s) \<longrightarrow>
       (\<exists>k. own k \<and> toLowerCase (lease_mac k) = toLowerCase (lease_mac l))) \<and>
    (matches R_IPV4 (lf_ip f) \<longrightarrow> lease_ip l = lf_ip f \<and>
       (lease_ip l \<in> lease_ip ` set (staticLeases s) \<longrightarrow> (\<exists>k. own k \<and> lease_ip k = lease_ip l)) \<and>
       (\<forall>cidr. lease_cidr lib (v4 s) = Some cidr \<longrightarrow> isIpInCidr lib (lease_ip l) cidr) \<and>
       (gateway_ip (v4 s) \<noteq> [] \<longrightarrow> lease_ip l \<noteq> gateway_ip (v4 s)))"
proof -
  let ?edit = "\<lambda>get. if modalType s = Some EDIT_LEASE then map_option get (leaseModalConfig s) else None"
  have l: "lease_mac l = normalizeMac (trim (lf_mac f))" "lease_ip l = trim (lf_ip f)" and ne: "lf_ip f \<noteq> []" "lf_mac f \<noteq> []"
    and mac: "\<not> truthy_str (validateRequiredValue env (VString (lf_mac f)))" "\<not> truthy_str (validateMac env (Some (lf_mac f)))"
      "\<not> truthy_str (validateMacNotDuplicate env (map lease_entry (staticLeases s)) (?edit lease_mac) (Some (normalizeMac (trim (lf_mac f)))))"
    and ip: "\<not> truthy_str (validateIpNotDuplicate env (map lease_entry (staticLeases s)) (?edit lease_ip) (Some (lf_ip f)))"
      "\<And>cidr. lease_cidr lib (v4 s) = Some cidr \<Longrightarrow> \<not> truthy_str (validateIpv4InCidr env lib (lf_ip f) cidr)"
      "gateway_ip (v4 s) \<noteq> [] \<Longrightarrow> \<not> truthy_str (validateIpGateway env (lf_ip f) (gateway_ip (v4 s)))"
    using sub by (auto simp: lease_submit_def validate_mac_def validate_hostname_def validate_ip_def Let_def err_text_Nil
        truthy_simps split: if_splits)
  have "trim (lf_mac f) \<noteq> []" using mac(1) msgs by (auto simp: validateRequiredValue_def truthy_simps)
  then have "normalizeMac (trim (lf_mac f)) \<noteq> []" by (rule normalizeMac_Nil)
  then have m: "toLowerCase (lease_mac l) \<in> (toLowerCase \<circ> lease_mac) ` set (staticLeases s) \<Longrightarrow>
       \<exists>k. own k \<and> toLowerCase (lease_mac k) = toLowerCase (lease_mac l)"
    using mac(3) msgs unfolding l own_def
    by (cases "leaseModalConfig s") (auto simp: validateMacNotDuplicate_def truthy_simps lease_entry_def split: if_splits)
  have i: "lf_ip f \<in> lease_ip ` set (staticLeases s) \<Longrightarrow> \<exists>k. own k \<and> lease_ip k = lf_ip f"
    using ip(1) ne msgs unfolding own_def
    by (cases "leaseModalConfig s") (auto simp: validateIpNotDuplicate_def truthy_simps lease_entry_def split: if_splits)
  have "matches R_MAC (lf_mac f)" using mac(2) ne(2) msgs by (auto simp: validateMac_def truthy_simps split: if_splits)
  moreover have "\<forall>cidr. lease_cidr lib (v4 s) = Some cidr \<longrightarrow> isIpInCidr lib (lf_ip f) cidr"
    using ip(2) msgs by (auto simp: validateIpv4InCidr_def truthy_simps split: if_splits)
  moreover have "gateway_ip (v4 s) \<noteq> [] \<longrightarrow> lf_ip f \<noteq> gateway_ip (v4 s)"
    using ip(3) msgs by (auto simp: validateIpGateway_def truthy_simps split: if_splits)
  ultimately show ?thesis using l m i ipv4_trim [of "lf_ip f"] by auto
qed

text \<open>
  Changing only the case of a lease's host name is refused: the check compares the names without case, but excepts the lease's own
  name only when it is typed as stored.
\<close>

theorem hostname_case_edit_refused:
  assumes "\<forall>k ps. getMessage env k ps \<noteq> []" "k \<in> set (staticLeases s)" "leaseModalConfig s = Some k" "modalType s = Some EDIT_LEASE"
    and "lf_hostname f \<noteq> lease_hostname k" "lf_hostname f \<noteq> []" "toLowerCase (lf_hostname f) = toLowerCase (lease_hostname k)"
  shows "snd (lease_submit env lib s f) = None"
proof -
  have "lease_hostname k \<noteq> []" using assms(6,7) by (auto simp: toLowerCase_def)
  then have "truthy_str (validateHostnameNotDuplicate env (map lease_entry (staticLeases s)) (Some (lease_hostname k)) (Some (lf_hostname f)))"
    using assms by (auto simp: validateHostnameNotDuplicate_def truthy_simps lease_entry_def)
  then show ?thesis using assms
    by (simp add: lease_submit_def validate_mac_def validate_hostname_def validate_ip_def Let_def err_text_Nil truthy_simps)
qed

definition lease_page :: DhcpState where
  "lease_page = initialState\<lparr>
     staticLeases := [\<lparr>lease_hostname = ''a'', lease_ip = ''10.0.0.2'', lease_mac = ''aa:bb:cc:dd:ee:01''\<rparr>], modalType := Some ADD_LEASE\<rparr>"

theorem static_lease_sent_fresh_witness:
  "\<exists>l. snd (lease_submit (sample_env\<lparr>getMessage := \<lambda>_ _. ''m''\<rparr>) sample_lib lease_page
      \<lparr>lf_mac = ''AA-BB-CC-DD-EE-02'', lf_ip = ''10.0.0.3'', lf_hostname = [], lf_macError = [], lf_ipError = [], lf_hostnameError = []\<rparr>) = Some l \<and>
    lease_mac l = ''AA:BB:CC:DD:EE:02'' \<and> lease_ip l = ''10.0.0.3'' \<and> lease_ip l \<notin> lease_ip ` set (staticLeases lease_page)"
proof -
  let ?env = "sample_env\<lparr>getMessage := \<lambda>_ _. ''m''\<rparr>"
  let ?f = "\<lparr>lf_mac = ''AA-BB-CC-DD-EE-02'', lf_ip = ''10.0.0.3'', lf_hostname = [], lf_macError = [], lf_ipError = [], lf_hostnameError = []\<rparr>"
  have c: "trim ''AA-BB-CC-DD-EE-02'' = ''AA-BB-CC-DD-EE-02''" "matches R_MAC ''AA-BB-CC-DD-EE-02''"
    "normalizeMac ''AA-BB-CC-DD-EE-02'' = ''AA:BB:CC:DD:EE:02''" "trim ''10.0.0.3'' = ''10.0.0.3''" "matches R_IPV4 ''10.0.0.3''"
    "toLowerCase ''AA:BB:CC:DD:EE:02'' = ''aa:bb:cc:dd:ee:02''" "toLowerCase ''aa:bb:cc:dd:ee:01'' = ''aa:bb:cc:dd:ee:01''"
    by code_simp+
  have "\<exists>l. snd (lease_submit ?env sample_lib lease_page
      \<lparr>lf_mac = m, lf_ip = i, lf_hostname = [], lf_macError = [], lf_ipError = [], lf_hostnameError = []\<rparr>) = Some l"
    if "matches R_MAC m" "trim m \<noteq> []" "toLowerCase (normalizeMac (trim m)) \<noteq> toLowerCase ''aa:bb:cc:dd:ee:01''"
      "matches R_IPV4 i" "trim i \<noteq> []" "i \<noteq> ''10.0.0.2''" for m i
  proof -
    have "m \<noteq> []" "i \<noteq> []" using that by auto
    then show ?thesis using that
      by (simp add: lease_submit_def validate_mac_def validate_hostname_def validate_ip_def Let_def err_text_Nil truthy_simps
          validateRequiredValue_def validateMac_def validateMacNotDuplicate_def validateHostname_def validateHostnameNotDuplicate_def
          validateIp_def validateIpNotDuplicate_def lease_cidr_def lease_page_def initialState_def empty_v4_def lease_entry_def)
  qed
  from this [of "''AA-BB-CC-DD-EE-02''" "''10.0.0.3''"]
  have "\<exists>l. snd (lease_submit ?env sample_lib lease_page ?f) = Some l" using c by (simp del: matches.simps)
  then obtain l where l: "snd (lease_submit ?env sample_lib lease_page ?f) = Some l" by blast
  have "\<forall>k ps. getMessage ?env k ps \<noteq> []" by simp
  note sent = static_lease_sent_fresh [OF this l]
  have "modalType lease_page \<noteq> Some EDIT_LEASE" by (simp add: lease_page_def)
  then have "lease_mac l = ''AA:BB:CC:DD:EE:02'' \<and> lease_ip l = ''10.0.0.3'' \<and> lease_ip l \<notin> lease_ip ` set (staticLeases lease_page)"
    using sent c by (auto simp del: matches.simps)
  with l show ?thesis by blast
qed

end
