(* ===== verification/Settings.thy ===== *)
theory Settings
  imports Dashboard TextHelpers
begin

section \<open>Settings store\<close>

text \<open>
  \<^verbatim>\<open>client_v2/src/stores/settings.ts\<close>: safe browsing, parental control and safe search with
  their undo, and the test of the upstream servers. \<open>Promise.all\<close> is modelled with its requests
  answered in the order they are made.
\<close>

record settingsList =
  parental :: bool
  safebrowsing :: bool
  safesearch :: SafeSearchConfig

record SettingsState =
  processing :: bool
  initialized :: bool
  processingTestUpstream :: bool
  processingDhcpStatus :: bool
  settingsList :: settingsList

definition empty_safesearch :: SafeSearchConfig where
  "empty_safesearch = \<lparr>ss_enabled = None, ss_bing = None, ss_duckduckgo = None, ss_ecosia = None,
     ss_google = None, ss_pixabay = None, ss_yandex = None, ss_youtube = None\<rparr>"

definition initialState :: SettingsState where
  "initialState = \<lparr>processing = True, initialized = False, processingTestUpstream = False,
     processingDhcpStatus = False,
     settingsList = \<lparr>parental = False, safebrowsing = False, safesearch = empty_safesearch\<rparr>\<rparr>"

text \<open>The closures that undo a disabled protection.\<close>

datatype settings_undo = UndoSafeBrowsing | UndoParental | UndoSafeSearch SafeSearchConfig

record 'w settings_ctx = "(settings_undo, 'w) ctx" +
  settings :: SettingsState

interpretation settings_frame: toast_frame settings
  by unfold_locales simp_all

record UpstreamsConfig =
  uc_bootstrap_dns :: "string list"
  uc_private_upstream :: "string list"
  uc_fallback_dns :: "string list"
  uc_upstream_dns :: "string list option"

record 'c settings_api =
  safebrowsingStatus :: "('c, bool) call"
  safebrowsingEnable :: "('c, unit) call"
  safebrowsingDisable :: "('c, unit) call"
  parentalStatus :: "('c, bool) call"
  parentalEnable :: "('c, unit) call"
  parentalDisable :: "('c, unit) call"
  safesearchStatus :: "('c, SafeSearchConfig) call"
  safesearchSettings :: "SafeSearchConfig \<Rightarrow> ('c, unit) call"
  testUpstreamDNS :: "UpstreamsConfig \<Rightarrow> ('c, (string \<times> string) list) call"

abbreviation setState ::
  "(SettingsState \<Rightarrow> SettingsState) \<Rightarrow> ('w, 'm) settings_ctx_scheme \<Rightarrow> ('w, 'm) settings_ctx_scheme" where
  "setState f c \<equiv> c\<lparr>settings := f (settings c)\<rparr>"

abbreviation setList ::
  "(settingsList \<Rightarrow> settingsList) \<Rightarrow> ('w, 'm) settings_ctx_scheme \<Rightarrow> ('w, 'm) settings_ctx_scheme" where
  "setList f \<equiv> setState (\<lambda>s. s\<lparr>settingsList := f (settingsList s)\<rparr>)"

text \<open>A store write of an object at a path merges it into the object there: absent keys stay.\<close>

definition keep :: "'a option \<Rightarrow> 'a option \<Rightarrow> 'a option" where
  "keep upd old = (if upd = None then old else upd)"

definition merge_safesearch :: "SafeSearchConfig \<Rightarrow> SafeSearchConfig \<Rightarrow> SafeSearchConfig" where
  "merge_safesearch old upd = \<lparr>
     ss_enabled = keep (ss_enabled upd) (ss_enabled old), ss_bing = keep (ss_bing upd) (ss_bing old),
     ss_duckduckgo = keep (ss_duckduckgo upd) (ss_duckduckgo old), ss_ecosia = keep (ss_ecosia upd) (ss_ecosia old),
     ss_google = keep (ss_google upd) (ss_google old), ss_pixabay = keep (ss_pixabay upd) (ss_pixabay old),
     ss_yandex = keep (ss_yandex upd) (ss_yandex old), ss_youtube = keep (ss_youtube upd) (ss_youtube old)\<rparr>"

definition setSafeSearch ::
  "SafeSearchConfig \<Rightarrow> ('w, 'm) settings_ctx_scheme \<Rightarrow> ('w, 'm) settings_ctx_scheme" where
  "setSafeSearch cfg = setList (\<lambda>l. l\<lparr>safesearch := merge_safesearch (safesearch l) cfg\<rparr>)"

subsection \<open>Actions\<close>

definition initSettings ::
  "env \<Rightarrow> ('w, 'm) settings_ctx_scheme settings_api \<Rightarrow> (('w, 'm) settings_ctx_scheme, unit) state" where
  "initSettings env api = do {
     modify (setState (\<lambda>s. s\<lparr>processing := True\<rparr>));
     sb \<leftarrow> safebrowsingStatus api;
     pc \<leftarrow> parentalStatus api;
     ss \<leftarrow> safesearchStatus api;
     (case (sb, pc, ss) of
        (Inr sb1, Inr pc1, Inr ss1) \<Rightarrow> modify (setState (\<lambda>s. s\<lparr>
          settingsList := \<lparr>parental = pc1, safebrowsing = sb1, safesearch = ss1\<rparr>,
          processing := False, initialized := True\<rparr>))
      | _ \<Rightarrow> do {
          modify (errorToast env
            (case sb of Inl e \<Rightarrow> e | Inr _ \<Rightarrow> case pc of Inl e \<Rightarrow> e | Inr _ \<Rightarrow> case ss of Inl e \<Rightarrow> e | Inr _ \<Rightarrow> []));
          modify (setState (\<lambda>s. s\<lparr>processing := False, initialized := True\<rparr>)) }) }"

datatype setting = SafeBrowsing bool | Parental bool | SafeSearch SafeSearchConfig | OtherSetting

definition toggleSetting ::
  "env \<Rightarrow> ('w, 'm) settings_ctx_scheme settings_api \<Rightarrow> setting \<Rightarrow> (('w, 'm) settings_ctx_scheme, bool) state" where
  "toggleSetting env api s =
     (let failed = (\<lambda>e. do { modify (errorToast env e); pass False })
      in case s of
           SafeBrowsing status \<Rightarrow> try_call (if status then safebrowsingDisable api else safebrowsingEnable api)
             (\<lambda>_. do { modify (setList (\<lambda>l. l\<lparr>safebrowsing := \<not> status\<rparr>)); pass True }) failed
         | Parental status \<Rightarrow> try_call (if status then parentalDisable api else parentalEnable api)
             (\<lambda>_. do { modify (setList (\<lambda>l. l\<lparr>parental := \<not> status\<rparr>)); pass True }) failed
         | SafeSearch cfg \<Rightarrow> try_call (safesearchSettings api cfg)
             (\<lambda>_. do { modify (setSafeSearch cfg); pass True }) failed
         | OtherSetting \<Rightarrow> pass False)"

definition disableWithUndo ::
  "env \<Rightarrow> (('w, 'm) settings_ctx_scheme, unit) call
     \<Rightarrow> (bool \<Rightarrow> ('w, 'm) settings_ctx_scheme \<Rightarrow> ('w, 'm) settings_ctx_scheme) \<Rightarrow> string \<Rightarrow> settings_undo
     \<Rightarrow> (('w, 'm) settings_ctx_scheme, bool) state" where
  "disableWithUndo env disable setEnabled m undo =
     try_call disable
       (\<lambda>_. do {
          modify (setEnabled False);
          modify (undoToast env m undo);
          pass True })
       (\<lambda>e. do { modify (errorToast env e); pass False })"

definition set_safebrowsing :: "bool \<Rightarrow> ('w, 'm) settings_ctx_scheme \<Rightarrow> ('w, 'm) settings_ctx_scheme" where
  "set_safebrowsing b = setList (\<lambda>l. l\<lparr>safebrowsing := b\<rparr>)"

definition set_parental :: "bool \<Rightarrow> ('w, 'm) settings_ctx_scheme \<Rightarrow> ('w, 'm) settings_ctx_scheme" where
  "set_parental b = setList (\<lambda>l. l\<lparr>parental := b\<rparr>)"

definition disableSafeBrowsing ::
  "env \<Rightarrow> ('w, 'm) settings_ctx_scheme settings_api \<Rightarrow> (('w, 'm) settings_ctx_scheme, bool) state" where
  "disableSafeBrowsing env api = disableWithUndo env (safebrowsingDisable api) set_safebrowsing
     (msg env ''user_rules_browsing_security_disabled'') UndoSafeBrowsing"

definition disableParental ::
  "env \<Rightarrow> ('w, 'm) settings_ctx_scheme settings_api \<Rightarrow> (('w, 'm) settings_ctx_scheme, bool) state" where
  "disableParental env api = disableWithUndo env (parentalDisable api) set_parental
     (msg env ''user_rules_parental_control_disabled'') UndoParental"

definition disableSafeSearch ::
  "env \<Rightarrow> ('w, 'm) settings_ctx_scheme settings_api \<Rightarrow> (('w, 'm) settings_ctx_scheme, bool) state" where
  "disableSafeSearch env api = do {
     previousConfig \<leftarrow> gets (\<lambda>c. safesearch (settingsList (settings c)));
     try_call (safesearchSettings api (previousConfig\<lparr>ss_enabled := Some False\<rparr>))
       (\<lambda>_. do {
          modify (setSafeSearch (previousConfig\<lparr>ss_enabled := Some False\<rparr>));
          modify (undoToast env (msg env ''user_rules_safe_search_disabled'') (UndoSafeSearch previousConfig));
          pass True })
       (\<lambda>e. do { modify (errorToast env e); pass False }) }"

text \<open>What the undo closures do; a failed request rejects.\<close>

definition runUndo ::
  "('w, 'm) settings_ctx_scheme settings_api \<Rightarrow> settings_undo \<Rightarrow> (('w, 'm) settings_ctx_scheme, unit) call" where
  "runUndo api u =
     (case u of
        UndoSafeBrowsing \<Rightarrow> try_call (safebrowsingEnable api)
          (\<lambda>_. do { modify (set_safebrowsing True); pass (Inr ()) }) (\<lambda>e. pass (Inl e))
      | UndoParental \<Rightarrow> try_call (parentalEnable api)
          (\<lambda>_. do { modify (set_parental True); pass (Inr ()) }) (\<lambda>e. pass (Inl e))
      | UndoSafeSearch cfg \<Rightarrow> try_call (safesearchSettings api cfg)
          (\<lambda>_. do { modify (setSafeSearch cfg); pass (Inr ()) }) (\<lambda>e. pass (Inl e)))"

subsection \<open>Upstream test\<close>

record upstream_form =
  uf_bootstrap_dns :: string
  uf_upstream_dns :: string
  uf_local_ptr_upstreams :: string
  uf_fallback_dns :: string

definition removeComments :: "string \<Rightarrow> string list" where
  "removeComments text =
     filter (\<lambda>line. \<not> startsWith line ''#'' \<and> \<not> startsWith line ''!'') (splitByNewLine (Some text))"

definition upstreamsConfig :: "upstream_form \<Rightarrow> string option \<Rightarrow> UpstreamsConfig" where
  "upstreamsConfig v upstreamDnsFile = \<lparr>
     uc_bootstrap_dns = splitByNewLine (Some (uf_bootstrap_dns v)),
     uc_private_upstream = splitByNewLine (Some (uf_local_ptr_upstreams v)),
     uc_fallback_dns = splitByNewLine (Some (uf_fallback_dns v)),
     uc_upstream_dns = (if upstreamDnsFile \<notin> {None, Some []} then None else Some (removeComments (uf_upstream_dns v)))\<rparr>"

definition testMessage :: "env \<Rightarrow> string \<Rightarrow> string \<Rightarrow> string option" where
  "testMessage env key m =
     (if startsWith m ''WARNING:'' then Some (getMessage env ''dns_test_warning_toast'' [(''key'', SArg key)])
      else if endsWith m '': parsing error''
      then let parts = splitStr '' '' (take (nullish (indexOf m '':'') 0) m)
           in Some (getMessage env ''dns_test_parsing_error_toast''
                ([(''section'', SArg (hd parts))] @ (if length parts < 2 then [] else [(''number'', SArg (parts ! 1))])))
      else if m \<noteq> ''OK'' then Some (getMessage env ''dns_test_not_ok_toast'' [(''key'', SArg key)])
      else None)"

fun showTestMessages ::
  "env \<Rightarrow> (string \<times> string) list \<Rightarrow> ('w, 'm) settings_ctx_scheme \<Rightarrow> ('w, 'm) settings_ctx_scheme" where
  "showTestMessages env [] c = c"
| "showTestMessages env ((key, m) # r) c =
     showTestMessages env r (case testMessage env key m of None \<Rightarrow> c | Some t \<Rightarrow> errorToast env t c)"

definition acceptable :: "string \<Rightarrow> bool" where
  "acceptable m \<longleftrightarrow> m = ''OK'' \<or> startsWith m ''WARNING:''"

definition testUpstreamWithFormValues ::
  "env \<Rightarrow> ('w, 'm) settings_ctx_scheme settings_api \<Rightarrow> upstream_form \<Rightarrow> string option
     \<Rightarrow> (('w, 'm) settings_ctx_scheme, unit) state" where
  "testUpstreamWithFormValues env api v upstreamDnsFile = do {
     modify (setState (\<lambda>s. s\<lparr>processingTestUpstream := True\<rparr>));
     try_call (testUpstreamDNS api (upstreamsConfig v upstreamDnsFile))
       (\<lambda>res. do {
          modify (showTestMessages env res);
          (if list_all (\<lambda>(_, m). acceptable m) res then modify (successToast env (msg env ''dns_test_ok_toast'')) else pass ()) })
       (\<lambda>e. modify (errorToast env e));
     modify (setState (\<lambda>s. s\<lparr>processingTestUpstream := False\<rparr>)) }"

subsection \<open>A server that keeps its settings\<close>

text \<open>
  The server as the actions rely on it, seen through \<open>sb\<close>, \<open>pc\<close> and \<open>ss\<close>: each request
  succeeds, changes what it is for, and nothing else of the server's settings or of the page.
\<close>

definition changes ::
  "(('w, 'm) settings_ctx_scheme, unit) call \<Rightarrow> ('w \<Rightarrow> bool \<times> bool \<times> SafeSearchConfig)
     \<Rightarrow> (bool \<times> bool \<times> SafeSearchConfig \<Rightarrow> bool \<times> bool \<times> SafeSearchConfig) \<Rightarrow> bool" where
  "changes req view f \<longleftrightarrow>
     (\<forall>c. \<exists>w'. run_state req c = (Inr (), c\<lparr>world := w'\<rparr>) \<and> view w' = f (view (world c)))"

definition settings_server ::
  "('w, 'm) settings_ctx_scheme settings_api \<Rightarrow> ('w \<Rightarrow> bool \<times> bool \<times> SafeSearchConfig) \<Rightarrow> bool" where
  "settings_server api view \<longleftrightarrow>
     changes (safebrowsingEnable api) view (\<lambda>(_, p, s). (True, p, s)) \<and>
     changes (safebrowsingDisable api) view (\<lambda>(_, p, s). (False, p, s)) \<and>
     changes (parentalEnable api) view (\<lambda>(b, _, s). (b, True, s)) \<and>
     changes (parentalDisable api) view (\<lambda>(b, _, s). (b, False, s)) \<and>
     (\<forall>cfg. changes (safesearchSettings api cfg) view (\<lambda>(b, p, _). (b, p, cfg)))"

definition shown :: "('w, 'm) settings_ctx_scheme \<Rightarrow> bool \<times> bool \<times> SafeSearchConfig" where
  "shown c = (let l = settingsList (settings c) in (safebrowsing l, parental l, safesearch l))"

lemma shown_frame [simp]:
  "shown (undoToast env m u c) = shown c" "shown (addErrorToast env p c) = shown c" "shown (c\<lparr>world := w\<rparr>) = shown c"
  by (simp_all add: shown_def)

lemma shown_set [simp]:
  "shown (set_safebrowsing b c) = (b, snd (shown c))"
  "shown (set_parental b c) = (fst (shown c), b, snd (snd (shown c)))"
  "shown (setSafeSearch cfg c) = (fst (shown c), fst (snd (shown c)), merge_safesearch (snd (snd (shown c))) cfg)"
  by (simp_all add: shown_def set_safebrowsing_def set_parental_def setSafeSearch_def Let_def)

lemma set_world [simp]:
  "world (set_safebrowsing b c) = world c" "world (set_parental b c) = world c" "world (setSafeSearch cfg c) = world c"
  by (simp_all add: set_safebrowsing_def set_parental_def setSafeSearch_def)

lemma keep_simps [simp]: "keep None b = b" "keep (Some x) b = Some x" "keep a a = a"
  by (simp_all add: keep_def)

lemma merge_disabled: "merge_safesearch cfg (cfg\<lparr>ss_enabled := Some False\<rparr>) = cfg\<lparr>ss_enabled := Some False\<rparr>"
  by (simp add: merge_safesearch_def)

lemma merge_back: "ss_enabled cfg \<noteq> None \<Longrightarrow> merge_safesearch (cfg\<lparr>ss_enabled := Some False\<rparr>) cfg = cfg"
  by (auto simp: merge_safesearch_def)

text \<open>Clicking the undo button of the toast an action has just shown runs the closure.\<close>

lemma undo_click:
  assumes "nanoid env (nonce c) \<noteq> []" and "run_state (run u) (undoToast env m u c) = (Inr (), d)"
  shows "shown (exec (handleAction run (last (notices (undoToast env m u c)))) (undoToast env m u c)) = shown d \<and>
    world (exec (handleAction run (last (notices (undoToast env m u c)))) (undoToast env m u c)) = world d"
proof -
  have "undoId (last (notices (undoToast env m u c))) = Some (nanoid env (nonce c))"
    and "undoRegistry (undoToast env m u c) (nanoid env (nonce c)) = Some u"
    by (simp_all add: undoToast_def createUndoToast_def addSuccessToast_def success_notice_def Let_def)
  with assms show ?thesis
    by (simp add: handleAction_def Let_def getUndoCallback_def run_try_call shown_def)
qed

lemma changesE:
  assumes "changes req view f"
  obtains w' where "run_state req c = (Inr (), c\<lparr>world := w'\<rparr>)" "view w' = f (view (world c))"
  using assms unfolding changes_def by blast

text \<open>The common part of the three: a switch \<open>set\<close> of the page follows a request \<open>dis\<close>, and the
  closure's request \<open>en\<close> is followed by \<open>reset\<close>.\<close>

lemma disable_undo_core:
  assumes dis: "changes dis view f" and en: "changes en view g"
    and act: "run_state act c = run_state (try_call dis (\<lambda>_. do { modify set_off; modify (undoToast env m u); pass True })
      (\<lambda>e. do { modify (errorToast env e); pass False })) c"
    and run: "run u = try_call en (\<lambda>_. do { modify reset; pass (Inr ()) }) (\<lambda>e. pass (Inl e))"
    and off: "\<And>d. world (set_off d) = world d \<and> nonce (set_off d) = nonce d \<and> shown (set_off d) = F (shown d)"
    and on: "\<And>d. world (reset d) = world d \<and> shown (reset d) = G (shown d)"
    and nid: "nanoid env (nonce c) \<noteq> []"
    and eq: "view (world c) = shown c" "g (f (shown c)) = after" "G (F (shown c)) = after"
  shows "let c1 = exec act c; c2 = exec (handleAction run (last (notices c1))) c1
    in result act c \<and> view (world c2) = after \<and> shown c2 = after"
proof -
  obtain w1 where w1: "run_state dis c = (Inr (), c\<lparr>world := w1\<rparr>)" "view w1 = f (view (world c))"
    using dis by (rule changesE)
  let ?c0 = "set_off (c\<lparr>world := w1\<rparr>)"
  let ?c1 = "undoToast env m u ?c0"
  obtain w2 where w2: "run_state en ?c1 = (Inr (), ?c1\<lparr>world := w2\<rparr>)" "view w2 = g (view (world ?c1))"
    using en by (rule changesE)
  have r: "run_state (run u) ?c1 = (Inr (), reset (?c1\<lparr>world := w2\<rparr>))"
    by (simp add: run run_try_call w2)
  have n: "nanoid env (nonce ?c0) \<noteq> []" using nid off by simp
  have a: "run_state act c = (True, ?c1)" by (simp add: act run_try_call w1)
  show ?thesis
    using undo_click [of env ?c0 run u m "reset (?c1\<lparr>world := w2\<rparr>)", OF n r] w1(2) w2(2) off on eq
    by (simp add: a)
qed

definition stored_api :: "(settingsList, 'm) settings_ctx_scheme settings_api" where
  "stored_api =
     (let put = (\<lambda>f. do { modify (\<lambda>c. c\<lparr>world := f (world c)\<rparr>); pass (Inr ()) })
      in \<lparr>safebrowsingStatus = gets (\<lambda>c. Inr (safebrowsing (world c))),
          safebrowsingEnable = put (\<lambda>w. w\<lparr>safebrowsing := True\<rparr>),
          safebrowsingDisable = put (\<lambda>w. w\<lparr>safebrowsing := False\<rparr>),
          parentalStatus = gets (\<lambda>c. Inr (parental (world c))),
          parentalEnable = put (\<lambda>w. w\<lparr>parental := True\<rparr>),
          parentalDisable = put (\<lambda>w. w\<lparr>parental := False\<rparr>),
          safesearchStatus = gets (\<lambda>c. Inr (safesearch (world c))),
          safesearchSettings = (\<lambda>v. put (\<lambda>w. w\<lparr>safesearch := v\<rparr>)),
          testUpstreamDNS = (\<lambda>_. pass (Inr [(''tls://a'', ''OK''), (''tls://b'', ''timeout'')]))\<rparr>)"

lemma stored_api_server: "settings_server stored_api (\<lambda>w. (safebrowsing w, parental w, safesearch w))"
  unfolding settings_server_def changes_def
  by (auto simp: stored_api_def Let_def)

text \<open>
  Switching off a protection from the query log can be undone. Against any server that keeps
  what it is given and a page that shows the server's settings, disabling safe browsing, parental
  control or safe search (known to be on or off) and clicking the undo of the toast leaves the
  protection on for the first two and the old safe search settings for the third, the other
  settings untouched, and the page again shows what the server has.
\<close>

theorem disable_undo_restores:
  fixes api :: "('w, 'm) settings_ctx_scheme settings_api"
  assumes "settings_server api view" and "view (world c) = shown c" and "nanoid env (nonce c) \<noteq> []"
    and "shown c = (b, p, cfg)" and "ss_enabled cfg \<noteq> None"
    and "(disable, after) \<in> {(disableSafeBrowsing env api, (True, p, cfg)),
      (disableParental env api, (b, True, cfg)), (disableSafeSearch env api, (b, p, cfg))}"
  shows "let c1 = exec disable c; c2 = exec (handleAction (runUndo api) (last (notices c1))) c1
    in result disable c \<and> view (world c2) = after \<and> shown c2 = after"
proof -
  have nid: "nonce (set_safebrowsing x d) = nonce d" "nonce (set_parental x d) = nonce d"
    "nonce (setSafeSearch y d) = nonce d" for x y and d :: "('w, 'm) settings_ctx_scheme"
    by (simp_all add: set_safebrowsing_def set_parental_def setSafeSearch_def)
  have ss: "safesearch (settingsList (settings c)) = cfg" using assms(4) by (simp add: shown_def Let_def)
  consider "disable = disableSafeBrowsing env api" "after = (True, p, cfg)"
    | "disable = disableParental env api" "after = (b, True, cfg)"
    | "disable = disableSafeSearch env api" "after = (b, p, cfg)"
    using assms(6) by blast
  then show ?thesis
  proof cases
    case 1
    have "changes (safebrowsingDisable api) view (\<lambda>(_, p, s). (False, p, s))"
      and "changes (safebrowsingEnable api) view (\<lambda>(_, p, s). (True, p, s))"
      using assms(1) by (simp_all add: settings_server_def)
    then show ?thesis unfolding 1
      by (rule disable_undo_core [where set_off = "set_safebrowsing False" and reset = "set_safebrowsing True"
          and F = "\<lambda>(_, y). (False, y)" and G = "\<lambda>(_, y). (True, y)" and u = UndoSafeBrowsing])
        (use assms(2-4) nid in \<open>auto simp: disableSafeBrowsing_def disableWithUndo_def runUndo_def split: prod.splits\<close>)
  next
    case 2
    have "changes (parentalDisable api) view (\<lambda>(b, _, s). (b, False, s))"
      and "changes (parentalEnable api) view (\<lambda>(b, _, s). (b, True, s))"
      using assms(1) by (simp_all add: settings_server_def)
    then show ?thesis unfolding 2
      by (rule disable_undo_core [where set_off = "set_parental False" and reset = "set_parental True"
          and F = "\<lambda>(b, _, s). (b, False, s)" and G = "\<lambda>(b, _, s). (b, True, s)" and u = UndoParental])
        (use assms(2-4) nid in \<open>auto simp: disableParental_def disableWithUndo_def runUndo_def split: prod.splits\<close>)
  next
    case 3
    let ?off = "cfg\<lparr>ss_enabled := Some False\<rparr>"
    have "changes (safesearchSettings api ?off) view (\<lambda>(b, p, _). (b, p, ?off))"
      and "changes (safesearchSettings api cfg) view (\<lambda>(b, p, _). (b, p, cfg))"
      using assms(1) by (simp_all add: settings_server_def)
    then show ?thesis unfolding 3
      by (rule disable_undo_core [where set_off = "setSafeSearch ?off" and reset = "setSafeSearch cfg"
          and F = "\<lambda>(b, p, s). (b, p, merge_safesearch s ?off)" and G = "\<lambda>(b, p, s). (b, p, merge_safesearch s cfg)"
          and u = "UndoSafeSearch cfg" and m = "msg env ''user_rules_safe_search_disabled''" and env = env])
        (use assms(2-5) nid merge_disabled [of cfg] merge_back [of cfg] in
          \<open>auto simp: disableSafeSearch_def ss runUndo_def split: prod.splits\<close>)
  qed
qed

definition sample_settings :: "settingsList settings_ctx" where
  "sample_settings =
     (let l = \<lparr>parental = True, safebrowsing = True, safesearch = empty_safesearch\<lparr>ss_enabled := Some True\<rparr>\<rparr>
      in \<lparr>notices = [], undoRegistry = Map.empty, nonce = 1, console_error = [], world = l,
          settings = initialState\<lparr>settingsList := l\<rparr>\<rparr>)"

theorem disable_undo_restores_witness:
  "let c1 = exec (disableSafeSearch sample_env stored_api) sample_settings;
       c2 = exec (handleAction (runUndo stored_api) (last (notices c1))) c1
   in shown c2 = (True, True, empty_safesearch\<lparr>ss_enabled := Some True\<rparr>)"
proof -
  let ?cfg = "empty_safesearch\<lparr>ss_enabled := Some True\<rparr>"
  have "shown sample_settings = (True, True, ?cfg)" "nanoid sample_env (nonce sample_settings) \<noteq> []"
    "(\<lambda>w. (safebrowsing w, parental w, safesearch w)) (world sample_settings) = shown sample_settings"
    by (simp_all add: sample_settings_def shown_def Let_def sample_env_def)
  from disable_undo_restores [OF stored_api_server this(3,2,1),
      of "disableSafeSearch sample_env stored_api" "(True, True, ?cfg)"]
  show ?thesis by (simp add: Let_def)
qed

lemma push_notice_types:
  assumes "toast_type x = ty"
  shows "toast_type ` set (push_notice ty x prev) = insert ty (toast_type ` set prev)"
proof (cases "\<exists>n \<in> set prev. isDuplicate ty (message x) (action x) n")
  case True
  have "toast_type (if isDuplicate ty (message x) (action x) n then x else n) = toast_type n" for n
    using assms by (auto simp: isDuplicate_def)
  then have "map toast_type (push_notice ty x prev) = map toast_type prev"
    using True by (simp add: push_notice_def)
  then have "toast_type ` set (push_notice ty x prev) = toast_type ` set prev"
    by (metis list.set_map)
  moreover have "ty \<in> toast_type ` set prev" using True by (auto simp: isDuplicate_def)
  ultimately show ?thesis by blast
qed (use assms in \<open>simp add: push_notice_def\<close>)

lemma errorToast_types: "toast_type ` set (notices (errorToast env t c)) = insert ErrorToast (toast_type ` set (notices c))"
  by (simp add: addErrorToast_def pushProblemToast_def push_notice_types Let_def)

lemma testMessage_None: "testMessage env key m = None \<longleftrightarrow> m = ''OK''"
  by (auto simp: testMessage_def Let_def endsWith_def)

lemma showTestMessages_types:
  "toast_type ` set (notices (showTestMessages env res c)) =
     toast_type ` set (notices c) \<union> (if \<exists>(_, m) \<in> set res. m \<noteq> ''OK'' then {ErrorToast} else {})"
proof (induction env res c rule: showTestMessages.induct)
  case (2 env key m r c)
  then show ?case
    using testMessage_None [of env key m] by (auto simp: errorToast_types split: option.splits)
qed simp

lemma showTestMessages_settings: "settings (showTestMessages env res c) = settings c"
  by (induction env res c rule: showTestMessages.induct) (simp_all split: option.splits)

text \<open>
  C38. The upstream test reports success exactly when every answer is OK or a warning, and it never
  leaves its progress flag set; otherwise the page has an error notice and no success notice.
\<close>

theorem upstream_test_verdict:
  assumes "run_state (testUpstreamDNS api (upstreamsConfig v file)) (setState (\<lambda>s. s\<lparr>processingTestUpstream := True\<rparr>) c)
      = (Inr res, d)" and "notices d = []"
  shows "let c' = exec (testUpstreamWithFormValues env api v file) c
    in \<not> processingTestUpstream (settings c') \<and>
      (SuccessToast \<in> toast_type ` set (notices c') \<longleftrightarrow> (\<forall>(_, m) \<in> set res. acceptable m)) \<and>
      (ErrorToast \<in> toast_type ` set (notices c') \<longleftrightarrow> (\<exists>(_, m) \<in> set res. m \<noteq> ''OK''))"
proof -
  let ?d1 = "showTestMessages env res d"
  have t: "toast_type ` set (notices ?d1) = (if \<exists>(_, m) \<in> set res. m \<noteq> ''OK'' then {ErrorToast} else {})"
    using assms(2) by (simp add: showTestMessages_types)
  have ok: "notices (successToast env m x) = notices x @ [success_notice (nanoid env (nonce x)) (SuccessString m)]" for m x
    by (simp add: addSuccessToast_def)
  have ty: "toast_type (success_notice i (SuccessString m)) = SuccessToast" for i m
    by (simp add: success_notice_def)
  show ?thesis
    by (auto simp: testUpstreamWithFormValues_def run_try_call assms(1) t ok ty list_all_iff Let_def split: if_splits)
qed

theorem upstream_test_verdict_witness:
  "let c' = exec (testUpstreamWithFormValues sample_env stored_api
       \<lparr>uf_bootstrap_dns = [], uf_upstream_dns = ''tls://a'', uf_local_ptr_upstreams = [], uf_fallback_dns = []\<rparr> None) sample_settings
   in SuccessToast \<notin> toast_type ` set (notices c') \<and> ErrorToast \<in> toast_type ` set (notices c')"
proof -
  have n: "\<not> acceptable ''timeout''" by (simp add: acceptable_def)
  let ?v = "\<lparr>uf_bootstrap_dns = [], uf_upstream_dns = ''tls://a'', uf_local_ptr_upstreams = [], uf_fallback_dns = []\<rparr>"
  have "run_state (testUpstreamDNS stored_api (upstreamsConfig ?v None))
      (setState (\<lambda>s. s\<lparr>processingTestUpstream := True\<rparr>) sample_settings) =
      (Inr [(''tls://a'', ''OK''), (''tls://b'', ''timeout'')], setState (\<lambda>s. s\<lparr>processingTestUpstream := True\<rparr>) sample_settings)"
    by (simp add: stored_api_def Let_def)
  from upstream_test_verdict [OF this, of sample_env] n show ?thesis
    by (simp add: sample_settings_def Let_def)
qed

end
