(* ===== verification/GeneralSettings.thy ===== *)
theory GeneralSettings
  imports Settings Filtering
begin

section \<open>The general settings page\<close>

text \<open>
  \<^verbatim>\<open>client_v2/src/components/Settings\<close>: the switch of the filtering (\<^verbatim>\<open>FiltersConfig.tsx\<close>), the window of the safe
  search providers, the window of ignored domains and the handlers of \<^verbatim>\<open>Settings.tsx\<close>. The windows of the retention
  times are in \<open>Retention\<close>.
\<close>

subsection \<open>The switch of the filtering\<close>

text \<open>
  The switch is a signal of its own: it takes the stored value when it is mounted, and a change of it saves the configuration. The page
  shows it as soon as the settings, the statistics and the query log configuration are loaded.
\<close>

record 'w settings_page = "'w filtering_ctx" +
  filters_switch :: "bool option"

interpretation filters_switch_frame: toast_frame filters_switch
  by unfold_locales simp_all

definition filters_mount :: "('w, 'm) settings_page_scheme \<Rightarrow> ('w, 'm) settings_page_scheme" where
  "filters_mount c = c\<lparr>filters_switch := Filtering.enabled (filtering c)\<rparr>"

definition filters_change ::
  "env \<Rightarrow> ('w, 'm) settings_page_scheme filtering_api \<Rightarrow> bool \<Rightarrow> (('w, 'm) settings_page_scheme, unit) state" where
  "filters_change env api v = do {
     old \<leftarrow> gets filters_switch;
     iv \<leftarrow> gets (\<lambda>c. interval (filtering c));
     modify (\<lambda>c. c\<lparr>filters_switch := Some v\<rparr>);
     (if old = Some v then pass () else setFiltersConfig env api \<lparr>cfg_enabled = Some v, cfg_interval = iv\<rparr>) }"

definition isLoading :: "bool \<Rightarrow> bool \<Rightarrow> bool \<Rightarrow> bool" where
  "isLoading settings_ready stats_ready logs_ready \<longleftrightarrow> \<not> settings_ready \<or> \<not> stats_ready \<or> \<not> logs_ready"

text \<open>
  The status of the filtering is not waited for: when its answer comes after the switch is shown, the switch keeps the default, on,
  while the filtering is off.
\<close>

theorem filters_switch_stale:
  fixes env
  assumes "filtering c = Filtering.initialState" "result (filteringStatus api) (setState (\<lambda>s. s\<lparr>processingFilters := True\<rparr>) (filters_mount c)) = Inr st"
    and "\<And>c. filters_switch (exec (filteringStatus api) c) = filters_switch c" and "fs_enabled st = Some False"
  defines "c' \<equiv> exec (getFilteringStatus env api) (filters_mount c)"
  shows "Filtering.enabled (filtering c') = Some False \<and> filters_switch c' = Some True"
  using assms(1-4)
  by (simp add: c'_def getFilteringStatus_def run_try_call normalizeFilteringStatus_def Let_def filters_mount_def Filtering.initialState_def)

text \<open>A refused save leaves the switch at the value that is not stored.\<close>

theorem filters_switch_refused:
  assumes "\<And>c. run_state (filteringConfig api cfg) c = (Inl e, c)" "filters_switch c \<noteq> Some v"
    and "cfg = \<lparr>cfg_enabled = Some v, cfg_interval = interval (filtering c)\<rparr>"
  shows "filters_switch (exec (filters_change env api v) c) = Some v \<and>
    Filtering.enabled (filtering (exec (filters_change env api v) c)) = Filtering.enabled (filtering c)"
  using assms by (simp add: filters_change_def setFiltersConfig_def run_try_call)

subsection \<open>Safe search providers\<close>

definition SAFE_SEARCH_PROVIDER_KEYS :: "string list" where
  "SAFE_SEARCH_PROVIDER_KEYS = [''google'', ''youtube'', ''bing'', ''duckduckgo'', ''yandex'', ''pixabay'', ''ecosia'']"

definition provider_field :: "string \<Rightarrow> SafeSearchConfig \<Rightarrow> bool option" where
  "provider_field k s =
     (if k = ''google'' then ss_google s else if k = ''youtube'' then ss_youtube s else if k = ''bing'' then ss_bing s
      else if k = ''duckduckgo'' then ss_duckduckgo s else if k = ''yandex'' then ss_yandex s
      else if k = ''pixabay'' then ss_pixabay s else if k = ''ecosia'' then ss_ecosia s else None)"

definition safe_open :: "SafeSearchConfig \<Rightarrow> (string \<rightharpoonup> bool)" where
  "safe_open providers = map_of (map (\<lambda>k. (k, nullish (provider_field k providers) False)) SAFE_SEARCH_PROVIDER_KEYS)"

definition safe_toggle :: "string \<Rightarrow> (string \<rightharpoonup> bool) \<Rightarrow> (string \<rightharpoonup> bool)" where
  "safe_toggle k sel = sel(k \<mapsto> \<not> nullish (sel k) False)"

definition safe_result :: "(string \<rightharpoonup> bool) \<Rightarrow> SafeSearchConfig" where
  "safe_result sel = \<lparr>ss_enabled = None, ss_bing = Some (nullish (sel ''bing'') False), ss_duckduckgo = Some (nullish (sel ''duckduckgo'') False),
     ss_ecosia = Some (nullish (sel ''ecosia'') False), ss_google = Some (nullish (sel ''google'') False),
     ss_pixabay = Some (nullish (sel ''pixabay'') False), ss_yandex = Some (nullish (sel ''yandex'') False),
     ss_youtube = Some (nullish (sel ''youtube'') False)\<rparr>"

text \<open>\<open>handleSafeSearchSave\<close>; the result says whether the window closes.\<close>

definition handleSafeSearchSave ::
  "env \<Rightarrow> ('w, 'm) settings_ctx_scheme settings_api \<Rightarrow> SafeSearchConfig \<Rightarrow> (('w, 'm) settings_ctx_scheme, bool) state" where
  "handleSafeSearchSave env api providers = do {
     ss \<leftarrow> gets (\<lambda>c. safesearch (settingsList (settings c)));
     ok \<leftarrow> toggleSetting env api (SafeSearch (merge_safesearch ss providers));
     (if ok then modify (successToast env (msg env ''changes_saved_success'')) else pass ());
     pass ok }"

definition safesearch_switch ::
  "env \<Rightarrow> ('w, 'm) settings_ctx_scheme settings_api \<Rightarrow> bool \<Rightarrow> (('w, 'm) settings_ctx_scheme, bool) state" where
  "safesearch_switch env api v = do {
     ss \<leftarrow> gets (\<lambda>c. safesearch (settingsList (settings c)));
     toggleSetting env api (SafeSearch (ss\<lparr>ss_enabled := Some v\<rparr>)) }"

lemma safe_result_field:
  "k \<in> set SAFE_SEARCH_PROVIDER_KEYS \<Longrightarrow> provider_field k (safe_result sel) = Some (nullish (sel k) False)"
  by (auto simp: SAFE_SEARCH_PROVIDER_KEYS_def provider_field_def safe_result_def)

lemma merged_field:
  "k \<in> set SAFE_SEARCH_PROVIDER_KEYS \<Longrightarrow> provider_field k (merge_safesearch ss (safe_result sel)) = Some (nullish (sel k) False) \<and>
     ss_enabled (merge_safesearch ss (safe_result sel)) = ss_enabled ss"
  by (auto simp: SAFE_SEARCH_PROVIDER_KEYS_def provider_field_def safe_result_def merge_safesearch_def keep_def)

lemma safe_open_key: "k \<in> set SAFE_SEARCH_PROVIDER_KEYS \<Longrightarrow> safe_open ss k = Some (nullish (provider_field k ss) False)"
  by (auto simp: safe_open_def SAFE_SEARCH_PROVIDER_KEYS_def)

lemma toggles_parity:
  assumes "k \<in> set SAFE_SEARCH_PROVIDER_KEYS"
  shows "nullish (fold safe_toggle ks (safe_open ss) k) False = (nullish (provider_field k ss) False \<noteq> odd (count_list ks k))"
proof -
  have "nullish (fold safe_toggle ks sel k) False = (nullish (sel k) False \<noteq> odd (count_list ks k))" for sel
    by (induction ks arbitrary: sel) (auto simp: safe_toggle_def)
  then show ?thesis using safe_open_key [OF assms] by simp
qed

text \<open>
  Saving the window of the providers stores, for each provider, the stored choice flipped as often as its box was clicked, and does
  not touch the switch of the safe search.
\<close>

theorem safe_search_saved:
  fixes env ks c
  assumes "k \<in> set SAFE_SEARCH_PROVIDER_KEYS" "\<And>cfg c. result (safesearchSettings api cfg) c = Inr ()"
    and "\<And>cfg c. settings (exec (safesearchSettings api cfg) c) = settings c"
  defines "ss \<equiv> \<lambda>c. safesearch (settingsList (settings c))"
  defines "c' \<equiv> exec (handleSafeSearchSave env api (safe_result (fold safe_toggle ks (safe_open (ss c))))) c"
  shows "provider_field k (ss c') = Some (nullish (provider_field k (ss c)) False \<noteq> odd (count_list ks k)) \<and>
    ss_enabled (ss c') = ss_enabled (ss c)"
proof -
  let ?sel = "fold safe_toggle ks (safe_open (ss c))"
  have "ss c' = merge_safesearch (ss c) (merge_safesearch (ss c) (safe_result ?sel))"
    using assms(2,3) by (simp add: c'_def ss_def handleSafeSearchSave_def toggleSetting_def run_try_call setSafeSearch_def Let_def)
  also have "\<dots> = merge_safesearch (ss c) (safe_result ?sel)"
    by (simp add: merge_safesearch_def keep_def safe_result_def)
  finally show ?thesis using merged_field [OF assms(1), of "ss c" ?sel] toggles_parity [OF assms(1), of ks "ss c"] by simp
qed

subsection \<open>Ignored domains\<close>

definition ignored_open :: "string list \<Rightarrow> string" where
  "ignored_open ignored = join_lines ignored"

definition ignored_blur :: "string \<Rightarrow> string" where
  "ignored_blur v = trimLinesAndRemoveEmpty v"

definition ignored_save :: "string \<Rightarrow> string list" where
  "ignored_save v = filter (\<lambda>l. l \<noteq> []) (split_lines (trimLinesAndRemoveEmpty v))"

definition ignoredSummary :: "string list option \<Rightarrow> string" where
  "ignoredSummary ignored = (case ignored of None \<Rightarrow> [] | Some ds \<Rightarrow> join '', '' ds)"

lemma trimmed_lines: "l \<in> set (filter (\<lambda>l. l \<noteq> []) (map trim (split_lines v))) \<Longrightarrow> newline \<notin> set l \<and> l \<noteq> [] \<and> trim l = l"
  using set_trim split_on_parts by fastforce

lemma lines_kept:
  assumes "\<And>d. d \<in> set ds \<Longrightarrow> newline \<notin> set d \<and> d \<noteq> [] \<and> trim d = d"
  shows "filter (\<lambda>l. l \<noteq> []) (map trim (split_lines (join_lines ds))) = ds"
proof (cases "ds = []")
  case False
  then have "split_lines (join_lines ds) = ds" using assms by (intro split_on_join) auto
  then show ?thesis using assms by (simp add: map_idI filter_id_conv)
qed (simp add: trim_Nil_iff)

lemma ignored_save_lines: "ignored_save v = filter (\<lambda>l. l \<noteq> []) (map trim (split_lines v))"
proof -
  let ?ls = "filter (\<lambda>l. l \<noteq> []) (map trim (split_lines v))"
  show ?thesis
  proof (cases "?ls = []")
    case False
    then have "split_lines (join_lines ?ls) = ?ls" using trimmed_lines [of _ v] by (intro split_on_join) blast+
    then show ?thesis by (simp add: ignored_save_def trimLinesAndRemoveEmpty_def)
  qed (simp add: ignored_save_def trimLinesAndRemoveEmpty_def)
qed

text \<open>
  Saving takes the lines of the text, trimmed, without the blank ones, whether or not the field was left before; opening the window
  and saving keeps a list of such lines.
\<close>

theorem ignored_roundtrip:
  "ignored_save (ignored_blur v) = ignored_save v"
  "(\<forall>d\<in>set ds. newline \<notin> set d \<and> d \<noteq> [] \<and> trim d = d) \<Longrightarrow> ignored_save (ignored_open ds) = ds"
proof -
  have "filter (\<lambda>l. l \<noteq> []) (map trim (split_lines (join_lines ls))) = ls"
    if "ls = filter (\<lambda>l. l \<noteq> []) (map trim (split_lines v))" for ls
    using trimmed_lines [of _ v] that by (intro lines_kept) blast
  then show "ignored_save (ignored_blur v) = ignored_save v"
    by (simp add: ignored_save_lines ignored_blur_def trimLinesAndRemoveEmpty_def)
  show "ignored_save (ignored_open ds) = ds" if "\<forall>d\<in>set ds. newline \<notin> set d \<and> d \<noteq> [] \<and> trim d = d"
    using lines_kept [of ds] that by (simp add: ignored_save_lines ignored_open_def)
qed

end
