(* ===== verification/ClientForm.thy ===== *)
theory ClientForm
  imports Settings Validators
begin

section \<open>Client form and clients store\<close>

text \<open>
  \<^verbatim>\<open>client_v2/src/stores/clientForm.ts\<close> and \<^verbatim>\<open>client_v2/src/stores/clients.ts\<close>: the form of a
  persistent client, its conversion from and to the server's client, its checks, and the actions
  that add, change and remove clients. The browser's time zone is the parameter \<open>tz\<close>.

  A store write of an object at a path merges the object into the one there; that matters for the
  field errors below.
\<close>

subsection \<open>Data\<close>

datatype form_mode = ModeAdd | ModeEdit

record form_fields =
  f_name :: string
  f_ids :: "string list"
  f_tags :: "string list"
  f_use_global_settings :: bool
  f_filtering_enabled :: bool
  f_safebrowsing_enabled :: bool
  f_parental_enabled :: bool
  f_safe_search :: SafeSearchConfig
  f_ignore_querylog :: bool
  f_ignore_statistics :: bool
  f_blocked_services :: "string list"
  f_use_global_blocked_services :: bool
  f_schedule :: Schedule
  f_upstreams :: string
  f_upstreams_cache_enabled :: bool
  f_upstreams_cache_size :: form_value

datatype form_error = FieldError string | ListError "string option list"

record ClientFormState =
  mode :: form_mode
  originalName :: string
  client_fields :: form_fields
  processingSave :: bool
  formErrors :: "string \<rightharpoonup> form_error"

definition DEFAULT_DNS_CACHE_SIZE :: int where
  "DEFAULT_DNS_CACHE_SIZE = 4 * 1024 * 1024"

definition all_off :: SafeSearchConfig where
  "all_off = \<lparr>ss_enabled = Some False, ss_bing = Some False, ss_duckduckgo = Some False, ss_ecosia = Some False,
     ss_google = Some False, ss_pixabay = Some False, ss_yandex = Some False, ss_youtube = Some False\<rparr>"

definition empty_schedule :: "string \<Rightarrow> Schedule" where
  "empty_schedule tz = \<lparr>time_zone = Some tz, sun = None, mon = None, tue = None, wed = None, thu = None, fri = None, sat = None\<rparr>"

definition initial_fields :: "string \<Rightarrow> form_fields" where
  "initial_fields tz = \<lparr>f_name = [], f_ids = [[]], f_tags = [], f_use_global_settings = False,
     f_filtering_enabled = False, f_safebrowsing_enabled = False, f_parental_enabled = False,
     f_safe_search = all_off, f_ignore_querylog = False, f_ignore_statistics = False,
     f_blocked_services = [], f_use_global_blocked_services = False, f_schedule = empty_schedule tz,
     f_upstreams = [], f_upstreams_cache_enabled = False,
     f_upstreams_cache_size = VNumber (Num (of_int DEFAULT_DNS_CACHE_SIZE))\<rparr>"

definition getInitialClientFormState :: "string \<Rightarrow> ClientFormState" where
  "getInitialClientFormState tz = \<lparr>mode = ModeAdd, originalName = [], client_fields = initial_fields tz,
     processingSave = False, formErrors = Map.empty\<rparr>"

record ClientsState =
  processing :: bool
  processingAdding :: bool
  processingDeleting :: bool
  processingUpdating :: bool
  isModalOpen :: bool
  modalClientName :: string
  modalType :: string

definition initialState :: ClientsState where
  "initialState = \<lparr>processing = True, processingAdding = False, processingDeleting = False,
     processingUpdating = False, isModalOpen = False, modalClientName = [], modalType = []\<rparr>"

record 'w form_ctx = "'w dash_ctx" +
  clientForm :: ClientFormState
  clientsStore :: ClientsState

interpretation form_frame: toast_frame clientForm
  by unfold_locales simp_all

interpretation clients_frame: toast_frame clientsStore
  by unfold_locales simp_all

record 'c clients_api =
  clientsAdd :: "Client \<Rightarrow> ('c, unit) call"
  clientsUpdate :: "string \<Rightarrow> Client \<Rightarrow> ('c, unit) call"
  clientsDelete :: "string \<Rightarrow> ('c, unit) call"

abbreviation setForm ::
  "(ClientFormState \<Rightarrow> ClientFormState) \<Rightarrow> ('w, 'm) form_ctx_scheme \<Rightarrow> ('w, 'm) form_ctx_scheme" where
  "setForm f c \<equiv> c\<lparr>clientForm := f (clientForm c)\<rparr>"

abbreviation setClients ::
  "(ClientsState \<Rightarrow> ClientsState) \<Rightarrow> ('w, 'm) form_ctx_scheme \<Rightarrow> ('w, 'm) form_ctx_scheme" where
  "setClients f c \<equiv> c\<lparr>clientsStore := f (clientsStore c)\<rparr>"

subsection \<open>Editing the form\<close>

definition initClientForm :: "string \<Rightarrow> form_fields option \<Rightarrow> ClientFormState \<Rightarrow> ClientFormState" where
  "initClientForm tz client s =
     (case client of
        Some f \<Rightarrow> (getInitialClientFormState tz)\<lparr>client_fields := f, mode := ModeEdit, originalName := f_name f\<rparr>
      | None \<Rightarrow> getInitialClientFormState tz)"

datatype form_flag = UseGlobalSettings | FilteringEnabled | SafebrowsingEnabled | ParentalEnabled
  | IgnoreQuerylog | IgnoreStatistics | UseGlobalBlockedServices | UpstreamsCacheEnabled

datatype field_value = SetName string | SetIds "string list" | SetTags "string list"
  | SetFlag form_flag bool | SetSafeSearch SafeSearchConfig | SetBlockedServices "string list"
  | SetSchedule Schedule | SetUpstreams string | SetCacheSize form_value

fun flag_name :: "form_flag \<Rightarrow> string" where
  "flag_name UseGlobalSettings = ''use_global_settings''"
| "flag_name FilteringEnabled = ''filtering_enabled''"
| "flag_name SafebrowsingEnabled = ''safebrowsing_enabled''"
| "flag_name ParentalEnabled = ''parental_enabled''"
| "flag_name IgnoreQuerylog = ''ignore_querylog''"
| "flag_name IgnoreStatistics = ''ignore_statistics''"
| "flag_name UseGlobalBlockedServices = ''use_global_blocked_services''"
| "flag_name UpstreamsCacheEnabled = ''upstreams_cache_enabled''"

fun field_name :: "field_value \<Rightarrow> string" where
  "field_name (SetName _) = ''name''"
| "field_name (SetIds _) = ''ids''"
| "field_name (SetTags _) = ''tags''"
| "field_name (SetFlag k _) = flag_name k"
| "field_name (SetSafeSearch _) = ''safe_search''"
| "field_name (SetBlockedServices _) = ''blocked_services''"
| "field_name (SetSchedule _) = ''blocked_services_schedule''"
| "field_name (SetUpstreams _) = ''upstreams''"
| "field_name (SetCacheSize _) = ''upstreams_cache_size''"

fun set_flag :: "form_flag \<Rightarrow> bool \<Rightarrow> form_fields \<Rightarrow> form_fields" where
  "set_flag UseGlobalSettings b f = f\<lparr>f_use_global_settings := b\<rparr>"
| "set_flag FilteringEnabled b f = f\<lparr>f_filtering_enabled := b\<rparr>"
| "set_flag SafebrowsingEnabled b f = f\<lparr>f_safebrowsing_enabled := b\<rparr>"
| "set_flag ParentalEnabled b f = f\<lparr>f_parental_enabled := b\<rparr>"
| "set_flag IgnoreQuerylog b f = f\<lparr>f_ignore_querylog := b\<rparr>"
| "set_flag IgnoreStatistics b f = f\<lparr>f_ignore_statistics := b\<rparr>"
| "set_flag UseGlobalBlockedServices b f = f\<lparr>f_use_global_blocked_services := b\<rparr>"
| "set_flag UpstreamsCacheEnabled b f = f\<lparr>f_upstreams_cache_enabled := b\<rparr>"

definition merge_schedule :: "Schedule \<Rightarrow> Schedule \<Rightarrow> Schedule" where
  "merge_schedule old upd = \<lparr>time_zone = keep (time_zone upd) (time_zone old), sun = keep (sun upd) (sun old),
     mon = keep (mon upd) (mon old), tue = keep (tue upd) (tue old), wed = keep (wed upd) (wed old),
     thu = keep (thu upd) (thu old), fri = keep (fri upd) (fri old), sat = keep (sat upd) (sat old)\<rparr>"

text \<open>With \<open>replace\<close> the value goes through \<open>reconcile\<close> and takes the place of the old one; otherwise
  an object is merged into the old one.\<close>

fun set_field :: "bool \<Rightarrow> field_value \<Rightarrow> form_fields \<Rightarrow> form_fields" where
  "set_field _ (SetName s) f = f\<lparr>f_name := s\<rparr>"
| "set_field _ (SetIds xs) f = f\<lparr>f_ids := xs\<rparr>"
| "set_field _ (SetTags xs) f = f\<lparr>f_tags := xs\<rparr>"
| "set_field _ (SetFlag k b) f = set_flag k b f"
| "set_field replace (SetSafeSearch cfg) f =
     f\<lparr>f_safe_search := (if replace then cfg else merge_safesearch (f_safe_search f) cfg)\<rparr>"
| "set_field _ (SetBlockedServices xs) f = f\<lparr>f_blocked_services := xs\<rparr>"
| "set_field replace (SetSchedule s) f =
     f\<lparr>f_schedule := (if replace then s else merge_schedule (f_schedule f) s)\<rparr>"
| "set_field _ (SetUpstreams s) f = f\<lparr>f_upstreams := s\<rparr>"
| "set_field _ (SetCacheSize v) f = f\<lparr>f_upstreams_cache_size := v\<rparr>"

text \<open>\<open>setState('formErrors', errs)\<close> merges: the keys of \<open>errs\<close> are written, the others stay.\<close>

definition setFormErrors :: "(string \<rightharpoonup> form_error) \<Rightarrow> ClientFormState \<Rightarrow> ClientFormState" where
  "setFormErrors errs s = s\<lparr>formErrors := formErrors s ++ errs\<rparr>"

definition clearFormErrors :: "ClientFormState \<Rightarrow> ClientFormState" where
  "clearFormErrors = setFormErrors Map.empty"

definition truthy_error :: "form_error option \<Rightarrow> bool" where
  "truthy_error e = (case e of None \<Rightarrow> False | Some (FieldError m) \<Rightarrow> m \<noteq> [] | Some (ListError _) \<Rightarrow> True)"

definition updateClientFormField :: "field_value \<Rightarrow> bool \<Rightarrow> ClientFormState \<Rightarrow> ClientFormState" where
  "updateClientFormField v replace s =
     (let s1 = s\<lparr>client_fields := set_field replace v (client_fields s)\<rparr>
      in if truthy_error (formErrors s1 (field_name v))
         then setFormErrors ((formErrors s1)(field_name v := None)) s1
         else s1)"

definition clearClientForm :: "string \<Rightarrow> ClientFormState \<Rightarrow> ClientFormState" where
  "clearClientForm tz s = getInitialClientFormState tz"

definition setProcessingSave :: "bool \<Rightarrow> ClientFormState \<Rightarrow> ClientFormState" where
  "setProcessingSave b s = s\<lparr>processingSave := b\<rparr>"

subsection \<open>From and to the server's client\<close>

definition full_range :: "DayRange option \<Rightarrow> DayRange option" where
  "full_range r =
     (case r of Some d \<Rightarrow> if range_from d \<noteq> None \<and> range_to d \<noteq> None then Some d else None | None \<Rightarrow> None)"

definition buildFormSchedule :: "string \<Rightarrow> Schedule option \<Rightarrow> Schedule" where
  "buildFormSchedule tz sch =
     (let day = (\<lambda>sel. full_range (Option.bind sch sel))
      in \<lparr>time_zone = Some (nullish (Option.bind sch time_zone) tz), sun = day sun, mon = day mon,
          tue = day tue, wed = day wed, thu = day thu, fri = day fri, sat = day sat\<rparr>)"

definition flag :: "bool option \<Rightarrow> bool" where
  "flag v \<longleftrightarrow> v = Some True"

definition form_safe_search :: "SafeSearchConfig option \<Rightarrow> SafeSearchConfig" where
  "form_safe_search s =
     (let on = (\<lambda>sel. Some (flag (Option.bind s sel)))
      in \<lparr>ss_enabled = on ss_enabled, ss_bing = on ss_bing, ss_duckduckgo = on ss_duckduckgo,
          ss_ecosia = on ss_ecosia, ss_google = on ss_google, ss_pixabay = on ss_pixabay,
          ss_yandex = on ss_yandex, ss_youtube = on ss_youtube\<rparr>)"

definition buildFormPayload :: "string \<Rightarrow> Client \<Rightarrow> form_fields" where
  "buildFormPayload tz client = \<lparr>
     f_name = nullish (client_name client) [],
     f_ids = nullish (client_ids client) [[]],
     f_tags = nullish (client_tags client) [],
     f_use_global_settings = flag (use_global_settings client),
     f_filtering_enabled = flag (filtering_enabled client),
     f_safebrowsing_enabled = flag (safebrowsing_enabled client),
     f_parental_enabled = flag (parental_enabled client),
     f_safe_search = form_safe_search (safe_search client),
     f_ignore_querylog = flag (ignore_querylog client),
     f_ignore_statistics = flag (ignore_statistics client),
     f_blocked_services = nullish (client_blocked_services client) [],
     f_use_global_blocked_services = flag (use_global_blocked_services client),
     f_schedule = buildFormSchedule tz (blocked_services_schedule client),
     f_upstreams = join_lines (nullish (client_upstreams client) []),
     f_upstreams_cache_enabled = flag (upstreams_cache_enabled client),
     f_upstreams_cache_size = VNumber (Num
       (if nullish (upstreams_cache_size client) 0 = 0 then of_int DEFAULT_DNS_CACHE_SIZE
        else nullish (upstreams_cache_size client) 0))\<rparr>"

text \<open>\<open>Number(size)\<close> in the request; JSON has no way to write \<open>NaN\<close> or an infinity and sends null.\<close>

definition size_number :: "(string \<Rightarrow> js_number) \<Rightarrow> form_value \<Rightarrow> rat option" where
  "size_number toNumber v =
     (if v = VString [] then Some 0
      else case js_Number toNumber v of Num r \<Rightarrow> Some r | _ \<Rightarrow> None)"

definition buildClientConfig :: "(string \<Rightarrow> js_number) \<Rightarrow> form_fields \<Rightarrow> Client" where
  "buildClientConfig toNumber f = \<lparr>
     client_name = Some (f_name f),
     client_ids = Some (filter (\<lambda>i. trim i \<noteq> []) (f_ids f)),
     use_global_settings = Some (f_use_global_settings f),
     filtering_enabled = Some (f_filtering_enabled f),
     parental_enabled = Some (f_parental_enabled f),
     safebrowsing_enabled = Some (f_safebrowsing_enabled f),
     safesearch_enabled = None,
     safe_search = Some (f_safe_search f),
     use_global_blocked_services = Some (f_use_global_blocked_services f),
     blocked_services_schedule = Some (f_schedule f),
     client_blocked_services = Some (f_blocked_services f),
     client_upstreams = Some (if f_upstreams f = [] then []
       else filter (\<lambda>line. trim line \<noteq> []) (split_lines (f_upstreams f))),
     client_tags = Some (f_tags f),
     ignore_querylog = Some (f_ignore_querylog f),
     ignore_statistics = Some (f_ignore_statistics f),
     upstreams_cache_enabled = Some (f_upstreams_cache_enabled f),
     upstreams_cache_size = size_number toNumber (f_upstreams_cache_size f)\<rparr>"

subsection \<open>Checks and saving\<close>

definition other_clients :: "ClientFormState \<Rightarrow> Client list \<Rightarrow> Client list" where
  "other_clients s cs = filter (\<lambda>c. mode s \<noteq> ModeEdit \<or> client_name c \<noteq> Some (originalName s)) cs"

definition computeExistingClientIds :: "ClientFormState \<Rightarrow> Client list \<Rightarrow> string list" where
  "computeExistingClientIds s cs = concat (map (\<lambda>c. nullish (client_ids c) []) (other_clients s cs))"

definition computeExistingClientNames :: "ClientFormState \<Rightarrow> Client list \<Rightarrow> string list" where
  "computeExistingClientNames s cs = concat (map (\<lambda>c. case client_name c of None \<Rightarrow> [] | Some n \<Rightarrow> [n]) (other_clients s cs))"

definition nameError :: "env \<Rightarrow> ClientFormState \<Rightarrow> Client list \<Rightarrow> string option" where
  "nameError env s cs =
     (let t = trim (f_name (client_fields s)); e1 = (if t = [] then Some (msg env ''form_error_required'') else None)
      in if truthy_str e1 then e1
         else if t \<in> set (computeExistingClientNames s cs) then Some (msg env ''client_name_already_exists'')
         else e1)"

definition idErrors :: "env \<Rightarrow> ip_lib \<Rightarrow> ClientFormState \<Rightarrow> Client list \<Rightarrow> string option list" where
  "idErrors env lib s cs =
     (let xs = f_ids (client_fields s)
      in map (\<lambda>(i, v). if trim v = [] then Some (msg env ''form_error_required'')
                       else validateIdentifier env lib v xs i (Some (computeExistingClientIds s cs)))
           (enumerate 0 xs))"

record check_env =
  c_env :: env
  c_lib :: ip_lib
  c_toLocale :: "int \<Rightarrow> string"
  c_toNumber :: "string \<Rightarrow> js_number"
  c_tz :: string

definition cacheError :: "check_env \<Rightarrow> ClientFormState \<Rightarrow> string option" where
  "cacheError E s =
     (if f_upstreams_cache_enabled (client_fields s)
      then let e = validateCacheSize (c_env E) (c_toLocale E) (c_toNumber E) (f_upstreams_cache_size (client_fields s)) True
           in if truthy_str e then e else None
      else None)"

definition saveErrors :: "check_env \<Rightarrow> ClientFormState \<Rightarrow> Client list \<Rightarrow> string \<rightharpoonup> form_error" where
  "saveErrors E s cs =
     (let ids_e = idErrors (c_env E) (c_lib E) s cs
      in Map.empty(''name'' := map_option FieldError (nameError (c_env E) s cs),
           ''ids'' := (if list_ex (\<lambda>e. e \<noteq> None) ids_e then Some (ListError ids_e) else None),
           ''upstreams_cache_size'' := map_option FieldError (cacheError E s)))"

definition has_errors :: "(string \<rightharpoonup> form_error) \<Rightarrow> bool" where
  "has_errors errs \<longleftrightarrow> errs ''name'' \<noteq> None \<or> errs ''ids'' \<noteq> None \<or> errs ''upstreams_cache_size'' \<noteq> None"

definition saveClient ::
  "check_env \<Rightarrow> (string \<Rightarrow> string \<Rightarrow> int) \<Rightarrow> ('w, 'm) form_ctx_scheme clients_api
     \<Rightarrow> ('w, 'm) form_ctx_scheme dash_api \<Rightarrow> (('w, 'm) form_ctx_scheme, bool) state" where
  "saveClient E localeCompare api dash = do {
     s \<leftarrow> gets clientForm;
     cs \<leftarrow> gets (\<lambda>c. clients (dashboard c));
     (let errs = saveErrors E s cs
      in if has_errors errs then do { modify (setForm (setFormErrors errs)); pass False }
         else do {
           modify (setForm clearFormErrors);
           modify (setForm (setProcessingSave True));
           ok_res \<leftarrow> try_call
             (if mode s = ModeEdit then clientsUpdate api (originalName s) (buildClientConfig (c_toNumber E) (client_fields s))
              else clientsAdd api (buildClientConfig (c_toNumber E) (client_fields s)))
             (\<lambda>_. do {
                modify (setForm (clearClientForm (c_tz E)));
                getClients (c_env E) localeCompare dash;
                (if mode s = ModeEdit then pass ()
                 else modify (addSuccessToast (c_env E) (SuccessObject \<lparr>success_message = msg (c_env E) ''client_added'',
                   success_code = None, success_actionLabel = None, success_undoId = None\<rparr>)));
                pass True })
             (\<lambda>e. do { modify (errorToast (c_env E) e); pass False });
           modify (setForm (setProcessingSave False));
           pass ok_res }) }"

subsection \<open>The clients store\<close>

text \<open>\<open>toggleClientModal\<close> with and without a payload (its type and name).\<close>

definition toggleClientModal :: "(string option \<times> string option) option \<Rightarrow> ClientsState \<Rightarrow> ClientsState" where
  "toggleClientModal payload s =
     (case payload of
        Some (t, n) \<Rightarrow> s\<lparr>modalType := nullish t [], modalClientName := nullish n [], isModalOpen := \<not> isModalOpen s\<rparr>
      | None \<Rightarrow> s\<lparr>isModalOpen := \<not> isModalOpen s\<rparr>)"

definition addClient ::
  "env \<Rightarrow> (string \<Rightarrow> string \<Rightarrow> int) \<Rightarrow> ('w, 'm) form_ctx_scheme clients_api
     \<Rightarrow> ('w, 'm) form_ctx_scheme dash_api \<Rightarrow> Client \<Rightarrow> (('w, 'm) form_ctx_scheme, unit) state" where
  "addClient env localeCompare api dash config = do {
     modify (setClients (\<lambda>s. s\<lparr>processingAdding := True\<rparr>));
     try_call (clientsAdd api config)
       (\<lambda>_. do {
          modify (setClients (\<lambda>s. s\<lparr>processingAdding := False\<rparr>));
          modify (setClients (toggleClientModal None));
          modify (successToast env (msg env ''client_added''));
          getClients env localeCompare dash })
       (\<lambda>e. do {
          modify (errorToast env e);
          modify (setClients (\<lambda>s. s\<lparr>processingAdding := False\<rparr>)) }) }"

definition deleteClient ::
  "env \<Rightarrow> (string \<Rightarrow> string \<Rightarrow> int) \<Rightarrow> ('w, 'm) form_ctx_scheme clients_api
     \<Rightarrow> ('w, 'm) form_ctx_scheme dash_api \<Rightarrow> string \<Rightarrow> (('w, 'm) form_ctx_scheme, unit) state" where
  "deleteClient env localeCompare api dash name = do {
     modify (setClients (\<lambda>s. s\<lparr>processingDeleting := True\<rparr>));
     try_call (clientsDelete api name)
       (\<lambda>_. do {
          modify (setClients (\<lambda>s. s\<lparr>processingDeleting := False\<rparr>));
          modify (successToast env (msg env ''client_removed''));
          getClients env localeCompare dash })
       (\<lambda>e. do {
          modify (errorToast env e);
          modify (setClients (\<lambda>s. s\<lparr>processingDeleting := False\<rparr>)) }) }"

definition updateClient ::
  "env \<Rightarrow> (string \<Rightarrow> string \<Rightarrow> int) \<Rightarrow> ('w, 'm) form_ctx_scheme clients_api
     \<Rightarrow> ('w, 'm) form_ctx_scheme dash_api \<Rightarrow> string \<Rightarrow> Client \<Rightarrow> (('w, 'm) form_ctx_scheme, bool) state" where
  "updateClient env localeCompare api dash name data = do {
     modify (setClients (\<lambda>s. s\<lparr>processingUpdating := True\<rparr>));
     try_call (clientsUpdate api name data)
       (\<lambda>_. do {
          modify (setClients (\<lambda>s. s\<lparr>processingUpdating := False\<rparr>));
          modify (setClients (toggleClientModal None));
          getClients env localeCompare dash;
          pass True })
       (\<lambda>e. do {
          modify (errorToast env e);
          modify (setClients (\<lambda>s. s\<lparr>processingUpdating := False\<rparr>));
          pass False }) }"

subsection \<open>Theorems\<close>

text \<open>
  A client as the server reports one it keeps (\<open>clientToJSON\<close>): every setting present, the deprecated
  \<open>safesearch_enabled\<close> a copy of the one inside \<open>safe_search\<close>, the lists of tags, services and upstreams
  null when the server has none, and complete day ranges; the identifiers and the upstream lines
  are not blank. The server reads the safe search of a request by \<open>copySafeSearch\<close>.
\<close>

definition copySafeSearch :: "SafeSearchConfig option \<Rightarrow> bool option \<Rightarrow> SafeSearchConfig" where
  "copySafeSearch jsonConf enabled =
     (case jsonConf of Some conf \<Rightarrow> conf
      | None \<Rightarrow> let v = Some (enabled = Some True)
          in \<lparr>ss_enabled = v, ss_bing = v, ss_duckduckgo = v, ss_ecosia = v, ss_google = v, ss_pixabay = v,
              ss_yandex = v, ss_youtube = v\<rparr>)"

definition complete_schedule :: "Schedule \<Rightarrow> bool" where
  "complete_schedule s \<longleftrightarrow> time_zone s \<noteq> None \<and>
     (\<forall>sel \<in> {sun, mon, tue, wed, thu, fri, sat}. full_range (sel s) = sel s)"

definition complete_client :: "Client \<Rightarrow> bool" where
  "complete_client c \<longleftrightarrow> client_name c \<noteq> None \<and> client_ids c \<noteq> None \<and>
     use_global_settings c \<noteq> None \<and> filtering_enabled c \<noteq> None \<and> safebrowsing_enabled c \<noteq> None \<and>
     parental_enabled c \<noteq> None \<and> safe_search c \<noteq> None \<and> form_safe_search (safe_search c) = the (safe_search c) \<and>
     safesearch_enabled c = ss_enabled (the (safe_search c)) \<and>
     ignore_querylog c \<noteq> None \<and> ignore_statistics c \<noteq> None \<and>
     use_global_blocked_services c \<noteq> None \<and>
     (\<exists>s. blocked_services_schedule c = Some s \<and> complete_schedule s) \<and>
     upstreams_cache_enabled c \<noteq> None \<and> upstreams_cache_size c \<noteq> None \<and>
     (\<forall>i \<in> set (the (client_ids c)). trim i \<noteq> []) \<and>
     (\<forall>l \<in> set (nullish (client_upstreams c) []). newline \<notin> set l \<and> \<not> blank l)"

lemma flag_Some: "v \<noteq> None \<Longrightarrow> Some (flag v) = v"
  by (auto simp: flag_def)

lemma buildFormSchedule_complete: "complete_schedule s \<Longrightarrow> buildFormSchedule tz (Some s) = s"
  by (auto simp: buildFormSchedule_def complete_schedule_def Let_def)

lemma upstream_lines:
  assumes "\<forall>l \<in> set ls. newline \<notin> set l \<and> \<not> blank l"
  shows "(if join_lines ls = [] then [] else filter (\<lambda>l. trim l \<noteq> []) (split_lines (join_lines ls))) = ls"
  using splitByNewLine_join [OF assms] by (simp add: splitByNewLine_def)

text \<open>
  C25. Opening a client for editing and saving it unchanged sends back the client as the server
  reported it, with three differences: the deprecated \<open>safesearch_enabled\<close> is left out, which the server does
  not notice, since it takes the safe search from \<open>safe_search\<close>; a null list is sent as an empty one;
  and a cache size of zero, which stands for the default, becomes the default size.
\<close>

theorem client_edit_roundtrip:
  assumes "complete_client cl"
  shows "let sent = buildClientConfig toNumber (buildFormPayload tz cl)
    in sent = cl\<lparr>safesearch_enabled := None,
         client_tags := Some (nullish (client_tags cl) []),
         client_blocked_services := Some (nullish (client_blocked_services cl) []),
         client_upstreams := Some (nullish (client_upstreams cl) []),
         upstreams_cache_size := (if upstreams_cache_size cl = Some 0 then Some (of_int DEFAULT_DNS_CACHE_SIZE)
           else upstreams_cache_size cl)\<rparr> \<and>
       copySafeSearch (safe_search sent) (safesearch_enabled sent) =
         copySafeSearch (safe_search cl) (safesearch_enabled cl)"
proof -
  obtain s where s: "blocked_services_schedule cl = Some s" "complete_schedule s"
    using assms by (auto simp: complete_client_def)
  have ls: "\<forall>l \<in> set (nullish (client_upstreams cl) []). newline \<notin> set l \<and> \<not> blank l"
    using assms by (simp add: complete_client_def)
  obtain xs where xs: "client_ids cl = Some xs" "\<forall>i \<in> set xs. trim i \<noteq> []"
    using assms by (auto simp: complete_client_def)
  have ids: "filter (\<lambda>i. trim i \<noteq> []) xs = xs" using xs(2) by simp
  show ?thesis
    using assms s(1) xs(1) upstream_lines [OF ls] buildFormSchedule_complete [OF s(2), of tz] ids
    unfolding Let_def buildClientConfig_def buildFormPayload_def copySafeSearch_def
    by (intro conjI Client.equality) (auto simp: complete_client_def flag_Some size_number_def js_Number_def)
qed

definition sample_client :: Client where
  "sample_client = \<lparr>client_name = Some ''tv'', client_ids = Some [''10.0.0.5''], use_global_settings = Some True,
     filtering_enabled = Some False, parental_enabled = Some False, safebrowsing_enabled = Some True,
     safesearch_enabled = Some False, safe_search = Some all_off, use_global_blocked_services = Some True,
     blocked_services_schedule = Some ((empty_schedule ''UTC'')\<lparr>mon := Some \<lparr>range_from = Some 0, range_to = Some 60\<rparr>\<rparr>),
     client_blocked_services = Some [''youtube''], client_upstreams = Some [''1.1.1.1''], client_tags = None,
     ignore_querylog = Some False, ignore_statistics = Some False, upstreams_cache_enabled = Some False,
     upstreams_cache_size = Some 0\<rparr>"

lemma sample_client_complete: "complete_client sample_client"
proof -
  have "trim ''10.0.0.5'' \<noteq> []" "\<not> blank ''1.1.1.1''" "newline \<notin> set ''1.1.1.1''"
    by (simp_all add: trim_Nil_iff blank_def is_space_def code_def newline_def)
  then show ?thesis
    by (simp add: complete_client_def sample_client_def complete_schedule_def empty_schedule_def full_range_def
        form_safe_search_def all_off_def flag_def Let_def)
qed

theorem client_edit_roundtrip_witness:
  "buildClientConfig (\<lambda>_. NaN) (buildFormPayload ''UTC'' sample_client) =
     sample_client\<lparr>safesearch_enabled := None, client_tags := Some [],
       upstreams_cache_size := Some (of_int DEFAULT_DNS_CACHE_SIZE)\<rparr>"
  using client_edit_roundtrip [OF sample_client_complete, of "\<lambda>_. NaN" "''UTC''"]
  by (simp add: sample_client_def Let_def)

text \<open>
  Clearing a field error has no effect: the store merges the shortened record of errors into the
  old one, so an error once set stays in the store while the user corrects the field, and
  \<open>clearFormErrors\<close> clears nothing.
\<close>

theorem form_errors_never_cleared:
  "formErrors (updateClientFormField v replace s) = formErrors s \<and> clearFormErrors s = s"
  by (auto simp: updateClientFormField_def clearFormErrors_def setFormErrors_def map_add_def Let_def fun_eq_iff
      split: option.splits)

text \<open>
  C26. The form's checks let a client through only when it is well formed and new, by the text: the
  name is not blank and, trimmed, not the name of another client; every identifier is, trimmed, of one of the
  five formats, repeats no other and is no identifier of another client; and all of them are sent.
  The name is sent as typed, so the name sent is no other client's when it has no blanks
  around it.
\<close>

theorem saved_client_unique:
  assumes "\<not> has_errors (saveErrors E s cs)"
  shows "let name = f_name (client_fields s); ids = f_ids (client_fields s); others = other_clients s cs;
      sent = buildClientConfig toNumber (client_fields s)
    in trim name \<noteq> [] \<and> (\<forall>c \<in> set others. client_name c \<noteq> Some (trim name)) \<and>
       client_name sent = Some name \<and> client_ids sent = Some ids \<and>
       (trim name = name \<longrightarrow> (\<forall>c \<in> set others. client_name c \<noteq> client_name sent)) \<and>
       distinct (map trim ids) \<and>
       (\<forall>i \<in> set ids. \<forall>c \<in> set others. trim i \<notin> set (nullish (client_ids c) [])) \<and>
       (\<forall>i \<in> set ids. matches R_IPV4 (trim i) \<or> isValidIpv6 (c_lib E) (trim i) \<or>
          matches R_MAC (trim i) \<or> isValidCidr (c_lib E) (trim i) \<or> matches R_CLIENT_ID (trim i))"
proof -
  let ?xs = "f_ids (client_fields s)" and ?f = "client_fields s"
  have n: "nameError (c_env E) s cs = None" and i: "\<forall>e \<in> set (idErrors (c_env E) (c_lib E) s cs). e = None"
    using assms by (auto simp: has_errors_def saveErrors_def Let_def list_ex_iff split: if_splits)
  have ok: "trim v \<noteq> [] \<and> validateIdentifier (c_env E) (c_lib E) v ?xs k (Some (computeExistingClientIds s cs)) = None"
    if "k < length ?xs" "v = ?xs ! k" for k v
  proof -
    have "(k, v) \<in> set (enumerate 0 ?xs)" using that by (simp add: in_set_enumerate_eq)
    with i show ?thesis by (fastforce simp: idErrors_def Let_def split: if_splits)
  qed
  then have nb: "\<forall>v \<in> set ?xs. trim v \<noteq> []" by (metis in_set_conv_nth)
  have acc: "(matches R_IPV4 (trim (?xs ! k)) \<or> isValidIpv6 (c_lib E) (trim (?xs ! k)) \<or> matches R_MAC (trim (?xs ! k)) \<or>
       isValidCidr (c_lib E) (trim (?xs ! k)) \<or> matches R_CLIENT_ID (trim (?xs ! k))) \<and>
    (\<forall>j < length ?xs. j \<noteq> k \<longrightarrow> trim (?xs ! j) \<noteq> trim (?xs ! k)) \<and>
    trim (?xs ! k) \<notin> set (computeExistingClientIds s cs)" if "k < length ?xs" for k
    using validateIdentifier_NoneD [of "c_env E" "c_lib E" "?xs ! k" ?xs k "Some (computeExistingClientIds s cs)"]
      ok [OF that refl] by auto
  have d: "distinct (map trim ?xs)"
    unfolding distinct_conv_nth using acc by (metis length_map nth_map)
  have "v \<in> set ?xs \<Longrightarrow> trim v \<notin> set (computeExistingClientIds s cs) \<and>
      (matches R_IPV4 (trim v) \<or> isValidIpv6 (c_lib E) (trim v) \<or> matches R_MAC (trim v) \<or>
       isValidCidr (c_lib E) (trim v) \<or> matches R_CLIENT_ID (trim v))" for v
    using acc by (metis in_set_conv_nth)
  moreover have "trim (f_name ?f) \<noteq> [] \<and> trim (f_name ?f) \<notin> set (computeExistingClientNames s cs)"
    using n by (auto simp: nameError_def truthy_str_def Let_def split: if_splits)
  ultimately show ?thesis
    using d nb unfolding Let_def
    by (force simp: computeExistingClientIds_def computeExistingClientNames_def buildClientConfig_def)
qed

definition sample_check :: check_env where
  "sample_check = \<lparr>c_env = sample_env, c_lib = sample_lib, c_toLocale = show_int, c_toNumber = (\<lambda>_. NaN), c_tz = ''UTC''\<rparr>"

definition sample_form :: ClientFormState where
  "sample_form = initClientForm ''UTC'' (Some (buildFormPayload ''UTC'' sample_client)) (getInitialClientFormState ''UTC'')"

lemma sample_form_valid: "\<not> has_errors (saveErrors sample_check sample_form [sample_client])"
proof -
  have t: "trim ''10.0.0.5'' = ''10.0.0.5''" "matches R_IPV4 ''10.0.0.5''" "trim ''tv'' = ''tv''" by code_simp+
  have o: "other_clients sample_form [sample_client] = []"
    by (simp add: other_clients_def sample_form_def initClientForm_def buildFormPayload_def sample_client_def)
  have f: "f_name (client_fields sample_form) = ''tv''" "f_ids (client_fields sample_form) = [''10.0.0.5'']"
    "\<not> f_upstreams_cache_enabled (client_fields sample_form)"
    by (simp_all add: sample_form_def initClientForm_def buildFormPayload_def sample_client_def flag_def)
  have "idErrors sample_env sample_lib sample_form [sample_client] = [None]"
    using t by (simp add: idErrors_def f computeExistingClientIds_def o validateIdentifier_def)
  moreover have "nameError sample_env sample_form [sample_client] = None"
    using t by (simp add: nameError_def f computeExistingClientNames_def o truthy_str_def)
  ultimately show ?thesis
    by (simp add: has_errors_def saveErrors_def cacheError_def sample_check_def f)
qed

theorem saved_client_unique_witness:
  "let sent = buildClientConfig (\<lambda>_. NaN) (client_fields sample_form)
   in client_name sent = Some ''tv'' \<and> client_ids sent = Some [''10.0.0.5''] \<and>
      (\<forall>c \<in> set (other_clients sample_form [sample_client]). client_name c \<noteq> Some ''tv'')"
proof -
  have f: "f_name (client_fields sample_form) = ''tv''" "f_ids (client_fields sample_form) = [''10.0.0.5'']"
    by (simp_all add: sample_form_def initClientForm_def buildFormPayload_def sample_client_def)
  have "trim ''tv'' = ''tv''" by code_simp
  with saved_client_unique [OF sample_form_valid, of "\<lambda>_. NaN"] f show ?thesis
    unfolding Let_def by simp
qed

text \<open>
  The check of the name does not see the blanks that are sent: a new client named like another one
  whose name begins with a blank passes the form's checks, and the request carries the other's name.
\<close>

theorem blank_name_collides:
  "let other = sample_client\<lparr>client_name := Some '' tv'', client_ids := Some [''10.0.0.7'']\<rparr>;
      s = sample_form\<lparr>mode := ModeAdd, client_fields := (client_fields sample_form)\<lparr>f_name := '' tv''\<rparr>\<rparr>
   in \<not> has_errors (saveErrors sample_check s [other]) \<and> other \<in> set (other_clients s [other]) \<and>
      client_name (buildClientConfig toNumber (client_fields s)) = client_name other"
proof -
  have t: "trim ''10.0.0.5'' = ''10.0.0.5''" "matches R_IPV4 ''10.0.0.5''" "trim '' tv'' = ''tv''" by code_simp+
  have f: "f_ids (client_fields sample_form) = [''10.0.0.5'']" "\<not> f_upstreams_cache_enabled (client_fields sample_form)"
    by (simp_all add: sample_form_def initClientForm_def buildFormPayload_def sample_client_def flag_def)
  show ?thesis
    using t by (simp add: Let_def has_errors_def saveErrors_def cacheError_def sample_check_def idErrors_def nameError_def
        computeExistingClientIds_def computeExistingClientNames_def other_clients_def f validateIdentifier_def truthy_str_def
        buildClientConfig_def)
qed

text \<open>
  C27. Saving a client either reports errors without a request, or sends exactly the form's client,
  to its old name when editing. A refused request changes nothing but the notices, where its error is
  shown, and keeps the form for another try; an accepted one empties the form and, for a new
  client, says that it was added. Whatever happens the saving flag is off afterwards.
\<close>

theorem saveClient_outcome:
  fixes c :: "('w, 'm) form_ctx_scheme"
  assumes "\<And>d. clientForm (exec (clientsStatus dash) d) = clientForm d"
    and req: "run_state
        (if mode (clientForm c) = ModeEdit
         then clientsUpdate api (originalName (clientForm c)) (buildClientConfig (c_toNumber E) (client_fields (clientForm c)))
         else clientsAdd api (buildClientConfig (c_toNumber E) (client_fields (clientForm c))))
        (setForm (setProcessingSave True) c) = (r, (setForm (setProcessingSave True) c)\<lparr>world := w'\<rparr>)"
  shows "let (saved, c2) = run_state (saveClient E lc api dash) c; errs = saveErrors E (clientForm c) (clients (dashboard c))
    in if has_errors errs then \<not> saved \<and> c2 = setForm (setFormErrors errs) c
       else case r of
         Inl e \<Rightarrow> \<not> saved \<and> e \<in> message ` set (notices c2) \<and>
           c2 = setForm (setProcessingSave False) (errorToast (c_env E) e (c\<lparr>world := w'\<rparr>))
       | Inr _ \<Rightarrow> saved \<and> clientForm c2 = getInitialClientFormState (c_tz E) \<and>
           (mode (clientForm c) = ModeEdit \<or>
            (\<exists>n \<in> set (notices c2). toast_type n = SuccessToast \<and> message n = msg (c_env E) ''client_added''))"
proof -
  have clear: "clearFormErrors f = f" for f
    by (simp add: clearFormErrors_def setFormErrors_def)
  have get: "clientForm (exec (getClients env lc dash) d) = clientForm d" for env d
    by (simp add: getClients_def run_try_call assms(1) split: sum.splits)
  have init: "setProcessingSave False (getInitialClientFormState tz) = getInitialClientFormState tz" for tz
    by (simp add: getInitialClientFormState_def setProcessingSave_def)
  have off: "setProcessingSave False (setProcessingSave True f) = setProcessingSave False f" for f
    by (simp add: setProcessingSave_def)
  show ?thesis
  proof (cases "has_errors (saveErrors E (clientForm c) (clients (dashboard c)))")
    case True
    then show ?thesis by (simp add: saveClient_def Let_def)
  next
    case False
    with req show ?thesis
      by (cases r; cases "mode (clientForm c)")
        (simp_all add: saveClient_def Let_def clear run_try_call get clearClientForm_def init off error_shown,
         simp_all add: addErrorToast_def pushProblemToast_def addSuccessToast_def success_notice_def Let_def)
  qed
qed

definition refusing_api :: "('w, 'm) form_ctx_scheme clients_api" where
  "refusing_api = \<lparr>clientsAdd = (\<lambda>_. pass (Inl ''no'')), clientsUpdate = (\<lambda>_ _. pass (Inl ''no'')),
     clientsDelete = (\<lambda>_. pass (Inl ''no''))\<rparr>"

definition sample_ctx :: "ProfileInfo form_ctx" where
  "sample_ctx = \<lparr>notices = [], undoRegistry = Map.empty, nonce = 1, console_error = [],
     world = \<lparr>profile_name = ''u'', profile_language = ''en'', profile_theme = ''auto''\<rparr>,
     dashboard = Dashboard.initialState\<lparr>clients := [sample_client]\<rparr>, clientForm = sample_form, clientsStore = initialState\<rparr>"

theorem saveClient_outcome_witness:
  "let c2 = exec (saveClient sample_check codeCompare refusing_api Dashboard.stored_api) sample_ctx
   in clientForm c2 = setProcessingSave False sample_form \<and> ''no'' \<in> message ` set (notices c2)"
proof -
  let ?c = "sample_ctx"
  have k: "clientForm (exec (clientsStatus Dashboard.stored_api) d) = clientForm d" for d :: "ProfileInfo form_ctx"
    by (simp add: Dashboard.stored_api_def)
  have r: "run_state (if mode (clientForm ?c) = ModeEdit
      then clientsUpdate refusing_api (originalName (clientForm ?c)) (buildClientConfig (c_toNumber sample_check) (client_fields (clientForm ?c)))
      else clientsAdd refusing_api (buildClientConfig (c_toNumber sample_check) (client_fields (clientForm ?c))))
      (setForm (setProcessingSave True) ?c) = (Inl ''no'', (setForm (setProcessingSave True) ?c)\<lparr>world := world ?c\<rparr>)"
    by (simp add: refusing_api_def sample_ctx_def)
  from saveClient_outcome [OF k r, of codeCompare] sample_form_valid show ?thesis
    by (simp add: sample_ctx_def Let_def split: prod.splits)
qed

end
