(* ===== verification/ClientsPage.thy ===== *)
theory ClientsPage
  imports GeneralSettings Routes ClientForm
begin

section \<open>The pages of clients\<close>

text \<open>
  \<^verbatim>\<open>client_v2/src/components/Clients\<close>: the list of clients, the page that adds or changes one, its list of identifiers and its
  protection page. The errors a page shows are signals of its own, which an effect fills from the form store; the effect runs when
  an error it reads has changed there. The theorems say when a refused save is explained to the user, what the rows of
  identifiers show, and what the switch of the safe search keeps.
\<close>

subsection \<open>The page of a client\<close>

record 'w client_page = "'w form_ctx" +
  nameErr :: validation
  cacheSizeErr :: validation
  upstreamsErr :: validation

interpretation nameErr_frame: toast_frame nameErr
  by unfold_locales simp_all

interpretation cacheSizeErr_frame: toast_frame cacheSizeErr
  by unfold_locales simp_all

interpretation upstreamsErr_frame: toast_frame upstreamsErr
  by unfold_locales simp_all

definition string_error :: "form_error option \<Rightarrow> validation" where
  "string_error e = (case e of Some (FieldError m) \<Rightarrow> Some m | _ \<Rightarrow> None)"

text \<open>What the effect reads of the store, and the effect.\<close>

definition read_errors :: "ClientFormState \<Rightarrow> form_error option list" where
  "read_errors s = map (formErrors s) [''name'', ''upstreams_cache_size'', ''upstreams'']"

definition errors_effect :: "('w, 'm) client_page_scheme \<Rightarrow> ('w, 'm) client_page_scheme" where
  "errors_effect c = c\<lparr>
     nameErr := string_error (formErrors (clientForm c) ''name''),
     cacheSizeErr := string_error (formErrors (clientForm c) ''upstreams_cache_size''),
     upstreamsErr := string_error (formErrors (clientForm c) ''upstreams'')\<rparr>"

definition with_effect :: "(('w, 'm) client_page_scheme, 'a) state \<Rightarrow> (('w, 'm) client_page_scheme, 'a) state" where
  "with_effect act = do {
     before \<leftarrow> gets (\<lambda>c. read_errors (clientForm c));
     r \<leftarrow> act;
     modify (\<lambda>c. if read_errors (clientForm c) = before then c else errors_effect c);
     pass r }"

abbreviation edit_form :: "(ClientFormState \<Rightarrow> ClientFormState) \<Rightarrow> (('w, 'm) client_page_scheme, unit) state" where
  "edit_form f \<equiv> with_effect (modify (setForm f))"

definition handleNameChange :: "string \<Rightarrow> (('w, 'm) client_page_scheme, unit) state" where
  "handleNameChange v = do {
     edit_form (updateClientFormField (SetName v) False);
     modify (\<lambda>c. c\<lparr>nameErr := None\<rparr>) }"

text \<open>The identifier of an address like \<open>?id=10.0.0.5\<close> goes into a new client's form.\<close>

definition id_param_effect :: "string option \<Rightarrow> (('w, 'm) client_page_scheme, unit) state" where
  "id_param_effect i = do {
     m \<leftarrow> gets (\<lambda>c. mode (clientForm c));
     (case i of
        None \<Rightarrow> pass ()
      | Some v \<Rightarrow> if v = [] \<or> m \<noteq> ModeAdd then pass () else edit_form (updateClientFormField (SetIds [v]) False)) }"

text \<open>Leaving the page: the address the router is sent to, if any.\<close>

definition handleCancel :: "string \<Rightarrow> (('w, 'm) client_page_scheme, string option) state" where
  "handleCancel tz = do { edit_form (clearClientForm tz); pass (Some (Paths RClients)) }"

definition refuse :: "string \<Rightarrow> string \<Rightarrow> (('w, 'm) client_page_scheme, unit) state" where
  "refuse key err = do {
     errs \<leftarrow> gets (\<lambda>c. formErrors (clientForm c));
     edit_form (setFormErrors (errs(key \<mapsto> FieldError err))) }"

definition handleSave ::
  "check_env \<Rightarrow> (string \<Rightarrow> string \<Rightarrow> int) \<Rightarrow> ('w, 'm) client_page_scheme clients_api \<Rightarrow> ('w, 'm) client_page_scheme dash_api
     \<Rightarrow> (('w, 'm) client_page_scheme, string option) state" where
  "handleSave E localeCompare api dash = do {
     err \<leftarrow> gets (\<lambda>c. validateUpstreams (c_env E) (f_upstreams (client_fields (clientForm c))));
     (if truthy_str err then do { refuse ''upstreams'' (the err); pass None }
      else do {
        ok \<leftarrow> with_effect (saveClient E localeCompare api dash);
        pass (if ok then Some (Paths RClients) else None) }) }"

definition handle_flag :: "form_flag \<Rightarrow> bool \<Rightarrow> (('w, 'm) client_page_scheme, unit) state" where
  "handle_flag k checked = edit_form (updateClientFormField (SetFlag k checked) False)"

definition handleUpstreamsBlur :: "env \<Rightarrow> (('w, 'm) client_page_scheme, unit) state" where
  "handleUpstreamsBlur env = do {
     err \<leftarrow> gets (\<lambda>c. validateUpstreams env (f_upstreams (client_fields (clientForm c))));
     (if truthy_str err then refuse ''upstreams'' (the err) else pass ()) }"

definition handleUpstreamsChange :: "string \<Rightarrow> (('w, 'm) client_page_scheme, unit) state" where
  "handleUpstreamsChange v = do {
     edit_form (updateClientFormField (SetUpstreams v) False);
     modify (\<lambda>c. c\<lparr>upstreamsErr := None\<rparr>) }"

definition handleCacheSizeChange :: "string \<Rightarrow> (('w, 'm) client_page_scheme, unit) state" where
  "handleCacheSizeChange raw = do {
     (let v = (if raw = [] then VString [] else case parseInt raw of None \<Rightarrow> VNumber NaN | Some n \<Rightarrow> VNumber (Num (of_int n)))
      in edit_form (updateClientFormField (SetCacheSize v) False));
     modify (\<lambda>c. c\<lparr>cacheSizeErr := None\<rparr>) }"

definition handleCacheSizeBlur :: "check_env \<Rightarrow> (('w, 'm) client_page_scheme, unit) state" where
  "handleCacheSizeBlur E = do {
     f \<leftarrow> gets (\<lambda>c. client_fields (clientForm c));
     (if \<not> f_upstreams_cache_enabled f then pass ()
      else let err = validateCacheSize (c_env E) (c_toLocale E) (c_toNumber E) (f_upstreams_cache_size f) True
        in do {
          modify (\<lambda>c. c\<lparr>cacheSizeErr := err\<rparr>);
          (if truthy_str err then refuse ''upstreams_cache_size'' (the err) else pass ()) }) }"

definition handleTagChange :: "string list \<Rightarrow> (('w, 'm) client_page_scheme, unit) state" where
  "handleTagChange selected = edit_form (updateClientFormField (SetTags selected) False)"

subsection \<open>The list of clients\<close>

definition handleAddClient :: "string \<Rightarrow> (('w, 'm) form_ctx_scheme, string) state" where
  "handleAddClient tz = do { modify (setForm (initClientForm tz None)); pass (Paths RClientsAdd) }"

definition handleEditClient :: "string \<Rightarrow> Client \<Rightarrow> (('w, 'm) form_ctx_scheme, string) state" where
  "handleEditClient tz client = do {
     modify (setForm (initClientForm tz (Some (buildFormPayload tz client))));
     pass (linkPathBuilder (\<lambda>_ :: unit. []) RClientsEdit
       [(''clientName'', encodeURIComponent (nullish (client_name client) []))] None []) }"

text \<open>The confirmed deletion; the result is the name the window is about afterwards.\<close>

definition handleDeleteConfirm ::
  "env \<Rightarrow> (string \<Rightarrow> string \<Rightarrow> int) \<Rightarrow> ('w, 'm) form_ctx_scheme clients_api \<Rightarrow> ('w, 'm) form_ctx_scheme dash_api \<Rightarrow> string
     \<Rightarrow> (('w, 'm) form_ctx_scheme, string) state" where
  "handleDeleteConfirm env localeCompare api dash name = do { deleteClient env localeCompare api dash name; pass [] }"

subsection \<open>The protection page\<close>

definition all_providers :: SafeSearchConfig where
  "all_providers = \<lparr>ss_enabled = None, ss_bing = Some True, ss_duckduckgo = Some True, ss_ecosia = Some True, ss_google = Some True,
     ss_pixabay = Some True, ss_yandex = Some True, ss_youtube = Some True\<rparr>"

definition handleSafeSearchEnabled :: "bool \<Rightarrow> ClientFormState \<Rightarrow> ClientFormState" where
  "handleSafeSearchEnabled en s =
     (let ss = f_safe_search (client_fields s);
          hasAnyProvider = list_ex (\<lambda>k. provider_field k ss = Some True) SAFE_SEARCH_PROVIDER_KEYS;
          ss1 = ss\<lparr>ss_enabled := Some en\<rparr>
      in updateClientFormField (SetSafeSearch (if en \<and> \<not> hasAnyProvider then merge_safesearch ss1 all_providers else ss1)) False s)"

definition set_provider :: "string \<Rightarrow> bool \<Rightarrow> SafeSearchConfig \<Rightarrow> SafeSearchConfig" where
  "set_provider k b s =
     (if k = ''google'' then s\<lparr>ss_google := Some b\<rparr> else if k = ''youtube'' then s\<lparr>ss_youtube := Some b\<rparr>
      else if k = ''bing'' then s\<lparr>ss_bing := Some b\<rparr> else if k = ''duckduckgo'' then s\<lparr>ss_duckduckgo := Some b\<rparr>
      else if k = ''yandex'' then s\<lparr>ss_yandex := Some b\<rparr> else if k = ''pixabay'' then s\<lparr>ss_pixabay := Some b\<rparr>
      else if k = ''ecosia'' then s\<lparr>ss_ecosia := Some b\<rparr> else s)"

definition handleSafeSearchProvider :: "string \<Rightarrow> bool \<Rightarrow> ClientFormState \<Rightarrow> ClientFormState" where
  "handleSafeSearchProvider k b s =
     updateClientFormField (SetSafeSearch (set_provider k b (f_safe_search (client_fields s)))) False s"

subsection \<open>The identifiers\<close>

text \<open>
  The errors of the rows are an array of the page. Assigning past its end leaves holes; spreading an array fills its holes with
  \<open>undefined\<close>, while \<open>filter\<close> drops them.
\<close>

datatype slot = Hole | Undef | Err string

type_synonym slots = "slot list"

definition spread :: "slots \<Rightarrow> slots" where
  "spread es = map (\<lambda>e. if e = Hole then Undef else e) es"

definition put_slot :: "nat \<Rightarrow> slot \<Rightarrow> slots \<Rightarrow> slots" where
  "put_slot i e es = (es @ replicate (Suc i - length es) Hole)[i := e]"

definition drop_slot :: "nat \<Rightarrow> slots \<Rightarrow> slots" where
  "drop_slot i es = map snd (filter (\<lambda>(j, e). e \<noteq> Hole \<and> j \<noteq> i) (enumerate 0 es))"

definition slot_of :: "validation \<Rightarrow> slot" where
  "slot_of v = (if truthy_str v then Err (the v) else Undef)"

definition row_error :: "slots \<Rightarrow> nat \<Rightarrow> validation" where
  "row_error es i = (if i < length es then (case es ! i of Err m \<Rightarrow> Some m | _ \<Rightarrow> None) else None)"

definition ids_effect :: "ClientFormState \<Rightarrow> slots \<Rightarrow> slots" where
  "ids_effect s es = (case formErrors s ''ids'' of
      Some (ListError l) \<Rightarrow> map (\<lambda>v. case v of None \<Rightarrow> Undef | Some m \<Rightarrow> Err m) l
    | _ \<Rightarrow> map (\<lambda>e. if e = Hole then Hole else Undef) es)"

definition handleAdd :: "ClientFormState \<Rightarrow> ClientFormState" where
  "handleAdd s = updateClientFormField (SetIds (f_ids (client_fields s) @ [[]])) False s"

definition handleRemove :: "nat \<Rightarrow> ClientFormState \<times> slots \<Rightarrow> ClientFormState \<times> slots" where
  "handleRemove i = (\<lambda>(s, es).
     (updateClientFormField (SetIds (map snd (filter (\<lambda>(j, _). j \<noteq> i) (enumerate 0 (f_ids (client_fields s)))))) False s,
      drop_slot i es))"

definition handleChange :: "nat \<Rightarrow> string \<Rightarrow> ClientFormState \<times> slots \<Rightarrow> ClientFormState \<times> slots" where
  "handleChange i v = (\<lambda>(s, es).
     (updateClientFormField (SetIds ((f_ids (client_fields s))[i := v])) False s, put_slot i Undef (spread es)))"

definition handleBlur :: "env \<Rightarrow> ip_lib \<Rightarrow> Client list \<Rightarrow> nat \<Rightarrow> ClientFormState \<times> slots \<Rightarrow> ClientFormState \<times> slots" where
  "handleBlur env lib cs i = (\<lambda>(s, es).
     let ids = f_ids (client_fields s);
         err = validateIdentifier env lib (ids ! i) ids i (Some (computeExistingClientIds s cs))
     in (s, put_slot i (slot_of err) (spread es)))"

subsection \<open>A refused save\<close>

lemma run_with_effect:
  "run_state (with_effect act) c =
     (result act c, if read_errors (clientForm (exec act c)) = read_errors (clientForm c) then exec act c else errors_effect (exec act c))"
  by (simp add: with_effect_def split_beta)

lemma errors_effect_form [simp]: "clientForm (errors_effect c) = clientForm c" "dashboard (errors_effect c) = dashboard c"
  by (simp_all add: errors_effect_def)

lemma formErrors_update [simp]: "formErrors (updateClientFormField v r s) = formErrors s"
  using form_errors_never_cleared by blast

lemma read_errors_update [simp]: "read_errors (updateClientFormField v r s) = read_errors s"
  by (simp add: read_errors_def)

lemma update_name [simp]:
  "mode (updateClientFormField (SetName v) r s) = mode s" "originalName (updateClientFormField (SetName v) r s) = originalName s"
  "client_fields (updateClientFormField (SetName v) r s) = (client_fields s)\<lparr>f_name := v\<rparr>"
  by (simp_all add: updateClientFormField_def setFormErrors_def Let_def)

lemma existing_update_name [simp]:
  "computeExistingClientIds (updateClientFormField (SetName v) r s) cs = computeExistingClientIds s cs"
  "computeExistingClientNames (updateClientFormField (SetName v) r s) cs = computeExistingClientNames s cs"
  by (simp_all add: computeExistingClientIds_def computeExistingClientNames_def other_clients_def)

lemma saveErrors_blank_name:
  assumes "trim (f_name (client_fields s)) = []" "trim v = []"
  shows "saveErrors E (updateClientFormField (SetName v) r s) cs = saveErrors E s cs"
proof -
  have "idErrors env lib (updateClientFormField (SetName v) r s) cs = idErrors env lib s cs" for env lib
    by (simp add: idErrors_def cong: if_cong)
  then show ?thesis using assms by (simp add: saveErrors_def nameError_def cacheError_def Let_def)
qed

lemma saveErrors_fields:
  "mode t = mode s \<Longrightarrow> originalName t = originalName s \<Longrightarrow> client_fields t = client_fields s \<Longrightarrow> saveErrors E t cs = saveErrors E s cs"
  by (simp add: saveErrors_def idErrors_def nameError_def cacheError_def computeExistingClientIds_def computeExistingClientNames_def
      other_clients_def Let_def cong: if_cong)

text \<open>
  A save that the checks refuse keeps the user on the page and writes its errors to the store. The page then shows the errors of
  the store, unless those it reads are the ones that were there before: in that case it goes on showing what it showed.
\<close>

theorem refused_save:
  fixes E localeCompare api dash c
  assumes up: "\<not> truthy_str (validateUpstreams (c_env E) (f_upstreams (client_fields (clientForm c))))"
    and bad: "has_errors (saveErrors E (clientForm c) (clients (dashboard c)))"
  defines "c1 \<equiv> setForm (setFormErrors (saveErrors E (clientForm c) (clients (dashboard c)))) c"
  shows "run_state (handleSave E localeCompare api dash) c =
    (None, if read_errors (clientForm c1) = read_errors (clientForm c) then c1 else errors_effect c1)"
proof -
  have "run_state (saveClient E localeCompare api dash) c = (False, c1)"
    using bad by (simp add: saveClient_def c1_def Let_def)
  then show ?thesis using up by (simp add: handleSave_def run_with_effect)
qed

text \<open>
  A user who leaves the name blank is told so by the first save. After typing a name and deleting it again, saving does nothing and
  says nothing: the error is still in the store from the first time, so the effect does not run.
\<close>

theorem second_refusal_silent:
  fixes E localeCompare api dash c v
  assumes fresh: "formErrors (clientForm c) = Map.empty"
    and up: "\<not> truthy_str (validateUpstreams (c_env E) (f_upstreams (client_fields (clientForm c))))"
    and blank: "trim (f_name (client_fields (clientForm c))) = []" "trim v = []" "msg (c_env E) ''form_error_required'' \<noteq> []"
  defines "c1 \<equiv> exec (handleSave E localeCompare api dash) c"
  defines "c2 \<equiv> exec (handleNameChange v) c1"
  defines "c3 \<equiv> exec (handleSave E localeCompare api dash) c2"
  shows "nameErr c1 = Some (msg (c_env E) ''form_error_required'') \<and> nameErr c3 = None \<and>
    result (handleSave E localeCompare api dash) c2 = None \<and> notices c3 = notices c \<and> world c3 = world c"
proof -
  let ?errs = "saveErrors E (clientForm c) (clients (dashboard c))"
  have name: "?errs ''name'' = Some (FieldError (msg (c_env E) ''form_error_required''))"
    using blank(1,3) by (simp add: saveErrors_def nameError_def truthy_str_def Let_def)
  then have bad: "has_errors ?errs" by (simp add: has_errors_def)
  have c1: "c1 = errors_effect (setForm (setFormErrors ?errs) c)"
    using refused_save [OF up bad, of localeCompare api dash] name fresh
    by (simp add: c1_def read_errors_def setFormErrors_def)
  have c2: "c2 = (setForm (updateClientFormField (SetName v) False) c1)\<lparr>nameErr := None\<rparr>"
    by (simp add: c2_def handleNameChange_def run_with_effect)
  have errs: "saveErrors E (clientForm c2) (clients (dashboard c2)) = ?errs"
    using saveErrors_blank_name [OF _ blank(2), of "clientForm c1" E False "clients (dashboard c)"] blank(1) c1 c2
      saveErrors_fields [of "clientForm c1" "clientForm c" E "clients (dashboard c)"]
    by (simp add: setFormErrors_def)
  have forms: "formErrors (clientForm c2) = ?errs" using c1 c2 fresh by (simp add: setFormErrors_def)
  have "?errs ++ ?errs = ?errs" by (auto simp: map_add_def fun_eq_iff split: option.splits)
  then have same: "setForm (setFormErrors ?errs) c2 = c2" by (simp add: setFormErrors_def forms flip: forms)
  have up2: "\<not> truthy_str (validateUpstreams (c_env E) (f_upstreams (client_fields (clientForm c2))))"
    using up c1 c2 by (simp add: setFormErrors_def)
  have run: "run_state (handleSave E localeCompare api dash) c2 = (None, c2)"
    using refused_save [of E c2 localeCompare api dash, OF up2] bad same by (simp add: errs)
  have "nameErr c1 = Some (msg (c_env E) ''form_error_required'')"
    using c1 name fresh by (simp add: errors_effect_def setFormErrors_def string_error_def)
  moreover have "nameErr c2 = None" "notices c2 = notices c" "world c2 = world c" using c1 c2 by (simp_all add: errors_effect_def)
  ultimately show ?thesis by (simp add: c3_def run)
qed

subsection \<open>The rows of identifiers\<close>

lemma remove_nth:
  "map snd (filter (\<lambda>(j, _). j \<noteq> i) (enumerate n xs)) = (if i < n then xs else take (i - n) xs @ drop (Suc i - n) xs)"
proof (induction xs arbitrary: n)
  case (Cons x xs)
  show ?case using Cons.IH [of "Suc n"] by (cases "i = n") (auto simp: take_Cons' drop_Cons' Suc_diff_le)
qed simp

lemma nth_removed: "k < length xs - 1 \<Longrightarrow> i < length xs \<Longrightarrow> (take i xs @ drop (Suc i) xs) ! k = xs ! (if k < i then k else Suc k)"
  by (auto simp: nth_append)

lemma drop_slot_plain: "Hole \<notin> set es \<Longrightarrow> drop_slot i es = take i es @ drop (Suc i) es"
proof -
  assume "Hole \<notin> set es"
  then have "filter (\<lambda>(j, e). e \<noteq> Hole \<and> j \<noteq> i) (enumerate 0 es) = filter (\<lambda>(j, _). j \<noteq> i) (enumerate 0 es)"
    by (intro filter_cong) (fastforce simp: in_set_enumerate_eq dest: nth_mem)+
  then show ?thesis using remove_nth [of i 0 es] by (simp add: drop_slot_def)
qed

lemma ids_update [simp]: "f_ids (client_fields (updateClientFormField (SetIds xs) r s)) = xs"
  by (simp add: updateClientFormField_def setFormErrors_def Let_def)

lemma row_error_removed:
  assumes "Hole \<notin> set es"
  shows "row_error (drop_slot i es) k = row_error es (if k < i then k else Suc k)"
  using assms by (auto simp: drop_slot_plain row_error_def nth_append)

text \<open>
  Removing a row takes its error with it and the other rows keep theirs, as long as the errors have no holes. Typing and leaving a
  row fill the holes before it, except that the array may grow by holes.
\<close>

theorem removed_row_errors:
  assumes "Hole \<notin> set es" "i < length (f_ids (client_fields s))" "handleRemove i (s, es) = (s', es')"
    and "k < length (f_ids (client_fields s'))"
  defines "old \<equiv> if k < i then k else Suc k"
  shows "f_ids (client_fields s') ! k = f_ids (client_fields s) ! old \<and> row_error es' k = row_error es old"
proof -
  have ids: "f_ids (client_fields s') = take i (f_ids (client_fields s)) @ drop (Suc i) (f_ids (client_fields s))"
    using assms(3) remove_nth [of i 0 "f_ids (client_fields s)"] by (auto simp: handleRemove_def)
  have "es' = drop_slot i es" using assms(3) by (auto simp: handleRemove_def)
  then show ?thesis using row_error_removed [OF assms(1)] nth_removed [of k "f_ids (client_fields s)" i] assms(2,4) ids
    by (simp add: old_def)
qed

text \<open>
  With holes the error goes to the wrong row: when the third identifier of a form just opened is left with an error and the second
  is removed, the first row shows the error and the row with the wrong identifier shows none.
\<close>

theorem row_error_misplaced:
  assumes "f_ids (client_fields s) = [a, b, x]"
    and "validateIdentifier env lib x [a, b, x] 2 (Some (computeExistingClientIds s cs)) = Some m" "m \<noteq> []"
    and "handleRemove 1 (handleBlur env lib cs 2 (s, [])) = (s', es)"
  shows "f_ids (client_fields s') = [a, x] \<and> row_error es 0 = Some m \<and> row_error es 1 = None"
proof -
  have "handleBlur env lib cs 2 (s, []) = (s, [Hole, Hole, Err m])"
    using assms(1-3) by (simp add: handleBlur_def spread_def put_slot_def slot_of_def truthy_str_def numeral_2_eq_2)
  then show ?thesis using assms(1,4) by (auto simp: handleRemove_def drop_slot_def row_error_def)
qed

subsection \<open>The switch of the safe search\<close>

text \<open>
  Switching the safe search of a client on keeps the providers that were chosen, and chooses all when there was none; switching it
  off keeps them all.
\<close>

theorem safe_search_enabled:
  assumes "k \<in> set SAFE_SEARCH_PROVIDER_KEYS"
  defines "chosen \<equiv> \<lambda>s k. provider_field k (f_safe_search (client_fields s)) = Some True"
  shows "ss_enabled (f_safe_search (client_fields (handleSafeSearchEnabled en s))) = Some en"
    and "chosen (handleSafeSearchEnabled en s) k \<longleftrightarrow>
      chosen s k \<or> en \<and> (\<forall>j\<in>set SAFE_SEARCH_PROVIDER_KEYS. \<not> chosen s j)"
proof -
  have upd: "f_safe_search (client_fields (updateClientFormField (SetSafeSearch cfg) False s)) =
      merge_safesearch (f_safe_search (client_fields s)) cfg" for cfg
    by (simp add: updateClientFormField_def setFormErrors_def Let_def)
  show "ss_enabled (f_safe_search (client_fields (handleSafeSearchEnabled en s))) = Some en"
    by (simp add: handleSafeSearchEnabled_def upd merge_safesearch_def keep_def all_providers_def Let_def)
  have all: "provider_field k (merge_safesearch ss (merge_safesearch (ss\<lparr>ss_enabled := e\<rparr>) all_providers)) = Some True" for ss e
    using assms(1) by (auto simp: SAFE_SEARCH_PROVIDER_KEYS_def provider_field_def merge_safesearch_def keep_def all_providers_def)
  have same: "provider_field k (merge_safesearch ss (ss\<lparr>ss_enabled := e\<rparr>)) = provider_field k ss" for ss e
    using assms(1) by (auto simp: SAFE_SEARCH_PROVIDER_KEYS_def provider_field_def merge_safesearch_def keep_def)
  show "chosen (handleSafeSearchEnabled en s) k \<longleftrightarrow>
      chosen s k \<or> en \<and> (\<forall>j\<in>set SAFE_SEARCH_PROVIDER_KEYS. \<not> chosen s j)"
    using assms(1) by (auto simp: handleSafeSearchEnabled_def chosen_def upd all same Let_def list_ex_iff)
qed

end
