(* ===== verification/PageShell.thy ===== *)
theory PageShell
  imports Complex_Main
begin

section \<open>Banners and tooltips\<close>

text \<open>
  \<^verbatim>\<open>client_v2/src/helpers/banners.ts\<close> and \<^verbatim>\<open>common/ui/Banners/Banners.tsx\<close>, the banner on top of every page, and
  \<^verbatim>\<open>helpers/useChart.ts\<close>, the place of a chart's tooltip. Times are milliseconds; \<open>parseDate\<close> is the browser's reading of a
  date, \<open>None\<close> for an invalid one. Coordinates are CSS pixels.
\<close>

subsection \<open>Banners\<close>

datatype BannerSpec =
    TlsExpired
  | TlsExpiring
  | UpdateAuto "string option" "string option"
  | UpdateManual "string option" "string option"

fun banner_type :: "BannerSpec \<Rightarrow> string" where
  "banner_type TlsExpired = ''tls_expired''"
| "banner_type TlsExpiring = ''tls_expiring''"
| "banner_type (UpdateAuto _ _) = ''update_auto''"
| "banner_type (UpdateManual _ _) = ''update_manual''"

fun banner_version :: "BannerSpec \<Rightarrow> string option" where
  "banner_version (UpdateAuto v _) = v"
| "banner_version (UpdateManual v _) = v"
| "banner_version _ = None"

fun banner_url :: "BannerSpec \<Rightarrow> string option" where
  "banner_url (UpdateAuto _ u) = u"
| "banner_url (UpdateManual _ u) = u"
| "banner_url _ = None"

definition bannerSpecsEqual :: "BannerSpec \<Rightarrow> BannerSpec option \<Rightarrow> bool" where
  "bannerSpecsEqual a b =
     (case b of
        None \<Rightarrow> False
      | Some b \<Rightarrow>
          if banner_type a \<noteq> banner_type b then False
          else if banner_type a = ''update_auto'' \<or> banner_type a = ''update_manual''
               then banner_version a = banner_version b \<and> banner_url a = banner_url b
          else True)"

definition TLS_EXPIRY_WARNING_MS :: int where "TLS_EXPIRY_WARNING_MS = 30 * 24 * 60 * 60 * 1000"

record banner_inputs =
  tls_on :: bool
  cert_valid :: bool
  not_after_date :: string
  update_available :: bool
  update_version :: "string option"
  update_url :: "string option"
  can_auto_update :: bool

definition computeActiveBanner :: "(string \<Rightarrow> int option) \<Rightarrow> int \<Rightarrow> banner_inputs \<Rightarrow> BannerSpec option" where
  "computeActiveBanner parseDate now i =
     (let update = (if update_available i
            then Some ((if can_auto_update i then UpdateAuto else UpdateManual) (update_version i) (update_url i)) else None)
      in if tls_on i \<and> cert_valid i \<and> not_after_date i \<noteq> []
         then (case parseDate (not_after_date i) of
                 None \<Rightarrow> update
               | Some expiry \<Rightarrow>
                   if now > expiry then Some TlsExpired
                   else if now > expiry - TLS_EXPIRY_WARNING_MS then Some TlsExpiring
                   else update)
         else update)"

definition shown_banner :: "BannerSpec option \<Rightarrow> BannerSpec option \<Rightarrow> BannerSpec option" where
  "shown_banner dismissed active =
     (case active of
        None \<Rightarrow> None
      | Some a \<Rightarrow> (case dismissed of None \<Rightarrow> Some a | Some d \<Rightarrow> if bannerSpecsEqual d (Some a) then None else Some a))"

text \<open>\<open>onClose\<close> of the banner on show.\<close>

definition close_banner :: "BannerSpec option \<Rightarrow> BannerSpec option \<Rightarrow> BannerSpec option" where
  "close_banner dismissed active = (case shown_banner dismissed active of None \<Rightarrow> dismissed | Some a \<Rightarrow> Some a)"

lemma bannerSpecsEqual_iff: "bannerSpecsEqual a b \<longleftrightarrow> b = Some a"
  by (cases b; cases a; cases "the b") (auto simp: bannerSpecsEqual_def)

text \<open>A closed banner stays hidden until another one takes its place.\<close>

theorem closed_banner_hidden:
  "shown_banner (close_banner dismissed active) active = None \<and>
   (shown_banner dismissed active = Some a \<longrightarrow>
      shown_banner (close_banner dismissed active) active' = (if active' = Some a then None else active'))"
  by (auto simp: shown_banner_def close_banner_def bannerSpecsEqual_iff split: option.splits)

text \<open>A certificate warning that was closed keeps the announcement of an update from showing.\<close>

lemma closed_warning_hides_update:
  assumes "tls_on i" "cert_valid i" "not_after_date i \<noteq> []" "parseDate (not_after_date i) = Some e" "e - TLS_EXPIRY_WARNING_MS < now" "now \<le> e"
  shows "shown_banner (Some TlsExpiring) (computeActiveBanner parseDate now i) = None"
  using assms by (simp add: computeActiveBanner_def shown_banner_def bannerSpecsEqual_iff)

subsection \<open>Tooltips\<close>

definition TOOLTIP_GAP :: rat where "TOOLTIP_GAP = 12"

definition VIEWPORT_MARGIN :: rat where "VIEWPORT_MARGIN = 8"

definition clamp :: "rat \<Rightarrow> rat \<Rightarrow> rat \<Rightarrow> rat" where
  "clamp v mn mx = min (max v mn) (max mn mx)"

text \<open>The left edge and the top of the tooltip, relative to the element it is placed in.\<close>

record tooltip_layout =
  rect_left :: rat
  rect_top :: rat
  parent_left :: rat
  parent_top :: rat
  caretX :: rat
  caretY :: rat
  tooltipWidth :: rat
  tooltipHeight :: rat
  viewportWidth :: rat
  viewportHeight :: rat

definition tooltip_left :: "tooltip_layout \<Rightarrow> rat" where
  "tooltip_left t =
     (let right_of = rect_left t + caretX t + TOOLTIP_GAP;
          left = (if right_of + tooltipWidth t > viewportWidth t - VIEWPORT_MARGIN
                  then rect_left t + caretX t - tooltipWidth t - TOOLTIP_GAP else right_of)
      in clamp left VIEWPORT_MARGIN (viewportWidth t - tooltipWidth t - VIEWPORT_MARGIN) - parent_left t)"

definition tooltip_top :: "tooltip_layout \<Rightarrow> rat" where
  "tooltip_top t =
     clamp (rect_top t + caretY t - tooltipHeight t / 2) VIEWPORT_MARGIN (viewportHeight t - tooltipHeight t - VIEWPORT_MARGIN)
       - parent_top t"

lemma clamp_in: "mn \<le> mx \<Longrightarrow> mn \<le> clamp v mn mx \<and> clamp v mn mx \<le> mx"
  by (auto simp: clamp_def)

lemma clamp_low: "mx \<le> mn \<Longrightarrow> clamp v mn mx = mn"
  by (auto simp: clamp_def)

text \<open>A tooltip that fits stays inside the margins of the page; one that does not starts at the leading margin.\<close>

theorem tooltip_in_viewport:
  "(let l = tooltip_left t + parent_left t in
     VIEWPORT_MARGIN \<le> l \<and> (l + tooltipWidth t \<le> viewportWidth t - VIEWPORT_MARGIN \<or> l = VIEWPORT_MARGIN)) \<and>
   (let u = tooltip_top t + parent_top t in
     VIEWPORT_MARGIN \<le> u \<and> (u + tooltipHeight t \<le> viewportHeight t - VIEWPORT_MARGIN \<or> u = VIEWPORT_MARGIN))"
proof -
  have *: "mn \<le> clamp v mn (w - s - mn) \<and> (clamp v mn (w - s - mn) + s \<le> w - mn \<or> clamp v mn (w - s - mn) = mn)" for v mn w s
    using clamp_in [of mn "w - s - mn" v] clamp_low [of "w - s - mn" mn v] by (cases "mn \<le> w - s - mn") auto
  show ?thesis unfolding tooltip_left_def tooltip_top_def Let_def
    by (intro conjI) (simp_all add: * [THEN conjunct1] * [THEN conjunct2])
qed

text \<open>A tooltip with room on either side does not cover the point it belongs to.\<close>

lemma tooltip_beside_point:
  assumes "0 \<le> tooltipWidth t"
    and "rect_left t + caretX t + TOOLTIP_GAP + tooltipWidth t \<le> viewportWidth t - VIEWPORT_MARGIN \<or>
      VIEWPORT_MARGIN \<le> rect_left t + caretX t - tooltipWidth t - TOOLTIP_GAP"
    and "VIEWPORT_MARGIN \<le> rect_left t + caretX t" "rect_left t + caretX t \<le> viewportWidth t - VIEWPORT_MARGIN"
  shows "let l = tooltip_left t + parent_left t in rect_left t + caretX t < l \<or> l + tooltipWidth t < rect_left t + caretX t"
  using assms unfolding tooltip_left_def Let_def by (auto simp: clamp_def TOOLTIP_GAP_def VIEWPORT_MARGIN_def min_def max_def)

end
