(* ===== verification/ReduxValidators.thy ===== *)
theory ReduxValidators
  imports Validators
begin

section \<open>The form validators of the React client\<close>

text \<open>
  \<^verbatim>\<open>client/src/helpers/validators.ts\<close>, the patterns of \<^verbatim>\<open>client/src/helpers/constants.ts\<close> and the address checks of
  \<^verbatim>\<open>client/src/helpers/helpers.tsx\<close> they use. The patterns the two clients share are those of \<open>NetHelpers\<close>. A validator
  returns nothing for a value it accepts. The validators of a required value and of the sections of the DHCP form are in \<open>ReduxDhcp\<close>.
\<close>

subsection \<open>Patterns\<close>

text \<open>\<open>r{a,b}\<close>.\<close>

definition between :: "nat \<Rightarrow> nat \<Rightarrow> rx \<Rightarrow> rx" where
  "between a b r = Seq (rep a r) (upto (b - a) r)"

definition group :: rx where "group = between 1 4 (Cls is_hex)"

definition group_colon :: rx where "group_colon = Seq group (ch (CHR '':''))"

definition colon_group :: rx where "colon_group = Seq (ch (CHR '':'')) group"

definition loose_octet :: rx where
  "loose_octet = Alt (Seq (lit ''25'') (Cls (char_range (CHR ''0'') (CHR ''5''))))
     (Seq (opt (Alt (Seq (lit ''2'') (Cls (char_range (CHR ''0'') (CHR ''4'')))) (Seq (opt (lit ''1'')) (Cls is_digit)))) (Cls is_digit))"

definition dotted_tail :: rx where
  "dotted_tail = Seq (rep 3 (Seq loose_octet (ch (CHR ''.'')))) loose_octet"

text \<open>The alternatives of the pattern without and with a dotted tail, in the order of the source.\<close>

definition plain_alternatives :: "rx list" where
  "plain_alternatives =
    [Seq (rep 7 group_colon) group,
     Seq (between 1 7 group_colon) (ch (CHR '':'')),
     Seq (between 1 6 group_colon) colon_group,
     Seq (between 1 5 group_colon) (between 1 2 colon_group),
     Seq (between 1 4 group_colon) (between 1 3 colon_group),
     Seq (between 1 3 group_colon) (between 1 4 colon_group),
     Seq (between 1 2 group_colon) (between 1 5 colon_group),
     Seq group_colon (between 1 6 colon_group),
     Seq (ch (CHR '':'')) (Alt (between 1 7 colon_group) (ch (CHR '':'')))]"

definition dotted_alternatives :: "rx list" where
  "dotted_alternatives =
    [Seq (lit ''::'') (Seq (opt (Seq (lit ''ffff'') (Seq (opt (Seq (ch (CHR '':'')) (between 1 4 (ch (CHR ''0''))))) (ch (CHR '':''))))) dotted_tail),
     Seq (between 1 4 group_colon) (Seq (ch (CHR '':'')) dotted_tail)]"

definition R_IPV6 :: rx where
  "R_IPV6 = foldr Alt (plain_alternatives @ dotted_alternatives) Zero"

text \<open>\<open>([a-fA-F0-9]{n}sp){k}[a-fA-F0-9]{n}\<close>.\<close>

definition octets_with :: "char \<Rightarrow> nat \<Rightarrow> nat \<Rightarrow> rx" where
  "octets_with sp n k = Seq (rep k (Seq (rep n (Cls is_hex)) (ch sp))) (rep n (Cls is_hex))"

definition rx_R_MAC :: rx where
  "rx_R_MAC = Alt (octets_with (CHR '':'') 2 5) (Alt (octets_with (CHR ''-'') 2 5) (Alt (octets_with (CHR '':'') 2 7) (Alt (octets_with (CHR ''-'') 2 7)
     (Alt (octets_with (CHR ''.'') 4 2) (octets_with (CHR ''.'') 4 3)))))"

definition R_IPV4_SUBNET :: rx where
  "R_IPV4_SUBNET = opt (Alt (Cls is_digit) (Alt (Seq (Cls (char_range (CHR ''1'') (CHR ''2''))) (Cls is_digit))
     (Seq (lit ''3'') (Cls (char_range (CHR ''0'') (CHR ''2''))))))"

definition R_IPV6_SUBNET :: rx where
  "R_IPV6_SUBNET = opt (Alt (Cls is_digit) (Alt (Seq (Cls (char_range (CHR ''1'') (CHR ''9''))) (Cls is_digit))
     (Alt (Seq (lit ''1'') (Seq (Cls (char_range (CHR ''0'') (CHR ''1''))) (Cls is_digit)))
       (Seq (lit ''12'') (Cls (char_range (CHR ''0'') (CHR ''8'')))))))"

definition isValidIpv6 :: "string \<Rightarrow> bool" where
  "isValidIpv6 value =
     (let addr = takeWhile (\<lambda>c. c \<noteq> CHR ''%'') value; tail = after_last (CHR '':'') addr
      in if CHR ''%'' \<in> set value \<and> length addr = length value - 1 then False
         else if \<not> matches R_IPV6 addr then False
         else CHR ''.'' \<notin> set tail \<or> matches R_IPV4 tail)"

subsection \<open>Validators\<close>

text \<open>\<open>isSectionFilled\<close> on the values of the DHCPv4 section.\<close>

record rx_v4_form = dhcp_v4_form +
  f_lease_duration :: "rat option"

definition v4_filled :: "rx_v4_form option \<Rightarrow> bool" where
  "v4_filled v4 \<longleftrightarrow> (case v4 of None \<Rightarrow> False | Some v \<Rightarrow>
     truthy_str (f_gateway_ip v) \<or> truthy_str (f_subnet_mask v) \<or> truthy_str (f_range_start v) \<or> truthy_str (f_range_end v) \<or>
     nullish (f_lease_duration v) 0 \<noteq> 0)"

definition rx_validateIpv4RangeEnd :: "env \<Rightarrow> rx_v4_form option \<Rightarrow> validation" where
  "rx_validateIpv4RangeEnd env v4 =
     (case v4 of
        None \<Rightarrow> None
      | Some v \<Rightarrow>
          (case (f_range_end v, f_range_start v) of
             (Some (e # es), Some (s # ss)) \<Rightarrow>
               if ip4ToInt (e # es) \<le> ip4ToInt (s # ss) then Some (msg env ''greater_range_start_error'') else None
           | _ \<Rightarrow> None))"

definition rx_validateIpv4 :: "env \<Rightarrow> string option \<Rightarrow> validation" where
  "rx_validateIpv4 env v = (if truthy_str v \<and> \<not> matches R_IPV4 (the v) then Some (msg env ''form_error_ip4_format'') else None)"

definition rx_validateNotInRange :: "env \<Rightarrow> string \<Rightarrow> rx_v4_form option \<Rightarrow> validation" where
  "rx_validateNotInRange env value v4 =
     (case v4 of
        None \<Rightarrow> None
      | Some v \<Rightarrow>
          if truthy_str (f_range_start v) \<and> rx_validateIpv4 env (f_range_start v) \<noteq> None then None
          else if truthy_str (f_range_end v) \<and> rx_validateIpv4 env (f_range_end v) \<noteq> None then None
          else let isAboveMin = (truthy_str (f_range_start v) \<and> ip4ToInt (the (f_range_start v)) \<le> ip4ToInt value);
                   isBelowMax = (truthy_str (f_range_end v) \<and> ip4ToInt value \<le> ip4ToInt (the (f_range_end v)))
               in if isAboveMin \<and> isBelowMax
                  then Some (getMessage env ''out_of_range_error'' [(''start'', SArg (the (f_range_start v))), (''end'', SArg (the (f_range_end v)))])
                  else None)"

definition rx_validateGatewaySubnetMask :: "env \<Rightarrow> ip_lib \<Rightarrow> rx_v4_form option \<Rightarrow> validation" where
  "rx_validateGatewaySubnetMask env lib v4 =
     (let bad = Some (msg env ''gateway_or_subnet_invalid'')
      in if \<not> v4_filled v4 then None
         else case v4 of
                None \<Rightarrow> None
              | Some v \<Rightarrow>
                  if \<not> truthy_str (f_subnet_mask v) \<or> \<not> truthy_str (f_gateway_ip v) then bad
                  else if rx_validateIpv4 env (f_gateway_ip v) \<noteq> None then bad
                  else if nullish (parseSubnetMask lib (the (f_subnet_mask v))) 0 \<noteq> 0 then None else bad)"

definition rx_validateIpForGatewaySubnetMask :: "env \<Rightarrow> ip_lib \<Rightarrow> string \<Rightarrow> rx_v4_form option \<Rightarrow> validation" where
  "rx_validateIpForGatewaySubnetMask env lib value v4 =
     (case v4 of
        None \<Rightarrow> None
      | Some v \<Rightarrow>
          if value = [] \<or> \<not> truthy_str (f_gateway_ip v) \<or> \<not> truthy_str (f_subnet_mask v) then None
          else if rx_validateIpv4 env (f_gateway_ip v) \<noteq> None \<or> rx_validateIpv4 env (f_subnet_mask v) \<noteq> None then None
          else case parseSubnetMask lib (the (f_subnet_mask v)) of
                 None \<Rightarrow> None
               | Some subnetPrefix \<Rightarrow>
                   if isIpInCidr lib value (the (f_gateway_ip v) @ ''/'' @ show_nat subnetPrefix) then None
                   else Some (msg env ''subnet_error''))"

definition rx_validateClientId :: "env \<Rightarrow> ip_lib \<Rightarrow> string \<Rightarrow> validation" where
  "rx_validateClientId env lib value =
     (let f = trim value
      in if value = [] then None
         else if f \<noteq> [] \<and> \<not> (matches R_IPV4 f \<or> isValidIpv6 f \<or> matches rx_R_MAC f \<or> isValidCidr lib f \<or> matches R_CLIENT_ID f)
              then Some (msg env ''form_error_client_id_format'') else None)"

definition rx_validateConfigClientId :: "env \<Rightarrow> string option \<Rightarrow> validation" where
  "rx_validateConfigClientId env v =
     (if \<not> truthy_str v then None
      else if trim (the v) \<noteq> [] \<and> \<not> matches R_CLIENT_ID (trim (the v)) then Some (msg env ''form_error_client_id_format'') else None)"

definition rx_validateServerName :: "env \<Rightarrow> string option \<Rightarrow> validation" where
  "rx_validateServerName env v =
     (if \<not> truthy_str v then None
      else if trim (the v) \<noteq> [] \<and> \<not> matches R_DOMAIN (trim (the v)) then Some (msg env ''form_error_server_name'') else None)"

definition rx_validateIpv6 :: "env \<Rightarrow> string option \<Rightarrow> validation" where
  "rx_validateIpv6 env v = (if truthy_str v \<and> \<not> isValidIpv6 (the v) then Some (msg env ''form_error_ip6_format'') else None)"

definition rx_validateIp :: "env \<Rightarrow> string option \<Rightarrow> validation" where
  "rx_validateIp env v =
     (if truthy_str v \<and> \<not> matches R_IPV4 (the v) \<and> \<not> isValidIpv6 (the v) then Some (msg env ''form_error_ip_format'') else None)"

definition rx_validateMac :: "env \<Rightarrow> string option \<Rightarrow> validation" where
  "rx_validateMac env v = (if truthy_str v \<and> \<not> matches rx_R_MAC (the v) then Some (msg env ''form_error_mac_format'') else None)"

definition rx_validatePort :: "env \<Rightarrow> js_number option \<Rightarrow> validation" where
  "rx_validatePort env v =
     (case v of
        None \<Rightarrow> None
      | Some n \<Rightarrow> if n \<noteq> NaN \<and> (below n 80 \<or> above n MAX_PORT) then Some (msg env ''form_error_port_range'') else None)"

definition rx_validateInstallPort :: "env \<Rightarrow> js_number option \<Rightarrow> validation" where
  "rx_validateInstallPort env v =
     (case v of
        None \<Rightarrow> None
      | Some n \<Rightarrow> if below n 1 \<or> above n MAX_PORT then Some (msg env ''form_error_port'') else None)"

definition rx_validatePortTLS :: "env \<Rightarrow> js_number option \<Rightarrow> validation" where
  "rx_validatePortTLS env v =
     (case v of
        None \<Rightarrow> None
      | Some n \<Rightarrow> if n = Num 0 then None
                  else if n \<noteq> NaN \<and> (below n 80 \<or> above n MAX_PORT) then Some (msg env ''form_error_port_range'') else None)"

definition rx_validateIsSafePort :: "env \<Rightarrow> js_number option \<Rightarrow> validation" where
  "rx_validateIsSafePort env v =
     (case v of
        Some (Num r) \<Rightarrow> if r \<in> of_nat ` set UNSAFE_PORTS then Some (msg env ''form_error_port_unsafe'') else None
      | _ \<Rightarrow> None)"

definition rx_validateDomain :: "env \<Rightarrow> string option \<Rightarrow> validation" where
  "rx_validateDomain env v = (if truthy_str v \<and> \<not> matches R_HOST (the v) then Some (msg env ''form_error_domain_format'') else None)"

definition rx_validateAnswer :: "env \<Rightarrow> string option \<Rightarrow> validation" where
  "rx_validateAnswer env v =
     (if truthy_str v \<and> \<not> matches R_IPV4 (the v) \<and> \<not> isValidIpv6 (the v) \<and> \<not> matches R_HOST (the v)
      then Some (msg env ''form_error_answer_format'') else None)"

definition rx_validatePath :: "env \<Rightarrow> string option \<Rightarrow> validation" where
  "rx_validatePath env v =
     (if truthy_str v \<and> \<not> isValidAbsolutePath (the v) \<and> \<not> matches R_URL_REQUIRES_PROTOCOL (the v)
      then Some (msg env ''form_error_url_or_path_format'') else None)"

definition rx_validateIpv4InCidr :: "env \<Rightarrow> ip_lib \<Rightarrow> string \<Rightarrow> string \<Rightarrow> validation" where
  "rx_validateIpv4InCidr env lib valueIp cidr =
     (if isIpInCidr lib valueIp cidr then None
      else Some (getMessage env ''form_error_subnet'' [(''ip'', SArg valueIp), (''cidr'', SArg cidr)]))"

definition rx_validatePasswordLength :: "env \<Rightarrow> string option \<Rightarrow> validation" where
  "rx_validatePasswordLength env v =
     (if truthy_str v \<and> (utf8StringLength (the v) < MIN_PASSWORD_LENGTH \<or> MAX_PASSWORD_LENGTH < utf8StringLength (the v))
      then Some (getMessage env ''form_error_password_length'' [(''min'', NArg (int MIN_PASSWORD_LENGTH)), (''max'', NArg (int MAX_PASSWORD_LENGTH))])
      else None)"

definition rx_validateIpGateway :: "env \<Rightarrow> string \<Rightarrow> string \<Rightarrow> validation" where
  "rx_validateIpGateway env value gatewayIp = (if value = gatewayIp then Some (msg env ''form_error_gateway_ip'') else None)"

definition validateIPv4Subnet :: "env \<Rightarrow> string \<Rightarrow> validation" where
  "validateIPv4Subnet env value = (if matches R_IPV4_SUBNET value then None else Some (msg env ''rate_limit_subnet_len_ipv4_error''))"

definition validateIPv6Subnet :: "env \<Rightarrow> string \<Rightarrow> validation" where
  "validateIPv6Subnet env value = (if matches R_IPV6_SUBNET value then None else Some (msg env ''rate_limit_subnet_len_ipv6_error''))"

definition rx_validatePlainDns :: "env \<Rightarrow> bool \<Rightarrow> bool \<Rightarrow> validation" where
  "rx_validatePlainDns env value en = (if \<not> en \<and> \<not> value then Some (msg env ''encryption_plain_dns_error'') else None)"

subsection \<open>Repetition and alternatives\<close>

lemma lang_rep: "lang (rep n r) = {concat us | us. length us = n \<and> set us \<subseteq> lang r}"
proof (induction n)
  case (Suc n)
  show ?case
  proof (intro set_eqI iffI)
    fix w assume "w \<in> lang (rep (Suc n) r)"
    then obtain u us where "w = u @ concat us" "u \<in> lang r" "length us = n" "set us \<subseteq> lang r" using Suc by auto
    then show "w \<in> {concat us | us. length us = Suc n \<and> set us \<subseteq> lang r}" by (intro CollectI exI [of _ "u # us"]) simp
  next
    fix w assume "w \<in> {concat us | us. length us = Suc n \<and> set us \<subseteq> lang r}"
    then obtain us where "w = concat us" "length us = Suc n" "set us \<subseteq> lang r" by blast
    then show "w \<in> lang (rep (Suc n) r)" using Suc by (cases us) auto
  qed
qed auto

lemma lang_upto: "lang (upto n r) = {concat us | us. length us \<le> n \<and> set us \<subseteq> lang r}"
proof (induction n)
  case (Suc n)
  show ?case
  proof (intro set_eqI iffI)
    fix w assume "w \<in> lang (upto (Suc n) r)"
    then consider "w = []" | u us where "w = u @ concat us" "u \<in> lang r" "length us \<le> n" "set us \<subseteq> lang r" using Suc by auto
    then show "w \<in> {concat us | us. length us \<le> Suc n \<and> set us \<subseteq> lang r}"
    proof cases
      case 1
      then show ?thesis by (intro CollectI exI [of _ "[]"]) simp
    next
      case (2 u us)
      then show ?thesis by (intro CollectI exI [of _ "u # us"]) simp
    qed
  next
    fix w assume "w \<in> {concat us | us. length us \<le> Suc n \<and> set us \<subseteq> lang r}"
    then obtain us where "w = concat us" "length us \<le> Suc n" "set us \<subseteq> lang r" by blast
    then show "w \<in> lang (upto (Suc n) r)" using Suc by (cases us) auto
  qed
qed auto

lemma lang_between:
  "a \<le> b \<Longrightarrow> lang (between a b r) = {concat us | us. a \<le> length us \<and> length us \<le> b \<and> set us \<subseteq> lang r}"
proof (intro set_eqI iffI)
  fix w assume ab: "a \<le> b" and "w \<in> lang (between a b r)"
  then obtain us vs where "w = concat us @ concat vs" "length us = a" "length vs \<le> b - a" "set us \<subseteq> lang r" "set vs \<subseteq> lang r"
    by (auto simp: between_def lang_rep lang_upto)
  then show "w \<in> {concat us | us. a \<le> length us \<and> length us \<le> b \<and> set us \<subseteq> lang r}"
    using ab by (intro CollectI exI [of _ "us @ vs"]) simp
next
  fix w assume ab: "a \<le> b" and "w \<in> {concat us | us. a \<le> length us \<and> length us \<le> b \<and> set us \<subseteq> lang r}"
  then obtain us where us: "w = concat us" "a \<le> length us" "length us \<le> b" "set us \<subseteq> lang r" by blast
  have "concat (take a us) \<in> lang (rep a r)"
    using us set_take_subset [of a us] unfolding lang_rep by (intro CollectI exI [of _ "take a us"]) auto
  moreover have "concat (drop a us) \<in> lang (upto (b - a) r)"
    using us set_drop_subset [of a us] unfolding lang_upto by (intro CollectI exI [of _ "drop a us"]) auto
  ultimately have "concat (take a us) @ concat (drop a us) \<in> lang (between a b r)" by (auto simp: between_def)
  then show "w \<in> lang (between a b r)" using us(1) by (metis append_take_drop_id concat_append)
qed

lemma lang_alternatives: "w \<in> lang (foldr Alt rs Zero) \<longleftrightarrow> (\<exists>r\<in>set rs. w \<in> lang r)"
  by (induction rs) auto

lemma concat_singles: "set us \<subseteq> {[c] | c. P c} \<Longrightarrow> \<exists>s. us = map (\<lambda>c. [c]) s \<and> (\<forall>c\<in>set s. P c)"
proof (induction us)
  case (Cons u us)
  then obtain c s where "u = [c]" "P c" "us = map (\<lambda>c. [c]) s" "\<forall>c\<in>set s. P c" by auto
  then show ?case by (intro exI [of _ "c # s"]) simp
qed simp

lemma concat_map_singleton: "concat (map (\<lambda>c. [c]) s) = s"
  by (induction s) simp_all

text \<open>A group of an address: one to four hexadecimal digits.\<close>

definition is_group :: "string \<Rightarrow> bool" where
  "is_group g \<longleftrightarrow> 1 \<le> length g \<and> length g \<le> 4 \<and> (\<forall>c\<in>set g. is_hex c)"

lemma lang_group: "lang group = {g. is_group g}"
proof (intro set_eqI iffI)
  fix w assume "w \<in> lang group"
  then obtain us where us: "w = concat us" "1 \<le> length us" "length us \<le> 4" "set us \<subseteq> {[c] | c. is_hex c}"
    by (auto simp: group_def lang_between)
  then obtain s where "us = map (\<lambda>c. [c]) s" "\<forall>c\<in>set s. is_hex c" using concat_singles by blast
  with us show "w \<in> {g. is_group g}" by (simp add: is_group_def concat_map_singleton)
next
  fix w assume "w \<in> {g. is_group g}"
  then show "w \<in> lang group"
    by (auto simp: group_def lang_between is_group_def concat_map_singleton intro!: exI [of _ "map (\<lambda>c. [c]) w"])
qed

subsection \<open>The addresses the pattern accepts\<close>

text \<open>Eight groups, or two lists of at most seven groups together around a double colon.\<close>

definition group_list :: "string list \<Rightarrow> bool" where
  "group_list gs \<longleftrightarrow> (\<forall>g\<in>set gs. is_group g)"

definition ipv6_text :: "string \<Rightarrow> bool" where
  "ipv6_text s \<longleftrightarrow>
     (\<exists>gs. group_list gs \<and> length gs = 8 \<and> s = join '':'' gs) \<or>
     (\<exists>l r. group_list l \<and> group_list r \<and> length l + length r \<le> 7 \<and> s = join '':'' l @ ''::'' @ join '':'' r)"

definition before_colon :: "string list \<Rightarrow> string" where "before_colon gs = concat (map (\<lambda>g. g @ '':'') gs)"

definition after_colon :: "string list \<Rightarrow> string" where "after_colon gs = concat (map (\<lambda>g. '':'' @ g) gs)"

lemma before_colon_join: "gs \<noteq> [] \<Longrightarrow> before_colon gs = join '':'' gs @ '':''"
proof (induction gs)
  case (Cons g gs)
  then show ?case by (cases gs) (simp_all add: before_colon_def)
qed simp

lemma after_colon_join: "gs \<noteq> [] \<Longrightarrow> after_colon gs = '':'' @ join '':'' gs"
proof (induction gs)
  case (Cons g gs)
  then show ?case by (cases gs) (simp_all add: after_colon_def)
qed simp

lemma subset_image_list: "set us \<subseteq> f ` A \<Longrightarrow> \<exists>gs. us = map f gs \<and> set gs \<subseteq> A"
proof (induction us)
  case (Cons u us)
  then obtain g gs where "u = f g" "g \<in> A" "us = map f gs" "set gs \<subseteq> A" by auto
  then show ?case by (intro exI [of _ "g # gs"]) simp
qed simp

lemma lang_between_image:
  assumes "a \<le> b" "lang r = f ` {g. is_group g}"
  shows "lang (between a b r) = {concat (map f gs) | gs. a \<le> length gs \<and> length gs \<le> b \<and> group_list gs}"
proof (intro set_eqI iffI)
  fix w assume "w \<in> lang (between a b r)"
  then obtain us where us: "w = concat us" "a \<le> length us" "length us \<le> b" "set us \<subseteq> f ` {g. is_group g}"
    using assms by (auto simp: lang_between)
  then obtain gs where "us = map f gs" "set gs \<subseteq> {g. is_group g}" using subset_image_list by blast
  with us show "w \<in> {concat (map f gs) | gs. a \<le> length gs \<and> length gs \<le> b \<and> group_list gs}" by (auto simp: group_list_def)
next
  fix w assume "w \<in> {concat (map f gs) | gs. a \<le> length gs \<and> length gs \<le> b \<and> group_list gs}"
  then obtain gs where "w = concat (map f gs)" "a \<le> length gs" "length gs \<le> b" "group_list gs" by blast
  then show "w \<in> lang (between a b r)"
    unfolding lang_between [OF assms(1)] assms(2) by (intro CollectI exI [of _ "map f gs"]) (auto simp: group_list_def)
qed

lemma lang_group_colon: "lang group_colon = (\<lambda>g. g @ '':'') ` {g. is_group g}"
  by (auto simp: group_colon_def lang_group)

lemma lang_colon_group: "lang colon_group = (\<lambda>g. '':'' @ g) ` {g. is_group g}"
  by (auto simp: colon_group_def lang_group)

lemma lang_befores:
  "a \<le> b \<Longrightarrow> lang (between a b group_colon) = {before_colon gs | gs. a \<le> length gs \<and> length gs \<le> b \<and> group_list gs}"
  using lang_between_image [OF _ lang_group_colon] by (simp add: before_colon_def)

lemma lang_afters:
  "a \<le> b \<Longrightarrow> lang (between a b colon_group) = {after_colon gs | gs. a \<le> length gs \<and> length gs \<le> b \<and> group_list gs}"
  using lang_between_image [OF _ lang_colon_group] by (simp add: after_colon_def)

lemma one_as_between: "lang r = lang (between 1 1 r)"
  by (auto simp: between_def)

lemma lang_between_pair:
  assumes "1 \<le> a" "1 \<le> b"
  shows "w \<in> lang (Seq (between 1 a group_colon) (between 1 b colon_group)) \<longleftrightarrow>
    (\<exists>l r. w = join '':'' l @ ''::'' @ join '':'' r \<and> group_list l \<and> group_list r \<and> l \<noteq> [] \<and> r \<noteq> [] \<and> length l \<le> a \<and> length r \<le> b)"
proof -
  have "w \<in> lang (Seq (between 1 a group_colon) (between 1 b colon_group)) \<longleftrightarrow>
      (\<exists>l r. w = before_colon l @ after_colon r \<and> 1 \<le> length l \<and> length l \<le> a \<and> group_list l \<and> 1 \<le> length r \<and> length r \<le> b \<and> group_list r)"
    using assms by (auto simp: lang_befores lang_afters)
  also have "\<dots> \<longleftrightarrow> (\<exists>l r. w = join '':'' l @ ''::'' @ join '':'' r \<and> group_list l \<and> group_list r \<and> l \<noteq> [] \<and> r \<noteq> [] \<and> length l \<le> a \<and> length r \<le> b)"
    by (intro ex_cong1) (auto simp: before_colon_join after_colon_join Suc_le_eq)
  finally show ?thesis .
qed

lemma lang_full:
  "w \<in> lang (Seq (rep 7 group_colon) group) \<longleftrightarrow> (\<exists>gs. group_list gs \<and> length gs = 8 \<and> w = join '':'' gs)"
proof -
  have rep7: "lang (rep 7 group_colon) = {before_colon gs | gs. length gs = 7 \<and> group_list gs}"
    using lang_befores [of 7 7] by (auto simp: between_def)
  show ?thesis
  proof
    assume "w \<in> lang (Seq (rep 7 group_colon) group)"
    then obtain gs g where "w = before_colon gs @ g" "length gs = 7" "group_list gs" "is_group g"
      unfolding lang.simps rep7 lang_group by blast
    then show "\<exists>gs. group_list gs \<and> length gs = 8 \<and> w = join '':'' gs"
      by (intro exI [of _ "gs @ [g]"], cases "gs = []") (auto simp: group_list_def before_colon_join join_snoc)
  next
    assume "\<exists>gs. group_list gs \<and> length gs = 8 \<and> w = join '':'' gs"
    then obtain gs where gs: "group_list gs" "length gs = 8" "w = join '':'' gs" by blast
    then have parts: "gs = butlast gs @ [last gs]" "length (butlast gs) = 7" by (cases gs rule: rev_cases; simp)+
    then have "group_list (butlast gs)" "is_group (last gs)" using gs(1) unfolding group_list_def by (metis in_set_butlastD, metis in_set_conv_decomp)
    moreover have "w = before_colon (butlast gs) @ last gs"
      using parts gs(3) by (metis append.assoc before_colon_join join_snoc length_greater_0_conv zero_less_numeral)
    ultimately show "w \<in> lang (Seq (rep 7 group_colon) group)"
      using parts(2) unfolding lang.simps rep7 lang_group by blast
  qed
qed

lemma lang_no_right:
  "w \<in> lang (Seq (between 1 7 group_colon) (ch (CHR '':''))) \<longleftrightarrow>
     (\<exists>l. group_list l \<and> l \<noteq> [] \<and> length l \<le> 7 \<and> w = join '':'' l @ ''::'')"
proof -
  have "w \<in> lang (Seq (between 1 7 group_colon) (ch (CHR '':''))) \<longleftrightarrow>
      (\<exists>l. 1 \<le> length l \<and> length l \<le> 7 \<and> group_list l \<and> w = before_colon l @ '':'')"
    by (auto simp: lang_befores)
  then show ?thesis by (auto simp: before_colon_join Suc_le_eq)
qed

lemma lang_no_left:
  "w \<in> lang (Seq (ch (CHR '':'')) (Alt (between 1 7 colon_group) (ch (CHR '':'')))) \<longleftrightarrow>
     (\<exists>r. group_list r \<and> length r \<le> 7 \<and> w = ''::'' @ join '':'' r)"
proof -
  have "w \<in> lang (Seq (ch (CHR '':'')) (Alt (between 1 7 colon_group) (ch (CHR '':'')))) \<longleftrightarrow>
      w = ''::'' \<or> (\<exists>r. 1 \<le> length r \<and> length r \<le> 7 \<and> group_list r \<and> w = '':'' @ after_colon r)"
    by (auto simp: lang_afters)
  also have "\<dots> \<longleftrightarrow> (\<exists>r. group_list r \<and> length r \<le> 7 \<and> w = ''::'' @ join '':'' r)"
  proof
    assume "\<exists>r. group_list r \<and> length r \<le> 7 \<and> w = ''::'' @ join '':'' r"
    then obtain r where "group_list r" "length r \<le> 7" "w = ''::'' @ join '':'' r" by blast
    then show "w = ''::'' \<or> (\<exists>r. 1 \<le> length r \<and> length r \<le> 7 \<and> group_list r \<and> w = '':'' @ after_colon r)"
      by (cases "r = []") (auto simp: after_colon_join Suc_le_eq intro!: exI [of _ r])
  qed (auto simp: after_colon_join Suc_le_eq group_list_def intro: exI [of _ "[]"])
  finally show ?thesis .
qed

lemma pair_alternatives:
  "w \<in> lang (Seq (between 1 6 group_colon) colon_group) \<longleftrightarrow> w \<in> lang (Seq (between 1 6 group_colon) (between 1 1 colon_group))"
  "w \<in> lang (Seq group_colon (between 1 6 colon_group)) \<longleftrightarrow> w \<in> lang (Seq (between 1 1 group_colon) (between 1 6 colon_group))"
  using one_as_between [of colon_group] one_as_between [of group_colon] by simp_all

lemma compressedI:
  "group_list l \<Longrightarrow> group_list r \<Longrightarrow> length l + length r \<le> 7 \<Longrightarrow> ipv6_text (join '':'' l @ ''::'' @ join '':'' r)"
  unfolding ipv6_text_def by blast

lemma pair_sound:
  "w \<in> lang (Seq (between 1 a group_colon) (between 1 b colon_group)) \<Longrightarrow> 1 \<le> a \<Longrightarrow> 1 \<le> b \<Longrightarrow> a + b \<le> 7 \<Longrightarrow> ipv6_text w"
  unfolding lang_between_pair by (elim exE conjE, hypsubst, rule compressedI) simp_all

lemma full_sound: "w \<in> lang (Seq (rep 7 group_colon) group) \<Longrightarrow> ipv6_text w"
  unfolding lang_full ipv6_text_def by blast

lemma no_right_sound: "w \<in> lang (Seq (between 1 7 group_colon) (ch (CHR '':''))) \<Longrightarrow> ipv6_text w"
  unfolding lang_no_right using compressedI [of _ "[]"] by (auto simp: group_list_def)

lemma no_left_sound: "w \<in> lang (Seq (ch (CHR '':'')) (Alt (between 1 7 colon_group) (ch (CHR '':'')))) \<Longrightarrow> ipv6_text w"
  unfolding lang_no_left using compressedI [of "[]"] by (auto simp: group_list_def)

lemma plain_language: "(\<exists>r\<in>set plain_alternatives. w \<in> lang r) \<longleftrightarrow> ipv6_text w"
proof
  have "list_all (\<lambda>r. w \<in> lang r \<longrightarrow> ipv6_text w) plain_alternatives"
    unfolding plain_alternatives_def list.pred_inject pair_alternatives
    by (intro conjI impI TrueI; (erule full_sound | erule no_right_sound | erule no_left_sound | (erule pair_sound; simp) | simp))
  then show "ipv6_text w" if "\<exists>r\<in>set plain_alternatives. w \<in> lang r"
    using that by (auto simp: list_all_iff)
next
  assume "ipv6_text w"
  then consider gs where "group_list gs" "length gs = 8" "w = join '':'' gs"
    | l r where "group_list l" "group_list r" "length l + length r \<le> 7" "w = join '':'' l @ ''::'' @ join '':'' r"
    unfolding ipv6_text_def by blast
  then show "\<exists>r\<in>set plain_alternatives. w \<in> lang r"
  proof cases
    case 1
    then show ?thesis using lang_full [of w] by (auto simp: plain_alternatives_def)
  next
    case (2 l r)
    show ?thesis
    proof (cases "l = [] \<or> r = []")
      case True
      then show ?thesis using 2 lang_no_right [of w] lang_no_left [of w] unfolding plain_alternatives_def by fastforce
    next
      case False
      then have "length l \<le> 6 \<and> length r \<le> 1 \<or> length l \<le> 5 \<and> length r \<le> 2 \<or> length l \<le> 4 \<and> length r \<le> 3 \<or>
          length l \<le> 3 \<and> length r \<le> 4 \<or> length l \<le> 2 \<and> length r \<le> 5 \<or> length l \<le> 1 \<and> length r \<le> 6"
        using 2(3) by (simp flip: length_greater_0_conv) linarith
      then show ?thesis
        using 2 False unfolding plain_alternatives_def
        by (simp only: list.set bex_simps pair_alternatives lang_between_pair one_le_numeral order_refl) blast
    qed
  qed
qed

lemma dotted_has_dot: "(\<exists>r\<in>set dotted_alternatives. w \<in> lang r) \<Longrightarrow> CHR ''.'' \<in> set w"
proof -
  have tail: "CHR ''.'' \<in> set t" if "t \<in> lang dotted_tail" for t
    using that by (auto simp: dotted_tail_def numeral_3_eq_3)
  assume "\<exists>r\<in>set dotted_alternatives. w \<in> lang r"
  then have "\<exists>u t. w = u @ t \<and> t \<in> lang dotted_tail"
    unfolding dotted_alternatives_def by (simp del: append.simps) (metis append.assoc)
  then show ?thesis using tail by auto
qed

text \<open>
  C23. The IPv6 pattern of the React client accepts, of the texts without a dot, exactly the addresses: eight groups of up to four hexadecimal
  digits, or groups around one double colon that stands for at least one group.
\<close>

theorem rx_ipv6_language: "CHR ''.'' \<notin> set w \<Longrightarrow> matches R_IPV6 w \<longleftrightarrow> ipv6_text w"
  unfolding matches_lang R_IPV6_def lang_alternatives set_append bex_Un plain_language
  using dotted_has_dot by blast

theorem rx_ipv6_language_witness: "matches R_IPV6 ''fe80::1:2''"
proof -
  have "ipv6_text ''fe80::1:2''"
    using compressedI [of "[''fe80'']" "[''1'', ''2'']"]
    by (simp add: group_list_def is_group_def is_hex_def is_digit_def char_range_def code_def)
  then show ?thesis using rx_ipv6_language [of "''fe80::1:2''"] by simp
qed

text \<open>Of the addresses with a dotted tail the pattern takes only some: neither one with six groups before it nor one with groups
  after the double colon.\<close>

theorem rx_rejects_mixed:
  "rx_validateIpv6 env (Some ''1:2:3:4:5:6:10.0.0.1'') = Some (msg env ''form_error_ip6_format'') \<and>
   rx_validateIpv6 env (Some ''64:ff9b::1:10.0.0.1'') = Some (msg env ''form_error_ip6_format'')"
proof -
  have "\<not> isValidIpv6 ''1:2:3:4:5:6:10.0.0.1''" "\<not> isValidIpv6 ''64:ff9b::1:10.0.0.1''" by code_simp+
  then show ?thesis by (simp add: rx_validateIpv6_def truthy_str_def)
qed

subsection \<open>Lengths of prefixes\<close>

lemma lens_complete:
  "list_all (\<lambda>n. matches R_IPV4_SUBNET (show_nat n)) [0..<33]" "list_all (\<lambda>n. matches R_IPV6_SUBNET (show_nat n)) [0..<129]"
  by code_simp+

lemma digit_ranges:
  "char_range (CHR ''1'') (CHR ''2'') c \<Longrightarrow> is_digit c \<and> 1 \<le> dv c \<and> dv c \<le> 2"
  "char_range (CHR ''0'') (CHR ''2'') c \<Longrightarrow> is_digit c \<and> dv c \<le> 2"
  "char_range (CHR ''1'') (CHR ''9'') c \<Longrightarrow> is_digit c \<and> 1 \<le> dv c \<and> dv c \<le> 9"
  "char_range (CHR ''0'') (CHR ''1'') c \<Longrightarrow> is_digit c \<and> dv c \<le> 1"
  "char_range (CHR ''0'') (CHR ''8'') c \<Longrightarrow> is_digit c \<and> dv c \<le> 8"
  by (auto simp: char_range_def is_digit_def dv_def code_def)

lemma digit_chars: "is_digit (CHR ''1'')" "is_digit (CHR ''2'')" "is_digit (CHR ''3'')"
  "dv (CHR ''1'') = 1" "dv (CHR ''2'') = 2" "dv (CHR ''3'') = 3"
  by (simp_all add: is_digit_def dv_def code_def)

lemma two_digits:
  "is_digit b \<Longrightarrow> is_digit c \<Longrightarrow> 0 < dv b \<Longrightarrow> dv b * 10 + dv c \<le> m \<Longrightarrow> \<exists>n\<le>m. [b, c] = show_nat n"
  using show_nat2 [of b c] by metis

lemma three_digits:
  "is_digit a \<Longrightarrow> is_digit b \<Longrightarrow> is_digit c \<Longrightarrow> 0 < dv a \<Longrightarrow> (dv a * 10 + dv b) * 10 + dv c \<le> m \<Longrightarrow> \<exists>n\<le>m. [a, b, c] = show_nat n"
  using show_nat3 [of a b c] by metis

lemma one_digit: "is_digit c \<Longrightarrow> 9 \<le> m \<Longrightarrow> \<exists>n\<le>m. [c] = show_nat n"
  using show_nat1 [of c] dv_digit [of c] by (intro exI [of _ "dv c"]) simp

lemma subnet4_sound: "s \<in> lang R_IPV4_SUBNET \<Longrightarrow> s = [] \<or> (\<exists>n\<le>32. s = show_nat n)"
proof -
  assume "s \<in> lang R_IPV4_SUBNET"
  then consider "s = []" | c where "s = [c]" "is_digit c" | b c where "s = [b, c]" "char_range (CHR ''1'') (CHR ''2'') b" "is_digit c"
    | c where "s = [CHR ''3'', c]" "char_range (CHR ''0'') (CHR ''2'') c"
    by (auto simp: R_IPV4_SUBNET_def)
  then show ?thesis
  proof cases
    case (3 b c)
    then show ?thesis using digit_ranges(1) [of b] dv_digit [of c] two_digits [of b c 32] by auto
  next
    case (4 c)
    then show ?thesis using digit_ranges(2) [of c] two_digits [of "CHR ''3''" c 32] by (auto simp: digit_chars)
  qed (use one_digit in auto)
qed

lemma subnet6_sound: "s \<in> lang R_IPV6_SUBNET \<Longrightarrow> s = [] \<or> (\<exists>n\<le>128. s = show_nat n)"
proof -
  assume "s \<in> lang R_IPV6_SUBNET"
  then consider "s = []" | c where "s = [c]" "is_digit c" | b c where "s = [b, c]" "char_range (CHR ''1'') (CHR ''9'') b" "is_digit c"
    | b c where "s = [CHR ''1'', b, c]" "char_range (CHR ''0'') (CHR ''1'') b" "is_digit c"
    | c where "s = [CHR ''1'', CHR ''2'', c]" "char_range (CHR ''0'') (CHR ''8'') c"
    unfolding R_IPV6_SUBNET_def lang_opt lang.simps(3,4,5) lang_lit by (elim insertE UnE CollectE exE conjE singletonE) simp_all
  then show ?thesis
  proof cases
    case (3 b c)
    then show ?thesis using digit_ranges(3) [of b] dv_digit [of c] two_digits [of b c 128] by auto
  next
    case (4 b c)
    then show ?thesis using digit_ranges(4) [of b] dv_digit [of c] three_digits [of "CHR ''1''" b c 128] by (auto simp: digit_chars)
  next
    case (5 c)
    then show ?thesis using digit_ranges(5) [of c] three_digits [of "CHR ''1''" "CHR ''2''" c 128] by (auto simp: digit_chars)
  qed (use one_digit in auto)
qed

text \<open>The subnet lengths the rate limit accepts are the canonical numerals up to the width of an address, or nothing.\<close>

theorem rx_subnet_lengths:
  "(validateIPv4Subnet env s = None \<longleftrightarrow> s = [] \<or> (\<exists>n\<le>32. s = show_nat n)) \<and>
   (validateIPv6Subnet env s = None \<longleftrightarrow> s = [] \<or> (\<exists>n\<le>128. s = show_nat n))"
proof -
  have four: "matches R_IPV4_SUBNET s \<longleftrightarrow> s = [] \<or> (\<exists>n\<le>32. s = show_nat n)"
    using lens_complete(1) subnet4_sound [of s] by (auto simp: list_all_iff matches_lang [symmetric]) (simp add: R_IPV4_SUBNET_def opt_def)
  have six: "matches R_IPV6_SUBNET s \<longleftrightarrow> s = [] \<or> (\<exists>n\<le>128. s = show_nat n)"
    using lens_complete(2) subnet6_sound [of s] by (auto simp: list_all_iff matches_lang [symmetric]) (simp add: R_IPV6_SUBNET_def opt_def)
  show ?thesis by (simp add: validateIPv4Subnet_def validateIPv6Subnet_def four six)
qed

subsection \<open>The two clients\<close>

lemmas rx_validator_defs = rx_validateIpv4_def rx_validateConfigClientId_def rx_validateServerName_def rx_validateDomain_def rx_validatePath_def
  rx_validatePasswordLength_def truthy_str_def

lemmas v2_validator_defs = Validators.validateIpv4_def Validators.validateConfigClientId_def Validators.validateServerName_def
  Validators.validateDomain_def Validators.validatePath_def Validators.validatePasswordLength_def

text \<open>The two clients accept the same addresses, names, domains, paths and passwords.\<close>

lemma clients_accept_texts_alike:
  "rx_validateIpv4 env v = None \<longleftrightarrow> Validators.validateIpv4 env v = None"
  "rx_validateConfigClientId env v = None \<longleftrightarrow> Validators.validateConfigClientId env v = None"
  "rx_validateServerName env v = None \<longleftrightarrow> Validators.validateServerName env v = None"
  "rx_validateDomain env v = None \<longleftrightarrow> Validators.validateDomain env v = None"
  "rx_validatePath env v = None \<longleftrightarrow> Validators.validatePath env v = None"
  "rx_validatePasswordLength env v = None \<longleftrightarrow> Validators.validatePasswordLength v = None"
  by (cases v; simp add: rx_validator_defs v2_validator_defs)+

text \<open>A port the React client accepts for an encrypted service is accepted by the new client; ports from 1 to 79 only by the new one.\<close>

theorem clients_port_ranges:
  "(rx_validatePortTLS env v = None \<longrightarrow> Validators.validatePort env v = None) \<and>
   (\<forall>n. 1 \<le> n \<and> n < 80 \<longrightarrow> Validators.validatePort env (Some (Num n)) = None \<and> rx_validatePortTLS env (Some (Num n)) \<noteq> None)"
proof
  show "rx_validatePortTLS env v = None \<longrightarrow> Validators.validatePort env v = None"
    by (cases v; cases "the v") (auto simp: rx_validatePortTLS_def Validators.validatePort_def MAX_PORT_def split: if_splits)
qed (auto simp: rx_validatePortTLS_def Validators.validatePort_def MAX_PORT_def)

text \<open>A mask the library reads in another notation passes the React client's check and not the new one's.\<close>

theorem clients_masks_differ:
  assumes "matches R_IPV4 g" "m \<noteq> []" "\<not> matches R_IPV4 m" "parseSubnetMask lib m = Some (Suc n)"
  shows "rx_validateGatewaySubnetMask env lib (Some \<lparr>f_gateway_ip = Some g, f_subnet_mask = Some m, f_range_start = s, f_range_end = e, f_lease_duration = d\<rparr>) = None \<and>
    Validators.validateGatewaySubnetMask env lib (Some \<lparr>f_gateway_ip = Some g, f_subnet_mask = Some m, f_range_start = s, f_range_end = e\<rparr>) \<noteq> None"
proof -
  have "g \<noteq> []" using assms(1) by (auto simp: matches_lang lang_R_IPV4 dotted_def)
  with assms show ?thesis
    by (simp add: rx_validateGatewaySubnetMask_def v4_filled_def truthy_str_def rx_validateIpv4_def
        Validators.validateGatewaySubnetMask_def Validators.validateIpv4_def Let_def)
qed

end
