(* ===== verification/Trackers.thy ===== *)
theory Trackers
  imports Toasts
begin

section \<open>Tracker database lookup\<close>

text \<open>
  \<^verbatim>\<open>client_v2/src/helpers/trackers/trackers.ts\<close>: which known tracker a domain belongs to. The
  JSON databases are data and stay parameters. They are plain JavaScript objects, so reading a
  key that is not in the data still finds the members every object inherits.
\<close>

datatype 'v property = Own 'v | Inherited | Absent

text \<open>The members of \<open>Object.prototype\<close>.\<close>

definition proto_keys :: "string list" where
  "proto_keys = [''constructor'', ''hasOwnProperty'', ''isPrototypeOf'', ''propertyIsEnumerable'',
     ''toLocaleString'', ''toString'', ''valueOf'', ''__proto__'', ''__defineGetter__'',
     ''__defineSetter__'', ''__lookupGetter__'', ''__lookupSetter__'']"

definition object_get :: "(string \<rightharpoonup> 'v) \<Rightarrow> string \<Rightarrow> 'v property" where
  "object_get m k =
     (case m k of Some v \<Rightarrow> Own v | None \<Rightarrow> if k \<in> set proto_keys then Inherited else Absent)"

text \<open>The \<open>source\<close> of a tracker: a string in the database, a number in the result.\<close>

datatype source_value = SrcUndefined | SrcString string | SrcNumber int

record db_tracker =
  db_name :: string
  db_url :: string
  db_categoryId :: int
  db_source :: source_value
  db_id :: "string option"

record tracker_db =
  trackerDomains :: "string \<rightharpoonup> string"
  trackers :: "string \<rightharpoonup> db_tracker"
  categories :: "int \<rightharpoonup> string"
  websites :: "string \<rightharpoonup> string"

record source_data =
  src_name :: string
  src_url :: string

record TrackerData =
  tracker_id :: string
  tracker_name :: string
  tracker_url :: string
  category :: "string option"
  source :: int
  sourceData :: "source_data option"

definition WHOTRACKSME :: int where "WHOTRACKSME = 1"

definition ADGUARD :: int where "ADGUARD = 2"

definition TRACKERS_DB :: string where
  "TRACKERS_DB =
     ''https://github.com/AdguardTeam/AdGuardHome/tree/master/client/src/helpers/trackers/trackers.json''"

definition getWhotracksmeUrl :: "tracker_db \<Rightarrow> string \<Rightarrow> string" where
  "getWhotracksmeUrl db trackerId =
     (case websites db trackerId of
        Some w \<Rightarrow> if w = [] then ''https://whotracks.me/trackers/'' @ trackerId @ ''.html''
                  else ''https://whotracks.me/websites/'' @ w @ ''.html''
      | None \<Rightarrow> ''https://whotracks.me/trackers/'' @ trackerId @ ''.html'')"

text \<open>\<open>getSourceData\<close> reads \<open>source\<close> and \<open>id\<close> of whatever object it is given.\<close>

definition getSourceData :: "tracker_db \<Rightarrow> source_value \<Rightarrow> string option \<Rightarrow> source_data option" where
  "getSourceData db src tid =
     (if src = SrcUndefined \<or> src = SrcString [] \<or> src = SrcNumber 0 then None
      else if src = SrcNumber WHOTRACKSME
      then Some \<lparr>src_name = ''Whotracks.me'', src_url = getWhotracksmeUrl db (nullish tid ''undefined'')\<rparr>
      else if src = SrcNumber ADGUARD
      then Some \<lparr>src_name = ''AdGuard'', src_url = TRACKERS_DB\<rparr>
      else None)"

definition convertSource :: "source_value \<Rightarrow> int" where
  "convertSource src = (if src \<noteq> SrcString ''AdGuard'' then WHOTRACKSME else ADGUARD)"

definition tracker_result :: "tracker_db \<Rightarrow> string \<Rightarrow> db_tracker \<Rightarrow> TrackerData" where
  "tracker_result db trackerId td = \<lparr>tracker_id = trackerId, tracker_name = db_name td,
     tracker_url = db_url td, category = categories db (db_categoryId td),
     source = convertSource (db_source td),
     sourceData = getSourceData db (db_source td) (db_id td)\<rparr>"

text \<open>
  The loop over the labels, last label first. An inherited member is truthy but names no
  tracker, so reading \<open>categoryId\<close> of its entry throws.
\<close>

fun scan_hosts :: "tracker_db \<Rightarrow> string list \<Rightarrow> bool \<Rightarrow> string \<Rightarrow> string + TrackerData option" where
  "scan_hosts db [] later host = Inr None"
| "scan_hosts db (p # ps) later host =
     (let h = p @ (if later then ''.'' else []) @ host
      in case object_get (trackerDomains db) h of
           Own trackerId \<Rightarrow>
             if trackerId = [] then scan_hosts db ps True h
             else (case trackers db trackerId of
                     None \<Rightarrow> Inl ''TypeError''
                   | Some td \<Rightarrow> Inr (Some (tracker_result db trackerId td)))
         | Inherited \<Rightarrow> Inl ''TypeError''
         | Absent \<Rightarrow> scan_hosts db ps True h)"

definition getTrackerData :: "tracker_db \<Rightarrow> string option \<Rightarrow> string + TrackerData option" where
  "getTrackerData db domainName =
     (case domainName of
        None \<Rightarrow> Inr None
      | Some d \<Rightarrow> if d = [] then Inr None
                  else scan_hosts db (rev (split_on (CHR ''.'') d)) False [])"

subsection \<open>The hosts that are looked up\<close>

text \<open>The domain and its parents, shortest first.\<close>

definition host_suffixes :: "string \<Rightarrow> string list" where
  "host_suffixes d =
     (let ls = split_on (CHR ''.'') d in map (\<lambda>k. join ''.'' (drop (length ls - Suc k) ls)) [0..<length ls])"

definition db_consistent :: "tracker_db \<Rightarrow> bool" where
  "db_consistent db \<longleftrightarrow> (\<forall>h t. trackerDomains db h = Some t \<longrightarrow> t \<noteq> [] \<and> trackers db t \<noteq> None)"

text \<open>What the loop does on a list of candidate hosts.\<close>

fun first_hit :: "tracker_db \<Rightarrow> string list \<Rightarrow> string + TrackerData option" where
  "first_hit db [] = Inr None"
| "first_hit db (h # hs) =
     (case object_get (trackerDomains db) h of
        Own trackerId \<Rightarrow>
          if trackerId = [] then first_hit db hs
          else (case trackers db trackerId of
                  None \<Rightarrow> Inl ''TypeError''
                | Some td \<Rightarrow> Inr (Some (tracker_result db trackerId td)))
      | Inherited \<Rightarrow> Inl ''TypeError''
      | Absent \<Rightarrow> first_hit db hs)"

fun growing :: "string list \<Rightarrow> bool \<Rightarrow> string \<Rightarrow> string list" where
  "growing [] later host = []"
| "growing (p # ps) later host =
     (let h = p @ (if later then ''.'' else []) @ host in h # growing ps True h)"

lemma scan_hosts_growing: "scan_hosts db ps later host = first_hit db (growing ps later host)"
  by (induction db ps later host rule: scan_hosts.induct)
    (auto simp: Let_def split: property.splits)

lemma growing_nth:
  "k < length ps \<Longrightarrow> growing ps True (join ''.'' qs) ! k = join ''.'' (rev (take (Suc k) ps) @ qs)"
  if "qs \<noteq> []" for qs
  using that
proof (induction ps arbitrary: k qs)
  case Nil
  then show ?case by simp
next
  case (Cons p ps)
  have h: "p @ ''.'' @ join ''.'' qs = join ''.'' (p # qs)" using Cons.prems(2) by (simp add: join_Cons)
  show ?case
  proof (cases k)
    case 0
    then show ?thesis using h by (simp add: Let_def)
  next
    case (Suc j)
    then show ?thesis using Cons.IH [of j "p # qs"] Cons.prems(1) h by (simp add: Let_def)
  qed
qed

lemma length_growing [simp]: "length (growing ps later host) = length ps"
  by (induction ps arbitrary: later host) (auto simp: Let_def)

lemma growing_start:
  "growing ps False [] = map (\<lambda>k. join ''.'' (rev (take (Suc k) ps))) [0..<length ps]"
proof (rule nth_equalityI)
  show "length (growing ps False []) = length (map (\<lambda>k. join ''.'' (rev (take (Suc k) ps))) [0..<length ps])"
    by simp
next
  fix k assume k: "k < length (growing ps False [])"
  then obtain p qs where ps: "ps = p # qs" by (cases ps) auto
  show "growing ps False [] ! k = map (\<lambda>k. join ''.'' (rev (take (Suc k) ps))) [0..<length ps] ! k"
  proof (cases k)
    case 0
    then show ?thesis using ps by (simp add: Let_def nth_map del: upt_Suc)
  next
    case (Suc j)
    then show ?thesis using growing_nth [of "[p]" j qs] k ps by (simp add: Let_def nth_map del: upt_Suc)
  qed
qed

lemma growing_suffixes: "growing (rev (split_on (CHR ''.'') d)) False [] = host_suffixes d"
  unfolding growing_start host_suffixes_def Let_def
  by (simp add: rev_take cong: map_cong)

lemma getTrackerData_first_hit: "d \<noteq> [] \<Longrightarrow> getTrackerData db (Some d) = first_hit db (host_suffixes d)"
  by (simp add: getTrackerData_def scan_hosts_growing growing_suffixes)

lemma first_hit_consistent:
  assumes "db_consistent db" "set hs \<inter> set proto_keys = {}"
  shows "first_hit db hs =
    (case find (\<lambda>h. trackerDomains db h \<noteq> None) hs of
       None \<Rightarrow> Inr None
     | Some h \<Rightarrow> Inr (Some (tracker_result db (the (trackerDomains db h))
         (the (trackers db (the (trackerDomains db h)))))))"
  using assms(2)
proof (induction hs)
  case Nil
  show ?case by simp
next
  case (Cons h hs)
  show ?case
  proof (cases "trackerDomains db h")
    case None
    with Cons show ?thesis by (simp add: object_get_def)
  next
    case (Some t)
    with assms(1) obtain td where "t \<noteq> []" "trackers db t = Some td"
      unfolding db_consistent_def by blast
    with Some show ?thesis by (simp add: object_get_def)
  qed
qed

lemma constructor_lookup:
  assumes "trackerDomains db ''constructor'' = None"
  shows "getTrackerData db (Some ''constructor'') = Inl ''TypeError''"
proof -
  have "host_suffixes ''constructor'' = [''constructor'']"
    by (simp add: host_suffixes_def Let_def)
  then show ?thesis
    using assms by (simp add: getTrackerData_first_hit object_get_def proto_keys_def)
qed

subsection \<open>Theorems\<close>

text \<open>
  With a consistent database (every listed domain names a known tracker), a domain none of
  whose suffixes is the name of an inherited object member is looked up without an error, and the
  answer is the tracker of the shortest listed suffix at a label boundary, if there is one.
\<close>

theorem getTrackerData_shortest_suffix:
  assumes "db_consistent db" and "d \<noteq> []" and "set (host_suffixes d) \<inter> set proto_keys = {}"
  shows "getTrackerData db (Some d) =
    (case find (\<lambda>h. trackerDomains db h \<noteq> None) (host_suffixes d) of
       None \<Rightarrow> Inr None
     | Some h \<Rightarrow> Inr (Some (tracker_result db (the (trackerDomains db h))
         (the (trackers db (the (trackerDomains db h)))))))"
  using assms by (simp add: getTrackerData_first_hit first_hit_consistent)

definition sample_db :: tracker_db where
  "sample_db = \<lparr>trackerDomains = [''b.c'' \<mapsto> ''t1''],
     trackers = [''t1'' \<mapsto> \<lparr>db_name = ''T'', db_url = [], db_categoryId = 4,
        db_source = SrcString ''AdGuard'', db_id = None\<rparr>],
     categories = [4 \<mapsto> ''advertising''], websites = Map.empty\<rparr>"

theorem getTrackerData_shortest_suffix_witness:
  "\<exists>td. getTrackerData sample_db (Some ''a.b.c'') = Inr (Some td) \<and> tracker_id td = ''t1''"
proof -
  have s: "host_suffixes ''a.b.c'' = [''c'', ''b.c'', ''a.b.c'']"
    by (simp add: host_suffixes_def Let_def upt_rec)
  have "db_consistent sample_db" by (simp add: db_consistent_def sample_db_def)
  moreover have "set (host_suffixes ''a.b.c'') \<inter> set proto_keys = {}"
    by (simp add: s proto_keys_def)
  ultimately show ?thesis
    using getTrackerData_shortest_suffix [of sample_db "''a.b.c''"]
    by (simp add: s) (simp add: sample_db_def tracker_result_def)
qed

text \<open>
  The result of the lookup never carries source metadata when the database names sources by
  strings, as the shipped one does: \<open>getSourceData\<close> compares the string with the numeric codes.
\<close>

theorem getTrackerData_no_source:
  assumes "\<forall>t td. trackers db t = Some td \<longrightarrow> (\<forall>n. db_source td \<noteq> SrcNumber n)"
    and "getTrackerData db name = Inr (Some res)"
  shows "sourceData res = None"
proof -
  have hit: "first_hit db hs = Inr (Some res) \<Longrightarrow> sourceData res = None" for hs
  proof (induction hs)
    case (Cons h hs)
    then show ?case
      using assms(1)
      by (auto simp: tracker_result_def getSourceData_def split: property.splits if_splits option.splits)
  qed simp
  from assms(2) show ?thesis
    by (auto simp: getTrackerData_def scan_hosts_growing hit split: option.splits if_splits)
qed

theorem getTrackerData_no_source_witness:
  "\<exists>td. getTrackerData sample_db (Some ''b.c'') = Inr (Some td) \<and> source td = ADGUARD \<and> sourceData td = None"
proof -
  obtain td where td: "getTrackerData sample_db (Some ''b.c'') = Inr (Some td)" "source td = ADGUARD"
    by (simp add: getTrackerData_def object_get_def sample_db_def proto_keys_def tracker_result_def
        convertSource_def)
  have "sourceData td = None"
    by (rule getTrackerData_no_source [OF _ td(1)]) (simp add: sample_db_def)
  with td show ?thesis by blast
qed

end
