(* ===== verification/QueryLogs.thy ===== *)
theory QueryLogs
  imports Complex_Main Filtering Trackers
begin

section \<open>Query log store\<close>

text \<open>
  \<^verbatim>\<open>client_v2/src/stores/queryLogs.ts\<close> and \<open>normalizeLogs\<close> of
  \<^verbatim>\<open>client_v2/src/helpers/helpers.tsx\<close>: pages of the query log, the filter, and the polling
  that keeps fetching pages until enough rows are visible. The polling recursion ends only when
  the backend says so; it takes fuel, and \<^const>\<open>None\<close> is ``still running''.
\<close>

subsection \<open>Data\<close>

record DnsAnswer =
  ans_ttl :: "int option"
  ans_type :: "string option"
  ans_value :: "string option"

record DnsQuestion =
  q_class :: "string option"
  q_name :: "string option"
  q_unicode_name :: "string option"
  q_type :: "string option"

record QueryLogItemClientWhois =
  w_city :: "string option"
  w_country :: "string option"
  w_orgname :: "string option"

definition empty_whois :: QueryLogItemClientWhois where
  "empty_whois = \<lparr>w_city = None, w_country = None, w_orgname = None\<rparr>"

record QueryLogItemClient =
  ci_disallowed :: bool
  ci_disallowed_rule :: string
  ci_name :: string
  ci_whois :: "QueryLogItemClientWhois option"

record QueryLogItem =
  answer :: "DnsAnswer list option"
  original_answer :: "DnsAnswer list option"
  cached :: "bool option"
  upstream :: "string option"
  answer_dnssec :: "bool option"
  client :: "string option"
  client_id :: "string option"
  client_info :: "QueryLogItemClient option"
  client_proto :: "string option"
  ecs :: "string option"
  elapsedMs :: "string option"
  question :: "DnsQuestion option"
  filterId :: "int option"
  rule :: "string option"
  rules :: "ResultRule list option"
  reason :: "string option"
  service_name :: "string option"
  status :: "string option"
  time :: "string option"

record NormalizedDnsResponse =
  nr_value :: "string option"
  nr_type :: "string option"
  nr_ttl :: "int option"

record NormalizedQueryLogItem =
  n_time :: "string option"
  n_domain :: "string option"
  n_unicodeName :: "string option"
  n_type :: "string option"
  n_response :: "NormalizedDnsResponse list"
  n_reason :: "string option"
  n_client :: "string option"
  n_client_proto :: "string option"
  n_client_id :: "string option"
  n_client_info :: "QueryLogItemClient option"
  n_filterId :: "int option"
  n_rule :: "string option"
  n_rules :: "ResultRule list"
  n_status :: "string option"
  n_service_name :: "string option"
  n_serviceName :: "string option"
  n_originalAnswer :: "DnsAnswer list option"
  n_originalResponse :: "NormalizedDnsResponse list"
  n_tracker :: "TrackerData option"
  n_answer_dnssec :: "bool option"
  n_elapsedMs :: "string option"
  n_upstream :: "string option"
  n_cached :: "bool option"
  n_ecs :: "string option"

subsection \<open>Normalisation\<close>

definition processResponse :: "DnsAnswer list option \<Rightarrow> NormalizedDnsResponse list" where
  "processResponse data =
     (case data of
        None \<Rightarrow> []
      | Some xs \<Rightarrow> map (\<lambda>r. \<lparr>nr_value = ans_value r, nr_type = ans_type r, nr_ttl = ans_ttl r\<rparr>) xs)"

definition newRules :: "QueryLogItem \<Rightarrow> ResultRule list" where
  "newRules entry =
     (let rs = nullish (rules entry) []
      in case (rule entry, filterId entry) of
           (Some t, Some i) \<Rightarrow> if rs = [] then [\<lparr>filter_list_id = Some i, rule_text = Some t\<rparr>] else rs
         | _ \<Rightarrow> rs)"

definition normalizeClientInfo :: "QueryLogItemClient option \<Rightarrow> QueryLogItemClient option" where
  "normalizeClientInfo =
     map_option (\<lambda>ci. ci\<lparr>ci_whois := Some (nullish (ci_whois ci) empty_whois)\<rparr>)"

text \<open>The function mapped over the log; only the tracker lookup can throw.\<close>

definition normalizeLog :: "tracker_db \<Rightarrow> QueryLogItem \<Rightarrow> string + NormalizedQueryLogItem" where
  "normalizeLog db entry =
     (let q = question entry; dom = Option.bind q q_name
      in case getTrackerData db dom of
           Inl e \<Rightarrow> Inl e
         | Inr tracker \<Rightarrow> Inr \<lparr>
             n_time = time entry, n_domain = dom, n_unicodeName = Option.bind q q_unicode_name,
             n_type = Option.bind q q_type, n_response = processResponse (answer entry),
             n_reason = reason entry, n_client = client entry, n_client_proto = client_proto entry,
             n_client_id = client_id entry, n_client_info = normalizeClientInfo (client_info entry),
             n_filterId = filterId entry, n_rule = rule entry, n_rules = newRules entry,
             n_status = status entry, n_service_name = service_name entry,
             n_serviceName = service_name entry, n_originalAnswer = original_answer entry,
             n_originalResponse = processResponse (original_answer entry), n_tracker = tracker,
             n_answer_dnssec = answer_dnssec entry, n_elapsedMs = elapsedMs entry,
             n_upstream = upstream entry, n_cached = cached entry, n_ecs = ecs entry\<rparr>)"

fun normalizeLogs :: "tracker_db \<Rightarrow> QueryLogItem list \<Rightarrow> string + NormalizedQueryLogItem list" where
  "normalizeLogs db [] = Inr []"
| "normalizeLogs db (entry # ls) =
     (case normalizeLog db entry of
        Inl e \<Rightarrow> Inl e
      | Inr n \<Rightarrow> (case normalizeLogs db ls of Inl e \<Rightarrow> Inl e | Inr ns \<Rightarrow> Inr (n # ns)))"

subsection \<open>State\<close>

definition HOUR :: rat where "HOUR = 60 * 60 * 1000"

definition DAY :: rat where "DAY = HOUR * 24"

definition QUERY_LOG_INTERVALS_DAYS :: "rat list" where
  "QUERY_LOG_INTERVALS_DAYS = [HOUR * 6, DAY, DAY * 7, DAY * 30, DAY * 90]"

definition QUERY_LOGS_PAGE_LIMIT :: nat where "QUERY_LOGS_PAGE_LIMIT = 20"

record QueryLogFilter =
  f_search :: string
  f_status :: string
  f_reason :: string

definition DEFAULT_LOGS_FILTER :: QueryLogFilter where
  "DEFAULT_LOGS_FILTER = \<lparr>f_search = [], f_status = ''all'', f_reason = ''all''\<rparr>"

record QueryLogsState =
  processingGetLogs :: bool
  processingClear :: bool
  processingGetConfig :: bool
  configInitialized :: bool
  processingSetConfig :: bool
  processingAdditionalLogs :: bool
  interval :: rat
  logs :: "NormalizedQueryLogItem list"
  enabled :: bool
  oldest :: string
  logs_filter :: QueryLogFilter
  isFiltered :: bool
  anonymize_client_ip :: bool
  isDetailed :: bool
  isEntireLog :: bool
  customInterval :: "rat option"
  ignored :: "string list"
  ignored_enabled :: "bool option"

definition initialState :: QueryLogsState where
  "initialState = \<lparr>processingGetLogs = True, processingClear = False, processingGetConfig = False,
     configInitialized = False, processingSetConfig = False, processingAdditionalLogs = False,
     interval = DAY, logs = [], enabled = True, oldest = [], logs_filter = DEFAULT_LOGS_FILTER,
     isFiltered = False, anonymize_client_ip = False, isDetailed = True, isEntireLog = False,
     customInterval = None, ignored = [], ignored_enabled = Some False\<rparr>"

record GetQueryLogConfigResponse =
  cfg_enabled :: bool
  cfg_interval :: rat
  cfg_anonymize_client_ip :: bool
  cfg_ignored :: "string list"
  cfg_ignored_enabled :: "bool option"

record QueryLogParams =
  p_search :: string
  p_older_than :: string
  p_limit :: nat
  p_reason :: "string list option"

record QueryLog =
  log_oldest :: "string option"
  log_data :: "QueryLogItem list option"

record logs_page =
  page_logs :: "NormalizedQueryLogItem list"
  page_oldest :: string

record 'w querylog_ctx = "(unit, 'w) ctx" +
  queryLogs :: QueryLogsState

interpretation querylog_frame: toast_frame queryLogs
  by unfold_locales simp_all

record 'c querylog_api =
  queryLog :: "QueryLogParams \<Rightarrow> ('c, QueryLog) call"
  querylogClear :: "('c, unit) call"
  getQueryLogConfig :: "('c, GetQueryLogConfigResponse) call"
  putQueryLogConfig :: "GetQueryLogConfigResponse \<Rightarrow> ('c, unit) call"

abbreviation setState ::
  "(QueryLogsState \<Rightarrow> QueryLogsState) \<Rightarrow> ('w, 'm) querylog_ctx_scheme \<Rightarrow> ('w, 'm) querylog_ctx_scheme" where
  "setState f c \<equiv> c\<lparr>queryLogs := f (queryLogs c)\<rparr>"

subsection \<open>Filters\<close>

text \<open>The two tables, on the keys they list; any other key reads \<open>undefined\<close>.\<close>

definition STATUS_TO_REASONS :: "string \<rightharpoonup> string list" where
  "STATUS_TO_REASONS = map_of [
     (''blocked'', [''FilteredBlackList'', ''FilteredSafeBrowsing'', ''FilteredParental'', ''FilteredBlockedService'']),
     (''rewritten'', [''Rewrite'', ''RewriteEtcHosts'', ''RewriteRule'', ''FilteredSafeSearch'']),
     (''processed'', [''NotFilteredNotFound'']),
     (''allowed'', [''NotFilteredWhiteList'']),
     (''error'', [''NotFilteredError'', ''FilteredInvalid'']),
     (''all'', [])]"

definition REASON_FILTER_TO_REASONS :: "string \<rightharpoonup> string list" where
  "REASON_FILTER_TO_REASONS = map_of [
     (''FilteredBlackList'', [''FilteredBlackList'']),
     (''FilteredBlockedService'', [''FilteredBlockedService'']),
     (''FilteredSafeBrowsing'', [''FilteredSafeBrowsing'']),
     (''FilteredParental'', [''FilteredParental'']),
     (''FilteredSafeSearch'', [''FilteredSafeSearch'']),
     (''Rewrite'', [''Rewrite'', ''RewriteEtcHosts'', ''RewriteRule''])]"

definition getReasons :: "QueryLogFilter option \<Rightarrow> string list" where
  "getReasons flt =
     (let f = nullish flt DEFAULT_LOGS_FILTER
      in if f_reason f \<noteq> ''all'' then nullish (REASON_FILTER_TO_REASONS (f_reason f)) []
         else nullish (STATUS_TO_REASONS (f_status f)) [])"

definition logsParams :: "string \<Rightarrow> QueryLogFilter option \<Rightarrow> QueryLogParams" where
  "logsParams olderThan flt = \<lparr>
     p_search = f_search (nullish flt DEFAULT_LOGS_FILTER), p_older_than = olderThan,
     p_limit = QUERY_LOGS_PAGE_LIMIT,
     p_reason = (if getReasons flt = [] then None else Some (getReasons flt))\<rparr>"

text \<open>Turning a response into a page; an exception of \<open>normalizeLogs\<close> rejects.\<close>

definition pageOf :: "tracker_db \<Rightarrow> QueryLog \<Rightarrow> string + logs_page" where
  "pageOf db raw =
     (case normalizeLogs db (nullish (log_data raw) []) of
        Inl e \<Rightarrow> Inl e
      | Inr ns \<Rightarrow> Inr \<lparr>page_logs = ns, page_oldest = opt_or_str (log_oldest raw) []\<rparr>)"

definition fetchLogsWithParams ::
  "('w, 'm) querylog_ctx_scheme querylog_api \<Rightarrow> tracker_db \<Rightarrow> string \<Rightarrow> QueryLogFilter option
     \<Rightarrow> (('w, 'm) querylog_ctx_scheme, logs_page) call" where
  "fetchLogsWithParams api db olderThan flt =
     try_call (queryLog api (logsParams olderThan flt)) (\<lambda>raw. pass (pageOf db raw)) (\<lambda>e. pass (Inl e))"

definition filterLogsByStatus :: "NormalizedQueryLogItem list \<Rightarrow> string \<Rightarrow> NormalizedQueryLogItem list" where
  "filterLogsByStatus ls st =
     (if st = [] \<or> st = ''all'' then ls
      else case STATUS_TO_REASONS st of
             None \<Rightarrow> ls
           | Some rs \<Rightarrow> if rs = [] then ls else filter (\<lambda>l. nullish (n_reason l) [] \<in> set rs) ls)"

definition visibleCount :: "NormalizedQueryLogItem list \<Rightarrow> QueryLogFilter option \<Rightarrow> nat" where
  "visibleCount ls flt =
     length (filterLogsByStatus ls
       (or_str (f_status (nullish flt DEFAULT_LOGS_FILTER)) (f_status DEFAULT_LOGS_FILTER)))"

definition addPage :: "logs_page option \<Rightarrow> logs_page \<Rightarrow> logs_page" where
  "addPage acc data =
     (case acc of
        Some t \<Rightarrow> \<lparr>page_logs = page_logs t @ page_logs data, page_oldest = page_oldest data\<rparr>
      | None \<Rightarrow> \<lparr>page_logs = page_logs data, page_oldest = page_oldest data\<rparr>)"

fun shortPollQueryLogs ::
  "nat \<Rightarrow> ('w, 'm) querylog_ctx_scheme querylog_api \<Rightarrow> tracker_db \<Rightarrow> logs_page \<Rightarrow> QueryLogFilter option
     \<Rightarrow> logs_page option \<Rightarrow> (('w, 'm) querylog_ctx_scheme, (string + logs_page) option) state" where
  "shortPollQueryLogs 0 api db data flt acc = pass None"
| "shortPollQueryLogs (Suc n) api db data flt acc =
     (let totalData = addPage acc data
      in if visibleCount (page_logs totalData) flt \<ge> QUERY_LOGS_PAGE_LIMIT \<or> page_oldest totalData = []
         then pass (Some (Inr totalData))
         else do {
           r \<leftarrow> fetchLogsWithParams api db (page_oldest totalData) flt;
           (case r of
              Inl e \<Rightarrow> pass (Some (Inl e))
            | Inr data1 \<Rightarrow> shortPollQueryLogs n api db data1 flt (Some totalData)) })"

subsection \<open>Actions\<close>

definition showPage :: "logs_page \<Rightarrow> QueryLogsState \<Rightarrow> QueryLogsState" where
  "showPage p s = s\<lparr>logs := page_logs p, oldest := page_oldest p,
     isEntireLog := (page_oldest p = []), processingGetLogs := False\<rparr>"

definition failGetLogs ::
  "env \<Rightarrow> string \<Rightarrow> (('w, 'm) querylog_ctx_scheme, unit) state" where
  "failGetLogs env e = do {
     modify (errorToast env e);
     modify (setState (\<lambda>s. s\<lparr>processingGetLogs := False\<rparr>)) }"

definition getLogs ::
  "nat \<Rightarrow> env \<Rightarrow> ('w, 'm) querylog_ctx_scheme querylog_api \<Rightarrow> tracker_db
     \<Rightarrow> (('w, 'm) querylog_ctx_scheme, unit option) state" where
  "getLogs fuel env api db = do {
     modify (setState (\<lambda>s. s\<lparr>processingGetLogs := True\<rparr>));
     s \<leftarrow> gets queryLogs;
     try_call (fetchLogsWithParams api db (oldest s) (Some (logs_filter s)))
       (\<lambda>data.
          if isFiltered s
          then do {
            r \<leftarrow> shortPollQueryLogs fuel api db data (Some (logs_filter s)) None;
            (case r of
               None \<Rightarrow> pass None
             | Some (Inl e) \<Rightarrow> do { failGetLogs env e; pass (Some ()) }
             | Some (Inr acc) \<Rightarrow> do { modify (setState (showPage acc)); pass (Some ()) }) }
          else do { modify (setState (showPage data)); pass (Some ()) })
       (\<lambda>e. do { failGetLogs env e; pass (Some ()) }) }"

definition getAdditionalLogs ::
  "env \<Rightarrow> ('w, 'm) querylog_ctx_scheme querylog_api \<Rightarrow> tracker_db
     \<Rightarrow> (('w, 'm) querylog_ctx_scheme, unit) state" where
  "getAdditionalLogs env api db = do {
     modify (setState (\<lambda>s. s\<lparr>processingAdditionalLogs := True\<rparr>));
     s \<leftarrow> gets queryLogs;
     try_call (fetchLogsWithParams api db (oldest s) (Some (logs_filter s)))
       (\<lambda>data. modify (setState (\<lambda>s. s\<lparr>logs := logs s @ page_logs data, oldest := page_oldest data,
          isEntireLog := (page_oldest data = []), processingAdditionalLogs := False\<rparr>)))
       (\<lambda>e. do {
          modify (errorToast env e);
          modify (setState (\<lambda>s. s\<lparr>processingAdditionalLogs := False\<rparr>)) }) }"

definition clearLogs ::
  "env \<Rightarrow> ('w, 'm) querylog_ctx_scheme querylog_api \<Rightarrow> (('w, 'm) querylog_ctx_scheme, unit) state" where
  "clearLogs env api = do {
     modify (setState (\<lambda>s. s\<lparr>processingClear := True\<rparr>));
     try_call (querylogClear api)
       (\<lambda>_. do {
          modify (setState (\<lambda>s. s\<lparr>logs := [], oldest := [], isEntireLog := False, processingClear := False\<rparr>));
          modify (successToast env (msg env ''settings_notify_query_log_cleared'')) })
       (\<lambda>e. do {
          modify (errorToast env e);
          modify (setState (\<lambda>s. s\<lparr>processingClear := False\<rparr>)) }) }"

definition getLogsConfig ::
  "env \<Rightarrow> ('w, 'm) querylog_ctx_scheme querylog_api \<Rightarrow> (('w, 'm) querylog_ctx_scheme, unit) state" where
  "getLogsConfig env api = do {
     modify (setState (\<lambda>s. s\<lparr>processingGetConfig := True\<rparr>));
     try_call (getQueryLogConfig api)
       (\<lambda>data. modify (setState (\<lambda>s. s\<lparr>
          interval := (if cfg_interval data = 0 then DAY else cfg_interval data),
          enabled := cfg_enabled data,
          anonymize_client_ip := cfg_anonymize_client_ip data,
          customInterval := (if cfg_interval data \<in> set QUERY_LOG_INTERVALS_DAYS then None
                             else Some (cfg_interval data / HOUR)),
          ignored := cfg_ignored data,
          ignored_enabled := Some (nullish (cfg_ignored_enabled data) False),
          processingGetConfig := False, configInitialized := True\<rparr>)))
       (\<lambda>e. do {
          modify (errorToast env e);
          modify (setState (\<lambda>s. s\<lparr>processingGetConfig := False, configInitialized := True\<rparr>)) }) }"

text \<open>\<open>setLogsConfig\<close> up to its \<open>await\<close> and from there on.\<close>

definition setLogsConfig_start :: "('w, 'm) querylog_ctx_scheme \<Rightarrow> ('w, 'm) querylog_ctx_scheme" where
  "setLogsConfig_start = setState (\<lambda>s. s\<lparr>processingSetConfig := True\<rparr>)"

definition setLogsConfig_finish ::
  "env \<Rightarrow> ('w, 'm) querylog_ctx_scheme querylog_api \<Rightarrow> GetQueryLogConfigResponse
     \<Rightarrow> (('w, 'm) querylog_ctx_scheme, bool) state" where
  "setLogsConfig_finish env api values =
     try_call (putQueryLogConfig api values)
       (\<lambda>_. do {
          modify (setState (\<lambda>s. s\<lparr>enabled := cfg_enabled values, interval := cfg_interval values,
            anonymize_client_ip := cfg_anonymize_client_ip values, ignored := cfg_ignored values,
            ignored_enabled := (case cfg_ignored_enabled values of None \<Rightarrow> ignored_enabled s | v \<Rightarrow> v),
            processingSetConfig := False\<rparr>));
          pass True })
       (\<lambda>e. do {
          modify (errorToast env e);
          modify (setState (\<lambda>s. s\<lparr>processingSetConfig := False\<rparr>));
          pass False })"

definition setLogsConfig ::
  "env \<Rightarrow> ('w, 'm) querylog_ctx_scheme querylog_api \<Rightarrow> GetQueryLogConfigResponse
     \<Rightarrow> (('w, 'm) querylog_ctx_scheme, bool) state" where
  "setLogsConfig env api values = do {
     modify setLogsConfig_start;
     setLogsConfig_finish env api values }"

definition setFilteredLogs ::
  "nat \<Rightarrow> env \<Rightarrow> ('w, 'm) querylog_ctx_scheme querylog_api \<Rightarrow> tracker_db \<Rightarrow> QueryLogFilter option
     \<Rightarrow> (('w, 'm) querylog_ctx_scheme, bool option) state" where
  "setFilteredLogs fuel env api db flt = do {
     modify (setState (\<lambda>s. s\<lparr>logs_filter := nullish flt DEFAULT_LOGS_FILTER, isFiltered := True,
       processingGetLogs := True\<rparr>));
     try_call (fetchLogsWithParams api db [] flt)
       (\<lambda>data. do {
          r \<leftarrow> shortPollQueryLogs fuel api db data flt None;
          (case r of
             None \<Rightarrow> pass None
           | Some (Inl e) \<Rightarrow> do { failGetLogs env e; pass (Some False) }
           | Some (Inr acc) \<Rightarrow> do {
               modify (setState (\<lambda>s. (showPage acc s)\<lparr>logs_filter := nullish flt DEFAULT_LOGS_FILTER\<rparr>));
               pass (Some True) }) })
       (\<lambda>e. do { failGetLogs env e; pass (Some False) }) }"

definition setLogsFilter ::
  "QueryLogFilter \<Rightarrow> ('w, 'm) querylog_ctx_scheme \<Rightarrow> ('w, 'm) querylog_ctx_scheme" where
  "setLogsFilter flt = setState (\<lambda>s. s\<lparr>logs_filter := flt\<rparr>)"

definition toggleDetailedLogs :: "('w, 'm) querylog_ctx_scheme \<Rightarrow> ('w, 'm) querylog_ctx_scheme" where
  "toggleDetailedLogs = setState (\<lambda>s. s\<lparr>isDetailed := \<not> isDetailed s\<rparr>)"

definition refreshFilteredLogs ::
  "nat \<Rightarrow> env \<Rightarrow> ('w, 'm) querylog_ctx_scheme querylog_api \<Rightarrow> tracker_db
     \<Rightarrow> (('w, 'm) querylog_ctx_scheme, bool option) state" where
  "refreshFilteredLogs fuel env api db = do {
     s \<leftarrow> gets queryLogs;
     ok \<leftarrow> setFilteredLogs fuel env api db (Some (logs_filter s));
     (if ok = Some True
      then modify (addSuccessToast env (SuccessObject \<lparr>success_message = msg env ''notify_updated'',
             success_code = Some ''notify_updated'', success_actionLabel = None, success_undoId = None\<rparr>))
      else pass ());
     pass ok }"

subsection \<open>Polling\<close>

text \<open>
  A backend seen through one filter: the page behind each cursor. \<open>cursor pg k\<close> is the cursor of
  the \<open>k\<close>-th page from the newest one, \<open>upto_page pg k\<close> the rows of the pages up to it.
\<close>

fun cursor :: "(string \<Rightarrow> logs_page) \<Rightarrow> nat \<Rightarrow> string" where
  "cursor pg 0 = []"
| "cursor pg (Suc k) = page_oldest (pg (cursor pg k))"

definition upto_page :: "(string \<Rightarrow> logs_page) \<Rightarrow> nat \<Rightarrow> logs_page" where
  "upto_page pg k = \<lparr>page_logs = concat (map (\<lambda>j. page_logs (pg (cursor pg j))) [0..<Suc k]),
     page_oldest = cursor pg (Suc k)\<rparr>"

definition enough :: "QueryLogFilter option \<Rightarrow> logs_page \<Rightarrow> bool" where
  "enough flt p \<longleftrightarrow> QUERY_LOGS_PAGE_LIMIT \<le> visibleCount (page_logs p) flt \<or> page_oldest p = []"

text \<open>The api answers every cursor with its page and leaves the rest of the context alone.\<close>

definition serves ::
  "('w, 'm) querylog_ctx_scheme querylog_api \<Rightarrow> tracker_db \<Rightarrow> QueryLogFilter option \<Rightarrow> (string \<Rightarrow> logs_page) \<Rightarrow> bool" where
  "serves api db flt pg \<longleftrightarrow>
     (\<forall>old c. \<exists>raw. run_state (queryLog api (logsParams old flt)) c = (Inr raw, c) \<and> pageOf db raw = Inr (pg old))"

lemma fetch_serves:
  "serves api db flt pg \<Longrightarrow> run_state (fetchLogsWithParams api db old flt) c = (Inr (pg old), c)"
proof -
  assume "serves api db flt pg"
  then obtain raw where "run_state (queryLog api (logsParams old flt)) c = (Inr raw, c)" "pageOf db raw = Inr (pg old)"
    unfolding serves_def by blast
  then show ?thesis by (simp add: fetchLogsWithParams_def run_try_call)
qed

lemma addPage_upto: "addPage (Some (upto_page pg k)) (pg (cursor pg (Suc k))) = upto_page pg (Suc k)"
  by (simp add: addPage_def upto_page_def)

lemma upto_page_0: "addPage None (pg []) = upto_page pg 0"
  by (simp add: addPage_def upto_page_def)

text \<open>Once some page is enough, so many steps of fuel end the polling at the first such page.\<close>

lemma shortPoll_upto:
  assumes srv: "serves api db flt pg" and hit: "enough flt (upto_page pg k)"
    and first: "\<And>j. j < k \<Longrightarrow> \<not> enough flt (upto_page pg j)"
  shows "j \<le> k \<Longrightarrow> k - j < fuel \<Longrightarrow> addPage acc data = upto_page pg j \<Longrightarrow>
    run_state (shortPollQueryLogs fuel api db data flt acc) c = (Some (Inr (upto_page pg k)), c)"
proof (induction fuel arbitrary: j data acc)
  case 0
  then show ?case by simp
next
  case (Suc n)
  show ?case
  proof (cases "j = k")
    case True
    with Suc.prems(3) hit show ?thesis by (auto simp: enough_def Let_def)
  next
    case False
    then have "\<not> enough flt (upto_page pg j)" using first Suc.prems(1) by simp
    then have "run_state (shortPollQueryLogs (Suc n) api db data flt acc) c =
        run_state (shortPollQueryLogs n api db (pg (page_oldest (upto_page pg j))) flt (Some (upto_page pg j))) c"
      by (simp add: Suc.prems(3) enough_def Let_def fetch_serves [OF srv])
    also have "\<dots> = (Some (Inr (upto_page pg k)), c)"
    proof (rule Suc.IH)
      show "Suc j \<le> k" "k - Suc j < n" using False Suc.prems by auto
      show "addPage (Some (upto_page pg j)) (pg (page_oldest (upto_page pg j))) = upto_page pg (Suc j)"
        using addPage_upto [of pg j] by (simp add: upto_page_def)
    qed
    finally show ?thesis .
  qed
qed

text \<open>Cursors that get strictly older reach the end of the log.\<close>

lemma cursor_ends:
  fixes age :: "string \<Rightarrow> nat"
  assumes "\<And>k. cursor pg (Suc k) \<noteq> [] \<Longrightarrow> age (cursor pg (Suc k)) < age (cursor pg k)"
  shows "\<exists>k\<le>age []. cursor pg (Suc k) = []"
proof (rule ccontr)
  assume none: "\<not> ?thesis"
  have "age (cursor pg k) + k \<le> age []" if "k \<le> Suc (age [])" for k
    using that
  proof (induction k)
    case (Suc k)
    then have "age (cursor pg (Suc k)) < age (cursor pg k)" using none assms by auto
    with Suc show ?case by simp
  qed simp
  from this [of "Suc (age [])"] show False by simp
qed

lemma first_enough:
  fixes age :: "string \<Rightarrow> nat"
  assumes "\<And>k. cursor pg (Suc k) \<noteq> [] \<Longrightarrow> age (cursor pg (Suc k)) < age (cursor pg k)"
  obtains k where "k \<le> age []" "enough flt (upto_page pg k)" "\<And>j. j < k \<Longrightarrow> \<not> enough flt (upto_page pg j)"
proof -
  obtain m where m: "m \<le> age []" "enough flt (upto_page pg m)"
    using cursor_ends [of pg age] assms by (auto simp: enough_def upto_page_def)
  let ?k = "LEAST k. enough flt (upto_page pg k)"
  have "?k \<le> m" "enough flt (upto_page pg ?k)" using m(2) by (auto intro: Least_le LeastI)
  moreover have "\<not> enough flt (upto_page pg j)" if "j < ?k" for j using not_less_Least that by blast
  ultimately show ?thesis using m(1) that by (meson le_trans)
qed

subsection \<open>Theorems\<close>

text \<open>
  C7. With a backend whose cursors get strictly older (\<open>age\<close>), applying a filter returns: it
  polls page after page, and stops at the first point where twenty rows are visible or the log is
  exhausted. The rows shown are those of all the pages fetched, in order, none lost and none
  repeated; ``entire log'' is shown exactly when the last cursor is empty.
\<close>

theorem setFilteredLogs_polls:
  fixes age :: "string \<Rightarrow> nat"
  assumes "serves api db flt pg"
    and "\<And>k. cursor pg (Suc k) \<noteq> [] \<Longrightarrow> age (cursor pg (Suc k)) < age (cursor pg k)"
    and "age [] < fuel"
  shows "\<exists>k. result (setFilteredLogs fuel env api db flt) c = Some True \<and>
    (let s = queryLogs (exec (setFilteredLogs fuel env api db flt) c)
     in logs s = concat (map (\<lambda>j. page_logs (pg (cursor pg j))) [0..<Suc k]) \<and>
        oldest s = cursor pg (Suc k) \<and>
        isEntireLog s = (cursor pg (Suc k) = []) \<and>
        (QUERY_LOGS_PAGE_LIMIT \<le> visibleCount (logs s) flt \<or> isEntireLog s) \<and>
        (\<forall>j<k. \<not> enough flt (upto_page pg j)) \<and>
        \<not> processingGetLogs s \<and> logs_filter s = nullish flt DEFAULT_LOGS_FILTER)"
proof -
  obtain k where k: "k \<le> age []" "enough flt (upto_page pg k)" "\<And>j. j < k \<Longrightarrow> \<not> enough flt (upto_page pg j)"
    using first_enough [of pg age flt] assms(2) by blast
  have poll: "run_state (shortPollQueryLogs fuel api db (pg []) flt None) d = (Some (Inr (upto_page pg k)), d)" for d
    by (rule shortPoll_upto [OF assms(1) k(2,3), of 0]) (use k assms(3) upto_page_0 in auto)
  have run: "run_state (setFilteredLogs fuel env api db flt) c =
      (Some True, setState (\<lambda>s. (showPage (upto_page pg k) s)\<lparr>logs_filter := nullish flt DEFAULT_LOGS_FILTER\<rparr>)
        (setState (\<lambda>s. s\<lparr>logs_filter := nullish flt DEFAULT_LOGS_FILTER, isFiltered := True, processingGetLogs := True\<rparr>) c))"
    by (simp add: setFilteredLogs_def run_try_call fetch_serves [OF assms(1)] poll)
  have shown: "page_logs (upto_page pg k) = concat (map (\<lambda>j. page_logs (pg (cursor pg j))) [0..<Suc k])"
    "page_oldest (upto_page pg k) = cursor pg (Suc k)"
    by (simp_all add: upto_page_def)
  show ?thesis
    by (rule exI [of _ k], unfold run Let_def)
      (use k(2,3) in \<open>simp add: showPage_def shown enough_def del: upt_Suc cursor.simps\<close>)
qed

definition sample_item :: QueryLogItem where
  "sample_item = \<lparr>answer = None, original_answer = None, cached = None, upstream = None,
     answer_dnssec = None, client = Some ''10.0.0.1'', client_id = None, client_info = None,
     client_proto = None, ecs = None, elapsedMs = None, question = None, filterId = Some 1,
     rule = Some ''||x^'', rules = None, reason = Some ''FilteredBlackList'', service_name = None,
     status = None, time = None\<rparr>"

definition two_pages_api :: "('w, 'm) querylog_ctx_scheme querylog_api" where
  "two_pages_api = \<lparr>
     queryLog = (\<lambda>p. pass (Inr \<lparr>log_oldest = (if p_older_than p = [] then Some ''a'' else None),
       log_data = Some [sample_item]\<rparr>)),
     querylogClear = pass (Inr ()),
     getQueryLogConfig = pass (Inl ''unreachable''),
     putQueryLogConfig = (\<lambda>_. pass (Inr ()))\<rparr>"

definition two_pages :: "tracker_db \<Rightarrow> string \<Rightarrow> logs_page" where
  "two_pages db old = \<lparr>page_logs = (case normalizeLogs db [sample_item] of Inl _ \<Rightarrow> [] | Inr ns \<Rightarrow> ns),
     page_oldest = (if old = [] then ''a'' else [])\<rparr>"

definition sample_ctx :: "unit querylog_ctx" where
  "sample_ctx = \<lparr>notices = [], undoRegistry = Map.empty, nonce = 1, console_error = [],
     world = (), queryLogs = initialState\<rparr>"

theorem setFilteredLogs_polls_witness:
  "result (setFilteredLogs 3 sample_env two_pages_api sample_db (Some DEFAULT_LOGS_FILTER)) sample_ctx = Some True"
proof -
  let ?age = "\<lambda>s::string. if s = [] then 2 else 1::nat"
  have "serves (two_pages_api :: unit querylog_ctx querylog_api) sample_db (Some DEFAULT_LOGS_FILTER) (two_pages sample_db)"
    by (simp add: serves_def two_pages_api_def two_pages_def pageOf_def logsParams_def
        normalizeLog_def sample_item_def getTrackerData_def or_str_def)
  moreover have "cursor (two_pages sample_db) (Suc k) \<noteq> [] \<Longrightarrow>
      ?age (cursor (two_pages sample_db) (Suc k)) < ?age (cursor (two_pages sample_db) k)" for k
    by (auto simp: two_pages_def split: if_splits)
  ultimately show ?thesis
    using setFilteredLogs_polls [of two_pages_api sample_db "Some DEFAULT_LOGS_FILTER" "two_pages sample_db" ?age 3]
    by fastforce
qed

text \<open>
  What the server is asked to filter by and what the client counts agree: when no reason is
  selected, rows whose reason is one of those requested are all visible, so a page of a backend
  that honours the request is never under-counted and polling cannot run on because of it.
\<close>

theorem requested_rows_are_visible:
  assumes "f_reason flt = ''all''"
    and "\<forall>l\<in>set ls. p_reason (logsParams old (Some flt)) = None \<or>
           (\<exists>r. n_reason l = Some r \<and> r \<in> set (the (p_reason (logsParams old (Some flt)))))"
  shows "visibleCount ls (Some flt) = length ls"
proof -
  have "filterLogsByStatus ls (or_str (f_status flt) (f_status DEFAULT_LOGS_FILTER)) = ls"
    using assms
    by (auto simp: filterLogsByStatus_def logsParams_def getReasons_def or_str_def
        DEFAULT_LOGS_FILTER_def filter_id_conv split: option.splits if_splits)
  then show ?thesis by (simp add: visibleCount_def)
qed

theorem requested_rows_are_visible_witness:
  "case normalizeLog sample_db sample_item of
     Inl _ \<Rightarrow> False
   | Inr l \<Rightarrow> visibleCount [l] (Some \<lparr>f_search = [], f_status = ''blocked'', f_reason = ''all''\<rparr>) = 1"
proof -
  obtain l where l: "normalizeLog sample_db sample_item = Inr l" "n_reason l = Some ''FilteredBlackList''"
    by (simp add: normalizeLog_def sample_item_def getTrackerData_def)
  have "visibleCount [l] (Some \<lparr>f_search = [], f_status = ''blocked'', f_reason = ''all''\<rparr>) = length [l]"
    by (rule requested_rows_are_visible)
      (simp_all add: l(2) logsParams_def getReasons_def STATUS_TO_REASONS_def)
  with l(1) show ?thesis by simp
qed

text \<open>One row that cannot be normalised is enough to lose its whole page.\<close>

lemma normalizeLogs_error_iff:
  "(\<exists>e. normalizeLogs db ls = Inl e) \<longleftrightarrow> (\<exists>l\<in>set ls. \<exists>e. normalizeLog db l = Inl e)"
  by (induction ls) (auto split: sum.splits)

lemma normalizeLogs_Inr: "normalizeLogs db ls = Inr ns \<longleftrightarrow> map (normalizeLog db) ls = map Inr ns"
proof (induction ls arbitrary: ns)
  case (Cons l ls)
  show ?case
    by (cases ns) (auto simp: Cons.IH [symmetric] split: sum.splits)
qed auto

text \<open>
  Normalising keeps the rows: same number, same order, each with its reason, and every row
  that carries the deprecated \<open>rule\<close> and \<open>filterId\<close> instead of \<open>rules\<close> still has its rule.
\<close>

theorem normalizeLogs_rows:
  assumes "normalizeLogs db ls = Inr ns"
  shows "map n_reason ns = map reason ls \<and>
    (\<forall>i<length ls. rules (ls ! i) = None \<longrightarrow> rule (ls ! i) = Some t \<longrightarrow> filterId (ls ! i) = Some k \<longrightarrow>
       n_rules (ns ! i) = [\<lparr>filter_list_id = Some k, rule_text = Some t\<rparr>])"
proof -
  have len: "length ls = length ns" using assms normalizeLogs_Inr map_eq_imp_length_eq by metis
  have nth: "normalizeLog db (ls ! i) = Inr (ns ! i)" if "i < length ls" for i
    using assms that len unfolding normalizeLogs_Inr by (metis nth_map)
  have row: "normalizeLog db l = Inr n \<Longrightarrow> n_reason n = reason l \<and> n_rules n = newRules l" for l n
    by (auto simp: normalizeLog_def Let_def split: sum.splits)
  have "map n_reason ns = map reason ls"
    by (rule nth_equalityI) (use len row nth in auto)
  moreover have "n_rules (ns ! i) = newRules (ls ! i)" if "i < length ls" for i using row nth that by blast
  ultimately show ?thesis by (simp add: newRules_def)
qed

theorem normalizeLogs_rows_witness:
  "\<exists>ns. normalizeLogs sample_db [sample_item] = Inr ns \<and>
     n_rules (ns ! 0) = [\<lparr>filter_list_id = Some 1, rule_text = Some ''||x^''\<rparr>]"
proof -
  obtain ns where ns: "normalizeLogs sample_db [sample_item] = Inr ns"
    by (simp add: normalizeLog_def sample_item_def getTrackerData_def)
  from normalizeLogs_rows [OF ns] ns show ?thesis
    by (simp add: sample_item_def)
qed

text \<open>
  A single query for the name \<open>constructor\<close> in the log hides its whole page: the tracker
  lookup throws, loading more rows leaves the rows as they were and shows an error.
\<close>

theorem constructor_query_hides_page:
  assumes "trackerDomains db ''constructor'' = None"
    and "log_data raw = Some ls" and "l \<in> set ls" and "question l = Some q" and "q_name q = Some ''constructor''"
    and "\<And>p d. run_state (queryLog api p) d = (Inr raw, d)"
  shows "logs (queryLogs (exec (getAdditionalLogs env api db) c)) = logs (queryLogs c) \<and>
    notices (exec (getAdditionalLogs env api db) c) \<noteq> []"
proof -
  have "normalizeLog db l = Inl ''TypeError''"
    using assms(1,4,5) by (simp add: normalizeLog_def constructor_lookup)
  then obtain e where "normalizeLogs db ls = Inl e" using normalizeLogs_error_iff assms(3) by blast
  then have page: "pageOf db raw = Inl e" using assms(2) by (simp add: pageOf_def)
  show ?thesis
    by (auto simp: getAdditionalLogs_def run_try_call fetchLogsWithParams_def assms(6) page
        addErrorToast_def pushProblemToast_def push_notice_def Let_def)
qed

definition constructor_item :: QueryLogItem where
  "constructor_item = sample_item\<lparr>question := Some \<lparr>q_class = None, q_name = Some ''constructor'',
     q_unicode_name = None, q_type = None\<rparr>\<rparr>"

definition constructor_api :: "('w, 'm) querylog_ctx_scheme querylog_api" where
  "constructor_api = two_pages_api\<lparr>queryLog := (\<lambda>_. pass (Inr
     \<lparr>log_oldest = None, log_data = Some [sample_item, constructor_item]\<rparr>))\<rparr>"

theorem constructor_query_hides_page_witness:
  "notices (exec (getAdditionalLogs sample_env constructor_api sample_db) sample_ctx) \<noteq> []"
proof -
  have "trackerDomains sample_db ''constructor'' = None" by (simp add: sample_db_def)
  moreover have "question constructor_item = Some \<lparr>q_class = None, q_name = Some ''constructor'',
     q_unicode_name = None, q_type = None\<rparr>" by (simp add: constructor_item_def)
  ultimately show ?thesis
    by (intro constructor_query_hides_page [THEN conjunct2]) (auto simp: constructor_api_def)
qed

text \<open>
  Whatever the backend answers, and whatever other actions do meanwhile, no query log action
  leaves its progress flag set; for the polling actions, whenever they return.
\<close>

theorem querylog_settles:
  "\<not> processingAdditionalLogs (queryLogs (exec (getAdditionalLogs env api db) c)) \<and>
   \<not> processingClear (queryLogs (exec (clearLogs env api) c)) \<and>
   \<not> processingGetConfig (queryLogs (exec (getLogsConfig env api) c)) \<and>
   \<not> processingSetConfig (queryLogs (exec (setLogsConfig env api v) c))"
  by (simp add: getAdditionalLogs_def clearLogs_def getLogsConfig_def setLogsConfig_def setLogsConfig_finish_def
      run_try_call split: sum.splits)

end
