(* ===== verification/Stats.thy ===== *)
theory Stats
  imports QueryLogs Dashboard Validators
begin

section \<open>Statistics store\<close>

text \<open>
  \<^verbatim>\<open>client_v2/src/stores/stats.ts\<close> with \<^verbatim>\<open>helpers/statistics.ts\<close>, the helpers of
  \<^verbatim>\<open>helpers/helpers.tsx\<close> that prepare the top lists, \<^verbatim>\<open>stores/derived.ts\<close> and the sorted cards
  of the dashboard. Numbers are rationals: the rounding of floating point is left out. The browser's
  storage, \<open>Number\<close> on strings and the backend are parameters. An entry of a top list is the pair
  of its one key and value.
\<close>

subsection \<open>Data\<close>

type_synonym TopArrayEntry = "string \<times> rat"

record TopStat =
  ts_name :: string
  ts_count :: rat

record ClientFindSubEntry =
  fe_name :: "string option"
  fe_ids :: "string list option"
  fe_use_global_settings :: "bool option"
  fe_filtering_enabled :: "bool option"
  fe_parental_enabled :: "bool option"
  fe_safebrowsing_enabled :: "bool option"
  fe_safesearch_enabled :: "bool option"
  fe_safe_search :: "SafeSearchConfig option"
  fe_use_global_blocked_services :: "bool option"
  fe_blocked_services :: "string list option"
  fe_upstreams :: "string list option"
  fe_whois_info :: "(string \<times> string) list option"
  fe_disallowed :: "bool option"
  fe_disallowed_rule :: "string option"
  fe_ignore_querylog :: "bool option"
  fe_ignore_statistics :: "bool option"

record TopClient = TopStat +
  ts_info :: ClientFindSubEntry

record normalizedTopClients =
  auto_counts :: "string \<rightharpoonup> rat"
  configured_counts :: "string \<rightharpoonup> rat"

record StatsState =
  processingGetConfig :: bool
  processingSetConfig :: bool
  processingStats :: bool
  processingReset :: bool
  configLoaded :: bool
  configInitialized :: bool
  statsInitialized :: bool
  interval :: rat
  customInterval :: "rat option"
  dnsQueries :: "rat list"
  blockedFiltering :: "rat list"
  replacedParental :: "rat list"
  replacedSafebrowsing :: "rat list"
  topBlockedDomains :: "TopStat list"
  topClients :: "TopClient list"
  normalizedTopClients :: normalizedTopClients
  topQueriedDomains :: "TopStat list"
  numBlockedFiltering :: rat
  numDnsQueries :: rat
  numReplacedParental :: rat
  numReplacedSafebrowsing :: rat
  numReplacedSafesearch :: rat
  avgProcessingTime :: "rat option"
  timeUnits :: string
  enabled :: bool
  topUpstreamsAvgTime :: "TopStat list"
  topUpstreamsResponses :: "TopStat list"
  ignored :: "string list"
  ignored_enabled :: bool

record Stats =
  st_time_units :: "string option"
  st_num_dns_queries :: "rat option"
  st_num_blocked_filtering :: "rat option"
  st_num_replaced_safebrowsing :: "rat option"
  st_num_replaced_safesearch :: "rat option"
  st_num_replaced_parental :: "rat option"
  st_avg_processing_time :: "rat option"
  st_top_queried_domains :: "TopArrayEntry list option"
  st_top_clients :: "TopArrayEntry list option"
  st_top_blocked_domains :: "TopArrayEntry list option"
  st_top_upstreams_responses :: "TopArrayEntry list option"
  st_top_upstreams_avg_time :: "TopArrayEntry list option"
  st_dns_queries :: "rat list option"
  st_blocked_filtering :: "rat list option"
  st_replaced_safebrowsing :: "rat list option"
  st_replaced_parental :: "rat list option"

record GetStatsConfigResponse =
  sc_enabled :: bool
  sc_interval :: rat
  sc_ignored :: "string list"
  sc_ignored_enabled :: "bool option"

definition STATS_INTERVALS_DAYS :: "rat list" where
  "STATS_INTERVALS_DAYS = [6 * HOUR, DAY, DAY * 7, DAY * 30, DAY * 90]"

definition initialState :: StatsState where
  "initialState = \<lparr>processingGetConfig = False, processingSetConfig = False, processingStats = True,
     processingReset = False, configLoaded = False, configInitialized = False, statsInitialized = False,
     interval = DAY, customInterval = None, dnsQueries = [], blockedFiltering = [], replacedParental = [],
     replacedSafebrowsing = [], topBlockedDomains = [], topClients = [],
     normalizedTopClients = \<lparr>auto_counts = Map.empty, configured_counts = Map.empty\<rparr>,
     topQueriedDomains = [], numBlockedFiltering = 0, numDnsQueries = 0, numReplacedParental = 0,
     numReplacedSafebrowsing = 0, numReplacedSafesearch = 0, avgProcessingTime = Some 0,
     timeUnits = ''hours'', enabled = True, topUpstreamsAvgTime = [], topUpstreamsResponses = [],
     ignored = [], ignored_enabled = False\<rparr>"

record 'w stats_ctx = "(unit, 'w) ctx" +
  stats_store :: StatsState

interpretation stats_frame: toast_frame stats_store
  by unfold_locales simp_all

record 'c stats_api =
  stats :: "rat option \<Rightarrow> ('c, Stats) call"
  clientsSearch :: "string list \<Rightarrow> ('c, (string \<rightharpoonup> ClientFindSubEntry) list) call"
  fetchStatsConfig :: "('c, GetStatsConfigResponse) call"
  putStatsConfig :: "GetStatsConfigResponse \<Rightarrow> ('c, unit) call"
  statsReset :: "('c, unit) call"

abbreviation setState ::
  "(StatsState \<Rightarrow> StatsState) \<Rightarrow> ('w, 'm) stats_ctx_scheme \<Rightarrow> ('w, 'm) stats_ctx_scheme" where
  "setState f c \<equiv> c\<lparr>stats_store := f (stats_store c)\<rparr>"

subsection \<open>Periods\<close>

text \<open>\<open>saved\<close> is what the browser's storage holds under the key of the period, undefined when
  nothing or nothing readable is there.\<close>

definition getStoredStatsPeriod :: "form_value \<Rightarrow> rat" where
  "getStoredStatsPeriod saved = (case saved of VNumber (Num p) \<Rightarrow> if p > 0 then p else DAY | _ \<Rightarrow> DAY)"

definition getClampedMaxInterval :: "rat \<Rightarrow> rat" where
  "getClampedMaxInterval maxInterval = (if maxInterval \<ge> HOUR then maxInterval else DAY)"

definition clampStatsPeriod :: "rat \<Rightarrow> rat \<Rightarrow> rat" where
  "clampStatsPeriod period maxInterval = min period (getClampedMaxInterval maxInterval)"

definition getEffectiveStatsPeriod :: "form_value \<Rightarrow> rat \<Rightarrow> rat" where
  "getEffectiveStatsPeriod saved maxInterval = clampStatsPeriod (getStoredStatsPeriod saved) maxInterval"

definition getStatsPeriodFromUrl :: "(string \<Rightarrow> js_number) \<Rightarrow> string option \<Rightarrow> rat option" where
  "getStatsPeriodFromUrl toNumber param =
     (case param of
        None \<Rightarrow> None
      | Some s \<Rightarrow> (case js_Number toNumber (VString s) of Num p \<Rightarrow> if p > 0 then Some p else None | _ \<Rightarrow> None))"

definition resolveStatsPeriod :: "(string \<Rightarrow> js_number) \<Rightarrow> form_value \<Rightarrow> string option \<Rightarrow> rat \<Rightarrow> rat" where
  "resolveStatsPeriod toNumber saved param maxInterval =
     (case getStatsPeriodFromUrl toNumber param of
        Some p \<Rightarrow> clampStatsPeriod p maxInterval
      | None \<Rightarrow> getEffectiveStatsPeriod saved maxInterval)"

definition computePercent :: "rat \<Rightarrow> rat \<Rightarrow> rat" where
  "computePercent cnt overall = (if overall > 0 then (cnt / overall) * 100 else 0)"

subsection \<open>Searching the tables\<close>

text \<open>\<open>value.split(/\s+/)\<close>: a separator is a longest run of white space.\<close>

fun split_spaces :: "string \<Rightarrow> string list" where
  "split_spaces [] = [[]]"
| "split_spaces (x # xs) =
     (if is_space x
      then (case xs of
              y # _ \<Rightarrow> if is_space y then split_spaces xs else [] # split_spaces xs
            | [] \<Rightarrow> [[], []])
      else (case split_spaces xs of [] \<Rightarrow> [[x]] | p # ps \<Rightarrow> (x # p) # ps))"

definition quotes_inside :: "string \<Rightarrow> string option" where
  "quotes_inside s =
     (if length s \<ge> 2 \<and> hd s = CHR 0x22 \<and> last s = CHR 0x22 then Some (butlast (tl s)) else None)"

definition isQueryMatch :: "string \<Rightarrow> string \<Rightarrow> bool" where
  "isQueryMatch value query =
     (let trimmed = trim query
      in if trimmed = [] then True
         else case quotes_inside trimmed of
                Some q \<Rightarrow> q = [] \<or> q \<in> set (split_spaces value)
              | None \<Rightarrow> includes_str (toLowerCase value) (toLowerCase trimmed))"

subsection \<open>Top lists\<close>

definition normalizeTopStats :: "TopArrayEntry list \<Rightarrow> TopStat list" where
  "normalizeTopStats items = map (\<lambda>(k, v). \<lparr>ts_name = k, ts_count = v\<rparr>) items"

text \<open>A JavaScript \<open>Set\<close> keeps the order of insertion.\<close>

definition set_add :: "'a \<Rightarrow> 'a list \<Rightarrow> 'a list" where
  "set_add k ks = (if k \<in> set ks then ks else ks @ [k])"

fun getParamsForClientsSearch ::
  "'r list \<Rightarrow> ('r \<Rightarrow> string) \<Rightarrow> ('r \<Rightarrow> string option) \<Rightarrow> string list \<Rightarrow> string list" where
  "getParamsForClientsSearch [] param additional acc = acc"
| "getParamsForClientsSearch (e # es) param additional acc =
     (let acc1 = set_add (param e) acc
      in getParamsForClientsSearch es param additional
           (case additional e of Some v \<Rightarrow> if v = [] then acc1 else set_add v acc1 | None \<Rightarrow> acc1))"

definition empty_info :: ClientFindSubEntry where
  "empty_info = \<lparr>fe_name = None, fe_ids = None, fe_use_global_settings = None, fe_filtering_enabled = None,
     fe_parental_enabled = None, fe_safebrowsing_enabled = None, fe_safesearch_enabled = None,
     fe_safe_search = None, fe_use_global_blocked_services = None, fe_blocked_services = None,
     fe_upstreams = None, fe_whois_info = None, fe_disallowed = None, fe_disallowed_rule = None,
     fe_ignore_querylog = None, fe_ignore_statistics = None\<rparr>"

text \<open>Read as a client, an inherited member of an object has at most a name: that of the function.\<close>

definition inherited_info :: "string \<Rightarrow> ClientFindSubEntry" where
  "inherited_info k = empty_info\<lparr>fe_name :=
     (if k = ''__proto__'' then None else if k = ''constructor'' then Some ''Object'' else Some k)\<rparr>"

definition found_info :: "(string \<rightharpoonup> ClientFindSubEntry) list \<Rightarrow> string \<Rightarrow> ClientFindSubEntry option" where
  "found_info found k =
     (case find (\<lambda>item. object_get item k \<noteq> Absent) found of
        None \<Rightarrow> None
      | Some item \<Rightarrow> (case object_get item k of Own e \<Rightarrow> Some e | Inherited \<Rightarrow> Some (inherited_info k) | Absent \<Rightarrow> None))"

definition addClientInfo :: "TopStat list \<Rightarrow> (string \<rightharpoonup> ClientFindSubEntry) list \<Rightarrow> TopClient list" where
  "addClientInfo data found = map (\<lambda>row.
     \<lparr>ts_name = ts_name row, ts_count = ts_count row,
      ts_info = nullish (if ts_name row = [] then None else found_info found (ts_name row)) empty_info\<rparr>) data"

text \<open>Assigning to \<open>__proto__\<close> a number changes nothing; a missing name is the key \<open>undefined\<close>.\<close>

definition put_key :: "string \<Rightarrow> 'a \<Rightarrow> (string \<rightharpoonup> 'a) \<Rightarrow> (string \<rightharpoonup> 'a)" where
  "put_key k v m = (if k = ''__proto__'' then m else m(k \<mapsto> v))"

definition info_key :: "TopClient \<Rightarrow> string" where
  "info_key c = nullish (fe_name (ts_info c)) ''undefined''"

fun reduce_clients :: "TopClient list \<Rightarrow> normalizedTopClients \<Rightarrow> normalizedTopClients" where
  "reduce_clients [] acc = acc"
| "reduce_clients (c # cs) acc = reduce_clients cs
     (acc\<lparr>auto_counts := put_key (ts_name c) (ts_count c) (auto_counts acc),
          configured_counts := put_key (info_key c) (ts_count c) (configured_counts acc)\<rparr>)"

definition normalizeTopClients :: "TopClient list \<Rightarrow> normalizedTopClients" where
  "normalizeTopClients cs = reduce_clients cs \<lparr>auto_counts = Map.empty, configured_counts = Map.empty\<rparr>"

definition secondsToMilliseconds :: "rat option \<Rightarrow> rat option" where
  "secondsToMilliseconds seconds = map_option (\<lambda>s. s * 1000) seconds"

subsection \<open>Actions\<close>

definition or_zero :: "rat option \<Rightarrow> rat" where
  "or_zero v = nullish v 0"

definition or_empty :: "'a list option \<Rightarrow> 'a list" where
  "or_empty v = nullish v []"

definition storeStats :: "Stats \<Rightarrow> TopClient list \<Rightarrow> StatsState \<Rightarrow> StatsState" where
  "storeStats data rows s = s\<lparr>
     dnsQueries := or_empty (st_dns_queries data),
     blockedFiltering := or_empty (st_blocked_filtering data),
     replacedParental := or_empty (st_replaced_parental data),
     replacedSafebrowsing := or_empty (st_replaced_safebrowsing data),
     topBlockedDomains := normalizeTopStats (or_empty (st_top_blocked_domains data)),
     topClients := rows,
     normalizedTopClients := normalizeTopClients rows,
     topQueriedDomains := normalizeTopStats (or_empty (st_top_queried_domains data)),
     numBlockedFiltering := or_zero (st_num_blocked_filtering data),
     numDnsQueries := or_zero (st_num_dns_queries data),
     numReplacedParental := or_zero (st_num_replaced_parental data),
     numReplacedSafebrowsing := or_zero (st_num_replaced_safebrowsing data),
     numReplacedSafesearch := or_zero (st_num_replaced_safesearch data),
     avgProcessingTime := secondsToMilliseconds (st_avg_processing_time data),
     timeUnits := opt_or_str (st_time_units data) (timeUnits initialState),
     topUpstreamsAvgTime := map (\<lambda>item. item\<lparr>ts_count := or_zero (secondsToMilliseconds (Some (ts_count item)))\<rparr>)
       (normalizeTopStats (or_empty (st_top_upstreams_avg_time data))),
     topUpstreamsResponses := normalizeTopStats (or_empty (st_top_upstreams_responses data)),
     processingStats := False, statsInitialized := True\<rparr>"

definition getStats ::
  "env \<Rightarrow> ('w, 'm) stats_ctx_scheme stats_api \<Rightarrow> rat option \<Rightarrow> (('w, 'm) stats_ctx_scheme, unit) state" where
  "getStats env api period =
     (let failed = (\<lambda>e. do {
            modify (errorToast env e);
            modify (setState (\<lambda>s. s\<lparr>processingStats := False, statsInitialized := True\<rparr>)) })
      in do {
        modify (setState (\<lambda>s. s\<lparr>processingStats := True\<rparr>));
        retention \<leftarrow> gets (\<lambda>c. interval (stats_store c));
        try_call (stats api (map_option (\<lambda>p. clampStatsPeriod p retention) period))
          (\<lambda>data. let rows = normalizeTopStats (or_empty (st_top_clients data))
            in try_call (clientsSearch api (getParamsForClientsSearch rows ts_name (\<lambda>_. None) []))
                 (\<lambda>found. modify (setState (storeStats data (addClientInfo rows found))))
                 failed)
          failed })"

definition getStatsConfig ::
  "env \<Rightarrow> ('w, 'm) stats_ctx_scheme stats_api \<Rightarrow> (('w, 'm) stats_ctx_scheme, unit) state" where
  "getStatsConfig env api = do {
     modify (setState (\<lambda>s. s\<lparr>processingGetConfig := True\<rparr>));
     try_call (fetchStatsConfig api)
       (\<lambda>data. modify (setState (\<lambda>s. s\<lparr>
          interval := (if sc_interval data = 0 then DAY else sc_interval data),
          enabled := sc_enabled data,
          customInterval := (if sc_interval data \<in> set STATS_INTERVALS_DAYS then None
                             else Some (sc_interval data / HOUR)),
          ignored := sc_ignored data,
          ignored_enabled := nullish (sc_ignored_enabled data) False,
          processingGetConfig := False, configLoaded := True, configInitialized := True\<rparr>)))
       (\<lambda>e. do {
          modify (errorToast env e);
          modify (setState (\<lambda>s. s\<lparr>processingGetConfig := False, configInitialized := True\<rparr>)) }) }"

text \<open>\<open>setStatsConfig\<close> up to its \<open>await\<close> and from there on: a caller that does not wait runs
  between the two.\<close>

definition setStatsConfig_start :: "('w, 'm) stats_ctx_scheme \<Rightarrow> ('w, 'm) stats_ctx_scheme" where
  "setStatsConfig_start = setState (\<lambda>s. s\<lparr>processingSetConfig := True\<rparr>)"

definition setStatsConfig_finish ::
  "env \<Rightarrow> ('w, 'm) stats_ctx_scheme stats_api \<Rightarrow> GetStatsConfigResponse
     \<Rightarrow> (('w, 'm) stats_ctx_scheme, bool) state" where
  "setStatsConfig_finish env api values =
     try_call (putStatsConfig api values)
       (\<lambda>_. do {
          modify (setState (\<lambda>s. s\<lparr>enabled := sc_enabled values, interval := sc_interval values,
            ignored := sc_ignored values,
            ignored_enabled := nullish (sc_ignored_enabled values) (ignored_enabled s),
            processingSetConfig := False\<rparr>));
          pass True })
       (\<lambda>e. do {
          modify (errorToast env e);
          modify (setState (\<lambda>s. s\<lparr>processingSetConfig := False\<rparr>));
          pass False })"

definition setStatsConfig ::
  "env \<Rightarrow> ('w, 'm) stats_ctx_scheme stats_api \<Rightarrow> GetStatsConfigResponse
     \<Rightarrow> (('w, 'm) stats_ctx_scheme, bool) state" where
  "setStatsConfig env api values = do {
     modify setStatsConfig_start;
     setStatsConfig_finish env api values }"

definition enableStatistics ::
  "env \<Rightarrow> ('w, 'm) stats_ctx_scheme stats_api \<Rightarrow> rat option \<Rightarrow> (('w, 'm) stats_ctx_scheme, bool) state" where
  "enableStatistics env api period = do {
     s \<leftarrow> gets stats_store;
     saved \<leftarrow> setStatsConfig env api \<lparr>sc_enabled = True, sc_interval = interval s, sc_ignored = ignored s,
       sc_ignored_enabled = Some (ignored_enabled s)\<rparr>;
     (if saved then getStats env api period else pass ());
     pass saved }"

definition resetStats ::
  "env \<Rightarrow> ('w, 'm) stats_ctx_scheme stats_api \<Rightarrow> (('w, 'm) stats_ctx_scheme, unit) state" where
  "resetStats env api = do {
     modify (setState (\<lambda>s. s\<lparr>processingReset := True\<rparr>));
     try_call (statsReset api)
       (\<lambda>_. do {
          modify (setState (\<lambda>s. s\<lparr>processingReset := False\<rparr>));
          modify (successToast env (msg env ''settings_notify_statistics_cleared''));
          getStats env api None })
       (\<lambda>e. do {
          modify (errorToast env e);
          modify (setState (\<lambda>s. s\<lparr>processingReset := False\<rparr>)) }) }"

text \<open>The refresh of the detail pages.\<close>

definition useStatsRefresh ::
  "env \<Rightarrow> ('w, 'm) stats_ctx_scheme stats_api \<Rightarrow> (string \<Rightarrow> js_number) \<Rightarrow> form_value \<Rightarrow> string option
     \<Rightarrow> (('w, 'm) stats_ctx_scheme, unit) state" where
  "useStatsRefresh env api toNumber saved param = do {
     known \<leftarrow> gets (\<lambda>c. configLoaded (stats_store c));
     (if known then pass () else getStatsConfig env api);
     retention \<leftarrow> gets (\<lambda>c. interval (stats_store c));
     getStats env api (Some (resolveStatsPeriod toNumber saved param retention)) }"

subsection \<open>Derived values\<close>

definition js_round :: "rat \<Rightarrow> int" where
  "js_round x = \<lfloor>x + 1 / 2\<rfloor>"

definition percentage :: "rat \<Rightarrow> rat \<Rightarrow> int" where
  "percentage part queries = (if queries = 0 then 0 else js_round ((part / queries) * 100))"

definition blockedPercentage :: "StatsState \<Rightarrow> int" where
  "blockedPercentage s = percentage (numBlockedFiltering s) (numDnsQueries s)"

definition parentalPercentage :: "StatsState \<Rightarrow> int" where
  "parentalPercentage s = percentage (numReplacedParental s) (numDnsQueries s)"

definition safebrowsingPercentage :: "StatsState \<Rightarrow> int" where
  "safebrowsingPercentage s = percentage (numReplacedSafebrowsing s) (numDnsQueries s)"

definition safesearchPercentage :: "StatsState \<Rightarrow> int" where
  "safesearchPercentage s = percentage (numReplacedSafesearch s) (numDnsQueries s)"

definition isProtectionActive :: "DashboardState \<Rightarrow> bool" where
  "isProtectionActive d \<longleftrightarrow> protectionEnabled d \<and> isCoreRunning d = Some True"

text \<open>The rows of a card: \<open>toSorted\<close> by falling count, cut to the visible ones. A compare function
  counts by its sign only.\<close>

definition sign :: "rat \<Rightarrow> int" where
  "sign r = (if r < 0 then - 1 else if r = 0 then 0 else 1)"

definition by_count :: "('m TopStat_scheme) \<Rightarrow> 'm TopStat_scheme \<Rightarrow> int" where
  "by_count a b = sign (ts_count b - ts_count a)"

definition sortedData :: "'m TopStat_scheme list \<Rightarrow> nat \<Rightarrow> 'm TopStat_scheme list" where
  "sortedData rows limit = take limit (sort_by by_count rows)"

definition hasMore :: "'m TopStat_scheme list \<Rightarrow> nat \<Rightarrow> bool" where
  "hasMore rows limit \<longleftrightarrow> length rows > limit"

subsection \<open>Periods stay within the retention\<close>

lemma HOUR_pos [simp]: "0 < HOUR" and DAY_pos [simp]: "0 < DAY"
  by (simp_all add: HOUR_def DAY_def)

lemma clamp_bounds: "0 < p \<Longrightarrow> 0 < clampStatsPeriod p m \<and> clampStatsPeriod p m \<le> getClampedMaxInterval m"
  using HOUR_pos by (auto simp: clampStatsPeriod_def getClampedMaxInterval_def intro: less_le_trans [OF HOUR_pos])

lemma storedPeriod_pos: "0 < getStoredStatsPeriod saved"
  by (auto simp: getStoredStatsPeriod_def split: form_value.splits js_number.splits)

lemma urlPeriod_pos: "getStatsPeriodFromUrl toNumber param = Some p \<Longrightarrow> 0 < p"
  by (auto simp: getStatsPeriodFromUrl_def split: option.splits js_number.splits if_splits)

text \<open>
  Whatever the address bar and the browser's storage hold, the period a detail page asks for is
  positive and at most the retention of the server, or a day when the server reports less than an
  hour; the clamp of the store leaves it as it is.
\<close>

theorem resolveStatsPeriod_bounds:
  "0 < resolveStatsPeriod toNumber saved param m \<and>
   resolveStatsPeriod toNumber saved param m \<le> (if HOUR \<le> m then m else DAY) \<and>
   clampStatsPeriod (resolveStatsPeriod toNumber saved param m) m = resolveStatsPeriod toNumber saved param m"
proof -
  have p: "\<exists>p>0. resolveStatsPeriod toNumber saved param m = clampStatsPeriod p m"
    using storedPeriod_pos [of saved] urlPeriod_pos [of toNumber param]
    by (cases "getStatsPeriodFromUrl toNumber param")
      (auto simp: resolveStatsPeriod_def getEffectiveStatsPeriod_def)
  then obtain p where "0 < p" "resolveStatsPeriod toNumber saved param m = clampStatsPeriod p m" by blast
  with clamp_bounds [of p m] show ?thesis
    unfolding getClampedMaxInterval_def [symmetric] by (simp add: clampStatsPeriod_def)
qed

subsection \<open>Percentages\<close>

text \<open>
  When the parts do not exceed the queries, every percentage of the dashboard is between 0 and
  100 and within half a percent of the exact share, which is 0 for an empty statistic.
\<close>

theorem percentages_bounded:
  assumes "0 \<le> part" "part \<le> queries"
  shows "0 \<le> percentage part queries \<and> percentage part queries \<le> 100 \<and>
    0 \<le> computePercent part queries \<and> computePercent part queries \<le> 100 \<and>
    \<bar>of_int (percentage part queries) - computePercent part queries\<bar> \<le> 1 / 2"
proof (cases "queries = 0")
  case True
  then show ?thesis by (simp add: percentage_def computePercent_def)
next
  case False
  with assms have pos: "0 < queries" by simp
  let ?x = "part / queries * 100"
  have b: "0 \<le> ?x" "?x \<le> 100" using assms pos by (simp_all add: divide_le_eq)
  have "0 \<le> js_round ?x" using b by (simp add: js_round_def)
  moreover have "js_round ?x \<le> 100" unfolding js_round_def using b by linarith
  moreover have "\<bar>of_int (js_round ?x) - ?x\<bar> \<le> 1 / 2" unfolding js_round_def by linarith
  ultimately show ?thesis using b pos by (simp add: percentage_def computePercent_def)
qed

theorem percentages_bounded_witness:
  "percentage 1 3 = 33 \<and> percentage 2 3 = 67 \<and> \<bar>of_int (percentage 2 3) - computePercent 2 3\<bar> \<le> 1 / 2"
  using percentages_bounded [of 2 3] by (simp add: percentage_def js_round_def computePercent_def floor_unique)

subsection \<open>Cards\<close>

interpretation count_order: comparator UNIV by_count
  by unfold_locales (auto simp: by_count_def sign_def split: if_splits)

lemma by_count_le: "by_count a b \<le> 0 \<longleftrightarrow> ts_count b \<le> ts_count a"
  by (simp add: by_count_def sign_def)

text \<open>
  A card shows the rows with the largest counts in falling order: it shows as many as the limit
  allows, no hidden row has a larger count than a visible one, visible and hidden rows together are
  the rows of the statistic, and \<open>Show more\<close> is offered exactly when rows are hidden.
\<close>

theorem card_shows_largest:
  fixes rows :: "'m TopStat_scheme list"
  shows "\<exists>hidden. mset (sortedData rows limit) + mset hidden = mset rows \<and>
     length (sortedData rows limit) = min limit (length rows) \<and>
     sorted_wrt (\<lambda>a b. ts_count b \<le> ts_count a) (sortedData rows limit) \<and>
     list_all (\<lambda>v. list_all (\<lambda>h. ts_count h \<le> ts_count v) hidden) (sortedData rows limit) \<and>
     (hasMore rows limit \<longleftrightarrow> hidden \<noteq> [])"
proof -
  let ?s = "sort_by by_count rows"
  have len: "length ?s = length rows" using mset_sort_by [of by_count rows] by (metis size_mset)
  have srt: "sorted_wrt (\<lambda>a b. ts_count b \<le> ts_count a) ?s"
    using count_order.sorted_sort_by [of rows] by (simp add: by_count_le)
  then have cut: "sorted_wrt (\<lambda>a b. ts_count b \<le> ts_count a) (take limit ?s @ drop limit ?s)" by simp
  have "mset (take limit ?s) + mset (drop limit ?s) = mset rows"
    by (metis append_take_drop_id mset_append mset_sort_by)
  moreover have "hasMore rows limit \<longleftrightarrow> drop limit ?s \<noteq> []" by (auto simp: hasMore_def len)
  moreover have "list_all (\<lambda>v. list_all (\<lambda>h. ts_count h \<le> ts_count v) (drop limit ?s)) (take limit ?s)"
    using cut unfolding sorted_wrt_append list_all_iff by blast
  moreover have "sorted_wrt (\<lambda>a b. ts_count b \<le> ts_count a) (take limit ?s)"
    using cut unfolding sorted_wrt_append by blast
  ultimately show ?thesis
    by (intro exI [of _ "drop limit ?s"]) (simp add: sortedData_def len)
qed

subsection \<open>Counts per client\<close>

lemma reduce_clients_append: "reduce_clients (as @ bs) acc = reduce_clients bs (reduce_clients as acc)"
  by (induction as arbitrary: acc) auto

lemma reduce_clients_configured_other:
  "k \<notin> info_key ` set cs \<Longrightarrow> configured_counts (reduce_clients cs acc) k = configured_counts acc k"
  by (induction cs arbitrary: acc) (auto simp: put_key_def)

lemma reduce_clients_auto_other:
  "k \<notin> ts_name ` set cs \<Longrightarrow> auto_counts (reduce_clients cs acc) k = auto_counts acc k"
  by (induction cs arbitrary: acc) (auto simp: put_key_def)

text \<open>
  The counts by address are right when every address is listed once, but the counts by the name
  of a configured client are not sums: of several addresses of one client only the last in the list
  is counted.
\<close>

theorem client_counts_keep_last:
  assumes "info_key c \<notin> info_key ` set later" "info_key c \<noteq> ''__proto__''"
    and "ts_name c \<notin> ts_name ` set later" "ts_name c \<noteq> ''__proto__''"
  shows "auto_counts (normalizeTopClients (earlier @ c # later)) (ts_name c) = Some (ts_count c) \<and>
    configured_counts (normalizeTopClients (earlier @ c # later)) (info_key c) = Some (ts_count c)"
  using assms
  by (simp add: normalizeTopClients_def reduce_clients_append reduce_clients_configured_other
      reduce_clients_auto_other put_key_def)

text \<open>The laptop at two addresses with 90 and 10 queries counts as 10.\<close>

definition laptop :: "string \<Rightarrow> rat \<Rightarrow> TopClient" where
  "laptop addr n = \<lparr>ts_name = addr, ts_count = n, ts_info = empty_info\<lparr>fe_name := Some ''laptop''\<rparr>\<rparr>"

theorem client_counts_keep_last_witness:
  "configured_counts (normalizeTopClients [laptop ''10.0.0.2'' 90, laptop ''10.0.0.3'' 10]) ''laptop'' = Some 10"
  using client_counts_keep_last [of "laptop ''10.0.0.3'' 10" "[]" "[laptop ''10.0.0.2'' 90]"]
  by (simp add: laptop_def info_key_def)

end
