(* ===== verification/StatsPage.thy ===== *)
theory StatsPage
  imports Stats DataTable
begin

section \<open>The pages of the statistics\<close>

text \<open>
  \<^verbatim>\<open>client_v2/src/components/Stats/StatsPage/StatsPage.tsx\<close>: one list that is a table on a desktop and a list of cards on a
  phone. The table keeps its own sorting and page; the cards are sorted by the page itself, from the address bar, the browser's
  storage or the default, in this order. \<open>LocalStorageHelper.getItem\<close> returns null for an item that is absent or no JSON, so
  a stored item is an option here. The router drops an empty search parameter from the address.
\<close>

subsection \<open>State\<close>

record stats_view =
  searchQuery :: string
  mobilePage :: nat
  viewSize :: nat
  url_sort :: "string option"
  url_dir :: "string option"
  stored_size :: "nat option"
  stored_sort :: "(string option \<times> string option) option"
  desktop :: "table_state option"

fun dir_text :: "direction \<Rightarrow> string" where
  "dir_text Asc = ''asc''"
| "dir_text Desc = ''desc''"

definition read_dir :: "string option \<Rightarrow> direction option" where
  "read_dir d = (if d = Some ''asc'' then Some Asc else if d = Some ''desc'' then Some Desc else None)"

definition filteredRows :: "('r \<Rightarrow> string) \<Rightarrow> 'r list \<Rightarrow> stats_view \<Rightarrow> 'r list" where
  "filteredRows searchTextForRow rows v =
     (if trim (searchQuery v) = [] then rows else filter (\<lambda>row. isQueryMatch (searchTextForRow row) (searchQuery v)) rows)"

definition getStoredSort :: "stats_view \<Rightarrow> (string \<times> direction) option" where
  "getStoredSort v =
     (case stored_sort v of
        Some (Some k, d) \<Rightarrow> if k = [] then None else map_option (Pair k) (read_dir d)
      | _ \<Rightarrow> None)"

definition resolvedSort :: "string \<times> direction \<Rightarrow> stats_view \<Rightarrow> string \<times> direction" where
  "resolvedSort defaultSort v =
     (case (url_sort v, read_dir (url_dir v)) of
        (Some k, Some d) \<Rightarrow> if k = [] then nullish (getStoredSort v) defaultSort else (k, d)
      | _ \<Rightarrow> nullish (getStoredSort v) defaultSort)"

definition search_param :: "string option \<Rightarrow> string option" where
  "search_param p = (if p = Some [] then None else p)"

definition handleSortChange :: "string \<Rightarrow> string option \<Rightarrow> stats_view \<Rightarrow> stats_view" where
  "handleSortChange k d v =
     v\<lparr>stored_sort := Some (Some k, d), url_sort := search_param (Some k), url_dir := search_param d\<rparr>"

definition currentSortValue :: "string \<times> direction \<Rightarrow> stats_view \<Rightarrow> string" where
  "currentSortValue defaultSort v = (let (k, d) = resolvedSort defaultSort v in k @ '':'' @ dir_text d)"

definition handleMobileSortChange :: "string \<Rightarrow> stats_view \<Rightarrow> stats_view" where
  "handleMobileSortChange value v =
     (let parts = split_on (CHR '':'') value
      in (handleSortChange (hd parts) (if length parts > 1 then Some (parts ! 1) else None) v)\<lparr>mobilePage := 0\<rparr>)"

definition mobileTotalPages :: "'r list \<Rightarrow> stats_view \<Rightarrow> nat" where
  "mobileTotalPages filtered v = max 1 ((length filtered + viewSize v - 1) div viewSize v)"

definition showMobilePagination :: "'r list \<Rightarrow> bool" where
  "showMobilePagination filtered \<longleftrightarrow> length filtered > DEFAULT_PAGE_SIZE"

definition sortedMobileRows ::
  "(string \<Rightarrow> rat option) \<Rightarrow> 'r column list \<Rightarrow> string \<times> direction \<Rightarrow> 'r list \<Rightarrow> stats_view \<Rightarrow> 'r list" where
  "sortedMobileRows toNumber columns defaultSort data v =
     (let (k, dir) = resolvedSort defaultSort v
      in case find (\<lambda>col. col_key col = k) columns of
           None \<Rightarrow> data
         | Some col \<Rightarrow>
             if col_sortable col = Some False then data
             else case accessor col of
                    None \<Rightarrow> data
                  | Some get \<Rightarrow> sort_by (\<lambda>a b.
                      case (get a, get b) of
                        (Missing, Missing) \<Rightarrow> 0
                      | (Missing, _) \<Rightarrow> 1
                      | (_, Missing) \<Rightarrow> - 1
                      | (x, y) \<Rightarrow>
                          let (aValue, bValue) = lowered x y;
                              comparison = (case sortFn col of Some f \<Rightarrow> f aValue bValue | None \<Rightarrow> compare_cells toNumber aValue bValue)
                          in if dir = Desc then - comparison else comparison) data)"

definition mobilePagedRows :: "'r list \<Rightarrow> stats_view \<Rightarrow> 'r list" where
  "mobilePagedRows sorted_rows v = take (viewSize v) (drop (mobilePage v * viewSize v) sorted_rows)"

text \<open>The handler of the page, the one of the table's own callback.\<close>

definition stats_handlePageSizeChange :: "nat \<Rightarrow> stats_view \<Rightarrow> stats_view" where
  "stats_handlePageSizeChange k v = v\<lparr>stored_size := Some k, viewSize := k, mobilePage := 0\<rparr>"

definition mobile_page_effect :: "'r list \<Rightarrow> stats_view \<Rightarrow> stats_view" where
  "mobile_page_effect filtered v = (if mobilePage v \<ge> mobileTotalPages filtered v then v\<lparr>mobilePage := 0\<rparr> else v)"

definition onSearch :: "string \<Rightarrow> stats_view \<Rightarrow> stats_view" where
  "onSearch q v = v\<lparr>searchQuery := q, mobilePage := 0\<rparr>"

text \<open>The page opens with the parameters of the address and the stored items; the table is mounted on a desktop.\<close>

definition open_page :: "string option \<Rightarrow> string option \<Rightarrow> nat option \<Rightarrow> (string option \<times> string option) option \<Rightarrow> stats_view" where
  "open_page srt dir size_item sort_item =
     \<lparr>searchQuery = [], mobilePage = 0, viewSize = nullish size_item DEFAULT_PAGE_SIZE, url_sort = srt, url_dir = dir,
      stored_size = size_item, stored_sort = sort_item, desktop = None\<rparr>"

definition mount_table :: "string \<times> direction \<Rightarrow> stats_view \<Rightarrow> stats_view" where
  "mount_table defaultSort v = v\<lparr>desktop := Some (table_initial (Some (viewSize v)) (Some (resolvedSort defaultSort v)))\<rparr>"

definition unmount_table :: "stats_view \<Rightarrow> stats_view" where
  "unmount_table v = v\<lparr>desktop := None\<rparr>"

text \<open>A click on a header changes the table and calls \<open>handleSortChange\<close>; a new size changes both.\<close>

definition desktop_sort :: "'r column list \<Rightarrow> 'r column \<Rightarrow> stats_view \<Rightarrow> stats_view" where
  "desktop_sort columns col v =
     (case desktop v of
        None \<Rightarrow> v
      | Some t \<Rightarrow>
          (case header_click None columns col t of
             (t', None) \<Rightarrow> v\<lparr>desktop := Some t'\<rparr>
           | (t', Some (k, d)) \<Rightarrow> handleSortChange k (Some (dir_text d)) (v\<lparr>desktop := Some t'\<rparr>)))"

definition desktop_size :: "nat \<Rightarrow> stats_view \<Rightarrow> stats_view" where
  "desktop_size k v =
     (case desktop v of
        None \<Rightarrow> v
      | Some t \<Rightarrow> (case DataTable.handlePageSizeChange k t of (t', n) \<Rightarrow> stats_handlePageSizeChange n (v\<lparr>desktop := Some t'\<rparr>)))"

definition desktop_page :: "nat \<Rightarrow> stats_view \<Rightarrow> stats_view" where
  "desktop_page p v = v\<lparr>desktop := map_option (handlePageChange p) (desktop v)\<rparr>"

definition mobile_page :: "nat \<Rightarrow> stats_view \<Rightarrow> stats_view" where
  "mobile_page p v = v\<lparr>mobilePage := p\<rparr>"

subsection \<open>Sorting is kept\<close>

lemma read_dir_text [simp]: "read_dir (Some (dir_text d)) = Some d"
  by (cases d) (simp_all add: read_dir_def)

lemma dir_text_nonempty [simp]: "dir_text d \<noteq> []"
  by (cases d) simp_all

lemma resolved_after_change: "k \<noteq> [] \<Longrightarrow> resolvedSort defaultSort (handleSortChange k (Some (dir_text d)) v) = (k, d)"
  by (simp add: resolvedSort_def handleSortChange_def search_param_def)

lemma split_dir: "split_on (CHR '':'') (dir_text d) = [dir_text d]"
  by (cases d) simp_all

lemma split_sort_value: "CHR '':'' \<notin> set k \<Longrightarrow> split_on (CHR '':'') (k @ '':'' @ dir_text d) = [k, dir_text d]"
  by (simp add: split_on_sep split_dir)

lemma mobile_change_is_change:
  "CHR '':'' \<notin> set k \<Longrightarrow>
     handleMobileSortChange (k @ '':'' @ dir_text d) v = (handleSortChange k (Some (dir_text d)) v)\<lparr>mobilePage := 0\<rparr>"
  unfolding handleMobileSortChange_def by (subst split_sort_value) simp_all

text \<open>
  A sorting chosen on a phone is the one the select shows then, and the one a later visit starts with.
\<close>

theorem stats_sort_remembered:
  assumes "k \<noteq> []" "CHR '':'' \<notin> set k"
  shows "currentSortValue defaultSort (handleMobileSortChange (k @ '':'' @ dir_text d) v) = k @ '':'' @ dir_text d \<and>
    resolvedSort defaultSort (open_page None None size_item (stored_sort (handleMobileSortChange (k @ '':'' @ dir_text d) v))) = (k, d)"
proof -
  have "resolvedSort defaultSort ((handleSortChange k (Some (dir_text d)) v)\<lparr>mobilePage := 0\<rparr>) = (k, d)"
    using assms(1) by (simp add: resolvedSort_def handleSortChange_def search_param_def)
  moreover have "stored_sort (handleSortChange k (Some (dir_text d)) v) = Some (Some k, Some (dir_text d))"
    by (simp add: handleSortChange_def)
  ultimately show ?thesis
    unfolding mobile_change_is_change [OF assms(2)] currentSortValue_def
    using assms(1) by (simp add: open_page_def) (simp add: resolvedSort_def getStoredSort_def)
qed

theorem stats_sort_remembered_witness:
  "resolvedSort (''name'', Asc)
     (open_page None None None (stored_sort (handleMobileSortChange ''queries:desc'' (open_page None None None None)))) = (''queries'', Desc)"
  using stats_sort_remembered [of "''queries''" "(''name'', Asc)" Desc "open_page None None None None" None] by simp

subsection \<open>Cards and table show the same order\<close>

lemma sort_by_const: "(\<And>a b. cmp a b = 0) \<Longrightarrow> sort_by cmp xs = xs"
proof (induction xs)
  case (Cons x xs)
  then show ?case by (cases xs) (simp_all add: sort_by_def)
qed (simp add: sort_by_def)

lemma mobile_rows_sort:
  assumes "accessor col = Some get"
  shows "(\<lambda>a b. case (get a, get b) of
            (Missing, Missing) \<Rightarrow> 0
          | (Missing, _) \<Rightarrow> 1
          | (_, Missing) \<Rightarrow> - 1
          | (x, y) \<Rightarrow>
              let (aValue, bValue) = lowered x y;
                  comparison = (case sortFn col of Some f \<Rightarrow> f aValue bValue | None \<Rightarrow> compare_cells toNumber aValue bValue)
              in if dir = Desc then - comparison else comparison) = sort_rows toNumber col dir"
  by (intro ext) (simp add: sort_rows_def assms)

text \<open>The table's sorting is the one the page resolves.\<close>

definition in_step :: "string \<times> direction \<Rightarrow> stats_view \<Rightarrow> bool" where
  "in_step defaultSort v \<longleftrightarrow> fst (resolvedSort defaultSort v) \<noteq> [] \<and>
     (\<forall>t. desktop v = Some t \<longrightarrow>
        sortKey t = Some (fst (resolvedSort defaultSort v)) \<and> sortDirection t = snd (resolvedSort defaultSort v) \<and>
        pageSize t = viewSize v)"

inductive stats_reach :: "'r column list \<Rightarrow> string \<times> direction \<Rightarrow> stats_view \<Rightarrow> bool"
  for columns :: "'r column list" and defaultSort :: "string \<times> direction" where
  opened: "stats_reach columns defaultSort (open_page srt dir size_item sort_item)"
| mounted: "stats_reach columns defaultSort v \<Longrightarrow> stats_reach columns defaultSort (mount_table defaultSort v)"
| unmounted: "stats_reach columns defaultSort v \<Longrightarrow> stats_reach columns defaultSort (unmount_table v)"
| header: "stats_reach columns defaultSort v \<Longrightarrow> col \<in> set columns \<Longrightarrow> stats_reach columns defaultSort (desktop_sort columns col v)"
| size_select: "stats_reach columns defaultSort v \<Longrightarrow> stats_reach columns defaultSort (desktop_size k v)"
| page_button: "stats_reach columns defaultSort v \<Longrightarrow> stats_reach columns defaultSort (desktop_page p v)"
| clamped: "stats_reach columns defaultSort v \<Longrightarrow>
    stats_reach columns defaultSort (v\<lparr>desktop := map_option (clamp_page loading (rows :: 'r list)) (desktop v)\<rparr>)"
| searched: "stats_reach columns defaultSort v \<Longrightarrow> stats_reach columns defaultSort (onSearch q v)"
| mobile_sorted: "stats_reach columns defaultSort v \<Longrightarrow> desktop v = None \<Longrightarrow> CHR '':'' \<notin> set k \<Longrightarrow> k \<noteq> [] \<Longrightarrow>
    stats_reach columns defaultSort (handleMobileSortChange (k @ '':'' @ dir_text d) v)"
| mobile_sized: "stats_reach columns defaultSort v \<Longrightarrow> desktop v = None \<Longrightarrow>
    stats_reach columns defaultSort (stats_handlePageSizeChange k v)"
| mobile_paged: "stats_reach columns defaultSort v \<Longrightarrow> stats_reach columns defaultSort (mobile_page p v)"
| mobile_effect: "stats_reach columns defaultSort v \<Longrightarrow> stats_reach columns defaultSort (mobile_page_effect (rows :: 'r list) v)"

lemma resolved_cong:
  "url_sort v = url_sort w \<Longrightarrow> url_dir v = url_dir w \<Longrightarrow> stored_sort v = stored_sort w \<Longrightarrow>
     resolvedSort defaultSort v = resolvedSort defaultSort w"
  by (simp add: resolvedSort_def getStoredSort_def cong: option.case_cong if_cong)

lemma stored_nonempty: "fst defaultSort \<noteq> [] \<Longrightarrow> fst (nullish (getStoredSort v) defaultSort) \<noteq> []"
  by (cases "getStoredSort v") (auto simp: getStoredSort_def split: option.splits if_splits)

lemma resolved_nonempty: "fst defaultSort \<noteq> [] \<Longrightarrow> fst (resolvedSort defaultSort v) \<noteq> []"
  by (auto simp: resolvedSort_def stored_nonempty split: option.splits)

lemma in_step_keep:
  assumes "in_step defaultSort v" "url_sort w = url_sort v" "url_dir w = url_dir v" "stored_sort w = stored_sort v"
    "viewSize w = viewSize v"
    "\<And>t. desktop w = Some t \<Longrightarrow> \<exists>u. desktop v = Some u \<and> sortKey t = sortKey u \<and> sortDirection t = sortDirection u \<and> pageSize t = pageSize u"
  shows "in_step defaultSort w"
  using assms resolved_cong [of w v defaultSort] unfolding in_step_def by metis

lemma in_step_header:
  assumes "in_step defaultSort v" "col_key col \<noteq> []"
  shows "in_step defaultSort (desktop_sort columns col v)"
proof (cases "desktop v")
  case None
  then show ?thesis using assms by (simp add: desktop_sort_def)
next
  case (Some t)
  obtain t' cb where click: "header_click None columns col t = (t', cb)" by (cases "header_click None columns col t")
  show ?thesis
  proof (cases cb)
    case None
    then have "t' = t" using click by (auto simp: header_click_def handleSort_def Let_def split: if_splits option.splits)
    then have "desktop_sort columns col v = v\<lparr>desktop := Some t\<rparr>" using Some click None by (simp add: desktop_sort_def)
    then show ?thesis using Some by (intro in_step_keep [OF assms(1)]) simp_all
  next
    case (Some kd)
    obtain k d where kd: "kd = (k, d)" by (cases kd)
    have "k = col_key col" "sortKey t' = Some k" "sortDirection t' = d" "pageSize t' = pageSize t"
      using click Some kd by (auto simp: header_click_def handleSort_def Let_def split: if_splits option.splits)
    moreover have "desktop_sort columns col v = handleSortChange k (Some (dir_text d)) (v\<lparr>desktop := Some t'\<rparr>)"
      using click Some kd \<open>desktop v = Some t\<close> by (simp add: desktop_sort_def)
    ultimately show ?thesis
      using assms \<open>desktop v = Some t\<close> resolved_after_change [of k defaultSort d "v\<lparr>desktop := Some t'\<rparr>"]
      unfolding in_step_def by (simp add: handleSortChange_def)
  qed
qed

lemma stats_reach_in_step:
  assumes "stats_reach columns defaultSort v" "fst defaultSort \<noteq> []" "\<forall>col\<in>set columns. col_key col \<noteq> []"
  shows "in_step defaultSort v"
  using assms
proof (induction rule: stats_reach.induct)
  case (opened srt dir size_item sort_item)
  then show ?case using resolved_nonempty by (simp add: in_step_def open_page_def)
next
  case (mounted v)
  have "resolvedSort defaultSort (mount_table defaultSort v) = resolvedSort defaultSort v"
    by (rule resolved_cong) (simp_all add: mount_table_def)
  then show ?case using resolved_nonempty [OF mounted.prems(1)]
    by (simp add: in_step_def) (simp add: mount_table_def table_initial_def)
next
  case (header v col)
  then show ?case using in_step_header by blast
next
  case (size_select v k)
  then show ?case
    using resolved_cong [of "desktop_size k v" v defaultSort]
    by (auto simp: in_step_def desktop_size_def stats_handlePageSizeChange_def DataTable.handlePageSizeChange_def split: option.splits)
next
  case (mobile_sorted v k d)
  then show ?case using resolved_nonempty by (simp add: in_step_def handleMobileSortChange_def handleSortChange_def Let_def)
next
  case (mobile_sized v k)
  then show ?case using resolved_nonempty by (simp add: in_step_def stats_handlePageSizeChange_def)
qed (rule in_step_keep, assumption;
      auto simp: unmount_table_def desktop_page_def handlePageChange_def clamp_page_def Let_def onSearch_def mobile_page_def mobile_page_effect_def split: if_splits)+

text \<open>
  C10. The cards on a phone and the table on a desktop show the rows in the same order, after any sequence of sorting, paging, searching and
  resizing: the table's own sorting never departs from the one the page resolves from the address and the storage.
\<close>

theorem stats_cards_follow_table:
  assumes "stats_reach columns defaultSort v" "fst defaultSort \<noteq> []" "\<forall>col\<in>set columns. col_key col \<noteq> []"
    and "desktop v = Some t"
  shows "sortedMobileRows toNumber columns defaultSort data v = sortedData toNumber None columns t data"
proof -
  obtain k dir where r: "resolvedSort defaultSort v = (k, dir)" by (cases "resolvedSort defaultSort v")
  have t: "k \<noteq> []" "sortKey t = Some k" "sortDirection t = dir"
    using stats_reach_in_step [OF assms(1-3)] assms(4) r by (simp_all add: in_step_def)
  show ?thesis
  proof (cases "find (\<lambda>col. col_key col = k) columns")
    case (Some col)
    show ?thesis
    proof (cases "accessor col")
      case None
      then show ?thesis
        using t r Some by (simp add: sortedMobileRows_def sortedData_def sort_by_const sort_rows_def)
    next
      case (Some get)
      then show ?thesis
        using t r \<open>find _ _ = Some col\<close> by (simp add: sortedMobileRows_def sortedData_def mobile_rows_sort [OF Some, simplified])
    qed
  qed (use t r in \<open>simp add: sortedMobileRows_def sortedData_def\<close>)
qed

definition stats_sample_columns :: "TopStat column list" where
  "stats_sample_columns = [\<lparr>col_key = ''queries'', accessor = Some (\<lambda>r. Number (ts_count r)), col_sortable = Some True,
     sortFn = None, fitContent = False, col_width = None, minWidth = 0, maxWidth = 0\<rparr>]"

theorem stats_cards_follow_table_witness:
  "\<exists>t. desktop (mount_table (''queries'', Desc) (open_page None None None None)) = Some t \<and>
     sortedMobileRows (\<lambda>_. None) stats_sample_columns (''queries'', Desc) [] (mount_table (''queries'', Desc) (open_page None None None None)) =
       sortedData (\<lambda>_. None) None stats_sample_columns t []"
proof -
  let ?v = "mount_table (''queries'', Desc) (open_page None None None None)"
  have reach: "stats_reach stats_sample_columns (''queries'', Desc) ?v" by (intro stats_reach.mounted stats_reach.opened)
  obtain t where t: "desktop ?v = Some t" by (simp add: mount_table_def)
  show ?thesis
    using stats_cards_follow_table [OF reach _ _ t, of "\<lambda>_. None" "[]"] t by (auto simp: stats_sample_columns_def)
qed

subsection \<open>The pages of the cards\<close>

text \<open>The pages of the cards hold the rows, and after the effect the page shown is one of them.\<close>

theorem stats_cards_complete:
  assumes "0 < viewSize v"
  shows "concat (map (\<lambda>p. mobilePagedRows rows (mobile_page p v)) [0..<mobileTotalPages rows v]) = rows"
    and "mobilePagedRows rows (mobile_page_effect rows v) = [] \<longleftrightarrow> rows = []"
proof -
  let ?n = "(length rows + viewSize v - 1) div viewSize v"
  have "length rows \<le> mobileTotalPages rows v * viewSize v"
    using pages_enough [OF assms, of "length rows"] unfolding mobileTotalPages_def
    by (meson le_trans max.cobounded2 mult_le_mono1)
  then show "concat (map (\<lambda>p. mobilePagedRows rows (mobile_page p v)) [0..<mobileTotalPages rows v]) = rows"
    by (simp add: mobilePagedRows_def mobile_page_def slices_concat)
  have "mobilePage (mobile_page_effect rows v) * viewSize v < length rows" if "rows \<noteq> []"
  proof (cases "mobilePage v < mobileTotalPages rows v")
    case True
    then have "mobilePage v = 0 \<or> mobilePage v < ?n" by (simp add: mobileTotalPages_def less_max_iff_disj)
    then have "mobilePage v * viewSize v < length rows" using that pages_needed [OF assms, of "mobilePage v" "length rows"] by fastforce
    with True show ?thesis by (simp add: mobile_page_effect_def)
  qed (use that in \<open>simp add: mobile_page_effect_def\<close>)
  moreover have "viewSize (mobile_page_effect rows v) = viewSize v" by (simp add: mobile_page_effect_def)
  ultimately show "mobilePagedRows rows (mobile_page_effect rows v) = [] \<longleftrightarrow> rows = []"
    using assms by (cases "rows = []") (simp_all add: mobilePagedRows_def not_le)
qed

end
