(* ===== verification/Language.thy ===== *)
theory Language
  imports Trackers NetHelpers
begin

section \<open>The language of the interface\<close>

text \<open>
  \<^verbatim>\<open>client_v2/src/common/intl/index.ts\<close>, its locale list \<^verbatim>\<open>locales.generated.ts\<close>, and the language and theme of
  \<^verbatim>\<open>client_v2/src/helpers/helpers.tsx\<close>. The texts of the base locale are there from the start; those of another are loaded when its
  language is chosen. Several changes may be under way at once, so the module is a state machine whose events are the requests and
  the answers of the loaders.
\<close>

subsection \<open>Codes\<close>

definition BASE_LOCALE :: string where "BASE_LOCALE = ''en''"

definition LOCALE_CODES :: "string list" where
  "LOCALE_CODES = [''ar'', ''be'', ''bg'', ''cs'', ''da'', ''de'', ''en'', ''es'', ''fa'', ''fi'', ''fr'', ''hr'', ''hu'', ''id'', ''it'',
     ''ja'', ''ko'', ''nl'', ''no'', ''pl'', ''pt-br'', ''pt-pt'', ''ro'', ''ru'', ''si-lk'', ''sk'', ''sl'', ''sr-cs'', ''sv'', ''th'',
     ''tr'', ''uk'', ''vi'', ''zh-cn'', ''zh-tw'']"

text \<open>Every code but the base locale has a loader.\<close>

definition LOCALE_LOADERS :: "string list" where
  "LOCALE_LOADERS = [''ar'', ''be'', ''bg'', ''cs'', ''da'', ''de'', ''es'', ''fa'', ''fi'', ''fr'', ''hr'', ''hu'', ''id'', ''it'', ''ja'',
     ''ko'', ''nl'', ''no'', ''pl'', ''pt-br'', ''pt-pt'', ''ro'', ''ru'', ''si-lk'', ''sk'', ''sl'', ''sr-cs'', ''sv'', ''th'', ''tr'',
     ''uk'', ''vi'', ''zh-cn'', ''zh-tw'']"

definition toTranslateLocale :: "string \<Rightarrow> string" where
  "toTranslateLocale c =
     (if c = ''si-lk'' then ''am''
      else if c = ''zh-hk'' then ''zh''
      else if c = ''sr-cs'' then ''sr''
      else map (\<lambda>x. if x = CHR ''-'' then CHR ''_'' else x) c)"

definition resolveLanguage :: "string \<Rightarrow> string" where
  "resolveLanguage lng =
     (let l = toLowerCase lng
      in if l \<in> set LOCALE_CODES then l
         else if startsWith l ''zh''
              then (if includes_str l ''tw'' \<or> includes_str l ''hk'' \<or> includes_str l ''mo'' then ''zh-tw'' else ''zh-cn'')
         else if startsWith l ''pt'' then (if includes_str l ''br'' then ''pt-br'' else ''pt-pt'')
         else let base = hd (split_on (CHR ''-'') l) in if base \<in> set LOCALE_CODES then base else BASE_LOCALE)"

text \<open>The chain of \<open>getInitialLanguage\<close>: the address, the storage, the browser. It returns the language and what it stores.\<close>

definition getInitialLanguage :: "string option \<Rightarrow> string option \<Rightarrow> string \<Rightarrow> string \<times> string option" where
  "getInitialLanguage urlLang stored browser =
     (case urlLang of
        Some (c # cs) \<Rightarrow> (let resolved = resolveLanguage (c # cs) in (resolved, Some resolved))
      | _ \<Rightarrow>
          (case stored of
             Some (c # cs) \<Rightarrow> (resolveLanguage (c # cs), stored)
           | _ \<Rightarrow> (if browser \<noteq> [] then resolveLanguage browser else BASE_LOCALE, stored)))"

text \<open>\<open>value in LANGUAGES\<close>; the language map of the project lists the same codes. The operator also finds inherited members.\<close>

definition isLang :: "string \<Rightarrow> bool" where
  "isLang value \<longleftrightarrow> value \<in> set LOCALE_CODES \<or> value \<in> set proto_keys"

text \<open>The other detection, which the installer starts with.\<close>

definition browser_language :: "string \<Rightarrow> string" where
  "browser_language browser =
     (let browserLang = toLowerCase browser; base = hd (split_on (CHR ''-'') browserLang)
      in if browser = [] then BASE_LOCALE
         else if isLang browserLang then browserLang
         else if base \<noteq> [] \<and> isLang base then base
         else BASE_LOCALE)"

definition getBrowserLanguage :: "string option \<Rightarrow> string \<Rightarrow> string" where
  "getBrowserLanguage stored browser =
     (case stored of
        Some (c # cs) \<Rightarrow> if isLang (c # cs) then c # cs else browser_language browser
      | _ \<Rightarrow> browser_language browser)"

definition getLanguageShortLabel :: "string \<Rightarrow> string" where
  "getLanguageShortLabel code_text =
     (let parts = split_on (CHR ''-'') (toLowerCase code_text); prefix = toUpperCase (take 2 (hd parts))
      in if length parts = 1 then prefix
         else let suffix = join ''-'' (map toUpperCase (tl parts)) in if prefix = suffix then prefix else prefix @ '' ('' @ suffix @ '')'')"

subsection \<open>Loading texts\<close>

type_synonym LocaleMessage = "string \<rightharpoonup> string"

text \<open>A pending change: its code and whether it waits for a loader.\<close>

record intl_state =
  messages :: "string \<rightharpoonup> LocaleMessage"
  translator :: string
  ui_lang :: string
  pending :: "(string \<times> bool) list"

definition intl_initial :: "LocaleMessage \<Rightarrow> intl_state" where
  "intl_initial en = \<lparr>messages = [BASE_LOCALE \<mapsto> en], translator = BASE_LOCALE, ui_lang = BASE_LOCALE, pending = []\<rparr>"

definition i18n_getMessage :: "intl_state \<Rightarrow> string \<Rightarrow> string \<Rightarrow> string" where
  "i18n_getMessage s l key = (case messages s (resolveLanguage l) of None \<Rightarrow> [] | Some m \<Rightarrow> nullish (m key) [])"

definition i18n_getUILanguage :: "string \<Rightarrow> string" where
  "i18n_getUILanguage l = toTranslateLocale (resolveLanguage l)"

definition getBaseMessage :: "intl_state \<Rightarrow> string \<Rightarrow> string" where
  "getBaseMessage s key =
     (case messages s ''en'' of None \<Rightarrow> key | Some m \<Rightarrow> (case m key of Some (c # cs) \<Rightarrow> c # cs | _ \<Rightarrow> key))"

definition solidMessageConstructor :: "(string + 'node) list \<Rightarrow> string + (string + 'node) list" where
  "solidMessageConstructor formatted =
     (if list_all isl formatted then Inl (concat (map projl formatted)) else Inr formatted)"

text \<open>\<open>changeLanguage\<close> up to its await, and after it, when \<open>preloadLocale\<close> has its module or has failed.\<close>

definition changeLanguage_start :: "string \<Rightarrow> intl_state \<Rightarrow> intl_state" where
  "changeLanguage_start newLang s =
     (let resolved = resolveLanguage newLang
      in s\<lparr>pending := pending s @ [(resolved, messages s resolved = None \<and> resolved \<in> set LOCALE_LOADERS)]\<rparr>)"

definition drop_nth :: "nat \<Rightarrow> 'a list \<Rightarrow> 'a list" where
  "drop_nth i xs = take i xs @ drop (Suc i) xs"

definition changeLanguage_done :: "nat \<Rightarrow> LocaleMessage \<Rightarrow> intl_state \<Rightarrow> intl_state" where
  "changeLanguage_done i m s =
     (case pending s ! i of
        (c, waits) \<Rightarrow>
          s\<lparr>messages := (if waits then (messages s)(c \<mapsto> m) else messages s), translator := c, ui_lang := c,
            pending := drop_nth i (pending s)\<rparr>)"

definition changeLanguage_failed :: "nat \<Rightarrow> intl_state \<Rightarrow> intl_state" where
  "changeLanguage_failed i s = s\<lparr>pending := drop_nth i (pending s)\<rparr>"

text \<open>Only a change that waits for a loader can fail.\<close>

inductive intl_reach :: "LocaleMessage \<Rightarrow> intl_state \<Rightarrow> bool" for en where
  init: "intl_reach en (intl_initial en)"
| start: "intl_reach en s \<Longrightarrow> intl_reach en (changeLanguage_start l s)"
| finish: "intl_reach en s \<Longrightarrow> i < length (pending s) \<Longrightarrow> intl_reach en (changeLanguage_done i m s)"
| failed: "intl_reach en s \<Longrightarrow> i < length (pending s) \<Longrightarrow> snd (pending s ! i) \<Longrightarrow> intl_reach en (changeLanguage_failed i s)"

subsection \<open>Theme\<close>

definition getTheme :: "string option \<Rightarrow> string" where
  "getTheme stored = (case stored of Some (c # cs) \<Rightarrow> c # cs | _ \<Rightarrow> ''light'')"

text \<open>Returns the theme that is stored and shown.\<close>

definition setUITheme :: "bool \<Rightarrow> string option \<Rightarrow> string option \<Rightarrow> string" where
  "setUITheme prefersDark theme stored =
     (let current = (case theme of Some (c # cs) \<Rightarrow> c # cs | _ \<Rightarrow> getTheme stored)
      in if current = ''auto'' then (if prefersDark then ''dark'' else ''light'') else current)"

subsection \<open>Resolving\<close>

lemma codes_lower: "list_all (\<lambda>l. toLowerCase l = l) LOCALE_CODES"
  by code_simp

lemma codes_have_loaders: "list_all (\<lambda>c. c = BASE_LOCALE \<or> c \<in> set LOCALE_LOADERS) LOCALE_CODES"
  by code_simp

lemma known_codes [simp]:
  "''zh-tw'' \<in> set LOCALE_CODES" "''zh-cn'' \<in> set LOCALE_CODES" "''pt-br'' \<in> set LOCALE_CODES" "''pt-pt'' \<in> set LOCALE_CODES"
  "BASE_LOCALE \<in> set LOCALE_CODES"
  by (simp_all add: LOCALE_CODES_def BASE_LOCALE_def)

lemma lower_codes: "l \<in> set LOCALE_CODES \<Longrightarrow> toLowerCase l = l"
  using codes_lower by (simp add: list_all_iff)

lemma resolve_known: "resolveLanguage l \<in> set LOCALE_CODES"
  by (simp add: resolveLanguage_def Let_def)

lemma resolve_fixed: "c \<in> set LOCALE_CODES \<Longrightarrow> resolveLanguage c = c"
  by (simp add: resolveLanguage_def Let_def lower_codes)

lemma codes_loadable: "c \<in> set LOCALE_CODES \<Longrightarrow> c = BASE_LOCALE \<or> c \<in> set LOCALE_LOADERS"
  using codes_have_loaders by (simp add: list_all_iff)

lemma resolve_examples:
  "resolveLanguage ''zh-HK'' = ''zh-tw''" "resolveLanguage ''PT'' = ''pt-pt''" "resolveLanguage ''fr-CA'' = ''fr''"
  "resolveLanguage ''nb-NO'' = ''en''" "resolveLanguage ''zh-Hant'' = ''zh-cn''"
  by code_simp+

subsection \<open>The texts of the language are loaded\<close>

definition loaded :: "intl_state \<Rightarrow> bool" where
  "loaded s \<longleftrightarrow> messages s BASE_LOCALE \<noteq> None \<and> ui_lang s = translator s \<and> ui_lang s \<in> set LOCALE_CODES \<and> messages s (ui_lang s) \<noteq> None \<and>
     (\<forall>c waits. (c, waits) \<in> set (pending s) \<longrightarrow> c \<in> set LOCALE_CODES \<and> (waits \<or> messages s c \<noteq> None))"

lemma set_drop_nth: "set (drop_nth i xs) \<subseteq> set xs"
  using set_take_subset set_drop_subset by (fastforce simp: drop_nth_def)

lemma loaded_start: "loaded s \<Longrightarrow> loaded (changeLanguage_start l s)"
  using resolve_known [of l] codes_loadable [OF resolve_known [of l]]
  by (auto simp: loaded_def changeLanguage_start_def Let_def)

lemma loaded_done:
  assumes "loaded s" "i < length (pending s)"
  shows "loaded (changeLanguage_done i m s)"
proof -
  obtain c waits where p: "pending s ! i = (c, waits)" by (cases "pending s ! i")
  then have "(c, waits) \<in> set (pending s)" using assms(2) nth_mem by metis
  then have "c \<in> set LOCALE_CODES" "waits \<or> messages s c \<noteq> None" using assms(1) by (auto simp: loaded_def)
  moreover let ?t = "changeLanguage_done i m s"
  have "messages ?t d \<noteq> None" if "messages s d \<noteq> None" for d
    using that by (simp add: changeLanguage_done_def p)
  moreover have "ui_lang ?t = c" "translator ?t = c" "waits \<Longrightarrow> messages ?t c \<noteq> None" "pending ?t = drop_nth i (pending s)"
    by (simp_all add: changeLanguage_done_def p)
  ultimately show ?thesis using assms(1) set_drop_nth [of i "pending s"] unfolding loaded_def by (metis subsetD)
qed

lemma loaded_failed: "loaded s \<Longrightarrow> loaded (changeLanguage_failed i s)"
  using set_drop_nth [of i "pending s"] by (fastforce simp: loaded_def changeLanguage_failed_def)

text \<open>
  C33. The interface never shows a language without texts: whatever changes are under way, in whatever order their texts arrive or fail to, the
  language, the translator and the loaded texts agree, and the language is one of the project's.
\<close>

theorem language_always_loaded: "intl_reach en s \<Longrightarrow> loaded s"
proof (induction rule: intl_reach.induct)
  case init
  then show ?case by (simp add: loaded_def intl_initial_def LOCALE_CODES_def BASE_LOCALE_def)
qed (simp_all add: loaded_start loaded_done loaded_failed)

theorem language_always_loaded_witness:
  "loaded (changeLanguage_done 0 [''home'' \<mapsto> ''Start''] (changeLanguage_start ''de'' (intl_initial [''home'' \<mapsto> ''Home''])))"
  by (rule language_always_loaded [of "[''home'' \<mapsto> ''Home'']"], rule intl_reach.finish, intro intl_reach.start intl_reach.init)
    (simp add: changeLanguage_start_def Let_def)

text \<open>One change at a time gives the language that was asked for.\<close>

lemma change_alone:
  "pending s = [] \<Longrightarrow> ui_lang (changeLanguage_done 0 m (changeLanguage_start l s)) = resolveLanguage l"
  by (simp add: changeLanguage_start_def changeLanguage_done_def Let_def)

text \<open>Of two changes the one that loads longer wins, even when it was asked for first.\<close>

theorem last_loaded_wins:
  "ui_lang (changeLanguage_done 0 m (changeLanguage_done 1 n (changeLanguage_start ''en'' (changeLanguage_start ''de'' (intl_initial en))))) = ''de''"
  by (simp add: changeLanguage_start_def changeLanguage_done_def intl_initial_def Let_def drop_nth_def)
    (code_simp)

subsection \<open>Two ways to detect the language\<close>

text \<open>The installer and the texts agree unless the browser's language is Chinese or Portuguese without being one of the codes.\<close>

theorem detection_agrees:
  assumes "toLowerCase browser \<in> set LOCALE_CODES \<or>
      \<not> startsWith (toLowerCase browser) ''zh'' \<and> \<not> startsWith (toLowerCase browser) ''pt''"
    and "toLowerCase browser \<notin> set proto_keys" "hd (split_on (CHR ''-'') (toLowerCase browser)) \<notin> set proto_keys"
  shows "getBrowserLanguage None browser = fst (getInitialLanguage None None browser)"
proof -
  have "[] \<notin> set LOCALE_CODES" by (simp add: LOCALE_CODES_def)
  then show ?thesis
    using assms by (auto simp: getBrowserLanguage_def browser_language_def getInitialLanguage_def resolveLanguage_def isLang_def Let_def)
qed

theorem detection_differs:
  "getBrowserLanguage None ''zh-HK'' = ''en'' \<and> fst (getInitialLanguage None None ''zh-HK'') = ''zh-tw'' \<and>
   getBrowserLanguage None ''pt'' = ''en'' \<and> fst (getInitialLanguage None None ''pt'') = ''pt-pt''"
  by code_simp

text \<open>Following the link of the installer fixes the language in the storage.\<close>

lemma url_language_kept:
  "getInitialLanguage (Some l) stored browser = (resolveLanguage l, Some (resolveLanguage l)) \<and>
     getInitialLanguage None (snd (getInitialLanguage (Some l) stored browser)) browser' = (resolveLanguage l, Some (resolveLanguage l))" if "l \<noteq> []"
proof -
  from that obtain c cs where l: "l = c # cs" by (cases l) auto
  have "resolveLanguage l \<noteq> []" using resolve_known [of l] by (auto simp: LOCALE_CODES_def)
  then obtain d ds where r: "resolveLanguage (c # cs) = d # ds" using l by (cases "resolveLanguage l") auto
  have "resolveLanguage (d # ds) = d # ds" using resolve_fixed [OF resolve_known [of "c # cs"]] by (simp add: r)
  then show ?thesis by (simp add: getInitialLanguage_def Let_def l r)
qed

subsection \<open>The theme that is kept\<close>

text \<open>The choice to follow the system is not stored: a later visit shows the theme of the system at the time of the choice.\<close>

theorem auto_theme_frozen:
  "setUITheme dark2 None (Some (setUITheme dark1 (Some ''auto'') stored)) = (if dark1 then ''dark'' else ''light'')"
  by (simp add: setUITheme_def getTheme_def)

lemma theme_remembered:
  "theme \<noteq> [] \<Longrightarrow> theme \<noteq> ''auto'' \<Longrightarrow> setUITheme dark2 None (Some (setUITheme dark1 (Some theme) stored)) = theme"
  by (cases theme) (simp_all add: setUITheme_def getTheme_def Let_def)

end
