(* ===== verification/StatusPolling.thy ===== *)
theory StatusPolling
  imports Encryption
begin

section \<open>Status polling\<close>

text \<open>
  The polling of \<^verbatim>\<open>client_v2/src/stores/dashboard.ts\<close>: \<open>checkStatus\<close> with its sixty attempts, and
  the three actions that start it. All three share the one variable \<open>statusTimeout\<close>; a timer that
  is pending there is the handlers it will call and the attempts it has left. \<open>fireTimer\<close> is what
  the browser does when the timer expires. The requests \<open>getDnsStatus\<close> starts without awaiting them
  run here in the order they are started.
\<close>

datatype poll_handler = DnsStatusPoll | TimerStatusPoll | UpdatePoll

record 'w poll_ctx = "'w enc_ctx" +
  statusTimeout :: "(poll_handler \<times> nat) option"
  reloads :: nat

interpretation poll_frame: toast_frame statusTimeout
  by unfold_locales simp_all

interpretation reload_frame: toast_frame reloads
  by unfold_locales simp_all

record 'c apis =
  dash_of :: "'c dash_api"
  tls_of :: "'c tls_api"

abbreviation setState ::
  "(DashboardState \<Rightarrow> DashboardState) \<Rightarrow> ('w, 'm) poll_ctx_scheme \<Rightarrow> ('w, 'm) poll_ctx_scheme" where
  "setState f c \<equiv> c\<lparr>dashboard := f (dashboard c)\<rparr>"

abbreviation setTimer ::
  "(poll_handler \<times> nat) option \<Rightarrow> ('w, 'm) poll_ctx_scheme \<Rightarrow> ('w, 'm) poll_ctx_scheme" where
  "setTimer t c \<equiv> c\<lparr>statusTimeout := t\<rparr>"

abbreviation reload :: "('w, 'm) poll_ctx_scheme \<Rightarrow> ('w, 'm) poll_ctx_scheme" where
  "reload c \<equiv> c\<lparr>reloads := Suc (reloads c)\<rparr>"

definition disabledDuration :: "ServerStatus \<Rightarrow> int option" where
  "disabledDuration st =
     (if protection_disabled_duration st = Some 0 then None else protection_disabled_duration st)"

definition handleDnsStatus ::
  "env \<Rightarrow> ('w, 'm) poll_ctx_scheme apis \<Rightarrow> ServerStatus \<Rightarrow> (('w, 'm) poll_ctx_scheme, unit) state" where
  "handleDnsStatus env api st =
     (if running st = Some True
      then do {
        modify (setState (\<lambda>s. s\<lparr>isCoreRunning := Some True, DashboardState.processing := False,
          dnsVersion := version st, dnsPort := dns_port st,
          dnsAddresses := nullish (dns_addresses st) [],
          protectionEnabled := protection_enabled st,
          protectionDisabledDuration := disabledDuration st,
          language := status_language st, httpPort := http_port st\<rparr>));
        getVersion env (dash_of api) False;
        getTlsStatus env (tls_of api);
        getProfile (dash_of api);
        pass () }
      else modify (setState (\<lambda>s. s\<lparr>isCoreRunning := running st\<rparr>)))"

definition handleTimerStatus :: "ServerStatus \<Rightarrow> (('w, 'm) poll_ctx_scheme, unit) state" where
  "handleTimerStatus st =
     (if running st = Some True
      then modify (setState (\<lambda>s. s\<lparr>protectionEnabled := protection_enabled st,
             protectionDisabledDuration := disabledDuration st\<rparr>))
      else modify (setState (\<lambda>s. s\<lparr>isCoreRunning := running st\<rparr>)))"

definition handleUpdateStatus :: "ServerStatus \<Rightarrow> (('w, 'm) poll_ctx_scheme, unit) state" where
  "handleUpdateStatus st = do {
     v \<leftarrow> gets (\<lambda>c. dnsVersion (dashboard c));
     (if v \<noteq> version st
      then do { modify (setState (\<lambda>s. s\<lparr>processingUpdate := False\<rparr>)); modify reload }
      else pass ()) }"

definition handleRequestSuccess ::
  "env \<Rightarrow> ('w, 'm) poll_ctx_scheme apis \<Rightarrow> poll_handler \<Rightarrow> ServerStatus
     \<Rightarrow> (('w, 'm) poll_ctx_scheme, unit) state" where
  "handleRequestSuccess env api h st =
     (case h of DnsStatusPoll \<Rightarrow> handleDnsStatus env api st
      | TimerStatusPoll \<Rightarrow> handleTimerStatus st
      | UpdatePoll \<Rightarrow> handleUpdateStatus st)"

definition statusError :: "env \<Rightarrow> ('w, 'm) poll_ctx_scheme \<Rightarrow> ('w, 'm) poll_ctx_scheme" where
  "statusError env c = reload (setState (\<lambda>s. s\<lparr>DashboardState.processing := False\<rparr>) (errorToast env ''dns_status_error'' c))"

definition updateError :: "env \<Rightarrow> ('w, 'm) poll_ctx_scheme \<Rightarrow> ('w, 'm) poll_ctx_scheme" where
  "updateError env c =
     setState (\<lambda>s. s\<lparr>processingUpdate := False\<rparr>) (addNoticeToast env (msg env ''update_failed'') c)"

definition handleRequestError :: "env \<Rightarrow> poll_handler \<Rightarrow> ('w, 'm) poll_ctx_scheme \<Rightarrow> ('w, 'm) poll_ctx_scheme" where
  "handleRequestError env h = (case h of UpdatePoll \<Rightarrow> updateError env | _ \<Rightarrow> statusError env)"

definition checkStatus ::
  "env \<Rightarrow> ('w, 'm) poll_ctx_scheme apis \<Rightarrow> poll_handler \<Rightarrow> nat \<Rightarrow> (('w, 'm) poll_ctx_scheme, unit) state" where
  "checkStatus env api h attempts =
     (if attempts = 0 then modify (handleRequestError env h)
      else try_call (fetchStatus (dash_of api))
        (\<lambda>st. do {
           modify (setTimer None);
           handleRequestSuccess env api h st;
           (if running st = Some False then modify (setTimer (Some (h, attempts - 1))) else pass ()) })
        (\<lambda>_. modify (setTimer (Some (h, attempts - 1)))))"

definition MAX_ATTEMPTS :: nat where "MAX_ATTEMPTS = 60"

definition getDnsStatus ::
  "env \<Rightarrow> ('w, 'm) poll_ctx_scheme apis \<Rightarrow> (('w, 'm) poll_ctx_scheme, unit) state" where
  "getDnsStatus env api = do {
     modify (setState (\<lambda>s. s\<lparr>DashboardState.processing := True\<rparr>));
     checkStatus env api DnsStatusPoll MAX_ATTEMPTS }"

definition getTimerStatus ::
  "env \<Rightarrow> ('w, 'm) poll_ctx_scheme apis \<Rightarrow> (('w, 'm) poll_ctx_scheme, unit) state" where
  "getTimerStatus env api = checkStatus env api TimerStatusPoll MAX_ATTEMPTS"

definition getUpdate ::
  "env \<Rightarrow> ('w, 'm) poll_ctx_scheme apis \<Rightarrow> (('w, 'm) poll_ctx_scheme, unit) state" where
  "getUpdate env api = do {
     modify (setState (\<lambda>s. s\<lparr>processingUpdate := True\<rparr>));
     try_call (beginUpdate (dash_of api))
       (\<lambda>_. checkStatus env api UpdatePoll MAX_ATTEMPTS)
       (\<lambda>_. modify (updateError env)) }"

subsection \<open>Timers\<close>

definition fireTimer ::
  "env \<Rightarrow> ('w, 'm) poll_ctx_scheme apis \<Rightarrow> (('w, 'm) poll_ctx_scheme, unit) state" where
  "fireTimer env api = do {
     t \<leftarrow> gets statusTimeout;
     (case t of
        None \<Rightarrow> pass ()
      | Some (h, n) \<Rightarrow> do { modify (setTimer None); checkStatus env api h n }) }"

fun fireTimers ::
  "nat \<Rightarrow> env \<Rightarrow> ('w, 'm) poll_ctx_scheme apis \<Rightarrow> (('w, 'm) poll_ctx_scheme, unit) state" where
  "fireTimers 0 env api = pass ()"
| "fireTimers (Suc k) env api = do { fireTimer env api; fireTimers k env api }"

text \<open>The states polling can reach: any action may start at any time, any pending timer may fire.\<close>

inductive poll_reach :: "env \<Rightarrow> ('w, 'm) poll_ctx_scheme apis \<Rightarrow> ('w, 'm) poll_ctx_scheme \<Rightarrow> bool"
  for env api where
  init: "statusTimeout c = None \<Longrightarrow> poll_reach env api c"
| dns: "poll_reach env api c \<Longrightarrow> poll_reach env api (exec (getDnsStatus env api) c)"
| timer: "poll_reach env api c \<Longrightarrow> poll_reach env api (exec (getTimerStatus env api) c)"
| update: "poll_reach env api c \<Longrightarrow> poll_reach env api (exec (getUpdate env api) c)"
| fire: "poll_reach env api c \<Longrightarrow> poll_reach env api (exec (fireTimer env api) c)"

text \<open>Backends that only answer: none of the calls touches the timer variable.\<close>

definition timer_safe :: "('w, 'm) poll_ctx_scheme apis \<Rightarrow> bool" where
  "timer_safe api \<longleftrightarrow> keeps statusTimeout (fetchStatus (dash_of api)) \<and>
     keeps statusTimeout (beginUpdate (dash_of api)) \<and>
     (\<forall>b. keeps statusTimeout (getVersionJson (dash_of api) b)) \<and>
     keeps statusTimeout (tlsStatus (tls_of api)) \<and> keeps statusTimeout (getProfile (dash_of api))"

definition pending_ok :: "('w, 'm) poll_ctx_scheme \<Rightarrow> bool" where
  "pending_ok c \<longleftrightarrow> (case statusTimeout c of None \<Rightarrow> True | Some (_, n) \<Rightarrow> n < MAX_ATTEMPTS)"

subsection \<open>The pending timer\<close>

lemma checkStatus_pending:
  assumes "timer_safe api" and "n \<le> MAX_ATTEMPTS" and "pending_ok c"
  shows "pending_ok (exec (checkStatus env api h n) c)"
proof -
  have k: "statusTimeout (exec (fetchStatus (dash_of api)) d) = statusTimeout d"
    "statusTimeout (exec (getVersionJson (dash_of api) b) d) = statusTimeout d"
    "statusTimeout (exec (tlsStatus (tls_of api)) d) = statusTimeout d"
    "statusTimeout (exec (getProfile (dash_of api)) d) = statusTimeout d" for b d
    using assms(1) by (auto simp: timer_safe_def dest: keepsD)
  have v: "statusTimeout (exec (getVersion env (dash_of api) False) d) = statusTimeout d" for d
    by (simp add: getVersion_def run_try_call k Let_def split: sum.splits option.splits)
  have t: "statusTimeout (exec (getTlsStatus env (tls_of api)) d) = statusTimeout d" for d
    by (simp add: getTlsStatus_def run_try_call k split: sum.splits)
  have s: "statusTimeout (exec (handleRequestSuccess env api h st) d) = statusTimeout d" for st d
    by (cases h) (simp_all add: handleRequestSuccess_def handleDnsStatus_def handleTimerStatus_def
        handleUpdateStatus_def v t k)
  have e: "statusTimeout (handleRequestError env h d) = statusTimeout d" for d
    by (cases h) (simp_all add: handleRequestError_def statusError_def updateError_def)
  show ?thesis
    using assms(2,3)
    by (auto simp: checkStatus_def run_try_call s e pending_ok_def split: sum.splits option.splits)
qed

lemma poll_reach_pending: "poll_reach env api c \<Longrightarrow> timer_safe api \<Longrightarrow> pending_ok c"
proof (induction rule: poll_reach.induct)
  case (init c)
  then show ?case by (simp add: pending_ok_def)
next
  case (dns c)
  then show ?case
    unfolding getDnsStatus_def by (simp, intro checkStatus_pending) (simp_all add: pending_ok_def)
next
  case (timer c)
  then show ?case unfolding getTimerStatus_def by (intro checkStatus_pending) simp_all
next
  case (update c)
  have "statusTimeout (exec (beginUpdate (dash_of api)) d) = statusTimeout d" for d
    using update.prems by (auto simp: timer_safe_def dest: keepsD)
  with update show ?case
    by (auto simp: getUpdate_def run_try_call pending_ok_def updateError_def
        intro!: checkStatus_pending [unfolded pending_ok_def] split: sum.splits)
next
  case (fire c)
  show ?case
  proof (cases "statusTimeout c")
    case None
    with fire show ?thesis by (simp add: fireTimer_def)
  next
    case (Some hn)
    then obtain h n where hn: "statusTimeout c = Some (h, n)" by (cases hn) auto
    with fire have "n \<le> MAX_ATTEMPTS" by (simp add: pending_ok_def)
    moreover have "pending_ok (setTimer None c)" by (simp add: pending_ok_def)
    ultimately show ?thesis using checkStatus_pending fire.prems hn by (simp add: fireTimer_def)
  qed
qed

subsection \<open>A server seen as a sequence of answers\<close>

text \<open>\<open>resp n\<close> is the answer to the \<open>n\<close>-th status request; the other calls do not touch the context.\<close>

definition answers :: "(nat \<Rightarrow> string + ServerStatus) \<Rightarrow> (nat, 'm) poll_ctx_scheme apis \<Rightarrow> bool" where
  "answers resp api \<longleftrightarrow>
     (\<forall>d. run_state (fetchStatus (dash_of api)) d = (resp (world d), d\<lparr>world := Suc (world d)\<rparr>)) \<and>
     (\<forall>d. exec (tlsStatus (tls_of api)) d = d) \<and> (\<forall>d. exec (getProfile (dash_of api)) d = d) \<and>
     (\<forall>b d. exec (getVersionJson (dash_of api) b) d = d) \<and>
     (\<forall>d. run_state (beginUpdate (dash_of api)) d = (Inr (), d))"

lemma fetch_answers:
  "answers resp api \<Longrightarrow>
     run_state (fetchStatus (dash_of api)) d = (resp (world d), d\<lparr>world := Suc (world d)\<rparr>)"
  by (simp add: answers_def)

lemma checkStatus_down:
  "answers resp api \<Longrightarrow> resp (world c) = Inl e \<Longrightarrow>
     exec (checkStatus env api h (Suc n)) c = c\<lparr>world := Suc (world c), statusTimeout := Some (h, n)\<rparr>"
  by (simp add: answers_def checkStatus_def run_try_call)

text \<open>While the server is down, each timer costs one attempt and changes nothing else.\<close>

lemma fireTimers_down:
  assumes "answers resp api"
  shows "statusTimeout c = Some (h, n) \<Longrightarrow> k \<le> n \<Longrightarrow> (\<And>j. j < k \<Longrightarrow> \<exists>e. resp (world c + j) = Inl e) \<Longrightarrow>
    exec (fireTimers k env api) c = c\<lparr>world := world c + k, statusTimeout := Some (h, n - k)\<rparr>"
proof (induction k arbitrary: c n)
  case 0
  then show ?case by simp
next
  case (Suc k)
  obtain m where n: "n = Suc m" using Suc.prems(2) by (cases n) auto
  obtain e where e: "resp (world c) = Inl e" using Suc.prems(3) [of 0] by auto
  let ?d = "c\<lparr>world := Suc (world c), statusTimeout := Some (h, m)\<rparr>"
  have step: "exec (fireTimer env api) c = ?d"
    using checkStatus_down [OF assms, of "setTimer None c" e env h m] e Suc.prems(1) n
    by (simp add: fireTimer_def)
  have "exec (fireTimers k env api) ?d = ?d\<lparr>world := world ?d + k, statusTimeout := Some (h, m - k)\<rparr>"
  proof (rule Suc.IH)
    show "\<exists>e. resp (world ?d + j) = Inl e" if "j < k" for j using Suc.prems(3) [of "Suc j"] that by simp
  qed (use Suc.prems n in auto)
  then show ?case using step n by simp
qed

lemma fireTimers_snoc:
  "exec (fireTimers (m + 1) env api) d = exec (fireTimer env api) (exec (fireTimers m env api) d)"
  by (induction m arbitrary: d) simp_all

lemma answersD:
  "answers resp api \<Longrightarrow> dashboard (exec (getTlsStatus env (tls_of api)) d) = dashboard d"
  "answers resp api \<Longrightarrow> statusTimeout (exec (getTlsStatus env (tls_of api)) d) = statusTimeout d"
  "answers resp api \<Longrightarrow> exec (getProfile (dash_of api)) d = d"
  by (simp_all add: answers_def getTlsStatus_def run_try_call split: sum.splits)

lemma getVersion_keeps:
  assumes "answers resp api"
  shows "DashboardState.processing (dashboard (exec (getVersion env (dash_of api) False) d)) = DashboardState.processing (dashboard d)"
    "isCoreRunning (dashboard (exec (getVersion env (dash_of api) False) d)) = isCoreRunning (dashboard d)"
    "dnsAddresses (dashboard (exec (getVersion env (dash_of api) False) d)) = dnsAddresses (dashboard d)"
    "statusTimeout (exec (getVersion env (dash_of api) False) d) = statusTimeout d"
    "reloads (exec (getVersion env (dash_of api) False) d) = reloads d"
  using assms
  by (simp_all add: answers_def getVersion_def run_try_call Let_def split: sum.splits option.splits)

lemma reloads_getTlsStatus:
  "answers resp api \<Longrightarrow> reloads (exec (getTlsStatus env (tls_of api)) d) = reloads d"
  by (simp add: answers_def getTlsStatus_def run_try_call split: sum.splits)

subsection \<open>Theorems\<close>

text \<open>
  In every state that polling can reach, at most one timer is pending and it has fewer than
  sixty attempts left, however the three kinds of polling are started and interleaved.
\<close>

theorem pending_timer_bounded:
  assumes "poll_reach env api c" and "timer_safe api" and "statusTimeout c = Some (h, n)"
  shows "n < MAX_ATTEMPTS"
  using poll_reach_pending [OF assms(1,2)] assms(3) by (simp add: pending_ok_def)

text \<open>
  C8. A server that answers at the latest with its sixtieth status request brings the dashboard
  up: after the failed attempts the loading flag is off, the core is shown as running with the
  addresses of the answer, no timer is left and the page was not reloaded.
\<close>

theorem getDnsStatus_recovers:
  assumes "answers resp api" and "world c = 0" and "k < MAX_ATTEMPTS"
    and "\<And>j. j < k \<Longrightarrow> \<exists>e. resp j = Inl e" and "resp k = Inr st" and "running st = Some True"
  shows "let c1 = exec (fireTimers k env api) (exec (getDnsStatus env api) c)
    in \<not> DashboardState.processing (dashboard c1) \<and> isCoreRunning (dashboard c1) = Some True \<and>
       dnsAddresses (dashboard c1) = nullish (dns_addresses st) [] \<and>
       statusTimeout c1 = None \<and> reloads c1 = reloads c"
proof -
  let ?c0 = "setState (\<lambda>s. s\<lparr>DashboardState.processing := True\<rparr>) c"
  have up: "let d1 = exec (checkStatus env api DnsStatusPoll (Suc n)) d
      in \<not> DashboardState.processing (dashboard d1) \<and> isCoreRunning (dashboard d1) = Some True \<and>
         dnsAddresses (dashboard d1) = nullish (dns_addresses st) [] \<and> statusTimeout d1 = None \<and> reloads d1 = reloads d"
    if "world d = k" for d n
    using assms(5,6) that
    by (simp add: checkStatus_def run_try_call fetch_answers [OF assms(1)] answersD [OF assms(1)]
        getVersion_keeps [OF assms(1)] reloads_getTlsStatus [OF assms(1)]
        handleRequestSuccess_def handleDnsStatus_def Let_def)
  show ?thesis
  proof (cases k)
    case 0
    with up [of ?c0 59] assms(2) show ?thesis by (simp add: getDnsStatus_def MAX_ATTEMPTS_def Let_def)
  next
    case (Suc m)
    obtain e where e: "resp 0 = Inl e" using assms(4) [of 0] Suc by auto
    let ?c1 = "?c0\<lparr>world := Suc 0, statusTimeout := Some (DnsStatusPoll, 59)\<rparr>"
    have first: "exec (getDnsStatus env api) c = ?c1"
      using checkStatus_down [OF assms(1), of ?c0 e env DnsStatusPoll 59] assms(2) e
      by (simp add: getDnsStatus_def MAX_ATTEMPTS_def)
    have "exec (fireTimers m env api) ?c1 = ?c1\<lparr>world := Suc 0 + m, statusTimeout := Some (DnsStatusPoll, 59 - m)\<rparr>"
      using fireTimers_down [OF assms(1), of ?c1 DnsStatusPoll 59 m env] assms(3,4) Suc
      by (simp add: MAX_ATTEMPTS_def)
    moreover obtain r where "59 - m = Suc r" using assms(3) Suc by (cases "59 - m") (auto simp: MAX_ATTEMPTS_def)
    ultimately show ?thesis
      using up [of "?c1\<lparr>world := Suc m, statusTimeout := None\<rparr>" r] fireTimers_snoc [of m env api ?c1] first Suc
      by (simp add: fireTimer_def Let_def)
  qed
qed

definition up_at :: "nat \<Rightarrow> ServerStatus \<Rightarrow> nat \<Rightarrow> string + ServerStatus" where
  "up_at k st n = (if n < k then Inl ''down'' else Inr st)"

definition seq_api :: "(nat \<Rightarrow> string + ServerStatus) \<Rightarrow> (nat, 'm) poll_ctx_scheme apis" where
  "seq_api resp = \<lparr>
     dash_of = \<lparr>fetchStatus = State (\<lambda>d. (resp (world d), d\<lparr>world := Suc (world d)\<rparr>)),
       getVersionJson = (\<lambda>_. pass (Inr None)), beginUpdate = pass (Inr ()),
       setProtection = (\<lambda>_ _. pass (Inr ())),
       clientsStatus = pass (Inl ''none''), getProfile = pass (Inl ''none''), updateProfile = (\<lambda>_. pass (Inr ()))\<rparr>,
     tls_of = echo_api\<rparr>"

lemma answers_seq_api: "answers resp (seq_api resp)"
  by (simp add: answers_def seq_api_def echo_api_def)

definition sample_ctx :: "nat poll_ctx" where
  "sample_ctx = \<lparr>notices = [], undoRegistry = Map.empty, nonce = 1, console_error = [], world = 0,
     dashboard = (Dashboard.initialState)\<lparr>dnsVersion := ''v1''\<rparr>, encryption = Encryption.initialState,
     window_location = \<lparr>protocol = ''http:'', hostname = ''h'', hash = [], loc_port = []\<rparr>,
     redirects = [], statusTimeout = None, reloads = 0\<rparr>"

theorem pending_timer_bounded_witness:
  "let c = exec (getTimerStatus sample_env (seq_api (\<lambda>_. Inl ''down''))) sample_ctx
   in statusTimeout c = Some (TimerStatusPoll, 59) \<and> (59::nat) < MAX_ATTEMPTS"
proof -
  let ?api = "seq_api (\<lambda>_. Inl ''down'') :: nat poll_ctx apis"
  have reach: "poll_reach sample_env ?api (exec (getTimerStatus sample_env ?api) sample_ctx)"
    by (intro poll_reach.timer poll_reach.init) (simp add: sample_ctx_def)
  have safe: "timer_safe ?api" by (simp add: timer_safe_def keeps_def seq_api_def echo_api_def)
  have "statusTimeout (exec (getTimerStatus sample_env ?api) sample_ctx) = Some (TimerStatusPoll, 59)"
    using checkStatus_down [OF answers_seq_api, of "\<lambda>_. Inl ''down''" sample_ctx "''down''" sample_env TimerStatusPoll 59]
    by (simp add: getTimerStatus_def MAX_ATTEMPTS_def)
  with pending_timer_bounded [OF reach safe] show ?thesis by (simp add: Let_def)
qed

theorem getDnsStatus_recovers_witness:
  "let c1 = exec (fireTimers 7 sample_env (seq_api (up_at 7 sample_status)))
       (exec (getDnsStatus sample_env (seq_api (up_at 7 sample_status))) sample_ctx)
   in \<not> DashboardState.processing (dashboard c1) \<and> statusTimeout c1 = None"
proof -
  have "\<exists>e. up_at 7 sample_status j = Inl e" if "j < 7" for j using that by (simp add: up_at_def)
  from getDnsStatus_recovers [OF answers_seq_api, of sample_ctx 7 "up_at 7 sample_status" sample_status sample_env, OF _ _ this]
  show ?thesis by (simp add: sample_ctx_def MAX_ATTEMPTS_def up_at_def sample_status_def Let_def)
qed

text \<open>
  A server that stays down is given up after exactly sixty requests: the loading flag is
  switched off, the error is shown and the page reloaded once.
\<close>

theorem getDnsStatus_gives_up:
  assumes "answers resp api" and "world c = 0" and "\<And>j. j < MAX_ATTEMPTS \<Longrightarrow> \<exists>e. resp j = Inl e"
  shows "let c1 = exec (fireTimers MAX_ATTEMPTS env api) (exec (getDnsStatus env api) c)
    in world c1 = MAX_ATTEMPTS \<and> \<not> DashboardState.processing (dashboard c1) \<and>
       reloads c1 = Suc (reloads c) \<and> statusTimeout c1 = None \<and> notices c1 \<noteq> []"
proof -
  let ?c0 = "setState (\<lambda>s. s\<lparr>DashboardState.processing := True\<rparr>) c"
  let ?c1 = "?c0\<lparr>world := Suc 0, statusTimeout := Some (DnsStatusPoll, 59)\<rparr>"
  obtain e where e: "resp 0 = Inl e" using assms(3) [of 0] by (auto simp: MAX_ATTEMPTS_def)
  have first: "exec (getDnsStatus env api) c = ?c1"
    using checkStatus_down [OF assms(1), of ?c0 e env DnsStatusPoll 59] assms(2) e
    by (simp add: getDnsStatus_def MAX_ATTEMPTS_def)
  have down: "exec (fireTimers 59 env api) ?c1 = ?c1\<lparr>world := 60, statusTimeout := Some (DnsStatusPoll, 0)\<rparr>"
    using fireTimers_down [OF assms(1), of ?c1 DnsStatusPoll 59 59 env] assms(3)
    by (simp add: MAX_ATTEMPTS_def)
  have "exec (fireTimers MAX_ATTEMPTS env api) ?c1 = exec (fireTimer env api) (exec (fireTimers 59 env api) ?c1)"
    using fireTimers_snoc [of 59 env api ?c1] by (simp add: MAX_ATTEMPTS_def)
  then show ?thesis
    using first down
    by (simp add: fireTimer_def checkStatus_def handleRequestError_def statusError_def MAX_ATTEMPTS_def Let_def
        addErrorToast_def pushProblemToast_def push_notice_def) auto
qed

theorem getDnsStatus_gives_up_witness:
  "reloads (exec (fireTimers MAX_ATTEMPTS sample_env (seq_api (\<lambda>_. Inl ''down'')))
     (exec (getDnsStatus sample_env (seq_api (\<lambda>_. Inl ''down''))) sample_ctx)) = 1"
  using getDnsStatus_gives_up [OF answers_seq_api, of sample_ctx "\<lambda>_. Inl ''down''" sample_env]
  by (simp add: sample_ctx_def Let_def)

text \<open>
  An update can hang: when the first status request after starting it is still answered by the
  old server (same version, running), no timer is set and the page is not reloaded, so nothing
  will ever switch the progress flag off again.
\<close>

theorem getUpdate_hangs:
  assumes "answers resp api" and "resp (world c) = Inr st" and "running st = Some True"
    and "version st = dnsVersion (dashboard c)"
  shows "let c1 = exec (getUpdate env api) c
    in processingUpdate (dashboard c1) \<and> statusTimeout c1 = None \<and> reloads c1 = reloads c \<and>
       exec (fireTimers k env api) c1 = c1"
proof -
  have run: "exec (getUpdate env api) c = setTimer None
      ((setState (\<lambda>s. s\<lparr>processingUpdate := True\<rparr>) c)\<lparr>world := Suc (world c)\<rparr>)"
    using assms
    by (simp add: getUpdate_def run_try_call answers_def checkStatus_def MAX_ATTEMPTS_def
        handleRequestSuccess_def handleUpdateStatus_def)
  have idle: "statusTimeout d = None \<Longrightarrow> exec (fireTimers k env api) d = d" for d
    by (induction k) (simp_all add: fireTimer_def)
  show ?thesis by (simp add: run idle Let_def)
qed

theorem getUpdate_hangs_witness:
  "processingUpdate (dashboard (exec (fireTimers 1000 sample_env (seq_api (\<lambda>_. Inr sample_status)))
     (exec (getUpdate sample_env (seq_api (\<lambda>_. Inr sample_status))) sample_ctx)))"
  using getUpdate_hangs [OF answers_seq_api, of "\<lambda>_. Inr sample_status" sample_ctx sample_status sample_env 1000]
  by (simp add: sample_status_def sample_ctx_def Let_def)

text \<open>
  The three kinds of polling cancel each other: a successful timer refresh clears the pending
  retry of \<open>getDnsStatus\<close>, after which the whole-page loading flag stays on for good.
\<close>

theorem timer_refresh_cancels_retry:
  assumes "answers resp api" and "statusTimeout c = Some (DnsStatusPoll, n)"
    and "DashboardState.processing (dashboard c)" and "resp (world c) = Inr st" and "running st = Some True"
  shows "let c1 = exec (fireTimers k env api) (exec (getTimerStatus env api) c)
    in statusTimeout c1 = None \<and> DashboardState.processing (dashboard c1)"
proof -
  have idle: "statusTimeout d = None \<Longrightarrow> exec (fireTimers k env api) d = d" for d
    by (induction k) (simp_all add: fireTimer_def)
  show ?thesis
    using assms
    by (simp add: getTimerStatus_def run_try_call fetch_answers [OF assms(1)] checkStatus_def MAX_ATTEMPTS_def
        handleRequestSuccess_def handleTimerStatus_def idle Let_def)
qed

theorem timer_refresh_cancels_retry_witness:
  "let c = sample_ctx\<lparr>statusTimeout := Some (DnsStatusPoll, 59)\<rparr>;
       c1 = exec (fireTimers 5 sample_env (seq_api (\<lambda>_. Inr sample_status)))
         (exec (getTimerStatus sample_env (seq_api (\<lambda>_. Inr sample_status))) c)
   in DashboardState.processing (dashboard c1)"
  using timer_refresh_cancels_retry [OF answers_seq_api, of "sample_ctx\<lparr>statusTimeout := Some (DnsStatusPoll, 59)\<rparr>" 59
      "\<lambda>_. Inr sample_status" sample_status 5 sample_env]
  by (simp add: sample_ctx_def sample_status_def Dashboard.initialState_def Let_def)

end
