(* ===== verification/DashboardPage.thy ===== *)
theory DashboardPage
  imports Stats StatusPolling
begin

section \<open>The dashboard page\<close>

text \<open>
  \<^verbatim>\<open>client_v2/src/components/Dashboard/Dashboard.tsx\<close> and its \<^verbatim>\<open>blocks/Header/Header.tsx\<close>: the countdown of a pause of the
  protection, its display, and the periods of the statistics on offer. The page keeps the time that remains and whether its
  interval timer runs; the timer calls \<open>countdown_tick\<close> once a second while it runs. The request of a toggle settles before the
  next event. What the server does between requests is the business of the events that refresh the status.
\<close>

subsection \<open>The pause\<close>

record 'w home_ctx = "'w poll_ctx" +
  remainingTime :: "int option"
  timerRef :: bool

interpretation remaining_frame: toast_frame remainingTime
  by unfold_locales simp_all

interpretation timer_frame: toast_frame timerRef
  by unfold_locales simp_all

definition ONE_SECOND_IN_MS :: int where "ONE_SECOND_IN_MS = 1000"

definition startCountdown :: "int \<Rightarrow> ('w, 'm) home_ctx_scheme \<Rightarrow> ('w, 'm) home_ctx_scheme" where
  "startCountdown duration c = c\<lparr>remainingTime := Some duration, timerRef := True\<rparr>"

definition countdown_tick ::
  "env \<Rightarrow> ('w, 'm) home_ctx_scheme apis \<Rightarrow> (('w, 'm) home_ctx_scheme, unit) state" where
  "countdown_tick env api = do {
     prev \<leftarrow> gets remainingTime;
     (case prev of
        Some p \<Rightarrow> if p > ONE_SECOND_IN_MS then modify (\<lambda>c. c\<lparr>remainingTime := Some (p - ONE_SECOND_IN_MS)\<rparr>)
          else do {
            modify (\<lambda>c. c\<lparr>timerRef := False\<rparr>);
            toggleProtection env (dash_of api) None;
            modify (\<lambda>c. c\<lparr>remainingTime := None\<rparr>) }
      | None \<Rightarrow> do {
            modify (\<lambda>c. c\<lparr>timerRef := False\<rparr>);
            toggleProtection env (dash_of api) None;
            modify (\<lambda>c. c\<lparr>remainingTime := None\<rparr>) }) }"

text \<open>The effect that starts the countdown; nothing stops it when the stored duration goes away.\<close>

definition duration_effect :: "('w, 'm) home_ctx_scheme \<Rightarrow> ('w, 'm) home_ctx_scheme" where
  "duration_effect c =
     (case protectionDisabledDuration (dashboard c) of
        Some d \<Rightarrow> if d > 0 \<and> \<not> timerRef c then startCountdown d c else c
      | None \<Rightarrow> c)"

definition handleToggleProtection ::
  "env \<Rightarrow> ('w, 'm) home_ctx_scheme apis \<Rightarrow> bool \<Rightarrow> int option \<Rightarrow> (('w, 'm) home_ctx_scheme, unit) state" where
  "handleToggleProtection env api en duration = do {
     modify (\<lambda>c. if \<not> en \<and> timerRef c then c\<lparr>timerRef := False, remainingTime := None\<rparr> else c);
     toggleProtection env (dash_of api) (if en then duration else None) }"

text \<open>The switch and the items of the menu, which is enabled while the protection is.\<close>

definition header_switch ::
  "env \<Rightarrow> ('w, 'm) home_ctx_scheme apis \<Rightarrow> (('w, 'm) home_ctx_scheme, unit) state" where
  "header_switch env api = do {
     en \<leftarrow> gets (\<lambda>c. protectionEnabled (dashboard c));
     handleToggleProtection env api en None }"

definition handleDisableProtection ::
  "env \<Rightarrow> ('w, 'm) home_ctx_scheme apis \<Rightarrow> int \<Rightarrow> (('w, 'm) home_ctx_scheme, unit) state" where
  "handleDisableProtection env api t = do {
     en \<leftarrow> gets (\<lambda>c. protectionEnabled (dashboard c));
     handleToggleProtection env api en (Some (t - ONE_SECOND_IN_MS)) }"

definition leave_page :: "('w, 'm) home_ctx_scheme \<Rightarrow> ('w, 'm) home_ctx_scheme" where
  "leave_page c = c\<lparr>timerRef := False, remainingTime := None\<rparr>"

text \<open>The interval timer for a number of seconds: a timer that was cleared does not fire.\<close>

fun seconds :: "nat \<Rightarrow> env \<Rightarrow> ('w, 'm) home_ctx_scheme apis \<Rightarrow> (('w, 'm) home_ctx_scheme, unit) state" where
  "seconds 0 env api = pass ()"
| "seconds (Suc k) env api = do {
     r \<leftarrow> gets timerRef;
     (if r then countdown_tick env api else pass ());
     seconds k env api }"

definition DISABLE_PROTECTION_ITEMS :: "int list" where
  "DISABLE_PROTECTION_ITEMS = [30 * 1000, 60 * 1000, 10 * 60 * 1000, 60 * 60 * 1000, 24 * 60 * 60 * 1000]"

definition slice_last2 :: "string \<Rightarrow> string" where
  "slice_last2 s = drop (length s - 2) s"

definition getRemainingTimeText :: "nat \<Rightarrow> string" where
  "getRemainingTimeText milliseconds =
     (if milliseconds = 0 then []
      else let hh = milliseconds div 3600000 mod 24;
               mm = slice_last2 (''0'' @ show_nat (milliseconds div 60000 mod 60));
               ss = slice_last2 (''0'' @ show_nat (milliseconds div 1000 mod 60));
               formattedHH = slice_last2 (''0'' @ show_nat hh)
           in if hh \<noteq> 0 then formattedHH @ '':'' @ mm @ '':'' @ ss else mm @ '':'' @ ss)"

subsection \<open>The periods\<close>

definition periodOptions :: "rat \<Rightarrow> bool \<Rightarrow> rat \<Rightarrow> rat list" where
  "periodOptions maxInterval settled selected =
     (let mx = getClampedMaxInterval maxInterval;
          intervals = filter (\<lambda>i. i \<le> mx) STATS_INTERVALS_DAYS;
          intervals1 = (if mx \<in> set intervals then intervals else intervals @ [mx]);
          intervals2 = (if \<not> settled \<and> selected \<notin> set intervals1 then intervals1 @ [selected] else intervals1)
      in sort intervals2)"

definition effectivePeriod :: "rat \<Rightarrow> bool \<Rightarrow> rat \<Rightarrow> rat" where
  "effectivePeriod maxInterval settled selected =
     (let opts = periodOptions maxInterval settled selected in min selected (if opts = [] then DAY else last opts))"

subsection \<open>A countdown toggles the protection once\<close>

text \<open>The server takes a change of the protection, and nothing else happens meanwhile.\<close>

definition takes_protection ::
  "('w, 'm) home_ctx_scheme apis \<Rightarrow> (bool \<Rightarrow> int option \<Rightarrow> 'w \<Rightarrow> 'w) \<Rightarrow> bool" where
  "takes_protection api W \<longleftrightarrow>
     (\<forall>en t c. run_state (setProtection (dash_of api) en t) c = (Inr (), c\<lparr>world := W en t (world c)\<rparr>))"

lemma tick_counts:
  "remainingTime c = Some p \<Longrightarrow> ONE_SECOND_IN_MS < p \<Longrightarrow>
     exec (countdown_tick env api) c = c\<lparr>remainingTime := Some (p - ONE_SECOND_IN_MS)\<rparr>"
  by (simp add: countdown_tick_def)

lemma tick_ends:
  assumes "takes_protection api W" "remainingTime c = Some p" "p \<le> ONE_SECOND_IN_MS"
  shows "exec (countdown_tick env api) c = c\<lparr>timerRef := False, remainingTime := None,
    world := W (\<not> protectionEnabled (dashboard c)) None (world c),
    dashboard := (dashboard c)\<lparr>processingProtection := False, protectionEnabled := \<not> protectionEnabled (dashboard c),
      protectionDisabledDuration := None\<rparr>\<rparr>"
  using assms by (simp add: countdown_tick_def toggleProtection_def run_try_call takes_protection_def)

lemma seconds_step: "exec (seconds (Suc k) env api) c = exec (seconds k env api) (if timerRef c then exec (countdown_tick env api) c else c)"
  by (simp add: run_state_bind split: prod.splits)

lemma seconds_Suc_right: "exec (seconds (Suc k) env api) c = exec (seconds 1 env api) (exec (seconds k env api) c)"
proof (induction k arbitrary: c)
  case (Suc k)
  then show ?case unfolding seconds_step [of "Suc k"] seconds_step [of k] by metis
qed simp

lemma seconds_count:
  "timerRef c \<Longrightarrow> remainingTime c = Some d \<Longrightarrow> int k * ONE_SECOND_IN_MS < d \<Longrightarrow>
     exec (seconds k env api) c = c\<lparr>remainingTime := Some (d - int k * ONE_SECOND_IN_MS)\<rparr>"
proof (induction k arbitrary: c d)
  case (Suc k)
  have "ONE_SECOND_IN_MS < d" using Suc.prems(3) by (simp add: ONE_SECOND_IN_MS_def)
  then have "exec (countdown_tick env api) c = c\<lparr>remainingTime := Some (d - ONE_SECOND_IN_MS)\<rparr>"
    using tick_counts [OF Suc.prems(2)] by blast
  then show ?case unfolding seconds_step using Suc.prems Suc.IH [of "c\<lparr>remainingTime := Some (d - ONE_SECOND_IN_MS)\<rparr>" "d - ONE_SECOND_IN_MS"]
    by (simp add: algebra_simps)
qed simp

text \<open>
  C9. A countdown of a pause ends: it shows one second less every second, and at the end asks the server once to switch the protection and
  stops. What it asks for is the opposite of what the page believes, so a pause is resumed.
\<close>

theorem countdown_toggles_once:
  fixes env :: env
  assumes "takes_protection api W" "timerRef c" "remainingTime c = Some d" "0 < d"
  defines "n \<equiv> nat ((d - 1) div ONE_SECOND_IN_MS)"
  defines "after \<equiv> exec (seconds (Suc n) env api) c"
  shows "(\<forall>k\<le>n. exec (seconds k env api) c = c\<lparr>remainingTime := Some (d - int k * ONE_SECOND_IN_MS)\<rparr>) \<and>
    protectionEnabled (dashboard after) = (\<not> protectionEnabled (dashboard c)) \<and>
    world after = W (\<not> protectionEnabled (dashboard c)) None (world c) \<and> \<not> timerRef after \<and> remainingTime after = None"
proof -
  have bounds: "int n * ONE_SECOND_IN_MS < d" "d - int n * ONE_SECOND_IN_MS \<le> ONE_SECOND_IN_MS"
    using assms(4) by (simp_all add: n_def ONE_SECOND_IN_MS_def) linarith+
  have counted: "exec (seconds k env api) c = c\<lparr>remainingTime := Some (d - int k * ONE_SECOND_IN_MS)\<rparr>" if "k \<le> n" for k
  proof (rule seconds_count [OF assms(2,3)])
    show "int k * ONE_SECOND_IN_MS < d" using that bounds(1) by (simp add: ONE_SECOND_IN_MS_def)
  qed
  have "after = exec (countdown_tick env api) (c\<lparr>remainingTime := Some (d - int n * ONE_SECOND_IN_MS)\<rparr>)"
    unfolding after_def seconds_Suc_right counted [OF order_refl] using assms(2) by (simp add: run_state_bind split: prod.splits)
  also have "\<dots> = c\<lparr>timerRef := False, remainingTime := None, world := W (\<not> protectionEnabled (dashboard c)) None (world c),
    dashboard := (dashboard c)\<lparr>processingProtection := False, protectionEnabled := \<not> protectionEnabled (dashboard c),
      protectionDisabledDuration := None\<rparr>\<rparr>"
    using tick_ends [OF assms(1) _ bounds(2), of "c\<lparr>remainingTime := Some (d - int n * ONE_SECOND_IN_MS)\<rparr>" env] by simp
  finally show ?thesis using counted by simp
qed

definition sample_home :: "bool \<Rightarrow> int \<Rightarrow> nat home_ctx" where
  "sample_home en d = \<lparr>notices = [], undoRegistry = Map.empty, nonce = 1, console_error = [], world = 0,
     dashboard = (Dashboard.initialState)\<lparr>protectionEnabled := en\<rparr>, encryption = Encryption.initialState,
     window_location = \<lparr>protocol = ''http:'', hostname = ''h'', hash = [], loc_port = []\<rparr>,
     redirects = [], statusTimeout = None, reloads = 0, remainingTime = Some d, timerRef = True\<rparr>"

text \<open>A server that counts the changes.\<close>

definition counting_api :: "(nat, 'm) home_ctx_scheme apis" where
  "counting_api = (seq_api (\<lambda>_. Inl ''down''))\<lparr>dash_of := (dash_of (seq_api (\<lambda>_. Inl ''down'')))\<lparr>setProtection :=
     (\<lambda>en t. State (\<lambda>c. (Inr (), c\<lparr>world := Suc (world c)\<rparr>)))\<rparr>\<rparr>"

lemma counting_takes: "takes_protection counting_api (\<lambda>_ _. Suc)"
  by (simp add: takes_protection_def counting_api_def)

theorem countdown_toggles_once_witness:
  "protectionEnabled (dashboard (exec (seconds 59 sample_env counting_api) (sample_home False 59000)))"
  using countdown_toggles_once [OF counting_takes, of "sample_home False 59000" 59000 sample_env]
  by (simp add: sample_home_def ONE_SECOND_IN_MS_def del: seconds.simps)

text \<open>
  A countdown that lags behind the server: a hidden page's timer runs slower, and when the page is shown again the status says
  that the server has resumed. The countdown goes on and at its end switches the protection off, without an end.
\<close>

theorem stale_countdown_disables:
  fixes env :: env
  assumes "takes_protection api W" "timerRef c" "remainingTime c = Some d" "0 < d"
    and "running st = Some True" "protection_enabled st"
  defines "after \<equiv> exec (seconds (Suc (nat ((d - 1) div ONE_SECOND_IN_MS))) env api) (exec (handleTimerStatus st) c)"
  shows "\<not> protectionEnabled (dashboard after) \<and> world after = W False None (world c) \<and>
    protectionDisabledDuration (dashboard (exec (handleTimerStatus st) c)) = disabledDuration st"
proof -
  let ?c = "exec (handleTimerStatus st) c"
  have "timerRef ?c" "remainingTime ?c = Some d" "protectionEnabled (dashboard ?c)" "world ?c = world c"
    "protectionDisabledDuration (dashboard ?c) = disabledDuration st"
    using assms(2,3,5,6) by (simp_all add: handleTimerStatus_def)
  then show ?thesis using countdown_toggles_once [OF assms(1) _ _ assms(4), of ?c env] by (simp add: after_def)
qed

theorem stale_countdown_disables_witness:
  "\<not> protectionEnabled (dashboard (exec (seconds 5 sample_env counting_api) (exec (handleTimerStatus Dashboard.sample_status) (sample_home False 5000))))"
  using stale_countdown_disables [OF counting_takes, of "sample_home False 5000" 5000 Dashboard.sample_status sample_env]
  by (simp add: sample_home_def ONE_SECOND_IN_MS_def Dashboard.sample_status_def del: seconds.simps)

subsection \<open>The text of the countdown\<close>

text \<open>The value of a text of numbers between colons, each a sixtieth of the one before.\<close>

definition clock_value :: "string \<Rightarrow> int" where
  "clock_value s = foldl (\<lambda>acc p. acc * 60 + digits_value p) 0 (split_on (CHR '':'') s)"

lemma two_digit_texts:
  "list_all (\<lambda>n. digits_value (slice_last2 (''0'' @ show_nat n)) = int n \<and> CHR '':'' \<notin> set (slice_last2 (''0'' @ show_nat n))) [0..<60]"
  by code_simp

lemma two_digit_text:
  "n < 60 \<Longrightarrow> digits_value (slice_last2 (''0'' @ show_nat n)) = int n \<and> CHR '':'' \<notin> set (slice_last2 (''0'' @ show_nat n))"
  using two_digit_texts unfolding list_all_iff by (metis atLeast0LessThan lessThan_iff set_upt)

text \<open>
  The text of the countdown reads as the seconds that remain, for a pause of less than a day.
\<close>

theorem remaining_text_value:
  assumes "ms < 24 * 60 * 60 * 1000" "0 < ms"
  shows "clock_value (getRemainingTimeText ms) = int (ms div 1000)"
proof -
  define h m s where parts: "h = ms div 3600000 mod 24" "m = ms div 60000 mod 60" "s = ms div 1000 mod 60"
  define pad where "pad n = slice_last2 (''0'' @ show_nat n)" for n
  have "ms div 3600000 < 24" using assms(1) by (simp add: less_mult_imp_div_less)
  moreover have q: "ms div 60000 = ms div 1000 div 60" "ms div 3600000 = ms div 1000 div 60 div 60" by (simp_all add: div_mult2_eq [symmetric])
  ultimately have "h = ms div 1000 div 60 div 60" using parts by simp
  then have sum: "(h * 60 + m) * 60 + s = ms div 1000" unfolding parts q by (simp only: div_mult_mod_eq)
  have pads: "digits_value (pad h) = int h \<and> CHR '':'' \<notin> set (pad h)" "digits_value (pad m) = int m \<and> CHR '':'' \<notin> set (pad m)"
    "digits_value (pad s) = int s \<and> CHR '':'' \<notin> set (pad s)"
    unfolding pad_def by (rule two_digit_text; simp add: parts)+
  have txt_eq: "getRemainingTimeText ms = (if h \<noteq> 0 then pad h @ '':'' @ pad m @ '':'' @ pad s else pad m @ '':'' @ pad s)"
    using assms(2) by (simp add: getRemainingTimeText_def parts pad_def Let_def)
  have "clock_value (getRemainingTimeText ms) = int ((h * 60 + m) * 60 + s)"
    unfolding txt_eq by (cases "h = 0") (simp_all add: clock_value_def split_on_sep split_on_no_sep pads)
  then show ?thesis unfolding sum .
qed

theorem remaining_text_value_witness: "clock_value (getRemainingTimeText 3599000) = 3599"
  using remaining_text_value [of 3599000] by simp

lemma pauses_fit_clock: "t \<in> set DISABLE_PROTECTION_ITEMS \<Longrightarrow> 0 < t - ONE_SECOND_IN_MS \<and> t - ONE_SECOND_IN_MS < 24 * 60 * 60 * 1000"
  by (auto simp: DISABLE_PROTECTION_ITEMS_def ONE_SECOND_IN_MS_def)

subsection \<open>The period shown is the one requested\<close>

lemma last_sort_max: "xs \<noteq> [] \<Longrightarrow> m \<in> set xs \<Longrightarrow> (\<forall>x\<in>set xs. x \<le> m) \<Longrightarrow> last (sort xs) = (m :: rat)"
proof (rule antisym)
  assume ne: "xs \<noteq> []" and mem: "m \<in> set xs" and bound: "\<forall>x\<in>set xs. x \<le> m"
  have "sort xs \<noteq> []" using ne by (metis set_sort set_empty)
  then have "last (sort xs) \<in> set xs" by (metis last_in_set set_sort)
  then show "last (sort xs) \<le> m" using bound by blast
  obtain i where i: "i < length (sort xs)" "sort xs ! i = m" using mem by (metis in_set_conv_nth set_sort)
  then have "sort xs ! i \<le> sort xs ! (length (sort xs) - 1)" by (intro sorted_nth_mono) auto
  with i ne show "m \<le> last (sort xs)" by (metis last_conv_nth \<open>sort xs \<noteq> []\<close>)
qed

lemma period_options_set:
  "set (periodOptions mx settled selected) =
     {i \<in> set STATS_INTERVALS_DAYS. i \<le> getClampedMaxInterval mx} \<union> {getClampedMaxInterval mx} \<union> (if settled then {} else {selected})"
  by (auto simp: periodOptions_def Let_def)

text \<open>
  The period the dashboard shows is the one its request asks for: the chosen one, limited by what the server keeps once that is known. The
  periods on offer are sorted, each once, and the longest the server keeps is among them.
\<close>

theorem dashboard_period:
  "effectivePeriod mx settled selected = (if settled then clampStatsPeriod selected mx else selected) \<and>
   sorted (periodOptions mx settled selected) \<and> distinct (periodOptions mx settled selected) \<and>
   getClampedMaxInterval mx \<in> set (periodOptions mx settled selected)"
proof -
  let ?m = "getClampedMaxInterval mx" and ?o = "periodOptions mx settled selected"
  have sorted: "sorted ?o" by (simp add: periodOptions_def Let_def)
  have "distinct STATS_INTERVALS_DAYS" by (simp add: STATS_INTERVALS_DAYS_def HOUR_def DAY_def)
  then have distinct: "distinct ?o" by (simp add: periodOptions_def Let_def)
  have ne: "?o \<noteq> []" using period_options_set [of mx settled selected] by auto
  have "last ?o = (if settled then ?m else max ?m selected)"
    using last_sort_max [of ?o "if settled then ?m else max ?m selected"] ne sorted period_options_set [of mx settled selected]
    by (auto simp: sorted_sort_id max_def)
  then have "effectivePeriod mx settled selected = (if settled then clampStatsPeriod selected mx else selected)"
    using ne by (simp add: effectivePeriod_def Let_def clampStatsPeriod_def)
  with sorted distinct period_options_set show ?thesis by blast
qed

end
