(* ===== verification/ReduxCore.thy ===== *)
theory ReduxCore
  imports TextHelpers
begin

section \<open>The store of the React client and its toasts\<close>

text \<open>
  The previous web interface, \<^verbatim>\<open>client/src\<close>, keeps its state in one Redux store: an action is a
  value, a reducer computes the next state of its slice, and a thunk (\<^verbatim>\<open>actions/*\<close>) is an asynchronous
  function that dispatches actions around its requests. The theories whose names start with
  \<open>Redux\<close> model it slice by slice: the actions as a datatype, the reducer as a function on a record,
  the thunks as state monads over a context that holds the toasts, the slice and the server's side.

  A thunk that another one starts without waiting for it is split in two: the part up to its request, and
  the part from the answer on, which runs after the rest of its caller.

  This theory holds what every slice shares: the context, \<^verbatim>\<open>reducers/toasts.ts\<close> and the timers of
  \<^verbatim>\<open>components/Toasts/Toast.tsx\<close>. The ids come from \<open>nanoid\<close>, as in the newer interface; the texts of
  \<open>i18next.t\<close> are those of \<open>getMessage\<close>. What a thunk does to the page is kept as a list of events.
\<close>

datatype TOAST_TYPES = SUCCESS | ERROR | NOTICE

record notice =
  notice_id :: string
  notice_message :: string
  notice_options :: "string option"
  notice_type :: TOAST_TYPES

datatype browser_event = PageReload | PageReplace string

record 'w rx =
  rx_notices :: "notice list"
  rx_nonce :: nat
  rx_console :: "string list"
  browser :: "browser_event list"
  backend :: 'w

datatype toasts_action =
    AddErrorToast string "string option"
  | AddSuccessToast string
  | AddNoticeToast string "string option"
  | RemoveToast string

definition new_notice ::
  "env \<Rightarrow> TOAST_TYPES \<Rightarrow> string \<Rightarrow> string option \<Rightarrow> ('w, 'm) rx_scheme \<Rightarrow> ('w, 'm) rx_scheme" where
  "new_notice env ty m opts c =
     c\<lparr>rx_nonce := Suc (rx_nonce c), rx_notices := rx_notices c @
         [\<lparr>notice_id = nanoid env (rx_nonce c), notice_message = m, notice_options = opts, notice_type = ty\<rparr>]\<rparr>"

fun toasts :: "env \<Rightarrow> toasts_action \<Rightarrow> ('w, 'm) rx_scheme \<Rightarrow> ('w, 'm) rx_scheme" where
  "toasts env (AddErrorToast e opts) c = new_notice env ERROR e opts (c\<lparr>rx_console := rx_console c @ [e]\<rparr>)"
| "toasts env (AddSuccessToast m) c = new_notice env SUCCESS m None c"
| "toasts env (AddNoticeToast e opts) c = new_notice env NOTICE e opts c"
| "toasts env (RemoveToast i) c = c\<lparr>rx_notices := filter (\<lambda>n. notice_id n \<noteq> i) (rx_notices c)\<rparr>"

text \<open>\<open>dispatch(addErrorToast({ error }))\<close>, \<open>dispatch(addSuccessToast(m))\<close>, and the page events.\<close>

abbreviation error_toast :: "env \<Rightarrow> string \<Rightarrow> (('w, 'm) rx_scheme, unit) state" where
  "error_toast env e \<equiv> modify (toasts env (AddErrorToast e None))"

abbreviation success_toast :: "env \<Rightarrow> string \<Rightarrow> (('w, 'm) rx_scheme, unit) state" where
  "success_toast env m \<equiv> modify (toasts env (AddSuccessToast m))"

definition happens :: "browser_event \<Rightarrow> ('w, 'm) rx_scheme \<Rightarrow> ('w, 'm) rx_scheme" where
  "happens ev c = c\<lparr>browser := browser c @ [ev]\<rparr>"

subsection \<open>What toasts leave alone\<close>

text \<open>
  The contract between the toasts and a slice: an observation that reads neither the toasts nor the page
  events is the same after a toast is dispatched. Each slice interprets it.
\<close>

locale rx_frame =
  fixes obs :: "('w, 'm) rx_scheme \<Rightarrow> 'b"
  assumes obs_notices: "obs (c\<lparr>rx_notices := n\<rparr>) = obs c"
    and obs_nonce: "obs (c\<lparr>rx_nonce := k\<rparr>) = obs c"
    and obs_console: "obs (c\<lparr>rx_console := l\<rparr>) = obs c"
    and obs_browser: "obs (c\<lparr>browser := b\<rparr>) = obs c"
begin

lemma obs_toasts [simp]: "obs (toasts env a c) = obs c"
  by (cases a) (simp_all add: new_notice_def obs_notices obs_nonce obs_console)

lemma obs_happens [simp]: "obs (happens ev c) = obs c"
  by (simp add: happens_def obs_browser)

end

interpretation backend_frame: rx_frame backend
  by unfold_locales simp_all

lemma browser_toasts [simp]: "browser (toasts env a c) = browser c"
  by (cases a) (simp_all add: new_notice_def)

lemma browser_happens [simp]: "browser (happens ev c) = browser c @ [ev]"
  by (simp add: happens_def)

lemma notices_happens [simp]: "rx_notices (happens ev c) = rx_notices c"
  by (simp add: happens_def)

definition shown :: "TOAST_TYPES \<Rightarrow> ('w, 'm) rx_scheme \<Rightarrow> string list" where
  "shown ty c = map notice_message (filter (\<lambda>n. notice_type n = ty) (rx_notices c))"

lemma shown_toasts [simp]:
  "shown ty (toasts env (AddErrorToast e opts) c) = (if ty = ERROR then shown ty c @ [e] else shown ty c)"
  "shown ty (toasts env (AddSuccessToast m) c) = (if ty = SUCCESS then shown ty c @ [m] else shown ty c)"
  "shown ty (toasts env (AddNoticeToast e opts) c) = (if ty = NOTICE then shown ty c @ [e] else shown ty c)"
  by (auto simp: shown_def new_notice_def)

lemma shown_happens [simp]: "shown ty (happens ev c) = shown ty c"
  by (simp add: shown_def happens_def)

subsection \<open>Ids\<close>

inductive rx_toasts_reach :: "env \<Rightarrow> ('w, 'm) rx_scheme \<Rightarrow> bool" for env where
  start: "rx_notices c = [] \<Longrightarrow> rx_toasts_reach env c"
| toast: "rx_toasts_reach env c \<Longrightarrow> rx_toasts_reach env (toasts env a c)"

definition notices_inv :: "env \<Rightarrow> ('w, 'm) rx_scheme \<Rightarrow> bool" where
  "notices_inv env c \<longleftrightarrow> distinct (map notice_id (rx_notices c)) \<and>
     notice_id ` set (rx_notices c) \<subseteq> issued env (rx_nonce c)"

lemma new_notice_inv:
  assumes "inj (nanoid env)" "notices_inv env c"
  shows "notices_inv env (new_notice env ty m opts c)"
  using assms issued_fresh [OF assms(1), of "rx_nonce c"]
  by (auto simp: notices_inv_def new_notice_def issued_Suc)

lemma notices_inv_console [simp]: "notices_inv env (c\<lparr>rx_console := l\<rparr>) = notices_inv env c"
  by (simp add: notices_inv_def)

lemma toasts_inv_step:
  assumes "inj (nanoid env)" "notices_inv env c"
  shows "notices_inv env (toasts env a c)"
proof (cases a)
  case (RemoveToast i)
  then show ?thesis using assms(2) by (auto simp: notices_inv_def distinct_map intro: inj_on_subset)
qed (use assms in \<open>simp_all add: new_notice_inv\<close>)

text \<open>
  Toasts of the React client are addressed by ids that are unique in every state the store can reach,
  so removing one by its timer or its button removes no other; what is shown is never shortened by
  a later message, even a repeated one.
\<close>

theorem rx_toast_removed_alone:
  assumes "rx_toasts_reach env c" "inj (nanoid env)" "n \<in> set (rx_notices c)"
  shows "rx_notices (toasts env (RemoveToast (notice_id n)) c) = remove1 n (rx_notices c)"
proof -
  have "notices_inv env c"
    using assms(1) by induction (use assms(2) in \<open>simp_all add: toasts_inv_step, simp add: notices_inv_def\<close>)
  then have d: "distinct (map notice_id (rx_notices c))" by (simp add: notices_inv_def)
  then have "inj_on notice_id (set (rx_notices c))" "distinct (rx_notices c)" by (simp_all add: distinct_map)
  with assms(3) have "filter (\<lambda>k. notice_id k \<noteq> notice_id n) (rx_notices c) = filter ((\<noteq>) n) (rx_notices c)"
    by (intro filter_cong) (auto simp: inj_on_def)
  with \<open>distinct (rx_notices c)\<close> show ?thesis by (simp add: distinct_remove1_removeAll removeAll_filter_not_eq)
qed

definition sample_rx :: "'w \<Rightarrow> 'w rx" where
  "sample_rx w = \<lparr>rx_notices = [], rx_nonce = 0, rx_console = [], browser = [], backend = w\<rparr>"

declare toasts.simps [simp del]

subsection \<open>The timers of a rendered toast\<close>

text \<open>
  \<open>timerId\<close> is the component's state, \<open>running\<close> the timers that have not fired and are not cleared. The
  pointer enters and leaves the toast in turn, once more for every child element it crosses.
\<close>

record toast_view =
  timerId :: "nat option"
  running :: "nat list"
  next_timer :: nat
  removed :: bool

definition clearRemoveToastTimeout :: "toast_view \<Rightarrow> toast_view" where
  "clearRemoveToastTimeout v =
     (case timerId v of None \<Rightarrow> v | Some t \<Rightarrow> v\<lparr>running := filter (\<lambda>r. r \<noteq> t) (running v)\<rparr>)"

definition setRemoveToastTimeout :: "toast_view \<Rightarrow> toast_view" where
  "setRemoveToastTimeout v =
     v\<lparr>timerId := Some (next_timer v), running := running v @ [next_timer v], next_timer := Suc (next_timer v)\<rparr>"

definition timer_fires :: "toast_view \<Rightarrow> toast_view" where
  "timer_fires v = (case running v of [] \<Rightarrow> v | t # ts \<Rightarrow> v\<lparr>running := ts, removed := True\<rparr>)"

definition mounted_toast :: toast_view where
  "mounted_toast = setRemoveToastTimeout \<lparr>timerId = None, running = [], next_timer = 0, removed = False\<rparr>"

text \<open>The second argument tells whether the pointer is over the toast.\<close>

inductive toast_shown :: "toast_view \<Rightarrow> bool \<Rightarrow> bool" where
  mount: "toast_shown mounted_toast False"
| over: "toast_shown v False \<Longrightarrow> \<not> removed v \<Longrightarrow> toast_shown (clearRemoveToastTimeout v) True"
| out: "toast_shown v True \<Longrightarrow> \<not> removed v \<Longrightarrow> toast_shown (setRemoveToastTimeout v) False"
| fire: "toast_shown v h \<Longrightarrow> \<not> removed v \<Longrightarrow> toast_shown (timer_fires v) h"

text \<open>
  A toast never goes away under the pointer, and a toast the pointer has left always has exactly one
  timer running that will remove it.
\<close>

theorem toast_waits_for_pointer:
  assumes "toast_shown v hovered"
  shows "(hovered \<longrightarrow> running v = [] \<and> \<not> removed v) \<and>
         (\<not> hovered \<and> \<not> removed v \<longrightarrow> (\<exists>t. timerId v = Some t \<and> running v = [t]) \<and> removed (timer_fires v))"
  using assms
  by induction (auto simp: mounted_toast_def setRemoveToastTimeout_def clearRemoveToastTimeout_def timer_fires_def
      split: option.splits)

end
