(* ===== verification/Access.thy ===== *)
theory Access
  imports TextHelpers
begin

section \<open>Access settings store\<close>

text \<open>
  \<^verbatim>\<open>client_v2/src/stores/access.ts\<close>: which clients may use the DNS server. The two backend
  endpoints are parameters (\<open>access_api\<close>). The last section compares the toggle of the
  clients page with the rule the DNS server applies, \<open>isBlockedIP\<close> of
  \<^verbatim>\<open>internal/dnsforward/access.go\<close>.
\<close>

record AccessList =
  al_allowed_clients :: "string list option"
  al_disallowed_clients :: "string list option"
  al_blocked_hosts :: "string list option"

record AccessState =
  processing :: bool
  initialized :: bool
  processingSet :: bool
  allowed_clients :: string
  disallowed_clients :: string
  blocked_hosts :: string

definition initialState :: AccessState where
  "initialState = \<lparr>processing = True, initialized = False, processingSet = False,
     allowed_clients = [], disallowed_clients = [], blocked_hosts = []\<rparr>"

record ('u, 'w) access_ctx = "('u, 'w) ctx" +
  access :: AccessState

interpretation access_frame: toast_frame access
  by unfold_locales simp_all

record 'c access_api =
  accessList :: "('c, AccessList) call"
  accessSet :: "AccessList \<Rightarrow> ('c, unit) call"

abbreviation setState ::
  "(AccessState \<Rightarrow> AccessState) \<Rightarrow> ('u, 'w, 'm) access_ctx_scheme \<Rightarrow> ('u, 'w, 'm) access_ctx_scheme" where
  "setState f c \<equiv> c\<lparr>access := f (access c)\<rparr>"

definition joined :: "string list option \<Rightarrow> string" where
  "joined xs = (case xs of None \<Rightarrow> [] | Some ys \<Rightarrow> join_lines ys)"

definition getAccessList ::
  "env \<Rightarrow> ('u, 'w, 'm) access_ctx_scheme access_api \<Rightarrow> (('u, 'w, 'm) access_ctx_scheme, unit) state" where
  "getAccessList env api = do {
     modify (setState (\<lambda>s. s\<lparr>processing := True\<rparr>));
     try_call (accessList api)
       (\<lambda>data. modify (setState (\<lambda>s. s\<lparr>
           allowed_clients := joined (al_allowed_clients data),
           disallowed_clients := joined (al_disallowed_clients data),
           blocked_hosts := joined (al_blocked_hosts data),
           processing := False, initialized := True\<rparr>)))
       (\<lambda>e. do {
          modify (errorToast env e);
          modify (setState (\<lambda>s. s\<lparr>processing := False, initialized := True\<rparr>)) }) }"

record access_values =
  v_allowed_clients :: "string option"
  v_disallowed_clients :: "string option"
  v_blocked_hosts :: "string option"

definition lines_if_defined :: "string option \<Rightarrow> string list option" where
  "lines_if_defined v = map_option (\<lambda>t. splitByNewLine (Some t)) v"

definition setAccessList ::
  "env \<Rightarrow> ('u, 'w, 'm) access_ctx_scheme access_api \<Rightarrow> access_values
     \<Rightarrow> (('u, 'w, 'm) access_ctx_scheme, unit) state" where
  "setAccessList env api values = do {
     modify (setState (\<lambda>s. s\<lparr>processingSet := True\<rparr>));
     try_call (accessSet api \<lparr>
         al_allowed_clients = lines_if_defined (v_allowed_clients values),
         al_disallowed_clients = lines_if_defined (v_disallowed_clients values),
         al_blocked_hosts = lines_if_defined (v_blocked_hosts values)\<rparr>)
       (\<lambda>_. do {
          modify (setState (\<lambda>s. s\<lparr>
            allowed_clients := nullish (v_allowed_clients values) (allowed_clients s),
            disallowed_clients := nullish (v_disallowed_clients values) (disallowed_clients s),
            blocked_hosts := nullish (v_blocked_hosts values) (blocked_hosts s),
            processingSet := False\<rparr>));
          modify (successToast env (msg env ''settings_notify_changes_saved'')) })
       (\<lambda>e. do {
          modify (errorToast env e);
          modify (setState (\<lambda>s. s\<lparr>processingSet := False\<rparr>)) }) }"

definition addUnique :: "string list \<Rightarrow> string \<Rightarrow> string list" where
  "addUnique items v = (if v \<in> set items then items else items @ [v])"

definition removeValue :: "string list \<Rightarrow> string \<Rightarrow> string list" where
  "removeValue items v = filter (\<lambda>i. i \<noteq> v) items"

record access_lists =
  l_blocked_hosts :: "string list"
  l_allowed_clients :: "string list"
  l_disallowed_clients :: "string list"

definition lists_of :: "AccessList \<Rightarrow> access_lists" where
  "lists_of al = \<lparr>l_blocked_hosts = nullish (al_blocked_hosts al) [],
     l_allowed_clients = nullish (al_allowed_clients al) [],
     l_disallowed_clients = nullish (al_disallowed_clients al) []\<rparr>"

definition getNextClientAccessList :: "AccessList \<Rightarrow> string \<Rightarrow> bool \<Rightarrow> string \<Rightarrow> access_lists" where
  "getNextClientAccessList al ip disallowed disallowedRule =
     (let values = lists_of al;
          isAllowlistMode = (length (l_allowed_clients values) > 0)
      in if disallowed \<and> isAllowlistMode
         then values\<lparr>l_allowed_clients := addUnique (l_allowed_clients values) ip\<rparr>
         else if disallowed
         then values\<lparr>l_disallowed_clients :=
                removeValue (l_disallowed_clients values) (or_str disallowedRule ip)\<rparr>
         else if isAllowlistMode
         then values\<lparr>l_allowed_clients := removeValue (l_allowed_clients values) ip\<rparr>
         else values\<lparr>l_disallowed_clients := addUnique (l_disallowed_clients values) ip\<rparr>)"

definition list_payload :: "access_lists \<Rightarrow> AccessList" where
  "list_payload v = \<lparr>al_allowed_clients = Some (l_allowed_clients v),
     al_disallowed_clients = Some (l_disallowed_clients v),
     al_blocked_hosts = Some (l_blocked_hosts v)\<rparr>"

definition toggleClientBlock ::
  "env \<Rightarrow> ('u, 'w, 'm) access_ctx_scheme access_api \<Rightarrow> string \<Rightarrow> bool \<Rightarrow> string
     \<Rightarrow> (('u, 'w, 'm) access_ctx_scheme, unit) state" where
  "toggleClientBlock env api ip disallowed disallowedRule =
     (let fail = (\<lambda>e. do {
            modify (errorToast env e);
            modify (setState (\<lambda>s. s\<lparr>processingSet := False\<rparr>)) })
      in do {
        modify (setState (\<lambda>s. s\<lparr>processingSet := True\<rparr>));
        try_call (accessList api)
          (\<lambda>data.
             let values = getNextClientAccessList data ip disallowed disallowedRule
             in try_call (accessSet api (list_payload values))
                  (\<lambda>_. do {
                     modify (setState (\<lambda>s. s\<lparr>
                       allowed_clients := join_lines (l_allowed_clients values),
                       disallowed_clients := join_lines (l_disallowed_clients values),
                       blocked_hosts := join_lines (l_blocked_hosts values),
                       processingSet := False\<rparr>));
                     modify (successToast env
                       (if disallowed then msg env ''client_unblocked_flash''
                        else msg env ''client_blocked_flash'')) })
                  fail)
          fail })"

subsection \<open>The server's decision\<close>

text \<open>
  \<^verbatim>\<open>internal/dnsforward/access.go\<close> and \<open>IsBlockedClient\<close> of \<^verbatim>\<open>dnsforward.go\<close>: the server parses the entries of the two lists into
  addresses, networks and ClientIDs, and refuses lists it cannot parse, lists with repeated entries and lists with a common entry. The library
  for addresses and the check of a ClientID are the parameters of the record \<open>netip\<close>; \<open>Contains\<close> tests an address without its zone.
\<close>

record ('a, 'p) netip =
  ParseAddr :: "string \<Rightarrow> 'a option"
  ParsePrefix :: "string \<Rightarrow> 'p option"
  Contains :: "'p \<Rightarrow> 'a \<Rightarrow> bool"
  addrString :: "'a \<Rightarrow> string"
  prefixString :: "'p \<Rightarrow> string"
  validClientID :: "string \<Rightarrow> bool"

record ('a, 'p) accessManager =
  allowedIPs :: "'a set"
  blockedIPs :: "'a set"
  allowedClientIDs :: "string set"
  blockedClientIDs :: "string set"
  allowedNets :: "'p list"
  blockedNets :: "'p list"

fun processAccessClients ::
  "('a, 'p) netip \<Rightarrow> string list \<Rightarrow> 'a set \<times> 'p list \<times> string set \<Rightarrow> (string + 'a set \<times> 'p list \<times> string set)" where
  "processAccessClients N [] acc = Inr acc"
| "processAccessClients N (s # ss) (ips, nets, ids) =
     (case ParseAddr N s of
        Some a \<Rightarrow> processAccessClients N ss (insert a ips, nets, ids)
      | None \<Rightarrow>
          (case ParsePrefix N s of
             Some p \<Rightarrow> processAccessClients N ss (ips, nets @ [p], ids)
           | None \<Rightarrow> if validClientID N s then processAccessClients N ss (ips, nets, insert s ids) else Inl s))"

definition newAccessCtx :: "('a, 'p) netip \<Rightarrow> string list \<Rightarrow> string list \<Rightarrow> string + ('a, 'p) accessManager" where
  "newAccessCtx N allowed blocked =
     (case processAccessClients N allowed ({}, [], {}) of
        Inl err \<Rightarrow> Inl err
      | Inr (ips, nets, ids) \<Rightarrow>
          (case processAccessClients N blocked ({}, [], {}) of
             Inl err \<Rightarrow> Inl err
           | Inr (bips, bnets, bids) \<Rightarrow>
               Inr \<lparr>allowedIPs = ips, blockedIPs = bips, allowedClientIDs = ids, blockedClientIDs = bids,
                 allowedNets = nets, blockedNets = bnets\<rparr>))"

definition allowlistMode :: "('a, 'p) accessManager \<Rightarrow> bool" where
  "allowlistMode m \<longleftrightarrow> allowedIPs m \<noteq> {} \<or> allowedClientIDs m \<noteq> {} \<or> allowedNets m \<noteq> []"

definition isBlockedClientID :: "('a, 'p) accessManager \<Rightarrow> string \<Rightarrow> bool" where
  "isBlockedClientID m i =
     (if i = [] then allowlistMode m else if allowlistMode m then i \<notin> allowedClientIDs m else i \<in> blockedClientIDs m)"

definition isBlockedIP :: "('a, 'p) netip \<Rightarrow> ('a, 'p) accessManager \<Rightarrow> 'a \<Rightarrow> bool \<times> string" where
  "isBlockedIP N m ip =
     (let blocked = \<not> allowlistMode m;
          ips = (if allowlistMode m then allowedIPs m else blockedIPs m);
          nets = (if allowlistMode m then allowedNets m else blockedNets m)
      in if ip \<in> ips then (blocked, addrString N ip)
         else case find (\<lambda>n. Contains N n ip) nets of
                Some n \<Rightarrow> (blocked, prefixString N n)
              | None \<Rightarrow> (\<not> blocked, []))"

definition IsBlockedClient :: "('a, 'p) netip \<Rightarrow> ('a, 'p) accessManager \<Rightarrow> 'a option \<Rightarrow> string \<Rightarrow> bool \<times> string" where
  "IsBlockedClient N m ip clientID =
     (let (blockedByIP, rule) = (case ip of None \<Rightarrow> (False, []) | Some a \<Rightarrow> isBlockedIP N m a);
          blockedByClientID = isBlockedClientID m clientID
      in if allowlistMode m \<and> blockedByIP \<and> blockedByClientID then (True, rule)
         else (\<not> allowlistMode m \<and> (blockedByIP \<or> blockedByClientID), or_str rule clientID))"

definition validateAccessSet :: "access_lists \<Rightarrow> bool" where
  "validateAccessSet l \<longleftrightarrow> distinct (l_allowed_clients l) \<and> distinct (l_disallowed_clients l) \<and> distinct (l_blocked_hosts l) \<and>
     set (l_allowed_clients l) \<inter> set (l_disallowed_clients l) = {}"

text \<open>What the server makes of the lists of a set request; it keeps the old ones when it refuses.\<close>

definition handleAccessSet :: "('a, 'p) netip \<Rightarrow> access_lists \<Rightarrow> ('a, 'p) accessManager option" where
  "handleAccessSet N l =
     (if \<not> validateAccessSet l then None
      else case newAccessCtx N (l_allowed_clients l) (l_disallowed_clients l) of Inl _ \<Rightarrow> None | Inr m \<Rightarrow> Some m)"

subsection \<open>Lemmas\<close>

lemmas action_defs = getAccessList_def setAccessList_def toggleClientBlock_def

lemma set_addUnique [simp]: "set (addUnique xs v) = insert v (set xs)"
  by (auto simp: addUnique_def)

lemma distinct_addUnique: "distinct xs \<Longrightarrow> distinct (addUnique xs v)"
  by (simp add: addUnique_def)

lemma set_removeValue [simp]: "set (removeValue xs v) = set xs - {v}"
  by (auto simp: removeValue_def)

lemma addUnique_neq_Nil [simp]: "addUnique xs v \<noteq> []"
  by (auto simp: addUnique_def)

lemma removeValue_Nil_iff: "removeValue xs v = [] \<longleftrightarrow> set xs \<subseteq> {v}"
  by (auto simp: removeValue_def filter_empty_conv)

lemma removeValue_addUnique: "v \<notin> set xs \<Longrightarrow> removeValue (addUnique xs v) v = xs"
  by (auto simp: removeValue_def addUnique_def intro!: filter_True)

subsection \<open>Theorems\<close>

text \<open>
  Loading the access lists always settles: whatever the request answers and whatever other
  actions run while it is pending, \<open>processing\<close> is off and \<open>initialized\<close> is on at the end,
  and a failed request is reported as an error toast carrying its message.
\<close>

theorem getAccessList_settles:
  "let c' = exec (getAccessList env api) c; r = result (accessList api) (setState (\<lambda>s. s\<lparr>processing := True\<rparr>) c)
   in \<not> processing (access c') \<and> initialized (access c') \<and>
      (\<forall>e. r = Inl e \<longrightarrow> e \<in> message ` set (notices c'))"
  by (auto simp: getAccessList_def run_try_call Let_def error_shown split: sum.splits)

text \<open>A backend that stores what it is given, for the witnesses and the round trip.\<close>

definition stored_api :: "('u, AccessList, 'm) access_ctx_scheme access_api" where
  "stored_api = \<lparr>accessList = gets (\<lambda>c. Inr (world c)),
     accessSet = (\<lambda>al. do { modify (\<lambda>c. c\<lparr>world := al\<rparr>); pass (Inr ()) })\<rparr>"

definition sample_access :: "(string, AccessList) access_ctx" where
  "sample_access = \<lparr>notices = [], undoRegistry = Map.empty, nonce = 0, console_error = [],
     world = \<lparr>al_allowed_clients = None, al_disallowed_clients = None, al_blocked_hosts = None\<rparr>,
     access = initialState\<rparr>"

theorem getAccessList_settles_witness:
  "let api = stored_api\<lparr>accessList := pass (Inl ''offline'')\<rparr> in
   ''offline'' \<in> message ` set (notices (exec (getAccessList sample_env api) sample_access))"
  using getAccessList_settles [of sample_env "stored_api\<lparr>accessList := pass (Inl ''offline'')\<rparr>" sample_access]
  by (simp add: Let_def)

text \<open>
  What is saved is what is shown after a reload: against a backend that keeps what it is
  given (a later list request answers the value of the last set request), saving the three texts
  and loading again leaves in the store exactly the non-blank lines of each text, in order.
\<close>

theorem setAccessList_roundtrip:
  assumes list_answers: "\<And>d. result (accessList api) d = Inr (stored (world d))"
    and set_accepts: "\<And>al d. result (accessSet api al) d = Inr ()"
    and set_stores: "\<And>al d. stored (world (exec (accessSet api al) d)) = al"
  shows "let values = \<lparr>v_allowed_clients = Some a, v_disallowed_clients = Some d, v_blocked_hosts = Some b\<rparr>;
             s = access (exec (getAccessList env api) (exec (setAccessList env api values) c))
         in allowed_clients s = join_lines (splitByNewLine (Some a)) \<and>
            disallowed_clients s = join_lines (splitByNewLine (Some d)) \<and>
            blocked_hosts s = join_lines (splitByNewLine (Some b))"
  by (simp add: getAccessList_def setAccessList_def run_try_call list_answers set_accepts set_stores
      lines_if_defined_def joined_def Let_def)

theorem setAccessList_roundtrip_witness:
  "let values = \<lparr>v_allowed_clients = Some ''a'', v_disallowed_clients = Some ''b'', v_blocked_hosts = Some ''c''\<rparr>
   in allowed_clients (access (exec (getAccessList sample_env stored_api)
        (exec (setAccessList sample_env stored_api values) sample_access)))
      = join_lines (splitByNewLine (Some ''a''))"
  using setAccessList_roundtrip [of stored_api id "''a''" "''b''" "''c''" sample_env sample_access]
  by (simp add: stored_api_def Let_def)

text \<open>An entry that decides about an address: the address itself, in any spelling, or a network that contains it.\<close>

definition covers :: "('a, 'p) netip \<Rightarrow> 'a \<Rightarrow> string \<Rightarrow> bool" where
  "covers N a s =
     (case ParseAddr N s of
        Some b \<Rightarrow> b = a
      | None \<Rightarrow> (case ParsePrefix N s of Some p \<Rightarrow> Contains N p a | None \<Rightarrow> False))"

definition entry_ok :: "('a, 'p) netip \<Rightarrow> string \<Rightarrow> bool" where
  "entry_ok N s \<longleftrightarrow> ParseAddr N s \<noteq> None \<or> ParsePrefix N s \<noteq> None \<or> validClientID N s"

lemma processAccessClients_ok:
  "(\<exists>r. processAccessClients N ss acc = Inr r) \<longleftrightarrow> (\<forall>s\<in>set ss. entry_ok N s)"
proof (induction ss arbitrary: acc)
  case (Cons s ss)
  obtain ips nets ids where [simp]: "acc = (ips, nets, ids)" by (metis prod_cases3)
  show ?case
    by (cases "ParseAddr N s"; cases "ParsePrefix N s"; cases "validClientID N s")
      (simp_all add: Cons.IH entry_ok_def del: split_paired_Ex)
qed (simp del: split_paired_Ex)

lemma processAccessClients_covers:
  "processAccessClients N ss (ips, nets, ids) = Inr (ips', nets', ids') \<Longrightarrow>
     (a \<in> ips' \<or> (\<exists>n\<in>set nets'. Contains N n a) \<longleftrightarrow> a \<in> ips \<or> (\<exists>n\<in>set nets. Contains N n a) \<or> (\<exists>s\<in>set ss. covers N a s)) \<and>
     (ips' = {} \<and> nets' = [] \<and> ids' = {} \<longleftrightarrow> ips = {} \<and> nets = [] \<and> ids = {} \<and> ss = [])"
  by (induction ss arbitrary: ips nets ids)
    (fastforce simp: covers_def split: option.splits if_splits)+

text \<open>The decision for a client that is known by its address only.\<close>

lemma decision:
  assumes "handleAccessSet N l = Some m"
  shows "fst (IsBlockedClient N m (Some a) []) \<longleftrightarrow>
    (if l_allowed_clients l \<noteq> [] then \<forall>s\<in>set (l_allowed_clients l). \<not> covers N a s
     else \<exists>s\<in>set (l_disallowed_clients l). covers N a s)"
proof -
  obtain ips nets ids bips bnets bids where
    p: "processAccessClients N (l_allowed_clients l) ({}, [], {}) = Inr (ips, nets, ids)"
      "processAccessClients N (l_disallowed_clients l) ({}, [], {}) = Inr (bips, bnets, bids)"
    and m: "m = \<lparr>allowedIPs = ips, blockedIPs = bips, allowedClientIDs = ids, blockedClientIDs = bids,
      allowedNets = nets, blockedNets = bnets\<rparr>"
    using assms by (auto simp: handleAccessSet_def newAccessCtx_def split: if_splits sum.splits prod.splits)
  have mode: "allowlistMode m \<longleftrightarrow> l_allowed_clients l \<noteq> []"
    using processAccessClients_covers [OF p(1)] by (auto simp: allowlistMode_def m)
  have dec: "fst (isBlockedIP N m a) \<longleftrightarrow> (if allowlistMode m then \<not> (a \<in> ips \<or> (\<exists>n\<in>set nets. Contains N n a))
      else a \<in> bips \<or> (\<exists>n\<in>set bnets. Contains N n a))"
    by (auto simp: isBlockedIP_def m Let_def find_None_iff find_Some_iff split: option.splits)
  then show ?thesis
    using processAccessClients_covers [OF p(1), of a] processAccessClients_covers [OF p(2), of a]
    by (auto simp: IsBlockedClient_def isBlockedClientID_def mode split_beta Let_def)
qed

lemma handleAccessSet_accepts:
  "(\<exists>m. handleAccessSet N l = Some m) \<longleftrightarrow>
     validateAccessSet l \<and> (\<forall>s\<in>set (l_allowed_clients l) \<union> set (l_disallowed_clients l). entry_ok N s)"
proof -
  have "(\<exists>m. newAccessCtx N al bl = Inr m) \<longleftrightarrow> (\<forall>s\<in>set al. entry_ok N s) \<and> (\<forall>s\<in>set bl. entry_ok N s)" for al bl
    unfolding processAccessClients_ok [of N _ "({}, [], {})", symmetric]
    by (auto simp: newAccessCtx_def split: sum.splits prod.splits)
  from this [of "l_allowed_clients l" "l_disallowed_clients l"] show ?thesis
    by (cases "newAccessCtx N (l_allowed_clients l) (l_disallowed_clients l)") (auto simp: handleAccessSet_def)
qed


text \<open>Addresses for the witness: four numbers between dots, and no networks.\<close>

definition sample_netip :: "(string, unit) netip" where
  "sample_netip = \<lparr>ParseAddr = (\<lambda>s. if length (filter (\<lambda>c. c = CHR ''.'') s) = 3 then Some s else None), ParsePrefix = (\<lambda>_. None),
     Contains = (\<lambda>_ _. False), addrString = id, prefixString = (\<lambda>_. []), validClientID = (\<lambda>_. True)\<rparr>"


text \<open>
  Blocking the only entry of the allowlist does not block it: the list becomes empty, the
  server leaves allowlist mode, and with an empty blocklist every address is
  let through. The page reports the client as blocked.
\<close>

theorem block_last_allowed_unblocks:
  assumes "handleAccessSet N (getNextClientAccessList
      \<lparr>al_allowed_clients = Some [ip], al_disallowed_clients = Some [], al_blocked_hosts = b\<rparr> ip False rule) = Some m"
  shows "\<not> fst (IsBlockedClient N m (Some other) [])"
  using decision [OF assms, of other] by (simp add: getNextClientAccessList_def lists_of_def removeValue_def Let_def)

text \<open>
  Unblocking and blocking are inverse on the blocklist: outside allowlist mode, blocking an
  address that is not listed and then unblocking it restores all three lists.
\<close>

theorem block_unblock_identity:
  assumes "nullish (al_allowed_clients al) [] = []"
    and "ip \<notin> set (nullish (al_disallowed_clients al) [])"
  shows "getNextClientAccessList (list_payload (getNextClientAccessList al ip False r)) ip True []
       = lists_of al"
  using assms
  by (simp add: getNextClientAccessList_def lists_of_def list_payload_def removeValue_addUnique
      or_str_def Let_def)

theorem block_unblock_identity_witness:
  "getNextClientAccessList (list_payload (getNextClientAccessList
      \<lparr>al_allowed_clients = None, al_disallowed_clients = Some [''b''], al_blocked_hosts = None\<rparr>
      ''a'' False [])) ''a'' True []
   = lists_of \<lparr>al_allowed_clients = None, al_disallowed_clients = Some [''b''], al_blocked_hosts = None\<rparr>"
  by (rule block_unblock_identity) simp_all

text \<open>
  Both saving actions always release \<open>processingSet\<close>, whatever the requests answer and
  whatever runs in between.
\<close>

theorem access_saving_settles:
  "\<not> processingSet (access (exec (setAccessList env api values) c)) \<and>
   \<not> processingSet (access (exec (toggleClientBlock env api ip dis rule) c))"
  by (simp add: setAccessList_def toggleClientBlock_def run_try_call Let_def split: sum.splits)

end
