(* ===== verification/ReduxAccess.thy ===== *)
theory ReduxAccess
  imports ReduxCore Access
begin

section \<open>Access lists in the React client\<close>

text \<open>
  \<^verbatim>\<open>client/src/actions/access.ts\<close> and \<^verbatim>\<open>client/src/reducers/access.ts\<close>. The payloads of the two endpoints
  are those of the newer store (\<open>AccessList\<close>). The end of the theory runs both clients against one server.
\<close>

record rx_access =
  processing :: bool
  processingSet :: bool
  allowed_clients :: string
  disallowed_clients :: string
  blocked_hosts :: string

definition access_initial :: rx_access where
  "access_initial = \<lparr>processing = True, processingSet = False, allowed_clients = [],
     disallowed_clients = [], blocked_hosts = []\<rparr>"

datatype access_action =
    GetAccessListRequest | GetAccessListFailure | GetAccessListSuccess AccessList
  | SetAccessListRequest | SetAccessListFailure | SetAccessListSuccess
  | ToggleClientBlockRequest | ToggleClientBlockFailure | ToggleClientBlockSuccess AccessList

definition show_lists :: "AccessList \<Rightarrow> rx_access \<Rightarrow> rx_access" where
  "show_lists payload s = s\<lparr>allowed_clients := joined (al_allowed_clients payload),
     disallowed_clients := joined (al_disallowed_clients payload),
     blocked_hosts := joined (al_blocked_hosts payload)\<rparr>"

fun access_reducer :: "access_action \<Rightarrow> rx_access \<Rightarrow> rx_access" where
  "access_reducer GetAccessListRequest s = s\<lparr>processing := True\<rparr>"
| "access_reducer GetAccessListFailure s = s\<lparr>processing := False\<rparr>"
| "access_reducer (GetAccessListSuccess payload) s = (show_lists payload s)\<lparr>processing := False\<rparr>"
| "access_reducer SetAccessListRequest s = s\<lparr>processingSet := True\<rparr>"
| "access_reducer SetAccessListFailure s = s\<lparr>processingSet := False\<rparr>"
| "access_reducer SetAccessListSuccess s = s\<lparr>processingSet := False\<rparr>"
| "access_reducer ToggleClientBlockRequest s = s\<lparr>processingSet := True\<rparr>"
| "access_reducer ToggleClientBlockFailure s = s\<lparr>processingSet := False\<rparr>"
| "access_reducer (ToggleClientBlockSuccess payload) s = (show_lists payload s)\<lparr>processingSet := False\<rparr>"

record 'w access_rx = "'w rx" +
  access :: rx_access

interpretation access_slice: rx_frame access
  by unfold_locales simp_all

abbreviation dispatch :: "access_action \<Rightarrow> (('w, 'm) access_rx_scheme, unit) state" where
  "dispatch a \<equiv> modify (\<lambda>c. c\<lparr>access := access_reducer a (access c)\<rparr>)"

record 'c rx_access_api =
  api_getAccessList :: "('c, AccessList) call"
  api_setAccessList :: "AccessList \<Rightarrow> ('c, unit) call"

subsection \<open>Thunks\<close>

definition splitByNewLine :: "string \<Rightarrow> string list" where
  "splitByNewLine t = filter (\<lambda>n. trim n \<noteq> []) (split_lines t)"

definition getAccessList ::
  "env \<Rightarrow> ('w, 'm) access_rx_scheme rx_access_api \<Rightarrow> (('w, 'm) access_rx_scheme, unit) state" where
  "getAccessList env api = do {
     dispatch GetAccessListRequest;
     try_call (api_getAccessList api)
       (\<lambda>data. dispatch (GetAccessListSuccess data))
       (\<lambda>e. do { error_toast env e; dispatch GetAccessListFailure }) }"

definition setAccessList ::
  "env \<Rightarrow> ('w, 'm) access_rx_scheme rx_access_api \<Rightarrow> string \<Rightarrow> string \<Rightarrow> string
     \<Rightarrow> (('w, 'm) access_rx_scheme, unit) state" where
  "setAccessList env api allowed disallowed hosts = do {
     dispatch SetAccessListRequest;
     try_call (api_setAccessList api \<lparr>al_allowed_clients = Some (splitByNewLine allowed),
         al_disallowed_clients = Some (splitByNewLine disallowed), al_blocked_hosts = Some (splitByNewLine hosts)\<rparr>)
       (\<lambda>_. do { dispatch SetAccessListSuccess; success_toast env ''access_settings_saved'' })
       (\<lambda>e. do { error_toast env e; dispatch SetAccessListFailure }) }"

definition addUnique :: "string list \<Rightarrow> string \<Rightarrow> string list" where
  "addUnique items v = (if v \<in> set items then items else items @ [v])"

definition removeValue :: "string list \<Rightarrow> string \<Rightarrow> string list" where
  "removeValue items v = filter (\<lambda>item. item \<noteq> v) items"

definition getNextClientAccessList :: "AccessList \<Rightarrow> string \<Rightarrow> bool \<Rightarrow> string \<Rightarrow> AccessList" where
  "getNextClientAccessList list ip disallowed disallowedRule =
     (let hosts = nullish (al_blocked_hosts list) [];
          allowed = nullish (al_allowed_clients list) [];
          dis = nullish (al_disallowed_clients list) [];
          values = \<lparr>al_allowed_clients = Some allowed, al_disallowed_clients = Some dis, al_blocked_hosts = Some hosts\<rparr>;
          isAllowlistMode = (length allowed > 0)
      in if disallowed \<and> isAllowlistMode then values\<lparr>al_allowed_clients := Some (addUnique allowed ip)\<rparr>
         else if disallowed then values\<lparr>al_disallowed_clients := Some (removeValue dis (or_str disallowedRule ip))\<rparr>
         else if isAllowlistMode then values\<lparr>al_allowed_clients := Some (removeValue allowed ip)\<rparr>
         else values\<lparr>al_disallowed_clients := Some (addUnique dis ip)\<rparr>)"

definition toggleClientBlock ::
  "env \<Rightarrow> ('w, 'm) access_rx_scheme rx_access_api \<Rightarrow> string \<Rightarrow> bool \<Rightarrow> string
     \<Rightarrow> (('w, 'm) access_rx_scheme, unit) state" where
  "toggleClientBlock env api ip disallowed disallowed_rule =
     (let fail = (\<lambda>e. do { error_toast env e; dispatch ToggleClientBlockFailure })
      in do {
        dispatch ToggleClientBlockRequest;
        try_call (api_getAccessList api)
          (\<lambda>list.
             let values = getNextClientAccessList list ip disallowed disallowed_rule
             in try_call (api_setAccessList api values)
                  (\<lambda>_. do {
                     dispatch (ToggleClientBlockSuccess values);
                     (if disallowed
                      then success_toast env (getMessage env ''client_unblocked'' [(''ip'', SArg (or_str disallowed_rule ip))])
                      else success_toast env (getMessage env ''client_blocked'' [(''ip'', SArg ip)])) })
                  fail)
          fail })"

subsection \<open>The same server behind both clients\<close>

text \<open>
  A server is a function of its state; a client's request runs it on the server's side of the context
  and leaves the rest alone.
\<close>

definition rx_request :: "('w \<Rightarrow> (string + 'r) \<times> 'w) \<Rightarrow> (('w, 'm) rx_scheme, 'r) call" where
  "rx_request f = do {
     w \<leftarrow> gets backend;
     modify (\<lambda>c. c\<lparr>backend := snd (f w)\<rparr>);
     pass (fst (f w)) }"

definition v2_request :: "('w \<Rightarrow> (string + 'r) \<times> 'w) \<Rightarrow> (('u, 'w, 'm) ctx_scheme, 'r) call" where
  "v2_request f = do {
     w \<leftarrow> gets world;
     modify (\<lambda>c. c\<lparr>world := snd (f w)\<rparr>);
     pass (fst (f w)) }"

lemma run_requests [simp]:
  "run_state (rx_request f) c = (fst (f (backend c)), c\<lparr>backend := snd (f (backend c))\<rparr>)"
  "run_state (v2_request f) d = (fst (f (world d)), d\<lparr>world := snd (f (world d))\<rparr>)"
  by (simp_all add: rx_request_def v2_request_def)

definition rx_api ::
  "('w \<Rightarrow> (string + AccessList) \<times> 'w) \<Rightarrow> (AccessList \<Rightarrow> 'w \<Rightarrow> (string + unit) \<times> 'w)
     \<Rightarrow> ('w, 'm) access_rx_scheme rx_access_api" where
  "rx_api get put = \<lparr>api_getAccessList = rx_request get, api_setAccessList = (\<lambda>v. rx_request (put v))\<rparr>"

definition v2_api ::
  "('w \<Rightarrow> (string + AccessList) \<times> 'w) \<Rightarrow> (AccessList \<Rightarrow> 'w \<Rightarrow> (string + unit) \<times> 'w)
     \<Rightarrow> ('u, 'w, 'm) access_ctx_scheme access_api" where
  "v2_api get put = \<lparr>accessList = v2_request get, accessSet = (\<lambda>v. v2_request (put v))\<rparr>"

text \<open>The texts both clients show, and that they agree.\<close>

definition same_lists :: "rx_access \<Rightarrow> AccessState \<Rightarrow> bool" where
  "same_lists s t \<longleftrightarrow> allowed_clients s = AccessState.allowed_clients t \<and>
     disallowed_clients s = AccessState.disallowed_clients t \<and> blocked_hosts s = AccessState.blocked_hosts t"

lemma next_list_agrees:
  "getNextClientAccessList al ip dis r = list_payload (Access.getNextClientAccessList al ip dis r)"
  by (simp add: getNextClientAccessList_def Access.getNextClientAccessList_def list_payload_def lists_of_def
      addUnique_def Access.addUnique_def removeValue_def Access.removeValue_def Let_def)

lemma splitByNewLine_agrees: "splitByNewLine t = TextHelpers.splitByNewLine (Some t)"
  by (simp add: splitByNewLine_def TextHelpers.splitByNewLine_def trim_def trimStart_def)

lemma list_payload_sel [simp]:
  "al_allowed_clients (list_payload v) = Some (l_allowed_clients v)"
  "al_disallowed_clients (list_payload v) = Some (l_disallowed_clients v)"
  "al_blocked_hosts (list_payload v) = Some (l_blocked_hosts v)"
  by (simp_all add: list_payload_def)

text \<open>
  C20. Blocking or unblocking a client does the same in both clients: against one server, whatever it answers
  and however it changes, they leave it in the same state and, if they showed the same lists before, show the same
  lists after.
\<close>

theorem clients_toggle_alike:
  assumes "backend c = world d" "same_lists (access c) (Access.access d)"
  shows "let c' = exec (toggleClientBlock env (rx_api get put) ip dis r) c;
             d' = exec (Access.toggleClientBlock env' (v2_api get put) ip dis r) d
         in backend c' = world d' \<and> same_lists (access c') (Access.access d')"
  using assms
  by (simp add: toggleClientBlock_def Access.toggleClientBlock_def rx_api_def v2_api_def run_try_call Let_def
      next_list_agrees same_lists_def show_lists_def joined_def split: sum.splits)

definition sample_access_rx :: "AccessList access_rx" where
  "sample_access_rx = rx.extend
     (sample_rx \<lparr>al_allowed_clients = None, al_disallowed_clients = None, al_blocked_hosts = None\<rparr>) (access_rx.fields access_initial)"

theorem clients_toggle_alike_witness:
  "backend (exec (toggleClientBlock sample_env (rx_api (\<lambda>w. (Inr w, w)) (\<lambda>v w. (Inr (), v))) ''1.2.3.4'' False []) sample_access_rx) =
   world (exec (Access.toggleClientBlock sample_env (v2_api (\<lambda>w. (Inr w, w)) (\<lambda>v w. (Inr (), v))) ''1.2.3.4'' False []) sample_access)"
  using clients_toggle_alike [of sample_access_rx sample_access sample_env "\<lambda>w. (Inr w, w)" "\<lambda>v w. (Inr (), v)" "''1.2.3.4''" False "[]" sample_env]
  by (simp add: sample_access_rx_def sample_access_def sample_rx_def rx.extend_def access_rx.fields_def access_initial_def
      Access.initialState_def same_lists_def Let_def)

text \<open>
  Saving the form: both clients send the same lists, so the server ends in the same state. Only the newer store
  takes the saved texts over; the React client keeps showing the lists it loaded until it loads them again.
\<close>

theorem clients_save_alike:
  assumes "backend c = world d"
  shows "let c' = exec (setAccessList env (rx_api get put) a b h) c;
             d' = exec (Access.setAccessList env' (v2_api get put)
                    \<lparr>v_allowed_clients = Some a, v_disallowed_clients = Some b, v_blocked_hosts = Some h\<rparr>) d
         in backend c' = world d' \<and> (access c')\<lparr>processingSet := False\<rparr> = (access c)\<lparr>processingSet := False\<rparr>"
  using assms
  by (simp add: setAccessList_def Access.setAccessList_def rx_api_def v2_api_def run_try_call lines_if_defined_def
      splitByNewLine_agrees Let_def split: sum.splits)

end
