(* ===== verification/ReduxApi.thy ===== *)
theory ReduxApi
  imports Fetch ReduxCore
begin

section \<open>Requests of the React client\<close>

text \<open>
  \<^verbatim>\<open>client/src/api/fetch.ts\<close> and \<^verbatim>\<open>client/src/api/Api.ts\<close>: what is sent for each method of the client, what becomes of the
  answer, and how the profile is changed. The browser's \<open>fetch\<close>, \<open>JSON\<close>, \<open>URLSearchParams\<close> and the text that \<open>String\<close> makes of
  a JSON value are parameters, as for the newer request wrapper, whose state of the browser is used here too.
\<close>

subsection \<open>One request\<close>

record ('c, 'j) rx_platform = "('c, 'j) platform" +
  js_String :: "'j \<Rightarrow> string"
  searchParams :: "(string \<times> string) list \<Rightarrow> string"

record 'j request_config =
  config_data :: "(string + 'j) option"
  config_headers :: "(string \<times> string) list"

definition parseResponseData :: "('c, 'j) rx_platform \<Rightarrow> http_response \<Rightarrow> string + 'j" where
  "parseResponseData pf r =
     (if http_status r = 204 \<or> http_status r = 205 then Inl []
      else if body_text r = [] then Inl []
      else nullish (parse pf (body_text r)) (Inl (body_text r)))"

text \<open>The names of headers are compared without regard to case.\<close>

definition content_type :: "(string \<times> string) list \<Rightarrow> string option" where
  "content_type hs = map_option snd (find (\<lambda>(k, _). toLowerCase k = ''content-type'') hs)"

definition shouldEncodeJSON :: "string option \<Rightarrow> string + 'j \<Rightarrow> bool" where
  "shouldEncodeJSON ct data \<longleftrightarrow> \<not> isl data \<and>
     (case ct of None \<Rightarrow> True | Some t \<Rightarrow> t = [] \<or> includes_str (toLowerCase t) ''application/json'')"

definition data_string :: "('c, 'j) rx_platform \<Rightarrow> string + 'j \<Rightarrow> string" where
  "data_string pf d = (case d of Inl s \<Rightarrow> s | Inr j \<Rightarrow> js_String pf j)"

definition fetch_init :: "('c, 'j) rx_platform \<Rightarrow> string \<Rightarrow> string \<Rightarrow> 'j request_config \<Rightarrow> request" where
  "fetch_init pf url mth config =
     (case config_data config of
        Some data \<Rightarrow>
          if mth \<noteq> ''GET'' \<and> mth \<noteq> ''HEAD''
          then let hs = (if content_type (config_headers config) = None
                         then config_headers config @ [(''Content-Type'', ''application/json'')] else config_headers config)
               in \<lparr>req_url = url, req_method = mth, req_headers = hs,
                    req_body = Some (if shouldEncodeJSON (content_type hs) data
                      then (case data of Inl s \<Rightarrow> s | Inr j \<Rightarrow> stringify pf j) else data_string pf data)\<rparr>
          else \<lparr>req_url = url, req_method = mth, req_headers = config_headers config, req_body = None\<rparr>
      | None \<Rightarrow> \<lparr>req_url = url, req_method = mth, req_headers = config_headers config, req_body = None\<rparr>)"

text \<open>An error carries the answer, or has a message only.\<close>

datatype 'j fetch_error = ResponseError string "string + 'j" nat | OtherError string

definition fetchRequest ::
  "(('w, 'm) net_ctx_scheme, 'j) rx_platform \<Rightarrow> string \<Rightarrow> string \<Rightarrow> 'j request_config
     \<Rightarrow> (('w, 'm) net_ctx_scheme, 'j fetch_error + (string + 'j)) state" where
  "fetchRequest pf url mth config =
     try_call (fetch pf (fetch_init pf url mth config))
       (\<lambda>r. let data = parseResponseData pf r
            in if ok r then pass (Inr data)
               else pass (Inl (ResponseError (httpError url (data_string pf data) (http_status r)) data (http_status r))))
       (\<lambda>e. pass (Inl (OtherError e)))"

definition BASE_URL :: string where "BASE_URL = ''control''"

definition makeRequest ::
  "(('w, 'm) net_ctx_scheme, 'j) rx_platform \<Rightarrow> string \<Rightarrow> string \<Rightarrow> 'j request_config
     \<Rightarrow> (('w, 'm) net_ctx_scheme, 'j fetched) call" where
  "makeRequest pf path mth config =
     (let url = BASE_URL @ ''/'' @ path
      in do {
        r \<leftarrow> fetchRequest pf url mth config;
        (case r of
           Inr data \<Rightarrow> pass (Inr (Fetched data))
         | Inl (ResponseError m data st) \<Rightarrow> do {
             here \<leftarrow> gets pathname;
             (if st = 403 \<and> here \<noteq> LOGIN \<and> here \<noteq> INSTALL
              then do {
                modify (\<lambda>c. c\<lparr>replaced := replaced c @ [replaceLastPart (href c) LOGIN]\<rparr>);
                pass (Inr FalseValue) }
              else pass (Inl (httpError url (data_string pf data) st))) }
         | Inl (OtherError e) \<Rightarrow> pass (Inl (url @ sep @ e))) })"

subsection \<open>The methods of the client\<close>

text \<open>Path, method and data of each method, in the order and the groups of the class.\<close>

record 'j route =
  rt_path :: string
  rt_method :: string
  rt_data :: "'j option"

datatype 'j global_call =
    CallGetGlobalStatus
  | CallTestUpstream 'j
  | CallGetGlobalVersion 'j
  | CallGetUpdate

fun global_route :: "'j global_call \<Rightarrow> 'j route" where
  "global_route CallGetGlobalStatus = \<lparr>rt_path = ''status'', rt_method = ''GET'', rt_data = None\<rparr>"
| "global_route (CallTestUpstream data) = \<lparr>rt_path = ''test_upstream_dns'', rt_method = ''POST'', rt_data = Some data\<rparr>"
| "global_route (CallGetGlobalVersion data) = \<lparr>rt_path = ''version.json'', rt_method = ''POST'', rt_data = Some data\<rparr>"
| "global_route CallGetUpdate = \<lparr>rt_path = ''update'', rt_method = ''POST'', rt_data = None\<rparr>"

datatype 'j filtering_call =
    CallGetFilteringStatus
  | CallRefreshFilters 'j
  | CallAddFilter 'j
  | CallRemoveFilter 'j
  | CallSetRules 'j
  | CallSetFiltersConfig 'j
  | CallSetFilterUrl 'j

fun filtering_route :: "'j filtering_call \<Rightarrow> 'j route" where
  "filtering_route CallGetFilteringStatus = \<lparr>rt_path = ''filtering/status'', rt_method = ''GET'', rt_data = None\<rparr>"
| "filtering_route (CallRefreshFilters data) = \<lparr>rt_path = ''filtering/refresh'', rt_method = ''POST'', rt_data = Some data\<rparr>"
| "filtering_route (CallAddFilter data) = \<lparr>rt_path = ''filtering/add_url'', rt_method = ''POST'', rt_data = Some data\<rparr>"
| "filtering_route (CallRemoveFilter data) = \<lparr>rt_path = ''filtering/remove_url'', rt_method = ''POST'', rt_data = Some data\<rparr>"
| "filtering_route (CallSetRules data) = \<lparr>rt_path = ''filtering/set_rules'', rt_method = ''POST'', rt_data = Some data\<rparr>"
| "filtering_route (CallSetFiltersConfig data) = \<lparr>rt_path = ''filtering/config'', rt_method = ''POST'', rt_data = Some data\<rparr>"
| "filtering_route (CallSetFilterUrl data) = \<lparr>rt_path = ''filtering/set_url'', rt_method = ''POST'', rt_data = Some data\<rparr>"

datatype 'j safety_call =
    CallGetParentalStatus
  | CallEnableParentalControl
  | CallDisableParentalControl
  | CallGetSafebrowsingStatus
  | CallEnableSafebrowsing
  | CallDisableSafebrowsing
  | CallGetSafesearchStatus
  | CallUpdateSafesearch 'j

fun safety_route :: "'j safety_call \<Rightarrow> 'j route" where
  "safety_route CallGetParentalStatus = \<lparr>rt_path = ''parental/status'', rt_method = ''GET'', rt_data = None\<rparr>"
| "safety_route CallEnableParentalControl = \<lparr>rt_path = ''parental/enable'', rt_method = ''POST'', rt_data = None\<rparr>"
| "safety_route CallDisableParentalControl = \<lparr>rt_path = ''parental/disable'', rt_method = ''POST'', rt_data = None\<rparr>"
| "safety_route CallGetSafebrowsingStatus = \<lparr>rt_path = ''safebrowsing/status'', rt_method = ''GET'', rt_data = None\<rparr>"
| "safety_route CallEnableSafebrowsing = \<lparr>rt_path = ''safebrowsing/enable'', rt_method = ''POST'', rt_data = None\<rparr>"
| "safety_route CallDisableSafebrowsing = \<lparr>rt_path = ''safebrowsing/disable'', rt_method = ''POST'', rt_data = None\<rparr>"
| "safety_route CallGetSafesearchStatus = \<lparr>rt_path = ''safesearch/status'', rt_method = ''GET'', rt_data = None\<rparr>"
| "safety_route (CallUpdateSafesearch data) = \<lparr>rt_path = ''safesearch/settings'', rt_method = ''PUT'', rt_data = Some data\<rparr>"

datatype 'j dhcp_call =
    CallGetDhcpStatus
  | CallGetDhcpInterfaces
  | CallSetDhcpConfig 'j
  | CallFindActiveDhcp 'j
  | CallAddStaticLease 'j
  | CallRemoveStaticLease 'j
  | CallUpdateStaticLease 'j
  | CallResetDhcp
  | CallResetDhcpLeases

fun dhcp_route :: "'j dhcp_call \<Rightarrow> 'j route" where
  "dhcp_route CallGetDhcpStatus = \<lparr>rt_path = ''dhcp/status'', rt_method = ''GET'', rt_data = None\<rparr>"
| "dhcp_route CallGetDhcpInterfaces = \<lparr>rt_path = ''dhcp/interfaces'', rt_method = ''GET'', rt_data = None\<rparr>"
| "dhcp_route (CallSetDhcpConfig data) = \<lparr>rt_path = ''dhcp/set_config'', rt_method = ''POST'', rt_data = Some data\<rparr>"
| "dhcp_route (CallFindActiveDhcp data) = \<lparr>rt_path = ''dhcp/find_active_dhcp'', rt_method = ''POST'', rt_data = Some data\<rparr>"
| "dhcp_route (CallAddStaticLease data) = \<lparr>rt_path = ''dhcp/add_static_lease'', rt_method = ''POST'', rt_data = Some data\<rparr>"
| "dhcp_route (CallRemoveStaticLease data) = \<lparr>rt_path = ''dhcp/remove_static_lease'', rt_method = ''POST'', rt_data = Some data\<rparr>"
| "dhcp_route (CallUpdateStaticLease data) = \<lparr>rt_path = ''dhcp/update_static_lease'', rt_method = ''POST'', rt_data = Some data\<rparr>"
| "dhcp_route CallResetDhcp = \<lparr>rt_path = ''dhcp/reset'', rt_method = ''POST'', rt_data = None\<rparr>"
| "dhcp_route CallResetDhcpLeases = \<lparr>rt_path = ''dhcp/reset_leases'', rt_method = ''POST'', rt_data = None\<rparr>"

datatype 'j install_call =
    CallGetDefaultAddresses
  | CallSetAllSettings 'j
  | CallCheckConfig 'j

fun install_route :: "'j install_call \<Rightarrow> 'j route" where
  "install_route CallGetDefaultAddresses = \<lparr>rt_path = ''install/get_addresses'', rt_method = ''GET'', rt_data = None\<rparr>"
| "install_route (CallSetAllSettings data) = \<lparr>rt_path = ''install/configure'', rt_method = ''POST'', rt_data = Some data\<rparr>"
| "install_route (CallCheckConfig data) = \<lparr>rt_path = ''install/check_config'', rt_method = ''POST'', rt_data = Some data\<rparr>"

datatype 'j tls_call =
    CallGetTlsStatus
  | CallSetTlsConfig 'j
  | CallValidateTlsConfig 'j

fun tls_route :: "'j tls_call \<Rightarrow> 'j route" where
  "tls_route CallGetTlsStatus = \<lparr>rt_path = ''tls/status'', rt_method = ''GET'', rt_data = None\<rparr>"
| "tls_route (CallSetTlsConfig data) = \<lparr>rt_path = ''tls/configure'', rt_method = ''POST'', rt_data = Some data\<rparr>"
| "tls_route (CallValidateTlsConfig data) = \<lparr>rt_path = ''tls/validate'', rt_method = ''POST'', rt_data = Some data\<rparr>"

datatype 'j clients_call =
    CallGetClients
  | CallAddClient 'j
  | CallDeleteClient 'j
  | CallUpdateClient 'j
  | CallSearchClients 'j
  | CallGetAccessList
  | CallSetAccessList 'j

fun clients_route :: "'j clients_call \<Rightarrow> 'j route" where
  "clients_route CallGetClients = \<lparr>rt_path = ''clients'', rt_method = ''GET'', rt_data = None\<rparr>"
| "clients_route (CallAddClient data) = \<lparr>rt_path = ''clients/add'', rt_method = ''POST'', rt_data = Some data\<rparr>"
| "clients_route (CallDeleteClient data) = \<lparr>rt_path = ''clients/delete'', rt_method = ''POST'', rt_data = Some data\<rparr>"
| "clients_route (CallUpdateClient data) = \<lparr>rt_path = ''clients/update'', rt_method = ''POST'', rt_data = Some data\<rparr>"
| "clients_route (CallSearchClients data) = \<lparr>rt_path = ''clients/search'', rt_method = ''POST'', rt_data = Some data\<rparr>"
| "clients_route CallGetAccessList = \<lparr>rt_path = ''access/list'', rt_method = ''GET'', rt_data = None\<rparr>"
| "clients_route (CallSetAccessList data) = \<lparr>rt_path = ''access/set'', rt_method = ''POST'', rt_data = Some data\<rparr>"

datatype 'j rewrites_call =
    CallGetRewritesList
  | CallAddRewrite 'j
  | CallUpdateRewrite 'j
  | CallUpdateRewriteSettings 'j
  | CallDeleteRewrite 'j
  | CallGetRewriteSettings

fun rewrites_route :: "'j rewrites_call \<Rightarrow> 'j route" where
  "rewrites_route CallGetRewritesList = \<lparr>rt_path = ''rewrite/list'', rt_method = ''GET'', rt_data = None\<rparr>"
| "rewrites_route (CallAddRewrite data) = \<lparr>rt_path = ''rewrite/add'', rt_method = ''POST'', rt_data = Some data\<rparr>"
| "rewrites_route (CallUpdateRewrite data) = \<lparr>rt_path = ''rewrite/update'', rt_method = ''PUT'', rt_data = Some data\<rparr>"
| "rewrites_route (CallUpdateRewriteSettings data) = \<lparr>rt_path = ''rewrite/settings/update'', rt_method = ''PUT'', rt_data = Some data\<rparr>"
| "rewrites_route (CallDeleteRewrite data) = \<lparr>rt_path = ''rewrite/delete'', rt_method = ''POST'', rt_data = Some data\<rparr>"
| "rewrites_route CallGetRewriteSettings = \<lparr>rt_path = ''rewrite/settings'', rt_method = ''GET'', rt_data = None\<rparr>"

datatype 'j services_call =
    CallGetAllBlockedServices
  | CallGetBlockedServices
  | CallUpdateBlockedServices 'j
  | CallGetStats
  | CallGetStatsConfig
  | CallSetStatsConfig 'j
  | CallResetStats

fun services_route :: "'j services_call \<Rightarrow> 'j route" where
  "services_route CallGetAllBlockedServices = \<lparr>rt_path = ''blocked_services/all'', rt_method = ''GET'', rt_data = None\<rparr>"
| "services_route CallGetBlockedServices = \<lparr>rt_path = ''blocked_services/get'', rt_method = ''GET'', rt_data = None\<rparr>"
| "services_route (CallUpdateBlockedServices data) = \<lparr>rt_path = ''blocked_services/update'', rt_method = ''PUT'', rt_data = Some data\<rparr>"
| "services_route CallGetStats = \<lparr>rt_path = ''stats'', rt_method = ''GET'', rt_data = None\<rparr>"
| "services_route CallGetStatsConfig = \<lparr>rt_path = ''stats/config'', rt_method = ''GET'', rt_data = None\<rparr>"
| "services_route (CallSetStatsConfig data) = \<lparr>rt_path = ''stats/config/update'', rt_method = ''PUT'', rt_data = Some data\<rparr>"
| "services_route CallResetStats = \<lparr>rt_path = ''stats_reset'', rt_method = ''POST'', rt_data = None\<rparr>"

datatype 'j querylog_call =
    CallGetQueryLogConfig
  | CallSetQueryLogConfig 'j
  | CallClearQueryLog
  | CallLogin 'j
  | CallGetProfile
  | CallSetProfile 'j

fun querylog_route :: "'j querylog_call \<Rightarrow> 'j route" where
  "querylog_route CallGetQueryLogConfig = \<lparr>rt_path = ''querylog/config'', rt_method = ''GET'', rt_data = None\<rparr>"
| "querylog_route (CallSetQueryLogConfig data) = \<lparr>rt_path = ''querylog/config/update'', rt_method = ''PUT'', rt_data = Some data\<rparr>"
| "querylog_route CallClearQueryLog = \<lparr>rt_path = ''querylog_clear'', rt_method = ''POST'', rt_data = None\<rparr>"
| "querylog_route (CallLogin data) = \<lparr>rt_path = ''login'', rt_method = ''POST'', rt_data = Some data\<rparr>"
| "querylog_route CallGetProfile = \<lparr>rt_path = ''profile'', rt_method = ''GET'', rt_data = None\<rparr>"
| "querylog_route (CallSetProfile data) = \<lparr>rt_path = ''profile/update'', rt_method = ''PUT'', rt_data = Some data\<rparr>"

datatype 'j dns_call =
    CallGetDnsConfig
  | CallSetDnsConfig 'j
  | CallSetProtection 'j
  | CallClearCache

fun dns_route :: "'j dns_call \<Rightarrow> 'j route" where
  "dns_route CallGetDnsConfig = \<lparr>rt_path = ''dns_info'', rt_method = ''GET'', rt_data = None\<rparr>"
| "dns_route (CallSetDnsConfig data) = \<lparr>rt_path = ''dns_config'', rt_method = ''POST'', rt_data = Some data\<rparr>"
| "dns_route (CallSetProtection data) = \<lparr>rt_path = ''protection'', rt_method = ''POST'', rt_data = Some data\<rparr>"
| "dns_route CallClearCache = \<lparr>rt_path = ''cache_clear'', rt_method = ''POST'', rt_data = None\<rparr>"

text \<open>All of them, with the same data.\<close>

definition all_routes :: "'j \<Rightarrow> 'j route list" where
  "all_routes d =
     map global_route [CallGetGlobalStatus, CallTestUpstream d, CallGetGlobalVersion d, CallGetUpdate] @
     map filtering_route [CallGetFilteringStatus, CallRefreshFilters d, CallAddFilter d, CallRemoveFilter d, CallSetRules d,
       CallSetFiltersConfig d, CallSetFilterUrl d] @
     map safety_route [CallGetParentalStatus, CallEnableParentalControl, CallDisableParentalControl,
       CallGetSafebrowsingStatus, CallEnableSafebrowsing, CallDisableSafebrowsing, CallGetSafesearchStatus,
       CallUpdateSafesearch d] @
     map dhcp_route [CallGetDhcpStatus, CallGetDhcpInterfaces, CallSetDhcpConfig d, CallFindActiveDhcp d,
       CallAddStaticLease d, CallRemoveStaticLease d, CallUpdateStaticLease d, CallResetDhcp, CallResetDhcpLeases] @
     map install_route [CallGetDefaultAddresses, CallSetAllSettings d, CallCheckConfig d] @
     map tls_route [CallGetTlsStatus, CallSetTlsConfig d, CallValidateTlsConfig d] @
     map clients_route [CallGetClients, CallAddClient d, CallDeleteClient d, CallUpdateClient d, CallSearchClients d,
       CallGetAccessList, CallSetAccessList d] @
     map rewrites_route [CallGetRewritesList, CallAddRewrite d, CallUpdateRewrite d, CallUpdateRewriteSettings d,
       CallDeleteRewrite d, CallGetRewriteSettings] @
     map services_route [CallGetAllBlockedServices, CallGetBlockedServices, CallUpdateBlockedServices d, CallGetStats,
       CallGetStatsConfig, CallSetStatsConfig d, CallResetStats] @
     map querylog_route [CallGetQueryLogConfig, CallSetQueryLogConfig d, CallClearQueryLog, CallLogin d, CallGetProfile,
       CallSetProfile d] @
     map dns_route [CallGetDnsConfig, CallSetDnsConfig d, CallSetProtection d, CallClearCache]"

text \<open>The two methods with a query: the limit of a page of the log is set over the given one.\<close>

definition getPathWithQueryString :: "('c, 'j) rx_platform \<Rightarrow> string \<Rightarrow> (string \<times> string) list \<Rightarrow> string" where
  "getPathWithQueryString pf path params = path @ ''?'' @ searchParams pf params"

definition QUERY_LOGS_PAGE_LIMIT :: nat where "QUERY_LOGS_PAGE_LIMIT = 20"

definition set_param :: "string \<Rightarrow> string \<Rightarrow> (string \<times> string) list \<Rightarrow> (string \<times> string) list" where
  "set_param k v ps = (if k \<in> fst ` set ps then map (\<lambda>(a, b). if a = k then (a, v) else (a, b)) ps else ps @ [(k, v)])"

definition getQueryLog_route :: "('c, 'j) rx_platform \<Rightarrow> (string \<times> string) list \<Rightarrow> 'j route" where
  "getQueryLog_route pf params = \<lparr>rt_path = getPathWithQueryString pf ''querylog'' (set_param ''limit'' (show_nat QUERY_LOGS_PAGE_LIMIT) params),
     rt_method = ''GET'', rt_data = None\<rparr>"

definition checkHost_route :: "('c, 'j) rx_platform \<Rightarrow> (string \<times> string) list \<Rightarrow> 'j route" where
  "checkHost_route pf params = \<lparr>rt_path = getPathWithQueryString pf ''filtering/check_host'' params, rt_method = ''GET'', rt_data = None\<rparr>"

definition call_route :: "(('w, 'm) net_ctx_scheme, 'j) rx_platform \<Rightarrow> 'j route \<Rightarrow> (('w, 'm) net_ctx_scheme, 'j fetched) call" where
  "call_route pf rt = makeRequest pf (rt_path rt) (rt_method rt) \<lparr>config_data = map_option Inr (rt_data rt), config_headers = []\<rparr>"

subsection \<open>The profile\<close>

text \<open>A profile that was read, or the \<open>false\<close> of an ended session, to which no key can be added. Language and theme are sent, the name is not.\<close>

record rx_profile =
  pr_name :: string
  pr_language :: string
  pr_theme :: string

definition setProfile :: "(rx_profile \<Rightarrow> ('c, unit) call) \<Rightarrow> string \<Rightarrow> rx_profile \<Rightarrow> ('c, unit) call" where
  "setProfile put lng data = put \<lparr>pr_name = [], pr_language = or_str (pr_language data) (or_str lng ''en''),
     pr_theme = or_str (pr_theme data) ''auto''\<rparr>"

definition changeLanguage ::
  "('c, rx_profile option) call \<Rightarrow> (rx_profile \<Rightarrow> ('c, unit) call) \<Rightarrow> string \<Rightarrow> string \<Rightarrow> ('c, unit) call" where
  "changeLanguage get put lng new =
     try_call get
       (\<lambda>p. case p of None \<Rightarrow> pass (Inl ''TypeError'') | Some profile \<Rightarrow> setProfile put lng (profile\<lparr>pr_language := new\<rparr>))
       (\<lambda>e. pass (Inl e))"

definition changeTheme ::
  "('c, rx_profile option) call \<Rightarrow> (rx_profile \<Rightarrow> ('c, unit) call) \<Rightarrow> string \<Rightarrow> string \<Rightarrow> ('c, unit) call" where
  "changeTheme get put lng new =
     try_call get
       (\<lambda>p. case p of None \<Rightarrow> pass (Inl ''TypeError'') | Some profile \<Rightarrow> setProfile put lng (profile\<lparr>pr_theme := new\<rparr>))
       (\<lambda>e. pass (Inl e))"

subsection \<open>Theorems\<close>

text \<open>
  C21. The two request wrappers agree: whenever the server answers, with a body that is text or with success, the React client and the newer
  interface make the same of it, in the result and in where the browser goes.
\<close>

theorem clients_request_alike:
  assumes "run_state (fetch pf (fetch_init pf (BASE_URL @ ''/'' @ path) mth config)) c = (Inr r, c1)"
    and "http_status r \<in> {204, 205} \<longrightarrow> body_text r = []" and "ok r \<or> isl (parseResponseData pf r)"
  shows "run_state (makeRequest pf path mth config) c =
    run_state (customFetch (platform.truncate pf) (fetch_init pf (BASE_URL @ ''/'' @ path) mth config) False) c"
proof -
  have url: "req_url (fetch_init pf u m k) = u" for u m k
    by (simp add: fetch_init_def Let_def split: option.splits)
  have "parseResponseData pf r = bodyData (platform.truncate pf) (body_text r)"
    using assms(2) by (auto simp: parseResponseData_def bodyData_def platform.truncate_def)
  then show ?thesis
    using assms(1,3)
    by (auto simp: makeRequest_def fetchRequest_def customFetch_def run_try_call url rethrow_httpError bodyString_def data_string_def
        platform.truncate_def Let_def split: sum.splits)
qed

definition refusing :: "(unit net_ctx, unit) rx_platform" where
  "refusing = \<lparr>fetch = (\<lambda>_. pass (Inr \<lparr>ok = False, http_status = 403, body_text = ''Forbidden''\<rparr>)), parse = (\<lambda>_. None),
     stringify = (\<lambda>_. []), js_String = (\<lambda>_. []), searchParams = (\<lambda>_. [])\<rparr>"

theorem clients_request_alike_witness:
  "run_state (makeRequest refusing ''status'' ''GET'' \<lparr>config_data = None, config_headers = []\<rparr>) sample_net =
   run_state (customFetch (platform.truncate refusing)
     (fetch_init refusing (BASE_URL @ ''/'' @ ''status'') ''GET'' \<lparr>config_data = None, config_headers = []\<rparr>) False) sample_net"
  using clients_request_alike [of refusing "''status''" "''GET''" "\<lparr>config_data = None, config_headers = []\<rparr>" sample_net
      "\<lparr>ok = False, http_status = 403, body_text = ''Forbidden''\<rparr>" sample_net]
  by (simp add: refusing_def parseResponseData_def)

text \<open>
  Requests that read have no body: nothing a caller passes along with a GET or HEAD is sent, and a request with data says what it is.
\<close>

theorem rx_request_body:
  "(mth \<in> {''GET'', ''HEAD''} \<longrightarrow> req_body (fetch_init pf url mth config) = None) \<and>
   (mth \<notin> {''GET'', ''HEAD''} \<and> config_data config = Some (Inr j) \<and> config_headers config = [] \<longrightarrow>
      req_body (fetch_init pf url mth config) = Some (stringify pf j) \<and>
      req_headers (fetch_init pf url mth config) = [(''Content-Type'', ''application/json'')])"
proof -
  have "shouldEncodeJSON (content_type [(''Content-Type'', ''application/json'')]) (Inr j :: string + 'b)"
    by (simp add: shouldEncodeJSON_def content_type_def) code_simp
  then show ?thesis by (auto simp: fetch_init_def content_type_def Let_def split: option.splits)
qed

text \<open>Reading methods carry no data, and no two methods of the client are the same request.\<close>

theorem rx_routes_distinct:
  "distinct (map (\<lambda>r. (rt_path r, rt_method r)) (all_routes d)) \<and>
   list_all (\<lambda>r. rt_method r = ''GET'' \<longrightarrow> rt_data r = None) (all_routes d)"
  unfolding all_routes_def by code_simp

text \<open>A change of the language keeps the theme of the profile and the other way round; an empty value becomes its default.\<close>

theorem rx_profile_update_keeps_rest:
  assumes "run_state get c = (Inr (Some p), d)"
  shows "run_state (changeLanguage get put lng new) c =
      run_state (put \<lparr>pr_name = [], pr_language = or_str new (or_str lng ''en''), pr_theme = or_str (pr_theme p) ''auto''\<rparr>) d \<and>
    run_state (changeTheme get put lng new) c =
      run_state (put \<lparr>pr_name = [], pr_language = or_str (pr_language p) (or_str lng ''en''), pr_theme = or_str new ''auto''\<rparr>) d"
  using assms by (simp add: changeLanguage_def changeTheme_def setProfile_def run_try_call)

end
