(* ===== verification/ReduxDashboard.thy ===== *)
theory ReduxDashboard
  imports ReduxCore Settings CodeUnits
begin

section \<open>Dashboard, settings and clients in the React client\<close>

text \<open>
  The thunks of \<^verbatim>\<open>client/src/actions/index.tsx\<close> that are not about DHCP or rules, \<^verbatim>\<open>client/src/actions/clients.ts\<close>, and
  the reducers \<^verbatim>\<open>client/src/reducers/dashboard.ts\<close>, \<^verbatim>\<open>settings.ts\<close> and \<^verbatim>\<open>clients.ts\<close>. The three slices are in one
  context, since the thunks of one dispatch actions of another. The payloads are those of the newer stores.
  The polling of \<open>checkStatus\<close> is written out in the order of its attempts; the second between two of them is part of the next
  request, during which anything may happen to the context. The thunks a handler starts without waiting are returned as a list.
\<close>

subsection \<open>The slices\<close>

record rx_status =
  rs_version :: string
  rs_start_time :: "string option"
  rs_dns_port :: int
  rs_dns_addresses :: "string list"
  rs_protection_enabled :: bool
  rs_protection_disabled_duration :: "int option"
  rs_http_port :: int
  rs_language :: string
  rs_running :: "bool option"

record rx_dashboard =
  processing :: bool
  isCoreRunning :: "bool option"
  processingVersion :: bool
  processingClients :: bool
  processingUpdate :: bool
  processingProfile :: bool
  protectionEnabled :: bool
  protectionDisabledDuration :: "int option"
  processingProtection :: bool
  httpPort :: int
  dnsPort :: int
  dnsAddresses :: "string list"
  dnsVersion :: string
  dnsStartTime :: "string option"
  clients :: "Client list"
  autoClients :: "ClientAuto list"
  supportedTags :: "string list"
  user_name :: string
  theme :: "string option"
  checkUpdateFlag :: bool
  announcementUrl :: "string option"
  newVersion :: "string option"
  canAutoUpdate :: "bool option"
  isUpdateAvailable :: bool
  language :: string

definition dashboard_initial :: rx_dashboard where
  "dashboard_initial = \<lparr>processing = True, isCoreRunning = Some True, processingVersion = True, processingClients = True,
     processingUpdate = False, processingProfile = True, protectionEnabled = False, protectionDisabledDuration = None,
     processingProtection = False, httpPort = STANDARD_WEB_PORT, dnsPort = STANDARD_DNS_PORT, dnsAddresses = [],
     dnsVersion = [], dnsStartTime = None, clients = [], autoClients = [], supportedTags = [], user_name = [],
     theme = None, checkUpdateFlag = False, announcementUrl = None, newVersion = None, canAutoUpdate = None,
     isUpdateAvailable = False, language = []\<rparr>"

record rx_settings =
  settings_processing :: bool
  processingTestUpstream :: bool
  safebrowsing_on :: "bool option"
  parental_on :: "bool option"
  safesearch_cfg :: "SafeSearchConfig option"

definition settings_initial :: rx_settings where
  "settings_initial = \<lparr>settings_processing = True, processingTestUpstream = False, safebrowsing_on = None,
     parental_on = None, safesearch_cfg = None\<rparr>"

record client_modal =
  cm_type :: "string option"
  cm_name :: "string option"

record rx_clients =
  processingAdding :: bool
  processingDeleting :: bool
  processingUpdating :: bool
  isModalOpen :: bool
  modalClientName :: string
  modalType :: string

definition clients_initial :: rx_clients where
  "clients_initial = \<lparr>processingAdding = False, processingDeleting = False, processingUpdating = False,
     isModalOpen = False, modalClientName = [], modalType = []\<rparr>"

datatype dash_action =
    SetDnsRunningStatus "bool option"
  | DnsStatusRequest | DnsStatusFailure | DnsStatusSuccess rx_status
  | TimerStatusRequest | TimerStatusSuccess rx_status
  | GetVersionRequest | GetVersionFailure | GetVersionSuccess VersionInfo
  | GetUpdateRequest | GetUpdateFailure | GetUpdateSuccess
  | ToggleProtectionRequest | ToggleProtectionFailure | ToggleProtectionSuccess "int option"
  | SetDisableDurationTime "int option"
  | GetClientsRequest | GetClientsFailure | GetClientsSuccess "Client list" "ClientAuto list" "string list"
  | GetProfileRequest | GetProfileFailure | GetProfileSuccess ProfileInfo
  | ChangeThemeRequest | ChangeThemeFailure | ChangeThemeSuccess string
  | ChangeLanguageRequest | ChangeLanguageFailure | ChangeLanguageSuccess

definition strip_prefix_v :: "string \<Rightarrow> string" where
  "strip_prefix_v s = (case s of [] \<Rightarrow> [] | x # xs \<Rightarrow> if x = CHR ''v'' then xs else s)"

definition areEqualVersions :: "string \<Rightarrow> string option \<Rightarrow> bool" where
  "areEqualVersions left right =
     (case right of
        None \<Rightarrow> False
      | Some r \<Rightarrow> left \<noteq> [] \<and> r \<noteq> [] \<and> strip_prefix_v left = strip_prefix_v r)"

text \<open>\<open>dnsVersion === 'undefined' ? 0 : dnsVersion\<close>; the zero counts as no version.\<close>

definition currentVersion :: "rx_dashboard \<Rightarrow> string" where
  "currentVersion s = (if dnsVersion s = ''undefined'' then [] else dnsVersion s)"

fun dashboard_reducer :: "dash_action \<Rightarrow> rx_dashboard \<Rightarrow> rx_dashboard" where
  "dashboard_reducer (SetDnsRunningStatus r) s = s\<lparr>isCoreRunning := r\<rparr>"
| "dashboard_reducer DnsStatusRequest s = s\<lparr>processing := True\<rparr>"
| "dashboard_reducer DnsStatusFailure s = s\<lparr>processing := False\<rparr>"
| "dashboard_reducer (DnsStatusSuccess p) s = s\<lparr>isCoreRunning := Some True, processing := False,
     dnsVersion := rs_version p, dnsStartTime := rs_start_time p, dnsPort := rs_dns_port p,
     dnsAddresses := rs_dns_addresses p, protectionEnabled := rs_protection_enabled p,
     protectionDisabledDuration := rs_protection_disabled_duration p, language := rs_language p, httpPort := rs_http_port p\<rparr>"
| "dashboard_reducer TimerStatusRequest s = s"
| "dashboard_reducer (TimerStatusSuccess p) s = s\<lparr>protectionEnabled := rs_protection_enabled p,
     protectionDisabledDuration := rs_protection_disabled_duration p\<rparr>"
| "dashboard_reducer GetVersionRequest s = s\<lparr>processingVersion := True\<rparr>"
| "dashboard_reducer GetVersionFailure s = s\<lparr>processingVersion := False\<rparr>"
| "dashboard_reducer (GetVersionSuccess p) s =
     (if \<not> disabled p \<and> \<not> areEqualVersions (currentVersion s) (new_version p)
      then s\<lparr>announcementUrl := announcement_url p, newVersion := new_version p, canAutoUpdate := can_autoupdate p,
             isUpdateAvailable := True, processingVersion := False, checkUpdateFlag := \<not> disabled p\<rparr>
      else s\<lparr>processingVersion := False, checkUpdateFlag := \<not> disabled p\<rparr>)"
| "dashboard_reducer GetUpdateRequest s = s\<lparr>processingUpdate := True\<rparr>"
| "dashboard_reducer GetUpdateFailure s = s\<lparr>processingUpdate := False\<rparr>"
| "dashboard_reducer GetUpdateSuccess s = s\<lparr>processingUpdate := False\<rparr>"
| "dashboard_reducer ToggleProtectionRequest s = s\<lparr>processingProtection := True\<rparr>"
| "dashboard_reducer ToggleProtectionFailure s = s\<lparr>processingProtection := False\<rparr>"
| "dashboard_reducer (ToggleProtectionSuccess d) s =
     s\<lparr>protectionEnabled := \<not> protectionEnabled s, processingProtection := False, protectionDisabledDuration := d\<rparr>"
| "dashboard_reducer (SetDisableDurationTime d) s = s\<lparr>protectionDisabledDuration := d\<rparr>"
| "dashboard_reducer GetClientsRequest s = s\<lparr>processingClients := True\<rparr>"
| "dashboard_reducer GetClientsFailure s = s\<lparr>processingClients := False\<rparr>"
| "dashboard_reducer (GetClientsSuccess cs as ts) s =
     s\<lparr>clients := cs, autoClients := as, supportedTags := ts, processingClients := False\<rparr>"
| "dashboard_reducer GetProfileRequest s = s\<lparr>processingProfile := True\<rparr>"
| "dashboard_reducer GetProfileFailure s = s\<lparr>processingProfile := False\<rparr>"
| "dashboard_reducer (GetProfileSuccess p) s =
     s\<lparr>user_name := profile_name p, theme := Some (profile_theme p), processingProfile := False\<rparr>"
| "dashboard_reducer ChangeThemeRequest s = s"
| "dashboard_reducer ChangeThemeFailure s = s"
| "dashboard_reducer (ChangeThemeSuccess t) s = s\<lparr>theme := Some t\<rparr>"
| "dashboard_reducer ChangeLanguageRequest s = s"
| "dashboard_reducer ChangeLanguageFailure s = s"
| "dashboard_reducer ChangeLanguageSuccess s = s"

text \<open>
  A toggled setting: with a value it becomes this value, without one it is negated. Reading \<open>enabled\<close> of a setting that
  is not loaded throws in the reducer.
\<close>

datatype settings_action =
    InitSettingsRequest | InitSettingsFailure | InitSettingsSuccess bool bool SafeSearchConfig
  | ToggleSafebrowsing | ToggleParental | ToggleSafesearch SafeSearchConfig
  | TestUpstreamRequest | TestUpstreamFailure | TestUpstreamSuccess

fun settings_reducer :: "settings_action \<Rightarrow> rx_settings \<Rightarrow> string + rx_settings" where
  "settings_reducer InitSettingsRequest s = Inr (s\<lparr>settings_processing := True\<rparr>)"
| "settings_reducer InitSettingsFailure s = Inr (s\<lparr>settings_processing := False\<rparr>)"
| "settings_reducer (InitSettingsSuccess sb pc ss) s = Inr (s\<lparr>safebrowsing_on := Some sb, parental_on := Some pc,
     safesearch_cfg := Some ss, settings_processing := False\<rparr>)"
| "settings_reducer ToggleSafebrowsing s =
     (case safebrowsing_on s of None \<Rightarrow> Inl ''TypeError'' | Some b \<Rightarrow> Inr (s\<lparr>safebrowsing_on := Some (\<not> b)\<rparr>))"
| "settings_reducer ToggleParental s =
     (case parental_on s of None \<Rightarrow> Inl ''TypeError'' | Some b \<Rightarrow> Inr (s\<lparr>parental_on := Some (\<not> b)\<rparr>))"
| "settings_reducer (ToggleSafesearch cfg) s = Inr (s\<lparr>safesearch_cfg := Some cfg\<rparr>)"
| "settings_reducer TestUpstreamRequest s = Inr (s\<lparr>processingTestUpstream := True\<rparr>)"
| "settings_reducer TestUpstreamFailure s = Inr (s\<lparr>processingTestUpstream := False\<rparr>)"
| "settings_reducer TestUpstreamSuccess s = Inr (s\<lparr>processingTestUpstream := False\<rparr>)"

datatype clients_action =
    AddClientRequest | AddClientFailure | AddClientSuccess
  | DeleteClientRequest | DeleteClientFailure | DeleteClientSuccess
  | UpdateClientRequest | UpdateClientFailure | UpdateClientSuccess
  | ToggleClientModal "client_modal option"

fun clients_reducer :: "clients_action \<Rightarrow> rx_clients \<Rightarrow> rx_clients" where
  "clients_reducer AddClientRequest s = s\<lparr>processingAdding := True\<rparr>"
| "clients_reducer AddClientFailure s = s\<lparr>processingAdding := False\<rparr>"
| "clients_reducer AddClientSuccess s = s\<lparr>processingAdding := False\<rparr>"
| "clients_reducer DeleteClientRequest s = s\<lparr>processingDeleting := True\<rparr>"
| "clients_reducer DeleteClientFailure s = s\<lparr>processingDeleting := False\<rparr>"
| "clients_reducer DeleteClientSuccess s = s\<lparr>processingDeleting := False\<rparr>"
| "clients_reducer UpdateClientRequest s = s\<lparr>processingUpdating := True\<rparr>"
| "clients_reducer UpdateClientFailure s = s\<lparr>processingUpdating := False\<rparr>"
| "clients_reducer UpdateClientSuccess s = s\<lparr>processingUpdating := False\<rparr>"
| "clients_reducer (ToggleClientModal (Some p)) s = s\<lparr>modalType := opt_or_str (cm_type p) [],
     modalClientName := opt_or_str (cm_name p) [], isModalOpen := \<not> isModalOpen s\<rparr>"
| "clients_reducer (ToggleClientModal None) s = s\<lparr>isModalOpen := \<not> isModalOpen s\<rparr>"

record 'w dash_rx = "'w rx" +
  dashboard :: rx_dashboard
  rx_settingsSlice :: rx_settings
  clientsSlice :: rx_clients

interpretation dashboard_slice: rx_frame dashboard
  by unfold_locales simp_all

interpretation settings_slice: rx_frame rx_settingsSlice
  by unfold_locales simp_all

interpretation clients_slice: rx_frame clientsSlice
  by unfold_locales simp_all

abbreviation dispatch :: "dash_action \<Rightarrow> (('w, 'm) dash_rx_scheme, unit) state" where
  "dispatch a \<equiv> modify (\<lambda>c. c\<lparr>dashboard := dashboard_reducer a (dashboard c)\<rparr>)"

abbreviation dispatch_clients :: "clients_action \<Rightarrow> (('w, 'm) dash_rx_scheme, unit) state" where
  "dispatch_clients a \<equiv> modify (\<lambda>c. c\<lparr>clientsSlice := clients_reducer a (clientsSlice c)\<rparr>)"

definition dispatch_settings :: "settings_action \<Rightarrow> (('w, 'm) dash_rx_scheme, unit) call" where
  "dispatch_settings a = do {
     s \<leftarrow> gets rx_settingsSlice;
     (case settings_reducer a s of
        Inl e \<Rightarrow> pass (Inl e)
      | Inr s' \<Rightarrow> do { modify (\<lambda>c. c\<lparr>rx_settingsSlice := s'\<rparr>); pass (Inr ()) }) }"

record 'c rx_dash_api =
  fetch_status :: "('c, rx_status) call"
  api_getGlobalVersion :: "bool \<Rightarrow> ('c, VersionInfo) call"
  api_getUpdate :: "('c, unit) call"
  api_setProtection :: "bool \<Rightarrow> int option \<Rightarrow> ('c, unit) call"
  api_getClients :: "('c, Clients) call"
  api_getProfile :: "('c, ProfileInfo) call"
  api_changeLanguage :: "string \<Rightarrow> ('c, unit) call"
  api_changeTheme :: "string \<Rightarrow> ('c, unit) call"
  api_addClient :: "Client \<Rightarrow> ('c, unit) call"
  api_deleteClient :: "Client \<Rightarrow> ('c, unit) call"
  api_updateClient :: "string \<Rightarrow> Client \<Rightarrow> ('c, unit) call"
  api_settings :: "'c settings_api"

type_synonym ('w, 'm) hapi = "('w, 'm) dash_rx_scheme rx_dash_api"

subsection \<open>Settings\<close>

datatype setting_key = SafebrowsingKey bool | ParentalKey bool | SafesearchKey SafeSearchConfig | OtherKey

text \<open>The request and the message of a toggle, and the action that follows.\<close>

definition toggleSetting :: "env \<Rightarrow> ('w, 'm) hapi \<Rightarrow> setting_key \<Rightarrow> (('w, 'm) dash_rx_scheme, unit) state" where
  "toggleSetting env api k =
     (let st = api_settings api;
          failed = (\<lambda>e. error_toast env e);
          run = (\<lambda>req act m. try_call req
             (\<lambda>_. try_call (dispatch_settings act) (\<lambda>_. success_toast env m) failed) failed)
      in case k of
           SafebrowsingKey status \<Rightarrow>
             if status then run (safebrowsingDisable st) ToggleSafebrowsing ''disabled_safe_browsing_toast''
             else run (safebrowsingEnable st) ToggleSafebrowsing ''enabled_safe_browsing_toast''
         | ParentalKey status \<Rightarrow>
             if status then run (parentalDisable st) ToggleParental ''disabled_parental_toast''
             else run (parentalEnable st) ToggleParental ''enabled_parental_toast''
         | SafesearchKey cfg \<Rightarrow> run (safesearchSettings st cfg) (ToggleSafesearch cfg) ''updated_save_search_toast''
         | OtherKey \<Rightarrow> success_toast env [])"

text \<open>Actions whose reducer case cannot throw.\<close>

definition put_settings :: "settings_action \<Rightarrow> (('w, 'm) dash_rx_scheme, unit) state" where
  "put_settings a = try_call (dispatch_settings a) pass (\<lambda>_. pass ())"

definition initSettings :: "env \<Rightarrow> ('w, 'm) hapi \<Rightarrow> (('w, 'm) dash_rx_scheme, unit) state" where
  "initSettings env api =
     (let st = api_settings api;
          fail = (\<lambda>e. do { error_toast env e; put_settings InitSettingsFailure })
      in do {
        put_settings InitSettingsRequest;
        try_call (safebrowsingStatus st) (\<lambda>sb.
          try_call (parentalStatus st) (\<lambda>pc.
            try_call (safesearchStatus st) (\<lambda>ss. put_settings (InitSettingsSuccess sb pc ss)) fail) fail) fail })"

definition test_message :: "env \<Rightarrow> string \<Rightarrow> string \<Rightarrow> string option" where
  "test_message env key m =
     (if startsWith m ''WARNING:'' then Some (getMessage env ''dns_test_warning_toast'' [(''key'', SArg key)])
      else if endsWith m '': parsing error''
      then let parts = splitStr '' '' (take (nullish (indexOf m '':'') 0) m)
           in Some (getMessage env ''dns_test_parsing_error_toast''
                ([(''section'', SArg (msg env (hd parts)))] @ (if length parts < 2 then [] else [(''line'', SArg (parts ! 1))])))
      else if m \<noteq> ''OK'' then Some (getMessage env ''dns_test_not_ok_toast'' [(''key'', SArg key)])
      else None)"

definition testUpstream ::
  "env \<Rightarrow> ('w, 'm) hapi \<Rightarrow> upstream_form \<Rightarrow> string option \<Rightarrow> (('w, 'm) dash_rx_scheme, unit) state" where
  "testUpstream env api v upstream_dns_file =
     (let ls = (\<lambda>t. filter (\<lambda>n. trim n \<noteq> []) (split_lines t));
          config = \<lparr>uc_bootstrap_dns = ls (uf_bootstrap_dns v), uc_private_upstream = ls (uf_local_ptr_upstreams v),
            uc_fallback_dns = ls (uf_fallback_dns v),
            uc_upstream_dns = (if upstream_dns_file \<notin> {None, Some []} then None
                               else Some (filterOutComments (ls (uf_upstream_dns v))))\<rparr>
      in do {
        put_settings TestUpstreamRequest;
        try_call (testUpstreamDNS (api_settings api) config)
          (\<lambda>res. do {
             modify (fold (\<lambda>(key, m) c. case test_message env key m of
                None \<Rightarrow> c | Some t \<Rightarrow> toasts env (AddErrorToast t None) c) res);
             (if list_all (\<lambda>(_, m). m = ''OK'' \<or> startsWith m ''WARNING:'') res
              then success_toast env ''dns_test_ok_toast'' else pass ());
             put_settings TestUpstreamSuccess })
          (\<lambda>e. do { error_toast env e; put_settings TestUpstreamFailure }) })"

subsection \<open>Protection\<close>

definition HALF_MINUTE :: int where "HALF_MINUTE = 30 * 1000"
definition MINUTE :: int where "MINUTE = 60 * 1000"
definition TEN_MINUTES :: int where "TEN_MINUTES = 10 * 60 * 1000"
definition ONE_HOUR :: int where "ONE_HOUR = 60 * 60 * 1000"
definition TOMORROW :: int where "TOMORROW = 24 * 60 * 60 * 1000"

definition getDisabledMessage :: "env \<Rightarrow> int option \<Rightarrow> string" where
  "getDisabledMessage env time =
     (if time = Some HALF_MINUTE then getMessage env ''disable_notify_for_seconds'' [(''count'', NArg (HALF_MINUTE div 1000))]
      else if time = Some MINUTE then getMessage env ''disable_notify_for_minutes'' [(''count'', NArg (MINUTE div 1000 div 60))]
      else if time = Some TEN_MINUTES
      then getMessage env ''disable_notify_for_minutes'' [(''count'', NArg (TEN_MINUTES div 1000 div 60))]
      else if time = Some ONE_HOUR
      then getMessage env ''disable_notify_for_hours'' [(''count'', NArg (ONE_HOUR div 1000 div 60 div 60))]
      else if time = Some TOMORROW then msg env ''disable_notify_until_tomorrow''
      else ''disabled_protection'')"

definition toggleProtection ::
  "env \<Rightarrow> ('w, 'm) hapi \<Rightarrow> bool \<Rightarrow> int option \<Rightarrow> (('w, 'm) dash_rx_scheme, unit) state" where
  "toggleProtection env api status time = do {
     dispatch ToggleProtectionRequest;
     (let successMessage = (if status then getDisabledMessage env time else ''enabled_protection'')
      in try_call (api_setProtection api (\<not> status) time)
           (\<lambda>_. do { success_toast env successMessage; dispatch (ToggleProtectionSuccess time) })
           (\<lambda>e. do { error_toast env e; dispatch ToggleProtectionFailure })) }"

definition setProtectionTimerTime :: "int option \<Rightarrow> (('w, 'm) dash_rx_scheme, unit) state" where
  "setProtectionTimerTime t = dispatch (SetDisableDurationTime t)"

subsection \<open>Versions\<close>

definition getVersion :: "env \<Rightarrow> ('w, 'm) hapi \<Rightarrow> bool \<Rightarrow> (('w, 'm) dash_rx_scheme, unit) state" where
  "getVersion env api recheck = do {
     dispatch GetVersionRequest;
     try_call (api_getGlobalVersion api recheck)
       (\<lambda>data. do {
          dispatch (GetVersionSuccess data);
          (if recheck
           then do {
             d \<leftarrow> gets dashboard;
             (if \<not> areEqualVersions (currentVersion d) (new_version data)
              then success_toast env ''updates_checked'' else success_toast env ''updates_version_equal'') }
           else pass ()) })
       (\<lambda>_. do { error_toast env ''version_request_error''; dispatch GetVersionFailure }) }"

subsection \<open>Waiting for the server\<close>

datatype started = StartGetVersion | StartGetTlsStatus | StartGetProfile

text \<open>\<open>handleRequestSuccess\<close> and \<open>handleRequestError\<close> are closures of the caller.\<close>

fun checkStatus ::
  "('w, 'm) hapi \<Rightarrow> (rx_status \<Rightarrow> (('w, 'm) dash_rx_scheme, started list) state) \<Rightarrow> (('w, 'm) dash_rx_scheme, unit) state
     \<Rightarrow> nat \<Rightarrow> (('w, 'm) dash_rx_scheme, started list) state" where
  "checkStatus api onSuccess onError 0 = do { onError; pass [] }"
| "checkStatus api onSuccess onError (Suc attempts) =
     try_call (fetch_status api)
       (\<lambda>response. do {
          a \<leftarrow> onSuccess response;
          (if rs_running response = Some False
           then do { b \<leftarrow> checkStatus api onSuccess onError attempts; pass (a @ b) }
           else pass a) })
       (\<lambda>_. checkStatus api onSuccess onError attempts)"

definition update_failed :: "env \<Rightarrow> (('w, 'm) dash_rx_scheme, unit) state" where
  "update_failed env = do {
     modify (toasts env (AddNoticeToast ''update_failed'' (Some ''manual_update_link'')));
     dispatch GetUpdateFailure }"

definition update_answer ::
  "string \<Rightarrow> string option \<Rightarrow> rx_status \<Rightarrow> (('w, 'm) dash_rx_scheme, started list) state" where
  "update_answer ver startTime response =
     (if ver \<noteq> rs_version response \<or> startTime \<noteq> rs_start_time response
      then do { dispatch GetUpdateSuccess; modify (happens PageReload); pass [] }
      else pass [])"

definition getUpdate :: "env \<Rightarrow> ('w, 'm) hapi \<Rightarrow> (('w, 'm) dash_rx_scheme, started list) state" where
  "getUpdate env api = do {
     d \<leftarrow> gets dashboard;
     dispatch GetUpdateRequest;
     try_call (api_getUpdate api)
       (\<lambda>_. checkStatus api (update_answer (dnsVersion d) (dnsStartTime d)) (update_failed env) 60)
       (\<lambda>_. do { update_failed env; pass [] }) }"

definition status_failed :: "env \<Rightarrow> (('w, 'm) dash_rx_scheme, unit) state" where
  "status_failed env = do {
     error_toast env ''dns_status_error'';
     dispatch DnsStatusFailure;
     modify (happens PageReload) }"

definition null_duration :: "rx_status \<Rightarrow> rx_status" where
  "null_duration st = (if rs_protection_disabled_duration st = Some 0 then st\<lparr>rs_protection_disabled_duration := None\<rparr> else st)"

definition status_answer :: "rx_status \<Rightarrow> (('w, 'm) dash_rx_scheme, started list) state" where
  "status_answer st =
     (if rs_running st = Some True
      then do { dispatch (DnsStatusSuccess (null_duration st)); pass [StartGetVersion, StartGetTlsStatus, StartGetProfile] }
      else do { dispatch (SetDnsRunningStatus (rs_running st)); pass [] })"

definition getDnsStatus :: "env \<Rightarrow> ('w, 'm) hapi \<Rightarrow> (('w, 'm) dash_rx_scheme, started list) state" where
  "getDnsStatus env api = do { dispatch DnsStatusRequest; checkStatus api status_answer (status_failed env) 60 }"

definition timer_answer :: "rx_status \<Rightarrow> (('w, 'm) dash_rx_scheme, started list) state" where
  "timer_answer st =
     (if rs_running st = Some True
      then do { dispatch (TimerStatusSuccess (null_duration st)); pass [] }
      else do { dispatch (SetDnsRunningStatus (rs_running st)); pass [] })"

definition getTimerStatus :: "env \<Rightarrow> ('w, 'm) hapi \<Rightarrow> (('w, 'm) dash_rx_scheme, started list) state" where
  "getTimerStatus env api = do { dispatch TimerStatusRequest; checkStatus api timer_answer (status_failed env) 60 }"

subsection \<open>Profile, language, theme\<close>

definition getProfile :: "env \<Rightarrow> ('w, 'm) hapi \<Rightarrow> (('w, 'm) dash_rx_scheme, unit) state" where
  "getProfile env api = do {
     dispatch GetProfileRequest;
     try_call (api_getProfile api)
       (\<lambda>profile. dispatch (GetProfileSuccess profile))
       (\<lambda>e. do { error_toast env e; dispatch GetProfileFailure }) }"

definition changeLanguage :: "env \<Rightarrow> ('w, 'm) hapi \<Rightarrow> string \<Rightarrow> (('w, 'm) dash_rx_scheme, unit) state" where
  "changeLanguage env api lang = do {
     dispatch ChangeLanguageRequest;
     try_call (api_changeLanguage api lang)
       (\<lambda>_. dispatch ChangeLanguageSuccess)
       (\<lambda>e. do { error_toast env e; dispatch ChangeLanguageFailure }) }"

definition changeTheme :: "env \<Rightarrow> ('w, 'm) hapi \<Rightarrow> string \<Rightarrow> (('w, 'm) dash_rx_scheme, unit) state" where
  "changeTheme env api t = do {
     dispatch ChangeThemeRequest;
     try_call (api_changeTheme api t)
       (\<lambda>_. dispatch (ChangeThemeSuccess t))
       (\<lambda>e. do { error_toast env e; dispatch ChangeThemeFailure }) }"

subsection \<open>Clients\<close>

text \<open>
  \<open>name.toUpperCase()\<close> as the code units that are compared: sharp s becomes two letters, y with diaeresis and the micro
  sign have their capitals outside the range of the model's strings.
\<close>

definition upper_units :: "char \<Rightarrow> nat list" where
  "upper_units x =
     (let n = code x
      in if n = 223 then [83, 83] else if n = 255 then [376] else if n = 181 then [924]
         else if 97 \<le> n \<and> n \<le> 122 \<or> 224 \<le> n \<and> n \<le> 254 \<and> n \<noteq> 247 then [n - 32] else [n])"

definition upper :: "string \<Rightarrow> nat list" where
  "upper s = concat (map upper_units s)"

definition compare_names :: "string \<Rightarrow> string \<Rightarrow> int" where
  "compare_names a b =
     (if unit_less (upper b) (upper a) then 1 else if unit_less (upper a) (upper b) then - 1 else 0)"

text \<open>Comparing reads the names; a client without one makes the comparison throw as soon as there are two clients.\<close>

definition sortClients :: "('a \<Rightarrow> string option) \<Rightarrow> 'a list \<Rightarrow> string + 'a list" where
  "sortClients name cs =
     (if length cs \<ge> 2 \<and> (\<exists>x\<in>set cs. name x = None) then Inl ''TypeError''
      else Inr (sort_by (\<lambda>a b. compare_names (nullish (name a) []) (nullish (name b) [])) cs))"

definition getClients :: "env \<Rightarrow> ('w, 'm) hapi \<Rightarrow> (('w, 'm) dash_rx_scheme, unit) state" where
  "getClients env api =
     (let fail = (\<lambda>e. do { error_toast env e; dispatch GetClientsFailure })
      in do {
        dispatch GetClientsRequest;
        try_call (api_getClients api)
          (\<lambda>data.
             case (sortClients client_name (nullish (clients_list data) []), sortClients auto_name (nullish (auto_clients data) [])) of
               (Inl e, _) \<Rightarrow> fail e
             | (Inr _, Inl e) \<Rightarrow> fail e
             | (Inr cs, Inr as) \<Rightarrow> dispatch (GetClientsSuccess cs as (nullish (supported_tags data) [])))
          fail })"

definition client_toast :: "env \<Rightarrow> string \<Rightarrow> string option \<Rightarrow> string" where
  "client_toast env m name = getMessage env m (case name of None \<Rightarrow> [] | Some n \<Rightarrow> [(''key'', SArg n)])"

definition addClient :: "env \<Rightarrow> ('w, 'm) hapi \<Rightarrow> Client \<Rightarrow> (('w, 'm) dash_rx_scheme, unit) state" where
  "addClient env api config = do {
     dispatch_clients AddClientRequest;
     try_call (api_addClient api config)
       (\<lambda>_. do {
          dispatch_clients AddClientSuccess;
          dispatch_clients (ToggleClientModal None);
          success_toast env (client_toast env ''client_added'' (client_name config));
          getClients env api })
       (\<lambda>e. do { error_toast env e; dispatch_clients AddClientFailure }) }"

definition deleteClient :: "env \<Rightarrow> ('w, 'm) hapi \<Rightarrow> Client \<Rightarrow> (('w, 'm) dash_rx_scheme, unit) state" where
  "deleteClient env api config = do {
     dispatch_clients DeleteClientRequest;
     try_call (api_deleteClient api config)
       (\<lambda>_. do {
          dispatch_clients DeleteClientSuccess;
          success_toast env (client_toast env ''client_deleted'' (client_name config));
          getClients env api })
       (\<lambda>e. do { error_toast env e; dispatch_clients DeleteClientFailure }) }"

definition updateClient :: "env \<Rightarrow> ('w, 'm) hapi \<Rightarrow> Client \<Rightarrow> string \<Rightarrow> (('w, 'm) dash_rx_scheme, unit) state" where
  "updateClient env api config name = do {
     dispatch_clients UpdateClientRequest;
     try_call (api_updateClient api name config)
       (\<lambda>_. do {
          dispatch_clients UpdateClientSuccess;
          dispatch_clients (ToggleClientModal None);
          success_toast env (client_toast env ''client_updated'' (Some name));
          getClients env api })
       (\<lambda>e. do { error_toast env e; dispatch_clients UpdateClientFailure }) }"

subsection \<open>Theorems\<close>

text \<open>A server that answers the \<open>n\<close>-th status request with \<open>ans n\<close>; it counts the requests.\<close>

definition answers_in_turn :: "(nat, 'm) hapi \<Rightarrow> (nat \<Rightarrow> string + rx_status) \<Rightarrow> bool" where
  "answers_in_turn api ans \<longleftrightarrow>
     (\<forall>c. run_state (fetch_status api) c = (ans (backend c), c\<lparr>backend := Suc (backend c)\<rparr>))"

definition not_up :: "string + rx_status \<Rightarrow> bool" where
  "not_up r \<longleftrightarrow> (case r of Inl _ \<Rightarrow> True | Inr st \<Rightarrow> rs_running st = Some False)"

text \<open>While the server is not up the polling changes nothing but the running status, and goes on.\<close>

lemma checkStatus_waits:
  assumes srv: "answers_in_turn api ans" and down: "\<And>j. j < k \<Longrightarrow> not_up (ans (backend c + j))"
  shows "\<exists>r. run_state (checkStatus api status_answer onError (k + n)) c =
    run_state (checkStatus api status_answer onError n)
      (c\<lparr>backend := backend c + k, dashboard := (dashboard c)\<lparr>isCoreRunning := r\<rparr>\<rparr>)"
  using down
proof (induction k arbitrary: c)
  case 0
  show ?case by (intro exI [of _ "isCoreRunning (dashboard c)"]) simp
next
  case (Suc k)
  have run: "run_state (fetch_status api) d = (ans (backend d), d\<lparr>backend := Suc (backend d)\<rparr>)" for d
    using srv by (simp add: answers_in_turn_def)
  have later: "not_up (ans (Suc (backend c) + j))" if "j < k" for j
    using Suc.prems [of "Suc j"] that by simp
  have first: "not_up (ans (backend c))" using Suc.prems [of 0] by simp
  show ?case
  proof (cases "ans (backend c)")
    case (Inl e)
    then show ?thesis
      using Suc.IH [of "c\<lparr>backend := Suc (backend c)\<rparr>"] later by (auto simp: run_try_call run)
  next
    case (Inr st)
    let ?d = "c\<lparr>backend := Suc (backend c), dashboard := (dashboard c)\<lparr>isCoreRunning := Some False\<rparr>\<rparr>"
    have st: "rs_running st = Some False" using first Inr by (simp add: not_up_def)
    then have "run_state (checkStatus api status_answer onError (Suc k + n)) c =
        run_state (checkStatus api status_answer onError (k + n)) ?d"
      using Inr by (simp add: run_try_call run status_answer_def)
    then show ?thesis
      using Suc.IH [of ?d] later by auto
  qed
qed

text \<open>
  C19. The dashboard of the React client comes up with the first answer of a running server, if that is one of
  the first sixty; then the three requests that follow are started once and nothing is reloaded. If the first sixty requests all fail or
  find the server not running, one error is shown and the page is reloaded.
\<close>

theorem rx_status_settles:
  assumes srv: "answers_in_turn api ans" and c: "backend c = 0"
  shows "(\<forall>k st. k < 60 \<longrightarrow> (\<forall>j<k. not_up (ans j)) \<longrightarrow> ans k = Inr st \<longrightarrow> rs_running st = Some True \<longrightarrow>
      (let c' = exec (getDnsStatus env api) c
       in result (getDnsStatus env api) c = [StartGetVersion, StartGetTlsStatus, StartGetProfile] \<and>
          backend c' = Suc k \<and> \<not> processing (dashboard c') \<and> isCoreRunning (dashboard c') = Some True \<and>
          dnsVersion (dashboard c') = rs_version st \<and> browser c' = browser c)) \<and>
    ((\<forall>j<60. not_up (ans j)) \<longrightarrow>
      (let c' = exec (getDnsStatus env api) c
       in backend c' = 60 \<and> \<not> processing (dashboard c') \<and> browser c' = browser c @ [PageReload] \<and>
          ReduxCore.shown ERROR c' = ReduxCore.shown ERROR c @ [''dns_status_error'']))"
proof (intro conjI allI impI)
  let ?c = "c\<lparr>dashboard := (dashboard c)\<lparr>processing := True\<rparr>\<rparr>"
  have sh: "ReduxCore.shown ty (d\<lparr>dashboard := x\<rparr>) = ReduxCore.shown ty d" "ReduxCore.shown ty (d\<lparr>backend := w\<rparr>) = ReduxCore.shown ty d"
    for ty x w and d :: "(nat, 'a) dash_rx_scheme" by (simp_all add: ReduxCore.shown_def)
  have start: "run_state (getDnsStatus env api) c = run_state (checkStatus api status_answer (status_failed env) 60) ?c"
    by (simp add: getDnsStatus_def del: checkStatus.simps)
  {
    fix k st
    assume k: "k < 60" "\<forall>j<k. not_up (ans j)" "ans k = Inr st" "rs_running st = Some True"
    obtain n where n: "60 = k + Suc n" using k(1) by (metis less_iff_Suc_add add_Suc_right)
    obtain r where "run_state (checkStatus api status_answer (status_failed env) (k + Suc n)) ?c =
        run_state (checkStatus api status_answer (status_failed env) (Suc n))
          (?c\<lparr>backend := k, dashboard := (dashboard ?c)\<lparr>isCoreRunning := r\<rparr>\<rparr>)"
      using checkStatus_waits [OF srv, of k ?c "status_failed env" "Suc n"] k(2) c by auto
    then show "let c' = exec (getDnsStatus env api) c
       in result (getDnsStatus env api) c = [StartGetVersion, StartGetTlsStatus, StartGetProfile] \<and>
          backend c' = Suc k \<and> \<not> processing (dashboard c') \<and> isCoreRunning (dashboard c') = Some True \<and>
          dnsVersion (dashboard c') = rs_version st \<and> browser c' = browser c"
      using k srv unfolding start n by (simp add: run_try_call answers_in_turn_def status_answer_def null_duration_def Let_def)
  }
  assume "\<forall>j<60. not_up (ans j)"
  then obtain r where "run_state (checkStatus api status_answer (status_failed env) (60 + 0)) ?c =
      run_state (checkStatus api status_answer (status_failed env) 0)
        (?c\<lparr>backend := 60, dashboard := (dashboard ?c)\<lparr>isCoreRunning := r\<rparr>\<rparr>)"
    using checkStatus_waits [OF srv, of 60 ?c "status_failed env" 0] c by auto
  then show "let c' = exec (getDnsStatus env api) c
       in backend c' = 60 \<and> \<not> processing (dashboard c') \<and> browser c' = browser c @ [PageReload] \<and>
          ReduxCore.shown ERROR c' = ReduxCore.shown ERROR c @ [''dns_status_error'']"
    unfolding start by (simp add: status_failed_def Let_def sh del: checkStatus.simps(2))
qed

definition running_status :: rx_status where
  "running_status = \<lparr>rs_version = ''v0.108'', rs_start_time = None, rs_dns_port = 53, rs_dns_addresses = [],
     rs_protection_enabled = True, rs_protection_disabled_duration = Some 0, rs_http_port = 80, rs_language = ''en'', rs_running = Some True\<rparr>"

text \<open>A server whose first status request fails.\<close>

definition slow_start :: "nat \<Rightarrow> string + rx_status" where
  "slow_start n = (if n = 0 then Inl ''offline'' else Inr running_status)"

definition slow_api :: "(nat, 'm) hapi" where
  "slow_api = (let off = pass (Inl ''offline'') in
     \<lparr>fetch_status = State (\<lambda>c. (slow_start (backend c), c\<lparr>backend := Suc (backend c)\<rparr>)), api_getGlobalVersion = (\<lambda>_. pass (Inl [])),
      api_getUpdate = off, api_setProtection = (\<lambda>_ _. off), api_getClients = pass (Inl []), api_getProfile = pass (Inl []),
      api_changeLanguage = (\<lambda>_. off), api_changeTheme = (\<lambda>_. off), api_addClient = (\<lambda>_. off), api_deleteClient = (\<lambda>_. off),
      api_updateClient = (\<lambda>_ _. off),
      api_settings = \<lparr>safebrowsingStatus = pass (Inr True), safebrowsingEnable = off, safebrowsingDisable = off,
        parentalStatus = pass (Inr True), parentalEnable = off, parentalDisable = off, safesearchStatus = pass (Inl []),
        safesearchSettings = (\<lambda>_. off), testUpstreamDNS = (\<lambda>_. pass (Inl []))\<rparr>\<rparr>)"

definition sample_dash_rx :: "nat dash_rx" where
  "sample_dash_rx = rx.extend (sample_rx 0) (dash_rx.fields dashboard_initial settings_initial clients_initial)"

theorem rx_status_settles_witness:
  "backend (exec (getDnsStatus sample_env slow_api) sample_dash_rx) = 2 \<and>
   dnsVersion (dashboard (exec (getDnsStatus sample_env slow_api) sample_dash_rx)) = ''v0.108''"
proof -
  have srv: "answers_in_turn (slow_api :: (nat, unit) hapi) slow_start" and start: "backend sample_dash_rx = 0"
    by (simp_all add: answers_in_turn_def slow_api_def Let_def sample_dash_rx_def sample_rx_def rx.extend_def dash_rx.fields_def)
  have "not_up (slow_start j)" if "j < 1" for j using that by (simp add: not_up_def slow_start_def)
  moreover have "slow_start 1 = Inr running_status" by (simp add: slow_start_def)
  moreover have "rs_running running_status = Some True" "rs_version running_status = ''v0.108''" by (simp_all add: running_status_def)
  ultimately show ?thesis
    using rx_status_settles [OF srv start, of sample_env, THEN conjunct1, rule_format, of 1 running_status] by (simp add: Let_def)
qed

text \<open>
  An update whose server still gives its old version and start time, and says it runs, when it is first asked: nothing asks it again, so
  the update is shown as running until the page is left.
\<close>

theorem rx_update_hangs:
  assumes "run_state (api_getUpdate api) (exec (dispatch GetUpdateRequest) c) = (Inr (), d)" "dashboard d = (dashboard c)\<lparr>processingUpdate := True\<rparr>"
    and "run_state (fetch_status api) d = (Inr st, d')" "dashboard d' = dashboard d"
    and "rs_version st = dnsVersion (dashboard c)" "rs_start_time st = dnsStartTime (dashboard c)" "rs_running st = Some True"
  shows "run_state (getUpdate env api) c = ([], d') \<and> processingUpdate (dashboard d')"
  using assms by (simp add: getUpdate_def run_try_call update_answer_def eval_nat_numeral)

lemma compare_names_le: "compare_names a b \<le> 0 \<longleftrightarrow> \<not> unit_less (upper b) (upper a)"
  by (simp add: compare_names_def)

interpretation name_order: comparator UNIV "\<lambda>a b. compare_names (nullish (name a) []) (nullish (name b) [])" for name
proof
  fix x y z
  show "compare_names (nullish (name x) []) (nullish (name y) []) \<le> 0 \<or> compare_names (nullish (name y) []) (nullish (name x) []) \<le> 0"
    using unit_less_trans unit_less_irrefl unfolding compare_names_le by blast
  show "compare_names (nullish (name x) []) (nullish (name z) []) \<le> 0"
    if "compare_names (nullish (name x) []) (nullish (name y) []) \<le> 0" "compare_names (nullish (name y) []) (nullish (name z) []) \<le> 0"
    using that unit_less_trans unit_less_total unfolding compare_names_le by metis
qed

abbreviation names_sorted :: "('a \<Rightarrow> string option) \<Rightarrow> 'a list \<Rightarrow> bool" where
  "names_sorted name \<equiv> sorted_wrt (\<lambda>a b. compare_names (the (name a)) (the (name b)) \<le> 0)"

lemma sortClients_sorted:
  assumes "\<forall>x\<in>set cs. name x \<noteq> None"
  shows "\<exists>ys. sortClients name cs = Inr ys \<and> mset ys = mset cs \<and> names_sorted name ys"
proof -
  have "compare_names (nullish (name a) []) (nullish (name b) []) = compare_names (the (name a)) (the (name b))"
    if "a \<in> set cs" "b \<in> set cs" for a b
    using assms that by (cases "name a"; cases "name b") auto
  then have "names_sorted name (sort_by (\<lambda>a b. compare_names (nullish (name a) []) (nullish (name b) [])) cs)"
    using name_order.sorted_sort_by [of cs name] by (auto elim!: sorted_wrt_mono_rel [rotated])
  moreover have "\<not> (\<exists>x\<in>set cs. name x = None)" using assms by blast
  ultimately show ?thesis by (simp add: sortClients_def)
qed

text \<open>Lists of clients that load are shown with all their clients, in the order of the capitalised names.\<close>

theorem rx_getClients_sorted:
  assumes "run_state (api_getClients api) (exec (dispatch GetClientsRequest) c) = (Inr data, d)"
    and "clients_list data = Some cs" "\<forall>x\<in>set cs. client_name x \<noteq> None"
    and "auto_clients data = Some as" "\<forall>x\<in>set as. auto_name x \<noteq> None"
  shows "let c' = exec (getClients env api) c
    in mset (clients (dashboard c')) = mset cs \<and> names_sorted client_name (clients (dashboard c')) \<and>
       mset (autoClients (dashboard c')) = mset as \<and> names_sorted auto_name (autoClients (dashboard c')) \<and>
       \<not> processingClients (dashboard c')"
  using assms sortClients_sorted [OF assms(3)] sortClients_sorted [OF assms(5)]
  by (auto simp: getClients_def run_try_call Let_def)

text \<open>Loading the clients leaves the dialog alone.\<close>

lemma getClients_keeps_dialog:
  assumes "\<And>x. clientsSlice (exec (api_getClients api) x) = clientsSlice x"
  shows "clientsSlice (exec (getClients env api) c) = clientsSlice c"
  using assms [of "exec (dispatch GetClientsRequest) c"]
  by (cases "run_state (api_getClients api) (exec (dispatch GetClientsRequest) c)")
     (auto simp: getClients_def run_try_call Let_def split: sum.splits)

text \<open>
  The dialog of a new client closes with a toggle: after it was closed by hand while the request was running, success opens it again.
\<close>

theorem rx_addClient_reopens:
  assumes "run_state (api_addClient api config) (exec (dispatch_clients AddClientRequest) c) = (Inr (), d)"
    and "\<not> isModalOpen (clientsSlice d)" "\<And>x. clientsSlice (exec (api_getClients api) x) = clientsSlice x"
  shows "isModalOpen (clientsSlice (exec (addClient env api config) c))"
  using assms(1,2) getClients_keeps_dialog [of api env, OF assms(3)]
  by (simp add: addClient_def run_try_call)

text \<open>
  A switch pressed before its setting is loaded: the server is changed, and the page reports an error and shows no success.
\<close>

theorem rx_toggle_unloaded:
  assumes "run_state (safebrowsingEnable (api_settings api)) c = (Inr (), d)" "safebrowsing_on (rx_settingsSlice d) = None"
  shows "exec (toggleSetting env api (SafebrowsingKey False)) c = toasts env (AddErrorToast ''TypeError'' None) d"
  using assms by (simp add: toggleSetting_def run_try_call dispatch_settings_def Let_def)

end
