(* ===== verification/ReduxDhcp.thy ===== *)
theory ReduxDhcp
  imports ReduxCore Dhcp "HOL-Library.AList"
begin

section \<open>DHCP in the React client\<close>

text \<open>
  The DHCP thunks of \<^verbatim>\<open>client/src/actions/index.tsx\<close>, \<^verbatim>\<open>client/src/reducers/dhcp.ts\<close>, the section
  helpers of \<^verbatim>\<open>client/src/helpers/validators.ts\<close> and the handlers of
  \<^verbatim>\<open>client/src/components/Settings/Dhcp/index.tsx\<close>. Leases, interfaces and the answer of the search are those of
  the newer store. A section of the configuration is a JavaScript object: its own keys in order, each with
  a value that may be \<open>undefined\<close>.
\<close>

datatype jsval = Undefined | Str string | Num int

type_synonym jsobject = "(string \<times> jsval) list"

fun truthy :: "jsval \<Rightarrow> bool" where
  "truthy Undefined \<longleftrightarrow> False"
| "truthy (Str s) \<longleftrightarrow> s \<noteq> []"
| "truthy (Num n) \<longleftrightarrow> n \<noteq> 0"

definition member :: "jsobject \<Rightarrow> string \<Rightarrow> jsval" where
  "member s k = nullish (map_of s k) Undefined"

text \<open>\<open>{ ...a, ...b }\<close>.\<close>

definition spread :: "jsobject \<Rightarrow> jsobject \<Rightarrow> jsobject" where
  "spread a b = fold (\<lambda>(k, v) s. AList.update k v s) b a"

subsection \<open>Sections of the form\<close>

definition isSectionFilled :: "jsobject option \<Rightarrow> bool" where
  "isSectionFilled s \<longleftrightarrow> (case s of None \<Rightarrow> False | Some kvs \<Rightarrow> \<exists>v\<in>set (map snd kvs). truthy v)"

definition getDefaultV4Values :: "jsobject option \<Rightarrow> jsobject option" where
  "getDefaultV4Values sec =
     (case sec of
        None \<Rightarrow> None
      | Some kvs \<Rightarrow>
          if \<forall>(k, v)\<in>set kvs. k = ''lease_duration'' \<or> v = Str []
          then Some (spread kvs [(''lease_duration'', Undefined)])
          else Some kvs)"

definition getDefaultV6Values :: "jsobject option \<Rightarrow> jsobject option" where
  "getDefaultV6Values sec =
     (case sec of
        None \<Rightarrow> None
      | Some kvs \<Rightarrow> if truthy (member kvs ''range_start'') then Some kvs
                    else Some (spread kvs [(''lease_duration'', Undefined)]))"

record sections =
  sec_v4 :: "jsobject option"
  sec_v6 :: "jsobject option"

definition omitEmptySections :: "sections \<Rightarrow> sections" where
  "omitEmptySections s = \<lparr>sec_v4 = (if isSectionFilled (sec_v4 s) then sec_v4 s else None),
     sec_v6 = (if isSectionFilled (sec_v6 s) then sec_v6 s else None)\<rparr>"

text \<open>\<open>validateRequiredValue\<close> on a value of the form; \<open>None\<close> is \<open>undefined\<close>, no error.\<close>

definition validateRequiredValue :: "env \<Rightarrow> jsval \<Rightarrow> string option" where
  "validateRequiredValue env v =
     (let formatted = (case v of Str s \<Rightarrow> Str (trim s) | _ \<Rightarrow> v)
      in if truthy formatted \<or> formatted = Num 0 then None else Some (msg env ''form_error_required''))"

definition validateRequiredIfSectionFilled :: "env \<Rightarrow> jsobject option \<Rightarrow> jsval \<Rightarrow> string option" where
  "validateRequiredIfSectionFilled env sec v =
     (if \<not> isSectionFilled sec then None else validateRequiredValue env v)"

definition validateRequiredIfFilled :: "env \<Rightarrow> jsobject option \<Rightarrow> string \<Rightarrow> jsval \<Rightarrow> string option" where
  "validateRequiredIfFilled env sec field v =
     (if \<not> truthy (member (nullish sec []) field) then None else validateRequiredValue env v)"

subsection \<open>The slice\<close>

record rx_lease_modal =
  lm_type :: "string option"
  lm_config :: "Lease option"

record rx_dhcp =
  processing :: bool
  processingStatus :: bool
  processingInterfaces :: bool
  processingDhcp :: bool
  processingConfig :: bool
  processingAdding :: bool
  processingDeleting :: bool
  processingUpdating :: bool
  processingReset :: bool
  enabled :: bool
  interface_name :: string
  check :: "DhcpSearchResult option"
  v4 :: jsobject
  v6 :: jsobject
  leases :: "DhcpLease list"
  staticLeases :: "Lease list"
  isModalOpen :: bool
  leaseModalConfig :: "Lease option"
  modalType :: string
  dhcp_available :: bool
  interfaces :: "(string \<rightharpoonup> DHCPNetInterface) option"

definition dhcp_initial :: rx_dhcp where
  "dhcp_initial = \<lparr>processing = True, processingStatus = False, processingInterfaces = False, processingDhcp = False,
     processingConfig = False, processingAdding = False, processingDeleting = False, processingUpdating = False,
     processingReset = False, enabled = False, interface_name = [], check = None,
     v4 = [(''gateway_ip'', Str []), (''subnet_mask'', Str []), (''range_start'', Str []), (''range_end'', Str []),
           (''lease_duration'', Num 0)],
     v6 = [(''range_start'', Str []), (''lease_duration'', Num 0)],
     leases = [], staticLeases = [], isModalOpen = False, leaseModalConfig = None, modalType = [],
     dhcp_available = False, interfaces = None\<rparr>"

text \<open>The answer of the status request; it always lists the static leases.\<close>

record rx_dhcp_status =
  ds_enabled :: bool
  ds_interface_name :: string
  ds_v4 :: jsobject
  ds_v6 :: jsobject
  ds_leases :: "DhcpLease list"
  ds_static_leases :: "Lease list"

record rx_dhcp_config =
  dc_enabled :: "bool option"
  dc_interface_name :: "string option"
  dc_v4 :: "jsobject option"
  dc_v6 :: "jsobject option"

datatype dhcp_action =
    GetDhcpStatusRequest | GetDhcpStatusFailure | GetDhcpStatusSuccess rx_dhcp_status bool
  | GetDhcpInterfacesRequest | GetDhcpInterfacesFailure | GetDhcpInterfacesSuccess "string \<rightharpoonup> DHCPNetInterface"
  | FindActiveDhcpRequest | FindActiveDhcpFailure | FindActiveDhcpSuccess DhcpSearchResult
  | ToggleDhcpRequest | ToggleDhcpFailure | ToggleDhcpSuccess
  | SetDhcpConfigRequest | SetDhcpConfigFailure | SetDhcpConfigSuccess rx_dhcp_config
  | ResetDhcpRequest | ResetDhcpFailure | ResetDhcpSuccess
  | ResetDhcpLeasesRequest | ResetDhcpLeasesFailure | ResetDhcpLeasesSuccess
  | ToggleLeaseModal "rx_lease_modal option"
  | AddStaticLeaseRequest | AddStaticLeaseFailure | AddStaticLeaseSuccess Lease
  | RemoveStaticLeaseRequest | RemoveStaticLeaseFailure | RemoveStaticLeaseSuccess Lease
  | UpdateStaticLeaseRequest | UpdateStaticLeaseFailure | UpdateStaticLeaseSuccess

fun dhcp_reducer :: "dhcp_action \<Rightarrow> rx_dhcp \<Rightarrow> rx_dhcp" where
  "dhcp_reducer GetDhcpStatusRequest s = s\<lparr>processing := True\<rparr>"
| "dhcp_reducer GetDhcpStatusFailure s = s\<lparr>processing := False\<rparr>"
| "dhcp_reducer (GetDhcpStatusSuccess p available) s = s\<lparr>staticLeases := ds_static_leases p, processing := False,
     enabled := ds_enabled p, interface_name := ds_interface_name p, v4 := ds_v4 p, v6 := ds_v6 p,
     leases := ds_leases p, dhcp_available := available\<rparr>"
| "dhcp_reducer GetDhcpInterfacesRequest s = s\<lparr>processingInterfaces := True\<rparr>"
| "dhcp_reducer GetDhcpInterfacesFailure s = s\<lparr>processingInterfaces := False\<rparr>"
| "dhcp_reducer (GetDhcpInterfacesSuccess p) s = s\<lparr>interfaces := Some p, processingInterfaces := False\<rparr>"
| "dhcp_reducer FindActiveDhcpRequest s = s\<lparr>processingStatus := True\<rparr>"
| "dhcp_reducer FindActiveDhcpFailure s = s\<lparr>processingStatus := False\<rparr>"
| "dhcp_reducer (FindActiveDhcpSuccess p) s = s\<lparr>check := Some p, processingStatus := False\<rparr>"
| "dhcp_reducer ToggleDhcpRequest s = s\<lparr>processingDhcp := True\<rparr>"
| "dhcp_reducer ToggleDhcpFailure s = s\<lparr>processingDhcp := False\<rparr>"
| "dhcp_reducer ToggleDhcpSuccess s = s\<lparr>enabled := \<not> enabled s, check := None, processingDhcp := False\<rparr>"
| "dhcp_reducer SetDhcpConfigRequest s = s\<lparr>processingConfig := True\<rparr>"
| "dhcp_reducer SetDhcpConfigFailure s = s\<lparr>processingConfig := False\<rparr>"
| "dhcp_reducer (SetDhcpConfigSuccess p) s = s\<lparr>v4 := spread (v4 s) (nullish (dc_v4 p) []),
     v6 := spread (v6 s) (nullish (dc_v6 p) []), interface_name := nullish (dc_interface_name p) [],
     processingConfig := False\<rparr>"
| "dhcp_reducer ResetDhcpRequest s = s\<lparr>processingReset := True\<rparr>"
| "dhcp_reducer ResetDhcpFailure s = s\<lparr>processingReset := False\<rparr>"
| "dhcp_reducer ResetDhcpSuccess s = s\<lparr>processingReset := False, enabled := False, v4 := [], v6 := [], interface_name := []\<rparr>"
| "dhcp_reducer ResetDhcpLeasesRequest s = s"
| "dhcp_reducer ResetDhcpLeasesFailure s = s"
| "dhcp_reducer ResetDhcpLeasesSuccess s = s\<lparr>leases := [], staticLeases := []\<rparr>"
| "dhcp_reducer (ToggleLeaseModal p) s = s\<lparr>isModalOpen := \<not> isModalOpen s,
     modalType := opt_or_str (Option.bind p lm_type) [], leaseModalConfig := Option.bind p lm_config\<rparr>"
| "dhcp_reducer AddStaticLeaseRequest s = s\<lparr>processingAdding := True\<rparr>"
| "dhcp_reducer AddStaticLeaseFailure s = s\<lparr>processingAdding := False\<rparr>"
| "dhcp_reducer (AddStaticLeaseSuccess l) s = s\<lparr>staticLeases := staticLeases s @
     [\<lparr>lease_hostname = lease_hostname l, lease_ip = lease_ip l, lease_mac = lease_mac l\<rparr>], processingAdding := False\<rparr>"
| "dhcp_reducer RemoveStaticLeaseRequest s = s\<lparr>processingDeleting := True\<rparr>"
| "dhcp_reducer RemoveStaticLeaseFailure s = s\<lparr>processingDeleting := False\<rparr>"
| "dhcp_reducer (RemoveStaticLeaseSuccess l) s = s\<lparr>staticLeases := filter (\<lambda>item. lease_ip item \<noteq> lease_ip l) (staticLeases s),
     processingDeleting := False\<rparr>"
| "dhcp_reducer UpdateStaticLeaseRequest s = s\<lparr>processingUpdating := True\<rparr>"
| "dhcp_reducer UpdateStaticLeaseFailure s = s\<lparr>processingUpdating := False\<rparr>"
| "dhcp_reducer UpdateStaticLeaseSuccess s = s\<lparr>processingUpdating := False\<rparr>"

record 'w dhcp_rx = "'w rx" +
  dhcp :: rx_dhcp

interpretation dhcp_slice: rx_frame dhcp
  by unfold_locales simp_all

abbreviation dispatch :: "dhcp_action \<Rightarrow> (('w, 'm) dhcp_rx_scheme, unit) state" where
  "dispatch a \<equiv> modify (\<lambda>c. c\<lparr>dhcp := dhcp_reducer a (dhcp c)\<rparr>)"

record 'c rx_dhcp_api =
  api_getGlobalStatus :: "('c, bool) call"
  api_getDhcpStatus :: "('c, rx_dhcp_status) call"
  api_getDhcpInterfaces :: "('c, string \<rightharpoonup> DHCPNetInterface) call"
  api_findActiveDhcp :: "string \<Rightarrow> ('c, DhcpSearchResult) call"
  api_setDhcpConfig :: "rx_dhcp_config \<Rightarrow> ('c, unit) call"
  api_resetDhcp :: "('c, unit) call"
  api_resetDhcpLeases :: "('c, unit) call"
  api_addStaticLease :: "Lease \<Rightarrow> ('c, unit) call"
  api_removeStaticLease :: "Lease \<Rightarrow> ('c, unit) call"
  api_updateStaticLease :: "Lease \<Rightarrow> ('c, unit) call"

type_synonym ('w, 'm) dapi = "('w, 'm) dhcp_rx_scheme rx_dhcp_api"

subsection \<open>Thunks\<close>

definition getDhcpStatus_finish :: "env \<Rightarrow> ('w, 'm) dapi \<Rightarrow> (('w, 'm) dhcp_rx_scheme, unit) state" where
  "getDhcpStatus_finish env api =
     (let fail = (\<lambda>e. do { error_toast env e; dispatch GetDhcpStatusFailure })
      in try_call (api_getGlobalStatus api)
           (\<lambda>available.
              if available
              then try_call (api_getDhcpStatus api) (\<lambda>status. dispatch (GetDhcpStatusSuccess status available)) fail
              else dispatch GetDhcpStatusFailure)
           fail)"

definition getDhcpStatus :: "env \<Rightarrow> ('w, 'm) dapi \<Rightarrow> (('w, 'm) dhcp_rx_scheme, unit) state" where
  "getDhcpStatus env api = do { dispatch GetDhcpStatusRequest; getDhcpStatus_finish env api }"

definition getDhcpInterfaces :: "env \<Rightarrow> ('w, 'm) dapi \<Rightarrow> (('w, 'm) dhcp_rx_scheme, unit) state" where
  "getDhcpInterfaces env api = do {
     dispatch GetDhcpInterfacesRequest;
     try_call (api_getDhcpInterfaces api)
       (\<lambda>ifs. dispatch (GetDhcpInterfacesSuccess ifs))
       (\<lambda>e. do { error_toast env e; dispatch GetDhcpInterfacesFailure }) }"

definition setDhcpConfig :: "env \<Rightarrow> ('w, 'm) dapi \<Rightarrow> rx_dhcp_config \<Rightarrow> (('w, 'm) dhcp_rx_scheme, unit) state" where
  "setDhcpConfig env api values = do {
     dispatch SetDhcpConfigRequest;
     try_call (api_setDhcpConfig api values)
       (\<lambda>_. do { dispatch (SetDhcpConfigSuccess values); success_toast env ''dhcp_config_saved'' })
       (\<lambda>e. do { error_toast env e; dispatch SetDhcpConfigFailure }) }"

definition toggleDhcp :: "env \<Rightarrow> ('w, 'm) dapi \<Rightarrow> rx_dhcp_config \<Rightarrow> (('w, 'm) dhcp_rx_scheme, unit) state" where
  "toggleDhcp env api values = do {
     dispatch ToggleDhcpRequest;
     (let on = (dc_enabled values \<noteq> Some True);
          successMessage = (if on then ''enabled_dhcp'' else ''disabled_dhcp'')
      in try_call (api_setDhcpConfig api (values\<lparr>dc_enabled := Some on\<rparr>))
           (\<lambda>_. do { dispatch ToggleDhcpSuccess; success_toast env successMessage })
           (\<lambda>e. do { error_toast env e; dispatch ToggleDhcpFailure })) }"

definition resetDhcp_finish :: "env \<Rightarrow> ('w, 'm) dapi \<Rightarrow> (('w, 'm) dhcp_rx_scheme, unit) state" where
  "resetDhcp_finish env api =
     try_call (api_resetDhcp api)
       (\<lambda>_. do { dispatch ResetDhcpSuccess; success_toast env ''dhcp_config_saved'' })
       (\<lambda>e. do { error_toast env e; dispatch ResetDhcpFailure })"

definition resetDhcp :: "env \<Rightarrow> ('w, 'm) dapi \<Rightarrow> (('w, 'm) dhcp_rx_scheme, unit) state" where
  "resetDhcp env api = do { dispatch ResetDhcpRequest; resetDhcp_finish env api }"

definition resetDhcpLeases :: "env \<Rightarrow> ('w, 'm) dapi \<Rightarrow> (('w, 'm) dhcp_rx_scheme, unit) state" where
  "resetDhcpLeases env api = do {
     dispatch ResetDhcpLeasesRequest;
     try_call (api_resetDhcpLeases api)
       (\<lambda>_. do { dispatch ResetDhcpLeasesSuccess; success_toast env ''dhcp_reset_leases_success'' })
       (\<lambda>e. do { error_toast env e; dispatch ResetDhcpLeasesFailure }) }"

definition lease_message :: "env \<Rightarrow> string \<Rightarrow> Lease \<Rightarrow> string" where
  "lease_message env m l = getMessage env m [(''key'', SArg (or_str (lease_hostname l) (lease_ip l)))]"

definition addStaticLease :: "env \<Rightarrow> ('w, 'm) dapi \<Rightarrow> Lease \<Rightarrow> (('w, 'm) dhcp_rx_scheme, unit) state" where
  "addStaticLease env api config = do {
     dispatch AddStaticLeaseRequest;
     try_call (api_addStaticLease api config)
       (\<lambda>_. do {
          dispatch (AddStaticLeaseSuccess config);
          success_toast env (lease_message env ''dhcp_lease_added'' config);
          dispatch (ToggleLeaseModal None);
          getDhcpStatus env api })
       (\<lambda>e. do { error_toast env e; dispatch AddStaticLeaseFailure }) }"

definition removeStaticLease :: "env \<Rightarrow> ('w, 'm) dapi \<Rightarrow> Lease \<Rightarrow> (('w, 'm) dhcp_rx_scheme, unit) state" where
  "removeStaticLease env api config = do {
     dispatch RemoveStaticLeaseRequest;
     try_call (api_removeStaticLease api config)
       (\<lambda>_. do {
          dispatch (RemoveStaticLeaseSuccess config);
          success_toast env (lease_message env ''dhcp_lease_deleted'' config) })
       (\<lambda>e. do { error_toast env e; dispatch RemoveStaticLeaseFailure }) }"

definition updateStaticLease :: "env \<Rightarrow> ('w, 'm) dapi \<Rightarrow> Lease \<Rightarrow> (('w, 'm) dhcp_rx_scheme, unit) state" where
  "updateStaticLease env api config = do {
     dispatch UpdateStaticLeaseRequest;
     try_call (api_updateStaticLease api config)
       (\<lambda>_. do {
          dispatch UpdateStaticLeaseSuccess;
          success_toast env (lease_message env ''dhcp_lease_updated'' config);
          dispatch (ToggleLeaseModal None);
          getDhcpStatus env api })
       (\<lambda>e. do { error_toast env e; dispatch UpdateStaticLeaseFailure }) }"

subsection \<open>Search for another DHCP server\<close>

text \<open>
  After the answer the thunk reads the check, the interfaces and the interface's name from the store. Reading a member of an
  absent object throws, which the surrounding \<open>catch\<close> reports: the sum carries it.
\<close>

definition foundIn :: "bool \<Rightarrow> DhcpSearchResultOtherServer option \<Rightarrow> string + status_response option" where
  "foundIn has srv = (if \<not> has then Inr None else case srv of None \<Rightarrow> Inl ''TypeError'' | Some sv \<Rightarrow> Inr (found sv))"

definition v4_check :: "rx_dhcp \<Rightarrow> DhcpSearchV4" where
  "v4_check s = nullish (Option.bind (check s) check_v4) \<lparr>other_server4 = Some no_server, static_ip = Some no_static\<rparr>"

definition v6_check :: "rx_dhcp \<Rightarrow> DhcpSearchV6" where
  "v6_check s = nullish (Option.bind (check s) check_v6) \<lparr>other_server6 = Some no_server\<rparr>"

definition server_failed ::
  "env \<Rightarrow> bool \<Rightarrow> DhcpSearchResultOtherServer option \<Rightarrow> (('w, 'm) dhcp_rx_scheme, bool) call" where
  "server_failed env has srv =
     (case foundIn has srv of
        Inl e \<Rightarrow> pass (Inl e)
      | Inr f \<Rightarrow>
          if f = Some status_response.ERROR
          then do {
            (case Option.bind srv server_error of
               None \<Rightarrow> pass ()
             | Some e \<Rightarrow> if e = [] then pass () else error_toast env e);
            pass (Inr True) }
          else pass (Inr False))"

definition static_failed ::
  "env \<Rightarrow> bool \<Rightarrow> DhcpSearchResultStaticIP option \<Rightarrow> (('w, 'm) dhcp_rx_scheme, bool) call" where
  "static_failed env has st =
     (if \<not> has then pass (Inr False)
      else case st of
             None \<Rightarrow> pass (Inl ''TypeError'')
           | Some t \<Rightarrow> if static t = Some status_response.ERROR
                       then do { error_toast env ''dhcp_static_ip_error''; pass (Inr True) }
                       else pass (Inr False))"

definition dynamic_ip :: "rx_dhcp \<Rightarrow> bool \<Rightarrow> string option" where
  "dynamic_ip s has4 =
     (case static_ip (v4_check s) of
        None \<Rightarrow> None
      | Some st \<Rightarrow>
          if has4 \<and> static st = Some NO \<and> static_addr st \<notin> {None, Some []} \<and> interface_name s \<noteq> []
          then static_addr st else None)"

definition search_verdict :: "env \<Rightarrow> rx_dhcp \<Rightarrow> bool \<Rightarrow> bool \<Rightarrow> (('w, 'm) dhcp_rx_scheme, unit) call" where
  "search_verdict env s has4 has6 =
     (let srv4 = other_server4 (v4_check s); srv6 = other_server6 (v6_check s)
      in try_call (server_failed env has4 srv4) (\<lambda>err4.
           try_call (server_failed env has6 srv6) (\<lambda>err6.
             try_call (static_failed env has4 (static_ip (v4_check s))) (\<lambda>isStaticIPError. do {
               (if err4 \<or> err6 then error_toast env ''dhcp_error'' else pass ());
               (if isStaticIPError \<or> err4 \<or> err6 then pass ()
                else if foundIn has4 srv4 = Inr (Some YES) \<or> foundIn has6 srv6 = Inr (Some YES)
                then error_toast env ''dhcp_found''
                else case dynamic_ip s has4 of
                       Some a \<Rightarrow> error_toast env (getMessage env ''dhcp_dynamic_ip_found''
                         [(''interfaceName'', SArg (interface_name s)), (''ipAddress'', SArg a)])
                     | None \<Rightarrow> success_toast env ''dhcp_not_found'');
               pass (Inr ()) })
             (\<lambda>e. pass (Inl e)))
           (\<lambda>e. pass (Inl e)))
         (\<lambda>e. pass (Inl e)))"

definition report_search :: "env \<Rightarrow> string \<Rightarrow> (('w, 'm) dhcp_rx_scheme, unit) call" where
  "report_search env selected = do {
     s \<leftarrow> gets dhcp;
     (case interfaces s of
        None \<Rightarrow> pass (Inl ''TypeError'')
      | Some ifs \<Rightarrow> search_verdict env s (Option.bind (ifs selected) ipv4_addresses \<noteq> None)
          (Option.bind (ifs selected) ipv6_addresses \<noteq> None)) }"

definition findActiveDhcp :: "env \<Rightarrow> ('w, 'm) dapi \<Rightarrow> string \<Rightarrow> (('w, 'm) dhcp_rx_scheme, unit) state" where
  "findActiveDhcp env api selected = do {
     dispatch FindActiveDhcpRequest;
     (let fail = (\<lambda>e. do { error_toast env e; dispatch FindActiveDhcpFailure })
      in try_call (api_findActiveDhcp api selected)
           (\<lambda>active. do {
              dispatch (FindActiveDhcpSuccess active);
              try_call (report_search env selected) pass fail })
           fail) }"

subsection \<open>Handlers of the page\<close>

text \<open>\<open>name\<close> is the interface chosen in the form, \<open>form\<close> its two sections, \<open>confirmed\<close> the user's answer.\<close>

definition handleSubmit ::
  "env \<Rightarrow> ('w, 'm) dapi \<Rightarrow> string \<Rightarrow> sections \<Rightarrow> (('w, 'm) dhcp_rx_scheme, unit) state" where
  "handleSubmit env api name form =
     (let filled = omitEmptySections form
      in setDhcpConfig env api \<lparr>dc_enabled = None, dc_interface_name = Some name, dc_v4 = sec_v4 filled, dc_v6 = sec_v6 filled\<rparr>)"

definition onClickDisable :: "env \<Rightarrow> ('w, 'm) dapi \<Rightarrow> (('w, 'm) dhcp_rx_scheme, unit) state" where
  "onClickDisable env api = do {
     s \<leftarrow> gets dhcp;
     toggleDhcp env api \<lparr>dc_enabled = Some (enabled s), dc_interface_name = None, dc_v4 = None, dc_v6 = None\<rparr> }"

definition onClickEnable :: "env \<Rightarrow> ('w, 'm) dapi \<Rightarrow> string \<Rightarrow> (('w, 'm) dhcp_rx_scheme, unit) state" where
  "onClickEnable env api name = do {
     s \<leftarrow> gets dhcp;
     (let filled = omitEmptySections \<lparr>sec_v4 = Some (v4 s), sec_v6 = getDefaultV6Values (Some (v6 s))\<rparr>
      in toggleDhcp env api \<lparr>dc_enabled = Some (enabled s), dc_interface_name = Some name,
           dc_v4 = sec_v4 filled, dc_v6 = sec_v6 filled\<rparr>) }"

definition toggle_enabled :: "rx_dhcp \<Rightarrow> string \<Rightarrow> bool" where
  "toggle_enabled s name \<longleftrightarrow>
     (let filledConfig = (name \<noteq> [] \<and> ((\<forall>v\<in>set (map snd (v4 s)). truthy v) \<or> (\<forall>v\<in>set (map snd (v6 s)). truthy v)))
      in \<not> (processingDhcp s \<or> processingConfig s \<or> (\<not> enabled s \<and> (\<not> filledConfig \<or> check s = None))))"

text \<open>The reset starts both thunks at once; the answers come in either order.\<close>

definition clear ::
  "env \<Rightarrow> ('w, 'm) dapi \<Rightarrow> bool \<Rightarrow> bool \<Rightarrow> (('w, 'm) dhcp_rx_scheme, unit) state" where
  "clear env api confirmed reset_first =
     (if \<not> confirmed then pass ()
      else do {
        dispatch ResetDhcpRequest;
        dispatch GetDhcpStatusRequest;
        (if reset_first then do { resetDhcp_finish env api; getDhcpStatus_finish env api }
         else do { getDhcpStatus_finish env api; resetDhcp_finish env api }) })"

definition handleReset :: "env \<Rightarrow> ('w, 'm) dapi \<Rightarrow> bool \<Rightarrow> (('w, 'm) dhcp_rx_scheme, unit) state" where
  "handleReset env api confirmed = (if confirmed then resetDhcpLeases env api else pass ())"

subsection \<open>Theorems\<close>

lemma spread_single: "spread s [(k, v)] = AList.update k v s"
  by (simp add: spread_def)

lemma filled_except:
  assumes "distinct (map fst s)"
  shows "isSectionFilled (Some (spread s [(k, Undefined)])) \<longleftrightarrow> (\<exists>(j, v)\<in>set s. j \<noteq> k \<and> truthy v)"
proof -
  have "(j, v) \<in> set (AList.update k Undefined s) \<longleftrightarrow> (if j = k then v = Undefined else (j, v) \<in> set s)" for j v
    using assms map_of_eq_Some_iff [of s j v] map_of_eq_Some_iff [of "AList.update k Undefined s" j v]
    by (auto simp: AList.distinct_update AList.update_conv')
  then have "(\<exists>(j, v)\<in>set (AList.update k Undefined s). truthy v) \<longleftrightarrow> (\<exists>(j, v)\<in>set s. j \<noteq> k \<and> truthy v)"
    by (simp add: split_beta Bex_def) (metis fst_conv snd_conv surj_pair truthy.simps(1))
  then show ?thesis by (simp add: isSectionFilled_def spread_single split_beta)
qed

lemma member_filled: "truthy (member s k) \<Longrightarrow> isSectionFilled (Some s)"
  by (cases "map_of s k") (force simp: member_def isSectionFilled_def dest: map_of_SomeD)+

text \<open>
  C22. Enabling the DHCP server sends exactly the sections that are configured: the request switches the server on and names
  the interface; it carries the DHCPv4 section as it is stored if some value of it is set, and none otherwise; and it carries the DHCPv6
  section as it is stored if it has a range start, without its lease duration if some other value is set, and none otherwise. So a DHCPv6
  section that holds nothing but the default lease duration of the server, which would wipe the stored one, is left out.
\<close>

theorem rx_enable_sends_configured:
  assumes rec: "\<And>v d. run_state (api_setDhcpConfig api v) d = (r v d, d\<lparr>backend := backend d @ [v]\<rparr>)"
    and off: "\<not> enabled (dhcp c)" and obj: "distinct (map fst (v6 (dhcp c)))"
  shows "backend (exec (onClickEnable env api name) c) = backend c @ [\<lparr>
    dc_enabled = Some True, dc_interface_name = Some name,
    dc_v4 = (if \<exists>(k, v)\<in>set (v4 (dhcp c)). truthy v then Some (v4 (dhcp c)) else None),
    dc_v6 = (if truthy (member (v6 (dhcp c)) ''range_start'') then Some (v6 (dhcp c))
             else if \<exists>(k, v)\<in>set (v6 (dhcp c)). k \<noteq> ''lease_duration'' \<and> truthy v
             then Some (AList.update ''lease_duration'' Undefined (v6 (dhcp c))) else None)\<rparr>]"
proof -
  let ?s = "dhcp c"
  let ?f = "omitEmptySections \<lparr>sec_v4 = Some (v4 ?s), sec_v6 = getDefaultV6Values (Some (v6 ?s))\<rparr>"
  have "backend (exec (onClickEnable env api name) c) = backend c @
      [\<lparr>dc_enabled = Some True, dc_interface_name = Some name, dc_v4 = sec_v4 ?f, dc_v6 = sec_v6 ?f\<rparr>]"
    using off by (simp add: onClickEnable_def toggleDhcp_def run_try_call rec Let_def split: sum.splits)
  moreover have "isSectionFilled (Some (v4 ?s)) \<longleftrightarrow> (\<exists>(k, v)\<in>set (v4 ?s). truthy v)"
    by (simp add: isSectionFilled_def split_beta)
  ultimately show ?thesis
    using member_filled [of "v6 ?s" "''range_start''"] filled_except [OF obj, of "''lease_duration''"]
    by (simp add: omitEmptySections_def getDefaultV6Values_def spread_single)
qed

definition recording_api :: "(rx_dhcp_config list, 'm) dapi" where
  "recording_api = \<lparr>api_getGlobalStatus = pass (Inr True),
     api_getDhcpStatus = pass (Inl ''offline''), api_getDhcpInterfaces = pass (Inr Map.empty),
     api_findActiveDhcp = (\<lambda>_. pass (Inr \<lparr>check_v4 = None, check_v6 = None\<rparr>)),
     api_setDhcpConfig = (\<lambda>v. do { modify (\<lambda>c. c\<lparr>backend := backend c @ [v]\<rparr>); pass (Inr ()) }),
     api_resetDhcp = pass (Inr ()), api_resetDhcpLeases = pass (Inr ()), api_addStaticLease = (\<lambda>_. pass (Inr ())),
     api_removeStaticLease = (\<lambda>_. pass (Inr ())), api_updateStaticLease = (\<lambda>_. pass (Inr ()))\<rparr>"

definition sample_dhcp_rx :: "rx_dhcp_config list dhcp_rx" where
  "sample_dhcp_rx = \<lparr>rx_notices = [], rx_nonce = 0, rx_console = [], browser = [], backend = [],
     dhcp = dhcp_initial\<lparr>v4 := [(''gateway_ip'', Str ''10.0.0.1'')], v6 := [(''range_start'', Str []), (''lease_duration'', Num 86400)]\<rparr>\<rparr>"

theorem rx_enable_sends_configured_witness:
  "backend (exec (onClickEnable sample_env recording_api ''eth0'') sample_dhcp_rx) =
    [\<lparr>dc_enabled = Some True, dc_interface_name = Some ''eth0'', dc_v4 = Some [(''gateway_ip'', Str ''10.0.0.1'')], dc_v6 = None\<rparr>]"
proof -
  have "\<not> enabled (dhcp sample_dhcp_rx)" "distinct (map fst (v6 (dhcp sample_dhcp_rx)))"
    by (simp_all add: sample_dhcp_rx_def dhcp_initial_def)
  with rx_enable_sends_configured [of recording_api "\<lambda>_ _. Inr ()" sample_dhcp_rx sample_env "''eth0''"]
  show ?thesis
    by (simp add: recording_api_def sample_dhcp_rx_def dhcp_initial_def member_def)
qed

text \<open>The search, in the terms of the newer store: what its \<open>cleared\<close> reads of the state.\<close>

definition v2_search_state :: "rx_dhcp \<Rightarrow> DhcpState" where
  "v2_search_state s = Dhcp.initialState\<lparr>DhcpState.interfaces := interfaces s, DhcpState.interface_name := interface_name s,
     DhcpState.check := check s\<rparr>"

lemma server_failed_run:
  "shown SUCCESS (exec (server_failed env has srv) c) = shown SUCCESS c"
  "dhcp (exec (server_failed env has srv) c) = dhcp c"
  "result (server_failed env has srv) c =
     (if \<not> has then Inr False else if srv = None then Inl ''TypeError'' else Inr (found (the srv) = Some status_response.ERROR))"
  by (auto simp: server_failed_def foundIn_def split: option.splits sum.splits)

lemma static_failed_run:
  "shown SUCCESS (exec (static_failed env has st) c) = shown SUCCESS c"
  "dhcp (exec (static_failed env has st) c) = dhcp c"
  "result (static_failed env has st) c =
     (if \<not> has then Inr False else if st = None then Inl ''TypeError'' else Inr (static (the st) = Some status_response.ERROR))"
  by (auto simp: static_failed_def split: option.splits)

lemma search_state_sel:
  "DhcpState.interface_name (v2_search_state s) = interface_name s"
  "checkV4 (v2_search_state s) = v4_check s" "checkV6 (v2_search_state s) = v6_check s"
  "interfaces s = Some ifs \<Longrightarrow> hasV4 (v2_search_state s) i = (Option.bind (ifs i) ipv4_addresses \<noteq> None)"
  "interfaces s = Some ifs \<Longrightarrow> hasV6 (v2_search_state s) i = (Option.bind (ifs i) ipv6_addresses \<noteq> None)"
  by (simp_all add: checkV4_def checkV6_def v4_check_def v6_check_def v2_search_state_def hasV4_def hasV6_def iface_of_def)

lemma search_verdict_successes:
  "shown SUCCESS (exec (search_verdict env s has4 has6) c) = shown SUCCESS c @
     (if (has4 \<longrightarrow> other_server4 (v4_check s) \<noteq> None \<and> static_ip (v4_check s) \<noteq> None \<and>
            found (the (other_server4 (v4_check s))) \<noteq> Some status_response.ERROR \<and>
            static (the (static_ip (v4_check s))) \<noteq> Some status_response.ERROR) \<and>
         (has6 \<longrightarrow> other_server6 (v6_check s) \<noteq> None \<and> found (the (other_server6 (v6_check s))) \<noteq> Some status_response.ERROR) \<and>
         \<not> (foundIn has4 (other_server4 (v4_check s)) = Inr (Some YES) \<or> foundIn has6 (other_server6 (v6_check s)) = Inr (Some YES)) \<and>
         dynamic_ip s has4 = None
      then [''dhcp_not_found''] else [])"
  by (cases has4; cases has6; cases "other_server4 (v4_check s)"; cases "other_server6 (v6_check s)"; cases "static_ip (v4_check s)")
    (auto simp: search_verdict_def run_try_call server_failed_run static_failed_run Let_def split: option.split)

lemma report_search_successes:
  assumes "interfaces (dhcp c) = Some ifs"
  shows "shown SUCCESS (exec (report_search env i) c) =
    shown SUCCESS c @ (if cleared (v2_search_state (dhcp c)) i then [''dhcp_not_found''] else [])"
proof -
  let ?t = "v2_search_state (dhcp c)"
  have dyn: "dynamicAddress ?t i = dynamic_ip (dhcp c) (hasV4 ?t i)"
    by (auto simp: dynamicAddress_def dynamic_ip_def search_state_sel split: option.splits)
  have fnd: "serverFound ?t i \<longleftrightarrow> foundIn (hasV4 ?t i) (other_server4 (v4_check (dhcp c))) = Inr (Some YES) \<or>
      foundIn (hasV6 ?t i) (other_server6 (v6_check (dhcp c))) = Inr (Some YES)"
    by (auto simp: serverFound_def foundIn_def search_state_sel split: option.splits)
  have "exec (report_search env i) c = exec (search_verdict env (dhcp c) (hasV4 ?t i) (hasV6 ?t i)) c"
    using assms by (simp add: report_search_def search_state_sel(4,5) [OF assms])
  then show ?thesis
    by (simp only: search_verdict_successes cleared_iff dyn fnd search_state_sel(2,3))
qed

text \<open>
  Once the interfaces are loaded, the search of the React client gives the all clear in exactly the cases in which the newer
  store does, and in no other case shows a success.
\<close>

theorem clients_search_alike:
  assumes ans: "run_state (api_findActiveDhcp api i) (c\<lparr>dhcp := dhcp_reducer FindActiveDhcpRequest (dhcp c)\<rparr>) = (r, c1)"
    and ifs: "interfaces (dhcp c1) = Some ifs"
  shows "shown SUCCESS (exec (findActiveDhcp env api i) c) = shown SUCCESS c1 @
    (case r of
       Inl _ \<Rightarrow> []
     | Inr d \<Rightarrow> if cleared ((v2_search_state (dhcp c1))\<lparr>DhcpState.check := Some d\<rparr>) i then [''dhcp_not_found''] else [])"
proof -
  have sh: "shown ty (d\<lparr>dhcp := x\<rparr>) = shown ty d" for ty x and d :: "('a, 'b) dhcp_rx_scheme" by (simp add: shown_def)
  have st: "v2_search_state (dhcp_reducer (FindActiveDhcpSuccess d) (dhcp c1)) =
      (v2_search_state (dhcp c1))\<lparr>DhcpState.check := Some d\<rparr>" for d
    by (simp add: v2_search_state_def)
  have rep: "shown SUCCESS (exec (report_search env i) (c1\<lparr>dhcp := dhcp_reducer (FindActiveDhcpSuccess d) (dhcp c1)\<rparr>)) =
      shown SUCCESS c1 @ (if cleared ((v2_search_state (dhcp c1))\<lparr>DhcpState.check := Some d\<rparr>) i then [''dhcp_not_found''] else [])" for d
    using report_search_successes [of "c1\<lparr>dhcp := dhcp_reducer (FindActiveDhcpSuccess d) (dhcp c1)\<rparr>" ifs env i] ifs st
    by (simp add: sh)
  show ?thesis
    using ans rep by (auto simp: findActiveDhcp_def run_try_call Let_def sh split: sum.splits)
qed

text \<open>
  A static lease that is added and removed again leaves the list as it was, on the server and on the page, for a server
  that keeps the leases as a list in which no other lease has the address. In between the page shows the lease once, since the status is loaded
  again after the addition.
\<close>

theorem rx_lease_roundtrip:
  assumes avail: "\<And>d. run_state (api_getGlobalStatus api) d = (Inr True, d)"
    and st: "\<And>d. \<exists>v. run_state (api_getDhcpStatus api) d = (Inr v, d) \<and> ds_static_leases v = stored (backend d)"
    and add: "\<And>l d. run_state (api_addStaticLease api l) d = (Inr (), d\<lparr>backend := put (stored (backend d) @ [l])\<rparr>)"
    and rm: "\<And>l d. run_state (api_removeStaticLease api l) d = (Inr (), d\<lparr>backend := put (remove1 l (stored (backend d)))\<rparr>)"
    and put: "\<And>xs. stored (put xs) = xs"
    and new: "lease_ip l \<notin> lease_ip ` set (stored (backend c))"
  shows "let c1 = exec (addStaticLease env api l) c; c2 = exec (removeStaticLease env api l) c1
         in staticLeases (dhcp c1) = stored (backend c) @ [l] \<and> stored (backend c1) = staticLeases (dhcp c1) \<and>
            staticLeases (dhcp c2) = stored (backend c) \<and> stored (backend c2) = stored (backend c)"
proof -
  have status: "staticLeases (dhcp (exec (getDhcpStatus env api) d)) = stored (backend d) \<and>
      backend (exec (getDhcpStatus env api) d) = backend d" for d
  proof -
    let ?d = "d\<lparr>dhcp := dhcp_reducer GetDhcpStatusRequest (dhcp d)\<rparr>"
    obtain v where "run_state (api_getDhcpStatus api) ?d = (Inr v, ?d)" "ds_static_leases v = stored (backend d)"
      using st [of ?d] by auto
    then show ?thesis by (simp add: getDhcpStatus_def getDhcpStatus_finish_def run_try_call avail Let_def)
  qed
  have "filter (\<lambda>item. lease_ip item \<noteq> lease_ip l) (stored (backend c) @ [l]) = stored (backend c)"
    "remove1 l (stored (backend c) @ [l]) = stored (backend c)"
    using new by (auto simp: remove1_append filter_id_conv image_iff)
  then show ?thesis
    by (simp add: addStaticLease_def removeStaticLease_def run_try_call add rm put status Let_def)
qed

text \<open>
  Resetting starts the reset and a status request at once. If the reset is answered first the page ends with what the server
  holds then; if the status is, the page keeps the leases from before the reset.
\<close>

theorem rx_clear_order:
  assumes avail: "\<And>d. run_state (api_getGlobalStatus api) d = (Inr True, d)"
    and st: "\<And>d. run_state (api_getDhcpStatus api) d = (Inr (held (backend d)), d)"
    and rs: "\<And>d. run_state (api_resetDhcp api) d = (Inr (), d\<lparr>backend := fresh (backend d)\<rparr>)"
  shows "let a = exec (clear env api True True) c; b = exec (clear env api True False) c
         in staticLeases (dhcp a) = ds_static_leases (held (backend a)) \<and> v4 (dhcp a) = ds_v4 (held (backend a)) \<and>
            v6 (dhcp a) = ds_v6 (held (backend a)) \<and>
            staticLeases (dhcp b) = ds_static_leases (held (backend c)) \<and> v4 (dhcp b) = [] \<and> v6 (dhcp b) = [] \<and>
            backend a = backend b \<and> \<not> processing (dhcp a) \<and> \<not> processing (dhcp b) \<and>
            \<not> processingReset (dhcp a) \<and> \<not> processingReset (dhcp b)"
  by (simp add: clear_def resetDhcp_finish_def getDhcpStatus_finish_def run_try_call avail st rs Let_def)

end
