(* ===== verification/DnsConfig.thy ===== *)
theory DnsConfig
  imports Settings
begin

section \<open>DNS configuration store\<close>

text \<open>
  \<^verbatim>\<open>client_v2/src/stores/dnsConfig.ts\<close>: the DNS settings, their form text and the switches.
  One record with optional fields serves for the stored values, for the \<open>Partial\<close> values of a
  save and for the request: \<^const>\<open>None\<close> is an absent key. The five list-valued settings are text in
  the store and lists of lines in the request, the parameter \<open>'t\<close>. The two protection keys of the
  response, which the store does not declare, are left out.
\<close>

subsection \<open>Data\<close>

record 't dns_fields =
  blocking_mode :: "string option"
  ratelimit :: "int option"
  blocking_ipv4 :: "string option"
  blocking_ipv6 :: "string option"
  blocked_response_ttl :: "int option"
  upstream_timeout :: "int option"
  edns_cs_enabled :: "bool option"
  disable_ipv6 :: "bool option"
  dnssec_enabled :: "bool option"
  upstream_dns_file :: "string option"
  upstream_dns :: "'t option"
  fallback_dns :: "'t option"
  bootstrap_dns :: "'t option"
  local_ptr_upstreams :: "'t option"
  ratelimit_whitelist :: "'t option"
  upstream_mode :: "string option"
  resolve_clients :: "bool option"
  use_private_ptr_resolvers :: "bool option"
  default_local_ptr_upstreams :: "(string list) option"
  ratelimit_subnet_len_ipv4 :: "int option"
  ratelimit_subnet_len_ipv6 :: "int option"
  edns_cs_use_custom :: "bool option"
  edns_cs_custom_ip :: "string option"
  cache_size :: "int option"
  cache_ttl_max :: "int option"
  cache_ttl_min :: "int option"
  cache_optimistic :: "bool option"
  cache_enabled :: "bool option"

definition no_fields :: "'t dns_fields" where
  "no_fields = \<lparr>
     blocking_mode = None, ratelimit = None, blocking_ipv4 = None, blocking_ipv6 = None,
     blocked_response_ttl = None, upstream_timeout = None, edns_cs_enabled = None, disable_ipv6 = None,
     dnssec_enabled = None, upstream_dns_file = None, upstream_dns = None, fallback_dns = None,
     bootstrap_dns = None, local_ptr_upstreams = None, ratelimit_whitelist = None, upstream_mode = None,
     resolve_clients = None, use_private_ptr_resolvers = None, default_local_ptr_upstreams = None,
     ratelimit_subnet_len_ipv4 = None, ratelimit_subnet_len_ipv6 = None, edns_cs_use_custom = None,
     edns_cs_custom_ip = None, cache_size = None, cache_ttl_max = None, cache_ttl_min = None,
     cache_optimistic = None, cache_enabled = None\<rparr>"

text \<open>\<open>{ ...old, ...upd }\<close>, and a change of the five text fields.\<close>

definition merge_fields :: "'t dns_fields \<Rightarrow> 't dns_fields \<Rightarrow> 't dns_fields" where
  "merge_fields old upd = \<lparr>
     blocking_mode = keep (blocking_mode upd) (blocking_mode old),
     ratelimit = keep (ratelimit upd) (ratelimit old),
     blocking_ipv4 = keep (blocking_ipv4 upd) (blocking_ipv4 old),
     blocking_ipv6 = keep (blocking_ipv6 upd) (blocking_ipv6 old),
     blocked_response_ttl = keep (blocked_response_ttl upd) (blocked_response_ttl old),
     upstream_timeout = keep (upstream_timeout upd) (upstream_timeout old),
     edns_cs_enabled = keep (edns_cs_enabled upd) (edns_cs_enabled old),
     disable_ipv6 = keep (disable_ipv6 upd) (disable_ipv6 old),
     dnssec_enabled = keep (dnssec_enabled upd) (dnssec_enabled old),
     upstream_dns_file = keep (upstream_dns_file upd) (upstream_dns_file old),
     upstream_dns = keep (upstream_dns upd) (upstream_dns old),
     fallback_dns = keep (fallback_dns upd) (fallback_dns old),
     bootstrap_dns = keep (bootstrap_dns upd) (bootstrap_dns old),
     local_ptr_upstreams = keep (local_ptr_upstreams upd) (local_ptr_upstreams old),
     ratelimit_whitelist = keep (ratelimit_whitelist upd) (ratelimit_whitelist old),
     upstream_mode = keep (upstream_mode upd) (upstream_mode old),
     resolve_clients = keep (resolve_clients upd) (resolve_clients old),
     use_private_ptr_resolvers = keep (use_private_ptr_resolvers upd) (use_private_ptr_resolvers old),
     default_local_ptr_upstreams = keep (default_local_ptr_upstreams upd) (default_local_ptr_upstreams old),
     ratelimit_subnet_len_ipv4 = keep (ratelimit_subnet_len_ipv4 upd) (ratelimit_subnet_len_ipv4 old),
     ratelimit_subnet_len_ipv6 = keep (ratelimit_subnet_len_ipv6 upd) (ratelimit_subnet_len_ipv6 old),
     edns_cs_use_custom = keep (edns_cs_use_custom upd) (edns_cs_use_custom old),
     edns_cs_custom_ip = keep (edns_cs_custom_ip upd) (edns_cs_custom_ip old),
     cache_size = keep (cache_size upd) (cache_size old),
     cache_ttl_max = keep (cache_ttl_max upd) (cache_ttl_max old),
     cache_ttl_min = keep (cache_ttl_min upd) (cache_ttl_min old),
     cache_optimistic = keep (cache_optimistic upd) (cache_optimistic old),
     cache_enabled = keep (cache_enabled upd) (cache_enabled old)\<rparr>"

definition map_fields :: "('s option \<Rightarrow> 't option) \<Rightarrow> 's dns_fields \<Rightarrow> 't dns_fields" where
  "map_fields h v = \<lparr>
     blocking_mode = blocking_mode v, ratelimit = ratelimit v, blocking_ipv4 = blocking_ipv4 v,
     blocking_ipv6 = blocking_ipv6 v, blocked_response_ttl = blocked_response_ttl v,
     upstream_timeout = upstream_timeout v, edns_cs_enabled = edns_cs_enabled v,
     disable_ipv6 = disable_ipv6 v, dnssec_enabled = dnssec_enabled v,
     upstream_dns_file = upstream_dns_file v, upstream_dns = h (upstream_dns v),
     fallback_dns = h (fallback_dns v), bootstrap_dns = h (bootstrap_dns v),
     local_ptr_upstreams = h (local_ptr_upstreams v), ratelimit_whitelist = h (ratelimit_whitelist v),
     upstream_mode = upstream_mode v, resolve_clients = resolve_clients v,
     use_private_ptr_resolvers = use_private_ptr_resolvers v,
     default_local_ptr_upstreams = default_local_ptr_upstreams v,
     ratelimit_subnet_len_ipv4 = ratelimit_subnet_len_ipv4 v,
     ratelimit_subnet_len_ipv6 = ratelimit_subnet_len_ipv6 v, edns_cs_use_custom = edns_cs_use_custom v,
     edns_cs_custom_ip = edns_cs_custom_ip v, cache_size = cache_size v, cache_ttl_max = cache_ttl_max v,
     cache_ttl_min = cache_ttl_min v, cache_optimistic = cache_optimistic v, cache_enabled = cache_enabled v\<rparr>"

record DnsConfigState =
  processingGetConfig :: bool
  initialized :: bool
  processingSetConfig :: bool
  dns_values :: "string dns_fields"

definition DEFAULT_BLOCKING_IPV4 :: string where "DEFAULT_BLOCKING_IPV4 = ''0.0.0.0''"

definition DEFAULT_BLOCKING_IPV6 :: string where "DEFAULT_BLOCKING_IPV6 = ''::''"

definition LOAD_BALANCING :: string where "LOAD_BALANCING = ''load_balance''"

definition initialState :: DnsConfigState where
  "initialState = \<lparr>processingGetConfig = True, initialized = False, processingSetConfig = False,
     dns_values = no_fields\<lparr>
       blocking_mode := Some ''default'', ratelimit := Some 20,
       blocking_ipv4 := Some DEFAULT_BLOCKING_IPV4, blocking_ipv6 := Some DEFAULT_BLOCKING_IPV6,
       blocked_response_ttl := Some 10, upstream_timeout := Some 10, edns_cs_enabled := Some False,
       disable_ipv6 := Some False, dnssec_enabled := Some False, upstream_dns_file := Some [],
       upstream_dns := Some [], fallback_dns := Some [], bootstrap_dns := Some [],
       local_ptr_upstreams := Some [], ratelimit_whitelist := Some [], upstream_mode := Some [],
       resolve_clients := Some False, use_private_ptr_resolvers := Some False,
       default_local_ptr_upstreams := Some []\<rparr>\<rparr>"

record 'w dns_ctx = "(unit, 'w) ctx" +
  dnsState :: DnsConfigState

interpretation dns_frame: toast_frame dnsState
  by unfold_locales simp_all

record 'c dns_api =
  dnsInfo :: "('c, string list dns_fields) call"
  dnsConfig :: "string list dns_fields \<Rightarrow> ('c, unit) call"
  cacheClear :: "('c, unit) call"

abbreviation setState ::
  "(DnsConfigState \<Rightarrow> DnsConfigState) \<Rightarrow> ('w, 'm) dns_ctx_scheme \<Rightarrow> ('w, 'm) dns_ctx_scheme" where
  "setState f c \<equiv> c\<lparr>dnsState := f (dnsState c)\<rparr>"

subsection \<open>Loading\<close>

text \<open>\<open>value?.join('\n') || ''\<close>: always a string.\<close>

definition joined_text :: "string list option \<Rightarrow> string option" where
  "joined_text v = Some (case v of None \<Rightarrow> [] | Some ls \<Rightarrow> join_lines ls)"

definition or_default :: "string option \<Rightarrow> string \<Rightarrow> string option" where
  "or_default v d = Some (case v of None \<Rightarrow> d | Some s \<Rightarrow> if s = [] then d else s)"

definition loadedValues :: "string list dns_fields \<Rightarrow> string dns_fields \<Rightarrow> string dns_fields" where
  "loadedValues data old =
     (merge_fields old (map_fields joined_text data))\<lparr>
        blocking_ipv4 := or_default (blocking_ipv4 data) DEFAULT_BLOCKING_IPV4,
        blocking_ipv6 := or_default (blocking_ipv6 data) DEFAULT_BLOCKING_IPV6,
        upstream_mode := (if upstream_mode data = Some [] then Some LOAD_BALANCING else upstream_mode data)\<rparr>"

definition getDnsConfig ::
  "env \<Rightarrow> ('w, 'm) dns_ctx_scheme dns_api \<Rightarrow> (('w, 'm) dns_ctx_scheme, unit) state" where
  "getDnsConfig env api = do {
     modify (setState (\<lambda>s. s\<lparr>processingGetConfig := True\<rparr>));
     try_call (dnsInfo api)
       (\<lambda>data. modify (setState (\<lambda>s. s\<lparr>dns_values := loadedValues data (dns_values s),
          processingGetConfig := False, initialized := True\<rparr>)))
       (\<lambda>e. do {
          modify (errorToast env e);
          modify (setState (\<lambda>s. s\<lparr>processingGetConfig := False, initialized := True\<rparr>)) }) }"

definition clearDnsCache ::
  "env \<Rightarrow> ('w, 'm) dns_ctx_scheme dns_api \<Rightarrow> (('w, 'm) dns_ctx_scheme, unit) state" where
  "clearDnsCache env api = try_call (cacheClear api) (\<lambda>_. pass ()) (\<lambda>e. modify (errorToast env e))"

subsection \<open>Saving\<close>

definition splitLines :: "string option \<Rightarrow> string list option" where
  "splitLines v = (case v of None \<Rightarrow> None | Some t \<Rightarrow> Some (splitByNewLine (Some t)))"

definition requestOf :: "string dns_fields \<Rightarrow> string list dns_fields" where
  "requestOf v = (map_fields splitLines v)\<lparr>default_local_ptr_upstreams := None\<rparr>"

definition setDnsConfig ::
  "env \<Rightarrow> ('w, 'm) dns_ctx_scheme dns_api \<Rightarrow> string dns_fields \<Rightarrow> string option \<Rightarrow> bool
     \<Rightarrow> (('w, 'm) dns_ctx_scheme, unit) state" where
  "setDnsConfig env api values toastMessage silent = do {
     modify (setState (\<lambda>s. s\<lparr>processingSetConfig := True\<rparr>));
     try_call (dnsConfig api (requestOf values))
       (\<lambda>_. do {
          modify (setState (\<lambda>s. s\<lparr>dns_values := merge_fields (dns_values s) values, processingSetConfig := False\<rparr>));
          (if silent then pass ()
           else if toastMessage \<notin> {None, Some []} then modify (successToast env (the toastMessage))
           else modify (successToast env (msg env ''settings_notify_changes_saved''))) })
       (\<lambda>e. do {
          modify (errorToast env e);
          modify (setState (\<lambda>s. s\<lparr>processingSetConfig := False\<rparr>)) }) }"

subsection \<open>Switches\<close>

definition saveToggle ::
  "env \<Rightarrow> ('w, 'm) dns_ctx_scheme dns_api \<Rightarrow> string dns_fields \<Rightarrow> (('w, 'm) dns_ctx_scheme, unit) state" where
  "saveToggle env api values = do {
     busy \<leftarrow> gets (\<lambda>c. processingSetConfig (dnsState c));
     (if busy then pass () else setDnsConfig env api values None True) }"

text \<open>\<open>!value\<close>, where an absent value counts as off.\<close>

definition negate :: "bool option \<Rightarrow> bool option" where
  "negate v = Some (v \<noteq> Some True)"

definition ptr_values :: "string dns_fields \<Rightarrow> string dns_fields" where
  "ptr_values s =
     (if negate (use_private_ptr_resolvers s) = Some True
      then no_fields\<lparr>use_private_ptr_resolvers := Some True,
        local_ptr_upstreams := (if local_ptr_upstreams s \<in> {None, Some []} then None else local_ptr_upstreams s)\<rparr>
      else no_fields\<lparr>use_private_ptr_resolvers := Some False\<rparr>)"

definition togglePrivatePtrResolvers ::
  "env \<Rightarrow> ('w, 'm) dns_ctx_scheme dns_api \<Rightarrow> (('w, 'm) dns_ctx_scheme, unit) state" where
  "togglePrivatePtrResolvers env api = do {
     s \<leftarrow> gets (\<lambda>c. dns_values (dnsState c));
     saveToggle env api (ptr_values s) }"

definition toggleResolveClients ::
  "env \<Rightarrow> ('w, 'm) dns_ctx_scheme dns_api \<Rightarrow> (('w, 'm) dns_ctx_scheme, unit) state" where
  "toggleResolveClients env api = do {
     s \<leftarrow> gets (\<lambda>c. dns_values (dnsState c));
     saveToggle env api (no_fields\<lparr>resolve_clients := negate (resolve_clients s)\<rparr>) }"

definition toggleDnssecEnabled ::
  "env \<Rightarrow> ('w, 'm) dns_ctx_scheme dns_api \<Rightarrow> (('w, 'm) dns_ctx_scheme, unit) state" where
  "toggleDnssecEnabled env api = do {
     s \<leftarrow> gets (\<lambda>c. dns_values (dnsState c));
     saveToggle env api (no_fields\<lparr>dnssec_enabled := negate (dnssec_enabled s)\<rparr>) }"

definition toggleDisableIPv6 ::
  "env \<Rightarrow> ('w, 'm) dns_ctx_scheme dns_api \<Rightarrow> (('w, 'm) dns_ctx_scheme, unit) state" where
  "toggleDisableIPv6 env api = do {
     s \<leftarrow> gets (\<lambda>c. dns_values (dnsState c));
     saveToggle env api (no_fields\<lparr>disable_ipv6 := negate (disable_ipv6 s)\<rparr>) }"

definition toggleCacheEnabled ::
  "env \<Rightarrow> ('w, 'm) dns_ctx_scheme dns_api \<Rightarrow> (('w, 'm) dns_ctx_scheme, unit) state" where
  "toggleCacheEnabled env api = do {
     s \<leftarrow> gets (\<lambda>c. dns_values (dnsState c));
     saveToggle env api (no_fields\<lparr>cache_enabled := negate (cache_enabled s)\<rparr>) }"

definition toggleOptimisticCaching ::
  "env \<Rightarrow> ('w, 'm) dns_ctx_scheme dns_api \<Rightarrow> (('w, 'm) dns_ctx_scheme, unit) state" where
  "toggleOptimisticCaching env api = do {
     s \<leftarrow> gets (\<lambda>c. dns_values (dnsState c));
     saveToggle env api (no_fields\<lparr>cache_optimistic := negate (cache_optimistic s)\<rparr>) }"

definition toggleEdnsCsEnabled ::
  "env \<Rightarrow> ('w, 'm) dns_ctx_scheme dns_api \<Rightarrow> (('w, 'm) dns_ctx_scheme, unit) state" where
  "toggleEdnsCsEnabled env api = do {
     s \<leftarrow> gets (\<lambda>c. dns_values (dnsState c));
     saveToggle env api (no_fields\<lparr>edns_cs_enabled := negate (edns_cs_enabled s)\<rparr>) }"

end
