(* ===== verification/DnsServer.thy ===== *)
theory DnsServer
  imports DnsConfig
begin

section \<open>The DNS configuration on the server\<close>

text \<open>
  The handler behind the DNS settings page, \<^verbatim>\<open>internal/dnsforward/http.go\<close>: \<open>handleSetConfig\<close> decodes a request,
  validates it and stores what it names, \<open>getDNSConfig\<close> reports what is stored. A stored
  configuration is kept as the record that is reported. Not under the model, and parameters of it, are the
  address library \<open>net/netip\<close> and what the DNS proxy library says of the servers of a request
  and of a restart with a new configuration.
\<close>

subsection \<open>Decoding\<close>

datatype set_error =
    BadBody
  | NoOwnAddresses string
  | BadServers string
  | BadSubnetLen
  | BadBlockingMode
  | BadUpstreamMode
  | NoCacheSize
  | BadCacheTTL
  | BadTimeout
  | RestartFailed string

text \<open>
  \<open>addr_text\<close> is the text of the address that a text denotes, if any, \<open>is4\<close> and \<open>is6\<close> the family of an
  address by its text, \<open>int_size\<close> the width of Go's \<open>int\<close>, \<open>overflowed\<close> the seconds that are left of a
  timeout too long for a \<open>time.Duration\<close>, and \<open>restart\<close> the error of a restart, if one is
  needed and fails.
\<close>

record dns_lib =
  addr_text :: "string \<Rightarrow> string option"
  is4 :: "string \<Rightarrow> bool"
  is6 :: "string \<Rightarrow> bool"
  int_size :: nat
  own_addresses :: "string option"
  check_servers :: "string list dns_fields \<Rightarrow> string option"
  overflowed :: "int \<Rightarrow> int"
  restart :: "string list dns_fields \<Rightarrow> string list dns_fields \<Rightarrow> string option"

text \<open>An address in JSON: an absent key and an empty text are the zero address, which prints as the empty text.\<close>

definition addr_field :: "dns_lib \<Rightarrow> string option \<Rightarrow> string option" where
  "addr_field L v = (case v of None \<Rightarrow> Some [] | Some t \<Rightarrow> if t = [] then Some [] else addr_text L t)"

definition addr_list :: "dns_lib \<Rightarrow> string list option \<Rightarrow> string list option option" where
  "addr_list L v = (case v of None \<Rightarrow> Some None | Some ls \<Rightarrow> map_option Some (those (map (\<lambda>l. addr_field L (Some l)) ls)))"

definition fits :: "int \<Rightarrow> int \<Rightarrow> int option \<Rightarrow> bool" where
  "fits lo hi v \<longleftrightarrow> (case v of None \<Rightarrow> True | Some n \<Rightarrow> lo \<le> n \<and> n < hi)"

definition numbers_fit :: "dns_lib \<Rightarrow> string list dns_fields \<Rightarrow> bool" where
  "numbers_fit L req \<longleftrightarrow>
     (\<forall>n \<in> set [ratelimit req, blocked_response_ttl req, cache_size req, cache_ttl_min req, cache_ttl_max req].
        fits 0 (2 ^ 32) n) \<and>
     (\<forall>n \<in> set [ratelimit_subnet_len_ipv4 req, ratelimit_subnet_len_ipv6 req]. fits 0 (2 ^ int_size L) n) \<and>
     fits (- (2 ^ (int_size L - 1))) (2 ^ (int_size L - 1)) (upstream_timeout req)"

definition decodeRequest :: "dns_lib \<Rightarrow> string list dns_fields \<Rightarrow> string list dns_fields option" where
  "decodeRequest L body =
     (case (addr_field L (blocking_ipv4 body), addr_field L (blocking_ipv6 body),
            addr_field L (edns_cs_custom_ip body), addr_list L (ratelimit_whitelist body)) of
        (Some v4, Some v6, Some ip, Some wl) \<Rightarrow>
          if numbers_fit L body
          then Some (body\<lparr>blocking_ipv4 := Some v4, blocking_ipv6 := Some v6, edns_cs_custom_ip := Some ip,
            ratelimit_whitelist := wl\<rparr>)
          else None
      | _ \<Rightarrow> None)"

subsection \<open>Validation\<close>

definition CUSTOM_IP :: string where "CUSTOM_IP = ''custom_ip''"

definition validateBlockingMode :: "dns_lib \<Rightarrow> string \<Rightarrow> string \<Rightarrow> string \<Rightarrow> bool" where
  "validateBlockingMode L m v4 v6 \<longleftrightarrow>
     m \<in> {''default'', ''nxdomain'', ''refused'', ''null_ip''} \<or> m = CUSTOM_IP \<and> is4 L v4 \<and> is6 L v6"

definition checkBlockingMode :: "dns_lib \<Rightarrow> string list dns_fields \<Rightarrow> bool" where
  "checkBlockingMode L req \<longleftrightarrow> (case blocking_mode req of None \<Rightarrow> True
     | Some m \<Rightarrow> validateBlockingMode L m (nullish (blocking_ipv4 req) []) (nullish (blocking_ipv6 req) []))"

definition checkUpstreamMode :: "string list dns_fields \<Rightarrow> bool" where
  "checkUpstreamMode req \<longleftrightarrow> (case upstream_mode req of None \<Rightarrow> True
     | Some m \<Rightarrow> m \<in> {[], LOAD_BALANCING, ''parallel'', ''fastest_addr''})"

definition validateCacheTTL :: "int \<Rightarrow> int \<Rightarrow> bool" where
  "validateCacheTTL minTTL maxTTL \<longleftrightarrow> minTTL = 0 \<and> maxTTL = 0 \<or> \<not> (maxTTL > 0 \<and> minTTL > maxTTL)"

definition cache_size_missing :: "string list dns_fields \<Rightarrow> string list dns_fields \<Rightarrow> bool" where
  "cache_size_missing req conf \<longleftrightarrow>
     cache_enabled req = Some True \<and> nullish (cache_size req) (nullish (cache_size conf) 0) = 0"

text \<open>A size without the switch decides on the switch.\<close>

definition infer_cache :: "string list dns_fields \<Rightarrow> string list dns_fields" where
  "infer_cache req = req\<lparr>cache_enabled := (case (cache_enabled req, cache_size req) of
     (None, Some n) \<Rightarrow> Some (n > 0) | (e, _) \<Rightarrow> e)\<rparr>"

definition validate_request ::
  "dns_lib \<Rightarrow> string list dns_fields \<Rightarrow> string list dns_fields \<Rightarrow> set_error option" where
  "validate_request L req conf =
     (case check_servers L req of Some e \<Rightarrow> Some (BadServers e)
      | None \<Rightarrow>
          if \<not> (fits 0 33 (ratelimit_subnet_len_ipv4 req) \<and> fits 0 129 (ratelimit_subnet_len_ipv6 req)) then Some BadSubnetLen
          else if \<not> checkBlockingMode L req then Some BadBlockingMode
          else if \<not> checkUpstreamMode req then Some BadUpstreamMode
          else if cache_size_missing req conf then Some NoCacheSize
          else if \<not> validateCacheTTL (nullish (cache_ttl_min req) 0) (nullish (cache_ttl_max req) 0) then Some BadCacheTTL
          else if (case upstream_timeout req of None \<Rightarrow> False | Some n \<Rightarrow> n < 1) then Some BadTimeout
          else None)"

subsection \<open>Storing\<close>

definition kept_seconds :: "dns_lib \<Rightarrow> int \<Rightarrow> int" where
  "kept_seconds L n = (if n * 1000000000 < 2 ^ 63 then n else overflowed L n)"

definition kept_mode :: "string \<Rightarrow> string" where
  "kept_mode m = (if m = LOAD_BALANCING then [] else m)"

definition setConfig :: "dns_lib \<Rightarrow> string list dns_fields \<Rightarrow> string list dns_fields \<Rightarrow> string list dns_fields" where
  "setConfig L dc conf = (merge_fields conf dc)\<lparr>
     blocking_ipv4 := (if blocking_mode dc = Some CUSTOM_IP then blocking_ipv4 dc else blocking_ipv4 conf),
     blocking_ipv6 := (if blocking_mode dc = Some CUSTOM_IP then blocking_ipv6 dc else blocking_ipv6 conf),
     upstream_mode := keep (map_option kept_mode (upstream_mode dc)) (upstream_mode conf),
     edns_cs_custom_ip := (if edns_cs_use_custom dc = Some True then edns_cs_custom_ip dc else edns_cs_custom_ip conf),
     upstream_timeout := keep (map_option (kept_seconds L) (upstream_timeout dc)) (upstream_timeout conf),
     default_local_ptr_upstreams := default_local_ptr_upstreams conf\<rparr>"

text \<open>The answer and the configuration afterwards: a restart that fails is an error with the configuration changed.\<close>

definition handleSetConfig ::
  "dns_lib \<Rightarrow> string list dns_fields \<Rightarrow> string list dns_fields \<Rightarrow> (set_error + unit) \<times> string list dns_fields" where
  "handleSetConfig L body conf =
     (case decodeRequest L body of
        None \<Rightarrow> (Inl BadBody, conf)
      | Some req \<Rightarrow>
     (case own_addresses L of
        Some e \<Rightarrow> (Inl (NoOwnAddresses e), conf)
      | None \<Rightarrow>
     (case validate_request L req conf of
        Some e \<Rightarrow> (Inl e, conf)
      | None \<Rightarrow>
          let dc = infer_cache req; conf' = setConfig L dc conf
          in (case restart L dc conf' of Some e \<Rightarrow> Inl (RestartFailed e) | None \<Rightarrow> Inr (), conf'))))"

text \<open>
  The calls of the client reach that handler, and a configuration that is read is the stored one; \<open>err_text\<close> is the
  text the client makes of an error.
\<close>

definition dns_server ::
  "dns_lib \<Rightarrow> (set_error \<Rightarrow> string) \<Rightarrow> ('w, 'm) dns_ctx_scheme dns_api \<Rightarrow> ('w \<Rightarrow> string list dns_fields) \<Rightarrow> bool" where
  "dns_server L err_text api kept \<longleftrightarrow>
     (\<forall>c. run_state (dnsInfo api) c = (Inr (kept (world c)), c)) \<and>
     (\<forall>req c. \<exists>w'. kept w' = snd (handleSetConfig L req (kept (world c))) \<and>
        run_state (dnsConfig api req) c =
          (map_sum err_text id (fst (handleSetConfig L req (kept (world c)))), c\<lparr>world := w'\<rparr>))"

subsection \<open>Theorems\<close>

lemma setDnsConfig_run:
  assumes "dns_server L err_text api kept"
  shows "let h = handleSetConfig L (requestOf v) (kept (world c)); c1 = exec (setDnsConfig env api v t q) c
    in kept (world c1) = snd h \<and> processingGetConfig (dnsState c1) = processingGetConfig (dnsState c) \<and>
       \<not> processingSetConfig (dnsState c1) \<and>
       (case fst h of
          Inl e \<Rightarrow> err_text e \<in> message ` set (notices c1) \<and> dns_values (dnsState c1) = dns_values (dnsState c)
        | Inr _ \<Rightarrow> dns_values (dnsState c1) = merge_fields (dns_values (dnsState c)) v)"
proof -
  let ?c = "setState (\<lambda>s. s\<lparr>processingSetConfig := True\<rparr>) c"
  let ?h = "handleSetConfig L (requestOf v) (kept (world c))"
  obtain w' where "kept w' = snd (handleSetConfig L (requestOf v) (kept (world ?c)))"
    "run_state (dnsConfig api (requestOf v)) ?c =
      (map_sum err_text id (fst (handleSetConfig L (requestOf v) (kept (world ?c)))), ?c\<lparr>world := w'\<rparr>)"
    using assms unfolding dns_server_def by blast
  then show ?thesis
    by (cases "fst ?h") (simp_all add: setDnsConfig_def run_try_call Let_def error_shown)
qed

lemma getDnsConfig_run:
  "dns_server L err_text api kept \<Longrightarrow> exec (getDnsConfig env api) c =
     setState (\<lambda>s. s\<lparr>dns_values := loadedValues (kept (world c)) (dns_values s), processingGetConfig := False, initialized := True\<rparr>) c"
  by (simp add: getDnsConfig_def run_try_call dns_server_def)

lemma accepted_stored:
  assumes "handleSetConfig L body conf = (Inr u, conf')"
  obtains req where "decodeRequest L body = Some req" "conf' = setConfig L (infer_cache req) conf"
  using assms by (auto simp: handleSetConfig_def Let_def split: option.splits)

text \<open>The address as the server prints it.\<close>

definition canon :: "dns_lib \<Rightarrow> string option \<Rightarrow> string" where
  "canon L v = nullish (addr_field L v) []"

lemma those_map_canon: "those (map (\<lambda>l. addr_field L (Some l)) ls) = Some xs \<Longrightarrow> xs = map (\<lambda>l. canon L (Some l)) ls"
  by (induction ls arbitrary: xs) (auto simp: canon_def split: option.splits)

lemma decodeRequest_eq:
  assumes "decodeRequest L body = Some req"
  shows "req = body\<lparr>blocking_ipv4 := Some (canon L (blocking_ipv4 body)), blocking_ipv6 := Some (canon L (blocking_ipv6 body)),
    edns_cs_custom_ip := Some (canon L (edns_cs_custom_ip body)),
    ratelimit_whitelist := map_option (map (\<lambda>l. canon L (Some l))) (ratelimit_whitelist body)\<rparr>"
proof -
  have "addr_list L v = Some wl \<Longrightarrow> wl = map_option (map (\<lambda>l. canon L (Some l))) v" for v wl
    by (auto simp: addr_list_def dest: those_map_canon split: option.splits)
  with assms show ?thesis by (auto simp: decodeRequest_def canon_def split: option.splits if_splits)
qed

text \<open>
  What the page shows after the settings \<open>v\<close> were saved, where \<open>base\<close> is what it shows of the server's
  configuration before: the named settings, with the lines of the texts that are not blank and the
  addresses as the server prints them. The blocking addresses count only with the custom
  mode, the custom subnet address only with its switch, and a cache size decides on the cache
  when the switch of the cache is not named.
\<close>

definition shown_lines :: "(string \<Rightarrow> string) \<Rightarrow> string option \<Rightarrow> string option \<Rightarrow> string option" where
  "shown_lines f given old = (case given of Some x \<Rightarrow> Some (join_lines (map f (splitByNewLine (Some x)))) | None \<Rightarrow> old)"

definition shown_after :: "dns_lib \<Rightarrow> string dns_fields \<Rightarrow> string dns_fields \<Rightarrow> string dns_fields" where
  "shown_after L v base = (merge_fields base v)\<lparr>
     upstream_dns := shown_lines id (upstream_dns v) (upstream_dns base),
     fallback_dns := shown_lines id (fallback_dns v) (fallback_dns base),
     bootstrap_dns := shown_lines id (bootstrap_dns v) (bootstrap_dns base),
     local_ptr_upstreams := shown_lines id (local_ptr_upstreams v) (local_ptr_upstreams base),
     ratelimit_whitelist := shown_lines (\<lambda>l. canon L (Some l)) (ratelimit_whitelist v) (ratelimit_whitelist base),
     blocking_ipv4 := (if blocking_mode v = Some CUSTOM_IP
       then or_default (Some (canon L (blocking_ipv4 v))) DEFAULT_BLOCKING_IPV4 else blocking_ipv4 base),
     blocking_ipv6 := (if blocking_mode v = Some CUSTOM_IP
       then or_default (Some (canon L (blocking_ipv6 v))) DEFAULT_BLOCKING_IPV6 else blocking_ipv6 base),
     edns_cs_custom_ip := (if edns_cs_use_custom v = Some True then Some (canon L (edns_cs_custom_ip v)) else edns_cs_custom_ip base),
     upstream_mode := (case upstream_mode v of Some m \<Rightarrow> or_default (Some m) LOAD_BALANCING | None \<Rightarrow> upstream_mode base),
     upstream_timeout := keep (map_option (kept_seconds L) (upstream_timeout v)) (upstream_timeout base),
     cache_enabled := (case (cache_enabled v, cache_size v) of
       (None, Some n) \<Rightarrow> Some (n > 0) | (e, _) \<Rightarrow> keep e (cache_enabled base)),
     default_local_ptr_upstreams := default_local_ptr_upstreams base\<rparr>"

lemma keep_keep [simp]: "keep (keep a b) d = keep a (keep b d)" "keep a (keep b (keep a d)) = keep a (keep b d)"
  by (cases a; cases b; simp)+

lemma keep_joined [simp]: "keep (joined_text x) d = joined_text x"
  by (simp add: joined_text_def)

lemma reload_after_set:
  assumes "decodeRequest L (requestOf v) = Some req"
  shows "loadedValues (setConfig L (infer_cache req) conf) (merge_fields old v) =
    shown_after L v (loadedValues conf (merge_fields old v))"
proof -
  have mode: "(kept_mode x = [] \<longrightarrow> Some LOAD_BALANCING = or_default (Some x) LOAD_BALANCING) \<and>
      (kept_mode x \<noteq> [] \<longrightarrow> Some (kept_mode x) = or_default (Some x) LOAD_BALANCING)" for x
    by (simp add: kept_mode_def or_default_def LOAD_BALANCING_def)
  have od: "keep (or_default x y) z = or_default x y" for x y z by (simp add: or_default_def)
  have ls: "joined_text (keep (splitLines g) o') = shown_lines id g (joined_text o')" for g o'
    by (cases g) (simp_all add: splitLines_def shown_lines_def joined_text_def)
  have wl: "joined_text (keep (map_option (map f) (splitLines g)) o') = shown_lines f g (joined_text o')" for f g o'
    by (cases g) (simp_all add: splitLines_def shown_lines_def joined_text_def)
  have sl: "keep (shown_lines f g (joined_text x)) d = shown_lines f g (joined_text x)" for f g x d
    by (cases g) (simp_all add: shown_lines_def)
  show ?thesis
    unfolding decodeRequest_eq [OF assms] loadedValues_def setConfig_def infer_cache_def shown_after_def requestOf_def
    by (rule dns_fields.equality)
      (simp_all add: merge_fields_def map_fields_def mode od ls wl sl split: option.splits)
qed


text \<open>A server that runs the handler, with addresses in lower case.\<close>

definition sample_dns_lib :: dns_lib where
  "sample_dns_lib = \<lparr>addr_text = (\<lambda>t. if list_ex (\<lambda>c. c \<in> {CHR ''.'', CHR '':''}) t then Some (toLowerCase t) else None),
     is4 = (\<lambda>t. CHR ''.'' \<in> set t), is6 = (\<lambda>t. CHR '':'' \<in> set t), int_size = 64, own_addresses = None,
     check_servers = (\<lambda>_. None), overflowed = id, restart = (\<lambda>_ _. None)\<rparr>"

definition stored_api :: "(string list dns_fields, 'm) dns_ctx_scheme dns_api" where
  "stored_api = \<lparr>dnsInfo = gets (\<lambda>c. Inr (world c)),
     dnsConfig = (\<lambda>req. State (\<lambda>c. case handleSetConfig sample_dns_lib req (world c) of
       (r, w) \<Rightarrow> (map_sum (\<lambda>_. ''refused'') id r, c\<lparr>world := w\<rparr>))),
     cacheClear = pass (Inr ())\<rparr>"

lemma stored_dns_server: "dns_server sample_dns_lib (\<lambda>_. ''refused'') stored_api id"
  unfolding dns_server_def by (auto simp: stored_api_def split_beta)

definition sample_dns :: "string list dns_fields dns_ctx" where
  "sample_dns = \<lparr>notices = [], undoRegistry = Map.empty, nonce = 1, console_error = [],
     world = no_fields\<lparr>local_ptr_upstreams := Some [''10.0.0.1'', ''10.0.0.2''], use_private_ptr_resolvers := Some False\<rparr>,
     dnsState = initialState\<lparr>dns_values := (dns_values initialState)\<lparr>
       local_ptr_upstreams := Some (join_lines [''10.0.0.1'', ''10.0.0.2''])\<rparr>\<rparr>\<rparr>"

text \<open>The two families swapped are refused; a proper pair comes back in the server's spelling.\<close>

definition custom_values :: "string \<Rightarrow> string \<Rightarrow> string dns_fields" where
  "custom_values v4 v6 = no_fields\<lparr>blocking_mode := Some CUSTOM_IP, blocking_ipv4 := Some v4, blocking_ipv6 := Some v6,
     cache_size := Some 4096\<rparr>"

lemma custom_values_accepted:
  "fst (handleSetConfig sample_dns_lib (requestOf (custom_values ''10.0.0.9'' ''FE80::1'')) (world sample_dns)) = Inr ()"
  by (simp add: handleSetConfig_def decodeRequest_def addr_field_def addr_list_def numbers_fit_def fits_def sample_dns_lib_def
      custom_values_def requestOf_def map_fields_def no_fields_def splitLines_def validate_request_def checkBlockingMode_def
      validateBlockingMode_def checkUpstreamMode_def cache_size_missing_def validateCacheTTL_def CUSTOM_IP_def toLowerCase_def
      lower_char_def is_upper_def code_def Let_def)


text \<open>
  Switching the private reverse resolvers on sends the configured servers along and changes
  neither them nor anything but the switch: for a page that shows the server's list, once the server
  accepts, the list and every other setting of the server stay and the switch is flipped on the server and on the
  page. A click while a save is pending does nothing.
\<close>

theorem ptr_toggle_keeps_servers:
  assumes "dns_server L err_text api kept"
    and "local_ptr_upstreams (dns_values (dnsState c)) = joined_text (local_ptr_upstreams (kept (world c)))"
    and "\<forall>l \<in> set (nullish (local_ptr_upstreams (kept (world c))) []). newline \<notin> set l \<and> \<not> blank l"
  shows "let c1 = exec (togglePrivatePtrResolvers env api) c; on = negate (use_private_ptr_resolvers (dns_values (dnsState c)));
      h = handleSetConfig L (requestOf (ptr_values (dns_values (dnsState c)))) (kept (world c))
    in if processingSetConfig (dnsState c) then c1 = c
       else fst h = Inr () \<longrightarrow>
            kept (world c1) = (kept (world c))\<lparr>use_private_ptr_resolvers := on\<rparr> \<and>
            dns_values (dnsState c1) = (dns_values (dnsState c))\<lparr>use_private_ptr_resolvers := on\<rparr>"
proof (cases "processingSetConfig (dnsState c)")
  case True
  then show ?thesis by (simp add: togglePrivatePtrResolvers_def saveToggle_def Let_def)
next
  case False
  let ?ls = "local_ptr_upstreams (kept (world c))"
  let ?v = "ptr_values (dns_values (dnsState c))"
  let ?h = "handleSetConfig L (requestOf ?v) (kept (world c))"
  have run: "exec (togglePrivatePtrResolvers env api) c = exec (setDnsConfig env api ?v None True) c"
    using False by (simp add: togglePrivatePtrResolvers_def saveToggle_def)
  have resplit: "splitByNewLine (Some (join_lines (nullish ?ls []))) = nullish ?ls []"
    using assms(3) by (simp add: splitByNewLine_join)
  have stored: "snd ?h = (kept (world c))\<lparr>use_private_ptr_resolvers := negate (use_private_ptr_resolvers (dns_values (dnsState c)))\<rparr>"
    if ok: "fst ?h = Inr ()"
  proof -
    from ok have "?h = (Inr (), snd ?h)" by (metis prod.collapse)
    then obtain req where req: "decodeRequest L (requestOf ?v) = Some req"
      "snd ?h = setConfig L (infer_cache req) (kept (world c))" by (rule accepted_stored)
    show ?thesis
      unfolding req(2) decodeRequest_eq [OF req(1)]
      using assms(2) resplit
      by (intro dns_fields.equality)
        (auto simp: setConfig_def infer_cache_def ptr_values_def merge_fields_def requestOf_def map_fields_def
          splitLines_def no_fields_def joined_text_def negate_def split: option.splits)
  qed
  have merged: "merge_fields (dns_values (dnsState c)) ?v =
      (dns_values (dnsState c))\<lparr>use_private_ptr_resolvers := negate (use_private_ptr_resolvers (dns_values (dnsState c)))\<rparr>"
    by (auto simp: ptr_values_def merge_fields_def no_fields_def negate_def keep_def)
  have "fst ?h = Inr () \<Longrightarrow> kept (world (exec (setDnsConfig env api ?v None True) c)) = snd ?h \<and>
      dns_values (dnsState (exec (setDnsConfig env api ?v None True) c)) = merge_fields (dns_values (dnsState c)) ?v"
    using setDnsConfig_run [OF assms(1), of ?v c env None True] unfolding Let_def by (elim conjE) (simp only: sum.case simp_thms)
  then show ?thesis using stored unfolding run merged Let_def if_not_P [OF False] by metis
qed

theorem ptr_toggle_keeps_servers_witness:
  "let c1 = exec (togglePrivatePtrResolvers sample_env stored_api) sample_dns
   in world c1 = (world sample_dns)\<lparr>use_private_ptr_resolvers := Some True\<rparr>"
proof -
  have h: "local_ptr_upstreams (dns_values (dnsState sample_dns)) = joined_text (local_ptr_upstreams (id (world sample_dns)))"
    by (simp add: sample_dns_def joined_text_def)
  have nb: "\<forall>l \<in> set (nullish (local_ptr_upstreams (id (world sample_dns))) []). newline \<notin> set l \<and> \<not> blank l"
    by (simp add: sample_dns_def newline_def blank_def is_space_def code_def)
  have "fst (handleSetConfig sample_dns_lib (requestOf (ptr_values (dns_values (dnsState sample_dns)))) (id (world sample_dns))) = Inr ()"
    by (simp add: handleSetConfig_def decodeRequest_def addr_field_def addr_list_def numbers_fit_def fits_def sample_dns_lib_def
        ptr_values_def sample_dns_def initialState_def negate_def requestOf_def map_fields_def no_fields_def splitLines_def
        validate_request_def checkBlockingMode_def checkUpstreamMode_def cache_size_missing_def validateCacheTTL_def Let_def)
  with ptr_toggle_keeps_servers [OF stored_dns_server h nb, of sample_env] show ?thesis
    by (simp add: Let_def sample_dns_def initialState_def negate_def no_fields_def)
qed

end
