(* ===== verification/ReduxDnsConfig.thy ===== *)
theory ReduxDnsConfig
  imports DnsServer ReduxCore
begin

section \<open>DNS configuration in the React client\<close>

text \<open>
  \<^verbatim>\<open>client/src/actions/dnsConfig.ts\<close> and \<^verbatim>\<open>client/src/reducers/dnsConfig.ts\<close>. One record of optional fields serves for the
  slice, a save and the request, as in the newer store: \<^const>\<open>None\<close> is an absent key, the five texts of the form are lists of
  lines in the request.
\<close>

record rx_dnsConfig =
  processingGetConfig :: bool
  processingSetConfig :: bool
  rx_values :: "string dns_fields"

definition dnsConfig_initial :: rx_dnsConfig where
  "dnsConfig_initial = \<lparr>processingGetConfig = False, processingSetConfig = False,
     rx_values = no_fields\<lparr>blocking_mode := Some ''default'', ratelimit := Some 20,
       blocking_ipv4 := Some ''0.0.0.0'', blocking_ipv6 := Some ''::'', blocked_response_ttl := Some 10,
       upstream_timeout := Some 10, edns_cs_enabled := Some False, disable_ipv6 := Some False,
       dnssec_enabled := Some False, upstream_dns_file := Some []\<rparr>\<rparr>"

datatype dnsConfig_action =
    GetDnsConfigRequest | GetDnsConfigFailure | GetDnsConfigSuccess "string list dns_fields"
  | ClearDnsCacheRequest | ClearDnsCacheFailure | ClearDnsCacheSuccess
  | SetDnsConfigRequest | SetDnsConfigFailure | SetDnsConfigSuccess "string dns_fields"

text \<open>\<open>(list && list.join('\n')) || ''\<close>; the mode is set also when the payload lacks it.\<close>

definition joined :: "string list option \<Rightarrow> string option" where
  "joined v = Some (case v of None \<Rightarrow> [] | Some ls \<Rightarrow> join_lines ls)"

definition or_text :: "string option \<Rightarrow> string \<Rightarrow> string option" where
  "or_text v d = Some (case v of None \<Rightarrow> d | Some s \<Rightarrow> or_str s d)"

definition loaded_values :: "string list dns_fields \<Rightarrow> string dns_fields \<Rightarrow> string dns_fields" where
  "loaded_values p old = (merge_fields old (map_fields joined p))\<lparr>
     blocking_ipv4 := or_text (blocking_ipv4 p) ''0.0.0.0'', blocking_ipv6 := or_text (blocking_ipv6 p) ''::'',
     upstream_mode := (if upstream_mode p = Some [] then Some ''load_balance'' else upstream_mode p)\<rparr>"

text \<open>Clearing the cache has no case in the reducer.\<close>

fun dnsConfig_reducer :: "dnsConfig_action \<Rightarrow> rx_dnsConfig \<Rightarrow> rx_dnsConfig" where
  "dnsConfig_reducer GetDnsConfigRequest s = s\<lparr>processingGetConfig := True\<rparr>"
| "dnsConfig_reducer GetDnsConfigFailure s = s\<lparr>processingGetConfig := False\<rparr>"
| "dnsConfig_reducer (GetDnsConfigSuccess p) s = s\<lparr>rx_values := loaded_values p (rx_values s), processingGetConfig := False\<rparr>"
| "dnsConfig_reducer SetDnsConfigRequest s = s\<lparr>processingSetConfig := True\<rparr>"
| "dnsConfig_reducer SetDnsConfigFailure s = s\<lparr>processingSetConfig := False\<rparr>"
| "dnsConfig_reducer (SetDnsConfigSuccess p) s = s\<lparr>rx_values := merge_fields (rx_values s) p, processingSetConfig := False\<rparr>"
| "dnsConfig_reducer ClearDnsCacheRequest s = s"
| "dnsConfig_reducer ClearDnsCacheFailure s = s"
| "dnsConfig_reducer ClearDnsCacheSuccess s = s"

record 'w dns_rx = "'w rx" +
  dnsConfig_slice :: rx_dnsConfig

interpretation dns_rx_frame: rx_frame dnsConfig_slice
  by unfold_locales simp_all

abbreviation dispatch :: "dnsConfig_action \<Rightarrow> (('w, 'm) dns_rx_scheme, unit) state" where
  "dispatch a \<equiv> modify (\<lambda>c. c\<lparr>dnsConfig_slice := dnsConfig_reducer a (dnsConfig_slice c)\<rparr>)"

record 'c rx_dns_api =
  api_getDnsConfig :: "('c, string list dns_fields) call"
  api_setDnsConfig :: "string list dns_fields \<Rightarrow> ('c, unit) call"
  api_clearCache :: "('c, unit) call"

type_synonym ('w, 'm) napi = "('w, 'm) dns_rx_scheme rx_dns_api"

definition getDnsConfig :: "env \<Rightarrow> ('w, 'm) napi \<Rightarrow> (('w, 'm) dns_rx_scheme, unit) state" where
  "getDnsConfig env api = do {
     dispatch GetDnsConfigRequest;
     try_call (api_getDnsConfig api)
       (\<lambda>data. dispatch (GetDnsConfigSuccess data))
       (\<lambda>e. do { error_toast env e; dispatch GetDnsConfigFailure }) }"

definition clearDnsCache :: "env \<Rightarrow> ('w, 'm) napi \<Rightarrow> (('w, 'm) dns_rx_scheme, unit) state" where
  "clearDnsCache env api = do {
     dispatch ClearDnsCacheRequest;
     try_call (api_clearCache api)
       (\<lambda>_. do { dispatch ClearDnsCacheSuccess; success_toast env (msg env ''cache_cleared'') })
       (\<lambda>e. do { error_toast env e; dispatch ClearDnsCacheFailure }) }"

definition sent_lines :: "string option \<Rightarrow> string list option" where
  "sent_lines v = map_option (\<lambda>t. filter (\<lambda>n. trim n \<noteq> []) (split_lines t)) v"

definition hasDnsSettings :: "string dns_fields \<Rightarrow> bool" where
  "hasDnsSettings v \<longleftrightarrow> bootstrap_dns v \<noteq> None \<or> fallback_dns v \<noteq> None \<or> local_ptr_upstreams v \<noteq> None \<or>
     upstream_dns v \<noteq> None \<or> ratelimit_whitelist v \<noteq> None"

definition setDnsConfig :: "env \<Rightarrow> ('w, 'm) napi \<Rightarrow> string dns_fields \<Rightarrow> (('w, 'm) dns_rx_scheme, unit) state" where
  "setDnsConfig env api config = do {
     dispatch SetDnsConfigRequest;
     try_call (api_setDnsConfig api (map_fields sent_lines config))
       (\<lambda>_. do {
          success_toast env (if hasDnsSettings config then ''updated_upstream_dns_toast'' else ''config_successfully_saved'');
          dispatch (SetDnsConfigSuccess config) })
       (\<lambda>e. do { error_toast env e; dispatch SetDnsConfigFailure }) }"

subsection \<open>Theorems\<close>

lemma requests_alike: "requestOf v = (map_fields sent_lines v)\<lparr>default_local_ptr_upstreams := None\<rparr>"
proof -
  have "trim [] = []" by code_simp
  then have "splitLines x = sent_lines x" for x
    by (cases x) (auto simp: splitLines_def sent_lines_def splitByNewLine_def)
  then show ?thesis by (simp add: requestOf_def map_fields_def)
qed

text \<open>
  Both web interfaces load the same values from one answer and send the same request for one save, except that the newer one never sends
  back the list of default resolvers.
\<close>

theorem clients_dns_alike:
  "loaded_values p old = loadedValues p old \<and>
   requestOf v = (map_fields sent_lines v)\<lparr>default_local_ptr_upstreams := None\<rparr> \<and>
   (default_local_ptr_upstreams v = None \<longrightarrow> requestOf v = map_fields sent_lines v)"
proof -
  have "joined = joined_text" by (rule ext) (simp add: joined_def joined_text_def)
  moreover have "or_text = or_default" by (intro ext) (simp add: or_text_def or_default_def or_str_def split: option.splits)
  ultimately have "loaded_values p old = loadedValues p old"
    by (simp add: loaded_values_def loadedValues_def DEFAULT_BLOCKING_IPV4_def DEFAULT_BLOCKING_IPV6_def LOAD_BALANCING_def)
  then show ?thesis by (simp add: requests_alike map_fields_def)
qed

text \<open>The calls reach the server's handler, as for the newer store.\<close>

definition rx_dns_server ::
  "dns_lib \<Rightarrow> (set_error \<Rightarrow> string) \<Rightarrow> ('w, 'm) napi \<Rightarrow> ('w \<Rightarrow> string list dns_fields) \<Rightarrow> bool" where
  "rx_dns_server L err_text api held \<longleftrightarrow>
     (\<forall>c. run_state (api_getDnsConfig api) c = (Inr (held (backend c)), c)) \<and>
     (\<forall>v c. \<exists>w. held w = snd (handleSetConfig L v (held (backend c))) \<and>
        run_state (api_setDnsConfig api v) c =
          (map_sum err_text id (fst (handleSetConfig L v (held (backend c)))), c\<lparr>backend := w\<rparr>))"

text \<open>
  Upstream servers whose save the server accepts are what the page shows after it is loaded again: the lines of the text
  that are not blank, in their order, and the other lists of the server are as they were. The requests leave no flag.
\<close>

theorem rx_upstreams_roundtrip:
  assumes srv: "rx_dns_server L err_text api held"
    and ok: "fst (handleSetConfig L (map_fields sent_lines (no_fields\<lparr>upstream_dns := Some t\<rparr>)) (held (backend c))) = Inr ()"
  shows "let c1 = exec (setDnsConfig env api (no_fields\<lparr>upstream_dns := Some t\<rparr>)) c; c2 = exec (getDnsConfig env api) c1
    in upstream_dns (rx_values (dnsConfig_slice c2)) = Some (join_lines (filter (\<lambda>n. trim n \<noteq> []) (split_lines t))) \<and>
       fallback_dns (held (backend c2)) = fallback_dns (held (backend c)) \<and>
       bootstrap_dns (held (backend c2)) = bootstrap_dns (held (backend c)) \<and>
       \<not> processingGetConfig (dnsConfig_slice c2) \<and> \<not> processingSetConfig (dnsConfig_slice c2)"
proof -
  let ?c = "c\<lparr>dnsConfig_slice := (dnsConfig_slice c)\<lparr>processingSetConfig := True\<rparr>\<rparr>"
  let ?v = "map_fields sent_lines (no_fields\<lparr>upstream_dns := Some t\<rparr>)"
  let ?h = "handleSetConfig L ?v (held (backend c))"
  obtain w where w: "held w = snd (handleSetConfig L ?v (held (backend ?c)))"
    "run_state (api_setDnsConfig api ?v) ?c = (map_sum err_text id (fst (handleSetConfig L ?v (held (backend ?c)))), ?c\<lparr>backend := w\<rparr>)"
    using srv unfolding rx_dns_server_def by blast
  from ok have "?h = (Inr (), snd ?h)" by (metis prod.collapse)
  then obtain req where "decodeRequest L ?v = Some req" "snd ?h = setConfig L (infer_cache req) (held (backend c))"
    by (rule accepted_stored)
  then have "held w = setConfig L (infer_cache (?v\<lparr>blocking_ipv4 := Some (canon L (blocking_ipv4 ?v)),
      blocking_ipv6 := Some (canon L (blocking_ipv6 ?v)), edns_cs_custom_ip := Some (canon L (edns_cs_custom_ip ?v)),
      ratelimit_whitelist := map_option (map (\<lambda>l. canon L (Some l))) (ratelimit_whitelist ?v)\<rparr>)) (held (backend c))"
    using w(1) decodeRequest_eq by simp
  then have "upstream_dns (held w) = Some (filter (\<lambda>n. trim n \<noteq> []) (split_lines t))"
    "fallback_dns (held w) = fallback_dns (held (backend c))" "bootstrap_dns (held w) = bootstrap_dns (held (backend c))"
    by (simp_all add: setConfig_def infer_cache_def merge_fields_def map_fields_def no_fields_def sent_lines_def)
  then show ?thesis
    using srv w(2) ok by (simp add: rx_dns_server_def setDnsConfig_def getDnsConfig_def run_try_call loaded_values_def merge_fields_def
        map_fields_def joined_def Let_def)
qed

definition handling_dns :: "(string list dns_fields, 'm) napi" where
  "handling_dns = \<lparr>api_getDnsConfig = State (\<lambda>c. (Inr (backend c), c)),
     api_setDnsConfig = (\<lambda>v. State (\<lambda>c. case handleSetConfig sample_dns_lib v (backend c) of
       (r, w) \<Rightarrow> (map_sum (\<lambda>_. ''refused'') id r, c\<lparr>backend := w\<rparr>))),
     api_clearCache = pass (Inr ())\<rparr>"

definition sample_dns_rx :: "string list dns_fields dns_rx" where
  "sample_dns_rx = rx.extend (sample_rx no_fields) (dns_rx.fields dnsConfig_initial)"

theorem rx_upstreams_roundtrip_witness:
  "upstream_dns (rx_values (dnsConfig_slice (exec (getDnsConfig sample_env handling_dns)
     (exec (setDnsConfig sample_env handling_dns (no_fields\<lparr>upstream_dns := Some ''9.9.9.9''\<rparr>)) sample_dns_rx)))) = Some ''9.9.9.9''"
proof -
  have srv: "rx_dns_server sample_dns_lib (\<lambda>_. ''refused'') (handling_dns :: (string list dns_fields, unit) napi) id"
    by (auto simp: rx_dns_server_def handling_dns_def split_beta)
  have "fst (handleSetConfig sample_dns_lib (map_fields sent_lines (no_fields\<lparr>upstream_dns := Some ''9.9.9.9''\<rparr>)) (id (backend sample_dns_rx))) = Inr ()"
    by (simp add: handleSetConfig_def decodeRequest_def addr_field_def addr_list_def numbers_fit_def fits_def sample_dns_lib_def
        map_fields_def no_fields_def sent_lines_def validate_request_def checkBlockingMode_def checkUpstreamMode_def
        cache_size_missing_def validateCacheTTL_def Let_def)
  moreover have "join_lines (filter (\<lambda>n. trim n \<noteq> []) (split_lines ''9.9.9.9'')) = ''9.9.9.9''" by code_simp
  ultimately show ?thesis
    using rx_upstreams_roundtrip [OF srv, of "''9.9.9.9''" sample_dns_rx sample_env] by (simp add: Let_def)
qed

end
