(* ===== verification/ReduxEncryption.thy ===== *)
theory ReduxEncryption
  imports Encryption ReduxDashboard
begin

section \<open>Encryption settings in the React client\<close>

text \<open>
  \<^verbatim>\<open>client/src/actions/encryption.ts\<close>, \<^verbatim>\<open>client/src/reducers/encryption.ts\<close> and the handlers of
  \<^verbatim>\<open>components/Settings/Encryption\<close>. The settings are those of the newer store, \<^const>\<open>None\<close> being an absent key. A port that is
  not a number is empty. An empty text in place of the names of a certificate is kept as no list.
\<close>

subsection \<open>The slice\<close>

record rx_encryption =
  processing :: bool
  processingConfig :: bool
  processingValidate :: bool
  status_cert :: string
  status_key :: string
  rx_tls :: TlsConfig

definition encryption_initial :: rx_encryption where
  "encryption_initial = \<lparr>processing = True, processingConfig = False, processingValidate = False,
     status_cert = [], status_key = [], rx_tls = empty_tls\<lparr>
       tls_enabled := Some False, serve_plain_dns := Some False, dns_names := Some None, force_https := Some False,
       issuer := Some [], key_type := Some [], not_after := Some [], not_before := Some [],
       port_dns_over_tls := Some (PStr []), port_https := Some (PStr []), subject := Some [],
       valid_chain := Some False, valid_key := Some False, valid_cert := Some False, valid_pair := Some False,
       certificate_chain := Some [], private_key := Some [], server_name := Some [], warning_validation := Some [],
       certificate_path := Some [], private_key_path := Some []\<rparr>\<rparr>"

datatype tls_action =
    GetTlsStatusRequest | GetTlsStatusFailure | GetTlsStatusSuccess TlsConfig
  | SetTlsConfigRequest | SetTlsConfigFailure | SetTlsConfigSuccess TlsConfig
  | ValidateTlsConfigRequest | ValidateTlsConfigFailure | ValidateTlsConfigSuccess TlsConfig

definition payload_name :: "TlsConfig \<Rightarrow> string option" where
  "payload_name p = Some (nullish (server_name p) [])"

definition checked_defaults :: "TlsConfig \<Rightarrow> TlsConfig" where
  "checked_defaults p = p\<lparr>issuer := Some (nullish (issuer p) []), key_type := Some (nullish (key_type p) []),
     not_after := Some (nullish (not_after p) []), not_before := Some (nullish (not_before p) []),
     subject := Some (nullish (subject p) []), warning_validation := Some (nullish (warning_validation p) []),
     dns_names := Some (nullish (dns_names p) None)\<rparr>"

fun encryption_reducer :: "tls_action \<Rightarrow> rx_encryption \<Rightarrow> rx_encryption" where
  "encryption_reducer GetTlsStatusRequest s = s\<lparr>processing := True\<rparr>"
| "encryption_reducer GetTlsStatusFailure s = s\<lparr>processing := False\<rparr>"
| "encryption_reducer (GetTlsStatusSuccess p) s =
     s\<lparr>rx_tls := (merge (rx_tls s) p)\<lparr>server_name := payload_name p\<rparr>, processing := False\<rparr>"
| "encryption_reducer SetTlsConfigRequest s = s\<lparr>processingConfig := True\<rparr>"
| "encryption_reducer SetTlsConfigFailure s = s\<lparr>processingConfig := False\<rparr>"
| "encryption_reducer (SetTlsConfigSuccess p) s =
     s\<lparr>rx_tls := (merge (rx_tls s) p)\<lparr>server_name := payload_name p\<rparr>, processingConfig := False\<rparr>"
| "encryption_reducer ValidateTlsConfigRequest s = s\<lparr>processingValidate := True\<rparr>"
| "encryption_reducer ValidateTlsConfigFailure s = s\<lparr>processingValidate := False\<rparr>"
| "encryption_reducer (ValidateTlsConfigSuccess p) s =
     s\<lparr>rx_tls := (merge (rx_tls s) (checked_defaults p))\<lparr>server_name := payload_name p\<rparr>, processingValidate := False\<rparr>"

record 'w enc_rx = "'w dash_rx" +
  encryption :: rx_encryption
  rx_location :: location
  rx_redirects :: "redirect list"

interpretation encryption_slice: rx_frame encryption
  by unfold_locales simp_all

interpretation location_slice: rx_frame rx_location
  by unfold_locales simp_all

interpretation redirects_slice: rx_frame rx_redirects
  by unfold_locales simp_all

abbreviation dispatch_tls :: "tls_action \<Rightarrow> (('w, 'm) enc_rx_scheme, unit) state" where
  "dispatch_tls a \<equiv> modify (\<lambda>c. c\<lparr>encryption := encryption_reducer a (encryption c)\<rparr>)"

text \<open>The status is empty when the session has ended.\<close>

record 'c rx_tls_api =
  api_getTlsStatus :: "('c, TlsConfig) call"
  api_setTlsConfig :: "TlsConfig \<Rightarrow> ('c, TlsConfig) call"
  api_validateTlsConfig :: "TlsConfig \<Rightarrow> ('c, TlsConfig) call"
  api_getGlobalStatus :: "('c, rx_status option) call"

type_synonym ('w, 'm) eapi = "('w, 'm) enc_rx_scheme rx_tls_api"

subsection \<open>Thunks\<close>

text \<open>\<open>atob\<close> and \<open>btoa\<close> read an absent value as the text \<open>undefined\<close>; \<open>atob\<close> throws on what is no base64.\<close>

definition decode_secrets :: "TlsConfig \<Rightarrow> string + TlsConfig" where
  "decode_secrets p =
     (case (atob (nullish (certificate_chain p) ''undefined''), atob (nullish (private_key p) ''undefined'')) of
        (Some chain, Some key) \<Rightarrow> Inr (p\<lparr>certificate_chain := Some chain, private_key := Some key\<rparr>)
      | _ \<Rightarrow> Inl ''InvalidCharacterError'')"

definition encode_values :: "TlsConfig \<Rightarrow> TlsConfig" where
  "encode_values v = v\<lparr>certificate_chain := Some (btoa (nullish (certificate_chain v) ''undefined'')),
     private_key := Some (btoa (nullish (private_key v) ''undefined'')),
     port_https := Some (port_or_0 (port_https v)), port_dns_over_tls := Some (port_or_0 (port_dns_over_tls v)),
     port_dns_over_quic := Some (port_or_0 (port_dns_over_quic v))\<rparr>"

definition getTlsStatus :: "env \<Rightarrow> ('w, 'm) eapi \<Rightarrow> (('w, 'm) enc_rx_scheme, unit) state" where
  "getTlsStatus env api =
     (let fail = (\<lambda>e. do { error_toast env e; dispatch_tls GetTlsStatusFailure })
      in do {
        dispatch_tls GetTlsStatusRequest;
        try_call (api_getTlsStatus api)
          (\<lambda>st. case decode_secrets st of Inl e \<Rightarrow> fail e | Inr p \<Rightarrow> dispatch_tls (GetTlsStatusSuccess p))
          fail })"

definition redirectToCurrentProtocol :: "TlsConfig \<Rightarrow> int \<Rightarrow> ('w, 'm) enc_rx_scheme \<Rightarrow> ('w, 'm) enc_rx_scheme" where
  "redirectToCurrentProtocol values port c =
     (case redirect_target values port (rx_location c) of
        None \<Rightarrow> c | Some r \<Rightarrow> c\<lparr>rx_redirects := rx_redirects c @ [r]\<rparr>)"

definition setTlsConfig_answer :: "env \<Rightarrow> ('w, 'm) eapi \<Rightarrow> int \<Rightarrow> TlsConfig \<Rightarrow> TlsConfig \<Rightarrow> (('w, 'm) enc_rx_scheme, unit) state" where
  "setTlsConfig_answer env api port values response = do {
     loc \<leftarrow> gets rx_location;
     (if tls_enabled values = Some True \<and> force_https values = Some True \<and> protocol loc = ''http:''
      then modify (happens PageReload)
      else do {
        modify (redirectToCurrentProtocol response port);
        try_call (api_getGlobalStatus api)
          (\<lambda>st. do {
             (case st of None \<Rightarrow> pass () | Some dnsStatus \<Rightarrow> dispatch (DnsStatusSuccess (null_duration dnsStatus)));
             dispatch_tls (SetTlsConfigSuccess response);
             success_toast env ''encryption_config_saved'' })
          (\<lambda>e. do { error_toast env e; dispatch_tls SetTlsConfigFailure }) }) }"

definition setTlsConfig :: "env \<Rightarrow> ('w, 'm) eapi \<Rightarrow> TlsConfig \<Rightarrow> (('w, 'm) enc_rx_scheme, unit) state" where
  "setTlsConfig env api config =
     (let fail = (\<lambda>e. do { error_toast env e; dispatch_tls SetTlsConfigFailure }); values = encode_values config
      in do {
        dispatch_tls SetTlsConfigRequest;
        port \<leftarrow> gets (\<lambda>c. httpPort (dashboard c));
        try_call (api_setTlsConfig api values)
          (\<lambda>r. case decode_secrets r of Inl e \<Rightarrow> fail e | Inr response \<Rightarrow> setTlsConfig_answer env api port values response)
          fail })"

definition validateTlsConfig :: "env \<Rightarrow> ('w, 'm) eapi \<Rightarrow> TlsConfig \<Rightarrow> (('w, 'm) enc_rx_scheme, unit) state" where
  "validateTlsConfig env api config =
     (let fail = (\<lambda>e. do { error_toast env e; dispatch_tls ValidateTlsConfigFailure })
      in do {
        dispatch_tls ValidateTlsConfigRequest;
        try_call (api_validateTlsConfig api (encode_values config))
          (\<lambda>r. case decode_secrets r of Inl e \<Rightarrow> fail e | Inr response \<Rightarrow> dispatch_tls (ValidateTlsConfigSuccess response))
          fail })"

subsection \<open>The form\<close>

definition initialValues :: "TlsConfig \<Rightarrow> EncryptionFormValues" where
  "initialValues s = \<lparr>form = empty_tls\<lparr>tls_enabled := tls_enabled s, serve_plain_dns := serve_plain_dns s,
       server_name := server_name s, force_https := force_https s, port_https := port_https s,
       port_dns_over_tls := port_dns_over_tls s, port_dns_over_quic := port_dns_over_quic s,
       certificate_chain := certificate_chain s, private_key := private_key s,
       certificate_path := certificate_path s, private_key_path := private_key_path s,
       private_key_saved := private_key_saved s\<rparr>,
     certificate_source = Some (if certificate_chain s \<in> {None, Some []} then ENCRYPTION_SOURCE_PATH else ENCRYPTION_SOURCE_CONTENT),
     key_source = Some (if private_key s \<notin> {None, Some []} \<or> private_key_saved s = Some True
       then ENCRYPTION_SOURCE_CONTENT else ENCRYPTION_SOURCE_PATH)\<rparr>"

text \<open>The key \<open>private_key_saved\<close> is put back only for a saved key that is given as content.\<close>

definition rx_getSubmitValues :: "EncryptionFormValues \<Rightarrow> TlsConfig" where
  "rx_getSubmitValues v =
     (let config = submit_cert (certificate_source v) ((form v)\<lparr>private_key_saved := None\<rparr>)
      in if key_source v = Some ENCRYPTION_SOURCE_PATH then config\<lparr>private_key := Some []\<rparr>
         else if private_key_saved (form v) = Some True
         then config\<lparr>private_key_path := Some [], private_key := Some [], private_key_saved := Some True\<rparr>
         else config\<lparr>private_key_path := Some []\<rparr>)"

definition form_defaultValues :: EncryptionFormValues where
  "form_defaultValues = \<lparr>form = empty_tls\<lparr>tls_enabled := Some False, serve_plain_dns := Some True,
     server_name := Some [], force_https := Some False, port_https := Some (PNum STANDARD_HTTPS_PORT),
     port_dns_over_tls := Some (PNum 853), port_dns_over_quic := Some (PNum 853),
     certificate_chain := Some [], private_key := Some [], certificate_path := Some [], private_key_path := Some [],
     private_key_saved := Some False\<rparr>,
     certificate_source = Some ENCRYPTION_SOURCE_PATH, key_source = Some ENCRYPTION_SOURCE_PATH\<rparr>"

text \<open>The form library keeps the values the form was mounted with; \<open>reset()\<close> goes back to them.\<close>

record rx_tls_form =
  mounted_with :: EncryptionFormValues
  current :: EncryptionFormValues

text \<open>\<open>{ ...defaultValues, ...initialValues }\<close>: every key of the second is an own key, also when its value is undefined.\<close>

definition mount_tls_form :: "rx_encryption \<Rightarrow> rx_tls_form" where
  "mount_tls_form s = \<lparr>mounted_with = initialValues (rx_tls s), current = initialValues (rx_tls s)\<rparr>"

datatype tls_started = StartSetTlsConfig TlsConfig | StartValidateTlsConfig TlsConfig

text \<open>The two source selectors that go along with the defaults are no keys of the settings.\<close>

definition clearFields :: "bool \<Rightarrow> rx_tls_form \<Rightarrow> rx_tls_form \<times> tls_started list" where
  "clearFields confirmed f =
     (if confirmed
      then (f\<lparr>current := mounted_with f\<rparr>, [StartSetTlsConfig (form form_defaultValues), StartValidateTlsConfig (form form_defaultValues)])
      else (f, []))"

definition isSavingDisabled :: "bool \<Rightarrow> rx_encryption \<Rightarrow> rx_tls_form \<Rightarrow> bool" where
  "isSavingDisabled isValid s f =
     (let busy = processingConfig s \<or> processingValidate s; v = form (current f)
      in if serve_plain_dns v = Some True \<and> tls_enabled v \<noteq> Some True then \<not> isValid \<or> busy
         else \<not> isValid \<or> busy \<or> valid_key (rx_tls s) \<noteq> Some True \<or> valid_cert (rx_tls s) \<noteq> Some True \<or>
           valid_pair (rx_tls s) \<noteq> Some True)"

definition validatePorts :: "TlsConfig \<Rightarrow> bool" where
  "validatePorts v \<longleftrightarrow> \<not> (truthy_port (port_dns_over_tls v) \<and> truthy_port (port_https v) \<and> port_dns_over_tls v = port_https v)"

definition onFormSubmit :: "rx_tls_form \<Rightarrow> tls_started list" where
  "onFormSubmit f = (if validatePorts (form (current f)) then [StartSetTlsConfig (rx_getSubmitValues (current f))] else [])"

definition validateConfig :: "EncryptionFormValues \<Rightarrow> tls_started list" where
  "validateConfig v = (if tls_enabled (rx_getSubmitValues v) = Some True then [StartValidateTlsConfig (rx_getSubmitValues v)] else [])"

definition run_started :: "env \<Rightarrow> ('w, 'm) eapi \<Rightarrow> tls_started \<Rightarrow> (('w, 'm) enc_rx_scheme, unit) state" where
  "run_started env api r = (case r of StartSetTlsConfig v \<Rightarrow> setTlsConfig env api v | StartValidateTlsConfig v \<Rightarrow> validateTlsConfig env api v)"

subsection \<open>Theorems\<close>

lemma decode_encode_secrets:
  "certificate_chain v = Some chain \<Longrightarrow> private_key v = Some key \<Longrightarrow>
     decode_secrets (encode_values v) = Inr ((encode_values v)\<lparr>certificate_chain := Some chain, private_key := Some key\<rparr>)"
  by (simp add: decode_secrets_def encode_values_def atob_btoa)

lemma redirect_keeps [simp]: "encryption (redirectToCurrentProtocol v port c) = encryption c"
  by (simp add: redirectToCurrentProtocol_def split: option.splits)

text \<open>
  Saved against a server that answers with the settings it was given, from a page that is not forced to reload, the certificate and
  the key in the React client's store are the texts that were entered.
\<close>

theorem rx_tls_roundtrip:
  assumes echo: "\<And>v d. run_state (api_setTlsConfig api v) d = (Inr v, d)"
    and st: "\<And>d. \<exists>x. run_state (api_getGlobalStatus api) d = (Inr x, d)"
    and v: "certificate_chain v = Some chain" "private_key v = Some key"
    and stay: "tls_enabled v \<noteq> Some True \<or> force_https v \<noteq> Some True \<or> protocol (rx_location c) \<noteq> ''http:''"
  shows "let c' = exec (setTlsConfig env api v) c
    in certificate_chain (rx_tls (encryption c')) = Some chain \<and> private_key (rx_tls (encryption c')) = Some key \<and>
       \<not> processingConfig (encryption c')"
proof -
  let ?r = "(encode_values v)\<lparr>certificate_chain := Some chain, private_key := Some key\<rparr>"
  let ?c = "c\<lparr>encryption := (encryption c)\<lparr>processingConfig := True\<rparr>\<rparr>"
  obtain x where x: "run_state (api_getGlobalStatus api) (redirectToCurrentProtocol ?r (httpPort (dashboard c)) ?c) =
      (Inr x, redirectToCurrentProtocol ?r (httpPort (dashboard c)) ?c)"
    using st by blast
  have "tls_enabled (encode_values v) = tls_enabled v" "force_https (encode_values v) = force_https v"
    by (simp_all add: encode_values_def)
  then show ?thesis
    using stay x by (cases x)
      (auto simp: setTlsConfig_def setTlsConfig_answer_def run_try_call echo decode_encode_secrets [OF v] Let_def merge_def)
qed

text \<open>
  The server leaves a port of zero out of its answer. The React client merges such an answer into its store, where the old port stays; a form
  opened on this store sends the old port again. The newer interface stores the zero.
\<close>

theorem rx_cleared_port_returns:
  assumes "decode_secrets r = Inr p" "port_https r = None"
  shows "let s' = encryption_reducer (SetTlsConfigSuccess p) s
    in port_https (rx_tls s') = port_https (rx_tls s) \<and>
       port_https (rx_getSubmitValues (current (mount_tls_form s'))) = port_https (rx_tls s) \<and>
       port_https (storeTls (decodeResponse r) t) = Some (PNum 0)"
proof -
  have "port_https p = None" using assms by (auto simp: decode_secrets_def split: option.splits)
  then show ?thesis
    using assms(2) by (simp add: Let_def merge_def rx_getSubmitValues_def mount_tls_form_def initialValues_def submit_cert_def
        storeTls_def decodeResponse_def OMITTED_WHEN_EMPTY_def empty_tls_def)
qed

text \<open>A warning that the answer to a save leaves out stays on the page; the answer to a check clears it.\<close>

theorem rx_warning_outlives_save:
  assumes "warning_validation p = None"
  shows "warning_validation (rx_tls (encryption_reducer (SetTlsConfigSuccess p) s)) = warning_validation (rx_tls s) \<and>
    warning_validation (rx_tls (encryption_reducer (ValidateTlsConfigSuccess p) s)) = Some []"
  using assms by (simp add: merge_def checked_defaults_def)

inductive tls_form_reach :: "rx_encryption \<Rightarrow> rx_tls_form \<Rightarrow> bool" for s where
  mount: "tls_form_reach s (mount_tls_form s)"
| edit: "tls_form_reach s f \<Longrightarrow> tls_form_reach s (f\<lparr>current := v\<rparr>)"
| clear: "tls_form_reach s f \<Longrightarrow> tls_form_reach s (fst (clearFields b f))"

lemma mounted_with_reach: "tls_form_reach s f \<Longrightarrow> mounted_with f = initialValues (rx_tls s)"
  by (induction rule: tls_form_reach.induct) (simp_all add: mount_tls_form_def clearFields_def)

text \<open>
  Resetting the settings turns encryption off on the server but puts the form back to what it was opened with: if encryption was on, the form
  shows it as on, and saving it sends the old settings.
\<close>

theorem rx_reset_form_shows_old:
  assumes "tls_form_reach s f" "tls_enabled (rx_tls s) = Some True" "validatePorts (rx_tls s)"
  shows "let (f', started) = clearFields True f
    in hd started = StartSetTlsConfig (form form_defaultValues) \<and> tls_enabled (form form_defaultValues) = Some False \<and>
       (\<exists>v. onFormSubmit f' = [StartSetTlsConfig v] \<and> tls_enabled v = Some True \<and> port_https v = port_https (rx_tls s))"
  using assms(2,3) mounted_with_reach [OF assms(1)]
  by (simp add: clearFields_def form_defaultValues_def onFormSubmit_def validatePorts_def initialValues_def rx_getSubmitValues_def
      submit_cert_def Let_def)

end
