(* ===== verification/ReduxFiltering.thy ===== *)
theory ReduxFiltering
  imports ReduxCore Filtering
begin

section \<open>Filter lists and custom rules in the React client\<close>

text \<open>
  \<^verbatim>\<open>client/src/actions/filtering.ts\<close>, \<^verbatim>\<open>client/src/reducers/filtering.ts\<close> and the one-click block of
  \<^verbatim>\<open>client/src/actions/index.tsx\<close>. The payloads of the endpoints and their normalisation are those of
  the newer store. The loading bar is a package of its own: its two actions are fields of the api record.
\<close>

record rx_filtering =
  isModalOpen :: bool
  processingFilters :: bool
  processingRules :: bool
  processingAddFilter :: bool
  processingRefreshFilters :: bool
  processingConfigFilter :: bool
  processingRemoveFilter :: bool
  processingSetConfig :: bool
  processingCheck :: bool
  isFilterAdded :: bool
  filters :: "Filter list"
  whitelistFilters :: "Filter list"
  userRules :: string
  interval :: "int option"
  enabled :: "bool option"
  modalType :: string
  modalFilterUrl :: string
  check :: "(string \<times> FilterCheckHostResponse) option"

definition filtering_initial :: rx_filtering where
  "filtering_initial = \<lparr>isModalOpen = False, processingFilters = False, processingRules = False,
     processingAddFilter = False, processingRefreshFilters = False, processingConfigFilter = False,
     processingRemoveFilter = False, processingSetConfig = False, processingCheck = False, isFilterAdded = False,
     filters = [], whitelistFilters = [], userRules = [], interval = Some 24, enabled = Some True,
     modalType = [], modalFilterUrl = [], check = None\<rparr>"

text \<open>The payload of \<open>toggleFilteringModal\<close>: nothing, or a type and a url that may be missing.\<close>

record modal_payload =
  payload_type :: "string option"
  payload_url :: "string option"

datatype filtering_action =
    SetRulesRequest | SetRulesFailure | SetRulesSuccess
  | HandleRulesChange string
  | GetFilteringStatusRequest | GetFilteringStatusFailure | GetFilteringStatusSuccess normalized_status
  | AddFilterRequest | AddFilterFailure | AddFilterSuccess
  | ToggleFilteringModal "modal_payload option"
  | ToggleFilterRequest | ToggleFilterFailure | ToggleFilterSuccess
  | EditFilterRequest | EditFilterFailure | EditFilterSuccess
  | RefreshFiltersRequest | RefreshFiltersFailure | RefreshFiltersSuccess
  | RemoveFilterRequest | RemoveFilterFailure | RemoveFilterSuccess
  | SetFiltersConfigRequest | SetFiltersConfigFailure | SetFiltersConfigSuccess FilterConfig
  | CheckHostRequest | CheckHostFailure | CheckHostSuccess string FilterCheckHostResponse

fun filtering_reducer :: "filtering_action \<Rightarrow> rx_filtering \<Rightarrow> rx_filtering" where
  "filtering_reducer SetRulesRequest s = s\<lparr>processingRules := True\<rparr>"
| "filtering_reducer SetRulesFailure s = s\<lparr>processingRules := False\<rparr>"
| "filtering_reducer SetRulesSuccess s = s\<lparr>processingRules := False\<rparr>"
| "filtering_reducer (HandleRulesChange rules) s = s\<lparr>userRules := rules\<rparr>"
| "filtering_reducer GetFilteringStatusRequest s = s\<lparr>processingFilters := True, check := None\<rparr>"
| "filtering_reducer GetFilteringStatusFailure s = s\<lparr>processingFilters := False\<rparr>"
| "filtering_reducer (GetFilteringStatusSuccess n) s = s\<lparr>enabled := ns_enabled n, userRules := ns_userRules n,
     filters := ns_filters n, whitelistFilters := ns_whitelistFilters n, interval := ns_interval n,
     processingFilters := False\<rparr>"
| "filtering_reducer AddFilterRequest s = s\<lparr>processingAddFilter := True, isFilterAdded := False\<rparr>"
| "filtering_reducer AddFilterFailure s = s\<lparr>processingAddFilter := False, isFilterAdded := False\<rparr>"
| "filtering_reducer AddFilterSuccess s = s\<lparr>processingAddFilter := False, isFilterAdded := True\<rparr>"
| "filtering_reducer (ToggleFilteringModal (Some p)) s = s\<lparr>isModalOpen := \<not> isModalOpen s, isFilterAdded := False,
     modalType := opt_or_str (payload_type p) [], modalFilterUrl := opt_or_str (payload_url p) []\<rparr>"
| "filtering_reducer (ToggleFilteringModal None) s =
     s\<lparr>isModalOpen := \<not> isModalOpen s, isFilterAdded := False, modalType := []\<rparr>"
| "filtering_reducer ToggleFilterRequest s = s\<lparr>processingConfigFilter := True\<rparr>"
| "filtering_reducer ToggleFilterFailure s = s\<lparr>processingConfigFilter := False\<rparr>"
| "filtering_reducer ToggleFilterSuccess s = s\<lparr>processingConfigFilter := False\<rparr>"
| "filtering_reducer EditFilterRequest s = s\<lparr>processingConfigFilter := True\<rparr>"
| "filtering_reducer EditFilterFailure s = s\<lparr>processingConfigFilter := False\<rparr>"
| "filtering_reducer EditFilterSuccess s = s\<lparr>processingConfigFilter := False\<rparr>"
| "filtering_reducer RefreshFiltersRequest s = s\<lparr>processingRefreshFilters := True\<rparr>"
| "filtering_reducer RefreshFiltersFailure s = s\<lparr>processingRefreshFilters := False\<rparr>"
| "filtering_reducer RefreshFiltersSuccess s = s\<lparr>processingRefreshFilters := False\<rparr>"
| "filtering_reducer RemoveFilterRequest s = s\<lparr>processingRemoveFilter := True\<rparr>"
| "filtering_reducer RemoveFilterFailure s = s\<lparr>processingRemoveFilter := False\<rparr>"
| "filtering_reducer RemoveFilterSuccess s = s\<lparr>processingRemoveFilter := False\<rparr>"
| "filtering_reducer SetFiltersConfigRequest s = s\<lparr>processingSetConfig := True\<rparr>"
| "filtering_reducer SetFiltersConfigFailure s = s\<lparr>processingSetConfig := False\<rparr>"
| "filtering_reducer (SetFiltersConfigSuccess cfg) s = s\<lparr>enabled := cfg_enabled cfg, interval := cfg_interval cfg,
     processingSetConfig := False\<rparr>"
| "filtering_reducer CheckHostRequest s = s\<lparr>processingCheck := True\<rparr>"
| "filtering_reducer CheckHostFailure s = s\<lparr>processingCheck := False\<rparr>"
| "filtering_reducer (CheckHostSuccess hostname data) s = s\<lparr>check := Some (hostname, data), processingCheck := False\<rparr>"

record 'w filtering_rx = "'w rx" +
  filtering :: rx_filtering

interpretation filtering_slice: rx_frame filtering
  by unfold_locales simp_all

abbreviation dispatch :: "filtering_action \<Rightarrow> (('w, 'm) filtering_rx_scheme, unit) state" where
  "dispatch a \<equiv> modify (\<lambda>c. c\<lparr>filtering := filtering_reducer a (filtering c)\<rparr>)"

record 'c rx_filtering_api =
  api_getFilteringStatus :: "('c, FilterStatus) call"
  api_setRules :: "string list \<Rightarrow> ('c, unit) call"
  api_addFilter :: "string \<Rightarrow> string \<Rightarrow> bool \<Rightarrow> ('c, unit) call"
  api_removeFilter :: "string \<Rightarrow> bool \<Rightarrow> ('c, unit) call"
  api_setFilterUrl :: "string \<Rightarrow> FilterSetUrlData \<Rightarrow> bool \<Rightarrow> ('c, unit) call"
  api_refreshFilters :: "bool \<Rightarrow> ('c, int) call"
  api_setFiltersConfig :: "FilterConfig \<Rightarrow> ('c, unit) call"
  api_checkHost :: "check_params \<Rightarrow> ('c, FilterCheckHostResponse) call"
  showLoading :: "'c \<Rightarrow> 'c"
  hideLoading :: "'c \<Rightarrow> 'c"

type_synonym ('w, 'm) fapi = "('w, 'm) filtering_rx_scheme rx_filtering_api"

subsection \<open>Thunks\<close>

definition getFilteringStatus_finish :: "env \<Rightarrow> ('w, 'm) fapi \<Rightarrow> (('w, 'm) filtering_rx_scheme, unit) state" where
  "getFilteringStatus_finish env api =
     try_call (api_getFilteringStatus api)
       (\<lambda>status. dispatch (GetFilteringStatusSuccess (normalizeFilteringStatus status)))
       (\<lambda>e. do { error_toast env e; dispatch GetFilteringStatusFailure })"

definition getFilteringStatus :: "env \<Rightarrow> ('w, 'm) fapi \<Rightarrow> (('w, 'm) filtering_rx_scheme, unit) state" where
  "getFilteringStatus env api = do {
     dispatch GetFilteringStatusRequest;
     getFilteringStatus_finish env api }"

definition setRules :: "env \<Rightarrow> ('w, 'm) fapi \<Rightarrow> string \<Rightarrow> (('w, 'm) filtering_rx_scheme, unit) state" where
  "setRules env api rules = do {
     dispatch SetRulesRequest;
     try_call (api_setRules api (split_lines (normalizeRulesTextarea rules)))
       (\<lambda>_. do { success_toast env ''updated_custom_filtering_toast''; dispatch SetRulesSuccess })
       (\<lambda>e. do { error_toast env e; dispatch SetRulesFailure }) }"

definition closeModal :: "(('w, 'm) filtering_rx_scheme, unit) state" where
  "closeModal = do {
     open \<leftarrow> gets (\<lambda>c. isModalOpen (filtering c));
     (if open then dispatch (ToggleFilteringModal None) else pass ()) }"

definition addFilter ::
  "env \<Rightarrow> ('w, 'm) fapi \<Rightarrow> string \<Rightarrow> string \<Rightarrow> bool \<Rightarrow> (('w, 'm) filtering_rx_scheme, unit) state" where
  "addFilter env api url name whitelist = do {
     dispatch AddFilterRequest;
     try_call (api_addFilter api url name whitelist)
       (\<lambda>_. do {
          dispatch AddFilterSuccess;
          closeModal;
          success_toast env ''filter_added_successfully'';
          getFilteringStatus env api })
       (\<lambda>e. do { error_toast env e; dispatch AddFilterFailure }) }"

definition removeFilter ::
  "env \<Rightarrow> ('w, 'm) fapi \<Rightarrow> string \<Rightarrow> bool \<Rightarrow> (('w, 'm) filtering_rx_scheme, unit) state" where
  "removeFilter env api url whitelist = do {
     dispatch RemoveFilterRequest;
     try_call (api_removeFilter api url whitelist)
       (\<lambda>_. do {
          dispatch RemoveFilterSuccess;
          closeModal;
          success_toast env ''filter_removed_successfully'';
          getFilteringStatus env api })
       (\<lambda>e. do { error_toast env e; dispatch RemoveFilterFailure }) }"

definition toggleFilterStatus ::
  "env \<Rightarrow> ('w, 'm) fapi \<Rightarrow> string \<Rightarrow> FilterSetUrlData \<Rightarrow> bool \<Rightarrow> (('w, 'm) filtering_rx_scheme, unit) state" where
  "toggleFilterStatus env api url data whitelist = do {
     dispatch ToggleFilterRequest;
     try_call (api_setFilterUrl api url data whitelist)
       (\<lambda>_. do { dispatch ToggleFilterSuccess; getFilteringStatus env api })
       (\<lambda>e. do { error_toast env e; dispatch ToggleFilterFailure }) }"

definition editFilter ::
  "env \<Rightarrow> ('w, 'm) fapi \<Rightarrow> string \<Rightarrow> FilterSetUrlData \<Rightarrow> bool \<Rightarrow> (('w, 'm) filtering_rx_scheme, unit) state" where
  "editFilter env api url data whitelist = do {
     dispatch EditFilterRequest;
     try_call (api_setFilterUrl api url data whitelist)
       (\<lambda>_. do {
          dispatch EditFilterSuccess;
          closeModal;
          success_toast env ''filter_updated'';
          getFilteringStatus env api })
       (\<lambda>e. do { error_toast env e; dispatch EditFilterFailure }) }"

definition refreshFilters :: "env \<Rightarrow> ('w, 'm) fapi \<Rightarrow> bool \<Rightarrow> (('w, 'm) filtering_rx_scheme, unit) state" where
  "refreshFilters env api whitelist = do {
     dispatch RefreshFiltersRequest;
     modify (showLoading api);
     try_call (api_refreshFilters api whitelist)
       (\<lambda>updated. do {
          dispatch RefreshFiltersSuccess;
          (if updated > 0
           then success_toast env (getMessage env ''list_updated'' [(''count'', NArg updated)])
           else success_toast env ''all_lists_up_to_date_toast'');
          dispatch GetFilteringStatusRequest;
          modify (hideLoading api);
          getFilteringStatus_finish env api })
       (\<lambda>e. do { error_toast env e; dispatch RefreshFiltersFailure; modify (hideLoading api) }) }"

definition setFiltersConfig :: "env \<Rightarrow> ('w, 'm) fapi \<Rightarrow> FilterConfig \<Rightarrow> (('w, 'm) filtering_rx_scheme, unit) state" where
  "setFiltersConfig env api config = do {
     dispatch SetFiltersConfigRequest;
     prevEnabled \<leftarrow> gets (\<lambda>c. enabled (filtering c));
     (let successToastMessage =
            (if prevEnabled \<noteq> cfg_enabled config
             then if cfg_enabled config = Some True then ''enabled_filtering_toast'' else ''disabled_filtering_toast''
             else ''config_successfully_saved'')
      in try_call (api_setFiltersConfig api config)
           (\<lambda>_. do { success_toast env successToastMessage; dispatch (SetFiltersConfigSuccess config) })
           (\<lambda>e. do { error_toast env e; dispatch SetFiltersConfigFailure })) }"

definition checkHost :: "env \<Rightarrow> ('w, 'm) fapi \<Rightarrow> check_params \<Rightarrow> (('w, 'm) filtering_rx_scheme, unit) state" where
  "checkHost env api host = do {
     dispatch CheckHostRequest;
     try_call (api_checkHost api host)
       (\<lambda>data. dispatch (CheckHostSuccess (host_name host) data))
       (\<lambda>e. do { error_toast env e; dispatch CheckHostFailure }) }"

subsection \<open>One-click block\<close>

text \<open>
  \<open>rules.match(new RegExp(`(^|\n)${escapeRegExp(rule)}($|\n)`))\<close>, in its four cases, and
  \<open>rules.replace(rule, '')\<close>, which takes the first place where the text of the rule occurs.
\<close>

definition match_rule :: "string \<Rightarrow> string \<Rightarrow> bool" where
  "match_rule rules rule \<longleftrightarrow> rules = rule \<or> startsWith rules (rule @ [newline]) \<or>
     endsWith rules (newline # rule) \<or> includes_str rules (newline # rule @ [newline])"

definition replace_first :: "string \<Rightarrow> string \<Rightarrow> string" where
  "replace_first s p = (case indexOf s p of None \<Rightarrow> s | Some i \<Rightarrow> take i s @ drop (i + length p) s)"

definition toggleBlocking ::
  "env \<Rightarrow> ('w, 'm) fapi \<Rightarrow> BlockAction \<Rightarrow> string \<Rightarrow> string option \<Rightarrow> string option
     \<Rightarrow> (('w, 'm) filtering_rx_scheme, unit) state" where
  "toggleBlocking env api type domain baseRule baseUnblocking =
     (let baseBlockingRule = opt_or_str baseRule (''||'' @ domain @ ''^$important'');
          baseUnblockingRule = opt_or_str baseUnblocking (''@@'' @ baseBlockingRule)
      in do {
        rules \<leftarrow> gets (\<lambda>c. userRules (filtering c));
        (let lineEnding = (if \<not> endsWith rules [newline] then [newline] else []);
             rmRule = (if type = BLOCK then baseUnblockingRule else baseBlockingRule);
             addRule = (if type = BLOCK then baseBlockingRule else baseUnblockingRule);
             removed = getMessage env ''rule_removed_from_custom_filtering_toast'' [(''rule'', SArg rmRule)];
             added = getMessage env ''rule_added_to_custom_filtering_toast'' [(''rule'', SArg addRule)]
         in if match_rule rules rmRule
            then do {
              setRules env api (replace_first rules rmRule);
              success_toast env removed;
              getFilteringStatus env api }
            else if \<not> match_rule rules addRule
            then do {
              setRules env api (rules @ lineEnding @ addRule @ [newline]);
              success_toast env added;
              getFilteringStatus env api }
            else success_toast env added) })"

definition toggleBlockingForClient ::
  "env \<Rightarrow> ('w, 'm) fapi \<Rightarrow> BlockAction \<Rightarrow> string \<Rightarrow> string \<Rightarrow> (('w, 'm) filtering_rx_scheme, unit) state" where
  "toggleBlockingForClient env api type domain client =
     (let escapedClientName = escape_char (CHR 0x7C) (escape_char (CHR 0x2C)
            (escape_char (CHR 0x22) (escape_char (CHR 0x27) client)));
          baseRule = ''||'' @ domain @ ''^$client='' @ [CHR 0x27] @ escapedClientName @ [CHR 0x27]
      in toggleBlocking env api type domain (Some baseRule) (Some (''@@'' @ baseRule)))"

subsection \<open>Rules as lines\<close>

lemma split_on_append: "split_on x (a @ x # b) = split_on x a @ split_on x b"
proof (induction a)
  case (Cons y a)
  then show ?case by (cases "split_on x a") auto
qed simp

lemma join_lines_append:
  "xs \<noteq> [] \<Longrightarrow> ys \<noteq> [] \<Longrightarrow> join_lines (xs @ ys) = join_lines xs @ newline # join_lines ys"
proof (induction xs)
  case (Cons x xs)
  then show ?case by (cases "xs = []") (simp_all add: join_Cons)
qed simp

lemma match_rule_lines:
  assumes "newline \<notin> set rule"
  shows "match_rule rules rule \<longleftrightarrow> rule \<in> set (split_lines rules)"
proof
  assume "match_rule rules rule"
  then show "rule \<in> set (split_lines rules)"
    unfolding match_rule_def startsWith_iff endsWith_iff includes_str_iff
    using split_on_no_sep [OF assms] by (auto simp: split_on_append split_on_sep assms)
next
  assume "rule \<in> set (split_lines rules)"
  then obtain xs ys where "split_lines rules = xs @ rule # ys" by (metis split_list)
  then have r: "rules = join_lines (xs @ rule # ys)" by (metis join_split_on)
  show "match_rule rules rule"
  proof (cases "xs = []"; cases "ys = []")
    assume "xs \<noteq> []" "ys \<noteq> []"
    then have "rules = join_lines xs @ (newline # rule @ [newline]) @ join_lines ys"
      using r by (simp add: join_lines_append join_Cons)
    then show ?thesis unfolding match_rule_def includes_str_iff by blast
  qed (use r in \<open>auto simp: match_rule_def startsWith_iff endsWith_iff join_lines_append join_Cons\<close>)
qed

text \<open>The first line equal to the rule becomes empty.\<close>

fun blank_first :: "string \<Rightarrow> string list \<Rightarrow> string list" where
  "blank_first r [] = []"
| "blank_first r (x # xs) = (if x = r then [] # xs else x # blank_first r xs)"

lemma indexOf_later_line:
  assumes "newline \<notin> set p" "p \<noteq> []" "\<not> includes_str x p"
  shows "indexOf (x @ newline # t) p = map_option (\<lambda>i. Suc (length x) + i) (indexOf t p)"
  using assms(3)
proof (induction x)
  case Nil
  have "\<not> startsWith (newline # t) p" using assms(1,2) by (cases p) auto
  then show ?case by (simp add: option.map_comp comp_def)
next
  case (Cons a x)
  have "\<not> startsWith ((a # x) @ newline # t) p"
  proof
    assume "startsWith ((a # x) @ newline # t) p"
    then obtain u where u: "(a # x) @ newline # t = p @ u" by (auto simp: startsWith_iff)
    then consider v where "a # x = p @ v" | v where "p = (a # x) @ v" "newline # t = v @ u"
      by (auto simp only: append_eq_append_conv2)
    then show False
    proof cases
      case 1
      then show ?thesis using Cons.prems unfolding includes_str_iff by (metis append_Nil)
    next
      case 2
      then show ?thesis using assms(1) Cons.prems
        by (cases v) (auto simp: includes_str_iff, metis append_Nil append_Nil2)
    qed
  qed
  moreover have "\<not> includes_str x p"
    using Cons.prems unfolding includes_str_iff by (metis append_Cons)
  ultimately show ?case using Cons.IH by (simp add: option.map_comp comp_def)
qed

lemma replace_first_here: "replace_first (p @ t) p = t"
proof -
  have "startsWith (p @ t) p" by (simp add: startsWith_iff)
  then have "indexOf (p @ t) p = Some 0" by (cases "p @ t") auto
  then show ?thesis by (simp add: replace_first_def)
qed

lemma effective_Nil [simp]: "effective [] = []"
  by (simp add: effective_def)

text \<open>The first line that contains the rule loses the first occurrence of it.\<close>

fun cut_first :: "string \<Rightarrow> string list \<Rightarrow> string list" where
  "cut_first r [] = []"
| "cut_first r (x # xs) = (if includes_str x r then replace_first x r # xs else x # cut_first r xs)"

lemma cut_first_Nil [simp]: "cut_first r xs = [] \<longleftrightarrow> xs = []"
  by (cases xs) auto

lemma indexOf_here: "includes_str x p \<Longrightarrow> \<exists>i. indexOf x p = Some i \<and> i + length p \<le> length x \<and> (\<forall>t. indexOf (x @ t) p = Some i)"
proof (induction x)
  case Nil
  then have "p = []" by (auto simp: includes_str_iff)
  moreover have "indexOf t [] = Some 0" for t by (cases t) (simp_all add: startsWith_iff)
  ultimately show ?case by simp
next
  case (Cons a x)
  show ?case
  proof (cases "startsWith (a # x) p")
    case True
    then have "startsWith ((a # x) @ t) p" for t unfolding startsWith_iff by (metis append.assoc)
    moreover have "length p \<le> length (a # x)" using True by (metis startsWith_iff length_append le_add1)
    ultimately show ?thesis using True by simp
  next
    case False
    then have "includes_str x p" using Cons.prems by (auto simp: includes_str_iff startsWith_iff Cons_eq_append_conv)
    from Cons.IH [OF this] obtain i where i: "indexOf x p = Some i" "i + length p \<le> length x" "\<And>t. indexOf (x @ t) p = Some i" by blast
    have "\<not> startsWith ((a # x) @ t) p" for t
    proof
      assume "startsWith ((a # x) @ t) p"
      then have "p = take (length p) ((a # x) @ t)" by (auto simp: startsWith_iff)
      moreover have "length p \<le> length (a # x)" using i(2) by simp
      ultimately have "p = take (length p) (a # x)" by (cases "length p") simp_all
      then have "startsWith (a # x) p" by (metis append_take_drop_id startsWith_iff)
      with False show False ..
    qed
    with False i show ?thesis by simp
  qed
qed

lemma replace_first_prefix: "includes_str x p \<Longrightarrow> replace_first (x @ t) p = replace_first x p @ t"
  using indexOf_here [of x p] by (auto simp: replace_first_def)

lemma replace_first_cut:
  assumes p: "newline \<notin> set p" "p \<noteq> []"
  shows "\<exists>l\<in>set ls. includes_str l p \<Longrightarrow> replace_first (join_lines ls) p = join_lines (cut_first p ls)"
proof (induction ls)
  case (Cons x xs)
  show ?case
  proof (cases "includes_str x p")
    case True
    then show ?thesis using replace_first_prefix [OF True] by (cases "xs = []") (simp_all add: join_Cons)
  next
    case False
    then have "replace_first (x @ newline # join_lines xs) p = x @ newline # replace_first (join_lines xs) p"
      unfolding replace_first_def indexOf_later_line [OF p False] by (simp split: option.splits)
    moreover have "xs \<noteq> []" using False Cons.prems by auto
    ultimately show ?thesis using False Cons by (simp add: join_Cons)
  qed
qed simp

lemma cut_first_own:
  "p \<in> set ls \<Longrightarrow> (\<And>l. l \<in> set ls \<Longrightarrow> includes_str l p \<Longrightarrow> l = p) \<Longrightarrow> cut_first p ls = blank_first p ls"
proof (induction ls)
  case (Cons x xs)
  have self: "includes_str p p" using includes_str_iff by (metis append_Nil append_Nil2)
  show ?case using Cons self replace_first_here [of p "[]"] by (cases "x = p") auto
qed simp

lemma set_replace_first: "set (replace_first x p) \<subseteq> set x"
  by (auto simp: replace_first_def dest: in_set_takeD in_set_dropD split: option.splits)

lemma cut_first_lines: "l \<in> set (cut_first p ls) \<Longrightarrow> \<exists>x\<in>set ls. set l \<subseteq> set x"
  using set_replace_first by (induction ls) (auto split: if_splits)

lemma includes_not_blank: "includes_str l p \<Longrightarrow> blank l \<Longrightarrow> blank p"
  by (auto simp: includes_str_iff blank_def)

lemma effective_cut_first: "\<not> blank p \<Longrightarrow> effective (cut_first p (effective ls)) = effective (cut_first p ls)"
proof (induction ls)
  case (Cons x xs)
  moreover have "effective (effective xs) = effective xs" by (simp add: effective_def)
  ultimately show ?case using includes_not_blank [of x p] by (auto simp: effective_Cons)
qed (simp add: effective_def)

lemma effective_blank_first: "\<not> blank p \<Longrightarrow> effective (blank_first p ls) = remove1 p (effective ls)"
  by (induction ls) (auto simp: effective_Cons)

lemma blank_first_clean: "l \<in> set (blank_first p ls) \<Longrightarrow> l \<in> set ls \<or> l = []"
  by (induction ls) (auto split: if_splits)

lemma effective_normalized: "effective (split_lines (normalizeRulesTextarea t)) = effective (split_lines t)"
  using effective_payload [of t] by (simp add: rulesPayload_def effective_nonempty)

subsection \<open>What the one-click block does\<close>

text \<open>The contract of the rules endpoints, as for the newer store, and the page in step with the server.\<close>

definition rx_rules_backend ::
  "('w, 'm) fapi \<Rightarrow> ('w \<Rightarrow> string list) \<Rightarrow> (string list \<Rightarrow> 'w \<Rightarrow> 'w) \<Rightarrow> bool" where
  "rx_rules_backend api stored put \<longleftrightarrow>
     (\<forall>c. \<exists>st. run_state (api_getFilteringStatus api) c = (Inr st, c) \<and> fs_user_rules st = Some (stored (backend c))) \<and>
     (\<forall>rs c. run_state (api_setRules api rs) c = (Inr (), c\<lparr>backend := put rs (backend c)\<rparr>)) \<and>
     (\<forall>rs w. stored (put rs w) = rs)"

definition rx_in_sync :: "('w \<Rightarrow> string list) \<Rightarrow> ('w, 'm) filtering_rx_scheme \<Rightarrow> bool" where
  "rx_in_sync stored c \<longleftrightarrow> effective (split_lines (userRules (filtering c))) = effective (stored (backend c))"

lemma rx_getFilteringStatus_quiet:
  assumes "rx_rules_backend api stored put"
  shows "backend (exec (getFilteringStatus env api) c) = backend c \<and>
    shown ty (exec (getFilteringStatus env api) c) = shown ty c \<and>
    userRules (filtering (exec (getFilteringStatus env api) c)) = join_lines (stored (backend c))"
proof -
  let ?c = "c\<lparr>filtering := filtering_reducer GetFilteringStatusRequest (filtering c)\<rparr>"
  from assms obtain st where "run_state (api_getFilteringStatus api) ?c = (Inr st, ?c)"
    "fs_user_rules st = Some (stored (backend ?c))"
    unfolding rx_rules_backend_def by blast
  then show ?thesis
    by (simp add: getFilteringStatus_def getFilteringStatus_finish_def run_try_call normalizeFilteringStatus_def shown_def)
qed

lemma rx_setRules_stores:
  assumes "rx_rules_backend api stored put"
  shows "stored (backend (exec (setRules env api t) c)) = split_lines (normalizeRulesTextarea t)"
  using assms by (simp add: rx_rules_backend_def setRules_def run_try_call)

text \<open>The rules after a toggle, and what saving a text and loading it again leaves.\<close>

definition toggled :: "string \<Rightarrow> string \<Rightarrow> string list \<Rightarrow> string list" where
  "toggled add rm rs =
     (if rm \<in> set rs then effective (cut_first rm rs) else if add \<in> set rs then rs else rs @ [add])"

lemma toggled_apart:
  assumes "\<not> blank rm" "\<And>l. l \<in> set (effective rs) \<Longrightarrow> includes_str l rm \<Longrightarrow> l = rm" "rm \<in> set (effective rs)"
  shows "toggled add rm (effective rs) = remove1 rm (effective rs)"
proof -
  have "cut_first rm (effective rs) = blank_first rm (effective rs)" using assms(2,3) by (intro cut_first_own) auto
  then have "toggled add rm (effective rs) = remove1 rm (effective (effective rs))"
    using assms(1,3) by (simp add: toggled_def effective_blank_first)
  then show ?thesis by (simp add: effective_def)
qed

lemma rx_saved_rules:
  assumes be: "rx_rules_backend api stored put"
  shows "let c' = exec (do { setRules env api t; success_toast env m; getFilteringStatus env api }) c
         in effective (stored (backend c')) = effective (split_lines t) \<and> rx_in_sync stored c'"
proof -
  let ?d = "toasts env (AddSuccessToast m) (exec (setRules env api t) c)"
  have st: "stored (backend ?d) = split_lines (normalizeRulesTextarea t)"
    using rx_setRules_stores [OF be] by simp
  have lines: "newline \<notin> set r" if "r \<in> set (split_lines (normalizeRulesTextarea t))" for r
    using that by (rule split_on_parts)
  from rx_getFilteringStatus_quiet [OF be, of env ?d] st show ?thesis
    using effective_join_lines(1) [OF lines] by (simp add: Let_def rx_in_sync_def effective_normalized)
qed

lemma rx_toggle_run:
  assumes "toggle_rules ty host b u = (add, rm)"
  shows "toggleBlocking env api ty host b u = do {
     rules \<leftarrow> gets (\<lambda>c. userRules (filtering c));
     (if match_rule rules rm
      then do {
        setRules env api (replace_first rules rm);
        success_toast env (getMessage env ''rule_removed_from_custom_filtering_toast'' [(''rule'', SArg rm)]);
        getFilteringStatus env api }
      else if \<not> match_rule rules add
      then do {
        setRules env api (rules @ (if endsWith rules [newline] then [] else [newline]) @ add @ [newline]);
        success_toast env (getMessage env ''rule_added_to_custom_filtering_toast'' [(''rule'', SArg add)]);
        getFilteringStatus env api }
      else success_toast env (getMessage env ''rule_added_to_custom_filtering_toast'' [(''rule'', SArg add)])) }"
proof -
  have r: "(if ty = BLOCK then opt_or_str u (''@@'' @ opt_or_str b (''||'' @ host @ ''^$important''))
        else opt_or_str b (''||'' @ host @ ''^$important'')) = rm"
    "(if ty = BLOCK then opt_or_str b (''||'' @ host @ ''^$important'')
        else opt_or_str u (''@@'' @ opt_or_str b (''||'' @ host @ ''^$important''))) = add"
    using assms by (auto simp: toggle_rules_def Let_def blockingRule_def exceptionRule_def split: if_splits)
  have n: "(if \<not> P then x else y) = (if P then y else x)" for P and x y :: string by simp
  show ?thesis unfolding toggleBlocking_def Let_def r n ..
qed

lemma effective_appended:
  "newline \<notin> set add \<Longrightarrow> \<not> blank add \<Longrightarrow>
   effective (split_lines (rules @ (if endsWith rules [newline] then [] else [newline]) @ add @ [newline]))
     = effective (split_lines rules) @ [add]"
  by (auto simp: endsWith_iff split_on_append split_on_no_sep effective_Cons)

text \<open>
  C16. The one-click block of the React client, against a server that keeps the rules it is given and a page in
  step with it, toggles one rule: if the opposite rule is in force, its text is cut out of the first rule that contains it and nothing is
  added; otherwise the wanted rule is added at the end unless it is there. All other rules stay, in their order, and the page stays
  in step. Where no other rule contains the text of the opposite one, what is cut out is one copy of the opposite rule.
\<close>

theorem rx_toggleBlocking_effect:
  assumes be: "rx_rules_backend api stored put" and sync: "rx_in_sync stored c"
    and rules: "toggle_rules ty host b u = (add, rm)"
    and one_line: "newline \<notin> set add" "newline \<notin> set rm" "\<not> blank add" "\<not> blank rm"
  shows "let c' = exec (toggleBlocking env api ty host b u) c; before = effective (stored (backend c)); after = effective (stored (backend c'))
         in after = (if rm \<in> set before then effective (cut_first rm before)
                     else if add \<in> set before then before else before @ [add]) \<and>
            (rm \<in> set before \<and> (\<forall>l\<in>set before. includes_str l rm \<longrightarrow> l = rm) \<longrightarrow> after = remove1 rm before) \<and>
            rx_in_sync stored c'"
proof -
  let ?t = "userRules (filtering c)" and ?c' = "exec (toggleBlocking env api ty host b u) c"
  let ?ls = "split_lines ?t"
  have eff: "effective (stored (backend c)) = effective ?ls" using sync by (simp add: rx_in_sync_def)
  have mem: "x \<in> set (effective ?ls) \<longleftrightarrow> x \<in> set ?ls" if "\<not> blank x" for x using that by (simp add: effective_def)
  have rm: "effective (split_lines (replace_first ?t rm)) = effective (cut_first rm (effective ?ls))" if "rm \<in> set ?ls"
  proof -
    have "rm \<noteq> []" using one_line(4) by auto
    moreover have "includes_str rm rm" using includes_str_iff by (metis append_Nil append_Nil2)
    ultimately have "replace_first ?t rm = join_lines (cut_first rm ?ls)"
      using replace_first_cut [OF one_line(2), of ?ls] that by (auto simp: join_split_on)
    moreover have "newline \<notin> set l" if "l \<in> set (cut_first rm ?ls)" for l
      using cut_first_lines [OF that] by (auto dest: split_on_parts)
    ultimately show ?thesis using effective_join_lines(1) effective_cut_first [OF one_line(4)] by simp
  qed
  have main: "effective (stored (backend ?c')) = toggled add rm (effective (stored (backend c))) \<and> rx_in_sync stored ?c'"
    unfolding rx_toggle_run [OF rules]
    using rx_saved_rules [OF be, of env "replace_first ?t rm"] rx_saved_rules [OF be, of env "?t @ _ @ add @ [newline]"]
      sync eff rm mem one_line effective_appended [OF one_line(1,3), of ?t]
    by (auto simp: Let_def toggled_def match_rule_lines rx_in_sync_def)
  moreover have "toggled add rm (effective ?ls) = remove1 rm (effective ?ls)"
    if "rm \<in> set (effective ?ls)" "\<forall>l\<in>set (effective ?ls). includes_str l rm \<longrightarrow> l = rm"
    using toggled_apart [OF one_line(4)] that by blast
  ultimately show ?thesis unfolding Let_def eff by (simp add: toggled_def split del: if_split)
qed

definition rx_stored_api :: "(string list, 'm) fapi" where
  "rx_stored_api = \<lparr>
     api_getFilteringStatus = gets (\<lambda>c. Inr \<lparr>fs_enabled = Some True, fs_interval = Some 24, fs_filters = None,
        fs_whitelist_filters = None, fs_user_rules = Some (backend c)\<rparr>),
     api_setRules = (\<lambda>rs. do { modify (\<lambda>c. c\<lparr>backend := rs\<rparr>); pass (Inr ()) }),
     api_addFilter = (\<lambda>_ _ _. pass (Inr ())), api_removeFilter = (\<lambda>_ _. pass (Inr ())),
     api_setFilterUrl = (\<lambda>_ _ _. pass (Inr ())), api_refreshFilters = (\<lambda>_. pass (Inr 0)),
     api_setFiltersConfig = (\<lambda>_. pass (Inr ())), api_checkHost = (\<lambda>_. pass (Inl ''no host'')),
     showLoading = id, hideLoading = id\<rparr>"

lemma rx_stored_api_backend: "rx_rules_backend rx_stored_api id (\<lambda>rs _. rs)"
  by (simp add: rx_rules_backend_def rx_stored_api_def)

definition sample_filtering_rx :: "string \<Rightarrow> string list \<Rightarrow> string list filtering_rx" where
  "sample_filtering_rx t w = \<lparr>rx_notices = [], rx_nonce = 0, rx_console = [], browser = [], backend = w,
     filtering = filtering_initial\<lparr>userRules := t\<rparr>\<rparr>"

theorem rx_toggleBlocking_effect_witness:
  "let c = sample_filtering_rx (''||a.b^$important'' @ newline # ''||c.d^'') [''||a.b^$important'', ''||c.d^''] in
   effective (backend (exec (toggleBlocking sample_env rx_stored_api UNBLOCK ''a.b'' None None) c)) = [''||c.d^'']"
proof -
  let ?c = "sample_filtering_rx (''||a.b^$important'' @ newline # ''||c.d^'') [''||a.b^$important'', ''||c.d^'']"
  have sync: "rx_in_sync id ?c" by (simp add: rx_in_sync_def sample_filtering_rx_def newline_def)
  have r: "toggle_rules UNBLOCK ''a.b'' None None = (''@@||a.b^$important'', ''||a.b^$important'')"
    by (simp add: toggle_rules_def Let_def exceptionRule_def blockingRule_def)
  have n: "newline \<notin> set ''@@||a.b^$important''" "newline \<notin> set ''||a.b^$important''"
    "\<not> blank ''@@||a.b^$important''" "\<not> blank ''||a.b^$important''"
    by (simp_all add: newline_def blank_def is_space_def code_def)
  have e: "effective (backend (sample_filtering_rx t [''||a.b^$important'', ''||c.d^''])) = [''||a.b^$important'', ''||c.d^'']" for t
    by (simp add: sample_filtering_rx_def effective_def blank_def is_space_def code_def)
  have "''||a.b^$important'' \<in> set [''||a.b^$important'', ''||c.d^'']" by simp
  moreover have "\<forall>l\<in>set [''||a.b^$important'', ''||c.d^'']. includes_str l ''||a.b^$important'' \<longrightarrow> l = ''||a.b^$important''"
    by (simp add: includes_str_def)
  ultimately have "effective (backend (exec (toggleBlocking sample_env rx_stored_api UNBLOCK ''a.b'' None None) ?c))
      = remove1 ''||a.b^$important'' [''||a.b^$important'', ''||c.d^'']"
    using rx_toggleBlocking_effect [OF rx_stored_api_backend sync r n, of sample_env] unfolding Let_def e id_apply by blast
  then show ?thesis by simp
qed

text \<open>
  Otherwise a rule is cut in two: with an exception for a host listed before the rule that
  blocks it, unblocking the host takes the text of the blocking rule out of the exception. What is left of the
  exception is the text \<open>@@\<close>, and the host is blocked as before.
\<close>

theorem rx_unblock_cuts_exception:
  assumes be: "rx_rules_backend api stored put"
    and t: "userRules (filtering c) = ''@@'' @ blockingRule host @ newline # blockingRule host"
    and host: "newline \<notin> set host"
  shows "effective (stored (backend (exec (toggleBlocking env api UNBLOCK host None None) c)))
      = [''@@'', blockingRule host]"
proof -
  let ?r = "blockingRule host" and ?t = "userRules (filtering c)"
  have r: "newline \<notin> set ?r" "?r = CHR ''|'' # CHR ''|'' # host @ ''^$important''"
    using host by (auto simp: blockingRule_def newline_def)
  have s: "split_lines (''@@'' @ newline # ?r) = [''@@'', ?r]"
    using split_on_no_sep [OF r(1)] by (simp add: newline_def)
  have "split_lines ?t = [''@@'' @ ?r, ?r]"
    using split_on_append [of newline "''@@'' @ ?r" ?r] split_on_no_sep [OF r(1)] split_on_no_sep [of newline "''@@'' @ ?r"] r(1)
    by (simp add: t newline_def)
  then have m: "match_rule ?t ?r" by (simp add: match_rule_lines [OF r(1)])
  have "indexOf ?t ?r = Some 2"
  proof -
    have "startsWith (?r @ newline # ?r) ?r" by (simp add: startsWith_iff)
    moreover have "\<not> startsWith (''@@'' @ x) ?r" "\<not> startsWith (''@'' @ x) ?r" for x by (simp_all add: r(2))
    ultimately show ?thesis
      unfolding t by (cases "?r @ newline # ?r") (simp_all add: numeral_2_eq_2)
  qed
  then have "replace_first ?t ?r = ''@@'' @ newline # ?r" by (simp add: replace_first_def t)
  moreover have "\<not> blank ''@@''" "\<not> blank ?r" by (simp_all add: r(2) blank_def is_space_def code_def)
  moreover have "toggle_rules UNBLOCK host None None = (exceptionRule ?r, ?r)" by (simp add: toggle_rules_def Let_def)
  ultimately show ?thesis
    unfolding rx_toggle_run [OF \<open>toggle_rules UNBLOCK host None None = _\<close>]
    using rx_saved_rules [OF be, of env "''@@'' @ newline # ?r"] m s by (simp add: Let_def effective_Cons effective_Nil)
qed

text \<open>
  The success is announced without looking at the outcome: when the server refuses the new rules the page shows the
  error and, after it, that the rule was added.
\<close>

theorem rx_failed_block_announced:
  assumes "\<And>rs d. run_state (api_setRules api rs) d = (Inl e, d)"
    and "\<And>d. \<exists>st. run_state (api_getFilteringStatus api) d = (Inr st, d)"
    and "\<not> match_rule (userRules (filtering c)) (exceptionRule (blockingRule host))"
    and "\<not> match_rule (userRules (filtering c)) (blockingRule host)"
  shows "let c' = exec (toggleBlocking env api BLOCK host None None) c in
    backend c' = backend c \<and> shown ERROR c' = shown ERROR c @ [e] \<and>
    shown SUCCESS c' = shown SUCCESS c @
      [getMessage env ''rule_added_to_custom_filtering_toast'' [(''rule'', SArg (blockingRule host))]]"
proof -
  let ?added = "getMessage env ''rule_added_to_custom_filtering_toast'' [(''rule'', SArg (blockingRule host))]"
  have g: "backend (exec (getFilteringStatus env api) d) = backend d \<and> shown ty (exec (getFilteringStatus env api) d) = shown ty d"
    for ty d
    using assms(2) [of "d\<lparr>filtering := filtering_reducer GetFilteringStatusRequest (filtering d)\<rparr>"]
    by (auto simp: getFilteringStatus_def getFilteringStatus_finish_def run_try_call shown_def)
  have sh: "shown ty (d\<lparr>filtering := f\<rparr>) = shown ty d" for ty f and d :: "('a, 'b) filtering_rx_scheme"
    by (simp add: shown_def)
  have s: "backend (exec (setRules env api t) c) = backend c \<and> shown ERROR (exec (setRules env api t) c) = shown ERROR c @ [e] \<and>
      shown SUCCESS (exec (setRules env api t) c) = shown SUCCESS c" for t
    by (simp add: setRules_def run_try_call assms(1) sh)
  have r: "toggle_rules BLOCK host None None = (blockingRule host, exceptionRule (blockingRule host))"
    by (simp add: toggle_rules_def Let_def)
  show ?thesis
    unfolding rx_toggle_run [OF r] using assms(3,4) s g by (simp add: Let_def)
qed

text \<open>
  Where neither of the two rules is in force both clients do the same: after a block or an unblock against servers that
  hold the same rules, these hold the same rules again.
\<close>

theorem clients_block_alike:
  assumes rx: "rx_rules_backend api stored put" "rx_in_sync stored c"
    and v2: "rules_backend api' stored put" "in_sync stored d"
    and same: "effective (stored (backend c)) = effective (stored (world d))"
    and rules: "toggle_rules ty host b u = (add, rm)"
    and one_line: "newline \<notin> set add" "newline \<notin> set rm" "\<not> blank add" "\<not> blank rm"
    and none: "add \<notin> set (effective (stored (world d)))"
      "\<And>l. l \<in> set (split_lines (userRules (filtering c))) \<Longrightarrow> \<not> includes_str l rm"
  shows "effective (stored (backend (exec (toggleBlocking env api ty host b u) c))) =
         effective (stored (world (exec (Filtering.toggleBlocking env' api' ty host b u None) d)))"
proof -
  let ?prev = "FilteringState.userRules (filtering_ctx.filtering d)"
  let ?cur = "splitRules ?prev" and ?rep = "rulesToReplace rm add None"
  let ?new = "filter (\<lambda>r. r \<notin> set (add # ?rep)) ?cur @ [add]"
  have cur: "effective ?cur = effective (stored (world d))" using v2(2) by (simp add: in_sync_def effective_splitRules)
  have mem: "x \<in> set (effective ?cur) \<longleftrightarrow> x \<in> set ?cur" if "\<not> blank x" for x using that by (simp add: effective_def)
  have "rm \<notin> set (split_lines (userRules (filtering c)))" using none(2) by (metis includes_str_iff append_Nil append_Nil2)
  then have "rm \<notin> set (effective (split_lines (userRules (filtering c))))" by (simp add: effective_def)
  then have rm: "rm \<notin> set (effective (stored (world d)))" using rx(2) same by (simp add: rx_in_sync_def)
  have lines: "newline \<notin> set r" if "r \<in> set ?new" for r
    using that one_line(1) splitRules_lines [of r] by auto
  have keep: "r \<notin> set (add # ?rep)" if "r \<in> set (effective (stored (world d)))" for r
    using that none(1) rm by (auto simp: set_rulesToReplace)
  have "effective ?new = effective (stored (world d)) @ [add]"
    using one_line(3) keep by (simp add: effective_filter cur effective_Cons)
  moreover have "add \<notin> set ?cur" using none(1) mem [OF one_line(3)] cur by simp
  moreover have "effective (stored (world (exec (saveWithUndo env' api' ?prev ?new (ruleAdded env' add)) d))) = effective ?new"
    using saveWithUndo_effect [OF v2(1) lines, where env = env' and c = d and m = "ruleAdded env' add" and prev = ?prev]
    by (simp only: Let_def)
  ultimately have d: "effective (stored (world (exec (Filtering.toggleBlocking env' api' ty host b u None) d))) =
      effective (stored (world d)) @ [add]"
    by (simp add: toggleBlocking_run [OF rules] Let_def)
  show ?thesis
    using rx_toggleBlocking_effect [OF rx rules one_line, of env] none rm d same
    by (simp add: Let_def toggled_def)
qed

end
