(* ===== verification/Install.thy ===== *)
theory Install
  imports Validators
begin

section \<open>Installer\<close>

text \<open>
  \<^verbatim>\<open>client_v2/src/stores/install.ts\<close> and the installer built on it,
  \<^verbatim>\<open>client_v2/src/install/Setup\<close>: the account form, the two forms with the addresses, the delayed
  check of the addresses, the steps and the final submission, as a state machine over clicks, edits,
  timers and answers. A port comes out of a number input by \<open>parseInt\<close>: an integer, \<open>NaN\<close>, or the empty
  string, which every comparison and condition of the sources treats like 0 and which is 0 here. The backend is a
  parameter of the store's actions; in the state machine its answers are events.
\<close>

subsection \<open>Store\<close>

record AuthData =
  username :: string
  password :: string
  privacy_consent :: bool

record Address =
  a_ip :: string
  a_port :: js_number
  a_status :: string
  a_can_autofix :: bool

record StaticIp =
  si_static :: string
  si_ip :: string
  si_error :: string

record InstallInterface =
  if_flags :: string
  if_hardware_address :: string
  if_ip_addresses :: "string list"
  if_mtu :: int
  if_name :: string

record InstallState =
  step :: int
  processingDefault :: bool
  processingSubmit :: bool
  processingCheck :: bool
  submitted :: bool
  auth :: AuthData
  web :: Address
  dns :: Address
  staticIp :: StaticIp
  interfaces :: "InstallInterface list"
  dnsVersion :: string
  language :: string

definition ALL_INTERFACES_IP :: string where "ALL_INTERFACES_IP = ''0.0.0.0''"

definition INSTALL_TOTAL_STEPS :: int where "INSTALL_TOTAL_STEPS = 6"

definition fresh_address :: "js_number \<Rightarrow> Address" where
  "fresh_address p = \<lparr>a_ip = ALL_INTERFACES_IP, a_port = p, a_status = [], a_can_autofix = False\<rparr>"

definition initialState :: "string \<Rightarrow> InstallState" where
  "initialState lng = \<lparr>step = 1, processingDefault = True, processingSubmit = False, processingCheck = False,
     submitted = False, auth = \<lparr>username = [], password = [], privacy_consent = False\<rparr>,
     web = fresh_address (Num 80), dns = fresh_address (Num 53),
     staticIp = \<lparr>si_static = [], si_ip = [], si_error = []\<rparr>, interfaces = [], dnsVersion = [], language = lng\<rparr>"

text \<open>An interface of the answer; the answer holds an array of them or an object with their names.\<close>

record NetInterface =
  ni_flags :: string
  ni_hardware_address :: string
  ni_ip_addresses :: "string list option"
  ni_mtu :: "int option"
  ni_name :: "string option"

datatype net_interfaces = InterfaceArray "InstallInterface list" | InterfaceObject "(string \<times> NetInterface) list"

record AddressesInfo =
  ai_dns_port :: int
  ai_interfaces :: net_interfaces
  ai_version :: string
  ai_web_port :: int

record RequestInfo =
  ri_ip :: "string option"
  ri_port :: "js_number option"
  ri_autofix :: "bool option"

record CheckConfigRequest =
  cr_dns :: "RequestInfo option"
  cr_language :: "string option"
  cr_set_static_ip :: "bool option"
  cr_web :: "RequestInfo option"

record ResponseInfo =
  rs_status :: string
  rs_can_autofix :: bool

record CheckConfigResponse =
  cs_dns :: ResponseInfo
  cs_static :: "string option"
  cs_static_ip :: "string option"
  cs_static_error :: "string option"
  cs_web :: ResponseInfo

record InitialConfiguration =
  ic_web :: Address
  ic_dns :: Address
  ic_language :: string
  ic_username :: string
  ic_password :: string

record 'w install_ctx = "(unit, 'w) ctx" +
  install :: InstallState

interpretation install_frame: toast_frame install
  by unfold_locales simp_all

record 'c install_api =
  installGetAddresses :: "('c, AddressesInfo) call"
  installConfigure :: "InitialConfiguration \<Rightarrow> ('c, unit) call"
  installCheckConfig :: "CheckConfigRequest \<Rightarrow> ('c, CheckConfigResponse) call"
  changeLanguage :: "string \<Rightarrow> ('c, unit) call"
  storeLanguage :: "string \<Rightarrow> 'c \<Rightarrow> 'c"

abbreviation setState ::
  "(InstallState \<Rightarrow> InstallState) \<Rightarrow> ('w, 'm) install_ctx_scheme \<Rightarrow> ('w, 'm) install_ctx_scheme" where
  "setState f c \<equiv> c\<lparr>install := f (install c)\<rparr>"

definition normalizedInterfaces :: "net_interfaces \<Rightarrow> InstallInterface list" where
  "normalizedInterfaces d =
     (case d of
        InterfaceArray xs \<Rightarrow> xs
      | InterfaceObject es \<Rightarrow> map (\<lambda>(name, i). \<lparr>if_flags = ni_flags i, if_hardware_address = ni_hardware_address i,
          if_ip_addresses = nullish (ni_ip_addresses i) [], if_mtu = nullish (ni_mtu i) 0,
          if_name = opt_or_str (ni_name i) name\<rparr>) es)"

definition store_defaults :: "AddressesInfo \<Rightarrow> InstallState \<Rightarrow> InstallState" where
  "store_defaults data s = s\<lparr>
     web := (web s)\<lparr>a_port := Num (of_int (ai_web_port data))\<rparr>,
     dns := (dns s)\<lparr>a_port := Num (of_int (ai_dns_port data))\<rparr>,
     interfaces := normalizedInterfaces (ai_interfaces data),
     processingDefault := False, dnsVersion := ai_version data\<rparr>"

definition getDefaultAddresses ::
  "env \<Rightarrow> ('w, 'm) install_ctx_scheme install_api \<Rightarrow> (('w, 'm) install_ctx_scheme, unit) state" where
  "getDefaultAddresses env api = do {
     modify (setState (\<lambda>s. s\<lparr>processingDefault := True\<rparr>));
     try_call (installGetAddresses api)
       (\<lambda>data. modify (setState (store_defaults data)))
       (\<lambda>e. do {
          modify (errorToast env e);
          modify (setState (\<lambda>s. s\<lparr>processingDefault := False\<rparr>)) }) }"

definition nextStep :: "InstallState \<Rightarrow> InstallState" where
  "nextStep s = s\<lparr>step := step s + 1\<rparr>"

definition prevStep :: "InstallState \<Rightarrow> InstallState" where
  "prevStep s = s\<lparr>step := step s - 1\<rparr>"

record SettingsFormValues =
  v_web_ip :: string
  v_web_port :: js_number
  v_dns_ip :: string
  v_dns_port :: js_number

definition saveInstallAddresses :: "SettingsFormValues \<Rightarrow> InstallState \<Rightarrow> InstallState" where
  "saveInstallAddresses v s = s\<lparr>
     web := (web s)\<lparr>a_ip := v_web_ip v, a_port := v_web_port v\<rparr>,
     dns := (dns s)\<lparr>a_ip := v_dns_ip v, a_port := v_dns_port v\<rparr>\<rparr>"

definition setAuthData :: "AuthData \<Rightarrow> InstallState \<Rightarrow> InstallState" where
  "setAuthData a s = s\<lparr>auth := a\<rparr>"

definition setLanguage ::
  "('w, 'm) install_ctx_scheme install_api \<Rightarrow> string \<Rightarrow> (('w, 'm) install_ctx_scheme, unit) call" where
  "setLanguage api lng =
     try_call (changeLanguage api lng)
       (\<lambda>_. do {
          modify (storeLanguage api lng);
          modify (setState (\<lambda>s. s\<lparr>language := lng\<rparr>));
          pass (Inr ()) })
       (\<lambda>e. pass (Inl e))"

definition submit_start :: "InstallState \<Rightarrow> InstallState" where
  "submit_start s = s\<lparr>processingSubmit := True, submitted := False\<rparr>"

definition submit_done :: "InstallState \<Rightarrow> InstallState" where
  "submit_done s = s\<lparr>processingSubmit := False, submitted := True\<rparr>"

text \<open>The configuration has no room for \<open>confirm_password\<close>, which the store drops before the request.\<close>

definition setAllSettings ::
  "env \<Rightarrow> ('w, 'm) install_ctx_scheme install_api \<Rightarrow> InitialConfiguration
     \<Rightarrow> (('w, 'm) install_ctx_scheme, unit) state" where
  "setAllSettings env api config = do {
     modify (setState submit_start);
     try_call (installConfigure api config)
       (\<lambda>_. modify (setState submit_done))
       (\<lambda>e. do {
          modify (errorToast env e);
          modify (setState (\<lambda>s. s\<lparr>processingSubmit := False\<rparr>)) }) }"

definition checked_address :: "RequestInfo option \<Rightarrow> ResponseInfo \<Rightarrow> Address" where
  "checked_address v r = \<lparr>
     a_ip = nullish (Option.bind v ri_ip) [], a_port = nullish (Option.bind v ri_port) (Num 0),
     a_status = rs_status r, a_can_autofix = rs_can_autofix r\<rparr>"

definition store_check :: "CheckConfigRequest \<Rightarrow> CheckConfigResponse \<Rightarrow> InstallState \<Rightarrow> InstallState" where
  "store_check values data s = s\<lparr>
     web := checked_address (cr_web values) (cs_web data),
     dns := checked_address (cr_dns values) (cs_dns data),
     staticIp := \<lparr>si_static = nullish (cs_static data) (si_static (staticIp s)),
       si_ip = nullish (cs_static_ip data) (si_ip (staticIp s)),
       si_error = nullish (cs_static_error data) (si_error (staticIp s))\<rparr>,
     processingCheck := False\<rparr>"

definition checkConfig ::
  "env \<Rightarrow> ('w, 'm) install_ctx_scheme install_api \<Rightarrow> CheckConfigRequest
     \<Rightarrow> (('w, 'm) install_ctx_scheme, unit) state" where
  "checkConfig env api values = do {
     modify (setState (\<lambda>s. s\<lparr>processingCheck := True\<rparr>));
     lng \<leftarrow> gets (\<lambda>c. language (install c));
     try_call (installCheckConfig api (values\<lparr>cr_language := Some lng\<rparr>))
       (\<lambda>data. modify (setState (store_check values data)))
       (\<lambda>e. do {
          modify (errorToast env e);
          modify (setState (\<lambda>s. s\<lparr>processingCheck := False\<rparr>)) }) }"

subsection \<open>Account form\<close>

definition MIN_LENGTH :: nat where "MIN_LENGTH = 8"

definition hasMinLength :: "string \<Rightarrow> bool" where
  "hasMinLength v \<longleftrightarrow> length v \<ge> MIN_LENGTH"

text \<open>The lower and upper case letters of the range U+0000 to U+00FF.\<close>

definition hasLowercase :: "string \<Rightarrow> bool" where
  "hasLowercase v \<longleftrightarrow> (\<exists>c\<in>set v. is_lower c \<or> code c = 181 \<or> (223 \<le> code c \<and> code c \<noteq> 247))"

definition hasUppercase :: "string \<Rightarrow> bool" where
  "hasUppercase v \<longleftrightarrow> (\<exists>c\<in>set v. is_upper c \<or> (192 \<le> code c \<and> code c \<le> 222 \<and> code c \<noteq> 215))"

record AuthFormValues =
  af_username :: string
  af_password :: string
  af_confirm_password :: string
  af_privacy_consent :: bool

definition isAuthFormValid :: "env \<Rightarrow> AuthFormValues \<Rightarrow> bool" where
  "isAuthFormValid env f \<longleftrightarrow>
     validateRequiredValue env (VString (af_username f)) = None \<and>
     validatePasswordLength (Some (af_password f)) = None \<and>
     af_password f \<noteq> [] \<and> hasMinLength (af_password f) \<and> hasLowercase (af_password f) \<and> hasUppercase (af_password f) \<and>
     af_confirm_password f \<noteq> [] \<and> af_password f = af_confirm_password f \<and>
     af_privacy_consent f"

subsection \<open>Address forms\<close>

definition truthy_port :: "js_number \<Rightarrow> bool" where
  "truthy_port p \<longleftrightarrow> p \<noteq> NaN \<and> p \<noteq> Num 0"

record settings_form =
  webIp :: string
  webPort :: js_number
  dnsIp :: string
  dnsPort :: js_number
  isDirty :: bool

definition useInstallSettingsForm :: "InstallState \<Rightarrow> settings_form" where
  "useInstallSettingsForm s = \<lparr>
     webIp = or_str (a_ip (web s)) ALL_INTERFACES_IP,
     webPort = (if truthy_port (a_port (web s)) then a_port (web s) else Num 80),
     dnsIp = or_str (a_ip (dns s)) ALL_INTERFACES_IP,
     dnsPort = (if truthy_port (a_port (dns s)) then a_port (dns s) else Num 53),
     isDirty = False\<rparr>"

definition watchFields :: "settings_form \<Rightarrow> SettingsFormValues" where
  "watchFields f = \<lparr>v_web_ip = webIp f, v_web_port = webPort f, v_dns_ip = dnsIp f, v_dns_port = dnsPort f\<rparr>"

definition isValid :: "env \<Rightarrow> settings_form \<Rightarrow> bool" where
  "isValid env f \<longleftrightarrow> \<not> truthy_str (validateInstallPort env (Some (webPort f))) \<and>
     \<not> truthy_str (validateInstallPort env (Some (dnsPort f)))"

text \<open>What \<open>runValidation\<close> hands to the delayed check.\<close>

definition runValidation :: "env \<Rightarrow> settings_form \<Rightarrow> SettingsFormValues option" where
  "runValidation env f = (if isValid env f then Some (watchFields f) else None)"

datatype form_edit = WebIp string | WebPort js_number | DnsIp string | DnsPort js_number

fun edit_form :: "form_edit \<Rightarrow> settings_form \<Rightarrow> settings_form" where
  "edit_form (WebIp v) f = f\<lparr>webIp := v, isDirty := True\<rparr>"
| "edit_form (WebPort p) f = f\<lparr>webPort := p, isDirty := True\<rparr>"
| "edit_form (DnsIp v) f = f\<lparr>dnsIp := v, isDirty := True\<rparr>"
| "edit_form (DnsPort p) f = f\<lparr>dnsPort := p, isDirty := True\<rparr>"

definition request_info :: "string \<Rightarrow> js_number \<Rightarrow> bool option \<Rightarrow> RequestInfo" where
  "request_info i p fix = \<lparr>ri_ip = Some i, ri_port = Some p, ri_autofix = fix\<rparr>"

text \<open>The requests of the delayed check, of the automatic fix of the web or DNS address, and of the
  static address.\<close>

definition debounced_request :: "SettingsFormValues \<Rightarrow> CheckConfigRequest" where
  "debounced_request v = \<lparr>cr_dns = Some (request_info (v_dns_ip v) (v_dns_port v) None), cr_language = None,
     cr_set_static_ip = Some False, cr_web = Some (request_info (v_web_ip v) (v_web_port v) None)\<rparr>"

datatype address_kind = WebAddress | DnsAddress

definition createHandleAutofix :: "address_kind \<Rightarrow> SettingsFormValues \<Rightarrow> CheckConfigRequest" where
  "createHandleAutofix k v = \<lparr>
     cr_dns = Some (request_info (v_dns_ip v) (v_dns_port v) (Some (k = DnsAddress))), cr_language = None,
     cr_set_static_ip = Some False,
     cr_web = Some (request_info (v_web_ip v) (v_web_port v) (Some (k = WebAddress)))\<rparr>"

definition handleStaticIp :: "SettingsFormValues \<Rightarrow> CheckConfigRequest" where
  "handleStaticIp v = \<lparr>
     cr_dns = Some (request_info (v_dns_ip v) (v_dns_port v) (Some False)), cr_language = None,
     cr_set_static_ip = Some True,
     cr_web = Some (request_info (v_web_ip v) (v_web_port v) (Some False))\<rparr>"

subsection \<open>Steps\<close>

definition handleNextStep :: "SettingsFormValues option \<Rightarrow> InstallState \<Rightarrow> InstallState" where
  "handleNextStep data s =
     (let s1 = (case data of None \<Rightarrow> s | Some v \<Rightarrow> saveInstallAddresses v s)
      in if step s1 \<le> INSTALL_TOTAL_STEPS then nextStep s1 else s1)"

definition handleAuthSubmit :: "AuthFormValues \<Rightarrow> InstallState \<Rightarrow> InstallState" where
  "handleAuthSubmit v s = handleNextStep None
     (setAuthData \<lparr>username = af_username v, password = af_password v, privacy_consent = af_privacy_consent v\<rparr> s)"

definition final_config :: "InstallState \<Rightarrow> InitialConfiguration" where
  "final_config s = \<lparr>ic_web = web s, ic_dns = dns s, ic_language = language s,
     ic_username = username (auth s), ic_password = password (auth s)\<rparr>"

text \<open>The page: the form of the current step, the delayed check, the checks under way and the
  configurations sent so far.\<close>

record 'w setup_ctx = "'w install_ctx" +
  sform :: "settings_form option"
  debounced :: "SettingsFormValues option"
  in_flight :: "CheckConfigRequest list"
  sent :: "InitialConfiguration list"

interpretation sform_frame: toast_frame sform
  by unfold_locales simp_all

interpretation sent_frame: toast_frame sent
  by unfold_locales simp_all

definition debouncedCheckConfig :: "SettingsFormValues option \<Rightarrow> 'w setup_ctx \<Rightarrow> 'w setup_ctx" where
  "debouncedCheckConfig v c = (case v of None \<Rightarrow> c | Some x \<Rightarrow> c\<lparr>debounced := Some x\<rparr>)"

text \<open>A step with addresses mounts its form, which validates at once.\<close>

definition show_step :: "env \<Rightarrow> 'w setup_ctx \<Rightarrow> 'w setup_ctx" where
  "show_step env c =
     (if step (install c) = 3 \<or> step (install c) = 4
      then let f = useInstallSettingsForm (install c)
           in debouncedCheckConfig (runValidation env f) (c\<lparr>sform := Some f\<rparr>)
      else c\<lparr>sform := None\<rparr>)"

definition start_check :: "CheckConfigRequest \<Rightarrow> 'w setup_ctx \<Rightarrow> 'w setup_ctx" where
  "start_check r c = (setState (\<lambda>s. s\<lparr>processingCheck := True\<rparr>) c)\<lparr>in_flight := in_flight c @ [r]\<rparr>"

definition debounce_fires :: "SettingsFormValues \<Rightarrow> 'w setup_ctx \<Rightarrow> 'w setup_ctx" where
  "debounce_fires v c =
     (let c1 = c\<lparr>debounced := None\<rparr>
      in if truthy_port (v_web_port v) \<and> truthy_port (v_dns_port v) then start_check (debounced_request v) c1 else c1)"

definition handleFinalSubmit :: "'w setup_ctx \<Rightarrow> 'w setup_ctx" where
  "handleFinalSubmit c =
     (if truthy_port (a_port (web (install c))) \<and> truthy_port (a_port (dns (install c)))
      then (setState submit_start c)\<lparr>sent := sent c @ [final_config (install c)]\<rparr>
      else c)"

definition fits_uint16 :: "js_number \<Rightarrow> bool" where
  "fits_uint16 p \<longleftrightarrow> (case p of Num r \<Rightarrow> of_int \<lfloor>r\<rfloor> = r \<and> 0 \<le> r \<and> r \<le> 65535 | _ \<Rightarrow> False)"

text \<open>The server reads ports as 16 bit numbers and refuses a request with any other.\<close>

definition acceptable :: "CheckConfigRequest \<Rightarrow> bool" where
  "acceptable r \<longleftrightarrow>
     fits_uint16 (nullish (Option.bind (cr_web r) ri_port) (Num 0)) \<and>
     fits_uint16 (nullish (Option.bind (cr_dns r) ri_port) (Num 0))"

text \<open>What \<open>parseInt\<close> makes of an input.\<close>

definition input_number :: "js_number \<Rightarrow> bool" where
  "input_number p \<longleftrightarrow> p = NaN \<or> (case p of Num r \<Rightarrow> of_int \<lfloor>r\<rfloor> = r | _ \<Rightarrow> False)"

fun possible_edit :: "form_edit \<Rightarrow> bool" where
  "possible_edit (WebPort p) = input_number p"
| "possible_edit (DnsPort p) = input_number p"
| "possible_edit _ = True"

definition fresh_setup :: "string \<Rightarrow> unit setup_ctx" where
  "fresh_setup lng = \<lparr>notices = [], undoRegistry = Map.empty, nonce = 0, console_error = [], world = (),
     install = initialState lng, sform = None, debounced = None, in_flight = [], sent = []\<rparr>"

inductive install_reach :: "env \<Rightarrow> unit setup_ctx \<Rightarrow> bool" for env where
  opened: "install_reach env (fresh_setup lng)"
| defaults_arrive:
    "install_reach env c \<Longrightarrow> processingDefault (install c) \<Longrightarrow>
     0 \<le> ai_web_port d \<Longrightarrow> ai_web_port d \<le> 65535 \<Longrightarrow> 0 \<le> ai_dns_port d \<Longrightarrow> ai_dns_port d \<le> 65535 \<Longrightarrow>
     install_reach env (setState (store_defaults d) c)"
| defaults_fail:
    "install_reach env c \<Longrightarrow> processingDefault (install c) \<Longrightarrow>
     install_reach env (setState (\<lambda>s. s\<lparr>processingDefault := False\<rparr>) (errorToast env e c))"
| get_started:
    "install_reach env c \<Longrightarrow> \<not> processingDefault (install c) \<Longrightarrow> step (install c) = 1 \<Longrightarrow>
     install_reach env (show_step env (setState nextStep c))"
| account_submitted:
    "install_reach env c \<Longrightarrow> \<not> processingDefault (install c) \<Longrightarrow> step (install c) = 2 \<Longrightarrow> isAuthFormValid env v \<Longrightarrow>
     install_reach env (show_step env (setState (handleAuthSubmit v) c))"
| edited:
    "install_reach env c \<Longrightarrow> sform c = Some f \<Longrightarrow> possible_edit e \<Longrightarrow>
     install_reach env (debouncedCheckConfig (runValidation env (edit_form e f)) (c\<lparr>sform := Some (edit_form e f)\<rparr>))"
| addresses_submitted:
    "install_reach env c \<Longrightarrow> sform c = Some f \<Longrightarrow> isValid env f \<Longrightarrow>
     install_reach env (show_step env (setState (handleNextStep (Some (watchFields f)))
       (debouncedCheckConfig (Some (watchFields f)) c)))"
| guide_read:
    "install_reach env c \<Longrightarrow> step (install c) = 5 \<Longrightarrow> install_reach env (show_step env (setState nextStep c))"
| went_back:
    "install_reach env c \<Longrightarrow> 2 \<le> step (install c) \<Longrightarrow> step (install c) \<le> 5 \<Longrightarrow>
     install_reach env (show_step env (setState prevStep c))"
| debounce:
    "install_reach env c \<Longrightarrow> debounced c = Some v \<Longrightarrow> install_reach env (debounce_fires v c)"
| autofix:
    "install_reach env c \<Longrightarrow> sform c = Some f \<Longrightarrow>
     install_reach env (start_check (createHandleAutofix k (watchFields f)) c)"
| static_address:
    "install_reach env c \<Longrightarrow> sform c = Some f \<Longrightarrow>
     install_reach env (start_check (handleStaticIp (watchFields f)) c)"
| check_answered:
    "install_reach env c \<Longrightarrow> in_flight c = as @ r # bs \<Longrightarrow> acceptable r \<Longrightarrow>
     install_reach env ((setState (store_check r d) c)\<lparr>in_flight := as @ bs\<rparr>)"
| check_failed:
    "install_reach env c \<Longrightarrow> in_flight c = as @ r # bs \<Longrightarrow>
     install_reach env ((setState (\<lambda>s. s\<lparr>processingCheck := False\<rparr>) (errorToast env e c))\<lparr>in_flight := as @ bs\<rparr>)"
| final_submit:
    "install_reach env c \<Longrightarrow> step (install c) = 6 \<Longrightarrow> \<not> submitted (install c) \<Longrightarrow> \<not> processingSubmit (install c) \<Longrightarrow>
     install_reach env (handleFinalSubmit c)"
| submit_answered:
    "install_reach env c \<Longrightarrow> processingSubmit (install c) \<Longrightarrow> install_reach env (setState submit_done c)"
| submit_failed:
    "install_reach env c \<Longrightarrow> processingSubmit (install c) \<Longrightarrow>
     install_reach env (setState (\<lambda>s. s\<lparr>processingSubmit := False\<rparr>) (errorToast env e c))"

subsection \<open>What the installer sends\<close>

definition port_value_ok :: "js_number \<Rightarrow> bool" where
  "port_value_ok p \<longleftrightarrow> p = NaN \<or> fits_uint16 p"

definition account_ok :: "string \<Rightarrow> string \<Rightarrow> bool" where
  "account_ok user pw \<longleftrightarrow> trim user \<noteq> [] \<and> 8 \<le> length pw \<and> utf8StringLength pw \<le> MAX_PASSWORD_LENGTH \<and>
     hasLowercase pw \<and> hasUppercase pw"

definition valid_port :: "js_number \<Rightarrow> bool" where
  "valid_port p \<longleftrightarrow> (\<exists>n. p = Num (of_int n) \<and> 1 \<le> n \<and> n \<le> 65535)"

definition config_ok :: "InitialConfiguration \<Rightarrow> bool" where
  "config_ok r \<longleftrightarrow> account_ok (ic_username r) (ic_password r) \<and> valid_port (a_port (ic_web r)) \<and> valid_port (a_port (ic_dns r))"

definition install_inv :: "unit setup_ctx \<Rightarrow> bool" where
  "install_inv c \<longleftrightarrow>
     1 \<le> step (install c) \<and> step (install c) \<le> 6 \<and>
     (3 \<le> step (install c) \<longrightarrow> account_ok (username (auth (install c))) (password (auth (install c)))) \<and>
     port_value_ok (a_port (web (install c))) \<and> port_value_ok (a_port (dns (install c))) \<and>
     (\<forall>f. sform c = Some f \<longrightarrow>
        (step (install c) = 3 \<or> step (install c) = 4) \<and> input_number (webPort f) \<and> input_number (dnsPort f)) \<and>
     list_all config_ok (sent c)"

lemma submitted_port_ok:
  assumes "msg env ''form_error_port'' \<noteq> []" "input_number p" "\<not> truthy_str (validateInstallPort env (Some p))"
  shows "port_value_ok p"
  using assms
  by (cases p) (auto simp: input_number_def port_value_ok_def fits_uint16_def validateInstallPort_def truthy_str_def
      MAX_PORT_def split: if_splits)

lemma shown_port_ok: "port_value_ok p \<Longrightarrow> input_number (if truthy_port p then p else Num (of_int n))"
  by (cases p) (auto simp: port_value_ok_def fits_uint16_def input_number_def truthy_port_def)

lemma sent_port_ok: "port_value_ok p \<Longrightarrow> truthy_port p \<Longrightarrow> valid_port p"
proof -
  assume p: "port_value_ok p" "truthy_port p"
  then obtain r where r: "p = Num r" "of_int \<lfloor>r\<rfloor> = r" "0 \<le> r" "r \<le> 65535"
    by (cases p) (auto simp: port_value_ok_def fits_uint16_def truthy_port_def)
  have "r \<noteq> 0" using p(2) r(1) by (simp add: truthy_port_def)
  then have "1 \<le> \<lfloor>r\<rfloor>" "\<lfloor>r\<rfloor> \<le> 65535" using r(2-4) by linarith+
  with r(1,2) show "valid_port p" unfolding valid_port_def by metis
qed

lemma account_ok_form: "isAuthFormValid env v \<Longrightarrow> account_ok (af_username v) (af_password v)"
  by (auto simp: isAuthFormValid_def account_ok_def validateRequiredValue_def validatePasswordLength_def hasMinLength_def
      MIN_LENGTH_def split: if_splits)

lemma debounced_frame [simp]:
  "install (debouncedCheckConfig v c) = install c" "sform (debouncedCheckConfig v c) = sform c"
  "sent (debouncedCheckConfig v c) = sent c"
  by (simp_all add: debouncedCheckConfig_def split: option.splits)

lemma start_check_frame [simp]:
  "install (start_check r c) = (install c)\<lparr>processingCheck := True\<rparr>" "sform (start_check r c) = sform c"
  "sent (start_check r c) = sent c"
  by (simp_all add: start_check_def)

lemma show_step_frame [simp]: "install (show_step env c) = install c" "sent (show_step env c) = sent c"
  by (simp_all add: show_step_def Let_def)

lemma show_step_form:
  "sform (show_step env c) = (if step (install c) = 3 \<or> step (install c) = 4 then Some (useInstallSettingsForm (install c)) else None)"
  by (simp add: show_step_def Let_def)

text \<open>The part of the invariant that does not speak of the form, and the form that a step mounts.\<close>

definition store_inv :: "unit setup_ctx \<Rightarrow> bool" where
  "store_inv c \<longleftrightarrow>
     1 \<le> step (install c) \<and> step (install c) \<le> 6 \<and>
     (3 \<le> step (install c) \<longrightarrow> account_ok (username (auth (install c))) (password (auth (install c)))) \<and>
     port_value_ok (a_port (web (install c))) \<and> port_value_ok (a_port (dns (install c))) \<and>
     list_all config_ok (sent c)"

lemma show_step_inv: "store_inv c \<Longrightarrow> install_inv (show_step env c)"
  using shown_port_ok [of "a_port (web (install c))" 80] shown_port_ok [of "a_port (dns (install c))" 53]
  by (simp add: store_inv_def install_inv_def show_step_form useInstallSettingsForm_def split: if_splits)

lemma install_inv_step:
  assumes "msg env ''form_error_port'' \<noteq> []" "install_reach env c"
  shows "install_inv c"
  using assms(2)
proof (induction rule: install_reach.induct)
  case (opened lng)
  show ?case by (simp add: install_inv_def fresh_setup_def initialState_def fresh_address_def port_value_ok_def fits_uint16_def)
next
  case (defaults_arrive c d)
  then show ?case by (simp add: install_inv_def store_defaults_def port_value_ok_def fits_uint16_def)
next
  case (defaults_fail c e)
  then show ?case by (simp add: install_inv_def)
next
  case (get_started c)
  then show ?case by (intro show_step_inv) (simp add: install_inv_def store_inv_def nextStep_def)
next
  case (account_submitted c v)
  then show ?case
    using account_ok_form [of env v]
    by (intro show_step_inv) (simp add: install_inv_def store_inv_def handleAuthSubmit_def handleNextStep_def nextStep_def
        setAuthData_def INSTALL_TOTAL_STEPS_def Let_def)
next
  case (edited c f e)
  then show ?case by (cases e) (simp_all add: install_inv_def)
next
  case (addresses_submitted c f)
  then have "port_value_ok (webPort f)" "port_value_ok (dnsPort f)"
    using submitted_port_ok [OF assms(1)] by (auto simp: install_inv_def isValid_def)
  with addresses_submitted show ?case
    by (intro show_step_inv) (auto simp: install_inv_def store_inv_def handleNextStep_def nextStep_def
        saveInstallAddresses_def watchFields_def INSTALL_TOTAL_STEPS_def Let_def)
next
  case (guide_read c)
  then show ?case by (intro show_step_inv) (simp add: install_inv_def store_inv_def nextStep_def)
next
  case (went_back c)
  then show ?case by (intro show_step_inv) (simp add: install_inv_def store_inv_def prevStep_def)
next
  case (debounce c v)
  then show ?case by (simp add: install_inv_def debounce_fires_def Let_def)
next
  case (autofix c f k)
  then show ?case by (simp add: install_inv_def)
next
  case (static_address c f)
  then show ?case by (simp add: install_inv_def)
next
  case (check_answered c as r bs d)
  then show ?case
    by (simp add: install_inv_def store_check_def checked_address_def acceptable_def port_value_ok_def)
next
  case (check_failed c as r bs e)
  then show ?case by (simp add: install_inv_def)
next
  case (final_submit c)
  then show ?case
    using sent_port_ok
    by (simp add: install_inv_def handleFinalSubmit_def submit_start_def config_ok_def final_config_def)
next
  case (submit_answered c)
  then show ?case by (simp add: install_inv_def submit_done_def)
next
  case (submit_failed c e)
  then show ?case by (simp add: install_inv_def)
qed

text \<open>
  C6. Whatever the user does and in whatever order checks are answered, every configuration the
  installer sends has a user name, a password of at least 8 characters and at most 72 bytes with lower
  and upper case letters, and two ports from 1 to 65535; and the installer is always on one of its six
  steps, from the third on with such an account.
\<close>

theorem installer_sends_valid_config:
  assumes "msg env ''form_error_port'' \<noteq> []" "install_reach env c"
  shows "(\<forall>r\<in>set (sent c). account_ok (ic_username r) (ic_password r) \<and>
       valid_port (a_port (ic_web r)) \<and> valid_port (a_port (ic_dns r))) \<and>
    step (install c) \<in> {1..6} \<and>
    (step (install c) \<ge> 3 \<longrightarrow> account_ok (username (auth (install c))) (password (auth (install c))))"
  using install_inv_step [OF assms] by (auto simp: install_inv_def list_all_iff config_ok_def)

subsection \<open>A port that is not a number\<close>

definition sample_account :: AuthFormValues where
  "sample_account = \<lparr>af_username = ''admin'', af_password = ''Passw0rd'', af_confirm_password = ''Passw0rd'',
     af_privacy_consent = True\<rparr>"

lemma sample_account_valid: "isAuthFormValid env sample_account"
proof -
  have "trim ''admin'' \<noteq> []" "hasMinLength ''Passw0rd''" "hasLowercase ''Passw0rd''" "hasUppercase ''Passw0rd''"
    "validatePasswordLength (Some ''Passw0rd'') = None"
    by code_simp+
  then show ?thesis by (simp add: isAuthFormValid_def sample_account_def validateRequiredValue_def)
qed

text \<open>The quick way through the installer: the defaults fail to load, and every form is sent as it is.\<close>

abbreviation no_defaults :: "env \<Rightarrow> unit setup_ctx" where
  "no_defaults env \<equiv> setState (\<lambda>s. s\<lparr>processingDefault := False\<rparr>) (errorToast env [] (fresh_setup []))"

abbreviation at_account :: "env \<Rightarrow> unit setup_ctx" where
  "at_account env \<equiv> show_step env (setState nextStep (no_defaults env))"

abbreviation at_web :: "env \<Rightarrow> unit setup_ctx" where
  "at_web env \<equiv> show_step env (setState (handleAuthSubmit sample_account) (at_account env))"

definition default_form :: settings_form where
  "default_form = \<lparr>webIp = ALL_INTERFACES_IP, webPort = Num 80, dnsIp = ALL_INTERFACES_IP, dnsPort = Num 53, isDirty = False\<rparr>"

definition send_form :: "env \<Rightarrow> settings_form \<Rightarrow> unit setup_ctx \<Rightarrow> unit setup_ctx" where
  "send_form env f c = show_step env (setState (handleNextStep (Some (watchFields f)))
     (debouncedCheckConfig (Some (watchFields f)) c))"

lemma default_form_valid: "isValid env default_form" "isValid env (edit_form (DnsPort NaN) default_form)"
  by (simp_all add: isValid_def default_form_def validateInstallPort_def MAX_PORT_def truthy_str_def)

lemma at_web_state:
  "install_reach env (at_web env)" "step (install (at_web env)) = 3" "sform (at_web env) = Some default_form"
  "sent (at_web env) = []" "\<not> submitted (install (at_web env))" "\<not> processingSubmit (install (at_web env))"
proof -
  have d: "install_reach env (no_defaults env)"
    by (rule install_reach.defaults_fail [OF install_reach.opened]) (simp add: fresh_setup_def initialState_def)
  have s1: "step (install (no_defaults env)) = 1" "\<not> processingDefault (install (no_defaults env))"
    by (simp_all add: fresh_setup_def initialState_def)
  have a: "install_reach env (at_account env)" by (rule install_reach.get_started [OF d s1(2,1)])
  have s2: "step (install (at_account env)) = 2" "\<not> processingDefault (install (at_account env))"
    using s1 by (simp_all add: nextStep_def)
  show "install_reach env (at_web env)"
    by (rule install_reach.account_submitted [OF a s2(2,1) sample_account_valid])
qed (simp_all add: show_step_form handleAuthSubmit_def handleNextStep_def setAuthData_def nextStep_def INSTALL_TOTAL_STEPS_def
    fresh_setup_def initialState_def useInstallSettingsForm_def default_form_def fresh_address_def or_str_def
    ALL_INTERFACES_IP_def truthy_port_def)

lemma send_form_state:
  assumes "step (install c) \<in> {3, 4}" "sent c = []" "\<not> submitted (install c)" "\<not> processingSubmit (install c)"
  shows "step (install (send_form env f c)) = step (install c) + 1" "sent (send_form env f c) = []"
    "\<not> submitted (install (send_form env f c))" "\<not> processingSubmit (install (send_form env f c))"
    "web (install (send_form env f c)) = (web (install c))\<lparr>a_ip := webIp f, a_port := webPort f\<rparr>"
    "dns (install (send_form env f c)) = (dns (install c))\<lparr>a_ip := dnsIp f, a_port := dnsPort f\<rparr>"
  using assms
  by (auto simp: send_form_def handleNextStep_def nextStep_def saveInstallAddresses_def INSTALL_TOTAL_STEPS_def watchFields_def)

lemma at_dns_form: "sform (send_form env default_form (at_web env)) = Some default_form"
  using at_web_state(2) [of env]
  by (simp add: send_form_def show_step_form handleNextStep_def nextStep_def saveInstallAddresses_def INSTALL_TOTAL_STEPS_def
      watchFields_def useInstallSettingsForm_def default_form_def or_str_def ALL_INTERFACES_IP_def truthy_port_def)

text \<open>
  The installer can be left without a way on: a DNS port such as \<open>.5\<close>, which parses to \<open>NaN\<close>, does
  not disable the Next button, and on the last step, which has no Back button, the button that should
  finish the installation then does nothing.
\<close>

theorem nan_port_dead_end:
  "\<exists>c. install_reach env c \<and> step (install c) = 6 \<and> \<not> submitted (install c) \<and> \<not> processingSubmit (install c) \<and>
     sent c = [] \<and> handleFinalSubmit c = c"
proof -
  let ?d = "send_form env default_form (at_web env)"
  let ?f = "edit_form (DnsPort NaN) default_form"
  let ?e = "debouncedCheckConfig (runValidation env ?f) (?d\<lparr>sform := Some ?f\<rparr>)"
  let ?g = "send_form env ?f ?e"
  let ?s = "show_step env (setState nextStep ?g)"
  have "install_reach env ?d"
    unfolding send_form_def by (rule install_reach.addresses_submitted [OF at_web_state(1,3) default_form_valid(1)])
  then have "install_reach env ?e"
    by (rule install_reach.edited [OF _ at_dns_form]) (simp add: input_number_def)
  then have g: "install_reach env ?g"
    unfolding send_form_def
    by (rule install_reach.addresses_submitted [OF _ _ default_form_valid(2)]) simp
  have d: "step (install ?d) = 4" "sent ?d = []" "\<not> submitted (install ?d)" "\<not> processingSubmit (install ?d)"
    using send_form_state [of "at_web env" env default_form] at_web_state [of env] by simp_all
  have st: "step (install ?g) = 5" "sent ?g = []" "\<not> submitted (install ?g)" "\<not> processingSubmit (install ?g)"
    "a_port (dns (install ?g)) = NaN"
    using send_form_state [of ?e env ?f] d by simp_all
  have "install_reach env ?s" by (rule install_reach.guide_read [OF g st(1)])
  moreover have "handleFinalSubmit ?s = ?s"
    using st(5) by (simp add: handleFinalSubmit_def nextStep_def truthy_port_def)
  ultimately show ?thesis using st by (intro exI [of _ ?s]) (simp add: nextStep_def)
qed

theorem installer_sends_valid_config_witness:
  "step (install (at_web sample_env)) = 3 \<and>
   account_ok (username (auth (install (at_web sample_env)))) (password (auth (install (at_web sample_env))))"
  using installer_sends_valid_config [of sample_env "at_web sample_env"] at_web_state [of sample_env]
  by (simp add: sample_env_def)

end
