(* ===== verification/ReduxInstall.thy ===== *)
theory ReduxInstall
  imports Install ReduxCore
begin

section \<open>The installer of the React client\<close>

text \<open>
  \<^verbatim>\<open>client/src/actions/install.ts\<close>, \<^verbatim>\<open>client/src/reducers/install.ts\<close> and the handlers of
  \<^verbatim>\<open>client/src/install/Setup\<close>. Ports are as in the newer installer: an empty input is 0. The form of the second step hands its
  addresses to a delayed check; the store takes them over with the answer.
\<close>

subsection \<open>The slice\<close>

record rx_install =
  step :: int
  processingDefault :: bool
  processingSubmit :: bool
  processingCheck :: bool
  web :: Address
  dns :: Address
  staticIp :: StaticIp
  interfaces :: net_interfaces
  dnsVersion :: string

definition rx_TOTAL_STEPS :: int where "rx_TOTAL_STEPS = 5"

definition install_initial :: rx_install where
  "install_initial = \<lparr>step = 1, processingDefault = True, processingSubmit = False, processingCheck = False,
     web = fresh_address (Num 80), dns = fresh_address (Num 53),
     staticIp = \<lparr>si_static = [], si_ip = [], si_error = []\<rparr>, interfaces = InterfaceObject [], dnsVersion = []\<rparr>"

record checked =
  ck_web :: Address
  ck_dns :: Address
  ck_static :: "string option"
  ck_static_ip :: "string option"
  ck_static_error :: "string option"

datatype install_action =
    GetDefaultAddressesRequest | GetDefaultAddressesFailure | GetDefaultAddressesSuccess AddressesInfo
  | NextStep | PrevStep
  | SetAllSettingsRequest | SetAllSettingsFailure | SetAllSettingsSuccess
  | CheckConfigRequested | CheckConfigFailure | CheckConfigSuccess checked

fun install_reducer :: "install_action \<Rightarrow> rx_install \<Rightarrow> rx_install" where
  "install_reducer GetDefaultAddressesRequest s = s\<lparr>processingDefault := True\<rparr>"
| "install_reducer GetDefaultAddressesFailure s = s\<lparr>processingDefault := False\<rparr>"
| "install_reducer (GetDefaultAddressesSuccess p) s = s\<lparr>
     web := (web s)\<lparr>a_port := Num (of_int (ai_web_port p))\<rparr>, dns := (dns s)\<lparr>a_port := Num (of_int (ai_dns_port p))\<rparr>,
     interfaces := ai_interfaces p, processingDefault := False, dnsVersion := ai_version p\<rparr>"
| "install_reducer NextStep s = s\<lparr>step := step s + 1\<rparr>"
| "install_reducer PrevStep s = s\<lparr>step := step s - 1\<rparr>"
| "install_reducer SetAllSettingsRequest s = s\<lparr>processingSubmit := True\<rparr>"
| "install_reducer SetAllSettingsFailure s = s\<lparr>processingSubmit := False\<rparr>"
| "install_reducer SetAllSettingsSuccess s = s\<lparr>processingSubmit := False\<rparr>"
| "install_reducer CheckConfigRequested s = s\<lparr>processingCheck := True\<rparr>"
| "install_reducer CheckConfigFailure s = s\<lparr>processingCheck := False\<rparr>"
| "install_reducer (CheckConfigSuccess p) s = s\<lparr>web := ck_web p, dns := ck_dns p,
     staticIp := \<lparr>si_static = nullish (ck_static p) (si_static (staticIp s)),
       si_ip = nullish (ck_static_ip p) (si_ip (staticIp s)), si_error = nullish (ck_static_error p) (si_error (staticIp s))\<rparr>,
     processingCheck := False\<rparr>"

record 'w install_rx = "'w rx" +
  install_slice :: rx_install

interpretation install_rx_frame: rx_frame install_slice
  by unfold_locales simp_all

abbreviation dispatch :: "install_action \<Rightarrow> (('w, 'm) install_rx_scheme, unit) state" where
  "dispatch a \<equiv> modify (\<lambda>c. c\<lparr>install_slice := install_reducer a (install_slice c)\<rparr>)"

record install_values =
  iv_web :: Address
  iv_dns :: Address
  iv_username :: string
  iv_password :: string

record 'c rx_install_api =
  api_getDefaultAddresses :: "('c, AddressesInfo) call"
  api_setAllSettings :: "install_values \<Rightarrow> ('c, unit) call"
  api_checkConfig :: "CheckConfigRequest \<Rightarrow> ('c, CheckConfigResponse) call"

type_synonym ('w, 'm) iapi = "('w, 'm) install_rx_scheme rx_install_api"

subsection \<open>Thunks\<close>

definition getDefaultAddresses :: "env \<Rightarrow> ('w, 'm) iapi \<Rightarrow> (('w, 'm) install_rx_scheme, unit) state" where
  "getDefaultAddresses env api = do {
     dispatch GetDefaultAddressesRequest;
     try_call (api_getDefaultAddresses api)
       (\<lambda>addresses. dispatch (GetDefaultAddressesSuccess addresses))
       (\<lambda>e. do { error_toast env e; dispatch GetDefaultAddressesFailure }) }"

text \<open>\<open>setAllSettings\<close> from its answer on; \<open>confirm_password\<close> has no place in the values.\<close>

definition submit_succeeded :: "env \<Rightarrow> (('w, 'm) install_rx_scheme, unit) state" where
  "submit_succeeded env = do { dispatch SetAllSettingsSuccess; success_toast env ''install_saved''; dispatch NextStep }"

definition submit_failed :: "env \<Rightarrow> string \<Rightarrow> (('w, 'm) install_rx_scheme, unit) state" where
  "submit_failed env e = do { error_toast env e; dispatch SetAllSettingsFailure; dispatch PrevStep }"

definition setAllSettings :: "env \<Rightarrow> ('w, 'm) iapi \<Rightarrow> install_values \<Rightarrow> (('w, 'm) install_rx_scheme, unit) state" where
  "setAllSettings env api values = do {
     dispatch SetAllSettingsRequest;
     try_call (api_setAllSettings api values) (\<lambda>_. submit_succeeded env) (submit_failed env) }"

definition checked_values :: "RequestInfo \<Rightarrow> ResponseInfo \<Rightarrow> Address" where
  "checked_values v r = \<lparr>a_ip = nullish (ri_ip v) [], a_port = nullish (ri_port v) (Num 0),
     a_status = rs_status r, a_can_autofix = rs_can_autofix r\<rparr>"

definition checkConfig ::
  "env \<Rightarrow> ('w, 'm) iapi \<Rightarrow> RequestInfo \<Rightarrow> RequestInfo \<Rightarrow> bool \<Rightarrow> (('w, 'm) install_rx_scheme, unit) state" where
  "checkConfig env api w d set_static = do {
     dispatch CheckConfigRequested;
     try_call (api_checkConfig api \<lparr>cr_dns = Some d, cr_language = None, cr_set_static_ip = Some set_static, cr_web = Some w\<rparr>)
       (\<lambda>check. dispatch (CheckConfigSuccess \<lparr>ck_web = checked_values w (cs_web check), ck_dns = checked_values d (cs_dns check),
          ck_static = cs_static check, ck_static_ip = cs_static_ip check, ck_static_error = cs_static_error check\<rparr>))
       (\<lambda>e. do { error_toast env e; dispatch CheckConfigFailure }) }"

subsection \<open>The pages\<close>

text \<open>The body of the delayed check, the button of the account page, the fixes, the last button, and the button of the second page.\<close>

definition delayed_check :: "env \<Rightarrow> ('w, 'm) iapi \<Rightarrow> SettingsFormValues \<Rightarrow> (('w, 'm) install_rx_scheme, unit) state" where
  "delayed_check env api v =
     (if truthy_port (v_web_port v) \<and> truthy_port (v_dns_port v)
      then checkConfig env api (request_info (v_web_ip v) (v_web_port v) None) (request_info (v_dns_ip v) (v_dns_port v) None) False
      else pass ())"

definition handleFormSubmit :: "env \<Rightarrow> ('w, 'm) iapi \<Rightarrow> string \<Rightarrow> string \<Rightarrow> (('w, 'm) install_rx_scheme, unit) state" where
  "handleFormSubmit env api name pass_word = do {
     s \<leftarrow> gets install_slice;
     (if truthy_port (a_port (web s)) \<and> truthy_port (a_port (dns s))
      then setAllSettings env api \<lparr>iv_web = web s, iv_dns = dns s, iv_username = name, iv_password = pass_word\<rparr>
      else pass ()) }"

definition handleAutofix :: "env \<Rightarrow> ('w, 'm) iapi \<Rightarrow> address_kind \<Rightarrow> SettingsFormValues \<Rightarrow> (('w, 'm) install_rx_scheme, unit) state" where
  "handleAutofix env api k v = checkConfig env api
     (request_info (v_web_ip v) (v_web_port v) (Some (k = WebAddress)))
     (request_info (v_dns_ip v) (v_dns_port v) (Some (k = DnsAddress))) False"

definition rx_handleStaticIp :: "env \<Rightarrow> ('w, 'm) iapi \<Rightarrow> bool \<Rightarrow> SettingsFormValues \<Rightarrow> (('w, 'm) install_rx_scheme, unit) state" where
  "rx_handleStaticIp env api confirmed v =
     (if confirmed
      then checkConfig env api (request_info (v_web_ip v) (v_web_port v) (Some False))
             (request_info (v_dns_ip v) (v_dns_port v) (Some False)) True
      else pass ())"

text \<open>\<open>getWebAddress\<close> and \<open>getDnsAddress\<close> of \<^verbatim>\<open>client/src/helpers/helpers.tsx\<close>; a port is a natural number, 0 when there is none.\<close>

definition rx_getWebAddress :: "string \<Rightarrow> nat \<Rightarrow> string" where
  "rx_getWebAddress ip port =
     (if port \<noteq> 0 \<and> port \<noteq> 80
      then if includes_str ip '':'' \<and> \<not> includes_str ip ''['' then ''http://['' @ ip @ '']:'' @ show_nat port
           else ''http://'' @ ip @ '':'' @ show_nat port
      else ''http://'' @ ip)"

definition rx_getDnsAddress :: "string \<Rightarrow> nat \<Rightarrow> string" where
  "rx_getDnsAddress ip port =
     (if port \<noteq> 0
      then if includes_str ip '':'' \<and> port \<noteq> 53 then ''['' @ ip @ '']:'' @ show_nat port
           else if port \<noteq> 53 then ip @ '':'' @ show_nat port else ip
      else ip)"

definition openDashboard :: "string \<Rightarrow> string \<Rightarrow> nat \<Rightarrow> ('w, 'm) rx_scheme \<Rightarrow> ('w, 'm) rx_scheme" where
  "openDashboard host ip port = happens (PageReplace (rx_getWebAddress (if ip = ALL_INTERFACES_IP then host else ip) port))"

definition handleNextStep :: "(('w, 'm) install_rx_scheme, unit) state" where
  "handleNextStep = do {
     s \<leftarrow> gets install_slice;
     (if step s < rx_TOTAL_STEPS then dispatch NextStep else pass ()) }"

text \<open>The values of the form of the second step when it is mounted, and whether its ports pass.\<close>

definition settings_defaults :: "rx_install \<Rightarrow> SettingsFormValues" where
  "settings_defaults s = \<lparr>v_web_ip = or_str (a_ip (web s)) ALL_INTERFACES_IP,
     v_web_port = (if truthy_port (a_port (web s)) then a_port (web s) else Num 80),
     v_dns_ip = or_str (a_ip (dns s)) ALL_INTERFACES_IP,
     v_dns_port = (if truthy_port (a_port (dns s)) then a_port (dns s) else Num 53)\<rparr>"

definition rx_validateInstallPort :: "js_number \<Rightarrow> bool" where
  "rx_validateInstallPort p \<longleftrightarrow> \<not> below p 1 \<and> \<not> above p 65535"

definition settings_effect :: "SettingsFormValues \<Rightarrow> SettingsFormValues option" where
  "settings_effect v = (if rx_validateInstallPort (v_web_port v) \<and> rx_validateInstallPort (v_dns_port v) then Some v else None)"

subsection \<open>The buttons as a state machine\<close>

text \<open>
  What changes the step: the buttons that \<^verbatim>\<open>Controls.tsx\<close> shows on each page, and the answer to the submission. The page
  is blank at a step it has no case for. With \<open>back_anytime\<close> the back button works as in the source; without, it
  is not pressed during a submission.
\<close>

inductive install_reach :: "bool \<Rightarrow> rx_install \<Rightarrow> bool" for back_anytime where
  start: "install_reach back_anytime install_initial"
| loaded: "install_reach back_anytime s \<Longrightarrow> install_reach back_anytime (install_reducer (GetDefaultAddressesSuccess p) s)"
| not_loaded: "install_reach back_anytime s \<Longrightarrow> install_reach back_anytime (install_reducer GetDefaultAddressesFailure s)"
| answered: "install_reach back_anytime s \<Longrightarrow> install_reach back_anytime (install_reducer (CheckConfigSuccess k) s)"
| get_started: "install_reach back_anytime s \<Longrightarrow> step s = 1 \<Longrightarrow> \<not> processingDefault s \<Longrightarrow>
    install_reach back_anytime (install_reducer NextStep s)"
| addresses: "install_reach back_anytime s \<Longrightarrow> step s = 2 \<Longrightarrow> \<not> processingSubmit s \<Longrightarrow>
    install_reach back_anytime (install_reducer NextStep s)"
| submit: "install_reach back_anytime s \<Longrightarrow> step s = 3 \<Longrightarrow> \<not> processingSubmit s \<Longrightarrow>
    install_reach back_anytime (install_reducer SetAllSettingsRequest s)"
| listed: "install_reach back_anytime s \<Longrightarrow> step s = 4 \<Longrightarrow> install_reach back_anytime (install_reducer NextStep s)"
| go_back: "install_reach back_anytime s \<Longrightarrow> step s \<in> {2, 3} \<Longrightarrow> back_anytime \<or> \<not> processingSubmit s \<Longrightarrow>
    install_reach back_anytime (install_reducer PrevStep s)"
| stored: "install_reach back_anytime s \<Longrightarrow> processingSubmit s \<Longrightarrow>
    install_reach back_anytime (install_reducer NextStep (install_reducer SetAllSettingsSuccess s))"
| refused: "install_reach back_anytime s \<Longrightarrow> processingSubmit s \<Longrightarrow>
    install_reach back_anytime (install_reducer PrevStep (install_reducer SetAllSettingsFailure s))"

text \<open>
  C18. The installer of the React client shows one of its five pages at every step, as long as nobody goes back while the settings are being submitted.
  Going back twice during a submission that is then refused leads to step zero, where the page is blank and has no button.
\<close>

theorem rx_install_steps:
  shows "(install_reach False s \<longrightarrow> 1 \<le> step s \<and> step s \<le> rx_TOTAL_STEPS \<and> (processingSubmit s \<longrightarrow> step s = 3)) \<and>
    (\<exists>s. install_reach True s \<and> step s = 0 \<and> \<not> processingSubmit s)"
proof (intro conjI impI)
  assume "install_reach False s"
  then have inv: "1 \<le> step s \<and> step s \<le> 5 \<and> (processingSubmit s \<longrightarrow> step s = 3)"
    by induction (auto simp: install_initial_def)
  then show "1 \<le> step s" "step s \<le> rx_TOTAL_STEPS" "processingSubmit s \<Longrightarrow> step s = 3" by (simp_all add: rx_TOTAL_STEPS_def)
next
  let ?n = "install_reducer NextStep" and ?b = "install_reducer PrevStep" and ?i = "install_reducer GetDefaultAddressesFailure install_initial"
  have "install_reach True (?n (?n ?i))"
    by (intro install_reach.addresses install_reach.get_started install_reach.not_loaded install_reach.start) (simp_all add: install_initial_def)
  then have "install_reach True (install_reducer SetAllSettingsRequest (?n (?n ?i)))"
    by (rule install_reach.submit) (simp_all add: install_initial_def)
  then have "install_reach True (?b (?b (install_reducer SetAllSettingsRequest (?n (?n ?i)))))"
    by (intro install_reach.go_back) (simp_all add: install_initial_def)
  then have "install_reach True (?b (install_reducer SetAllSettingsFailure
      (?b (?b (install_reducer SetAllSettingsRequest (?n (?n ?i)))))))"
    by (rule install_reach.refused) simp
  then show "\<exists>s. install_reach True s \<and> step s = 0 \<and> \<not> processingSubmit s"
    by (intro exI conjI, assumption) (simp_all add: install_initial_def)
qed

theorem rx_install_steps_witness:
  "1 \<le> step install_initial \<and> step install_initial \<le> rx_TOTAL_STEPS"
  using rx_install_steps [of install_initial] install_reach.start [of False] by blast

text \<open>
  The addresses of the form reach the store only with the answer to a check. If that request fails after the second page was
  left, the account page submits the addresses of the store, whatever the form said.
\<close>

theorem rx_failed_check_drops_addresses:
  assumes "run_state (api_checkConfig api \<lparr>cr_dns = Some (request_info (v_dns_ip v) (v_dns_port v) None), cr_language = None,
      cr_set_static_ip = Some False, cr_web = Some (request_info (v_web_ip v) (v_web_port v) None)\<rparr>) (exec (dispatch CheckConfigRequested) c) =
      (Inl e, exec (dispatch CheckConfigRequested) c)"
    and "truthy_port (v_web_port v)" "truthy_port (v_dns_port v)"
    and "truthy_port (a_port (web (install_slice c)))" "truthy_port (a_port (dns (install_slice c)))"
  shows "let d = exec (delayed_check env api v) c
    in web (install_slice d) = web (install_slice c) \<and> dns (install_slice d) = dns (install_slice c) \<and>
       run_state (handleFormSubmit env api u w) d =
         run_state (setAllSettings env api \<lparr>iv_web = web (install_slice c), iv_dns = dns (install_slice c), iv_username = u, iv_password = w\<rparr>) d"
  using assms by (simp add: delayed_check_def checkConfig_def run_try_call handleFormSubmit_def Let_def)

text \<open>A link to an IPv6 address on the standard port has no brackets; the newer interface puts them.\<close>

theorem rx_ipv6_link_unbracketed:
  "rx_getWebAddress ''2001:db8::1'' 80 = ''http://2001:db8::1'' \<and> getWebAddress ''2001:db8::1'' 80 = ''http://[2001:db8::1]''"
  by code_simp

end
