(* ===== verification/Login.thy ===== *)
theory Login
  imports Fetch Toasts
begin

section \<open>Login store\<close>

text \<open>
  \<^verbatim>\<open>client_v2/src/stores/login.ts\<close> on top of the request wrapper: the generated endpoint
  \<open>login\<close> of \<^verbatim>\<open>client_v2/src/api/generated.ts\<close> is \<^const>\<open>customFetch\<close> on the browser's state, which
  is the world of this context. The JSON of the credentials and the origin of the page are parameters.
\<close>

datatype login_error = NoError | InvalidCredentials | LoginFailed string

record LoginState =
  processingLogin :: bool
  login_email :: string
  login_password :: string
  login_error :: login_error

definition initialState :: LoginState where
  "initialState = \<lparr>processingLogin = False, login_email = [], login_password = [], login_error = NoError\<rparr>"

record 'w login_ctx = "(unit, 'w net_ctx) ctx" +
  login_store :: LoginState

interpretation login_frame: toast_frame login_store
  by unfold_locales simp_all

abbreviation setState ::
  "(LoginState \<Rightarrow> LoginState) \<Rightarrow> ('w, 'm) login_ctx_scheme \<Rightarrow> ('w, 'm) login_ctx_scheme" where
  "setState f c \<equiv> c\<lparr>login_store := f (login_store c)\<rparr>"

text \<open>A computation on the browser's state, run inside the context of the page.\<close>

definition in_browser :: "('w net_ctx, 'a) state \<Rightarrow> (('w, 'm) login_ctx_scheme, 'a) state" where
  "in_browser m = State (\<lambda>c. (result m (world c), c\<lparr>world := exec m (world c)\<rparr>))"

lemma run_in_browser [simp]: "run_state (in_browser m) c = (result m (world c), c\<lparr>world := exec m (world c)\<rparr>)"
  by (simp add: in_browser_def)

definition login_request :: "('c, 'j) platform \<Rightarrow> 'j \<Rightarrow> request" where
  "login_request pf credentials = \<lparr>req_url = ''control/login'', req_method = ''POST'',
     req_headers = [(''Content-Type'', ''application/json'')], req_body = Some (stringify pf credentials)\<rparr>"

definition login :: "('w net_ctx, 'j) platform \<Rightarrow> 'j \<Rightarrow> ('w net_ctx, 'j fetched) call" where
  "login pf credentials = customFetch pf (login_request pf credentials) False"

definition MAIN :: string where "MAIN = ''/''"

text \<open>\<open>s.replace(p, r)\<close> for a string \<open>p\<close>: the first occurrence.\<close>

definition replaceFirst :: "string \<Rightarrow> string \<Rightarrow> string \<Rightarrow> string" where
  "replaceFirst s p r =
     (case indexOf s p of None \<Rightarrow> s | Some i \<Rightarrow> take i s @ r @ drop (i + length p) s)"

definition dashboardUrl :: "string \<Rightarrow> string \<Rightarrow> string" where
  "dashboardUrl origin path = origin @ replaceFirst path LOGIN MAIN"

definition processLogin ::
  "env \<Rightarrow> string \<Rightarrow> ('w net_ctx, 'j) platform \<Rightarrow> 'j \<Rightarrow> (('w, 'm) login_ctx_scheme, unit) state" where
  "processLogin env origin pf credentials = do {
     modify (setState (\<lambda>s. s\<lparr>processingLogin := True, login_error := NoError\<rparr>));
     try_call (in_browser (login pf credentials))
       (\<lambda>_. do {
          modify (\<lambda>c. c\<lparr>world := (world c)\<lparr>replaced := replaced (world c) @ [dashboardUrl origin (pathname (world c))]\<rparr>\<rparr>);
          modify (setState (\<lambda>s. s\<lparr>processingLogin := False, login_error := NoError\<rparr>)) })
       (\<lambda>e. let bad = includes_str e '' | 403''
            in do {
              (if bad then pass () else modify (errorToast env e));
              modify (setState (\<lambda>s. s\<lparr>processingLogin := False,
                login_error := (if bad then InvalidCredentials else LoginFailed e)\<rparr>)) }) }"

subsection \<open>The verdict\<close>

lemma httpError_403: "includes_str (httpError url body 403) '' | 403''"
proof -
  have "show_nat 403 = ''403''" by code_simp
  then have "httpError url body 403 = (url @ sep @ body) @ '' | 403'' @ []" by (simp add: httpError_def sep_def)
  then show ?thesis unfolding includes_str_iff by metis
qed

lemma httpError_bar: "CHR ''|'' \<in> set (httpError url body st)"
  by (simp add: httpError_def sep_def)

definition answers :: "('w net_ctx, 'j) platform \<Rightarrow> 'j \<Rightarrow> 'w net_ctx \<Rightarrow> http_response \<Rightarrow> bool" where
  "answers pf credentials w r \<longleftrightarrow> run_state (fetch pf (login_request pf credentials)) w = (Inr r, w)"

text \<open>
  On the login page a wrong password, answered with 403, marks the password as wrong without a
  toast and without leaving the page; a success answer leads to the dashboard of the same origin. In
  both cases the form is usable again.
\<close>

theorem login_page_verdict:
  assumes "pathname (world c) = LOGIN" "answers pf credentials (world c) r"
  shows "let c' = exec (processLogin env origin pf credentials) c
    in \<not> processingLogin (login_store c') \<and> (ok r \<or> http_status r = 403 \<longrightarrow> notices c' = notices c) \<and>
       (ok r \<longrightarrow> replaced (world c') = replaced (world c) @ [origin @ MAIN] \<and> login_error (login_store c') = NoError) \<and>
       (\<not> ok r \<and> http_status r = 403 \<longrightarrow>
          replaced (world c') = replaced (world c) \<and> login_error (login_store c') = InvalidCredentials)"
proof -
  have url: "dashboardUrl origin LOGIN = origin @ MAIN"
    by (simp add: dashboardUrl_def replaceFirst_def LOGIN_def MAIN_def)
  show ?thesis
    using assms httpError_403
    by (simp add: processLogin_def run_try_call login_def customFetch_def answers_def url Let_def
        rethrow_def httpError_bar split: sum.splits)
qed

text \<open>
  When the pages are served under a path of their own, as behind a reverse proxy, a wrong password
  is not reported: the request wrapper takes the refusal for an expired session, answers \<open>false\<close>, and
  the login store leaves for the dashboard as after a success.
\<close>

theorem wrong_password_under_subpath:
  assumes "pathname (world c) \<noteq> LOGIN" "pathname (world c) \<noteq> INSTALL"
    and "answers pf credentials (world c) r" "\<not> ok r" "http_status r = 403"
  shows "let c' = exec (processLogin env origin pf credentials) c
    in login_error (login_store c') = NoError \<and> notices c' = notices c \<and>
       replaced (world c') = replaced (world c) @
         [replaceLastPart (href (world c)) LOGIN, dashboardUrl origin (pathname (world c))]"
  using assms
  by (simp add: processLogin_def run_try_call login_def customFetch_def answers_def Let_def)

definition refusing :: "('w net_ctx, string) platform" where
  "refusing = \<lparr>fetch = (\<lambda>_. pass (Inr \<lparr>ok = False, http_status = 403, body_text = ''wrong''\<rparr>)),
     parse = (\<lambda>_. None), stringify = (\<lambda>j. j)\<rparr>"

definition login_page :: "string \<Rightarrow> unit login_ctx" where
  "login_page path = \<lparr>notices = [], undoRegistry = Map.empty, nonce = 0, console_error = [],
     world = \<lparr>pathname = path, href = ''http://host'' @ path, replaced = [], net_world = ()\<rparr>,
     login_store = initialState\<rparr>"

lemma refusing_answers:
  "answers refusing ''x'' (world (login_page p)) \<lparr>ok = False, http_status = 403, body_text = ''wrong''\<rparr>"
  by (simp add: answers_def refusing_def)

theorem login_page_verdict_witness:
  "login_error (login_store (exec (processLogin sample_env ''http://host'' refusing ''x'') (login_page LOGIN)))
     = InvalidCredentials"
  using login_page_verdict [OF _ refusing_answers, of LOGIN sample_env "''http://host''"]
  by (simp add: login_page_def Let_def)

theorem wrong_password_under_subpath_witness:
  "let c' = exec (processLogin sample_env ''http://host'' refusing ''x'') (login_page ''/agh/login.html'')
   in login_error (login_store c') = NoError \<and>
      replaced (world c') = [''http://host/agh/login.html'', ''http://host/agh/'']"
proof -
  have r: "replaceLastPart ''http://host/agh/login.html'' LOGIN = ''http://host/agh/login.html''"
    by (simp add: replaceLastPart_def LOGIN_def)
  have d: "dashboardUrl ''http://host'' ''/agh/login.html'' = ''http://host/agh/''"
    by (simp add: dashboardUrl_def replaceFirst_def LOGIN_def MAIN_def)
  have "pathname (world (login_page ''/agh/login.html'')) \<noteq> LOGIN" "pathname (world (login_page ''/agh/login.html'')) \<noteq> INSTALL"
    by (simp_all add: login_page_def LOGIN_def INSTALL_def)
  from wrong_password_under_subpath [OF this refusing_answers, of sample_env "''http://host''"] show ?thesis
    by (simp add: login_page_def Let_def r d)
qed

end
