(* ===== verification/ReduxLogin.thy ===== *)
theory ReduxLogin
  imports Login ReduxApi
begin

section \<open>Login in the React client\<close>

text \<open>
  \<^verbatim>\<open>client/src/actions/login.ts\<close> and \<^verbatim>\<open>client/src/reducers/login.ts\<close> on top of the request wrapper: the browser's state is the world of
  this context. The origin of the page is a parameter.
\<close>

record rx_login =
  processingLogin :: bool
  rx_email :: string
  rx_password :: string

definition login_initial :: rx_login where
  "login_initial = \<lparr>processingLogin = False, rx_email = [], rx_password = []\<rparr>"

datatype login_action = ProcessLoginRequest | ProcessLoginFailure | ProcessLoginSuccess

text \<open>Success is dispatched without a payload.\<close>

fun login_reducer :: "login_action \<Rightarrow> rx_login \<Rightarrow> rx_login" where
  "login_reducer ProcessLoginRequest s = s\<lparr>processingLogin := True\<rparr>"
| "login_reducer ProcessLoginFailure s = s\<lparr>processingLogin := False\<rparr>"
| "login_reducer ProcessLoginSuccess s = s\<lparr>processingLogin := False\<rparr>"

record 'w login_rx = "'w net_ctx rx" +
  login_slice :: rx_login

interpretation login_rx_frame: rx_frame login_slice
  by unfold_locales simp_all

abbreviation dispatch :: "login_action \<Rightarrow> (('w, 'm) login_rx_scheme, unit) state" where
  "dispatch a \<equiv> modify (\<lambda>c. c\<lparr>login_slice := login_reducer a (login_slice c)\<rparr>)"

definition on_page :: "('w net_ctx, 'a) state \<Rightarrow> (('w, 'm) login_rx_scheme, 'a) state" where
  "on_page m = State (\<lambda>c. (result m (backend c), c\<lparr>backend := exec m (backend c)\<rparr>))"

lemma run_on_page [simp]: "run_state (on_page m) c = (result m (backend c), c\<lparr>backend := exec m (backend c)\<rparr>)"
  by (simp add: on_page_def)

definition processLogin ::
  "env \<Rightarrow> string \<Rightarrow> ('w net_ctx, 'j) rx_platform \<Rightarrow> 'j \<Rightarrow> (('w, 'm) login_rx_scheme, unit) state" where
  "processLogin env origin pf credentials = do {
     dispatch ProcessLoginRequest;
     try_call (on_page (call_route pf (querylog_route (CallLogin credentials))))
       (\<lambda>_. do {
          modify (\<lambda>c. c\<lparr>backend := (backend c)\<lparr>replaced := replaced (backend c) @ [dashboardUrl origin (pathname (backend c))]\<rparr>\<rparr>);
          dispatch ProcessLoginSuccess })
       (\<lambda>e. do { error_toast env e; dispatch ProcessLoginFailure }) }"

subsection \<open>Theorems\<close>

lemma shown_login_slice [simp]:
  "shown ty (c\<lparr>login_slice := x\<rparr>) = shown ty c" "shown ty (c\<lparr>backend := w\<rparr>) = shown ty c"
  by (simp_all add: shown_def)

lemma login_call_answer:
  assumes "run_state (fetch pf (fetch_init pf ''control/login'' ''POST'' \<lparr>config_data = Some (Inr j), config_headers = []\<rparr>)) b = (Inr r, b)"
    and "pathname b = LOGIN"
  shows "run_state (call_route pf (querylog_route (CallLogin j))) b =
    ((if ok r then Inr (Fetched (parseResponseData pf r))
      else Inl (httpError ''control/login'' (data_string pf (parseResponseData pf r)) (http_status r))), b)"
  using assms by (simp add: call_route_def makeRequest_def BASE_URL_def fetchRequest_def run_try_call Let_def)

text \<open>
  Logging in from the login page of the React client leaves it exactly when the server accepts: an accepted login replaces the location once, by the
  main page beside the login page; a refused one shows one error and stays, and neither leaves the button busy.
\<close>

theorem rx_login_verdict:
  assumes answer: "run_state (fetch pf (fetch_init pf ''control/login'' ''POST'' \<lparr>config_data = Some (Inr j), config_headers = []\<rparr>)) (backend c) =
      (Inr r, backend c)"
    and page: "pathname (backend c) = LOGIN"
  shows "let c' = exec (processLogin env origin pf j) c
    in \<not> processingLogin (login_slice c') \<and>
       replaced (backend c') = replaced (backend c) @ (if ok r then [origin @ ''/''] else []) \<and>
       length (shown ERROR c') = length (shown ERROR c) + (if ok r then 0 else 1)"
proof -
  have url: "dashboardUrl origin LOGIN = origin @ ''/''"
  proof -
    have "replaceFirst LOGIN LOGIN MAIN = ''/''" by code_simp
    then show ?thesis by (simp add: dashboardUrl_def)
  qed
  show ?thesis
    using answer page
    by (cases "ok r") (simp_all add: processLogin_def run_try_call login_call_answer [OF answer page] Let_def url
        del: querylog_route.simps)
qed

definition accepting :: "(unit net_ctx, unit) rx_platform" where
  "accepting = \<lparr>fetch = (\<lambda>_. pass (Inr \<lparr>ok = True, http_status = 200, body_text = []\<rparr>)), parse = (\<lambda>_. None),
     stringify = (\<lambda>_. []), js_String = (\<lambda>_. []), searchParams = (\<lambda>_. [])\<rparr>"

definition sample_login :: "unit login_rx" where
  "sample_login = rx.extend (sample_rx \<lparr>pathname = LOGIN, href = [], replaced = [], net_world = ()\<rparr>) (login_rx.fields login_initial)"

theorem rx_login_verdict_witness:
  "replaced (backend (exec (processLogin sample_env ''http://agh'' accepting ()) sample_login)) = [''http://agh/'']"
  using rx_login_verdict [of accepting "()" sample_login "\<lparr>ok = True, http_status = 200, body_text = []\<rparr>" sample_env "''http://agh''"]
  by (simp add: accepting_def sample_login_def sample_rx_def login_rx.fields_def rx.extend_def Let_def)

end
