(* ===== verification/ReduxQueryLogs.thy ===== *)
theory ReduxQueryLogs
  imports ReduxCore QueryLogs
begin

section \<open>Query log in the React client\<close>

text \<open>
  \<^verbatim>\<open>client/src/actions/queryLogs.ts\<close>, \<^verbatim>\<open>client/src/reducers/queryLogs.ts\<close>, \<open>normalizeLogs\<close> of
  \<^verbatim>\<open>client/src/helpers/helpers.tsx\<close> and the scroll listener of
  \<^verbatim>\<open>client/src/components/Logs/InfiniteTable.tsx\<close>. An entry of the log and the tracker lookup are those of the newer
  interface. The server always names the oldest entry, by an empty text at the end of the log. The polling
  takes fuel; \<^const>\<open>None\<close> is ``still running''.
\<close>

subsection \<open>Normalisation\<close>

text \<open>
  An absent member is printed as \<open>undefined\<close>. The rules of an entry are what the server sent, or, for an entry
  with an empty list and the deprecated members, one object that is not a list.
\<close>

definition printed :: "string option \<Rightarrow> string" where
  "printed v = nullish v ''undefined''"

datatype rx_rules = RuleList "ResultRule list" | RuleObject ResultRule

record rx_log =
  lg_time :: "string option"
  lg_domain :: "string option"
  lg_unicodeName :: "string option"
  lg_type :: "string option"
  lg_response :: "string list"
  lg_reason :: "string option"
  lg_client :: "string option"
  lg_client_info :: "QueryLogItemClient option"
  lg_rules :: "rx_rules option"
  lg_status :: "string option"
  lg_service_name :: "string option"
  lg_originalAnswer :: "DnsAnswer list option"
  lg_originalResponse :: "string list"
  lg_tracker :: "TrackerData option"
  lg_entry :: QueryLogItem

definition processResponse :: "DnsAnswer list option \<Rightarrow> string list" where
  "processResponse data =
     (case data of
        None \<Rightarrow> []
      | Some rs \<Rightarrow> map (\<lambda>r. printed (ans_type r) @ '': '' @ printed (ans_value r) @ '' (ttl='' @
          printed (map_option show_int (ans_ttl r)) @ '')'') rs)"

definition newRules :: "QueryLogItem \<Rightarrow> rx_rules option" where
  "newRules entry =
     (case (rule entry, filterId entry, rules entry) of
        (Some t, Some i, Some []) \<Rightarrow> Some (RuleObject \<lparr>filter_list_id = Some i, rule_text = Some t\<rparr>)
      | (_, _, rs) \<Rightarrow> map_option RuleList rs)"

text \<open>The members copied unchanged are read from the entry.\<close>

definition normalizeLog :: "tracker_db \<Rightarrow> QueryLogItem \<Rightarrow> string + rx_log" where
  "normalizeLog db entry =
     (case question entry of
        None \<Rightarrow> Inl ''TypeError''
      | Some q \<Rightarrow>
          (case getTrackerData db (q_name q) of
             Inl e \<Rightarrow> Inl e
           | Inr tracker \<Rightarrow> Inr \<lparr>lg_time = time entry, lg_domain = q_name q, lg_unicodeName = q_unicode_name q,
               lg_type = q_type q, lg_response = processResponse (answer entry), lg_reason = reason entry,
               lg_client = client entry, lg_client_info = client_info entry, lg_rules = newRules entry,
               lg_status = status entry, lg_service_name = service_name entry, lg_originalAnswer = original_answer entry,
               lg_originalResponse = processResponse (original_answer entry), lg_tracker = tracker, lg_entry = entry\<rparr>))"

fun normalizeLogs :: "tracker_db \<Rightarrow> QueryLogItem list \<Rightarrow> string + rx_log list" where
  "normalizeLogs db [] = Inr []"
| "normalizeLogs db (entry # ls) =
     (case normalizeLog db entry of
        Inl e \<Rightarrow> Inl e
      | Inr n \<Rightarrow> (case normalizeLogs db ls of Inl e \<Rightarrow> Inl e | Inr ns \<Rightarrow> Inr (n # ns)))"

subsection \<open>The slice\<close>

record SearchFormValues =
  sf_search :: string
  sf_response_status :: string

definition DEFAULT_LOGS_FILTER :: SearchFormValues where
  "DEFAULT_LOGS_FILTER = \<lparr>sf_search = [], sf_response_status = ''all''\<rparr>"

record rx_querylogs =
  processingGetLogs :: bool
  processingClear :: bool
  processingGetConfig :: bool
  processingSetConfig :: bool
  processingAdditionalLogs :: bool
  interval :: rat
  logs :: "rx_log list"
  enabled :: bool
  oldest :: string
  log_filter :: "SearchFormValues option"
  isFiltered :: bool
  anonymize_client_ip :: bool
  isDetailed :: bool
  isEntireLog :: bool
  customInterval :: "rat option"
  ignored :: "string list"
  ignored_enabled :: bool

definition querylogs_initial :: rx_querylogs where
  "querylogs_initial = \<lparr>processingGetLogs = True, processingClear = False, processingGetConfig = False,
     processingSetConfig = False, processingAdditionalLogs = False, interval = DAY, logs = [], enabled = True,
     oldest = [], log_filter = Some DEFAULT_LOGS_FILTER, isFiltered = False, anonymize_client_ip = False,
     isDetailed = True, isEntireLog = False, customInterval = None, ignored = [], ignored_enabled = True\<rparr>"

record rx_log_config =
  lc_enabled :: bool
  lc_interval :: rat
  lc_anonymize_client_ip :: bool
  lc_ignored :: "string list"
  lc_ignored_enabled :: bool

record rx_page =
  pg_logs :: "rx_log list"
  pg_oldest :: string

datatype querylogs_action =
    SetFilteredLogsRequest | SetFilteredLogsFailure | SetFilteredLogsSuccess rx_page "SearchFormValues option"
  | ToggleDetailedLogs bool | SetLogsFilterRequest SearchFormValues
  | GetLogsRequest | GetLogsFailure | GetLogsSuccess rx_page string
  | ClearLogsRequest | ClearLogsFailure | ClearLogsSuccess
  | GetLogsConfigRequest | GetLogsConfigFailure | GetLogsConfigSuccess rx_log_config
  | SetLogsConfigRequest | SetLogsConfigFailure | SetLogsConfigSuccess rx_log_config
  | GetAdditionalLogsRequest | GetAdditionalLogsFailure | GetAdditionalLogsSuccess

definition merge_config :: "rx_log_config \<Rightarrow> rx_querylogs \<Rightarrow> rx_querylogs" where
  "merge_config p s = s\<lparr>enabled := lc_enabled p, interval := lc_interval p,
     anonymize_client_ip := lc_anonymize_client_ip p, ignored := lc_ignored p, ignored_enabled := lc_ignored_enabled p\<rparr>"

fun querylogs_reducer :: "querylogs_action \<Rightarrow> rx_querylogs \<Rightarrow> rx_querylogs" where
  "querylogs_reducer SetFilteredLogsRequest s = s\<lparr>processingGetLogs := True\<rparr>"
| "querylogs_reducer SetFilteredLogsFailure s = s\<lparr>processingGetLogs := False\<rparr>"
| "querylogs_reducer (ToggleDetailedLogs b) s = s\<lparr>isDetailed := b\<rparr>"
| "querylogs_reducer (SetFilteredLogsSuccess p flt) s = s\<lparr>oldest := pg_oldest p, log_filter := flt,
     isFiltered := (case flt of None \<Rightarrow> False | Some f \<Rightarrow> sf_search f \<noteq> [] \<or> sf_response_status f \<noteq> []),
     logs := pg_logs p, isEntireLog := (length (pg_logs p) < 1), processingGetLogs := False\<rparr>"
| "querylogs_reducer (SetLogsFilterRequest f) s = s\<lparr>log_filter := Some f\<rparr>"
| "querylogs_reducer GetLogsRequest s = s\<lparr>processingGetLogs := True\<rparr>"
| "querylogs_reducer GetLogsFailure s = s\<lparr>processingGetLogs := False\<rparr>"
| "querylogs_reducer (GetLogsSuccess p older_than) s = s\<lparr>oldest := pg_oldest p,
     logs := (if older_than \<noteq> [] then logs s @ pg_logs p else pg_logs p),
     isEntireLog := (length (pg_logs p) < 1), processingGetLogs := False\<rparr>"
| "querylogs_reducer ClearLogsRequest s = s\<lparr>processingClear := True\<rparr>"
| "querylogs_reducer ClearLogsFailure s = s\<lparr>processingClear := False\<rparr>"
| "querylogs_reducer ClearLogsSuccess s = s\<lparr>logs := [], processingClear := False\<rparr>"
| "querylogs_reducer GetLogsConfigRequest s = s\<lparr>processingGetConfig := True\<rparr>"
| "querylogs_reducer GetLogsConfigFailure s = s\<lparr>processingGetConfig := False\<rparr>"
| "querylogs_reducer (GetLogsConfigSuccess p) s = (merge_config p s)\<lparr>
     customInterval := (if lc_interval p \<notin> set QUERY_LOG_INTERVALS_DAYS then Some (lc_interval p / HOUR) else None),
     processingGetConfig := False\<rparr>"
| "querylogs_reducer SetLogsConfigRequest s = s\<lparr>processingSetConfig := True\<rparr>"
| "querylogs_reducer SetLogsConfigFailure s = s\<lparr>processingSetConfig := False\<rparr>"
| "querylogs_reducer (SetLogsConfigSuccess p) s = (merge_config p s)\<lparr>processingSetConfig := False\<rparr>"
| "querylogs_reducer GetAdditionalLogsRequest s = s\<lparr>processingAdditionalLogs := True, processingGetLogs := True\<rparr>"
| "querylogs_reducer GetAdditionalLogsFailure s = s\<lparr>processingAdditionalLogs := False, processingGetLogs := False\<rparr>"
| "querylogs_reducer GetAdditionalLogsSuccess s =
     s\<lparr>processingAdditionalLogs := False, processingGetLogs := False, isEntireLog := True\<rparr>"

record 'w querylogs_rx = "'w rx" +
  queryLogs :: rx_querylogs

interpretation querylogs_slice: rx_frame queryLogs
  by unfold_locales simp_all

abbreviation dispatch :: "querylogs_action \<Rightarrow> (('w, 'm) querylogs_rx_scheme, unit) state" where
  "dispatch a \<equiv> modify (\<lambda>c. c\<lparr>queryLogs := querylogs_reducer a (queryLogs c)\<rparr>)"

record rx_raw_page =
  raw_data :: "QueryLogItem list"
  raw_oldest :: string

record rx_log_params =
  lp_search :: "string option"
  lp_response_status :: "string option"
  lp_older_than :: string
  lp_limit :: nat

record 'c rx_querylogs_api =
  api_getQueryLog :: "rx_log_params \<Rightarrow> ('c, rx_raw_page) call"
  api_clearQueryLog :: "('c, unit) call"
  api_getQueryLogConfig :: "('c, rx_log_config) call"
  api_setQueryLogConfig :: "rx_log_config \<Rightarrow> ('c, unit) call"

type_synonym ('w, 'm) qapi = "('w, 'm) querylogs_rx_scheme rx_querylogs_api"

subsection \<open>Thunks\<close>

definition log_params :: "string \<Rightarrow> SearchFormValues option \<Rightarrow> rx_log_params" where
  "log_params older_than flt = \<lparr>lp_search = map_option sf_search flt, lp_response_status = map_option sf_response_status flt,
     lp_older_than = older_than, lp_limit = QUERY_LOGS_PAGE_LIMIT\<rparr>"

definition getLogsWithParams ::
  "('w, 'm) qapi \<Rightarrow> tracker_db \<Rightarrow> string \<Rightarrow> SearchFormValues option \<Rightarrow> (('w, 'm) querylogs_rx_scheme, rx_page) call" where
  "getLogsWithParams api db older_than flt =
     try_call (api_getQueryLog api (log_params older_than flt))
       (\<lambda>raw. pass (case normalizeLogs db (raw_data raw) of
          Inl e \<Rightarrow> Inl e | Inr ls \<Rightarrow> Inr \<lparr>pg_logs = ls, pg_oldest = raw_oldest raw\<rparr>))
       (\<lambda>e. pass (Inl e))"

text \<open>What the polling returns: rows and, once a further page was fetched, its cursor.\<close>

type_synonym poll_total = "rx_log list \<times> string option"

fun shortPollQueryLogs ::
  "nat \<Rightarrow> env \<Rightarrow> ('w, 'm) qapi \<Rightarrow> tracker_db \<Rightarrow> rx_page \<Rightarrow> SearchFormValues option \<Rightarrow> string option \<Rightarrow> poll_total option
     \<Rightarrow> (('w, 'm) querylogs_rx_scheme, poll_total option) state" where
  "shortPollQueryLogs 0 env api db data flt currentQuery acc = pass None"
| "shortPollQueryLogs (Suc n) env api db data flt currentQuery acc =
     (let totalData = (case acc of Some t \<Rightarrow> t | None \<Rightarrow> (pg_logs data, None));
          isQueryTheSame = (currentQuery \<noteq> None \<and> map_option sf_search flt = currentQuery);
          isShortPollingNeeded =
            (length (pg_logs data) < QUERY_LOGS_PAGE_LIMIT \<or> length (fst totalData) < QUERY_LOGS_PAGE_LIMIT) \<and>
            pg_oldest data \<noteq> [] \<and> isQueryTheSame;
          finish = do { dispatch GetAdditionalLogsSuccess; pass (Some totalData) }
      in if isShortPollingNeeded
         then do {
           dispatch GetAdditionalLogsRequest;
           r \<leftarrow> getLogsWithParams api db (pg_oldest data) flt;
           (case r of
              Inl e \<Rightarrow> do { error_toast env e; dispatch GetAdditionalLogsFailure; finish }
            | Inr page2 \<Rightarrow>
                if pg_oldest page2 \<noteq> []
                then shortPollQueryLogs n env api db page2 flt currentQuery
                       (Some (fst totalData @ pg_logs page2, Some (pg_oldest page2)))
                else finish) }
         else finish)"

definition updatedData :: "rx_page \<Rightarrow> poll_total \<Rightarrow> rx_page" where
  "updatedData data additional = \<lparr>pg_logs = fst additional, pg_oldest = nullish (snd additional) (pg_oldest data)\<rparr>"

definition updateLogs :: "(('w, 'm) querylogs_rx_scheme, unit) state" where
  "updateLogs = do {
     s \<leftarrow> gets queryLogs;
     dispatch (GetLogsSuccess \<lparr>pg_logs = logs s, pg_oldest = oldest s\<rparr> []) }"

definition getLogs ::
  "nat \<Rightarrow> env \<Rightarrow> ('w, 'm) qapi \<Rightarrow> tracker_db \<Rightarrow> string option \<Rightarrow> (('w, 'm) querylogs_rx_scheme, unit option) state" where
  "getLogs fuel env api db currentQuery = do {
     dispatch GetLogsRequest;
     s \<leftarrow> gets queryLogs;
     try_call (getLogsWithParams api db (oldest s) (log_filter s))
       (\<lambda>data.
          if isFiltered s
          then do {
            r \<leftarrow> shortPollQueryLogs fuel env api db data (log_filter s) currentQuery None;
            (case r of
               None \<Rightarrow> pass None
             | Some additional \<Rightarrow> do {
                 dispatch (GetLogsSuccess (updatedData data additional) (oldest s));
                 pass (Some ()) }) }
          else do { dispatch (GetLogsSuccess data (oldest s)); pass (Some ()) })
       (\<lambda>e. do { error_toast env e; dispatch GetLogsFailure; pass (Some ()) }) }"

definition setLogsFilter :: "SearchFormValues \<Rightarrow> (('w, 'm) querylogs_rx_scheme, unit) state" where
  "setLogsFilter flt = dispatch (SetLogsFilterRequest flt)"

definition setFilteredLogs ::
  "nat \<Rightarrow> env \<Rightarrow> ('w, 'm) qapi \<Rightarrow> tracker_db \<Rightarrow> SearchFormValues option \<Rightarrow> (('w, 'm) querylogs_rx_scheme, unit option) state" where
  "setFilteredLogs fuel env api db flt = do {
     dispatch SetFilteredLogsRequest;
     try_call (getLogsWithParams api db [] flt)
       (\<lambda>data. do {
          r \<leftarrow> shortPollQueryLogs fuel env api db data flt (map_option sf_search flt) None;
          (case r of
             None \<Rightarrow> pass None
           | Some additional \<Rightarrow> do {
               dispatch (SetFilteredLogsSuccess (updatedData data additional) flt);
               pass (Some ()) }) })
       (\<lambda>e. do { error_toast env e; dispatch SetFilteredLogsFailure; pass (Some ()) }) }"

definition resetFilteredLogs ::
  "nat \<Rightarrow> env \<Rightarrow> ('w, 'm) qapi \<Rightarrow> tracker_db \<Rightarrow> (('w, 'm) querylogs_rx_scheme, unit option) state" where
  "resetFilteredLogs fuel env api db = setFilteredLogs fuel env api db (Some DEFAULT_LOGS_FILTER)"

definition refreshFilteredLogs ::
  "nat \<Rightarrow> env \<Rightarrow> ('w, 'm) qapi \<Rightarrow> tracker_db \<Rightarrow> (('w, 'm) querylogs_rx_scheme, unit option) state" where
  "refreshFilteredLogs fuel env api db = do {
     s \<leftarrow> gets queryLogs;
     setFilteredLogs fuel env api db (log_filter s) }"

definition clearLogs :: "env \<Rightarrow> ('w, 'm) qapi \<Rightarrow> (('w, 'm) querylogs_rx_scheme, unit) state" where
  "clearLogs env api = do {
     dispatch ClearLogsRequest;
     try_call (api_clearQueryLog api)
       (\<lambda>_. do { dispatch ClearLogsSuccess; success_toast env ''query_log_cleared'' })
       (\<lambda>e. do { error_toast env e; dispatch ClearLogsFailure }) }"

definition getLogsConfig :: "env \<Rightarrow> ('w, 'm) qapi \<Rightarrow> (('w, 'm) querylogs_rx_scheme, unit) state" where
  "getLogsConfig env api = do {
     dispatch GetLogsConfigRequest;
     try_call (api_getQueryLogConfig api)
       (\<lambda>data. dispatch (GetLogsConfigSuccess data))
       (\<lambda>e. do { error_toast env e; dispatch GetLogsConfigFailure }) }"

definition setLogsConfig :: "env \<Rightarrow> ('w, 'm) qapi \<Rightarrow> rx_log_config \<Rightarrow> (('w, 'm) querylogs_rx_scheme, unit) state" where
  "setLogsConfig env api config = do {
     dispatch SetLogsConfigRequest;
     try_call (api_setQueryLogConfig api config)
       (\<lambda>_. do { success_toast env ''config_successfully_saved''; dispatch (SetLogsConfigSuccess config) })
       (\<lambda>e. do { error_toast env e; dispatch SetLogsConfigFailure }) }"

text \<open>The refresh button of the page.\<close>

definition refreshLogs ::
  "nat \<Rightarrow> env \<Rightarrow> ('w, 'm) qapi \<Rightarrow> tracker_db \<Rightarrow> (('w, 'm) querylogs_rx_scheme, unit option) state" where
  "refreshLogs fuel env api db = do {
     r \<leftarrow> refreshFilteredLogs fuel env api db;
     (case r of
        None \<Rightarrow> pass None
      | Some _ \<Rightarrow> do { success_toast env ''query_log_updated''; pass (Some ()) }) }"

subsection \<open>Polling\<close>

text \<open>
  A server seen through one filter: the page behind each cursor, the cursor of the \<open>k\<close>-th page from the newest one, and the rows of
  the first pages. The polling goes on until a page is full or the log ends.
\<close>

fun page_cursor :: "(string \<Rightarrow> rx_page) \<Rightarrow> nat \<Rightarrow> string" where
  "page_cursor pg 0 = []"
| "page_cursor pg (Suc k) = pg_oldest (pg (page_cursor pg k))"

definition nth_page :: "(string \<Rightarrow> rx_page) \<Rightarrow> nat \<Rightarrow> rx_page" where
  "nth_page pg k = pg (page_cursor pg k)"

definition rows_upto :: "(string \<Rightarrow> rx_page) \<Rightarrow> nat \<Rightarrow> rx_log list" where
  "rows_upto pg k = concat (map (\<lambda>j. pg_logs (nth_page pg j)) [0..<Suc k])"

definition poll_stops :: "(string \<Rightarrow> rx_page) \<Rightarrow> nat \<Rightarrow> bool" where
  "poll_stops pg k \<longleftrightarrow> QUERY_LOGS_PAGE_LIMIT \<le> length (pg_logs (nth_page pg k)) \<or> pg_oldest (nth_page pg k) = []"

definition log_server ::
  "('w, 'm) qapi \<Rightarrow> tracker_db \<Rightarrow> SearchFormValues option \<Rightarrow> (string \<Rightarrow> rx_page) \<Rightarrow> bool" where
  "log_server api db flt pg \<longleftrightarrow>
     (\<forall>old c. \<exists>raw. run_state (api_getQueryLog api (log_params old flt)) c = (Inr raw, c) \<and>
        normalizeLogs db (raw_data raw) = Inr (pg_logs (pg old)) \<and> raw_oldest raw = pg_oldest (pg old))"

lemma fetch_page:
  "log_server api db flt pg \<Longrightarrow> run_state (getLogsWithParams api db old flt) c = (Inr (pg old), c)"
proof -
  assume "log_server api db flt pg"
  then obtain raw where "run_state (api_getQueryLog api (log_params old flt)) c = (Inr raw, c)"
    "normalizeLogs db (raw_data raw) = Inr (pg_logs (pg old))" "raw_oldest raw = pg_oldest (pg old)"
    unfolding log_server_def by blast
  then show ?thesis by (simp add: getLogsWithParams_def run_try_call)
qed

lemma rows_upto_0 [simp]: "rows_upto pg 0 = pg_logs (nth_page pg 0)"
  by (simp add: rows_upto_def)

lemma rows_upto_Suc [simp]: "rows_upto pg (Suc k) = rows_upto pg k @ pg_logs (nth_page pg (Suc k))"
  by (simp add: rows_upto_def)

lemma full_page_full_rows: "length (pg_logs (nth_page pg k)) \<le> length (rows_upto pg k)"
  by (cases k) simp_all

lemma poll_upto:
  assumes srv: "log_server api db flt pg" and same: "q \<noteq> None" "map_option sf_search flt = q"
    and empty_end: "\<And>old. pg_oldest (pg old) = [] \<Longrightarrow> pg_logs (pg old) = []"
    and stop: "poll_stops pg (k + n)" and first: "\<And>j. j < k + n \<Longrightarrow> \<not> poll_stops pg j"
    and acc: "acc = (if k = 0 then None else Some (rows_upto pg k, old1))"
  shows "\<exists>o' s'. run_state (shortPollQueryLogs (Suc n + m) env api db (nth_page pg k) flt q acc) c =
    (Some (rows_upto pg (k + n), o'), c\<lparr>queryLogs := s'\<rparr>)"
  using stop first acc
proof (induction n arbitrary: k acc old1 c)
  case 0
  have t: "(case acc of Some t \<Rightarrow> t | None \<Rightarrow> (pg_logs (nth_page pg k), None)) = (rows_upto pg k, if k = 0 then None else old1)"
    using 0(3) by auto
  have "\<not> ((length (pg_logs (nth_page pg k)) < QUERY_LOGS_PAGE_LIMIT \<or> length (rows_upto pg k) < QUERY_LOGS_PAGE_LIMIT) \<and>
      pg_oldest (nth_page pg k) \<noteq> [])"
    using 0(1) full_page_full_rows [of pg k] by (auto simp: poll_stops_def)
  then show ?case by (auto simp: Let_def t)
next
  case (Suc n)
  have t: "(case acc of Some t \<Rightarrow> t | None \<Rightarrow> (pg_logs (nth_page pg k), None)) = (rows_upto pg k, if k = 0 then None else old1)"
    using Suc.prems(3) by auto
  have go: "length (pg_logs (nth_page pg k)) < QUERY_LOGS_PAGE_LIMIT" "pg_oldest (nth_page pg k) \<noteq> []"
    using Suc.prems(2) [of k] by (auto simp: poll_stops_def)
  let ?c = "c\<lparr>queryLogs := querylogs_reducer GetAdditionalLogsRequest (queryLogs c)\<rparr>"
  have next_page: "run_state (getLogsWithParams api db (pg_oldest (nth_page pg k)) flt) d = (Inr (nth_page pg (Suc k)), d)" for d
    using fetch_page [OF srv] by (simp add: nth_page_def)
  show ?case
  proof (cases "pg_oldest (nth_page pg (Suc k)) = []")
    case True
    then have "poll_stops pg (Suc k)" by (simp add: poll_stops_def)
    then have "n = 0" using Suc.prems(2) [of "Suc k"] by (cases n) auto
    moreover have "pg_logs (nth_page pg (Suc k)) = []" using True empty_end by (simp add: nth_page_def)
    ultimately show ?thesis using True go same by (auto simp: Let_def t next_page)
  next
    case False
    have "poll_stops pg (Suc k + n)" "\<And>j. j < Suc k + n \<Longrightarrow> \<not> poll_stops pg j" using Suc.prems(1,2) by simp_all
    from Suc.IH [OF this, of "Some (rows_upto pg (Suc k), Some (pg_oldest (nth_page pg (Suc k))))"
        "Some (pg_oldest (nth_page pg (Suc k)))" ?c]
    show ?thesis using False go same by (auto simp: Let_def t next_page)
  qed
qed

text \<open>
  C17. Filtering the log in the React client loses no row: against a server that ends the log with an empty page, the thunk
  returns and the page shows the rows of all pages up to the first full one, or the whole log if no page is full, in
  order; the filter is in force and the progress flag is down. As much fuel as there are pages is enough.
\<close>

theorem rx_filtered_logs_complete:
  assumes srv: "log_server api db (Some flt) pg"
    and empty_end: "\<And>old. pg_oldest (pg old) = [] \<Longrightarrow> pg_logs (pg old) = []"
    and stop: "poll_stops pg n" "\<And>j. j < n \<Longrightarrow> \<not> poll_stops pg j" and fuel: "n < fuel"
  shows "let m = setFilteredLogs fuel env api db (Some flt); s = queryLogs (exec m c)
         in result m c = Some () \<and> logs s = rows_upto pg n \<and> log_filter s = Some flt \<and> \<not> processingGetLogs s \<and>
            isEntireLog s = (rows_upto pg n = [])"
proof -
  obtain m where m: "fuel = Suc n + m" using fuel by (metis less_iff_Suc_add add_Suc)
  let ?c = "c\<lparr>queryLogs := querylogs_reducer SetFilteredLogsRequest (queryLogs c)\<rparr>"
  have p0: "run_state (getLogsWithParams api db [] (Some flt)) d = (Inr (nth_page pg 0), d)" for d
    using fetch_page [OF srv] by (simp add: nth_page_def)
  obtain o' s' where "run_state (shortPollQueryLogs fuel env api db (nth_page pg 0) (Some flt) (Some (sf_search flt)) None) ?c =
      (Some (rows_upto pg n, o'), ?c\<lparr>queryLogs := s'\<rparr>)"
    using poll_upto [OF srv _ _ empty_end, of "Some (sf_search flt)" 0 n None None m env ?c] stop m by auto
  then show ?thesis
    by (simp add: setFilteredLogs_def run_try_call p0 updatedData_def Let_def)
qed

definition two_page_api :: "(unit, 'm) qapi" where
  "two_page_api = \<lparr>api_getQueryLog = (\<lambda>p. pass (Inr \<lparr>raw_data = [], raw_oldest = (if lp_older_than p = [] then ''x'' else [])\<rparr>)),
     api_clearQueryLog = pass (Inr ()),
     api_getQueryLogConfig = pass (Inl ''offline''), api_setQueryLogConfig = (\<lambda>_. pass (Inr ()))\<rparr>"

definition sample_querylogs_rx :: "unit querylogs_rx" where
  "sample_querylogs_rx = \<lparr>rx_notices = [], rx_nonce = 0, rx_console = [], browser = [], backend = (), queryLogs = querylogs_initial\<rparr>"

theorem rx_filtered_logs_complete_witness:
  "let m = setFilteredLogs 2 sample_env two_page_api sample_db (Some \<lparr>sf_search = ''a'', sf_response_status = ''all''\<rparr>)
   in result m sample_querylogs_rx = Some () \<and> isEntireLog (queryLogs (exec m sample_querylogs_rx))"
proof -
  let ?pg = "\<lambda>old. \<lparr>pg_logs = [], pg_oldest = (if old = [] then ''x'' else [])\<rparr>"
  have srv: "log_server two_page_api sample_db (Some f) ?pg" for f
    by (simp add: log_server_def two_page_api_def log_params_def)
  have "poll_stops ?pg 1" "\<And>j. j < 1 \<Longrightarrow> \<not> poll_stops ?pg j"
    by (simp_all add: poll_stops_def nth_page_def QUERY_LOGS_PAGE_LIMIT_def)
  from rx_filtered_logs_complete [OF srv _ this, of 2 sample_env "\<lparr>sf_search = ''a'', sf_response_status = ''all''\<rparr>" sample_querylogs_rx]
  show ?thesis by (simp add: Let_def rows_upto_def nth_page_def)
qed

text \<open>
  Scrolling gives up too early once the search has changed: the listener of the table keeps the search text of the first
  render, the polling compares it with the filter and does not run, and one page without a row, which the
  server may answer in the middle of a long log, marks the log as complete although its cursor says that there is more.
\<close>

theorem rx_stale_query_ends_log:
  assumes srv: "log_server api db (Some flt) pg" and flt: "log_filter (queryLogs c) = Some flt" "isFiltered (queryLogs c)"
    and stale: "sf_search flt \<noteq> firstQuery"
    and page: "pg_logs (pg (oldest (queryLogs c))) = []" "pg_oldest (pg (oldest (queryLogs c))) \<noteq> []"
  shows "let s = queryLogs (exec (getLogs (Suc m) env api db (Some firstQuery)) c)
         in isEntireLog s \<and> oldest s \<noteq> [] \<and> (oldest (queryLogs c) \<noteq> [] \<longrightarrow> logs s = logs (queryLogs c))"
  using flt stale page
  by (auto simp: getLogs_def run_try_call fetch_page [OF srv] updatedData_def Let_def)

text \<open>The refresh button announces the update also when the request failed.\<close>

theorem rx_failed_refresh_announced:
  assumes "\<And>p d. run_state (api_getQueryLog api p) d = (Inl e, d)"
  shows "let c' = exec (refreshLogs fuel env api db) c
         in shown ERROR c' = shown ERROR c @ [e] \<and> shown SUCCESS c' = shown SUCCESS c @ [''query_log_updated''] \<and>
            logs (queryLogs c') = logs (queryLogs c)"
proof -
  have sh: "shown ty (d\<lparr>queryLogs := x\<rparr>) = shown ty d" for ty x and d :: "('a, 'b) querylogs_rx_scheme" by (simp add: shown_def)
  show ?thesis
    by (simp add: refreshLogs_def refreshFilteredLogs_def setFilteredLogs_def getLogsWithParams_def run_try_call assms sh Let_def)
qed

text \<open>
  For an entry with the deprecated members and an empty list of rules the two clients differ: the newer one puts the rule into a
  list, the React client puts a bare object where its cells call list operations.
\<close>

theorem rx_rules_not_a_list:
  assumes "rule entry = Some t" "filterId entry = Some i" "rules entry = Some []"
  shows "newRules entry = Some (RuleObject \<lparr>filter_list_id = Some i, rule_text = Some t\<rparr>) \<and>
    QueryLogs.newRules entry = [\<lparr>filter_list_id = Some i, rule_text = Some t\<rparr>]"
  using assms by (simp add: newRules_def QueryLogs.newRules_def)

end
