(* ===== verification/ReduxRewrites.thy ===== *)
theory ReduxRewrites
  imports ReduxCore Rewrites
begin

section \<open>DNS rewrites in the React client\<close>

text \<open>
  \<^verbatim>\<open>client/src/actions/rewrites.ts\<close>, \<^verbatim>\<open>client/src/reducers/rewrites.ts\<close> and the handlers of
  \<^verbatim>\<open>client/src/components/Filters/Rewrites/index.tsx\<close>. An entry is that of the newer store.
\<close>

record rx_rewrites =
  processing :: bool
  processingAdd :: bool
  processingDelete :: bool
  processingUpdate :: bool
  isModalOpen :: bool
  modalType :: string
  currentRewrite :: "RewriteEntry option"
  rx_list :: "RewriteEntry list"
  settings_enabled :: "bool option"

definition rewrites_initial :: rx_rewrites where
  "rewrites_initial = \<lparr>processing = True, processingAdd = False, processingDelete = False, processingUpdate = False,
     isModalOpen = False, modalType = [], currentRewrite = Some empty_entry, rx_list = [], settings_enabled = Some False\<rparr>"

record rewrites_modal =
  rm_type :: "string option"
  rm_currentRewrite :: "RewriteEntry option"

datatype rewrites_action =
    GetRewritesListRequest | GetRewritesListFailure | GetRewritesListSuccess "RewriteEntry list"
  | AddRewriteRequest | AddRewriteFailure | AddRewriteSuccess RewriteEntry
  | DeleteRewriteRequest | DeleteRewriteFailure | DeleteRewriteSuccess
  | UpdateRewriteRequest | UpdateRewriteFailure | UpdateRewriteSuccess
  | GetRewriteSettingsRequest | GetRewriteSettingsFailure | GetRewriteSettingsSuccess "bool option"
  | UpdateRewriteSettingsRequest | UpdateRewriteSettingsFailure | UpdateRewriteSettingsSuccess bool
  | ToggleRewritesModal "rewrites_modal option"

fun rewrites_reducer :: "rewrites_action \<Rightarrow> rx_rewrites \<Rightarrow> rx_rewrites" where
  "rewrites_reducer GetRewritesListRequest s = s\<lparr>processing := True\<rparr>"
| "rewrites_reducer GetRewritesListFailure s = s\<lparr>processing := False\<rparr>"
| "rewrites_reducer (GetRewritesListSuccess payload) s = s\<lparr>rx_list := payload, processing := False\<rparr>"
| "rewrites_reducer AddRewriteRequest s = s\<lparr>processingAdd := True\<rparr>"
| "rewrites_reducer AddRewriteFailure s = s\<lparr>processingAdd := False\<rparr>"
| "rewrites_reducer (AddRewriteSuccess payload) s = s\<lparr>rx_list := rx_list s @ [payload], processingAdd := False\<rparr>"
| "rewrites_reducer DeleteRewriteRequest s = s\<lparr>processingDelete := True\<rparr>"
| "rewrites_reducer DeleteRewriteFailure s = s\<lparr>processingDelete := False\<rparr>"
| "rewrites_reducer DeleteRewriteSuccess s = s\<lparr>processingDelete := False\<rparr>"
| "rewrites_reducer UpdateRewriteRequest s = s\<lparr>processingUpdate := True\<rparr>"
| "rewrites_reducer UpdateRewriteFailure s = s\<lparr>processingUpdate := False\<rparr>"
| "rewrites_reducer UpdateRewriteSuccess s = s\<lparr>processingUpdate := False\<rparr>"
| "rewrites_reducer GetRewriteSettingsRequest s = s\<lparr>processing := True\<rparr>"
| "rewrites_reducer GetRewriteSettingsFailure s = s\<lparr>processing := False\<rparr>"
| "rewrites_reducer (GetRewriteSettingsSuccess payload) s = s\<lparr>settings_enabled := payload, processing := False\<rparr>"
| "rewrites_reducer UpdateRewriteSettingsRequest s = s\<lparr>processingUpdate := True\<rparr>"
| "rewrites_reducer UpdateRewriteSettingsFailure s = s\<lparr>processingUpdate := False\<rparr>"
| "rewrites_reducer (UpdateRewriteSettingsSuccess v) s = s\<lparr>settings_enabled := Some v, processingUpdate := False\<rparr>"
| "rewrites_reducer (ToggleRewritesModal (Some p)) s = s\<lparr>modalType := opt_or_str (rm_type p) [],
     isModalOpen := \<not> isModalOpen s, currentRewrite := rm_currentRewrite p\<rparr>"
| "rewrites_reducer (ToggleRewritesModal None) s = s\<lparr>isModalOpen := \<not> isModalOpen s\<rparr>"

record 'w rewrites_rx = "'w rx" +
  rewritesSlice :: rx_rewrites

interpretation rewrites_slice: rx_frame rewritesSlice
  by unfold_locales simp_all

abbreviation dispatch :: "rewrites_action \<Rightarrow> (('w, 'm) rewrites_rx_scheme, unit) state" where
  "dispatch a \<equiv> modify (\<lambda>c. c\<lparr>rewritesSlice := rewrites_reducer a (rewritesSlice c)\<rparr>)"

record 'c rx_rewrites_api =
  api_getRewritesList :: "('c, RewriteEntry list) call"
  api_addRewrite :: "RewriteEntry \<Rightarrow> ('c, unit) call"
  api_updateRewrite :: "RewriteEntry \<Rightarrow> RewriteEntry \<Rightarrow> ('c, unit) call"
  api_deleteRewrite :: "RewriteEntry \<Rightarrow> ('c, unit) call"
  api_getRewriteSettings :: "('c, bool option) call"
  api_updateRewriteSettings :: "bool \<Rightarrow> ('c, unit) call"

type_synonym ('w, 'm) rapi = "('w, 'm) rewrites_rx_scheme rx_rewrites_api"

subsection \<open>Thunks\<close>

definition getRewritesList_finish :: "env \<Rightarrow> ('w, 'm) rapi \<Rightarrow> (('w, 'm) rewrites_rx_scheme, unit) state" where
  "getRewritesList_finish env api =
     try_call (api_getRewritesList api)
       (\<lambda>data. dispatch (GetRewritesListSuccess data))
       (\<lambda>e. do { error_toast env e; dispatch GetRewritesListFailure })"

definition getRewritesList :: "env \<Rightarrow> ('w, 'm) rapi \<Rightarrow> (('w, 'm) rewrites_rx_scheme, unit) state" where
  "getRewritesList env api = do { dispatch GetRewritesListRequest; getRewritesList_finish env api }"

text \<open>An absent key is printed by the translation as it prints \<open>undefined\<close>.\<close>

definition keyed :: "env \<Rightarrow> string \<Rightarrow> string option \<Rightarrow> string" where
  "keyed env m key = getMessage env m (case key of None \<Rightarrow> [] | Some k \<Rightarrow> [(''key'', SArg k)])"

definition addRewrite :: "env \<Rightarrow> ('w, 'm) rapi \<Rightarrow> RewriteEntry \<Rightarrow> (('w, 'm) rewrites_rx_scheme, unit) state" where
  "addRewrite env api config = do {
     dispatch AddRewriteRequest;
     try_call (api_addRewrite api config)
       (\<lambda>_. do {
          dispatch (AddRewriteSuccess config);
          dispatch (ToggleRewritesModal None);
          dispatch GetRewritesListRequest;
          success_toast env (keyed env ''rewrite_added'' (domain config));
          getRewritesList_finish env api })
       (\<lambda>e. do { error_toast env e; dispatch AddRewriteFailure }) }"

text \<open>The argument is an object with a target and an update; the message reads its missing domain.\<close>

definition updateRewrite ::
  "env \<Rightarrow> ('w, 'm) rapi \<Rightarrow> RewriteEntry \<Rightarrow> RewriteEntry \<Rightarrow> (('w, 'm) rewrites_rx_scheme, unit) state" where
  "updateRewrite env api target upd = do {
     dispatch UpdateRewriteRequest;
     try_call (api_updateRewrite api target upd)
       (\<lambda>_. do {
          dispatch UpdateRewriteSuccess;
          open \<leftarrow> gets (\<lambda>c. isModalOpen (rewritesSlice c));
          (if open then dispatch (ToggleRewritesModal None) else pass ());
          dispatch GetRewritesListRequest;
          success_toast env (keyed env ''rewrite_updated'' None);
          getRewritesList_finish env api })
       (\<lambda>e. do { error_toast env e; dispatch UpdateRewriteFailure }) }"

definition deleteRewrite :: "env \<Rightarrow> ('w, 'm) rapi \<Rightarrow> RewriteEntry \<Rightarrow> (('w, 'm) rewrites_rx_scheme, unit) state" where
  "deleteRewrite env api config = do {
     dispatch DeleteRewriteRequest;
     try_call (api_deleteRewrite api config)
       (\<lambda>_. do {
          dispatch DeleteRewriteSuccess;
          dispatch GetRewritesListRequest;
          success_toast env (keyed env ''rewrite_deleted'' (domain config));
          getRewritesList_finish env api })
       (\<lambda>e. do { error_toast env e; dispatch DeleteRewriteFailure }) }"

definition getRewriteSettings_finish :: "env \<Rightarrow> ('w, 'm) rapi \<Rightarrow> (('w, 'm) rewrites_rx_scheme, unit) state" where
  "getRewriteSettings_finish env api =
     try_call (api_getRewriteSettings api)
       (\<lambda>data. dispatch (GetRewriteSettingsSuccess data))
       (\<lambda>e. do { error_toast env e; dispatch GetRewriteSettingsFailure })"

definition getRewriteSettings :: "env \<Rightarrow> ('w, 'm) rapi \<Rightarrow> (('w, 'm) rewrites_rx_scheme, unit) state" where
  "getRewriteSettings env api = do { dispatch GetRewriteSettingsRequest; getRewriteSettings_finish env api }"

definition updateRewriteSettings :: "env \<Rightarrow> ('w, 'm) rapi \<Rightarrow> bool \<Rightarrow> (('w, 'm) rewrites_rx_scheme, unit) state" where
  "updateRewriteSettings env api v = do {
     dispatch UpdateRewriteSettingsRequest;
     try_call (api_updateRewriteSettings api v)
       (\<lambda>_. do {
          dispatch (UpdateRewriteSettingsSuccess v);
          dispatch GetRewriteSettingsRequest;
          success_toast env (msg env ''rewrite_settings_updated'');
          getRewriteSettings_finish env api })
       (\<lambda>e. do { error_toast env e; dispatch UpdateRewriteSettingsFailure }) }"

subsection \<open>Handlers of the page\<close>

text \<open>The cells: \<open>window.confirm\<close> is the user's answer.\<close>

definition handleDelete :: "env \<Rightarrow> ('w, 'm) rapi \<Rightarrow> bool \<Rightarrow> RewriteEntry \<Rightarrow> (('w, 'm) rewrites_rx_scheme, unit) state" where
  "handleDelete env api confirmed values = (if confirmed then deleteRewrite env api values else pass ())"

definition handleSubmit :: "env \<Rightarrow> ('w, 'm) rapi \<Rightarrow> RewriteEntry \<Rightarrow> (('w, 'm) rewrites_rx_scheme, unit) state" where
  "handleSubmit env api values = do {
     s \<leftarrow> gets rewritesSlice;
     (case currentRewrite s of
        Some target \<Rightarrow> if modalType s = ''EDIT_REWRITE'' then updateRewrite env api target values
                       else addRewrite env api values
      | None \<Rightarrow> addRewrite env api values) }"

definition toggleRewrite :: "env \<Rightarrow> ('w, 'm) rapi \<Rightarrow> RewriteEntry \<Rightarrow> (('w, 'm) rewrites_rx_scheme, unit) state" where
  "toggleRewrite env api cur = updateRewrite env api cur (cur\<lparr>entry_enabled := Some (entry_enabled cur \<noteq> Some True)\<rparr>)"

definition toggleRewriteSettings :: "env \<Rightarrow> ('w, 'm) rapi \<Rightarrow> (('w, 'm) rewrites_rx_scheme, unit) state" where
  "toggleRewriteSettings env api = do {
     s \<leftarrow> gets rewritesSlice;
     updateRewriteSettings env api (settings_enabled s \<noteq> Some True) }"

subsection \<open>Theorems\<close>

text \<open>A server that keeps a list: the list request answers it and the three changes act on it.\<close>

definition rewrites_server ::
  "('w, 'm) rapi \<Rightarrow> ('w \<Rightarrow> RewriteEntry list) \<Rightarrow> (RewriteEntry \<Rightarrow> 'w \<Rightarrow> 'w) \<Rightarrow> (RewriteEntry \<Rightarrow> RewriteEntry \<Rightarrow> 'w \<Rightarrow> 'w)
     \<Rightarrow> (RewriteEntry \<Rightarrow> 'w \<Rightarrow> 'w) \<Rightarrow> bool" where
  "rewrites_server api entries ins upd del \<longleftrightarrow>
     (\<forall>c. run_state (api_getRewritesList api) c = (Inr (entries (backend c)), c)) \<and>
     (\<forall>e c. run_state (api_addRewrite api e) c = (Inr (), c\<lparr>backend := ins e (backend c)\<rparr>)) \<and>
     (\<forall>e f c. run_state (api_updateRewrite api e f) c = (Inr (), c\<lparr>backend := upd e f (backend c)\<rparr>)) \<and>
     (\<forall>e c. run_state (api_deleteRewrite api e) c = (Inr (), c\<lparr>backend := del e (backend c)\<rparr>))"

text \<open>
  Every way the page changes a rewrite makes the one change on the server and ends with the page showing the
  server's list, with no error and every progress flag of the change down.
\<close>

theorem rx_rewrites_in_step:
  assumes "rewrites_server api entries ins upd del"
  shows "let a = exec (addRewrite env api e) c; u = exec (handleSubmit env api f) (c\<lparr>rewritesSlice := (rewritesSlice c)\<lparr>
               modalType := ''EDIT_REWRITE'', currentRewrite := Some e, isModalOpen := True\<rparr>\<rparr>);
             d = exec (handleDelete env api True e) c; t = exec (toggleRewrite env api e) c
         in backend a = ins e (backend c) \<and> rx_list (rewritesSlice a) = entries (backend a) \<and> \<not> processingAdd (rewritesSlice a) \<and>
            backend u = upd e f (backend c) \<and> rx_list (rewritesSlice u) = entries (backend u) \<and> \<not> isModalOpen (rewritesSlice u) \<and>
            backend d = del e (backend c) \<and> rx_list (rewritesSlice d) = entries (backend d) \<and> \<not> processingDelete (rewritesSlice d) \<and>
            backend t = upd e (e\<lparr>entry_enabled := Some (entry_enabled e \<noteq> Some True)\<rparr>) (backend c) \<and>
            rx_list (rewritesSlice t) = entries (backend t)"
  using assms
  by (simp add: rewrites_server_def addRewrite_def handleSubmit_def updateRewrite_def handleDelete_def deleteRewrite_def
      toggleRewrite_def getRewritesList_finish_def run_try_call Let_def)

text \<open>
  Adding toggles the dialog without looking whether it is open: a dialog the user closed while the request was running
  opens again when the answer comes. Updating looks first.
\<close>

theorem rx_add_reopens_dialog:
  assumes "rewrites_server api entries ins upd del"
  shows "isModalOpen (rewritesSlice (exec (addRewrite env api e) c)) = (\<not> isModalOpen (rewritesSlice c)) \<and>
         \<not> isModalOpen (rewritesSlice (exec (updateRewrite env api e f) c))"
  using assms
  by (simp add: rewrites_server_def addRewrite_def updateRewrite_def getRewritesList_finish_def run_try_call)

text \<open>The message of an update never names the rewrite.\<close>

theorem rx_update_message_keyless:
  assumes "rewrites_server api entries ins upd del"
  shows "shown SUCCESS (exec (updateRewrite env api e f) c) = shown SUCCESS c @ [getMessage env ''rewrite_updated'' []]"
proof -
  have sh: "shown ty (d\<lparr>rewritesSlice := r\<rparr>) = shown ty d" "shown ty (d\<lparr>backend := w\<rparr>) = shown ty d"
    for ty r w and d :: "('a, 'b) rewrites_rx_scheme"
    by (simp_all add: shown_def)
  show ?thesis
    using assms by (simp add: rewrites_server_def updateRewrite_def getRewritesList_finish_def run_try_call sh keyed_def)
qed

end
