(* ===== verification/ReduxServices.thy ===== *)
theory ReduxServices
  imports ReduxCore Services
begin

section \<open>Blocked services in the React client\<close>

text \<open>
  \<^verbatim>\<open>client/src/actions/services.ts\<close>, \<^verbatim>\<open>client/src/reducers/services.ts\<close> and the two submit handlers of
  \<^verbatim>\<open>client/src/components/Filters/Services/index.tsx\<close>. The payloads are those of the newer store.
\<close>

record rx_services =
  processing :: bool
  processingAll :: bool
  processingSet :: bool
  sv_list :: BlockedServicesSchedule
  allServices :: "BlockedService list option"
  allGroups :: "ServiceGroup list option"

definition services_initial :: rx_services where
  "services_initial = \<lparr>processing = True, processingAll = True, processingSet = False,
     sv_list = \<lparr>schedule = None, ids = None\<rparr>, allServices = Some [], allGroups = Some []\<rparr>"

datatype services_action =
    GetBlockedServicesRequest | GetBlockedServicesFailure | GetBlockedServicesSuccess BlockedServicesSchedule
  | GetAllBlockedServicesRequest | GetAllBlockedServicesFailure | GetAllBlockedServicesSuccess BlockedServicesAll
  | UpdateBlockedServicesRequest | UpdateBlockedServicesFailure | UpdateBlockedServicesSuccess

fun services_reducer :: "services_action \<Rightarrow> rx_services \<Rightarrow> rx_services" where
  "services_reducer GetBlockedServicesRequest s = s\<lparr>processing := True\<rparr>"
| "services_reducer GetBlockedServicesFailure s = s\<lparr>processing := False\<rparr>"
| "services_reducer (GetBlockedServicesSuccess payload) s = s\<lparr>sv_list := payload, processing := False\<rparr>"
| "services_reducer GetAllBlockedServicesRequest s = s\<lparr>processingAll := True\<rparr>"
| "services_reducer GetAllBlockedServicesFailure s = s\<lparr>processingAll := False\<rparr>"
| "services_reducer (GetAllBlockedServicesSuccess payload) s =
     s\<lparr>allServices := blocked_services payload, allGroups := groups payload, processingAll := False\<rparr>"
| "services_reducer UpdateBlockedServicesRequest s = s\<lparr>processingSet := True\<rparr>"
| "services_reducer UpdateBlockedServicesFailure s = s\<lparr>processingSet := False\<rparr>"
| "services_reducer UpdateBlockedServicesSuccess s = s\<lparr>processingSet := False\<rparr>"

record 'w services_rx = "'w rx" +
  services :: rx_services

interpretation services_slice: rx_frame services
  by unfold_locales simp_all

abbreviation dispatch :: "services_action \<Rightarrow> (('w, 'm) services_rx_scheme, unit) state" where
  "dispatch a \<equiv> modify (\<lambda>c. c\<lparr>services := services_reducer a (services c)\<rparr>)"

record 'c rx_services_api =
  api_getBlockedServices :: "('c, BlockedServicesSchedule) call"
  api_getAllBlockedServices :: "('c, BlockedServicesAll) call"
  api_updateBlockedServices :: "BlockedServicesSchedule \<Rightarrow> ('c, unit) call"

type_synonym ('w, 'm) sapi = "('w, 'm) services_rx_scheme rx_services_api"

definition getBlockedServices_finish :: "env \<Rightarrow> ('w, 'm) sapi \<Rightarrow> (('w, 'm) services_rx_scheme, unit) state" where
  "getBlockedServices_finish env api =
     try_call (api_getBlockedServices api)
       (\<lambda>data. dispatch (GetBlockedServicesSuccess data))
       (\<lambda>e. do { error_toast env e; dispatch GetBlockedServicesFailure })"

definition getBlockedServices :: "env \<Rightarrow> ('w, 'm) sapi \<Rightarrow> (('w, 'm) services_rx_scheme, unit) state" where
  "getBlockedServices env api = do { dispatch GetBlockedServicesRequest; getBlockedServices_finish env api }"

definition getAllBlockedServices :: "env \<Rightarrow> ('w, 'm) sapi \<Rightarrow> (('w, 'm) services_rx_scheme, unit) state" where
  "getAllBlockedServices env api = do {
     dispatch GetAllBlockedServicesRequest;
     try_call (api_getAllBlockedServices api)
       (\<lambda>data. dispatch (GetAllBlockedServicesSuccess data))
       (\<lambda>e. do { error_toast env e; dispatch GetAllBlockedServicesFailure }) }"

definition updateBlockedServices ::
  "env \<Rightarrow> ('w, 'm) sapi \<Rightarrow> BlockedServicesSchedule \<Rightarrow> (('w, 'm) services_rx_scheme, unit) state" where
  "updateBlockedServices env api values = do {
     dispatch UpdateBlockedServicesRequest;
     try_call (api_updateBlockedServices api values)
       (\<lambda>_. do {
          dispatch UpdateBlockedServicesSuccess;
          dispatch GetBlockedServicesRequest;
          success_toast env ''blocked_services_saved'';
          getBlockedServices_finish env api })
       (\<lambda>e. do { error_toast env e; dispatch UpdateBlockedServicesFailure }) }"

subsection \<open>The form\<close>

text \<open>
  The form library is outside the sources: a form is the map from service ids to the ticks that \<open>setValue\<close> sets.
  The catalogue is \<open>services.allServices\<close>. The keys of an object come in the order in which they were first set (service
  ids are no array indices).
\<close>

type_synonym ticks = "string \<rightharpoonup> bool"

definition object_keys :: "string list \<Rightarrow> string list" where
  "object_keys ks = rev (remdups (rev ks))"

definition getInitialDataForServices :: "string list option \<Rightarrow> ticks option" where
  "getInitialDataForServices initial =
     map_option (\<lambda>ks. fold (\<lambda>service acc. acc(service \<mapsto> True)) ks Map.empty) initial"

definition setValues :: "BlockedService list \<Rightarrow> bool \<Rightarrow> ticks \<Rightarrow> ticks" where
  "setValues svs isSelected form = fold (\<lambda>service f. f(service_id service \<mapsto> isSelected)) svs form"

definition isServicesControlsDisabled :: "rx_services \<Rightarrow> bool" where
  "isServicesControlsDisabled s \<longleftrightarrow> processing s \<or> processingSet s"

definition handleToggleAllServices :: "rx_services \<Rightarrow> BlockedService list \<Rightarrow> bool \<Rightarrow> ticks \<Rightarrow> ticks" where
  "handleToggleAllServices s blockedServices isSelected form =
     (if isServicesControlsDisabled s then form else setValues blockedServices isSelected form)"

definition servicesByGroup :: "BlockedService list \<Rightarrow> string option \<Rightarrow> BlockedService list" where
  "servicesByGroup blockedServices g = filter (\<lambda>sv. group_id sv = g) blockedServices"

definition handleToggleGroupServices ::
  "rx_services \<Rightarrow> BlockedService list \<Rightarrow> string \<Rightarrow> bool \<Rightarrow> ticks \<Rightarrow> ticks" where
  "handleToggleGroupServices s blockedServices groupId isSelected form =
     (if isServicesControlsDisabled s then form
      else setValues (servicesByGroup blockedServices (Some groupId)) isSelected form)"

definition enabledIds :: "BlockedService list \<Rightarrow> ticks \<Rightarrow> string list" where
  "enabledIds blockedServices form =
     object_keys (map service_id (filter (\<lambda>sv. form (service_id sv) = Some True) blockedServices))"

definition handleSubmit ::
  "env \<Rightarrow> ('w, 'm) sapi \<Rightarrow> BlockedService list \<Rightarrow> ticks \<Rightarrow> (('w, 'm) services_rx_scheme, unit) state" where
  "handleSubmit env api blockedServices form = do {
     s \<leftarrow> gets services;
     updateBlockedServices env api \<lparr>schedule = schedule (sv_list s), ids = Some (enabledIds blockedServices form)\<rparr> }"

definition handleScheduleSubmit ::
  "env \<Rightarrow> ('w, 'm) sapi \<Rightarrow> Schedule \<Rightarrow> (('w, 'm) services_rx_scheme, unit) state" where
  "handleScheduleSubmit env api values = do {
     s \<leftarrow> gets services;
     updateBlockedServices env api \<lparr>schedule = Some values, ids = ids (sv_list s)\<rparr> }"

subsection \<open>Theorems\<close>

lemma set_object_keys [simp]: "set (object_keys ks) = set ks"
  by (simp add: object_keys_def)

lemma initial_ticks:
  "fold (\<lambda>service acc. acc(service \<mapsto> True)) ks f k = (if k \<in> set ks then Some True else f k)"
  by (induction ks arbitrary: f) auto

lemma setValues_at: "setValues svs b form k = (if k \<in> service_id ` set svs then Some b else form k)"
  by (induction svs arbitrary: form) (auto simp: setValues_def)

lemma set_enabledIds:
  "set (enabledIds svs form) = {k \<in> service_id ` set svs. form k = Some True}"
  by (auto simp: enabledIds_def)

text \<open>A server that keeps the list, and the two parts of what it keeps.\<close>

definition services_server :: "('w, 'm) sapi \<Rightarrow> ('w \<Rightarrow> BlockedServicesSchedule) \<Rightarrow> bool" where
  "services_server api held \<longleftrightarrow>
     (\<forall>c. run_state (api_getBlockedServices api) c = (Inr (held (backend c)), c)) \<and>
     (\<forall>v c. \<exists>w. run_state (api_updateBlockedServices api v) c = (Inr (), c\<lparr>backend := w\<rparr>) \<and> held w = v)"

lemma updateBlockedServices_stores:
  assumes "services_server api held"
  shows "held (backend (exec (updateBlockedServices env api v) c)) = v \<and>
    sv_list (services (exec (updateBlockedServices env api v) c)) = v"
proof -
  let ?c = "c\<lparr>services := services_reducer UpdateBlockedServicesRequest (services c)\<rparr>"
  from assms obtain w where "run_state (api_updateBlockedServices api v) ?c = (Inr (), ?c\<lparr>backend := w\<rparr>)" "held w = v"
    unfolding services_server_def by blast
  then show ?thesis
    using assms by (simp add: updateBlockedServices_def getBlockedServices_finish_def run_try_call services_server_def)
qed

text \<open>
  The services page of the React client saves what its ticks say. Opened on the stored list, with any group switched on
  or off and the form submitted, the server blocks exactly the services of the catalogue that were blocked before and are
  not in the group, together with those of the group if it was switched on, each once; the schedule is kept, and the page shows the
  new list.
\<close>

theorem rx_services_form_saves:
  assumes srv: "services_server api held" and idle: "\<not> isServicesControlsDisabled (services c)"
    and form: "getInitialDataForServices (ids (sv_list (services c))) = Some form"
  shows "let c' = exec (handleSubmit env api cat (handleToggleGroupServices (services c) cat g on form)) c;
             now = held (backend c'); before = set (nullish (ids (sv_list (services c))) []);
             member = service_id ` {sv \<in> set cat. group_id sv = Some g}
         in \<exists>ks. ids now = Some ks \<and> distinct ks \<and>
              set ks = (if on then member else {}) \<union> (before \<inter> service_id ` set cat - member) \<and>
            schedule now = schedule (sv_list (services c)) \<and> sv_list (services c') = now"
proof -
  obtain bs where b: "ids (sv_list (services c)) = Some bs" using form by (auto simp: getInitialDataForServices_def)
  with form have f: "form k = (if k \<in> set bs then Some True else None)" for k
    by (auto simp: getInitialDataForServices_def initial_ticks)
  show ?thesis
    using idle b updateBlockedServices_stores [OF srv]
    by (auto simp: Let_def handleSubmit_def set_enabledIds handleToggleGroupServices_def setValues_at servicesByGroup_def f
        enabledIds_def [symmetric] split: if_splits) (auto simp: enabledIds_def object_keys_def)
qed

end
