(* ===== verification/Retention.thy ===== *)
theory Retention
  imports Stats
begin

section \<open>Retention dialogs\<close>

text \<open>
  The interval helpers of \<^verbatim>\<open>client_v2/src/components/Settings/helpers.ts\<close>, the form
  \<^verbatim>\<open>StatsConfig/Form.tsx\<close> and the dialogs \<^verbatim>\<open>StatsConfig/StatsConfig.tsx\<close> and
  \<^verbatim>\<open>LogsConfig/LogsConfig.tsx\<close>, which choose how long statistics and the query log are kept. The two
  dialogs have the same code up to the store they save to. When the form inside is mounted again is up
  to the dialog library, so mounting is an event of its own; while it is mounted the form reports
  its values to the dialog.
\<close>

subsection \<open>Intervals\<close>

definition RETENTION_CUSTOM :: rat where "RETENTION_CUSTOM = 1"

definition RETENTION_MIN :: int where "RETENTION_MIN = 1"

definition RETENTION_MAX :: int where "RETENTION_MAX = 365 * 24"

text \<open>\<open>intervalMs % DAY === 0\<close>.\<close>

definition whole_days :: "rat \<Rightarrow> bool" where
  "whole_days ms \<longleftrightarrow> of_int \<lfloor>ms / DAY\<rfloor> * DAY = ms"

definition plural_interval :: "env \<Rightarrow> string \<Rightarrow> string \<Rightarrow> rat \<Rightarrow> string" where
  "plural_interval env hours days ms =
     (if ms = 6 * HOUR then getPlural env hours 6
      else if ms = DAY then getPlural env hours 24
      else if whole_days ms then getPlural env days \<lfloor>ms / DAY\<rfloor>
      else getPlural env hours \<lfloor>ms / HOUR\<rfloor>)"

definition formatIntervalText :: "env \<Rightarrow> rat \<Rightarrow> string" where
  "formatIntervalText env ms = plural_interval env ''settings_hours'' ''settings_days'' ms"

definition getRetentionSummary :: "env \<Rightarrow> rat \<Rightarrow> string" where
  "getRetentionSummary env ms = plural_interval env ''last_hours'' ''last_days'' ms"

definition getIntervalTitle :: "env \<Rightarrow> rat \<Rightarrow> string" where
  "getIntervalTitle env ms =
     (if ms = RETENTION_CUSTOM then msg env ''settings_custom'' else formatIntervalText env ms)"

definition getDefaultInterval :: "rat option \<Rightarrow> rat option \<Rightarrow> rat" where
  "getDefaultInterval custom iv =
     (case custom of
        Some h \<Rightarrow> if h > 0 then RETENTION_CUSTOM else if nullish iv 0 = 0 then DAY else nullish iv 0
      | None \<Rightarrow> if nullish iv 0 = 0 then DAY else nullish iv 0)"

definition resolveInterval :: "rat \<Rightarrow> rat option \<Rightarrow> rat" where
  "resolveInterval iv custom =
     (case custom of
        Some h \<Rightarrow> if h = 0 then iv else if h \<ge> HOUR then h else h * HOUR
      | None \<Rightarrow> iv)"

definition buildStatsConfig :: "StatsState \<Rightarrow> rat \<Rightarrow> GetStatsConfigResponse" where
  "buildStatsConfig s iv = \<lparr>sc_enabled = Stats.enabled s, sc_interval = iv, sc_ignored = Stats.ignored s,
     sc_ignored_enabled = Some (Stats.ignored_enabled s)\<rparr>"

definition buildQueryLogConfig :: "QueryLogsState \<Rightarrow> rat \<Rightarrow> GetQueryLogConfigResponse" where
  "buildQueryLogConfig s iv = \<lparr>cfg_enabled = QueryLogs.enabled s, cfg_interval = iv,
     cfg_anonymize_client_ip = anonymize_client_ip s, cfg_ignored = QueryLogs.ignored s,
     cfg_ignored_enabled = QueryLogs.ignored_enabled s\<rparr>"

subsection \<open>The form\<close>

record FormValues =
  fv_interval :: rat
  fv_custom :: "rat option"

record interval_form =
  intervalValue :: rat
  form_custom :: "rat option"
  touched :: bool

definition mount_form :: "rat \<Rightarrow> rat option \<Rightarrow> interval_form" where
  "mount_form iv custom = \<lparr>intervalValue = getDefaultInterval custom (Some iv), form_custom = custom, touched = False\<rparr>"

definition handleIntervalChange :: "rat list \<Rightarrow> rat \<Rightarrow> interval_form \<Rightarrow> interval_form" where
  "handleIntervalChange intervals v f =
     (let f1 = f\<lparr>intervalValue := v\<rparr>
      in if v \<in> set intervals then f1\<lparr>form_custom := None, touched := False\<rparr> else f1)"

definition in_range :: "env \<Rightarrow> (int \<Rightarrow> string) \<Rightarrow> rat \<Rightarrow> validation" where
  "in_range env toLocale v = validateBetween env toLocale (Num v) RETENTION_MIN RETENTION_MAX False"

definition customIntervalError :: "env \<Rightarrow> (int \<Rightarrow> string) \<Rightarrow> bool \<Rightarrow> interval_form \<Rightarrow> validation" where
  "customIntervalError env toLocale submitted f =
     (if intervalValue f \<noteq> RETENTION_CUSTOM then None
      else if nullish (form_custom f) 0 = 0
      then if submitted \<or> touched f then Some (msg env ''form_error_required'') else None
      else in_range env toLocale (nullish (form_custom f) 0))"

definition reported :: "interval_form \<Rightarrow> FormValues" where
  "reported f = \<lparr>fv_interval = intervalValue f, fv_custom = form_custom f\<rparr>"

subsection \<open>The dialog\<close>

record retention_dialog =
  formValues :: FormValues
  confirmConfig :: "rat option"
  submitted :: bool
  modalOpen :: bool

definition open_dialog :: "rat \<Rightarrow> rat option \<Rightarrow> retention_dialog \<Rightarrow> retention_dialog" where
  "open_dialog iv custom d = d\<lparr>modalOpen := True, submitted := False,
     formValues := \<lparr>fv_interval = iv, fv_custom = custom\<rparr>\<rparr>"

definition handleFormChange :: "FormValues \<Rightarrow> retention_dialog \<Rightarrow> retention_dialog" where
  "handleFormChange v d = d\<lparr>submitted := False, formValues := v\<rparr>"

text \<open>What \<open>handleSave\<close> does with the values at hand: refuse them, ask before a shorter retention, or
  save.\<close>

datatype save_outcome = Refused | AskFirst rat | Save rat

definition save_decision :: "env \<Rightarrow> (int \<Rightarrow> string) \<Rightarrow> rat \<Rightarrow> FormValues \<Rightarrow> save_outcome" where
  "save_decision env toLocale current v =
     (if fv_interval v = RETENTION_CUSTOM \<and>
         (case fv_custom v of None \<Rightarrow> True | Some h \<Rightarrow> truthy_str (in_range env toLocale h))
      then Refused
      else let iv = resolveInterval (fv_interval v) (fv_custom v)
           in if iv < current then AskFirst iv else Save iv)"

text \<open>Saving: the request of the store starts, the success message and the closing of the dialog do
  not wait for its answer.\<close>

record 'w stats_dialog_ctx = "'w stats_ctx" +
  stats_dialog :: retention_dialog

record 'w logs_dialog_ctx = "'w querylog_ctx" +
  logs_dialog :: retention_dialog

interpretation stats_dialog_frame: toast_frame stats_dialog
  by unfold_locales simp_all

interpretation logs_dialog_frame: toast_frame logs_dialog
  by unfold_locales simp_all

abbreviation setStatsDialog ::
  "(retention_dialog \<Rightarrow> retention_dialog) \<Rightarrow> ('w, 'm) stats_dialog_ctx_scheme \<Rightarrow> ('w, 'm) stats_dialog_ctx_scheme" where
  "setStatsDialog f c \<equiv> c\<lparr>stats_dialog := f (stats_dialog c)\<rparr>"

abbreviation setLogsDialog ::
  "(retention_dialog \<Rightarrow> retention_dialog) \<Rightarrow> ('w, 'm) logs_dialog_ctx_scheme \<Rightarrow> ('w, 'm) logs_dialog_ctx_scheme" where
  "setLogsDialog f c \<equiv> c\<lparr>logs_dialog := f (logs_dialog c)\<rparr>"

definition start_stats_save :: "env \<Rightarrow> ('w, 'm) stats_dialog_ctx_scheme \<Rightarrow> ('w, 'm) stats_dialog_ctx_scheme" where
  "start_stats_save env c =
     setStatsDialog (\<lambda>d. d\<lparr>modalOpen := False\<rparr>)
       (successToast env (msg env ''changes_saved_success'') (setStatsConfig_start c))"

definition start_logs_save :: "env \<Rightarrow> ('w, 'm) logs_dialog_ctx_scheme \<Rightarrow> ('w, 'm) logs_dialog_ctx_scheme" where
  "start_logs_save env c =
     setLogsDialog (\<lambda>d. d\<lparr>modalOpen := False\<rparr>)
       (successToast env (msg env ''changes_saved_success'') (setLogsConfig_start c))"

definition handleSave_stats ::
  "env \<Rightarrow> (int \<Rightarrow> string) \<Rightarrow> ('w, 'm) stats_dialog_ctx_scheme stats_api
     \<Rightarrow> (('w, 'm) stats_dialog_ctx_scheme, unit) state" where
  "handleSave_stats env toLocale api = do {
     s \<leftarrow> gets stats_store;
     d \<leftarrow> gets stats_dialog;
     (case save_decision env toLocale (Stats.interval s) (formValues d) of
        Refused \<Rightarrow> modify (setStatsDialog (\<lambda>d. d\<lparr>submitted := True\<rparr>))
      | AskFirst iv \<Rightarrow> modify (setStatsDialog (\<lambda>d. d\<lparr>confirmConfig := Some iv\<rparr>))
      | Save iv \<Rightarrow> do {
          modify (start_stats_save env);
          _ \<leftarrow> setStatsConfig_finish env api (buildStatsConfig s iv);
          pass () }) }"

definition handleConfirmDecrease_stats ::
  "env \<Rightarrow> ('w, 'm) stats_dialog_ctx_scheme stats_api \<Rightarrow> (('w, 'm) stats_dialog_ctx_scheme, unit) state" where
  "handleConfirmDecrease_stats env api = do {
     s \<leftarrow> gets stats_store;
     d \<leftarrow> gets stats_dialog;
     (case confirmConfig d of
        None \<Rightarrow> modify (setStatsDialog (\<lambda>d. d\<lparr>confirmConfig := None\<rparr>))
      | Some iv \<Rightarrow> do {
          modify (start_stats_save env);
          modify (setStatsDialog (\<lambda>d. d\<lparr>confirmConfig := None\<rparr>));
          _ \<leftarrow> setStatsConfig_finish env api (buildStatsConfig s iv);
          pass () }) }"

definition handleSave_logs ::
  "env \<Rightarrow> (int \<Rightarrow> string) \<Rightarrow> ('w, 'm) logs_dialog_ctx_scheme querylog_api
     \<Rightarrow> (('w, 'm) logs_dialog_ctx_scheme, unit) state" where
  "handleSave_logs env toLocale api = do {
     s \<leftarrow> gets queryLogs;
     d \<leftarrow> gets logs_dialog;
     (case save_decision env toLocale (QueryLogs.interval s) (formValues d) of
        Refused \<Rightarrow> modify (setLogsDialog (\<lambda>d. d\<lparr>submitted := True\<rparr>))
      | AskFirst iv \<Rightarrow> modify (setLogsDialog (\<lambda>d. d\<lparr>confirmConfig := Some iv\<rparr>))
      | Save iv \<Rightarrow> do {
          modify (start_logs_save env);
          _ \<leftarrow> setLogsConfig_finish env api (buildQueryLogConfig s iv);
          pass () }) }"

definition handleConfirmDecrease_logs ::
  "env \<Rightarrow> ('w, 'm) logs_dialog_ctx_scheme querylog_api \<Rightarrow> (('w, 'm) logs_dialog_ctx_scheme, unit) state" where
  "handleConfirmDecrease_logs env api = do {
     s \<leftarrow> gets queryLogs;
     d \<leftarrow> gets logs_dialog;
     (case confirmConfig d of
        None \<Rightarrow> modify (setLogsDialog (\<lambda>d. d\<lparr>confirmConfig := None\<rparr>))
      | Some iv \<Rightarrow> do {
          modify (start_logs_save env);
          modify (setLogsDialog (\<lambda>d. d\<lparr>confirmConfig := None\<rparr>));
          _ \<leftarrow> setLogsConfig_finish env api (buildQueryLogConfig s iv);
          pass () }) }"

subsection \<open>Choosing and saving\<close>

lemma in_range_ok: "1 \<le> h \<Longrightarrow> h \<le> 8760 \<Longrightarrow> in_range env toLocale h = None"
  by (simp add: in_range_def validateBetween_def RETENTION_MIN_def RETENTION_MAX_def)

lemma resolve_hours: "0 < h \<Longrightarrow> h \<le> 8760 \<Longrightarrow> resolveInterval iv (Some h) = h * HOUR"
  by (simp add: resolveInterval_def HOUR_def)

lemma not_custom: "v \<in> set STATS_INTERVALS_DAYS \<Longrightarrow> v \<noteq> RETENTION_CUSTOM"
  by (auto simp: STATS_INTERVALS_DAYS_def RETENTION_CUSTOM_def HOUR_def DAY_def)

definition decision :: "rat \<Rightarrow> rat \<Rightarrow> save_outcome" where
  "decision current iv = (if iv < current then AskFirst iv else Save iv)"

lemma save_custom:
  "1 \<le> h \<Longrightarrow> h \<le> 8760 \<Longrightarrow>
     save_decision env toLocale current \<lparr>fv_interval = v, fv_custom = Some h\<rparr> = decision current (h * HOUR)"
  by (simp add: save_decision_def in_range_ok resolve_hours decision_def Let_def truthy_str_def)

lemma save_preset:
  "v \<noteq> RETENTION_CUSTOM \<Longrightarrow>
     save_decision env toLocale current \<lparr>fv_interval = v, fv_custom = None\<rparr> = decision current v"
  by (simp add: save_decision_def resolveInterval_def decision_def Let_def)

text \<open>An interval the dialog can show: a preset, or 1 to 8760 hours.\<close>

definition storable :: "rat \<Rightarrow> bool" where
  "storable iv \<longleftrightarrow> iv \<in> set STATS_INTERVALS_DAYS \<or> (HOUR \<le> iv \<and> iv \<le> 8760 * HOUR)"

lemma storable_cases:
  assumes "storable iv" "iv \<notin> set STATS_INTERVALS_DAYS"
  shows "1 \<le> iv / HOUR" "iv / HOUR \<le> 8760"
  using assms by (simp_all add: storable_def le_divide_eq divide_le_eq)

lemma storable_pos: "storable iv \<Longrightarrow> 0 < iv"
  by (auto simp: storable_def STATS_INTERVALS_DAYS_def DAY_def HOUR_def)

lemma loaded_config:
  assumes "run_state (fetchStatsConfig api) (Stats.setState (\<lambda>s. s\<lparr>processingGetConfig := True\<rparr>) c) = (Inr data, d)"
  shows "Stats.interval (stats_store (exec (getStatsConfig env api) c)) = (if sc_interval data = 0 then DAY else sc_interval data)"
    and "Stats.customInterval (stats_store (exec (getStatsConfig env api) c)) =
      (if sc_interval data \<in> set STATS_INTERVALS_DAYS then None else Some (sc_interval data / HOUR))"
  by (simp_all add: getStatsConfig_def run_try_call assms)

text \<open>
  Opening the retention dialog and saving without a change keeps the retention the server reported,
  for every preset and every custom value of 1 to 8760 hours, whether or not the form was mounted again.
\<close>

theorem retention_roundtrip:
  assumes "run_state (fetchStatsConfig api) (Stats.setState (\<lambda>s. s\<lparr>processingGetConfig := True\<rparr>) c) = (Inr data, d)"
    and st: "storable (sc_interval data)"
  shows "let s = stats_store (exec (getStatsConfig env api) c);
             iv = Stats.interval s; custom = Stats.customInterval s
    in save_decision env toLocale iv (reported (mount_form iv custom)) = Save (sc_interval data) \<and>
       save_decision env toLocale iv (formValues (open_dialog iv custom dlg)) = Save (sc_interval data)"
proof -
  note l = loaded_config [OF assms(1), of env]
  have nz: "sc_interval data \<noteq> 0" using storable_pos [OF st] by simp
  show ?thesis
  proof (cases "sc_interval data \<in> set STATS_INTERVALS_DAYS")
    case True
    then show ?thesis using not_custom [OF True] nz
      by (simp add: l reported_def mount_form_def getDefaultInterval_def open_dialog_def save_preset decision_def Let_def)
  next
    case False
    have pos: "0 < sc_interval data" using st by (rule storable_pos)
    have "HOUR \<noteq> 0" using HOUR_pos by (rule less_imp_neq [symmetric])
    then show ?thesis using storable_cases [OF st False] False nz pos
      by (simp add: l reported_def mount_form_def getDefaultInterval_def open_dialog_def save_custom decision_def Let_def)
  qed
qed

text \<open>
  A preset chosen in the form and saved is written to the server, after a confirmation exactly
  when it shortens the retention; so is a custom number of hours between 1 and 8760.
\<close>

theorem chosen_retention_saved:
  assumes "v \<in> set STATS_INTERVALS_DAYS" "1 \<le> h" "h \<le> 8760"
  shows "save_decision env toLocale current (reported (handleIntervalChange STATS_INTERVALS_DAYS v f)) =
      (if v < current then AskFirst v else Save v) \<and>
    save_decision env toLocale current
      (reported ((handleIntervalChange STATS_INTERVALS_DAYS RETENTION_CUSTOM f)\<lparr>form_custom := Some h\<rparr>)) =
      (if h * HOUR < current then AskFirst (h * HOUR) else Save (h * HOUR))"
  using assms not_custom [OF assms(1)]
  by (simp add: handleIntervalChange_def reported_def save_preset save_custom decision_def Let_def)

theorem chosen_retention_saved_witness:
  "save_decision sample_env show_int DAY (reported (handleIntervalChange STATS_INTERVALS_DAYS (DAY * 7)
     (mount_form DAY None))) = Save (DAY * 7)"
  using chosen_retention_saved [of "DAY * 7" 1 sample_env show_int DAY "mount_form DAY None"]
  by (simp add: STATS_INTERVALS_DAYS_def DAY_def HOUR_def)

text \<open>
  A store that holds a custom retention keeps it beside a preset saved later: opening the dialog
  again and saving without a change goes back to the old custom value, with a confirmation when it
  is the shorter one.
\<close>

theorem stale_custom_retention:
  assumes "run_state (putStatsConfig api values) (setStatsConfig_start c) = (Inr (), d)"
    and "Stats.customInterval (stats_store d) = Some h" "1 \<le> h" "h \<le> 8760"
  shows "let s = stats_store (exec (setStatsConfig env api values) c);
             iv = Stats.interval s; custom = Stats.customInterval s
    in iv = sc_interval values \<and>
       save_decision env toLocale iv (reported (mount_form iv custom)) =
         (if h * HOUR < sc_interval values then AskFirst (h * HOUR) else Save (h * HOUR)) \<and>
       save_decision env toLocale iv (formValues (open_dialog iv custom dlg)) =
         (if h * HOUR < sc_interval values then AskFirst (h * HOUR) else Save (h * HOUR))"
  using assms
  by (simp add: setStatsConfig_def setStatsConfig_finish_def run_try_call Let_def reported_def mount_form_def
      getDefaultInterval_def open_dialog_def save_custom decision_def)

subsection \<open>A page for the examples\<close>

text \<open>A server that keeps the configuration it is given, and one that refuses to save.\<close>

definition kept_config :: "(GetStatsConfigResponse, 'm) stats_ctx_scheme stats_api" where
  "kept_config = \<lparr>stats = (\<lambda>_. pass (Inl ''no'')), clientsSearch = (\<lambda>_. pass (Inl ''no'')),
     fetchStatsConfig = State (\<lambda>c. (Inr (world c), c)),
     putStatsConfig = (\<lambda>v. State (\<lambda>c. (Inr (), c\<lparr>world := v\<rparr>))), statsReset = pass (Inr ())\<rparr>"

definition hours_config :: "rat \<Rightarrow> GetStatsConfigResponse" where
  "hours_config h = \<lparr>sc_enabled = True, sc_interval = h * HOUR, sc_ignored = [], sc_ignored_enabled = None\<rparr>"

definition sample_page :: "rat \<Rightarrow> rat option \<Rightarrow> GetStatsConfigResponse stats_dialog_ctx" where
  "sample_page h custom = \<lparr>notices = [], undoRegistry = Map.empty, nonce = 0, console_error = [],
     world = hours_config h,
     stats_store = Stats.initialState\<lparr>interval := h * HOUR, customInterval := custom\<rparr>,
     stats_dialog = \<lparr>formValues = \<lparr>fv_interval = DAY * 90, fv_custom = None\<rparr>, confirmConfig = None,
       submitted = False, modalOpen = True\<rparr>\<rparr>"

theorem retention_roundtrip_witness:
  "let s = stats_store (exec (getStatsConfig sample_env kept_config) (sample_page 5 None))
   in save_decision sample_env show_int (Stats.interval s)
        (reported (mount_form (Stats.interval s) (Stats.customInterval s))) = Save (5 * HOUR)"
proof -
  have st: "storable (sc_interval (hours_config 5))" by (simp add: hours_config_def storable_def HOUR_def)
  have "run_state (fetchStatsConfig kept_config)
      (Stats.setState (\<lambda>s. s\<lparr>processingGetConfig := True\<rparr>) (sample_page 5 None)) =
    (Inr (hours_config 5), Stats.setState (\<lambda>s. s\<lparr>processingGetConfig := True\<rparr>) (sample_page 5 None))"
    by (simp add: kept_config_def sample_page_def)
  from retention_roundtrip [OF this st, of sample_env show_int] show ?thesis
    by (simp add: hours_config_def Let_def)
qed

text \<open>Five hours, then the preset of a day, then Save again asks to go back to five hours.\<close>

theorem stale_custom_retention_witness:
  "let s = stats_store (exec (setStatsConfig sample_env kept_config (hours_config 24)) (sample_page 5 (Some 5)))
   in Stats.interval s = DAY \<and>
      save_decision sample_env show_int (Stats.interval s)
        (reported (mount_form (Stats.interval s) (Stats.customInterval s))) = AskFirst (5 * HOUR)"
proof -
  let ?d = "setStatsConfig_start (sample_page 5 (Some 5))\<lparr>world := hours_config 24\<rparr>"
  have run: "run_state (putStatsConfig kept_config (hours_config 24)) (setStatsConfig_start (sample_page 5 (Some 5))) = (Inr (), ?d)"
    by (simp add: kept_config_def)
  have custom: "Stats.customInterval (stats_store ?d) = Some 5"
    by (simp add: sample_page_def setStatsConfig_start_def)
  have iv: "sc_interval (hours_config 24) = DAY" "5 * HOUR < DAY" by (simp_all add: hours_config_def DAY_def HOUR_def)
  have h: "(1::rat) \<le> 5" "(5::rat) \<le> 8760" by simp_all
  from stale_custom_retention [OF run custom h, of sample_env show_int "stats_dialog (sample_page 5 None)"]
  show ?thesis unfolding Let_def iv(1) if_P [OF iv(2)] by (elim conjE) (intro conjI; assumption)
qed

subsection \<open>Success is announced before the answer\<close>

lemma errorToast_keeps_others:
  "toast_type n \<noteq> ErrorToast \<Longrightarrow> n \<in> set (notices c) \<Longrightarrow> n \<in> set (notices (errorToast env e c))"
  unfolding notices_errorToast push_notice_def by (auto simp: isDuplicate_def image_iff intro!: bexI [of _ n])

text \<open>
  The retention dialog announces success before the server has answered: when the request fails
  the page shows that the changes were saved beside the error, the dialog is closed, and the retention
  is still the old one.
\<close>

theorem failed_save_announces_success:
  assumes "save_decision env toLocale (Stats.interval (stats_store c)) (formValues (stats_dialog c)) = Save iv"
    and "run_state (putStatsConfig api (buildStatsConfig (stats_store c) iv)) (start_stats_save env c)
      = (Inl e, start_stats_save env c)"
  shows "let c' = exec (handleSave_stats env toLocale api) c
    in (\<exists>n\<in>set (notices c'). toast_type n = SuccessToast \<and> message n = msg env ''changes_saved_success'') \<and>
       (\<exists>n\<in>set (notices c'). toast_type n = ErrorToast \<and> message n = e) \<and>
       \<not> modalOpen (stats_dialog c') \<and> Stats.interval (stats_store c') = Stats.interval (stats_store c)"
proof -
  let ?n = "success_notice (nanoid env (nonce c)) (SuccessString (msg env ''changes_saved_success''))"
  have ty: "toast_type ?n = SuccessToast" "message ?n = msg env ''changes_saved_success''"
    by (simp_all add: success_notice_def)
  have shown: "?n \<in> set (notices (start_stats_save env c))"
    by (simp add: start_stats_save_def addSuccessToast_def setStatsConfig_start_def)
  have run: "exec (handleSave_stats env toLocale api) c =
      Stats.setState (\<lambda>s. s\<lparr>processingSetConfig := False\<rparr>) (errorToast env e (start_stats_save env c))"
    by (simp add: handleSave_stats_def assms setStatsConfig_finish_def run_try_call)
  have dlg: "\<not> modalOpen (stats_dialog (start_stats_save env c))"
    and iv: "Stats.interval (stats_store (start_stats_save env c)) = Stats.interval (stats_store c)"
    by (simp_all add: start_stats_save_def setStatsConfig_start_def)
  have "?n \<in> set (notices (errorToast env e (start_stats_save env c)))"
    using shown ty by (intro errorToast_keeps_others) simp_all
  with ty errorToast_shown [of env e "start_stats_save env c"] show ?thesis
    unfolding run Let_def by (auto simp: dlg iv)
qed

theorem failed_save_announces_success_witness:
  "let c' = exec (handleSave_stats sample_env show_int (kept_config\<lparr>putStatsConfig := (\<lambda>_. pass (Inl ''refused''))\<rparr>))
        (sample_page 24 None)
   in (\<exists>n\<in>set (notices c'). toast_type n = SuccessToast) \<and> (\<exists>n\<in>set (notices c'). toast_type n = ErrorToast) \<and>
      Stats.interval (stats_store c') = DAY"
proof -
  have "save_decision sample_env show_int (Stats.interval (stats_store (sample_page 24 None)))
      (formValues (stats_dialog (sample_page 24 None))) = Save (DAY * 90)"
    by (simp add: sample_page_def save_preset not_custom STATS_INTERVALS_DAYS_def decision_def DAY_def HOUR_def
        RETENTION_CUSTOM_def)
  from failed_save_announces_success [OF this,
      of "kept_config\<lparr>putStatsConfig := (\<lambda>_. pass (Inl ''refused''))\<rparr>" "''refused''"]
  have "let c' = exec (handleSave_stats sample_env show_int (kept_config\<lparr>putStatsConfig := (\<lambda>_. pass (Inl ''refused''))\<rparr>))
        (sample_page 24 None)
   in (\<exists>n\<in>set (notices c'). toast_type n = SuccessToast \<and> message n = msg sample_env ''changes_saved_success'') \<and>
      (\<exists>n\<in>set (notices c'). toast_type n = ErrorToast \<and> message n = ''refused'') \<and>
      \<not> modalOpen (stats_dialog c') \<and>
      Stats.interval (stats_store c') = Stats.interval (stats_store (sample_page 24 None))"
    by simp
  then have "let c' = exec (handleSave_stats sample_env show_int (kept_config\<lparr>putStatsConfig := (\<lambda>_. pass (Inl ''refused''))\<rparr>))
        (sample_page 24 None)
   in (\<exists>n\<in>set (notices c'). toast_type n = SuccessToast) \<and> (\<exists>n\<in>set (notices c'). toast_type n = ErrorToast) \<and>
      Stats.interval (stats_store c') = Stats.interval (stats_store (sample_page 24 None))"
    unfolding Let_def by fast
  moreover have "Stats.interval (stats_store (sample_page 24 None)) = DAY"
    by (simp add: sample_page_def DAY_def)
  ultimately show ?thesis by simp
qed

end
