(* ===== verification/ReduxStats.thy ===== *)
theory ReduxStats
  imports Retention ReduxCore
begin

section \<open>Statistics and retention in the React client\<close>

text \<open>
  \<^verbatim>\<open>client/src/actions/stats.ts\<close> and \<^verbatim>\<open>client/src/reducers/stats.ts\<close>, with the retention forms of
  \<^verbatim>\<open>components/Settings/StatsConfig\<close> and \<^verbatim>\<open>components/Settings/LogsConfig\<close>. The payloads are those of
  the newer store; a value the answer lacks stays undefined in the slice. Numbers are rationals.
\<close>

subsection \<open>The slice\<close>

record rx_top_client = TopStat +
  top_info :: "ClientFindSubEntry option"

record rx_counts =
  auto_of :: "string \<rightharpoonup> rat"
  configured_of :: "string \<rightharpoonup> rat"

record rx_figures =
  dnsQueries :: "rat list option"
  blockedFiltering :: "rat list option"
  replacedParental :: "rat list option"
  replacedSafebrowsing :: "rat list option"
  topBlockedDomains :: "TopStat list"
  topClients :: "rx_top_client list"
  topQueriedDomains :: "TopStat list"
  numBlockedFiltering :: "rat option"
  numDnsQueries :: "rat option"
  numReplacedParental :: "rat option"
  numReplacedSafebrowsing :: "rat option"
  numReplacedSafesearch :: "rat option"
  avgProcessingTime :: "rat option"
  timeUnits :: "string option"

definition defaultStats :: rx_figures where
  "defaultStats = \<lparr>dnsQueries = Some [], blockedFiltering = Some [], replacedParental = Some [],
     replacedSafebrowsing = Some [], topBlockedDomains = [], topClients = [], topQueriedDomains = [],
     numBlockedFiltering = Some 0, numDnsQueries = Some 0, numReplacedParental = Some 0,
     numReplacedSafebrowsing = Some 0, numReplacedSafesearch = Some 0, avgProcessingTime = Some 0,
     timeUnits = Some ''hours''\<rparr>"

text \<open>The three upstream fields are not among the defaults: clearing the statistics keeps them.\<close>

record rx_stats =
  processingGetConfig :: bool
  processingSetConfig :: bool
  processingStats :: bool
  processingReset :: bool
  interval :: rat
  customInterval :: "rat option"
  enabled :: "bool option"
  ignored :: "string list option"
  ignored_enabled :: bool
  figures :: rx_figures
  normalized :: "rx_counts option"
  topUpstreamsResponses :: "TopStat list option"
  topUpstreamsAvgTime :: "TopStat list option"

definition stats_initial :: rx_stats where
  "stats_initial = \<lparr>processingGetConfig = False, processingSetConfig = False, processingStats = True,
     processingReset = False, interval = DAY, customInterval = None, enabled = None, ignored = None,
     ignored_enabled = True, figures = defaultStats, normalized = None, topUpstreamsResponses = None,
     topUpstreamsAvgTime = None\<rparr>"

definition rx_intervals :: "rat list" where
  "rx_intervals = [DAY, DAY * 7, DAY * 30, DAY * 90]"

text \<open>\<open>const { name, count, info: { name: infoName } } = clientObj\<close>; the empty string has no name.\<close>

definition top_info_key :: "rx_top_client \<Rightarrow> string" where
  "top_info_key r = nullish (Option.bind (top_info r) fe_name) ''undefined''"

definition count_client :: "rx_counts \<Rightarrow> rx_top_client \<Rightarrow> rx_counts" where
  "count_client acc r = acc\<lparr>auto_of := put_key (ts_name r) (ts_count r) (auto_of acc),
     configured_of := put_key (top_info_key r) (ts_count r) (configured_of acc)\<rparr>"

definition rx_normalizeTopClients :: "rx_top_client list \<Rightarrow> rx_counts" where
  "rx_normalizeTopClients rows = foldl count_client \<lparr>auto_of = Map.empty, configured_of = Map.empty\<rparr> rows"

record normalizedStats =
  ns_figures :: rx_figures
  ns_upstreams :: "TopStat list"
  ns_upstreams_time :: "TopStat list"

datatype stats_action =
    GetStatsConfigRequest | GetStatsConfigFailure | GetStatsConfigSuccess GetStatsConfigResponse
  | SetStatsConfigRequest | SetStatsConfigFailure | SetStatsConfigSuccess GetStatsConfigResponse
  | GetStatsRequest | GetStatsFailure | GetStatsSuccess normalizedStats
  | ResetStatsRequest | ResetStatsFailure | ResetStatsSuccess

definition merge_payload :: "GetStatsConfigResponse \<Rightarrow> rx_stats \<Rightarrow> rx_stats" where
  "merge_payload p s = s\<lparr>enabled := Some (sc_enabled p), interval := sc_interval p, ignored := Some (sc_ignored p),
     ignored_enabled := nullish (sc_ignored_enabled p) (ignored_enabled s)\<rparr>"

fun stats_reducer :: "stats_action \<Rightarrow> rx_stats \<Rightarrow> rx_stats" where
  "stats_reducer GetStatsConfigRequest s = s\<lparr>processingGetConfig := True\<rparr>"
| "stats_reducer GetStatsConfigFailure s = s\<lparr>processingGetConfig := False\<rparr>"
| "stats_reducer (GetStatsConfigSuccess p) s = (merge_payload p s)\<lparr>
     customInterval := (if sc_interval p \<notin> set rx_intervals then Some (sc_interval p / HOUR) else None),
     processingGetConfig := False\<rparr>"
| "stats_reducer SetStatsConfigRequest s = s\<lparr>processingSetConfig := True\<rparr>"
| "stats_reducer SetStatsConfigFailure s = s\<lparr>processingSetConfig := False\<rparr>"
| "stats_reducer (SetStatsConfigSuccess p) s = (merge_payload p s)\<lparr>processingSetConfig := False\<rparr>"
| "stats_reducer GetStatsRequest s = s\<lparr>processingStats := True\<rparr>"
| "stats_reducer GetStatsFailure s = s\<lparr>processingStats := False\<rparr>"
| "stats_reducer (GetStatsSuccess p) s = s\<lparr>processingStats := False, figures := ns_figures p,
     normalized := Some (rx_normalizeTopClients (topClients (ns_figures p))),
     topUpstreamsResponses := Some (ns_upstreams p), topUpstreamsAvgTime := Some (ns_upstreams_time p)\<rparr>"
| "stats_reducer ResetStatsRequest s = s\<lparr>processingReset := True\<rparr>"
| "stats_reducer ResetStatsFailure s = s\<lparr>processingReset := False\<rparr>"
| "stats_reducer ResetStatsSuccess s = s\<lparr>figures := defaultStats, processingReset := False\<rparr>"

record 'w stats_rx = "'w rx" +
  stats_slice :: rx_stats

interpretation stats_rx_frame: rx_frame stats_slice
  by unfold_locales simp_all

abbreviation dispatch :: "stats_action \<Rightarrow> (('w, 'm) stats_rx_scheme, unit) state" where
  "dispatch a \<equiv> modify (\<lambda>c. c\<lparr>stats_slice := stats_reducer a (stats_slice c)\<rparr>)"

record 'c rx_stats_api =
  api_getStatsConfig :: "('c, GetStatsConfigResponse) call"
  api_setStatsConfig :: "GetStatsConfigResponse \<Rightarrow> ('c, unit) call"
  api_getStats :: "('c, Stats) call"
  api_searchClients :: "string list \<Rightarrow> ('c, (string \<rightharpoonup> ClientFindSubEntry) list) call"
  api_resetStats :: "('c, unit) call"

type_synonym ('w, 'm) tapi = "('w, 'm) stats_rx_scheme rx_stats_api"

subsection \<open>Thunks\<close>

definition getStatsConfig :: "env \<Rightarrow> ('w, 'm) tapi \<Rightarrow> (('w, 'm) stats_rx_scheme, unit) state" where
  "getStatsConfig env api = do {
     dispatch GetStatsConfigRequest;
     try_call (api_getStatsConfig api)
       (\<lambda>data. dispatch (GetStatsConfigSuccess data))
       (\<lambda>e. do { error_toast env e; dispatch GetStatsConfigFailure }) }"

definition setStatsConfig ::
  "env \<Rightarrow> ('w, 'm) tapi \<Rightarrow> GetStatsConfigResponse \<Rightarrow> (('w, 'm) stats_rx_scheme, unit) state" where
  "setStatsConfig env api config = do {
     dispatch SetStatsConfigRequest;
     try_call (api_setStatsConfig api config)
       (\<lambda>_. do { success_toast env ''config_successfully_saved''; dispatch (SetStatsConfigSuccess config) })
       (\<lambda>e. do { error_toast env e; dispatch SetStatsConfigFailure }) }"

text \<open>\<open>stats.map\<close> throws for a list the answer lacks.\<close>

definition rx_normalizeTopStats :: "TopArrayEntry list option \<Rightarrow> string + TopStat list" where
  "rx_normalizeTopStats items =
     (case items of None \<Rightarrow> Inl ''TypeError'' | Some xs \<Rightarrow> Inr (map (\<lambda>(k, v). \<lparr>ts_name = k, ts_count = v\<rparr>) xs))"

definition rx_addClientInfo :: "TopStat list \<Rightarrow> (string \<rightharpoonup> ClientFindSubEntry) list \<Rightarrow> rx_top_client list" where
  "rx_addClientInfo data found = map (\<lambda>row. \<lparr>ts_name = ts_name row, ts_count = ts_count row,
     top_info = (if ts_name row = [] then None else found_info found (ts_name row))\<rparr>) data"

definition search_params :: "TopStat list \<Rightarrow> string list" where
  "search_params rows = foldl (\<lambda>ks r. set_add (ts_name r) ks) [] rows"

definition normalize_report :: "Stats \<Rightarrow> rx_top_client list \<Rightarrow> string + normalizedStats" where
  "normalize_report st rows =
     (case (rx_normalizeTopStats (st_top_blocked_domains st), rx_normalizeTopStats (st_top_queried_domains st),
            rx_normalizeTopStats (st_top_upstreams_responses st), rx_normalizeTopStats (st_top_upstreams_avg_time st)) of
        (Inr blocked, Inr queried, Inr responses, Inr durations) \<Rightarrow> Inr \<lparr>
          ns_figures = \<lparr>dnsQueries = st_dns_queries st, blockedFiltering = st_blocked_filtering st,
            replacedParental = st_replaced_parental st, replacedSafebrowsing = st_replaced_safebrowsing st,
            topBlockedDomains = blocked, topClients = rows, topQueriedDomains = queried,
            numBlockedFiltering = st_num_blocked_filtering st, numDnsQueries = st_num_dns_queries st,
            numReplacedParental = st_num_replaced_parental st, numReplacedSafebrowsing = st_num_replaced_safebrowsing st,
            numReplacedSafesearch = st_num_replaced_safesearch st,
            avgProcessingTime = secondsToMilliseconds (st_avg_processing_time st), timeUnits = st_time_units st\<rparr>,
          ns_upstreams = responses, ns_upstreams_time = durations\<rparr>
      | _ \<Rightarrow> Inl ''TypeError'')"

definition getStats :: "env \<Rightarrow> ('w, 'm) tapi \<Rightarrow> (('w, 'm) stats_rx_scheme, unit) state" where
  "getStats env api =
     (let fail = (\<lambda>e. do { error_toast env e; dispatch GetStatsFailure })
      in do {
        dispatch GetStatsRequest;
        try_call (api_getStats api)
          (\<lambda>st. case rx_normalizeTopStats (st_top_clients st) of
             Inl e \<Rightarrow> fail e
           | Inr rows \<Rightarrow>
               try_call (api_searchClients api (search_params rows))
                 (\<lambda>found. case normalize_report st (rx_addClientInfo rows found) of
                    Inl e \<Rightarrow> fail e
                  | Inr report \<Rightarrow> dispatch (GetStatsSuccess report))
                 fail)
          fail })"

definition resetStats :: "env \<Rightarrow> ('w, 'm) tapi \<Rightarrow> (('w, 'm) stats_rx_scheme, unit) state" where
  "resetStats env api = do {
     dispatch GetStatsRequest;
     try_call (api_resetStats api)
       (\<lambda>_. do { success_toast env ''statistics_cleared''; dispatch ResetStatsSuccess })
       (\<lambda>e. do { error_toast env e; dispatch ResetStatsFailure }) }"

subsection \<open>The retention forms\<close>

text \<open>
  The field of a custom interval: \<open>toNumber\<close> keeps the empty text, and makes of any other a number or \<open>NaN\<close>.
  The two forms have the same code up to the list of the fixed intervals and the values they start with.
\<close>

datatype custom_value = NoValue | NotANumber | Hours rat

definition toNumber :: "string \<Rightarrow> custom_value" where
  "toNumber s = (if s = [] then NoValue else case parseInt s of None \<Rightarrow> NotANumber | Some n \<Rightarrow> Hours (of_int n))"

definition truthy_custom :: "custom_value \<Rightarrow> bool" where
  "truthy_custom v \<longleftrightarrow> (case v of Hours h \<Rightarrow> h \<noteq> 0 | _ \<Rightarrow> False)"

record rx_form =
  form_enabled :: bool
  form_interval :: rat
  form_customInterval :: custom_value
  form_ignored :: string
  form_ignored_enabled :: bool

text \<open>The effect on \<open>intervalValue\<close>.\<close>

definition interval_effect :: "rat list \<Rightarrow> rx_form \<Rightarrow> rx_form" where
  "interval_effect fixed f = (if form_interval f \<in> set fixed then f\<lparr>form_customInterval := NoValue\<rparr> else f)"

definition custom_of :: "rat option \<Rightarrow> custom_value" where
  "custom_of c = (case c of None \<Rightarrow> NoValue | Some h \<Rightarrow> Hours h)"

definition mount_stats_form :: "rx_stats \<Rightarrow> rx_form" where
  "mount_stats_form s = interval_effect rx_intervals \<lparr>form_enabled = nullish (enabled s) False,
     form_interval = interval s, form_customInterval = custom_of (customInterval s),
     form_ignored = (case ignored s of None \<Rightarrow> [] | Some ls \<Rightarrow> join_lines ls),
     form_ignored_enabled = ignored_enabled s\<rparr>"

definition choose_interval :: "rat list \<Rightarrow> rat \<Rightarrow> rx_form \<Rightarrow> rx_form" where
  "choose_interval fixed v f = (if v = form_interval f then f else interval_effect fixed (f\<lparr>form_interval := v\<rparr>))"

definition type_custom :: "string \<Rightarrow> rx_form \<Rightarrow> rx_form" where
  "type_custom text f = f\<lparr>form_customInterval := toNumber text\<rparr>"

definition disableSubmit :: "bool \<Rightarrow> rx_form \<Rightarrow> bool" where
  "disableSubmit busy f \<longleftrightarrow>
     busy \<or> form_interval f = RETENTION_CUSTOM \<and> \<not> truthy_custom (form_customInterval f)"

definition newInterval :: "rx_form \<Rightarrow> rat" where
  "newInterval f = (case form_customInterval f of Hours h \<Rightarrow> if h = 0 then form_interval f else h * HOUR | _ \<Rightarrow> form_interval f)"

definition submitted_config :: "rx_form \<Rightarrow> GetStatsConfigResponse" where
  "submitted_config f = \<lparr>sc_enabled = form_enabled f, sc_interval = newInterval f,
     sc_ignored = (if form_ignored f = [] then [] else split_lines (form_ignored f)),
     sc_ignored_enabled = Some (form_ignored_enabled f)\<rparr>"

text \<open>\<open>confirmed\<close> is the answer to \<open>window.confirm\<close>.\<close>

definition handleFormSubmit :: "env \<Rightarrow> ('w, 'm) tapi \<Rightarrow> bool \<Rightarrow> rx_form \<Rightarrow> (('w, 'm) stats_rx_scheme, unit) state" where
  "handleFormSubmit env api confirmed f = do {
     s \<leftarrow> gets stats_slice;
     (if newInterval f < interval s
      then if confirmed then setStatsConfig env api (submitted_config f) else pass ()
      else setStatsConfig env api (submitted_config f)) }"

definition handleReset :: "env \<Rightarrow> ('w, 'm) tapi \<Rightarrow> bool \<Rightarrow> (('w, 'm) stats_rx_scheme, unit) state" where
  "handleReset env api confirmed = (if confirmed then resetStats env api else pass ())"

subsection \<open>Theorems\<close>

lemma shown_stats_slice [simp]: "ReduxCore.shown ty (c\<lparr>stats_slice := x\<rparr>) = ReduxCore.shown ty c"
  by (simp add: ReduxCore.shown_def)

lemma search_params_alike: "search_params rows = getParamsForClientsSearch rows ts_name (\<lambda>_. None) []"
proof -
  have "foldl (\<lambda>ks r. set_add (ts_name r) ks) ks rows = getParamsForClientsSearch rows ts_name (\<lambda>_. None) ks"
    for ks by (induction rows arbitrary: ks) simp_all
  then show ?thesis by (simp add: search_params_def)
qed

lemma info_keys_alike:
  "map top_info_key (rx_addClientInfo rows found) = map info_key (addClientInfo rows found)"
  by (auto simp: rx_addClientInfo_def addClientInfo_def top_info_key_def info_key_def empty_info_def
      split: option.splits bind_splits)

lemma counts_alike:
  assumes "map top_info_key rs = map info_key ns" "map ts_name rs = map ts_name ns" "map ts_count rs = map ts_count ns"
    "auto_of acc = auto_counts acc'" "configured_of acc = configured_counts acc'"
  shows "auto_of (foldl count_client acc rs) = auto_counts (reduce_clients ns acc') \<and>
    configured_of (foldl count_client acc rs) = configured_counts (reduce_clients ns acc')"
  using assms
proof (induction ns arbitrary: rs acc acc')
  case (Cons n ns)
  then obtain r rs' where "rs = r # rs'" by (cases rs) auto
  with Cons.prems Cons.IH [of rs'] show ?case by (simp add: count_client_def)
qed simp

text \<open>
  The two web interfaces count the clients of one report alike: given the rows of the report and the answer to the search for
  their clients, both look up the same ids and give every address and every client name the same number.
\<close>

theorem clients_count_alike:
  "search_params rows = getParamsForClientsSearch rows ts_name (\<lambda>_. None) [] \<and>
   auto_of (rx_normalizeTopClients (rx_addClientInfo rows found)) = auto_counts (normalizeTopClients (addClientInfo rows found)) \<and>
   configured_of (rx_normalizeTopClients (rx_addClientInfo rows found)) =
     configured_counts (normalizeTopClients (addClientInfo rows found))"
  using search_params_alike
    counts_alike [OF info_keys_alike, of rows found "\<lparr>auto_of = Map.empty, configured_of = Map.empty\<rparr>"
      "\<lparr>auto_counts = Map.empty, configured_counts = Map.empty\<rparr>"]
  by (simp add: rx_normalizeTopClients_def normalizeTopClients_def rx_addClientInfo_def addClientInfo_def comp_def)

text \<open>
  Clearing the statistics starts with the request of loading them and ends with the outcome of clearing: the load is still marked
  as running afterwards, however the request ended, and the mark of the clearing was never set.
\<close>

theorem rx_reset_leaves_load_running:
  assumes "run_state (api_resetStats api) (exec (dispatch GetStatsRequest) c) = (r, d)"
    "stats_slice d = (stats_slice c)\<lparr>processingStats := True\<rparr>"
  shows "processingStats (stats_slice (exec (resetStats env api) c)) \<and>
    (isl r \<longrightarrow> figures (stats_slice (exec (resetStats env api) c)) = figures (stats_slice c)) \<and>
    (\<not> isl r \<longrightarrow> figures (stats_slice (exec (resetStats env api) c)) = defaultStats \<and>
      topUpstreamsResponses (stats_slice (exec (resetStats env api) c)) = topUpstreamsResponses (stats_slice c))"
  using assms by (cases r) (simp_all add: resetStats_def run_try_call)

text \<open>A report that lacks one of its lists is refused as a whole, and what was shown before stays.\<close>

theorem rx_partial_report_refused:
  assumes "run_state (api_getStats api) (exec (dispatch GetStatsRequest) c) = (Inr st, d)" "st_top_clients st = None"
    "stats_slice d = (stats_slice c)\<lparr>processingStats := True\<rparr>"
  shows "stats_slice (exec (getStats env api) c) = (stats_slice c)\<lparr>processingStats := False\<rparr> \<and>
    ReduxCore.shown ERROR (exec (getStats env api) c) = ReduxCore.shown ERROR d @ [''TypeError'']"
  using assms by (simp add: getStats_def run_try_call rx_normalizeTopStats_def Let_def)

subsubsection \<open>What the retention form can save\<close>

text \<open>The form from its first render on; the custom field is shown only while no fixed interval is chosen.\<close>

inductive form_reach :: "rx_stats \<Rightarrow> rx_form \<Rightarrow> bool" for s where
  mount: "form_reach s (mount_stats_form s)"
| choose: "form_reach s f \<Longrightarrow> v \<in> set (RETENTION_CUSTOM # rx_intervals) \<Longrightarrow> form_reach s (choose_interval rx_intervals v f)"
| custom: "form_reach s f \<Longrightarrow> form_interval f \<notin> set rx_intervals \<Longrightarrow> form_reach s (type_custom w f)"
| other: "form_reach s f \<Longrightarrow> form_reach s (f\<lparr>form_enabled := b, form_ignored := t, form_ignored_enabled := i\<rparr>)"

definition form_inv :: "rx_stats \<Rightarrow> rx_form \<Rightarrow> bool" where
  "form_inv s f \<longleftrightarrow> form_interval f \<in> set (RETENTION_CUSTOM # interval s # rx_intervals) \<and>
     (form_interval f \<in> set rx_intervals \<longrightarrow> form_customInterval f = NoValue) \<and>
     (\<forall>h. form_customInterval f = Hours h \<longrightarrow> (\<exists>n. h = of_int n) \<or> customInterval s = Some h)"

lemma form_inv_reach: "form_reach s f \<Longrightarrow> form_inv s f"
proof (induction rule: form_reach.induct)
  case mount
  show ?case by (auto simp: form_inv_def mount_stats_form_def interval_effect_def custom_of_def split: option.splits)
next
  case (choose f v)
  then show ?case by (auto simp: form_inv_def choose_interval_def interval_effect_def)
next
  case (custom f w)
  then show ?case by (auto simp: form_inv_def type_custom_def toNumber_def split: if_splits option.splits)
qed (auto simp: form_inv_def)

lemma hours_not_marker: "of_int n * HOUR \<noteq> RETENTION_CUSTOM"
proof
  assume "of_int n * HOUR = RETENTION_CUSTOM"
  then have "(of_int (n * 3600000) :: rat) = of_int 1" by (simp add: HOUR_def RETENTION_CUSTOM_def)
  then show False by (simp only: of_int_eq_iff zmult_eq_1_iff) simp
qed

text \<open>
  Whatever is done in the retention form of the React client while its save button is enabled, what it sends is a fixed interval, the
  interval stored before, or the hours of the custom field; the marker of the custom choice is never sent as an interval.
\<close>

theorem rx_retention_value:
  assumes "form_reach s f" "\<not> disableSubmit p f" "interval s \<noteq> RETENTION_CUSTOM"
    "\<And>h. customInterval s = Some h \<Longrightarrow> h * HOUR = interval s"
  shows "sc_interval (submitted_config f) \<noteq> RETENTION_CUSTOM \<and>
    (sc_interval (submitted_config f) \<in> set (interval s # rx_intervals) \<or>
     (\<exists>n. n \<noteq> 0 \<and> form_customInterval f = Hours (of_int n) \<and> sc_interval (submitted_config f) = of_int n * HOUR))"
proof -
  have inv: "form_inv s f" using form_inv_reach assms(1) by blast
  have fixed: "RETENTION_CUSTOM \<notin> set rx_intervals"
    by (simp add: rx_intervals_def RETENTION_CUSTOM_def DAY_def HOUR_def)
  show ?thesis
  proof (cases "truthy_custom (form_customInterval f)")
    case True
    then obtain h where h: "form_customInterval f = Hours h" "h \<noteq> 0" by (auto simp: truthy_custom_def split: custom_value.splits)
    then have "(\<exists>n. h = of_int n) \<or> customInterval s = Some h" using inv by (auto simp: form_inv_def)
    then show ?thesis using h hours_not_marker assms(3,4) by (auto simp: submitted_config_def newInterval_def)
  next
    case False
    then have "newInterval f = form_interval f"
      by (auto simp: newInterval_def truthy_custom_def split: custom_value.splits)
    moreover have "form_interval f \<noteq> RETENTION_CUSTOM" using False assms(2) by (auto simp: disableSubmit_def)
    ultimately show ?thesis using inv by (auto simp: submitted_config_def form_inv_def)
  qed
qed

definition stored_two_days :: rx_stats where
  "stored_two_days = stats_initial\<lparr>interval := DAY * 2, customInterval := Some 48\<rparr>"

lemma two_days_form [simp]:
  "form_interval (mount_stats_form stored_two_days) = DAY * 2" "DAY * 2 \<notin> set rx_intervals" "DAY * 2 \<noteq> RETENTION_CUSTOM"
  by (simp_all add: mount_stats_form_def interval_effect_def stored_two_days_def stats_initial_def rx_intervals_def DAY_def
      HOUR_def RETENTION_CUSTOM_def)

lemma two_days_reach: "form_reach stored_two_days (type_custom w (mount_stats_form stored_two_days))"
  by (rule form_reach.custom [OF form_reach.mount]) simp

theorem rx_retention_value_witness:
  "sc_interval (submitted_config (type_custom ''72'' (mount_stats_form stored_two_days))) \<noteq> RETENTION_CUSTOM"
proof -
  have "interval stored_two_days \<noteq> RETENTION_CUSTOM"
    "\<And>h. customInterval stored_two_days = Some h \<Longrightarrow> h * HOUR = interval stored_two_days"
    by (simp_all add: stored_two_days_def DAY_def HOUR_def RETENTION_CUSTOM_def)
  then show ?thesis
    using rx_retention_value [OF two_days_reach [of "''72''"], of False] by (simp add: disableSubmit_def type_custom_def)
qed

text \<open>
  The bounds of the custom field are attributes of a text input and hold nothing back: a negative number of hours can be
  sent. Emptied on a stored custom interval, the field can be saved too, and the old interval is sent.
\<close>

theorem rx_retention_unchecked:
  "let f = type_custom ''-5'' (mount_stats_form stored_two_days); g = type_custom [] (mount_stats_form stored_two_days)
   in form_reach stored_two_days f \<and> \<not> disableSubmit False f \<and> sc_interval (submitted_config f) = - 5 * HOUR \<and>
      form_reach stored_two_days g \<and> \<not> disableSubmit False g \<and> sc_interval (submitted_config g) = DAY * 2"
proof -
  have "parseInt ''-5'' = Some (- 5)" by code_simp
  then have "toNumber ''-5'' = Hours (- 5)" "toNumber [] = NoValue" by (simp_all add: toNumber_def)
  then show ?thesis
    using two_days_reach [of "''-5''"] two_days_reach [of "[]"]
    by (simp add: Let_def disableSubmit_def type_custom_def submitted_config_def newInterval_def)
qed

end
