(* ===== verification/StepResult.thy ===== *)
theory StepResult
  imports TlsForm
begin

section \<open>Results of a wizard step\<close>

text \<open>
  \<^verbatim>\<open>client_v2/src/components/Encryption/blocks/SetupWizard/mapStepResult.ts\<close>: how the answer of a
  TLS check becomes the one message the wizard shows. A check result is an error text (\<open>Inl\<close>) or
  a decoded configuration (\<open>Inr\<close>). \<open>now\<close> is \<open>Date.now()\<close> and \<open>parseDate\<close> is \<open>Date.parse\<close>, with
  \<^const>\<open>None\<close> for \<open>NaN\<close>.
\<close>

subsection \<open>Messages and fields\<close>

datatype MessageKind = KError | KWarning

record StepMessage =
  msg_field :: "string option"
  msg_kind :: MessageKind
  msg_message :: string

definition STEP_FIELDS :: "nat \<Rightarrow> string list" where
  "STEP_FIELDS step =
     (if step = 1 then [''certificate_chain'', ''certificate_path'']
      else if step = 2 then [''private_key'', ''private_key_path'']
      else if step = 3 then [''server_name'', ''port_https'', ''port_dns_over_tls'', ''port_dns_over_quic'']
      else [])"

definition certField :: "EncryptionFormValues \<Rightarrow> string" where
  "certField v = (if certificate_source v = Some ENCRYPTION_SOURCE_PATH then ''certificate_path'' else ''certificate_chain'')"

definition keyFieldOf :: "EncryptionFormValues \<Rightarrow> string" where
  "keyFieldOf v = (if key_source v = Some ENCRYPTION_SOURCE_PATH then ''private_key_path'' else ''private_key'')"

abbreviation err :: "string \<Rightarrow> string \<Rightarrow> StepMessage" where
  "err field text \<equiv> \<lparr>msg_field = Some field, msg_kind = KError, msg_message = text\<rparr>"

abbreviation warn :: "string \<Rightarrow> string \<Rightarrow> StepMessage" where
  "warn field text \<equiv> \<lparr>msg_field = Some field, msg_kind = KWarning, msg_message = text\<rparr>"

subsection \<open>Texts about the certificate and the key\<close>

definition certTextMessage :: "env \<Rightarrow> string \<Rightarrow> string \<Rightarrow> StepMessage option" where
  "certTextMessage env text field =
     (if includes_str text ''reading cert file'' then Some (err field (msg env ''tls_setup_error_read_cert''))
      else if includes_str text ''empty certificate'' then Some (err field (msg env ''tls_setup_error_not_a_cert''))
      else if includes_str text ''parsing certificate at index'' then Some (err field (msg env ''tls_setup_error_parse_cert''))
      else None)"

definition certDatesInvalid :: "int \<Rightarrow> (string \<Rightarrow> int option) \<Rightarrow> string option \<Rightarrow> string option \<Rightarrow> bool" where
  "certDatesInvalid now parseDate notAfter notBefore \<longleftrightarrow>
     (case parseDate (nullish notAfter []) of None \<Rightarrow> False | Some a \<Rightarrow> now > a) \<or>
     (case parseDate (nullish notBefore []) of None \<Rightarrow> False | Some b \<Rightarrow> now < b)"

definition mapCertText :: "env \<Rightarrow> string \<Rightarrow> string \<Rightarrow> bool \<Rightarrow> bool \<Rightarrow> StepMessage" where
  "mapCertText env text field certValid datesInvalid =
     (case certTextMessage env text field of
        Some m \<Rightarrow> m
      | None \<Rightarrow>
          if includes_str text ''certificate does not verify''
          then (if datesInvalid then warn field (msg env ''tls_setup_warning_cert_expired'')
                else warn field (msg env ''tls_setup_warning_cert_untrusted''))
          else if includes_str text ''certificates has no IP addresses''
          then warn field (msg env ''tls_setup_warning_no_ip'')
          else if certValid
          then warn field (if text = [] then msg env ''tls_setup_warning_cert_untrusted'' else text)
          else err field (msg env ''tls_setup_error_parse_cert''))"

definition mapKeyText :: "env \<Rightarrow> string \<Rightarrow> string \<Rightarrow> StepMessage" where
  "mapKeyText env text field =
     (if includes_str text ''reading key file'' then err field (msg env ''tls_setup_error_read_key'')
      else if includes_str text ''no valid keys were found'' then err field (msg env ''tls_setup_error_not_a_key'')
      else if includes_str text ''parsing private key'' then err field (msg env ''tls_setup_error_parse_key'')
      else if includes_str text ''ED25519 keys are not supported'' then err field (msg env ''tls_setup_error_ed25519_key'')
      else if includes_str text ''certificate-key pair'' then err field (msg env ''tls_setup_error_key_mismatch'')
      else err field (if text = [] then msg env ''tls_setup_error_parse_key'' else text))"

subsection \<open>Texts about the configuration\<close>

definition PROTO_FIELDS :: "(string \<times> string) list" where
  "PROTO_FIELDS = [(''HTTPS'', ''port_https''), (''DNS-over-TLS'', ''port_dns_over_tls''),
     (''DNS-over-QUIC'', ''port_dns_over_quic'')]"

text \<open>\<open>/port (\d+) for (HTTPS|DNS-over-TLS|DNS-over-QUIC) is not available/\<close> at the start of a text,
  and the first position where a text matches.\<close>

definition busy_at :: "string \<Rightarrow> (string \<times> string) option" where
  "busy_at s =
     (if \<not> startsWith s ''port '' then None
      else let digits = takeWhile is_digit (drop 5 s); rest = dropWhile is_digit (drop 5 s)
           in if digits = [] then None
              else map_option (\<lambda>proto. (digits, proto))
                (find (\<lambda>proto. startsWith rest ('' for '' @ proto @ '' is not available'')) (map fst PROTO_FIELDS)))"

definition dup_at :: "string \<Rightarrow> string option" where
  "dup_at s =
     (if \<not> startsWith s ''duplicated values: ['' then None
      else let digits = takeWhile is_digit (drop 20 s) in if digits = [] then None else Some digits)"

fun first_match :: "(string \<Rightarrow> 'a option) \<Rightarrow> string \<Rightarrow> 'a option" where
  "first_match here [] = here []"
| "first_match here (c # s) = (case here (c # s) of Some m \<Rightarrow> Some m | None \<Rightarrow> first_match here s)"

definition mapConfigText :: "env \<Rightarrow> string \<Rightarrow> EncryptionFormValues \<Rightarrow> StepMessage option" where
  "mapConfigText env text v =
     (case first_match busy_at text of
        Some (digits, proto) \<Rightarrow> Some \<lparr>msg_field = map_of PROTO_FIELDS proto, msg_kind = KError,
          msg_message = getMessage env ''tls_setup_error_port_busy'' [(''port'', SArg digits), (''protocol'', SArg proto)]\<rparr>
      | None \<Rightarrow>
     (case first_match dup_at text of
        Some digits \<Rightarrow> Some \<lparr>msg_field = None, msg_kind = KError,
          msg_message = getMessage env ''tls_setup_error_duplicate_port'' [(''port'', SArg digits)]\<rparr>
      | None \<Rightarrow>
     (case certTextMessage env text (certField v) of
        Some m \<Rightarrow> Some m
      | None \<Rightarrow>
          if includes_str text ''certificate does not verify''
          then (if includes_str text ''certificate is valid for''
                then Some \<lparr>msg_field = Some ''server_name'', msg_kind = KWarning,
                  msg_message = getMessage env ''tls_setup_warning_server_name_mismatch''
                    [(''hostname'', SArg (nullish (server_name (form v)) []))]\<rparr>
                else Some \<lparr>msg_field = None, msg_kind = KWarning, msg_message = msg env ''tls_setup_warning_cert_untrusted''\<rparr>)
          else if includes_str text ''certificates has no IP addresses''
          then Some \<lparr>msg_field = None, msg_kind = KWarning, msg_message = msg env ''tls_setup_warning_no_ip''\<rparr>
          else if includes_str text ''certificate-key pair'' \<or> includes_str text ''parsing private key''
          then Some (err (keyFieldOf v) (msg env ''tls_setup_error_key_mismatch''))
          else None)))"

subsection \<open>The mapping\<close>

type_synonym ValidationResult = "string + TlsConfig"

definition mapStepResult ::
  "env \<Rightarrow> int \<Rightarrow> (string \<Rightarrow> int option) \<Rightarrow> nat \<Rightarrow> ValidationResult \<Rightarrow> EncryptionFormValues \<Rightarrow> StepMessage option" where
  "mapStepResult env now parseDate step res v =
     (let cert = certField v; key = keyFieldOf v
      in case res of
           Inl text \<Rightarrow> if step \<noteq> 3 then None else mapConfigText env text v
         | Inr r \<Rightarrow>
             let text = nullish (warning_validation r) [];
                 datesInvalid = certDatesInvalid now parseDate (not_after r) (not_before r);
                 vcert = (valid_cert r = Some True); vkey = (valid_key r = Some True); vpair = (valid_pair r = Some True)
             in if step = 1
                then (if vcert \<and> text = [] then None else Some (mapCertText env text cert vcert datesInvalid))
                else if step = 2
                then (if \<not> vcert then Some (mapCertText env text cert False datesInvalid)
                      else if \<not> vkey then Some (mapKeyText env text key)
                      else if \<not> vpair
                      then Some (if text \<noteq> [] then mapKeyText env text key else err key (msg env ''tls_setup_error_key_mismatch''))
                      else if text \<noteq> [] then Some (mapCertText env text cert True datesInvalid)
                      else None)
                else if \<not> (vcert \<and> vkey \<and> vpair) \<and> text = []
                then (if \<not> vcert then Some (err cert (msg env ''tls_setup_error_parse_cert''))
                      else if \<not> vkey then Some (err key (msg env ''tls_setup_error_parse_key''))
                      else Some (err key (msg env ''tls_setup_error_key_mismatch'')))
                else if text \<noteq> [] then mapConfigText env text v else None)"

definition stepOfField :: "string \<Rightarrow> nat option" where
  "stepOfField field = find (\<lambda>step. field \<in> set (STEP_FIELDS step)) [1, 2, 3]"

subsection \<open>Where a message belongs\<close>

lemma stepOfField_simps [simp]:
  "stepOfField ''certificate_chain'' = Some 1" "stepOfField ''certificate_path'' = Some 1"
  "stepOfField ''private_key'' = Some 2" "stepOfField ''private_key_path'' = Some 2"
  "stepOfField ''server_name'' = Some 3" "stepOfField ''port_https'' = Some 3"
  "stepOfField ''port_dns_over_tls'' = Some 3" "stepOfField ''port_dns_over_quic'' = Some 3"
  by (simp_all add: stepOfField_def STEP_FIELDS_def)

lemma owner_cert: "stepOfField (certField v) = Some 1"
  by (simp add: certField_def)

lemma owner_key: "stepOfField (keyFieldOf v) = Some 2"
  by (simp add: keyFieldOf_def)

lemma certTextMessage_field: "certTextMessage env text f = Some m \<Longrightarrow> msg_field m = Some f \<and> msg_kind m = KError"
  by (auto simp: certTextMessage_def split: if_splits)

lemma mapCertText_field: "msg_field (mapCertText env text f valid dates) = Some f"
  by (auto simp: mapCertText_def dest: certTextMessage_field split: option.splits)

lemma mapKeyText_field [simp]: "msg_field (mapKeyText env text f) = Some f" "msg_kind (mapKeyText env text f) = KError"
  by (simp_all add: mapKeyText_def)

lemma PROTO_FIELDS_owner: "map_of PROTO_FIELDS proto = Some f \<Longrightarrow> \<exists>k. stepOfField f = Some k"
  by (auto simp: PROTO_FIELDS_def split: if_splits)

lemma mapConfigText_owner:
  assumes "mapConfigText env text v = Some m" and "msg_field m = Some f"
  shows "stepOfField f \<noteq> None"
proof (cases "certTextMessage env text (certField v)")
  case None
  with assms show ?thesis
    by (auto simp: mapConfigText_def owner_key dest: PROTO_FIELDS_owner split: option.splits if_splits)
next
  case (Some n)
  with certTextMessage_field [OF Some] assms show ?thesis
    by (auto simp: mapConfigText_def owner_cert dest: PROTO_FIELDS_owner split: option.splits)
qed

lemma message_owner:
  assumes "step \<in> {1, 2, 3}" and "mapStepResult env now parseDate step res v = Some m"
  shows "(case msg_field m of None \<Rightarrow> step = 3 | Some f \<Rightarrow> (\<exists>k \<le> step. stepOfField f = Some k))"
proof (cases "step = 3")
  case True
  have le: "k \<le> 3" if "stepOfField f = Some k" for f k
    using that by (auto simp: stepOfField_def split: if_splits)
  have "stepOfField f \<noteq> None" if "msg_field m = Some f" for f
    using assms(2) that True
    by (auto simp: mapStepResult_def Let_def owner_cert owner_key
        dest: mapConfigText_owner split: sum.splits if_splits)
  with True le show ?thesis by (force split: option.splits)
next
  case False
  with assms show ?thesis
    by (auto simp: mapStepResult_def Let_def mapCertText_field owner_cert owner_key
        split: sum.splits if_splits)
qed

text \<open>
  What in a complaint of the server puts a message of the last step at an input: a busy port is shown at the port
  of its protocol, the certificate and the key at the input of the source chosen for them, a
  wrong name at the server name, and below the form stand only the three complaints that name
  no single input.
\<close>

definition busy_text :: "string \<Rightarrow> string \<Rightarrow> bool" where
  "busy_text text proto \<longleftrightarrow> (\<exists>digits. digits \<noteq> [] \<and> (\<forall>d \<in> set digits. is_digit d) \<and>
     includes_str text (''port '' @ digits @ '' for '' @ proto @ '' is not available''))"

definition text_reason :: "string \<Rightarrow> EncryptionFormValues \<Rightarrow> string option \<Rightarrow> bool" where
  "text_reason text v field \<longleftrightarrow> (case field of
     None \<Rightarrow> list_ex (includes_str text)
       [''duplicated values: ['', ''certificate does not verify'', ''certificates has no IP addresses'']
   | Some f \<Rightarrow>
       (\<exists>proto. (proto, f) \<in> set PROTO_FIELDS \<and> busy_text text proto) \<or>
       (f = certField v \<and> list_ex (includes_str text)
          [''reading cert file'', ''empty certificate'', ''parsing certificate at index'']) \<or>
       (f = keyFieldOf v \<and> list_ex (includes_str text) [''certificate-key pair'', ''parsing private key'']) \<or>
       (f = ''server_name'' \<and> includes_str text ''certificate is valid for''))"

lemma first_matchD: "first_match here s = Some x \<Longrightarrow> \<exists>a b. s = a @ b \<and> here b = Some x"
proof (induction s)
  case (Cons c s)
  show ?case
  proof (cases "here (c # s)")
    case None
    with Cons obtain a b where "s = a @ b" "here b = Some x" by auto
    then have "c # s = (c # a) @ b \<and> here b = Some x" by simp
    then show ?thesis by blast
  qed (use Cons.prems in \<open>auto intro: exI [of _ "[]"]\<close>)
qed auto

lemma busy_at_text:
  assumes "first_match busy_at text = Some (digits, proto)"
  shows "busy_text text proto \<and> proto \<in> fst ` set PROTO_FIELDS"
proof -
  from first_matchD [OF assms] obtain a b where ab: "text = a @ b" "busy_at b = Some (digits, proto)" by blast
  let ?rest = "dropWhile is_digit (drop 5 b)"
  have d: "digits = takeWhile is_digit (drop 5 b)" "digits \<noteq> []" "startsWith b ''port ''"
    and f: "find (\<lambda>p. startsWith ?rest ('' for '' @ p @ '' is not available'')) (map fst PROTO_FIELDS) = Some proto"
    using ab(2) by (auto simp: busy_at_def Let_def split: if_splits)
  have p: "startsWith ?rest ('' for '' @ proto @ '' is not available'')" "proto \<in> fst ` set PROTO_FIELDS"
    using f by (auto simp: find_Some_iff)
  obtain r where r: "?rest = ('' for '' @ proto @ '' is not available'') @ r"
    using p(1) by (auto simp: startsWith_iff)
  have "drop 5 b = digits @ ?rest" by (simp add: d(1))
  moreover have "b = ''port '' @ drop 5 b" using d(3) by (auto simp: startsWith_iff)
  ultimately have "text = a @ (''port '' @ digits @ '' for '' @ proto @ '' is not available'') @ r"
    using r ab(1) by (metis append_assoc)
  moreover have "\<forall>d \<in> set digits. is_digit d" by (auto simp: d(1) dest: set_takeWhileD)
  ultimately show ?thesis using d(2) p(2) unfolding busy_text_def includes_str_iff by blast
qed

lemma dup_at_text:
  assumes "first_match dup_at text = Some digits"
  shows "includes_str text ''duplicated values: [''"
proof -
  from first_matchD [OF assms] obtain a b where "text = a @ b" "startsWith b ''duplicated values: [''"
    by (auto simp: dup_at_def split: if_splits)
  then show ?thesis by (auto simp: startsWith_iff includes_str_iff)
qed

lemma PROTO_FIELDS_of: "proto \<in> fst ` set PROTO_FIELDS \<Longrightarrow> \<exists>f. map_of PROTO_FIELDS proto = Some f \<and> (proto, f) \<in> set PROTO_FIELDS"
  by (auto simp: PROTO_FIELDS_def)

lemma certTextMessage_text:
  "certTextMessage env text f = Some m \<Longrightarrow> msg_field m = Some f \<and>
     list_ex (includes_str text) [''reading cert file'', ''empty certificate'', ''parsing certificate at index'']"
  by (auto simp: certTextMessage_def split: if_splits)

lemma mapConfigText_reason:
  assumes "mapConfigText env text v = Some m"
  shows "text_reason text v (msg_field m)"
proof (cases "first_match busy_at text")
  case (Some x)
  obtain digits proto where x: "x = (digits, proto)" by force
  from Some x have b: "first_match busy_at text = Some (digits, proto)" by simp
  from busy_at_text [OF b] obtain f where "busy_text text proto" "map_of PROTO_FIELDS proto = Some f"
    "(proto, f) \<in> set PROTO_FIELDS" using PROTO_FIELDS_of by blast
  with assms b show ?thesis by (auto simp: mapConfigText_def text_reason_def)
next
  case busy: None
  show ?thesis
  proof (cases "first_match dup_at text")
    case (Some d)
    from dup_at_text [OF Some] assms busy Some show ?thesis
      by (auto simp: mapConfigText_def text_reason_def)
  next
    case None
    from assms busy None show ?thesis
      by (auto simp: mapConfigText_def text_reason_def dest: certTextMessage_text split: option.splits if_splits)
  qed
qed


text \<open>
  The key step is clean exactly when the certificate, the key and the pair are valid and there
  is no complaint; and with a valid certificate, it blocks at the key field whenever the key or the
  pair is not valid.
\<close>

theorem key_step_verdict:
  "(mapStepResult env now parseDate 2 (Inr r) v = None \<longleftrightarrow>
     valid_cert r = Some True \<and> valid_key r = Some True \<and> valid_pair r = Some True \<and>
     nullish (warning_validation r) [] = []) \<and>
   (valid_cert r = Some True \<and> \<not> (valid_key r = Some True \<and> valid_pair r = Some True) \<longrightarrow>
     (\<exists>text. mapStepResult env now parseDate 2 (Inr r) v = Some (err (keyFieldOf v) text)))"
proof -
  have "\<exists>text. mapKeyText env t f = err f text" for t f
    by (simp add: mapKeyText_def)
  then show ?thesis by (auto simp: mapStepResult_def Let_def)
qed

theorem key_step_verdict_witness:
  "\<exists>text. mapStepResult sample_env 0 (\<lambda>_. None) 2
     (Inr (empty_tls\<lparr>valid_cert := Some True, warning_validation := Some ''parsing private key: eof''\<rparr>))
     defaultTlsValues = Some (err ''private_key_path'' text)"
  using key_step_verdict [of sample_env 0 "\<lambda>_. None"
      "empty_tls\<lparr>valid_cert := Some True, warning_validation := Some ''parsing private key: eof''\<rparr>" defaultTlsValues]
  by (simp add: keyFieldOf_def defaultTlsValues_def empty_tls_def)

subsection \<open>What blocks\<close>

text \<open>
  A complaint of the chain verification, and none of the decisive texts beside it.
\<close>

definition only_unverified :: "string \<Rightarrow> bool" where
  "only_unverified text \<longleftrightarrow> includes_str text ''certificate does not verify'' \<and>
     \<not> includes_str text ''reading cert file'' \<and> \<not> includes_str text ''empty certificate'' \<and>
     \<not> includes_str text ''parsing certificate at index'' \<and>
     first_match busy_at text = None \<and> first_match dup_at text = None"

text \<open>
  An untrusted, expired or misnamed certificate never blocks: when the certificate, key and pair
  are valid and the only complaint is that the chain does not verify, every step shows a warning,
  and step 3 moves it to the server name when the name is the reason.
\<close>

theorem unverified_chain_only_warns:
  assumes "step \<in> {1, 2, 3}" and "only_unverified text" and "warning_validation r = Some text"
    and "valid_cert r = Some True" "valid_key r = Some True" "valid_pair r = Some True"
  shows "\<exists>m. mapStepResult env now parseDate step (Inr r) v = Some m \<and> msg_kind m = KWarning \<and>
    (step \<noteq> 3 \<longrightarrow> msg_field m = Some (certField v)) \<and>
    (step = 3 \<longrightarrow> msg_field m = (if includes_str text ''certificate is valid for'' then Some ''server_name'' else None))"
proof -
  have ne: "text \<noteq> []" using assms(2) by (auto simp: only_unverified_def includes_str_iff)
  have no: "certTextMessage env text f = None" for f
    using assms(2) by (simp add: certTextMessage_def only_unverified_def)
  show ?thesis
    using assms ne by (auto simp: mapStepResult_def mapCertText_def mapConfigText_def no only_unverified_def Let_def)
qed

definition expired_reply :: TlsConfig where
  "expired_reply = empty_tls\<lparr>warning_validation := Some ''certificate does not verify: expired'',
     valid_cert := Some True, valid_key := Some True, valid_pair := Some True\<rparr>"

theorem unverified_chain_only_warns_witness:
  "\<exists>m. mapStepResult sample_env 5 (\<lambda>d. if d = [] then None else Some 4) 3 (Inr expired_reply) defaultTlsValues = Some m
     \<and> msg_kind m = KWarning \<and> msg_field m = None"
proof -
  have "only_unverified ''certificate does not verify: expired''"
    by (simp add: only_unverified_def includes_str_def busy_at_def dup_at_def)
  from unverified_chain_only_warns [OF _ this, of 3 expired_reply sample_env 5 "\<lambda>d. if d = [] then None else Some 4" defaultTlsValues]
  show ?thesis by (auto simp: expired_reply_def includes_str_def split: if_splits)
qed

text \<open>
  The server's report of a busy port reaches its input: for the text \<open>port N for P is not
  available\<close> that the server writes, step 3 shows an error under the port field of protocol \<open>P\<close>,
  naming port \<open>N\<close> and the protocol.
\<close>

theorem busy_port_reaches_field:
  assumes "(proto, field) \<in> set PROTO_FIELDS"
  shows "mapStepResult env now parseDate 3
      (Inl (''port '' @ show_nat n @ '' for '' @ proto @ '' is not available'' @ more_text)) v =
    Some (err field (getMessage env ''tls_setup_error_port_busy''
      [(''port'', SArg (show_nat n)), (''protocol'', SArg proto)]))"
proof -
  let ?s = "''port '' @ show_nat n @ '' for '' @ proto @ '' is not available'' @ more_text"
  let ?t = "'' for '' @ proto @ '' is not available'' @ more_text"
  have digits: "\<forall>c \<in> set (show_nat n). is_digit c" by (simp add: show_nat_digits)
  have nz: "\<not> is_digit (CHR '' '')" by (simp add: is_digit_def code_def)
  have tw: "takeWhile is_digit (show_nat n @ ?t) = show_nat n" "dropWhile is_digit (show_nat n @ ?t) = ?t"
    using digits nz by (simp_all add: takeWhile_append dropWhile_append)
  have f: "find (\<lambda>p. startsWith ?t ('' for '' @ p @ '' is not available'')) (map fst PROTO_FIELDS) = Some proto"
    using assms by (auto simp: PROTO_FIELDS_def)
  have "startsWith ?s ''port ''" "drop 5 ?s = show_nat n @ ?t" "show_nat n \<noteq> []" by simp_all
  then have "busy_at ?s = Some (show_nat n, proto)"
    unfolding busy_at_def Let_def by (simp only: tw f if_False not_True_eq_False option.map)
  then have "first_match busy_at ?s = Some (show_nat n, proto)" by simp
  moreover have "map_of PROTO_FIELDS proto = Some field"
    using assms by (auto simp: PROTO_FIELDS_def)
  ultimately show ?thesis unfolding mapStepResult_def mapConfigText_def by simp
qed

theorem busy_port_reaches_field_witness:
  "mapStepResult sample_env 0 (\<lambda>_. None) 3 (Inl ''port 853 for DNS-over-QUIC is not available'') defaultTlsValues =
     Some (err ''port_dns_over_quic'' ''tls_setup_error_port_busy'')"
proof -
  have "show_nat 853 = ''853''" by code_simp
  with busy_port_reaches_field [of "''DNS-over-QUIC''" "''port_dns_over_quic''" sample_env 0 "\<lambda>_. None" 853 "[]" defaultTlsValues]
  show ?thesis by (simp add: PROTO_FIELDS_def sample_env_def)
qed


end
