(* ===== verification/Wizard.thy ===== *)
theory Wizard
  imports StepResult
begin

section \<open>The TLS setup wizard\<close>

text \<open>
  \<^verbatim>\<open>useStepCheck.ts\<close>, \<^verbatim>\<open>pemFields.ts\<close> and the handlers of \<^verbatim>\<open>TlsSetupWizard.tsx\<close>, all in
  \<^verbatim>\<open>client_v2/src/components/Encryption/blocks/SetupWizard\<close>. An asynchronous function is cut at
  its \<open>await\<close>: the first half records an outstanding request, with what the second half needs,
  and the second half runs when an answer arrives. Answers arrive in any order and between any
  two actions of the user, so \<open>wizard_reach\<close> covers every interleaving.
\<close>

subsection \<open>State\<close>

text \<open>Who waits for a check: the debounced pre-check, the button of steps 1 and 2 (with the message
  shown at the click and the step it started from), or the Enable button.\<close>

datatype purpose =
    Debounced
  | Advance "StepMessage option" nat
  | Enable "StepMessage option"

record flight =
  fl_id :: nat
  fl_step :: nat
  fl_purpose :: purpose

record Wizard =
  w_open :: bool
  w_step :: nat
  w_values :: EncryptionFormValues
  w_errors :: errors
  saving :: bool
  checked :: "StepMessage option"
  validating :: bool
  timer :: "nat option"
  checkId :: nat
  flights :: "flight list"
  pendingSaves :: "TlsConfig list"

text \<open>What the wizard reads from its surroundings: translations, number and date parsing, the clock,
  and the ports of the other settings. All of it may change from one event to the next.\<close>

record surroundings =
  lang_env :: env
  strNumber :: "string \<Rightarrow> int"
  dateParse :: "string \<Rightarrow> int option"
  clock :: int
  otherPorts :: ExternalPorts

subsection \<open>Per-step checks\<close>

definition clear :: "Wizard \<Rightarrow> Wizard" where
  "clear w = w\<lparr>checkId := checkId w + 1, timer := None, checked := None, validating := False\<rparr>"

definition message :: "Wizard \<Rightarrow> StepMessage option" where
  "message w =
     (case checked w of
        None \<Rightarrow> None
      | Some m \<Rightarrow> if msg_kind m = KError then Some m
                  else if nullish (msg_field m) [] \<in> set (STEP_FIELDS (w_step w)) then Some m else None)"

definition schedule :: "nat \<Rightarrow> Wizard \<Rightarrow> Wizard" where
  "schedule step w = w\<lparr>timer := Some step\<rparr>"

definition cancel :: "Wizard \<Rightarrow> Wizard" where
  "cancel w = w\<lparr>timer := None\<rparr>"

text \<open>\<open>run\<close> up to its \<open>await\<close>.\<close>

definition run_start :: "purpose \<Rightarrow> nat \<Rightarrow> Wizard \<Rightarrow> Wizard" where
  "run_start p step w = w\<lparr>checkId := checkId w + 1, validating := True,
     flights := flights w @ [\<lparr>fl_id = checkId w + 1, fl_step = step, fl_purpose = p\<rparr>]\<rparr>"

definition sameMessage :: "StepMessage option \<Rightarrow> StepMessage option \<Rightarrow> bool" where
  "sameMessage a b =
     (case (a, b) of
        (Some x, Some y) \<Rightarrow> msg_kind x = msg_kind y \<and> msg_field x = msg_field y \<and> msg_message x = msg_message y
      | _ \<Rightarrow> False)"

definition fail :: "string \<Rightarrow> Wizard \<Rightarrow> Wizard" where
  "fail text w = w\<lparr>checked := Some \<lparr>msg_field = None, msg_kind = KError, msg_message = text\<rparr>\<rparr>"

definition blocked :: "Wizard \<Rightarrow> bool" where
  "blocked w = (case message w of None \<Rightarrow> False | Some m \<Rightarrow> msg_kind m = KError)"

definition hasWarning :: "Wizard \<Rightarrow> bool" where
  "hasWarning w = (case message w of None \<Rightarrow> False | Some m \<Rightarrow> msg_kind m = KWarning)"

definition fieldError :: "string \<Rightarrow> Wizard \<Rightarrow> string option" where
  "fieldError field w =
     (case message w of
        None \<Rightarrow> None
      | Some m \<Rightarrow> if msg_field m = Some field \<and> msg_kind m = KError then Some (msg_message m) else None)"

definition fieldWarning :: "string \<Rightarrow> Wizard \<Rightarrow> string option" where
  "fieldWarning field w =
     (case message w of
        None \<Rightarrow> None
      | Some m \<Rightarrow> if msg_field m = Some field \<and> msg_kind m = KWarning then Some (msg_message m) else None)"

definition formMessage :: "Wizard \<Rightarrow> StepMessage option" where
  "formMessage w =
     (case message w of
        None \<Rightarrow> None
      | Some m \<Rightarrow> if nullish (msg_field m) [] \<in> set (STEP_FIELDS (w_step w)) then None else Some m)"

subsection \<open>Values, steps and the pre-flight effect\<close>

text \<open>\<open>Object.values(errs).some(Boolean)\<close>; the validators write no other fields than these.\<close>

definition FORM_FIELDS :: "string list" where
  "FORM_FIELDS = [''certificate_chain'', ''certificate_path'', ''private_key'', ''private_key_path'',
     ''server_name'', ''port_https'', ''port_dns_over_tls'', ''port_dns_over_quic'', ''serve_plain_dns'']"

definition some_error :: "errors \<Rightarrow> bool" where
  "some_error errs = list_ex (\<lambda>f. truthy_str (errs f)) FORM_FIELDS"

definition clientErrors :: "surroundings \<Rightarrow> Wizard \<Rightarrow> errors" where
  "clientErrors S w = validateEncryptionForm (lang_env S) (strNumber S) (w_values w) (Some (otherPorts S))"

text \<open>The effect that schedules the pre-check of step 3. It runs after its inputs change.\<close>

definition preflight :: "surroundings \<Rightarrow> Wizard \<Rightarrow> Wizard" where
  "preflight S w =
     (if w_step w \<noteq> 3 then w
      else if some_error (clientErrors S w) then w
      else schedule 3 w)"

definition setStep :: "surroundings \<Rightarrow> nat \<Rightarrow> Wizard \<Rightarrow> Wizard" where
  "setStep S k w = (if w_step w = k then w else preflight S (w\<lparr>w_step := k\<rparr>))"

definition setValues :: "surroundings \<Rightarrow> (EncryptionFormValues \<Rightarrow> EncryptionFormValues) \<Rightarrow> Wizard \<Rightarrow> Wizard" where
  "setValues S f w = (if f (w_values w) = w_values w then w else preflight S (w\<lparr>w_values := f (w_values w)\<rparr>))"

definition clearError :: "string \<Rightarrow> Wizard \<Rightarrow> Wizard" where
  "clearError field w = w\<lparr>w_errors := (w_errors w)(field := None)\<rparr>"

definition setFieldError :: "string \<Rightarrow> string option \<Rightarrow> Wizard \<Rightarrow> Wizard" where
  "setFieldError field e w = w\<lparr>w_errors := (w_errors w)(field := (if truthy_str e then e else None))\<rparr>"

definition resetValidation :: "string list \<Rightarrow> Wizard \<Rightarrow> Wizard" where
  "resetValidation fs w = clear (foldl (\<lambda>w f. clearError f w) w fs)"

subsection \<open>The end of a check\<close>

text \<open>\<open>run\<close> after its \<open>await\<close>; the outstanding request has been removed.\<close>

definition run_finish ::
  "surroundings \<Rightarrow> flight \<Rightarrow> ValidationResult \<Rightarrow> Wizard \<Rightarrow> StepMessage option \<times> Wizard" where
  "run_finish S fl res w =
     (if fl_id fl \<noteq> checkId w then (None, w)
      else let result = mapStepResult (lang_env S) (clock S) (dateParse S) (fl_step fl) res (w_values w);
               w1 = w\<lparr>validating := False, checked := result\<rparr>;
               owner = (case result of
                  Some m \<Rightarrow> if msg_kind m = KError \<and> truthy_str (msg_field m)
                             then stepOfField (the (msg_field m)) else None
                | None \<Rightarrow> None)
           in (result, case owner of
                 Some k \<Rightarrow> if k < fl_step fl then setStep S k w1 else w1
               | None \<Rightarrow> w1))"

text \<open>\<open>requestAdvance\<close> after its \<open>await\<close>: may the caller go on?\<close>

definition mayPass :: "StepMessage option \<Rightarrow> StepMessage option \<Rightarrow> Wizard \<Rightarrow> bool" where
  "mayPass shown verdict w =
     (case verdict of
        None \<Rightarrow> True
      | Some m \<Rightarrow> if msg_kind m = KError then False
                  else if message w = None then True
                  else sameMessage shown verdict)"

definition submitValues :: "Wizard \<Rightarrow> TlsConfig" where
  "submitValues w = getSubmitValues ((w_values w)
     \<lparr>form := (form (w_values w))\<lparr>tls_enabled := Some True, serve_plain_dns := Some True\<rparr>\<rparr>)"

text \<open>An answer arrives for a check that is outstanding.\<close>

definition answer :: "surroundings \<Rightarrow> flight \<Rightarrow> ValidationResult \<Rightarrow> Wizard \<Rightarrow> Wizard" where
  "answer S fl res w0 =
     (let (result, w) = run_finish S fl res (w0\<lparr>flights := remove1 fl (flights w0)\<rparr>)
      in case fl_purpose fl of
           Debounced \<Rightarrow> w
         | Advance shown from \<Rightarrow> if mayPass shown result w then setStep S (from + 1) w else w
         | Enable shown \<Rightarrow>
             if mayPass shown result w then w\<lparr>pendingSaves := pendingSaves w @ [submitValues w]\<rparr>
             else w\<lparr>saving := False\<rparr>)"

subsection \<open>Opening and closing\<close>

definition onClose :: "Wizard \<Rightarrow> Wizard" where
  "onClose w = (if w_open w then clear (w\<lparr>w_open := False\<rparr>) else w)"

definition port_or_default :: "(string \<Rightarrow> int) \<Rightarrow> port_value option \<Rightarrow> int \<Rightarrow> port_value option" where
  "port_or_default toNumber p d = Some (PNum (if number_or_0 toNumber p = 0 then d else number_or_0 toNumber p))"

definition onOpen :: "surroundings \<Rightarrow> TlsConfig \<Rightarrow> Wizard \<Rightarrow> Wizard" where
  "onOpen S store w =
     (if w_open w then w
      else (clear w)\<lparr>w_open := True, w_step := 1,
        w_values := defaultTlsValues\<lparr>
          form := (form defaultTlsValues)\<lparr>
            tls_enabled := Some (nullish (tls_enabled store) False), serve_plain_dns := Some True,
            server_name := Some (nullish (server_name store) []),
            force_https := Some (nullish (force_https store) False),
            port_https := port_or_default (strNumber S) (port_https store) STANDARD_HTTPS_PORT,
            port_dns_over_tls := port_or_default (strNumber S) (port_dns_over_tls store) 853,
            port_dns_over_quic := port_or_default (strNumber S) (port_dns_over_quic store) 853,
            private_key_saved := Some False\<rparr>,
          certificate_source := Some ENCRYPTION_SOURCE_CONTENT, key_source := Some ENCRYPTION_SOURCE_CONTENT\<rparr>,
        w_errors := Map.empty, saving := False\<rparr>)"

text \<open>The save that Enable started returns.\<close>

definition save_returns :: "surroundings \<Rightarrow> TlsConfig \<Rightarrow> bool \<Rightarrow> Wizard \<Rightarrow> Wizard" where
  "save_returns S payload ok_res w0 =
     (let w = w0\<lparr>pendingSaves := remove1 payload (pendingSaves w0)\<rparr>
      in (if ok_res then onClose w else fail (msg (lang_env S) ''tls_setup_error_enable_failed'') w)\<lparr>saving := False\<rparr>)"

subsection \<open>Certificate and key inputs\<close>

text \<open>The two configurations of \<open>createPemFields\<close>, by the fields they read and write.\<close>

datatype pem = CERT_CONFIG | KEY_CONFIG

fun content_field :: "pem \<Rightarrow> string" where
  "content_field CERT_CONFIG = ''certificate_chain''"
| "content_field KEY_CONFIG = ''private_key''"

fun path_field :: "pem \<Rightarrow> string" where
  "path_field CERT_CONFIG = ''certificate_path''"
| "path_field KEY_CONFIG = ''private_key_path''"

fun sourceValue :: "pem \<Rightarrow> EncryptionFormValues \<Rightarrow> string option" where
  "sourceValue CERT_CONFIG v = certificate_source v"
| "sourceValue KEY_CONFIG v = key_source v"

fun set_source :: "pem \<Rightarrow> string \<Rightarrow> EncryptionFormValues \<Rightarrow> EncryptionFormValues" where
  "set_source CERT_CONFIG s v = v\<lparr>certificate_source := Some s\<rparr>"
| "set_source KEY_CONFIG s v = v\<lparr>key_source := Some s\<rparr>"

fun set_content :: "pem \<Rightarrow> string \<Rightarrow> EncryptionFormValues \<Rightarrow> EncryptionFormValues" where
  "set_content CERT_CONFIG s v = v\<lparr>form := (form v)\<lparr>certificate_chain := Some s\<rparr>\<rparr>"
| "set_content KEY_CONFIG s v = v\<lparr>form := (form v)\<lparr>private_key := Some s\<rparr>\<rparr>"

fun set_path :: "pem \<Rightarrow> string \<Rightarrow> EncryptionFormValues \<Rightarrow> EncryptionFormValues" where
  "set_path CERT_CONFIG s v = v\<lparr>form := (form v)\<lparr>certificate_path := Some s\<rparr>\<rparr>"
| "set_path KEY_CONFIG s v = v\<lparr>form := (form v)\<lparr>private_key_path := Some s\<rparr>\<rparr>"

fun contentValue :: "pem \<Rightarrow> EncryptionFormValues \<Rightarrow> string" where
  "contentValue CERT_CONFIG v = nullish (certificate_chain (form v)) []"
| "contentValue KEY_CONFIG v = nullish (private_key (form v)) []"

fun pathValue :: "pem \<Rightarrow> EncryptionFormValues \<Rightarrow> string" where
  "pathValue CERT_CONFIG v = nullish (certificate_path (form v)) []"
| "pathValue KEY_CONFIG v = nullish (private_key_path (form v)) []"

definition fieldValue :: "pem \<Rightarrow> EncryptionFormValues \<Rightarrow> string" where
  "fieldValue p v = (if sourceValue p v = Some ENCRYPTION_SOURCE_CONTENT then contentValue p v else pathValue p v)"

fun pem_validate :: "pem \<Rightarrow> env \<Rightarrow> EncryptionFormValues \<Rightarrow> errors" where
  "pem_validate CERT_CONFIG = validateCertFields"
| "pem_validate KEY_CONFIG = validateKeyFields"

fun pem_step :: "pem \<Rightarrow> nat" where
  "pem_step CERT_CONFIG = 1"
| "pem_step KEY_CONFIG = 2"

definition handleSourceChange :: "surroundings \<Rightarrow> pem \<Rightarrow> string \<Rightarrow> Wizard \<Rightarrow> Wizard" where
  "handleSourceChange S p s w = setValues S (set_source p s) (resetValidation [content_field p, path_field p] w)"

definition handleContentChange :: "surroundings \<Rightarrow> pem \<Rightarrow> string \<Rightarrow> Wizard \<Rightarrow> Wizard" where
  "handleContentChange S p s w = setValues S (set_content p s) (resetValidation [content_field p] w)"

definition handlePathChange :: "surroundings \<Rightarrow> pem \<Rightarrow> string \<Rightarrow> Wizard \<Rightarrow> Wizard" where
  "handlePathChange S p s w = setValues S (set_path p s) (resetValidation [path_field p] w)"

definition handleFileSelect :: "surroundings \<Rightarrow> pem \<Rightarrow> string \<Rightarrow> Wizard \<Rightarrow> Wizard" where
  "handleFileSelect S p s w =
     setValues S (set_source p ENCRYPTION_SOURCE_CONTENT)
       (setValues S (set_content p s) (resetValidation [content_field p, path_field p] w))"

definition handleClear :: "surroundings \<Rightarrow> pem \<Rightarrow> Wizard \<Rightarrow> Wizard" where
  "handleClear S p w = setValues S (set_content p []) (resetValidation [content_field p] w)"

definition validateOnBlur :: "surroundings \<Rightarrow> pem \<Rightarrow> Wizard \<Rightarrow> Wizard" where
  "validateOnBlur S p w =
     (if trim (fieldValue p (w_values w)) = [] then w
      else let errs = pem_validate p (lang_env S) (w_values w);
               w1 = w\<lparr>w_errors := w_errors w ++ errs\<rparr>
           in if some_error errs then clear w1 else schedule (pem_step p) w1)"

subsection \<open>The buttons and the configuration fields\<close>

definition goToNextStep :: "surroundings \<Rightarrow> Wizard \<Rightarrow> Wizard" where
  "goToNextStep S w =
     (let from = w_step w
      in if from = 3 then w
         else let errs = pem_validate (if from = 1 then CERT_CONFIG else KEY_CONFIG) (lang_env S) (w_values w);
                  w1 = (cancel w)\<lparr>w_errors := errs\<rparr>
              in if some_error errs then w1 else run_start (Advance (message w1) from) from w1)"

datatype ServerSettingsField = SF_server_name | SF_port_https | SF_port_dns_over_tls | SF_port_dns_over_quic

fun sf_name :: "ServerSettingsField \<Rightarrow> string" where
  "sf_name SF_server_name = ''server_name''"
| "sf_name SF_port_https = ''port_https''"
| "sf_name SF_port_dns_over_tls = ''port_dns_over_tls''"
| "sf_name SF_port_dns_over_quic = ''port_dns_over_quic''"

text \<open>\<open>toNumber\<close> of \<^verbatim>\<open>helpers/form.tsx\<close>: the empty string stays, other text is its number. A \<open>NaN\<close>
  is kept as the empty string, as which it behaves wherever a port is read.\<close>

definition form_toNumber :: "string \<Rightarrow> port_value" where
  "form_toNumber s = (if s = [] then PStr [] else case parseInt s of Some n \<Rightarrow> PNum n | None \<Rightarrow> PStr [])"

fun set_config :: "ServerSettingsField \<Rightarrow> string \<Rightarrow> EncryptionFormValues \<Rightarrow> EncryptionFormValues" where
  "set_config SF_server_name s v = v\<lparr>form := (form v)\<lparr>server_name := Some s\<rparr>\<rparr>"
| "set_config SF_port_https s v = v\<lparr>form := (form v)\<lparr>port_https := Some (form_toNumber s)\<rparr>\<rparr>"
| "set_config SF_port_dns_over_tls s v = v\<lparr>form := (form v)\<lparr>port_dns_over_tls := Some (form_toNumber s)\<rparr>\<rparr>"
| "set_config SF_port_dns_over_quic s v = v\<lparr>form := (form v)\<lparr>port_dns_over_quic := Some (form_toNumber s)\<rparr>\<rparr>"

fun config_port :: "ServerSettingsField \<Rightarrow> EncryptionFormValues \<Rightarrow> port_value option" where
  "config_port SF_server_name v = None"
| "config_port SF_port_https v = port_https (form v)"
| "config_port SF_port_dns_over_tls v = port_dns_over_tls (form v)"
| "config_port SF_port_dns_over_quic v = port_dns_over_quic (form v)"

definition handleConfigFieldChange ::
  "surroundings \<Rightarrow> ServerSettingsField \<Rightarrow> string \<Rightarrow> Wizard \<Rightarrow> Wizard" where
  "handleConfigFieldChange S f s w = setValues S (set_config f s) (resetValidation [sf_name f] w)"

definition handleConfigFieldBlur :: "surroundings \<Rightarrow> ServerSettingsField \<Rightarrow> Wizard \<Rightarrow> Wizard" where
  "handleConfigFieldBlur S f w =
     (if f = SF_server_name
      then let normalized = normalizeServerName (nullish (server_name (form (w_values w))) [])
           in setFieldError ''server_name'' (validateServerName (lang_env S) (Some normalized))
                (setValues S (set_config f normalized) w)
      else setFieldError (sf_name f)
        (validatePortField (lang_env S) (sf_name f) (number_or_0 (strNumber S) (config_port f (w_values w)))) w)"

definition handleGoBack :: "surroundings \<Rightarrow> Wizard \<Rightarrow> Wizard" where
  "handleGoBack S w =
     (let w1 = clear (w\<lparr>w_errors := Map.empty\<rparr>)
      in setStep S (if w_step w1 > 1 then w_step w1 - 1 else w_step w1) w1)"

definition handleEnable :: "surroundings \<Rightarrow> Wizard \<Rightarrow> Wizard" where
  "handleEnable S w =
     (let w1 = cancel w; errs = clientErrors S w1
      in if some_error errs then w1\<lparr>w_errors := errs\<rparr>
         else run_start (Enable (message w1)) 3 (w1\<lparr>saving := True\<rparr>))"

definition enableDisabled :: "surroundings \<Rightarrow> Wizard \<Rightarrow> bool" where
  "enableDisabled S w \<longleftrightarrow> saving w \<or> validating w \<or> some_error (clientErrors S w) \<or> blocked w"

subsection \<open>Reachable states\<close>

text \<open>\<open>createStepCheck\<close> and the first run of the effect on \<open>props.open\<close>.\<close>

definition fresh_wizard :: Wizard where
  "fresh_wizard = clear \<lparr>w_open = False, w_step = 1, w_values = defaultTlsValues, w_errors = Map.empty,
     saving = False, checked = None, validating = False, timer = None, checkId = 0, flights = [],
     pendingSaves = []\<rparr>"

text \<open>
  The buttons react only while they are enabled. Timers fire and answers arrive at any time, also
  after the dialog was closed.
\<close>

inductive wizard_reach :: "Wizard \<Rightarrow> bool" where
  fresh: "wizard_reach fresh_wizard"
| opened: "wizard_reach w \<Longrightarrow> wizard_reach (onOpen S store w)"
| closed: "wizard_reach w \<Longrightarrow> wizard_reach (onClose w)"
| source: "wizard_reach w \<Longrightarrow> w_open w \<Longrightarrow> w_step w = pem_step p \<Longrightarrow> wizard_reach (handleSourceChange S p s w)"
| content: "wizard_reach w \<Longrightarrow> w_open w \<Longrightarrow> w_step w = pem_step p \<Longrightarrow> wizard_reach (handleContentChange S p s w)"
| path: "wizard_reach w \<Longrightarrow> w_open w \<Longrightarrow> w_step w = pem_step p \<Longrightarrow> wizard_reach (handlePathChange S p s w)"
| fileSelect: "wizard_reach w \<Longrightarrow> w_open w \<Longrightarrow> w_step w = pem_step p \<Longrightarrow> wizard_reach (handleFileSelect S p s w)"
| cleared: "wizard_reach w \<Longrightarrow> w_open w \<Longrightarrow> w_step w = pem_step p \<Longrightarrow> wizard_reach (handleClear S p w)"
| blur: "wizard_reach w \<Longrightarrow> w_open w \<Longrightarrow> w_step w = pem_step p \<Longrightarrow> wizard_reach (validateOnBlur S p w)"
| nextStep: "wizard_reach w \<Longrightarrow> w_open w \<Longrightarrow> \<not> validating w \<Longrightarrow> wizard_reach (goToNextStep S w)"
| config: "wizard_reach w \<Longrightarrow> w_open w \<Longrightarrow> w_step w = 3 \<Longrightarrow> wizard_reach (handleConfigFieldChange S f s w)"
| configBlur: "wizard_reach w \<Longrightarrow> w_open w \<Longrightarrow> w_step w = 3 \<Longrightarrow> wizard_reach (handleConfigFieldBlur S f w)"
| goBack: "wizard_reach w \<Longrightarrow> w_open w \<Longrightarrow> wizard_reach (handleGoBack S w)"
| enable: "wizard_reach w \<Longrightarrow> w_open w \<Longrightarrow> w_step w = 3 \<Longrightarrow> \<not> enableDisabled S w \<Longrightarrow> wizard_reach (handleEnable S w)"
| ports: "wizard_reach w \<Longrightarrow> wizard_reach (preflight S w)"
| timeout: "wizard_reach w \<Longrightarrow> timer w = Some k \<Longrightarrow> wizard_reach (run_start Debounced k (cancel w))"
| answered: "wizard_reach w \<Longrightarrow> fl \<in> set (flights w) \<Longrightarrow> wizard_reach (answer S fl res w)"
| saved: "wizard_reach w \<Longrightarrow> payload \<in> set (pendingSaves w) \<Longrightarrow> wizard_reach (save_returns S payload success w)"

subsection \<open>What each operation leaves alone\<close>

lemma schedule_frame [simp]:
  "flights (schedule k w) = flights w" "checkId (schedule k w) = checkId w"
  "validating (schedule k w) = validating w" "saving (schedule k w) = saving w"
  "pendingSaves (schedule k w) = pendingSaves w" "w_step (schedule k w) = w_step w"
  "checked (schedule k w) = checked w" "w_open (schedule k w) = w_open w" "w_values (schedule k w) = w_values w"
  by (simp_all add: schedule_def)

lemma cancel_frame [simp]:
  "flights (cancel w) = flights w" "checkId (cancel w) = checkId w"
  "validating (cancel w) = validating w" "saving (cancel w) = saving w"
  "pendingSaves (cancel w) = pendingSaves w" "w_step (cancel w) = w_step w"
  "checked (cancel w) = checked w" "w_open (cancel w) = w_open w" "w_values (cancel w) = w_values w"
  by (simp_all add: cancel_def)

lemma preflight_frame [simp]:
  "flights (preflight S w) = flights w" "checkId (preflight S w) = checkId w"
  "validating (preflight S w) = validating w" "saving (preflight S w) = saving w"
  "pendingSaves (preflight S w) = pendingSaves w" "w_step (preflight S w) = w_step w"
  "checked (preflight S w) = checked w" "w_open (preflight S w) = w_open w" "w_values (preflight S w) = w_values w"
  by (simp_all add: preflight_def)

lemma setStep_frame [simp]:
  "flights (setStep S k w) = flights w" "checkId (setStep S k w) = checkId w"
  "validating (setStep S k w) = validating w" "saving (setStep S k w) = saving w"
  "pendingSaves (setStep S k w) = pendingSaves w" "w_step (setStep S k w) = k"
  "checked (setStep S k w) = checked w" "w_open (setStep S k w) = w_open w" "w_values (setStep S k w) = w_values w"
  by (simp_all add: setStep_def)

lemma setValues_frame [simp]:
  "flights (setValues S f w) = flights w" "checkId (setValues S f w) = checkId w"
  "validating (setValues S f w) = validating w" "saving (setValues S f w) = saving w"
  "pendingSaves (setValues S f w) = pendingSaves w" "w_step (setValues S f w) = w_step w"
  "checked (setValues S f w) = checked w" "w_open (setValues S f w) = w_open w"
  "w_values (setValues S f w) = f (w_values w)"
  by (simp_all add: setValues_def)

lemma setFieldError_frame [simp]:
  "flights (setFieldError f e w) = flights w" "checkId (setFieldError f e w) = checkId w"
  "validating (setFieldError f e w) = validating w" "saving (setFieldError f e w) = saving w"
  "pendingSaves (setFieldError f e w) = pendingSaves w" "w_step (setFieldError f e w) = w_step w"
  by (simp_all add: setFieldError_def)

lemma clearErrors_frame:
  "flights (foldl (\<lambda>w f. clearError f w) w fs) = flights w \<and>
   checkId (foldl (\<lambda>w f. clearError f w) w fs) = checkId w \<and>
   saving (foldl (\<lambda>w f. clearError f w) w fs) = saving w \<and>
   pendingSaves (foldl (\<lambda>w f. clearError f w) w fs) = pendingSaves w \<and>
   w_open (foldl (\<lambda>w f. clearError f w) w fs) = w_open w \<and>
   w_values (foldl (\<lambda>w f. clearError f w) w fs) = w_values w \<and>
   w_step (foldl (\<lambda>w f. clearError f w) w fs) = w_step w"
  by (induction fs arbitrary: w) (simp_all add: clearError_def)

lemma clear_frame [simp]:
  "flights (clear w) = flights w" "checkId (clear w) = Suc (checkId w)" "\<not> validating (clear w)"
  "saving (clear w) = saving w" "pendingSaves (clear w) = pendingSaves w" "w_step (clear w) = w_step w"
  "checked (clear w) = None" "w_open (clear w) = w_open w" "w_values (clear w) = w_values w" "timer (clear w) = None"
  by (simp_all add: clear_def)

lemma resetValidation_frame [simp]:
  "flights (resetValidation fs w) = flights w" "checkId (resetValidation fs w) = Suc (checkId w)"
  "\<not> validating (resetValidation fs w)" "saving (resetValidation fs w) = saving w"
  "pendingSaves (resetValidation fs w) = pendingSaves w" "w_step (resetValidation fs w) = w_step w"
  "checked (resetValidation fs w) = None" "w_open (resetValidation fs w) = w_open w"
  "w_values (resetValidation fs w) = w_values w"
  by (simp_all add: resetValidation_def clearErrors_frame)

lemmas handler_defs = handleSourceChange_def handleContentChange_def handlePathChange_def
  handleFileSelect_def handleClear_def handleConfigFieldChange_def

subsection \<open>The invariant\<close>

definition ids_ok :: "Wizard \<Rightarrow> bool" where
  "ids_ok w \<longleftrightarrow> distinct (map fl_id (flights w)) \<and> (\<forall>fl \<in> set (flights w). fl_id fl \<le> checkId w)"

definition current_pending :: "Wizard \<Rightarrow> bool" where
  "current_pending w \<longleftrightarrow> (\<exists>fl \<in> set (flights w). fl_id fl = checkId w)"

definition enable_pending :: "Wizard \<Rightarrow> bool" where
  "enable_pending w \<longleftrightarrow> pendingSaves w \<noteq> [] \<or> (\<exists>fl \<in> set (flights w). \<exists>m. fl_purpose fl = Enable m)"

definition flight_ok :: "flight \<Rightarrow> bool" where
  "flight_ok fl \<longleftrightarrow> fl_step fl \<in> {1, 2, 3} \<and> (\<forall>m k. fl_purpose fl = Advance m k \<longrightarrow> k \<in> {1, 2})"

definition wizard_inv :: "Wizard \<Rightarrow> bool" where
  "wizard_inv w \<longleftrightarrow> ids_ok w \<and> (validating w \<longleftrightarrow> current_pending w) \<and> (saving w \<longrightarrow> enable_pending w)
     \<and> w_step w \<in> {1, 2, 3} \<and> (\<forall>k. timer w = Some k \<longrightarrow> k \<in> {1, 2, 3})
     \<and> (\<forall>fl \<in> set (flights w). flight_ok fl)"

lemma wizard_invI:
  assumes "ids_ok w" and "validating w \<longleftrightarrow> current_pending w" and "saving w \<longrightarrow> enable_pending w"
    and "w_step w \<in> {1, 2, 3}" and "\<forall>k. timer w = Some k \<longrightarrow> k \<in> {1, 2, 3}" and "\<forall>fl \<in> set (flights w). flight_ok fl"
  shows "wizard_inv w"
  using assms unfolding wizard_inv_def by blast

lemma wizard_invD:
  assumes "wizard_inv w"
  shows "ids_ok w" "validating w \<longleftrightarrow> current_pending w" "saving w \<longrightarrow> enable_pending w"
    "w_step w \<in> {1, 2, 3}" "\<forall>k. timer w = Some k \<longrightarrow> k \<in> {1, 2, 3}" "\<forall>fl \<in> set (flights w). flight_ok fl"
  using assms unfolding wizard_inv_def by blast+

lemma wizard_inv_quiet:
  assumes "wizard_inv w" and eq: "flights w' = flights w" "checkId w' = checkId w" "validating w' = validating w"
    and s: "saving w' \<longrightarrow> saving w" and "pendingSaves w' = pendingSaves w" "w_step w' \<in> {1, 2, 3}"
    and t: "timer w' = None \<or> timer w' = timer w \<or> timer w' \<in> Some ` {1, 2, 3}"
  shows "wizard_inv w'"
proof (rule wizard_invI)
  note w = wizard_invD [OF assms(1)]
  show "ids_ok w'" using w(1) by (simp add: ids_ok_def eq)
  show "validating w' \<longleftrightarrow> current_pending w'" using w(2) by (simp add: current_pending_def eq)
  show "saving w' \<longrightarrow> enable_pending w'" using w(3) s by (simp add: enable_pending_def eq assms(6))
  show "\<forall>k. timer w' = Some k \<longrightarrow> k \<in> {1, 2, 3}" using w(5) t by auto
  show "\<forall>fl \<in> set (flights w'). flight_ok fl" using w(6) by (simp add: eq)
qed (rule assms)

text \<open>A new \<open>checkId\<close> supersedes every outstanding check.\<close>

lemma wizard_inv_supersede:
  assumes "wizard_inv w" and eq: "flights w' = flights w" "checkId w' = Suc (checkId w)" "\<not> validating w'"
    and s: "saving w' \<longrightarrow> saving w" and "pendingSaves w' = pendingSaves w" "w_step w' \<in> {1, 2, 3}"
    and t: "timer w' = None \<or> timer w' = timer w \<or> timer w' \<in> Some ` {1, 2, 3}"
  shows "wizard_inv w'"
proof (rule wizard_invI)
  note w = wizard_invD [OF assms(1)]
  show "ids_ok w'" using w(1) by (auto simp: ids_ok_def eq)
  show "validating w' \<longleftrightarrow> current_pending w'" using w(1) by (auto simp: current_pending_def ids_ok_def eq)
  show "saving w' \<longrightarrow> enable_pending w'" using w(3) s by (simp add: enable_pending_def eq assms(6))
  show "\<forall>k. timer w' = Some k \<longrightarrow> k \<in> {1, 2, 3}" using w(5) t by auto
  show "\<forall>fl \<in> set (flights w'). flight_ok fl" using w(6) by (simp add: eq)
qed (rule assms)

lemma wizard_inv_run_start:
  assumes "wizard_inv w" and "flight_ok \<lparr>fl_id = Suc (checkId w), fl_step = k, fl_purpose = p\<rparr>"
  shows "wizard_inv (run_start p k w)"
proof (rule wizard_invI)
  note w = wizard_invD [OF assms(1)]
  show "ids_ok (run_start p k w)" using w(1) by (fastforce simp: ids_ok_def run_start_def)
  show "validating (run_start p k w) \<longleftrightarrow> current_pending (run_start p k w)"
    by (simp add: current_pending_def run_start_def)
  show "saving (run_start p k w) \<longrightarrow> enable_pending (run_start p k w)"
    using w(3) by (auto simp: enable_pending_def run_start_def)
  show "w_step (run_start p k w) \<in> {1, 2, 3}" "\<forall>j. timer (run_start p k w) = Some j \<longrightarrow> j \<in> {1, 2, 3}"
    using w(4,5) by (auto simp: run_start_def)
  show "\<forall>fl \<in> set (flights (run_start p k w)). flight_ok fl" using w(6) assms(2) by (simp add: run_start_def)
qed

lemma preflight_timer: "timer (preflight S w) = timer w \<or> timer (preflight S w) = Some 3"
  by (simp add: preflight_def schedule_def)

lemma setStep_timer: "timer (setStep S k w) = timer w \<or> timer (setStep S k w) = Some 3"
  using preflight_timer [of S "w\<lparr>w_step := k\<rparr>"] by (auto simp: setStep_def)

lemma setValues_timer: "timer (setValues S f w) = timer w \<or> timer (setValues S f w) = Some 3"
  using preflight_timer [of S "w\<lparr>w_values := f (w_values w)\<rparr>"] by (auto simp: setValues_def)

lemma resetValidation_timer [simp]: "timer (resetValidation fs w) = None"
  by (simp add: resetValidation_def)

lemma stepOfField_range: "stepOfField f = Some k \<Longrightarrow> k \<in> {1, 2, 3}"
  by (auto simp: stepOfField_def split: if_splits)

text \<open>The state after a check that is still current: the verdict is stored, and an error moves the
  wizard to the step that owns its field.\<close>

definition finished_step :: "StepMessage option \<Rightarrow> nat \<Rightarrow> nat \<Rightarrow> nat" where
  "finished_step verdict from now_at =
     (case verdict of
        Some m \<Rightarrow> if msg_kind m = KError \<and> truthy_str (msg_field m)
                   then (case stepOfField (the (msg_field m)) of
                           Some k \<Rightarrow> if k < from then k else now_at | None \<Rightarrow> now_at)
                   else now_at
      | None \<Rightarrow> now_at)"

lemma finished_step_range: "j \<in> {1, 2, 3} \<Longrightarrow> finished_step verdict from j \<in> {1, 2, 3}"
  using stepOfField_range by (fastforce simp: finished_step_def split: option.splits)

lemma run_finish_stale: "fl_id fl \<noteq> checkId w \<Longrightarrow> run_finish S fl res w = (None, w)"
  by (simp add: run_finish_def)

lemma setStep_same: "setStep S (w_step w) w = w"
  by (simp add: setStep_def)

abbreviation verdict_of :: "surroundings \<Rightarrow> flight \<Rightarrow> ValidationResult \<Rightarrow> Wizard \<Rightarrow> StepMessage option" where
  "verdict_of S fl res w \<equiv> mapStepResult (lang_env S) (clock S) (dateParse S) (fl_step fl) res (w_values w)"

lemma run_finish_current:
  assumes "fl_id fl = checkId w"
  shows "run_finish S fl res w = (verdict_of S fl res w,
    setStep S (finished_step (verdict_of S fl res w) (fl_step fl) (w_step w))
      (w\<lparr>validating := False, checked := verdict_of S fl res w\<rparr>))"
proof -
  have "setStep S (w_step w) (w\<lparr>validating := False, checked := m\<rparr>) = w\<lparr>validating := False, checked := m\<rparr>" for m
    using setStep_same [of S "w\<lparr>validating := False, checked := m\<rparr>"] by simp
  with assms show ?thesis
    by (simp add: run_finish_def finished_step_def Let_def split: option.splits)
qed

text \<open>Removing an answered check keeps the ids, and keeps a current check pending unless it was it.\<close>

lemma remove_flight:
  assumes "distinct (map fl_id fls)" and "fl \<in> set fls"
  shows "set (remove1 fl fls) = set fls - {fl}"
    and "(\<exists>x \<in> set (remove1 fl fls). fl_id x = i) \<longleftrightarrow> i \<noteq> fl_id fl \<and> (\<exists>x \<in> set fls. fl_id x = i)"
proof -
  have d: "distinct fls" using assms(1) by (simp add: distinct_map)
  then show s: "set (remove1 fl fls) = set fls - {fl}" by simp
  have "x = fl" if "x \<in> set fls" "fl_id x = fl_id fl" for x
    using assms that by (auto simp: distinct_map inj_on_def)
  then show "(\<exists>x \<in> set (remove1 fl fls). fl_id x = i) \<longleftrightarrow> i \<noteq> fl_id fl \<and> (\<exists>x \<in> set fls. fl_id x = i)"
    using assms(2) unfolding s by auto
qed

lemma answer_stale:
  assumes "fl_id fl \<noteq> checkId w"
  shows "answer S fl res w =
    (let w1 = w\<lparr>flights := remove1 fl (flights w)\<rparr>
     in case fl_purpose fl of
          Debounced \<Rightarrow> w1
        | Advance _ from \<Rightarrow> setStep S (from + 1) w1
        | Enable _ \<Rightarrow> w1\<lparr>pendingSaves := pendingSaves w1 @ [submitValues w1]\<rparr>)"
  using assms by (simp add: answer_def run_finish_stale mayPass_def Let_def split: purpose.splits)

lemma wizard_inv_answered:
  assumes inv: "wizard_inv w" and fl: "fl \<in> set (flights w)"
    and w': "flights w' = remove1 fl (flights w)" "checkId w' = checkId w"
      "validating w' \<longleftrightarrow> validating w \<and> fl_id fl \<noteq> checkId w"
      "saving w' \<longrightarrow> saving w" "set (pendingSaves w) \<subseteq> set (pendingSaves w')"
      "w_step w' \<in> {1, 2, 3}" "timer w' = None \<or> timer w' = timer w \<or> timer w' \<in> Some ` {1, 2, 3}"
    and en: "(\<exists>m. fl_purpose fl = Enable m) \<Longrightarrow> pendingSaves w' \<noteq> [] \<or> \<not> saving w'"
  shows "wizard_inv w'"
proof (rule wizard_invI)
  note w = wizard_invD [OF inv]
  have d: "distinct (map fl_id (flights w))" using w(1) by (simp add: ids_ok_def)
  note rm = remove_flight [OF d fl]
  have sub: "set (flights w') \<subseteq> set (flights w)" by (simp add: w'(1) set_remove1_subset)
  show "ids_ok w'"
    using w(1) sub by (auto simp: ids_ok_def w' distinct_map distinct_remove1 inj_on_def)
  show "validating w' \<longleftrightarrow> current_pending w'"
    using w(2) rm(2) by (auto simp: current_pending_def w')
  show "saving w' \<longrightarrow> enable_pending w'"
    using w(3) w'(4,5) en rm(1) by (auto simp: enable_pending_def w'(1))
  show "\<forall>k. timer w' = Some k \<longrightarrow> k \<in> {1, 2, 3}" using w(5) w'(7) by auto
  show "\<forall>fl \<in> set (flights w'). flight_ok fl" using w(6) sub by blast
qed (rule w')

lemma wizard_inv_answer:
  assumes "wizard_inv w" and "fl \<in> set (flights w)"
  shows "wizard_inv (answer S fl res w)"
proof (rule wizard_inv_answered [OF assms])
  have ok: "flight_ok fl" and step: "w_step w \<in> {1, 2, 3}" using assms wizard_invD by blast+
  let ?w1 = "w\<lparr>flights := remove1 fl (flights w)\<rparr>"
  obtain verdict w2 where r: "run_finish S fl res ?w1 = (verdict, w2)" by force
  have w2: "w2 = (if fl_id fl = checkId w
      then setStep S (finished_step (verdict_of S fl res ?w1) (fl_step fl) (w_step w))
        (?w1\<lparr>validating := False, checked := verdict_of S fl res ?w1\<rparr>) else ?w1)"
    using r run_finish_current [of fl ?w1 S res] run_finish_stale [of fl ?w1 S res] by (auto split: if_splits)
  have f: "flights w2 = remove1 fl (flights w)" "checkId w2 = checkId w" "saving w2 = saving w"
    "pendingSaves w2 = pendingSaves w" "validating w2 \<longleftrightarrow> validating w \<and> fl_id fl \<noteq> checkId w"
    by (simp_all add: w2)
  have f6: "w_step w2 \<in> {1, 2, 3}"
    using step finished_step_range [OF step] by (simp only: w2 split: if_split) simp
  have f7: "timer w2 = timer w \<or> timer w2 = Some 3"
    using setStep_timer [of S _ "?w1\<lparr>validating := False, checked := verdict_of S fl res ?w1\<rparr>"] by (simp add: w2)
  have a: "answer S fl res w = (case fl_purpose fl of
           Debounced \<Rightarrow> w2
         | Advance shown from \<Rightarrow> if mayPass shown verdict w2 then setStep S (from + 1) w2 else w2
         | Enable shown \<Rightarrow>
             if mayPass shown verdict w2 then w2\<lparr>pendingSaves := pendingSaves w2 @ [submitValues w2]\<rparr>
             else w2\<lparr>saving := False\<rparr>)"
    by (simp add: answer_def r)
  show "flights (answer S fl res w) = remove1 fl (flights w)" "checkId (answer S fl res w) = checkId w"
    "validating (answer S fl res w) \<longleftrightarrow> validating w \<and> fl_id fl \<noteq> checkId w"
    "saving (answer S fl res w) \<longrightarrow> saving w" "set (pendingSaves w) \<subseteq> set (pendingSaves (answer S fl res w))"
    unfolding a using f by (auto split: purpose.splits)
  show "w_step (answer S fl res w) \<in> {1, 2, 3}"
    unfolding a using f6 ok by (auto simp: flight_ok_def split: purpose.splits)
  show "timer (answer S fl res w) = None \<or> timer (answer S fl res w) = timer w \<or> timer (answer S fl res w) \<in> Some ` {1, 2, 3}"
  proof (cases "fl_purpose fl")
    case (Advance m k)
    show ?thesis unfolding a Advance using f7 setStep_timer [of S "k + 1" w2] by auto
  qed (unfold a, use f7 in auto)
  show "pendingSaves (answer S fl res w) \<noteq> [] \<or> \<not> saving (answer S fl res w)" if "\<exists>m. fl_purpose fl = Enable m"
    unfolding a using that by (auto split: if_splits)
qed

lemma wizard_inv_fresh: "wizard_inv fresh_wizard"
  by (rule wizard_invI) (simp_all add: fresh_wizard_def ids_ok_def current_pending_def enable_pending_def)

lemma wizard_inv_blur:
  assumes "wizard_inv w"
  shows "wizard_inv (validateOnBlur S p w)"
proof -
  let ?e = "pem_validate p (lang_env S) (w_values w)"
  let ?w1 = "w\<lparr>w_errors := w_errors w ++ ?e\<rparr>"
  note step = wizard_invD(4) [OF assms]
  consider "validateOnBlur S p w = w" | "validateOnBlur S p w = clear ?w1"
    | "validateOnBlur S p w = schedule (pem_step p) ?w1"
    by (cases "trim (fieldValue p (w_values w)) = []"; cases "some_error ?e")
      (simp_all add: validateOnBlur_def Let_def)
  then show ?thesis
  proof cases
    case 2
    show ?thesis unfolding 2 by (rule wizard_inv_supersede [OF assms]) (use step in simp_all)
  next
    case 3
    show ?thesis unfolding 3
      by (rule wizard_inv_quiet [OF assms]) (use step in \<open>(cases p; simp add: schedule_def)+\<close>)
  qed (simp add: assms)
qed

lemma wizard_inv_next:
  assumes "wizard_inv w"
  shows "wizard_inv (goToNextStep S w)"
proof (cases "w_step w = 3")
  case False
  note step = wizard_invD(4) [OF assms]
  let ?e = "pem_validate (if w_step w = 1 then CERT_CONFIG else KEY_CONFIG) (lang_env S) (w_values w)"
  let ?w1 = "(cancel w)\<lparr>w_errors := ?e\<rparr>"
  have i: "wizard_inv ?w1"
    by (rule wizard_inv_quiet [OF assms]) (use step in \<open>simp_all add: cancel_def\<close>)
  have "flight_ok \<lparr>fl_id = n, fl_step = w_step w, fl_purpose = Advance m (w_step w)\<rparr>" for n m
    using step False by (auto simp: flight_ok_def)
  then have "wizard_inv (run_start (Advance (message ?w1) (w_step w)) (w_step w) ?w1)"
    using wizard_inv_run_start [OF i] by blast
  with i False show ?thesis by (simp add: goToNextStep_def Let_def)
qed (simp add: goToNextStep_def assms)

lemma wizard_inv_enable:
  assumes "wizard_inv w"
  shows "wizard_inv (handleEnable S w)"
proof (cases "some_error (clientErrors S (cancel w))")
  case True
  have "wizard_inv ((cancel w)\<lparr>w_errors := clientErrors S (cancel w)\<rparr>)"
    by (rule wizard_inv_quiet [OF assms]) (use wizard_invD(4) [OF assms] in \<open>simp_all add: cancel_def\<close>)
  with True show ?thesis by (simp add: handleEnable_def Let_def)
next
  case False
  let ?w1 = "cancel w"
  have i: "wizard_inv ?w1"
    by (rule wizard_inv_quiet [OF assms]) (use wizard_invD(4) [OF assms] in \<open>simp_all add: cancel_def\<close>)
  have "wizard_inv (run_start (Enable (message ?w1)) 3 ?w1)"
    by (rule wizard_inv_run_start [OF i]) (simp add: flight_ok_def)
  then have "wizard_inv (run_start (Enable (message ?w1)) 3 (?w1\<lparr>saving := True\<rparr>))"
    by (simp add: wizard_inv_def run_start_def ids_ok_def current_pending_def enable_pending_def)
  with False show ?thesis by (simp add: handleEnable_def Let_def)
qed

lemma wizard_inv_handlers:
  assumes "wizard_inv w"
  shows "wizard_inv (setValues S f (resetValidation fs w))"
    and "wizard_inv (setValues S g (setValues S f (resetValidation fs w)))"
proof -
  note step = wizard_invD(4) [OF assms]
  show one: "wizard_inv (setValues S f (resetValidation fs w))"
    by (rule wizard_inv_supersede [OF assms])
      (use step setValues_timer [of S f "resetValidation fs w"] in auto)
  show "wizard_inv (setValues S g (setValues S f (resetValidation fs w)))"
    by (rule wizard_inv_quiet [OF one])
      (use step setValues_timer [of S g "setValues S f (resetValidation fs w)"] in auto)
qed

lemma wizard_inv_configBlur:
  assumes "wizard_inv w"
  shows "wizard_inv (handleConfigFieldBlur S f w)"
proof -
  note step = wizard_invD(4) [OF assms]
  have t: "timer (setFieldError g e w') = timer w'" for g e w' by (simp add: setFieldError_def)
  have "wizard_inv (setFieldError g e w)" for g e
    by (rule wizard_inv_quiet [OF assms]) (use step in \<open>simp_all add: t\<close>)
  moreover have "wizard_inv (setFieldError g e (setValues S u w))" for g e u
    by (rule wizard_inv_quiet [OF assms]) (use step setValues_timer [of S u w] in \<open>auto simp: t\<close>)
  ultimately show ?thesis by (simp add: handleConfigFieldBlur_def Let_def)
qed

lemma wizard_inv_goBack:
  assumes "wizard_inv w"
  shows "wizard_inv (handleGoBack S w)"
proof -
  let ?w1 = "clear (w\<lparr>w_errors := Map.empty\<rparr>)"
  let ?k = "if w_step w > 1 then w_step w - 1 else w_step w"
  have g: "handleGoBack S w = setStep S ?k ?w1" by (simp add: handleGoBack_def Let_def)
  show ?thesis unfolding g
    by (rule wizard_inv_supersede [OF assms])
      (use wizard_invD(4) [OF assms] setStep_timer [of S ?k ?w1] in \<open>auto simp del: One_nat_def\<close>)
qed

lemma wizard_inv_open_close:
  assumes "wizard_inv w"
  shows "wizard_inv (onOpen S store w)" and "wizard_inv (onClose w)"
proof -
  note step = wizard_invD(4) [OF assms]
  have "wizard_inv ((clear w)\<lparr>w_open := True, w_step := 1, w_values := v, w_errors := Map.empty, saving := False\<rparr>)" for v
    by (rule wizard_inv_supersede [OF assms]) simp_all
  then show "wizard_inv (onOpen S store w)" using assms by (simp add: onOpen_def)
  have "wizard_inv (clear (w\<lparr>w_open := False\<rparr>))"
    by (rule wizard_inv_supersede [OF assms]) (use step in simp_all)
  then show "wizard_inv (onClose w)" using assms by (simp add: onClose_def)
qed

lemma wizard_inv_saved:
  assumes "wizard_inv w"
  shows "wizard_inv (save_returns S payload success w)"
proof -
  note w = wizard_invD [OF assms]
  let ?w1 = "w\<lparr>pendingSaves := remove1 payload (pendingSaves w), saving := False\<rparr>"
  have i: "wizard_inv ?w1"
    using w by (simp add: wizard_inv_def ids_ok_def current_pending_def)
  have "save_returns S payload success w =
      (if success then onClose ?w1 else fail (msg (lang_env S) ''tls_setup_error_enable_failed'') ?w1)"
    by (simp add: save_returns_def onClose_def fail_def clear_def Let_def)
  moreover have "wizard_inv (fail t ?w1)" for t
    by (rule wizard_inv_quiet [OF i]) (use w(4) in \<open>simp_all add: fail_def\<close>)
  ultimately show ?thesis using wizard_inv_open_close(2) [OF i] by simp
qed

lemma wizard_reach_inv: "wizard_reach w \<Longrightarrow> wizard_inv w"
proof (induction rule: wizard_reach.induct)
  case (ports w S)
  show ?case
    by (rule wizard_inv_quiet [OF ports.IH])
      (use wizard_invD(4) [OF ports.IH] preflight_timer [of S w] in auto)
next
  case (timeout w k)
  have "wizard_inv (cancel w)"
    by (rule wizard_inv_quiet [OF timeout.IH]) (use wizard_invD(4) [OF timeout.IH] in \<open>simp_all add: cancel_def\<close>)
  then show ?case
    by (rule wizard_inv_run_start) (use wizard_invD(5) [OF timeout.IH] timeout.hyps in \<open>simp add: flight_ok_def\<close>)
qed (simp_all only: handler_defs wizard_inv_fresh wizard_inv_open_close wizard_inv_handlers wizard_inv_blur
      wizard_inv_next wizard_inv_configBlur wizard_inv_goBack wizard_inv_enable wizard_inv_answer wizard_inv_saved)

subsection \<open>Properties\<close>

text \<open>
  C5. The wizard is never stuck. In every reachable state, whatever the order of clicks, edits,
  timers and answers, the flag that disables the buttons is set exactly while the newest check is
  unanswered, and the saving flag is set only while a check or save of Enable is unanswered. When
  no request is outstanding both are clear.
\<close>

theorem wizard_never_stuck:
  assumes "wizard_reach w"
  shows "(validating w \<longleftrightarrow> (\<exists>fl \<in> set (flights w). fl_id fl = checkId w)) \<and>
    (saving w \<longrightarrow> pendingSaves w \<noteq> [] \<or> (\<exists>fl \<in> set (flights w). \<exists>m. fl_purpose fl = Enable m)) \<and>
    (flights w = [] \<and> pendingSaves w = [] \<longrightarrow> \<not> validating w \<and> \<not> saving w)"
  using wizard_invD(2,3) [OF wizard_reach_inv [OF assms]]
  by (auto simp: current_pending_def enable_pending_def)

text \<open>
  An error of a current check blocks. Whoever waits for it, the wizard does not move forward and
  sends no save; the error is shown, and when it is about a field of an earlier step the wizard
  goes back to the step that has that field, where it appears under the field.
\<close>

theorem current_error_blocks:
  assumes "fl_id fl = checkId w" and "verdict_of S fl res w = Some m" and "msg_kind m = KError"
    and "fl_step fl = w_step w" and "w_step w \<in> {1, 2, 3}"
  shows "let w' = answer S fl res w
    in w_step w' \<le> w_step w \<and> pendingSaves w' = pendingSaves w \<and> blocked w' \<and>
       (\<forall>f. msg_field m = Some f \<longrightarrow> fieldError f w' = Some (msg_message m) \<and> f \<in> set (STEP_FIELDS (w_step w')))"
proof -
  let ?w1 = "w\<lparr>flights := remove1 fl (flights w)\<rparr>"
  let ?k = "finished_step (Some m) (fl_step fl) (w_step w)"
  obtain w2 where w2: "run_finish S fl res ?w1 = (Some m, w2)"
    and c: "checked w2 = Some m" "w_step w2 = ?k" "pendingSaves w2 = pendingSaves w"
    using run_finish_current [of fl ?w1 S res] assms(1,2) by simp
  let ?a = "answer S fl res w"
  have a: "?a = w2 \<or> ?a = w2\<lparr>saving := False\<rparr>"
    using assms(3) by (simp add: answer_def w2 mayPass_def split: purpose.split)
  have owner: "\<exists>k \<le> w_step w. stepOfField f = Some k" if "msg_field m = Some f" for f
    using message_owner [of "fl_step fl" "lang_env S" "clock S" "dateParse S" res "w_values w" m]
      assms(2,4,5) that by auto
  have has: "f \<in> set (STEP_FIELDS k)" if "stepOfField f = Some k" for f k
    using that by (auto simp: stepOfField_def split: if_splits)
  have ne: "f \<noteq> []" if "stepOfField f = Some k" for f k
    using has [OF that] by (auto simp: STEP_FIELDS_def split: if_splits)
  have at: "f \<in> set (STEP_FIELDS ?k) \<and> ?k \<le> w_step w" if f: "msg_field m = Some f" for f
  proof -
    from owner [OF f] obtain k where k: "k \<le> w_step w" "stepOfField f = Some k" by blast
    then show ?thesis
      using f assms(3,4) has [OF k(2)] ne [OF k(2)]
      by (cases "k = w_step w") (auto simp: finished_step_def truthy_str_def)
  qed
  have le: "?k \<le> w_step w"
  proof (cases "msg_field m")
    case None
    then show ?thesis by (simp add: finished_step_def truthy_str_def)
  qed (use at in blast)
  have "w_step ?a = ?k" "pendingSaves ?a = pendingSaves w" "checked ?a = Some m"
    using a c by auto
  then show ?thesis
    using at le assms(3) by (simp add: Let_def blocked_def fieldError_def message_def)
qed

text \<open>
  A warning has to be seen once. When a current check of the step on screen ends in a warning on
  a field of that step, the first attempt only shows it; an attempt made while it is shown, with
  the same answer, goes through.
\<close>

theorem warning_confirmed_once:
  assumes "fl_id fl = checkId w" and "verdict_of S fl res w = Some m" and "msg_kind m = KWarning"
    and "msg_field m = Some f" and "f \<in> set (STEP_FIELDS (w_step w))" and "fl_purpose fl = Advance shown from"
  shows "let w' = answer S fl res w
    in (w_step w' = w_step w \<longrightarrow> message w' = Some m) \<and>
       (shown = Some m \<longrightarrow> w_step w' = from + 1) \<and> (shown = None \<longrightarrow> w_step w' = w_step w)"
proof -
  let ?w1 = "w\<lparr>flights := remove1 fl (flights w)\<rparr>"
  let ?w2 = "?w1\<lparr>validating := False, checked := Some m\<rparr>"
  have "run_finish S fl res ?w1 = (Some m, ?w2)"
    using run_finish_current [of fl ?w1 S res] assms(1,2,3) setStep_same [of S ?w2]
    by (simp add: finished_step_def)
  moreover have "message ?w2 = Some m" using assms(3-5) by (simp add: message_def)
  moreover have "message (setStep S k ?w2) = Some m" if "k = w_step w" for k
    using assms(3-5) that by (simp add: message_def)
  ultimately show ?thesis
    using assms(3,6) by (auto simp: answer_def mayPass_def sameMessage_def Let_def split: option.splits)
qed

text \<open>
  A superseded check lets the wizard through. When the user edits the field, goes back or closes
  the dialog while a check is on its way, its answer is dropped, and the caller takes the missing
  answer for a clean one: the button of steps 1 and 2 moves on to the next step, and Enable sends the
  save, whatever the server answered, even that the certificate is broken and even after Cancel.
\<close>

theorem superseded_check_goes_through:
  assumes "fl_id fl \<noteq> checkId w"
  shows "(\<forall>shown from. fl_purpose fl = Advance shown from \<longrightarrow> w_step (answer S fl res w) = from + 1) \<and>
    (\<forall>shown. fl_purpose fl = Enable shown \<longrightarrow>
       pendingSaves (answer S fl res w) = pendingSaves w @ [submitValues w] \<and>
       w_open (answer S fl res w) = w_open w)"
  using answer_stale [OF assms] by (simp add: Let_def submitValues_def split: purpose.split)

subsection \<open>Sample runs\<close>

definition sample_surroundings :: surroundings where
  "sample_surroundings = \<lparr>lang_env = sample_env, strNumber = (\<lambda>_. 0), dateParse = (\<lambda>_. None), clock = 0,
     otherPorts = \<lparr>webUi = Some 80, plainDns = Some 53, dnscrypt = Some 0\<rparr>\<rparr>"

text \<open>A certificate path is typed and Add is pressed.\<close>

definition typed_wizard :: Wizard where
  "typed_wizard = handlePathChange sample_surroundings CERT_CONFIG ''/c''
     (handleSourceChange sample_surroundings CERT_CONFIG ENCRYPTION_SOURCE_PATH
       (onOpen sample_surroundings empty_tls fresh_wizard))"

definition waiting_wizard :: Wizard where
  "waiting_wizard = goToNextStep sample_surroundings typed_wizard"

definition broken_reply :: ValidationResult where
  "broken_reply = Inr (empty_tls\<lparr>warning_validation := Some ''parsing certificate at index 0''\<rparr>)"

lemma typed_wizard_reach: "wizard_reach typed_wizard"
  unfolding typed_wizard_def
  by (intro wizard_reach.path wizard_reach.source wizard_reach.opened wizard_reach.fresh)
    (simp_all add: handleSourceChange_def onOpen_def fresh_wizard_def)

lemma typed_wizard_state [simp]:
  "w_step typed_wizard = 1" "w_open typed_wizard" "flights typed_wizard = []" "checkId typed_wizard = 4"
  "\<not> validating typed_wizard" "checked typed_wizard = None" "pendingSaves typed_wizard = []"
  "certificate_source (w_values typed_wizard) = Some ENCRYPTION_SOURCE_PATH"
  "certificate_path (form (w_values typed_wizard)) = Some ''/c''"
  by (simp_all add: typed_wizard_def handler_defs onOpen_def fresh_wizard_def defaultTlsValues_def clear_def)

lemma typed_wizard_valid: "validateCertFields sample_env (w_values typed_wizard) = Map.empty"
proof -
  have "isValidAbsolutePath ''/c''" by code_simp
  then show ?thesis
    by (simp add: validateCertFields_def ENCRYPTION_SOURCE_PATH_def ENCRYPTION_SOURCE_CONTENT_def one_error_def
        or_validation_def validateRequiredValue_def form_string_def validateCertPath_def validatePath_def
        truthy_str_def trim_def trimStart_def is_space_def code_def)
qed

lemma waiting_wizard_state [simp]:
  "w_step waiting_wizard = 1" "w_open waiting_wizard" "checkId waiting_wizard = 5" "validating waiting_wizard"
  "flights waiting_wizard = [\<lparr>fl_id = 5, fl_step = 1, fl_purpose = Advance None 1\<rparr>]"
  "w_values waiting_wizard = w_values typed_wizard" "pendingSaves waiting_wizard = []"
  using typed_wizard_valid
  by (simp_all add: waiting_wizard_def goToNextStep_def Let_def sample_surroundings_def some_error_def
      FORM_FIELDS_def truthy_str_def run_start_def message_def)

lemma waiting_wizard_reach: "wizard_reach waiting_wizard"
  unfolding waiting_wizard_def by (intro wizard_reach.nextStep typed_wizard_reach) simp_all

lemma broken_verdict:
  "mapStepResult sample_env 0 (\<lambda>_. None) 1 broken_reply (w_values typed_wizard) =
     Some (err ''certificate_path'' ''tls_setup_error_parse_cert'')"
  by (simp add: mapStepResult_def broken_reply_def mapCertText_def certTextMessage_def certField_def
      includes_str_def empty_tls_def sample_env_def)

theorem wizard_never_stuck_witness:
  "validating waiting_wizard \<and> (\<exists>fl \<in> set (flights waiting_wizard). fl_id fl = checkId waiting_wizard)"
  using wizard_never_stuck [OF waiting_wizard_reach] by simp

theorem current_error_blocks_witness:
  "let w' = answer sample_surroundings (hd (flights waiting_wizard)) broken_reply waiting_wizard
   in w_step w' \<le> 1 \<and> fieldError ''certificate_path'' w' = Some ''tls_setup_error_parse_cert''"
proof -
  have v: "verdict_of sample_surroundings (hd (flights waiting_wizard)) broken_reply waiting_wizard =
      Some (err ''certificate_path'' ''tls_setup_error_parse_cert'')"
    using broken_verdict by (simp add: sample_surroundings_def)
  from current_error_blocks [OF _ v] show ?thesis by (simp add: Let_def)
qed

theorem superseded_check_goes_through_witness:
  "wizard_reach (onClose waiting_wizard) \<and>
   w_step (answer sample_surroundings (hd (flights waiting_wizard)) broken_reply (onClose waiting_wizard)) = 2"
proof -
  have "fl_id (hd (flights waiting_wizard)) \<noteq> checkId (onClose waiting_wizard)"
    by (simp add: onClose_def)
  from superseded_check_goes_through [OF this, of sample_surroundings broken_reply]
  show ?thesis by (simp add: wizard_reach.closed waiting_wizard_reach)
qed

theorem warning_confirmed_once_witness:
  "message (answer sample_surroundings (hd (flights waiting_wizard)) (Inr expired_reply) waiting_wizard) =
     Some (warn ''certificate_path'' ''tls_setup_warning_cert_untrusted'')"
proof -
  let ?m = "warn ''certificate_path'' ''tls_setup_warning_cert_untrusted''"
  have v: "verdict_of sample_surroundings (hd (flights waiting_wizard)) (Inr expired_reply) waiting_wizard = Some ?m"
    by (simp add: mapStepResult_def expired_reply_def mapCertText_def certTextMessage_def certField_def
        includes_str_def empty_tls_def sample_env_def sample_surroundings_def certDatesInvalid_def)
  from warning_confirmed_once [OF _ v, of "''certificate_path''" None 1] show ?thesis
    by (simp add: Let_def STEP_FIELDS_def)
qed

end
