(* ===== verification/UserRules.thy ===== *)
theory UserRules
  imports ClientForm Filtering Rewrites
begin

section \<open>Actions of the user rules page\<close>

text \<open>
  \<^verbatim>\<open>client_v2/src/components/UserRules/helpers.ts\<close> and \<^verbatim>\<open>useUserRulesActions.ts\<close>: what the page
  offers after a host was checked, and how each offer is carried out and undone. The page acts through
  the filtering, clients, settings, services and rewrites stores, each modelled in its own theory; here
  a call of a store action is a value of \<open>store_call\<close>, and the function \<open>run\<close> that carries it out, with the
  boolean it returns or \<^const>\<open>None\<close> for an action without a result, is an argument. \<open>UpdateServiceIds\<close> stands for \<open>updateBlockedServices({ ...servicesState.list, ids })\<close> with the list
  of that moment. A click reads the page once; settings that change before the undo are not followed.
\<close>

subsection \<open>Data\<close>

record CheckFormValues =
  check_hostname :: string
  check_client :: string
  check_qtype :: string

record CheckResultData =
  res_hostname :: "string option"
  res_reason :: "string option"
  res_rules :: "ResultRule list option"
  res_service_name :: "string option"
  res_cname :: "string option"
  res_ip_addrs :: "string list option"

datatype ResultActionKind = Allow | Block | DisableParental | DisableSafebrowsing | DisableSafesearch
  | DisableBlockedService | DisableFilter | EditRewrite | DeleteRewrite | RemoveRewriteRule | NoAction

datatype store_call =
    UpdateClient "string option" Client
  | ToggleSetting setting
  | UpdateServiceIds "string list"
  | ToggleFilterStatus string FilterSetUrlData bool
  | SetRules string
  | AddRewrite RewriteEntry
  | DeleteRewriteEntry RewriteEntry
  | UpdateRewrite RewriteEntry RewriteEntry
  | ToggleBlocking BlockAction string "string option"
  | ToggleBlockingForClient BlockAction string string

definition CLIENT_SCOPED_ACTIONS :: "ResultActionKind list" where
  "CLIENT_SCOPED_ACTIONS = [DisableParental, DisableSafebrowsing, DisableSafesearch]"

subsection \<open>Helpers\<close>

definition getPrimaryRule :: "CheckResultData option \<Rightarrow> ResultRule option" where
  "getPrimaryRule res =
     (case Option.bind res res_rules of Some (r # _) \<Rightarrow> Some r | _ \<Rightarrow> None)"

definition normalizeClientIdentifier :: "string \<Rightarrow> string" where
  "normalizeClientIdentifier v = toLowerCase (trim v)"

definition client_matches :: "string \<Rightarrow> Client \<Rightarrow> bool" where
  "client_matches i c \<longleftrightarrow>
     normalizeClientIdentifier (nullish (client_name c) []) = normalizeClientIdentifier i \<or>
     (\<exists>k\<in>set (nullish (client_ids c) []). normalizeClientIdentifier k = normalizeClientIdentifier i)"

definition the_only :: "'a list \<Rightarrow> 'a option" where
  "the_only xs = (case xs of [x] \<Rightarrow> Some x | _ \<Rightarrow> None)"

definition findPersistentClient :: "Client list \<Rightarrow> string option \<Rightarrow> Client option" where
  "findPersistentClient cs identifier =
     (case identifier of
        None \<Rightarrow> None
      | Some i \<Rightarrow> if i = [] then None else the_only (filter (client_matches i) cs))"

definition getSafeSearchConfig :: "SafeSearchConfig option \<Rightarrow> bool option \<Rightarrow> SafeSearchConfig" where
  "getSafeSearchConfig config fallbackEnabled =
     (nullish config empty_safesearch)\<lparr>ss_enabled :=
        Some (nullish (Option.bind config ss_enabled) (nullish fallbackEnabled False))\<rparr>"

record protection_settings =
  p_filtering_enabled :: "bool option"
  p_parental_enabled :: "bool option"
  p_safebrowsing_enabled :: "bool option"
  p_safe_search :: SafeSearchConfig
  p_safesearch_enabled :: "bool option"

definition getEffectiveClientProtectionSettings ::
  "Client \<Rightarrow> bool \<Rightarrow> settingsList option \<Rightarrow> protection_settings option" where
  "getEffectiveClientProtectionSettings client globalFilteringEnabled sl =
     (let use_global = flag (use_global_settings client)
      in if use_global \<and> sl = None then None
         else let ss = (if use_global then getSafeSearchConfig (map_option safesearch sl) None
                        else getSafeSearchConfig (safe_search client) (safesearch_enabled client))
              in Some \<lparr>
                p_filtering_enabled = (if use_global then Some globalFilteringEnabled else filtering_enabled client),
                p_parental_enabled = (if use_global then Some (map_option parental sl = Some True) else parental_enabled client),
                p_safebrowsing_enabled = (if use_global then Some (map_option safebrowsing sl = Some True) else safebrowsing_enabled client),
                p_safe_search = ss, p_safesearch_enabled = ss_enabled ss\<rparr>)"

text \<open>\<open>{ ...client, ...effectiveSettings, use_global_settings: false }\<close>.\<close>

definition own_settings :: "Client \<Rightarrow> protection_settings \<Rightarrow> Client" where
  "own_settings client p = client\<lparr>filtering_enabled := p_filtering_enabled p, parental_enabled := p_parental_enabled p,
     safebrowsing_enabled := p_safebrowsing_enabled p, safe_search := Some (p_safe_search p),
     safesearch_enabled := p_safesearch_enabled p, use_global_settings := Some False\<rparr>"

definition getEffectiveBlockedServices ::
  "Client \<Rightarrow> BlockedServicesSchedule \<Rightarrow> (string list \<times> Schedule option) option" where
  "getEffectiveBlockedServices client glob =
     (let use_global = flag (use_global_blocked_services client)
      in case (if use_global then ids glob else client_blocked_services client) of
           None \<Rightarrow> None
         | Some xs \<Rightarrow> Some (xs,
             if use_global \<and> schedule glob \<noteq> None then schedule glob else blocked_services_schedule client))"

definition matchesDomain :: "string \<Rightarrow> string \<Rightarrow> bool" where
  "matchesDomain hostname pattern =
     (let h = toLowerCase hostname; p = toLowerCase pattern
      in p = h \<or> (startsWith p ''*.'' \<and> endsWith h (drop 1 p)))"

definition findMatchedRewrite :: "RewriteEntry list \<Rightarrow> CheckResultData option \<Rightarrow> RewriteEntry option" where
  "findMatchedRewrite rewrites res =
     (case Option.bind res res_hostname of
        None \<Rightarrow> None
      | Some h \<Rightarrow> if h = [] then None
          else the_only (filter (\<lambda>e. matchesDomain h (nullish (domain e) [])) rewrites))"

definition service_matches :: "string option \<Rightarrow> string option \<Rightarrow> BlockedService \<Rightarrow> bool" where
  "service_matches currentRule normalizedServiceName service \<longleftrightarrow>
     (truthy_str normalizedServiceName \<and>
        (Some (toLowerCase (service_name service)) = normalizedServiceName \<or>
         Some (toLowerCase (service_id service)) = normalizedServiceName)) \<or>
     (truthy_str currentRule \<and> nullish currentRule [] \<in> set (service_rules service))"

definition findMatchedBlockedService :: "BlockedService list \<Rightarrow> CheckResultData option \<Rightarrow> BlockedService option" where
  "findMatchedBlockedService available res =
     find (service_matches (Option.bind (getPrimaryRule res) rule_text)
       (map_option (\<lambda>n. toLowerCase (trim n)) (Option.bind res res_service_name))) available"

subsection \<open>What each action asks the stores to do\<close>

text \<open>The page as an action finds it. The two reads of the settings within one click are the same.\<close>

record page_view =
  checkResult :: "CheckResultData option"
  filteringEnabled :: bool
  page_settings :: "settingsList option"
  persistentClients :: "Client list"
  rewritesList :: "RewriteEntry list"
  lastSubmittedCheck :: "CheckFormValues option"
  pv_filters :: "Filter list"
  pv_whitelistFilters :: "Filter list"
  pv_userRules :: string
  pv_services :: BlockedServicesSchedule
  pv_allServices :: "BlockedService list"

definition checked_client :: "page_view \<Rightarrow> string option" where
  "checked_client v =
     (case lastSubmittedCheck v of Some k \<Rightarrow> if check_client k = [] then None else Some (check_client k) | None \<Rightarrow> None)"

definition resolvedClient :: "page_view \<Rightarrow> Client option" where
  "resolvedClient v = findPersistentClient (persistentClients v) (checked_client v)"

definition matchedRewrite :: "page_view \<Rightarrow> RewriteEntry option" where
  "matchedRewrite v = findMatchedRewrite (rewritesList v) (checkResult v)"

definition hiddenActionKinds :: "page_view \<Rightarrow> ResultActionKind list" where
  "hiddenActionKinds v = (if checked_client v = None \<or> resolvedClient v \<noteq> None then [] else CLIENT_SCOPED_ACTIONS)"

text \<open>A plan is what \<open>performWithUndo\<close> is called with. Its first call is absent when
  \<open>updateResolvedClient\<close> finds no client or nothing to send, which counts as a failure.\<close>

record plan =
  plan_perform :: "store_call option"
  plan_message :: string
  plan_undo :: store_call

definition updateResolvedClient :: "page_view \<Rightarrow> (Client \<Rightarrow> Client option) \<Rightarrow> store_call option" where
  "updateResolvedClient v transform =
     (case resolvedClient v of
        None \<Rightarrow> None
      | Some c \<Rightarrow> map_option (UpdateClient (client_name c)) (transform c))"

definition with_own_settings :: "page_view \<Rightarrow> (protection_settings \<Rightarrow> Client \<Rightarrow> Client) \<Rightarrow> Client \<Rightarrow> Client option" where
  "with_own_settings v change client =
     map_option (\<lambda>p. change p (own_settings client p))
       (getEffectiveClientProtectionSettings client (filteringEnabled v) (page_settings v))"

definition handleDisableSafeBrowsing :: "env \<Rightarrow> page_view \<Rightarrow> plan" where
  "handleDisableSafeBrowsing env v = \<lparr>
     plan_perform = (if checked_client v \<noteq> None
       then updateResolvedClient v (with_own_settings v (\<lambda>_ c. c\<lparr>safebrowsing_enabled := Some False\<rparr>))
       else Some (ToggleSetting (SafeBrowsing True))),
     plan_message = msg env ''user_rules_browsing_security_disabled'',
     plan_undo = (case resolvedClient v of
         Some s \<Rightarrow> UpdateClient (client_name s) (s\<lparr>safebrowsing_enabled := Some True\<rparr>)
       | None \<Rightarrow> ToggleSetting (SafeBrowsing False))\<rparr>"

definition handleDisableParental :: "env \<Rightarrow> page_view \<Rightarrow> plan" where
  "handleDisableParental env v = \<lparr>
     plan_perform = (if checked_client v \<noteq> None
       then updateResolvedClient v (with_own_settings v (\<lambda>_ c. c\<lparr>parental_enabled := Some False\<rparr>))
       else Some (ToggleSetting (Parental True))),
     plan_message = msg env ''user_rules_parental_control_disabled'',
     plan_undo = (case resolvedClient v of
         Some s \<Rightarrow> UpdateClient (client_name s) (s\<lparr>parental_enabled := Some True\<rparr>)
       | None \<Rightarrow> ToggleSetting (Parental False))\<rparr>"

definition without_safe_search :: "protection_settings \<Rightarrow> Client \<Rightarrow> Client" where
  "without_safe_search p c = c\<lparr>safe_search := Some ((p_safe_search p)\<lparr>ss_enabled := Some False\<rparr>),
     safesearch_enabled := Some False\<rparr>"

definition with_safe_search :: "Client \<Rightarrow> Client" where
  "with_safe_search s = s\<lparr>safe_search := Some ((nullish (safe_search s) empty_safesearch)\<lparr>ss_enabled := Some True\<rparr>),
     safesearch_enabled := Some True\<rparr>"

definition handleDisableSafeSearch :: "env \<Rightarrow> page_view \<Rightarrow> plan option" where
  "handleDisableSafeSearch env v =
     (if checked_client v = None \<and> page_settings v = None then None
      else let current = (case page_settings v of Some l \<Rightarrow> safesearch l | None \<Rightarrow> empty_safesearch)
      in Some \<lparr>
        plan_perform = (if checked_client v \<noteq> None
          then updateResolvedClient v (with_own_settings v without_safe_search)
          else Some (ToggleSetting (SafeSearch (current\<lparr>ss_enabled := Some False\<rparr>)))),
        plan_message = msg env ''user_rules_safe_search_disabled'',
        plan_undo = (case resolvedClient v of
            Some s \<Rightarrow> UpdateClient (client_name s) (with_safe_search s)
          | None \<Rightarrow> ToggleSetting (SafeSearch (current\<lparr>ss_enabled := Some True\<rparr>)))\<rparr>)"

definition filter_call :: "Filter \<Rightarrow> bool \<Rightarrow> bool \<Rightarrow> store_call" where
  "filter_call f en wl = ToggleFilterStatus (f_url f)
     \<lparr>su_enabled = en, su_name = Filter.f_name f, su_url = f_url f\<rparr> wl"

definition handleDisableFilter :: "env \<Rightarrow> page_view \<Rightarrow> plan option" where
  "handleDisableFilter env v =
     (case Option.bind (getPrimaryRule (checkResult v)) filter_list_id of
        None \<Rightarrow> None
      | Some k \<Rightarrow>
          (case (case find (\<lambda>f. f_id f = k) (pv_filters v) of
                   Some f \<Rightarrow> Some f | None \<Rightarrow> find (\<lambda>f. f_id f = k) (pv_whitelistFilters v)) of
             None \<Rightarrow> None
           | Some f \<Rightarrow>
               let wl = (\<exists>g\<in>set (pv_whitelistFilters v). f_id g = k)
               in Some \<lparr>plan_perform = Some (filter_call f False wl),
                    plan_message = getMessage env ''user_rules_filter_was_disabled'' [(''value'', SArg (Filter.f_name f))],
                    plan_undo = filter_call f True wl\<rparr>))"

definition handleAllowBlockedService :: "env \<Rightarrow> page_view \<Rightarrow> plan option" where
  "handleAllowBlockedService env v =
     (case findMatchedBlockedService (pv_allServices v) (checkResult v) of
        None \<Rightarrow> None
      | Some srv \<Rightarrow>
          let previous = nullish (ids (pv_services v)) []
          in Some \<lparr>
            plan_perform = (if resolvedClient v \<noteq> None
              then updateResolvedClient v (\<lambda>client.
                map_option (\<lambda>(xs, sch). client\<lparr>blocked_services_schedule := sch,
                    use_global_blocked_services := Some False,
                    client_blocked_services := Some (filter (\<lambda>i. i \<noteq> service_id srv) xs)\<rparr>)
                  (getEffectiveBlockedServices client (pv_services v)))
              else Some (UpdateServiceIds (filter (\<lambda>i. i \<noteq> service_id srv) previous))),
            plan_message = getMessage env ''user_rules_service_allowed'' [(''value'', SArg (service_name srv))],
            plan_undo = (case resolvedClient v of
                Some s \<Rightarrow> UpdateClient (client_name s) (s\<lparr>client_blocked_services := Some previous\<rparr>)
              | None \<Rightarrow> UpdateServiceIds previous)\<rparr>)"

definition handleRemoveRewriteRule :: "env \<Rightarrow> page_view \<Rightarrow> plan option" where
  "handleRemoveRewriteRule env v =
     (case Option.bind (getPrimaryRule (checkResult v)) rule_text of
        None \<Rightarrow> None
      | Some r \<Rightarrow> if r = [] then None
          else Some \<lparr>
            plan_perform = Some (SetRules (join_lines (filter (\<lambda>l. l \<noteq> r) (splitByNewLine (Some (pv_userRules v)))) @ [newline])),
            plan_message = msg env ''user_rules_rule_removed'',
            plan_undo = SetRules (pv_userRules v)\<rparr>)"

definition handleRewriteDelete :: "env \<Rightarrow> RewriteEntry \<Rightarrow> plan option" where
  "handleRewriteDelete env rewrite =
     (if \<not> truthy_str (domain rewrite) then None
      else Some \<lparr>plan_perform = Some (DeleteRewriteEntry rewrite),
             plan_message = msg env ''user_rules_dns_rewrite_removed'', plan_undo = AddRewrite rewrite\<rparr>)"

definition CUSTOM_FILTERING_RULES :: int where "CUSTOM_FILTERING_RULES = 0"

definition handleRuleToggle :: "BlockAction \<Rightarrow> page_view \<Rightarrow> store_call option" where
  "handleRuleToggle type v =
     (case (Option.bind (checkResult v) res_hostname, lastSubmittedCheck v) of
        (Some h, Some k) \<Rightarrow>
          if h = [] then None
          else if check_client k \<noteq> [] then Some (ToggleBlockingForClient type h (check_client k))
          else let primary = getPrimaryRule (checkResult v);
                   matched = (if Option.bind primary filter_list_id = Some CUSTOM_FILTERING_RULES
                              then Option.bind primary rule_text else None)
               in Some (ToggleBlocking type h (if truthy_str matched then matched else None))
      | _ \<Rightarrow> None)"

subsection \<open>Carrying out a plan\<close>

datatype refresh_kind = RefreshSettingsAndClients | RefreshRecheck | RefreshServicesAndClients | RefreshRewrites | RefreshRules

record 'w page_ctx = "(store_call \<times> refresh_kind, 'w) ctx" +
  isResultVisible :: bool
  currentRewrite :: RewriteEntry
  modalId :: "string option"

definition EMPTY_REWRITE :: RewriteEntry where
  "EMPTY_REWRITE = \<lparr>domain = Some [], answer = Some [], entry_enabled = Some False\<rparr>"

record 'c page_env =
  run_call :: "store_call \<Rightarrow> ('c, bool option) state"
  run_refresh :: "refresh_kind \<Rightarrow> ('c, unit) state"
  run_check :: "check_params \<Rightarrow> ('c, unit) state"
  run_delay :: "('c, unit) state"

definition recheckCurrentTarget ::
  "('w, 'm) page_ctx_scheme page_env \<Rightarrow> page_view \<Rightarrow> (('w, 'm) page_ctx_scheme, unit) state" where
  "recheckCurrentTarget P v =
     (case lastSubmittedCheck v of
        None \<Rightarrow> pass ()
      | Some k \<Rightarrow> do {
          run_delay P;
          run_check P \<lparr>host_name = check_hostname k,
            host_client = (if check_client k = [] then None else Some (check_client k)),
            host_qtype = (if check_qtype k = [] then None else Some (check_qtype k))\<rparr>;
          modify (\<lambda>c. c\<lparr>isResultVisible := True\<rparr>) })"

definition performWithUndo ::
  "env \<Rightarrow> ('w, 'm) page_ctx_scheme page_env \<Rightarrow> page_view \<Rightarrow> plan \<Rightarrow> refresh_kind
     \<Rightarrow> (('w, 'm) page_ctx_scheme, bool) state" where
  "performWithUndo env P v p refresh = do {
     modify (\<lambda>c. c\<lparr>isResultVisible := False\<rparr>);
     ok \<leftarrow> (case plan_perform p of None \<Rightarrow> pass (Some False) | Some r \<Rightarrow> run_call P r);
     (if ok = Some False then pass False
      else do {
        modify (undoToast env (plan_message p) (plan_undo p, refresh));
        recheckCurrentTarget P v;
        pass True }) }"

text \<open>The undo of a removed rewrite returns true whatever \<open>addRewrite\<close> did; the others return the result of
  the call.\<close>

fun undo_returns :: "store_call \<Rightarrow> bool option \<Rightarrow> bool" where
  "undo_returns (AddRewrite _) _ = True"
| "undo_returns _ ok = (ok = Some True)"

definition runUndo ::
  "('w, 'm) page_ctx_scheme page_env \<Rightarrow> store_call \<times> refresh_kind \<Rightarrow> (('w, 'm) page_ctx_scheme, unit) call" where
  "runUndo P u = do {
     didUndo \<leftarrow> run_call P (fst u);
     (if undo_returns (fst u) didUndo then run_refresh P (snd u) else pass ());
     pass (Inr ()) }"

definition ruleToggle_run ::
  "('w, 'm) page_ctx_scheme page_env \<Rightarrow> BlockAction \<Rightarrow> page_view \<Rightarrow> (('w, 'm) page_ctx_scheme, unit) state" where
  "ruleToggle_run P type v =
     (case handleRuleToggle type v of
        None \<Rightarrow> pass ()
      | Some r \<Rightarrow> do {
          modify (\<lambda>c. c\<lparr>isResultVisible := False\<rparr>);
          ok \<leftarrow> run_call P r;
          (if ok = Some False then pass () else recheckCurrentTarget P v) })"

definition perform_plan ::
  "env \<Rightarrow> ('w, 'm) page_ctx_scheme page_env \<Rightarrow> page_view \<Rightarrow> refresh_kind \<Rightarrow> plan option
     \<Rightarrow> (('w, 'm) page_ctx_scheme, unit) state" where
  "perform_plan env P v refresh p =
     (case p of None \<Rightarrow> pass () | Some q \<Rightarrow> do { _ \<leftarrow> performWithUndo env P v q refresh; pass () })"

text \<open>The rewrite dialogs: \<open>openEditRewriteModal\<close> remembers the matched rewrite and opens the dialog,
  whose confirmation is \<open>handleRewriteUpdate\<close>; deletion asks nothing and acts at once.\<close>

definition resetCurrentRewrite :: "(('w, 'm) page_ctx_scheme, unit) state" where
  "resetCurrentRewrite = modify (\<lambda>c. c\<lparr>currentRewrite := EMPTY_REWRITE\<rparr>)"

definition openEditRewriteModal :: "page_view \<Rightarrow> (('w, 'm) page_ctx_scheme, unit) state" where
  "openEditRewriteModal v =
     (case matchedRewrite v of
        None \<Rightarrow> pass ()
      | Some m \<Rightarrow> modify (\<lambda>c. c\<lparr>currentRewrite := m, modalId := Some ''EDIT_REWRITE''\<rparr>))"

definition openDeleteRewriteModal ::
  "env \<Rightarrow> ('w, 'm) page_ctx_scheme page_env \<Rightarrow> page_view \<Rightarrow> (('w, 'm) page_ctx_scheme, unit) state" where
  "openDeleteRewriteModal env P v =
     (case matchedRewrite v of
        None \<Rightarrow> pass ()
      | Some m \<Rightarrow> perform_plan env P v RefreshRewrites (handleRewriteDelete env m))"

definition handleRewriteUpdate ::
  "env \<Rightarrow> ('w, 'm) page_ctx_scheme page_env \<Rightarrow> page_view \<Rightarrow> RewriteEntry \<Rightarrow> (('w, 'm) page_ctx_scheme, bool) state" where
  "handleRewriteUpdate env P v upd = do {
     rewrite \<leftarrow> gets currentRewrite;
     (if \<not> truthy_str (domain rewrite) then pass False
      else do {
        modify (\<lambda>c. c\<lparr>isResultVisible := False\<rparr>);
        ok \<leftarrow> run_call P (UpdateRewrite rewrite upd);
        (if ok \<noteq> Some True then pass False
         else do {
           modify (successToast env (msg env ''settings_notify_changes_saved''));
           recheckCurrentTarget P v;
           pass True }) }) }"

fun handleAction ::
  "env \<Rightarrow> ('w, 'm) page_ctx_scheme page_env \<Rightarrow> page_view \<Rightarrow> ResultActionKind
     \<Rightarrow> (('w, 'm) page_ctx_scheme, unit) state" where
  "handleAction env P v Allow = ruleToggle_run P UNBLOCK v"
| "handleAction env P v Block = ruleToggle_run P BLOCK v"
| "handleAction env P v DisableParental = perform_plan env P v RefreshSettingsAndClients (Some (handleDisableParental env v))"
| "handleAction env P v DisableSafebrowsing = perform_plan env P v RefreshSettingsAndClients (Some (handleDisableSafeBrowsing env v))"
| "handleAction env P v DisableSafesearch = perform_plan env P v RefreshSettingsAndClients (handleDisableSafeSearch env v)"
| "handleAction env P v DisableBlockedService = perform_plan env P v RefreshServicesAndClients (handleAllowBlockedService env v)"
| "handleAction env P v DisableFilter = perform_plan env P v RefreshRecheck (handleDisableFilter env v)"
| "handleAction env P v RemoveRewriteRule = perform_plan env P v RefreshRules (handleRemoveRewriteRule env v)"
| "handleAction env P v EditRewrite = pass ()"
| "handleAction env P v DeleteRewrite = pass ()"
| "handleAction env P v NoAction = pass ()"

subsection \<open>The settings a client has\<close>

text \<open>
  What holds for a client: filtering, parental control, safe browsing and safe search, its own or the
  global ones.
\<close>

definition effective_protection :: "bool \<Rightarrow> settingsList \<Rightarrow> Client \<Rightarrow> bool \<times> bool \<times> bool \<times> SafeSearchConfig" where
  "effective_protection g l c =
     (if flag (use_global_settings c)
      then (g, parental l, safebrowsing l, getSafeSearchConfig (Some (safesearch l)) None)
      else (flag (filtering_enabled c), flag (parental_enabled c), flag (safebrowsing_enabled c),
            getSafeSearchConfig (safe_search c) (safesearch_enabled c)))"

lemma flag_simps [simp]: "flag (Some b) = b" "\<not> flag None"
  by (simp_all add: flag_def)

lemma safe_search_idem [simp]: "getSafeSearchConfig (Some (getSafeSearchConfig a b)) d = getSafeSearchConfig a b"
  by (simp add: getSafeSearchConfig_def)

lemma safe_search_off [simp]:
  "getSafeSearchConfig (Some (x\<lparr>ss_enabled := Some e\<rparr>)) d = x\<lparr>ss_enabled := Some e\<rparr>"
  by (simp add: getSafeSearchConfig_def)

lemma own_settings_effective:
  assumes "getEffectiveClientProtectionSettings c g (Some l) = Some p"
  shows "effective_protection g l (own_settings c p) = effective_protection g l c"
    and "p_safe_search p = snd (snd (snd (effective_protection g l c)))"
  using assms
  by (auto simp: getEffectiveClientProtectionSettings_def own_settings_def effective_protection_def Let_def split: if_splits)

lemma effective_defined: "\<exists>p. getEffectiveClientProtectionSettings c g (Some l) = Some p"
  by (simp add: getEffectiveClientProtectionSettings_def Let_def)

text \<open>A client with one protection off, compared with the client before.\<close>

definition same_otherwise :: "Client \<Rightarrow> Client \<Rightarrow> bool" where
  "same_otherwise n c \<longleftrightarrow> client_name n = client_name c \<and> client_ids n = client_ids c \<and> client_tags n = client_tags c \<and>
     client_upstreams n = client_upstreams c \<and> client_blocked_services n = client_blocked_services c \<and>
     use_global_blocked_services n = use_global_blocked_services c \<and>
     blocked_services_schedule n = blocked_services_schedule c \<and> ignore_querylog n = ignore_querylog c \<and>
     ignore_statistics n = ignore_statistics c \<and> upstreams_cache_enabled n = upstreams_cache_enabled c \<and>
     upstreams_cache_size n = upstreams_cache_size c"

text \<open>
  C36. Switching a protection off for the client of a check sends that client with this protection off
  and everything else as it was in effect, also when the client followed the global settings so far: the
  other protections keep their effective values and no other property of the client changes.
\<close>

theorem client_protection_off:
  assumes "checked_client v \<noteq> None" "resolvedClient v = Some cl" "page_settings v = Some l"
    and "effective_protection (filteringEnabled v) l cl = (f, p, s, ss)"
  shows "\<exists>sb pc se q. plan_perform (handleDisableSafeBrowsing env v) = Some (UpdateClient (client_name cl) sb) \<and>
      effective_protection (filteringEnabled v) l sb = (f, p, False, ss) \<and> same_otherwise sb cl \<and>
    plan_perform (handleDisableParental env v) = Some (UpdateClient (client_name cl) pc) \<and>
      effective_protection (filteringEnabled v) l pc = (f, False, s, ss) \<and> same_otherwise pc cl \<and>
    handleDisableSafeSearch env v = Some q \<and> plan_perform q = Some (UpdateClient (client_name cl) se) \<and>
      effective_protection (filteringEnabled v) l se = (f, p, s, ss\<lparr>ss_enabled := Some False\<rparr>) \<and> same_otherwise se cl"
proof -
  obtain x where x: "getEffectiveClientProtectionSettings cl (filteringEnabled v) (Some l) = Some x"
    using effective_defined by blast
  note e = own_settings_effective [OF x, unfolded assms(4)]
  have own: "\<not> flag (use_global_settings (own_settings cl x))" by (simp add: own_settings_def)
  have eff: "flag (filtering_enabled (own_settings cl x)) = f" "flag (parental_enabled (own_settings cl x)) = p"
    "flag (safebrowsing_enabled (own_settings cl x)) = s"
    "getSafeSearchConfig (safe_search (own_settings cl x)) (safesearch_enabled (own_settings cl x)) = ss"
    using e(1) own by (simp_all add: effective_protection_def)
  let ?o = "own_settings cl x"
  let ?sb = "?o\<lparr>safebrowsing_enabled := Some False\<rparr>" and ?pc = "?o\<lparr>parental_enabled := Some False\<rparr>"
    and ?se = "without_safe_search x ?o"
  have "plan_perform (handleDisableSafeBrowsing env v) = Some (UpdateClient (client_name cl) ?sb)"
    "plan_perform (handleDisableParental env v) = Some (UpdateClient (client_name cl) ?pc)"
    "map_option plan_perform (handleDisableSafeSearch env v) = Some (Some (UpdateClient (client_name cl) ?se))"
    using assms(1-3) x
    by (simp_all add: handleDisableSafeBrowsing_def handleDisableParental_def handleDisableSafeSearch_def
        updateResolvedClient_def with_own_settings_def Let_def)
  moreover have "effective_protection (filteringEnabled v) l ?sb = (f, p, False, ss)"
    "effective_protection (filteringEnabled v) l ?pc = (f, False, s, ss)"
    "effective_protection (filteringEnabled v) l ?se = (f, p, s, ss\<lparr>ss_enabled := Some False\<rparr>)"
    using own eff e(2) by (simp_all add: effective_protection_def without_safe_search_def)
  moreover have "same_otherwise ?sb cl" "same_otherwise ?pc cl" "same_otherwise ?se cl"
    by (simp_all add: same_otherwise_def own_settings_def without_safe_search_def)
  ultimately show ?thesis by (simp only: map_option_eq_Some) blast
qed

text \<open>
  The undo of such a switch brings the client back: what it sends keeps every property of the client
  but the protections, and the protections in effect are those before, whether the client has its own
  settings or follows the global ones.
\<close>

theorem client_protection_undo:
  assumes "resolvedClient v = Some cl" "page_settings v = Some l"
    and "effective_protection g l cl = (f, p, s, ss)"
  shows "\<exists>sb pc se q. plan_undo (handleDisableSafeBrowsing env v) = UpdateClient (client_name cl) sb \<and>
      (s \<longrightarrow> effective_protection g l sb = (f, p, s, ss)) \<and> same_otherwise sb cl \<and>
    plan_undo (handleDisableParental env v) = UpdateClient (client_name cl) pc \<and>
      (p \<longrightarrow> effective_protection g l pc = (f, p, s, ss)) \<and> same_otherwise pc cl \<and>
    handleDisableSafeSearch env v = Some q \<and> plan_undo q = UpdateClient (client_name cl) se \<and>
      (ss_enabled ss = Some True \<longrightarrow> effective_protection g l se = (f, p, s, ss)) \<and> same_otherwise se cl"
proof -
  have "plan_undo (handleDisableSafeBrowsing env v) = UpdateClient (client_name cl) (cl\<lparr>safebrowsing_enabled := Some True\<rparr>)"
    "plan_undo (handleDisableParental env v) = UpdateClient (client_name cl) (cl\<lparr>parental_enabled := Some True\<rparr>)"
    "map_option plan_undo (handleDisableSafeSearch env v) = Some (UpdateClient (client_name cl) (with_safe_search cl))"
    using assms(1,2)
    by (simp_all add: handleDisableSafeBrowsing_def handleDisableParental_def handleDisableSafeSearch_def Let_def)
  moreover have "s \<longrightarrow> effective_protection g l (cl\<lparr>safebrowsing_enabled := Some True\<rparr>) = (f, p, s, ss)"
    "p \<longrightarrow> effective_protection g l (cl\<lparr>parental_enabled := Some True\<rparr>) = (f, p, s, ss)"
    "ss_enabled ss = Some True \<longrightarrow> effective_protection g l (with_safe_search cl) = (f, p, s, ss)"
    using assms(3)
    by (auto simp: effective_protection_def with_safe_search_def getSafeSearchConfig_def split: if_splits)
  moreover have "same_otherwise (cl\<lparr>safebrowsing_enabled := Some True\<rparr>) cl"
    "same_otherwise (cl\<lparr>parental_enabled := Some True\<rparr>) cl" "same_otherwise (with_safe_search cl) cl"
    by (simp_all add: same_otherwise_def with_safe_search_def)
  ultimately show ?thesis by (simp only: map_option_eq_Some) blast
qed

subsection \<open>Services, filters and rules\<close>

text \<open>
  Allowing a blocked service for a client leaves the other services it has blocked, its own or the
  global ones, with their schedule. The undo is only right for a client that follows the global list: a
  client with a list of its own gets the global list instead, and its own list is lost.
\<close>

theorem allow_service_undo_overwrites:
  assumes "resolvedClient v = Some cl" "\<not> flag (use_global_blocked_services cl)"
    and "client_blocked_services cl = Some own"
    and "findMatchedBlockedService (pv_allServices v) (checkResult v) = Some srv"
  shows "\<exists>q n u. handleAllowBlockedService env v = Some q \<and>
    plan_perform q = Some (UpdateClient (client_name cl) n) \<and>
      client_blocked_services n = Some (filter (\<lambda>i. i \<noteq> service_id srv) own) \<and>
      use_global_blocked_services n = Some False \<and> blocked_services_schedule n = blocked_services_schedule cl \<and>
    plan_undo q = UpdateClient (client_name cl) u \<and>
      client_blocked_services u = Some (nullish (ids (pv_services v)) []) \<and> \<not> flag (use_global_blocked_services u)"
  using assms
  by (simp add: handleAllowBlockedService_def updateResolvedClient_def getEffectiveBlockedServices_def Let_def)

text \<open>
  Removing the matched rule from the user rules leaves in force exactly the other rules, in order,
  and the undo puts the rules in force back.
\<close>

theorem remove_rule_effect:
  assumes "getPrimaryRule (checkResult v) = Some r" "rule_text r = Some t" "t \<noteq> []"
  shows "\<exists>q a. handleRemoveRewriteRule env v = Some q \<and> plan_perform q = Some (SetRules a) \<and>
      effective (rulesPayload a) = filter (\<lambda>x. x \<noteq> t) (effective (split_lines (pv_userRules v))) \<and>
    plan_undo q = SetRules (pv_userRules v) \<and>
      effective (rulesPayload (pv_userRules v)) = effective (split_lines (pv_userRules v))"
proof -
  let ?ls = "filter (\<lambda>x. x \<noteq> t) (splitByNewLine (Some (pv_userRules v)))"
  have "effective (rulesPayload (join_lines ?ls @ [newline])) = effective ?ls"
    unfolding effective_payload by (rule effective_join_lines(2)) (auto dest: splitByNewLine_clean)
  also have "\<dots> = filter (\<lambda>x. x \<noteq> t) (effective (split_lines (pv_userRules v)))"
    unfolding splitByNewLine_lines effective_def filter_filter by (rule filter_cong) auto
  finally show ?thesis
    using assms by (simp add: handleRemoveRewriteRule_def effective_payload)
qed

text \<open>
  Disabling the filter behind a check announces success whatever happened: the action of the
  filtering store has no result, so a refused request is not told apart, and for the same reason the
  undo never refreshes the page.
\<close>

theorem filter_failure_announced:
  assumes "handleDisableFilter env v = Some q" "plan_perform q = Some r"
    and "\<And>d x en wl. result (run_call P (ToggleFilterStatus x en wl)) d = None"
  shows "result (performWithUndo env P v q RefreshRecheck) c \<and>
    exec (runUndo P (plan_undo q, RefreshRecheck)) c = exec (run_call P (plan_undo q)) c"
proof -
  obtain x en wl where r: "r = ToggleFilterStatus x en wl"
    using assms(1,2) by (auto simp: handleDisableFilter_def filter_call_def Let_def split: option.splits)
  obtain x' en' wl' where u: "plan_undo q = ToggleFilterStatus x' en' wl'"
    using assms(1) by (auto simp: handleDisableFilter_def filter_call_def Let_def split: option.splits)
  show ?thesis using assms(2,3) by (simp add: performWithUndo_def runUndo_def r u)
qed

lemma the_only_Some: "the_only xs = Some x \<longleftrightarrow> xs = [x]"
  by (auto simp: the_only_def split: list.splits)

subsection \<open>Examples\<close>

definition global_on :: settingsList where
  "global_on = \<lparr>parental = True, safebrowsing = True, safesearch = empty_safesearch\<lparr>ss_enabled := Some True\<rparr>\<rparr>"

definition tablet :: Client where
  "tablet = sample_client\<lparr>client_name := Some ''tablet'', client_ids := Some [''10.0.0.9''],
     use_global_settings := Some True, use_global_blocked_services := Some False,
     client_blocked_services := Some [''tiktok'', ''x'']\<rparr>"

definition sample_service :: BlockedService where
  "sample_service = \<lparr>icon_svg = [], service_id = ''x'', service_name = ''X'', service_rules = [''||x.com^''], group_id = None\<rparr>"

definition sample_view :: page_view where
  "sample_view = \<lparr>
     checkResult = Some \<lparr>res_hostname = Some ''x.com'', res_reason = None,
       res_rules = Some [\<lparr>filter_list_id = Some 1, rule_text = Some ''||x.com^''\<rparr>], res_service_name = None,
       res_cname = None, res_ip_addrs = None\<rparr>,
     filteringEnabled = True, page_settings = Some global_on, persistentClients = [tablet], rewritesList = [],
     lastSubmittedCheck = Some \<lparr>check_hostname = ''x.com'', check_client = ''10.0.0.9'', check_qtype = []\<rparr>,
     pv_filters = [\<lparr>f_enabled = True, f_id = 1, lastUpdated = None, Filter.f_name = ''list'', rulesCount = 1, f_url = ''http://l''\<rparr>],
     pv_whitelistFilters = [],
     pv_userRules = ''||a^'' @ [newline] @ ''||x.com^'' @ [newline], pv_services = \<lparr>schedule = None, ids = Some [''x'']\<rparr>,
     pv_allServices = [sample_service]\<rparr>"

lemma tablet_matches: "client_matches ''10.0.0.9'' tablet"
  by (simp add: client_matches_def tablet_def)

lemma sample_view_client: "resolvedClient sample_view = Some tablet" "checked_client sample_view \<noteq> None"
  "page_settings sample_view = Some global_on"
  using tablet_matches
  by (simp_all add: resolvedClient_def findPersistentClient_def checked_client_def sample_view_def the_only_def)

lemma tablet_protection: "effective_protection True global_on tablet =
    (True, True, True, empty_safesearch\<lparr>ss_enabled := Some True\<rparr>)"
  by (simp add: effective_protection_def tablet_def global_on_def)

theorem client_protection_off_witness:
  "\<exists>sb. plan_perform (handleDisableSafeBrowsing sample_env sample_view) = Some (UpdateClient (client_name tablet) sb) \<and>
     effective_protection True global_on sb = (True, True, False, empty_safesearch\<lparr>ss_enabled := Some True\<rparr>)"
proof -
  have fe: "filteringEnabled sample_view = True" by (simp add: sample_view_def)
  show ?thesis
    using client_protection_off [OF sample_view_client(2,1,3), unfolded fe, OF tablet_protection, of sample_env] by blast
qed

theorem client_protection_undo_witness:
  "\<exists>sb. plan_undo (handleDisableSafeBrowsing sample_env sample_view) = UpdateClient (client_name tablet) sb \<and>
     effective_protection True global_on sb = (True, True, True, empty_safesearch\<lparr>ss_enabled := Some True\<rparr>)"
  using client_protection_undo [OF sample_view_client(1,3) tablet_protection, of sample_env] by blast

theorem allow_service_undo_overwrites_witness:
  "\<exists>q u. handleAllowBlockedService sample_env sample_view = Some q \<and> plan_undo q = UpdateClient (client_name tablet) u \<and>
     client_blocked_services tablet = Some [''tiktok'', ''x''] \<and> client_blocked_services u = Some [''x'']"
proof -
  have "findMatchedBlockedService (pv_allServices sample_view) (checkResult sample_view) = Some sample_service"
    by (simp add: findMatchedBlockedService_def sample_view_def service_matches_def getPrimaryRule_def truthy_str_def
        sample_service_def)
  moreover have "\<not> flag (use_global_blocked_services tablet)" "client_blocked_services tablet = Some [''tiktok'', ''x'']"
    by (simp_all add: tablet_def)
  ultimately show ?thesis
    using allow_service_undo_overwrites [OF sample_view_client(1), of "[''tiktok'', ''x'']" sample_service sample_env]
    by (auto simp: sample_view_def)
qed

theorem remove_rule_effect_witness:
  "\<exists>q a. handleRemoveRewriteRule sample_env sample_view = Some q \<and> plan_perform q = Some (SetRules a) \<and>
     effective (rulesPayload a) = [''||a^'']"
proof -
  have p: "getPrimaryRule (checkResult sample_view) = Some \<lparr>filter_list_id = Some 1, rule_text = Some ''||x.com^''\<rparr>"
    by (simp add: getPrimaryRule_def sample_view_def)
  have "effective (split_lines (pv_userRules sample_view)) = [''||a^'', ''||x.com^'']"
    by (simp add: sample_view_def effective_def blank_def newline_def is_space_def code_def)
  with remove_rule_effect [OF p, of "''||x.com^''" sample_env] show ?thesis by auto
qed

definition mute_page :: "('w, 'm) page_ctx_scheme page_env" where
  "mute_page = \<lparr>run_call = (\<lambda>_. pass None), run_refresh = (\<lambda>_. pass ()), run_check = (\<lambda>_. pass ()), run_delay = pass ()\<rparr>"

definition sample_page :: "unit page_ctx" where
  "sample_page = \<lparr>notices = [], undoRegistry = Map.empty, nonce = 1, console_error = [], world = (),
     isResultVisible = True, currentRewrite = EMPTY_REWRITE, modalId = None\<rparr>"

theorem filter_failure_announced_witness:
  "\<exists>q. handleDisableFilter sample_env sample_view = Some q \<and>
     result (performWithUndo sample_env mute_page sample_view q RefreshRecheck) sample_page"
proof -
  obtain q r where q: "handleDisableFilter sample_env sample_view = Some q" "plan_perform q = Some r"
    by (simp add: handleDisableFilter_def sample_view_def getPrimaryRule_def)
  have "result (run_call mute_page (ToggleFilterStatus x en wl)) d = None" for d :: "unit page_ctx" and x en wl
    by (simp add: mute_page_def)
  from filter_failure_announced [OF q this] q(1) show ?thesis by blast
qed

end
