(* ===== verification/QueryLogPage.thy ===== *)
theory QueryLogPage
  imports QueryLogs Access UserRules
begin

section \<open>The query log page\<close>

text \<open>
  \<^verbatim>\<open>client_v2/src/components/QueryLog\<close>: what a row of the log is shown as (\<^verbatim>\<open>helpers.ts\<close>), the filter in
  the address bar and the handlers of \<^verbatim>\<open>QueryLog.tsx\<close>, the buttons of the detail dialog
  (\<^verbatim>\<open>DetailModal\<close>) and the trigger that loads more rows while scrolling. The log itself is
  \<open>QueryLogs\<close>. Dates, CSS class names and the \<open>qs\<close> library are parameters.
\<close>

subsection \<open>Status and reason of a row\<close>

datatype QueryStatusKey = Allowed | Processed | Blocked | Rewritten | Error

datatype QueryReasonKey = NoReason | Allowlists | BlockedByFilter | CustomFilteringRules | BlockedServices
  | BlockedThreats | BlockedByParentalControl | SafeSearchReason | DnsRewrites | ErrorReason

fun status_name :: "QueryStatusKey \<Rightarrow> string" where
  "status_name Allowed = ''allowed''"
| "status_name Processed = ''processed''"
| "status_name Blocked = ''blocked''"
| "status_name Rewritten = ''rewritten''"
| "status_name Error = ''error''"

fun getQueryStatusLabel :: "env \<Rightarrow> QueryStatusKey \<Rightarrow> string" where
  "getQueryStatusLabel env Allowed = msg env ''query_log_allowed''"
| "getQueryStatusLabel env Processed = msg env ''query_log_processed''"
| "getQueryStatusLabel env Blocked = msg env ''query_log_blocked''"
| "getQueryStatusLabel env Rewritten = msg env ''query_log_rewritten''"
| "getQueryStatusLabel env Error = msg env ''error''"

fun getQueryReasonLabel :: "env \<Rightarrow> QueryReasonKey \<Rightarrow> string" where
  "getQueryReasonLabel env NoReason = ''-''"
| "getQueryReasonLabel env Allowlists = msg env ''allowlists''"
| "getQueryReasonLabel env BlockedByFilter = msg env ''query_log_blocked_by_filter''"
| "getQueryReasonLabel env CustomFilteringRules = msg env ''query_log_custom_filtering_rules''"
| "getQueryReasonLabel env BlockedServices = msg env ''query_log_blocked_services''"
| "getQueryReasonLabel env BlockedThreats = msg env ''query_log_blocked_threats''"
| "getQueryReasonLabel env BlockedByParentalControl = msg env ''query_log_blocked_by_parental_control''"
| "getQueryReasonLabel env SafeSearchReason = msg env ''query_log_safe_search''"
| "getQueryReasonLabel env DnsRewrites = msg env ''dns_rewrites''"
| "getQueryReasonLabel env ErrorReason = msg env ''error''"

definition FILTERED_STATUS :: "string list" where
  "FILTERED_STATUS = [''FilteredBlackList'', ''NotFilteredWhiteList'', ''NotFilteredNotFound'', ''NotFilteredError'',
     ''FilteredInvalid'', ''FilteredBlockedService'', ''Rewrite'', ''RewriteEtcHosts'', ''RewriteRule'',
     ''FilteredSafeSearch'', ''FilteredSafeBrowsing'', ''FilteredParental'']"

definition rewrite_reasons :: "string list" where
  "rewrite_reasons = [''Rewrite'', ''RewriteEtcHosts'', ''RewriteRule'']"

definition getStatusLabel :: "env \<Rightarrow> string \<Rightarrow> 'r list \<Rightarrow> bool \<Rightarrow> string" where
  "getStatusLabel env r originalResponse isBlockedByResponse =
     msg env
      (if isBlockedByResponse then ''blocked_by_cname_or_ip''
       else if r = ''NotFilteredWhiteList'' then ''allowed''
       else if r = ''NotFilteredNotFound'' then ''show_processed_responses''
       else if r = ''FilteredBlockedService'' then ''blocked_service''
       else if r = ''FilteredSafeSearch'' then ''safe_search''
       else if r = ''FilteredBlackList'' then ''blocked''
       else if r \<in> set rewrite_reasons then ''rewritten''
       else if r = ''FilteredSafeBrowsing'' then ''blocked_threats''
       else if r = ''FilteredParental'' then ''blocked_adult_websites''
       else if r = ''NotFilteredError'' then ''error''
       else if r = ''FilteredInvalid'' then ''invalid''
       else if length originalResponse > 0 then ''rewritten''
       else ''show_processed_responses'')"

definition FILTERED_STATUS_TO_COLOR_MAP :: "string \<rightharpoonup> string" where
  "FILTERED_STATUS_TO_COLOR_MAP = map_of [
     (''NotFilteredWhiteList'', ''green''), (''NotFilteredNotFound'', ''white''), (''FilteredBlockedService'', ''red''),
     (''FilteredSafeSearch'', ''yellow''), (''FilteredBlackList'', ''red''), (''Rewrite'', ''yellow''),
     (''RewriteEtcHosts'', ''yellow''), (''RewriteRule'', ''yellow''), (''FilteredSafeBrowsing'', ''red''),
     (''FilteredParental'', ''red''), (''NotFilteredError'', ''red''), (''FilteredInvalid'', ''red'')]"

text \<open>The class names come from the theme; the table has none for white.\<close>

definition getStatusClassName :: "(string \<Rightarrow> string) \<Rightarrow> string option \<Rightarrow> string" where
  "getStatusClassName themeClass r =
     (case Option.bind r FILTERED_STATUS_TO_COLOR_MAP of
        Some c \<Rightarrow> if c \<in> {''red'', ''green'', ''yellow'', ''blue''} then themeClass c else []
      | None \<Rightarrow> [])"

definition isBlockedReason :: "string option \<Rightarrow> bool" where
  "isBlockedReason r = (case r of None \<Rightarrow> False | Some s \<Rightarrow> s \<noteq> [] \<and> startsWith s ''Filtered'' \<and> s \<noteq> ''FilteredSafeSearch'')"

definition SCHEME_TO_PROTOCOL_MAP :: "string \<rightharpoonup> string" where
  "SCHEME_TO_PROTOCOL_MAP = map_of [(''dnscrypt'', ''dnscrypt''), (''doh'', ''dns_over_https''),
     (''dot'', ''dns_over_tls''), (''doq'', ''dns_over_quic''), ([], ''plain_dns'')]"

text \<open>\<open>PROTOCOL_LABEL_GETTERS\<close> has no entry for \<open>dnscrypt\<close>, so calling what it reads there throws:
  \<^const>\<open>None\<close>. The argument is one of the schemes the server sends.\<close>

definition getProtocolName :: "env \<Rightarrow> string \<Rightarrow> string option" where
  "getProtocolName env p =
     (case SCHEME_TO_PROTOCOL_MAP p of
        None \<Rightarrow> Some (msg env ''plain_dns'')
      | Some k \<Rightarrow> if k \<in> {''dns_over_https'', ''dns_over_quic'', ''dns_over_tls'', ''plain_dns''} then Some (msg env k) else None)"

definition getQueryStatusKey :: "string option \<Rightarrow> 'r list \<Rightarrow> QueryStatusKey" where
  "getQueryStatusKey r originalResponse =
     (if r = Some ''NotFilteredWhiteList'' then Allowed
      else if r \<in> Some ` set (''FilteredSafeSearch'' # rewrite_reasons) then Rewritten
      else if r = Some ''NotFilteredNotFound'' then Processed
      else if r = Some ''NotFilteredError'' \<or> r = Some ''FilteredInvalid'' then Error
      else if length originalResponse > 0 then Rewritten
      else case r of
             None \<Rightarrow> Processed
           | Some s \<Rightarrow> if s \<noteq> [] \<and> startsWith s ''Filtered'' then Blocked else Processed)"

definition getQueryReasonKey :: "string option \<Rightarrow> ResultRule list \<Rightarrow> QueryReasonKey" where
  "getQueryReasonKey r rs =
     (if r = Some ''NotFilteredWhiteList'' then Allowlists
      else if r = Some ''NotFilteredNotFound'' then NoReason
      else if r = Some ''FilteredBlockedService'' then BlockedServices
      else if r = Some ''FilteredSafeSearch'' then SafeSearchReason
      else if r \<in> Some ` set rewrite_reasons then DnsRewrites
      else if r = Some ''FilteredSafeBrowsing'' then BlockedThreats
      else if r = Some ''FilteredParental'' then BlockedByParentalControl
      else if r = Some ''NotFilteredError'' \<or> r = Some ''FilteredInvalid'' then ErrorReason
      else if r = Some ''FilteredBlackList''
        then (if \<exists>x\<in>set rs. filter_list_id x = Some CUSTOM_FILTERING_RULES then CustomFilteringRules else BlockedByFilter)
      else NoReason)"

definition filterLogsByStatus :: "NormalizedQueryLogItem list \<Rightarrow> string \<Rightarrow> NormalizedQueryLogItem list" where
  "filterLogsByStatus ls st =
     (if st = ''all'' then ls
      else filter (\<lambda>l. status_name (getQueryStatusKey (Some (nullish (n_reason l) [])) (n_originalResponse l)) = st) ls)"

subsection \<open>Details of a row\<close>

definition sp_ids :: "int list" where
  "sp_ids = [0, -1, -2, -3, -4, -5]"

definition getSpecialFilterName :: "env \<Rightarrow> int \<Rightarrow> string" where
  "getSpecialFilterName env i =
     (if i = 0 then msg env ''custom_rules''
      else if i = -1 then msg env ''system_host_files''
      else if i = -2 then msg env ''blocked_services''
      else if i = -3 then msg env ''parental_control''
      else if i = -4 then msg env ''safe_browsing''
      else if i = -5 then msg env ''safe_search''
      else getMessage env ''unknown_filter'' [(''filterId'', NArg i)])"

definition find_filter :: "Filter list \<Rightarrow> Filter list \<Rightarrow> int \<Rightarrow> Filter option" where
  "find_filter fs wl i = (case find (\<lambda>f. f_id f = i) fs of Some f \<Rightarrow> Some f | None \<Rightarrow> find (\<lambda>f. f_id f = i) wl)"

definition getFilterName :: "env \<Rightarrow> Filter list \<Rightarrow> Filter list \<Rightarrow> int \<Rightarrow> string" where
  "getFilterName env fs wl i =
     (if i \<in> set sp_ids then getSpecialFilterName env i
      else case find_filter fs wl i of
             Some f \<Rightarrow> Filter.f_name f
           | None \<Rightarrow> getMessage env ''unknown_filter'' [(''filterId'', NArg i)])"

definition getFilterNames :: "env \<Rightarrow> ResultRule list \<Rightarrow> Filter list \<Rightarrow> Filter list \<Rightarrow> string list" where
  "getFilterNames env rs fs wl = map (getFilterName env fs wl) (List.map_filter filter_list_id rs)"

definition getService :: "BlockedService list \<Rightarrow> string \<Rightarrow> BlockedService option" where
  "getService srvs i = find (\<lambda>s. service_id s = i) srvs"

definition getServiceName :: "BlockedService list \<Rightarrow> string \<Rightarrow> string option" where
  "getServiceName srvs i = map_option service_name (getService srvs i)"

text \<open>\<open>parseFloat\<close> on decimal text, and \<open>toFixed(2)\<close>, which rounds halves away from zero.\<close>

definition fraction_of :: "string \<Rightarrow> string \<Rightarrow> rat" where
  "fraction_of a b = of_int (digits_value (a @ b)) / 10 ^ length b"

definition exponent_of :: "string \<Rightarrow> rat" where
  "exponent_of s =
     (case s of
        [] \<Rightarrow> 1
      | e # t \<Rightarrow>
          if e \<noteq> CHR ''e'' \<and> e \<noteq> CHR ''E'' then 1
          else let (neg, u) = (case t of [] \<Rightarrow> (False, []) | c # r \<Rightarrow>
                     if c = CHR ''-'' then (True, r) else if c = CHR ''+'' then (False, r) else (False, t));
                   k = nat (digits_value (takeWhile is_digit u))
               in if neg then 1 / 10 ^ k else 10 ^ k)"

definition parseFloat :: "string \<Rightarrow> js_number" where
  "parseFloat s =
     (let t = trimStart s;
          (neg, u) = (case t of [] \<Rightarrow> (False, []) | c # r \<Rightarrow>
             if c = CHR ''-'' then (True, r) else if c = CHR ''+'' then (False, r) else (False, t));
          a = takeWhile is_digit u; v = dropWhile is_digit u;
          point = (v \<noteq> [] \<and> hd v = CHR ''.'');
          b = (if point then takeWhile is_digit (tl v) else []);
          w = (if point then dropWhile is_digit (tl v) else v)
      in if startsWith u ''Infinity'' then (if neg then NegInf else PosInf)
         else if a = [] \<and> b = [] then NaN
         else Num ((if neg then -1 else 1) * fraction_of a b * exponent_of w))"

definition toFixed2 :: "rat \<Rightarrow> string" where
  "toFixed2 r =
     (let n = nat \<lfloor>\<bar>r\<bar> * 100 + 1 / 2\<rfloor>
      in (if r < 0 then ''-'' else []) @ show_nat (n div 100) @ ''.'' @ show_nat (n mod 100 div 10) @ show_nat (n mod 10))"

definition formatElapsedMs :: "string \<Rightarrow> string \<Rightarrow> string" where
  "formatElapsedMs el label =
     (case parseFloat el of
        NaN \<Rightarrow> el
      | PosInf \<Rightarrow> ''Infinity '' @ label
      | NegInf \<Rightarrow> ''-Infinity '' @ label
      | Num r \<Rightarrow> (if r < 1 then toFixed2 r else show_int \<lfloor>r\<rfloor>) @ '' '' @ label)"

definition getQueryStatusDetails :: "env \<Rightarrow> string \<Rightarrow> string" where
  "getQueryStatusDetails env el = formatElapsedMs el (msg env ''milliseconds_abbreviation'')"

record ResponseDetailsParams =
  rd_elapsedMs :: "string option"
  rd_filters :: "Filter list"
  rd_reason :: "string option"
  rd_rules :: "ResultRule list"
  rd_serviceName :: "string option"
  rd_services :: "BlockedService list option"
  rd_whitelistFilters :: "Filter list"

text \<open>\<open>(services && serviceName && getServiceName(services, serviceName)) || serviceName\<close>.\<close>

definition shown_service :: "ResponseDetailsParams \<Rightarrow> string" where
  "shown_service p =
     (case (rd_services p, rd_serviceName p) of
        (Some srvs, Some n) \<Rightarrow> if n = [] then [] else opt_or_str (getServiceName srvs n) n
      | (None, Some n) \<Rightarrow> n
      | (_, None) \<Rightarrow> [])"

definition shown_filters :: "env \<Rightarrow> ResponseDetailsParams \<Rightarrow> string" where
  "shown_filters env p =
     join '', '' (filter (\<lambda>n. n \<noteq> []) (getFilterNames env (rd_rules p) (rd_filters p) (rd_whitelistFilters p)))"

definition getQueryReasonDetails :: "env \<Rightarrow> ResponseDetailsParams \<Rightarrow> string" where
  "getQueryReasonDetails env p =
     (case getQueryReasonKey (rd_reason p) (rd_rules p) of
        BlockedServices \<Rightarrow> shown_service p
      | BlockedByFilter \<Rightarrow> shown_filters env p
      | Allowlists \<Rightarrow> shown_filters env p
      | _ \<Rightarrow> [])"

definition getResponseDetails :: "env \<Rightarrow> ResponseDetailsParams \<Rightarrow> string" where
  "getResponseDetails env p =
     (let formattedElapsedMs = formatElapsedMs (nullish (rd_elapsedMs p) []) (msg env ''milliseconds_abbreviation'')
      in if rd_reason p = Some ''FilteredBlockedService'' then or_str (shown_service p) formattedElapsedMs
         else if rd_reason p = Some ''FilteredBlackList'' \<or> rd_reason p = Some ''NotFilteredWhiteList''
           then or_str (shown_filters env p) formattedElapsedMs
         else formattedElapsedMs)"

definition getClientLocation :: "QueryLogItemClientWhois option \<Rightarrow> string" where
  "getClientLocation w =
     join '', '' (filter (\<lambda>s. s \<noteq> []) (map (\<lambda>f. nullish (Option.bind w f) []) [w_city, w_country]))"

definition hasPersistentClient :: "string option \<Rightarrow> string option \<Rightarrow> string list option \<Rightarrow> string list \<Rightarrow> bool" where
  "hasPersistentClient cl cid info_ids persistentClientIds =
     (\<exists>i\<in>set (filter (\<lambda>s. s \<noteq> []) ([nullish cl [], nullish cid []] @ nullish info_ids [])). i \<in> set persistentClientIds)"

record block_info =
  isInAllowlist :: bool
  isLastAllowlistEntry :: bool
  bi_disallowed :: bool
  bi_disallowedRule :: string

definition getBlockClientInfo :: "string \<Rightarrow> bool \<Rightarrow> string \<Rightarrow> string list \<Rightarrow> block_info" where
  "getBlockClientInfo ip disallowed disallowedRule allowedClients = \<lparr>
     isInAllowlist = (length allowedClients > 0),
     isLastAllowlistEntry = (length allowedClients > 0 \<and> length allowedClients = 1),
     bi_disallowed = disallowed, bi_disallowedRule = or_str disallowedRule ip\<rparr>"

text \<open>A time that is no date is shown as it is. \<open>'d\<close> is the type of dates.\<close>

record 'd clock =
  new_Date :: "string \<Rightarrow> 'd option"
  dateFormat :: "'d \<Rightarrow> string \<Rightarrow> string"
  toLocaleDateString :: "'d \<Rightarrow> string"

definition formatLogTime :: "'d clock \<Rightarrow> string \<Rightarrow> string" where
  "formatLogTime k t = (case new_Date k t of Some d \<Rightarrow> dateFormat k d ''HH:mm:ss'' | None \<Rightarrow> t)"

definition formatLogDate :: "'d clock \<Rightarrow> string \<Rightarrow> string" where
  "formatLogDate k t = (case new_Date k t of Some d \<Rightarrow> toLocaleDateString k d | None \<Rightarrow> t)"

definition formatLogTimeDetailed :: "'d clock \<Rightarrow> string \<Rightarrow> string" where
  "formatLogTimeDetailed k t = (case new_Date k t of Some d \<Rightarrow> dateFormat k d ''HH:mm:ss.SSS'' | None \<Rightarrow> t)"

text \<open>The answers of the detail dialog, one line each.\<close>

definition formatResponse :: "NormalizedDnsResponse \<Rightarrow> string" where
  "formatResponse r =
     (if \<not> truthy_str (nr_value r) then []
      else let entry = join '': '' (filter (\<lambda>s. s \<noteq> []) [nullish (nr_type r) [], nullish (nr_value r) []])
           in case nr_ttl r of Some n \<Rightarrow> entry @ '' (ttl='' @ show_int n @ '')'' | None \<Rightarrow> entry)"

definition formatResponses :: "NormalizedDnsResponse list \<Rightarrow> string list" where
  "formatResponses rs = filter (\<lambda>s. s \<noteq> []) (map formatResponse rs)"

subsection \<open>The filter in the address bar\<close>

definition QUERY_LOG_STATUS_FILTER_QUERIES :: "string list" where
  "QUERY_LOG_STATUS_FILTER_QUERIES = [''all'', ''processed'', ''allowed'', ''blocked'', ''rewritten'']"

definition QUERY_LOG_REASON_FILTER_QUERIES :: "string list" where
  "QUERY_LOG_REASON_FILTER_QUERIES = [''all'', ''FilteredBlackList'', ''FilteredBlockedService'',
     ''FilteredSafeBrowsing'', ''FilteredParental'', ''Rewrite'', ''FilteredSafeSearch'']"

text \<open>\<open>stringify\<close> of \<open>qs\<close> and \<open>new URLSearchParams(s).get(k)\<close>.\<close>

record codec =
  stringify :: "(string \<times> string option) list \<Rightarrow> string"
  search_param :: "string \<Rightarrow> string \<Rightarrow> string option"

definition unless_empty :: "string \<Rightarrow> string option" where
  "unless_empty s = (if s = [] then None else Some s)"

definition getLogsUrlParams :: "codec \<Rightarrow> string \<Rightarrow> string \<Rightarrow> string \<Rightarrow> string" where
  "getLogsUrlParams K q st r = ''?'' @ stringify K [(''search'', unless_empty q),
     (''status'', unless_empty st), (''reason'', unless_empty r)]"

definition url_filter :: "codec \<Rightarrow> string \<Rightarrow> QueryLogFilter" where
  "url_filter K loc =
     (let statusParam = opt_or_str (search_param K loc ''status'') ''all'';
          reasonParam = opt_or_str (search_param K loc ''reason'') ''all''
      in \<lparr>f_search = opt_or_str (search_param K loc ''search'') [],
          f_status = (if statusParam \<in> set QUERY_LOG_STATUS_FILTER_QUERIES then statusParam else ''all''),
          f_reason = (if reasonParam \<in> set QUERY_LOG_REASON_FILTER_QUERIES then reasonParam else ''all'')\<rparr>)"

datatype url_reaction = Navigate string | ApplyFilter QueryLogFilter

text \<open>The effect on \<open>location.search\<close>: an address that is not in its normal form is replaced, otherwise
  the filter is stored (\<open>setLogsFilter\<close>) and the log is loaded (\<open>setFilteredLogs\<close>).\<close>

definition watch_url :: "codec \<Rightarrow> string \<Rightarrow> url_reaction" where
  "watch_url K loc =
     (let nextFilter = url_filter K loc;
          nextSearch = getLogsUrlParams K (f_search nextFilter) (f_status nextFilter) (f_reason nextFilter)
      in if loc \<noteq> nextSearch then Navigate nextSearch else ApplyFilter nextFilter)"

definition handleSearch :: "codec \<Rightarrow> QueryLogFilter \<Rightarrow> string \<Rightarrow> string" where
  "handleSearch K cur q = getLogsUrlParams K (trim q) (f_status cur) (f_reason cur)"

definition handleStatusFilterChange :: "codec \<Rightarrow> QueryLogFilter \<Rightarrow> string \<Rightarrow> string" where
  "handleStatusFilterChange K cur st = getLogsUrlParams K (f_search cur) st (f_reason DEFAULT_LOGS_FILTER)"

definition handleReasonFilterChange :: "codec \<Rightarrow> QueryLogFilter \<Rightarrow> string \<Rightarrow> string" where
  "handleReasonFilterChange K cur r = getLogsUrlParams K (f_search cur) (f_status cur) r"

datatype EmptyStateMode = EmptyDisabled | RotationDisabled | EmptyDefault

definition getEmptyStateMode :: "bool \<Rightarrow> rat option \<Rightarrow> EmptyStateMode" where
  "getEmptyStateMode en iv = (if \<not> en then EmptyDisabled else if iv = Some 0 then RotationDisabled else EmptyDefault)"

definition visibleLogs :: "QueryLogsState \<Rightarrow> NormalizedQueryLogItem list" where
  "visibleLogs s = filterLogsByStatus (logs s) (f_status (logs_filter s))"

definition isRequestInFlight :: "QueryLogsState \<Rightarrow> bool" where
  "isRequestInFlight s \<longleftrightarrow> processingGetLogs s \<or> processingAdditionalLogs s"

definition isInitialLoading :: "QueryLogsState \<Rightarrow> bool \<Rightarrow> bool" where
  "isInitialLoading s incremental \<longleftrightarrow> processingGetLogs s \<and> length (logs s) = 0 \<and> \<not> incremental"

definition isFilterReloading :: "QueryLogsState \<Rightarrow> bool \<Rightarrow> bool" where
  "isFilterReloading s incremental \<longleftrightarrow> processingGetLogs s \<and> \<not> isInitialLoading s incremental \<and> \<not> incremental"

definition isLoadingMore :: "QueryLogsState \<Rightarrow> bool \<Rightarrow> bool" where
  "isLoadingMore s incremental \<longleftrightarrow> incremental \<and> isRequestInFlight s"

definition persistentClientIds :: "Client list \<Rightarrow> string list" where
  "persistentClientIds cs = concat (map (\<lambda>c. nullish (client_ids c) []) cs)"

record 'w log_page_ctx = "'w querylog_ctx" +
  isIncrementalLoad :: bool

definition handleLoadMore ::
  "env \<Rightarrow> ('w, 'm) log_page_ctx_scheme querylog_api \<Rightarrow> tracker_db \<Rightarrow> (('w, 'm) log_page_ctx_scheme, unit) state" where
  "handleLoadMore env api db = do {
     s \<leftarrow> gets queryLogs;
     (if isRequestInFlight s \<or> isEntireLog s then pass ()
      else do {
        modify (\<lambda>c. c\<lparr>isIncrementalLoad := True\<rparr>);
        getAdditionalLogs env api db }) }"

definition load_finished :: "('w, 'm) log_page_ctx_scheme \<Rightarrow> ('w, 'm) log_page_ctx_scheme" where
  "load_finished c = (if \<not> isRequestInFlight (queryLogs c) then c\<lparr>isIncrementalLoad := False\<rparr> else c)"

subsection \<open>The dialog that disallows a client\<close>

text \<open>The toggle is not awaited: the dialog closes before its first answer.\<close>

record ('u, 'w) disallow_ctx = "('u, 'w) access_ctx" +
  disallowTarget :: "string option"

definition page_clients :: "string \<Rightarrow> string list" where
  "page_clients text = (if text = [] then [] else filter (\<lambda>l. l \<noteq> []) (split_lines text))"

definition handleConfirmDisallow ::
  "env \<Rightarrow> ('u, 'w, 'm) disallow_ctx_scheme access_api \<Rightarrow> (('u, 'w, 'm) disallow_ctx_scheme, unit) state" where
  "handleConfirmDisallow env api = do {
     target \<leftarrow> gets disallowTarget;
     (case target of
        None \<Rightarrow> pass ()
      | Some t \<Rightarrow>
          if t = [] then pass ()
          else do {
            disallowed \<leftarrow> gets (\<lambda>c. t \<in> set (page_clients (disallowed_clients (access c))));
            modify (\<lambda>c. c\<lparr>disallowTarget := None\<rparr>);
            toggleClientBlock env api t disallowed (if disallowed then t else []) }) }"

subsection \<open>The buttons of the detail dialog\<close>

datatype DetailModalActionId = ActBlock | ActAddToAllowlist | ActAllowService | ActDisableFilter
  | ActDisableBrowsingSecurity | ActDisableParental | ActDisableSafeSearch | ActRemoveDnsRewrite | ActEditDnsRewrite

record DetailModalActionContext =
  hasServiceId :: bool
  canDisableFilter :: bool
  hasRewriteRule :: bool

fun getDetailModalActions :: "QueryReasonKey \<Rightarrow> DetailModalActionContext \<Rightarrow> DetailModalActionId list" where
  "getDetailModalActions Allowlists x = [ActBlock]"
| "getDetailModalActions NoReason x = [ActAddToAllowlist, ActBlock]"
| "getDetailModalActions BlockedServices x =
     (if hasServiceId x then [ActAddToAllowlist, ActAllowService] else [ActAddToAllowlist])"
| "getDetailModalActions BlockedThreats x = [ActAddToAllowlist, ActDisableBrowsingSecurity]"
| "getDetailModalActions BlockedByParentalControl x = [ActAddToAllowlist, ActDisableParental]"
| "getDetailModalActions SafeSearchReason x = [ActAddToAllowlist, ActDisableSafeSearch]"
| "getDetailModalActions BlockedByFilter x =
     (if canDisableFilter x then [ActAddToAllowlist, ActDisableFilter] else [ActAddToAllowlist])"
| "getDetailModalActions CustomFilteringRules x = [ActAddToAllowlist]"
| "getDetailModalActions DnsRewrites x = (if hasRewriteRule x then [ActRemoveDnsRewrite, ActEditDnsRewrite] else [])"
| "getDetailModalActions ErrorReason x = []"

definition entry_serviceId :: "NormalizedQueryLogItem \<Rightarrow> string option" where
  "entry_serviceId e = (if truthy_str (n_serviceName e) then n_serviceName e else n_service_name e)"

definition filterToDisable :: "Filter list \<Rightarrow> NormalizedQueryLogItem \<Rightarrow> Filter option" where
  "filterToDisable fs e =
     (case List.map_filter filter_list_id (n_rules e) of
        [] \<Rightarrow> None
      | i # _ \<Rightarrow> find (\<lambda>f. f_id f = i) fs)"

definition rewriteRule :: "RewriteEntry list \<Rightarrow> NormalizedQueryLogItem \<Rightarrow> RewriteEntry option" where
  "rewriteRule rw e = find_rewrite rw (nullish (n_domain e) [])"

definition footer_actions :: "Filter list \<Rightarrow> RewriteEntry list \<Rightarrow> NormalizedQueryLogItem \<Rightarrow> DetailModalActionId list" where
  "footer_actions fs rw e = getDetailModalActions (getQueryReasonKey (n_reason e) (n_rules e))
     \<lparr>hasServiceId = truthy_str (entry_serviceId e), canDisableFilter = (filterToDisable fs e \<noteq> None),
      hasRewriteRule = (rewriteRule rw e \<noteq> None)\<rparr>"

datatype footer_call = OnBlock string | OnAddToAllowlist string | OnAllowService string | OnDisableFilter Filter
  | OnDisableSafeBrowsing | OnDisableParental | OnDisableSafeSearch | OnRemoveRewrite RewriteEntry | OnEditRewrite RewriteEntry

text \<open>The handler of each button: the call it makes before it closes the dialog, or nothing.\<close>

fun footer_handler :: "Filter list \<Rightarrow> RewriteEntry list \<Rightarrow> NormalizedQueryLogItem \<Rightarrow> DetailModalActionId \<Rightarrow> footer_call option" where
  "footer_handler fs rw e ActBlock = Some (OnBlock (nullish (n_domain e) []))"
| "footer_handler fs rw e ActAddToAllowlist = Some (OnAddToAllowlist (nullish (n_domain e) []))"
| "footer_handler fs rw e ActAllowService =
     (if truthy_str (entry_serviceId e) then map_option OnAllowService (entry_serviceId e) else None)"
| "footer_handler fs rw e ActDisableFilter = map_option OnDisableFilter (filterToDisable fs e)"
| "footer_handler fs rw e ActDisableBrowsingSecurity = Some OnDisableSafeBrowsing"
| "footer_handler fs rw e ActDisableParental = Some OnDisableParental"
| "footer_handler fs rw e ActDisableSafeSearch = Some OnDisableSafeSearch"
| "footer_handler fs rw e ActRemoveDnsRewrite = map_option OnRemoveRewrite (rewriteRule rw e)"
| "footer_handler fs rw e ActEditDnsRewrite = map_option OnEditRewrite (rewriteRule rw e)"

subsection \<open>Loading while scrolling\<close>

text \<open>\<open>InfiniteScrollTrigger\<close>. The two flags and the pending frame are its variables, \<open>hasMore\<close> and \<open>disabled\<close>
  its properties; \<open>sincechange\<close> counts its calls of \<open>onLoadMore\<close> since a property last changed.\<close>

record trigger =
  requestedRef :: bool
  wasNearEndRef :: bool
  frameRef :: bool
  hasMore :: bool
  disabled :: bool
  since_change :: nat

definition triggerLoadMore :: "trigger \<Rightarrow> trigger" where
  "triggerLoadMore t =
     (if \<not> hasMore t \<or> disabled t \<or> requestedRef t then t
      else t\<lparr>requestedRef := True, since_change := Suc (since_change t)\<rparr>)"

definition maybeLoadMore :: "bool \<Rightarrow> trigger \<Rightarrow> trigger" where
  "maybeLoadMore nearEnd t =
     (if nearEnd \<and> \<not> wasNearEndRef t then triggerLoadMore t else t)\<lparr>wasNearEndRef := nearEnd\<rparr>"

definition frame_fires :: "bool \<Rightarrow> trigger \<Rightarrow> trigger" where
  "frame_fires nearEnd t = (if frameRef t then maybeLoadMore nearEnd (t\<lparr>frameRef := False\<rparr>) else t)"

definition handleScroll :: "bool \<Rightarrow> trigger \<Rightarrow> trigger" where
  "handleScroll onTop t = (if onTop then t\<lparr>wasNearEndRef := False\<rparr> else t)\<lparr>frameRef := True\<rparr>"

definition handleResize :: "trigger \<Rightarrow> trigger" where
  "handleResize t = t\<lparr>frameRef := True\<rparr>"

text \<open>New properties run the effects that depend on what changed, in their order; the last one cancels
  the pending frame and asks for a new one.\<close>

definition props_change :: "bool \<Rightarrow> bool \<Rightarrow> bool \<Rightarrow> trigger \<Rightarrow> trigger" where
  "props_change mr dis token t =
     (let t0 = t\<lparr>hasMore := mr, disabled := dis\<rparr>;
          t1 = (if dis \<noteq> disabled t \<and> \<not> dis then t0\<lparr>requestedRef := False, wasNearEndRef := False\<rparr> else t0);
          t2 = (if mr \<noteq> hasMore t \<and> \<not> mr then t1\<lparr>requestedRef := False\<rparr> else t1);
          t3 = (if token then t2\<lparr>requestedRef := False, wasNearEndRef := False\<rparr> else t2)
      in if dis \<noteq> disabled t \<or> mr \<noteq> hasMore t \<or> token then t3\<lparr>frameRef := True, since_change := 0\<rparr> else t)"

inductive trigger_reach :: "trigger \<Rightarrow> bool" where
  start: "trigger_reach \<lparr>requestedRef = False, wasNearEndRef = False, frameRef = True, hasMore = m, disabled = d, since_change = 0\<rparr>"
| frame: "trigger_reach t \<Longrightarrow> trigger_reach (frame_fires nearEnd t)"
| scroll: "trigger_reach t \<Longrightarrow> trigger_reach (handleScroll tp t)"
| resize: "trigger_reach t \<Longrightarrow> trigger_reach (handleResize t)"
| change: "trigger_reach t \<Longrightarrow> trigger_reach (props_change m d k t)"

subsection \<open>Theorems\<close>

text \<open>The reasons of the table behind each status are those the page puts under it, but for rows that
  still carry the answer of the upstream server.\<close>

lemma status_reasons_all:
  "list_all (\<lambda>r. list_all (\<lambda>k. (status_name (getQueryStatusKey (Some r) ([] :: NormalizedDnsResponse list)) = status_name k) =
     (r \<in> set (the (STATUS_TO_REASONS (status_name k))))) [Allowed, Processed, Blocked, Rewritten, Error]) FILTERED_STATUS"
  by code_simp

lemma status_reasons:
  assumes "r \<in> set FILTERED_STATUS"
  shows "status_name (getQueryStatusKey (Some r) ([] :: NormalizedDnsResponse list)) = status_name k
    \<longleftrightarrow> r \<in> set (the (STATUS_TO_REASONS (status_name k)))"
proof -
  have "k \<in> set [Allowed, Processed, Blocked, Rewritten, Error]" by (cases k) simp_all
  with status_reasons_all assms show ?thesis unfolding list_all_iff by blast
qed

text \<open>With an answer that was replaced, the reasons of blocked queries give the status of rewritten ones,
  whose table does not have them.\<close>

lemma answered_reasons_all:
  "list_all (\<lambda>r. getQueryStatusKey (Some r) [()] = Rewritten \<and> r \<notin> set (the (STATUS_TO_REASONS ''rewritten'')))
     (the (STATUS_TO_REASONS ''blocked''))"
  by code_simp

lemma status_key_nonempty: "xs \<noteq> [] \<Longrightarrow> ys \<noteq> [] \<Longrightarrow> getQueryStatusKey r xs = getQueryStatusKey r ys"
  by (simp add: getQueryStatusKey_def)

lemma status_table: "\<exists>xs. STATUS_TO_REASONS (status_name k) = Some xs \<and> xs \<noteq> []"
  by (cases k) (simp_all add: STATUS_TO_REASONS_def)

text \<open>
  C29. The page and the store agree on what a status filter keeps: for rows with a reason the server knows
  and without an answer that was replaced, the rows shown under a status are those the store counts
  when it decides whether to load another page.
\<close>

theorem page_shows_what_is_counted:
  assumes "\<And>l. l \<in> set ls \<Longrightarrow> (\<exists>r\<in>set FILTERED_STATUS. n_reason l = Some r) \<and> n_originalResponse l = []"
    and "st = ''all'' \<or> st = status_name k"
  shows "filterLogsByStatus ls st = QueryLogs.filterLogsByStatus ls st"
proof (cases "st = ''all''")
  case True
  then show ?thesis by (simp add: filterLogsByStatus_def QueryLogs.filterLogsByStatus_def)
next
  case False
  then have st: "st = status_name k" using assms(2) by simp
  obtain xs where xs: "STATUS_TO_REASONS (status_name k) = Some xs" "xs \<noteq> []" using status_table by blast
  have "status_name (getQueryStatusKey (Some (nullish (n_reason l) [])) (n_originalResponse l)) = st
      \<longleftrightarrow> nullish (n_reason l) [] \<in> set xs" if "l \<in> set ls" for l
  proof -
    obtain r where r: "r \<in> set FILTERED_STATUS" "n_reason l = Some r" "n_originalResponse l = []"
      using assms(1) [OF \<open>l \<in> set ls\<close>] by blast
    from status_reasons [OF r(1), of k] r(2,3) xs(1) st show ?thesis by simp
  qed
  moreover have "st \<noteq> []" unfolding st by (cases k) simp_all
  ultimately show ?thesis
    using False xs st unfolding filterLogsByStatus_def QueryLogs.filterLogsByStatus_def
    by (auto intro!: filter_cong)
qed

text \<open>
  A query that was blocked because of the answer, and so carries the original answer, is lost to the
  status filters: the store asks for it only under the status of blocked queries and counts it there,
  while the page takes it for rewritten and hides it, so that it is shown under no status but all.
\<close>

theorem blocked_by_answer_hidden:
  assumes "n_reason l = Some r" "r \<in> set (the (STATUS_TO_REASONS ''blocked''))" "n_originalResponse l \<noteq> []" "st \<noteq> ''all''"
  shows "QueryLogs.filterLogsByStatus [l] ''blocked'' = [l] \<and> filterLogsByStatus [l] ''blocked'' = [] \<and>
    (r \<in> set (getReasons (Some \<lparr>f_search = q, f_status = st, f_reason = ''all''\<rparr>)) \<longrightarrow> filterLogsByStatus [l] st = [])"
proof -
  have key: "getQueryStatusKey (Some r) (n_originalResponse l) = Rewritten"
    and no: "r \<notin> set (the (STATUS_TO_REASONS ''rewritten''))"
    using answered_reasons_all assms(2) status_key_nonempty [OF assms(3), of "[()]" "Some r"]
    unfolding list_all_iff by auto
  have shown: "filterLogsByStatus [l] st' = (if st' = ''all'' \<or> st' = ''rewritten'' then [l] else [])" for st'
    using key assms(1) by (simp add: filterLogsByStatus_def)
  have "r \<notin> set (getReasons (Some \<lparr>f_search = q, f_status = ''rewritten'', f_reason = ''all''\<rparr>))"
    using no by (simp add: getReasons_def STATUS_TO_REASONS_def)
  then have "r \<in> set (getReasons (Some \<lparr>f_search = q, f_status = st, f_reason = ''all''\<rparr>)) \<longrightarrow> filterLogsByStatus [l] st = []"
    using assms(4) shown by auto
  moreover have "QueryLogs.filterLogsByStatus [l] ''blocked'' = [l]"
    using assms(1,2) status_table [of Blocked] by (auto simp: QueryLogs.filterLogsByStatus_def)
  ultimately show ?thesis using shown by simp
qed

definition codec_law :: "codec \<Rightarrow> bool" where
  "codec_law K \<longleftrightarrow> (\<forall>a b c. let ps = [(''search'', a), (''status'', b), (''reason'', c)]
     in \<forall>k\<in>fst ` set ps. search_param K (''?'' @ stringify K ps) k = the (map_of ps k))"

definition selectable :: "QueryLogFilter \<Rightarrow> bool" where
  "selectable f \<longleftrightarrow> f_status f \<in> set QUERY_LOG_STATUS_FILTER_QUERIES \<and> f_reason f \<in> set QUERY_LOG_REASON_FILTER_QUERIES"

lemma url_filter_selectable: "selectable (url_filter K loc)"
  by (simp add: selectable_def url_filter_def Let_def QUERY_LOG_STATUS_FILTER_QUERIES_def QUERY_LOG_REASON_FILTER_QUERIES_def)

lemma opt_or_unless [simp]: "opt_or_str (unless_empty s) d = or_str s d"
  by (simp add: unless_empty_def or_str_def)

lemma url_filter_params:
  assumes "codec_law K" "selectable f"
  shows "url_filter K (getLogsUrlParams K (f_search f) (f_status f) (f_reason f)) = f"
proof -
  have "search_param K (getLogsUrlParams K (f_search f) (f_status f) (f_reason f)) k =
      the (map_of [(''search'', unless_empty (f_search f)), (''status'', unless_empty (f_status f)),
        (''reason'', unless_empty (f_reason f))] k)" if "k \<in> {''search'', ''status'', ''reason''}" for k
    using assms(1) that unfolding codec_law_def getLogsUrlParams_def Let_def by (auto simp del: map_of.simps)
  moreover have "f_status f \<noteq> []" "f_reason f \<noteq> []"
    using assms(2) by (auto simp: selectable_def QUERY_LOG_STATUS_FILTER_QUERIES_def QUERY_LOG_REASON_FILTER_QUERIES_def)
  ultimately show ?thesis
    using assms(2) by (simp add: url_filter_def Let_def or_str_def selectable_def)
qed

text \<open>
  C30. The answer to a status or reason chosen in the header, or to a search, is the log under exactly this
  filter: the address the page moves to is in normal form, so it moves at most once, and reading it back
  gives the filter. Any other address leads in one step to the address of the filter read from it.
\<close>

theorem url_settles:
  assumes "codec_law K"
  shows "(selectable f \<longrightarrow> watch_url K (getLogsUrlParams K (f_search f) (f_status f) (f_reason f)) = ApplyFilter f) \<and>
    (watch_url K loc = ApplyFilter (url_filter K loc) \<or>
     (\<exists>next. watch_url K loc = Navigate next \<and> watch_url K next = ApplyFilter (url_filter K loc)))"
  using url_filter_params [OF assms] url_filter_selectable [of K loc] by (simp add: watch_url_def Let_def)

text \<open>
  Every button the detail dialog offers does something: its handler finds what it needs, the service,
  the filter list or the rewrite, and makes its call.
\<close>

theorem offered_buttons_act:
  assumes "a \<in> set (footer_actions fs rw e)"
  shows "footer_handler fs rw e a \<noteq> None"
  using assms
  by (cases "getQueryReasonKey (n_reason e) (n_rules e)") (auto simp: footer_actions_def truthy_str_def split: if_splits)

text \<open>
  Loading while scrolling asks for more rows only when there are more and no request is running, and
  at most once until one of these changes or the filter does, however the page is scrolled.
\<close>

theorem loads_once:
  assumes "trigger_reach t"
  shows "since_change t \<le> 1 \<and> (since_change t = 1 \<longrightarrow> hasMore t \<and> \<not> disabled t \<and> requestedRef t)"
  using assms
  by induction (auto simp: frame_fires_def maybeLoadMore_def triggerLoadMore_def handleScroll_def handleResize_def
      props_change_def Let_def)

text \<open>
  The button that disallows a client disallows it, unless the page lists it as disallowed already:
  then the same button takes it off the list, and the server answers it again.
\<close>

definition confirmed_lists :: "string \<Rightarrow> AccessState \<Rightarrow> AccessList \<Rightarrow> access_lists" where
  "confirmed_lists t s al = (let d = t \<in> set (page_clients (disallowed_clients s))
     in getNextClientAccessList al t d (if d then t else []))"

theorem disallow_dialog_toggles:
  assumes t: "ParseAddr N t = Some a"
    and only: "\<And>n. n \<in> set (l_allowed_clients (lists_of al)) \<union> set (l_disallowed_clients (lists_of al)) \<Longrightarrow> n \<noteq> t \<Longrightarrow> \<not> covers N a n"
    and step: "set (page_clients (disallowed_clients s)) = set (l_disallowed_clients (lists_of al))"
    and other: "l_allowed_clients (lists_of al) = [] \<or> (\<exists>x\<in>set (l_allowed_clients (lists_of al)). x \<noteq> t)"
    and m: "handleAccessSet N (confirmed_lists t s al) = Some m"
  shows "fst (IsBlockedClient N m (Some a) []) \<longleftrightarrow> t \<notin> set (l_disallowed_clients (lists_of al))"
proof -
  have "covers N a t" using t by (simp add: covers_def)
  then show ?thesis using only step other unfolding decision [OF m]
    by (auto simp: confirmed_lists_def Let_def getNextClientAccessList_def or_str_def removeValue_def filter_empty_conv)
qed

text \<open>A query that came over DNSCrypt has no name for its protocol: the lookup throws.\<close>

theorem dnscrypt_name_throws: "getProtocolName env p = None \<longleftrightarrow> p = ''dnscrypt''"
  by (auto simp: getProtocolName_def SCHEME_TO_PROTOCOL_MAP_def split: if_splits)

subsection \<open>Examples\<close>

text \<open>A codec that writes every character of a value as two letters.\<close>

fun letters :: "string \<Rightarrow> string" where
  "letters [] = []"
| "letters (x # xs) = char_of (65 + code x div 16) # char_of (65 + code x mod 16) # letters xs"

fun unletters :: "string \<Rightarrow> string" where
  "unletters (a # b # r) = char_of ((code a - 65) * 16 + (code b - 65)) # unletters r"
| "unletters _ = []"

definition parts :: "(string \<times> string option) list \<Rightarrow> (string \<times> string) list" where
  "parts ps = concat (map (\<lambda>(k, v). case v of None \<Rightarrow> [] | Some s \<Rightarrow> [(k, s)]) ps)"

definition letter_codec :: codec where
  "letter_codec = \<lparr>stringify = (\<lambda>ps. join ''&'' (map (\<lambda>(k, s). k @ CHR ''='' # letters s) (parts ps))),
     search_param = (\<lambda>loc k. map_option (\<lambda>p. unletters (drop (length k + 1) p))
       (find (\<lambda>p. startsWith p (k @ ''='')) (split_on (CHR ''&'') (drop 1 loc))))\<rparr>"

lemma unletters_letters [simp]: "unletters (letters s) = s"
proof (induction s)
  case (Cons x xs)
  have c: "code x < 256" by (simp add: code_def)
  then have "65 + code x div 16 < 256" "65 + code x mod 16 < 256" by auto
  then have "code (char_of (65 + code x div 16)) = 65 + code x div 16" "code (char_of (65 + code x mod 16)) = 65 + code x mod 16"
    by (simp_all add: code_def)
  moreover have "char_of (code x) = x" by (simp add: code_def)
  ultimately show ?case using Cons by simp
qed simp

lemma letters_clean: "CHR ''&'' \<notin> set (letters s)"
proof (induction s)
  case (Cons x xs)
  have c: "code x < 256" by (simp add: code_def)
  then have "65 + code x div 16 < 256" "65 + code x mod 16 < 256" by auto
  then have "CHR ''&'' \<noteq> char_of (65 + code x div 16)" "CHR ''&'' \<noteq> char_of (65 + code x mod 16)"
    by (auto simp: code_def dest: arg_cong [of _ _ code])
  with Cons show ?case by simp
qed simp

lemma startsWith_key:
  "CHR ''='' \<notin> set k \<Longrightarrow> CHR ''='' \<notin> set k' \<Longrightarrow> startsWith (k' @ CHR ''='' # x) (k @ [CHR ''='']) \<longleftrightarrow> k' = k"
proof (induction k arbitrary: k')
  case Nil
  then show ?case by (cases k') auto
next
  case (Cons a k)
  then show ?case by (cases k') auto
qed

lemma find_letters:
  assumes "CHR ''='' \<notin> set k" "\<And>q. q \<in> set ps \<Longrightarrow> CHR ''='' \<notin> set (fst q)"
  shows "map_option (\<lambda>p. unletters (drop (length k + 1) p))
      (find (\<lambda>p. startsWith p (k @ ''='')) (map (\<lambda>(k, s). k @ CHR ''='' # letters s) ps)) = map_of ps k"
  using assms(2)
proof (induction ps)
  case (Cons q ps)
  obtain k' v where q: "q = (k', v)" by (cases q)
  have "startsWith (k' @ CHR ''='' # letters v) (k @ [CHR ''='']) \<longleftrightarrow> k' = k"
    using startsWith_key [OF assms(1), of k'] Cons.prems [of q] q by simp
  with Cons q show ?case by auto
qed simp

lemma letter_codec_param:
  assumes "\<And>q. q \<in> set ps \<Longrightarrow> CHR ''='' \<notin> set (fst q) \<and> CHR ''&'' \<notin> set (fst q)" "CHR ''='' \<notin> set k"
  shows "search_param letter_codec (''?'' @ stringify letter_codec ps) k = map_of (parts ps) k"
proof -
  let ?f = "\<lambda>(k, s). k @ CHR ''='' # letters s"
  have st: "stringify letter_codec ps = join ''&'' (map ?f (parts ps))"
    by (simp add: letter_codec_def)
  have fst: "CHR ''='' \<notin> set (fst q) \<and> CHR ''&'' \<notin> set (fst q)" if "q \<in> set (parts ps)" for q
    using that assms(1) by (fastforce simp: parts_def split: option.splits)
  show ?thesis
  proof (cases "parts ps = []")
    case True
    with st show ?thesis by (cases k) (simp_all add: letter_codec_def)
  next
    case False
    then have "split_on (CHR ''&'') (stringify letter_codec ps) = map ?f (parts ps)"
      unfolding st by (intro split_on_join) (use fst letters_clean in auto)
    then show ?thesis using find_letters [OF assms(2), of "parts ps"] fst by (simp add: letter_codec_def)
  qed
qed

lemma letter_codec_law: "codec_law letter_codec"
proof -
  have "map_of (parts [(''search'', a), (''status'', b), (''reason'', c)]) k =
      the (map_of [(''search'', a), (''status'', b), (''reason'', c)] k)"
    if "k = ''search'' \<or> k = ''status'' \<or> k = ''reason''" for a b c :: "string option" and k
    using that by (elim disjE; cases a; cases b; cases c) (simp_all add: parts_def)
  moreover have "search_param letter_codec (''?'' @ stringify letter_codec [(''search'', a), (''status'', b), (''reason'', c)]) k =
      map_of (parts [(''search'', a), (''status'', b), (''reason'', c)]) k"
    if "k = ''search'' \<or> k = ''status'' \<or> k = ''reason''" for a b c k
    by (rule letter_codec_param) (use that in auto)
  ultimately show ?thesis by (simp add: codec_law_def)
qed

theorem url_settles_witness:
  "watch_url letter_codec ''?'' = Navigate (getLogsUrlParams letter_codec [] ''all'' ''all'') \<and>
   watch_url letter_codec (getLogsUrlParams letter_codec [] ''all'' ''all'') = ApplyFilter DEFAULT_LOGS_FILTER"
proof -
  have "url_filter letter_codec ''?'' = DEFAULT_LOGS_FILTER"
    by (simp add: url_filter_def letter_codec_def DEFAULT_LOGS_FILTER_def Let_def)
  moreover have "selectable DEFAULT_LOGS_FILTER" "f_search DEFAULT_LOGS_FILTER = []" "f_status DEFAULT_LOGS_FILTER = ''all''"
    "f_reason DEFAULT_LOGS_FILTER = ''all''"
    by (simp_all add: selectable_def DEFAULT_LOGS_FILTER_def QUERY_LOG_STATUS_FILTER_QUERIES_def QUERY_LOG_REASON_FILTER_QUERIES_def)
  moreover have "''?'' \<noteq> getLogsUrlParams letter_codec [] ''all'' ''all''"
    by (simp add: getLogsUrlParams_def letter_codec_def unless_empty_def parts_def)
  ultimately show ?thesis
    using url_settles [OF letter_codec_law, of DEFAULT_LOGS_FILTER "''?''"] by (simp add: watch_url_def)
qed

definition sample_row :: NormalizedQueryLogItem where
  "sample_row = (case normalizeLog sample_db sample_item of Inr n \<Rightarrow> n)"

lemma sample_row: "n_reason sample_row = Some ''FilteredBlackList''" "n_originalResponse sample_row = []"
  "n_rules sample_row = [\<lparr>filter_list_id = Some 1, rule_text = Some ''||x^''\<rparr>]"
  by (simp_all add: sample_row_def normalizeLog_def sample_item_def getTrackerData_def Let_def processResponse_def newRules_def)

theorem page_shows_what_is_counted_witness: "filterLogsByStatus [sample_row] ''blocked'' = QueryLogs.filterLogsByStatus [sample_row] ''blocked''"
  by (rule page_shows_what_is_counted [of _ _ Blocked]) (simp_all add: sample_row FILTERED_STATUS_def)

theorem blocked_by_answer_hidden_witness:
  "filterLogsByStatus [sample_row\<lparr>n_originalResponse := [\<lparr>nr_value = Some ''1.2.3.4'', nr_type = Some ''A'', nr_ttl = None\<rparr>]\<rparr>] ''blocked'' = []"
  using blocked_by_answer_hidden [of "sample_row\<lparr>n_originalResponse := [\<lparr>nr_value = Some ''1.2.3.4'', nr_type = Some ''A'', nr_ttl = None\<rparr>]\<rparr>"
      "''FilteredBlackList''" "''processed''"]
  by (simp add: sample_row STATUS_TO_REASONS_def)

theorem offered_buttons_act_witness: "footer_handler (pv_filters sample_view) [] sample_row ActDisableFilter \<noteq> None"
  by (rule offered_buttons_act)
    (simp add: footer_actions_def sample_row getQueryReasonKey_def rewrite_reasons_def CUSTOM_FILTERING_RULES_def
      filterToDisable_def sample_view_def map_filter_simps)

definition near_end :: trigger where
  "near_end = frame_fires True \<lparr>requestedRef = False, wasNearEndRef = False, frameRef = True, hasMore = True, disabled = False, since_change = 0\<rparr>"

theorem loads_once_witness: "since_change near_end = 1 \<and> requestedRef near_end"
  using loads_once [of near_end, unfolded near_end_def, OF trigger_reach.frame [OF trigger_reach.start]]
  by (simp add: near_end_def frame_fires_def maybeLoadMore_def triggerLoadMore_def)

theorem disallow_dialog_toggles_witness:
  "let al = \<lparr>al_allowed_clients = None, al_disallowed_clients = Some [''10.0.0.1''], al_blocked_hosts = None\<rparr>;
       s = Access.initialState\<lparr>disallowed_clients := ''10.0.0.1''\<rparr>
   in \<exists>m. handleAccessSet sample_netip (confirmed_lists ''10.0.0.1'' s al) = Some m \<and>
      \<not> fst (IsBlockedClient sample_netip m (Some ''10.0.0.1'') [])"
proof -
  let ?al = "\<lparr>al_allowed_clients = None, al_disallowed_clients = Some [''10.0.0.1''], al_blocked_hosts = None\<rparr>"
  let ?s = "Access.initialState\<lparr>disallowed_clients := ''10.0.0.1''\<rparr>"
  have p: "ParseAddr sample_netip ''10.0.0.1'' = Some ''10.0.0.1''" by (simp add: sample_netip_def)
  have step: "set (page_clients (disallowed_clients ?s)) = set (l_disallowed_clients (lists_of ?al))"
    by (simp add: lists_of_def page_clients_def newline_def)
  have "\<exists>m. handleAccessSet sample_netip (confirmed_lists ''10.0.0.1'' ?s ?al) = Some m"
    unfolding handleAccessSet_accepts using step
    by (simp add: confirmed_lists_def validateAccessSet_def getNextClientAccessList_def lists_of_def or_str_def removeValue_def Let_def)
  then obtain m where m: "handleAccessSet sample_netip (confirmed_lists ''10.0.0.1'' ?s ?al) = Some m" by blast
  from disallow_dialog_toggles [OF p _ step _ m] have "\<not> fst (IsBlockedClient sample_netip m (Some ''10.0.0.1'') [])"
    by (simp add: lists_of_def)
  with m show ?thesis by (auto simp: Let_def)
qed

end
