(* ===== verification/CheckResult.thy ===== *)
theory CheckResult
  imports QueryLogPage
begin

section \<open>The result card of the user rules page\<close>

text \<open>
  \<^verbatim>\<open>client_v2/src/components/UserRules/checkResultHelpers.tsx\<close> and \<^verbatim>\<open>blocks/CheckResult/CheckResult.tsx\<close>: the
  title, the reason and the actions shown for a checked host. What an action does is in \<open>UserRules\<close>; here
  the two meet, and the theorems say which of the offered actions have an effect.
\<close>

subsection \<open>Operations\<close>

datatype tone = ToneBlocked | ToneAllowed | ToneRewritten | ToneProcessed

datatype list_type = Blocklist | Allowlist

record ResultAction =
  act_kind :: ResultActionKind
  act_label :: string

record CheckResultMeta =
  m_tone :: tone
  m_title :: string
  m_reason :: "string option"
  m_actions :: "ResultAction list"
  m_rule :: "string option"
  m_source :: "string option"
  m_sourceListType :: "list_type option"

fun getActionLabel :: "env \<Rightarrow> ResultActionKind \<Rightarrow> string" where
  "getActionLabel env Allow = msg env ''user_rules_add_to_allowlist''"
| "getActionLabel env Block = msg env ''block''"
| "getActionLabel env DisableParental = msg env ''user_rules_disable_parental_control''"
| "getActionLabel env DisableSafebrowsing = msg env ''user_rules_disable_browsing_security''"
| "getActionLabel env DisableSafesearch = msg env ''user_rules_disable_safe_search''"
| "getActionLabel env DisableBlockedService = msg env ''user_rules_allow_service''"
| "getActionLabel env DisableFilter = msg env ''user_rules_disable_filter''"
| "getActionLabel env EditRewrite = msg env ''user_rules_edit_dns_rewrite''"
| "getActionLabel env DeleteRewrite = msg env ''user_rules_remove_dns_rewrite''"
| "getActionLabel env RemoveRewriteRule = msg env ''user_rules_remove_dns_rewrite''"
| "getActionLabel env NoAction = []"

definition createAction :: "env \<Rightarrow> ResultActionKind \<Rightarrow> ResultAction" where
  "createAction env k = \<lparr>act_kind = k, act_label = getActionLabel env k\<rparr>"

definition getPrimaryRule :: "ResultRule list option \<Rightarrow> ResultRule option" where
  "getPrimaryRule rs = (case rs of Some (r # _) \<Rightarrow> Some r | _ \<Rightarrow> None)"

definition getSourceName :: "env \<Rightarrow> ResultRule list option \<Rightarrow> Filter list \<Rightarrow> Filter list \<Rightarrow> string option" where
  "getSourceName env rs fs wl =
     (case Option.bind (getPrimaryRule rs) filter_list_id of
        None \<Rightarrow> None
      | Some i \<Rightarrow>
          if i \<in> set sp_ids then Some (getFilterName env fs wl i)
          else let b = map_option Filter.f_name (find (\<lambda>f. f_id f = i) fs);
                   a = map_option Filter.f_name (find (\<lambda>f. f_id f = i) wl)
               in if truthy_str b then b else a)"

definition getSourceListType :: "int option \<Rightarrow> Filter list \<Rightarrow> Filter list \<Rightarrow> list_type option" where
  "getSourceListType k fs wl =
     (case k of
        None \<Rightarrow> None
      | Some i \<Rightarrow>
          if i \<in> set sp_ids then None
          else if \<exists>f\<in>set wl. f_id f = i then Some Allowlist
          else if \<exists>f\<in>set fs. f_id f = i then Some Blocklist
          else None)"

definition getBlockedReason :: "env \<Rightarrow> bool \<Rightarrow> string option \<Rightarrow> list_type option \<Rightarrow> string option" where
  "getBlockedReason env isCustomRule sourceName sourceListType =
     (if isCustomRule then Some (getMessage env ''user_rules_reason_blocked_by'' [(''source'', SArg (msg env ''custom_filtering_rules''))])
      else if sourceListType \<noteq> None then None
      else case sourceName of
             None \<Rightarrow> None
           | Some n \<Rightarrow> if n = [] then None else Some (getMessage env ''user_rules_reason_filtered_by'' [(''source'', SArg n)]))"

definition getAllowedReason :: "env \<Rightarrow> bool \<Rightarrow> string option \<Rightarrow> list_type option \<Rightarrow> string option" where
  "getAllowedReason env isCustomRule sourceName sourceListType =
     (if isCustomRule \<or> sourceListType \<noteq> None then None
      else case sourceName of
             None \<Rightarrow> None
           | Some n \<Rightarrow> if n = [] then None else Some (getMessage env ''user_rules_reason_allowed_by'' [(''source'', SArg n)]))"

definition plain_meta :: "env \<Rightarrow> tone \<Rightarrow> string \<Rightarrow> string option \<Rightarrow> ResultActionKind list \<Rightarrow> CheckResultMeta" where
  "plain_meta env t title r ks = \<lparr>m_tone = t, m_title = msg env title, m_reason = r, m_actions = map (createAction env) ks,
     m_rule = None, m_source = None, m_sourceListType = None\<rparr>"

definition checkFiltered :: "string \<Rightarrow> bool" where
  "checkFiltered r \<longleftrightarrow> indexOf r ''Filtered'' = Some 0"

definition getCheckResultMeta :: "env \<Rightarrow> string option \<Rightarrow> ResultRule list option \<Rightarrow> Filter list \<Rightarrow> Filter list \<Rightarrow> CheckResultMeta" where
  "getCheckResultMeta env r rs fs wl =
     (let primary = getPrimaryRule rs; text = Option.bind primary rule_text;
          sourceName = getSourceName env rs fs wl;
          isCustomRule = (Option.bind primary filter_list_id = Some CUSTOM_FILTERING_RULES);
          listType = getSourceListType (Option.bind primary filter_list_id) fs wl
      in if r = Some ''FilteredBlackList'' then
           (plain_meta env ToneBlocked ''user_rules_domain_blocked'' (getBlockedReason env isCustomRule sourceName listType)
              (if isCustomRule then [Allow] else [Allow, DisableFilter]))
             \<lparr>m_rule := text, m_source := sourceName, m_sourceListType := listType\<rparr>
         else if r = Some ''NotFilteredWhiteList'' then
           (plain_meta env ToneAllowed ''user_rules_domain_is_allowed'' (getAllowedReason env isCustomRule sourceName listType)
              (if isCustomRule then [Block] else [DisableFilter]))
             \<lparr>m_rule := text, m_source := sourceName, m_sourceListType := listType\<rparr>
         else if r = Some ''NotFilteredNotFound'' \<or> r = Some ''NotFilteredError'' \<or> r = Some ''FilteredInvalid'' then
           plain_meta env ToneProcessed ''user_rules_domain_is_processed'' (Some (msg env ''user_rules_no_rules_matched'')) [Allow, Block]
         else if r = Some ''FilteredSafeBrowsing'' then
           (plain_meta env ToneBlocked ''user_rules_domain_blocked'' (Some (msg env ''blocked_threats'')) [Allow, DisableSafebrowsing])
             \<lparr>m_rule := text, m_source := Some (msg env ''safe_browsing'')\<rparr>
         else if r = Some ''FilteredParental'' then
           plain_meta env ToneBlocked ''user_rules_domain_blocked''
             (Some (getMessage env ''user_rules_reason_blocked_by'' [(''source'', SArg (msg env ''parental_control''))])) [Allow, DisableParental]
         else if r = Some ''FilteredSafeSearch'' then
           plain_meta env ToneRewritten ''user_rules_rewrite_rule_is_applied'' (Some (msg env ''settings_safe_search'')) [Allow, DisableSafesearch]
         else if r = Some ''FilteredBlockedService'' then
           (plain_meta env ToneBlocked ''user_rules_domain_blocked'' (Some (msg env ''blocked_services'')) [Allow, DisableBlockedService])
             \<lparr>m_rule := text\<rparr>
         else if r = Some ''Rewrite'' then
           plain_meta env ToneRewritten ''user_rules_rewrite_rule_is_applied'' (Some (msg env ''rewritten'')) []
         else if r = Some ''RewriteRule'' then
           (plain_meta env ToneRewritten ''user_rules_rewrite_rule_is_applied'' (Some (msg env ''custom_filtering_rules''))
              (if isCustomRule then [RemoveRewriteRule] else []))\<lparr>m_rule := text\<rparr>
         else if r = Some ''RewriteEtcHosts'' then
           (plain_meta env ToneRewritten ''user_rules_rewrite_rule_is_applied'' (Some (msg env ''rewrite_hosts_applied'')) [])
             \<lparr>m_source := Some (msg env ''system_host_files'')\<rparr>
         else let filtered = (case r of None \<Rightarrow> False | Some s \<Rightarrow> s \<noteq> [] \<and> checkFiltered s)
           in (plain_meta env (if filtered then ToneBlocked else ToneProcessed)
                (if filtered then ''user_rules_domain_blocked'' else ''user_rules_domain_is_processed'')
                (Some (opt_or_str r (msg env ''check_not_found''))) [])
                \<lparr>m_rule := text, m_source := sourceName, m_sourceListType := listType\<rparr>)"

text \<open>The card of a page: its actions without the hidden ones, and the two buttons for a rewrite.\<close>

definition card_meta :: "env \<Rightarrow> page_view \<Rightarrow> CheckResultMeta" where
  "card_meta env v = getCheckResultMeta env (Option.bind (checkResult v) res_reason) (Option.bind (checkResult v) res_rules)
     (pv_filters v) (pv_whitelistFilters v)"

definition shown_actions :: "env \<Rightarrow> page_view \<Rightarrow> ResultActionKind list" where
  "shown_actions env v = filter (\<lambda>k. k \<notin> set (hiddenActionKinds v)) (map act_kind (m_actions (card_meta env v)))"

definition showRewriteActions :: "page_view \<Rightarrow> bool" where
  "showRewriteActions v \<longleftrightarrow> Option.bind (checkResult v) res_reason = Some ''Rewrite'' \<and> matchedRewrite v \<noteq> None"

definition STANDALONE_RESULT_REASONS :: "string list" where
  "STANDALONE_RESULT_REASONS = [''NotFilteredNotFound'', ''NotFilteredError'', ''FilteredInvalid'']"

definition reasonContent :: "env \<Rightarrow> string option \<Rightarrow> CheckResultMeta \<Rightarrow> string option" where
  "reasonContent env r m =
     (let arg = [(''reason'', SArg (nullish (m_reason m) []))]
      in if r \<in> Some ` set STANDALONE_RESULT_REASONS then m_reason m
         else if m_tone m = ToneRewritten
           then Some (getMessage env (if r = Some ''RewriteRule'' then ''user_rules_reason'' else ''user_rules_status'') arg)
         else if truthy_str (m_reason m) then Some (getMessage env ''user_rules_reason'' arg)
         else None)"

definition redirectedValue :: "CheckResultData \<Rightarrow> string option" where
  "redirectedValue d =
     (if truthy_str (res_cname d) then res_cname d
      else case res_ip_addrs d of Some (x # xs) \<Rightarrow> Some (join '', '' (x # xs)) | _ \<Rightarrow> None)"

definition renderSourceLabel :: "env \<Rightarrow> string \<Rightarrow> list_type option \<Rightarrow> string" where
  "renderSourceLabel env src t =
     getMessage env (case t of Some Blocklist \<Rightarrow> ''user_rules_source_blocklist'' | Some Allowlist \<Rightarrow> ''user_rules_source_allowlist''
       | None \<Rightarrow> ''user_rules_source'') [(''value'', SArg src)]"

subsection \<open>What the offered actions do\<close>

text \<open>The first call an action makes in a store.\<close>

fun first_call :: "env \<Rightarrow> page_view \<Rightarrow> ResultActionKind \<Rightarrow> store_call option" where
  "first_call env v Allow = handleRuleToggle UNBLOCK v"
| "first_call env v Block = handleRuleToggle BLOCK v"
| "first_call env v DisableParental = plan_perform (handleDisableParental env v)"
| "first_call env v DisableSafebrowsing = plan_perform (handleDisableSafeBrowsing env v)"
| "first_call env v DisableSafesearch = Option.bind (handleDisableSafeSearch env v) plan_perform"
| "first_call env v DisableBlockedService = Option.bind (handleAllowBlockedService env v) plan_perform"
| "first_call env v DisableFilter = Option.bind (handleDisableFilter env v) plan_perform"
| "first_call env v RemoveRewriteRule = Option.bind (handleRemoveRewriteRule env v) plan_perform"
| "first_call env v _ = None"

text \<open>An action without a call changes nothing, except that it may hide the card.\<close>

lemma perform_plan_none:
  "Option.bind p plan_perform = None \<Longrightarrow> exec (perform_plan env P v k p) c \<in> {c, c\<lparr>isResultVisible := False\<rparr>}"
  by (cases p) (simp_all add: perform_plan_def performWithUndo_def)

lemma no_call_no_effect:
  assumes "first_call env v a = None"
  shows "exec (handleAction env P v a) c \<in> {c, c\<lparr>isResultVisible := False\<rparr>}"
proof (cases a)
  case Allow
  with assms show ?thesis by (simp add: ruleToggle_run_def)
next
  case Block
  with assms show ?thesis by (simp add: ruleToggle_run_def)
qed (use assms in \<open>auto simp del: insert_iff intro!: perform_plan_none\<close>)

text \<open>What an action needs beyond the page being loaded.\<close>

definition rule_list :: "page_view \<Rightarrow> int option" where
  "rule_list v = Option.bind (UserRules.getPrimaryRule (checkResult v)) filter_list_id"

definition knows_target :: "page_view \<Rightarrow> ResultActionKind \<Rightarrow> bool" where
  "knows_target v a \<longleftrightarrow>
     (a = DisableFilter \<longrightarrow> (\<exists>i f. rule_list v = Some i \<and> find_filter (pv_filters v) (pv_whitelistFilters v) i = Some f)) \<and>
     (a = DisableBlockedService \<longrightarrow> findMatchedBlockedService (pv_allServices v) (checkResult v) \<noteq> None \<and>
        (\<forall>cl. resolvedClient v = Some cl \<longrightarrow> getEffectiveBlockedServices cl (pv_services v) \<noteq> None)) \<and>
     (a = RemoveRewriteRule \<longrightarrow> truthy_str (Option.bind (UserRules.getPrimaryRule (checkResult v)) rule_text))"

lemma card_kinds:
  assumes "a \<in> set (map act_kind (m_actions (card_meta env v)))"
  shows "a \<notin> {EditRewrite, DeleteRewrite, NoAction}"
  using assms
  by (auto simp: card_meta_def getCheckResultMeta_def plain_meta_def createAction_def Let_def split: if_splits)

lemma protection_call:
  assumes "page_settings v = Some l" "a \<in> set CLIENT_SCOPED_ACTIONS" "a \<notin> set (hiddenActionKinds v)"
  shows "first_call env v a \<noteq> None"
proof (cases "checked_client v")
  case None
  with assms show ?thesis
    by (auto simp: CLIENT_SCOPED_ACTIONS_def handleDisableParental_def handleDisableSafeBrowsing_def
        handleDisableSafeSearch_def Let_def)
next
  case (Some i)
  with assms(2,3) obtain cl where cl: "resolvedClient v = Some cl"
    by (auto simp: hiddenActionKinds_def split: if_splits)
  obtain x where "getEffectiveClientProtectionSettings cl (filteringEnabled v) (Some l) = Some x"
    using effective_defined by blast
  with assms(1,2) Some cl show ?thesis
    by (auto simp: CLIENT_SCOPED_ACTIONS_def handleDisableParental_def handleDisableSafeBrowsing_def
        handleDisableSafeSearch_def updateResolvedClient_def with_own_settings_def Let_def)
qed

lemma filter_call_iff: "first_call env v DisableFilter \<noteq> None \<longleftrightarrow> knows_target v DisableFilter"
  by (auto simp: handleDisableFilter_def knows_target_def rule_list_def find_filter_def Let_def split: option.splits)

lemma service_call_iff: "first_call env v DisableBlockedService \<noteq> None \<longleftrightarrow> knows_target v DisableBlockedService"
  by (cases "resolvedClient v")
    (auto simp: handleAllowBlockedService_def knows_target_def updateResolvedClient_def Let_def split: option.splits)

lemma rule_call_iff: "first_call env v RemoveRewriteRule \<noteq> None \<longleftrightarrow> knows_target v RemoveRewriteRule"
  by (auto simp: handleRemoveRewriteRule_def knows_target_def truthy_str_def split: option.splits if_splits)

text \<open>
  On the card of a checked host, with the settings loaded, an offered action makes a call in a store
  exactly when its target is known: switching a protection off, blocking and allowing always do, disabling
  a filter needs its list among those of the page, allowing a service needs the service, and removing a
  rewrite needs the text of the rule.
\<close>

theorem offered_action_calls:
  assumes "a \<in> set (shown_actions env v)" "page_settings v = Some l" "lastSubmittedCheck v = Some k"
    and "truthy_str (Option.bind (checkResult v) res_hostname)"
  shows "first_call env v a \<noteq> None \<longleftrightarrow> knows_target v a"
proof -
  have a: "a \<notin> {EditRewrite, DeleteRewrite, NoAction}" "a \<notin> set (hiddenActionKinds v)"
    using assms(1) card_kinds [of a env v] by (auto simp: shown_actions_def)
  have toggle: "handleRuleToggle ty v \<noteq> None" for ty
    using assms(3,4) by (cases "Option.bind (checkResult v) res_hostname") (auto simp: handleRuleToggle_def truthy_str_def Let_def)
  have scoped: "first_call env v a \<noteq> None" if "a \<in> set CLIENT_SCOPED_ACTIONS"
    by (rule protection_call [OF assms(2) that a(2)])
  show ?thesis
    using a(1) toggle scoped filter_call_iff [of env v] service_call_iff [of env v] rule_call_iff [of env v]
    by (cases a) (simp_all add: knows_target_def CLIENT_SCOPED_ACTIONS_def)
qed

text \<open>
  A host blocked by a rule of a list that is on the page no more is offered the action that disables the
  filter; clicking it does nothing.
\<close>

theorem orphan_filter_action_dead:
  assumes "checkResult v = Some d" "res_reason d = Some ''FilteredBlackList''" "res_rules d = Some (r # rs)"
    and "filter_list_id r = Some i" "i \<noteq> 0" "find_filter (pv_filters v) (pv_whitelistFilters v) i = None"
  shows "DisableFilter \<in> set (shown_actions env v) \<and> exec (handleAction env P v DisableFilter) c = c"
proof -
  have p: "UserRules.getPrimaryRule (checkResult v) = Some r" "getPrimaryRule (res_rules d) = Some r"
    using assms(1,3) by (simp_all add: UserRules.getPrimaryRule_def getPrimaryRule_def)
  have "handleDisableFilter env v = None"
    using p(1) assms(4,6) by (simp add: handleDisableFilter_def find_filter_def split: option.splits)
  moreover have "DisableFilter \<in> set (shown_actions env v)"
    using assms p(2)
    by (simp add: shown_actions_def card_meta_def getCheckResultMeta_def plain_meta_def createAction_def Let_def
        CUSTOM_FILTERING_RULES_def hiddenActionKinds_def CLIENT_SCOPED_ACTIONS_def)
  ultimately show ?thesis by (simp add: perform_plan_def)
qed

definition blocked_view :: "int \<Rightarrow> page_view" where
  "blocked_view i = sample_view\<lparr>checkResult := Some \<lparr>res_hostname = Some ''x.com'', res_reason = Some ''FilteredBlackList'',
     res_rules = Some [\<lparr>filter_list_id = Some i, rule_text = Some ''||x.com^''\<rparr>], res_service_name = None,
     res_cname = None, res_ip_addrs = None\<rparr>\<rparr>"

theorem offered_action_calls_witness: "first_call sample_env (blocked_view 1) DisableFilter \<noteq> None"
proof -
  have "DisableFilter \<in> set (shown_actions sample_env (blocked_view 1))"
    by (simp add: blocked_view_def shown_actions_def card_meta_def getCheckResultMeta_def plain_meta_def createAction_def
        getPrimaryRule_def CUSTOM_FILTERING_RULES_def hiddenActionKinds_def CLIENT_SCOPED_ACTIONS_def Let_def)
  moreover have "page_settings (blocked_view 1) = Some global_on"
    "lastSubmittedCheck (blocked_view 1) = Some \<lparr>check_hostname = ''x.com'', check_client = ''10.0.0.9'', check_qtype = []\<rparr>"
    "truthy_str (Option.bind (checkResult (blocked_view 1)) res_hostname)"
    by (simp_all add: blocked_view_def sample_view_def truthy_str_def)
  moreover have "knows_target (blocked_view 1) DisableFilter"
    by (simp add: knows_target_def rule_list_def UserRules.getPrimaryRule_def blocked_view_def sample_view_def find_filter_def)
  ultimately show ?thesis using offered_action_calls by blast
qed

theorem orphan_filter_action_dead_witness:
  "exec (handleAction sample_env mute_page (blocked_view 7) DisableFilter) sample_page = sample_page"
proof -
  have "find_filter (pv_filters (blocked_view 7)) (pv_whitelistFilters (blocked_view 7)) 7 = None"
    by (simp add: find_filter_def blocked_view_def sample_view_def)
  then show ?thesis
    using orphan_filter_action_dead [of "blocked_view 7", where i = 7 and env = sample_env and P = mute_page and c = sample_page]
    by (simp add: blocked_view_def)
qed

end
