(* ===== verification/ScheduleEditor.thy ===== *)
theory ScheduleEditor
  imports ClientForm Services
begin

section \<open>Blocked services page and pause schedule\<close>

text \<open>
  \<^verbatim>\<open>client_v2/src/components/BlockedServices\<close>: the list of services with its filters, and the editor of the
  weekly schedule during which services are not blocked, for all clients or within the form of one. The
  server's rule for a range (\<^verbatim>\<open>internal/schedule/schedule.go\<close>) is what a saved range is measured by.
  \<open>localeCompare\<close> is a parameter.
\<close>

subsection \<open>Times of a day\<close>

datatype DayKey = Mon | Tue | Wed | Thu | Fri | Sat | Sun

definition DAYS_OF_WEEK :: "DayKey list" where
  "DAYS_OF_WEEK = [Mon, Tue, Wed, Thu, Fri, Sat, Sun]"

fun getDayName :: "env \<Rightarrow> DayKey \<Rightarrow> string" where
  "getDayName env Mon = msg env ''monday''"
| "getDayName env Tue = msg env ''tuesday''"
| "getDayName env Wed = msg env ''wednesday''"
| "getDayName env Thu = msg env ''thursday''"
| "getDayName env Fri = msg env ''friday''"
| "getDayName env Sat = msg env ''saturday''"
| "getDayName env Sun = msg env ''sunday''"

definition FULL_DAY_END_MS :: int where "FULL_DAY_END_MS = 86340000"

record TimeValue =
  hours :: int
  minutes :: int

definition msToTime :: "int \<Rightarrow> TimeValue" where
  "msToTime ms = (let totalMinutes = ms div 60000 in \<lparr>hours = totalMinutes div 60, minutes = totalMinutes mod 60\<rparr>)"

definition timeToMs :: "int \<Rightarrow> int \<Rightarrow> int" where
  "timeToMs h m = (h * 60 + m) * 60000"

definition padTime :: "int \<Rightarrow> string" where
  "padTime v = (let s = show_int v in replicate (2 - length s) (CHR ''0'') @ s)"

text \<open>The dash between the two times is outside the characters of the model; it is an argument.\<close>

definition formatTimePeriod :: "string \<Rightarrow> int \<Rightarrow> int \<Rightarrow> string" where
  "formatTimePeriod dash startMs endMs =
     (let s = msToTime startMs; e = msToTime endMs
      in padTime (hours s) @ '':'' @ padTime (minutes s) @ dash @ padTime (hours e) @ '':'' @ padTime (minutes e))"

definition getNextTimeValue :: "TimeValue \<Rightarrow> TimeValue option" where
  "getNextTimeValue t =
     (if hours t = 23 \<and> minutes t = 59 then None
      else if minutes t = 59 then Some \<lparr>hours = hours t + 1, minutes = 0\<rparr>
      else Some \<lparr>hours = hours t, minutes = minutes t + 1\<rparr>)"

definition getNormalizedEndTime :: "TimeValue \<Rightarrow> TimeValue \<Rightarrow> TimeValue option" where
  "getNormalizedEndTime s e =
     (if timeToMs (hours e) (minutes e) > timeToMs (hours s) (minutes s) then Some e else getNextTimeValue s)"

record ScheduleTimeOption =
  opt_label :: string
  opt_value :: int
  isDisabled :: bool

definition time_options :: "nat \<Rightarrow> ScheduleTimeOption list" where
  "time_options n = map (\<lambda>i. \<lparr>opt_label = padTime (int i), opt_value = int i, isDisabled = False\<rparr>) [0..<n]"

definition HOURS_OPTIONS :: "ScheduleTimeOption list" where "HOURS_OPTIONS = time_options 24"

definition MINUTES_OPTIONS :: "ScheduleTimeOption list" where "MINUTES_OPTIONS = time_options 60"

record end_options =
  end_hours :: "ScheduleTimeOption list"
  end_minutes :: "ScheduleTimeOption list"
  hasAvailableEndTime :: bool

definition getEndTimeOptions :: "TimeValue \<Rightarrow> int \<Rightarrow> end_options" where
  "getEndTimeOptions start selectedEndHour =
     (let avail = getNextTimeValue start \<noteq> None
      in \<lparr>end_hours = map (\<lambda>o'. o'\<lparr>isDisabled := \<not> avail \<or> opt_value o' < hours start\<rparr>) HOURS_OPTIONS,
          end_minutes = map (\<lambda>o'. o'\<lparr>isDisabled := \<not> avail \<or> selectedEndHour < hours start \<or>
            (selectedEndHour = hours start \<and> opt_value o' \<le> minutes start)\<rparr>) MINUTES_OPTIONS,
          hasAvailableEndTime = avail\<rparr>)"

definition isFullDay :: "int \<Rightarrow> int \<Rightarrow> bool" where
  "isFullDay s e \<longleftrightarrow> s = 0 \<and> e = FULL_DAY_END_MS"

subsection \<open>The dialog for one day\<close>

record modal =
  startHour :: int
  startMinute :: int
  endHour :: int
  endMinute :: int
  allDay :: bool

definition fresh_modal :: modal where
  "fresh_modal = \<lparr>startHour = 0, startMinute = 0, endHour = 23, endMinute = 59, allDay = False\<rparr>"

definition open_modal :: "(int \<times> int) option \<Rightarrow> modal" where
  "open_modal currentData =
     (case currentData of
        None \<Rightarrow> fresh_modal
      | Some (s, e) \<Rightarrow>
          let start = msToTime s; end' = msToTime e; n = nullish (getNormalizedEndTime start end') end'
          in \<lparr>startHour = hours start, startMinute = minutes start, endHour = hours n, endMinute = minutes n,
              allDay = isFullDay s e\<rparr>)"

definition handleAllDayChange :: "bool \<Rightarrow> modal \<Rightarrow> modal" where
  "handleAllDayChange checked m = (if checked then fresh_modal\<lparr>allDay := True\<rparr> else m\<lparr>allDay := False\<rparr>)"

definition applyStartTime :: "int \<Rightarrow> int \<Rightarrow> modal \<Rightarrow> modal" where
  "applyStartTime h mi m =
     (let m1 = m\<lparr>startHour := h, startMinute := mi\<rparr>
      in if allDay m then m1
         else case getNormalizedEndTime \<lparr>hours = h, minutes = mi\<rparr> \<lparr>hours = endHour m, minutes = endMinute m\<rparr> of
                None \<Rightarrow> m1
              | Some n \<Rightarrow> m1\<lparr>endHour := hours n, endMinute := minutes n\<rparr>)"

definition applyEndTime :: "int \<Rightarrow> int \<Rightarrow> modal \<Rightarrow> modal" where
  "applyEndTime h mi m =
     (case getNormalizedEndTime \<lparr>hours = startHour m, minutes = startMinute m\<rparr> \<lparr>hours = h, minutes = mi\<rparr> of
        None \<Rightarrow> m
      | Some n \<Rightarrow> m\<lparr>endHour := hours n, endMinute := minutes n\<rparr>)"

definition endTimeOptions :: "modal \<Rightarrow> end_options" where
  "endTimeOptions m = getEndTimeOptions \<lparr>hours = startHour m, minutes = startMinute m\<rparr> (endHour m)"

definition save_disabled :: "modal \<Rightarrow> bool" where
  "save_disabled m \<longleftrightarrow> \<not> allDay m \<and> \<not> hasAvailableEndTime (endTimeOptions m)"

text \<open>What \<open>handleSave\<close> passes on for the day the dialog was opened for.\<close>

definition handleSave :: "modal \<Rightarrow> (int \<times> int) option" where
  "handleSave m =
     (if save_disabled m then None
      else Some (if allDay m then 0 else timeToMs (startHour m) (startMinute m),
                 if allDay m then FULL_DAY_END_MS else timeToMs (endHour m) (endMinute m)))"

text \<open>A user picks among the enabled options; with all day ticked the four selects are disabled.\<close>

definition pickable :: "ScheduleTimeOption list \<Rightarrow> int \<Rightarrow> bool" where
  "pickable os v \<longleftrightarrow> (\<exists>o'\<in>set os. opt_value o' = v \<and> \<not> isDisabled o')"

inductive modal_reach :: "(int \<times> int) option \<Rightarrow> modal \<Rightarrow> bool" for d where
  opened: "modal_reach d (open_modal d)"
| all_day: "modal_reach d m \<Longrightarrow> modal_reach d (handleAllDayChange b m)"
| start_hour: "modal_reach d m \<Longrightarrow> \<not> allDay m \<Longrightarrow> pickable HOURS_OPTIONS h \<Longrightarrow>
    modal_reach d (applyStartTime h (startMinute m) m)"
| start_minute: "modal_reach d m \<Longrightarrow> \<not> allDay m \<Longrightarrow> pickable MINUTES_OPTIONS mi \<Longrightarrow>
    modal_reach d (applyStartTime (startHour m) mi m)"
| end_hour: "modal_reach d m \<Longrightarrow> \<not> allDay m \<Longrightarrow> pickable (end_hours (endTimeOptions m)) h \<Longrightarrow>
    modal_reach d (applyEndTime h (endMinute m) m)"
| end_minute: "modal_reach d m \<Longrightarrow> \<not> allDay m \<Longrightarrow> pickable (end_minutes (endTimeOptions m)) mi \<Longrightarrow>
    modal_reach d (applyEndTime (endHour m) mi m)"

subsection \<open>The schedule of a week\<close>

fun get_day :: "DayKey \<Rightarrow> Schedule \<Rightarrow> DayRange option" where
  "get_day Mon s = mon s"
| "get_day Tue s = tue s"
| "get_day Wed s = wed s"
| "get_day Thu s = thu s"
| "get_day Fri s = fri s"
| "get_day Sat s = sat s"
| "get_day Sun s = sun s"

fun set_day :: "DayKey \<Rightarrow> DayRange option \<Rightarrow> Schedule \<Rightarrow> Schedule" where
  "set_day Mon r s = s\<lparr>mon := r\<rparr>"
| "set_day Tue r s = s\<lparr>tue := r\<rparr>"
| "set_day Wed r s = s\<lparr>wed := r\<rparr>"
| "set_day Thu r s = s\<lparr>thu := r\<rparr>"
| "set_day Fri r s = s\<lparr>fri := r\<rparr>"
| "set_day Sat r s = s\<lparr>sat := r\<rparr>"
| "set_day Sun r s = s\<lparr>sun := r\<rparr>"

definition bare_schedule :: "string option \<Rightarrow> Schedule" where
  "bare_schedule tz = \<lparr>time_zone = tz, sun = None, mon = None, tue = None, wed = None, thu = None, fri = None, sat = None\<rparr>"

text \<open>The days of \<open>old\<close> that \<open>keep_day\<close> allows, copied into a new object in the order of the week.\<close>

definition copy_days :: "(DayKey \<Rightarrow> bool) \<Rightarrow> Schedule option \<Rightarrow> Schedule" where
  "copy_days keep_day old =
     fold (\<lambda>d new. if keep_day d \<and> Option.bind old (get_day d) \<noteq> None then set_day d (Option.bind old (get_day d)) new else new)
       DAYS_OF_WEEK (bare_schedule (Option.bind old time_zone))"

definition without_day :: "DayKey \<Rightarrow> Schedule option \<Rightarrow> Schedule" where
  "without_day day old = copy_days (\<lambda>d. d \<noteq> day) old"

definition with_day :: "DayKey \<Rightarrow> int \<Rightarrow> int \<Rightarrow> Schedule option \<Rightarrow> Schedule" where
  "with_day day s e old = set_day day (Some \<lparr>range_from = Some s, range_to = Some e\<rparr>) (copy_days (\<lambda>_. True) old)"

record editor =
  modalVisible :: bool
  editDay :: "DayKey option"
  deleteDay :: "DayKey option"

definition handleEdit :: "bool \<Rightarrow> DayKey \<Rightarrow> editor \<Rightarrow> editor" where
  "handleEdit isReadOnly day ed = (if isReadOnly then ed else ed\<lparr>editDay := Some day, modalVisible := True\<rparr>)"

definition handleDelete :: "bool \<Rightarrow> DayKey \<Rightarrow> editor \<Rightarrow> editor" where
  "handleDelete isReadOnly day ed = (if isReadOnly then ed else ed\<lparr>deleteDay := Some day\<rparr>)"

definition handleModalClose :: "editor \<Rightarrow> editor" where
  "handleModalClose ed = ed\<lparr>modalVisible := False, editDay := None\<rparr>"

text \<open>In the form of a client a change goes into the form, replacing its schedule.\<close>

definition client_schedule :: "ClientFormState \<Rightarrow> Schedule option" where
  "client_schedule s = Some (f_schedule (client_fields s))"

definition isReadOnly :: "ClientFormState \<Rightarrow> bool" where
  "isReadOnly s = f_use_global_blocked_services (client_fields s)"

definition handleTimezoneChange_client :: "string \<Rightarrow> ClientFormState \<Rightarrow> ClientFormState" where
  "handleTimezoneChange_client tz s =
     (if isReadOnly s then s
      else updateClientFormField (SetSchedule ((f_schedule (client_fields s))\<lparr>time_zone := Some tz\<rparr>)) True s)"

definition confirmDelete_client :: "editor \<times> ClientFormState \<Rightarrow> editor \<times> ClientFormState" where
  "confirmDelete_client = (\<lambda>(ed, s).
     case deleteDay ed of
       None \<Rightarrow> (ed, s)
     | Some day \<Rightarrow> (ed\<lparr>deleteDay := None\<rparr>, updateClientFormField (SetSchedule (without_day day (client_schedule s))) True s))"

definition handleModalSave_client :: "DayKey \<Rightarrow> int \<Rightarrow> int \<Rightarrow> editor \<times> ClientFormState \<Rightarrow> editor \<times> ClientFormState" where
  "handleModalSave_client day st en = (\<lambda>(ed, s).
     (handleModalClose ed, updateClientFormField (SetSchedule (with_day day st en (client_schedule s))) True s))"

text \<open>For all clients it is sent to the server, beside the services that are blocked.\<close>

definition schedule_values :: "ServicesState \<Rightarrow> Schedule \<Rightarrow> BlockedServicesSchedule" where
  "schedule_values st new = \<lparr>schedule = Some new, ids = Some (nullish (ids (services_list st)) [])\<rparr>"

definition handleTimezoneChange_values :: "string \<Rightarrow> ServicesState \<Rightarrow> BlockedServicesSchedule" where
  "handleTimezoneChange_values tz st =
     schedule_values st ((nullish (schedule (services_list st)) (bare_schedule None))\<lparr>time_zone := Some tz\<rparr>)"

definition confirmDelete_values :: "editor \<Rightarrow> ServicesState \<Rightarrow> BlockedServicesSchedule option" where
  "confirmDelete_values ed st =
     map_option (\<lambda>day. schedule_values st (without_day day (schedule (services_list st)))) (deleteDay ed)"

definition handleModalSave_values :: "DayKey \<Rightarrow> int \<Rightarrow> int \<Rightarrow> ServicesState \<Rightarrow> BlockedServicesSchedule" where
  "handleModalSave_values day s e st = schedule_values st (with_day day s e (schedule (services_list st)))"

subsection \<open>The list of services\<close>

record services_view =
  search_text :: string
  groupFilter :: "string list"
  showBlockedOnly :: bool
  showUnblockedOnly :: bool

definition serviceGroupMap :: "BlockedService list \<Rightarrow> string \<rightharpoonup> string" where
  "serviceGroupMap srvs = fold (\<lambda>s m. if truthy_str (group_id s) then m(service_id s := group_id s) else m) srvs Map.empty"

definition filteredServices ::
  "(string \<Rightarrow> string \<Rightarrow> int) \<Rightarrow> services_view \<Rightarrow> string list \<Rightarrow> BlockedService list \<Rightarrow> BlockedService list" where
  "filteredServices localeCompare w blocked srvs =
     (let f1 = (if groupFilter w = [] then srvs
                else filter (\<lambda>s. \<exists>g. serviceGroupMap srvs (service_id s) = Some g \<and> g \<in> set (groupFilter w)) srvs);
          f2 = (if showBlockedOnly w then filter (\<lambda>s. service_id s \<in> set blocked) f1
                else if showUnblockedOnly w then filter (\<lambda>s. service_id s \<notin> set blocked) f1 else f1);
          term = toLowerCase (trim (search_text w));
          f3 = (if term = [] then f2
                else filter (\<lambda>s. includes_str (toLowerCase (service_name s)) term \<or> includes_str (toLowerCase (service_id s)) term) f2)
      in sort_by (\<lambda>a b. localeCompare (service_name a) (service_name b)) f3)"

definition handleToggleGroup :: "string \<Rightarrow> services_view \<Rightarrow> services_view" where
  "handleToggleGroup g w = w\<lparr>groupFilter :=
     (if g \<in> set (groupFilter w) then filter (\<lambda>x. x \<noteq> g) (groupFilter w) else groupFilter w @ [g])\<rparr>"

definition handleToggleStateFilter :: "bool \<Rightarrow> services_view \<Rightarrow> services_view" where
  "handleToggleStateFilter blocked w =
     (if blocked then w\<lparr>showBlockedOnly := \<not> showBlockedOnly w, showUnblockedOnly := False\<rparr>
      else w\<lparr>showUnblockedOnly := \<not> showUnblockedOnly w, showBlockedOnly := False\<rparr>)"

definition toggled_ids :: "string \<Rightarrow> bool \<Rightarrow> string list \<Rightarrow> string list" where
  "toggled_ids i checked cur = (if checked then cur @ [i] else filter (\<lambda>x. x \<noteq> i) cur)"

definition handleToggleService_client :: "string \<Rightarrow> bool \<Rightarrow> ClientFormState \<Rightarrow> ClientFormState" where
  "handleToggleService_client i checked s =
     updateClientFormField (SetBlockedServices (toggled_ids i checked (f_blocked_services (client_fields s)))) False s"

definition handleToggleService_values :: "string \<Rightarrow> bool \<Rightarrow> ServicesState \<Rightarrow> BlockedServicesSchedule" where
  "handleToggleService_values i checked st = \<lparr>schedule = schedule (services_list st),
     ids = Some (toggled_ids i checked (nullish (ids (services_list st)) []))\<rparr>"

text \<open>A switch is off limits while its own service is being saved.\<close>

definition row_disabled :: "bool \<Rightarrow> string option \<Rightarrow> string \<Rightarrow> bool" where
  "row_disabled isGloballyDisabled togglingId i \<longleftrightarrow> isGloballyDisabled \<or> togglingId = Some i"

subsection \<open>The server's rule for a range\<close>

definition dayRange_bounds :: "int \<Rightarrow> int \<Rightarrow> bool" where
  "dayRange_bounds s e \<longleftrightarrow> s = 0 \<and> e = 0 \<or> 0 \<le> s \<and> 0 \<le> e \<and> s < e \<and> s < 86400000 \<and> e \<le> 86400000"

definition dayRange_valid :: "int \<Rightarrow> int \<Rightarrow> bool" where
  "dayRange_valid s e \<longleftrightarrow> dayRange_bounds s e \<and> s mod 60000 = 0 \<and> e mod 60000 = 0"

definition dayRange_contains :: "int \<Rightarrow> int \<Rightarrow> int \<Rightarrow> bool" where
  "dayRange_contains s e offset \<longleftrightarrow> s \<le> offset \<and> offset < e"

lemmas dayRange_defs = dayRange_valid_def dayRange_bounds_def

subsection \<open>Theorems\<close>

lemma timeToMs_less [simp]: "timeToMs a b < timeToMs c d \<longleftrightarrow> a * 60 + b < c * 60 + d"
  unfolding timeToMs_def by (simp only: mult_less_cancel_right) simp

lemma timeToMs_msToTime: "ms mod 60000 = 0 \<Longrightarrow> timeToMs (hours (msToTime ms)) (minutes (msToTime ms)) = ms"
proof -
  assume "ms mod 60000 = 0"
  then have "ms div 60000 * 60000 = ms" by (metis add.right_neutral div_mult_mod_eq)
  then show ?thesis unfolding timeToMs_def msToTime_def Let_def TimeValue.simps div_mult_mod_eq .
qed

lemma timeToMs_aligned [simp]: "timeToMs h m mod 60000 = 0"
  unfolding timeToMs_def by (rule mod_mult_self2_is_0)

text \<open>The times shown, where \<open>mid\<close> says that the dialog was opened with a range that ends at midnight.\<close>

definition modal_ok :: "bool \<Rightarrow> modal \<Rightarrow> bool" where
  "modal_ok mid m \<longleftrightarrow> 0 \<le> startHour m \<and> startHour m < 24 \<and> 0 \<le> startMinute m \<and> startMinute m < 60 \<and>
     0 \<le> endHour m \<and> (endHour m < 24 \<or> mid \<and> endHour m = 24) \<and> 0 \<le> endMinute m \<and> endMinute m < 60 \<and>
     (startHour m * 60 + startMinute m < endHour m * 60 + endMinute m \<or> startHour m = 23 \<and> startMinute m = 59)"

lemma pickable_bounds: "pickable HOURS_OPTIONS h \<Longrightarrow> 0 \<le> h \<and> h < 24" "pickable MINUTES_OPTIONS mi \<Longrightarrow> 0 \<le> mi \<and> mi < 60"
  "pickable (end_hours (endTimeOptions m)) h \<Longrightarrow> 0 \<le> h \<and> h < 24"
  "pickable (end_minutes (endTimeOptions m)) mi \<Longrightarrow> 0 \<le> mi \<and> mi < 60"
  by (auto simp: pickable_def HOURS_OPTIONS_def MINUTES_OPTIONS_def time_options_def endTimeOptions_def
      getEndTimeOptions_def Let_def)

lemma fresh_modal_ok: "modal_ok mid fresh_modal"
  by (simp add: modal_ok_def fresh_modal_def)

lemma msToTime_bounds:
  assumes "0 \<le> ms" "ms \<le> 86400000"
  shows "0 \<le> hours (msToTime ms) \<and> (hours (msToTime ms) < 24 \<or> ms = 86400000 \<and> hours (msToTime ms) = 24) \<and> 0 \<le> minutes (msToTime ms) \<and> minutes (msToTime ms) < 60"
proof (cases "ms = 86400000")
  case True
  then show ?thesis by (simp add: msToTime_def)
next
  case False
  define t where "t = ms div 60000"
  have "0 \<le> t" "t < 1440" using assms False unfolding t_def by linarith+
  then show ?thesis by (simp add: msToTime_def t_def [symmetric] Let_def) linarith
qed

definition ends_at_midnight :: "(int \<times> int) option \<Rightarrow> bool" where
  "ends_at_midnight d \<longleftrightarrow> (case d of Some (_, e) \<Rightarrow> e = 86400000 | None \<Rightarrow> False)"

lemma applyStartTime_ok:
  "modal_ok mid m \<Longrightarrow> \<not> allDay m \<Longrightarrow> 0 \<le> h \<Longrightarrow> h < 24 \<Longrightarrow> 0 \<le> mi \<Longrightarrow> mi < 60 \<Longrightarrow> modal_ok mid (applyStartTime h mi m)"
  by (auto simp: modal_ok_def applyStartTime_def getNormalizedEndTime_def getNextTimeValue_def Let_def split: if_splits)

lemma applyEndTime_ok:
  "modal_ok mid m \<Longrightarrow> 0 \<le> h \<Longrightarrow> h < 24 \<or> mid \<and> h = 24 \<Longrightarrow> 0 \<le> mi \<Longrightarrow> mi < 60 \<Longrightarrow> modal_ok mid (applyEndTime h mi m)"
  by (auto simp: modal_ok_def applyEndTime_def getNormalizedEndTime_def getNextTimeValue_def split: if_splits)

lemma open_modal_ok:
  assumes "\<And>s e. d = Some (s, e) \<Longrightarrow> dayRange_valid s e \<and> (s, e) \<noteq> (0, 0)"
  shows "modal_ok (ends_at_midnight d) (open_modal d)"
proof (cases d)
  case None
  then show ?thesis by (simp add: open_modal_def fresh_modal_ok)
next
  case (Some se)
  then obtain s e where d: "d = Some (s, e)" by (cases se) simp
  have v: "dayRange_valid s e" "e \<le> 86400000" "0 \<le> s" "s < e" using assms [OF d] by (auto simp: dayRange_defs)
  have "timeToMs (hours (msToTime s)) (minutes (msToTime s)) < timeToMs (hours (msToTime e)) (minutes (msToTime e))"
    using v by (simp add: timeToMs_msToTime dayRange_defs del: timeToMs_less)
  with v msToTime_bounds [of s] msToTime_bounds [of e] show ?thesis
    by (auto simp: d open_modal_def modal_ok_def ends_at_midnight_def getNormalizedEndTime_def Let_def)
qed

lemma modal_reach_ok:
  assumes "modal_reach d m" "\<And>s e. d = Some (s, e) \<Longrightarrow> dayRange_valid s e \<and> (s, e) \<noteq> (0, 0)"
  shows "modal_ok (ends_at_midnight d) m"
  using assms(1)
proof induction
  case opened
  show ?case using open_modal_ok assms(2) .
next
  case (all_day m b)
  then show ?case using fresh_modal_ok by (auto simp: handleAllDayChange_def modal_ok_def)
next
  case (start_hour m h)
  then show ?case using pickable_bounds(1) [of h] by (simp add: applyStartTime_ok modal_ok_def [of _ m])
next
  case (start_minute m mi)
  then show ?case using pickable_bounds(2) [of mi] by (simp add: applyStartTime_ok modal_ok_def [of _ m])
next
  case (end_hour m h)
  then show ?case using pickable_bounds(3) [of m h] by (simp add: applyEndTime_ok modal_ok_def [of _ m])
next
  case (end_minute m mi)
  then show ?case using pickable_bounds(4) [of m mi] by (simp add: applyEndTime_ok modal_ok_def [of _ m])
qed

text \<open>
  C31. Whatever is picked in the dialog for a day, opened for a day without a range or with any range the
  server reports (which reports an empty one as none), a range it saves is not empty, starts
  within the day and has whole minutes, and it is one the server accepts, but for one case: a
  dialog opened with a range that ends at midnight may save an end up to 24:59.
\<close>

theorem saved_range_valid:
  assumes "modal_reach d m" "handleSave m = Some (s, e)"
    and "\<And>x y. d = Some (x, y) \<Longrightarrow> dayRange_valid x y \<and> (x, y) \<noteq> (0, 0)"
  shows "0 \<le> s \<and> s < e \<and> s < 86400000 \<and> s mod 60000 = 0 \<and> e mod 60000 = 0 \<and>
    (dayRange_valid s e \<or> ends_at_midnight d \<and> 86400000 < e \<and> e < 90000000)"
proof (cases "allDay m")
  case True
  with assms(2) show ?thesis by (simp add: handleSave_def save_disabled_def FULL_DAY_END_MS_def dayRange_defs)
next
  case False
  have ok: "modal_ok (ends_at_midnight d) m" using modal_reach_ok [OF assms(1,3)] .
  have "\<not> (startHour m = 23 \<and> startMinute m = 59)"
    using False assms(2)
    by (auto simp: handleSave_def save_disabled_def endTimeOptions_def getEndTimeOptions_def getNextTimeValue_def Let_def)
  with ok have lt: "timeToMs (startHour m) (startMinute m) < timeToMs (endHour m) (endMinute m)"
    by (auto simp: modal_ok_def)
  have "s = timeToMs (startHour m) (startMinute m)" "e = timeToMs (endHour m) (endMinute m)"
    using False assms(2) by (auto simp: handleSave_def split: if_splits)
  moreover have "0 \<le> timeToMs (startHour m) (startMinute m)" "timeToMs (startHour m) (startMinute m) < 86400000"
    "timeToMs (endHour m) (endMinute m) < 86400000 \<or>
     ends_at_midnight d \<and> timeToMs (endHour m) (endMinute m) < 90000000"
    using ok by (auto simp: modal_ok_def timeToMs_def)
  ultimately show ?thesis using lt by (auto simp: dayRange_defs simp del: timeToMs_less)
qed

text \<open>
  A range that was saved is shown and saved again unchanged: opening the dialog with it and saving at
  once sends the same two times. The one exception is a range that starts in the last minute of the day.
\<close>

theorem range_reopens:
  assumes "dayRange_valid s e" "s < e" "s < FULL_DAY_END_MS"
  shows "handleSave (open_modal (Some (s, e))) = Some (s, e)"
proof -
  have a: "s mod 60000 = 0" "e mod 60000 = 0" "0 \<le> s" "s < 86400000" using assms(1,2) by (auto simp: dayRange_defs)
  have "getNormalizedEndTime (msToTime s) (msToTime e) = Some (msToTime e)"
    using assms(2) a by (simp add: getNormalizedEndTime_def timeToMs_msToTime del: timeToMs_less)
  moreover have "\<not> (hours (msToTime s) = 23 \<and> minutes (msToTime s) = 59)"
  proof
    assume "hours (msToTime s) = 23 \<and> minutes (msToTime s) = 59"
    then have "s = timeToMs 23 59" using timeToMs_msToTime [OF a(1)] by simp
    with assms(3) show False by (simp add: timeToMs_def FULL_DAY_END_MS_def)
  qed
  ultimately show ?thesis
    using timeToMs_msToTime [OF a(1)] timeToMs_msToTime [OF a(2)]
    by (auto simp: handleSave_def open_modal_def save_disabled_def endTimeOptions_def getEndTimeOptions_def
        getNextTimeValue_def isFullDay_def Let_def)
qed

text \<open>
  A range that ends at midnight, which the server allows, opens with the hour 24. Picking a minute then
  makes an end after midnight, which the server refuses.
\<close>

theorem midnight_end_overflows:
  "dayRange_valid 0 86400000 \<and>
   modal_reach (Some (0, 86400000)) (applyEndTime 24 30 (open_modal (Some (0, 86400000)))) \<and>
   handleSave (applyEndTime 24 30 (open_modal (Some (0, 86400000)))) = Some (0, 88200000) \<and> \<not> dayRange_valid 0 88200000"
proof -
  let ?m = "open_modal (Some (0, 86400000))"
  have m: "?m = \<lparr>startHour = 0, startMinute = 0, endHour = 24, endMinute = 0, allDay = False\<rparr>"
    by (simp add: open_modal_def msToTime_def getNormalizedEndTime_def isFullDay_def FULL_DAY_END_MS_def Let_def)
  have "(30::int) \<in> int ` {0..<60}" by (rule image_eqI [of _ _ 30]) simp_all
  then have "pickable (end_minutes (endTimeOptions ?m)) 30"
    by (auto simp: m pickable_def endTimeOptions_def getEndTimeOptions_def MINUTES_OPTIONS_def time_options_def
        getNextTimeValue_def Let_def)
  then have "modal_reach (Some (0, 86400000)) (applyEndTime (endHour ?m) 30 ?m)"
    by (intro modal_reach.end_minute modal_reach.opened) (simp_all add: m)
  then show ?thesis
    by (simp add: m applyEndTime_def getNormalizedEndTime_def handleSave_def save_disabled_def endTimeOptions_def
        getEndTimeOptions_def getNextTimeValue_def dayRange_defs timeToMs_def Let_def)
qed

text \<open>What the page calls all day leaves out the last minute: the server's ranges end before their end.\<close>

theorem all_day_misses_last_minute:
  "handleSave (handleAllDayChange True m) = Some (0, 86340000) \<and>
   (0 \<le> t \<and> t < 86400000 \<longrightarrow> (dayRange_contains 0 86340000 t \<longleftrightarrow> t < 86340000))"
  by (simp add: handleSave_def handleAllDayChange_def save_disabled_def FULL_DAY_END_MS_def dayRange_contains_def)

lemma get_set_day [simp]: "get_day d (set_day d' r s) = (if d = d' then r else get_day d s)"
  "time_zone (set_day d' r s) = time_zone s"
  by (cases d; cases d'; simp)+

lemma get_copy_days: "get_day d (copy_days keep_day old) = (if keep_day d then Option.bind old (get_day d) else None)"
  "time_zone (copy_days keep_day old) = Option.bind old time_zone"
  by (cases d; simp add: copy_days_def DAYS_OF_WEEK_def bare_schedule_def)
    (simp add: copy_days_def DAYS_OF_WEEK_def bare_schedule_def)

text \<open>
  Editing one day of the schedule changes that day only: a save puts the new range there, a deletion
  leaves the day empty, and the other days and the time zone stay. In the form of a client the result is
  what the form holds afterwards, for all clients it is what is sent, beside the blocked services.
\<close>

theorem schedule_edit_effect:
  assumes "schedule (services_list gs) = Some old" "deleteDay ed = Some day"
  shows "get_day d (f_schedule (client_fields (snd (handleModalSave_client day s e (ed, st)))))
      = (if d = day then Some \<lparr>range_from = Some s, range_to = Some e\<rparr> else get_day d (f_schedule (client_fields st))) \<and>
    get_day d (f_schedule (client_fields (snd (confirmDelete_client (ed, st)))))
      = (if d = day then None else get_day d (f_schedule (client_fields st))) \<and>
    (\<exists>new. handleModalSave_values day s e gs = \<lparr>schedule = Some new, ids = Some (nullish (ids (services_list gs)) [])\<rparr> \<and>
      time_zone new = time_zone old \<and>
      get_day d new = (if d = day then Some \<lparr>range_from = Some s, range_to = Some e\<rparr> else get_day d old)) \<and>
    (\<exists>new. confirmDelete_values ed gs = Some \<lparr>schedule = Some new, ids = Some (nullish (ids (services_list gs)) [])\<rparr> \<and>
      time_zone new = time_zone old \<and> get_day d new = (if d = day then None else get_day d old))"
proof -
  have form: "f_schedule (client_fields (updateClientFormField (SetSchedule x) True st)) = x" for x
    by (simp add: updateClientFormField_def setFormErrors_def Let_def)
  show ?thesis
    using assms
    by (simp add: handleModalSave_client_def confirmDelete_client_def form client_schedule_def handleModalSave_values_def
        confirmDelete_values_def schedule_values_def with_day_def without_day_def get_copy_days)
qed

text \<open>
  The list of services shows exactly the services that pass the filters, in the order of their names:
  the group, whether it is blocked, and the search in name and id.
\<close>

theorem filteredServices_correct:
  assumes "comparator UNIV localeCompare"
  shows "set (filteredServices localeCompare w blocked srvs) =
      {x \<in> set srvs.
        (groupFilter w \<noteq> [] \<longrightarrow> (\<exists>g. serviceGroupMap srvs (service_id x) = Some g \<and> g \<in> set (groupFilter w))) \<and>
        (showBlockedOnly w \<longrightarrow> service_id x \<in> set blocked) \<and>
        (\<not> showBlockedOnly w \<and> showUnblockedOnly w \<longrightarrow> service_id x \<notin> set blocked) \<and>
        (let t = toLowerCase (trim (search_text w)) in t \<noteq> [] \<longrightarrow>
           includes_str (toLowerCase (service_name x)) t \<or> includes_str (toLowerCase (service_id x)) t)} \<and>
    sorted_wrt (\<lambda>a b. localeCompare (service_name a) (service_name b) \<le> 0) (filteredServices localeCompare w blocked srvs)"
proof
  have c: "comparator UNIV (\<lambda>a b. localeCompare (service_name a) (service_name b))"
    using comparator_key [OF assms, of service_name] by simp
  show "sorted_wrt (\<lambda>a b. localeCompare (service_name a) (service_name b) \<le> 0) (filteredServices localeCompare w blocked srvs)"
    unfolding filteredServices_def Let_def by (rule comparator.sorted_sort_by [OF c]) simp
qed (auto simp: filteredServices_def Let_def)

text \<open>
  A switch clicked while another service is still being saved sends the list without that service: only the
  row that is being saved is disabled, and the list of the page is not updated before the answer.
\<close>

theorem quick_toggle_loses_service:
  assumes "ids (services_list gs) = Some cur" "a \<noteq> b" "a \<notin> set cur"
  shows "\<not> row_disabled False (Some a) b \<and>
    ids (handleToggleService_values a True gs) = Some (cur @ [a]) \<and>
    ids (handleToggleService_values b True gs) = Some (cur @ [b]) \<and> a \<notin> set (cur @ [b])"
  using assms by (simp add: row_disabled_def handleToggleService_values_def toggled_ids_def)

subsection \<open>Examples\<close>

theorem saved_range_valid_witness:
  "dayRange_valid 36000000 36060000 \<and>
   handleSave (applyStartTime 10 0 (open_modal (Some (0, 3600000)))) = Some (36000000, 36060000)"
proof -
  let ?m = "open_modal (Some (0, 3600000))"
  have m: "?m = \<lparr>startHour = 0, startMinute = 0, endHour = 1, endMinute = 0, allDay = False\<rparr>"
    by (simp add: open_modal_def msToTime_def getNormalizedEndTime_def isFullDay_def FULL_DAY_END_MS_def Let_def)
  have "modal_reach (Some (0, 3600000)) (applyStartTime 10 (startMinute ?m) ?m)"
    by (intro modal_reach.start_hour modal_reach.opened)
      (simp_all add: m pickable_def HOURS_OPTIONS_def time_options_def numeral_eq_Suc)
  then have r: "modal_reach (Some (0, 3600000)) (applyStartTime 10 0 ?m)" by (simp add: m)
  have s: "handleSave (applyStartTime 10 0 ?m) = Some (36000000, 36060000)"
    by (simp add: m applyStartTime_def getNormalizedEndTime_def handleSave_def save_disabled_def
        endTimeOptions_def getEndTimeOptions_def getNextTimeValue_def timeToMs_def Let_def)
  from saved_range_valid [OF r s] s show ?thesis by (simp add: dayRange_defs)
qed

theorem range_reopens_witness: "handleSave (open_modal (Some (36000000, 39600000))) = Some (36000000, 39600000)"
  by (rule range_reopens) (simp_all add: dayRange_defs FULL_DAY_END_MS_def)

theorem schedule_edit_effect_witness:
  "mon (f_schedule (client_fields (snd (confirmDelete_client (\<lparr>modalVisible = False, editDay = None, deleteDay = Some Mon\<rparr>, sample_form))))) = None"
  using schedule_edit_effect [of "Services.initialState\<lparr>services_list := \<lparr>schedule = Some (bare_schedule None), ids = None\<rparr>\<rparr>"
      "bare_schedule None" "\<lparr>modalVisible = False, editDay = None, deleteDay = Some Mon\<rparr>" Mon Mon 0 60000 sample_form]
  by simp

theorem filteredServices_correct_witness:
  "filteredServices codeCompare \<lparr>search_text = ''x'', groupFilter = [], showBlockedOnly = True, showUnblockedOnly = False\<rparr> [] [] = []"
  using filteredServices_correct [OF code_order.comparator_axioms, of
      "\<lparr>search_text = ''x'', groupFilter = [], showBlockedOnly = True, showUnblockedOnly = False\<rparr>" "[]" "[]"] by simp

end
