(* ===== verification/DnsSettingsPage.thy ===== *)
theory DnsSettingsPage
  imports DnsConfig ClientForm
begin

section \<open>DNS settings page and shared hooks\<close>

text \<open>
  \<^verbatim>\<open>client_v2/src/components/DnsSettings\<close>: the summaries of \<^verbatim>\<open>helpers.ts\<close>, the switches of the page and the
  guard before private reverse resolving is switched on. \<^verbatim>\<open>client_v2/src/hooks\<close>: \<open>useSwitchState\<close>, the switch
  that follows a stored value, \<open>useField\<close>, the field of a dialog, and \<open>useInitClientFormFromRoute\<close>, which
  fills the client form from the address of the page.
\<close>

subsection \<open>Summaries\<close>

definition getUpstreamModeSummary :: "env \<Rightarrow> string \<Rightarrow> string" where
  "getUpstreamModeSummary env m =
     msg env (if m = ''parallel'' then ''upstream_dns_parallel_requests''
       else if m = ''fastest_addr'' then ''upstream_dns_fastest_addr'' else ''upstream_dns_load_balancing'')"

definition lines_summary :: "string \<Rightarrow> string" where
  "lines_summary t = join '', '' (filter (\<lambda>l. l \<noteq> []) (split_lines t))"

definition getUpstreamServersSummary :: "env \<Rightarrow> string \<Rightarrow> string option \<Rightarrow> string" where
  "getUpstreamServersSummary env servers file =
     (case file of
        Some p \<Rightarrow> if p = [] then lines_summary servers
          else getMessage env ''upstream_dns_configured_in_file'' [(''path'', SArg p)]
      | None \<Rightarrow> lines_summary servers)"

definition hasUsablePrivatePtrUpstreams :: "string \<Rightarrow> string list \<Rightarrow> bool" where
  "hasUsablePrivatePtrUpstreams ptrText defaults \<longleftrightarrow>
     (\<exists>l\<in>set (split_lines ptrText). trim l \<noteq> [] \<and> \<not> startsWith (trim l) ''#'') \<or> length defaults > 0"

definition getRateLimitSummary :: "env \<Rightarrow> int \<Rightarrow> string" where
  "getRateLimitSummary env r =
     (if r = 0 then msg env ''dns_rate_limit_no_limit'' else getMessage env ''dns_rate_limit_value'' [(''value'', NArg r)])"

definition getBlockingModeSummary :: "env \<Rightarrow> string \<Rightarrow> string" where
  "getBlockingModeSummary env m =
     (if m = ''refused'' then ''REFUSED''
      else if m = ''nxdomain'' then ''NXDOMAIN''
      else if m = ''null_ip'' then msg env ''dns_blocking_mode_null_ip''
      else if m = ''custom_ip'' then msg env ''dns_blocking_mode_custom_ip''
      else msg env ''dns_blocking_mode_default'')"

text \<open>\<open>(bytes / 1024).toFixed(0)\<close> and \<open>Number((bytes / 1048576).toFixed(1))\<close> round halves up.\<close>

definition getCacheSizeSummary :: "int option \<Rightarrow> string" where
  "getCacheSizeSummary b =
     (case b of
        None \<Rightarrow> []
      | Some n \<Rightarrow>
          if n < 1024 then show_int n @ '' bytes''
          else if n < 1024 * 1024 then show_int ((n + 512) div 1024) @ '' KB''
          else let t = (n * 10 + 524288) div 1048576
               in show_int (t div 10) @ (if t mod 10 = 0 then [] else ''.'' @ show_int (t mod 10)) @ '' MB'')"

definition getTtlSummary :: "env \<Rightarrow> int option \<Rightarrow> string" where
  "getTtlSummary env s = (case s of None \<Rightarrow> [] | Some n \<Rightarrow> getMessage env ''dns_ttl_value'' [(''value'', NArg n)])"

definition getListSummary :: "string \<Rightarrow> string" where
  "getListSummary t = (if t = [] \<or> trim t = [] then [] else lines_summary t)"

record select_option =
  so_text :: string
  so_value :: string
  so_description :: "string option"
  so_warning :: "string option"

definition described :: "env \<Rightarrow> string \<Rightarrow> string \<Rightarrow> select_option" where
  "described env k v = \<lparr>so_text = msg env k, so_value = v, so_description = Some (msg env (k @ ''_desc'')), so_warning = None\<rparr>"

definition getBlockingModeOptions :: "env \<Rightarrow> select_option list" where
  "getBlockingModeOptions env = map (\<lambda>m. described env (''dns_blocking_mode_'' @ m) m)
     [''default'', ''refused'', ''nxdomain'', ''null_ip'', ''custom_ip'']"

definition getEdnsOptions :: "env \<Rightarrow> select_option list" where
  "getEdnsOptions env = map (\<lambda>m. \<lparr>so_text = msg env (''dns_edns_option_'' @ m), so_value = m, so_description = None,
     so_warning = None\<rparr>) [''default'', ''custom'']"

definition getUpstreamModeOptions :: "env \<Rightarrow> select_option list" where
  "getUpstreamModeOptions env = [described env ''upstream_dns_load_balancing'' ''load_balance'',
     described env ''upstream_dns_parallel_requests'' ''parallel'',
     (described env ''upstream_dns_fastest_addr'' ''fastest_addr'')\<lparr>so_warning := Some (msg env ''upstream_dns_fastest_addr_warning'')\<rparr>]"

subsection \<open>Private reverse resolving\<close>

datatype ptr_toggle = SendToggle | OpenServers

definition handlePrivatePtrResolversToggle :: "string dns_fields \<Rightarrow> bool \<Rightarrow> ptr_toggle" where
  "handlePrivatePtrResolversToggle s wanted =
     (if \<not> wanted then SendToggle
      else if hasUsablePrivatePtrUpstreams (nullish (local_ptr_upstreams s) []) (nullish (default_local_ptr_upstreams s) [])
        then SendToggle else OpenServers)"

subsection \<open>The switches and the store they share\<close>

text \<open>
  Each switch of the DNS pages is a signal of \<open>useSwitchState\<close> beside the store. All of them, and every dialog
  that saves, share the store and its one flag \<open>processingSetConfig\<close>; \<open>running\<close> holds the values of the
  requests that were sent and are not answered, of which there can be several, since a dialog saves also
  while the flag is set and the first answer clears it for all. The private resolvers have a switch on two
  pages.
\<close>

datatype dns_switch = SwEdnsCs | SwDnssec | SwIpv6Resolution | SwCache | SwOptimistic | SwPtr | SwPtrUpstream | SwResolveClients

fun switch_value :: "dns_switch \<Rightarrow> string dns_fields \<Rightarrow> bool" where
  "switch_value SwEdnsCs s \<longleftrightarrow> edns_cs_enabled s = Some True"
| "switch_value SwDnssec s \<longleftrightarrow> dnssec_enabled s = Some True"
| "switch_value SwIpv6Resolution s \<longleftrightarrow> disable_ipv6 s \<noteq> Some True"
| "switch_value SwCache s \<longleftrightarrow> cache_enabled s = Some True"
| "switch_value SwOptimistic s \<longleftrightarrow> cache_optimistic s = Some True"
| "switch_value SwPtr s \<longleftrightarrow> use_private_ptr_resolvers s = Some True"
| "switch_value SwPtrUpstream s \<longleftrightarrow> use_private_ptr_resolvers s = Some True"
| "switch_value SwResolveClients s \<longleftrightarrow> resolve_clients s = Some True"

text \<open>What the toggle of the store sends for a switch.\<close>

fun toggle_values :: "dns_switch \<Rightarrow> string dns_fields \<Rightarrow> string dns_fields" where
  "toggle_values SwEdnsCs s = no_fields\<lparr>edns_cs_enabled := negate (edns_cs_enabled s)\<rparr>"
| "toggle_values SwDnssec s = no_fields\<lparr>dnssec_enabled := negate (dnssec_enabled s)\<rparr>"
| "toggle_values SwIpv6Resolution s = no_fields\<lparr>disable_ipv6 := negate (disable_ipv6 s)\<rparr>"
| "toggle_values SwCache s = no_fields\<lparr>cache_enabled := negate (cache_enabled s)\<rparr>"
| "toggle_values SwOptimistic s = no_fields\<lparr>cache_optimistic := negate (cache_optimistic s)\<rparr>"
| "toggle_values SwPtr s = ptr_values s"
| "toggle_values SwPtrUpstream s = ptr_values s"
| "toggle_values SwResolveClients s = no_fields\<lparr>resolve_clients := negate (resolve_clients s)\<rparr>"

record dns_page =
  page_values :: "string dns_fields"
  processing :: bool
  running :: "string dns_fields list"
  checked :: "dns_switch \<Rightarrow> bool"

definition useSwitchState :: "dns_switch \<Rightarrow> dns_page \<Rightarrow> dns_page" where
  "useSwitchState w p = p\<lparr>checked := (checked p)(w := switch_value w (page_values p))\<rparr>"

text \<open>
  The effects of the switches after the store changed from \<open>p\<close> to \<open>q\<close>: an effect runs when the flag changed
  or, with the flag off, the value it reads, and sets the signal when the flag is off.
\<close>

definition follow :: "dns_page \<Rightarrow> dns_page \<Rightarrow> dns_page" where
  "follow p q = q\<lparr>checked := (\<lambda>w.
     if \<not> processing q \<and> (processing p \<or> switch_value w (page_values p) \<noteq> switch_value w (page_values q))
     then switch_value w (page_values q) else checked q w)\<rparr>"

text \<open>\<open>setDnsConfig\<close> up to its \<open>await\<close>, and after the answer to the request at position \<open>i\<close>.\<close>

definition save_start :: "string dns_fields \<Rightarrow> dns_page \<Rightarrow> dns_page" where
  "save_start v p = follow p (p\<lparr>processing := True, running := running p @ [v]\<rparr>)"

definition save_answered :: "nat \<Rightarrow> bool \<Rightarrow> dns_page \<Rightarrow> dns_page" where
  "save_answered i ok p =
     follow p (p\<lparr>page_values := (if ok then merge_fields (page_values p) (running p ! i) else page_values p), processing := False,
       running := take i (running p) @ drop (Suc i) (running p)\<rparr>)"

definition reloaded :: "string list dns_fields \<Rightarrow> dns_page \<Rightarrow> dns_page" where
  "reloaded data p = follow p (p\<lparr>page_values := loadedValues data (page_values p)\<rparr>)"

definition needs_server :: "dns_switch \<Rightarrow> bool" where
  "needs_server w \<longleftrightarrow> w \<in> {SwPtr, SwPtrUpstream}"

text \<open>The handler of a switch: the new position is shown and the store's toggle is called, which drops the click while
  the flag is set. The switches of private resolving go back when there is no server to use.\<close>

definition handleToggle :: "dns_switch \<Rightarrow> bool \<Rightarrow> dns_page \<Rightarrow> dns_page" where
  "handleToggle w next p =
     (if needs_server w \<and> handlePrivatePtrResolversToggle (page_values p) next = OpenServers
      then p\<lparr>checked := (checked p)(w := False)\<rparr>
      else let p1 = p\<lparr>checked := (checked p)(w := next)\<rparr>
           in if processing p1 then p1 else save_start (toggle_values w (page_values p1)) p1)"

definition page_opened :: "string dns_fields \<Rightarrow> dns_page" where
  "page_opened s = \<lparr>page_values = s, processing = False, running = [], checked = (\<lambda>w. switch_value w s)\<rparr>"

inductive page_reach :: "dns_page \<Rightarrow> bool" where
  opened: "page_reach (page_opened s)"
| mount: "page_reach p \<Longrightarrow> page_reach (useSwitchState w p)"
| click: "page_reach p \<Longrightarrow> page_reach (handleToggle w (\<not> checked p w) p)"
| dialog: "page_reach p \<Longrightarrow> page_reach (save_start v p)"
| answer: "page_reach p \<Longrightarrow> i < length (running p) \<Longrightarrow> page_reach (save_answered i ok p)"
| reload: "page_reach p \<Longrightarrow> page_reach (reloaded data p)"

subsection \<open>The field of a dialog\<close>

record 'v field =
  field_value :: 'v
  field_error :: string

definition field_opened :: "'v \<Rightarrow> 'v field \<Rightarrow> 'v field" where
  "field_opened stored_value f = f\<lparr>field_value := stored_value, field_error := []\<rparr>"

definition field_validate :: "('v \<Rightarrow> string) option \<Rightarrow> 'v field \<Rightarrow> 'v field" where
  "field_validate check f = f\<lparr>field_error := (case check of Some v \<Rightarrow> v (field_value f) | None \<Rightarrow> [])\<rparr>"

text \<open>The value that is submitted, if any, with the field afterwards.\<close>

definition submitIfValid :: "('v \<Rightarrow> string) option \<Rightarrow> 'v field \<Rightarrow> 'v option \<times> 'v field" where
  "submitIfValid check f =
     (let g = field_validate check f in (if field_error g \<noteq> [] then None else Some (field_value g), g))"

subsection \<open>The client form of an address\<close>

datatype route_outcome = StayOnPage | GoToClients

text \<open>The effect of \<open>useInitClientFormFromRoute\<close>; \<open>decode\<close> is \<open>decodeURIComponent\<close> on a part the router matched.\<close>

definition init_from_route ::
  "(string \<Rightarrow> string) \<Rightarrow> string \<Rightarrow> string option \<Rightarrow> Client list \<Rightarrow> ClientFormState \<Rightarrow> route_outcome \<times> ClientFormState" where
  "init_from_route decode tz urlClientName cs s =
     (case urlClientName of
        None \<Rightarrow> (StayOnPage, s)
      | Some u \<Rightarrow>
          if u = [] \<or> cs = [] then (StayOnPage, s)
          else if processingSave s then (StayOnPage, s)
          else if mode s = ModeEdit \<and> originalName s = decode u then (StayOnPage, s)
          else case find (\<lambda>c. client_name c = Some (decode u)) cs of
                 None \<Rightarrow> (GoToClients, clearClientForm tz s)
               | Some c \<Rightarrow> (StayOnPage, initClientForm tz (Some (buildFormPayload tz c)) s))"

subsection \<open>Theorems\<close>

lemma toggles_send:
  "toggleEdnsCsEnabled env api = do { s \<leftarrow> gets (\<lambda>c. dns_values (dnsState c)); saveToggle env api (toggle_values SwEdnsCs s) }"
  "toggleDnssecEnabled env api = do { s \<leftarrow> gets (\<lambda>c. dns_values (dnsState c)); saveToggle env api (toggle_values SwDnssec s) }"
  "toggleDisableIPv6 env api = do { s \<leftarrow> gets (\<lambda>c. dns_values (dnsState c)); saveToggle env api (toggle_values SwIpv6Resolution s) }"
  "toggleCacheEnabled env api = do { s \<leftarrow> gets (\<lambda>c. dns_values (dnsState c)); saveToggle env api (toggle_values SwCache s) }"
  "toggleOptimisticCaching env api = do { s \<leftarrow> gets (\<lambda>c. dns_values (dnsState c)); saveToggle env api (toggle_values SwOptimistic s) }"
  "togglePrivatePtrResolvers env api = do { s \<leftarrow> gets (\<lambda>c. dns_values (dnsState c)); saveToggle env api (toggle_values SwPtr s) }"
  "toggleResolveClients env api = do { s \<leftarrow> gets (\<lambda>c. dns_values (dnsState c)); saveToggle env api (toggle_values SwResolveClients s) }"
  by (simp_all add: toggleEdnsCsEnabled_def toggleDnssecEnabled_def toggleDisableIPv6_def toggleCacheEnabled_def
      toggleOptimisticCaching_def togglePrivatePtrResolvers_def toggleResolveClients_def)

definition page_inv :: "dns_page \<Rightarrow> bool" where
  "page_inv p \<longleftrightarrow> (if processing p then running p \<noteq> [] else \<forall>w. checked p w = switch_value w (page_values p))"

lemma page_inv_start: "page_inv (save_start v p)"
  by (simp add: page_inv_def save_start_def follow_def)

lemma page_inv_follow:
  assumes "page_inv p" "\<not> processing q" "checked q = checked p"
  shows "page_inv (follow p q)"
  using assms by (auto simp: page_inv_def follow_def split: if_splits)

lemma page_inv_toggle:
  assumes "page_inv p"
  shows "page_inv (handleToggle w (\<not> checked p w) p)"
proof (cases "needs_server w \<and> handlePrivatePtrResolversToggle (page_values p) (\<not> checked p w) = OpenServers")
  case True
  then have "\<not> checked p w" by (auto simp: handlePrivatePtrResolversToggle_def split: if_splits)
  with True assms show ?thesis by (auto simp: handleToggle_def page_inv_def fun_upd_idem)
next
  case False
  show ?thesis
  proof (cases "processing p")
    case True
    with assms show ?thesis unfolding handleToggle_def if_not_P [OF False] by (simp add: page_inv_def Let_def)
  next
    case idle: False
    then show ?thesis unfolding handleToggle_def if_not_P [OF False] by (simp add: Let_def page_inv_start)
  qed
qed

lemma page_reach_inv: "page_reach p \<Longrightarrow> page_inv p"
proof (induction rule: page_reach.induct)
  case (opened s)
  show ?case by (simp add: page_opened_def page_inv_def)
next
  case (mount p w)
  then show ?case by (simp add: useSwitchState_def page_inv_def split: if_splits)
next
  case (click p w)
  from click.IH show ?case by (rule page_inv_toggle)
next
  case (dialog p v)
  show ?case by (rule page_inv_start)
next
  case (answer p i ok)
  then show ?case unfolding save_answered_def by (intro page_inv_follow) simp_all
next
  case (reload p data)
  show ?case
  proof (cases "processing p")
    case True
    with reload.IH show ?thesis by (simp add: reloaded_def follow_def page_inv_def)
  next
    case False
    with reload.IH show ?thesis unfolding reloaded_def by (intro page_inv_follow) simp_all
  qed
qed

text \<open>The setting behind a switch; the two switches of private resolving share theirs.\<close>

definition same_setting :: "dns_switch \<Rightarrow> dns_switch \<Rightarrow> bool" where
  "same_setting w u \<longleftrightarrow> w = u \<or> needs_server w \<and> needs_server u"

lemma toggle_values_effect:
  "switch_value u (merge_fields s (toggle_values w s)) = (if same_setting w u then \<not> switch_value w s else switch_value u s)"
  by (cases w; cases u) (auto simp: same_setting_def needs_server_def merge_fields_def no_fields_def negate_def ptr_values_def keep_def)

text \<open>
  C32. The switches of the DNS pages, with one store and one flag for them and for all dialogs, and any number of
  requests running: whenever the flag is off every switch shows the stored value, whatever was
  clicked, saved, refused or reloaded before, and while it is on a request is running, so that it
  will go off. A click with the flag off sends one request, which, once accepted, turns this setting to the
  position that was clicked and no other; or nothing, for private resolving without a server. A
  click with the flag on sends nothing.
\<close>

theorem switches_show_stored:
  assumes "page_reach p"
  shows "let p' = handleToggle w (\<not> checked p w) p
    in if processing p then running p \<noteq> [] \<and> running p' = running p
       else (\<forall>u. checked p u = switch_value u (page_values p)) \<and>
         (if needs_server w \<and> \<not> checked p w \<and> handlePrivatePtrResolversToggle (page_values p) True = OpenServers
          then p' = p
          else \<exists>v. running p' = running p @ [v] \<and> checked p' w = (\<not> checked p w) \<and>
            (\<forall>u. switch_value u (merge_fields (page_values p) v) =
              (if same_setting w u then \<not> checked p w else checked p u)))"
proof (cases "processing p")
  case True
  with page_reach_inv [OF assms] show ?thesis by (simp add: page_inv_def handleToggle_def Let_def)
next
  case False
  then have shown: "checked p u = switch_value u (page_values p)" for u
    using page_reach_inv [OF assms] by (simp add: page_inv_def)
  show ?thesis
  proof (cases "needs_server w \<and> \<not> checked p w \<and> handlePrivatePtrResolversToggle (page_values p) True = OpenServers")
    case True
    then have "(checked p)(w := False) = checked p" by (simp add: fun_upd_idem)
    with True False shown show ?thesis by (simp add: handleToggle_def Let_def)
  next
    case guard: False
    then have go: "\<not> (needs_server w \<and> handlePrivatePtrResolversToggle (page_values p) (\<not> checked p w) = OpenServers)"
      by (cases "checked p w") (simp_all add: handlePrivatePtrResolversToggle_def)
    have p': "handleToggle w (\<not> checked p w) p =
        save_start (toggle_values w (page_values p)) (p\<lparr>checked := (checked p)(w := \<not> checked p w)\<rparr>)"
      unfolding handleToggle_def if_not_P [OF go] using False by (simp add: Let_def)
    have "running (handleToggle w (\<not> checked p w) p) = running p @ [toggle_values w (page_values p)]"
      "checked (handleToggle w (\<not> checked p w) p) w = (\<not> checked p w)"
      by (simp_all add: p' save_start_def follow_def)
    with False guard shown show ?thesis
      unfolding Let_def by (auto simp: toggle_values_effect)
  qed
qed

text \<open>
  Private reverse resolving is only switched on with a server to use: when the page goes on with the
  request, either it carries a line with a server that is no comment, or there are default servers.
\<close>

theorem ptr_toggle_has_server:
  assumes "use_private_ptr_resolvers s \<noteq> Some True"
    and "handlePrivatePtrResolversToggle s True = SendToggle" "default_local_ptr_upstreams s \<in> {None, Some []}"
  shows "use_private_ptr_resolvers (ptr_values s) = Some True \<and>
    (\<exists>t l. local_ptr_upstreams (ptr_values s) = Some t \<and> l \<in> set (split_lines t) \<and> trim l \<noteq> [] \<and> \<not> startsWith (trim l) ''#'')"
proof -
  obtain l where l: "l \<in> set (split_lines (nullish (local_ptr_upstreams s) []))" "trim l \<noteq> []" "\<not> startsWith (trim l) ''#''"
    using assms(2,3) by (auto simp: handlePrivatePtrResolversToggle_def hasUsablePrivatePtrUpstreams_def split: if_splits)
  have "local_ptr_upstreams s \<notin> {None, Some []}"
  proof
    assume "local_ptr_upstreams s \<in> {None, Some []}"
    then have "l = []" using l(1) by auto
    with l(2) show False by (simp add: trim_def trimStart_def)
  qed
  with assms(1) l show ?thesis by (cases "local_ptr_upstreams s") (auto simp: ptr_values_def negate_def)
qed

text \<open>
  After the effect has run with the clients loaded, the form holds the client the address names, so no
  other client's settings can be edited there; if there is no such client the page is left. Only a
  save that is still running is waited for.
\<close>

theorem route_form_names_client:
  assumes "u \<noteq> []" "cs \<noteq> []" "\<not> processingSave s"
    and "init_from_route decode tz (Some u) cs s = (out, s')"
  shows "(out = StayOnPage \<longrightarrow> mode s' = ModeEdit \<and> originalName s' = decode u) \<and>
    (out = GoToClients \<longrightarrow> (\<forall>c\<in>set cs. client_name c \<noteq> Some (decode u)))"
proof (cases "mode s = ModeEdit \<and> originalName s = decode u")
  case True
  with assms show ?thesis by (auto simp: init_from_route_def)
next
  case False
  show ?thesis
  proof (cases "find (\<lambda>c. client_name c = Some (decode u)) cs")
    case None
    with False assms have "out = GoToClients" by (auto simp: init_from_route_def split: if_splits)
    with None show ?thesis by (auto simp: find_None_iff)
  next
    case (Some c)
    then have "client_name c = Some (decode u)" by (auto simp: find_Some_iff)
    with Some False assms show ?thesis by (auto simp: init_from_route_def initClientForm_def buildFormPayload_def)
  qed
qed

theorem submitted_value_checked:
  assumes "submitIfValid check f = (Some v, g)"
  shows "v = field_value f \<and> (\<forall>k. check = Some k \<longrightarrow> k v = []) \<and> field_error g = []"
  using assms by (auto simp: submitIfValid_def field_validate_def Let_def split: if_splits)

subsection \<open>Examples\<close>

text \<open>A dialog and a switch at once: the answer to the dialog clears the flag while the request of the switch still runs,
  so the switch goes back; a refusal leaves it there.\<close>

definition overlapping :: dns_page where
  "overlapping = save_answered 1 True (save_start (no_fields\<lparr>ratelimit := Some 5\<rparr>)
     (handleToggle SwDnssec True (page_opened no_fields)))"

lemma overlapping_reach: "page_reach overlapping"
proof -
  have c: "checked (page_opened no_fields) SwDnssec = False" by (simp add: page_opened_def no_fields_def)
  have "page_reach (handleToggle SwDnssec True (page_opened no_fields))"
    using page_reach.click [OF page_reach.opened [of no_fields], of SwDnssec] by (simp add: c)
  then have "page_reach (save_start (no_fields\<lparr>ratelimit := Some 5\<rparr>) (handleToggle SwDnssec True (page_opened no_fields)))"
    by (rule page_reach.dialog)
  then show ?thesis unfolding overlapping_def
    by (rule page_reach.answer) (simp add: handleToggle_def needs_server_def page_opened_def save_start_def follow_def Let_def)
qed

theorem switches_show_stored_witness:
  "\<not> processing overlapping \<and> \<not> checked overlapping SwDnssec \<and> length (running overlapping) = 1 \<and>
   (\<exists>v. running (handleToggle SwCache True overlapping) = running overlapping @ [v] \<and>
      switch_value SwCache (merge_fields (page_values overlapping) v))"
proof -
  have "\<not> processing overlapping" "\<not> checked overlapping SwDnssec" "\<not> checked overlapping SwCache" "length (running overlapping) = 1"
    by (simp_all add: overlapping_def save_answered_def handleToggle_def needs_server_def page_opened_def save_start_def follow_def
        merge_fields_def no_fields_def Let_def)
  moreover from this switches_show_stored [OF overlapping_reach, of SwCache] obtain v where
    "running (handleToggle SwCache True overlapping) = running overlapping @ [v]"
    "switch_value SwCache (merge_fields (page_values overlapping) v)"
    by (auto simp: Let_def needs_server_def same_setting_def simp del: switch_value.simps)
  ultimately show ?thesis by blast
qed

theorem ptr_toggle_has_server_witness:
  "\<exists>t l. local_ptr_upstreams (ptr_values (no_fields\<lparr>local_ptr_upstreams := Some ''1.1.1.1''\<rparr>)) = Some t \<and> l \<in> set (split_lines t) \<and>
     trim l \<noteq> [] \<and> \<not> startsWith (trim l) ''#''"
  using ptr_toggle_has_server [of "no_fields\<lparr>local_ptr_upstreams := Some ''1.1.1.1''\<rparr>"]
  by (simp add: no_fields_def handlePrivatePtrResolversToggle_def hasUsablePrivatePtrUpstreams_def newline_def trim_def
      trimStart_def is_space_def code_def)

theorem route_form_names_client_witness:
  "originalName (snd (init_from_route id ''UTC'' (Some ''box'') [sample_client\<lparr>client_name := Some ''box''\<rparr>] (getInitialClientFormState ''UTC''))) = ''box''"
proof -
  let ?r = "init_from_route id ''UTC'' (Some ''box'') [sample_client\<lparr>client_name := Some ''box''\<rparr>] (getInitialClientFormState ''UTC'')"
  have "\<not> processingSave (getInitialClientFormState ''UTC'')" by (simp add: getInitialClientFormState_def)
  moreover have "fst ?r = StayOnPage" by (simp add: init_from_route_def getInitialClientFormState_def)
  moreover have "?r = (fst ?r, snd ?r)" by (rule prod.collapse [symmetric])
  ultimately have "fst ?r = StayOnPage \<longrightarrow> originalName (snd ?r) = id ''box''"
    using route_form_names_client [of "''box''"] by blast
  with \<open>fst ?r = StayOnPage\<close> show ?thesis by simp
qed

end
