(* ===== verification/Spec2Isabelle.thy ===== *)
theory Spec2Isabelle
  imports Modals ListsPage RewritesPage Routes DhcpPage GeneralSettings ClientsPage
    PageShell ReduxValidators DataTable StatsPage Language DashboardPage
    ReduxAccess ReduxApi ReduxDashboard ReduxDhcp ReduxDnsConfig ReduxEncryption ReduxFiltering ReduxInstall
    ReduxLogin ReduxQueryLogs ReduxRewrites ReduxServices ReduxStats
    Access Services Filtering Rewrites QueryLogs Dhcp StatusPolling Wizard
    DnsConfig DnsServer ClientForm Retention Login Install CheckResult ScheduleEditor DnsSettingsPage
begin

text \<open>
  \<^bold>\<open>The web interface of AdGuard Home.\<close>

  \<^bold>\<open>The program.\<close> AdGuard Home is a DNS server with a web interface. The interface,
  \<^verbatim>\<open>client_v2/src\<close>, is a SolidJS application: stores (\<^verbatim>\<open>stores/*.ts\<close>) hold the state and the asynchronous actions
  that talk to the server, helpers (\<^verbatim>\<open>helpers/*\<close>) parse, validate and format what users type and
  what the server answers, and components (\<^verbatim>\<open>components\<close>, \<^verbatim>\<open>install\<close>, \<^verbatim>\<open>login\<close>) hold forms and
  dialogs whose handlers call the stores. Every request goes through \<^verbatim>\<open>api/customFetch.ts\<close>; every
  action reports failures, and some offer an undo, through the toasts store. The interface it replaces,
  \<^verbatim>\<open>client/src\<close>, is a React application with one Redux store: thunks (\<^verbatim>\<open>actions/*\<close>) dispatch actions around their
  requests and reducers (\<^verbatim>\<open>reducers/*\<close>) compute the slices. Both talk to the same server. This development
  models the stores, the helpers and the handlers with state of their own, and proves what they promise.

  \<^bold>\<open>How it is modelled.\<close> A store's state is a record with the names of the source. An action is a
  state monad over a context that holds the toasts, the store and a \<open>world\<close>, the server's side
  (\<open>Prelude\<close>). A backend endpoint is a field of an api record, an argument of the action; it may change
  the whole context, since other actions run while a request is awaited, and a theorem that needs
  more of it states the server's documented behaviour as a hypothesis. A rejected promise is the left
  side of a sum and carries the message. Closures kept for later, such as the undo of a toast, are
  data with a function that runs them. Translated texts, random ids, the clock, the locale, the
  tracker database and the IP address library are parameters. A store write follows SolidJS: an object
  is merged at its path. Dialogs with timers and concurrent requests (the TLS wizard, the installer,
  the status polling, the toasts) are inductive reachability relations over their events.

  \<^bold>\<open>Theories.\<close>
  \<^item> \<open>Prelude\<close>: strings, splitting and joining, trimming, numerals, actions. \<open>Sorting\<close>: \<open>Array.sort\<close>, with
    the contract of a compare function as the locale \<open>comparator\<close>, which \<open>CodeUnits\<close> interprets for strings. \<open>Regex\<close>: regular expressions with
    derivatives and their languages. \<open>Base64\<close>: \<open>btoa\<close> and the forgiving \<open>atob\<close>.
  \<^item> \<open>Toasts\<close> (\<^verbatim>\<open>stores/toasts.ts\<close>, \<^verbatim>\<open>Toast.tsx\<close>): ids are unique and problems are not repeated. Its
    locale \<open>toast_frame\<close> says which parts of a context toasts leave alone; every store interprets it.
  \<^item> \<open>Fetch\<close> (\<^verbatim>\<open>api/customFetch.ts\<close>): error texts survive, expired sessions lead to the login page. \<open>Login\<close>
    (\<^verbatim>\<open>stores/login.ts\<close>) is the login on top of it.
  \<^item> \<open>TextHelpers\<close>, \<open>NetHelpers\<close>, \<open>Validators\<close>, \<open>Trackers\<close> (\<^verbatim>\<open>helpers/\<close>): lines, addresses, patterns, form checks and
    the tracker lookup, with the languages of the patterns and the meaning of the checks.
  \<^item> \<open>Access\<close>, \<open>Services\<close>, \<open>Filtering\<close>, \<open>Rewrites\<close>, \<open>Dhcp\<close>, \<open>Settings\<close>, \<open>DnsConfig\<close>, \<open>Dashboard\<close>, \<open>Encryption\<close>,
    \<open>QueryLogs\<close>, \<open>Stats\<close>, \<open>ClientForm\<close>: the stores of these names, with the effect of each action, its
    undo, its round trip through the server and its error path. \<open>Access\<close> also holds the server's access
    manager (\<^verbatim>\<open>internal/dnsforward/access.go\<close>), whose decision the toggle is about. \<open>DnsServer\<close> is the handler behind the DNS
    settings (\<^verbatim>\<open>internal/dnsforward/http.go\<close>), for the round trip of \<open>DnsConfig\<close> through the server, and \<open>Dhcp\<close> holds the answer of the
    search for other servers (\<^verbatim>\<open>internal/dhcpd/http_unix.go\<close>).
  \<^item> \<open>StatusPolling\<close> (\<^verbatim>\<open>stores/dashboard.ts\<close>): the timers that wait for the server. At most 60 attempts are made;
    the theorems cover an answer at any of them and none at all.
  \<^item> \<open>TlsForm\<close>, \<open>StepResult\<close>, \<open>Wizard\<close> (\<^verbatim>\<open>components/Encryption\<close>): the TLS form with the server's port rule, the messages
    of a check and the setup wizard as a state machine.
  \<^item> \<open>Retention\<close> (\<^verbatim>\<open>components/Settings\<close>): the dialogs that choose how long data is kept.
  \<^item> \<open>Install\<close> (\<^verbatim>\<open>stores/install.ts\<close>, \<^verbatim>\<open>install/Setup\<close>): the installer as a state machine.
  \<^item> \<open>UserRules\<close> (\<^verbatim>\<open>components/UserRules\<close>): the actions of the page that checks a host, as plans of
    store calls with their undo. The end of this theory carries them out in the filtering store.
  \<^item> \<open>QueryLogPage\<close> (\<^verbatim>\<open>components/QueryLog\<close>): what a row shows and which actions it offers, the filter kept in the
    address bar, the loading of pages. \<open>CheckResult\<close> (\<^verbatim>\<open>components/UserRules\<close>): the card of a checked host and
    the store calls its buttons make.
  \<^item> \<open>ScheduleEditor\<close> (\<^verbatim>\<open>components/BlockedServices\<close>): the pause schedule in minutes and what is saved of it.
    \<open>DnsSettingsPage\<close> (\<^verbatim>\<open>components/DnsSettings\<close>, \<^verbatim>\<open>hooks\<close>): the switches of the DNS pages as a state machine over the store and the
    flag they share, and the forms that name a client.
  \<^item> \<open>DataTable\<close> (\<^verbatim>\<open>common/ui/Table\<close>): the sorting, the pages and the page buttons of every table. \<open>StatsPage\<close>
    (\<^verbatim>\<open>components/Stats\<close>): the same list as a table and as cards, with the sorting kept in the address and in the storage.
  \<^item> \<open>DashboardPage\<close> (\<^verbatim>\<open>components/Dashboard\<close>): the countdown of a pause on top of the dashboard store and the status polling, its text,
    and the periods of the statistics. \<open>Language\<close> (\<^verbatim>\<open>common/intl\<close>): the language that is detected, changed and loaded, as a
    state machine, and the theme. \<open>PageShell\<close>: the banner of every page and the place of a chart's tooltip.
  \<^item> \<open>Modals\<close> (\<^verbatim>\<open>stores/modals.ts\<close>): the window that is open, and what the forms in windows share. The pages with windows on top
    of their stores: \<open>ListsPage\<close> and \<open>RewritesPage\<close> (\<^verbatim>\<open>components/FilterLists\<close>), \<open>DhcpPage\<close> (\<^verbatim>\<open>components/Dhcp\<close>),
    \<open>GeneralSettings\<close> (\<^verbatim>\<open>components/Settings\<close>) and \<open>ClientsPage\<close> (\<^verbatim>\<open>components/Clients\<close>): what a form accepts, what it sends,
    and, for the rewrites with the server's handlers (\<^verbatim>\<open>internal/filtering/rewritehttp.go\<close>), that the list on the server stays free of duplicates.
  \<^item> \<open>Routes\<close> (\<^verbatim>\<open>components/Routes\<close>, \<^verbatim>\<open>common/ui/Menu\<close>): the addresses of the pages, links with parameters and their percent encoding, the
    breadcrumbs and the menu. The end of this theory follows the link of a client to its form.
  \<^item> \<open>ReduxCore\<close> and the other theories whose names start with \<open>Redux\<close>: the React client. \<open>ReduxCore\<close> holds the context,
    the toasts with their timers, and the locale \<open>rx_frame\<close> that says what toasts leave alone; every slice
    interprets it. \<open>ReduxApi\<close> (\<^verbatim>\<open>api/\<close>) holds the request wrapper and the routes of all endpoints.
    \<open>ReduxAccess\<close>, \<open>ReduxFiltering\<close>, \<open>ReduxRewrites\<close>, \<open>ReduxServices\<close>, \<open>ReduxDhcp\<close>, \<open>ReduxQueryLogs\<close>, \<open>ReduxDashboard\<close>, \<open>ReduxStats\<close>,
    \<open>ReduxEncryption\<close>, \<open>ReduxDnsConfig\<close>, \<open>ReduxInstall\<close> and \<open>ReduxLogin\<close> are the slices: the actions as a datatype, the
    reducer as a function, the thunks, and the handlers of the pages on top. Theorems named \<open>clients_x_alike\<close> run
    both interfaces against one server and compare them; the others state what a slice promises.
    \<open>ReduxValidators\<close> holds the checks of its forms, with the languages of the patterns they use.

  \<^bold>\<open>Bounds and fuel.\<close> The polling of the query log may run as long as the server has older pages; it takes
  fuel, and any fuel above the age of the newest cursor is enough for a server whose cursors get
  older. \<open>checkRedirect\<close> makes at most ten requests and is total, as is the status polling with its sixty.
  Numbers are integers or rationals, so rounding of floating point is left out; where the server keeps
  32 or 16 bits the theorems say that what is accepted fits. Strings range over U+0000 to U+00FF.

  \<^bold>\<open>Where the program falls short of its intention\<close> the theorems state what it does: the last client of
  an allowlist cannot be blocked, a host named \<open>constructor\<close> hides a page of the log, a superseded
  check lets the wizard pass, errors of the client form stay, a custom retention comes back after a
  preset, a wrong password is not reported under a sub path, a port that is not a number leaves the
  installer without a way on, an all day pause misses the last minute of the day, and two services
  toggled in a row lose the first. A countdown that lags behind the server switches the protection off,
  the installer and its texts may differ in their language, the language that loads longest wins, and the
  choice of the system's theme is not kept. In the React client, a rule is cut out of the middle of a longer one,
  dialogs close by toggling and so open again, a page of the log is asked for with an old query, a cleared
  port comes back, a reset form shows encryption as on, clearing the statistics leaves them loading, and going
  back during the installation can end on a blank page. A choice of block lists that adds some and removes others
  only adds, changing a block list switches it off, an update interval may be saved as no number, the switch of the
  filtering may show what is not stored, a client's form explains a refusal only the first time, and the error of an identifier may
  stand at the wrong row.

  \<^bold>\<open>Not modelled.\<close> JSX markup, styles and focus, which hold no state of their own; the router's matching of an address with a route, a
  library, which is a parameter with the law \<open>takes_segment\<close> where it matters; the generated endpoints, which only call the request wrapper; the translated texts and the library that fills them in; of the React client the tables, charts
  and form fields, and the helpers that are copies of those modelled for the newer interface; the server in Go
  apart from the handlers named above, being another language and seen here through its interface.
\<close>

section \<open>The user rules page on the filtering store\<close>

text \<open>The calls of the user rules page that go to the filtering store, carried out there.\<close>

fun filtering_call ::
  "env \<Rightarrow> ('w, 'm) filtering_ctx_scheme filtering_api \<Rightarrow> store_call
     \<Rightarrow> (('w, 'm) filtering_ctx_scheme, bool option) state" where
  "filtering_call env api (SetRules text) = do { ok \<leftarrow> Filtering.setRules env api text; pass (Some ok) }"
| "filtering_call env api (ToggleBlocking ty host matched) =
     do { ok \<leftarrow> Filtering.toggleBlocking env api ty host None None matched; pass (Some ok) }"
| "filtering_call env api (ToggleBlockingForClient ty host cl) =
     do { ok \<leftarrow> Filtering.toggleBlockingForClient env api ty host cl; pass (Some ok) }"
| "filtering_call env api (ToggleFilterStatus u d w) =
     do { _ \<leftarrow> Filtering.toggleFilterStatus env api u d w; pass None }"
| "filtering_call env api _ = pass None"

lemma setRules_sync:
  assumes "rules_backend api stored put"
  shows "in_sync stored (exec (Filtering.setRules env api t) c)"
  using assms by (simp add: in_sync_def Filtering.setRules_def run_try_call rules_backend_def effective_payload)

text \<open>
  C35. Removing the rule behind a checked host, carried out by the filtering store against a server that
  keeps the rules it is given: the action reports success, the other rules stay in force in their order,
  the store stays in step with the server, and the undo of the toast brings the rules back.
\<close>

theorem page_removes_rule:
  assumes be: "rules_backend api stored put" and sync: "in_sync stored c"
    and page: "pv_userRules v = FilteringState.userRules (filtering_ctx.filtering c)"
    and rule: "UserRules.getPrimaryRule (checkResult v) = Some r" "rule_text r = Some t" "t \<noteq> []"
  shows "\<exists>q a. handleRemoveRewriteRule env v = Some q \<and> plan_perform q = Some a \<and>
    (let c1 = exec (filtering_call env api a) c; c2 = exec (filtering_call env api (plan_undo q)) c1
     in result (filtering_call env api a) c = Some True \<and> in_sync stored c1 \<and> in_sync stored c2 \<and>
        effective (stored (world c1)) = filter (\<lambda>x. x \<noteq> t) (effective (stored (world c))) \<and>
        effective (stored (world c2)) = effective (stored (world c)))"
proof -
  obtain q a where q: "handleRemoveRewriteRule env v = Some q" "plan_perform q = Some (SetRules a)"
      "plan_undo q = SetRules (pv_userRules v)"
    and a: "effective (rulesPayload a) = filter (\<lambda>x. x \<noteq> t) (effective (split_lines (pv_userRules v)))"
      "effective (rulesPayload (pv_userRules v)) = effective (split_lines (pv_userRules v))"
    using remove_rule_effect [OF rule, of env] by blast
  have s: "effective (split_lines (pv_userRules v)) = effective (stored (world c))"
    using sync page by (simp add: in_sync_def)
  show ?thesis
    using q a s setRules_sync [OF be] setRules_quiet [OF be] by (simp add: Let_def)
qed

theorem page_removes_rule_witness:
  "\<exists>q a. handleRemoveRewriteRule sample_env (sample_view\<lparr>pv_userRules := FilteringState.userRules (filtering_ctx.filtering sample_filtering),
       checkResult := Some \<lparr>res_hostname = None, res_reason = None,
         res_rules = Some [\<lparr>filter_list_id = Some 0, rule_text = Some ''||c.d^''\<rparr>], res_service_name = None,
         res_cname = None, res_ip_addrs = None\<rparr>\<rparr>) = Some q \<and> plan_perform q = Some a \<and>
     effective (world (exec (filtering_call sample_env Filtering.stored_api a) sample_filtering)) = [''||a.b^$important'']"
  (is "\<exists>q a. handleRemoveRewriteRule _ ?v = _ \<and> _")
proof -
  have p: "UserRules.getPrimaryRule (checkResult ?v) = Some \<lparr>filter_list_id = Some 0, rule_text = Some ''||c.d^''\<rparr>"
    by (simp add: UserRules.getPrimaryRule_def)
  have "effective (world sample_filtering) = [''||a.b^$important'', ''||c.d^'']"
    by (simp add: sample_filtering_def effective_def blank_def is_space_def code_def)
  with page_removes_rule [OF stored_api_backend sample_filtering_sync _ p, of "''||c.d^''" sample_env]
  show ?thesis by (auto simp: Let_def)
qed

text \<open>With the filtering store in place the result of disabling a filter is always missing.\<close>

lemma filtering_call_filter_status: "result (filtering_call env api (ToggleFilterStatus u d w)) c = None"
  by simp

section \<open>From the link of a client to its form\<close>

text \<open>
  What the page relies on of the browser and the router library: \<open>param\<close> gives the value of \<open>:clientName\<close> for the pattern of a
  route and an address, and for an address made by putting one segment in the place of the parameter it is that segment, as it
  stands. A segment of dots is none: resolving the address removes it.
\<close>

definition takes_segment :: "(string \<Rightarrow> string \<Rightarrow> string option) \<Rightarrow> Routes.route \<Rightarrow> bool" where
  "takes_segment param r \<longleftrightarrow> (\<forall>pre post seg. split_first '':clientName'' (Paths r) = Some (pre, post) \<and>
     seg \<noteq> [] \<and> seg \<notin> {''.'', ''..''} \<and> (\<forall>c \<in> set seg. uri_unreserved c \<or> c = CHR ''%'') \<longrightarrow>
     param (Paths r) (pre @ seg @ post) = Some seg)"

text \<open>
  C15. From the list of clients to the form of one: the link to any page of a client that is in the list can be made, and following
  it puts the form on that client, whatever characters its name has and whatever the form held before, unless a save is running.
  The exceptions are the names \<open>.\<close> and \<open>..\<close>, which the address cannot carry.
\<close>

theorem edit_link_opens_client:
  fixes show_query r c cs name s tz param
  assumes r: "r \<in> set edit_routes" and router: "takes_segment param r"
    and c: "c \<in> set cs" "client_name c = Some name" and name: "name \<noteq> []" "name \<notin> {''.'', ''..''}" and "\<not> processingSave s"
  shows "\<exists>url s'. link_href show_query r [(''clientName'', encodeURIComponent name)] None [] = Inr url \<and>
    init_from_route (the \<circ> decodeURIComponent) tz (param (Paths r) url) cs s = (StayOnPage, s') \<and>
    mode s' = ModeEdit \<and> originalName s' = name"
proof -
  let ?u = "encodeURIComponent name" and ?url = "linkPathBuilder show_query r [(''clientName'', encodeURIComponent name)] None []"
  have u: "?u \<noteq> []" using name(1) by (simp add: encodeURIComponent_Nil)
  obtain pre post where pp: "split_first '':clientName'' (Paths r) = Some (pre, post)" using split_edit_route [OF r] by blast
  have "param (Paths r) (pre @ ?u @ post) = Some ?u"
    using router pp u name(2) encoded_dots [of name] encoded_chars [of _ name] unfolding takes_segment_def by blast
  then have seg: "param (Paths r) ?url = Some ?u" by (simp only: edit_link_split [OF pp])
  obtain out s' where run: "init_from_route (the \<circ> decodeURIComponent) tz (Some ?u) cs s = (out, s')" by fastforce
  have "cs \<noteq> []" using c(1) by auto
  from route_form_names_client [OF u this \<open>\<not> processingSave s\<close> run] c
  have "out = StayOnPage" "mode s' = ModeEdit \<and> originalName s' = name"
    by (cases out; fastforce simp: decode_encode_component)+
  then show ?thesis using u seg run by (simp add: link_href_def)
qed

text \<open>A router that compares an address with the pattern from the left.\<close>

definition left_router :: "string \<Rightarrow> string \<Rightarrow> string option" where
  "left_router pattern url = (case split_first '':clientName'' pattern of
     Some (pre, _) \<Rightarrow> if startsWith url pre then Some (takeWhile (\<lambda>c. c \<noteq> CHR ''/'') (drop (length pre) url)) else None
   | None \<Rightarrow> None)"

lemma left_router_takes_segment:
  assumes "r \<in> set edit_routes"
  shows "takes_segment left_router r"
proof -
  obtain t where t: "split_first '':clientName'' (Paths r) = Some (''/clients/edit/'', t)" "t = [] \<or> hd t = CHR ''/''"
    using split_edit_route [OF assms] by blast
  have "takeWhile (\<lambda>c. c \<noteq> CHR ''/'') t = []" using t(2) by (cases t) auto
  moreover have "\<not> uri_unreserved (CHR ''/'')" by code_simp
  ultimately have "takeWhile (\<lambda>c. c \<noteq> CHR ''/'') (seg @ t) = seg" if "\<forall>c \<in> set seg. uri_unreserved c \<or> c = CHR ''%''" for seg
    using that by (subst takeWhile_append2) auto
  then show ?thesis using t(1) by (auto simp: takes_segment_def left_router_def startsWith_iff)
qed

theorem edit_link_opens_client_witness:
  "\<exists>url s'. link_href (\<lambda>_ :: nat. []) RClientsEditProtection [(''clientName'', encodeURIComponent ''a/b $& c'')] None [] = Inr url \<and>
    init_from_route (the \<circ> decodeURIComponent) ''UTC'' (left_router (Paths RClientsEditProtection) url)
      [sample_client\<lparr>client_name := Some ''a/b $& c''\<rparr>] (getInitialClientFormState ''UTC'') = (StayOnPage, s') \<and>
    mode s' = ModeEdit \<and> originalName s' = ''a/b $& c''"
proof -
  have "RClientsEditProtection \<in> set edit_routes" by (simp add: edit_routes_def)
  from edit_link_opens_client [OF this left_router_takes_segment [OF this],
      of "sample_client\<lparr>client_name := Some ''a/b $& c''\<rparr>" "[sample_client\<lparr>client_name := Some ''a/b $& c''\<rparr>]" "''a/b $& c''"
        "getInitialClientFormState ''UTC''" "\<lambda>_ :: nat. []" "''UTC''"]
  show ?thesis by (simp add: getInitialClientFormState_def)
qed

end
